(* ===== verification/Prelude.thy ===== *)
theory Prelude
  imports Main "HOL-Library.AList"
begin

text \<open>
  Shared vocabulary of the development: Go's maps as association lists, the pieces of Go's
  \<open>strings\<close> package the relay uses, JSON objects as Go's \<open>map[string]interface{}\<close>, and the
  lemma collections the component theories extend.

  A Go map is an association list with distinct keys.  The order of the list stands for the
  order in which one \<open>range\<close> loop happens to visit the map, which Go leaves open: a theorem
  about every list is a theorem about every visiting order.
\<close>

named_theorems relay_simps \<open>unfoldings of the small operations of the relay\<close>
named_theorems inv_intros \<open>preservation lemmas of the component invariants\<close>

subsection \<open>Go maps\<close>

type_synonym ('k, 'v) gomap = "('k \<times> 'v) list"

abbreviation aget :: "('k, 'v) gomap \<Rightarrow> 'k \<Rightarrow> 'v option" where
  "aget m k \<equiv> map_of m k"

abbreviation aput :: "'k \<Rightarrow> 'v \<Rightarrow> ('k, 'v) gomap \<Rightarrow> ('k, 'v) gomap" where
  "aput k v m \<equiv> AList.update k v m"

abbreviation adel :: "'k \<Rightarrow> ('k, 'v) gomap \<Rightarrow> ('k, 'v) gomap" where
  "adel k m \<equiv> AList.delete k m"

abbreviation akeys :: "('k, 'v) gomap \<Rightarrow> 'k list" where
  "akeys m \<equiv> map fst m"

definition wf_map :: "('k, 'v) gomap \<Rightarrow> bool" where
  "wf_map m \<longleftrightarrow> distinct (akeys m)"

lemma wf_map_Nil [simp, inv_intros]: "wf_map []"
  by (simp add: wf_map_def)

lemma wf_map_aput [simp, inv_intros]: "wf_map m \<Longrightarrow> wf_map (aput k v m)"
  by (simp add: wf_map_def distinct_update)

lemma wf_map_adel [simp, inv_intros]: "wf_map m \<Longrightarrow> wf_map (adel k m)"
  by (simp add: wf_map_def distinct_delete)

lemma wf_map_filter [simp, inv_intros]: "wf_map m \<Longrightarrow> wf_map (filter P m)"
  by (simp add: wf_map_def distinct_map_filter)

lemma aget_aput: "aget (aput k v m) k' = (if k' = k then Some v else aget m k')"
  by (simp add: update_conv')

lemma aget_adel: "aget (adel k m) k' = (if k' = k then None else aget m k')"
  by (simp add: delete_conv')

declare aget_aput [simp] aget_adel [simp]

lemma adel_filter: "adel k m = filter (\<lambda>kv. fst kv \<noteq> k) m"
  by (induction m) auto

lemma fold_adel: "fold adel ks m = filter (\<lambda>kv. fst kv \<notin> set ks) m"
proof (induction ks arbitrary: m)
  case Nil
  then show ?case by simp
next
  case (Cons k ks)
  then show ?case by (simp add: adel_filter conj_commute)
qed

lemma adel_absent [simp]: "aget m k = None \<Longrightarrow> adel k m = m"
  by (simp add: map_of_eq_None_iff image_iff)

lemma set_adel: "set (adel k m) = {kv \<in> set m. fst kv \<noteq> k}"
  by (auto simp: adel_filter)

lemma aget_filter:
  assumes "wf_map m"
  shows "aget (filter (\<lambda>kv. P (fst kv) (snd kv)) m) k =
    (case aget m k of None \<Rightarrow> None | Some v \<Rightarrow> if P k v then Some v else None)"
  using assms
proof (induction m)
  case Nil
  then show ?case by simp
next
  case (Cons kv m)
  have notin: "aget m (fst kv) = None"
    using Cons.prems by (auto simp: wf_map_def map_of_eq_None_iff image_iff)
  have "wf_map m"
    using Cons.prems by (simp add: wf_map_def)
  then show ?case
    using Cons.IH notin by (cases kv) (auto split: option.splits)
qed

lemma aget_keys: "aget m k \<noteq> None \<longleftrightarrow> k \<in> set (akeys m)"
  by (simp add: map_of_eq_None_iff)

lemma aget_in_set: "aget m k = Some v \<Longrightarrow> (k, v) \<in> set m"
  by (rule map_of_SomeD)

lemma aget_iff_in_set: "wf_map m \<Longrightarrow> aget m k = Some v \<longleftrightarrow> (k, v) \<in> set m"
  by (simp add: wf_map_def)

lemma length_adel:
  assumes "wf_map m"
  shows "length (adel k m) = length m - (if aget m k = None then 0 else 1)"
  using assms
proof (induction m)
  case Nil
  then show ?case by simp
next
  case (Cons kv m)
  show ?case
  proof (cases "fst kv = k")
    case True
    then have "k \<notin> fst ` set m"
      using Cons.prems by (auto simp: wf_map_def)
    then show ?thesis
      using True by (cases kv) (simp add: AList.delete_id)
  next
    case False
    have "aget m k \<noteq> None \<Longrightarrow> 0 < length m"
      by (cases m) auto
    then show ?thesis
      using False Cons by (cases kv) (auto simp: wf_map_def)
  qed
qed

lemma length_aput:
  "length (aput k v m) = length m + (if aget m k = None then 1 else 0)"
  by (induction m) (auto split: if_splits)

text \<open>
  The contract of a Go map as its clients use it.  The facts about whole loops of deletions
  (a cleanup pass, a session teardown) are proved from the contract alone.
\<close>

locale registry =
  fixes get :: "'m \<Rightarrow> 'k \<Rightarrow> 'v option"
    and put :: "'k \<Rightarrow> 'v \<Rightarrow> 'm \<Rightarrow> 'm"
    and del :: "'k \<Rightarrow> 'm \<Rightarrow> 'm"
    and count :: "'m \<Rightarrow> nat"
    and invar :: "'m \<Rightarrow> bool"
  assumes get_put: "get (put k v m) k' = (if k' = k then Some v else get m k')"
    and get_del: "get (del k m) k' = (if k' = k then None else get m k')"
    and invar_put: "invar m \<Longrightarrow> invar (put k v m)"
    and invar_del: "invar m \<Longrightarrow> invar (del k m)"
    and count_put: "invar m \<Longrightarrow> count (put k v m) = count m + (if get m k = None then 1 else 0)"
    and count_del: "invar m \<Longrightarrow> count (del k m) = count m - (if get m k = None then 0 else 1)"
    and count_pos: "invar m \<Longrightarrow> get m k \<noteq> None \<Longrightarrow> 0 < count m"
begin

lemma get_fold_del: "get (fold del ks m) k = (if k \<in> set ks then None else get m k)"
  by (induction ks arbitrary: m) (auto simp: get_del)

lemma invar_fold_del: "invar m \<Longrightarrow> invar (fold del ks m)"
  by (induction ks arbitrary: m) (auto intro: invar_del)

lemma count_put_del:
  assumes "invar m" and "get m k = None"
  shows "count (del k (put k v m)) = count m"
  using assms by (simp add: count_del count_put get_put invar_put)

lemma count_move:
  assumes "invar m" and "get m k \<noteq> None"
  shows "count (put k v (del k m)) = count m"
  using assms count_pos [OF assms] by (simp add: count_del count_put get_del invar_del)

end

interpretation gomap: registry "map_of" "AList.update" "AList.delete" length wf_map
proof unfold_locales
  fix m :: "('a, 'b) gomap" and k
  show "wf_map m \<Longrightarrow> aget m k \<noteq> None \<Longrightarrow> 0 < length m"
    by (cases m) auto
qed (simp_all add: length_aput length_adel)

subsection \<open>Go strings\<close>

text \<open>
  \<open>strings.Split\<close> with a one-byte separator: always at least one field, empty fields kept.
\<close>

fun go_split :: "char \<Rightarrow> string \<Rightarrow> string list" where
  "go_split c [] = [[]]"
| "go_split c (x # xs) =
     (if x = c then [] # go_split c xs
      else (case go_split c xs of [] \<Rightarrow> [[x]] | f # fs \<Rightarrow> (x # f) # fs))"

text \<open>\<open>strings.TrimSpace\<close> on ASCII text.\<close>

definition is_space :: "char \<Rightarrow> bool" where
  "is_space c \<longleftrightarrow> c \<in> {CHR '' '', CHR 0x09, CHR 0x0A, CHR 0x0B, CHR 0x0C, CHR 0x0D}"

definition trim_space :: "string \<Rightarrow> string" where
  "trim_space s = rev (dropWhile is_space (rev (dropWhile is_space s)))"

text \<open>\<open>strings.Join\<close>.\<close>

fun go_join :: "string \<Rightarrow> string list \<Rightarrow> string" where
  "go_join sep [] = []"
| "go_join sep [s] = s"
| "go_join sep (s # t # ss) = s @ sep @ go_join sep (t # ss)"

text \<open>\<open>strings.HasPrefix\<close> and \<open>strings.Contains\<close>.\<close>

fun has_prefix :: "string \<Rightarrow> string \<Rightarrow> bool" where
  "has_prefix s [] = True"
| "has_prefix [] (p # ps) = False"
| "has_prefix (c # cs) (p # ps) = (c = p \<and> has_prefix cs ps)"

fun go_contains :: "string \<Rightarrow> string \<Rightarrow> bool" where
  "go_contains [] p = has_prefix [] p"
| "go_contains (c # cs) p = (has_prefix (c # cs) p \<or> go_contains cs p)"

lemma go_split_not_Nil [simp]: "go_split c s \<noteq> []"
  by (cases s) (auto split: list.splits)

lemma go_split_no_sep: "c \<notin> set s \<Longrightarrow> go_split c s = [s]"
  by (induction s) auto

lemma go_split_append:
  "c \<notin> set s \<Longrightarrow> go_split c (s @ c # t) = s # go_split c t"
  by (induction s) auto

lemma go_split_fields: "f \<in> set (go_split c s) \<Longrightarrow> c \<notin> set f"
proof (induction s arbitrary: f)
  case Nil
  then show ?case by simp
next
  case (Cons x xs)
  then show ?case by (auto split: if_splits list.splits)
qed

lemma go_split_join:
  assumes "ss \<noteq> []" and "\<forall>s \<in> set ss. c \<notin> set s"
  shows "go_split c (go_join [c] ss) = ss"
  using assms
proof (induction "[c]" ss rule: go_join.induct)
  case (3 s t ss)
  then show ?case by (simp add: go_split_append)
qed (simp_all add: go_split_no_sep)

lemma has_prefix_iff: "has_prefix s p \<longleftrightarrow> take (length p) s = p"
  by (induction s p rule: has_prefix.induct) auto

lemma trim_space_id:
  assumes "s = [] \<or> (\<not> is_space (hd s) \<and> \<not> is_space (last s))"
  shows "trim_space s = s"
proof (cases "s = []")
  case True
  then show ?thesis by (simp add: trim_space_def)
next
  case False
  have "dropWhile is_space s = s"
    using False assms by (cases s) auto
  moreover have "dropWhile is_space (rev s) = rev s"
    using False assms by (cases "rev s") (auto simp: last_rev hd_rev [symmetric])
  ultimately show ?thesis by (simp add: trim_space_def)
qed

lemma trim_space_no_space: "\<forall>c \<in> set s. \<not> is_space c \<Longrightarrow> trim_space s = s"
  by (rule trim_space_id) (cases "s = []", auto)

lemma trim_space_ends:
  assumes "trim_space x \<noteq> []"
  shows "\<not> is_space (hd (trim_space x))" and "\<not> is_space (last (trim_space x))"
proof -
  let ?m = "dropWhile is_space x" let ?r = "dropWhile is_space (rev ?m)"
  have ne: "?r \<noteq> []" using assms by (simp add: trim_space_def)
  then show "\<not> is_space (last (trim_space x))" by (simp add: trim_space_def last_rev hd_dropWhile)
  have "last ?r = last (rev ?m)" using ne by (metis dropWhile_last dropWhile_eq_Nil_conv)
  moreover have "?m \<noteq> []" using ne by (auto dest: set_dropWhileD)
  ultimately show "\<not> is_space (hd (trim_space x))" using ne by (simp add: trim_space_def hd_rev last_rev hd_dropWhile)
qed

lemma trim_space_idem [simp]: "trim_space (trim_space x) = trim_space x"
  using trim_space_ends by (intro trim_space_id) blast

subsection \<open>JSON objects\<close>

text \<open>
  Values of Go's \<open>interface{}\<close> as \<open>encoding/json\<close> produces them.  Numbers are kept as
  integers: the relay never computes with a JSON number, it only passes them on.
\<close>

datatype json =
    JNull
  | JBool bool
  | JNum int
  | JStr string
  | JArr "json list"
  | JObj "(string \<times> json) list"

type_synonym obj = "(string, json) gomap"

text \<open>The comma-ok string assertion \<open>v, _ := m[k].(string)\<close>: the zero value when it fails.\<close>

definition get_str :: "obj \<Rightarrow> string \<Rightarrow> string" where
  "get_str m k = (case aget m k of Some (JStr s) \<Rightarrow> s | _ \<Rightarrow> [])"

definition get_bool :: "obj \<Rightarrow> string \<Rightarrow> bool" where
  "get_bool m k = (case aget m k of Some (JBool b) \<Rightarrow> b | _ \<Rightarrow> False)"

text \<open>Reading a key of a map whose zero value is \<open>nil\<close>.\<close>

definition get_any :: "obj \<Rightarrow> string \<Rightarrow> json" where
  "get_any m k = (case aget m k of Some v \<Rightarrow> v | None \<Rightarrow> JNull)"

subsection \<open>Nullable columns and time\<close>

text \<open>
  A \<open>sql.NullString\<close> is an option; its \<open>.String\<close> field is empty when it is not valid.
  Times and durations are integers in nanoseconds, as in Go's \<open>time\<close> package.
\<close>

definition null_str :: "string option \<Rightarrow> string" where
  "null_str s = (case s of None \<Rightarrow> [] | Some x \<Rightarrow> x)"

type_synonym gotime = int

definition seconds :: "int \<Rightarrow> int" where
  "seconds n = n * 1000000000"

definition minutes :: "int \<Rightarrow> int" where
  "minutes n = 60 * seconds n"

definition unix_milli :: "gotime \<Rightarrow> int" where
  "unix_milli t = t div 1000000"

end
