(* ===== verification/Scopes.thy ===== *)
theory Scopes
  imports Prelude
begin

text \<open>
  Permissions: the scope strings and the action table of \<open>internal/model/scopes.go\<close>, the
  cross-world permissions of a world (\<open>internal/model/known_client.go\<close>) and of a connection
  token (\<open>internal/model/connection_token.go\<close>), the parsed restrictions of a scoped API key
  (\<open>internal/model/api_key.go\<close>, \<open>internal/handler/helpers/route.go\<close>) and the scope
  middleware (\<open>internal/middleware/scopes.go\<close>).
\<close>

subsection \<open>Scope constants\<close>

abbreviation ScopeEntityRead :: string where "ScopeEntityRead \<equiv> ''entity:read''"
abbreviation ScopeEntityWrite :: string where "ScopeEntityWrite \<equiv> ''entity:write''"
abbreviation ScopeRollRead :: string where "ScopeRollRead \<equiv> ''roll:read''"
abbreviation ScopeRollExecute :: string where "ScopeRollExecute \<equiv> ''roll:execute''"
abbreviation ScopeChatRead :: string where "ScopeChatRead \<equiv> ''chat:read''"
abbreviation ScopeChatWrite :: string where "ScopeChatWrite \<equiv> ''chat:write''"
abbreviation ScopeEncounterRead :: string where "ScopeEncounterRead \<equiv> ''encounter:read''"
abbreviation ScopeEncounterManage :: string where "ScopeEncounterManage \<equiv> ''encounter:manage''"
abbreviation ScopeMacroList :: string where "ScopeMacroList \<equiv> ''macro:list''"
abbreviation ScopeMacroExecute :: string where "ScopeMacroExecute \<equiv> ''macro:execute''"
abbreviation ScopeMacroWrite :: string where "ScopeMacroWrite \<equiv> ''macro:write''"
abbreviation ScopeSceneRead :: string where "ScopeSceneRead \<equiv> ''scene:read''"
abbreviation ScopeSceneWrite :: string where "ScopeSceneWrite \<equiv> ''scene:write''"
abbreviation ScopeCanvasRead :: string where "ScopeCanvasRead \<equiv> ''canvas:read''"
abbreviation ScopeCanvasWrite :: string where "ScopeCanvasWrite \<equiv> ''canvas:write''"
abbreviation ScopeEffectsRead :: string where "ScopeEffectsRead \<equiv> ''effects:read''"
abbreviation ScopeEffectsWrite :: string where "ScopeEffectsWrite \<equiv> ''effects:write''"
abbreviation ScopeUserRead :: string where "ScopeUserRead \<equiv> ''user:read''"
abbreviation ScopeUserWrite :: string where "ScopeUserWrite \<equiv> ''user:write''"
abbreviation ScopeFileRead :: string where "ScopeFileRead \<equiv> ''file:read''"
abbreviation ScopeFileWrite :: string where "ScopeFileWrite \<equiv> ''file:write''"
abbreviation ScopePlaylistControl :: string where "ScopePlaylistControl \<equiv> ''playlist:control''"
abbreviation ScopeWorldInfo :: string where "ScopeWorldInfo \<equiv> ''world:info''"
abbreviation ScopeClientsRead :: string where "ScopeClientsRead \<equiv> ''clients:read''"
abbreviation ScopeSheetRead :: string where "ScopeSheetRead \<equiv> ''sheet:read''"
abbreviation ScopeEventsSubscribe :: string where "ScopeEventsSubscribe \<equiv> ''events:subscribe''"
abbreviation ScopeSessionManage :: string where "ScopeSessionManage \<equiv> ''session:manage''"
abbreviation ScopeExecuteJS :: string where "ScopeExecuteJS \<equiv> ''execute-js''"
abbreviation ScopeSearch :: string where "ScopeSearch \<equiv> ''search''"
abbreviation ScopeStructureRead :: string where "ScopeStructureRead \<equiv> ''structure:read''"
abbreviation ScopeStructureWrite :: string where "ScopeStructureWrite \<equiv> ''structure:write''"
abbreviation ScopeDnd5e :: string where "ScopeDnd5e \<equiv> ''dnd5e''"

definition DefaultScopes :: "string list" where
  "DefaultScopes = [
     ScopeEntityRead, ScopeRollRead, ScopeChatRead, ScopeEncounterRead, ScopeMacroList,
     ScopeSceneRead, ScopeCanvasRead, ScopeEffectsRead, ScopeUserRead, ScopeFileRead,
     ScopeWorldInfo, ScopeClientsRead, ScopeSheetRead, ScopeEventsSubscribe, ScopeSearch,
     ScopeStructureRead, ScopeDnd5e]"

definition AllScopes :: "string list" where
  "AllScopes = [
     ScopeEntityRead, ScopeEntityWrite, ScopeRollRead, ScopeRollExecute, ScopeChatRead,
     ScopeChatWrite, ScopeEncounterRead, ScopeEncounterManage, ScopeMacroList,
     ScopeMacroExecute, ScopeMacroWrite, ScopeSceneRead, ScopeSceneWrite, ScopeCanvasRead,
     ScopeCanvasWrite, ScopeEffectsRead, ScopeEffectsWrite, ScopeUserRead, ScopeUserWrite,
     ScopeFileRead, ScopeFileWrite, ScopePlaylistControl, ScopeWorldInfo, ScopeClientsRead,
     ScopeSheetRead, ScopeEventsSubscribe, ScopeSessionManage, ScopeExecuteJS, ScopeSearch,
     ScopeStructureRead, ScopeStructureWrite, ScopeDnd5e]"

text \<open>The map literal of the source, in its order.\<close>

definition ActionToScopeRequired :: "(string, string) gomap" where
  "ActionToScopeRequired = [
     (''get'', ScopeEntityRead), (''create'', ScopeEntityWrite),
     (''update'', ScopeEntityWrite), (''delete'', ScopeEntityWrite),
     (''give'', ScopeEntityWrite), (''remove'', ScopeEntityWrite),
     (''decrease'', ScopeEntityWrite), (''increase'', ScopeEntityWrite),
     (''kill'', ScopeEntityWrite), (''search'', ScopeSearch), (''rolls'', ScopeRollRead),
     (''last-roll'', ScopeRollRead), (''roll'', ScopeRollExecute),
     (''chat-messages'', ScopeChatRead), (''chat-send'', ScopeChatWrite),
     (''encounters'', ScopeEncounterRead), (''start-encounter'', ScopeEncounterManage),
     (''next-turn'', ScopeEncounterManage), (''next-round'', ScopeEncounterManage),
     (''last-turn'', ScopeEncounterManage), (''last-round'', ScopeEncounterManage),
     (''end-encounter'', ScopeEncounterManage), (''add-to-encounter'', ScopeEncounterManage),
     (''remove-from-encounter'', ScopeEncounterManage), (''macros'', ScopeMacroList),
     (''macro-execute'', ScopeMacroExecute), (''create-macro'', ScopeMacroWrite),
     (''update-macro'', ScopeMacroWrite), (''delete-macro'', ScopeMacroWrite),
     (''get-scene'', ScopeSceneRead), (''create-scene'', ScopeSceneWrite),
     (''update-scene'', ScopeSceneWrite), (''delete-scene'', ScopeSceneWrite),
     (''switch-scene'', ScopeSceneWrite), (''get-users'', ScopeUserRead),
     (''get-user'', ScopeUserRead), (''create-user'', ScopeUserWrite),
     (''update-user'', ScopeUserWrite), (''delete-user'', ScopeUserWrite),
     (''file-system'', ScopeFileRead), (''download-file'', ScopeFileRead),
     (''upload-file'', ScopeFileWrite), (''create-folder'', ScopeStructureWrite),
     (''delete-folder'', ScopeStructureWrite), (''structure'', ScopeStructureRead),
     (''get-folder'', ScopeStructureRead), (''sheet-screenshot'', ScopeSheetRead),
     (''scene-screenshot'', ScopeSceneRead), (''scene-raw-image'', ScopeSceneRead),
     (''get-playlists'', ScopePlaylistControl), (''playlist-play'', ScopePlaylistControl),
     (''playlist-stop'', ScopePlaylistControl), (''playlist-next'', ScopePlaylistControl),
     (''playlist-volume'', ScopePlaylistControl), (''play-sound'', ScopePlaylistControl),
     (''stop-sound'', ScopePlaylistControl), (''world-info'', ScopeWorldInfo),
     (''server-url'', ScopeWorldInfo), (''get-canvas-documents'', ScopeCanvasRead),
     (''create-canvas-document'', ScopeCanvasWrite),
     (''update-canvas-document'', ScopeCanvasWrite),
     (''delete-canvas-document'', ScopeCanvasWrite), (''move-token'', ScopeCanvasWrite),
     (''execute-js'', ScopeExecuteJS)]"

definition ScopeForAction :: "string \<Rightarrow> string \<times> bool" where
  "ScopeForAction action =
     (case aget ActionToScopeRequired action of
        None \<Rightarrow> ([], False) | Some scope \<Rightarrow> (scope, True))"

text \<open>The lookup set the package's \<open>init\<close> fills with every element of \<open>AllScopes\<close>.\<close>

definition validScopes :: "(string, bool) gomap" where
  "validScopes = fold (\<lambda>s m. aput s True m) AllScopes []"

definition IsValidScope :: "string \<Rightarrow> bool" where
  "IsValidScope scope = (aget validScopes scope = Some True)"

definition HasScope :: "string list \<Rightarrow> string \<Rightarrow> bool" where
  "HasScope scopes required = List.member scopes required"

fun ParseScopes_loop :: "string list \<Rightarrow> string list \<Rightarrow> string list" where
  "ParseScopes_loop [] result = result"
| "ParseScopes_loop (p # ps) result =
     (let p' = trim_space p
      in ParseScopes_loop ps (if p' \<noteq> [] then result @ [p'] else result))"

definition ParseScopes :: "string \<Rightarrow> string list" where
  "ParseScopes csv =
     (let csv' = trim_space csv
      in if csv' = [] then [] else ParseScopes_loop (go_split (CHR '','') csv') [])"

definition ScopesString :: "string list \<Rightarrow> string" where
  "ScopesString scopes = go_join '','' scopes"

fun ValidateScopes :: "string list \<Rightarrow> string" where
  "ValidateScopes [] = []"
| "ValidateScopes (s # ss) = (if \<not> IsValidScope s then s else ValidateScopes ss)"

definition DefaultScopesString :: string where
  "DefaultScopesString = ScopesString DefaultScopes"

lemma ParseScopes_loop_eq:
  "ParseScopes_loop ps result = result @ filter (\<lambda>p. p \<noteq> []) (map trim_space ps)"
  by (induction ps arbitrary: result) (auto simp: Let_def)

lemma ParseScopes_eq:
  "ParseScopes csv =
     (if trim_space csv = [] then []
      else filter (\<lambda>p. p \<noteq> []) (map trim_space (go_split (CHR '','') (trim_space csv))))"
  by (simp add: ParseScopes_def ParseScopes_loop_eq Let_def)

lemma aget_validScopes: "aget validScopes s = (if s \<in> set AllScopes then Some True else None)"
proof -
  have "aget (fold (\<lambda>s m. aput s True m) ss m) s =
      (if s \<in> set ss then Some True else aget m s)" for ss :: "string list" and m
    by (induction ss arbitrary: m) auto
  from this [of AllScopes "[]"] show ?thesis
    by (simp add: validScopes_def)
qed

lemma IsValidScope_iff [simp]: "IsValidScope s \<longleftrightarrow> s \<in> set AllScopes"
  by (simp add: IsValidScope_def aget_validScopes)

lemma HasScope_iff [simp]: "HasScope ss s \<longleftrightarrow> s \<in> set ss"
  by (simp add: HasScope_def)

lemma ValidateScopes_find:
  "ValidateScopes ss = (case find (\<lambda>s. s \<notin> set AllScopes) ss of None \<Rightarrow> [] | Some s \<Rightarrow> s)"
  by (induction ss) auto

text \<open>Every scope string is a plain token: non-empty, without comma or white space.\<close>

definition plain_token :: "string \<Rightarrow> bool" where
  "plain_token s \<longleftrightarrow> s \<noteq> [] \<and> list_all (\<lambda>c. c \<noteq> CHR '','' \<and> \<not> is_space c) s"

lemma AllScopes_plain: "list_all plain_token AllScopes"
  by code_simp

lemma plain_tokenD:
  assumes "plain_token s"
  shows "s \<noteq> []" and "CHR '','' \<notin> set s" and "trim_space s = s"
  using assms by (auto simp: plain_token_def list_all_iff intro: trim_space_no_space)

lemma go_join_no_space_ends:
  assumes "ss \<noteq> []" and "\<forall>s \<in> set ss. s \<noteq> [] \<and> (\<forall>c \<in> set s. \<not> is_space c)"
  shows "go_join sep ss \<noteq> [] \<and> \<not> is_space (hd (go_join sep ss)) \<and> \<not> is_space (last (go_join sep ss))"
  using assms by (induction sep ss rule: go_join.induct) auto

lemma Parse_ScopesString:
  assumes "ss \<noteq> []" and plain: "\<forall>s \<in> set ss. plain_token s"
  shows "ParseScopes (ScopesString ss) = ss"
proof -
  let ?csv = "ScopesString ss"
  have ends: "?csv \<noteq> [] \<and> \<not> is_space (hd ?csv) \<and> \<not> is_space (last ?csv)"
    unfolding ScopesString_def
    by (rule go_join_no_space_ends) (use assms in \<open>auto simp: plain_token_def list_all_iff\<close>)
  then have trim: "trim_space ?csv = ?csv"
    by (simp add: trim_space_id)
  have split: "go_split (CHR '','') ?csv = ss"
    unfolding ScopesString_def
    by (rule go_split_join) (use assms plain_tokenD in auto)
  have "map trim_space ss = ss"
    by (rule map_idI) (use plain plain_tokenD in auto)
  moreover have "filter (\<lambda>p. p \<noteq> []) ss = ss"
    by (rule filter_True) (use plain plain_tokenD in auto)
  ultimately show ?thesis
    using ends by (simp add: ParseScopes_eq trim split)
qed

lemma ParseScopes_parts:
  assumes "s \<in> set (ParseScopes csv)"
  shows "s \<noteq> [] \<and> CHR '','' \<notin> set s"
proof -
  have trim_sub: "set (trim_space x) \<subseteq> set x" for x
    by (auto simp: trim_space_def dest!: set_dropWhileD)
  from assms obtain f where "f \<in> set (go_split (CHR '','') (trim_space csv))"
      and "s = trim_space f" and "s \<noteq> []"
    by (auto simp: ParseScopes_eq split: if_splits)
  then show ?thesis
    using go_split_fields trim_sub by blast
qed

subsection \<open>Correctness\<close>

lemma ValidateScopes_Nil: "\<forall>s \<in> set ss. s \<in> set AllScopes \<Longrightarrow> ValidateScopes ss = []"
  by (induction ss) auto

lemma ValidateScopes_bad:
  "\<lbrakk>\<forall>s \<in> set ss. s \<noteq> []; \<not> set ss \<subseteq> set AllScopes\<rbrakk> \<Longrightarrow>
   ValidateScopes ss \<noteq> [] \<and> ValidateScopes ss \<in> set ss - set AllScopes"
  by (induction ss) auto

text \<open>Storing a list of valid scopes in a database column and reading it back gives the same list in the
  same order, and the stored list validates.\<close>

theorem scopes_roundtrip:
  assumes "set ss \<subseteq> set AllScopes"
  shows "ParseScopes (ScopesString ss) = ss \<and> ValidateScopes (ParseScopes (ScopesString ss)) = []"
proof -
  have "ParseScopes (ScopesString ss) = ss"
  proof (cases "ss = []")
    case True
    then show ?thesis by (simp add: ScopesString_def ParseScopes_eq trim_space_def)
  next
    case False
    then show ?thesis
      by (rule Parse_ScopesString) (use assms AllScopes_plain in \<open>auto simp: list_all_iff\<close>)
  qed
  moreover have "ValidateScopes ss = []"
    using assms by (intro ValidateScopes_Nil) auto
  ultimately show ?thesis by simp
qed

lemma scopes_roundtrip_witness:
  "ParseScopes (ScopesString DefaultScopes) = DefaultScopes"
proof -
  have "set DefaultScopes \<subseteq> set AllScopes" by code_simp
  then show ?thesis using scopes_roundtrip by blast
qed

text \<open>Validating parsed text accepts exactly the lists of known scopes, and otherwise returns one of the
  offending scopes.\<close>

theorem ValidateScopes_parsed:
  "(ValidateScopes (ParseScopes csv) = []) = (set (ParseScopes csv) \<subseteq> set AllScopes) \<and>
   ValidateScopes (ParseScopes csv) \<in> insert [] (set (ParseScopes csv) - set AllScopes)"
proof (cases "set (ParseScopes csv) \<subseteq> set AllScopes")
  case True
  then have "ValidateScopes (ParseScopes csv) = []"
    by (intro ValidateScopes_Nil) auto
  then show ?thesis using True by simp
next
  case False
  then show ?thesis
    using ValidateScopes_bad [of "ParseScopes csv"] ParseScopes_parts [of _ csv] by blast
qed

text \<open>A list sent as a JSON array is validated as it is: an unknown scope behind an empty one is not
  reported, because the empty string is also the answer for a valid list.\<close>

theorem ValidateScopes_empty_hides: "ValidateScopes ([] # ss) = []"
proof -
  have "[] \<notin> set AllScopes"
    using AllScopes_plain by (auto simp: list_all_iff plain_token_def)
  then show ?thesis by simp
qed

lemma ActionTable_valid: "list_all (\<lambda>(a, s). IsValidScope s) ActionToScopeRequired"
proof -
  have "list_all (\<lambda>s. s \<in> set AllScopes) (remdups (map snd ActionToScopeRequired))"
    by code_simp
  then show ?thesis by (auto simp: list_all_iff)
qed

lemma ActionTable_wf: "wf_map ActionToScopeRequired"
  unfolding wf_map_def by code_simp

lemma ScopeForAction_valid: "ScopeForAction a = (s, True) \<Longrightarrow> IsValidScope s"
  using ActionTable_valid
  by (auto simp: ScopeForAction_def list_all_iff dest!: aget_in_set split: option.splits)

end
