(* ===== verification/Permissions.thy ===== *)
theory Permissions
  imports Scopes
begin

text \<open>
  Who may do what: the cross-world permissions of a known world and of a connection token, the
  restrictions of a scoped API key and the scope middleware.

  \<open>sql.NullString\<close> and \<open>sql.NullInt64\<close> columns are options, a \<open>*SQLiteTime\<close> is an option of a
  time.  A nil slice and an empty slice are both the empty list: no caller here tells them apart.
\<close>

record KnownClient =
  kc_ID :: int
  kc_UserID :: int
  kc_ClientID :: string
  kc_WorldID :: "string option"
  kc_WorldTitle :: "string option"
  kc_SystemID :: "string option"
  kc_SystemTitle :: "string option"
  kc_SystemVersion :: "string option"
  kc_FoundryVersion :: "string option"
  kc_CustomName :: "string option"
  kc_LastSeenAt :: "gotime option"
  kc_IsOnline :: bool
  kc_AutoStartOnRemoteRequest :: bool
  kc_CredentialID :: "int option"
  kc_ServerFingerprint :: "string option"
  kc_PublicUrl :: "string option"
  kc_AllowedTargetClients :: "string option"
  kc_RemoteScopes :: "string option"
  kc_RemoteRequestsPerHour :: int
  kc_CreatedAt :: gotime
  kc_UpdatedAt :: gotime

record ConnectionToken =
  ct_ID :: int
  ct_UserID :: int
  ct_TokenHash :: string
  ct_Name :: string
  ct_AllowedIPs :: "string option"
  ct_AllowedTargetClients :: "string option"
  ct_RemoteScopes :: "string option"
  ct_RemoteRequestsPerHour :: int
  ct_ClientID :: string
  ct_Source :: string
  ct_LastUsedAt :: "gotime option"
  ct_CreatedAt :: gotime
  ct_UpdatedAt :: gotime

subsection \<open>Comma-separated permission columns\<close>

text \<open>The loop shared by the four getters: split, trim, keep what is not empty.\<close>

fun csv_loop :: "string list \<Rightarrow> string list \<Rightarrow> string list" where
  "csv_loop [] out = out"
| "csv_loop (s # ss) out =
     (let s' = trim_space s in csv_loop ss (if s' \<noteq> [] then out @ [s'] else out))"

definition csv_fields :: "string option \<Rightarrow> string list" where
  "csv_fields col =
     (case col of None \<Rightarrow> []
      | Some s \<Rightarrow> if s = [] then [] else csv_loop (go_split (CHR '','') s) [])"

fun target_loop :: "string list \<Rightarrow> string \<Rightarrow> bool" where
  "target_loop [] clientID = False"
| "target_loop (allowed # rest) clientID =
     (if allowed = ''*'' \<or> allowed = clientID then True else target_loop rest clientID)"

fun granted_loop :: "string list \<Rightarrow> string \<Rightarrow> bool" where
  "granted_loop [] scope = False"
| "granted_loop (granted # rest) scope =
     (if granted = scope then True else granted_loop rest scope)"

definition kc_GetAllowedTargets :: "KnownClient \<Rightarrow> string list" where
  "kc_GetAllowedTargets c = csv_fields (kc_AllowedTargetClients c)"

definition kc_CanTarget :: "KnownClient \<Rightarrow> string \<Rightarrow> bool" where
  "kc_CanTarget c clientID =
     (if clientID = [] then False else target_loop (kc_GetAllowedTargets c) clientID)"

definition kc_GetRemoteScopes :: "KnownClient \<Rightarrow> string list" where
  "kc_GetRemoteScopes c = csv_fields (kc_RemoteScopes c)"

definition kc_HasRemoteScope :: "KnownClient \<Rightarrow> string \<Rightarrow> bool" where
  "kc_HasRemoteScope c scope =
     (if scope = [] then False else granted_loop (kc_GetRemoteScopes c) scope)"

definition ct_GetAllowedTargets :: "ConnectionToken \<Rightarrow> string list" where
  "ct_GetAllowedTargets t = csv_fields (ct_AllowedTargetClients t)"

definition ct_CanTarget :: "ConnectionToken \<Rightarrow> string \<Rightarrow> bool" where
  "ct_CanTarget t clientID =
     (if clientID = [] then False else target_loop (ct_GetAllowedTargets t) clientID)"

definition ct_GetRemoteScopes :: "ConnectionToken \<Rightarrow> string list" where
  "ct_GetRemoteScopes t = csv_fields (ct_RemoteScopes t)"

definition ct_HasRemoteScope :: "ConnectionToken \<Rightarrow> string \<Rightarrow> bool" where
  "ct_HasRemoteScope t scope =
     (if scope = [] then False else granted_loop (ct_GetRemoteScopes t) scope)"

lemma csv_loop_eq: "csv_loop ss out = out @ filter (\<lambda>s. s \<noteq> []) (map trim_space ss)"
  by (induction ss arbitrary: out) (auto simp: Let_def)

lemma csv_fields_eq:
  "csv_fields col = (case col of None \<Rightarrow> []
     | Some s \<Rightarrow> filter (\<lambda>f. f \<noteq> []) (map trim_space (go_split (CHR '','') s)))"
  by (auto simp: csv_fields_def csv_loop_eq trim_space_def split: option.splits)

lemma target_loop_iff: "target_loop ts c \<longleftrightarrow> ''*'' \<in> set ts \<or> c \<in> set ts"
  by (induction ts) auto

lemma granted_loop_iff: "granted_loop ss s \<longleftrightarrow> s \<in> set ss"
  by (induction ss) auto

lemma csv_fields_join:
  assumes "\<forall>s \<in> set ss. s \<noteq> [] \<and> CHR '','' \<notin> set s \<and> trim_space s = s"
  shows "csv_fields (Some (ScopesString ss)) = ss"
proof (cases "ss = []")
  case True
  then show ?thesis by (simp add: csv_fields_def ScopesString_def)
next
  case False
  have "go_split (CHR '','') (ScopesString ss) = ss"
    unfolding ScopesString_def by (rule go_split_join) (use False assms in auto)
  moreover have "map trim_space ss = ss"
    by (rule map_idI) (use assms in auto)
  moreover have "filter (\<lambda>f. f \<noteq> []) ss = ss"
    by (rule filter_True) (use assms in auto)
  ultimately show ?thesis by (simp add: csv_fields_eq)
qed

text \<open>
  The contract a holder of cross-world permissions gives the tunnel.  A world and a connection
  token both provide it.
\<close>

locale permission_holder =
  fixes targets :: "'p \<Rightarrow> string list"
    and remote_scopes :: "'p \<Rightarrow> string list"
    and can_target :: "'p \<Rightarrow> string \<Rightarrow> bool"
    and has_scope :: "'p \<Rightarrow> string \<Rightarrow> bool"
  assumes can_target_iff:
      "can_target p c \<longleftrightarrow> c \<noteq> [] \<and> (''*'' \<in> set (targets p) \<or> c \<in> set (targets p))"
    and has_scope_iff: "has_scope p s \<longleftrightarrow> s \<noteq> [] \<and> s \<in> set (remote_scopes p)"
begin

lemma no_targets_denied: "targets p = [] \<Longrightarrow> \<not> can_target p c"
  by (simp add: can_target_iff)

lemma no_scopes_denied: "remote_scopes p = [] \<Longrightarrow> \<not> has_scope p s"
  by (simp add: has_scope_iff)

lemma explicit_target: "\<lbrakk>can_target p c; ''*'' \<notin> set (targets p)\<rbrakk> \<Longrightarrow> c \<in> set (targets p)"
  by (simp add: can_target_iff)

lemma wildcard_target: "\<lbrakk>''*'' \<in> set (targets p); c \<noteq> []\<rbrakk> \<Longrightarrow> can_target p c"
  by (simp add: can_target_iff)

lemma targets_mono:
  "\<lbrakk>can_target p c; set (targets p) \<subseteq> set (targets q)\<rbrakk> \<Longrightarrow> can_target q c"
  by (auto simp: can_target_iff)

end

interpretation world: permission_holder
    kc_GetAllowedTargets kc_GetRemoteScopes kc_CanTarget kc_HasRemoteScope
  by unfold_locales
    (auto simp: kc_CanTarget_def kc_HasRemoteScope_def target_loop_iff granted_loop_iff)

interpretation token: permission_holder
    ct_GetAllowedTargets ct_GetRemoteScopes ct_CanTarget ct_HasRemoteScope
  by unfold_locales
    (auto simp: ct_CanTarget_def ct_HasRemoteScope_def target_loop_iff granted_loop_iff)

subsection \<open>Scoped API keys\<close>

record ApiKey =
  ak_ID :: int
  ak_UserID :: int
  ak_Key :: string
  ak_KeyHash :: string
  ak_Name :: string
  ak_ScopedClientID :: "string option"
  ak_ScopedUserID :: "string option"
  ak_MonthlyLimit :: "int option"
  ak_RequestsThisMonth :: int
  ak_LastResetDate :: "gotime option"
  ak_Scopes :: string
  ak_ScopedClientIDs :: "string option"
  ak_ScopedUserIDs :: "string option"
  ak_ExpiresAt :: "gotime option"
  ak_Enabled :: bool
  ak_CreatedAt :: gotime
  ak_UpdatedAt :: gotime

definition IsExpired :: "gotime \<Rightarrow> ApiKey \<Rightarrow> bool" where
  "IsExpired now k = (case ak_ExpiresAt k of None \<Rightarrow> False | Some t \<Rightarrow> t < now)"

definition GetScopes :: "ApiKey \<Rightarrow> string list" where
  "GetScopes k = (if ak_Scopes k = [] then [] else ParseScopes (ak_Scopes k))"

text \<open>
  The per-client user map is stored as JSON text; \<open>unmarshal\<close> is \<open>encoding/json\<close> into a
  \<open>map[string]string\<close>, with the entries read before an error kept and the error dropped.
\<close>

definition GetScopedUserIDs ::
    "(string \<Rightarrow> (string, string) gomap) \<Rightarrow> ApiKey \<Rightarrow> (string, string) gomap" where
  "GetScopedUserIDs unmarshal k =
     (case ak_ScopedUserIDs k of None \<Rightarrow> []
      | Some s \<Rightarrow> if s = [] then [] else unmarshal s)"

definition GetScopedClientIDs :: "ApiKey \<Rightarrow> string list" where
  "GetScopedClientIDs k =
     (case ak_ScopedClientIDs k of
        Some s \<Rightarrow> if s \<noteq> [] then go_split (CHR '','') s
                 else (case ak_ScopedClientID k of Some c \<Rightarrow> if c \<noteq> [] then [c] else [] | None \<Rightarrow> [])
      | None \<Rightarrow> (case ak_ScopedClientID k of Some c \<Rightarrow> if c \<noteq> [] then [c] else [] | None \<Rightarrow> []))"

record ScopedKeyInfo =
  sk_ID :: int
  sk_KeyPrefix :: string
  sk_ScopedClientID :: string
  sk_ScopedClientIDs :: "string list"
  sk_ScopedUserID :: string
  sk_ScopedUserIDs :: "(string, string) gomap"
  sk_Scopes :: "string list"
  sk_MonthlyLimit :: int
  sk_MonthlyLimitSet :: bool
  sk_RequestsThisMonth :: int

definition sk_HasScope :: "ScopedKeyInfo \<Rightarrow> string \<Rightarrow> bool" where
  "sk_HasScope s scope =
     (if length (sk_Scopes s) = 0 then False else List.member (sk_Scopes s) scope)"

definition sk_CanAccessClient :: "ScopedKeyInfo \<Rightarrow> string \<Rightarrow> bool" where
  "sk_CanAccessClient s clientID =
     (if length (sk_ScopedClientIDs s) = 0 then True
      else List.member (sk_ScopedClientIDs s) clientID)"

lemma sk_HasScope_iff [simp]: "sk_HasScope s scope \<longleftrightarrow> scope \<in> set (sk_Scopes s)"
  by (auto simp: sk_HasScope_def)

lemma sk_CanAccessClient_iff:
  "sk_CanAccessClient s c \<longleftrightarrow> sk_ScopedClientIDs s = [] \<or> c \<in> set (sk_ScopedClientIDs s)"
  by (auto simp: sk_CanAccessClient_def)

subsection \<open>The scope middleware\<close>

text \<open>
  The outcome of a middleware: hand the request to the next handler, or answer it with a status
  and an error text.  The request context is reduced to what the middleware reads of it: absent,
  or present with an optional scoped key.
\<close>

datatype scope_decision = ScopePass | ScopeDeny nat string

definition RequireScope :: "string \<Rightarrow> ScopedKeyInfo option option \<Rightarrow> scope_decision" where
  "RequireScope scope reqCtx =
     (case reqCtx of
        None \<Rightarrow> ScopeDeny 401 ''Authentication required''
      | Some None \<Rightarrow> ScopePass
      | Some (Some sk) \<Rightarrow>
          if \<not> sk_HasScope sk scope
          then ScopeDeny 403 (''API key lacks required scope: '' @ scope)
          else ScopePass)"

end
