(* ===== verification/Client.thy ===== *)
theory Client
  imports Prelude
begin

text \<open>
  One connected Foundry module, \<open>internal/ws/client.go\<close>: its metadata, its send queue and the
  goroutine that alone is meant to write to its socket.

  The bytes of a text message are either the encoding of a JSON value (\<open>json.Marshal\<close> of the
  values the relay sends never fails) or bytes passed through.  The wire of a connection is the
  list of frames written to it so far.  \<open>time.Now()\<close> is an argument.  A run-time panic is a value.
\<close>

datatype payload = Encoded json | RawBytes string

datatype frame = TextFrame payload | CloseFrame "(int \<times> string) option"

datatype 'a go = Ret 'a | Panic string

record ClientInfo =
  ci_ID :: string
  ci_InstanceID :: string
  ci_LastSeen :: int
  ci_ConnectedSince :: int
  ci_WorldID :: string
  ci_WorldTitle :: string
  ci_FoundryVersion :: string
  ci_SystemID :: string
  ci_SystemTitle :: string
  ci_SystemVersion :: string
  ci_CustomName :: string
  ci_PublicUrl :: string
  ci_IPAddress :: string
  ci_TokenName :: string

record Client =
  cl_id :: string
  cl_apiKey :: string
  cl_connectionTokenID :: int
  cl_tokenName :: string
  cl_lastSeen :: gotime
  cl_connectedSince :: gotime
  cl_connected :: bool
  cl_worldID :: string
  cl_worldTitle :: string
  cl_foundryVersion :: string
  cl_systemID :: string
  cl_systemTitle :: string
  cl_systemVersion :: string
  cl_customName :: string
  cl_publicUrl :: string
  cl_ipAddress :: string
  cl_sendCh :: "payload list"
  cl_done :: bool  \<comment> \<open>the channel is closed\<close>
  cl_closeMsg :: "(int \<times> string) option"
  cl_wire :: "frame list"
  cl_sockClosed :: bool

text \<open>The metadata a module announces, as the parameters of \<open>NewClient\<close> carry it.\<close>

record hello =
  h_worldID :: string
  h_worldTitle :: string
  h_foundryVersion :: string
  h_systemID :: string
  h_systemTitle :: string
  h_systemVersion :: string
  h_customName :: string
  h_publicUrl :: string

definition sendCap :: nat where
  "sendCap = 1024"

definition NewClient ::
    "gotime \<Rightarrow> string option \<Rightarrow> string \<Rightarrow> string \<Rightarrow> string \<Rightarrow> hello \<Rightarrow> Client" where
  "NewClient now conn_addr cid apiKey tokenName h =
     (let remoteAddr = (case conn_addr of None \<Rightarrow> [] | Some a \<Rightarrow> a)
      in \<lparr>cl_id = cid, cl_apiKey = apiKey, cl_connectionTokenID = 0, cl_tokenName = tokenName,
          cl_lastSeen = now, cl_connectedSince = now, cl_connected = True,
          cl_worldID = h_worldID h, cl_worldTitle = h_worldTitle h,
          cl_foundryVersion = h_foundryVersion h, cl_systemID = h_systemID h,
          cl_systemTitle = h_systemTitle h, cl_systemVersion = h_systemVersion h,
          cl_customName = h_customName h, cl_publicUrl = h_publicUrl h,
          cl_ipAddress = remoteAddr, cl_sendCh = [], cl_done = False, cl_closeMsg = None,
          cl_wire = [], cl_sockClosed = False\<rparr>)"

definition IsAlive :: "Client \<Rightarrow> bool" where
  "IsAlive c = cl_connected c"

text \<open>The non-blocking send shared by \<open>Send\<close> and \<open>SendRaw\<close>.\<close>

definition enqueue :: "payload \<Rightarrow> Client \<Rightarrow> bool \<times> Client" where
  "enqueue msg c =
     (if length (cl_sendCh c) < sendCap then (True, c\<lparr>cl_sendCh := cl_sendCh c @ [msg]\<rparr>)
      else (False, c))"

definition Send :: "json \<Rightarrow> Client \<Rightarrow> bool \<times> Client" where
  "Send data c = (if \<not> IsAlive c then (False, c) else enqueue (Encoded data) c)"

definition SendRaw :: "string \<Rightarrow> Client \<Rightarrow> bool \<times> Client" where
  "SendRaw msg c = (if \<not> IsAlive c then (False, c) else enqueue (RawBytes msg) c)"

definition UpdateLastSeen :: "gotime \<Rightarrow> Client \<Rightarrow> Client" where
  "UpdateLastSeen now c = c\<lparr>cl_lastSeen := now\<rparr>"

text \<open>\<open>close(c.done)\<close>, which panics on a closed channel.\<close>

definition close_done :: "Client \<Rightarrow> Client go" where
  "close_done c = (if cl_done c then Panic ''close of closed channel'' else Ret (c\<lparr>cl_done := True\<rparr>))"

definition Disconnect :: "Client \<Rightarrow> Client go" where
  "Disconnect c =
     (if cl_connected c
      then (case close_done (c\<lparr>cl_connected := False\<rparr>) of
              Ret c' \<Rightarrow> Ret (c'\<lparr>cl_sockClosed := True\<rparr>)
            | Panic e \<Rightarrow> Panic e)
      else Ret c)"

definition DisconnectWithReason :: "int \<Rightarrow> string \<Rightarrow> Client \<Rightarrow> Client go" where
  "DisconnectWithReason code txt c =
     (if \<not> cl_connected c then Ret c
      else close_done (c\<lparr>cl_connected := False, cl_closeMsg := Some (code, txt)\<rparr>))"

definition MarkDisconnected :: "Client \<Rightarrow> Client" where
  "MarkDisconnected c = c\<lparr>cl_connected := False\<rparr>"

definition SetConnectionTokenID :: "int \<Rightarrow> Client \<Rightarrow> Client" where
  "SetConnectionTokenID tid c = c\<lparr>cl_connectionTokenID := tid\<rparr>"

definition Info :: "string \<Rightarrow> Client \<Rightarrow> ClientInfo" where
  "Info instanceID c =
     \<lparr>ci_ID = cl_id c, ci_InstanceID = instanceID, ci_LastSeen = unix_milli (cl_lastSeen c),
      ci_ConnectedSince = unix_milli (cl_connectedSince c), ci_WorldID = cl_worldID c,
      ci_WorldTitle = cl_worldTitle c, ci_FoundryVersion = cl_foundryVersion c,
      ci_SystemID = cl_systemID c, ci_SystemTitle = cl_systemTitle c,
      ci_SystemVersion = cl_systemVersion c, ci_CustomName = cl_customName c,
      ci_PublicUrl = cl_publicUrl c, ci_IPAddress = cl_ipAddress c,
      ci_TokenName = cl_tokenName c\<rparr>"

subsection \<open>Closing happens once\<close>

definition client_wf :: "Client \<Rightarrow> bool" where
  "client_wf c \<longleftrightarrow> (cl_connected c \<longrightarrow> \<not> cl_done c \<and> cl_closeMsg c = None) \<and>
     length (cl_sendCh c) \<le> sendCap"

lemmas client_ops = enqueue_def Send_def SendRaw_def UpdateLastSeen_def close_done_def Disconnect_def
  DisconnectWithReason_def MarkDisconnected_def SetConnectionTokenID_def IsAlive_def

lemma client_wf_New [inv_intros]: "client_wf (NewClient now a cid k tn h)"
  by (simp add: client_wf_def NewClient_def sendCap_def Let_def)

lemma client_wf_Send [inv_intros]: "client_wf c \<Longrightarrow> client_wf (snd (Send d c))"
  by (simp add: client_wf_def client_ops)

lemma client_wf_SendRaw [inv_intros]: "client_wf c \<Longrightarrow> client_wf (snd (SendRaw d c))"
  by (simp add: client_wf_def client_ops)

lemma Disconnect_Ret:
  "client_wf c \<Longrightarrow> \<exists>c'. Disconnect c = Ret c' \<and> client_wf c' \<and> \<not> IsAlive c' \<and> cl_id c' = cl_id c \<and>
     cl_apiKey c' = cl_apiKey c \<and> cl_connectionTokenID c' = cl_connectionTokenID c"
  by (auto simp: client_wf_def client_ops)

lemma DisconnectWithReason_Ret:
  "client_wf c \<Longrightarrow> \<exists>c'. DisconnectWithReason code r c = Ret c' \<and> client_wf c' \<and> \<not> IsAlive c' \<and>
     cl_id c' = cl_id c \<and> cl_apiKey c' = cl_apiKey c"
  by (auto simp: client_wf_def client_ops)

lemma client_wf_misc [inv_intros]:
  "client_wf c \<Longrightarrow> client_wf (MarkDisconnected c)"
  "client_wf c \<Longrightarrow> client_wf (UpdateLastSeen now c)"
  "client_wf c \<Longrightarrow> client_wf (SetConnectionTokenID t c)"
  by (simp_all add: client_wf_def client_ops)

subsection \<open>The write goroutine\<close>

text \<open>
  \<open>writePump\<close> beside the goroutines that use the client.  \<open>WriteMessage\<close> takes time, so the pump
  and a foreign writer (\<open>closeClients\<close> of \<open>manager.go\<close> writes its close frame directly) each have
  a state in which a write is going on; gorilla/websocket panics when two writes overlap.  The
  \<open>select\<close> chooses freely when both channels are ready.
\<close>

datatype pump = PumpSelect | PumpWriting payload | PumpExited

record wsession =
  ws_client :: Client
  ws_pump :: pump
  ws_foreign :: "(int \<times> string) option"  \<comment> \<open>a close frame another goroutine is writing\<close>
  ws_foreign_frames :: nat  \<comment> \<open>close frames other goroutines have written\<close>
  ws_accepted :: "payload list"  \<comment> \<open>messages \<open>Send\<close> and \<open>SendRaw\<close> accepted, in order\<close>

definition two_writers :: "wsession \<Rightarrow> bool" where
  "two_writers s \<longleftrightarrow> (\<exists>m. ws_pump s = PumpWriting m) \<and> ws_foreign s \<noteq> None"

inductive pump_step :: "wsession \<Rightarrow> wsession \<Rightarrow> bool" where
  send: "Send d (ws_client s) = (ok, c) \<Longrightarrow>
     pump_step s (s\<lparr>ws_client := c, ws_accepted := ws_accepted s @ (if ok then [Encoded d] else [])\<rparr>)"
| send_raw: "SendRaw d (ws_client s) = (ok, c) \<Longrightarrow>
     pump_step s (s\<lparr>ws_client := c, ws_accepted := ws_accepted s @ (if ok then [RawBytes d] else [])\<rparr>)"
| seen: "pump_step s (s\<lparr>ws_client := UpdateLastSeen now (ws_client s)\<rparr>)"
| disconnect: "Disconnect (ws_client s) = Ret c \<Longrightarrow> pump_step s (s\<lparr>ws_client := c\<rparr>)"
| reason: "DisconnectWithReason code r (ws_client s) = Ret c \<Longrightarrow> pump_step s (s\<lparr>ws_client := c\<rparr>)"
| mark: "pump_step s (s\<lparr>ws_client := MarkDisconnected (ws_client s)\<rparr>)"
| take: "\<lbrakk>ws_pump s = PumpSelect; cl_sendCh (ws_client s) = m # ms\<rbrakk> \<Longrightarrow>
     pump_step s (s\<lparr>ws_client := (ws_client s)\<lparr>cl_sendCh := ms\<rparr>, ws_pump := PumpWriting m\<rparr>)"
| wrote: "\<lbrakk>ws_pump s = PumpWriting m; \<not> cl_sockClosed (ws_client s)\<rbrakk> \<Longrightarrow>
     pump_step s (s\<lparr>ws_client := (ws_client s)\<lparr>cl_wire := cl_wire (ws_client s) @ [TextFrame m]\<rparr>,
                   ws_pump := PumpSelect\<rparr>)"
| write_error: "ws_pump s = PumpWriting m \<Longrightarrow>
     pump_step s (s\<lparr>ws_client := (ws_client s)\<lparr>cl_sockClosed := True\<rparr>, ws_pump := PumpExited\<rparr>)"
| shutdown: "\<lbrakk>ws_pump s = PumpSelect; cl_done (ws_client s)\<rbrakk> \<Longrightarrow>
     pump_step s (s\<lparr>ws_client := (ws_client s)\<lparr>
         cl_wire := cl_wire (ws_client s) @
           (if cl_closeMsg (ws_client s) \<noteq> None \<and> \<not> cl_sockClosed (ws_client s)
            then [CloseFrame (cl_closeMsg (ws_client s))] else []),
         cl_sockClosed := True\<rparr>, ws_pump := PumpExited\<rparr>)"

text \<open>The direct write of \<open>closeClients\<close>: it starts, and later the frame is on the wire.\<close>

inductive foreign_step :: "wsession \<Rightarrow> wsession \<Rightarrow> bool" where
  own: "pump_step s t \<Longrightarrow> foreign_step s t"
| begin_write: "ws_foreign s = None \<Longrightarrow> foreign_step s (s\<lparr>ws_foreign := Some (code, r)\<rparr>)"
| end_write: "ws_foreign s = Some f \<Longrightarrow>
     foreign_step s (s\<lparr>ws_foreign := None, ws_foreign_frames := ws_foreign_frames s + 1, ws_client := (ws_client s)\<lparr>
         cl_wire := cl_wire (ws_client s) @
           (if cl_sockClosed (ws_client s) then [] else [CloseFrame (Some f)])\<rparr>\<rparr>)"

inductive_cases foreign_stepE: "foreign_step s t"
inductive_simps pump_step_iff: "pump_step s t"

definition start_session :: "Client \<Rightarrow> wsession" where
  "start_session c = \<lparr>ws_client = c, ws_pump = PumpSelect, ws_foreign = None, ws_foreign_frames = 0, ws_accepted = []\<rparr>"

text \<open>The sessions in which no two writes overlap, where the library would panic.\<close>

inductive session_reachable :: "wsession \<Rightarrow> bool" where
  start: "session_reachable (start_session (NewClient now a cid k tn h))"
| step: "\<lbrakk>session_reachable s; foreign_step s t; \<not> two_writers t\<rbrakk> \<Longrightarrow> session_reachable t"

text \<open>What is on the wire, in the writer's hands and in the queue is what was accepted, in order.\<close>

definition in_hand :: "pump \<Rightarrow> payload list" where
  "in_hand p = (case p of PumpWriting m \<Rightarrow> [m] | _ \<Rightarrow> [])"

definition wire_ok :: "frame list \<Rightarrow> payload list \<Rightarrow> pump \<Rightarrow> payload list \<Rightarrow> bool" where
  "wire_ok wire accepted pump queue \<longleftrightarrow>
     (\<exists>ws cs rest. wire = map TextFrame ws @ cs \<and> accepted = ws @ rest \<and>
        (if pump = PumpExited then length cs \<le> 1 \<and> list_all (\<lambda>f. f \<notin> range TextFrame) cs
         else cs = [] \<and> rest = in_hand pump @ queue))"

definition messages :: "frame list \<Rightarrow> frame list" where
  "messages wire = filter (\<lambda>f. f \<in> range TextFrame) wire"

definition closes :: "frame list \<Rightarrow> frame list" where
  "closes wire = filter (\<lambda>f. f \<notin> range TextFrame) wire"

lemma messages_closes [simp]:
  "messages [] = []" "closes [] = []"
  "messages (xs @ ys) = messages xs @ messages ys" "closes (xs @ ys) = closes xs @ closes ys"
  "messages [TextFrame m] = [TextFrame m]" "closes [TextFrame m] = []"
  "messages [CloseFrame c] = []" "closes [CloseFrame c] = [CloseFrame c]"
  "messages (map TextFrame ws) = map TextFrame ws" "closes (map TextFrame ws) = []"
  by (auto simp: messages_def closes_def filter_empty_conv)

text \<open>The wire without the frames of other goroutines is in order; with none of them it is so as it stands.\<close>

definition pump_inv :: "wsession \<Rightarrow> bool" where
  "pump_inv s \<longleftrightarrow>
     client_wf (ws_client s) \<and>
     wire_ok (messages (cl_wire (ws_client s))) (ws_accepted s) (ws_pump s) (cl_sendCh (ws_client s)) \<and>
     length (closes (cl_wire (ws_client s))) \<le> ws_foreign_frames s + (if ws_pump s = PumpExited then 1 else 0) \<and>
     (ws_foreign_frames s = 0 \<longrightarrow>
        wire_ok (cl_wire (ws_client s)) (ws_accepted s) (ws_pump s) (cl_sendCh (ws_client s)))"

lemma wire_ok_open:
  assumes "p \<noteq> PumpExited"
  shows "wire_ok wire acc p queue \<longleftrightarrow>
    (\<exists>ws. wire = map TextFrame ws \<and> acc = ws @ in_hand p @ queue)"
  using assms by (auto simp: wire_ok_def)

lemma wire_ok_exited:
  "wire_ok wire acc PumpExited queue \<longleftrightarrow>
    (\<exists>ws cs rest. wire = map TextFrame ws @ cs \<and> acc = ws @ rest \<and> length cs \<le> 1 \<and>
       list_all (\<lambda>f. f \<notin> range TextFrame) cs)"
  by (simp add: wire_ok_def)

lemma wire_ok_enqueue:
  assumes "wire_ok wire acc p queue"
  shows "wire_ok wire (acc @ ms) p (queue @ ms)"
proof (cases "p = PumpExited")
  case True
  then obtain ws cs rest where "wire = map TextFrame ws @ cs" "acc = ws @ rest" "length cs \<le> 1"
      "list_all (\<lambda>f. f \<notin> range TextFrame) cs"
    using assms by (auto simp: wire_ok_exited)
  then show ?thesis unfolding True wire_ok_exited
    by (intro exI [of _ ws] exI [of _ cs] exI [of _ "rest @ ms"]) simp
next
  case False
  then show ?thesis using assms by (auto simp: wire_ok_open)
qed

lemma wire_ok_exit:
  assumes "wire_ok wire acc p queue" and "p \<noteq> PumpExited" and "length cs \<le> 1"
    and "list_all (\<lambda>f. f \<notin> range TextFrame) cs"
  shows "wire_ok (wire @ cs) acc PumpExited queue'"
proof -
  obtain ws where "wire = map TextFrame ws" "acc = ws @ in_hand p @ queue"
    using assms(1,2) by (auto simp: wire_ok_open)
  then show ?thesis
    unfolding wire_ok_exited using assms(3,4) by (intro exI conjI) simp_all
qed

lemma pump_inv_quiet:
  assumes "pump_inv s" and "client_wf c" and "cl_wire c = cl_wire (ws_client s)"
    and "cl_sendCh c = cl_sendCh (ws_client s)"
  shows "pump_inv (s\<lparr>ws_client := c\<rparr>)"
  using assms by (simp add: pump_inv_def)

lemma pump_inv_enqueue:
  assumes "pump_inv s" and "client_wf c" and "cl_wire c = cl_wire (ws_client s)"
    and "cl_sendCh c = cl_sendCh (ws_client s) @ ms"
  shows "pump_inv (s\<lparr>ws_client := c, ws_accepted := ws_accepted s @ ms\<rparr>)"
  using assms by (simp add: pump_inv_def wire_ok_enqueue)

text \<open>The write goroutine leaves, with at most one close frame.\<close>

lemma pump_inv_exit:
  assumes inv: "pump_inv s" and "ws_pump s \<noteq> PumpExited" and "client_wf c"
    and "cl_wire c = cl_wire (ws_client s) @ cs" and "length cs \<le> 1" and "messages cs = []" and "closes cs = cs"
  shows "pump_inv (s\<lparr>ws_client := c, ws_pump := PumpExited\<rparr>)"
proof -
  have cs: "list_all (\<lambda>f. f \<notin> range TextFrame) cs"
    using arg_cong [OF assms(7), of set] by (auto simp: closes_def list_all_iff)
  have "wire_ok (messages (cl_wire (ws_client s)) @ []) (ws_accepted s) PumpExited (cl_sendCh c)"
    by (rule wire_ok_exit [where queue = "cl_sendCh (ws_client s)", OF _ assms(2)]) (use inv in \<open>simp_all add: pump_inv_def\<close>)
  moreover have "ws_foreign_frames s = 0 \<longrightarrow> wire_ok (cl_wire (ws_client s) @ cs) (ws_accepted s) PumpExited (cl_sendCh c)"
    using wire_ok_exit [where queue = "cl_sendCh (ws_client s)", OF _ assms(2,5) cs] inv by (simp add: pump_inv_def)
  ultimately show ?thesis using inv assms(2-7) by (simp add: pump_inv_def)
qed

lemma enqueue_effect:
  "Send d c = (ok, c') \<Longrightarrow> cl_wire c' = cl_wire c \<and>
     cl_sendCh c' = cl_sendCh c @ (if ok then [Encoded d] else [])"
  "SendRaw r c = (ok, c') \<Longrightarrow> cl_wire c' = cl_wire c \<and>
     cl_sendCh c' = cl_sendCh c @ (if ok then [RawBytes r] else [])"
  by (auto simp: client_ops split: if_splits)

lemma disconnect_effect:
  "Disconnect c = Ret c' \<Longrightarrow> cl_wire c' = cl_wire c \<and> cl_sendCh c' = cl_sendCh c"
  "DisconnectWithReason code r c = Ret c' \<Longrightarrow> cl_wire c' = cl_wire c \<and> cl_sendCh c' = cl_sendCh c"
  by (auto simp: client_ops split: if_splits)

lemma pump_inv_step:
  assumes "pump_step s t" and inv: "pump_inv s"
  shows "pump_inv t"
  using assms(1)
proof cases
  case (send d ok c)
  have "client_wf c" using client_wf_Send [of "ws_client s" d] send(2) inv by (simp add: pump_inv_def)
  then show ?thesis unfolding send(1) using enqueue_effect(1) [OF send(2)] inv
    by (blast intro: pump_inv_enqueue)
next
  case (send_raw d ok c)
  have "client_wf c" using client_wf_SendRaw [of "ws_client s" d] send_raw(2) inv by (simp add: pump_inv_def)
  then show ?thesis unfolding send_raw(1) using enqueue_effect(2) [OF send_raw(2)] inv
    by (blast intro: pump_inv_enqueue)
next
  case (seen now)
  show ?thesis unfolding seen
    by (rule pump_inv_quiet [OF inv]) (use inv in \<open>simp_all add: pump_inv_def client_wf_misc, simp_all add: UpdateLastSeen_def\<close>)
next
  case (disconnect c)
  have "client_wf c" using Disconnect_Ret [of "ws_client s"] disconnect(2) inv by (auto simp: pump_inv_def)
  then show ?thesis unfolding disconnect(1) using inv disconnect_effect(1) [OF disconnect(2)] by (auto intro: pump_inv_quiet)
next
  case (reason code r c)
  have "client_wf c" using DisconnectWithReason_Ret [of "ws_client s" code r] reason(2) inv by (auto simp: pump_inv_def)
  then show ?thesis unfolding reason(1) using inv disconnect_effect(2) [OF reason(2)] by (auto intro: pump_inv_quiet)
next
  case mark
  show ?thesis unfolding mark
    by (rule pump_inv_quiet [OF inv]) (use inv in \<open>simp_all add: pump_inv_def client_wf_misc, simp_all add: MarkDisconnected_def\<close>)
next
  case (take m ms)
  then show ?thesis using inv by (simp add: pump_inv_def client_wf_def wire_ok_open in_hand_def)
next
  case (wrote m)
  have next_msg: "wire_ok (wire @ [TextFrame m]) (ws_accepted s) PumpSelect (cl_sendCh (ws_client s))"
    if "wire_ok wire (ws_accepted s) (ws_pump s) (cl_sendCh (ws_client s))" for wire
    using that wrote(2) by (auto simp: wire_ok_open in_hand_def intro: exI [of _ "_ @ [m]"])
  then show ?thesis using inv wrote(2) by (simp add: wrote(1) pump_inv_def client_wf_def)
next
  case (write_error m)
  show ?thesis unfolding write_error(1)
    by (rule pump_inv_exit [OF inv, of _ "[]"]) (use inv write_error in \<open>simp_all add: pump_inv_def client_wf_def\<close>)
next
  case shutdown
  let ?cs = "if cl_closeMsg (ws_client s) \<noteq> None \<and> \<not> cl_sockClosed (ws_client s)
      then [CloseFrame (cl_closeMsg (ws_client s))] else []"
  show ?thesis unfolding shutdown(1)
    by (rule pump_inv_exit [OF inv, of _ ?cs]) (use inv shutdown in \<open>simp_all add: pump_inv_def client_wf_def\<close>)
qed

lemma foreign_inv_step:
  assumes "foreign_step s t" and inv: "pump_inv s"
  shows "pump_inv t"
  using assms(1)
proof cases
  case own
  then show ?thesis using inv by (rule pump_inv_step)
next
  case (begin_write code r)
  then show ?thesis using inv by (simp add: pump_inv_def)
next
  case (end_write f)
  then show ?thesis using inv by (auto simp: pump_inv_def client_wf_def)
qed

lemma session_reachable_inv: "session_reachable s \<Longrightarrow> pump_inv s"
proof (induction rule: session_reachable.induct)
  case (start now a cid k tn h)
  have "client_wf (NewClient now a cid k tn h)" by (rule client_wf_New)
  then show ?case
    by (simp add: pump_inv_def start_session_def wire_ok_open in_hand_def NewClient_def Let_def)
qed (rule foreign_inv_step)

lemma wire_okE:
  assumes "wire_ok wire acc p queue"
  obtains ws cs rest where "wire = map TextFrame ws @ cs" and "acc = ws @ rest" and "messages cs = []"
proof -
  obtain ws cs rest where w: "wire = map TextFrame ws @ cs" "acc = ws @ rest"
      "if p = PumpExited then length cs \<le> 1 \<and> list_all (\<lambda>f. f \<notin> range TextFrame) cs else cs = [] \<and> rest = in_hand p @ queue"
    using assms unfolding wire_ok_def by blast
  moreover from w(3) have "list_all (\<lambda>f. f \<notin> range TextFrame) cs" by (auto split: if_splits)
  ultimately show ?thesis using that [of ws cs rest] by (auto simp: messages_def list_all_iff filter_empty_conv)
qed

text \<open>C8: While no two goroutines write at once, the messages on the wire are the first of the accepted ones, in the
  order they were accepted, without loss in the middle or repetition, whatever close frames \<open>closeClients\<close> puts between
  them; the write goroutine adds at most one close frame of its own, and without those of \<open>closeClients\<close> nothing follows
  it.  No client operation ever closes a closed channel.\<close>

theorem wire_in_order:
  assumes "session_reachable s"
  shows "\<exists>ws rest cs. messages (cl_wire (ws_client s)) = map TextFrame ws \<and> ws_accepted s = ws @ rest \<and>
      length (closes (cl_wire (ws_client s))) \<le> ws_foreign_frames s + 1 \<and>
      (ws_foreign_frames s = 0 \<longrightarrow> cl_wire (ws_client s) = map TextFrame ws @ cs) \<and>
      Disconnect (ws_client s) \<noteq> Panic e \<and> DisconnectWithReason code r (ws_client s) \<noteq> Panic e"
proof -
  let ?w = "cl_wire (ws_client s)"
  have inv: "pump_inv s" using assms by (rule session_reachable_inv)
  then have ok: "wire_ok (messages ?w) (ws_accepted s) (ws_pump s) (cl_sendCh (ws_client s))" by (simp add: pump_inv_def)
  obtain ws rest cs where ws: "messages ?w = map TextFrame ws" "ws_accepted s = ws @ rest"
      "ws_foreign_frames s = 0 \<longrightarrow> ?w = map TextFrame ws @ cs"
  proof (cases "ws_foreign_frames s = 0")
    case True
    then have "wire_ok ?w (ws_accepted s) (ws_pump s) (cl_sendCh (ws_client s))" using inv by (simp add: pump_inv_def)
    then obtain ws cs rest where "?w = map TextFrame ws @ cs" "ws_accepted s = ws @ rest" "messages cs = []" by (rule wire_okE)
    then show ?thesis using that [of ws rest cs] by simp
  next
    case False
    obtain ws cs rest where "messages ?w = map TextFrame ws @ cs" "ws_accepted s = ws @ rest" "messages cs = []"
      using ok by (rule wire_okE)
    moreover have "messages (messages ?w) = messages ?w" by (simp add: messages_def)
    ultimately show ?thesis using that [of ws rest] False by simp
  qed
  have "length (closes ?w) \<le> ws_foreign_frames s + 1" using inv by (auto simp: pump_inv_def split: if_splits)
  moreover have wf: "client_wf (ws_client s)" using inv by (simp add: pump_inv_def)
  then have "Disconnect (ws_client s) \<noteq> Panic e" "DisconnectWithReason code r (ws_client s) \<noteq> Panic e"
    using Disconnect_Ret [OF wf] DisconnectWithReason_Ret [OF wf, of code r] by auto
  ultimately show ?thesis using ws by (intro exI conjI)
qed

definition ex_hello :: hello where
  "ex_hello = \<lparr>h_worldID = ''w'', h_worldTitle = [], h_foundryVersion = ''13'', h_systemID = ''dnd5e'',
     h_systemTitle = [], h_systemVersion = [], h_customName = [], h_publicUrl = []\<rparr>"

definition ex_client :: Client where
  "ex_client = NewClient 0 (Some ''10.0.0.1:4000'') ''fvtt_1'' ''key'' ''tab'' ex_hello"

definition ex_session1 :: wsession where
  "ex_session1 = (start_session ex_client)\<lparr>
     ws_client := ex_client\<lparr>cl_sendCh := [RawBytes ''{}'']\<rparr>, ws_accepted := [RawBytes ''{}'']\<rparr>"

definition ex_session2 :: wsession where
  "ex_session2 = ex_session1\<lparr>ws_client := (ws_client ex_session1)\<lparr>cl_sendCh := []\<rparr>,
     ws_pump := PumpWriting (RawBytes ''{}'')\<rparr>"

lemmas ex_session_defs = ex_session1_def ex_session2_def start_session_def ex_client_def
  NewClient_def ex_hello_def Let_def

lemma ex_session1_step: "pump_step (start_session ex_client) ex_session1"
  using pump_step.send_raw [of "''{}''" "start_session ex_client" True "ex_client\<lparr>cl_sendCh := [RawBytes ''{}'']\<rparr>"]
  by (simp add: ex_session_defs client_ops sendCap_def)

lemma ex_session2_step: "pump_step ex_session1 ex_session2"
  using pump_step.take [of ex_session1 "RawBytes ''{}''" "[]"] by (simp add: ex_session_defs)

lemma session_reachable_ex2: "session_reachable ex_session2"
proof -
  have "session_reachable (start_session ex_client)"
    unfolding ex_client_def by (rule session_reachable.start)
  moreover have "\<not> two_writers ex_session1" "\<not> two_writers ex_session2" by (simp_all add: two_writers_def ex_session_defs)
  ultimately show ?thesis
    using ex_session1_step ex_session2_step by (blast intro: session_reachable.step foreign_step.own)
qed

lemma wire_in_order_witness:
  "Disconnect (ws_client ex_session2) \<noteq> Panic ''close of closed channel'' \<and> length (closes (cl_wire (ws_client ex_session2))) \<le> 1"
  using wire_in_order [OF session_reachable_ex2, of "''close of closed channel''" 1000 "[]"]
  by (auto simp: ex_session_defs)

text \<open>With the close frame that \<open>closeClients\<close> writes from its own goroutine, two writers can be at
  work on one connection: from the start of a session, a run reaches a state where the write
  goroutine is in the middle of a message while the close frame is being written.\<close>

theorem closeClients_can_race:
  "\<exists>s. foreign_step\<^sup>*\<^sup>* (start_session ex_client) s \<and> two_writers s"
proof -
  let ?t = "ex_session2\<lparr>ws_foreign := Some (4002, ''Connection token revoked'')\<rparr>"
  have "foreign_step\<^sup>*\<^sup>* (start_session ex_client) ex_session2"
    using foreign_step.own [OF ex_session1_step] foreign_step.own [OF ex_session2_step]
    by (meson converse_rtranclp_into_rtranclp rtranclp.rtrancl_refl)
  moreover have "foreign_step ex_session2 ?t"
    by (rule foreign_step.begin_write) (simp add: ex_session_defs)
  moreover have "two_writers ?t"
    by (simp add: two_writers_def ex_session2_def)
  ultimately show ?thesis by (meson rtranclp.rtrancl_into_rtrancl)
qed

end
