(* ===== verification/NetAddr.thy ===== *)
theory NetAddr
  imports Prelude "HOL-Library.Word"
begin

unbundle bit_operations_syntax

text \<open>
  The parts of Go's \<open>net\<close> package behind the two IP allowlists of the relay, and the allowlists:
  \<open>isIPAllowed\<close> of \<open>internal/ws/relay.go\<close> (per connection token) and the admin allowlist of
  \<open>internal/middleware/admin_ip.go\<close>.

  An address is a list of 16 bytes (\<open>net.IP\<close> as \<open>net.ParseIP\<close> returns it), with IPv4 addresses
  in their IPv4-mapped form.
\<close>

type_synonym u8 = "8 word"
type_synonym ip = "u8 list"

subsection \<open>\<open>net.SplitHostPort\<close>\<close>

fun index_byte :: "string \<Rightarrow> char \<Rightarrow> nat option" where
  "index_byte [] c = None"
| "index_byte (x # xs) c = (if x = c then Some 0 else map_option Suc (index_byte xs c))"

definition last_index :: "string \<Rightarrow> char \<Rightarrow> nat option" where
  "last_index s c = map_option (\<lambda>i. length s - 1 - i) (index_byte (rev s) c)"

definition SplitHostPort :: "string \<Rightarrow> (string \<times> string) option" where
  "SplitHostPort hp =
     (case last_index hp (CHR '':'') of
        None \<Rightarrow> None
      | Some i \<Rightarrow>
          (let parts =
             (if hp ! 0 = CHR ''['' then
                (case index_byte hp (CHR '']'') of
                   None \<Rightarrow> None
                 | Some e \<Rightarrow> if e + 1 = length hp then None
                            else if e + 1 = i then Some (take (e - 1) (drop 1 hp), 1, e + 1)
                            else None)
              else if index_byte (take i hp) (CHR '':'') \<noteq> None then None
              else Some (take i hp, 0, 0))
           in case parts of
                None \<Rightarrow> None
              | Some (host, j, k) \<Rightarrow>
                  if index_byte (drop j hp) (CHR ''['') \<noteq> None then None
                  else if index_byte (drop k hp) (CHR '']'') \<noteq> None then None
                  else Some (host, drop (i + 1) hp)))"

subsection \<open>\<open>net.ParseIP\<close>\<close>

definition in_range :: "char \<Rightarrow> char \<Rightarrow> char \<Rightarrow> bool" where
  "in_range lo hi c \<longleftrightarrow> (of_char lo :: nat) \<le> of_char c \<and> (of_char c :: nat) \<le> of_char hi"

definition digit_val :: "char \<Rightarrow> nat option" where
  "digit_val c = (if in_range (CHR ''0'') (CHR ''9'') c then Some (of_char c - 48) else None)"

definition hex_val :: "char \<Rightarrow> nat option" where
  "hex_val c =
     (if in_range (CHR ''0'') (CHR ''9'') c then Some (of_char c - 48)
      else if in_range (CHR ''a'') (CHR ''f'') c then Some (of_char c - 87)
      else if in_range (CHR ''A'') (CHR ''F'') c then Some (of_char c - 55)
      else None)"

text \<open>One octet: decimal, no leading zero, at most 255.\<close>

fun octet_loop :: "string \<Rightarrow> nat \<Rightarrow> nat \<Rightarrow> nat option" where
  "octet_loop [] val digLen = (if digLen = 0 then None else Some val)"
| "octet_loop (c # cs) val digLen =
     (case digit_val c of
        None \<Rightarrow> None
      | Some d \<Rightarrow> if digLen = 1 \<and> val = 0 then None
                 else (let v = val * 10 + d
                       in if v > 255 then None else octet_loop cs v (digLen + 1)))"

definition parse_v4 :: "string \<Rightarrow> u8 list option" where
  "parse_v4 s =
     (case map (\<lambda>f. octet_loop f 0 0) (go_split (CHR ''.'') s) of
        [Some a, Some b, Some c, Some d] \<Rightarrow> Some [of_nat a, of_nat b, of_nat c, of_nat d]
      | _ \<Rightarrow> None)"

definition hex_group :: "string \<Rightarrow> nat" where
  "hex_group ds = foldl (\<lambda>acc c. acc * 16 + (case hex_val c of Some v \<Rightarrow> v | None \<Rightarrow> 0)) 0 ds"

function v6_groups ::
    "string \<Rightarrow> u8 list \<Rightarrow> nat option \<Rightarrow> (string \<times> u8 list \<times> nat option) option" where
  "v6_groups s ip ell =
     (if \<not> length ip < 16 then Some (s, ip, ell)
      else
        (let ds = takeWhile (\<lambda>c. hex_val c \<noteq> None) s; off = length ds
         in if off > 4 then None
            else if off = 0 then None
            else if off < length s \<and> s ! off = CHR ''.'' then
              (if ell = None \<and> length ip \<noteq> 12 then None
               else if length ip + 4 > 16 then None
               else (case parse_v4 s of None \<Rightarrow> None | Some b \<Rightarrow> Some ([], ip @ b, ell)))
            else
              (let acc = hex_group ds;
                   ip' = ip @ [of_nat (acc div 256), of_nat acc];
                   s' = drop off s
               in if s' = [] then Some ([], ip', ell)
                  else if hd s' \<noteq> CHR '':'' then None
                  else if length s' = 1 then None
                  else if hd (tl s') = CHR '':'' then
                    (if ell \<noteq> None then None
                     else if tl (tl s') = [] then Some ([], ip', Some (length ip'))
                     else v6_groups (tl (tl s')) ip' (Some (length ip')))
                  else v6_groups (tl s') ip' ell)))"
  by pat_completeness auto
termination
  by (relation "measure (\<lambda>(s, ip, ell). 16 - length ip)") auto

declare v6_groups.simps [simp del]

definition parse_v6 :: "string \<Rightarrow> (u8 list \<times> string) option" where
  "parse_v6 inp =
     (let (s, zone, zone_ok) =
        (case index_byte inp (CHR ''%'') of
           None \<Rightarrow> (inp, [], True)
         | Some i \<Rightarrow> (take i inp, drop (i + 1) inp, drop (i + 1) inp \<noteq> []))
      in if \<not> zone_ok then None
         else
           (let lead = has_prefix s ''::'';
                s0 = (if lead then drop 2 s else s)
            in if lead \<and> s0 = [] then Some (replicate 16 0, zone)
               else (case v6_groups s0 [] (if lead then Some 0 else None) of
                       None \<Rightarrow> None
                     | Some (rest, ip, ell) \<Rightarrow>
                         if rest \<noteq> [] then None
                         else if length ip < 16 then
                           (case ell of
                              None \<Rightarrow> None
                            | Some e \<Rightarrow>
                                Some (take e ip @ replicate (16 - length ip) 0 @ drop e ip, zone))
                         else if ell \<noteq> None then None
                         else Some (ip, zone))))"

datatype netip = V4 "u8 list" | V6 "u8 list" string

text \<open>\<open>netip.ParseAddr\<close>: the first of dot, colon and percent sign decides.\<close>

definition ParseAddr :: "string \<Rightarrow> netip option" where
  "ParseAddr s =
     (case dropWhile (\<lambda>c. c \<notin> {CHR ''.'', CHR '':'', CHR ''%''}) s of
        [] \<Rightarrow> None
      | c # _ \<Rightarrow>
          if c = CHR ''.'' then map_option V4 (parse_v4 s)
          else if c = CHR '':'' then map_option (\<lambda>(b, z). V6 b z) (parse_v6 s)
          else None)"

definition v4InV6Prefix :: "u8 list" where
  "v4InV6Prefix = replicate 10 0 @ [0xFF, 0xFF]"

definition ParseIP :: "string \<Rightarrow> ip option" where
  "ParseIP s =
     (case ParseAddr s of
        None \<Rightarrow> None
      | Some (V4 b) \<Rightarrow> Some (v4InV6Prefix @ b)
      | Some (V6 b z) \<Rightarrow> if z \<noteq> [] then None else Some b)"

subsection \<open>\<open>net.ParseCIDR\<close> and \<open>IPNet.Contains\<close>\<close>

definition To4 :: "ip \<Rightarrow> u8 list option" where
  "To4 ip =
     (if length ip = 4 then Some ip
      else if length ip = 16 \<and> take 12 ip = v4InV6Prefix then Some (drop 12 ip)
      else None)"

text \<open>\<open>net.CIDRMask\<close>: the first \<open>ones\<close> bits set, over \<open>k\<close> bytes.\<close>

fun CIDRMask :: "nat \<Rightarrow> nat \<Rightarrow> u8 list" where
  "CIDRMask ones 0 = []"
| "CIDRMask ones (Suc k) =
     (if 8 \<le> ones then 0xFF # CIDRMask (ones - 8) k
      else NOT (drop_bit ones 0xFF) # CIDRMask 0 k)"

record IPNet =
  net_IP :: "u8 list"
  net_Mask :: "u8 list"

definition ip_mask :: "u8 list \<Rightarrow> u8 list \<Rightarrow> u8 list" where
  "ip_mask ip m =
     (let ip' = (if length m = 4 \<and> length ip = 16 \<and> take 12 ip = v4InV6Prefix then drop 12 ip else ip)
      in if length ip' \<noteq> length m then [] else map2 (AND) ip' m)"

text \<open>The decimal prefix length: digits only, at least one, below \<open>0xFFFFFF\<close>.\<close>

fun dtoi :: "string \<Rightarrow> nat \<Rightarrow> nat option" where
  "dtoi [] n = Some n"
| "dtoi (c # cs) n =
     (case digit_val c of
        None \<Rightarrow> None
      | Some d \<Rightarrow> (let n' = n * 10 + d in if n' \<ge> 0xFFFFFF then None else dtoi cs n'))"

definition ParseCIDR :: "string \<Rightarrow> IPNet option" where
  "ParseCIDR s =
     (case index_byte s (CHR ''/'') of
        None \<Rightarrow> None
      | Some i \<Rightarrow>
          (let addr = take i s; mask = drop (i + 1) s
           in case ParseAddr addr of
                None \<Rightarrow> None
              | Some (V4 b) \<Rightarrow>
                  (case (if mask = [] then None else dtoi mask 0) of
                     None \<Rightarrow> None
                   | Some n \<Rightarrow> if n > 32 then None
                              else Some \<lparr>net_IP = ip_mask (v4InV6Prefix @ b) (CIDRMask n 4),
                                         net_Mask = CIDRMask n 4\<rparr>)
              | Some (V6 b z) \<Rightarrow>
                  if z \<noteq> [] then None
                  else (case (if mask = [] then None else dtoi mask 0) of
                          None \<Rightarrow> None
                        | Some n \<Rightarrow> if n > 128 then None
                                   else Some \<lparr>net_IP = ip_mask b (CIDRMask n 16),
                                              net_Mask = CIDRMask n 16\<rparr>)))"

definition networkNumberAndMask :: "IPNet \<Rightarrow> (u8 list \<times> u8 list) option" where
  "networkNumberAndMask n =
     (let ip = (case To4 (net_IP n) of
                  Some x \<Rightarrow> Some x
                | None \<Rightarrow> if length (net_IP n) \<noteq> 16 then None else Some (net_IP n))
      in case ip of
           None \<Rightarrow> None
         | Some a \<Rightarrow>
             if length (net_Mask n) = 4 then (if length a \<noteq> 4 then None else Some (a, net_Mask n))
             else if length (net_Mask n) = 16 then
               (if length a = 4 then Some (a, drop 12 (net_Mask n)) else Some (a, net_Mask n))
             else None)"

definition Contains :: "IPNet \<Rightarrow> ip \<Rightarrow> bool" where
  "Contains n ip =
     (case networkNumberAndMask n of
        None \<Rightarrow> False
      | Some (nn, m) \<Rightarrow>
          (let x = (case To4 ip of Some y \<Rightarrow> y | None \<Rightarrow> ip)
           in length x = length nn \<and> map2 (AND) nn m = map2 (AND) x m))"

definition ip_Equal :: "ip \<Rightarrow> ip \<Rightarrow> bool" where
  "ip_Equal a b =
     (if length a = length b then a = b
      else if length a = 4 \<and> length b = 16 then take 12 b = v4InV6Prefix \<and> a = drop 12 b
      else if length a = 16 \<and> length b = 4 then take 12 a = v4InV6Prefix \<and> drop 12 a = b
      else False)"

definition IsLoopback :: "ip \<Rightarrow> bool" where
  "IsLoopback ip =
     (case To4 ip of
        Some b \<Rightarrow> hd b = 127
      | None \<Rightarrow> ip_Equal ip (replicate 15 0 @ [1]))"

subsection \<open>The connection-token allowlist\<close>

fun allowed_entries :: "string list \<Rightarrow> ip \<Rightarrow> bool" where
  "allowed_entries [] connectingIP = False"
| "allowed_entries (raw # rest) connectingIP =
     (let entry = trim_space raw
      in if entry = [] then allowed_entries rest connectingIP
         else (case ParseCIDR entry of
                 Some cidr \<Rightarrow>
                   if Contains cidr connectingIP then True else allowed_entries rest connectingIP
               | None \<Rightarrow>
                   (case ParseIP entry of
                      Some ip \<Rightarrow>
                        if ip_Equal ip connectingIP then True
                        else allowed_entries rest connectingIP
                    | None \<Rightarrow> allowed_entries rest connectingIP)))"

definition isIPAllowed :: "string \<Rightarrow> string \<Rightarrow> bool" where
  "isIPAllowed remoteAddr allowedIPs =
     (if allowedIPs = [] then True
      else
        (let host = (case SplitHostPort remoteAddr of Some (h, p) \<Rightarrow> h | None \<Rightarrow> remoteAddr)
         in case ParseIP host of
              None \<Rightarrow> False
            | Some connectingIP \<Rightarrow>
                allowed_entries (go_split (CHR '','') allowedIPs) connectingIP))"

subsection \<open>The admin allowlist\<close>

text \<open>
  The source keys its set of exact addresses by \<open>ip.String()\<close>, the canonical text, which is one
  per address; the set of addresses stands for it.
\<close>

record ipAllowlist =
  al_exact :: "ip list"
  al_cidrs :: "IPNet list"

definition al_contains :: "ipAllowlist \<Rightarrow> ip \<Rightarrow> bool" where
  "al_contains a ip =
     (if List.member (al_exact a) ip then True else list_ex (\<lambda>c. Contains c ip) (al_cidrs a))"

definition v4_loopback :: ip where
  "v4_loopback = v4InV6Prefix @ [127, 0, 0, 1]"

definition v6_loopback :: ip where
  "v6_loopback = replicate 15 0 @ [1]"

fun allowlist_loop :: "string list \<Rightarrow> ipAllowlist \<Rightarrow> ipAllowlist" where
  "allowlist_loop [] result = result"
| "allowlist_loop (raw # rest) result =
     (let entry = trim_space raw
      in if entry = [] then allowlist_loop rest result
         else if go_contains entry ''/'' then
           (case ParseCIDR entry of
              None \<Rightarrow> allowlist_loop rest result
            | Some cidr \<Rightarrow> allowlist_loop rest (result\<lparr>al_cidrs := al_cidrs result @ [cidr]\<rparr>))
         else
           (case ParseIP entry of
              None \<Rightarrow> allowlist_loop rest result
            | Some ip \<Rightarrow>
                (let exact = List.insert ip (al_exact result);
                     exact' = (if IsLoopback ip
                               then List.insert v6_loopback (List.insert v4_loopback exact)
                               else exact)
                 in allowlist_loop rest (result\<lparr>al_exact := exact'\<rparr>))))"

definition parseAllowlist :: "string \<Rightarrow> ipAllowlist" where
  "parseAllowlist csv =
     (let result = \<lparr>al_exact = [], al_cidrs = []\<rparr>
      in if csv = [] then result else allowlist_loop (go_split (CHR '','') csv) result)"

definition clientIP :: "string \<Rightarrow> ip option" where
  "clientIP remoteAddr =
     (case SplitHostPort remoteAddr of
        None \<Rightarrow> (case ParseIP remoteAddr of Some ip \<Rightarrow> Some ip | None \<Rightarrow> None)
      | Some (host, port) \<Rightarrow> ParseIP host)"

datatype ip_decision = IPPass | IPDenied nat string

definition AdminIPAllowlist :: "string \<Rightarrow> string \<Rightarrow> ip_decision" where
  "AdminIPAllowlist allowedCSV remoteAddr =
     (let allowed = parseAllowlist allowedCSV
      in if al_exact allowed = [] \<and> al_cidrs allowed = [] then IPPass
         else (case clientIP remoteAddr of
                 None \<Rightarrow> IPDenied 403 ''Access denied''
               | Some ip \<Rightarrow>
                   if \<not> al_contains allowed ip then IPDenied 403 ''Access denied'' else IPPass))"

subsection \<open>Prefix matching is equality of the leading bits\<close>

definition byte_bits :: "u8 \<Rightarrow> bool list" where
  "byte_bits b = map (bit b) (rev [0..<8])"

definition ip_bits :: "u8 list \<Rightarrow> bool list" where
  "ip_bits bs = concat (map byte_bits bs)"

lemma length_byte_bits [simp]: "length (byte_bits b) = 8"
  by (simp add: byte_bits_def)

lemma ip_bits_Cons: "ip_bits (b # bs) = byte_bits b @ ip_bits bs"
  by (simp add: ip_bits_def)

lemma byte_bits_inject: "byte_bits a = byte_bits b \<longleftrightarrow> a = b"
proof
  assume "byte_bits a = byte_bits b"
  then have "bit a i = bit b i" if "i < 8" for i
    using that by (auto simp: byte_bits_def)
  then show "a = b"
    by (intro bit_eqI) (auto simp: bit_imp_le_length dest: bit_imp_le_length)
qed simp

lemma bit_mask_byte:
  "n < 8 \<Longrightarrow> bit (NOT (drop_bit n 0xFF) :: u8) i \<longleftrightarrow> i < 8 \<and> 8 - n \<le> i"
proof -
  have ff: "(0xFF :: u8) = mask 8"
    by (simp add: mask_eq_exp_minus_1)
  assume "n < 8"
  then show ?thesis
    unfolding ff by (auto simp: bit_simps)
qed

lemma and_mask_byte:
  assumes "n < 8"
  shows "(a AND NOT (drop_bit n 0xFF) = b AND NOT (drop_bit n (0xFF :: u8))) \<longleftrightarrow>
    take n (byte_bits a) = take n (byte_bits b)" (is "?L \<longleftrightarrow> ?R")
proof -
  have "?L \<longleftrightarrow> (\<forall>i. 8 - n \<le> i \<and> i < 8 \<longrightarrow> bit a i = bit b i)"
    using bit_mask_byte [OF assms] by (auto simp: bit_eq_iff bit_and_iff)
  also have "\<dots> \<longleftrightarrow> (\<forall>k < n. bit a (7 - k) = bit b (7 - k))"
  proof (rule iffI; intro allI impI)
    fix i assume *: "\<forall>k < n. bit a (7 - k) = bit b (7 - k)" and "8 - n \<le> i \<and> i < 8"
    then show "bit a i = bit b i"
      using * [rule_format, of "7 - i"] assms by (cases "7 - (7 - i) = i") auto
  next
    fix k assume *: "\<forall>i. 8 - n \<le> i \<and> i < 8 \<longrightarrow> bit a i = bit b i" and "k < n"
    then have "8 - n \<le> 7 - k \<and> 7 - k < 8" using assms by linarith
    then show "bit a (7 - k) = bit b (7 - k)" using * by blast
  qed
  also have "\<dots> \<longleftrightarrow> ?R"
    using assms by (auto simp: byte_bits_def list_eq_iff_nth_eq rev_nth)
  finally show ?thesis .
qed

lemma map2_mask_eq:
  assumes "length a = k" and "length b = k"
  shows "(map2 (AND) a (CIDRMask n k) = map2 (AND) b (CIDRMask n k)) \<longleftrightarrow>
    take n (ip_bits a) = take n (ip_bits b)"
  using assms
proof (induction k arbitrary: n a b)
  case 0
  then show ?case by (simp add: ip_bits_def)
next
  case (Suc k)
  obtain x a' y b' where ab: "a = x # a'" "b = y # b'" "length a' = k" "length b' = k"
    using Suc.prems by (metis length_Suc_conv)
  have ff: "x AND 0xFF = x" for x :: u8
  proof -
    have "(0xFF :: u8) = - 1" by simp
    then show ?thesis by (simp only: and.right_neutral)
  qed
  show ?case
  proof (cases "8 \<le> n")
    case True
    then show ?thesis
      using Suc.IH [OF ab(3,4), of "n - 8"]
      by (simp add: ab ip_bits_Cons byte_bits_inject [symmetric] take_all ff)
  next
    case False
    then show ?thesis
      using Suc.IH [OF ab(3,4), of 0] and_mask_byte [of n x y]
      by (simp add: ab ip_bits_Cons)
  qed
qed

lemma length_CIDRMask [simp]: "length (CIDRMask n k) = k"
  by (induction n k rule: CIDRMask.induct) auto

lemma length_v4InV6Prefix [simp]: "length v4InV6Prefix = 12"
  by (simp add: v4InV6Prefix_def)

lemma and_mask_idem:
  "map2 (AND) (map2 (AND) (a :: u8 list) m) m = map2 (AND) a m"
proof (induction a arbitrary: m)
  case (Cons x a)
  then show ?case by (cases m) (simp_all add: and.assoc)
qed simp

lemma Contains_v4_bits:
  assumes "length b = 4" and "length x = 4"
  shows "Contains \<lparr>net_IP = ip_mask (v4InV6Prefix @ b) (CIDRMask n 4), net_Mask = CIDRMask n 4\<rparr>
      (v4InV6Prefix @ x) \<longleftrightarrow> take n (ip_bits b) = take n (ip_bits x)"
proof -
  have "To4 (v4InV6Prefix @ x) = Some x" and "To4 (map2 (AND) b (CIDRMask n 4)) = Some (map2 (AND) b (CIDRMask n 4))"
    using assms by (simp_all add: To4_def)
  then show ?thesis
    using assms map2_mask_eq [of b 4 x n]
    by (simp add: Contains_def networkNumberAndMask_def ip_mask_def and_mask_idem Let_def)
qed

definition dec_text :: "nat \<Rightarrow> string" where
  "dec_text n = (if n < 10 then [char_of (48 + n)]
                 else if n < 100 then [char_of (48 + n div 10), char_of (48 + n mod 10)]
                 else [char_of (48 + n div 100), char_of (48 + n div 10 mod 10), char_of (48 + n mod 10)])"

lemma digit_val_char: "d < 10 \<Longrightarrow> digit_val (char_of (48 + d)) = Some d"
  by (simp add: digit_val_def in_range_def)

lemma octet3:
  assumes "h < 10" "t < 10" "u < 10" "0 < h" "h * 100 + t * 10 + u \<le> 255"
  shows "octet_loop [char_of (48 + h), char_of (48 + t), char_of (48 + u)] 0 0 = Some (h * 100 + t * 10 + u)"
    and "dtoi [char_of (48 + h), char_of (48 + t), char_of (48 + u)] 0 = Some (h * 100 + t * 10 + u)"
proof -
  have eq: "(h * 10 + t) * 10 + u = h * 100 + t * 10 + u"
    by simp
  have "h * 10 + t \<le> 255" "h \<le> 255" "h * 10 + t \<noteq> 0" "(h * 10 + t) * 10 + u \<le> 255"
    using assms unfolding eq by linarith+
  then show "octet_loop [char_of (48 + h), char_of (48 + t), char_of (48 + u)] 0 0 = Some (h * 100 + t * 10 + u)"
    and "dtoi [char_of (48 + h), char_of (48 + t), char_of (48 + u)] 0 = Some (h * 100 + t * 10 + u)"
    using assms by (simp_all add: digit_val_char Let_def)
qed

lemma octet2:
  assumes "t < 10" "u < 10" "0 < t"
  shows "octet_loop [char_of (48 + t), char_of (48 + u)] 0 0 = Some (t * 10 + u)"
    and "dtoi [char_of (48 + t), char_of (48 + u)] 0 = Some (t * 10 + u)"
  using assms by (simp_all add: digit_val_char Let_def)

lemma octet1:
  assumes "u < 10"
  shows "octet_loop [char_of (48 + u)] 0 0 = Some u" and "dtoi [char_of (48 + u)] 0 = Some u"
  using assms by (simp_all add: digit_val_char Let_def)

lemma dec_text_cases:
  assumes "n \<le> 255"
  obtains u where "u < 10" "n = u" "dec_text n = [char_of (48 + u)]"
  | t u where "t < 10" "u < 10" "0 < t" "n = t * 10 + u" "dec_text n = [char_of (48 + t), char_of (48 + u)]"
  | h t u where "h < 10" "t < 10" "u < 10" "0 < h" "n = h * 100 + t * 10 + u"
      "dec_text n = [char_of (48 + h), char_of (48 + t), char_of (48 + u)]"
proof -
  consider "n < 10" | "10 \<le> n" "n < 100" | "100 \<le> n" by linarith
  then show ?thesis
  proof cases
    case 1
    then show ?thesis using that(1) [of n] by (simp add: dec_text_def)
  next
    case 2
    then have "n div 10 < 10" "0 < n div 10" "n = n div 10 * 10 + n mod 10" by auto
    then show ?thesis using that(2) [of "n div 10" "n mod 10"] 2 by (simp add: dec_text_def)
  next
    case 3
    have "n div 100 < 10" "0 < n div 100" using 3 assms by linarith+
    moreover have "n = n div 100 * 100 + n div 10 mod 10 * 10 + n mod 10"
    proof -
      have "n div 100 = n div 10 div 10" by (simp add: div_mult2_eq [symmetric])
      then show ?thesis
        using div_mult_mod_eq [of n 10] div_mult_mod_eq [of "n div 10" 10] by linarith
    qed
    moreover have "dec_text n = [char_of (48 + n div 100), char_of (48 + n div 10 mod 10), char_of (48 + n mod 10)]"
      using 3 by (simp add: dec_text_def)
    ultimately show ?thesis using that(3) [of "n div 100" "n div 10 mod 10" "n mod 10"] by simp
  qed
qed

definition decimal :: "char set" where
  "decimal = {c. digit_val c \<noteq> None}"

lemma decimal_char_of: "(d :: nat) < 10 \<Longrightarrow> char_of (48 + d) \<in> decimal"
  by (simp add: decimal_def digit_val_char)

definition separators :: "char list" where
  "separators = [CHR ''.'', CHR '','', CHR ''/'', CHR '':'', CHR ''%'', CHR ''['', CHR '']'',
     CHR '' '', CHR 0x09, CHR 0x0A, CHR 0x0B, CHR 0x0C, CHR 0x0D]"

lemma of_char_CHR:
  "digit_val c = None \<longleftrightarrow> (of_char c :: nat) < 48 \<or> 57 < (of_char c :: nat)"
  by (auto simp: digit_val_def in_range_def)

lemma separators_not_decimal: "list_all (\<lambda>c. digit_val c = None) separators"
  by (simp add: separators_def of_char_CHR)

lemma not_decimal: "c \<in> set separators \<Longrightarrow> c \<notin> decimal"
  using separators_not_decimal by (auto simp: list_all_iff decimal_def)

lemma separator_chars [simp]:
  "CHR ''.'' \<notin> decimal" "CHR '','' \<notin> decimal" "CHR ''/'' \<notin> decimal" "CHR '':'' \<notin> decimal"
  "CHR ''%'' \<notin> decimal" "CHR ''['' \<notin> decimal" "CHR '']'' \<notin> decimal"
  by (rule not_decimal, simp add: separators_def)+

lemma dec_text_facts:
  assumes "n \<le> 255"
  shows "octet_loop (dec_text n) 0 0 = Some n" and "dtoi (dec_text n) 0 = Some n"
    and "set (dec_text n) \<subseteq> decimal" and "dec_text n \<noteq> []"
proof -
  from assms show "octet_loop (dec_text n) 0 0 = Some n"
    by (rule dec_text_cases) (metis octet1(1), metis octet2(1), metis assms octet3(1))
  from assms show "dtoi (dec_text n) 0 = Some n"
    by (rule dec_text_cases) (metis octet1(2), metis octet2(2), metis assms octet3(2))
  from assms show "set (dec_text n) \<subseteq> decimal"
    by (rule dec_text_cases) (simp_all add: decimal_char_of)
  from assms show "dec_text n \<noteq> []"
    by (rule dec_text_cases) simp_all
qed

text \<open>The text of an IPv4 address given by its four octets.\<close>

definition dotted :: "nat list \<Rightarrow> string" where
  "dotted os = go_join ''.'' (map dec_text os)"

definition octets :: "nat list \<Rightarrow> bool" where
  "octets os \<longleftrightarrow> length os = 4 \<and> (\<forall>n \<in> set os. n \<le> 255)"

lemma octetsE:
  assumes "octets os"
  obtains a b c d where "os = [a, b, c, d]" "a \<le> 255" "b \<le> 255" "c \<le> 255" "d \<le> 255"
  using assms by (auto simp: octets_def length_Suc_conv numeral_eq_Suc)

lemma dotted_chars:
  assumes "octets os"
  shows "set (dotted os) \<subseteq> insert (CHR ''.'') decimal \<and> dotted os \<noteq> [] \<and> hd (dotted os) \<in> decimal
    \<and> last (dotted os) \<in> decimal \<and> CHR ''.'' \<in> set (dotted os)"
  using assms
proof (rule octetsE)
  fix a b c d
  assume os: "os = [a, b, c, d]" "a \<le> 255" "b \<le> 255" "c \<le> 255" "d \<le> 255"
  have "hd (dec_text a) \<in> decimal" "last (dec_text d) \<in> decimal"
    using dec_text_facts(3,4) [OF os(2)] dec_text_facts(3,4) [OF os(5)] by auto
  then show ?thesis
    using os dec_text_facts(3,4) [of a] dec_text_facts(3) [of b] dec_text_facts(3) [of c]
      dec_text_facts(3,4) [of d]
    by (auto simp: dotted_def)
qed

lemma parse_v4_dotted:
  assumes "octets os"
  shows "parse_v4 (dotted os) = Some (map of_nat os)"
  using assms
proof (rule octetsE)
  fix a b c d
  assume os: "os = [a, b, c, d]" "a \<le> 255" "b \<le> 255" "c \<le> 255" "d \<le> 255"
  have "\<forall>s \<in> set (map dec_text os). CHR ''.'' \<notin> set s"
    using dec_text_facts(3) os by (auto dest!: subsetD [OF dec_text_facts(3)])
  then have "go_split (CHR ''.'') (dotted os) = map dec_text os"
    unfolding dotted_def by (rule go_split_join [rotated]) (simp add: os)
  then show ?thesis
    using os dec_text_facts(1) by (simp add: parse_v4_def)
qed

lemma dropWhile_first:
  assumes "set s \<subseteq> insert x A" and "x \<in> set s" and "\<forall>c \<in> A. P c" and "\<not> P x"
  shows "\<exists>t. dropWhile P s = x # t"
  using assms by (induction s) auto

lemma decimal_not_sep: "c \<in> decimal \<Longrightarrow> c \<notin> set separators"
  using not_decimal by blast

lemma ParseAddr_dotted:
  assumes "octets os"
  shows "ParseAddr (dotted os) = Some (V4 (map of_nat os))"
proof -
  obtain t where "dropWhile (\<lambda>c. c \<notin> {CHR ''.'', CHR '':'', CHR ''%''}) (dotted os) = CHR ''.'' # t"
    using dropWhile_first [of "dotted os" "CHR ''.''" decimal "\<lambda>c. c \<notin> {CHR ''.'', CHR '':'', CHR ''%''}"]
      dotted_chars [OF assms] decimal_not_sep by (auto simp: separators_def)
  then show ?thesis
    using parse_v4_dotted [OF assms] by (simp add: ParseAddr_def)
qed

lemma ParseIP_dotted:
  "octets os \<Longrightarrow> ParseIP (dotted os) = Some (v4InV6Prefix @ map of_nat os)"
  by (simp add: ParseIP_def ParseAddr_dotted)

lemma index_byte_append: "c \<notin> set s \<Longrightarrow> index_byte (s @ c # t) c = Some (length s)"
  by (induction s) auto

lemma index_byte_None: "index_byte s c = None \<longleftrightarrow> c \<notin> set s"
  by (induction s) auto

lemma ParseCIDR_dotted:
  assumes "octets os" and "n \<le> 32"
  shows "ParseCIDR (dotted os @ ''/'' @ dec_text n) =
    Some \<lparr>net_IP = ip_mask (v4InV6Prefix @ map of_nat os) (CIDRMask n 4), net_Mask = CIDRMask n 4\<rparr>"
proof -
  have "CHR ''/'' \<notin> set (dotted os)"
    using dotted_chars [OF assms(1)] by auto
  then show ?thesis
    using assms dec_text_facts(2,4) [of n]
    by (simp add: ParseCIDR_def index_byte_append ParseAddr_dotted)
qed

lemma SplitHostPort_plain:
  assumes "host \<noteq> []" and "set host \<inter> set '':[]'' = {}" and "set port \<inter> set '':[]'' = {}"
  shows "SplitHostPort (host @ '':'' @ port) = Some (host, port)"
proof -
  have "last_index (host @ '':'' @ port) (CHR '':'') = Some (length host)"
    using assms index_byte_append [of "CHR '':''" "rev port" "rev host"] by (simp add: last_index_def)
  moreover have "(host @ '':'' @ port) ! 0 \<noteq> CHR ''[''"
    using assms by (cases host) auto
  ultimately show ?thesis
    using assms by (auto simp: SplitHostPort_def index_byte_None)
qed

lemma trim_cidr_text:
  assumes os: "octets os" and n: "n \<le> 255"
  shows "trim_space (dotted os @ ''/'' @ dec_text n) = dotted os @ ''/'' @ dec_text n"
proof (rule trim_space_id)
  have dec: "c \<in> decimal \<Longrightarrow> \<not> is_space c" for c
    using decimal_not_sep [of c] by (auto simp: is_space_def separators_def)
  have "hd (dotted os @ ''/'' @ dec_text n) \<in> decimal" "last (dotted os @ ''/'' @ dec_text n) \<in> decimal"
    using dotted_chars [OF os] dec_text_facts(3,4) [OF n] by auto
  then show "dotted os @ ''/'' @ dec_text n = [] \<or> \<not> is_space (hd (dotted os @ ''/'' @ dec_text n)) \<and>
      \<not> is_space (last (dotted os @ ''/'' @ dec_text n))"
    using dec by blast
qed

text \<open>C19: An allowlist entry in CIDR form admits exactly the IPv4 peers whose leading \<open>n\<close> bits are
  those of the entry, for every prefix length up to 32 and every port.\<close>

theorem cidr_entry_decides:
  assumes "octets net" and "octets peer" and "n \<le> 32" and "set port \<inter> set '':[]'' = {}"
  shows "isIPAllowed (dotted peer @ '':'' @ port) (dotted net @ ''/'' @ dec_text n) =
    (take n (ip_bits (map of_nat net)) = take n (ip_bits (map of_nat peer)))"
proof -
  let ?e = "dotted net @ ''/'' @ dec_text n"
  have host: "dotted peer \<noteq> []" "set (dotted peer) \<inter> set '':[]'' = {}"
    using dotted_chars [OF assms(2)] decimal_not_sep by (auto simp: separators_def)
  have "CHR '','' \<notin> set ?e"
    using dotted_chars [OF assms(1)] dec_text_facts(3) [of n] assms(3) decimal_not_sep
    by (auto simp: separators_def)
  then have split: "go_split (CHR '','') ?e = [?e]"
    by (rule go_split_no_sep)
  have trim: "trim_space ?e = ?e"
    by (rule trim_cidr_text) (use assms in auto)
  have len: "length (map of_nat net :: u8 list) = 4" "length (map of_nat peer :: u8 list) = 4"
    using assms by (simp_all add: octets_def)
  show ?thesis
    using SplitHostPort_plain [OF host assms(4)] ParseIP_dotted [OF assms(2)]
      ParseCIDR_dotted [OF assms(1,3)] Contains_v4_bits [OF len, of n] dotted_chars [OF assms(1)]
    by (simp add: isIPAllowed_def split trim Let_def del: append.simps)
qed

lemma cidr_entry_decides_witness:
  "isIPAllowed ''10.1.2.3:443'' ''10.0.0.0/8'' \<and> \<not> isIPAllowed ''11.1.2.3:443'' ''10.0.0.0/8''"
proof -
  have texts: "dotted [10, 1, 2, 3] = ''10.1.2.3''" "dotted [11, 1, 2, 3] = ''11.1.2.3''"
      "dotted [10, 0, 0, 0] = ''10.0.0.0''" "dec_text 8 = ''8''"
    by code_simp+
  have bits: "take 8 (ip_bits (map of_nat [10, 0, 0, 0])) = take 8 (ip_bits (map of_nat [10, 1, 2, 3]))"
      "take 8 (ip_bits (map of_nat [10, 0, 0, 0])) \<noteq> take 8 (ip_bits (map of_nat [11, 1, 2, 3]))"
    by (simp_all add: ip_bits_Cons byte_bits_inject)
  show ?thesis
    using cidr_entry_decides [of "[10, 0, 0, 0]" "[10, 1, 2, 3]" 8 "''443''"]
      cidr_entry_decides [of "[10, 0, 0, 0]" "[11, 1, 2, 3]" 8 "''443''"] bits
    by (simp add: texts octets_def del: One_nat_def)
qed

subsection \<open>The admin allowlist against its documentation\<close>

text \<open>
  The declarative reading: an entry with a slash admits the addresses of its network, any other
  entry its own address, and a loopback entry both loopback addresses.
\<close>

definition entries :: "string \<Rightarrow> string list" where
  "entries csv = filter (\<lambda>e. e \<noteq> []) (map trim_space (go_split (CHR '','') csv))"

definition entry_valid :: "string \<Rightarrow> bool" where
  "entry_valid e = (if go_contains e ''/'' then ParseCIDR e \<noteq> None else ParseIP e \<noteq> None)"

definition entry_admits :: "string \<Rightarrow> ip \<Rightarrow> bool" where
  "entry_admits e ip =
     (if go_contains e ''/'' then (case ParseCIDR e of None \<Rightarrow> False | Some c \<Rightarrow> Contains c ip)
      else (case ParseIP e of None \<Rightarrow> False
            | Some a \<Rightarrow> a = ip \<or> (IsLoopback a \<and> (ip = v4_loopback \<or> ip = v6_loopback))))"

lemma al_contains_cidr:
  "al_contains (a\<lparr>al_cidrs := al_cidrs a @ [c]\<rparr>) ip \<longleftrightarrow> al_contains a ip \<or> Contains c ip"
  by (auto simp: al_contains_def)

lemma al_contains_exact:
  "al_contains (a\<lparr>al_exact := xs\<rparr>) ip \<longleftrightarrow> ip \<in> set xs \<or> list_ex (\<lambda>c. Contains c ip) (al_cidrs a)"
  by (auto simp: al_contains_def)

lemma al_contains_iff:
  "al_contains a ip \<longleftrightarrow> ip \<in> set (al_exact a) \<or> list_ex (\<lambda>c. Contains c ip) (al_cidrs a)"
  by (auto simp: al_contains_def)

lemma allowlist_loop_contains:
  "al_contains (allowlist_loop raws a) ip \<longleftrightarrow>
     al_contains a ip \<or> (\<exists>e \<in> set (filter (\<lambda>e. e \<noteq> []) (map trim_space raws)). entry_admits e ip)"
proof (induction raws arbitrary: a)
  case Nil
  then show ?case by simp
next
  case (Cons raw rest)
  let ?e = "trim_space raw"
  consider "?e = []" | "?e \<noteq> []" "go_contains ?e ''/''" "ParseCIDR ?e = None"
    | c where "?e \<noteq> []" "go_contains ?e ''/''" "ParseCIDR ?e = Some c"
    | "?e \<noteq> []" "\<not> go_contains ?e ''/''" "ParseIP ?e = None"
    | x where "?e \<noteq> []" "\<not> go_contains ?e ''/''" "ParseIP ?e = Some x"
    by (cases "ParseCIDR ?e"; cases "ParseIP ?e"; blast)
  then show ?case
  proof cases
    case (3 c)
    then show ?thesis
      using Cons.IH by (simp add: Let_def al_contains_cidr entry_admits_def [of ?e])
  next
    case (5 x)
    then show ?thesis
      using Cons.IH by (cases "IsLoopback x")
        (auto simp: Let_def al_contains_exact al_contains_iff [of a] entry_admits_def [of ?e])
  qed (use Cons.IH in \<open>auto simp: Let_def entry_admits_def [of ?e]\<close>)
qed

lemma allowlist_loop_empty:
  "(al_exact (allowlist_loop raws a) = [] \<and> al_cidrs (allowlist_loop raws a) = []) \<longleftrightarrow>
     al_exact a = [] \<and> al_cidrs a = [] \<and>
     \<not> (\<exists>e \<in> set (filter (\<lambda>e. e \<noteq> []) (map trim_space raws)). entry_valid e)"
proof -
  have ins: "List.insert x xs \<noteq> []" for x :: ip and xs
    by (cases xs) (auto simp: List.insert_def)
  show ?thesis
    by (induction raws a rule: allowlist_loop.induct)
      (auto simp: Let_def entry_valid_def ins split: option.splits)
qed

text \<open>C40: The admin allowlist admits exactly the addresses one of its entries admits, and refuses a
  peer whose address cannot be read, as soon as one entry is valid; when no entry is valid, be it
  because every one is mistyped, it admits everybody.\<close>

theorem AdminIPAllowlist_spec:
  "AdminIPAllowlist csv remote =
     (if list_ex entry_valid (entries csv)
      then (case clientIP remote of
              None \<Rightarrow> IPDenied 403 ''Access denied''
            | Some ip \<Rightarrow> if list_ex (\<lambda>e. entry_admits e ip) (entries csv) then IPPass
                        else IPDenied 403 ''Access denied'')
      else IPPass)"
proof -
  let ?none = "\<lparr>al_exact = [], al_cidrs = []\<rparr>"
  have parse: "parseAllowlist csv = allowlist_loop (go_split (CHR '','') csv) ?none"
    by (simp add: parseAllowlist_def trim_space_def Let_def)
  have "(al_exact (parseAllowlist csv) = [] \<and> al_cidrs (parseAllowlist csv) = []) \<longleftrightarrow>
      \<not> list_ex entry_valid (entries csv)"
    unfolding parse allowlist_loop_empty by (auto simp: entries_def list_ex_iff)
  moreover have "al_contains (parseAllowlist csv) ip \<longleftrightarrow> list_ex (\<lambda>e. entry_admits e ip) (entries csv)" for ip
    unfolding parse allowlist_loop_contains by (auto simp: entries_def list_ex_iff al_contains_def)
  ultimately show ?thesis
    by (auto simp: AdminIPAllowlist_def Let_def split: option.splits)
qed

lemma admin_allowlist_typo_opens:
  "AdminIPAllowlist ''10.0.0.0-24'' ''203.0.113.9:5555'' = IPPass"
  by code_simp

end
