(* ===== verification/Manager.thy ===== *)
theory Manager
  imports Client NetAddr
begin

text \<open>
  The registry of connected modules, \<open>internal/ws/manager.go\<close>.

  The relay compares \<open>*Client\<close> pointers, so clients live in a heap and a pointer is an index into
  it; \<open>NewClient\<close> allocates the next one.  What the manager does to the outside world, the Redis
  commands it issues and the callbacks it makes, is a trace.  Redis itself is a parameter: the
  answers of \<open>GET\<close> and \<open>SCARD\<close> are functions of the key, \<open>None\<close> for an error.  Goroutines started
  with \<open>go existing.DisconnectWithReason\<close> are recorded and run by \<open>run_spawned\<close>.  Log lines are
  left out.
\<close>

record disconnectCmd =
  dc_Kind :: string
  dc_ClientID :: string
  dc_ConnectionTokenID :: int
  dc_APIKey :: string
  dc_Reason :: string
  dc_CloseCode :: int
  dc_Origin :: string

datatype event =
    RSet string string int
  | RSAdd string string
  | RExpire string int
  | RDel string
  | RSRem string string
  | RPublish disconnectCmd
  | CBRemoved string string
  | CBSSEClose string
  | CBConnected string string ClientInfo
  | CBDuplicate string string string string
  | RefuseConn int string

type_synonym group = "(string, bool) gomap"

record 'h manager =
  mg_heap :: "Client list"
  mg_clients :: "(string, nat) gomap"
  mg_tokenGroups :: "(string, group) gomap"
  mg_messageHandlers :: "(string, 'h list) gomap"
  mg_rawMessageHandlers :: "(string, 'h list) gomap"
  mg_redisUp :: bool  \<comment> \<open>\<open>m.redis != nil && m.redis.IsConnected()\<close>\<close>
  mg_instanceID :: string
  mg_hasRemoved :: bool  \<comment> \<open>which callbacks are set\<close>
  mg_hasSSEClose :: bool
  mg_hasConnected :: bool
  mg_hasDuplicate :: bool
  mg_spawned :: "(nat \<times> int \<times> string) list"
  mg_gauge :: int  \<comment> \<open>\<open>metrics.WSConnectionsActive\<close>\<close>
  mg_out :: "event list"

definition clientExpiry :: int where
  "clientExpiry = 2 * 60 * minutes 1"

definition NewClientManager :: "bool \<Rightarrow> string \<Rightarrow> 'h manager" where
  "NewClientManager redisUp instanceID =
     \<lparr>mg_heap = [], mg_clients = [], mg_tokenGroups = [], mg_messageHandlers = [],
      mg_rawMessageHandlers = [], mg_redisUp = redisUp, mg_instanceID = instanceID,
      mg_hasRemoved = False, mg_hasSSEClose = False, mg_hasConnected = False,
      mg_hasDuplicate = False, mg_spawned = [], mg_gauge = 0, mg_out = []\<rparr>"

definition emit :: "event list \<Rightarrow> 'h manager \<Rightarrow> 'h manager" where
  "emit es m = m\<lparr>mg_out := mg_out m @ es\<rparr>"

definition client_key :: "string \<Rightarrow> string \<Rightarrow> string" where
  "client_key cid field = ''client:'' @ cid @ '':'' @ field"

definition apikey_key :: "string \<Rightarrow> string \<Rightarrow> string" where
  "apikey_key token field = ''apikey:'' @ token @ '':'' @ field"

subsection \<open>Groups\<close>

definition group_remove :: "string \<Rightarrow> string \<Rightarrow> (string, group) gomap \<Rightarrow> (string, group) gomap" where
  "group_remove token cid groups =
     (case aget groups token of
        None \<Rightarrow> groups
      | Some grp \<Rightarrow>
          (let grp' = adel cid grp
           in if length grp' = 0 then adel token groups else aput token grp' groups))"

definition group_add :: "string \<Rightarrow> string \<Rightarrow> (string, group) gomap \<Rightarrow> (string, group) gomap" where
  "group_add token cid groups =
     (let grp = (case aget groups token of None \<Rightarrow> [] | Some g \<Rightarrow> g)
      in aput token (aput cid True grp) groups)"

subsection \<open>Registration\<close>

definition host_of :: "string \<Rightarrow> string" where
  "host_of addr = (case SplitHostPort addr of None \<Rightarrow> [] | Some (h, p) \<Rightarrow> h)"

datatype 'h add_result =
    Added nat "'h manager"
  | Rejected string "'h manager"
  | AddPanic string "'h manager"

definition optional_set :: "string \<Rightarrow> string \<Rightarrow> string \<Rightarrow> event list" where
  "optional_set cid field v =
     (if v \<noteq> [] then [RSet (client_key cid field) v clientExpiry] else [])"

definition registration_events :: "string \<Rightarrow> string \<Rightarrow> string \<Rightarrow> hello \<Rightarrow> event list" where
  "registration_events instanceID cid token h =
     [RSet (apikey_key token ''instance'') instanceID clientExpiry,
      RSet (client_key cid ''instance'') instanceID clientExpiry,
      RSet (client_key cid ''apikey'') token clientExpiry]
     @ optional_set cid ''worldId'' (h_worldID h)
     @ optional_set cid ''worldTitle'' (h_worldTitle h)
     @ optional_set cid ''foundryVersion'' (h_foundryVersion h)
     @ optional_set cid ''systemId'' (h_systemID h)
     @ optional_set cid ''systemTitle'' (h_systemTitle h)
     @ optional_set cid ''systemVersion'' (h_systemVersion h)
     @ optional_set cid ''customName'' (h_customName h)
     @ [RSAdd (apikey_key token ''clients'') cid,
        RExpire (apikey_key token ''clients'') clientExpiry]"

definition evict :: "string \<Rightarrow> string \<Rightarrow> nat \<Rightarrow> 'h manager \<Rightarrow> 'h manager" where
  "evict cid token ref m =
     m\<lparr>mg_clients := adel cid (mg_clients m),
       mg_tokenGroups := group_remove token cid (mg_tokenGroups m),
       mg_gauge := mg_gauge m - 1,
       mg_spawned := mg_spawned m @ [(ref, 1000, ''Replaced by reconnect'')]\<rparr>"

definition register ::
    "gotime \<Rightarrow> string option \<Rightarrow> string \<Rightarrow> string \<Rightarrow> string \<Rightarrow> hello \<Rightarrow> 'h manager \<Rightarrow> nat \<times> 'h manager" where
  "register now conn_addr cid token tokenName h m =
     (let ref = length (mg_heap m)
      in (ref, m\<lparr>mg_heap := mg_heap m @ [NewClient now conn_addr cid token tokenName h],
                 mg_clients := aput cid ref (mg_clients m),
                 mg_tokenGroups := group_add token cid (mg_tokenGroups m)\<rparr>))"

text \<open>
  After the lock: the Redis pipeline, the callback, the gauge.  \<open>token[:8]\<close> is evaluated before the
  pipeline and panics on a shorter token.
\<close>

definition announce :: "string \<Rightarrow> string \<Rightarrow> hello \<Rightarrow> nat \<Rightarrow> 'h manager \<Rightarrow> 'h add_result" where
  "announce cid token h ref m =
     (if mg_redisUp m \<and> length token < 8 then AddPanic ''slice bounds out of range'' m
      else
        (let m1 = (if mg_redisUp m
                   then emit (registration_events (mg_instanceID m) cid token h) m else m);
             m2 = (if mg_hasConnected m
                   then emit [CBConnected cid token (Info (mg_instanceID m) (mg_heap m ! ref))] m1
                   else m1)
         in Added ref (m2\<lparr>mg_gauge := mg_gauge m2 + 1\<rparr>)))"

definition AddClient ::
    "gotime \<Rightarrow> string option \<Rightarrow> string \<Rightarrow> string \<Rightarrow> string \<Rightarrow> hello \<Rightarrow> 'h manager \<Rightarrow> 'h add_result" where
  "AddClient now conn_addr cid token tokenName h m =
     (case aget (mg_clients m) cid of
        None \<Rightarrow>
          (let (ref, m1) = register now conn_addr cid token tokenName h m
           in announce cid token h ref m1)
      | Some old \<Rightarrow>
          (let existingIP = cl_ipAddress (mg_heap m ! old);
               newIP = (case conn_addr of None \<Rightarrow> [] | Some a \<Rightarrow> a);
               existingHost = host_of existingIP;
               newHost = host_of newIP
           in if existingHost \<noteq> [] \<and> newHost \<noteq> [] \<and> existingHost = newHost
              then (let (ref, m1) = register now conn_addr cid token tokenName h (evict cid token old m)
                    in announce cid token h ref m1)
              else (let m1 = emit [RefuseConn 4004 ''Client ID already connected''] m;
                        m2 = (if mg_hasDuplicate m
                              then emit [CBDuplicate cid token newIP existingIP] m1 else m1)
                    in Rejected (''duplicate client ID: '' @ cid) m2)))"

definition heap_update :: "nat \<Rightarrow> Client \<Rightarrow> 'h manager \<Rightarrow> 'h manager" where
  "heap_update ref c m = m\<lparr>mg_heap := (mg_heap m)[ref := c]\<rparr>"

text \<open>The started goroutines run, one after the other.\<close>

fun run_spawned_loop :: "(nat \<times> int \<times> string) list \<Rightarrow> 'h manager \<Rightarrow> 'h manager go" where
  "run_spawned_loop [] m = Ret m"
| "run_spawned_loop ((ref, code, r) # rest) m =
     (case DisconnectWithReason code r (mg_heap m ! ref) of
        Panic e \<Rightarrow> Panic e
      | Ret c \<Rightarrow> run_spawned_loop rest (heap_update ref c m))"

definition run_spawned :: "'h manager \<Rightarrow> 'h manager go" where
  "run_spawned m = run_spawned_loop (mg_spawned m) (m\<lparr>mg_spawned := []\<rparr>)"

subsection \<open>Connection tokens\<close>

fun nat_text_digits :: "nat \<Rightarrow> nat \<Rightarrow> string" where
  "nat_text_digits 0 n = []"
| "nat_text_digits (Suc fuel) n =
     (if n < 10 then [char_of (48 + n)]
      else nat_text_digits fuel (n div 10) @ [char_of (48 + n mod 10)])"

definition int_text :: "int \<Rightarrow> string" where
  "int_text i = (if i < 0 then CHR ''-'' # nat_text_digits 20 (nat (- i)) else nat_text_digits 20 (nat i))"

text \<open>\<open>strconv.ParseInt(s, 10, 64)\<close>.\<close>

fun digits_val :: "string \<Rightarrow> nat \<Rightarrow> nat option" where
  "digits_val [] n = Some n"
| "digits_val (c # cs) n = (case digit_val c of None \<Rightarrow> None | Some d \<Rightarrow> digits_val cs (n * 10 + d))"

definition ParseInt64 :: "string \<Rightarrow> int option" where
  "ParseInt64 s =
     (let (neg, ds) = (case s of [] \<Rightarrow> (False, [])
                       | c # cs \<Rightarrow> if c = CHR ''-'' then (True, cs)
                                  else if c = CHR ''+'' then (False, cs) else (False, s))
      in if ds = [] then None
         else (case digits_val ds 0 of
                 None \<Rightarrow> None
               | Some n \<Rightarrow>
                   if neg then (if n \<le> 9223372036854775808 then Some (- int n) else None)
                   else (if n \<le> 9223372036854775807 then Some (int n) else None)))"

definition SetClientConnectionTokenID :: "string \<Rightarrow> int \<Rightarrow> 'h manager \<Rightarrow> 'h manager" where
  "SetClientConnectionTokenID clientID tokenID m =
     (case aget (mg_clients m) clientID of
        None \<Rightarrow> m
      | Some ref \<Rightarrow>
          (let m1 = heap_update ref (SetConnectionTokenID tokenID (mg_heap m ! ref)) m
           in if tokenID \<noteq> 0 \<and> mg_redisUp m
              then emit [RSet (client_key clientID ''connectionTokenId'') (int_text tokenID) clientExpiry] m1
              else m1))"

definition LookupClientConnectionTokenID ::
    "(string \<Rightarrow> string option) \<Rightarrow> string \<Rightarrow> 'h manager \<Rightarrow> int" where
  "LookupClientConnectionTokenID rget clientID m =
     (let local = (case aget (mg_clients m) clientID of
                     None \<Rightarrow> 0 | Some ref \<Rightarrow> cl_connectionTokenID (mg_heap m ! ref))
      in if local \<noteq> 0 then local
         else if mg_redisUp m then
           (case rget (client_key clientID ''connectionTokenId'') of
              Some v \<Rightarrow> if v \<noteq> [] then (case ParseInt64 v of Some i \<Rightarrow> i | None \<Rightarrow> 0) else 0
            | None \<Rightarrow> 0)
         else 0)"

subsection \<open>Removal\<close>

text \<open>What follows the lock in both removals.\<close>

definition removal_events :: "(string \<Rightarrow> nat option) \<Rightarrow> string \<Rightarrow> string \<Rightarrow> 'h manager \<Rightarrow> event list" where
  "removal_events scard cid token m =
     (if mg_hasSSEClose m then [CBSSEClose cid] else [])
     @ (if mg_redisUp m
        then RPublish \<lparr>dc_Kind = ''sse-close'', dc_ClientID = cid, dc_ConnectionTokenID = 0,
                       dc_APIKey = [], dc_Reason = [], dc_CloseCode = 0,
                       dc_Origin = mg_instanceID m\<rparr>
             # [RDel (client_key cid ''instance''), RDel (client_key cid ''apikey''),
                RDel (client_key cid ''connectionTokenId''),
                RSRem (apikey_key token ''clients'') cid]
             @ (let remaining = (case scard (apikey_key token ''clients'') of None \<Rightarrow> 0 | Some n \<Rightarrow> n)
                in if remaining = 0
                   then [RDel (apikey_key token ''instance''), RDel (apikey_key token ''clients'')]
                   else [])
        else [])"

definition unregister :: "(string \<Rightarrow> nat option) \<Rightarrow> string \<Rightarrow> nat \<Rightarrow> 'h manager \<Rightarrow> 'h manager" where
  "unregister scard cid ref m =
     (let token = cl_apiKey (mg_heap m ! ref);
          m1 = (if mg_hasRemoved m then emit [CBRemoved cid token] m else m);
          m2 = m1\<lparr>mg_clients := adel cid (mg_clients m1),
                  mg_tokenGroups := group_remove token cid (mg_tokenGroups m1)\<rparr>;
          m3 = emit (removal_events scard cid token m2) m2
      in m3\<lparr>mg_gauge := mg_gauge m3 - 1\<rparr>)"

definition RemoveClient :: "(string \<Rightarrow> nat option) \<Rightarrow> string \<Rightarrow> 'h manager \<Rightarrow> 'h manager" where
  "RemoveClient scard cid m =
     (case aget (mg_clients m) cid of None \<Rightarrow> m | Some ref \<Rightarrow> unregister scard cid ref m)"

definition RemoveClientIfMatch ::
    "(string \<Rightarrow> nat option) \<Rightarrow> string \<Rightarrow> nat \<Rightarrow> 'h manager \<Rightarrow> 'h manager" where
  "RemoveClientIfMatch scard cid expected m =
     (case aget (mg_clients m) cid of
        None \<Rightarrow> m
      | Some ref \<Rightarrow> if ref \<noteq> expected then m else unregister scard cid ref m)"

subsection \<open>Forced disconnects\<close>

fun closeClients_loop :: "nat list \<Rightarrow> int \<Rightarrow> string \<Rightarrow> nat \<Rightarrow> 'h manager \<Rightarrow> (nat \<times> 'h manager) go" where
  "closeClients_loop [] code reason count m = Ret (count, m)"
| "closeClients_loop (ref # refs) code reason count m =
     (let c = mg_heap m ! ref;
          c1 = (if cl_sockClosed c then c
                else c\<lparr>cl_wire := cl_wire c @ [CloseFrame (Some (code, reason))]\<rparr>)
      in case Disconnect c1 of
           Panic e \<Rightarrow> Panic e
         | Ret c2 \<Rightarrow> closeClients_loop refs code reason (count + 1) (heap_update ref c2 m))"

definition closeClients :: "nat list \<Rightarrow> int \<Rightarrow> string \<Rightarrow> 'h manager \<Rightarrow> (nat \<times> 'h manager) go" where
  "closeClients refs closeCode reason m =
     (let code = (if closeCode = 0 then 4002 else closeCode)
      in closeClients_loop refs code reason 0 m)"

definition SnapshotLocalClients :: "'h manager \<Rightarrow> nat list" where
  "SnapshotLocalClients m = map snd (mg_clients m)"

definition ForceDisconnectLocal ::
    "nat option \<Rightarrow> int \<Rightarrow> string \<Rightarrow> 'h manager \<Rightarrow> 'h manager go" where
  "ForceDisconnectLocal c closeCode reason m =
     (case c of
        None \<Rightarrow> Ret m
      | Some ref \<Rightarrow> (case closeClients [ref] closeCode reason m of
                      Ret (n, m') \<Rightarrow> Ret m' | Panic e \<Rightarrow> Panic e))"

definition disconnectLocalByToken :: "int \<Rightarrow> int \<Rightarrow> string \<Rightarrow> 'h manager \<Rightarrow> (nat \<times> 'h manager) go" where
  "disconnectLocalByToken tokenID closeCode reason m =
     (if tokenID = 0 then Ret (0, m)
      else (let toDisconnect = filter (\<lambda>ref. cl_connectionTokenID (mg_heap m ! ref) = tokenID)
                  (map snd (mg_clients m))
            in closeClients toDisconnect closeCode reason m))"

definition DisconnectByConnectionToken :: "int \<Rightarrow> 'h manager \<Rightarrow> (nat \<times> 'h manager) go" where
  "DisconnectByConnectionToken tokenID m =
     disconnectLocalByToken tokenID 4002 ''Connection token revoked'' m"

definition disconnectLocalByClientID ::
    "string \<Rightarrow> int \<Rightarrow> string \<Rightarrow> 'h manager \<Rightarrow> (nat \<times> 'h manager) go" where
  "disconnectLocalByClientID clientID closeCode reason m =
     (if clientID = [] then Ret (0, m)
      else (case aget (mg_clients m) clientID of
              None \<Rightarrow> Ret (0, m)
            | Some ref \<Rightarrow> closeClients [ref] closeCode reason m))"

text \<open>The registered clients of a group, in the order the range over the group visits them.\<close>

definition group_ids :: "string \<Rightarrow> 'h manager \<Rightarrow> string list" where
  "group_ids apiKey m = (case aget (mg_tokenGroups m) apiKey of None \<Rightarrow> [] | Some grp \<Rightarrow> akeys grp)"

definition group_refs :: "string \<Rightarrow> 'h manager \<Rightarrow> nat list" where
  "group_refs apiKey m = List.map_filter (\<lambda>cid. aget (mg_clients m) cid) (group_ids apiKey m)"

definition disconnectLocalByAPIKey ::
    "string \<Rightarrow> int \<Rightarrow> string \<Rightarrow> 'h manager \<Rightarrow> (nat \<times> 'h manager) go" where
  "disconnectLocalByAPIKey apiKey closeCode reason m =
     (if apiKey = [] then Ret (0, m) else closeClients (group_refs apiKey m) closeCode reason m)"

definition publish :: "disconnectCmd \<Rightarrow> nat \<times> 'h manager \<Rightarrow> nat \<times> 'h manager" where
  "publish cmd r =
     (case r of (n, m) \<Rightarrow>
        (n, if mg_redisUp m then emit [RPublish (cmd\<lparr>dc_Origin := mg_instanceID m\<rparr>)] m else m))"

definition go_map :: "('a \<Rightarrow> 'b) \<Rightarrow> 'a go \<Rightarrow> 'b go" where
  "go_map f r = (case r of Ret a \<Rightarrow> Ret (f a) | Panic e \<Rightarrow> Panic e)"

definition disconnect_cmd :: "string \<Rightarrow> string \<Rightarrow> disconnectCmd" where
  "disconnect_cmd kind reason =
     \<lparr>dc_Kind = kind, dc_ClientID = [], dc_ConnectionTokenID = 0, dc_APIKey = [],
      dc_Reason = reason, dc_CloseCode = 4002, dc_Origin = []\<rparr>"

definition BroadcastDisconnectByConnectionToken ::
    "int \<Rightarrow> string \<Rightarrow> 'h manager \<Rightarrow> (nat \<times> 'h manager) go" where
  "BroadcastDisconnectByConnectionToken tokenID reason m =
     go_map (publish ((disconnect_cmd ''token'' reason)\<lparr>dc_ConnectionTokenID := tokenID\<rparr>))
       (disconnectLocalByToken tokenID 4002 reason m)"

definition BroadcastDisconnectByClientID ::
    "string \<Rightarrow> string \<Rightarrow> 'h manager \<Rightarrow> (nat \<times> 'h manager) go" where
  "BroadcastDisconnectByClientID clientID reason m =
     go_map (publish ((disconnect_cmd ''client'' reason)\<lparr>dc_ClientID := clientID\<rparr>))
       (disconnectLocalByClientID clientID 4002 reason m)"

definition BroadcastDisconnectByAPIKey ::
    "string \<Rightarrow> string \<Rightarrow> 'h manager \<Rightarrow> (nat \<times> 'h manager) go" where
  "BroadcastDisconnectByAPIKey apiKey reason m =
     go_map (publish ((disconnect_cmd ''apikey'' reason)\<lparr>dc_APIKey := apiKey\<rparr>))
       (disconnectLocalByAPIKey apiKey 4002 reason m)"

text \<open>
  A command received from the Redis channel, after decoding; a payload that does not decode is
  \<open>None\<close>.
\<close>

definition handleDisconnectCommand :: "disconnectCmd option \<Rightarrow> 'h manager \<Rightarrow> 'h manager go" where
  "handleDisconnectCommand payload m =
     (case payload of
        None \<Rightarrow> Ret m
      | Some cmd \<Rightarrow>
          if dc_Origin cmd = mg_instanceID m then Ret m
          else
            (let reason = (if dc_Reason cmd = [] then ''Revoked by dashboard'' else dc_Reason cmd);
                 closeCode = (if dc_CloseCode cmd = 0 then 4002 else dc_CloseCode cmd)
             in if dc_Kind cmd = ''token'' then
                  go_map snd (disconnectLocalByToken (dc_ConnectionTokenID cmd) closeCode reason m)
                else if dc_Kind cmd = ''client'' then
                  go_map snd (disconnectLocalByClientID (dc_ClientID cmd) closeCode reason m)
                else if dc_Kind cmd = ''apikey'' then
                  go_map snd (disconnectLocalByAPIKey (dc_APIKey cmd) closeCode reason m)
                else if dc_Kind cmd = ''sse-close'' then
                  (if dc_ClientID cmd \<noteq> [] \<and> mg_hasSSEClose m
                   then Ret (emit [CBSSEClose (dc_ClientID cmd)] m) else Ret m)
                else Ret m))"

subsection \<open>Lookups\<close>

definition GetClient :: "string \<Rightarrow> 'h manager \<Rightarrow> nat option" where
  "GetClient cid m = aget (mg_clients m) cid"

definition GetClientInstanceID :: "(string \<Rightarrow> string option) \<Rightarrow> string \<Rightarrow> 'h manager \<Rightarrow> string option" where
  "GetClientInstanceID rget cid m =
     (if \<not> mg_redisUp m then Some [] else rget (client_key cid ''instance''))"

definition IsClientOnlineAnywhere :: "(string \<Rightarrow> string option) \<Rightarrow> string \<Rightarrow> 'h manager \<Rightarrow> bool" where
  "IsClientOnlineAnywhere rget cid m =
     (if GetClient cid m \<noteq> None then True
      else if \<not> mg_redisUp m then False
      else null_str (rget (client_key cid ''instance'')) \<noteq> [])"

definition GetClientRemoteInstance :: "(string \<Rightarrow> string option) \<Rightarrow> string \<Rightarrow> 'h manager \<Rightarrow> string" where
  "GetClientRemoteInstance rget cid m =
     (if GetClient cid m \<noteq> None then []
      else if \<not> mg_redisUp m then []
      else (let instanceID = null_str (rget (client_key cid ''instance''))
            in if instanceID = mg_instanceID m then [] else instanceID))"

definition GetInstanceForAPIKey :: "(string \<Rightarrow> string option) \<Rightarrow> string \<Rightarrow> 'h manager \<Rightarrow> string option" where
  "GetInstanceForAPIKey rget apiKey m =
     (if \<not> mg_redisUp m then Some [] else rget (apikey_key apiKey ''instance''))"

definition live :: "'h manager \<Rightarrow> string \<Rightarrow> bool" where
  "live m cid = (case aget (mg_clients m) cid of None \<Rightarrow> False | Some ref \<Rightarrow> IsAlive (mg_heap m ! ref))"

definition GetConnectedClients :: "string \<Rightarrow> 'h manager \<Rightarrow> string list" where
  "GetConnectedClients apiKey m = filter (live m) (group_ids apiKey m)"

definition GetConnectedClientInfos :: "string \<Rightarrow> 'h manager \<Rightarrow> ClientInfo list" where
  "GetConnectedClientInfos apiKey m =
     List.map_filter
       (\<lambda>cid. case aget (mg_clients m) cid of
          None \<Rightarrow> None
        | Some ref \<Rightarrow> if IsAlive (mg_heap m ! ref) then Some (Info (mg_instanceID m) (mg_heap m ! ref))
                      else None)
       (group_ids apiKey m)"

definition GetAllClientInfos :: "'h manager \<Rightarrow> ClientInfo list" where
  "GetAllClientInfos m =
     map (\<lambda>kv. Info (mg_instanceID m) (mg_heap m ! snd kv))
       (filter (\<lambda>kv. IsAlive (mg_heap m ! snd kv)) (mg_clients m))"

definition CountConnectedClients :: "'h manager \<Rightarrow> nat" where
  "CountConnectedClients m = length (filter (\<lambda>kv. IsAlive (mg_heap m ! snd kv)) (mg_clients m))"

definition UpdateClientLastSeen :: "gotime \<Rightarrow> string \<Rightarrow> 'h manager \<Rightarrow> 'h manager" where
  "UpdateClientLastSeen now cid m =
     (case aget (mg_clients m) cid of
        None \<Rightarrow> m
      | Some ref \<Rightarrow>
          (let m1 = heap_update ref (UpdateLastSeen now (mg_heap m ! ref)) m;
               token = cl_apiKey (mg_heap m ! ref)
           in if mg_redisUp m
              then emit [RExpire (client_key cid ''instance'') clientExpiry,
                         RExpire (client_key cid ''apikey'') clientExpiry,
                         RExpire (apikey_key token ''clients'') clientExpiry,
                         RExpire (apikey_key token ''instance'') clientExpiry] m1
              else m1))"

subsection \<open>Messages from a module\<close>

definition OnMessageType :: "string \<Rightarrow> 'h \<Rightarrow> 'h manager \<Rightarrow> 'h manager" where
  "OnMessageType msgType handler m =
     m\<lparr>mg_messageHandlers := aput msgType
         ((case aget (mg_messageHandlers m) msgType of None \<Rightarrow> [] | Some hs \<Rightarrow> hs) @ [handler])
         (mg_messageHandlers m)\<rparr>"

definition OnRawMessageType :: "string \<Rightarrow> 'h \<Rightarrow> 'h manager \<Rightarrow> 'h manager" where
  "OnRawMessageType msgType handler m =
     m\<lparr>mg_rawMessageHandlers := aput msgType
         ((case aget (mg_rawMessageHandlers m) msgType of None \<Rightarrow> [] | Some hs \<Rightarrow> hs) @ [handler])
         (mg_rawMessageHandlers m)\<rparr>"

text \<open>
  What a message makes the manager do.  Every handler of the list runs, since a panic in one is
  recovered; running them is left to the component that registered them.
\<close>

datatype 'h dispatch =
    Ignored
  | Ponged
  | RunRaw "'h list" nat obj string
  | RunHandlers "'h list" nat obj
  | Broadcasted

definition handlers_for :: "(string, 'h list) gomap \<Rightarrow> string \<Rightarrow> 'h list" where
  "handlers_for hs msgType = (case aget hs msgType of None \<Rightarrow> [] | Some l \<Rightarrow> l)"

fun send_all :: "nat list \<Rightarrow> json \<Rightarrow> 'h manager \<Rightarrow> 'h manager" where
  "send_all [] msg m = m"
| "send_all (ref # refs) msg m = send_all refs msg (heap_update ref (snd (Send msg (mg_heap m ! ref))) m)"

definition BroadcastToGroup :: "string \<Rightarrow> json \<Rightarrow> 'h manager \<Rightarrow> 'h manager" where
  "BroadcastToGroup senderID message m =
     (case aget (mg_clients m) senderID of
        None \<Rightarrow> m
      | Some sender \<Rightarrow>
          (let token = cl_apiKey (mg_heap m ! sender);
               targets = List.map_filter (\<lambda>cid. aget (mg_clients m) cid)
                 (filter (\<lambda>cid. cid \<noteq> senderID \<and> live m cid) (group_ids token m))
           in send_all targets message m))"

definition pong :: json where
  "pong = JObj [(''type'', JStr ''pong'')]"

text \<open>
  \<open>decode\<close> is \<open>json.Unmarshal\<close> into a map, \<open>None\<close> for an error.  The partial decode into the
  two-field struct reads the same object: a value of another type than text is an error that the
  code ignores, but the pointer field has been allocated by then, except for \<open>null\<close>.  (Go also
  matches struct fields whose name differs in case only, which is left out.)
\<close>

definition partial_message :: "(string \<Rightarrow> obj option) \<Rightarrow> string \<Rightarrow> obj" where
  "partial_message decode raw =
     (let (rid, err) =
        (case decode raw of
           None \<Rightarrow> ([], None)
         | Some msg \<Rightarrow> (get_str msg ''requestId'',
                        case aget msg ''error'' of
                          None \<Rightarrow> None | Some JNull \<Rightarrow> None | Some (JStr e) \<Rightarrow> Some e | Some _ \<Rightarrow> Some []))
      in (''requestId'', JStr rid) # (case err of None \<Rightarrow> [] | Some e \<Rightarrow> [(''error'', JStr e)]))"

definition HandleIncomingMessageFast ::
    "(string \<Rightarrow> obj option) \<Rightarrow> gotime \<Rightarrow> string \<Rightarrow> string \<Rightarrow> string \<Rightarrow> 'h manager \<Rightarrow> 'h dispatch \<times> 'h manager" where
  "HandleIncomingMessageFast decode now clientID msgType rawBytes m =
     (case aget (mg_clients m) clientID of
        None \<Rightarrow> (Ignored, m)
      | Some ref \<Rightarrow>
          (let m1 = heap_update ref (UpdateLastSeen now (mg_heap m ! ref)) m
           in if msgType = ''ping'' then (Ponged, send_all [ref] pong m1)
              else
                (let rawHandlers = handlers_for (mg_rawMessageHandlers m1) msgType;
                     handlers = handlers_for (mg_messageHandlers m1) msgType
                 in if length rawHandlers > 0
                    then (RunRaw rawHandlers ref (partial_message decode rawBytes) rawBytes, m1)
                    else if length handlers > 0
                    then (case decode rawBytes of
                            None \<Rightarrow> (Ignored, m1)
                          | Some message \<Rightarrow> (RunHandlers handlers ref message, m1))
                    else (case decode rawBytes of
                            None \<Rightarrow> (Ignored, m1)
                          | Some message \<Rightarrow>
                              (Broadcasted, BroadcastToGroup clientID (JObj message) m1)))))"

definition HandleIncomingMessage ::
    "gotime \<Rightarrow> string \<Rightarrow> obj \<Rightarrow> string \<Rightarrow> 'h manager \<Rightarrow> 'h dispatch \<times> 'h manager" where
  "HandleIncomingMessage now clientID message rawBytes m =
     (case aget (mg_clients m) clientID of
        None \<Rightarrow> (Ignored, m)
      | Some ref \<Rightarrow>
          (let m1 = heap_update ref (UpdateLastSeen now (mg_heap m ! ref)) m;
               msgType = get_str message ''type''
           in if msgType = ''ping'' then (Ponged, send_all [ref] pong m1)
              else
                (let handlers = handlers_for (mg_messageHandlers m1) msgType;
                     rawHandlers = handlers_for (mg_rawMessageHandlers m1) msgType
                 in if length rawHandlers > 0 then (RunRaw rawHandlers ref message rawBytes, m1)
                    else if length handlers > 0 then (RunHandlers handlers ref message, m1)
                    else (Broadcasted, BroadcastToGroup clientID (JObj message) m1))))"

definition CleanupInactiveClients :: "(string \<Rightarrow> nat option) \<Rightarrow> 'h manager \<Rightarrow> 'h manager" where
  "CleanupInactiveClients scard m =
     (let toRemove = map fst (filter (\<lambda>kv. \<not> IsAlive (mg_heap m ! snd kv)) (mg_clients m))
      in fold (RemoveClient scard) toRemove m)"

end
