(* ===== verification/Limits.thy ===== *)
theory Limits
  imports Manager
begin

text \<open>
  Throttling and counting in front of the handlers: the rate limiters of
  \<open>internal/middleware/ratelimit.go\<close>, the admin lockout of \<open>internal/middleware/admin_ratelimit.go\<close>,
  the spike tracker and the event buffer of \<open>internal/alerts/alerts.go\<close>, and the request counter of
  \<open>internal/counter/counter.go\<close>.

  The token bucket itself is \<open>golang.org/x/time/rate\<close>: its constructor and \<open>Allow\<close> are parameters.
  The tickers of the background goroutines are left out; the round each of them runs is \<open>rl_cleanup\<close> and
  \<open>lockout_cleanup\<close>, and the theorem on the lockout has such rounds among its operations.
\<close>

subsection \<open>Environment\<close>

definition getEnvInt :: "(string \<Rightarrow> string) \<Rightarrow> string \<Rightarrow> int \<Rightarrow> int" where
  "getEnvInt env key fallback =
     (if env key \<noteq> [] then (case ParseInt64 (env key) of Some i \<Rightarrow> i | None \<Rightarrow> fallback) else fallback)"

definition getEnvIntWithFallback :: "(string \<Rightarrow> string) \<Rightarrow> string \<Rightarrow> string \<Rightarrow> int \<Rightarrow> int" where
  "getEnvIntWithFallback env key fallbackKey fallback =
     (case (if env key \<noteq> [] then ParseInt64 (env key) else None) of
        Some i \<Rightarrow> i
      | None \<Rightarrow>
          (case (if env fallbackKey \<noteq> [] then ParseInt64 (env fallbackKey) else None) of
             Some i \<Rightarrow> i | None \<Rightarrow> fallback))"

subsection \<open>Token buckets per key\<close>

datatype rate = RateInf | RateEvery int  \<comment> \<open>one token per so many nanoseconds\<close>

record 'l keyState =
  ks_lim :: 'l
  ks_lastSeen :: gotime

record 'l rate_limiter =
  rl_keys :: "(string, 'l keyState) gomap"
  rl_r :: rate
  rl_burst :: int
  rl_message :: string

definition rate_every :: "int \<Rightarrow> rate" where
  "rate_every interval = (if interval \<le> 0 then RateInf else RateEvery interval)"

definition NewRateLimiter :: "int \<Rightarrow> int \<Rightarrow> string \<Rightarrow> 'l rate_limiter" where
  "NewRateLimiter window maxReq message =
     \<lparr>rl_keys = [], rl_r = (if maxReq \<le> 0 then RateInf else rate_every (window div maxReq)),
      rl_burst = maxReq, rl_message = message\<rparr>"

definition rl_allow ::
    "(rate \<Rightarrow> int \<Rightarrow> 'l) \<Rightarrow> (gotime \<Rightarrow> 'l \<Rightarrow> bool \<times> 'l) \<Rightarrow> gotime \<Rightarrow> string \<Rightarrow> 'l rate_limiter \<Rightarrow>
     bool \<times> 'l rate_limiter" where
  "rl_allow mk Allow now key rl =
     (let ks = (case aget (rl_keys rl) key of
                  Some ks \<Rightarrow> ks
                | None \<Rightarrow> \<lparr>ks_lim = mk (rl_r rl) (rl_burst rl), ks_lastSeen = 0\<rparr>);
          (allowed, lim) = Allow now (ks_lim ks)
      in (allowed, rl\<lparr>rl_keys := aput key \<lparr>ks_lim = lim, ks_lastSeen = now\<rparr> (rl_keys rl)\<rparr>))"

definition rl_cleanup :: "gotime \<Rightarrow> int \<Rightarrow> 'l rate_limiter \<Rightarrow> 'l rate_limiter" where
  "rl_cleanup now window rl =
     (let cutoff = now - window
      in rl\<lparr>rl_keys := fold adel (map fst (filter (\<lambda>kv. ks_lastSeen (snd kv) < cutoff) (rl_keys rl))) (rl_keys rl)\<rparr>)"

text \<open>What a middleware does with a request: pass it on, or answer it.\<close>

datatype mw = Pass | Deny int obj

definition rl_denied :: "'l rate_limiter \<Rightarrow> mw" where
  "rl_denied rl = Deny 429 [(''error'', JStr (rl_message rl))]"

definition rl_Middleware ::
    "(rate \<Rightarrow> int \<Rightarrow> 'l) \<Rightarrow> (gotime \<Rightarrow> 'l \<Rightarrow> bool \<times> 'l) \<Rightarrow> gotime \<Rightarrow> string \<Rightarrow> 'l rate_limiter \<Rightarrow>
     mw \<times> 'l rate_limiter" where
  "rl_Middleware mk Allow now remoteAddr rl =
     (if rl_burst rl \<le> 0 then (Pass, rl)
      else (case rl_allow mk Allow now remoteAddr rl of
              (True, rl') \<Rightarrow> (Pass, rl')
            | (False, rl') \<Rightarrow> (rl_denied rl', rl')))"

subsection \<open>Spike tracker and recent events\<close>

record tracker =
  tr_count :: int
  tr_windowEnd :: gotime
  tr_lastFired :: gotime

text \<open>The zero time of Go lies before every time the process sees.\<close>

definition zero_time :: gotime where
  "zero_time = 0"

definition Track ::
    "gotime \<Rightarrow> string \<Rightarrow> int \<Rightarrow> int \<Rightarrow> int \<Rightarrow> (string, tracker) gomap \<Rightarrow> bool \<times> (string, tracker) gomap" where
  "Track now key threshold window cooldown m =
     (let e = (case aget m key of
                 Some e \<Rightarrow> e
               | None \<Rightarrow> \<lparr>tr_count = 0, tr_windowEnd = zero_time, tr_lastFired = zero_time\<rparr>);
          e1 = (if now > tr_windowEnd e then e\<lparr>tr_count := 0, tr_windowEnd := now + window\<rparr> else e);
          e2 = e1\<lparr>tr_count := tr_count e1 + 1\<rparr>
      in if tr_count e2 \<ge> threshold \<and> now > tr_lastFired e2 + cooldown
         then (True, aput key (e2\<lparr>tr_lastFired := now\<rparr>) m)
         else (False, aput key e2 m))"

record alert_event =
  ae_Type :: string
  ae_Severity :: string
  ae_Message :: string
  ae_Details :: obj
  ae_Timestamp :: gotime

record alert_state =
  as_trackers :: "(string, tracker) gomap"
  as_recent :: "alert_event list"
  as_dispatched :: "alert_event list"  \<comment> \<open>handed to the goroutine that looks up subscribers\<close>

definition recent_max :: nat where
  "recent_max = 200"

definition Fire :: "gotime \<Rightarrow> bool \<Rightarrow> alert_event \<Rightarrow> alert_state \<Rightarrow> alert_state" where
  "Fire now hasDB event s =
     (let e = (if ae_Timestamp event = zero_time then event\<lparr>ae_Timestamp := now\<rparr> else event);
          evs = as_recent s @ [e];
          evs' = (if length evs > recent_max then drop (length evs - recent_max) evs else evs);
          s1 = s\<lparr>as_recent := evs'\<rparr>
      in if hasDB then s1\<lparr>as_dispatched := as_dispatched s1 @ [e]\<rparr> else s1)"

definition RecentEvents :: "alert_state \<Rightarrow> alert_event list" where
  "RecentEvents s = as_recent s"

definition track_and_fire ::
    "gotime \<Rightarrow> bool \<Rightarrow> string \<Rightarrow> int \<Rightarrow> int \<Rightarrow> int \<Rightarrow> alert_event \<Rightarrow> alert_state \<Rightarrow> alert_state" where
  "track_and_fire now hasDB key threshold window cooldown event s =
     (let (fire, trackers) = Track now key threshold window cooldown (as_trackers s);
          s1 = s\<lparr>as_trackers := trackers\<rparr>
      in if fire then Fire now hasDB event s1 else s1)"

definition rl_APIKeyMiddleware ::
    "(rate \<Rightarrow> int \<Rightarrow> 'l) \<Rightarrow> (gotime \<Rightarrow> 'l \<Rightarrow> bool \<times> 'l) \<Rightarrow> gotime \<Rightarrow> bool \<Rightarrow> string \<Rightarrow> string \<Rightarrow> 'l rate_limiter \<Rightarrow>
     alert_state \<Rightarrow> mw \<times> 'l rate_limiter \<times> alert_state" where
  "rl_APIKeyMiddleware mk Allow now hasDB apiKey path rl s =
     (if rl_burst rl \<le> 0 then (Pass, rl, s)
      else if apiKey = [] then (Pass, rl, s)
      else (case rl_allow mk Allow now apiKey rl of
              (True, rl') \<Rightarrow> (Pass, rl', s)
            | (False, rl') \<Rightarrow>
                (rl_denied rl', rl',
                 track_and_fire now hasDB (''ratelimit:'' @ apiKey) 10 (minutes 5) (minutes 30)
                   \<lparr>ae_Type = ''rate_limit_burst'', ae_Severity = ''warning'',
                     ae_Message = ''API key hit rate limit 10+ times in 5 minutes'',
                     ae_Details = [(''path'', JStr path)], ae_Timestamp = zero_time\<rparr> s)))"

text \<open>The limiters of the server: name, window, requests and message.\<close>

definition rate_limiters :: "(string \<Rightarrow> string) \<Rightarrow> (string \<times> 'l rate_limiter) list" where
  "rate_limiters env =
     [(''Auth'', NewRateLimiter (minutes 15) (getEnvInt env ''AUTH_RATE_LIMIT'' 5)
         ''Too many authentication attempts from this IP, please try again after 15 minutes''),
      (''PasswordReset'', NewRateLimiter (minutes 60) (getEnvInt env ''PASSWORD_RESET_RATE_LIMIT'' 3)
         ''Too many password reset attempts from this IP, please try again later''),
      (''AccountManagement'', NewRateLimiter (minutes 60) (getEnvInt env ''ACCOUNT_MGMT_RATE_LIMIT'' 10)
         ''Too many account management requests from this IP, please try again later''),
      (''APIKey'', NewRateLimiter (minutes 1)
         (getEnvIntWithFallback env ''PER_MINUTE_REQUEST_LIMIT'' ''API_KEY_RATE_LIMIT'' 300)
         ''Too many API requests, please slow down''),
      (''Pairing'', NewRateLimiter (minutes 15) (getEnvInt env ''PAIRING_RATE_LIMIT'' 10)
         ''Too many pairing attempts from this IP, please try again later''),
      (''KeyRequest'', NewRateLimiter (minutes 15) (getEnvInt env ''KEY_REQUEST_RATE_LIMIT'' 20)
         ''Too many key request attempts from this IP, please try again later''),
      (''Probe'', NewRateLimiter (minutes 1) (getEnvInt env ''PROBE_RATE_LIMIT'' 60)
         ''Too many active-connection probes from this IP, please slow down'')]"

subsection \<open>Admin lockout\<close>

text \<open>\<open>strings.ToLower\<close> on ASCII; the zero \<open>lockedUntil\<close> is \<open>None\<close>; a nil tracker is \<open>None\<close>.\<close>

definition to_lower_char :: "char \<Rightarrow> char" where
  "to_lower_char c = (if in_range (CHR ''A'') (CHR ''Z'') c then char_of ((of_char c :: nat) + 32) else c)"

definition to_lower :: "string \<Rightarrow> string" where
  "to_lower s = map to_lower_char s"

record lockoutState =
  lo_failures :: int
  lo_lockedUntil :: "gotime option"

record lockout_tracker =
  lt_state :: "(string, lockoutState) gomap"
  lt_threshold :: int
  lt_lockWindow :: int

definition NewAdminLockoutTracker :: "int \<Rightarrow> int \<Rightarrow> lockout_tracker" where
  "NewAdminLockoutTracker threshold lockWindow =
     \<lparr>lt_state = [], lt_threshold = threshold, lt_lockWindow = lockWindow\<rparr>"

definition IsLocked :: "gotime \<Rightarrow> string \<Rightarrow> lockout_tracker \<Rightarrow> bool \<times> lockout_tracker" where
  "IsLocked now email t =
     (if lt_threshold t \<le> 0 then (False, t)
      else
        (let key = to_lower email
         in case aget (lt_state t) key of
              None \<Rightarrow> (False, t)
            | Some st \<Rightarrow>
                (case lo_lockedUntil st of
                   None \<Rightarrow> (False, t)
                 | Some u \<Rightarrow> if now < u then (True, t)
                             else if now > u then (False, t\<lparr>lt_state := adel key (lt_state t)\<rparr>)
                             else (False, t))))"

definition RecordFailure :: "gotime \<Rightarrow> string \<Rightarrow> lockout_tracker \<Rightarrow> lockout_tracker" where
  "RecordFailure now email t =
     (if lt_threshold t \<le> 0 then t
      else
        (let key = to_lower email;
             st = (case aget (lt_state t) key of
                     Some st \<Rightarrow> st | None \<Rightarrow> \<lparr>lo_failures = 0, lo_lockedUntil = None\<rparr>);
             st1 = st\<lparr>lo_failures := lo_failures st + 1\<rparr>;
             st2 = (if lo_failures st1 \<ge> lt_threshold t
                    then st1\<lparr>lo_lockedUntil := Some (now + lt_lockWindow t)\<rparr> else st1)
         in t\<lparr>lt_state := aput key st2 (lt_state t)\<rparr>))"

definition RecordSuccess :: "string \<Rightarrow> lockout_tracker \<Rightarrow> lockout_tracker" where
  "RecordSuccess email t = t\<lparr>lt_state := adel (to_lower email) (lt_state t)\<rparr>"

definition LockedUntil :: "string \<Rightarrow> lockout_tracker \<Rightarrow> gotime option" where
  "LockedUntil email t =
     (case aget (lt_state t) (to_lower email) of Some st \<Rightarrow> lo_lockedUntil st | None \<Rightarrow> None)"

definition lockout_cleanup :: "gotime \<Rightarrow> lockout_tracker \<Rightarrow> lockout_tracker" where
  "lockout_cleanup now t =
     t\<lparr>lt_state := fold adel
        (map fst (filter (\<lambda>kv. case lo_lockedUntil (snd kv) of None \<Rightarrow> False | Some u \<Rightarrow> now > u) (lt_state t)))
        (lt_state t)\<rparr>"

definition InitAdminLockout :: "(string \<Rightarrow> string) \<Rightarrow> lockout_tracker" where
  "InitAdminLockout env =
     NewAdminLockoutTracker (getEnvInt env ''ADMIN_LOCKOUT_THRESHOLD'' 10)
       (getEnvInt env ''ADMIN_LOCKOUT_MINUTES'' 30 * minutes 1)"

subsection \<open>The request counter\<close>

type_synonym counter = "(int, int) gomap"

definition counter_Add :: "int \<Rightarrow> counter \<Rightarrow> counter" where
  "counter_Add userID c = aput userID ((case aget c userID of None \<Rightarrow> 0 | Some n \<Rightarrow> n) + 1) c"

text \<open>\<open>store\<close> is the database's \<open>IncrementRequestsBy\<close>; its errors are only logged.\<close>

fun flush_loop :: "(int \<Rightarrow> int \<Rightarrow> 'd \<Rightarrow> 'd) \<Rightarrow> (int \<times> int) list \<Rightarrow> 'd \<Rightarrow> 'd" where
  "flush_loop store [] db = db"
| "flush_loop store ((uid, count) # rest) db = flush_loop store rest (store uid count db)"

definition counter_Flush :: "(int \<Rightarrow> int \<Rightarrow> 'd \<Rightarrow> 'd) \<Rightarrow> counter \<Rightarrow> 'd \<Rightarrow> counter \<times> 'd" where
  "counter_Flush store c db = (if length c = 0 then (c, db) else ([], flush_loop store c db))"

subsection \<open>The lockout is exact\<close>

text \<open>What happens to the tracker: a failed and a successful login, a question, and a round of the clean-up goroutine.\<close>

datatype lockout_op = Failed gotime string | Succeeded string | Asked gotime string | Cleaned gotime

fun lockout_step :: "lockout_op \<Rightarrow> lockout_tracker \<Rightarrow> lockout_tracker" where
  "lockout_step (Failed now e) t = RecordFailure now e t"
| "lockout_step (Succeeded e) t = RecordSuccess e t"
| "lockout_step (Asked now e) t = snd (IsLocked now e t)"
| "lockout_step (Cleaned now) t = lockout_cleanup now t"

text \<open>A lock is over when \<open>threshold\<close> failures have been counted and the lock window since the latest of
them has passed.\<close>

definition lock_over :: "int \<Rightarrow> int \<Rightarrow> gotime \<Rightarrow> gotime list \<Rightarrow> bool" where
  "lock_over threshold w now ts \<longleftrightarrow> ts \<noteq> [] \<and> threshold \<le> int (length ts) \<and> now > hd ts + w"

text \<open>The failures an account has against it, latest first, after operations that are also given latest first: they
start again at zero after a success, and after a question or a clean-up that finds the lock over.\<close>

fun counted :: "int \<Rightarrow> int \<Rightarrow> string \<Rightarrow> lockout_op list \<Rightarrow> gotime list" where
  "counted n w key [] = []"
| "counted n w key (Failed now e # ops) = (if to_lower e = key then now # counted n w key ops else counted n w key ops)"
| "counted n w key (Succeeded e # ops) = (if to_lower e = key then [] else counted n w key ops)"
| "counted n w key (Asked now e # ops) =
     (if to_lower e = key \<and> lock_over n w now (counted n w key ops) then [] else counted n w key ops)"
| "counted n w key (Cleaned now # ops) = (if lock_over n w now (counted n w key ops) then [] else counted n w key ops)"

definition entry_of :: "int \<Rightarrow> int \<Rightarrow> gotime list \<Rightarrow> lockoutState option" where
  "entry_of n w ts =
     (if ts = [] then None
      else Some \<lparr>lo_failures = int (length ts), lo_lockedUntil = (if int (length ts) \<ge> n then Some (hd ts + w) else None)\<rparr>)"

lemma wf_lockout_step: "wf_map (lt_state t) \<Longrightarrow> wf_map (lt_state (lockout_step op t))"
  by (cases op) (auto simp: RecordFailure_def RecordSuccess_def IsLocked_def lockout_cleanup_def fold_adel Let_def split: option.split)

lemma lockout_cleanup_get:
  assumes "wf_map (lt_state t)"
  shows "aget (lt_state (lockout_cleanup now t)) key =
    (case aget (lt_state t) key of
       Some st \<Rightarrow> if (case lo_lockedUntil st of None \<Rightarrow> False | Some u \<Rightarrow> now > u) then None else Some st
     | None \<Rightarrow> None)"
proof -
  let ?m = "lt_state t" and ?ks = "map fst (filter (\<lambda>kv. case lo_lockedUntil (snd kv) of None \<Rightarrow> False | Some u \<Rightarrow> now > u) (lt_state t))"
  have mem: "key \<in> set ?ks \<longleftrightarrow> (\<exists>st. aget ?m key = Some st \<and> (case lo_lockedUntil st of None \<Rightarrow> False | Some u \<Rightarrow> now > u))"
    by (auto simp: image_iff aget_iff_in_set [OF assms])
  have fold: "aget (fold adel ks m) key = (if key \<in> set ks then None else aget m key)" for ks and m :: "(string, lockoutState) gomap"
    by (induction ks arbitrary: m) auto
  show ?thesis
    using mem by (auto simp: lockout_cleanup_def fold split: option.split)
qed

lemma lockout_entry:
  assumes "0 < n"
  shows "aget (lt_state (foldr lockout_step ops (NewAdminLockoutTracker n w))) key = entry_of n w (counted n w key ops) \<and>
    lt_threshold (foldr lockout_step ops (NewAdminLockoutTracker n w)) = n \<and>
    lt_lockWindow (foldr lockout_step ops (NewAdminLockoutTracker n w)) = w \<and>
    wf_map (lt_state (foldr lockout_step ops (NewAdminLockoutTracker n w)))"
proof (induction ops)
  case Nil
  then show ?case by (simp add: NewAdminLockoutTracker_def entry_of_def wf_map_def)
next
  case (Cons op ops)
  let ?t = "foldr lockout_step ops (NewAdminLockoutTracker n w)"
  note IH = Cons
  have keep: "lt_threshold (lockout_step op ?t) = n" "lt_lockWindow (lockout_step op ?t) = w"
    using IH by (cases op; simp add: RecordFailure_def RecordSuccess_def IsLocked_def lockout_cleanup_def Let_def split: option.split)+
  have "aget (lt_state (lockout_step op ?t)) key = entry_of n w (counted n w key (op # ops))"
  proof (cases op)
    case (Failed now e)
    then show ?thesis
      using IH assms by (cases "counted n w key ops = []") (auto simp: RecordFailure_def entry_of_def Let_def)
  next
    case (Succeeded e)
    then show ?thesis using IH by (auto simp: RecordSuccess_def entry_of_def)
  next
    case (Asked now e)
    then show ?thesis
      using IH assms by (cases "counted n w key ops = []") (auto simp: IsLocked_def entry_of_def lock_over_def Let_def split: option.split if_split_asm)
  next
    case (Cleaned now)
    then show ?thesis
      using IH by (cases "counted n w key ops = []") (auto simp: lockout_cleanup_get entry_of_def lock_over_def)
  qed
  then show ?case using keep wf_lockout_step IH by simp
qed

text \<open>C20: After any sequence of failed and successful admin logins, questions and rounds of the clean-up goroutine, at
any times and for any accounts, an account is locked precisely when the configured number of failures is
counted against it and the lock window since the latest of them is not over; the count starts again after a
success, and when a question or a clean-up finds the lock over.  The spelling of the address does not matter,
nor what happens to other accounts.\<close>

theorem lockout_exact:
  assumes "0 < n"
  shows "fst (IsLocked now email (foldr lockout_step ops (NewAdminLockoutTracker n w))) \<longleftrightarrow>
    n \<le> int (length (counted n w (to_lower email) ops)) \<and> now < hd (counted n w (to_lower email) ops) + w"
  using lockout_entry [OF assms, of ops w "to_lower email"] assms
  by (cases "counted n w (to_lower email) ops = []") (auto simp: IsLocked_def entry_of_def Let_def)

lemma lockout_exact_witness:
  "fst (IsLocked 50 ''Root@x.org'' (foldr lockout_step
     [Failed 20 ''root@x.org'', Cleaned 17, Asked 15 ''root@x.org'', Failed 10 ''ROOT@x.org''] (NewAdminLockoutTracker 2 100))) \<and>
   \<not> fst (IsLocked 135 ''root@x.org'' (foldr lockout_step
     [Failed 130 ''root@x.org'', Cleaned 125, Failed 20 ''root@x.org'', Failed 10 ''root@x.org''] (NewAdminLockoutTracker 2 100)))"
proof -
  have "to_lower ''Root@x.org'' = ''root@x.org''" "to_lower ''ROOT@x.org'' = ''root@x.org''" "to_lower ''root@x.org'' = ''root@x.org''"
    by code_simp+
  then show ?thesis
    using lockout_exact [of 2 50 "''Root@x.org''" "[Failed 20 ''root@x.org'', Cleaned 17, Asked 15 ''root@x.org'', Failed 10 ''ROOT@x.org'']" 100]
      lockout_exact [of 2 135 "''root@x.org''" "[Failed 130 ''root@x.org'', Cleaned 125, Failed 20 ''root@x.org'', Failed 10 ''root@x.org'']" 100]
    by (simp add: lock_over_def)
qed

subsection \<open>No request is counted twice or lost\<close>

text \<open>\<open>IncrementRequestsBy\<close> of the user store on the column of counts: an unknown user is no row.\<close>

definition IncrementRequestsBy :: "int \<Rightarrow> int \<Rightarrow> (int, int) gomap \<Rightarrow> (int, int) gomap" where
  "IncrementRequestsBy uid count db =
     (case aget db uid of None \<Rightarrow> db | Some n \<Rightarrow> aput uid (n + count) db)"

datatype count_op = CAdd int | CFlush

definition count_step :: "count_op \<Rightarrow> counter \<times> (int, int) gomap \<Rightarrow> counter \<times> (int, int) gomap" where
  "count_step op s =
     (case op of
        CAdd uid \<Rightarrow> (counter_Add uid (fst s), snd s)
      | CFlush \<Rightarrow> counter_Flush IncrementRequestsBy (fst s) (snd s))"

definition pending_count :: "counter \<Rightarrow> int \<Rightarrow> int" where
  "pending_count c uid = (case aget c uid of None \<Rightarrow> 0 | Some n \<Rightarrow> n)"

lemma flush_loop_count:
  "\<lbrakk>distinct (map fst c); aget db uid = Some n\<rbrakk> \<Longrightarrow>
   aget (flush_loop IncrementRequestsBy c db) uid = Some (n + pending_count c uid)"
proof (induction c arbitrary: db n)
  case Nil
  then show ?case by (simp add: pending_count_def)
next
  case (Cons e c)
  obtain u k where e: "e = (u, k)" by (cases e)
  let ?db = "IncrementRequestsBy u k db"
  have none: "u = uid \<Longrightarrow> aget c uid = None"
    using Cons.prems(1) e by (simp add: map_of_eq_None_iff)
  have db: "aget ?db uid = Some (n + (if u = uid then k else 0))"
    using Cons.prems(2) by (auto simp: IncrementRequestsBy_def split: option.split)
  show ?case
    using Cons.IH [OF _ db] Cons.prems(1) e none by (auto simp: pending_count_def)
qed

text \<open>However additions and flushes interleave, a user's count in the database plus the pending one is
  the initial count plus the number of requests counted.\<close>

theorem counts_conserved:
  assumes "aget db uid = Some n"
  shows "case fold count_step ops ([], db) of (c, db') \<Rightarrow>
    (\<exists>k. aget db' uid = Some k \<and> k + pending_count c uid = n + int (length (filter (\<lambda>op. op = CAdd uid) ops)))"
proof -
  have "wf_map c \<and> aget d uid = Some k \<longrightarrow>
      (case fold count_step ops (c, d) of (c', d') \<Rightarrow>
        (\<exists>k'. aget d' uid = Some k' \<and>
          k' + pending_count c' uid = k + pending_count c uid + int (length (filter (\<lambda>op. op = CAdd uid) ops))))" for c d k
  proof (induction ops arbitrary: c d k)
    case (Cons op ops)
    note IH = Cons.IH
    show ?case
    proof (cases op)
      case (CAdd u)
      have "pending_count (counter_Add u c) uid = pending_count c uid + (if u = uid then 1 else 0)"
        by (auto simp: pending_count_def counter_Add_def split: option.split)
      moreover have "wf_map c \<Longrightarrow> wf_map (counter_Add u c)" by (simp add: counter_Add_def)
      ultimately show ?thesis
        using IH [of "counter_Add u c" d k] CAdd by (auto simp: count_step_def split: prod.splits)
    next
      case CFlush
      show ?thesis
      proof (cases c)
        case Nil
        then show ?thesis using IH [of c d k] CFlush by (auto simp: count_step_def counter_Flush_def)
      next
        case (Cons e es)
        then have step: "count_step op (c, d) = ([], flush_loop IncrementRequestsBy c d)"
          using CFlush by (simp add: count_step_def counter_Flush_def)
        show ?thesis
        proof (intro impI)
          assume a: "wf_map c \<and> aget d uid = Some k"
          then have "aget (flush_loop IncrementRequestsBy c d) uid = Some (k + pending_count c uid)"
            by (intro flush_loop_count) (simp_all add: wf_map_def)
          then show "case fold count_step (op # ops) (c, d) of (c', d') \<Rightarrow>
              (\<exists>k'. aget d' uid = Some k' \<and>
                k' + pending_count c' uid = k + pending_count c uid + int (length (filter (\<lambda>op. op = CAdd uid) (op # ops))))"
            using IH [of "[]" "flush_loop IncrementRequestsBy c d" "k + pending_count c uid"] step CFlush
            by (simp add: pending_count_def)
        qed
      qed
    qed
  qed simp
  from this [of "[]" db n] show ?thesis using assms by (simp add: pending_count_def)
qed

lemma counts_conserved_witness:
  "case fold count_step [CAdd 4, CAdd 9, CFlush, CAdd 4] ([], [(4, 7)]) of (c, db') \<Rightarrow>
     (\<exists>k. aget db' 4 = Some k \<and> k + pending_count c 4 = 9)"
  using counts_conserved [of "[(4, 7)]" 4 7 "[CAdd 4, CAdd 9, CFlush, CAdd 4]"] by simp

end
