(* ===== verification/Rows.thy ===== *)
theory Rows
  imports Prelude
begin

text \<open>
  The rows of the log tables and of the notification settings: \<open>internal/model/connection_log.go\<close>,
  \<open>remote_request_log.go\<close>, \<open>module_event_log.go\<close>, \<open>audit_log.go\<close>, \<open>notification_settings.go\<close>,
  \<open>api_key_notification_settings.go\<close>, \<open>known_client_notification_settings.go\<close> and \<open>alert_config.go\<close>.
\<close>

record ConnectionLog =
  cg_ID :: int
  cg_UserID :: int
  cg_ClientID :: string
  cg_TokenName :: "string option"
  cg_IPAddress :: "string option"
  cg_UserAgent :: "string option"
  cg_WorldID :: "string option"
  cg_WorldTitle :: "string option"
  cg_SystemID :: "string option"
  cg_FoundryVersion :: "string option"
  cg_MetadataMatch :: bool
  cg_Flagged :: bool
  cg_FlagReason :: "string option"
  cg_CreatedAt :: gotime

record RemoteRequestLog =
  rx_ID :: int
  rx_UserID :: int
  rx_SourceClientID :: string
  rx_SourceTokenID :: int
  rx_TargetClientID :: string
  rx_Action :: string
  rx_Success :: bool
  rx_ErrorMessage :: "string option"
  rx_SourceIP :: "string option"
  rx_CreatedAt :: gotime

record ModuleEventLog =
  me_ID :: int
  me_UserID :: int
  me_ClientID :: string
  me_WorldTitle :: string
  me_EventType :: string
  me_Actor :: string
  me_Description :: string
  me_CreatedAt :: gotime

record AdminAuditLog =
  ad_ID :: int
  ad_AdminUserID :: int
  ad_Action :: string
  ad_TargetType :: string
  ad_TargetID :: "string option"
  ad_Details :: "string option"
  ad_IPAddress :: "string option"
  ad_CreatedAt :: gotime

record NotificationSettings =
  ns_ID :: int
  ns_UserID :: int
  ns_DiscordWebhookURL :: "string option"
  ns_NotifyEmail :: "string option"
  ns_NotifyOnConnect :: bool
  ns_NotifyOnDisconnect :: bool
  ns_NotifyOnMetadataMismatch :: bool
  ns_NotifyOnSettingsChange :: bool
  ns_NotifyOnExecuteJs :: bool
  ns_NotifyOnMacroExecute :: bool
  ns_NotifyOnNewClientConnect :: bool
  ns_DebounceWindowSecs :: int
  ns_BatchWindowSecs :: int
  ns_LogCrossWorldRequests :: bool
  ns_NotifyOnCrossWorldRequests :: bool
  ns_CreatedAt :: gotime
  ns_UpdatedAt :: gotime

record ApiKeyNotificationSettings =
  kn_ID :: int
  kn_ApiKeyID :: int
  kn_DiscordWebhookURL :: "string option"
  kn_NotifyEmail :: "string option"
  kn_NotifyOnExecuteJs :: bool
  kn_NotifyOnMacroExecute :: bool
  kn_NotifyOnRateLimit :: bool
  kn_NotifyOnError :: bool
  kn_CreatedAt :: gotime
  kn_UpdatedAt :: gotime

record KnownClientNotificationSettings =
  wn_ID :: int
  wn_KnownClientID :: int
  wn_UserID :: int
  wn_DiscordWebhookURL :: "string option"
  wn_NotifyEmail :: "string option"
  wn_NotifyOnConnect :: bool
  wn_NotifyOnDisconnect :: bool
  wn_NotifyOnExecuteJs :: bool
  wn_NotifyOnMacroExecute :: bool
  wn_CreatedAt :: gotime
  wn_UpdatedAt :: gotime

record AlertConfig =
  af_ID :: int
  af_DiscordWebhookURL :: string
  af_EmailDestination :: string
  af_UpdatedAt :: gotime

record AlertSubscription =
  ab_ID :: int
  ab_AlertType :: string
  ab_Channel :: string
  ab_Destination :: string
  ab_Enabled :: bool
  ab_CreatedAt :: gotime
  ab_UpdatedAt :: gotime

end
