(* ===== verification/Accounts.thy ===== *)
theory Accounts
  imports Permissions Limits Rows
begin

text \<open>
  The account tables and the stores over them: users (\<open>internal/model/user.go\<close>), scoped API keys
  (\<open>internal/model/api_key.go\<close>) and dashboard sessions (\<open>internal/model/session.go\<close>).

  A table is the list of its rows in the order of their identifiers; a SQL statement is its effect
  on that list.  A statement fails when the name of its store operation is listed in
  \<open>db_fails\<close>, so that every error path can be taken on its own.  An insert takes an identifier that
  is larger than every one before it and fails when a column declared UNIQUE would repeat.  SHA-256 in hexadecimal is the parameter \<open>sha\<close>, and the
  random text of a new key an argument.
\<close>

datatype 'a db_result = DBErr | DBOk 'a

record User =
  us_ID :: int
  us_Email :: string
  us_Password :: string
  us_APIKey :: string  \<comment> \<open>never a column\<close>
  us_APIKeyHash :: "string option"
  us_RequestsThisMonth :: int
  us_RequestsToday :: int
  us_LastRequestDate :: "gotime option"
  us_StripeCustomerID :: "string option"
  us_SubscriptionStatus :: "string option"
  us_SubscriptionID :: "string option"
  us_SubscriptionEndsAt :: "gotime option"
  us_MaxHeadlessSessions :: "int option"
  us_EmailVerified :: bool
  us_VerificationTokenHash :: "string option"
  us_VerificationTokenExpiresAt :: "gotime option"
  us_Role :: string
  us_Disabled :: bool
  us_APIKeyRotationRequired :: bool
  us_CreatedAt :: gotime
  us_UpdatedAt :: gotime

record Session =
  se_ID :: int
  se_UserID :: int
  se_TokenHash :: string
  se_UserAgent :: "string option"
  se_IPAddress :: "string option"
  se_ExpiresAt :: gotime
  se_LastUsedAt :: "gotime option"
  se_CreatedAt :: gotime

record PairingCode =
  pc_ID :: int
  pc_UserID :: int
  pc_Code :: string
  pc_ClientID :: "string option"
  pc_AllowedTargetClients :: "string option"
  pc_RemoteScopes :: "string option"
  pc_RemoteRequestsPerHour :: int
  pc_ExpiresAt :: gotime
  pc_Used :: bool
  pc_CreatedAt :: gotime

record PairRequest =
  pq_ID :: int
  pq_Code :: string
  pq_ClientID :: string
  pq_WorldID :: string
  pq_WorldTitle :: string
  pq_SystemID :: string
  pq_SystemTitle :: string
  pq_SystemVersion :: string
  pq_FoundryVersion :: string
  pq_RequestedRemoteScopes :: "string option"
  pq_RequestedTargetClients :: "string option"
  pq_UpgradeOnly :: bool
  pq_Status :: string
  pq_PairingCode :: "string option"
  pq_UserID :: "int option"
  pq_ExpiresAt :: gotime
  pq_CreatedAt :: gotime

record KeyRequest =
  kr_ID :: int
  kr_Code :: string
  kr_AppName :: string
  kr_AppDescription :: string
  kr_AppURL :: "string option"
  kr_RequestedScopes :: string
  kr_RequestedClientIDs :: string
  kr_CallbackURL :: "string option"
  kr_SuggestedMonthlyLimit :: "int option"
  kr_SuggestedExpiry :: "string option"
  kr_Status :: string
  kr_ApprovedKeyID :: "int option"
  kr_ApprovedByID :: "int option"
  kr_ExchangeCode :: "string option"
  kr_ExpiresAt :: gotime
  kr_CreatedAt :: gotime
  kr_UpdatedAt :: gotime

record Credential =
  cr_ID :: int
  cr_UserID :: int
  cr_Name :: string
  cr_FoundryURL :: string
  cr_FoundryUsername :: string
  cr_EncryptedFoundryPassword :: string
  cr_PasswordIV :: string
  cr_PasswordAuthTag :: string
  cr_EncryptedAdminPassword :: string
  cr_AdminPasswordIV :: string
  cr_AdminPasswordAuthTag :: string
  cr_World :: string
  cr_CreatedAt :: gotime
  cr_UpdatedAt :: gotime

record PasswordResetToken =
  pt_ID :: int
  pt_UserID :: int
  pt_TokenHash :: string
  pt_ExpiresAt :: gotime
  pt_Used :: bool
  pt_CreatedAt :: gotime
  pt_UpdatedAt :: gotime

record JWTDenylistEntry =
  jd_ID :: int
  jd_TokenJTI :: string
  jd_ExpiresAt :: gotime
  jd_CreatedAt :: gotime

record KnownUser =
  ku_ID :: int
  ku_KnownClientID :: int
  ku_UserID :: string
  ku_Name :: string
  ku_Role :: int
  ku_CreatedAt :: gotime
  ku_UpdatedAt :: gotime

record db =
  db_fails :: "string list"
  db_users :: "User list"
  db_keys :: "ApiKey list"
  db_sessions :: "Session list"
  db_known :: "KnownClient list"
  db_tokens :: "ConnectionToken list"
  db_codes :: "PairingCode list"
  db_pairs :: "PairRequest list"
  db_requests :: "KeyRequest list"
  db_credentials :: "Credential list"
  db_resets :: "PasswordResetToken list"
  db_denylist :: "JWTDenylistEntry list"
  db_knownUsers :: "KnownUser list"
  db_connectionLogs :: "ConnectionLog list"
  db_remoteLogs :: "RemoteRequestLog list"
  db_moduleLogs :: "ModuleEventLog list"
  db_auditLogs :: "AdminAuditLog list"
  db_settings :: "NotificationSettings list"
  db_keySettings :: "ApiKeyNotificationSettings list"
  db_worldSettings :: "KnownClientNotificationSettings list"
  db_alertConfig :: "AlertConfig list"
  db_alertSubs :: "AlertSubscription list"
  db_next :: int

definition IsAdmin :: "User \<Rightarrow> bool" where
  "IsAdmin u \<longleftrightarrow> us_Role u = ''admin''"

definition GetSubscriptionStatus :: "User \<Rightarrow> string" where
  "GetSubscriptionStatus u = (case us_SubscriptionStatus u of Some s \<Rightarrow> s | None \<Rightarrow> ''free'')"

definition HashAPIKey :: "(string \<Rightarrow> string) \<Rightarrow> string \<Rightarrow> string" where
  "HashAPIKey sha plaintext = (if plaintext = [] then [] else sha plaintext)"

definition HashSessionToken :: "(string \<Rightarrow> string) \<Rightarrow> string \<Rightarrow> string" where
  "HashSessionToken sha raw = (if raw = [] then [] else sha raw)"

text \<open>The statements: read one row, update rows, delete rows.\<close>

definition db_ok :: "string \<Rightarrow> db \<Rightarrow> bool" where
  "db_ok stmt d \<longleftrightarrow> stmt \<notin> set (db_fails d)"

definition get_row :: "string \<Rightarrow> ('r \<Rightarrow> bool) \<Rightarrow> 'r list \<Rightarrow> db \<Rightarrow> 'r option db_result" where
  "get_row stmt P rows d = (if db_ok stmt d then DBOk (find P rows) else DBErr)"

definition update_rows :: "('r \<Rightarrow> bool) \<Rightarrow> ('r \<Rightarrow> 'r) \<Rightarrow> 'r list \<Rightarrow> 'r list" where
  "update_rows P f rows = map (\<lambda>r. if P r then f r else r) rows"

definition exec :: "string \<Rightarrow> (db \<Rightarrow> db) \<Rightarrow> db \<Rightarrow> unit db_result \<times> db" where
  "exec stmt f d = (if db_ok stmt d then (DBOk (), f d) else (DBErr, d))"

definition page :: "int \<Rightarrow> int \<Rightarrow> 'r list \<Rightarrow> 'r list" where
  "page offset limit rows =
     (let l = (if limit \<le> 0 then 50 else limit); off = (if offset < 0 then 0 else offset)
      in take (nat l) (drop (nat off) rows))"

subsection \<open>Users\<close>

definition us_FindByID :: "int \<Rightarrow> db \<Rightarrow> User option db_result" where
  "us_FindByID i d = get_row ''us_FindByID'' (\<lambda>u. us_ID u = i) (db_users d) d"

definition us_FindByEmail :: "string \<Rightarrow> db \<Rightarrow> User option db_result" where
  "us_FindByEmail email d = get_row ''us_FindByEmail'' (\<lambda>u. us_Email u = email) (db_users d) d"

definition us_FindByAPIKeyHash :: "string \<Rightarrow> db \<Rightarrow> User option db_result" where
  "us_FindByAPIKeyHash hash d =
     (if hash = [] then DBOk None else get_row ''us_FindByAPIKeyHash'' (\<lambda>u. us_APIKeyHash u = Some hash) (db_users d) d)"

definition us_FindByAPIKey :: "(string \<Rightarrow> string) \<Rightarrow> string \<Rightarrow> db \<Rightarrow> User option db_result" where
  "us_FindByAPIKey sha apiKey d =
     (if apiKey = [] then DBOk None else us_FindByAPIKeyHash (HashAPIKey sha apiKey) d)"

definition us_FindByStripeCustomerID :: "string \<Rightarrow> db \<Rightarrow> User option db_result" where
  "us_FindByStripeCustomerID customerID d = get_row ''us_FindByStripeCustomerID'' (\<lambda>u. us_StripeCustomerID u = Some customerID) (db_users d) d"

definition us_FindAllPaginated :: "int \<Rightarrow> int \<Rightarrow> db \<Rightarrow> (User list \<times> int) db_result" where
  "us_FindAllPaginated offset limit d =
     (if db_ok ''us_FindAllPaginated'' d then DBOk (page offset limit (db_users d), int (length (db_users d))) else DBErr)"

definition derive_hash :: "(string \<Rightarrow> string) \<Rightarrow> User \<Rightarrow> User" where
  "derive_hash sha u =
     (if us_APIKey u \<noteq> [] then u\<lparr>us_APIKeyHash := Some (HashAPIKey sha (us_APIKey u))\<rparr> else u)"

text \<open>The columns that \<open>Create\<close> writes; the others take their defaults.  The caller's record receives what SQLite's branch
fills in (PostgreSQL's leaves the times).\<close>

definition us_Create :: "(string \<Rightarrow> string) \<Rightarrow> gotime \<Rightarrow> User \<Rightarrow> db \<Rightarrow> unit db_result \<times> User \<times> db" where
  "us_Create sha now user d =
     (let status = (case us_SubscriptionStatus user of Some s \<Rightarrow> s | None \<Rightarrow> ''free'');
          role = (if us_Role user = [] then ''user'' else us_Role user);
          user1 = derive_hash sha user
      in if \<not> db_ok ''us_Create'' d \<or>
            list_ex (\<lambda>u. us_Email u = us_Email user1 \<or> (us_APIKeyHash user1 \<noteq> None \<and> us_APIKeyHash u = us_APIKeyHash user1)) (db_users d)
         then (DBErr, user1, d)
         else
           (let row = user1\<lparr>us_ID := db_next d, us_APIKey := [], us_SubscriptionStatus := Some status,
                  us_Role := role, us_LastRequestDate := None, us_StripeCustomerID := None,
                  us_SubscriptionID := None, us_SubscriptionEndsAt := None, us_MaxHeadlessSessions := None,
                  us_CreatedAt := now, us_UpdatedAt := now\<rparr>
            in (DBOk (), user1\<lparr>us_ID := db_next d, us_Role := role, us_CreatedAt := now, us_UpdatedAt := now\<rparr>,
                d\<lparr>db_users := db_users d @ [row], db_next := db_next d + 1\<rparr>)))"

definition us_Update :: "(string \<Rightarrow> string) \<Rightarrow> gotime \<Rightarrow> User \<Rightarrow> db \<Rightarrow> unit db_result \<times> db" where
  "us_Update sha now user d =
     (let user1 = derive_hash sha (user\<lparr>us_UpdatedAt := now,
            us_Role := (if us_Role user = [] then ''user'' else us_Role user)\<rparr>)
      in exec ''us_Update'' (\<lambda>d. d\<lparr>db_users := update_rows (\<lambda>u. us_ID u = us_ID user1)
            (\<lambda>u. user1\<lparr>us_APIKey := [], us_CreatedAt := us_CreatedAt u\<rparr>) (db_users d)\<rparr>) d)"

definition on_user :: "string \<Rightarrow> int \<Rightarrow> (User \<Rightarrow> User) \<Rightarrow> db \<Rightarrow> unit db_result \<times> db" where
  "on_user stmt i f d = exec stmt (\<lambda>d. d\<lparr>db_users := update_rows (\<lambda>u. us_ID u = i) f (db_users d)\<rparr>) d"

definition us_SetDisabled :: "gotime \<Rightarrow> int \<Rightarrow> bool \<Rightarrow> db \<Rightarrow> unit db_result \<times> db" where
  "us_SetDisabled now i disabled d = on_user ''us_SetDisabled'' i (\<lambda>u. u\<lparr>us_Disabled := disabled, us_UpdatedAt := now\<rparr>) d"

definition us_SetRole :: "gotime \<Rightarrow> int \<Rightarrow> string \<Rightarrow> db \<Rightarrow> unit db_result \<times> db" where
  "us_SetRole now i role d =
     on_user ''us_SetRole'' i (\<lambda>u. u\<lparr>us_Role := (if role = [] then ''user'' else role), us_UpdatedAt := now\<rparr>) d"

definition us_Delete :: "int \<Rightarrow> db \<Rightarrow> unit db_result \<times> db" where
  "us_Delete i d = exec ''us_Delete'' (\<lambda>d. d\<lparr>db_users := filter (\<lambda>u. us_ID u \<noteq> i) (db_users d)\<rparr>) d"

definition us_IncrementRequestsBy :: "gotime \<Rightarrow> int \<Rightarrow> int \<Rightarrow> db \<Rightarrow> unit db_result \<times> db" where
  "us_IncrementRequestsBy now i count d =
     on_user ''us_IncrementRequestsBy'' i (\<lambda>u. u\<lparr>us_RequestsThisMonth := us_RequestsThisMonth u + count,
                      us_RequestsToday := us_RequestsToday u + count,
                      us_LastRequestDate := Some now, us_UpdatedAt := now\<rparr>) d"

definition us_IncrementRequests :: "gotime \<Rightarrow> int \<Rightarrow> db \<Rightarrow> unit db_result \<times> db" where
  "us_IncrementRequests now i d =
     on_user ''us_IncrementRequests'' i (\<lambda>u. u\<lparr>us_RequestsThisMonth := us_RequestsThisMonth u + 1,
                      us_RequestsToday := us_RequestsToday u + 1,
                      us_LastRequestDate := Some now, us_UpdatedAt := now\<rparr>) d"

definition us_ResetMonthlyRequests :: "gotime \<Rightarrow> db \<Rightarrow> unit db_result \<times> db" where
  "us_ResetMonthlyRequests now d =
     exec ''us_ResetMonthlyRequests'' (\<lambda>d. d\<lparr>db_users := map (\<lambda>u. u\<lparr>us_RequestsThisMonth := 0, us_RequestsToday := 0, us_UpdatedAt := now\<rparr>) (db_users d)\<rparr>) d"

definition us_ResetDailyRequests :: "gotime \<Rightarrow> db \<Rightarrow> unit db_result \<times> db" where
  "us_ResetDailyRequests now d =
     exec ''us_ResetDailyRequests'' (\<lambda>d. d\<lparr>db_users := map (\<lambda>u. u\<lparr>us_RequestsToday := 0, us_UpdatedAt := now\<rparr>) (db_users d)\<rparr>) d"

subsection \<open>Scoped API keys\<close>

text \<open>By hash, then by plaintext for older rows, whose hash is filled in.\<close>

definition ak_FindByKey :: "(string \<Rightarrow> string) \<Rightarrow> string \<Rightarrow> db \<Rightarrow> ApiKey option db_result \<times> db" where
  "ak_FindByKey sha key d =
     (let hash = HashAPIKey sha key
      in case get_row ''ak_FindByKey'' (\<lambda>k. ak_KeyHash k = hash) (db_keys d) d of
           DBErr \<Rightarrow> (DBErr, d)
         | DBOk (Some k) \<Rightarrow> (DBOk (Some k), d)
         | DBOk None \<Rightarrow>
             (case get_row ''ak_FindByKey.plaintext'' (\<lambda>k. ak_Key k = key) (db_keys d) d of
                DBErr \<Rightarrow> (DBErr, d)
              | DBOk None \<Rightarrow> (DBOk None, d)
              | DBOk (Some k) \<Rightarrow>
                  (DBOk (Some (k\<lparr>ak_KeyHash := hash\<rparr>)),
                   snd (exec ''ak_FindByKey.backfill'' (\<lambda>d. d\<lparr>db_keys := update_rows (\<lambda>r. ak_ID r = ak_ID k) (\<lambda>r. r\<lparr>ak_KeyHash := hash\<rparr>) (db_keys d)\<rparr>) d))))"

definition ak_FindByID :: "int \<Rightarrow> db \<Rightarrow> ApiKey option db_result" where
  "ak_FindByID i d = get_row ''ak_FindByID'' (\<lambda>k. ak_ID k = i) (db_keys d) d"

definition ak_FindAllByUser :: "int \<Rightarrow> db \<Rightarrow> ApiKey list db_result" where
  "ak_FindAllByUser uid d = (if db_ok ''ak_FindAllByUser'' d then DBOk (filter (\<lambda>k. ak_UserID k = uid) (db_keys d)) else DBErr)"

definition ak_FindAllPaginated :: "int \<Rightarrow> int \<Rightarrow> db \<Rightarrow> (ApiKey list \<times> int) db_result" where
  "ak_FindAllPaginated offset limit d =
     (if db_ok ''ak_FindAllPaginated'' d then DBOk (page offset limit (db_keys d), int (length (db_keys d))) else DBErr)"

text \<open>\<open>fresh\<close> is the random key that is used when the caller gives none.\<close>

definition ak_Create :: "(string \<Rightarrow> string) \<Rightarrow> gotime \<Rightarrow> string \<Rightarrow> ApiKey \<Rightarrow> db \<Rightarrow> unit db_result \<times> ApiKey \<times> db" where
  "ak_Create sha now fresh key d =
     (let key1 = (if ak_Key key = [] then key\<lparr>ak_Key := fresh\<rparr> else key);
          key2 = key1\<lparr>ak_KeyHash := HashAPIKey sha (ak_Key key1)\<rparr>
      in if \<not> db_ok ''ak_Create'' d \<or>
            list_ex (\<lambda>k. ak_Key k = ak_Key key2 \<or> ak_KeyHash k = ak_KeyHash key2) (db_keys d)
         then (DBErr, key2, d)
         else
           (let row = key2\<lparr>ak_ID := db_next d, ak_LastResetDate := None, ak_CreatedAt := now, ak_UpdatedAt := now\<rparr>
            in (DBOk (), row, d\<lparr>db_keys := db_keys d @ [row], db_next := db_next d + 1\<rparr>)))"

definition ak_Update :: "gotime \<Rightarrow> ApiKey \<Rightarrow> db \<Rightarrow> unit db_result \<times> db" where
  "ak_Update now key d =
     exec ''ak_Update'' (\<lambda>d. d\<lparr>db_keys := update_rows (\<lambda>r. ak_ID r = ak_ID key)
        (\<lambda>r. r\<lparr>ak_Name := ak_Name key, ak_ScopedClientID := ak_ScopedClientID key,
               ak_ScopedUserID := ak_ScopedUserID key, ak_MonthlyLimit := ak_MonthlyLimit key,
               ak_RequestsThisMonth := ak_RequestsThisMonth key, ak_LastResetDate := ak_LastResetDate key,
               ak_ExpiresAt := ak_ExpiresAt key, ak_Enabled := ak_Enabled key, ak_UpdatedAt := now,
               ak_Scopes := ak_Scopes key, ak_ScopedClientIDs := ak_ScopedClientIDs key,
               ak_ScopedUserIDs := ak_ScopedUserIDs key\<rparr>) (db_keys d)\<rparr>) d"

definition ak_Delete :: "int \<Rightarrow> db \<Rightarrow> unit db_result \<times> db" where
  "ak_Delete i d = exec ''ak_Delete'' (\<lambda>d. d\<lparr>db_keys := filter (\<lambda>k. ak_ID k \<noteq> i) (db_keys d)\<rparr>) d"

definition ak_DeleteAllByUser :: "int \<Rightarrow> db \<Rightarrow> int db_result \<times> db" where
  "ak_DeleteAllByUser uid d =
     (if db_ok ''ak_DeleteAllByUser'' d
      then (DBOk (int (length (filter (\<lambda>k. ak_UserID k = uid) (db_keys d)))),
            d\<lparr>db_keys := filter (\<lambda>k. ak_UserID k \<noteq> uid) (db_keys d)\<rparr>)
      else (DBErr, d))"

definition ak_ResetMonthlyCounters :: "gotime \<Rightarrow> db \<Rightarrow> unit db_result \<times> db" where
  "ak_ResetMonthlyCounters now d =
     exec ''ak_ResetMonthlyCounters'' (\<lambda>d. d\<lparr>db_keys := map (\<lambda>k. k\<lparr>ak_RequestsThisMonth := 0, ak_LastResetDate := None, ak_UpdatedAt := now\<rparr>) (db_keys d)\<rparr>) d"

definition ak_IncrementMonthlyRequests :: "gotime \<Rightarrow> int \<Rightarrow> db \<Rightarrow> unit db_result \<times> db" where
  "ak_IncrementMonthlyRequests now i d =
     exec ''ak_IncrementMonthlyRequests'' (\<lambda>d. d\<lparr>db_keys := update_rows (\<lambda>k. ak_ID k = i)
        (\<lambda>k. k\<lparr>ak_RequestsThisMonth := ak_RequestsThisMonth k + 1, ak_LastResetDate := Some now, ak_UpdatedAt := now\<rparr>)
        (db_keys d)\<rparr>) d"

definition ak_RegenerateKey :: "(string \<Rightarrow> string) \<Rightarrow> gotime \<Rightarrow> string \<Rightarrow> int \<Rightarrow> db \<Rightarrow> string db_result \<times> db" where
  "ak_RegenerateKey sha now newKey i d =
     (case exec ''ak_RegenerateKey'' (\<lambda>d. d\<lparr>db_keys := update_rows (\<lambda>k. ak_ID k = i)
              (\<lambda>k. k\<lparr>ak_Key := newKey, ak_KeyHash := HashAPIKey sha newKey, ak_UpdatedAt := now\<rparr>) (db_keys d)\<rparr>) d of
        (DBErr, d') \<Rightarrow> (DBErr, d')
      | (DBOk _, d') \<Rightarrow> (DBOk newKey, d'))"

subsection \<open>Sessions\<close>

text \<open>Times are stored in whole seconds, and compared as stored.\<close>

definition db_time :: "gotime \<Rightarrow> gotime" where
  "db_time t = t - t mod 1000000000"

definition se_Create :: "gotime \<Rightarrow> Session \<Rightarrow> db \<Rightarrow> unit db_result \<times> db" where
  "se_Create now s d =
     (if list_ex (\<lambda>r. se_TokenHash r = se_TokenHash s) (db_sessions d) then (DBErr, d)
      else exec ''se_Create'' (\<lambda>d. d\<lparr>db_sessions := db_sessions d @
        [s\<lparr>se_ID := db_next d, se_ExpiresAt := db_time (se_ExpiresAt s), se_LastUsedAt := None, se_CreatedAt := db_time now\<rparr>],
        db_next := db_next d + 1\<rparr>) d)"

definition se_FindByTokenHash :: "gotime \<Rightarrow> string \<Rightarrow> db \<Rightarrow> Session option db_result" where
  "se_FindByTokenHash now hash d =
     (if hash = [] then DBOk None
      else get_row ''se_FindByTokenHash'' (\<lambda>s. se_TokenHash s = hash \<and> se_ExpiresAt s > db_time now) (db_sessions d) d)"

definition se_UpdateLastUsed :: "gotime \<Rightarrow> int \<Rightarrow> db \<Rightarrow> unit db_result \<times> db" where
  "se_UpdateLastUsed now i d =
     exec ''se_UpdateLastUsed'' (\<lambda>d. d\<lparr>db_sessions := update_rows (\<lambda>s. se_ID s = i) (\<lambda>s. s\<lparr>se_LastUsedAt := Some (db_time now)\<rparr>) (db_sessions d)\<rparr>) d"

definition se_Delete :: "int \<Rightarrow> db \<Rightarrow> unit db_result \<times> db" where
  "se_Delete i d = exec ''se_Delete'' (\<lambda>d. d\<lparr>db_sessions := filter (\<lambda>s. se_ID s \<noteq> i) (db_sessions d)\<rparr>) d"

definition se_DeleteByTokenHash :: "string \<Rightarrow> db \<Rightarrow> unit db_result \<times> db" where
  "se_DeleteByTokenHash hash d =
     exec ''se_DeleteByTokenHash'' (\<lambda>d. d\<lparr>db_sessions := filter (\<lambda>s. se_TokenHash s \<noteq> hash) (db_sessions d)\<rparr>) d"

definition deleting_sessions :: "string \<Rightarrow> (Session \<Rightarrow> bool) \<Rightarrow> db \<Rightarrow> int db_result \<times> db" where
  "deleting_sessions stmt P d =
     (if db_ok stmt d
      then (DBOk (int (length (filter P (db_sessions d)))), d\<lparr>db_sessions := filter (\<lambda>s. \<not> P s) (db_sessions d)\<rparr>)
      else (DBErr, d))"

definition se_DeleteAllByUser :: "int \<Rightarrow> db \<Rightarrow> int db_result \<times> db" where
  "se_DeleteAllByUser uid d = deleting_sessions ''se_DeleteAllByUser'' (\<lambda>s. se_UserID s = uid) d"

definition se_CleanupExpired :: "gotime \<Rightarrow> db \<Rightarrow> int db_result \<times> db" where
  "se_CleanupExpired now d = deleting_sessions ''se_CleanupExpired'' (\<lambda>s. se_ExpiresAt s < db_time now) d"

subsection \<open>Known clients\<close>

definition kc_FindByClientID :: "int \<Rightarrow> string \<Rightarrow> db \<Rightarrow> KnownClient option db_result" where
  "kc_FindByClientID uid cid d = get_row ''kc_FindByClientID'' (\<lambda>c. kc_UserID c = uid \<and> kc_ClientID c = cid) (db_known d) d"

lemma get_row_mem: "get_row stmt P rows d = DBOk (Some x) \<Longrightarrow> x \<in> set rows \<and> P x"
  by (auto simp: get_row_def find_Some_iff split: if_splits)

lemma update_rows_mem: "\<lbrakk>r \<in> set rows; P r\<rbrakk> \<Longrightarrow> f r \<in> set (update_rows P f rows)"
  by (force simp: update_rows_def)

subsection \<open>Rows for examples\<close>

definition empty_db :: db where
  "empty_db =
     \<lparr>db_fails = [], db_users = [], db_keys = [], db_sessions = [], db_known = [], db_tokens = [], db_codes = [],
      db_pairs = [], db_requests = [], db_credentials = [], db_resets = [], db_denylist = [], db_knownUsers = [],
      db_connectionLogs = [], db_remoteLogs = [], db_moduleLogs = [], db_auditLogs = [], db_settings = [], db_keySettings = [],
      db_worldSettings = [], db_alertConfig = [], db_alertSubs = [], db_next = 1\<rparr>"

definition ex_user :: "int \<Rightarrow> User" where
  "ex_user i =
     \<lparr>us_ID = i, us_Email = ''gm@x.org'', us_Password = [], us_APIKey = [], us_APIKeyHash = Some ''account'',
      us_RequestsThisMonth = 0, us_RequestsToday = 0, us_LastRequestDate = None, us_StripeCustomerID = None,
      us_SubscriptionStatus = Some ''free'', us_SubscriptionID = None, us_SubscriptionEndsAt = None,
      us_MaxHeadlessSessions = None, us_EmailVerified = True, us_VerificationTokenHash = None,
      us_VerificationTokenExpiresAt = None, us_Role = ''user'', us_Disabled = False, us_APIKeyRotationRequired = False,
      us_CreatedAt = 0, us_UpdatedAt = 0\<rparr>"

definition ex_key :: "int \<Rightarrow> int \<Rightarrow> string \<Rightarrow> ApiKey" where
  "ex_key i uid key =
     \<lparr>ak_ID = i, ak_UserID = uid, ak_Key = key, ak_KeyHash = key, ak_Name = ''key'', ak_ScopedClientID = None,
      ak_ScopedUserID = None, ak_MonthlyLimit = None, ak_RequestsThisMonth = 0, ak_LastResetDate = None, ak_Scopes = [],
      ak_ScopedClientIDs = None, ak_ScopedUserIDs = None, ak_ExpiresAt = None, ak_Enabled = True, ak_CreatedAt = 0,
      ak_UpdatedAt = 0\<rparr>"

definition ex_known :: "int \<Rightarrow> int \<Rightarrow> string \<Rightarrow> KnownClient" where
  "ex_known i uid cid =
     \<lparr>kc_ID = i, kc_UserID = uid, kc_ClientID = cid, kc_WorldID = None, kc_WorldTitle = None, kc_SystemID = None,
      kc_SystemTitle = None, kc_SystemVersion = None, kc_FoundryVersion = None, kc_CustomName = None,
      kc_LastSeenAt = None, kc_IsOnline = False, kc_AutoStartOnRemoteRequest = False, kc_CredentialID = None,
      kc_ServerFingerprint = None, kc_PublicUrl = None, kc_AllowedTargetClients = None, kc_RemoteScopes = None,
      kc_RemoteRequestsPerHour = 0, kc_CreatedAt = 0, kc_UpdatedAt = 0\<rparr>"

definition ex_token :: "int \<Rightarrow> int \<Rightarrow> string \<Rightarrow> ConnectionToken" where
  "ex_token i uid hash =
     \<lparr>ct_ID = i, ct_UserID = uid, ct_TokenHash = hash, ct_Name = ''Chrome on Linux'', ct_AllowedIPs = None,
      ct_AllowedTargetClients = None, ct_RemoteScopes = None, ct_RemoteRequestsPerHour = 0, ct_ClientID = [],
      ct_Source = ''dashboard'', ct_LastUsedAt = None, ct_CreatedAt = 0, ct_UpdatedAt = 0\<rparr>"

lemmas ex_rows = empty_db_def ex_user_def ex_key_def ex_known_def ex_token_def

subsection \<open>What the stores keep\<close>

text \<open>The column of counts of the users table is the map the request counter flushes into.\<close>

lemma counts_column:
  assumes "db_fails d = []" and "distinct (map us_ID (db_users d))"
  shows "map_of (map (\<lambda>u. (us_ID u, us_RequestsThisMonth u)) (db_users (snd (us_IncrementRequestsBy now i n d)))) =
    map_of (IncrementRequestsBy i n (map (\<lambda>u. (us_ID u, us_RequestsThisMonth u)) (db_users d)))"
proof -
  let ?col = "\<lambda>us. map (\<lambda>u. (us_ID u, us_RequestsThisMonth u)) us"
  have "map_of (?col (update_rows (\<lambda>u. us_ID u = i)
      (\<lambda>u. u\<lparr>us_RequestsThisMonth := us_RequestsThisMonth u + n, us_RequestsToday := us_RequestsToday u + n,
             us_LastRequestDate := Some now, us_UpdatedAt := now\<rparr>) us)) j =
      (if j = i then map_option (\<lambda>c. c + n) (map_of (?col us) i) else map_of (?col us) j)"
    if "distinct (map us_ID us)" for us :: "User list" and j
    using that
  proof (induction us)
    case (Cons u us)
    then show ?case by (auto simp: update_rows_def map_of_eq_None_iff image_iff split: if_splits)
  qed (simp add: update_rows_def)
  then show ?thesis
    using assms
    by (auto simp: us_IncrementRequestsBy_def on_user_def exec_def db_ok_def IncrementRequestsBy_def fun_eq_iff split: option.split)
qed

text \<open>A read-modify-write of a row restores the counts it had when it was read.\<close>

lemma update_restores_counts:
  assumes "db_fails d = []" and "us_ID u = i" and "u \<in> set (db_users d)"
  shows "\<forall>v \<in> set (db_users (snd (us_Update sha now u (snd (us_IncrementRequestsBy now' i n d))))).
    us_ID v = i \<longrightarrow> us_RequestsThisMonth v = us_RequestsThisMonth u"
  using assms by (auto simp: us_Update_def us_IncrementRequestsBy_def on_user_def exec_def db_ok_def update_rows_def derive_hash_def Let_def)

text \<open>The comment on \<open>Create\<close> notwithstanding, the plaintext of a key is a column of its row.\<close>

lemma key_stored_in_plaintext:
  assumes "ak_Key key \<noteq> []" and "ak_Create sha now fresh key d = (DBOk (), key', d')"
  shows "\<exists>row \<in> set (db_keys d'). ak_Key row = ak_Key key"
  using assms by (auto simp: ak_Create_def Let_def split: if_splits)

end
