(* ===== verification/Tables.thy ===== *)
theory Tables
  imports Accounts "HOL-Library.List_Lexorder" "HOL-Library.Char_ord"
begin

text \<open>
  The stores over the remaining tables: connection tokens (\<open>internal/model/connection_token.go\<close>),
  known clients (\<open>known_client.go\<close>), pairing codes (\<open>pairing_code.go\<close>), pair requests
  (\<open>pair_request.go\<close>), key requests (\<open>key_request.go\<close>), stored credentials (\<open>credential.go\<close>),
  password reset tokens (\<open>password_reset.go\<close>), revoked admin tokens (\<open>jwt_denylist.go\<close>) and the users
  of a world (\<open>known_user.go\<close>), with the conventions of \<open>Accounts\<close>: a SQL statement is its effect on
  the list of rows.  A time bound as \<open>SQLiteTime\<close> is cut to whole seconds (\<open>db_time\<close>), one bound as
  \<open>time.Time\<close> is not.
\<close>

text \<open>\<open>DELETE\<close> with the number of rows as its answer.\<close>

definition delete_rows :: "string \<Rightarrow> ('r \<Rightarrow> bool) \<Rightarrow> 'r list \<Rightarrow> ('r list \<Rightarrow> db \<Rightarrow> db) \<Rightarrow> db \<Rightarrow> int db_result \<times> db" where
  "delete_rows stmt P rows put d =
     (if db_ok stmt d then (DBOk (int (length (filter P rows))), put (filter (\<lambda>r. \<not> P r) rows) d) else (DBErr, d))"

subsection \<open>Connection tokens\<close>

definition tk_FindByTokenHash :: "string \<Rightarrow> db \<Rightarrow> ConnectionToken option db_result" where
  "tk_FindByTokenHash hash d = get_row ''tk_FindByTokenHash'' (\<lambda>t. ct_TokenHash t = hash) (db_tokens d) d"

definition tk_FindByID :: "int \<Rightarrow> db \<Rightarrow> ConnectionToken option db_result" where
  "tk_FindByID i d = get_row ''tk_FindByID'' (\<lambda>t. ct_ID t = i) (db_tokens d) d"

definition tk_FindAllByUser :: "int \<Rightarrow> db \<Rightarrow> ConnectionToken list db_result" where
  "tk_FindAllByUser uid d =
     (if db_ok ''tk_FindAllByUser'' d then DBOk (filter (\<lambda>t. ct_UserID t = uid) (db_tokens d)) else DBErr)"

text \<open>\<open>remoteRequestsPerHour\<close> and \<open>lastUsedAt\<close> are not among the inserted columns.\<close>

definition tk_Create :: "gotime \<Rightarrow> ConnectionToken \<Rightarrow> db \<Rightarrow> unit db_result \<times> ConnectionToken \<times> db" where
  "tk_Create now token d =
     (let tok = (if ct_Source token = [] then token\<lparr>ct_Source := ''dashboard''\<rparr> else token);
          row = tok\<lparr>ct_ID := db_next d, ct_RemoteRequestsPerHour := 0, ct_LastUsedAt := None,
                    ct_CreatedAt := db_time now, ct_UpdatedAt := db_time now\<rparr>
      in if \<not> db_ok ''tk_Create'' d \<or> list_ex (\<lambda>t. ct_TokenHash t = ct_TokenHash tok) (db_tokens d) then (DBErr, tok, d)
         else (DBOk (), tok\<lparr>ct_ID := db_next d\<rparr>, d\<lparr>db_tokens := db_tokens d @ [row], db_next := db_next d + 1\<rparr>))"

definition on_token :: "string \<Rightarrow> int \<Rightarrow> (ConnectionToken \<Rightarrow> ConnectionToken) \<Rightarrow> db \<Rightarrow> unit db_result \<times> db" where
  "on_token stmt i f d = exec stmt (\<lambda>d. d\<lparr>db_tokens := update_rows (\<lambda>t. ct_ID t = i) f (db_tokens d)\<rparr>) d"

definition tk_UpdatePermissions ::
    "gotime \<Rightarrow> int \<Rightarrow> string \<Rightarrow> string option \<Rightarrow> string option \<Rightarrow> string option \<Rightarrow> int \<Rightarrow> db \<Rightarrow> unit db_result \<times> db" where
  "tk_UpdatePermissions now i name allowedIPs targets scopes perHour d =
     on_token ''tk_UpdatePermissions'' i
       (\<lambda>t. t\<lparr>ct_Name := name, ct_AllowedIPs := allowedIPs, ct_AllowedTargetClients := targets, ct_RemoteScopes := scopes,
              ct_RemoteRequestsPerHour := perHour, ct_UpdatedAt := db_time now\<rparr>) d"

definition tk_Delete :: "int \<Rightarrow> db \<Rightarrow> unit db_result \<times> db" where
  "tk_Delete i d = exec ''tk_Delete'' (\<lambda>d. d\<lparr>db_tokens := filter (\<lambda>t. ct_ID t \<noteq> i) (db_tokens d)\<rparr>) d"

definition tk_DeleteAllByClientID :: "int \<Rightarrow> string \<Rightarrow> db \<Rightarrow> int db_result \<times> db" where
  "tk_DeleteAllByClientID uid cid d =
     delete_rows ''tk_DeleteAllByClientID'' (\<lambda>t. ct_UserID t = uid \<and> ct_ClientID t = cid) (db_tokens d)
       (\<lambda>ts d. d\<lparr>db_tokens := ts\<rparr>) d"

definition tk_DeleteAllByUser :: "int \<Rightarrow> db \<Rightarrow> int db_result \<times> db" where
  "tk_DeleteAllByUser uid d =
     delete_rows ''tk_DeleteAllByUser'' (\<lambda>t. ct_UserID t = uid) (db_tokens d) (\<lambda>ts d. d\<lparr>db_tokens := ts\<rparr>) d"

definition tk_UpdateLastUsed :: "gotime \<Rightarrow> int \<Rightarrow> db \<Rightarrow> unit db_result \<times> db" where
  "tk_UpdateLastUsed now i d =
     on_token ''tk_UpdateLastUsed'' i (\<lambda>t. t\<lparr>ct_LastUsedAt := Some (db_time now), ct_UpdatedAt := db_time now\<rparr>) d"

subsection \<open>Known clients\<close>

text \<open>\<open>COALESCE(NULLIF(new, ''), old)\<close>.\<close>

definition keep_on_empty :: "string option \<Rightarrow> string option \<Rightarrow> string option" where
  "keep_on_empty new old = (case new of None \<Rightarrow> old | Some s \<Rightarrow> if s = [] then old else new)"

definition kc_Upsert :: "gotime \<Rightarrow> KnownClient \<Rightarrow> db \<Rightarrow> unit db_result \<times> db" where
  "kc_Upsert now c d =
     exec ''kc_Upsert''
       (\<lambda>d. let same = (\<lambda>r. kc_UserID r = kc_UserID c \<and> kc_ClientID r = kc_ClientID c)
            in if list_ex same (db_known d)
               then d\<lparr>db_known := update_rows same
                      (\<lambda>r. r\<lparr>kc_WorldID := keep_on_empty (kc_WorldID c) (kc_WorldID r),
                             kc_WorldTitle := keep_on_empty (kc_WorldTitle c) (kc_WorldTitle r),
                             kc_SystemID := keep_on_empty (kc_SystemID c) (kc_SystemID r),
                             kc_SystemTitle := keep_on_empty (kc_SystemTitle c) (kc_SystemTitle r),
                             kc_SystemVersion := keep_on_empty (kc_SystemVersion c) (kc_SystemVersion r),
                             kc_FoundryVersion := keep_on_empty (kc_FoundryVersion c) (kc_FoundryVersion r),
                             kc_CustomName := keep_on_empty (kc_CustomName c) (kc_CustomName r),
                             kc_ServerFingerprint := keep_on_empty (kc_ServerFingerprint c) (kc_ServerFingerprint r),
                             kc_IsOnline := kc_IsOnline c, kc_UpdatedAt := db_time now, kc_LastSeenAt := Some (db_time now),
                             kc_PublicUrl := keep_on_empty (kc_PublicUrl c) (kc_PublicUrl r)\<rparr>) (db_known d)\<rparr>
               else d\<lparr>db_known := db_known d @
                        [c\<lparr>kc_ID := db_next d, kc_LastSeenAt := Some (db_time now), kc_AutoStartOnRemoteRequest := False,
                           kc_CredentialID := None, kc_AllowedTargetClients := None, kc_RemoteScopes := None,
                           kc_RemoteRequestsPerHour := 0, kc_CreatedAt := db_time now, kc_UpdatedAt := db_time now\<rparr>],
                      db_next := db_next d + 1\<rparr>) d"

definition kc_FindAllByUser :: "int \<Rightarrow> db \<Rightarrow> KnownClient list db_result" where
  "kc_FindAllByUser uid d =
     (if db_ok ''kc_FindAllByUser'' d then DBOk (filter (\<lambda>c. kc_UserID c = uid) (db_known d)) else DBErr)"

definition kc_FindByID :: "int \<Rightarrow> db \<Rightarrow> KnownClient option db_result" where
  "kc_FindByID i d = get_row ''kc_FindByID'' (\<lambda>c. kc_ID c = i) (db_known d) d"

definition kc_FindAnyByClientID :: "string \<Rightarrow> db \<Rightarrow> KnownClient option db_result" where
  "kc_FindAnyByClientID cid d = get_row ''kc_FindAnyByClientID'' (\<lambda>c. kc_ClientID c = cid) (db_known d) d"

definition kc_FindByWorldID :: "int \<Rightarrow> string \<Rightarrow> db \<Rightarrow> KnownClient option db_result" where
  "kc_FindByWorldID uid world d =
     get_row ''kc_FindByWorldID'' (\<lambda>c. kc_UserID c = uid \<and> kc_WorldID c = Some world) (db_known d) d"

definition kc_FindByWorldIDAndPublicUrl :: "int \<Rightarrow> string \<Rightarrow> string \<Rightarrow> db \<Rightarrow> KnownClient option db_result" where
  "kc_FindByWorldIDAndPublicUrl uid world url d =
     get_row ''kc_FindByWorldIDAndPublicUrl''
       (\<lambda>c. kc_UserID c = uid \<and> kc_WorldID c = Some world \<and> kc_PublicUrl c = Some url) (db_known d) d"

definition kc_FindByServerFingerprint :: "int \<Rightarrow> string \<Rightarrow> db \<Rightarrow> KnownClient option db_result" where
  "kc_FindByServerFingerprint uid fp d =
     get_row ''kc_FindByServerFingerprint'' (\<lambda>c. kc_UserID c = uid \<and> kc_ServerFingerprint c = Some fp) (db_known d) d"

definition kc_FindByWorldIDCrossUser :: "string \<Rightarrow> int \<Rightarrow> db \<Rightarrow> KnownClient option db_result" where
  "kc_FindByWorldIDCrossUser world excludeUserID d =
     get_row ''kc_FindByWorldIDCrossUser'' (\<lambda>c. kc_WorldID c = Some world \<and> kc_UserID c \<noteq> excludeUserID) (db_known d) d"

definition on_known :: "string \<Rightarrow> (KnownClient \<Rightarrow> bool) \<Rightarrow> (KnownClient \<Rightarrow> KnownClient) \<Rightarrow> db \<Rightarrow> unit db_result \<times> db" where
  "on_known stmt P f d = exec stmt (\<lambda>d. d\<lparr>db_known := update_rows P f (db_known d)\<rparr>) d"

definition kc_SetOnline :: "gotime \<Rightarrow> int \<Rightarrow> string \<Rightarrow> db \<Rightarrow> unit db_result \<times> db" where
  "kc_SetOnline now uid cid d =
     on_known ''kc_SetOnline'' (\<lambda>c. kc_UserID c = uid \<and> kc_ClientID c = cid)
       (\<lambda>c. c\<lparr>kc_IsOnline := True, kc_LastSeenAt := Some (db_time now), kc_UpdatedAt := db_time now\<rparr>) d"

definition kc_SetOffline :: "gotime \<Rightarrow> int \<Rightarrow> string \<Rightarrow> db \<Rightarrow> unit db_result \<times> db" where
  "kc_SetOffline now uid cid d =
     on_known ''kc_SetOffline'' (\<lambda>c. kc_UserID c = uid \<and> kc_ClientID c = cid)
       (\<lambda>c. c\<lparr>kc_IsOnline := False, kc_LastSeenAt := Some (db_time now), kc_UpdatedAt := db_time now\<rparr>) d"

definition kc_ResetAllOnline :: "db \<Rightarrow> unit db_result \<times> db" where
  "kc_ResetAllOnline d = on_known ''kc_ResetAllOnline'' (\<lambda>c. True) (\<lambda>c. c\<lparr>kc_IsOnline := False\<rparr>) d"

definition kc_SetCredentialID :: "gotime \<Rightarrow> int \<Rightarrow> int option \<Rightarrow> db \<Rightarrow> unit db_result \<times> db" where
  "kc_SetCredentialID now i cred d =
     on_known ''kc_SetCredentialID'' (\<lambda>c. kc_ID c = i) (\<lambda>c. c\<lparr>kc_CredentialID := cred, kc_UpdatedAt := db_time now\<rparr>) d"

definition kc_SetAutoStartOnRemoteRequest :: "gotime \<Rightarrow> int \<Rightarrow> bool \<Rightarrow> db \<Rightarrow> unit db_result \<times> db" where
  "kc_SetAutoStartOnRemoteRequest now i enabled d =
     on_known ''kc_SetAutoStartOnRemoteRequest'' (\<lambda>c. kc_ID c = i)
       (\<lambda>c. c\<lparr>kc_AutoStartOnRemoteRequest := enabled, kc_UpdatedAt := db_time now\<rparr>) d"

definition kc_SetCrossWorldSettings ::
    "gotime \<Rightarrow> int \<Rightarrow> string option \<Rightarrow> string option \<Rightarrow> int \<Rightarrow> db \<Rightarrow> unit db_result \<times> db" where
  "kc_SetCrossWorldSettings now i targets scopes perHour d =
     on_known ''kc_SetCrossWorldSettings'' (\<lambda>c. kc_ID c = i)
       (\<lambda>c. c\<lparr>kc_AllowedTargetClients := targets, kc_RemoteScopes := scopes, kc_RemoteRequestsPerHour := perHour,
              kc_UpdatedAt := db_time now\<rparr>) d"

definition kc_Delete :: "int \<Rightarrow> db \<Rightarrow> unit db_result \<times> db" where
  "kc_Delete i d = exec ''kc_Delete'' (\<lambda>d. d\<lparr>db_known := filter (\<lambda>c. kc_ID c \<noteq> i) (db_known d)\<rparr>) d"

subsection \<open>Pairing codes\<close>

definition pc_FindByCode :: "gotime \<Rightarrow> string \<Rightarrow> db \<Rightarrow> PairingCode option db_result" where
  "pc_FindByCode now code d =
     get_row ''pc_FindByCode'' (\<lambda>c. pc_Code c = code \<and> pc_ExpiresAt c > db_time now) (db_codes d) d"

definition pc_Create :: "gotime \<Rightarrow> PairingCode \<Rightarrow> db \<Rightarrow> unit db_result \<times> db" where
  "pc_Create now code d =
     (if list_ex (\<lambda>c. pc_Code c = pc_Code code) (db_codes d) then (DBErr, d)
      else exec ''pc_Create''
        (\<lambda>d. d\<lparr>db_codes := db_codes d @
               [code\<lparr>pc_ID := db_next d, pc_ExpiresAt := db_time (pc_ExpiresAt code), pc_Used := False, pc_CreatedAt := now\<rparr>],
               db_next := db_next d + 1\<rparr>) d)"

definition pc_MarkUsed :: "int \<Rightarrow> db \<Rightarrow> unit db_result \<times> db" where
  "pc_MarkUsed i d =
     exec ''pc_MarkUsed'' (\<lambda>d. d\<lparr>db_codes := update_rows (\<lambda>c. pc_ID c = i) (\<lambda>c. c\<lparr>pc_Used := True\<rparr>) (db_codes d)\<rparr>) d"

definition pc_CleanupExpired :: "gotime \<Rightarrow> db \<Rightarrow> int db_result \<times> db" where
  "pc_CleanupExpired now d =
     delete_rows ''pc_CleanupExpired'' (\<lambda>c. pc_Used c \<or> pc_ExpiresAt c < db_time now) (db_codes d) (\<lambda>cs d. d\<lparr>db_codes := cs\<rparr>) d"

subsection \<open>Pair requests\<close>

definition pq_FindByCode :: "string \<Rightarrow> db \<Rightarrow> PairRequest option db_result" where
  "pq_FindByCode code d = get_row ''pq_FindByCode'' (\<lambda>r. pq_Code r = code) (db_pairs d) d"

definition pq_Create :: "gotime \<Rightarrow> PairRequest \<Rightarrow> db \<Rightarrow> unit db_result \<times> db" where
  "pq_Create now req d =
     (if list_ex (\<lambda>r. pq_Code r = pq_Code req) (db_pairs d) then (DBErr, d)
      else exec ''pq_Create''
        (\<lambda>d. d\<lparr>db_pairs := db_pairs d @
               [req\<lparr>pq_ID := db_next d, pq_PairingCode := None, pq_UserID := None, pq_ExpiresAt := db_time (pq_ExpiresAt req),
                    pq_CreatedAt := now\<rparr>], db_next := db_next d + 1\<rparr>) d)"

definition on_pair :: "string \<Rightarrow> (PairRequest \<Rightarrow> bool) \<Rightarrow> (PairRequest \<Rightarrow> PairRequest) \<Rightarrow> db \<Rightarrow> unit db_result \<times> db" where
  "on_pair stmt P f d = exec stmt (\<lambda>d. d\<lparr>db_pairs := update_rows P f (db_pairs d)\<rparr>) d"

definition pq_SetApproved :: "int \<Rightarrow> string \<Rightarrow> int \<Rightarrow> db \<Rightarrow> unit db_result \<times> db" where
  "pq_SetApproved i code uid d =
     on_pair ''pq_SetApproved'' (\<lambda>r. pq_ID r = i)
       (\<lambda>r. r\<lparr>pq_Status := ''approved'', pq_PairingCode := Some code, pq_UserID := Some uid\<rparr>) d"

definition pq_SetStatus :: "int \<Rightarrow> string \<Rightarrow> db \<Rightarrow> unit db_result \<times> db" where
  "pq_SetStatus i status d = on_pair ''pq_SetStatus'' (\<lambda>r. pq_ID r = i) (\<lambda>r. r\<lparr>pq_Status := status\<rparr>) d"

definition pq_CleanupExpired :: "gotime \<Rightarrow> db \<Rightarrow> int db_result \<times> db" where
  "pq_CleanupExpired now d =
     (let old = (\<lambda>r. pq_Status r = ''pending'' \<and> pq_ExpiresAt r < db_time now)
      in case on_pair ''pq_CleanupExpired'' old (\<lambda>r. r\<lparr>pq_Status := ''expired''\<rparr>) d of
           (DBErr, d') \<Rightarrow> (DBErr, d')
         | (DBOk _, d') \<Rightarrow> (DBOk (int (length (filter old (db_pairs d)))), d'))"

subsection \<open>Key requests\<close>

definition kr_FindByCode :: "string \<Rightarrow> db \<Rightarrow> KeyRequest option db_result" where
  "kr_FindByCode code d = get_row ''kr_FindByCode'' (\<lambda>r. kr_Code r = code) (db_requests d) d"

definition kr_FindByExchangeCode :: "string \<Rightarrow> db \<Rightarrow> KeyRequest option db_result" where
  "kr_FindByExchangeCode code d = get_row ''kr_FindByExchangeCode'' (\<lambda>r. kr_ExchangeCode r = Some code) (db_requests d) d"

definition kr_Create :: "gotime \<Rightarrow> KeyRequest \<Rightarrow> db \<Rightarrow> unit db_result \<times> db" where
  "kr_Create now req d =
     (if list_ex (\<lambda>r. kr_Code r = kr_Code req) (db_requests d) then (DBErr, d)
      else exec ''kr_Create''
        (\<lambda>d. d\<lparr>db_requests := db_requests d @
               [req\<lparr>kr_ID := db_next d, kr_ApprovedKeyID := None, kr_ApprovedByID := None, kr_ExchangeCode := None,
                    kr_ExpiresAt := db_time (kr_ExpiresAt req), kr_CreatedAt := now, kr_UpdatedAt := now\<rparr>],
               db_next := db_next d + 1\<rparr>) d)"

text \<open>The entries of the map of column updates; its order does not matter, as the columns differ.\<close>

datatype kr_update = ApprovedKeyID int | ApprovedByID int | ExchangeCode string

definition kr_apply :: "kr_update \<Rightarrow> KeyRequest \<Rightarrow> KeyRequest" where
  "kr_apply u r =
     (case u of
        ApprovedKeyID i \<Rightarrow> r\<lparr>kr_ApprovedKeyID := Some i\<rparr>
      | ApprovedByID i \<Rightarrow> r\<lparr>kr_ApprovedByID := Some i\<rparr>
      | ExchangeCode c \<Rightarrow> r\<lparr>kr_ExchangeCode := Some c\<rparr>)"

definition kr_UpdateStatus :: "gotime \<Rightarrow> int \<Rightarrow> string \<Rightarrow> kr_update list \<Rightarrow> db \<Rightarrow> unit db_result \<times> db" where
  "kr_UpdateStatus now i status updates d =
     exec ''kr_UpdateStatus''
       (\<lambda>d. d\<lparr>db_requests := update_rows (\<lambda>r. kr_ID r = i)
              (\<lambda>r. fold kr_apply updates (r\<lparr>kr_Status := status, kr_UpdatedAt := now\<rparr>)) (db_requests d)\<rparr>) d"

definition kr_CleanupExpired :: "gotime \<Rightarrow> db \<Rightarrow> int db_result \<times> db" where
  "kr_CleanupExpired now d =
     (let old = (\<lambda>r. kr_Status r = ''pending'' \<and> kr_ExpiresAt r < db_time now)
      in case exec ''kr_CleanupExpired'' (\<lambda>d. d\<lparr>db_requests := update_rows old
                (\<lambda>r. r\<lparr>kr_Status := ''expired'', kr_UpdatedAt := now\<rparr>) (db_requests d)\<rparr>) d of
           (DBErr, d') \<Rightarrow> (DBErr, d')
         | (DBOk _, d') \<Rightarrow> (DBOk (int (length (filter old (db_requests d)))), d'))"

subsection \<open>Stored credentials\<close>

text \<open>A row without initialisation vector or tag is reported as corrupt.\<close>

definition cr_FindByID :: "int \<Rightarrow> db \<Rightarrow> Credential option db_result" where
  "cr_FindByID i d =
     (case get_row ''cr_FindByID'' (\<lambda>c. cr_ID c = i) (db_credentials d) d of
        DBErr \<Rightarrow> DBErr
      | DBOk None \<Rightarrow> DBOk None
      | DBOk (Some c) \<Rightarrow>
          if cr_EncryptedFoundryPassword c \<noteq> [] \<and> (cr_PasswordIV c = [] \<or> cr_PasswordAuthTag c = [])
          then DBErr else DBOk (Some c))"

definition cr_FindAllByUser :: "int \<Rightarrow> db \<Rightarrow> Credential list db_result" where
  "cr_FindAllByUser uid d =
     (if db_ok ''cr_FindAllByUser'' d then DBOk (filter (\<lambda>c. cr_UserID c = uid) (db_credentials d)) else DBErr)"

definition cr_Create :: "gotime \<Rightarrow> Credential \<Rightarrow> db \<Rightarrow> unit db_result \<times> Credential \<times> db" where
  "cr_Create now c d =
     (if db_ok ''cr_Create'' d
      then (let row = c\<lparr>cr_ID := db_next d, cr_CreatedAt := now, cr_UpdatedAt := now\<rparr>
            in (DBOk (), row, d\<lparr>db_credentials := db_credentials d @ [row], db_next := db_next d + 1\<rparr>))
      else (DBErr, c, d))"

definition cr_Update :: "gotime \<Rightarrow> Credential \<Rightarrow> db \<Rightarrow> unit db_result \<times> Credential \<times> db" where
  "cr_Update now c d =
     (let c1 = c\<lparr>cr_UpdatedAt := now\<rparr>;
          (res, d') = exec ''cr_Update''
            (\<lambda>d. d\<lparr>db_credentials := update_rows (\<lambda>r. cr_ID r = cr_ID c1)
                   (\<lambda>r. c1\<lparr>cr_UserID := cr_UserID r, cr_UpdatedAt := db_time now, cr_CreatedAt := cr_CreatedAt r\<rparr>)
                   (db_credentials d)\<rparr>) d
      in (res, c1, d'))"

definition cr_Delete :: "int \<Rightarrow> db \<Rightarrow> unit db_result \<times> db" where
  "cr_Delete i d = exec ''cr_Delete'' (\<lambda>d. d\<lparr>db_credentials := filter (\<lambda>c. cr_ID c \<noteq> i) (db_credentials d)\<rparr>) d"

subsection \<open>Password reset tokens\<close>

definition pt_FindByTokenHash :: "gotime \<Rightarrow> string \<Rightarrow> db \<Rightarrow> PasswordResetToken option db_result" where
  "pt_FindByTokenHash now hash d =
     get_row ''pt_FindByTokenHash'' (\<lambda>t. pt_TokenHash t = hash \<and> \<not> pt_Used t \<and> pt_ExpiresAt t > now) (db_resets d) d"

definition pt_Create :: "gotime \<Rightarrow> PasswordResetToken \<Rightarrow> db \<Rightarrow> unit db_result \<times> db" where
  "pt_Create now t d =
     (if list_ex (\<lambda>r. pt_TokenHash r = pt_TokenHash t) (db_resets d) then (DBErr, d)
      else exec ''pt_Create''
        (\<lambda>d. d\<lparr>db_resets := db_resets d @ [t\<lparr>pt_ID := db_next d, pt_Used := False, pt_CreatedAt := now, pt_UpdatedAt := now\<rparr>],
               db_next := db_next d + 1\<rparr>) d)"

definition pt_MarkUsed :: "gotime \<Rightarrow> int \<Rightarrow> db \<Rightarrow> unit db_result \<times> db" where
  "pt_MarkUsed now i d =
     exec ''pt_MarkUsed'' (\<lambda>d. d\<lparr>db_resets := update_rows (\<lambda>t. pt_ID t = i) (\<lambda>t. t\<lparr>pt_Used := True, pt_UpdatedAt := now\<rparr>) (db_resets d)\<rparr>) d"

definition pt_InvalidateForUser :: "gotime \<Rightarrow> int \<Rightarrow> db \<Rightarrow> unit db_result \<times> db" where
  "pt_InvalidateForUser now uid d =
     exec ''pt_InvalidateForUser''
       (\<lambda>d. d\<lparr>db_resets := update_rows (\<lambda>t. pt_UserID t = uid \<and> \<not> pt_Used t) (\<lambda>t. t\<lparr>pt_Used := True, pt_UpdatedAt := now\<rparr>) (db_resets d)\<rparr>) d"

definition pt_CleanupExpired :: "gotime \<Rightarrow> db \<Rightarrow> int db_result \<times> db" where
  "pt_CleanupExpired now d =
     delete_rows ''pt_CleanupExpired'' (\<lambda>t. (pt_Used t \<or> pt_ExpiresAt t < now) \<and> pt_CreatedAt t < now - minutes 1440)
       (db_resets d) (\<lambda>ts d. d\<lparr>db_resets := ts\<rparr>) d"

subsection \<open>Revoked admin tokens\<close>

definition jd_Add :: "gotime \<Rightarrow> string \<Rightarrow> gotime \<Rightarrow> db \<Rightarrow> unit db_result \<times> db" where
  "jd_Add now jti expiresAt d =
     (if list_ex (\<lambda>e. jd_TokenJTI e = jti) (db_denylist d) then (DBErr, d)
      else exec ''jd_Add''
        (\<lambda>d. d\<lparr>db_denylist := db_denylist d @ [\<lparr>jd_ID = db_next d, jd_TokenJTI = jti, jd_ExpiresAt = expiresAt, jd_CreatedAt = now\<rparr>],
               db_next := db_next d + 1\<rparr>) d)"

definition jd_IsDenied :: "string \<Rightarrow> db \<Rightarrow> bool db_result" where
  "jd_IsDenied jti d =
     (if db_ok ''jd_IsDenied'' d then DBOk (length (filter (\<lambda>e. jd_TokenJTI e = jti) (db_denylist d)) > 0) else DBErr)"

definition jd_CleanupExpired :: "gotime \<Rightarrow> db \<Rightarrow> int db_result \<times> db" where
  "jd_CleanupExpired now d =
     delete_rows ''jd_CleanupExpired'' (\<lambda>e. jd_ExpiresAt e < now) (db_denylist d) (\<lambda>es d. d\<lparr>db_denylist := es\<rparr>) d"

subsection \<open>The users of a world\<close>

text \<open>
  The list of a world is replaced: the rows are deleted, then inserted one by one, each of them a
  statement of its own that fails on a second row for the same user.
\<close>

fun ku_insert :: "gotime \<Rightarrow> int \<Rightarrow> KnownUser list \<Rightarrow> db \<Rightarrow> unit db_result \<times> db" where
  "ku_insert now kc [] d = (DBOk (), d)"
| "ku_insert now kc (u # us) d =
     (if \<not> db_ok ''ku_insert'' d \<or> list_ex (\<lambda>r. ku_KnownClientID r = kc \<and> ku_UserID r = ku_UserID u) (db_knownUsers d)
      then (DBErr, d)
      else ku_insert now kc us
        (d\<lparr>db_knownUsers := db_knownUsers d @
             [\<lparr>ku_ID = db_next d, ku_KnownClientID = kc, ku_UserID = ku_UserID u, ku_Name = ku_Name u, ku_Role = ku_Role u,
               ku_CreatedAt = db_time now, ku_UpdatedAt = db_time now\<rparr>],
           db_next := db_next d + 1\<rparr>))"

definition ku_UpsertAll :: "gotime \<Rightarrow> int \<Rightarrow> KnownUser list \<Rightarrow> db \<Rightarrow> unit db_result \<times> db" where
  "ku_UpsertAll now kc us d =
     (case exec ''ku_UpsertAll'' (\<lambda>d. d\<lparr>db_knownUsers := filter (\<lambda>r. ku_KnownClientID r \<noteq> kc) (db_knownUsers d)\<rparr>) d of
        (DBErr, d') \<Rightarrow> (DBErr, d')
      | (DBOk _, d') \<Rightarrow> ku_insert now kc us d')"

definition ku_FindAllByKnownClient :: "int \<Rightarrow> db \<Rightarrow> KnownUser list db_result" where
  "ku_FindAllByKnownClient kc d =
     (if db_ok ''ku_FindAllByKnownClient'' d
      then DBOk (sort_key ku_Name (filter (\<lambda>u. ku_KnownClientID u = kc) (db_knownUsers d))) else DBErr)"

end
