(* ===== verification/Auth.thy ===== *)
theory Auth
  imports Tables
begin

text \<open>
  The authentication in front of the HTTP handlers, \<open>internal/middleware/auth.go\<close>, and the
  validators of \<open>internal/service/api_key_validation.go\<close>.

  A middleware is a function from the request to either an answer or the context it hands to the
  next handler.  Goroutines that only touch the database (\<open>UpdateLastUsed\<close>, the key's monthly
  counter) are run on the spot.  The manager is never nil, as the server builds it; log lines and
  the access-log holder are left out.
\<close>

record http_request =
  hq_authorization :: string
  hq_apiKey :: string  \<comment> \<open>\<open>X-API-Key\<close>; header names are case-insensitive\<close>
  hq_clientId :: string  \<comment> \<open>the query parameter\<close>
  hq_path :: string

record req_context =
  rc_User :: "User option"
  rc_MasterAPIKey :: string
  rc_ScopedKey :: "ScopedKeyInfo option"
  rc_SubscriptionStatus :: string
  rc_IsSessionAuth :: bool

record cache_entry =
  ce_user :: User
  ce_scopedKey :: ApiKey
  ce_expiresAt :: gotime

record auth_state =
  au_cache :: "(string, cache_entry) gomap"
  au_cacheTTL :: int
  au_db :: db
  au_alerts :: alert_state
  au_failures :: "string list"  \<comment> \<open>labels counted by \<open>metrics.AuthFailuresTotal\<close>\<close>
  au_counts :: counter  \<comment> \<open>\<open>RequestCounts\<close>\<close>

record auth_env =
  ae_sha :: "string \<Rightarrow> string"
  ae_unmarshal :: "string \<Rightarrow> (string, string) gomap"
  ae_hasAutoStart :: bool  \<comment> \<open>\<open>helpers.AutoStartFunc != nil\<close>\<close>
  ae_alertsDB :: bool

datatype auth_result = Answer int string | Next req_context

subsection \<open>The cache\<close>

definition keyPrefix :: "string \<Rightarrow> string" where
  "keyPrefix key = (if length key \<le> 8 then key else take 8 key)"

definition getCachedAuth :: "gotime \<Rightarrow> string \<Rightarrow> auth_state \<Rightarrow> cache_entry option" where
  "getCachedAuth now apiKey s =
     (case aget (au_cache s) apiKey of
        None \<Rightarrow> None
      | Some e \<Rightarrow> if now > ce_expiresAt e then None else Some e)"

definition setCachedAuth :: "gotime \<Rightarrow> string \<Rightarrow> User \<Rightarrow> ApiKey \<Rightarrow> auth_state \<Rightarrow> auth_state" where
  "setCachedAuth now apiKey user scopedKey s =
     s\<lparr>au_cache := aput apiKey \<lparr>ce_user = user, ce_scopedKey = scopedKey, ce_expiresAt = now + au_cacheTTL s\<rparr> (au_cache s)\<rparr>"

definition InvalidateCachedAuth :: "string \<Rightarrow> auth_state \<Rightarrow> auth_state" where
  "InvalidateCachedAuth apiKey s = s\<lparr>au_cache := adel apiKey (au_cache s)\<rparr>"

definition InvalidateCachedAuthForUser :: "int \<Rightarrow> auth_state \<Rightarrow> auth_state" where
  "InvalidateCachedAuthForUser userID s =
     s\<lparr>au_cache := fold adel (map fst (filter (\<lambda>kv. us_ID (ce_user (snd kv)) = userID) (au_cache s))) (au_cache s)\<rparr>"

definition pruneCache :: "gotime \<Rightarrow> auth_state \<Rightarrow> auth_state" where
  "pruneCache now s =
     s\<lparr>au_cache := fold adel (map fst (filter (\<lambda>kv. now > ce_expiresAt (snd kv)) (au_cache s))) (au_cache s)\<rparr>"

definition auth_failure :: "string \<Rightarrow> auth_state \<Rightarrow> auth_state" where
  "auth_failure label s = s\<lparr>au_failures := au_failures s @ [label]\<rparr>"

subsection \<open>Bearer sessions\<close>

definition hasBearerHeader :: "http_request \<Rightarrow> bool" where
  "hasBearerHeader r \<longleftrightarrow> length (hq_authorization r) > 7 \<and> take 7 (hq_authorization r) = ''Bearer ''"

definition tryBearerAuth :: "auth_env \<Rightarrow> gotime \<Rightarrow> http_request \<Rightarrow> db \<Rightarrow> User option \<times> db" where
  "tryBearerAuth env now r d =
     (let header = hq_authorization r
      in if header = [] then (None, d)
         else if length header \<le> 7 \<or> take 7 header \<noteq> ''Bearer '' then (None, d)
         else
           (let rawToken = drop 7 header; hash = HashSessionToken (ae_sha env) rawToken
            in case se_FindByTokenHash now hash d of
                 DBErr \<Rightarrow> (None, d)
               | DBOk None \<Rightarrow> (None, d)
               | DBOk (Some session) \<Rightarrow>
                   (case us_FindByID (se_UserID session) d of
                      DBOk (Some user) \<Rightarrow> (Some user, snd (se_UpdateLastUsed now (se_ID session) d))
                    | _ \<Rightarrow> (None, snd (se_Delete (se_ID session) d)))))"

definition session_context :: "User \<Rightarrow> req_context" where
  "session_context user =
     \<lparr>rc_User = Some user, rc_MasterAPIKey = null_str (us_APIKeyHash user), rc_ScopedKey = None,
      rc_SubscriptionStatus = GetSubscriptionStatus user, rc_IsSessionAuth = True\<rparr>"

text \<open>The checks on the account behind a session, in their order.\<close>

definition session_gate :: "User \<Rightarrow> auth_result" where
  "session_gate user =
     (if us_Disabled user then Answer 403 ''Account disabled''
      else if \<not> us_EmailVerified user
      then Answer 403 ''Please verify your email address before using the API.''
      else if us_APIKeyRotationRequired user
      then Answer 403 ''Your relay key must be rotated for security. Please log in to the dashboard and regenerate your relay key.''
      else Next (session_context user))"

definition bad_session :: string where
  "bad_session = ''Invalid or expired session. Please log in again.''"

definition SessionOnlyMiddleware :: "auth_env \<Rightarrow> gotime \<Rightarrow> http_request \<Rightarrow> auth_state \<Rightarrow> auth_result \<times> auth_state" where
  "SessionOnlyMiddleware env now r s =
     (case tryBearerAuth env now r (au_db s) of
        (None, d) \<Rightarrow> (Answer 401 bad_session, auth_failure ''invalid_session'' (s\<lparr>au_db := d\<rparr>))
      | (Some user, d) \<Rightarrow> (session_gate user, s\<lparr>au_db := d\<rparr>))"

subsection \<open>API keys\<close>

definition isAutoStartableClient :: "db \<Rightarrow> int \<Rightarrow> string \<Rightarrow> bool" where
  "isAutoStartableClient d userID clientID =
     (if userID = 0 \<or> clientID = [] then False
      else (case kc_FindByClientID userID clientID d of
              DBOk (Some known) \<Rightarrow> kc_AutoStartOnRemoteRequest known
            | _ \<Rightarrow> False))"

text \<open>The check of the \<open>clientId\<close> parameter against the registry: \<open>None\<close> lets the request go on.\<close>

definition client_gate :: "auth_env \<Rightarrow> 'h manager \<Rightarrow> db \<Rightarrow> int \<Rightarrow> string \<Rightarrow> string \<Rightarrow> auth_result option" where
  "client_gate env m d uid matchKey clientID =
     (if clientID = [] then None
      else (case GetClient clientID m of
              None \<Rightarrow>
                if \<not> (ae_hasAutoStart env \<and> isAutoStartableClient d uid clientID)
                then Some (Answer 404 ''Invalid client ID'') else None
            | Some ref \<Rightarrow>
                if cl_apiKey (mg_heap m ! ref) \<noteq> matchKey
                then Some (Answer 401 ''Invalid API key for this client ID'') else None))"

definition key_context :: "auth_env \<Rightarrow> User \<Rightarrow> ApiKey \<Rightarrow> req_context" where
  "key_context env user k =
     \<lparr>rc_User = Some user, rc_MasterAPIKey = null_str (us_APIKeyHash user),
      rc_ScopedKey = Some \<lparr>sk_ID = ak_ID k, sk_KeyPrefix = keyPrefix (ak_Key k),
        sk_ScopedClientID = null_str (ak_ScopedClientID k), sk_ScopedClientIDs = GetScopedClientIDs k,
        sk_ScopedUserID = null_str (ak_ScopedUserID k),
        sk_ScopedUserIDs = GetScopedUserIDs (ae_unmarshal env) k, sk_Scopes = GetScopes k,
        sk_MonthlyLimit = (case ak_MonthlyLimit k of Some n \<Rightarrow> n | None \<Rightarrow> 0),
        sk_MonthlyLimitSet = (ak_MonthlyLimit k \<noteq> None), sk_RequestsThisMonth = ak_RequestsThisMonth k\<rparr>,
      rc_SubscriptionStatus = GetSubscriptionStatus user, rc_IsSessionAuth = False\<rparr>"

text \<open>A cache entry always holds a user and a key, since only the lookup below fills it.\<close>

definition cached_auth :: "auth_env \<Rightarrow> 'h manager \<Rightarrow> http_request \<Rightarrow> cache_entry \<Rightarrow> auth_state \<Rightarrow> auth_result" where
  "cached_auth env m r cached s =
     (let user = ce_user cached; matchKey = null_str (us_APIKeyHash user)
      in case client_gate env m (au_db s) (us_ID user) matchKey (hq_clientId r) of
           Some a \<Rightarrow> a
         | None \<Rightarrow>
             if \<not> us_EmailVerified user
             then Answer 403 ''Please verify your email address before using the API.''
             else if us_Disabled user then Answer 403 ''Account disabled''
             else if us_APIKeyRotationRequired user
             then Answer 403 ''Your relay key must be rotated for security. Please log in to the dashboard and regenerate your relay key.''
             else Next (key_context env user (ce_scopedKey cached)))"

definition bad_key_alert :: "string \<Rightarrow> alert_event" where
  "bad_key_alert path =
     \<lparr>ae_Type = ''invalid_token_spike'', ae_Severity = ''warning'',
      ae_Message = ''10+ requests with invalid/unknown API keys in 5 minutes'',
      ae_Details = [(''path'', JStr path)], ae_Timestamp = zero_time\<rparr>"

definition lookup_auth ::
    "auth_env \<Rightarrow> gotime \<Rightarrow> 'h manager \<Rightarrow> http_request \<Rightarrow> auth_state \<Rightarrow> auth_result \<times> auth_state" where
  "lookup_auth env now m r s0 =
     (let apiKey = hq_apiKey r;
          (found, d) = ak_FindByKey (ae_sha env) apiKey (au_db s0);
          s = s0\<lparr>au_db := d\<rparr>
      in case found of
           DBErr \<Rightarrow> (Answer 500 ''Authentication error'', s)
         | DBOk None \<Rightarrow>
             (Answer 401 ''Invalid API key'',
              (auth_failure ''bad_key'' s)\<lparr>au_alerts :=
                 track_and_fire now (ae_alertsDB env) ''invalid_token'' 10 (minutes 5) (minutes 30)
                   (bad_key_alert (hq_path r)) (au_alerts s)\<rparr>)
         | DBOk (Some scopedKey) \<Rightarrow>
             if \<not> ak_Enabled scopedKey then (Answer 401 ''API key is disabled'', auth_failure ''disabled'' s)
             else if IsExpired now scopedKey then (Answer 401 ''API key has expired'', auth_failure ''expired'' s)
             else (case us_FindByID (ak_UserID scopedKey) d of
                DBErr \<Rightarrow> (Answer 401 ''Invalid API key'', s)
              | DBOk None \<Rightarrow> (Answer 401 ''Invalid API key'', s)
              | DBOk (Some parentUser) \<Rightarrow>
                  if \<not> us_EmailVerified parentUser
                  then (Answer 403 ''Please verify your email address before using the API.'', s)
                  else if us_APIKeyRotationRequired parentUser
                  then (Answer 403 ''Account requires relay key rotation. Please log in to the dashboard and regenerate your relay key.'', s)
                  else if us_Disabled parentUser then (Answer 403 ''Account disabled'', s)
                  else
                    (let parentIdentifier = null_str (us_APIKeyHash parentUser)
                     in case client_gate env m d (us_ID parentUser) parentIdentifier (hq_clientId r) of
                          Some a \<Rightarrow> (a, s)
                        | None \<Rightarrow>
                            (let s1 = setCachedAuth now apiKey parentUser scopedKey s
                             in (case ak_MonthlyLimit scopedKey of
                                   Some limit \<Rightarrow>
                                     if ak_RequestsThisMonth scopedKey \<ge> limit
                                     then (Answer 429 ''Scoped key monthly request limit exceeded'', s1)
                                     else (Next (key_context env parentUser scopedKey), s1)
                                 | None \<Rightarrow> (Next (key_context env parentUser scopedKey), s1))))))"

definition AuthMiddleware ::
    "auth_env \<Rightarrow> gotime \<Rightarrow> 'h manager \<Rightarrow> http_request \<Rightarrow> auth_state \<Rightarrow> auth_result \<times> auth_state" where
  "AuthMiddleware env now m r s =
     (if hasBearerHeader r then SessionOnlyMiddleware env now r s
      else if hq_apiKey r = []
      then (Answer 401 ''API key is required'', auth_failure ''missing_key'' s)
      else (case getCachedAuth now (hq_apiKey r) s of
              Some cached \<Rightarrow> (cached_auth env m r cached s, s)
            | None \<Rightarrow> lookup_auth env now m r s))"

subsection \<open>Usage tracking\<close>

text \<open>
  \<open>int(float64(l) * 0.8)\<close> is rounded towards zero; it agrees with \<open>l * 4 div 5\<close> for limits below
  \<open>2 ^ 50\<close>.  \<open>limit\<close> is the free tier's, 0 for none.
\<close>

definition eighty_percent :: "int \<Rightarrow> int" where
  "eighty_percent l = (if l < 0 then - ((- l) * 4 div 5) else l * 4 div 5)"

definition usage_alert :: "string \<Rightarrow> string \<Rightarrow> obj \<Rightarrow> alert_event" where
  "usage_alert typ msg details =
     \<lparr>ae_Type = typ, ae_Severity = ''info'', ae_Message = msg, ae_Details = details, ae_Timestamp = zero_time\<rparr>"

definition approach_alert :: "auth_env \<Rightarrow> gotime \<Rightarrow> int \<Rightarrow> req_context \<Rightarrow> User \<Rightarrow> alert_state \<Rightarrow> alert_state" where
  "approach_alert env now limit c user al =
     (if limit > 0 \<and> rc_SubscriptionStatus c \<noteq> ''active'' \<and> eighty_percent limit > 0 \<and>
         us_RequestsThisMonth user \<ge> eighty_percent limit
      then track_and_fire now (ae_alertsDB env) (''monthly:'' @ int_text (us_ID user)) 1 (minutes 1440) (minutes 1440)
             (usage_alert ''user_monthly_limit_approaching'' ''Free-tier user approaching 80% of monthly request limit''
                [(''userId'', JNum (us_ID user)), (''requestsThisMonth'', JNum (us_RequestsThisMonth user)),
                 (''monthlyLimit'', JNum limit)]) al
      else al)"

definition scoped_approach_alert :: "auth_env \<Rightarrow> gotime \<Rightarrow> req_context \<Rightarrow> User \<Rightarrow> alert_state \<Rightarrow> alert_state" where
  "scoped_approach_alert env now c user al =
     (case rc_ScopedKey c of
        None \<Rightarrow> al
      | Some k \<Rightarrow>
          if sk_MonthlyLimitSet k \<and> eighty_percent (sk_MonthlyLimit k) > 0 \<and>
             sk_RequestsThisMonth k \<ge> eighty_percent (sk_MonthlyLimit k)
          then track_and_fire now (ae_alertsDB env) (''scoped_monthly:'' @ int_text (sk_ID k)) 1 (minutes 1440) (minutes 1440)
                 (usage_alert ''scoped_key_monthly_limit_approaching'' ''Scoped API key approaching 80% of monthly request limit''
                    [(''userId'', JNum (us_ID user)), (''scopedKeyId'', JNum (sk_ID k)), (''keyPrefix'', JStr (sk_KeyPrefix k)),
                     (''requestsThisMonth'', JNum (sk_RequestsThisMonth k)), (''monthlyLimit'', JNum (sk_MonthlyLimit k))]) al
          else al)"

definition TrackAPIUsage :: "auth_env \<Rightarrow> gotime \<Rightarrow> int \<Rightarrow> req_context option \<Rightarrow> auth_state \<Rightarrow> (int \<times> string) option \<times> auth_state" where
  "TrackAPIUsage env now limit reqCtx s =
     (case reqCtx of
        None \<Rightarrow> (None, s)
      | Some c \<Rightarrow>
          (case rc_User c of
             None \<Rightarrow> (None, s)
           | Some user \<Rightarrow>
               (let s1 = s\<lparr>au_alerts := scoped_approach_alert env now c user (approach_alert env now limit c user (au_alerts s))\<rparr>
                in if limit > 0 \<and> rc_SubscriptionStatus c \<noteq> ''active'' \<and> us_RequestsThisMonth user \<ge> limit
                   then (Some (429, ''Monthly API request limit reached''), s1)
                   else (None, s1\<lparr>au_counts := counter_Add (us_ID user) (au_counts s1),
                           au_db := (case rc_ScopedKey c of
                                       None \<Rightarrow> au_db s1
                                     | Some k \<Rightarrow> snd (ak_IncrementMonthlyRequests now (sk_ID k) (au_db s1)))\<rparr>))))"

subsection \<open>The validators of the relay\<close>

record api_key_validation =
  av_Valid :: bool
  av_UserID :: int
  av_MasterAPIKey :: string
  av_ScopedClientID :: string
  av_ScopedUserID :: string

definition invalid_key :: api_key_validation where
  "invalid_key = \<lparr>av_Valid = False, av_UserID = 0, av_MasterAPIKey = [], av_ScopedClientID = [], av_ScopedUserID = []\<rparr>"

definition ValidateAPIKeyDetailed :: "(string \<Rightarrow> string) \<Rightarrow> gotime \<Rightarrow> string \<Rightarrow> db \<Rightarrow> api_key_validation \<times> db" where
  "ValidateAPIKeyDetailed sha now apiKey d =
     (case us_FindByAPIKey sha apiKey d of
        DBErr \<Rightarrow> (invalid_key, d)
      | DBOk (Some user) \<Rightarrow>
          (invalid_key\<lparr>av_Valid := True, av_UserID := us_ID user, av_MasterAPIKey := null_str (us_APIKeyHash user)\<rparr>, d)
      | DBOk None \<Rightarrow>
          (case ak_FindByKey sha apiKey d of
             (DBErr, d1) \<Rightarrow> (invalid_key, d1)
           | (DBOk None, d1) \<Rightarrow> (invalid_key, d1)
           | (DBOk (Some k), d1) \<Rightarrow>
               if \<not> ak_Enabled k then (invalid_key, d1)
               else if IsExpired now k then (invalid_key, d1)
               else (case us_FindByID (ak_UserID k) d1 of
                       DBOk (Some u) \<Rightarrow>
                         (\<lparr>av_Valid = True, av_UserID = us_ID u, av_MasterAPIKey = null_str (us_APIKeyHash u),
                           av_ScopedClientID = null_str (ak_ScopedClientID k), av_ScopedUserID = null_str (ak_ScopedUserID k)\<rparr>, d1)
                     | _ \<Rightarrow> (invalid_key, d1))))"

definition ValidateAPIKey :: "(string \<Rightarrow> string) \<Rightarrow> gotime \<Rightarrow> string \<Rightarrow> db \<Rightarrow> bool \<times> db" where
  "ValidateAPIKey sha now apiKey d = (case ValidateAPIKeyDetailed sha now apiKey d of (v, d1) \<Rightarrow> (av_Valid v, d1))"

definition TrackWSAPIUsage :: "gotime \<Rightarrow> string \<Rightarrow> db \<Rightarrow> (bool \<times> string) \<times> db" where
  "TrackWSAPIUsage now apiKey d =
     (case us_FindByAPIKeyHash apiKey d of
        DBOk (Some user) \<Rightarrow> ((True, []), snd (us_IncrementRequests now (us_ID user) d))
      | _ \<Rightarrow> ((False, ''Invalid API key''), d))"

text \<open>The answer has the shape of the \<open>ValidateConnectionToken\<close> callback of the relay's configuration.\<close>

definition MakeWSValidateConnectionToken ::
    "(string \<Rightarrow> string) \<Rightarrow> gotime \<Rightarrow> db \<Rightarrow> string \<Rightarrow> (string \<times> string \<times> string \<times> int) option \<times> db" where
  "MakeWSValidateConnectionToken sha now d token =
     (case tk_FindByTokenHash (sha token) d of
        DBOk (Some ct) \<Rightarrow>
          (case us_FindByID (ct_UserID ct) d of
             DBOk (Some user) \<Rightarrow>
               (Some (null_str (us_APIKeyHash user), null_str (ct_AllowedIPs ct), ct_Name ct, ct_ID ct),
                snd (tk_UpdateLastUsed now (ct_ID ct) d))
           | _ \<Rightarrow> (None, d))
      | _ \<Rightarrow> (None, d))"

definition MakeWSValidateAPIKey :: "(string \<Rightarrow> string) \<Rightarrow> gotime \<Rightarrow> string \<Rightarrow> db \<Rightarrow> api_key_validation \<times> db" where
  "MakeWSValidateAPIKey sha now token d = ValidateAPIKeyDetailed sha now token d"

subsection \<open>What the key check guarantees\<close>

lemma ak_FindByKey_row:
  assumes "ak_FindByKey sha key d = (DBOk (Some k), d1)"
  shows "\<exists>row \<in> set (db_keys d). (ak_KeyHash row = HashAPIKey sha key \<or> ak_Key row = key) \<and>
    k = row\<lparr>ak_KeyHash := HashAPIKey sha key\<rparr>" and "db_users d1 = db_users d" and "db_known d1 = db_known d"
    and "db_fails d1 = db_fails d"
  using assms
  by (auto simp: ak_FindByKey_def get_row_def exec_def Let_def find_Some_iff split: db_result.splits option.splits if_splits)

lemma client_gate_None:
  "client_gate env m d uid key cid = None \<longleftrightarrow>
     cid = [] \<or> (\<exists>ref. GetClient cid m = Some ref \<and> cl_apiKey (mg_heap m ! ref) = key) \<or>
     (GetClient cid m = None \<and> ae_hasAutoStart env \<and> isAutoStartableClient d uid cid)"
  by (auto simp: client_gate_def split: option.split)

lemma client_gate_Answer: "client_gate env m d uid key cid = Some a \<Longrightarrow> \<exists>st msg. a = Answer st msg \<and> st \<noteq> 429"
  by (auto simp: client_gate_def split: if_splits option.splits)

lemma lookup_auth_Next:
  assumes "lookup_auth env now m r s = (Next c, s')"
  shows "\<exists>k u d. ak_FindByKey (ae_sha env) (hq_apiKey r) (au_db s) = (DBOk (Some k), d) \<and> ak_Enabled k \<and> \<not> IsExpired now k \<and>
    us_FindByID (ak_UserID k) d = DBOk (Some u) \<and> us_EmailVerified u \<and> \<not> us_APIKeyRotationRequired u \<and> \<not> us_Disabled u \<and>
    client_gate env m d (us_ID u) (null_str (us_APIKeyHash u)) (hq_clientId r) = None \<and>
    (\<forall>l. ak_MonthlyLimit k = Some l \<longrightarrow> ak_RequestsThisMonth k < l) \<and> c = key_context env u k"
  using assms
  by (auto simp: lookup_auth_def Let_def not_le dest: client_gate_Answer
      split: prod.splits db_result.splits option.splits if_splits)

definition ex_auth_env :: auth_env where
  "ex_auth_env = \<lparr>ae_sha = (\<lambda>x. x), ae_unmarshal = (\<lambda>x. []), ae_hasAutoStart = False, ae_alertsDB = False\<rparr>"

definition ex_auth :: "ApiKey \<Rightarrow> auth_state" where
  "ex_auth k =
     \<lparr>au_cache = [], au_cacheTTL = seconds 30, au_db = empty_db\<lparr>db_users := [ex_user 1], db_keys := [k]\<rparr>,
      au_alerts = \<lparr>as_trackers = [], as_recent = [], as_dispatched = []\<rparr>, au_failures = [], au_counts = []\<rparr>"

definition ex_request :: "string \<Rightarrow> string \<Rightarrow> http_request" where
  "ex_request key cid = \<lparr>hq_authorization = [], hq_apiKey = key, hq_clientId = cid, hq_path = ''/get''\<rparr>"

lemmas ex_auth_defs = ex_auth_env_def ex_auth_def ex_request_def ex_rows
lemmas auth_defs = AuthMiddleware_def hasBearerHeader_def getCachedAuth_def lookup_auth_def ak_FindByKey_def get_row_def
  db_ok_def HashAPIKey_def IsExpired_def us_FindByID_def client_gate_def Let_def

text \<open>C5: A request that is let through on an API key that was looked up in the database carries a key of
  the table that is enabled, not expired and below its monthly limit, on behalf of an account that
  is verified, enabled and owes no rotation; and a module named by \<open>clientId\<close> is either connected
  under that account's identifier or offline, known to that account and allowed to start by itself.\<close>

theorem key_auth_sound:
  assumes "AuthMiddleware env now m r s = (Next c, s')" and "\<not> hasBearerHeader r"
    and "getCachedAuth now (hq_apiKey r) s = None"
  shows "\<exists>row u. row \<in> set (db_keys (au_db s)) \<and>
    (ak_KeyHash row = HashAPIKey (ae_sha env) (hq_apiKey r) \<or> ak_Key row = hq_apiKey r) \<and>
    ak_Enabled row \<and> \<not> IsExpired now row \<and> (\<forall>l. ak_MonthlyLimit row = Some l \<longrightarrow> ak_RequestsThisMonth row < l) \<and>
    u \<in> set (db_users (au_db s)) \<and> us_ID u = ak_UserID row \<and> us_EmailVerified u \<and> \<not> us_Disabled u \<and>
    \<not> us_APIKeyRotationRequired u \<and> rc_User c = Some u \<and>
    (hq_clientId r = [] \<or>
     (\<exists>ref. GetClient (hq_clientId r) m = Some ref \<and> cl_apiKey (mg_heap m ! ref) = null_str (us_APIKeyHash u)) \<or>
     (GetClient (hq_clientId r) m = None \<and> ae_hasAutoStart env \<and>
      (\<exists>kc \<in> set (db_known (au_db s)). kc_UserID kc = us_ID u \<and> kc_ClientID kc = hq_clientId r \<and> kc_AutoStartOnRemoteRequest kc)))"
proof -
  have "lookup_auth env now m r s = (Next c, s')"
    using assms by (auto simp: AuthMiddleware_def split: if_splits)
  from lookup_auth_Next [OF this] obtain k u d where f: "ak_FindByKey (ae_sha env) (hq_apiKey r) (au_db s) = (DBOk (Some k), d)"
    and k: "ak_Enabled k" "\<not> IsExpired now k" "\<forall>l. ak_MonthlyLimit k = Some l \<longrightarrow> ak_RequestsThisMonth k < l"
    and u: "us_FindByID (ak_UserID k) d = DBOk (Some u)" "us_EmailVerified u" "\<not> us_APIKeyRotationRequired u" "\<not> us_Disabled u"
    and g: "client_gate env m d (us_ID u) (null_str (us_APIKeyHash u)) (hq_clientId r) = None"
    and c: "c = key_context env u k" by blast
  obtain row where row: "row \<in> set (db_keys (au_db s))"
      "ak_KeyHash row = HashAPIKey (ae_sha env) (hq_apiKey r) \<or> ak_Key row = hq_apiKey r"
      "k = row\<lparr>ak_KeyHash := HashAPIKey (ae_sha env) (hq_apiKey r)\<rparr>"
    using ak_FindByKey_row(1) [OF f] by blast
  have us: "u \<in> set (db_users (au_db s))" "us_ID u = ak_UserID row"
    using u(1) row(3) ak_FindByKey_row(2) [OF f]
    by (auto simp: us_FindByID_def get_row_def find_Some_iff split: if_splits)
  have auto: "\<exists>kc \<in> set (db_known (au_db s)). kc_UserID kc = us_ID u \<and> kc_ClientID kc = hq_clientId r \<and> kc_AutoStartOnRemoteRequest kc"
    if "isAutoStartableClient d (us_ID u) (hq_clientId r)"
    using that ak_FindByKey_row(3) [OF f]
    by (auto simp: isAutoStartableClient_def kc_FindByClientID_def get_row_def find_Some_iff
        split: if_splits db_result.splits option.splits)
  have "hq_clientId r = [] \<or>
     (\<exists>ref. GetClient (hq_clientId r) m = Some ref \<and> cl_apiKey (mg_heap m ! ref) = null_str (us_APIKeyHash u)) \<or>
     (GetClient (hq_clientId r) m = None \<and> ae_hasAutoStart env \<and>
      (\<exists>kc \<in> set (db_known (au_db s)). kc_UserID kc = us_ID u \<and> kc_ClientID kc = hq_clientId r \<and> kc_AutoStartOnRemoteRequest kc))"
    using g auto by (auto simp: client_gate_None)
  moreover have "rc_User c = Some u" by (simp add: c key_context_def)
  ultimately show ?thesis
    using row k u(2-4) us by (auto simp: IsExpired_def)
qed

lemma key_auth_sound_witness:
  "\<exists>c s' row u. AuthMiddleware ex_auth_env 5 (NewClientManager False ''i1'' :: unit manager) (ex_request ''k1'' [])
      (ex_auth (ex_key 7 1 ''k1'')) = (Next c, s') \<and>
    row \<in> set [ex_key 7 1 ''k1''] \<and> us_ID u = ak_UserID row \<and> rc_User c = Some u"
proof -
  let ?s = "ex_auth (ex_key 7 1 ''k1'')" and ?r = "ex_request ''k1'' []"
    and ?m = "NewClientManager False ''i1'' :: unit manager"
  obtain c s' where run: "AuthMiddleware ex_auth_env 5 ?m ?r ?s = (Next c, s')"
    by (simp add: ex_auth_defs auth_defs)
  have "\<not> hasBearerHeader ?r" "getCachedAuth 5 (hq_apiKey ?r) ?s = None"
    by (simp_all add: ex_auth_defs auth_defs)
  from key_auth_sound [OF run this] run show ?thesis by (auto simp: ex_auth_def)
qed

text \<open>The monthly limit of a key is enforced on the first request only: the answer 429 leaves the key in
  the cache, and the same request, repeated before the entry expires, is let through.\<close>

theorem monthly_limit_bypassed:
  assumes "AuthMiddleware env now m r s = (Answer 429 msg, s')" and "now' \<le> now + au_cacheTTL s"
  shows "\<exists>c. AuthMiddleware env now' m r s' = (Next c, s')"
proof -
  have b: "\<not> hasBearerHeader r" "hq_apiKey r \<noteq> []" and "getCachedAuth now (hq_apiKey r) s = None"
    and l: "lookup_auth env now m r s = (Answer 429 msg, s')"
    using assms(1)
    by (auto simp: AuthMiddleware_def SessionOnlyMiddleware_def session_gate_def cached_auth_def Let_def
        dest: client_gate_Answer split: prod.splits option.splits if_splits)
  from l obtain k u d where gate: "client_gate env m d (us_ID u) (null_str (us_APIKeyHash u)) (hq_clientId r) = None"
    and u: "us_EmailVerified u" "\<not> us_APIKeyRotationRequired u" "\<not> us_Disabled u"
    and s': "s' = setCachedAuth now (hq_apiKey r) u k (s\<lparr>au_db := d\<rparr>)"
    by (auto simp: lookup_auth_def Let_def dest: client_gate_Answer
        split: prod.splits db_result.splits option.splits if_splits)
  have "getCachedAuth now' (hq_apiKey r) s' =
      Some \<lparr>ce_user = u, ce_scopedKey = k, ce_expiresAt = now + au_cacheTTL s\<rparr>"
    using assms(2) by (simp add: s' getCachedAuth_def setCachedAuth_def)
  moreover have "au_db s' = d" by (simp add: s' setCachedAuth_def)
  ultimately show ?thesis
    using b gate u by (simp add: AuthMiddleware_def cached_auth_def Let_def)
qed

lemma monthly_limit_bypassed_witness:
  "\<exists>msg s' c. AuthMiddleware ex_auth_env 5 (NewClientManager False ''i1'' :: unit manager) (ex_request ''k1'' [])
      (ex_auth (ex_key 7 1 ''k1''\<lparr>ak_MonthlyLimit := Some 10, ak_RequestsThisMonth := 10\<rparr>)) = (Answer 429 msg, s') \<and>
    AuthMiddleware ex_auth_env 6 (NewClientManager False ''i1'' :: unit manager) (ex_request ''k1'' []) s' = (Next c, s')"
proof -
  let ?s = "ex_auth (ex_key 7 1 ''k1''\<lparr>ak_MonthlyLimit := Some 10, ak_RequestsThisMonth := 10\<rparr>)" and ?r = "ex_request ''k1'' []"
    and ?m = "NewClientManager False ''i1'' :: unit manager"
  obtain msg s' where run: "AuthMiddleware ex_auth_env 5 ?m ?r ?s = (Answer 429 msg, s')"
    by (simp add: ex_auth_defs auth_defs)
  have "(6 :: int) \<le> 5 + au_cacheTTL ?s" by (simp add: ex_auth_def seconds_def)
  from monthly_limit_bypassed [OF run this] run show ?thesis by blast
qed

end
