(* ===== verification/ManagerInv.thy ===== *)
theory ManagerInv
  imports Manager
begin

text \<open>
  What the client registry keeps true: the groups cover the registered clients, the gauge counts
  them, a pointer in the registry is a live heap cell holding the client of that identifier, and
  no channel is closed twice.
\<close>

definition in_groups :: "(string, group) gomap \<Rightarrow> string \<Rightarrow> string \<Rightarrow> bool" where
  "in_groups gs tok cid = (case aget gs tok of None \<Rightarrow> False | Some g \<Rightarrow> aget g cid \<noteq> None)"

definition groups_wf :: "(string, group) gomap \<Rightarrow> bool" where
  "groups_wf gs \<longleftrightarrow> wf_map gs \<and> (\<forall>tok g. aget gs tok = Some g \<longrightarrow> wf_map g \<and> g \<noteq> [])"

lemma in_groups_remove:
  assumes "groups_wf gs"
  shows "in_groups (group_remove tok cid gs) tok' cid' \<longleftrightarrow> in_groups gs tok' cid' \<and> \<not> (tok' = tok \<and> cid' = cid)"
proof (cases "aget gs tok")
  case None
  then show ?thesis by (auto simp: in_groups_def group_remove_def)
next
  case (Some g)
  show ?thesis
  proof (cases "adel cid g = []")
    case True
    then have only: "c \<noteq> cid \<Longrightarrow> aget g c = None" for c
      by (metis aget_adel map_of.simps(1))
    then show ?thesis
      using Some True by (auto simp: in_groups_def group_remove_def Let_def)
  next
    case False
    then show ?thesis
      using Some by (auto simp: in_groups_def group_remove_def Let_def)
  qed
qed

lemma groups_wf_remove [inv_intros]: "groups_wf gs \<Longrightarrow> groups_wf (group_remove tok cid gs)"
  by (auto simp: groups_wf_def group_remove_def Let_def split: option.splits if_splits)

lemma in_groups_add:
  "in_groups (group_add tok cid gs) tok' cid' \<longleftrightarrow> in_groups gs tok' cid' \<or> (tok' = tok \<and> cid' = cid)"
  by (auto simp: in_groups_def group_add_def Let_def split: option.splits)

lemma aput_not_Nil [simp]: "aput k v m \<noteq> []"
  by (cases m) (auto split: if_splits)

lemma groups_wf_add [inv_intros]: "groups_wf gs \<Longrightarrow> groups_wf (group_add tok cid gs)"
  by (auto simp: groups_wf_def group_add_def Let_def split: option.splits)

lemma group_ids_iff: "cid \<in> set (group_ids tok m) \<longleftrightarrow> in_groups (mg_tokenGroups m) tok cid"
  unfolding group_ids_def in_groups_def
  by (cases "aget (mg_tokenGroups m) tok") (simp_all only: aget_keys option.case list.set empty_iff)

subsection \<open>The invariant\<close>

definition registry_ok :: "'h manager \<Rightarrow> bool" where
  "registry_ok m \<longleftrightarrow>
     wf_map (mg_clients m) \<and> groups_wf (mg_tokenGroups m) \<and> list_all client_wf (mg_heap m) \<and>
     list_all (\<lambda>(ref, code, r). ref < length (mg_heap m)) (mg_spawned m) \<and>
     (\<forall>cid ref. aget (mg_clients m) cid = Some ref \<longrightarrow>
        ref < length (mg_heap m) \<and> cl_id (mg_heap m ! ref) = cid \<and>
        in_groups (mg_tokenGroups m) (cl_apiKey (mg_heap m ! ref)) cid)"

definition mg_inv :: "'h manager \<Rightarrow> bool" where
  "mg_inv m \<longleftrightarrow> registry_ok m \<and> mg_gauge m = int (length (mg_clients m))"

lemma registry_okD:
  assumes "registry_ok m" and "aget (mg_clients m) cid = Some ref"
  shows "ref < length (mg_heap m)" and "cl_id (mg_heap m ! ref) = cid"
    and "in_groups (mg_tokenGroups m) (cl_apiKey (mg_heap m ! ref)) cid"
    and "client_wf (mg_heap m ! ref)"
  using assms by (auto simp: registry_ok_def list_all_length)

lemma registry_inj:
  "\<lbrakk>registry_ok m; aget (mg_clients m) c1 = Some ref; aget (mg_clients m) c2 = Some ref\<rbrakk> \<Longrightarrow> c1 = c2"
  using registry_okD(2) by metis

lemma registry_ok_emit [simp]: "registry_ok (emit es m) = registry_ok m"
  by (simp add: registry_ok_def emit_def)

lemma emit_simps [simp]:
  "mg_heap (emit es m) = mg_heap m" "mg_clients (emit es m) = mg_clients m"
  "mg_tokenGroups (emit es m) = mg_tokenGroups m" "mg_gauge (emit es m) = mg_gauge m"
  "mg_redisUp (emit es m) = mg_redisUp m" "mg_instanceID (emit es m) = mg_instanceID m"
  "mg_spawned (emit es m) = mg_spawned m" "mg_out (emit es m) = mg_out m @ es"
  "mg_hasRemoved (emit es m) = mg_hasRemoved m" "mg_hasSSEClose (emit es m) = mg_hasSSEClose m"
  "mg_hasConnected (emit es m) = mg_hasConnected m" "mg_hasDuplicate (emit es m) = mg_hasDuplicate m"
  by (simp_all add: emit_def)

lemma mg_inv_emit [simp]: "mg_inv (emit es m) = mg_inv m"
  by (simp add: mg_inv_def)

lemma registry_ok_gauge [simp]: "registry_ok (m\<lparr>mg_gauge := g\<rparr>) = registry_ok m"
  by (simp add: registry_ok_def)

lemma mg_inv_New: "mg_inv (NewClientManager r i)"
  by (simp add: mg_inv_def registry_ok_def NewClientManager_def groups_wf_def)

lemma registry_ok_register:
  assumes ok: "registry_ok m" and "register now a cid token tn h m = (ref, m')"
  shows "registry_ok m'"
proof -
  let ?c = "NewClient now a cid token tn h"
  have m': "m' = m\<lparr>mg_heap := mg_heap m @ [?c], mg_clients := aput cid ref (mg_clients m),
      mg_tokenGroups := group_add token cid (mg_tokenGroups m)\<rparr>" and ref: "ref = length (mg_heap m)"
    using assms(2) by (auto simp: register_def Let_def)
  have new: "cl_id ?c = cid" "cl_apiKey ?c = token"
    by (simp_all add: NewClient_def Let_def)
  show ?thesis
    unfolding registry_ok_def
  proof (intro conjI allI impI)
    fix cid' ref' assume "aget (mg_clients m') cid' = Some ref'"
    then consider "cid' = cid" "ref' = ref" | "cid' \<noteq> cid" "aget (mg_clients m) cid' = Some ref'"
      by (auto simp: m' split: if_splits)
    then have "ref' < length (mg_heap m') \<and> cl_id (mg_heap m' ! ref') = cid' \<and>
        in_groups (mg_tokenGroups m') (cl_apiKey (mg_heap m' ! ref')) cid'"
    proof cases
      case 1
      then show ?thesis by (simp add: m' ref new in_groups_add)
    next
      case 2
      note facts = registry_okD [OF ok 2(2)]
      then show ?thesis by (simp add: m' nth_append in_groups_add)
    qed
    then show "ref' < length (mg_heap m')" "cl_id (mg_heap m' ! ref') = cid'"
        "in_groups (mg_tokenGroups m') (cl_apiKey (mg_heap m' ! ref')) cid'" by auto
  qed (use ok in \<open>auto simp: m' registry_ok_def client_wf_New groups_wf_add list_all_iff\<close>)
qed

lemma registry_ok_drop:
  assumes ok: "registry_ok m"
    and "mg_heap m' = mg_heap m" "mg_clients m' = adel cid (mg_clients m)"
    and "mg_tokenGroups m' = group_remove tok cid (mg_tokenGroups m)"
    and "list_all (\<lambda>(ref, code, r). ref < length (mg_heap m)) (mg_spawned m')"
  shows "registry_ok m'"
proof -
  have gw: "groups_wf (mg_tokenGroups m)" using ok by (simp add: registry_ok_def)
  show ?thesis
    using ok assms(2-) in_groups_remove [OF gw] groups_wf_remove [OF gw]
    by (auto simp: registry_ok_def split: if_splits)
qed

lemma mg_inv_unregister:
  assumes inv: "mg_inv m" and "aget (mg_clients m) cid = Some ref"
  shows "mg_inv (unregister scard cid ref m)"
proof -
  have ok: "registry_ok m" and wf: "wf_map (mg_clients m)"
    using inv by (simp_all add: mg_inv_def registry_ok_def)
  have "registry_ok (unregister scard cid ref m)"
    by (rule registry_ok_drop [OF ok]) (use ok in \<open>simp_all add: unregister_def Let_def registry_ok_def\<close>)
  moreover have "0 < length (mg_clients m)"
    using assms(2) by (cases "mg_clients m") auto
  ultimately show ?thesis
    using inv assms(2) wf by (auto simp: mg_inv_def unregister_def Let_def length_adel of_nat_diff Suc_leI)
qed

lemma mg_inv_RemoveClient [inv_intros]: "mg_inv m \<Longrightarrow> mg_inv (RemoveClient scard cid m)"
  by (simp add: RemoveClient_def mg_inv_unregister split: option.splits)

lemma mg_inv_RemoveClientIfMatch [inv_intros]: "mg_inv m \<Longrightarrow> mg_inv (RemoveClientIfMatch scard cid e m)"
  by (simp add: RemoveClientIfMatch_def mg_inv_unregister split: option.splits)

lemma mg_inv_Cleanup [inv_intros]: "mg_inv m \<Longrightarrow> mg_inv (CleanupInactiveClients scard m)"
proof -
  have "mg_inv m \<Longrightarrow> mg_inv (fold (RemoveClient scard) ids m)" for ids and m :: "'a manager"
    by (induction ids arbitrary: m) (auto intro: mg_inv_RemoveClient)
  then show "mg_inv m \<Longrightarrow> ?thesis" by (simp add: CleanupInactiveClients_def Let_def)
qed

lemma registry_ok_evict:
  assumes ok: "registry_ok m" and "aget (mg_clients m) cid = Some old"
  shows "registry_ok (evict cid token old m)"
  by (rule registry_ok_drop [OF ok])
    (use ok registry_okD(1) [OF assms] in \<open>simp_all add: evict_def registry_ok_def\<close>)

lemma announce_cases:
  assumes "announce cid token h ref m = r" and "registry_ok m"
  shows "(case r of Added ref' m' \<Rightarrow> ref' = ref \<and> registry_ok m' \<and> mg_gauge m' = mg_gauge m + 1 \<and>
             mg_clients m' = mg_clients m \<and> mg_heap m' = mg_heap m \<and>
             mg_tokenGroups m' = mg_tokenGroups m \<and> mg_spawned m' = mg_spawned m
          | Rejected e m' \<Rightarrow> False
          | AddPanic e m' \<Rightarrow> m' = m \<and> mg_redisUp m \<and> length token < 8)"
  using assms by (auto simp: announce_def Let_def)

lemma mg_inv_AddClient:
  assumes inv: "mg_inv m"
  shows "case AddClient now a cid token tn h m of
      Added ref m' \<Rightarrow> mg_inv m' | Rejected e m' \<Rightarrow> mg_inv m' | AddPanic e m' \<Rightarrow> registry_ok m'"
proof (cases "aget (mg_clients m) cid")
  case None
  obtain ref m1 where reg: "register now a cid token tn h m = (ref, m1)" by force
  have ok: "registry_ok m1"
    using registry_ok_register [OF _ reg] inv by (simp add: mg_inv_def)
  have g: "mg_gauge m1 = mg_gauge m" "length (mg_clients m1) = length (mg_clients m) + 1"
    using reg None by (auto simp: register_def Let_def length_aput)
  show ?thesis
    using announce_cases [of cid token h ref m1, OF refl ok] ok g inv
    by (simp add: AddClient_def None reg mg_inv_def split: add_result.splits)
next
  case (Some old)
  let ?m0 = "evict cid token old m"
  obtain ref m1 where reg: "register now a cid token tn h ?m0 = (ref, m1)" by force
  have ok0: "registry_ok ?m0" using registry_ok_evict [OF _ Some] inv by (simp add: mg_inv_def)
  have ok: "registry_ok m1" using registry_ok_register [OF ok0 reg] .
  have pos: "0 < length (mg_clients m)" using Some by (cases "mg_clients m") auto
  have wf: "wf_map (mg_clients m)" using inv by (simp add: mg_inv_def registry_ok_def)
  have g: "mg_gauge m1 = mg_gauge m - 1" "length (mg_clients m1) = length (mg_clients m)"
    using reg Some pos length_adel [OF wf, of cid]
    by (auto simp: register_def Let_def length_aput evict_def)
  show ?thesis
    using announce_cases [of cid token h ref m1, OF refl ok] ok g inv
    by (simp add: AddClient_def Some reg mg_inv_def Let_def split: add_result.splits)
qed

subsection \<open>Operations on single clients\<close>

definition same_identity :: "Client \<Rightarrow> Client \<Rightarrow> bool" where
  "same_identity c d \<longleftrightarrow> cl_id c = cl_id d \<and> cl_apiKey c = cl_apiKey d"

lemma nth_update: "q < length xs \<Longrightarrow> xs[i := c] ! q = (if q = i then c else xs ! q)"
  by (cases "q = i") auto

lemma registry_ok_heap:
  assumes "registry_ok m" and "client_wf c" and "same_identity c (mg_heap m ! ref)"
  shows "registry_ok (heap_update ref c m)"
  using assms
  by (auto simp: registry_ok_def heap_update_def same_identity_def nth_update list_all_length)

lemma heap_update_simps [simp]:
  "mg_clients (heap_update ref c m) = mg_clients m"
  "mg_tokenGroups (heap_update ref c m) = mg_tokenGroups m"
  "mg_gauge (heap_update ref c m) = mg_gauge m"
  "mg_redisUp (heap_update ref c m) = mg_redisUp m"
  "mg_instanceID (heap_update ref c m) = mg_instanceID m"
  "length (mg_heap (heap_update ref c m)) = length (mg_heap m)"
  "mg_spawned (heap_update ref c m) = mg_spawned m" "mg_out (heap_update ref c m) = mg_out m"
  by (simp_all add: heap_update_def)

lemma mg_inv_heap:
  "\<lbrakk>mg_inv m; client_wf c; same_identity c (mg_heap m ! ref)\<rbrakk> \<Longrightarrow> mg_inv (heap_update ref c m)"
  by (simp add: mg_inv_def registry_ok_heap)

lemma heap_wf: "\<lbrakk>mg_inv m; ref < length (mg_heap m)\<rbrakk> \<Longrightarrow> client_wf (mg_heap m ! ref)"
  by (simp add: mg_inv_def registry_ok_def list_all_length)

lemma mg_inv_client: "\<lbrakk>mg_inv m; aget (mg_clients m) cid = Some ref\<rbrakk> \<Longrightarrow> client_wf (mg_heap m ! ref)"
  using registry_okD(4) by (auto simp: mg_inv_def)

lemma mg_inv_SetToken [inv_intros]: "mg_inv m \<Longrightarrow> mg_inv (SetClientConnectionTokenID cid t m)"
  by (auto simp: SetClientConnectionTokenID_def Let_def same_identity_def SetConnectionTokenID_def client_wf_def
      intro!: mg_inv_heap dest: mg_inv_client split: option.splits)

lemma mg_inv_UpdateLastSeen [inv_intros]: "mg_inv m \<Longrightarrow> mg_inv (UpdateClientLastSeen now cid m)"
  by (auto simp: UpdateClientLastSeen_def Let_def same_identity_def UpdateLastSeen_def client_wf_def
      intro!: mg_inv_heap dest: mg_inv_client split: option.splits)

lemma Send_identity: "same_identity (snd (Send d c)) c"
  by (simp add: same_identity_def Send_def enqueue_def)

lemma mg_inv_send_all:
  "\<lbrakk>mg_inv m; \<forall>ref \<in> set refs. ref < length (mg_heap m)\<rbrakk> \<Longrightarrow> mg_inv (send_all refs msg m)"
proof (induction refs arbitrary: m)
  case (Cons ref refs)
  have "mg_inv (heap_update ref (snd (Send msg (mg_heap m ! ref))) m)"
    using Cons.prems by (intro mg_inv_heap client_wf_Send heap_wf Send_identity) auto
  then show ?case using Cons by simp
qed simp

lemma in_map_filter: "y \<in> set (List.map_filter f xs) \<longleftrightarrow> (\<exists>x \<in> set xs. f x = Some y)"
  by (force simp: List.map_filter_def)

lemma mg_inv_Broadcast [inv_intros]: "mg_inv m \<Longrightarrow> mg_inv (BroadcastToGroup cid msg m)"
  by (auto simp: BroadcastToGroup_def Let_def in_map_filter mg_inv_def registry_okD(1)
      intro!: mg_inv_send_all [unfolded mg_inv_def] split: option.splits)

subsection \<open>Forced disconnects\<close>

text \<open>
  Closing a list of clients never panics, and afterwards exactly the listed clients are no longer
  alive; nothing else of the registry changes.
\<close>

lemma closeClients_loop_spec:
  assumes "mg_inv m" and "\<forall>ref \<in> set refs. ref < length (mg_heap m)"
  shows "\<exists>m'. closeClients_loop refs code r n m = Ret (n + length refs, m') \<and> mg_inv m' \<and>
    mg_clients m' = mg_clients m \<and> mg_tokenGroups m' = mg_tokenGroups m \<and>
    mg_redisUp m' = mg_redisUp m \<and> mg_instanceID m' = mg_instanceID m \<and> mg_out m' = mg_out m \<and>
    length (mg_heap m') = length (mg_heap m) \<and>
    (\<forall>ref < length (mg_heap m). same_identity (mg_heap m' ! ref) (mg_heap m ! ref) \<and>
       cl_connectionTokenID (mg_heap m' ! ref) = cl_connectionTokenID (mg_heap m ! ref) \<and>
       (if ref \<in> set refs then \<not> IsAlive (mg_heap m' ! ref) else mg_heap m' ! ref = mg_heap m ! ref))"
  using assms
proof (induction refs arbitrary: n m)
  case Nil
  then show ?case by (simp add: same_identity_def)
next
  case (Cons ref refs)
  let ?c = "mg_heap m ! ref"
  let ?c1 = "if cl_sockClosed ?c then ?c else ?c\<lparr>cl_wire := cl_wire ?c @ [CloseFrame (Some (code, r))]\<rparr>"
  have len: "ref < length (mg_heap m)" using Cons.prems by simp
  have wf: "client_wf ?c1" using heap_wf [OF Cons.prems(1) len] by (simp add: client_wf_def)
  obtain c2 where c2: "Disconnect ?c1 = Ret c2" "client_wf c2" "\<not> IsAlive c2" "cl_id c2 = cl_id ?c"
      "cl_apiKey c2 = cl_apiKey ?c" "cl_connectionTokenID c2 = cl_connectionTokenID ?c"
    using Disconnect_Ret [OF wf] by (auto split: if_splits)
  let ?m1 = "heap_update ref c2 m"
  have inv1: "mg_inv ?m1" using Cons.prems c2 by (intro mg_inv_heap) (auto simp: same_identity_def)
  from Cons.IH [OF inv1, of "n + 1"] Cons.prems obtain m' where
    m': "closeClients_loop refs code r (n + 1) ?m1 = Ret (n + 1 + length refs, m')" "mg_inv m'"
      "mg_clients m' = mg_clients m" "mg_tokenGroups m' = mg_tokenGroups m"
      "mg_redisUp m' = mg_redisUp m" "mg_instanceID m' = mg_instanceID m" "mg_out m' = mg_out m"
      "length (mg_heap m') = length (mg_heap m)"
    and heap: "\<forall>q < length (mg_heap m). same_identity (mg_heap m' ! q) (mg_heap ?m1 ! q) \<and>
       cl_connectionTokenID (mg_heap m' ! q) = cl_connectionTokenID (mg_heap ?m1 ! q) \<and>
       (if q \<in> set refs then \<not> IsAlive (mg_heap m' ! q) else mg_heap m' ! q = mg_heap ?m1 ! q)"
    by auto
  have at1: "mg_heap ?m1 ! q = (if q = ref then c2 else mg_heap m ! q)" if "q < length (mg_heap m)" for q
    using that by (simp add: heap_update_def nth_update)
  have "\<forall>q < length (mg_heap m). same_identity (mg_heap m' ! q) (mg_heap m ! q) \<and>
       cl_connectionTokenID (mg_heap m' ! q) = cl_connectionTokenID (mg_heap m ! q) \<and>
       (if q \<in> set (ref # refs) then \<not> IsAlive (mg_heap m' ! q) else mg_heap m' ! q = mg_heap m ! q)"
  proof (intro allI impI)
    fix q assume q: "q < length (mg_heap m)"
    show "same_identity (mg_heap m' ! q) (mg_heap m ! q) \<and>
       cl_connectionTokenID (mg_heap m' ! q) = cl_connectionTokenID (mg_heap m ! q) \<and>
       (if q \<in> set (ref # refs) then \<not> IsAlive (mg_heap m' ! q) else mg_heap m' ! q = mg_heap m ! q)"
      using heap [rule_format, OF q] at1 [OF q] c2(3-)
      by (cases "q = ref"; cases "q \<in> set refs") (simp_all add: same_identity_def)
  qed
  moreover have "closeClients_loop (ref # refs) code r n m = Ret (n + length (ref # refs), m')"
    using m'(1) c2(1) by (simp add: Let_def)
  ultimately show ?case using m' by (intro exI [of _ m']) simp
qed

definition closed_effect :: "nat list \<Rightarrow> 'h manager \<Rightarrow> 'h manager \<Rightarrow> bool" where
  "closed_effect refs m m' \<longleftrightarrow>
     mg_inv m' \<and> mg_clients m' = mg_clients m \<and> mg_tokenGroups m' = mg_tokenGroups m \<and>
     mg_redisUp m' = mg_redisUp m \<and> mg_instanceID m' = mg_instanceID m \<and> mg_out m' = mg_out m \<and>
     (\<forall>ref < length (mg_heap m).
        cl_connectionTokenID (mg_heap m' ! ref) = cl_connectionTokenID (mg_heap m ! ref) \<and>
        (if ref \<in> set refs then \<not> IsAlive (mg_heap m' ! ref) else mg_heap m' ! ref = mg_heap m ! ref))"

lemma closeClients_spec:
  assumes "mg_inv m" and "\<forall>ref \<in> set refs. ref < length (mg_heap m)"
  shows "\<exists>m'. closeClients refs code r m = Ret (length refs, m') \<and> closed_effect refs m m'"
  using closeClients_loop_spec [OF assms, of "if code = 0 then 4002 else code" r 0]
  by (auto simp: closeClients_def Let_def closed_effect_def)

lemma registered_refs:
  "mg_inv m \<Longrightarrow> \<forall>ref \<in> set (map snd (mg_clients m)). ref < length (mg_heap m)"
  using registry_okD(1) aget_iff_in_set by (fastforce simp: mg_inv_def registry_ok_def)

lemma run_spawned_loop_spec:
  "\<lbrakk>mg_inv m; list_all (\<lambda>(ref, code, r). ref < length (mg_heap m)) ps\<rbrakk> \<Longrightarrow>
   \<exists>m'. run_spawned_loop ps m = Ret m' \<and> mg_inv m' \<and> mg_clients m' = mg_clients m \<and>
     mg_tokenGroups m' = mg_tokenGroups m"
proof (induction ps arbitrary: m)
  case (Cons p ps)
  obtain ref code r where p: "p = (ref, code, r)" by (cases p)
  have wf: "client_wf (mg_heap m ! ref)" using Cons.prems p heap_wf by auto
  obtain c where c: "DisconnectWithReason code r (mg_heap m ! ref) = Ret c" "client_wf c"
      "cl_id c = cl_id (mg_heap m ! ref)" "cl_apiKey c = cl_apiKey (mg_heap m ! ref)"
    using DisconnectWithReason_Ret [OF wf] by blast
  have "mg_inv (heap_update ref c m)"
    using Cons.prems c by (intro mg_inv_heap) (auto simp: same_identity_def)
  from Cons.IH [OF this] Cons.prems show ?case by (auto simp: p c(1))
qed simp

lemma run_spawned_spec:
  assumes "mg_inv m"
  shows "\<exists>m'. run_spawned m = Ret m' \<and> mg_inv m'"
proof -
  have "mg_inv (m\<lparr>mg_spawned := []\<rparr>)" using assms by (simp add: mg_inv_def registry_ok_def)
  then show ?thesis
    using run_spawned_loop_spec [of "m\<lparr>mg_spawned := []\<rparr>" "mg_spawned m"] assms
    by (auto simp: run_spawned_def mg_inv_def registry_ok_def)
qed

subsection \<open>Every run keeps the invariant\<close>

text \<open>
  The operations of the registry, each run under its lock, in any order.  A registration whose
  Redis bookkeeping panics ends the run: the panic leaves the gauge behind.
\<close>

inductive mstep :: "'h manager \<Rightarrow> 'h manager \<Rightarrow> bool" where
  added: "AddClient now a cid token tn h m = Added ref m' \<Longrightarrow> mstep m m'"
| rejected: "AddClient now a cid token tn h m = Rejected e m' \<Longrightarrow> mstep m m'"
| spawned: "run_spawned m = Ret m' \<Longrightarrow> mstep m m'"
| set_token: "mstep m (SetClientConnectionTokenID cid t m)"
| removed: "mstep m (RemoveClient scard cid m)"
| removed_match: "mstep m (RemoveClientIfMatch scard cid ref m)"
| cleaned: "mstep m (CleanupInactiveClients scard m)"
| token_revoked: "disconnectLocalByToken t code r m = Ret (n, m') \<Longrightarrow> mstep m m'"
| client_kicked: "disconnectLocalByClientID cid code r m = Ret (n, m') \<Longrightarrow> mstep m m'"
| key_revoked: "disconnectLocalByAPIKey k code r m = Ret (n, m') \<Longrightarrow> mstep m m'"
| seen: "mstep m (UpdateClientLastSeen now cid m)"
| message: "mstep m (snd (HandleIncomingMessage now cid msg raw m))"
| message_fast: "mstep m (snd (HandleIncomingMessageFast decode now cid mt raw m))"

inductive mg_reachable :: "'h manager \<Rightarrow> bool" where
  start: "mg_reachable (NewClientManager redisUp instanceID)"
| step: "\<lbrakk>mg_reachable m; mstep m m'\<rbrakk> \<Longrightarrow> mg_reachable m'"

lemma mg_inv_touch: "\<lbrakk>mg_inv m; aget (mg_clients m) cid = Some ref\<rbrakk> \<Longrightarrow>
   mg_inv (heap_update ref (UpdateLastSeen now (mg_heap m ! ref)) m)"
  by (rule mg_inv_heap) (auto simp: same_identity_def UpdateLastSeen_def client_wf_def dest: mg_inv_client)

lemma mg_inv_pong:
  assumes "mg_inv m" and "aget (mg_clients m) cid = Some ref"
  shows "mg_inv (send_all [ref] msg m)"
  by (rule mg_inv_send_all) (use assms registry_okD(1) in \<open>auto simp: mg_inv_def\<close>)

lemma mg_inv_message: "mg_inv m \<Longrightarrow> mg_inv (snd (HandleIncomingMessage now cid msg raw m))"
proof (cases "aget (mg_clients m) cid")
  case None
  then show "mg_inv m \<Longrightarrow> ?thesis" by (simp add: HandleIncomingMessage_def)
next
  case (Some ref)
  assume inv: "mg_inv m"
  let ?m1 = "heap_update ref (UpdateLastSeen now (mg_heap m ! ref)) m"
  have inv1: "mg_inv ?m1" using inv Some by (rule mg_inv_touch)
  have pong: "mg_inv (send_all [ref] pong ?m1)"
    by (rule mg_inv_pong [OF inv1, of cid]) (simp add: Some)
  show ?thesis
    using inv1 pong mg_inv_Broadcast [OF inv1]
    by (simp add: HandleIncomingMessage_def Some Let_def del: send_all.simps split: option.splits)
qed

lemma mg_inv_message_fast: "mg_inv m \<Longrightarrow> mg_inv (snd (HandleIncomingMessageFast decode now cid mt raw m))"
proof (cases "aget (mg_clients m) cid")
  case None
  then show "mg_inv m \<Longrightarrow> ?thesis" by (simp add: HandleIncomingMessageFast_def)
next
  case (Some ref)
  assume inv: "mg_inv m"
  let ?m1 = "heap_update ref (UpdateLastSeen now (mg_heap m ! ref)) m"
  have inv1: "mg_inv ?m1" using inv Some by (rule mg_inv_touch)
  have pong: "mg_inv (send_all [ref] pong ?m1)"
    by (rule mg_inv_pong [OF inv1, of cid]) (simp add: Some)
  show ?thesis
    using inv1 pong mg_inv_Broadcast [OF inv1]
    by (simp add: HandleIncomingMessageFast_def Some Let_def del: send_all.simps split: option.splits)
qed

lemma mg_inv_close:
  assumes "mg_inv m" and "\<forall>ref \<in> set refs. ref < length (mg_heap m)"
    and "closeClients refs code r m = Ret (n, m')"
  shows "mg_inv m'"
  using closeClients_spec [OF assms(1,2), of code r] assms(3) by (auto simp: closed_effect_def)

lemma group_refs_valid: "mg_inv m \<Longrightarrow> \<forall>ref \<in> set (group_refs k m). ref < length (mg_heap m)"
  using registry_okD(1) by (auto simp: group_refs_def in_map_filter mg_inv_def)

lemma mg_inv_step:
  assumes "mstep m m'" and inv: "mg_inv m"
  shows "mg_inv m'"
  using assms(1)
proof cases
  case (added now a cid token tn h ref)
  then show ?thesis using mg_inv_AddClient [OF inv, of now a cid token tn h] by simp
next
  case (rejected now a cid token tn h e)
  then show ?thesis using mg_inv_AddClient [OF inv, of now a cid token tn h] by simp
next
  case spawned
  then show ?thesis using run_spawned_spec [OF inv] by auto
next
  case (token_revoked t code r n)
  let ?refs = "filter (\<lambda>ref. cl_connectionTokenID (mg_heap m ! ref) = t) (map snd (mg_clients m))"
  have "\<forall>ref \<in> set ?refs. ref < length (mg_heap m)" using registered_refs [OF inv] by auto
  then show ?thesis
    using token_revoked inv mg_inv_close [OF inv, of ?refs code r n m']
    by (simp add: disconnectLocalByToken_def Let_def split: if_splits)
next
  case (client_kicked cid code r n)
  have "ref < length (mg_heap m)" if "aget (mg_clients m) cid = Some ref" for ref
    using that inv registry_okD(1) by (auto simp: mg_inv_def)
  then show ?thesis
    using client_kicked inv mg_inv_close [OF inv, of "[_]"]
    by (auto simp: disconnectLocalByClientID_def split: if_splits option.splits)
next
  case (key_revoked k code r n)
  then show ?thesis
    using inv mg_inv_close [OF inv group_refs_valid [OF inv]]
    by (auto simp: disconnectLocalByAPIKey_def split: if_splits)
qed (use inv in \<open>auto intro: mg_inv_SetToken mg_inv_RemoveClient mg_inv_RemoveClientIfMatch mg_inv_Cleanup
       mg_inv_UpdateLastSeen mg_inv_message mg_inv_message_fast\<close>)

lemma mg_reachable_inv: "mg_reachable m \<Longrightarrow> mg_inv m"
  by (induction rule: mg_reachable.induct) (auto intro: mg_inv_New mg_inv_step)

text \<open>C3: In every state the registry reaches, the active-connections gauge counts the registered
  clients, every registered client is a live cell carrying its identifier and a member of its own
  key's group, so a lookup by key can find it; and the goroutines started by evictions never close
  a channel twice.\<close>

theorem registry_consistent:
  assumes "mg_reachable m"
  shows "mg_gauge m = int (length (mg_clients m)) \<and>
    list_all (\<lambda>(cid, ref). ref < length (mg_heap m) \<and> cl_id (mg_heap m ! ref) = cid \<and>
        cid \<in> set (group_ids (cl_apiKey (mg_heap m ! ref)) m)) (mg_clients m) \<and>
    run_spawned m \<noteq> Panic e"
proof -
  have inv: "mg_inv m" using assms by (rule mg_reachable_inv)
  then have ok: "registry_ok m" and wf: "wf_map (mg_clients m)"
    by (simp_all add: mg_inv_def registry_ok_def)
  have "list_all (\<lambda>(cid, ref). ref < length (mg_heap m) \<and> cl_id (mg_heap m ! ref) = cid \<and>
        cid \<in> set (group_ids (cl_apiKey (mg_heap m ! ref)) m)) (mg_clients m)"
    using registry_okD(1,2,3) [OF ok] aget_iff_in_set [OF wf]
    by (auto simp: list_all_iff group_ids_iff)
  then show ?thesis
    using inv run_spawned_spec [OF inv] by (auto simp: mg_inv_def)
qed

text \<open>C13: When a module reconnects from the same host and replaces its own stale connection, the late
  cleanup of the old connection's read loop leaves the whole registry untouched.\<close>

theorem late_cleanup_harmless:
  assumes "mg_inv m" and "aget (mg_clients m) cid = Some old"
    and "AddClient now a cid token tn h m = Added ref m'"
  shows "RemoveClientIfMatch scard cid old m' = m' \<and> aget (mg_clients m') cid = Some ref"
proof -
  have lt: "old < length (mg_heap m)"
    using assms(1,2) registry_okD(1) by (auto simp: mg_inv_def)
  have "ref = length (mg_heap m) \<and> aget (mg_clients m') cid = Some ref"
    using assms(2,3) by (auto simp: AddClient_def register_def announce_def evict_def emit_def Let_def
        split: if_splits)
  then show ?thesis using lt by (simp add: RemoveClientIfMatch_def)
qed

subsection \<open>Looking clients up by key\<close>

text \<open>Every group member is a registered client of that key.\<close>

definition groups_exact :: "'h manager \<Rightarrow> bool" where
  "groups_exact m \<longleftrightarrow>
     (\<forall>tok cid. in_groups (mg_tokenGroups m) tok cid \<longrightarrow>
        (\<exists>ref. aget (mg_clients m) cid = Some ref \<and> cl_apiKey (mg_heap m ! ref) = tok))"

lemma groups_exact_New: "groups_exact (NewClientManager r i)"
  by (simp add: groups_exact_def NewClientManager_def in_groups_def)

lemma groups_exact_AddClient:
  assumes inv: "mg_inv m" and ex: "groups_exact m"
    and own: "\<And>old. aget (mg_clients m) cid = Some old \<Longrightarrow> cl_apiKey (mg_heap m ! old) = token"
    and add: "AddClient now a cid token tn h m = Added ref m'"
  shows "groups_exact m'"
proof -
  have gw: "groups_wf (mg_tokenGroups m)" using inv by (simp add: mg_inv_def registry_ok_def)
  let ?c = "NewClient now a cid token tn h"
  have ck: "cl_apiKey ?c = token" by (simp add: NewClient_def Let_def)
  have heap: "mg_heap m' = mg_heap m @ [?c]" "aget (mg_clients m') cid = Some (length (mg_heap m))"
      "\<And>c. c \<noteq> cid \<Longrightarrow> aget (mg_clients m') c = aget (mg_clients m) c"
    and grp: "mg_tokenGroups m' = group_add token cid
        (if aget (mg_clients m) cid = None then mg_tokenGroups m
         else group_remove token cid (mg_tokenGroups m))"
    using add by (auto simp: AddClient_def register_def announce_def evict_def emit_def Let_def
        split: if_splits option.splits)
  have sub: "in_groups (mg_tokenGroups m') t c \<Longrightarrow> c = cid \<and> t = token \<or> c \<noteq> cid \<and> in_groups (mg_tokenGroups m) t c" for t c
  proof -
    assume g: "in_groups (mg_tokenGroups m') t c"
    then have base: "in_groups (mg_tokenGroups m) t c \<or> t = token \<and> c = cid"
      using in_groups_remove [OF gw] by (auto simp: grp in_groups_add split: if_splits)
    show ?thesis
    proof (cases "c = cid")
      case True
      have "t = token" if "in_groups (mg_tokenGroups m) t cid"
        using ex own that unfolding groups_exact_def by blast
      then show ?thesis using base True by blast
    next
      case False
      then show ?thesis using base by blast
    qed
  qed
  show ?thesis
    unfolding groups_exact_def
  proof (intro allI impI)
    fix t c assume "in_groups (mg_tokenGroups m') t c"
    from sub [OF this] show "\<exists>r. aget (mg_clients m') c = Some r \<and> cl_apiKey (mg_heap m' ! r) = t"
    proof
      assume "c = cid \<and> t = token"
      then show ?thesis using heap ck by simp
    next
      assume *: "c \<noteq> cid \<and> in_groups (mg_tokenGroups m) t c"
      then obtain r where r: "aget (mg_clients m) c = Some r" "cl_apiKey (mg_heap m ! r) = t"
        using ex by (auto simp: groups_exact_def)
      moreover have "r < length (mg_heap m)"
        using r(1) inv registry_okD(1) by (auto simp: mg_inv_def)
      ultimately show ?thesis using heap * by (simp add: nth_append)
    qed
  qed
qed

lemma groups_exact_unregister:
  assumes inv: "mg_inv m" and ex: "groups_exact m" and reg: "aget (mg_clients m) cid = Some ref"
  shows "groups_exact (unregister scard cid ref m)"
proof -
  have gw: "groups_wf (mg_tokenGroups m)" using inv by (simp add: mg_inv_def registry_ok_def)
  show ?thesis
    using ex reg in_groups_remove [OF gw]
    by (auto simp: groups_exact_def unregister_def Let_def) (metis option.inject)+
qed

text \<open>As long as a reconnecting module presents the key its stale connection was registered under,
  registering it keeps the groups exact, and a lookup by key then returns precisely the live
  clients registered under that key.\<close>

theorem lookup_by_key_exact:
  assumes "mg_inv m" and "groups_exact m"
    and "\<And>old. aget (mg_clients m) cid = Some old \<Longrightarrow> cl_apiKey (mg_heap m ! old) = token"
    and "AddClient now a cid token tn h m = Added ref m'"
  shows "set (GetConnectedClients key m') =
    {c. \<exists>r. aget (mg_clients m') c = Some r \<and> cl_apiKey (mg_heap m' ! r) = key \<and> IsAlive (mg_heap m' ! r)}"
proof -
  have ex: "groups_exact m'" using groups_exact_AddClient [OF assms] .
  have ok: "registry_ok m'"
    using mg_inv_AddClient [OF assms(1), of now a cid token tn h] assms(4) by (simp add: mg_inv_def)
  have "c \<in> set (GetConnectedClients key m') \<longleftrightarrow>
      (\<exists>r. aget (mg_clients m') c = Some r \<and> cl_apiKey (mg_heap m' ! r) = key \<and> IsAlive (mg_heap m' ! r))" for c
  proof -
    have "in_groups (mg_tokenGroups m') key c \<longleftrightarrow>
        (\<exists>r. aget (mg_clients m') c = Some r \<and> cl_apiKey (mg_heap m' ! r) = key)"
      using ex registry_okD(3) [OF ok, of c] unfolding groups_exact_def by blast
    then show ?thesis
      by (auto simp: GetConnectedClients_def group_ids_iff live_def split: option.splits)
  qed
  then show ?thesis by blast
qed

text \<open>When a module reconnects from the same host under another key, the eviction clears the group of
  the new key instead of the old one: a lookup by the old key then returns the client that now
  belongs to the new key.\<close>

theorem eviction_leaves_stale_member:
  assumes "mg_inv m" and "aget (mg_clients m) cid = Some old"
    and "cl_apiKey (mg_heap m ! old) \<noteq> token"
    and "AddClient now a cid token tn h m = Added ref m'"
  shows "cid \<in> set (GetConnectedClients (cl_apiKey (mg_heap m ! old)) m') \<and>
    aget (mg_clients m') cid = Some ref \<and> cl_apiKey (mg_heap m' ! ref) = token"
proof -
  let ?c = "NewClient now a cid token tn h"
  have gw: "groups_wf (mg_tokenGroups m)" using assms(1) by (simp add: mg_inv_def registry_ok_def)
  have m': "mg_heap m' = mg_heap m @ [?c]" "aget (mg_clients m') cid = Some ref" "ref = length (mg_heap m)"
      "mg_tokenGroups m' = group_add token cid (group_remove token cid (mg_tokenGroups m))"
    using assms(2,4) by (auto simp: AddClient_def register_def announce_def evict_def emit_def Let_def
        split: if_splits)
  have new: "cl_apiKey ?c = token" "IsAlive ?c"
    by (simp_all add: NewClient_def IsAlive_def Let_def)
  have "in_groups (mg_tokenGroups m) (cl_apiKey (mg_heap m ! old)) cid"
    using registry_okD(3) assms(1,2) by (auto simp: mg_inv_def)
  then have "in_groups (mg_tokenGroups m') (cl_apiKey (mg_heap m ! old)) cid"
    using assms(3) by (simp add: m'(4) in_groups_add in_groups_remove [OF gw])
  then show ?thesis
    using m'(1-3) new by (simp add: GetConnectedClients_def group_ids_iff live_def)
qed

subsection \<open>Revocation across instances\<close>

definition none_live :: "int \<Rightarrow> 'h manager \<Rightarrow> bool" where
  "none_live t m \<longleftrightarrow>
     list_all (\<lambda>(cid, ref). cl_connectionTokenID (mg_heap m ! ref) = t \<longrightarrow> \<not> IsAlive (mg_heap m ! ref))
       (mg_clients m)"

lemma disconnectLocalByToken_spec:
  assumes inv: "mg_inv m" and "t \<noteq> 0"
  shows "\<exists>n m'. disconnectLocalByToken t code r m = Ret (n, m') \<and> none_live t m' \<and> mg_inv m' \<and>
    mg_out m' = mg_out m \<and> mg_redisUp m' = mg_redisUp m \<and> mg_instanceID m' = mg_instanceID m"
proof -
  let ?refs = "filter (\<lambda>ref. cl_connectionTokenID (mg_heap m ! ref) = t) (map snd (mg_clients m))"
  have all: "\<forall>ref \<in> set (map snd (mg_clients m)). ref < length (mg_heap m)"
    using inv by (rule registered_refs)
  then have valid: "\<forall>ref \<in> set ?refs. ref < length (mg_heap m)" by auto
  then obtain m' where m': "closeClients ?refs code r m = Ret (length ?refs, m')"
      and eff: "closed_effect ?refs m m'"
    using closeClients_spec [OF inv valid, of code r] by blast
  have same: "mg_clients m' = mg_clients m" using eff by (simp add: closed_effect_def)
  have heap: "cl_connectionTokenID (mg_heap m' ! ref) = cl_connectionTokenID (mg_heap m ! ref) \<and>
       (if ref \<in> set ?refs then \<not> IsAlive (mg_heap m' ! ref) else mg_heap m' ! ref = mg_heap m ! ref)"
    if "ref < length (mg_heap m)" for ref
    using eff that unfolding closed_effect_def by blast
  have "none_live t m'"
    unfolding none_live_def same list_all_iff
  proof (intro ballI, clarify)
    fix cid ref assume reg: "(cid, ref) \<in> set (mg_clients m)"
      and t: "t = cl_connectionTokenID (mg_heap m' ! ref)" and alive: "IsAlive (mg_heap m' ! ref)"
    have lt: "ref < length (mg_heap m)" using all reg by force
    have "ref \<in> set (map snd (mg_clients m))" using reg by force
    moreover have "cl_connectionTokenID (mg_heap m ! ref) = t" using heap [OF lt] t by simp
    ultimately have "ref \<in> set ?refs" by simp
    then show False using heap [OF lt] alive by simp
  qed
  then show ?thesis using m' eff assms(2) by (simp add: disconnectLocalByToken_def closed_effect_def Let_def)
qed

text \<open>C4: Revoking a connection token on one instance leaves no live client of that token there, and the
  one command it publishes leaves none on any other instance that handles it: revocation is
  complete across the cluster and never panics.\<close>

theorem revocation_reaches_every_instance:
  assumes "mg_inv m" and "t \<noteq> 0" and "mg_redisUp m"
    and "mg_inv other" and "mg_instanceID other \<noteq> mg_instanceID m"
  shows "\<exists>n m' cmd other'.
    BroadcastDisconnectByConnectionToken t r m = Ret (n, m') \<and> none_live t m' \<and>
    mg_out m' = mg_out m @ [RPublish cmd] \<and>
    handleDisconnectCommand (Some cmd) other = Ret other' \<and> none_live t other' \<and>
    handleDisconnectCommand (Some cmd) m' = Ret m'"
proof -
  obtain n m1 where m1: "disconnectLocalByToken t 4002 r m = Ret (n, m1)" "none_live t m1"
      "mg_out m1 = mg_out m" "mg_redisUp m1" "mg_instanceID m1 = mg_instanceID m"
    using disconnectLocalByToken_spec [OF assms(1,2), of 4002 r] assms(3) by auto
  let ?cmd = "(disconnect_cmd ''token'' r)\<lparr>dc_ConnectionTokenID := t, dc_Origin := mg_instanceID m\<rparr>"
  let ?reason = "if r = [] then ''Revoked by dashboard'' else r"
  obtain k o1 where o1: "disconnectLocalByToken t 4002 ?reason other = Ret (k, o1)" "none_live t o1"
    using disconnectLocalByToken_spec [OF assms(4,2), of 4002 ?reason] by blast
  have "BroadcastDisconnectByConnectionToken t r m = Ret (n, emit [RPublish ?cmd] m1)"
    using m1 by (simp add: BroadcastDisconnectByConnectionToken_def go_map_def publish_def)
  moreover have "none_live t (emit [RPublish ?cmd] m1)" using m1(2) by (simp add: none_live_def)
  moreover have "handleDisconnectCommand (Some ?cmd) other = Ret o1"
    using o1(1) assms(5)
    by (cases "r = []") (simp_all add: handleDisconnectCommand_def disconnect_cmd_def go_map_def)
  moreover have "handleDisconnectCommand (Some ?cmd) (emit [RPublish ?cmd] m1) = Ret (emit [RPublish ?cmd] m1)"
    using m1(5) by (simp add: handleDisconnectCommand_def)
  moreover have "mg_out (emit [RPublish ?cmd] m1) = mg_out m @ [RPublish ?cmd]" using m1(3) by simp
  ultimately show ?thesis using o1(2) by blast
qed

text \<open>When Redis cannot answer how many clients remain, removing one client deletes the routing keys of
  its whole API key, whatever other clients of that key are still connected.\<close>

theorem removal_deletes_routing_on_redis_error:
  assumes "aget (mg_clients m) cid = Some ref" and "mg_redisUp m"
    and "scard (apikey_key (cl_apiKey (mg_heap m ! ref)) ''clients'') = None"
  shows "RDel (apikey_key (cl_apiKey (mg_heap m ! ref)) ''instance'') \<in> set (mg_out (RemoveClient scard cid m))"
  using assms by (simp add: RemoveClient_def unregister_def removal_events_def Let_def)

subsection \<open>Concrete registries\<close>

definition ex_manager :: "bool \<Rightarrow> string \<Rightarrow> unit manager" where
  "ex_manager redisUp inst = (NewClientManager redisUp inst)\<lparr>
     mg_heap := [ex_client\<lparr>cl_connectionTokenID := 7\<rparr>], mg_clients := [(''fvtt_1'', 0)],
     mg_tokenGroups := [(''key'', [(''fvtt_1'', True)])], mg_gauge := 1\<rparr>"

lemmas ex_manager_defs = ex_manager_def NewClientManager_def ex_client_def NewClient_def ex_hello_def Let_def

lemma ex_manager_inv: "mg_inv (ex_manager up inst)"
  by (simp add: mg_inv_def registry_ok_def groups_wf_def in_groups_def client_wf_def sendCap_def
      wf_map_def ex_manager_defs)

lemma ex_manager_exact: "groups_exact (ex_manager up inst)"
  by (auto simp: groups_exact_def in_groups_def ex_manager_defs split: if_splits)

lemma ex_host: "host_of ''10.0.0.1:4000'' = ''10.0.0.1''" "host_of ''10.0.0.1:4001'' = ''10.0.0.1''"
  by code_simp+

definition ex_readded :: "string \<Rightarrow> unit manager" where
  "ex_readded token = (case AddClient 5 (Some ''10.0.0.1:4001'') ''fvtt_1'' token [] ex_hello (ex_manager False ''i1'')
     of Added ref m \<Rightarrow> m | Rejected e m \<Rightarrow> m | AddPanic e m \<Rightarrow> m)"

lemma ex_readded_eq:
  "AddClient 5 (Some ''10.0.0.1:4001'') ''fvtt_1'' token [] ex_hello (ex_manager False ''i1'') = Added 1 (ex_readded token)"
  by (simp add: ex_readded_def AddClient_def ex_manager_defs ex_host register_def announce_def evict_def)

lemma registry_consistent_witness: "mg_gauge (NewClientManager True ''i1'' :: unit manager) = 0"
  using registry_consistent [OF mg_reachable.start [of True "''i1''"]] by (simp add: NewClientManager_def)

lemma late_cleanup_harmless_witness:
  "RemoveClientIfMatch (\<lambda>k. None) ''fvtt_1'' 0 (ex_readded ''key'') = ex_readded ''key''"
  using late_cleanup_harmless [OF ex_manager_inv _ ex_readded_eq, of 0 "\<lambda>k. None" "''key''"]
  by (simp add: ex_manager_defs)

lemma lookup_by_key_exact_witness:
  "''fvtt_1'' \<in> set (GetConnectedClients ''key'' (ex_readded ''key''))"
  by (subst lookup_by_key_exact [OF ex_manager_inv ex_manager_exact _ ex_readded_eq])
    (auto simp: ex_readded_def AddClient_def ex_manager_defs ex_host register_def announce_def evict_def IsAlive_def)

lemma eviction_leaves_stale_member_witness:
  "''fvtt_1'' \<in> set (GetConnectedClients ''key'' (ex_readded ''other''))"
  using eviction_leaves_stale_member [OF ex_manager_inv _ _ ex_readded_eq, of 0 "''other''"]
  by (simp add: ex_manager_defs)

lemma revocation_reaches_every_instance_witness:
  "\<exists>n m'. BroadcastDisconnectByConnectionToken 7 ''gone'' (ex_manager True ''i1'') = Ret (n, m') \<and> none_live 7 m'"
  using revocation_reaches_every_instance [OF ex_manager_inv, of 7 True "''i1''" "ex_manager True ''i2''" "''gone''"]
    ex_manager_inv [of True "''i2''"]
  by (auto simp: ex_manager_def NewClientManager_def)

lemma removal_deletes_routing_witness:
  "RDel ''apikey:key:instance'' \<in> set (mg_out (RemoveClient (\<lambda>k. None) ''fvtt_1'' (ex_manager True ''i1'')))"
  using removal_deletes_routing_on_redis_error [of "ex_manager True ''i1''" "''fvtt_1''" 0 "\<lambda>k. None"]
  by (simp add: ex_manager_defs apikey_key_def)

end
