(* ===== verification/Pairing.thy ===== *)
theory Pairing
  imports Auth NetAddr ManagerInv
begin

text \<open>
  How a world is paired with an account: the device flow of \<open>internal/handler/pair_request.go\<close>, and
  the pairing codes and connection tokens of \<open>internal/handler/connection_tokens.go\<close>.

  A handler is a function from the decoded body, the path parameters and the database to the answer
  and the database.  A body comes as a pair: whether \<open>json.Decode\<close> succeeded, and what it left in the
  struct.  Random codes and tokens are arguments, \<open>None\<close> when the generator fails.  Times are shown
  as numbers in an answer; a nil slice and an empty one are not told apart.
\<close>

type_synonym answer = "int \<times> obj"

definition WriteError :: "int \<Rightarrow> string \<Rightarrow> answer" where
  "WriteError status msg = (status, [(''error'', JStr msg)])"

definition jstrs :: "string list \<Rightarrow> json" where
  "jstrs ss = JArr (map JStr ss)"

subsection \<open>Pair requests\<close>

record pair_body =
  pb_clientId :: string
  pb_worldId :: string
  pb_worldTitle :: string
  pb_systemId :: string
  pb_systemTitle :: string
  pb_systemVersion :: string
  pb_foundryVersion :: string
  pb_requestedRemoteScopes :: "string list"
  pb_requestedTargetClients :: "string list"
  pb_upgradeOnly :: bool

definition some_csv :: "string list \<Rightarrow> string option" where
  "some_csv ss = (if length ss > 0 then Some (ScopesString ss) else None)"

definition pair_request_create ::
    "gotime \<Rightarrow> string option \<Rightarrow> string \<Rightarrow> bool \<times> pair_body \<Rightarrow> db \<Rightarrow> answer \<times> db" where
  "pair_request_create now random frontendURL body d =
     (let (decoded, b) = body; invalid = ValidateScopes (pb_requestedRemoteScopes b)
      in if \<not> decoded then (WriteError 400 ''Invalid request body'', d)
         else if pb_worldId b = [] then (WriteError 400 ''worldId is required'', d)
         else if invalid \<noteq> [] then (WriteError 400 (''Invalid scope: '' @ invalid), d)
         else case random of
           None \<Rightarrow> (WriteError 500 ''Failed to generate code'', d)
         | Some code \<Rightarrow>
             (let expiresAt = now + minutes 10;
                  req = \<lparr>pq_ID = 0, pq_Code = code, pq_ClientID = pb_clientId b, pq_WorldID = pb_worldId b,
                    pq_WorldTitle = pb_worldTitle b, pq_SystemID = pb_systemId b, pq_SystemTitle = pb_systemTitle b,
                    pq_SystemVersion = pb_systemVersion b, pq_FoundryVersion = pb_foundryVersion b,
                    pq_RequestedRemoteScopes = some_csv (pb_requestedRemoteScopes b),
                    pq_RequestedTargetClients = some_csv (filter (\<lambda>t. t \<noteq> ''*'') (pb_requestedTargetClients b)),
                    pq_UpgradeOnly = pb_upgradeOnly b, pq_Status = ''pending'', pq_PairingCode = None, pq_UserID = None,
                    pq_ExpiresAt = expiresAt, pq_CreatedAt = 0\<rparr>
              in case pq_Create now req d of
                   (DBErr, d') \<Rightarrow> (WriteError 500 ''Failed to create pair request'', d')
                 | (DBOk _, d') \<Rightarrow>
                     ((201, [(''code'', JStr code), (''pairUrl'', JStr (frontendURL @ ''/pair/'' @ code)),
                             (''upgradeOnly'', JBool (pb_upgradeOnly b)), (''expiresIn'', JNum 600),
                             (''expiresAt'', JNum expiresAt)]), d')))"

definition pair_request_status :: "gotime \<Rightarrow> string \<Rightarrow> db \<Rightarrow> answer \<times> db" where
  "pair_request_status now code d =
     (case pq_FindByCode code d of
        DBErr \<Rightarrow> (WriteError 404 ''Pair request not found'', d)
      | DBOk None \<Rightarrow> (WriteError 404 ''Pair request not found'', d)
      | DBOk (Some req) \<Rightarrow>
          (let status = pq_Status req
           in if pq_ExpiresAt req < now \<and> status = ''pending'' then ((410, [(''status'', JStr ''expired'')]), d)
              else if status = ''pending'' then ((200, [(''status'', JStr ''pending'')]), d)
              else if status = ''approved''
              then (let d' = snd (pq_SetStatus (pq_ID req) ''exchanged'' d)
                    in if pq_UpgradeOnly req \<or> pq_PairingCode req = None
                       then ((200, [(''status'', JStr ''approved''), (''upgraded'', JBool (pq_UpgradeOnly req))]), d')
                       else ((200, [(''status'', JStr ''approved''), (''pairingCode'', JStr (null_str (pq_PairingCode req)))]), d'))
              else if status = ''exchanged''
              then ((200, [(''status'', JStr ''exchanged''), (''message'', JStr ''Pairing code has already been retrieved'')]), d)
              else if status = ''denied'' then ((200, [(''status'', JStr ''denied'')]), d)
              else if status = ''expired'' then ((410, [(''status'', JStr ''expired'')]), d)
              else ((200, [(''status'', JStr status)]), d)))"

text \<open>The settings the approval page starts from: the world with the same \<open>clientId\<close>, or else the first with the same \<open>worldId\<close>.\<close>

record prefill =
  pf_targets :: "string list"
  pf_scopes :: "string list"
  pf_perHour :: int
  pf_resolved :: string
  pf_byClient :: bool
  pf_byWorld :: bool

definition prefill_from :: "KnownClient \<Rightarrow> prefill \<Rightarrow> prefill" where
  "prefill_from c p =
     p\<lparr>pf_targets := kc_GetAllowedTargets c, pf_scopes := kc_GetRemoteScopes c,
       pf_perHour := kc_RemoteRequestsPerHour c, pf_resolved := kc_ClientID c\<rparr>"

fun prefill_loop :: "PairRequest \<Rightarrow> KnownClient list \<Rightarrow> prefill \<Rightarrow> prefill" where
  "prefill_loop req [] p = p"
| "prefill_loop req (c # cs) p =
     prefill_loop req cs
       (if pq_ClientID req \<noteq> [] \<and> kc_ClientID c = pq_ClientID req then (prefill_from c p)\<lparr>pf_byClient := True\<rparr>
        else if \<not> pf_byClient p \<and> \<not> pf_byWorld p \<and> null_str (kc_WorldID c) = pq_WorldID req
        then (prefill_from c p)\<lparr>pf_byWorld := True\<rparr>
        else p)"

definition known_view :: "(string \<Rightarrow> bool) \<Rightarrow> KnownClient \<Rightarrow> json" where
  "known_view online c =
     JObj [(''id'', JNum (kc_ID c)), (''clientId'', JStr (kc_ClientID c)), (''worldId'', JStr (null_str (kc_WorldID c))),
           (''worldTitle'', JStr (null_str (kc_WorldTitle c))), (''customName'', JStr (null_str (kc_CustomName c))),
           (''isOnline'', JBool (online (kc_ClientID c)))]"

definition pair_request_details :: "(string \<Rightarrow> bool) \<Rightarrow> User option \<Rightarrow> string \<Rightarrow> db \<Rightarrow> answer" where
  "pair_request_details online user code d =
     (case pq_FindByCode code d of
        DBErr \<Rightarrow> WriteError 404 ''Pair request not found''
      | DBOk None \<Rightarrow> WriteError 404 ''Pair request not found''
      | DBOk (Some req) \<Rightarrow>
          (let clients = (case user of None \<Rightarrow> []
                          | Some u \<Rightarrow> (case kc_FindAllByUser (us_ID u) d of DBErr \<Rightarrow> [] | DBOk cs \<Rightarrow> cs));
               p = prefill_loop req clients \<lparr>pf_targets = [], pf_scopes = [], pf_perHour = 0, pf_resolved = [],
                     pf_byClient = False, pf_byWorld = False\<rparr>;
               resolved = (if pf_resolved p = [] then pq_ClientID req else pf_resolved p);
               targets = (if resolved \<noteq> [] then filter (\<lambda>t. t \<noteq> resolved) (pf_targets p) else pf_targets p)
           in (200, [(''code'', JStr (pq_Code req)), (''clientId'', JStr resolved), (''worldId'', JStr (pq_WorldID req)),
                (''worldTitle'', JStr (pq_WorldTitle req)), (''systemId'', JStr (pq_SystemID req)),
                (''systemTitle'', JStr (pq_SystemTitle req)), (''systemVersion'', JStr (pq_SystemVersion req)),
                (''foundryVersion'', JStr (pq_FoundryVersion req)),
                (''requestedRemoteScopes'', jstrs (ParseScopes (null_str (pq_RequestedRemoteScopes req)))),
                (''requestedTargetClients'', jstrs (ParseScopes (null_str (pq_RequestedTargetClients req)))),
                (''currentAllowedTargetClients'', jstrs targets), (''currentRemoteScopes'', jstrs (pf_scopes p)),
                (''currentRemoteRequestsPerHour'', JNum (pf_perHour p)), (''upgradeOnly'', JBool (pq_UpgradeOnly req)),
                (''status'', JStr (pq_Status req)), (''expiresAt'', JNum (pq_ExpiresAt req)),
                (''knownClients'', JArr (map (known_view online) clients))])))"

record approve_body =
  ab_remoteScopes :: "string list"
  ab_allowedTargetClients :: "string list"
  ab_remoteRequestsPerHour :: int

text \<open>The stored world a request is about: by \<open>clientId\<close>, then by \<open>worldId\<close>; a failed lookup counts as none.\<close>

definition existing_world :: "int \<Rightarrow> PairRequest \<Rightarrow> db \<Rightarrow> KnownClient option" where
  "existing_world uid req d =
     (let byClient = (if pq_ClientID req = [] then None
                      else (case kc_FindByClientID uid (pq_ClientID req) d of DBOk r \<Rightarrow> r | DBErr \<Rightarrow> None))
      in case byClient of
           Some c \<Rightarrow> Some c
         | None \<Rightarrow> (case kc_FindByWorldID uid (pq_WorldID req) d of DBOk r \<Rightarrow> r | DBErr \<Rightarrow> None))"

definition nonempty_str :: "string \<Rightarrow> string option" where
  "nonempty_str s = (if s \<noteq> [] then Some s else None)"

definition approved_targets :: "PairRequest \<Rightarrow> KnownClient option \<Rightarrow> string list \<Rightarrow> string list" where
  "approved_targets req existing targets =
     filter (\<lambda>t. \<not> (pq_ClientID req \<noteq> [] \<and> t = pq_ClientID req) \<and>
                 (case existing of None \<Rightarrow> True | Some c \<Rightarrow> t \<noteq> kc_ClientID c)) targets"

text \<open>The body of an approval is optional: a decoding error is ignored.\<close>

definition pair_request_approve ::
    "gotime \<Rightarrow> string option \<Rightarrow> User option \<Rightarrow> string \<Rightarrow> approve_body \<Rightarrow> db \<Rightarrow> answer \<times> db" where
  "pair_request_approve now random usr code b d =
     (case usr of None \<Rightarrow> (WriteError 401 ''Invalid user'', d)
      | Some user \<Rightarrow>
     (case pq_FindByCode code d of
        DBErr \<Rightarrow> (WriteError 404 ''Pair request not found'', d)
      | DBOk None \<Rightarrow> (WriteError 404 ''Pair request not found'', d)
      | DBOk (Some req) \<Rightarrow>
          if pq_Status req \<noteq> ''pending'' then (WriteError 400 ''Pair request is not pending'', d)
          else if pq_ExpiresAt req < now then (WriteError 410 ''Pair request has expired'', d)
          else
            (let existing = existing_world (us_ID user) req d;
                 scopes = ScopesString (ab_remoteScopes b);
                 targets = ScopesString (approved_targets req existing (ab_allowedTargetClients b));
                 perHour = ab_remoteRequestsPerHour b
             in if pq_UpgradeOnly req
                then (case existing of
                        None \<Rightarrow> (WriteError 400 ''World is not yet paired - cannot upgrade. Pair first.'', d)
                      | Some c \<Rightarrow>
                          (case kc_SetCrossWorldSettings now (kc_ID c) (nonempty_str targets) (nonempty_str scopes) perHour d of
                             (DBErr, d1) \<Rightarrow> (WriteError 500 ''Failed to apply settings'', d1)
                           | (DBOk _, d1) \<Rightarrow>
                               ((200, [(''success'', JBool True), (''upgraded'', JBool True)]),
                                snd (pq_SetApproved (pq_ID req) [] (us_ID user) d1))))
                else (case random of
                        None \<Rightarrow> (WriteError 500 ''Failed to generate pairing code'', d)
                      | Some pCode \<Rightarrow>
                          (let pc = \<lparr>pc_ID = 0, pc_UserID = us_ID user, pc_Code = pCode, pc_ClientID = None,
                                 pc_AllowedTargetClients = nonempty_str targets, pc_RemoteScopes = nonempty_str scopes,
                                 pc_RemoteRequestsPerHour = perHour, pc_ExpiresAt = now + minutes 5, pc_Used = False, pc_CreatedAt = 0\<rparr>
                           in case pc_Create now pc d of
                                (DBErr, d1) \<Rightarrow> (WriteError 500 ''Failed to create pairing code'', d1)
                              | (DBOk _, d1) \<Rightarrow>
                                  (let d2 = (case existing of
                                               Some c \<Rightarrow>
                                                 if scopes \<noteq> [] \<or> targets \<noteq> []
                                                 then snd (kc_SetCrossWorldSettings now (kc_ID c) (nonempty_str targets)
                                                             (nonempty_str scopes) perHour d1)
                                                 else d1
                                             | None \<Rightarrow> d1)
                                   in case pq_SetApproved (pq_ID req) pCode (us_ID user) d2 of
                                        (DBErr, d3) \<Rightarrow> (WriteError 500 ''Failed to approve pair request'', d3)
                                      | (DBOk _, d3) \<Rightarrow> ((200, [(''success'', JBool True)]), d3)))))))"

definition pair_request_deny :: "string \<Rightarrow> db \<Rightarrow> answer \<times> db" where
  "pair_request_deny code d =
     (case pq_FindByCode code d of
        DBErr \<Rightarrow> (WriteError 404 ''Pair request not found'', d)
      | DBOk None \<Rightarrow> (WriteError 404 ''Pair request not found'', d)
      | DBOk (Some req) \<Rightarrow>
          if pq_Status req \<noteq> ''pending'' then (WriteError 400 ''Pair request is not pending'', d)
          else ((200, [(''success'', JBool True), (''message'', JStr ''Pair request denied'')]),
                snd (pq_SetStatus (pq_ID req) ''denied'' d)))"

subsection \<open>Pairing codes\<close>

definition pairing_code_create ::
    "gotime \<Rightarrow> string option \<Rightarrow> User option \<Rightarrow> string \<Rightarrow> db \<Rightarrow> answer \<times> db" where
  "pairing_code_create now random usr clientId d =
     (case usr of None \<Rightarrow> (WriteError 401 ''Invalid user'', d)
      | Some user \<Rightarrow>
          (case (if clientId = [] then Inr None
                 else (case kc_FindByClientID (us_ID user) clientId d of
                         DBErr \<Rightarrow> Inl (WriteError 500 ''Failed to validate clientId'')
                       | DBOk None \<Rightarrow> Inl (WriteError 404 ''clientId not found in your known clients'')
                       | DBOk (Some kc) \<Rightarrow> Inr (Some clientId))) of
             Inl a \<Rightarrow> (a, d)
           | Inr bound \<Rightarrow>
               (case random of None \<Rightarrow> (WriteError 500 ''Failed to generate pairing code'', d)
                | Some code \<Rightarrow>
                    (case pc_Create now \<lparr>pc_ID = 0, pc_UserID = us_ID user, pc_Code = code, pc_ClientID = bound,
                            pc_AllowedTargetClients = None, pc_RemoteScopes = None, pc_RemoteRequestsPerHour = 0,
                            pc_ExpiresAt = now + minutes 10, pc_Used = False, pc_CreatedAt = 0\<rparr> d of
                       (DBErr, d') \<Rightarrow> (WriteError 500 ''Failed to create pairing code'', d')
                     | (DBOk _, d') \<Rightarrow>
                         ((201, [(''code'', JStr code), (''expiresAt'', JNum (now + minutes 10)), (''expiresIn'', JNum 600)]), d')))))"

text \<open>The random text is drawn from 32 characters; \<open>draw\<close> gives the indices, \<open>None\<close> on a failure of the source.\<close>

definition code_chars :: string where
  "code_chars = ''ABCDEFGHJKLMNPQRSTUVWXYZ23456789''"

fun generatePairingCode :: "nat \<Rightarrow> nat option list \<Rightarrow> string option" where
  "generatePairingCode 0 draw = Some []"
| "generatePairingCode (Suc n) draw =
     (case draw of
        Some i # rest \<Rightarrow>
          (case generatePairingCode n rest of
             None \<Rightarrow> None | Some cs \<Rightarrow> Some (code_chars ! (i mod length code_chars) # cs))
      | _ \<Rightarrow> None)"

definition originConsistent :: "KnownClient \<Rightarrow> string \<Rightarrow> bool" where
  "originConsistent candidate serverOrigin =
     (if serverOrigin = [] then True
      else (case kc_PublicUrl candidate of
              None \<Rightarrow> True
            | Some url \<Rightarrow> if trim_space url = [] then True else trim_space url = serverOrigin))"

text \<open>\<open>dated\<close> is the fallback name with the current time.\<close>

definition parseUAName :: "string \<Rightarrow> string \<Rightarrow> string" where
  "parseUAName ua dated =
     (let lower = to_lower ua;
          has = (\<lambda>s. go_contains lower s);
          browser = (if has ''edg/'' \<or> has ''edge/'' then ''Edge''
                     else if has ''opr/'' \<or> has ''opera'' then ''Opera''
                     else if has ''firefox'' then ''Firefox''
                     else if has ''chrome'' then ''Chrome''
                     else if has ''safari'' then ''Safari'' else []);
          os = (if has ''windows'' then ''Windows''
                else if has ''android'' then ''Android''
                else if has ''iphone'' \<or> has ''ipad'' then ''iOS''
                else if has ''mac os x'' \<or> has ''macos'' then ''macOS''
                else if has ''linux'' then ''Linux'' else [])
      in if browser \<noteq> [] \<and> os \<noteq> [] then browser @ '' on '' @ os
         else if browser \<noteq> [] then browser
         else if os \<noteq> [] then ''Browser on '' @ os
         else dated)"

definition buildRelayWSURL :: "string \<Rightarrow> bool \<Rightarrow> string \<Rightarrow> string" where
  "buildRelayWSURL reqHost tls forwardedProto =
     (let host = (if reqHost = [] then ''localhost:3010'' else reqHost);
          scheme = (if forwardedProto = ''https'' then ''wss'' else if tls then ''wss'' else ''ws'')
      in scheme @ ''://'' @ host @ ''/relay'')"

record exchange_body =
  eb_code :: string
  eb_worldId :: string
  eb_worldTitle :: string
  eb_serverFingerprint :: string
  eb_existingClientId :: string
  eb_serverOrigin :: string

record exchange_req =
  eq_userAgentName :: string  \<comment> \<open>\<open>parseUAName\<close> of the header\<close>
  eq_relayURL :: string
  eq_token :: "string option"  \<comment> \<open>32 random bytes in hexadecimal\<close>
  eq_freshID :: string  \<comment> \<open>\<open>randomClientID()\<close>\<close>

definition isAddBrowser :: "PairingCode \<Rightarrow> bool" where
  "isAddBrowser pc \<longleftrightarrow> null_str (pc_ClientID pc) \<noteq> []"

text \<open>What precedes the claim of the code.\<close>

definition exchange_check :: "gotime \<Rightarrow> bool \<times> exchange_body \<Rightarrow> db \<Rightarrow> answer + PairingCode" where
  "exchange_check now body d =
     (let (decoded, b) = body
      in if \<not> decoded \<or> eb_code b = [] then Inl (WriteError 400 ''Code is required'')
         else case pc_FindByCode now (eb_code b) d of
                DBErr \<Rightarrow> Inl (WriteError 404 ''Invalid pairing code'')
              | DBOk None \<Rightarrow> Inl (WriteError 404 ''Invalid pairing code'')
              | DBOk (Some pc) \<Rightarrow>
                  if pc_Used pc then Inl (WriteError 410 ''Pairing code has already been used'')
                  else if pc_ExpiresAt pc < now then Inl (WriteError 410 ''Pairing code has expired'')
                  else if \<not> isAddBrowser pc \<and> eb_worldId b = [] then Inl (WriteError 400 ''worldId is required'')
                  else Inr pc)"

text \<open>The choice of the client identifier; an error of a lookup counts as no candidate, except that after a failed
lookup by world and origin the lookup by world alone is not tried.\<close>

definition candidate :: "KnownClient option db_result \<Rightarrow> string \<Rightarrow> string" where
  "candidate r origin =
     (case r of
        DBOk (Some c) \<Rightarrow> if originConsistent c origin then kc_ClientID c else []
      | _ \<Rightarrow> [])"

definition by_world :: "PairingCode \<Rightarrow> exchange_body \<Rightarrow> db \<Rightarrow> string" where
  "by_world pc b d =
     (let exact = (if eb_serverOrigin b = [] then DBOk None
                   else kc_FindByWorldIDAndPublicUrl (pc_UserID pc) (eb_worldId b) (eb_serverOrigin b) d)
      in case exact of
           DBErr \<Rightarrow> []
         | DBOk (Some c) \<Rightarrow> kc_ClientID c
         | DBOk None \<Rightarrow> candidate (kc_FindByWorldID (pc_UserID pc) (eb_worldId b) d) (eb_serverOrigin b))"

definition choose_clientID :: "PairingCode \<Rightarrow> exchange_body \<Rightarrow> string \<Rightarrow> db \<Rightarrow> string" where
  "choose_clientID pc b fresh d =
     (let c0 = (if isAddBrowser pc then null_str (pc_ClientID pc)
                else if eb_existingClientId b \<noteq> []
                then candidate (kc_FindByClientID (pc_UserID pc) (eb_existingClientId b) d) (eb_serverOrigin b)
                else []);
          c1 = (if c0 = [] \<and> eb_serverFingerprint b \<noteq> []
                then candidate (kc_FindByServerFingerprint (pc_UserID pc) (eb_serverFingerprint b) d) (eb_serverOrigin b)
                else c0);
          c2 = (if c1 = [] \<and> eb_worldId b \<noteq> [] then by_world pc b d else c1)
      in if c2 = [] then fresh else c2)"

definition world_entry :: "PairingCode \<Rightarrow> exchange_body \<Rightarrow> string \<Rightarrow> KnownClient" where
  "world_entry pc b clientID =
     \<lparr>kc_ID = 0, kc_UserID = pc_UserID pc, kc_ClientID = clientID,
      kc_WorldID = (if isAddBrowser pc then None else Some (eb_worldId b)),
      kc_WorldTitle = (if isAddBrowser pc then None else nonempty_str (eb_worldTitle b)),
      kc_SystemID = None, kc_SystemTitle = None, kc_SystemVersion = None, kc_FoundryVersion = None, kc_CustomName = None,
      kc_LastSeenAt = None, kc_IsOnline = False, kc_AutoStartOnRemoteRequest = False, kc_CredentialID = None,
      kc_ServerFingerprint = nonempty_str (eb_serverFingerprint b), kc_PublicUrl = nonempty_str (eb_serverOrigin b),
      kc_AllowedTargetClients = None, kc_RemoteScopes = None, kc_RemoteRequestsPerHour = 0, kc_CreatedAt = 0, kc_UpdatedAt = 0\<rparr>"

text \<open>From the claim of the code to the answer.\<close>

definition exchange_commit ::
    "(string \<Rightarrow> string) \<Rightarrow> gotime \<Rightarrow> exchange_req \<Rightarrow> exchange_body \<Rightarrow> PairingCode \<Rightarrow> db \<Rightarrow> answer \<times> db" where
  "exchange_commit sha now q b pc d =
     (case pc_MarkUsed (pc_ID pc) d of
        (DBErr, d1) \<Rightarrow> (WriteError 409 ''Pairing code could not be claimed. It may have been used by another request.'', d1)
      | (DBOk _, d1) \<Rightarrow>
          (case eq_token q of
             None \<Rightarrow> (WriteError 500 ''Failed to generate token'', d1)
           | Some rawToken \<Rightarrow>
               (let clientID = choose_clientID pc b (eq_freshID q) d1
                in case tk_Create now \<lparr>ct_ID = 0, ct_UserID = pc_UserID pc, ct_TokenHash = sha rawToken, ct_Name = eq_userAgentName q,
                          ct_AllowedIPs = None, ct_AllowedTargetClients = None, ct_RemoteScopes = None,
                          ct_RemoteRequestsPerHour = 0, ct_ClientID = clientID, ct_Source = ''dashboard'',
                          ct_LastUsedAt = None, ct_CreatedAt = 0, ct_UpdatedAt = 0\<rparr> d1 of
                     (DBErr, tok, d2) \<Rightarrow> (WriteError 500 ''Failed to create connection token'', d2)
                   | (DBOk _, tok, d2) \<Rightarrow>
                       (let d3 = snd (kc_Upsert now (world_entry pc b clientID) d2);
                            d4 = (if pc_AllowedTargetClients pc \<noteq> None \<or> pc_RemoteScopes pc \<noteq> None
                                  then (case kc_FindByClientID (pc_UserID pc) clientID d3 of
                                          DBOk (Some kc) \<Rightarrow>
                                            snd (kc_SetCrossWorldSettings now (kc_ID kc) (pc_AllowedTargetClients pc)
                                                   (pc_RemoteScopes pc) (pc_RemoteRequestsPerHour pc) d3)
                                        | _ \<Rightarrow> d3)
                                  else d3)
                        in ((200, [(''token'', JStr rawToken), (''clientId'', JStr clientID), (''relayUrl'', JStr (eq_relayURL q))]), d4)))))"

definition pair_exchange ::
    "(string \<Rightarrow> string) \<Rightarrow> gotime \<Rightarrow> exchange_req \<Rightarrow> bool \<times> exchange_body \<Rightarrow> db \<Rightarrow> answer \<times> db" where
  "pair_exchange sha now q body d =
     (case exchange_check now body d of
        Inl a \<Rightarrow> (a, d)
      | Inr pc \<Rightarrow> exchange_commit sha now q (snd body) pc d)"

subsection \<open>Connection tokens\<close>

definition query_limit :: "string \<Rightarrow> nat" where
  "query_limit s = (case ParseInt64 s of Some l \<Rightarrow> if l > 0 then (if l > 200 then 200 else nat l) else 50 | None \<Rightarrow> 50)"

definition query_offset :: "string \<Rightarrow> nat" where
  "query_offset s = (case ParseInt64 s of Some k \<Rightarrow> if k > 0 then nat k else 0 | None \<Rightarrow> 0)"

definition token_row :: "ConnectionToken \<Rightarrow> json" where
  "token_row t =
     JObj [(''id'', JNum (ct_ID t)), (''name'', JStr (ct_Name t)), (''clientId'', JStr (ct_ClientID t)),
           (''source'', JStr (ct_Source t)), (''allowedIps'', JStr (null_str (ct_AllowedIPs t))),
           (''allowedTargetClients'', jstrs (ct_GetAllowedTargets t)), (''remoteScopes'', jstrs (ct_GetRemoteScopes t)),
           (''remoteRequestsPerHour'', JNum (ct_RemoteRequestsPerHour t)),
           (''lastUsedAt'', (case ct_LastUsedAt t of None \<Rightarrow> JNull | Some n \<Rightarrow> JNum n)), (''createdAt'', JNum (ct_CreatedAt t))]"

definition token_list :: "User option \<Rightarrow> string \<Rightarrow> string \<Rightarrow> db \<Rightarrow> answer" where
  "token_list usr limit offset d =
     (case usr of None \<Rightarrow> WriteError 401 ''Invalid user''
      | Some user \<Rightarrow>
          (case tk_FindAllByUser (us_ID user) d of
             DBErr \<Rightarrow> WriteError 500 ''Failed to list connection tokens''
           | DBOk tokens \<Rightarrow>
               (200, [(''tokens'', JArr (map token_row (take (query_limit limit) (drop (query_offset offset) tokens)))),
                      (''total'', JNum (int (length tokens)))])))"

fun invalid_entry :: "string list \<Rightarrow> string option" where
  "invalid_entry [] = None"
| "invalid_entry (e # es) =
     (let entry = trim_space e
      in if entry = [] then invalid_entry es
         else if ParseIP entry \<noteq> None then invalid_entry es
         else if ParseCIDR entry \<noteq> None then invalid_entry es
         else Some entry)"

text \<open>\<open>quote\<close> is the verb \<open>%q\<close>.\<close>

definition validateIPAllowlist :: "(string \<Rightarrow> string) \<Rightarrow> string \<Rightarrow> string" where
  "validateIPAllowlist quote raw =
     (if raw = [] then []
      else (case invalid_entry (go_split (CHR '','') raw) of None \<Rightarrow> [] | Some e \<Rightarrow> ''invalid IP or CIDR: '' @ quote e))"

record token_patch_body =
  tb_name :: string
  tb_allowedIps :: "string option"

definition token_patch ::
    "(string \<Rightarrow> string) \<Rightarrow> gotime \<Rightarrow> User option \<Rightarrow> string \<Rightarrow> bool \<times> token_patch_body \<Rightarrow> db \<Rightarrow> answer \<times> db" where
  "token_patch quote now usr idText body d =
     (case usr of None \<Rightarrow> (WriteError 401 ''Invalid user'', d)
      | Some user \<Rightarrow>
     (case ParseInt64 idText of None \<Rightarrow> (WriteError 400 ''Invalid token ID'', d)
      | Some i \<Rightarrow>
     (case tk_FindByID i d of
        DBErr \<Rightarrow> (WriteError 404 ''Token not found'', d)
      | DBOk None \<Rightarrow> (WriteError 404 ''Token not found'', d)
      | DBOk (Some existing) \<Rightarrow>
          if ct_UserID existing \<noteq> us_ID user then (WriteError 404 ''Token not found'', d)
          else
            (let (decoded, b) = body;
                 name = (if tb_name b = [] then ct_Name existing else tb_name b);
                 ips = (case tb_allowedIps b of None \<Rightarrow> Inr (ct_AllowedIPs existing)
                        | Some s \<Rightarrow>
                            (let n = trim_space s; msg = validateIPAllowlist quote n
                             in if msg \<noteq> [] then Inl msg else Inr (nonempty_str n)))
             in if \<not> decoded then (WriteError 400 ''Invalid JSON body'', d)
                else (case ips of
                        Inl msg \<Rightarrow> (WriteError 400 (''Invalid allowedIps: '' @ msg), d)
                      | Inr allowed \<Rightarrow>
                          (case tk_UpdatePermissions now i name allowed (ct_AllowedTargetClients existing)
                                  (ct_RemoteScopes existing) (ct_RemoteRequestsPerHour existing) d of
                             (DBErr, d1) \<Rightarrow> (WriteError 500 ''Failed to update token'', d1)
                           | (DBOk _, d1) \<Rightarrow> ((200, [(''success'', JBool True)]), d1)))))))"

text \<open>The handler does not look at the session's user.\<close>

definition token_revoke :: "string \<Rightarrow> db \<Rightarrow> 'h manager \<Rightarrow> (answer \<times> db \<times> 'h manager) go" where
  "token_revoke idText d m =
     (case ParseInt64 idText of
        None \<Rightarrow> Ret (WriteError 400 ''Invalid token ID'', d, m)
      | Some i \<Rightarrow>
          (case tk_Delete i d of
             (DBErr, d1) \<Rightarrow> Ret (WriteError 500 ''Failed to delete connection token'', d1, m)
           | (DBOk _, d1) \<Rightarrow>
               go_map (\<lambda>(n, m1). ((200, [(''success'', JBool True), (''message'', JStr ''Connection token revoked''),
                                         (''disconnectedClients'', JNum (int n))]), d1, m1))
                 (BroadcastDisconnectByConnectionToken i ''Connection token revoked'' m)))"

definition SelfUnpairHandler :: "(string \<Rightarrow> string) \<Rightarrow> bool \<times> string \<Rightarrow> db \<Rightarrow> 'h manager \<Rightarrow> (answer \<times> db \<times> 'h manager) go" where
  "SelfUnpairHandler sha body d m =
     (let (decoded, token) = body;
          gone = (200, [(''success'', JBool True), (''message'', JStr ''Token not found; nothing to clean up'')])
      in if \<not> decoded \<or> token = [] then Ret (WriteError 400 ''Missing token'', d, m)
         else (case tk_FindByTokenHash (sha token) d of
                 DBErr \<Rightarrow> Ret (gone, d, m)
               | DBOk None \<Rightarrow> Ret (gone, d, m)
               | DBOk (Some ct) \<Rightarrow>
                   go_map (\<lambda>(n, m1). case tk_Delete (ct_ID ct) d of
                       (DBErr, d1) \<Rightarrow> ((200, [(''success'', JBool False), (''message'', JStr ''Failed to delete token'')]), d1, m1)
                     | (DBOk _, d1) \<Rightarrow> ((200, [(''success'', JBool True), (''message'', JStr ''Unpaired successfully'')]), d1, m1))
                     (BroadcastDisconnectByConnectionToken (ct_ID ct) ''Unpaired by owner'' m)))"

definition ClientActiveHandler :: "(string \<Rightarrow> string option) \<Rightarrow> string \<Rightarrow> db \<Rightarrow> 'h manager \<Rightarrow> answer" where
  "ClientActiveHandler rget clientID d m =
     (if clientID = [] then WriteError 400 ''clientId is required''
      else (case kc_FindAnyByClientID clientID d of
              DBErr \<Rightarrow> WriteError 500 ''Lookup failed''
            | DBOk None \<Rightarrow> WriteError 404 ''Unknown clientId''
            | DBOk (Some k) \<Rightarrow>
                (200, [(''active'', JBool (GetClient clientID m \<noteq> None \<or> null_str (GetClientInstanceID rget clientID m) \<noteq> []))])))"

subsection \<open>A pairing code is used once, one exchange after the other\<close>

lemma find_map_same:
  assumes "\<And>r. r \<in> set rows \<Longrightarrow> P (f r) = P r"
  shows "find P (map f rows) = map_option f (find P rows)"
  using assms by (induction rows) auto

lemma find_unique:
  assumes "distinct (map key rows)" and "find P rows = Some r" and "r' \<in> set rows" and "key r' = key r"
  shows "r' = r"
  using assms(2,3,4) inj_onD [OF iffD1 [OF distinct_map, THEN conjunct2, OF assms(1)], of r' r]
  by (auto simp: find_Some_iff)

lemma kc_ops_codes [simp]:
  "db_codes (snd (kc_Upsert now c d)) = db_codes d"
  "db_codes (snd (kc_SetCrossWorldSettings now i ts ss n d)) = db_codes d"
  by (auto simp: kc_Upsert_def kc_SetCrossWorldSettings_def on_known_def exec_def Let_def)

lemma tk_Create_codes: "tk_Create now t d = (res, t', d') \<Longrightarrow> db_codes d' = db_codes d"
  by (auto simp: tk_Create_def Let_def split: if_splits)

lemma exchange_commit_codes:
  assumes "exchange_commit sha now q b pc d = ((200, ans), d')"
  shows "db_codes d' = update_rows (\<lambda>c. pc_ID c = pc_ID pc) (\<lambda>c. c\<lparr>pc_Used := True\<rparr>) (db_codes d)"
  using assms
  by (auto simp: exchange_commit_def pc_MarkUsed_def exec_def WriteError_def Let_def dest!: tk_Create_codes
      split: prod.splits db_result.splits option.splits if_splits)

text \<open>After an exchange of a code has been answered with a token, the next exchange of that code is refused and
leaves the database as it is.\<close>

theorem next_exchange_refused:
  assumes "pair_exchange sha now q (True, b) d = ((200, ans), d')"
    and "distinct (map pc_Code (db_codes d))" and "eb_code b2 = eb_code b"
  shows "\<exists>status msg. pair_exchange sha now2 q2 (True, b2) d' = (WriteError status msg, d') \<and> status \<in> {404, 410}"
proof -
  obtain pc where pc: "exchange_check now (True, b) d = Inr pc"
      and c: "exchange_commit sha now q b pc d = ((200, ans), d')"
    using assms(1) by (auto simp: pair_exchange_def exchange_check_def WriteError_def split: sum.splits if_splits db_result.splits option.splits)
  have f: "find (\<lambda>c. pc_Code c = eb_code b \<and> pc_ExpiresAt c > db_time now) (db_codes d) = Some pc" and ne: "eb_code b \<noteq> []"
    using pc by (auto simp: exchange_check_def pc_FindByCode_def get_row_def split: if_splits option.splits db_result.splits)
  have mem: "pc \<in> set (db_codes d)" "pc_Code pc = eb_code b" using f by (auto simp: find_Some_iff)
  have used: "pc_Used r" if "r \<in> set (db_codes d')" "pc_Code r = eb_code b" for r
  proof -
    from that(1) obtain r0 where r0: "r0 \<in> set (db_codes d)" "r = (if pc_ID r0 = pc_ID pc then r0\<lparr>pc_Used := True\<rparr> else r0)"
      by (auto simp: exchange_commit_codes [OF c] update_rows_def)
    have "pc_Code r0 = pc_Code pc" using that(2) r0(2) mem(2) by (simp split: if_splits)
    then have "r0 = pc" by (rule find_unique [OF assms(2) f r0(1)])
    then show ?thesis using r0(2) by simp
  qed
  show ?thesis
    using used ne assms(3)
    by (auto simp: pair_exchange_def exchange_check_def pc_FindByCode_def get_row_def find_Some_iff
        split: db_result.splits option.splits if_splits)
qed

subsection \<open>Exchanges that interleave\<close>

text \<open>
  The handler reads the code and claims it in two statements, between which other exchanges may run.  A run is
  a sequence of reads and claims of any number of requests: a read that passes the checks of the handler puts
  its request among those \<open>ps_reading\<close>, a claim takes one of these through the rest of the handler.
\<close>

datatype pair_op = ReadCode gotime exchange_req "bool \<times> exchange_body" | ClaimCode gotime nat

record pair_state =
  ps_db :: db
  ps_reading :: "(exchange_req \<times> exchange_body \<times> PairingCode) list"
  ps_served :: "string list"  \<comment> \<open>the codes of the exchanges answered with a token\<close>

fun pair_step :: "(string \<Rightarrow> string) \<Rightarrow> pair_op \<Rightarrow> pair_state \<Rightarrow> pair_state" where
  "pair_step sha (ReadCode now q body) s =
     (case exchange_check now body (ps_db s) of
        Inl _ \<Rightarrow> s
      | Inr pc \<Rightarrow> s\<lparr>ps_reading := ps_reading s @ [(q, snd body, pc)]\<rparr>)"
| "pair_step sha (ClaimCode now i) s =
     (if i < length (ps_reading s)
      then (case ps_reading s ! i of
              (q, b, pc) \<Rightarrow>
                (case exchange_commit sha now q b pc (ps_db s) of
                   ((status, _), d) \<Rightarrow>
                     \<lparr>ps_db = d, ps_reading = take i (ps_reading s) @ drop (Suc i) (ps_reading s),
                       ps_served = (if status = 200 then pc_Code pc # ps_served s else ps_served s)\<rparr>))
      else s)"

definition pair_run :: "(string \<Rightarrow> string) \<Rightarrow> pair_op list \<Rightarrow> pair_state \<Rightarrow> pair_state" where
  "pair_run sha ops s = fold (pair_step sha) ops s"

definition pair_start :: "db \<Rightarrow> pair_state" where
  "pair_start d = \<lparr>ps_db = d, ps_reading = [], ps_served = []\<rparr>"

definition reading_code :: "string \<Rightarrow> pair_state \<Rightarrow> nat" where
  "reading_code code s = length (filter (\<lambda>(q, b, pc). pc_Code pc = code) (ps_reading s))"

lemma exchange_commit_rows:
  assumes "exchange_commit sha now q b pc d = (a, d')"
  shows "db_codes d' = db_codes d \<or>
    db_codes d' = update_rows (\<lambda>c. pc_ID c = pc_ID pc) (\<lambda>c. c\<lparr>pc_Used := True\<rparr>) (db_codes d)"
  using assms
  by (auto simp: exchange_commit_def pc_MarkUsed_def exec_def WriteError_def Let_def dest!: tk_Create_codes
      split: prod.splits db_result.splits option.splits if_splits)

lemma exchange_check_row:
  assumes "exchange_check now body d = Inr pc"
  shows "pc \<in> set (db_codes d) \<and> pc_Code pc = eb_code (snd body) \<and> \<not> pc_Used pc"
  using assms
  by (auto simp: exchange_check_def pc_FindByCode_def get_row_def find_Some_iff split: prod.splits if_splits option.splits db_result.splits)

definition pair_inv :: "pair_state \<Rightarrow> bool" where
  "pair_inv s \<longleftrightarrow>
     distinct (map pc_Code (db_codes (ps_db s))) \<and>
     (\<forall>(q, b, pc) \<in> set (ps_reading s). \<forall>r \<in> set (db_codes (ps_db s)). pc_Code r = pc_Code pc \<longrightarrow> pc_ID r = pc_ID pc) \<and>
     (\<forall>r \<in> set (db_codes (ps_db s)). pc_Code r \<in> set (ps_served s) \<longrightarrow> pc_Used r)"

lemma pair_inv_db:
  assumes "pair_inv s" and "db_codes d = db_codes (ps_db s) \<or>
      db_codes d = update_rows P (\<lambda>c. c\<lparr>pc_Used := True\<rparr>) (db_codes (ps_db s))" and "set rs \<subseteq> set (ps_reading s)"
  shows "pair_inv (s\<lparr>ps_db := d, ps_reading := rs\<rparr>)"
proof -
  have "map pc_Code (db_codes d) = map pc_Code (db_codes (ps_db s))"
    using assms(2) by (auto simp: update_rows_def)
  moreover have "\<exists>r0 \<in> set (db_codes (ps_db s)). pc_Code r = pc_Code r0 \<and> pc_ID r = pc_ID r0 \<and> (pc_Used r0 \<longrightarrow> pc_Used r)"
    if "r \<in> set (db_codes d)" for r
    using assms(2) that by (fastforce simp: update_rows_def)
  ultimately show ?thesis
    using assms(1,3) unfolding pair_inv_def by simp (smt (verit) case_prodE case_prod_conv in_mono)
qed

lemma pair_inv_step: "pair_inv s \<Longrightarrow> pair_inv (pair_step sha op s)"
proof (cases op)
  case (ReadCode now q body)
  assume inv: "pair_inv s"
  show ?thesis
  proof (cases "exchange_check now body (ps_db s)")
    case (Inr pc)
    have "pc_ID r = pc_ID pc" if "r \<in> set (db_codes (ps_db s))" "pc_Code r = pc_Code pc" for r
      using that inv exchange_check_row [OF Inr] by (auto simp: pair_inv_def distinct_map dest!: inj_onD [of pc_Code _ r pc])
    then show ?thesis using inv ReadCode Inr by (auto simp: pair_inv_def)
  qed (use inv ReadCode in simp)
next
  case (ClaimCode now i)
  assume inv: "pair_inv s"
  show ?thesis
  proof (cases "i < length (ps_reading s)")
    case True
    obtain q b pc where r: "ps_reading s ! i = (q, b, pc)" by (metis prod_cases3)
    obtain status o1 d where c: "exchange_commit sha now q b pc (ps_db s) = ((status, o1), d)" by (metis prod_cases3 surj_pair)
    let ?rs = "take i (ps_reading s) @ drop (Suc i) (ps_reading s)"
    have i1: "pair_inv (s\<lparr>ps_db := d, ps_reading := ?rs\<rparr>)"
      using pair_inv_db [OF inv exchange_commit_rows [OF c], of ?rs] by (auto dest: in_set_takeD in_set_dropD)
    have "pc_Used r'" if "status = 200" "r' \<in> set (db_codes d)" "pc_Code r' = pc_Code pc" for r'
    proof -
      have "(q, b, pc) \<in> set (ps_reading s)" using True r by (metis nth_mem)
      then have ids: "\<forall>r \<in> set (db_codes (ps_db s)). pc_Code r = pc_Code pc \<longrightarrow> pc_ID r = pc_ID pc"
        using inv by (auto simp: pair_inv_def)
      show ?thesis
        using that ids exchange_commit_codes c by (fastforce simp: update_rows_def)
    qed
    then show ?thesis using i1 ClaimCode True r c by (auto simp: pair_inv_def)
  qed (use inv ClaimCode in simp)
qed

lemma pair_inv_run: "pair_inv s \<Longrightarrow> pair_inv (pair_run sha ops s)"
  unfolding pair_run_def by (induction ops arbitrary: s) (simp_all add: pair_inv_step)

lemma served_mono: "set (ps_served s) \<subseteq> set (ps_served (pair_step sha op s))"
  by (cases op) (auto split: sum.split prod.split)

lemma reading_code_claim:
  assumes "i < length (ps_reading s)" and "ps_reading s ! i = (q, b, pc)"
  shows "reading_code code s =
    length (filter (\<lambda>(q, b, pc). pc_Code pc = code) (take i (ps_reading s) @ drop (Suc i) (ps_reading s))) +
    (if pc_Code pc = code then 1 else 0)"
  unfolding reading_code_def
  by (subst id_take_nth_drop [OF assms(1)]) (simp add: assms(2))

lemma pair_budget_step:
  assumes "pair_inv s" and "code \<in> set (ps_served s)"
  shows "count_list (ps_served (pair_step sha op s)) code + reading_code code (pair_step sha op s) \<le>
    count_list (ps_served s) code + reading_code code s"
proof (cases op)
  case (ReadCode now q body)
  show ?thesis
  proof (cases "exchange_check now body (ps_db s)")
    case (Inr pc)
    then have "pc_Code pc \<noteq> code"
      using exchange_check_row [OF Inr] assms by (auto simp: pair_inv_def)
    then show ?thesis using ReadCode Inr by (simp add: reading_code_def)
  qed (use ReadCode in simp)
next
  case (ClaimCode now i)
  show ?thesis
  proof (cases "i < length (ps_reading s)")
    case True
    obtain q b pc where r: "ps_reading s ! i = (q, b, pc)" by (metis prod_cases3)
    show ?thesis
      using ClaimCode True r reading_code_claim [OF True r, of code]
      by (auto simp: reading_code_def split: prod.split)
  qed (use ClaimCode in simp)
qed

text \<open>C15: However the exchanges of pairing codes interleave, once an exchange of a code has been answered with a
token, the only exchanges of that code that can still be answered with one are those that had already read it
and not yet claimed it; with none of these under way the code is never exchanged again.\<close>

theorem pairing_code_once:
  assumes "distinct (map pc_Code (db_codes d))" and "code \<in> set (ps_served (pair_run sha ops (pair_start d)))"
  shows "count_list (ps_served (pair_run sha later (pair_run sha ops (pair_start d)))) code
    \<le> count_list (ps_served (pair_run sha ops (pair_start d))) code + reading_code code (pair_run sha ops (pair_start d))"
proof -
  have "pair_inv (pair_start d)" using assms(1) by (simp add: pair_inv_def pair_start_def)
  then have "pair_inv (pair_run sha ops (pair_start d))" by (rule pair_inv_run)
  with assms(2) have "count_list (ps_served (pair_run sha later s)) code + reading_code code (pair_run sha later s)
      \<le> count_list (ps_served s) code + reading_code code s" if "s = pair_run sha ops (pair_start d)" for s
    using that
  proof (induction later arbitrary: s rule: rev_induct)
    case (snoc op later)
    have "pair_inv (pair_run sha later s)" using snoc.prems by (simp add: pair_inv_run)
    moreover have "set (ps_served s) \<subseteq> set (ps_served (pair_run sha later s))"
      unfolding pair_run_def by (induction later rule: rev_induct) (use served_mono in \<open>simp, force\<close>)
    ultimately show ?case
      using snoc pair_budget_step [of "pair_run sha later s" code sha op] by (fastforce simp: pair_run_def)
  qed (simp add: pair_run_def)
  then show ?thesis by (meson add_leD1 le_trans order_refl)
qed

text \<open>Two exchanges of one code that both read it before either claims it both succeed: the claim does
  not look at the \<open>used\<close> column, so the second one hands out a second connection token.\<close>

theorem pairing_code_race:
  assumes "exchange_check now (True, b1) d = Inr pc" and "exchange_check now (True, b2) d = Inr pc"
    and "eq_token q1 = Some t1" and "eq_token q2 = Some t2" and "sha t1 \<noteq> sha t2"
    and "db_fails d = []" and "sha t1 \<notin> ct_TokenHash ` set (db_tokens d)" and "sha t2 \<notin> ct_TokenHash ` set (db_tokens d)"
  shows "\<exists>a1 a2 d1 d2. exchange_commit sha now q1 b1 pc d = ((200, a1), d1) \<and>
    exchange_commit sha now q2 b2 pc d1 = ((200, a2), d2) \<and>
    {sha t1, sha t2} \<subseteq> ct_TokenHash ` set (filter (\<lambda>t. ct_UserID t = pc_UserID pc) (db_tokens d2))"
proof -
  have step: "\<exists>a d1. exchange_commit sha now q b pc d = ((200, a), d1) \<and> db_fails d1 = [] \<and>
      (\<exists>row. ct_TokenHash row = sha t \<and> ct_UserID row = pc_UserID pc \<and> db_tokens d1 = db_tokens d @ [row])"
    if "eq_token q = Some t" "db_fails d = []" "sha t \<notin> ct_TokenHash ` set (db_tokens d)" for q b d t
  proof -
    have fresh: "\<not> list_ex (\<lambda>r. ct_TokenHash r = sha t) (db_tokens d)" using that(3) by (force simp: list_ex_iff)
    show ?thesis
      using that fresh
      by (simp add: exchange_commit_def pc_MarkUsed_def exec_def db_ok_def tk_Create_def kc_Upsert_def
          kc_SetCrossWorldSettings_def on_known_def Let_def kc_FindByClientID_def get_row_def split: option.split)
  qed
  obtain a1 d1 r1 where 1: "exchange_commit sha now q1 b1 pc d = ((200, a1), d1)" "db_fails d1 = []"
      "ct_TokenHash r1 = sha t1" "ct_UserID r1 = pc_UserID pc" "db_tokens d1 = db_tokens d @ [r1]"
    using step [OF assms(3,6,7)] by blast
  have "sha t2 \<notin> ct_TokenHash ` set (db_tokens d1)" using 1(3,5) assms(5,8) by auto
  then obtain a2 d2 r2 where 2: "exchange_commit sha now q2 b2 pc d1 = ((200, a2), d2)"
      "ct_TokenHash r2 = sha t2" "ct_UserID r2 = pc_UserID pc" "db_tokens d2 = db_tokens d1 @ [r2]"
    using step [OF assms(4) 1(2)] by blast
  have "r1 \<in> set (filter (\<lambda>t. ct_UserID t = pc_UserID pc) (db_tokens d2))"
    "r2 \<in> set (filter (\<lambda>t. ct_UserID t = pc_UserID pc) (db_tokens d2))"
    using 1(4,5) 2(3,4) by auto
  then have "{sha t1, sha t2} \<subseteq> ct_TokenHash ` set (filter (\<lambda>t. ct_UserID t = pc_UserID pc) (db_tokens d2))"
    using 1(3) 2(2) by (metis empty_subsetI image_eqI insert_subset)
  then show ?thesis using 1(1) 2(1) by blast
qed

subsection \<open>The identifier of a re-paired world\<close>

lemma candidate_owned:
  assumes "candidate r origin \<noteq> []"
  shows "\<exists>c. r = DBOk (Some c) \<and> originConsistent c origin \<and> candidate r origin = kc_ClientID c"
  using assms by (auto simp: candidate_def split: db_result.splits option.splits if_splits)

text \<open>The identifier a pairing receives is the one its code is bound to, or a fresh one, or that of a
  world of the same account whose recorded origin is not known to differ from the one pairing now: a world without a
  recorded origin, or a request that states none, passes, as the handler documents.\<close>

theorem choose_clientID_owned:
  "choose_clientID pc b fresh d = fresh \<or>
   (isAddBrowser pc \<and> choose_clientID pc b fresh d = null_str (pc_ClientID pc)) \<or>
   (\<exists>c \<in> set (db_known d). kc_UserID c = pc_UserID pc \<and> kc_ClientID c = choose_clientID pc b fresh d \<and>
      (originConsistent c (eb_serverOrigin b) \<or> kc_PublicUrl c = Some (eb_serverOrigin b)))"
proof -
  let ?ok = "\<lambda>cid. \<exists>c \<in> set (db_known d). kc_UserID c = pc_UserID pc \<and> kc_ClientID c = cid \<and>
      (originConsistent c (eb_serverOrigin b) \<or> kc_PublicUrl c = Some (eb_serverOrigin b))"
  have cand: "?ok (candidate r (eb_serverOrigin b))"
    if "candidate r (eb_serverOrigin b) \<noteq> []" "\<And>c. r = DBOk (Some c) \<Longrightarrow> c \<in> set (db_known d) \<and> kc_UserID c = pc_UserID pc" for r
    using candidate_owned [OF that(1)] that(2) by auto
  have found: "c \<in> set (db_known d) \<and> kc_UserID c = pc_UserID pc"
    if "kc_FindByClientID (pc_UserID pc) x d = DBOk (Some c) \<or> kc_FindByServerFingerprint (pc_UserID pc) x d = DBOk (Some c) \<or>
      kc_FindByWorldID (pc_UserID pc) x d = DBOk (Some c) \<or> kc_FindByWorldIDAndPublicUrl (pc_UserID pc) x y d = DBOk (Some c)" for x y c
    using that
    by (auto simp: kc_FindByClientID_def kc_FindByServerFingerprint_def kc_FindByWorldID_def kc_FindByWorldIDAndPublicUrl_def
        get_row_def find_Some_iff split: if_splits)
  have world: "?ok (by_world pc b d)" if w: "by_world pc b d \<noteq> []"
  proof (cases "eb_serverOrigin b = [] \<or> kc_FindByWorldIDAndPublicUrl (pc_UserID pc) (eb_worldId b) (eb_serverOrigin b) d = DBOk None")
    case True
    then have "by_world pc b d = candidate (kc_FindByWorldID (pc_UserID pc) (eb_worldId b) d) (eb_serverOrigin b)"
      by (auto simp: by_world_def)
    with w show ?thesis using cand found by metis
  next
    case False
    then obtain c where c: "kc_FindByWorldIDAndPublicUrl (pc_UserID pc) (eb_worldId b) (eb_serverOrigin b) d = DBOk (Some c)"
        "by_world pc b d = kc_ClientID c"
      using w by (cases "kc_FindByWorldIDAndPublicUrl (pc_UserID pc) (eb_worldId b) (eb_serverOrigin b) d")
        (auto simp: by_world_def split: option.splits)
    then have "kc_PublicUrl c = Some (eb_serverOrigin b)"
      by (auto simp: kc_FindByWorldIDAndPublicUrl_def get_row_def find_Some_iff split: if_splits)
    then show ?thesis using found c by metis
  qed
  have fp: "?ok (candidate (kc_FindByServerFingerprint (pc_UserID pc) x d) (eb_serverOrigin b))"
    if "candidate (kc_FindByServerFingerprint (pc_UserID pc) x d) (eb_serverOrigin b) \<noteq> []" for x
    by (rule cand [OF that]) (use found in blast)
  have own: "?ok (candidate (kc_FindByClientID (pc_UserID pc) x d) (eb_serverOrigin b))"
    if "candidate (kc_FindByClientID (pc_UserID pc) x d) (eb_serverOrigin b) \<noteq> []" for x
    by (rule cand [OF that]) (use found in blast)
  show ?thesis
    using world fp own unfolding choose_clientID_def Let_def by (smt (verit))
qed

subsection \<open>Who may revoke a token\<close>

text \<open>Renaming a token checks its owner, revoking it does not: with the identifier of a token of another
  account, the first is refused and changes nothing, while the second deletes the row and cuts off
  every module connected with that token.\<close>

theorem revoke_ignores_owner:
  assumes "ParseInt64 idText = Some i" and "i \<noteq> 0" and "tk_FindByID i d = DBOk (Some t)" and "ct_UserID t \<noteq> us_ID user"
    and "db_ok ''tk_Delete'' d" and "mg_inv m"
  shows "token_patch quote now (Some user) idText body d = (WriteError 404 ''Token not found'', d) \<and>
    (\<exists>a d' m'. token_revoke idText d m = Ret (a, d', m') \<and> fst a = 200 \<and> t \<in> set (db_tokens d) \<and>
      i \<notin> ct_ID ` set (db_tokens d') \<and> none_live i m')"
proof
  show "token_patch quote now (Some user) idText body d = (WriteError 404 ''Token not found'', d)"
    using assms(1,3,4) by (simp add: token_patch_def)
  have t: "t \<in> set (db_tokens d)" using assms(3) by (auto simp: tk_FindByID_def get_row_def find_Some_iff split: if_splits)
  obtain n m1 where m1: "disconnectLocalByToken i 4002 ''Connection token revoked'' m = Ret (n, m1)" "none_live i m1"
    using disconnectLocalByToken_spec [OF assms(6,2)] by blast
  show "\<exists>a d' m'. token_revoke idText d m = Ret (a, d', m') \<and> fst a = 200 \<and> t \<in> set (db_tokens d) \<and>
      i \<notin> ct_ID ` set (db_tokens d') \<and> none_live i m'"
    using assms(1,5) t m1
    by (auto simp: token_revoke_def tk_Delete_def exec_def BroadcastDisconnectByConnectionToken_def go_map_def
        publish_def none_live_def)
qed

subsection \<open>Approval by the name of a world\<close>

text \<open>Approving the request of a server that brings no identifier rewrites the cross-world permissions of
  the first stored world of the account with the same world name, whichever server that world runs on.\<close>

theorem approval_reaches_namesake:
  assumes "pq_FindByCode code d = DBOk (Some req)" and "pq_Status req = ''pending''" and "now \<le> pq_ExpiresAt req"
    and "pq_ClientID req = []" and "kc_FindByWorldID (us_ID user) (pq_WorldID req) d = DBOk (Some c)"
    and "ab_remoteScopes b = [scope]" and "scope \<noteq> []" and "db_fails d = []" and "pCode \<notin> pc_Code ` set (db_codes d)"
  shows "\<exists>body d'. pair_request_approve now (Some pCode) (Some user) code b d = ((200, body), d') \<and>
    (\<exists>c' \<in> set (db_known d'). kc_ID c' = kc_ID c \<and> kc_RemoteScopes c' = Some scope)"
proof -
  have ex: "existing_world (us_ID user) req d = Some c" using assms(4,5) by (simp add: existing_world_def)
  have c: "c \<in> set (db_known d)" using assms(5) by (auto simp: kc_FindByWorldID_def get_row_def find_Some_iff split: if_splits)
  have codes: "\<not> list_ex (\<lambda>r. pc_Code r = pCode) (db_codes d)" using assms(9) by (force simp: list_ex_iff)
  have scopes: "ScopesString [scope] = scope" by (simp add: ScopesString_def)
  have time: "\<not> pq_ExpiresAt req < now" using assms(3) by simp
  have some: "nonempty_str scope = Some scope" using assms(7) by (simp add: nonempty_str_def)
  let ?set = "\<lambda>ts (x :: KnownClient). x\<lparr>kc_AllowedTargetClients := ts, kc_RemoteScopes := Some scope,
      kc_RemoteRequestsPerHour := ab_remoteRequestsPerHour b, kc_UpdatedAt := db_time now\<rparr>"
  obtain body ts d' where run: "pair_request_approve now (Some pCode) (Some user) code b d = ((200, body), d')"
      "db_known d' = update_rows (\<lambda>x. kc_ID x = kc_ID c) (?set ts) (db_known d)"
    by (cases "pq_UpgradeOnly req")
      (simp_all add: pair_request_approve_def assms(1,2,6-8) ex scopes codes time some Let_def pc_Create_def
        kc_SetCrossWorldSettings_def on_known_def pq_SetApproved_def on_pair_def exec_def db_ok_def)
  have "?set ts c \<in> set (db_known d')" unfolding run(2) by (rule update_rows_mem [OF c]) simp
  then show ?thesis using run(1) by (intro exI conjI) (auto intro: bexI [of _ "?set ts c"])
qed

subsection \<open>Concrete runs\<close>

definition ex_code :: PairingCode where
  "ex_code =
     \<lparr>pc_ID = 4, pc_UserID = 1, pc_Code = ''ABC234'', pc_ClientID = None, pc_AllowedTargetClients = None, pc_RemoteScopes = None,
      pc_RemoteRequestsPerHour = 0, pc_ExpiresAt = seconds 300, pc_Used = False, pc_CreatedAt = 0\<rparr>"

definition ex_exchange :: exchange_body where
  "ex_exchange =
     \<lparr>eb_code = ''ABC234'', eb_worldId = ''world'', eb_worldTitle = [], eb_serverFingerprint = [], eb_existingClientId = [],
      eb_serverOrigin = []\<rparr>"

definition ex_exchange_req :: "string \<Rightarrow> exchange_req" where
  "ex_exchange_req tok =
     \<lparr>eq_userAgentName = ''Chrome'', eq_relayURL = ''ws://relay'', eq_token = Some tok, eq_freshID = ''fvtt_9''\<rparr>"

definition ex_pairs_db :: db where
  "ex_pairs_db = empty_db\<lparr>db_users := [ex_user 1], db_codes := [ex_code]\<rparr>"

lemmas ex_pair_defs = ex_code_def ex_exchange_def ex_exchange_req_def ex_pairs_db_def empty_db_def

lemma ex_check: "exchange_check (seconds 1) (True, ex_exchange) ex_pairs_db = Inr ex_code"
  by (simp add: exchange_check_def pc_FindByCode_def get_row_def db_ok_def isAddBrowser_def null_str_def db_time_def
      seconds_def ex_pair_defs)

lemma ex_run: "\<exists>ans d'. pair_exchange (\<lambda>x. x) (seconds 1) (ex_exchange_req ''t1'') (True, ex_exchange) ex_pairs_db = ((200, ans), d')"
proof -
  have "pair_exchange (\<lambda>x. x) (seconds 1) (ex_exchange_req ''t1'') (True, ex_exchange) ex_pairs_db =
      exchange_commit (\<lambda>x. x) (seconds 1) (ex_exchange_req ''t1'') ex_exchange ex_code ex_pairs_db"
    by (simp add: pair_exchange_def ex_check)
  also have "\<exists>ans d'. \<dots> = ((200, ans), d')"
    by (simp add: exchange_commit_def pc_MarkUsed_def exec_def db_ok_def tk_Create_def Let_def ex_pair_defs)
  finally show ?thesis .
qed

lemma next_exchange_refused_witness:
  "\<exists>ans d' status msg. pair_exchange (\<lambda>x. x) (seconds 1) (ex_exchange_req ''t1'') (True, ex_exchange) ex_pairs_db = ((200, ans), d') \<and>
    pair_exchange (\<lambda>x. x) (seconds 2) (ex_exchange_req ''t2'') (True, ex_exchange) d' = (WriteError status msg, d')"
proof -
  obtain ans d' where run: "pair_exchange (\<lambda>x. x) (seconds 1) (ex_exchange_req ''t1'') (True, ex_exchange) ex_pairs_db = ((200, ans), d')"
    using ex_run by blast
  have "distinct (map pc_Code (db_codes ex_pairs_db))" by (simp add: ex_pairs_db_def)
  from next_exchange_refused [OF run this refl] run show ?thesis by blast
qed

lemma pairing_code_once_witness:
  "\<exists>s. s = pair_run (\<lambda>x. x) [ReadCode (seconds 1) (ex_exchange_req ''t1'') (True, ex_exchange), ClaimCode (seconds 1) 0]
       (pair_start ex_pairs_db) \<and>
     ps_served s = [''ABC234''] \<and> reading_code ''ABC234'' s = 0 \<and>
     count_list (ps_served (pair_run (\<lambda>x. x)
       [ReadCode (seconds 2) (ex_exchange_req ''t2'') (True, ex_exchange), ClaimCode (seconds 2) 0] s)) ''ABC234'' \<le> 1"
proof -
  let ?ops = "[ReadCode (seconds 1) (ex_exchange_req ''t1'') (True, ex_exchange), ClaimCode (seconds 1) 0]"
  let ?s = "pair_run (\<lambda>x. x) ?ops (pair_start ex_pairs_db)"
  obtain ans d' where run: "pair_exchange (\<lambda>x. x) (seconds 1) (ex_exchange_req ''t1'') (True, ex_exchange) ex_pairs_db = ((200, ans), d')"
    using ex_run by blast
  then have c: "exchange_commit (\<lambda>x. x) (seconds 1) (ex_exchange_req ''t1'') ex_exchange ex_code ex_pairs_db = ((200, ans), d')"
    by (simp add: pair_exchange_def ex_check)
  have s: "ps_served ?s = [''ABC234'']" "reading_code ''ABC234'' ?s = 0"
    by (simp_all add: pair_run_def pair_start_def ex_check c reading_code_def) (simp add: ex_code_def)
  have "distinct (map pc_Code (db_codes ex_pairs_db))" by (simp add: ex_pairs_db_def)
  from pairing_code_once [OF this, of "''ABC234''" "\<lambda>x. x" ?ops
      "[ReadCode (seconds 2) (ex_exchange_req ''t2'') (True, ex_exchange), ClaimCode (seconds 2) 0]"]
  show ?thesis using s by simp
qed

lemma pairing_code_race_witness:
  "\<exists>a1 a2 d1 d2. exchange_commit (\<lambda>x. x) (seconds 1) (ex_exchange_req ''t1'') ex_exchange ex_code ex_pairs_db = ((200, a1), d1) \<and>
    exchange_commit (\<lambda>x. x) (seconds 1) (ex_exchange_req ''t2'') ex_exchange ex_code d1 = ((200, a2), d2) \<and>
    {''t1'', ''t2''} \<subseteq> ct_TokenHash ` set (filter (\<lambda>t. ct_UserID t = pc_UserID ex_code) (db_tokens d2))"
proof -
  have "eq_token (ex_exchange_req ''t1'') = Some ''t1''" "eq_token (ex_exchange_req ''t2'') = Some ''t2''"
    by (simp_all add: ex_exchange_req_def)
  note tokens = this
  have "db_fails ex_pairs_db = []" "db_tokens ex_pairs_db = []" by (simp_all add: ex_pairs_db_def empty_db_def)
  then have d: "(\<lambda>x. x) ''t1'' \<noteq> (\<lambda>x. x) ''t2''" "db_fails ex_pairs_db = []"
      "(\<lambda>x. x) ''t1'' \<notin> ct_TokenHash ` set (db_tokens ex_pairs_db)" "(\<lambda>x. x) ''t2'' \<notin> ct_TokenHash ` set (db_tokens ex_pairs_db)"
    by simp_all
  show ?thesis by (rule pairing_code_race [OF ex_check ex_check tokens d])
qed

lemma revoke_ignores_owner_witness:
  "\<exists>a d' m'. token_revoke ''7'' (empty_db\<lparr>db_tokens := [ex_token 7 1 ''h'']\<rparr>) (ex_manager False ''i1'') = Ret (a, d', m') \<and>
    7 \<notin> ct_ID ` set (db_tokens d')"
proof -
  have p: "ParseInt64 ''7'' = Some 7" by (simp add: ParseInt64_def digit_val_def in_range_def)
  have f: "tk_FindByID 7 (empty_db\<lparr>db_tokens := [ex_token 7 1 ''h'']\<rparr>) = DBOk (Some (ex_token 7 1 ''h''))"
    by (simp add: tk_FindByID_def get_row_def db_ok_def ex_rows)
  have own: "ct_UserID (ex_token 7 1 ''h'') \<noteq> us_ID (ex_user 2)" "db_ok ''tk_Delete'' (empty_db\<lparr>db_tokens := [ex_token 7 1 ''h'']\<rparr>)"
    by (simp_all add: db_ok_def ex_rows)
  have "\<exists>a d' m'. token_revoke ''7'' (empty_db\<lparr>db_tokens := [ex_token 7 1 ''h'']\<rparr>) (ex_manager False ''i1'') = Ret (a, d', m') \<and> fst a = 200 \<and>
      ex_token 7 1 ''h'' \<in> set (db_tokens (empty_db\<lparr>db_tokens := [ex_token 7 1 ''h'']\<rparr>)) \<and> 7 \<notin> ct_ID ` set (db_tokens d') \<and> none_live 7 m'"
    by (rule revoke_ignores_owner [OF p _ f own ex_manager_inv [of False "''i1''"], of "\<lambda>x. x" 1 "(False, \<lparr>tb_name = [], tb_allowedIps = None\<rparr>)", THEN conjunct2]) simp
  then show ?thesis by blast
qed

definition ex_pair_request :: PairRequest where
  "ex_pair_request =
     \<lparr>pq_ID = 3, pq_Code = ''QWERTY23'', pq_ClientID = [], pq_WorldID = ''world'', pq_WorldTitle = [], pq_SystemID = [],
      pq_SystemTitle = [], pq_SystemVersion = [], pq_FoundryVersion = [], pq_RequestedRemoteScopes = None,
      pq_RequestedTargetClients = None, pq_UpgradeOnly = False, pq_Status = ''pending'', pq_PairingCode = None, pq_UserID = None,
      pq_ExpiresAt = 600, pq_CreatedAt = 0\<rparr>"

definition ex_namesake :: KnownClient where
  "ex_namesake = (ex_known 5 1 ''fvtt_1'')\<lparr>kc_WorldID := Some ''world'', kc_PublicUrl := Some ''http://elsewhere:30000''\<rparr>"

lemma approval_reaches_namesake_witness:
  "\<exists>body d'. pair_request_approve 1 (Some ''ABC234'') (Some (ex_user 1)) ''QWERTY23''
      \<lparr>ab_remoteScopes = [''entity:write''], ab_allowedTargetClients = [], ab_remoteRequestsPerHour = 0\<rparr>
      (empty_db\<lparr>db_pairs := [ex_pair_request], db_known := [ex_namesake]\<rparr>) = ((200, body), d') \<and>
    (\<exists>c \<in> set (db_known d'). kc_ID c = 5 \<and> kc_RemoteScopes c = Some ''entity:write'')"
proof -
  let ?d = "empty_db\<lparr>db_pairs := [ex_pair_request], db_known := [ex_namesake]\<rparr>"
  have f: "pq_FindByCode ''QWERTY23'' ?d = DBOk (Some ex_pair_request)"
    by (simp add: pq_FindByCode_def get_row_def db_ok_def empty_db_def ex_pair_request_def)
  have r: "pq_Status ex_pair_request = ''pending''" "1 \<le> pq_ExpiresAt ex_pair_request" "pq_ClientID ex_pair_request = []"
    by (simp_all add: ex_pair_request_def)
  have k: "kc_FindByWorldID (us_ID (ex_user 1)) (pq_WorldID ex_pair_request) ?d = DBOk (Some ex_namesake)"
    by (simp add: kc_FindByWorldID_def get_row_def db_ok_def ex_pair_request_def ex_namesake_def ex_rows)
  show ?thesis
    using approval_reaches_namesake [OF f r k, of _ "''entity:write''" "''ABC234''"]
    by (simp add: empty_db_def ex_namesake_def ex_known_def)
qed

end
