(* ===== verification/KeyRequests.thy ===== *)
theory KeyRequests
  imports Pairing
begin

text \<open>
  How a third-party application gets an API key: \<open>internal/handler/key_request.go\<close>.  The application
  asks without credentials, the account owner approves, and the application polls for the key (device
  flow) or exchanges a code it gets through its callback (web flow).  \<open>url_parse\<close> is
  \<open>url.ParseRequestURI\<close> reduced to scheme and host; \<open>time_parse\<close> is \<open>time.Parse(time.RFC3339, _)\<close>.
\<close>

record key_body =
  kb_appName :: string
  kb_appDescription :: string
  kb_appUrl :: string
  kb_scopes :: "string list"
  kb_clientIds :: "string list"
  kb_callbackUrl :: string
  kb_suggestedMonthlyLimit :: "int option"
  kb_suggestedExpiry :: string

definition IsPrivate :: "ip \<Rightarrow> bool" where
  "IsPrivate i =
     (case To4 i of
        Some b \<Rightarrow> b ! 0 = 10 \<or> (b ! 0 = 172 \<and> b ! 1 AND 0xF0 = 16) \<or> (b ! 0 = 192 \<and> b ! 1 = 168)
      | None \<Rightarrow> length i = 16 \<and> i ! 0 AND 0xFE = 0xFC)"

definition IsLinkLocalUnicast :: "ip \<Rightarrow> bool" where
  "IsLinkLocalUnicast i =
     (case To4 i of
        Some b \<Rightarrow> b ! 0 = 169 \<and> b ! 1 = 254
      | None \<Rightarrow> length i = 16 \<and> i ! 0 = 0xFE \<and> i ! 1 AND 0xC0 = 0x80)"

definition validateWebURL :: "(string \<Rightarrow> (string \<times> string) option) \<Rightarrow> string \<Rightarrow> string option" where
  "validateWebURL url_parse raw =
     (case url_parse raw of
        None \<Rightarrow> Some ''invalid URL''
      | Some (scheme, host) \<Rightarrow>
          if scheme \<noteq> ''http'' \<and> scheme \<noteq> ''https'' then Some ''URL must use http or https scheme''
          else if host = [] then Some ''URL must have a non-empty host''
          else (case ParseIP host of
                  Some ip \<Rightarrow> if IsLoopback ip \<or> IsPrivate ip \<or> IsLinkLocalUnicast ip
                             then Some ''URL must not target a private or loopback address'' else None
                | None \<Rightarrow> None))"

definition checked_url :: "(string \<Rightarrow> (string \<times> string) option) \<Rightarrow> string \<Rightarrow> string + string option" where
  "checked_url url_parse raw =
     (if raw = [] then Inr None
      else (case validateWebURL url_parse raw of Some err \<Rightarrow> Inl err | None \<Rightarrow> Inr (Some raw)))"

definition key_request_create ::
    "(string \<Rightarrow> (string \<times> string) option) \<Rightarrow> gotime \<Rightarrow> string option \<Rightarrow> string \<Rightarrow> bool \<times> key_body \<Rightarrow> db \<Rightarrow> answer \<times> db" where
  "key_request_create url_parse now random frontendURL body d =
     (let (decoded, b) = body; invalid = ValidateScopes (kb_scopes b)
      in if \<not> decoded then (WriteError 400 ''Invalid request body'', d)
         else if kb_appName b = [] \<or> kb_scopes b = [] then (WriteError 400 ''appName and scopes are required'', d)
         else if invalid \<noteq> [] then (WriteError 400 (''Invalid scope: '' @ invalid), d)
         else case random of
           None \<Rightarrow> (WriteError 500 ''Failed to generate code'', d)
         | Some code \<Rightarrow>
             (case checked_url url_parse (kb_appUrl b) of
                Inl err \<Rightarrow> (WriteError 400 (''Invalid appUrl: '' @ err), d)
              | Inr appURL \<Rightarrow>
             (case checked_url url_parse (kb_callbackUrl b) of
                Inl err \<Rightarrow> (WriteError 400 (''Invalid callbackUrl: '' @ err), d)
              | Inr callbackURL \<Rightarrow>
                  (case kr_Create now \<lparr>kr_ID = 0, kr_Code = code, kr_AppName = kb_appName b,
                          kr_AppDescription = kb_appDescription b, kr_AppURL = appURL,
                          kr_RequestedScopes = ScopesString (kb_scopes b),
                          kr_RequestedClientIDs = (if length (kb_clientIds b) > 0 then ScopesString (kb_clientIds b) else []),
                          kr_CallbackURL = callbackURL, kr_SuggestedMonthlyLimit = kb_suggestedMonthlyLimit b,
                          kr_SuggestedExpiry = nonempty_str (kb_suggestedExpiry b), kr_Status = ''pending'',
                          kr_ApprovedKeyID = None, kr_ApprovedByID = None, kr_ExchangeCode = None,
                          kr_ExpiresAt = now + minutes 10, kr_CreatedAt = 0, kr_UpdatedAt = 0\<rparr> d of
                     (DBErr, d') \<Rightarrow> (WriteError 500 ''Failed to create key request'', d')
                   | (DBOk _, d') \<Rightarrow>
                       ((201, [(''code'', JStr code), (''approvalUrl'', JStr (frontendURL @ ''/approve/'' @ code)),
                               (''expiresIn'', JNum 600), (''expiresAt'', JNum (now + minutes 10))]), d')))))"

definition int_or_zero :: "int option \<Rightarrow> int" where
  "int_or_zero i = (case i of Some n \<Rightarrow> n | None \<Rightarrow> 0)"

text \<open>The lookup of the key whose error is ignored.\<close>

definition approved_key :: "KeyRequest \<Rightarrow> db \<Rightarrow> ApiKey option" where
  "approved_key req d = (case ak_FindByID (int_or_zero (kr_ApprovedKeyID req)) d of DBOk k \<Rightarrow> k | DBErr \<Rightarrow> None)"

definition key_fields :: "ApiKey \<Rightarrow> obj" where
  "key_fields key =
     [(''apiKey'', JStr (ak_Key key)), (''scopes'', jstrs (GetScopes key)), (''clientIds'', jstrs (GetScopedClientIDs key))]"

definition key_request_status :: "gotime \<Rightarrow> string \<Rightarrow> db \<Rightarrow> answer \<times> db" where
  "key_request_status now code d =
     (case kr_FindByCode code d of
        DBErr \<Rightarrow> (WriteError 404 ''Key request not found'', d)
      | DBOk None \<Rightarrow> (WriteError 404 ''Key request not found'', d)
      | DBOk (Some req) \<Rightarrow>
          if kr_ExpiresAt req < now \<and> kr_Status req = ''pending'' then ((410, [(''status'', JStr ''expired'')]), d)
          else if kr_Status req = ''pending'' then ((200, [(''status'', JStr ''pending'')]), d)
          else if kr_Status req = ''approved''
          then (case approved_key req d of
                  None \<Rightarrow> ((200, [(''status'', JStr ''approved'')]), d)
                | Some key \<Rightarrow>
                    ((200, (''status'', JStr ''approved'') # key_fields key),
                     snd (kr_UpdateStatus now (kr_ID req) ''exchanged'' [] d)))
          else if kr_Status req = ''exchanged''
          then ((200, [(''status'', JStr ''exchanged''), (''message'', JStr ''API key has already been retrieved'')]), d)
          else if kr_Status req = ''denied'' then ((200, [(''status'', JStr ''denied'')]), d)
          else ((200, [(''status'', JStr (kr_Status req))]), d))"

definition key_request_exchange :: "gotime \<Rightarrow> bool \<times> string \<Rightarrow> db \<Rightarrow> answer \<times> db" where
  "key_request_exchange now body d =
     (let (decoded, code) = body
      in if \<not> decoded \<or> code = [] then (WriteError 400 ''Code is required'', d)
         else (case kr_FindByExchangeCode code d of
                 DBErr \<Rightarrow> (WriteError 404 ''Invalid exchange code'', d)
               | DBOk None \<Rightarrow> (WriteError 404 ''Invalid exchange code'', d)
               | DBOk (Some req) \<Rightarrow>
                   if kr_Status req \<noteq> ''approved''
                   then (WriteError 410 ''Exchange code has already been used or request was denied'', d)
                   else (case approved_key req d of
                           None \<Rightarrow> (WriteError 500 ''Failed to retrieve API key'', d)
                         | Some key \<Rightarrow> ((200, key_fields key), snd (kr_UpdateStatus now (kr_ID req) ''exchanged'' [] d)))))"

definition key_request_details :: "string \<Rightarrow> db \<Rightarrow> answer" where
  "key_request_details code d =
     (case kr_FindByCode code d of
        DBErr \<Rightarrow> WriteError 404 ''Key request not found''
      | DBOk None \<Rightarrow> WriteError 404 ''Key request not found''
      | DBOk (Some req) \<Rightarrow>
          (200, [(''code'', JStr (kr_Code req)), (''appName'', JStr (kr_AppName req)),
             (''appDescription'', JStr (kr_AppDescription req)), (''appUrl'', JStr (null_str (kr_AppURL req))),
             (''requestedScopes'', jstrs (ParseScopes (kr_RequestedScopes req))),
             (''requestedClientIds'', jstrs (ParseScopes (kr_RequestedClientIDs req))),
             (''callbackUrl'', JStr (null_str (kr_CallbackURL req))),
             (''suggestedMonthlyLimit'', JNum (int_or_zero (kr_SuggestedMonthlyLimit req))),
             (''suggestedExpiry'', JStr (null_str (kr_SuggestedExpiry req))), (''status'', JStr (kr_Status req)),
             (''expiresAt'', JNum (kr_ExpiresAt req))]))"

record key_approval =
  ka_scopes :: "string list"
  ka_clientIds :: "string list"
  ka_monthlyLimit :: "int option"
  ka_expiresAt :: string

definition granted_scopes :: "KeyRequest \<Rightarrow> key_approval \<Rightarrow> string list" where
  "granted_scopes req b = (if length (ka_scopes b) = 0 then ParseScopes (kr_RequestedScopes req) else ka_scopes b)"

definition new_key :: "(string \<Rightarrow> gotime option) \<Rightarrow> User \<Rightarrow> string \<Rightarrow> KeyRequest \<Rightarrow> key_approval \<Rightarrow> ApiKey" where
  "new_key time_parse user keyStr req b =
     \<lparr>ak_ID = 0, ak_UserID = us_ID user, ak_Key = keyStr, ak_KeyHash = [], ak_Name = kr_AppName req,
      ak_ScopedClientID = None, ak_ScopedUserID = None, ak_MonthlyLimit = ka_monthlyLimit b, ak_RequestsThisMonth = 0,
      ak_LastResetDate = None, ak_Scopes = ScopesString (granted_scopes req b),
      ak_ScopedClientIDs = some_csv (ka_clientIds b), ak_ScopedUserIDs = None,
      ak_ExpiresAt = (if ka_expiresAt b \<noteq> [] then time_parse (ka_expiresAt b) else None), ak_Enabled = True,
      ak_CreatedAt = 0, ak_UpdatedAt = 0\<rparr>"

definition key_request_approve ::
    "(string \<Rightarrow> string) \<Rightarrow> (string \<Rightarrow> gotime option) \<Rightarrow> gotime \<Rightarrow> string option \<Rightarrow> string \<Rightarrow> User option \<Rightarrow> string \<Rightarrow>
     key_approval \<Rightarrow> db \<Rightarrow> answer \<times> db" where
  "key_request_approve sha time_parse now randomKey exchangeCode usr code b d =
     (case usr of None \<Rightarrow> (WriteError 401 ''Invalid user'', d)
      | Some user \<Rightarrow>
     (case kr_FindByCode code d of
        DBErr \<Rightarrow> (WriteError 404 ''Key request not found'', d)
      | DBOk None \<Rightarrow> (WriteError 404 ''Key request not found'', d)
      | DBOk (Some req) \<Rightarrow>
          if kr_Status req \<noteq> ''pending'' then (WriteError 400 ''Key request is not pending'', d)
          else if kr_ExpiresAt req < now then (WriteError 410 ''Key request has expired'', d)
          else (case find (\<lambda>s. \<not> HasScope (ParseScopes (kr_RequestedScopes req)) s) (granted_scopes req b) of
                  Some s \<Rightarrow> (WriteError 400 (''Cannot grant scope not in original request: '' @ s), d)
                | None \<Rightarrow>
                    (case randomKey of
                       None \<Rightarrow> (WriteError 500 ''Failed to generate API key'', d)
                     | Some keyStr \<Rightarrow>
                         (case ak_Create sha now keyStr (new_key time_parse user keyStr req b) d of
                            (DBErr, k, d1) \<Rightarrow> (WriteError 500 ''Failed to create API key'', d1)
                          | (DBOk _, k, d1) \<Rightarrow>
                              (let web = null_str (kr_CallbackURL req) \<noteq> [];
                                   updates = [ApprovedKeyID (ak_ID k), ApprovedByID (us_ID user)] @
                                             (if web then [ExchangeCode exchangeCode] else [])
                               in case kr_UpdateStatus now (kr_ID req) ''approved'' updates d1 of
                                    (DBErr, d2) \<Rightarrow> (WriteError 500 ''Failed to record approval'', d2)
                                  | (DBOk _, d2) \<Rightarrow>
                                      ((200, [(''success'', JBool True), (''keyId'', JNum (ak_ID k)), (''scopes'', jstrs (GetScopes k))] @
                                             (if web then [(''exchangeCode'', JStr exchangeCode)] else [])), d2)))))))"

definition key_request_deny :: "gotime \<Rightarrow> string \<Rightarrow> db \<Rightarrow> answer \<times> db" where
  "key_request_deny now code d =
     (case kr_FindByCode code d of
        DBErr \<Rightarrow> (WriteError 404 ''Key request not found'', d)
      | DBOk None \<Rightarrow> (WriteError 404 ''Key request not found'', d)
      | DBOk (Some req) \<Rightarrow>
          if kr_Status req \<noteq> ''pending'' then (WriteError 400 ''Key request is not pending'', d)
          else (case kr_UpdateStatus now (kr_ID req) ''denied'' [] d of
                  (DBErr, d1) \<Rightarrow> (WriteError 500 ''Failed to record denial'', d1)
                | (DBOk _, d1) \<Rightarrow> ((200, [(''success'', JBool True), (''message'', JStr ''Key request denied'')]), d1)))"

subsection \<open>An approval grants what was asked for\<close>

lemma ParseScopes_field:
  assumes "s \<in> set (ParseScopes csv)"
  shows "s \<noteq> []" and "CHR '','' \<notin> set s" and "\<not> is_space (hd s)" and "\<not> is_space (last s)"
proof -
  show "s \<noteq> []" "CHR '','' \<notin> set s" using ParseScopes_parts [OF assms] by blast+
  obtain f where "s = trim_space f" "s \<noteq> []"
    using assms by (auto simp: ParseScopes_eq split: if_splits)
  then show "\<not> is_space (hd s)" "\<not> is_space (last s)" using trim_space_ends by blast+
qed

lemma join_ends:
  assumes "ss \<noteq> []" and "\<forall>s \<in> set ss. s \<noteq> [] \<and> \<not> is_space (hd s) \<and> \<not> is_space (last s)"
  shows "go_join sep ss \<noteq> [] \<and> \<not> is_space (hd (go_join sep ss)) \<and> \<not> is_space (last (go_join sep ss))"
  using assms by (induction sep ss rule: go_join.induct) auto

lemma ParseScopes_reparse:
  assumes "set ss \<subseteq> set (ParseScopes csv)"
  shows "ParseScopes (ScopesString ss) = ss"
proof (cases "ss = []")
  case True
  then show ?thesis by (simp add: ScopesString_def ParseScopes_def trim_space_def)
next
  case False
  have f: "\<forall>s \<in> set ss. s \<noteq> [] \<and> CHR '','' \<notin> set s \<and> \<not> is_space (hd s) \<and> \<not> is_space (last s)"
    using assms ParseScopes_field by blast
  have ends: "ScopesString ss \<noteq> [] \<and> \<not> is_space (hd (ScopesString ss)) \<and> \<not> is_space (last (ScopesString ss))"
    unfolding ScopesString_def by (rule join_ends) (use False f in auto)
  have "go_split (CHR '','') (ScopesString ss) = ss"
    unfolding ScopesString_def by (rule go_split_join) (use False f in auto)
  moreover have "map trim_space ss = ss" by (rule map_idI) (use f trim_space_id in auto)
  moreover have "filter (\<lambda>p. p \<noteq> []) ss = ss" by (rule filter_True) (use f in auto)
  ultimately show ?thesis using ends by (simp add: ParseScopes_eq trim_space_id)
qed

lemma kr_UpdateStatus_keys: "db_keys (snd (kr_UpdateStatus now i st us d)) = db_keys d"
  by (simp add: kr_UpdateStatus_def exec_def)

text \<open>C16: An approval adds exactly one key to the table: it belongs to the approver, carries no scope the
  application did not ask for, and is the key the request now points to; every other key is as it was.\<close>

theorem grant_within_request:
  assumes "key_request_approve sha time_parse now (Some keyStr) xc (Some user) code b d = ((200, ans), d')"
    and "kr_FindByCode code d = DBOk (Some req)"
  shows "\<exists>row. db_keys d' = db_keys d @ [row] \<and> ak_UserID row = us_ID user \<and>
    set (GetScopes row) \<subseteq> set (ParseScopes (kr_RequestedScopes req)) \<and>
    (\<exists>req' \<in> set (db_requests d'). kr_ID req' = kr_ID req \<and> kr_Status req' = ''approved'' \<and> kr_ApprovedKeyID req' = Some (ak_ID row))"
proof -
  let ?key = "new_key time_parse user keyStr req b"
  obtain k d1 where st: "kr_Status req = ''pending''" and f: "\<forall>s \<in> set (granted_scopes req b). s \<in> set (ParseScopes (kr_RequestedScopes req))"
      and c: "ak_Create sha now keyStr ?key d = (DBOk (), k, d1)"
      and u: "kr_UpdateStatus now (kr_ID req) ''approved'' ([ApprovedKeyID (ak_ID k), ApprovedByID (us_ID user)] @
               (if null_str (kr_CallbackURL req) \<noteq> [] then [ExchangeCode xc] else [])) d1 = (DBOk (), d')"
    using assms
    by (auto simp: key_request_approve_def WriteError_def Let_def find_None_iff
        split: prod.splits db_result.splits option.splits if_splits)
  have k: "db_keys d1 = db_keys d @ [k]" "ak_UserID k = us_ID user" "ak_Scopes k = ScopesString (granted_scopes req b)"
      "db_requests d1 = db_requests d"
    using c by (auto simp: ak_Create_def new_key_def Let_def split: if_splits)
  have "set (GetScopes k) \<subseteq> set (ParseScopes (kr_RequestedScopes req))"
    using ParseScopes_reparse [OF subsetI, of "granted_scopes req b" "kr_RequestedScopes req"] f k(3)
    by (simp add: GetScopes_def subset_iff)
  moreover have "db_keys d' = db_keys d1" using kr_UpdateStatus_keys u by (metis snd_conv)
  moreover have req: "req \<in> set (db_requests d)"
    using assms(2) by (auto simp: kr_FindByCode_def get_row_def find_Some_iff split: if_splits)
  let ?us = "[ApprovedKeyID (ak_ID k), ApprovedByID (us_ID user)] @
      (if null_str (kr_CallbackURL req) \<noteq> [] then [ExchangeCode xc] else [])"
  let ?f = "\<lambda>r. fold kr_apply ?us (r\<lparr>kr_Status := ''approved'', kr_UpdatedAt := now\<rparr>)"
  have "db_requests d' = update_rows (\<lambda>r. kr_ID r = kr_ID req) ?f (db_requests d)"
    using u k(4) by (auto simp: kr_UpdateStatus_def exec_def split: if_splits)
  then have "?f req \<in> set (db_requests d')" using update_rows_mem [OF req, of "\<lambda>r. kr_ID r = kr_ID req" ?f] by simp
  then have "\<exists>req' \<in> set (db_requests d'). kr_ID req' = kr_ID req \<and> kr_Status req' = ''approved'' \<and> kr_ApprovedKeyID req' = Some (ak_ID k)"
    by (rule bexI [rotated]) (simp add: kr_apply_def)
  ultimately show ?thesis using k by auto
qed

subsection \<open>The key leaves once, to whoever asks first\<close>

definition hands_out :: "answer \<Rightarrow> ApiKey \<Rightarrow> bool" where
  "hands_out a key \<longleftrightarrow> aget (snd a) ''apiKey'' = Some (JStr (ak_Key key))"

text \<open>The request's code alone is enough to collect an approved key, even when the approval issued an
  exchange code for the application's callback: the poll answers with the plaintext key, after which the
  exchange code is refused and another poll hands out nothing.\<close>

theorem poll_preempts_exchange:
  assumes "kr_FindByCode code d = DBOk (Some req)" and "kr_Status req = ''approved''" and "approved_key req d = Some key"
    and "kr_ExchangeCode req = Some xc" and "xc \<noteq> []" and "distinct (map kr_Code (db_requests d))"
    and "distinct (map kr_ExchangeCode (filter (\<lambda>r. kr_ExchangeCode r \<noteq> None) (db_requests d)))" and "db_fails d = []"
  shows "\<exists>a d'. key_request_status now code d = (a, d') \<and> hands_out a key \<and>
    key_request_exchange now2 (True, xc) d' = (WriteError 410 ''Exchange code has already been used or request was denied'', d') \<and>
    snd (fst (key_request_status now3 code d')) = [(''status'', JStr ''exchanged''), (''message'', JStr ''API key has already been retrieved'')]"
proof -
  let ?P = "\<lambda>r. kr_ID r = kr_ID req" and ?f = "\<lambda>r. r\<lparr>kr_Status := ''exchanged'', kr_UpdatedAt := now\<rparr>"
  let ?d' = "d\<lparr>db_requests := update_rows ?P ?f (db_requests d)\<rparr>" and ?g = "\<lambda>r. if ?P r then ?f r else r"
  have req: "find (\<lambda>r. kr_Code r = code) (db_requests d) = Some req" "req \<in> set (db_requests d)"
    using assms(1) by (auto simp: kr_FindByCode_def get_row_def find_Some_iff split: if_splits)
  have run: "key_request_status now code d = ((200, (''status'', JStr ''approved'') # key_fields key), ?d')"
    using assms(1,2,3,8) by (simp add: key_request_status_def kr_UpdateStatus_def exec_def db_ok_def)
  have code: "find (\<lambda>r. kr_Code r = code) (map ?g (db_requests d)) = Some (?f req)"
    by (subst find_map_same) (simp_all add: req)
  have "find (\<lambda>r. kr_ExchangeCode r = Some xc) (db_requests d) = Some req"
  proof -
    obtain r where r: "find (\<lambda>r. kr_ExchangeCode r = Some xc) (db_requests d) = Some r"
      using req(2) assms(4) by (cases "find (\<lambda>r. kr_ExchangeCode r = Some xc) (db_requests d)") (auto simp: find_None_iff)
    then have m: "r \<in> set (db_requests d)" "kr_ExchangeCode r = Some xc" by (auto simp: find_Some_iff)
    have "r = req" using inj_onD [OF iffD1 [OF distinct_map, THEN conjunct2, OF assms(7)], of r req] m req(2) assms(4) by simp
    then show ?thesis using r by simp
  qed
  then have exch: "find (\<lambda>r. kr_ExchangeCode r = Some xc) (map ?g (db_requests d)) = Some (?f req)"
    by (subst find_map_same) simp_all
  have again: "kr_FindByCode code ?d' = DBOk (Some (?f req))" "kr_FindByExchangeCode xc ?d' = DBOk (Some (?f req))"
    using code exch assms(8) by (simp_all add: kr_FindByCode_def kr_FindByExchangeCode_def get_row_def db_ok_def update_rows_def)
  have "hands_out (200, (''status'', JStr ''approved'') # key_fields key) key" by (simp add: hands_out_def key_fields_def)
  moreover have "key_request_exchange now2 (True, xc) ?d' =
      (WriteError 410 ''Exchange code has already been used or request was denied'', ?d')"
    using again(2) assms(5) by (simp add: key_request_exchange_def)
  moreover have "snd (fst (key_request_status now3 code ?d')) =
      [(''status'', JStr ''exchanged''), (''message'', JStr ''API key has already been retrieved'')]"
    using again(1) by (simp add: key_request_status_def)
  ultimately show ?thesis using run by blast
qed

subsection \<open>Concrete runs\<close>

definition ex_key_request :: KeyRequest where
  "ex_key_request =
     \<lparr>kr_ID = 3, kr_Code = ''ABC234'', kr_AppName = ''app'', kr_AppDescription = [], kr_AppURL = None,
      kr_RequestedScopes = ''entity:read'', kr_RequestedClientIDs = [], kr_CallbackURL = Some ''https://app.example/cb'',
      kr_SuggestedMonthlyLimit = None, kr_SuggestedExpiry = None, kr_Status = ''pending'', kr_ApprovedKeyID = None,
      kr_ApprovedByID = None, kr_ExchangeCode = None, kr_ExpiresAt = 600, kr_CreatedAt = 0, kr_UpdatedAt = 0\<rparr>"

lemma ex_scope_parse: "ParseScopes ''entity:read'' = [''entity:read'']"
  by code_simp

lemma grant_within_request_witness:
  "\<exists>ans d' row. key_request_approve (\<lambda>x. x) (\<lambda>x. None) 1 (Some ''k9'') ''x9'' (Some (ex_user 1)) ''ABC234''
      \<lparr>ka_scopes = [], ka_clientIds = [], ka_monthlyLimit = None, ka_expiresAt = []\<rparr>
      (empty_db\<lparr>db_requests := [ex_key_request]\<rparr>) = ((200, ans), d') \<and> db_keys d' = [row] \<and> ak_UserID row = 1"
proof -
  let ?b = "\<lparr>ka_scopes = [], ka_clientIds = [], ka_monthlyLimit = None, ka_expiresAt = []\<rparr>"
    and ?d = "empty_db\<lparr>db_requests := [ex_key_request]\<rparr>"
  have f: "kr_FindByCode ''ABC234'' ?d = DBOk (Some ex_key_request)"
    by (simp add: kr_FindByCode_def get_row_def db_ok_def empty_db_def ex_key_request_def)
  have g: "granted_scopes ex_key_request ?b = [''entity:read'']"
    by (simp add: granted_scopes_def ex_key_request_def ex_scope_parse)
  have fields: "kr_Status ex_key_request = ''pending''" "kr_ExpiresAt ex_key_request = 600"
      "ParseScopes (kr_RequestedScopes ex_key_request) = [''entity:read'']"
    by (simp_all add: ex_key_request_def ex_scope_parse)
  have e: "db_fails empty_db = []" "db_keys empty_db = []" by (simp_all add: empty_db_def)
  obtain ans d' where run: "key_request_approve (\<lambda>x. x) (\<lambda>x. None) 1 (Some ''k9'') ''x9'' (Some (ex_user 1)) ''ABC234'' ?b ?d = ((200, ans), d')"
    by (simp add: key_request_approve_def f g fields ak_Create_def new_key_def kr_UpdateStatus_def exec_def db_ok_def e Let_def)
  from grant_within_request [OF run f] run show ?thesis by (auto simp: empty_db_def ex_user_def)
qed

lemma poll_preempts_exchange_witness:
  "\<exists>a d'. key_request_status 5 ''ABC234''
      (empty_db\<lparr>db_requests := [ex_key_request\<lparr>kr_Status := ''approved'', kr_ApprovedKeyID := Some 7, kr_ExchangeCode := Some ''x9''\<rparr>],
        db_keys := [ex_key 7 1 ''k9'']\<rparr>) = (a, d') \<and> hands_out a (ex_key 7 1 ''k9'')"
proof -
  let ?r = "ex_key_request\<lparr>kr_Status := ''approved'', kr_ApprovedKeyID := Some 7, kr_ExchangeCode := Some ''x9''\<rparr>"
  let ?d = "empty_db\<lparr>db_requests := [?r], db_keys := [ex_key 7 1 ''k9'']\<rparr>"
  have f: "kr_FindByCode ''ABC234'' ?d = DBOk (Some ?r)"
    by (simp add: kr_FindByCode_def get_row_def db_ok_def empty_db_def ex_key_request_def)
  have k: "approved_key ?r ?d = Some (ex_key 7 1 ''k9'')"
    by (simp add: approved_key_def ak_FindByID_def get_row_def db_ok_def int_or_zero_def ex_rows)
  have "\<exists>a d'. key_request_status 5 ''ABC234'' ?d = (a, d') \<and> hands_out a (ex_key 7 1 ''k9'') \<and>
    key_request_exchange 6 (True, ''x9'') d' = (WriteError 410 ''Exchange code has already been used or request was denied'', d') \<and>
    snd (fst (key_request_status 7 ''ABC234'' d')) = [(''status'', JStr ''exchanged''), (''message'', JStr ''API key has already been retrieved'')]"
    by (rule poll_preempts_exchange [OF f _ k]) (simp_all add: empty_db_def)
  then show ?thesis by blast
qed

end
