(* ===== verification/Pending.thy ===== *)
theory Pending
  imports Prelude
begin

text \<open>
  The table of in-flight requests, \<open>internal/ws/pending.go\<close>.

  A response channel is shared by the table and by the goroutine that waits for the answer, so
  channels live in a store of their own, indexed by the identity \<open>make(chan ...)\<close> gives them, and
  a request holds the identity.  \<open>MaxAge\<close>, \<open>Timestamp\<close> and the arguments of the cleanup are
  nanoseconds; \<open>time.Now()\<close> is an argument.  Logging is left out; the
  \<open>WSPendingRequests\<close> gauge is kept.
\<close>

subsection \<open>Message types\<close>

definition PendingRequestTypes :: "string list" where
  "PendingRequestTypes = [
     ''search'', ''entity'', ''structure'', ''contents'', ''create'', ''update'', ''delete'',
     ''rolls'', ''last-roll'', ''roll'', ''macro-execute'', ''macros'', ''encounters'',
     ''start-encounter'', ''next-turn'', ''next-round'', ''last-turn'', ''last-round'',
     ''end-encounter'', ''add-to-encounter'', ''remove-from-encounter'', ''kill'',
     ''decrease'', ''increase'', ''give'', ''remove'', ''execute-js'', ''select'',
     ''selected'', ''file-system'', ''upload-file'', ''download-file'', ''get-actor-details'',
     ''modify-item-charges'', ''use-ability'', ''use-feature'', ''use-spell'', ''use-item'',
     ''modify-experience'', ''add-item'', ''remove-item'', ''get-folder'', ''create-folder'',
     ''delete-folder'', ''players'', ''get-scene'', ''create-scene'', ''update-scene'',
     ''delete-scene'', ''switch-scene'', ''get-canvas-documents'', ''create-canvas-document'',
     ''update-canvas-document'', ''delete-canvas-document'', ''chat-messages'', ''chat-send'',
     ''chat-delete'', ''chat-flush'', ''short-rest'', ''long-rest'', ''skill-check'',
     ''ability-save'', ''ability-check'', ''death-save'', ''get-effects'', ''add-effect'',
     ''remove-effect'', ''get-status-effects'', ''sheet-screenshot'', ''move-token'',
     ''measure-distance'', ''get-playlists'', ''playlist-play'', ''playlist-stop'',
     ''playlist-next'', ''playlist-volume'', ''play-sound'', ''stop-sound'', ''world-info'',
     ''get-concentration'', ''break-concentration'', ''concentration-save'', ''equip-item'',
     ''attune-item'', ''transfer-currency'', ''modify-currency'', ''prepare-spell'',
     ''scene-screenshot'', ''scene-raw-image'', ''get-users'', ''get-user'', ''create-user'',
     ''update-user'', ''delete-user'']"

subsection \<open>Requests, responses and channels\<close>

record WSResponse =
  StatusCode :: nat
  Data :: "obj option"
  RawData :: "string option"

text \<open>
  \<open>Writer\<close> and \<open>Flusher\<close> are never set or read by the relay; of \<open>WSCallback\<close> only whether it is
  set is ever used.  The optional scale is a float the relay only carries.
\<close>

record PendingRequest =
  pr_ResponseCh :: nat
  pr_Type :: string
  pr_ClientID :: string
  pr_UUID :: string
  pr_Path :: string
  pr_Query :: string
  pr_Filter :: string
  pr_Format :: string
  pr_ActiveTab :: "int option"
  pr_DarkMode :: bool
  pr_InitScale :: "json option"
  pr_Timestamp :: gotime
  pr_MaxAge :: int
  pr_WSCallback :: bool

record chan =
  ch_cap :: nat
  ch_buf :: "WSResponse list"

type_synonym chans = "(nat, chan) gomap"

text \<open>\<open>select { case ch <- resp: default: }\<close>: the flag says whether the value went in.\<close>

definition chan_try_send :: "nat \<Rightarrow> WSResponse \<Rightarrow> chans \<Rightarrow> bool \<times> chans" where
  "chan_try_send ch resp cs =
     (case aget cs ch of
        None \<Rightarrow> (False, cs)
      | Some c \<Rightarrow>
          if length (ch_buf c) < ch_cap c
          then (True, aput ch (c\<lparr>ch_buf := ch_buf c @ [resp]\<rparr>) cs)
          else (False, cs))"

record pending_state =
  ps_requests :: "(string, PendingRequest) gomap"
  ps_gauge :: int
  ps_chans :: chans

definition NewPendingRequests :: pending_state where
  "NewPendingRequests = \<lparr>ps_requests = [], ps_gauge = 0, ps_chans = []\<rparr>"

subsection \<open>Operations\<close>

definition Store :: "string \<Rightarrow> PendingRequest \<Rightarrow> pending_state \<Rightarrow> pending_state" where
  "Store rid req p =
     (let reqs = aput rid req (ps_requests p); count = length reqs
      in p\<lparr>ps_requests := reqs, ps_gauge := int count\<rparr>)"

definition Count :: "pending_state \<Rightarrow> nat" where
  "Count p = length (ps_requests p)"

definition Load :: "string \<Rightarrow> pending_state \<Rightarrow> PendingRequest option" where
  "Load rid p = aget (ps_requests p) rid"

definition Delete :: "string \<Rightarrow> pending_state \<Rightarrow> pending_state" where
  "Delete rid p =
     (let reqs = adel rid (ps_requests p); count = length reqs
      in p\<lparr>ps_requests := reqs, ps_gauge := int count\<rparr>)"

text \<open>Outside the lock: the response is offered to the channel, or dropped when it is full.\<close>

definition offer :: "PendingRequest \<Rightarrow> WSResponse \<Rightarrow> pending_state \<Rightarrow> pending_state" where
  "offer req resp p = p\<lparr>ps_chans := snd (chan_try_send (pr_ResponseCh req) resp (ps_chans p))\<rparr>"

definition Resolve :: "string \<Rightarrow> nat \<Rightarrow> obj \<Rightarrow> pending_state \<Rightarrow> pending_state" where
  "Resolve rid statusCode data p =
     (case aget (ps_requests p) rid of
        None \<Rightarrow> p
      | Some req \<Rightarrow>
          (let p' = p\<lparr>ps_requests := adel rid (ps_requests p)\<rparr>;
               resp = \<lparr>StatusCode = statusCode, Data = Some data, RawData = None\<rparr>
           in offer req resp p'))"

definition ResolveRaw :: "string \<Rightarrow> nat \<Rightarrow> string \<Rightarrow> pending_state \<Rightarrow> pending_state" where
  "ResolveRaw rid statusCode raw p =
     (case aget (ps_requests p) rid of
        None \<Rightarrow> p
      | Some req \<Rightarrow>
          (let p' = p\<lparr>ps_requests := adel rid (ps_requests p)\<rparr>;
               resp = \<lparr>StatusCode = statusCode, Data = None, RawData = Some raw\<rparr>
           in offer req resp p'))"

definition req_stale :: "gotime \<Rightarrow> int \<Rightarrow> PendingRequest \<Rightarrow> bool" where
  "req_stale now maxAge req =
     (let age = (if pr_MaxAge req > 0 then pr_MaxAge req else maxAge)
      in pr_Timestamp req < now + (- age))"

text \<open>The loop under the lock: \<open>range\<close> over the map, deleting as it goes.\<close>

fun CleanupStale_loop ::
    "gotime \<Rightarrow> int \<Rightarrow> (string \<times> PendingRequest) list \<Rightarrow>
     (string, PendingRequest) gomap \<Rightarrow> PendingRequest list \<Rightarrow>
     (string, PendingRequest) gomap \<times> PendingRequest list" where
  "CleanupStale_loop now maxAge [] reqs stale = (reqs, stale)"
| "CleanupStale_loop now maxAge ((rid, req) # rest) reqs stale =
     (if req_stale now maxAge req
      then CleanupStale_loop now maxAge rest (adel rid reqs) (stale @ [req])
      else CleanupStale_loop now maxAge rest reqs stale)"

definition timeout_response :: WSResponse where
  "timeout_response =
     \<lparr>StatusCode = 408, Data = Some [(''error'', JStr ''request timeout'')], RawData = None\<rparr>"

definition CleanupStale :: "gotime \<Rightarrow> int \<Rightarrow> pending_state \<Rightarrow> pending_state" where
  "CleanupStale now maxAge p =
     (let (reqs, stale) = CleanupStale_loop now maxAge (ps_requests p) (ps_requests p) [];
          count = length reqs;
          p' = p\<lparr>ps_requests := reqs, ps_gauge := int count\<rparr>
      in fold (\<lambda>req p. offer req timeout_response p) stale p')"

subsection \<open>Basic facts\<close>

lemma ps_requests_offer [simp]: "ps_requests (offer req resp p) = ps_requests p"
  by (simp add: offer_def)

lemma ps_gauge_offer [simp]: "ps_gauge (offer req resp p) = ps_gauge p"
  by (simp add: offer_def)

lemma ps_requests_fold_offer [simp]:
  "ps_requests (fold (\<lambda>req p. offer req resp p) rs p) = ps_requests p"
  by (induction rs arbitrary: p) auto

lemma ps_gauge_fold_offer [simp]:
  "ps_gauge (fold (\<lambda>req p. offer req resp p) rs p) = ps_gauge p"
  by (induction rs arbitrary: p) auto

lemma Resolve_requests [simp]: "ps_requests (Resolve rid sc d p) = adel rid (ps_requests p)"
  by (simp add: Resolve_def Let_def split: option.splits)

lemma ResolveRaw_requests [simp]: "ps_requests (ResolveRaw rid sc d p) = adel rid (ps_requests p)"
  by (simp add: ResolveRaw_def Let_def split: option.splits)

lemma Resolve_gauge [simp]: "ps_gauge (Resolve rid sc d p) = ps_gauge p"
  by (simp add: Resolve_def Let_def split: option.splits)

lemma ResolveRaw_gauge [simp]: "ps_gauge (ResolveRaw rid sc d p) = ps_gauge p"
  by (simp add: ResolveRaw_def Let_def split: option.splits)

lemma CleanupStale_loop_spec:
  assumes "distinct (akeys rest)"
  shows "CleanupStale_loop now maxAge rest reqs stale =
    (filter (\<lambda>kv. \<not> (kv \<in> set rest \<and> req_stale now maxAge (snd kv)) \<and>
                  \<not> (\<exists>r. (fst kv, r) \<in> set rest \<and> req_stale now maxAge r)) reqs,
     stale @ map snd (filter (\<lambda>kv. req_stale now maxAge (snd kv)) rest))"
  using assms
proof (induction now maxAge rest reqs stale rule: CleanupStale_loop.induct)
  case (1 now maxAge reqs stale)
  then show ?case by simp
next
  case (2 now maxAge rid req rest reqs stale)
  show ?case
  proof (cases "req_stale now maxAge req")
    case True
    have "filter (\<lambda>kv. \<not> (kv \<in> set rest \<and> req_stale now maxAge (snd kv)) \<and>
                  \<not> (\<exists>r. (fst kv, r) \<in> set rest \<and> req_stale now maxAge r)) (adel rid reqs) =
      filter (\<lambda>kv. \<not> (kv \<in> set ((rid, req) # rest) \<and> req_stale now maxAge (snd kv)) \<and>
         \<not> (\<exists>r. (fst kv, r) \<in> set ((rid, req) # rest) \<and> req_stale now maxAge r)) reqs"
      using True by (auto simp: adel_filter intro: filter_cong)
    then show ?thesis using True 2 by simp
  next
    case False
    then show ?thesis using 2 by (auto intro!: filter_cong)
  qed
qed

lemma CleanupStale_loop_wf:
  assumes "wf_map reqs"
  shows "CleanupStale_loop now maxAge reqs reqs [] =
    (filter (\<lambda>kv. \<not> req_stale now maxAge (snd kv)) reqs,
     map snd (filter (\<lambda>kv. req_stale now maxAge (snd kv)) reqs))"
proof -
  have uniq: "r = r'" if "(k, r) \<in> set reqs" "(k, r') \<in> set reqs" for k r r'
    using that assms by (metis aget_iff_in_set option.inject)
  have "filter (\<lambda>kv. \<not> (kv \<in> set reqs \<and> req_stale now maxAge (snd kv)) \<and>
                  \<not> (\<exists>r. (fst kv, r) \<in> set reqs \<and> req_stale now maxAge r)) reqs =
      filter (\<lambda>kv. \<not> req_stale now maxAge (snd kv)) reqs"
    by (rule filter_cong) (auto dest: uniq)
  then show ?thesis
    using assms by (simp add: CleanupStale_loop_spec wf_map_def)
qed

lemma CleanupStale_requests:
  "wf_map (ps_requests p) \<Longrightarrow>
   ps_requests (CleanupStale now maxAge p) =
     filter (\<lambda>kv. \<not> req_stale now maxAge (snd kv)) (ps_requests p)"
  by (simp add: CleanupStale_def CleanupStale_loop_wf)

subsection \<open>The contract the handlers rely on\<close>

text \<open>
  A handler registers a request, forgets it on its own timeout, and the module's answer resolves
  it.  What makes this safe is that an answer to an unknown identifier changes nothing.
\<close>

locale response_table =
  fixes store :: "string \<Rightarrow> 'r \<Rightarrow> 's \<Rightarrow> 's"
    and load :: "string \<Rightarrow> 's \<Rightarrow> 'r option"
    and delete :: "string \<Rightarrow> 's \<Rightarrow> 's"
    and resolve :: "string \<Rightarrow> 'a \<Rightarrow> 's \<Rightarrow> 's"
  assumes load_store: "load rid' (store rid r s) = (if rid' = rid then Some r else load rid' s)"
    and load_delete: "load rid' (delete rid s) = (if rid' = rid then None else load rid' s)"
    and load_resolve: "load rid' (resolve rid a s) = (if rid' = rid then None else load rid' s)"
    and resolve_unknown: "load rid s = None \<Longrightarrow> resolve rid a s = s"
begin

lemma resolve_twice: "resolve rid b (resolve rid a s) = resolve rid a s"
  by (rule resolve_unknown) (simp add: load_resolve)

lemma late_answer_ignored: "resolve rid a (delete rid s) = delete rid s"
  by (rule resolve_unknown) (simp add: load_delete)

lemma late_answers_ignored: "fold (resolve rid) as (delete rid s) = delete rid s"
  by (induction as) (simp_all add: late_answer_ignored)

lemma first_answer_wins: "fold (resolve rid) as (resolve rid a s) = resolve rid a s"
  by (induction as) (simp_all add: resolve_twice)

end

interpretation json_table: response_table Store Load Delete "\<lambda>rid (sc, d). Resolve rid sc d"
  by unfold_locales
    (auto simp: Store_def Load_def Delete_def Let_def, simp add: Resolve_def Load_def)

interpretation raw_table: response_table Store Load Delete "\<lambda>rid (sc, d). ResolveRaw rid sc d"
  by unfold_locales
    (auto simp: Store_def Load_def Delete_def Let_def, simp add: ResolveRaw_def Load_def)

definition pending_wf :: "pending_state \<Rightarrow> bool" where
  "pending_wf p \<longleftrightarrow> wf_map (ps_requests p)"

lemma pending_wf_Store [inv_intros]: "pending_wf p \<Longrightarrow> pending_wf (Store rid req p)"
  by (simp add: pending_wf_def Store_def Let_def)

lemma pending_wf_Delete [inv_intros]: "pending_wf p \<Longrightarrow> pending_wf (Delete rid p)"
  by (simp add: pending_wf_def Delete_def Let_def)

lemma pending_wf_Resolve [inv_intros]: "pending_wf p \<Longrightarrow> pending_wf (Resolve rid sc d p)"
  by (simp add: pending_wf_def)

lemma pending_wf_ResolveRaw [inv_intros]: "pending_wf p \<Longrightarrow> pending_wf (ResolveRaw rid sc d p)"
  by (simp add: pending_wf_def)

lemma pending_wf_CleanupStale [inv_intros]: "pending_wf p \<Longrightarrow> pending_wf (CleanupStale now a p)"
  by (simp add: pending_wf_def CleanupStale_requests)

subsection \<open>Correctness\<close>

lemma chan_after_fold:
  assumes "distinct (map pr_ResponseCh reqs)"
    and "aget (ps_chans p) ch = Some c"
  shows "aget (ps_chans (fold (\<lambda>req p. offer req resp p) reqs p)) ch =
    Some (if ch \<in> pr_ResponseCh ` set reqs \<and> length (ch_buf c) < ch_cap c
          then c\<lparr>ch_buf := ch_buf c @ [resp]\<rparr> else c)"
  using assms
proof (induction reqs arbitrary: p c)
  case Nil
  then show ?case by simp
next
  case (Cons req reqs)
  show ?case
  proof (cases "pr_ResponseCh req = ch")
    case True
    define c' where "c' = (if length (ch_buf c) < ch_cap c then c\<lparr>ch_buf := ch_buf c @ [resp]\<rparr> else c)"
    have "aget (ps_chans (offer req resp p)) ch = Some c'"
      using Cons.prems True by (simp add: offer_def chan_try_send_def c'_def)
    moreover have "ch \<notin> pr_ResponseCh ` set reqs"
      using Cons.prems True by auto
    ultimately show ?thesis
      using Cons.IH [of "offer req resp p" c'] Cons.prems True by (simp add: c'_def)
  next
    case False
    have "aget (ps_chans (offer req resp p)) ch = Some c"
      using Cons.prems False
      by (simp add: offer_def chan_try_send_def split: option.splits)
    then show ?thesis
      using Cons.IH [of "offer req resp p" c] Cons.prems False by auto
  qed
qed

definition chans_distinct :: "pending_state \<Rightarrow> bool" where
  "chans_distinct p \<longleftrightarrow> distinct (map (\<lambda>kv. pr_ResponseCh (snd kv)) (ps_requests p))"

text \<open>C11: A cleanup pass removes exactly the stale requests, gives each of them exactly one timeout
  response when its channel has room, leaves every other request and channel alone, and the
  gauge then shows the number of requests.\<close>

theorem cleanup_exact:
  assumes "pending_wf p" and "chans_distinct p"
    and "Load rid p = Some req" and "aget (ps_chans p) (pr_ResponseCh req) = Some c"
  shows "let q = CleanupStale now maxAge p in
    Load rid q = (if req_stale now maxAge req then None else Some req) \<and>
    aget (ps_chans q) (pr_ResponseCh req) =
      Some (if req_stale now maxAge req \<and> length (ch_buf c) < ch_cap c
            then c\<lparr>ch_buf := ch_buf c @ [timeout_response]\<rparr> else c) \<and>
    ps_gauge q = int (Count q)"
proof -
  define q where "q = CleanupStale now maxAge p"
  let ?R = "ps_requests p" and ?P = "\<lambda>kv. req_stale now maxAge (snd kv)"
  let ?stale = "map snd (filter ?P ?R)"
  have wf: "wf_map ?R" using assms(1) by (simp add: pending_wf_def)
  have found: "aget ?R rid = Some req" using assms(3) by (simp add: Load_def)
  have q: "q = fold (\<lambda>req p. offer req timeout_response p) ?stale
      (p\<lparr>ps_requests := filter (\<lambda>kv. \<not> ?P kv) ?R, ps_gauge := int (length (filter (\<lambda>kv. \<not> ?P kv) ?R))\<rparr>)"
    by (simp add: q_def CleanupStale_def CleanupStale_loop_wf [OF wf] Let_def)
  have "Load rid q = (if req_stale now maxAge req then None else Some req)"
    using found aget_filter [OF wf, of "\<lambda>k r. \<not> req_stale now maxAge r" rid]
    by (simp add: q Load_def)
  moreover have "distinct (map pr_ResponseCh ?stale)"
    using assms(2) by (simp add: chans_distinct_def o_def distinct_map_filter)
  moreover have "pr_ResponseCh req \<in> pr_ResponseCh ` set ?stale \<longleftrightarrow> req_stale now maxAge req"
  proof
    assume "pr_ResponseCh req \<in> pr_ResponseCh ` set ?stale"
    then obtain kv where kv: "kv \<in> set ?R" "?P kv" "pr_ResponseCh (snd kv) = pr_ResponseCh req"
      by auto
    moreover have "(rid, req) \<in> set ?R" using found by (rule aget_in_set)
    ultimately have "kv = (rid, req)"
      using assms(2) by (auto simp: chans_distinct_def distinct_map inj_on_def)
    then show "req_stale now maxAge req" using kv by simp
  next
    assume "req_stale now maxAge req"
    then show "pr_ResponseCh req \<in> pr_ResponseCh ` set ?stale"
      using aget_in_set [OF found] by force
  qed
  ultimately show ?thesis
    using assms(4) by (simp add: q_def [symmetric] Let_def) (simp add: q chan_after_fold Count_def)
qed

text \<open>The first answer to a request settles it: whatever further answers arrive for the same
  identifier, the waiting channel holds that first response and nothing else, the request is
  gone, and every other request is untouched.\<close>

theorem first_answer_settles:
  assumes "Load rid p = Some req"
    and "aget (ps_chans p) (pr_ResponseCh req) = Some \<lparr>ch_cap = 1, ch_buf = []\<rparr>"
  shows "let q = fold (\<lambda>(sc, d). Resolve rid sc d) late (Resolve rid sc d p) in
    aget (ps_chans q) (pr_ResponseCh req) =
      Some \<lparr>ch_cap = 1, ch_buf = [\<lparr>StatusCode = sc, Data = Some d, RawData = None\<rparr>]\<rparr> \<and>
    Load rid q = None \<and> (\<forall>rid' \<in> - {rid}. Load rid' q = Load rid' p)"
proof -
  have "fold (\<lambda>(sc, d). Resolve rid sc d) late (Resolve rid sc d p) = Resolve rid sc d p"
    using json_table.first_answer_wins [of rid late "(sc, d)" p]
    by (simp add: case_prod_unfold)
  then show ?thesis
    using assms by (simp add: Load_def Let_def) (simp add: Resolve_def Load_def offer_def chan_try_send_def Let_def)
qed

definition ex_req :: "nat \<Rightarrow> gotime \<Rightarrow> PendingRequest" where
  "ex_req ch t = \<lparr>pr_ResponseCh = ch, pr_Type = ''search'', pr_ClientID = ''fvtt_1'', pr_UUID = [],
     pr_Path = [], pr_Query = ''q'', pr_Filter = [], pr_Format = [], pr_ActiveTab = None,
     pr_DarkMode = False, pr_InitScale = None, pr_Timestamp = t, pr_MaxAge = 0, pr_WSCallback = False\<rparr>"

definition ex_pending :: pending_state where
  "ex_pending = \<lparr>ps_requests = [(''a'', ex_req 1 0), (''b'', ex_req 2 50)], ps_gauge = 2,
     ps_chans = [(1, \<lparr>ch_cap = 1, ch_buf = []\<rparr>), (2, \<lparr>ch_cap = 1, ch_buf = []\<rparr>)]\<rparr>"

lemma cleanup_exact_witness:
  "Load ''a'' (CleanupStale 100 60 ex_pending) = None \<and>
   Load ''b'' (CleanupStale 100 60 ex_pending) = Some (ex_req 2 50)"
  using cleanup_exact [of ex_pending "''a''" "ex_req 1 0" "\<lparr>ch_cap = 1, ch_buf = []\<rparr>" 100 60]
    cleanup_exact [of ex_pending "''b''" "ex_req 2 50" "\<lparr>ch_cap = 1, ch_buf = []\<rparr>" 100 60]
  by (simp add: ex_pending_def ex_req_def pending_wf_def wf_map_def chans_distinct_def Load_def req_stale_def Let_def)

lemma first_answer_settles_witness:
  "Load ''b'' (fold (\<lambda>(sc, d). Resolve ''a'' sc d) [(500, [])] (Resolve ''a'' 200 [] ex_pending)) =
     Some (ex_req 2 50)"
  using first_answer_settles [of "''a''" ex_pending "ex_req 1 0" "[(500, [])]" 200 "[]"]
  by (simp add: ex_pending_def ex_req_def Load_def Let_def)

end
