(* ===== verification/Delivery.thy ===== *)
theory Delivery
  imports Pending
begin

text \<open>
  The table of in-flight requests under concurrency.  The functions of \<open>internal/ws/pending.go\<close>
  take a request out of the table under the lock and send the response after releasing it, so
  between the two any other goroutine may run.  The handlers of files and screenshots
  (\<open>internal/ws/message_handlers.go\<close>) do not even take it out in one step: they load the request, delete
  its identifier and send, each on its own.  Here each critical section and each channel
  operation is a step of its own, any interleaving of them is a run, and the steps of one
  \<open>Resolve\<close> are shown to be such a run.
\<close>

record delivery =
  dl_table :: pending_state
  dl_inflight :: "(nat \<times> WSResponse) list"  \<comment> \<open>taken from the table, not yet sent\<close>
  dl_loaded :: "(string \<times> nat \<times> WSResponse) list"  \<comment> \<open>loaded by a handler of bytes, not yet deleted\<close>
  dl_direct :: "nat list"  \<comment> \<open>the channels such handlers have loaded\<close>
  dl_received :: "(nat \<times> WSResponse) list"  \<comment> \<open>read by the waiting goroutine\<close>
  dl_dropped :: "(nat \<times> WSResponse) list"   \<comment> \<open>the \<open>default\<close> branch of the send\<close>

definition delivery_init :: delivery where
  "delivery_init =
     \<lparr>dl_table = NewPendingRequests, dl_inflight = [], dl_loaded = [], dl_direct = [], dl_received = [], dl_dropped = []\<rparr>"

definition new_chan :: "nat \<Rightarrow> pending_state \<Rightarrow> pending_state" where
  "new_chan ch p = p\<lparr>ps_chans := aput ch \<lparr>ch_cap = 1, ch_buf = []\<rparr> (ps_chans p)\<rparr>"

definition take_out :: "string \<Rightarrow> pending_state \<Rightarrow> pending_state" where
  "take_out rid p = p\<lparr>ps_requests := adel rid (ps_requests p)\<rparr>"

definition expire_section :: "gotime \<Rightarrow> int \<Rightarrow> pending_state \<Rightarrow> pending_state \<times> PendingRequest list" where
  "expire_section now maxAge p =
     (let (reqs, stale) = CleanupStale_loop now maxAge (ps_requests p) (ps_requests p) []
      in (p\<lparr>ps_requests := reqs, ps_gauge := int (length reqs)\<rparr>, stale))"

inductive dstep :: "delivery \<Rightarrow> delivery \<Rightarrow> bool" where
  register:
    "\<lbrakk>aget (ps_chans (dl_table s)) ch = None; pr_ResponseCh req = ch\<rbrakk> \<Longrightarrow>
     dstep s (s\<lparr>dl_table := Store rid req (new_chan ch (dl_table s))\<rparr>)"
| forget:
    "dstep s (s\<lparr>dl_table := Delete rid (dl_table s)\<rparr>)"
| take:
    "Load rid (dl_table s) = Some req \<Longrightarrow>
     dstep s (s\<lparr>dl_table := take_out rid (dl_table s),
               dl_inflight := dl_inflight s @ [(pr_ResponseCh req, resp)]\<rparr>)"
| load_direct:
    "Load rid (dl_table s) = Some req \<Longrightarrow>
     dstep s (s\<lparr>dl_loaded := dl_loaded s @ [(rid, pr_ResponseCh req, resp)],
               dl_direct := pr_ResponseCh req # dl_direct s\<rparr>)"
| delete_direct:
    "dl_loaded s = xs @ (rid, ch, resp) # ys \<Longrightarrow>
     dstep s (s\<lparr>dl_table := Delete rid (dl_table s), dl_loaded := xs @ ys,
               dl_inflight := dl_inflight s @ [(ch, resp)]\<rparr>)"
| expire:
    "expire_section now maxAge (dl_table s) = (p, stale) \<Longrightarrow>
     dstep s (s\<lparr>dl_table := p,
               dl_inflight := dl_inflight s @ map (\<lambda>r. (pr_ResponseCh r, timeout_response)) stale\<rparr>)"
| send:
    "\<lbrakk>dl_inflight s = xs @ (ch, resp) # ys;
      chan_try_send ch resp (ps_chans (dl_table s)) = (True, cs)\<rbrakk> \<Longrightarrow>
     dstep s (s\<lparr>dl_table := (dl_table s)\<lparr>ps_chans := cs\<rparr>, dl_inflight := xs @ ys\<rparr>)"
| drop:
    "\<lbrakk>dl_inflight s = xs @ (ch, resp) # ys;
      chan_try_send ch resp (ps_chans (dl_table s)) = (False, cs)\<rbrakk> \<Longrightarrow>
     dstep s (s\<lparr>dl_inflight := xs @ ys, dl_dropped := dl_dropped s @ [(ch, resp)]\<rparr>)"
| receive:
    "\<lbrakk>aget (ps_chans (dl_table s)) ch = Some c; ch_buf c = resp # rest\<rbrakk> \<Longrightarrow>
     dstep s (s\<lparr>dl_table := (dl_table s)\<lparr>ps_chans :=
                  aput ch (c\<lparr>ch_buf := rest\<rparr>) (ps_chans (dl_table s))\<rparr>,
               dl_received := dl_received s @ [(ch, resp)]\<rparr>)"

inductive reachable :: "delivery \<Rightarrow> bool" where
  start: "reachable delivery_init"
| step: "\<lbrakk>reachable s; dstep s t\<rbrakk> \<Longrightarrow> reachable t"

subsection \<open>A channel carries at most one token\<close>

text \<open>
  A channel's token is, at any time, the request in the table that names it, a response on its
  way to it, a response in its buffer, or a response already read from it.  The handlers of bytes
  make a second one when another goroutine takes the request between their load and their delete.
\<close>

definition reqs_on :: "nat \<Rightarrow> (string, PendingRequest) gomap \<Rightarrow> nat" where
  "reqs_on ch m = length (filter (\<lambda>kv. pr_ResponseCh (snd kv) = ch) m)"

definition resps_on :: "nat \<Rightarrow> (nat \<times> WSResponse) list \<Rightarrow> nat" where
  "resps_on ch xs = length (filter (\<lambda>x. fst x = ch) xs)"

definition buffered :: "nat \<Rightarrow> chans \<Rightarrow> nat" where
  "buffered ch cs = (case aget cs ch of None \<Rightarrow> 0 | Some c \<Rightarrow> length (ch_buf c))"

definition tokens :: "delivery \<Rightarrow> nat \<Rightarrow> nat" where
  "tokens s ch =
     reqs_on ch (ps_requests (dl_table s)) + resps_on ch (dl_inflight s)
     + buffered ch (ps_chans (dl_table s)) + resps_on ch (dl_received s)"

text \<open>What has been put into a channel: read or still in the buffer.\<close>

definition answers :: "delivery \<Rightarrow> nat \<Rightarrow> nat" where
  "answers s ch = buffered ch (ps_chans (dl_table s)) + resps_on ch (dl_received s)"

definition delivery_inv :: "delivery \<Rightarrow> bool" where
  "delivery_inv s \<longleftrightarrow>
     pending_wf (dl_table s) \<and>
     (\<forall>ch. ch \<notin> set (dl_direct s) \<longrightarrow> tokens s ch \<le> 1) \<and>
     (\<forall>ch. aget (ps_chans (dl_table s)) ch = None \<longrightarrow> tokens s ch = 0 \<and> ch \<notin> set (dl_direct s)) \<and>
     (\<forall>ch c. aget (ps_chans (dl_table s)) ch = Some c \<longrightarrow> ch_cap c = 1) \<and>
     (\<forall>ch. 0 < reqs_on ch (ps_requests (dl_table s)) \<longrightarrow> tokens s ch = 1) \<and>
     (\<forall>(rid, ch, resp) \<in> set (dl_loaded s). ch \<in> set (dl_direct s) \<and>
        (\<forall>k r. aget (ps_requests (dl_table s)) k = Some r \<longrightarrow> pr_ResponseCh r = ch \<longrightarrow> k = rid)) \<and>
     (\<forall>(ch, resp) \<in> set (dl_dropped s). ch \<in> set (dl_direct s) \<and> 1 \<le> answers s ch)"

lemma resps_on_simps [simp]:
  "resps_on ch [] = 0"
  "resps_on ch (x # xs) = (if fst x = ch then 1 else 0) + resps_on ch xs"
  "resps_on ch (xs @ ys) = resps_on ch xs + resps_on ch ys"
  by (simp_all add: resps_on_def)

lemma reqs_on_simps [simp]:
  "reqs_on ch [] = 0"
  "reqs_on ch (kv # m) = (if pr_ResponseCh (snd kv) = ch then 1 else 0) + reqs_on ch m"
  by (simp_all add: reqs_on_def)

lemma reqs_on_aput: "reqs_on ch (aput rid req m) \<le> (if pr_ResponseCh req = ch then 1 else 0) + reqs_on ch m"
  by (induction m) auto

lemma reqs_on_adel: "reqs_on ch (adel rid m) \<le> reqs_on ch m"
  by (induction m) auto

lemma reqs_on_adel_found:
  "aget m rid = Some req \<Longrightarrow>
   reqs_on ch (adel rid m) + (if pr_ResponseCh req = ch then 1 else 0) \<le> reqs_on ch m"
proof (induction m)
  case (Cons kv m)
  then show ?case
    using reqs_on_adel [of ch rid m] by (cases kv) (auto split: if_splits)
qed simp

lemma reqs_on_split:
  "reqs_on ch (filter (\<lambda>kv. \<not> P (snd kv)) m)
   + resps_on ch (map (\<lambda>r. (pr_ResponseCh r, resp)) (map snd (filter (\<lambda>kv. P (snd kv)) m)))
   = reqs_on ch m"
  by (induction m) auto

lemma buffered_aput [simp]:
  "buffered ch (aput ch' c cs) = (if ch = ch' then length (ch_buf c) else buffered ch cs)"
  by (simp add: buffered_def)

lemmas delivery_defs =
  delivery_inv_def tokens_def answers_def pending_wf_def Store_def Delete_def new_chan_def take_out_def Let_def

lemma inv_init: "delivery_inv delivery_init"
  by (simp add: delivery_defs delivery_init_def NewPendingRequests_def buffered_def)

lemma inv_register:
  assumes inv: "delivery_inv s" and fresh: "aget (ps_chans (dl_table s)) (pr_ResponseCh req) = None"
  shows "delivery_inv (s\<lparr>dl_table := Store rid req (new_chan (pr_ResponseCh req) (dl_table s))\<rparr>)"
    (is "delivery_inv ?t")
proof -
  let ?ch = "pr_ResponseCh req"
  have zero: "tokens s ?ch = 0" and nd: "?ch \<notin> set (dl_direct s)"
    using inv fresh by (simp_all add: delivery_inv_def)
  have buf: "buffered ?ch (ps_chans (dl_table s)) = 0"
    using fresh by (simp add: buffered_def)
  have t_eq: "tokens ?t ch = reqs_on ch (aput rid req (ps_requests (dl_table s)))
      + resps_on ch (dl_inflight s) + (if ch = ?ch then 0 else buffered ch (ps_chans (dl_table s)))
      + resps_on ch (dl_received s)" for ch
    by (simp add: tokens_def Store_def new_chan_def Let_def)
  have bound: "tokens ?t ch \<le> (if ch = ?ch then 1 else tokens s ch)" for ch
  proof (cases "ch = ?ch")
    case True
    then show ?thesis
      using zero reqs_on_aput [of ch rid req "ps_requests (dl_table s)"]
      unfolding t_eq by (simp add: tokens_def)
  next
    case False
    then show ?thesis
      using reqs_on_aput [of ch rid req "ps_requests (dl_table s)"]
      unfolding t_eq by (simp add: tokens_def)
  qed
  have one: "ch \<notin> set (dl_direct s) \<Longrightarrow> tokens s ch \<le> 1" for ch
    using inv by (simp add: delivery_inv_def)
  have le: "ch \<notin> set (dl_direct s) \<Longrightarrow> tokens ?t ch \<le> 1" for ch
    using bound [of ch] one [of ch] by (cases "ch = ?ch") simp_all
  have le0: "tokens ?t ch \<le> tokens s ch" if "ch \<noteq> ?ch" for ch
    using bound [of ch] that by simp
  have "tokens ?t ch = 0 \<and> ch \<notin> set (dl_direct s)" if "aget (ps_chans (dl_table ?t)) ch = None" for ch
  proof -
    from that have ne: "ch \<noteq> ?ch" and "aget (ps_chans (dl_table s)) ch = None"
      by (auto simp: Store_def new_chan_def Let_def split: if_splits)
    then have "tokens s ch = 0 \<and> ch \<notin> set (dl_direct s)"
      using inv by (simp add: delivery_inv_def)
    with le0 [OF ne] show ?thesis by simp
  qed
  moreover have "answers ?t ch = answers s ch" for ch
    using buf by (simp add: answers_def Store_def new_chan_def Let_def)
  moreover have "tokens ?t ch = 1" if "0 < reqs_on ch (ps_requests (dl_table ?t))" for ch
  proof (cases "ch = ?ch")
    case True
    then show ?thesis using bound [of ch] that by (simp add: tokens_def)
  next
    case False
    then have "0 < reqs_on ch (ps_requests (dl_table s))"
      using that reqs_on_aput [of ch rid req "ps_requests (dl_table s)"] by (simp add: Store_def new_chan_def Let_def)
    then have "tokens s ch = 1" using inv by (simp add: delivery_inv_def)
    then show ?thesis using le0 [OF False] that by (simp add: tokens_def)
  qed
  ultimately show ?thesis
    using inv le nd unfolding delivery_inv_def
    by (auto simp: pending_wf_def Store_def new_chan_def Let_def aget_aput split: if_splits)
qed

text \<open>A step that moves or drops tokens, keeps the channels and loses no response.\<close>

lemma inv_mono:
  assumes inv: "delivery_inv s" and "pending_wf (dl_table t)"
    and le: "\<And>ch. ch \<notin> set (dl_direct s) \<or> 0 < reqs_on ch (ps_requests (dl_table t)) \<Longrightarrow> tokens t ch \<le> tokens s ch"
    and live: "\<And>ch. 0 < reqs_on ch (ps_requests (dl_table t)) \<Longrightarrow> 0 < reqs_on ch (ps_requests (dl_table s))"
    and sub: "\<And>k r. aget (ps_requests (dl_table t)) k = Some r \<Longrightarrow> aget (ps_requests (dl_table s)) k = Some r"
    and dom: "\<And>ch. aget (ps_chans (dl_table t)) ch = None \<longleftrightarrow> aget (ps_chans (dl_table s)) ch = None"
    and cap: "\<And>ch c. aget (ps_chans (dl_table t)) ch = Some c \<Longrightarrow>
        \<exists>c'. aget (ps_chans (dl_table s)) ch = Some c' \<and> ch_cap c' = ch_cap c"
    and ans: "\<And>ch. answers s ch \<le> answers t ch"
    and keep: "set (dl_loaded t) \<subseteq> set (dl_loaded s)" "dl_direct t = dl_direct s" "dl_dropped t = dl_dropped s"
  shows "delivery_inv t"
proof -
  have "tokens t ch \<le> 1" if "ch \<notin> set (dl_direct t)" for ch
  proof -
    have "tokens s ch \<le> 1" using inv that keep(2) by (simp add: delivery_inv_def)
    moreover have "tokens t ch \<le> tokens s ch" using le that keep(2) by simp
    ultimately show ?thesis by simp
  qed
  moreover have "tokens t ch = 0 \<and> ch \<notin> set (dl_direct t)" if "aget (ps_chans (dl_table t)) ch = None" for ch
    using inv le [of ch] dom [of ch] that keep(2) by (simp add: delivery_inv_def)
  moreover have "tokens t ch = 1" if "0 < reqs_on ch (ps_requests (dl_table t))" for ch
  proof -
    have "tokens s ch = 1" using inv live [OF that] by (simp add: delivery_inv_def)
    moreover have "tokens t ch \<le> tokens s ch" using le that by blast
    ultimately show ?thesis using that by (simp add: tokens_def)
  qed
  moreover have "ch_cap c = 1" if "aget (ps_chans (dl_table t)) ch = Some c" for ch c
    using cap [OF that] inv by (auto simp: delivery_inv_def)
  moreover have "ch \<in> set (dl_direct t) \<and> 1 \<le> answers t ch" if "(ch, resp) \<in> set (dl_dropped t)" for ch resp
    using inv that keep ans [of ch] by (force simp: delivery_inv_def)
  moreover have "\<forall>(rid, ch, resp) \<in> set (dl_loaded t). ch \<in> set (dl_direct t) \<and>
      (\<forall>k r. aget (ps_requests (dl_table t)) k = Some r \<longrightarrow> pr_ResponseCh r = ch \<longrightarrow> k = rid)"
  proof (intro ballI, clarify)
    fix rid ch resp assume "(rid, ch, resp) \<in> set (dl_loaded t)"
    then have l: "(rid, ch, resp) \<in> set (dl_loaded s)" using keep(1) by blast
    have "ch \<in> set (dl_direct s) \<and>
        (\<forall>k r. aget (ps_requests (dl_table s)) k = Some r \<longrightarrow> pr_ResponseCh r = ch \<longrightarrow> k = rid)"
      using inv l unfolding delivery_inv_def by fast
    then show "ch \<in> set (dl_direct t) \<and>
        (\<forall>k r. aget (ps_requests (dl_table t)) k = Some r \<longrightarrow> pr_ResponseCh r = ch \<longrightarrow> k = rid)"
      using sub keep(2) by metis
  qed
  ultimately show ?thesis
    using assms(2) by (auto simp: delivery_inv_def)
qed

lemma reqs_on_pos: "0 < reqs_on ch m \<longleftrightarrow> (\<exists>k r. (k, r) \<in> set m \<and> pr_ResponseCh r = ch)"
  unfolding reqs_on_def by (fastforce simp: filter_empty_conv)

lemma found_pos: "aget m rid = Some req \<Longrightarrow> 0 < reqs_on (pr_ResponseCh req) m"
  by (auto simp: reqs_on_pos dest: aget_in_set)

lemma found_once:
  assumes "delivery_inv s" and "Load rid (dl_table s) = Some req"
  shows "tokens s (pr_ResponseCh req) = 1"
    and "aget (ps_requests (dl_table s)) k = Some r \<Longrightarrow> pr_ResponseCh r = pr_ResponseCh req \<Longrightarrow> k = rid"
proof -
  let ?m = "ps_requests (dl_table s)" and ?ch = "pr_ResponseCh req"
  have f: "aget ?m rid = Some req" using assms(2) by (simp add: Load_def)
  show one: "tokens s ?ch = 1" using assms(1) found_pos [OF f] by (simp add: delivery_inv_def)
  assume k: "aget ?m k = Some r" "pr_ResponseCh r = ?ch"
  show "k = rid"
  proof (rule ccontr)
    assume "k \<noteq> rid"
    then have "aget (adel rid ?m) k = Some r" using k(1) by (simp add: aget_adel)
    then have "0 < reqs_on ?ch (adel rid ?m)" using found_pos [of "adel rid ?m" k r] k(2) by simp
    then show False using reqs_on_adel_found [OF f, of ?ch] one by (simp add: tokens_def)
  qed
qed

lemma found_has_chan:
  assumes "delivery_inv s" and "Load rid (dl_table s) = Some req"
  shows "aget (ps_chans (dl_table s)) (pr_ResponseCh req) \<noteq> None"
  using found_once(1) [OF assms] assms(1) by (auto simp: delivery_inv_def)

lemma in_flight_not_live:
  assumes "delivery_inv s" and "dl_inflight s = xs @ (ch, resp) # ys"
  shows "reqs_on ch (ps_requests (dl_table s)) = 0" and "tokens s ch \<noteq> 0"
proof -
  have "tokens s ch = 1" if "0 < reqs_on ch (ps_requests (dl_table s))" using assms(1) that by (simp add: delivery_inv_def)
  then show "reqs_on ch (ps_requests (dl_table s)) = 0" using assms(2) by (force simp: tokens_def)
  show "tokens s ch \<noteq> 0" using assms(2) by (simp add: tokens_def)
qed

lemma inv_step:
  assumes "dstep s t" and inv: "delivery_inv s"
  shows "delivery_inv t"
  using assms(1)
proof (cases rule: dstep.cases)
  case (register ch req rid)
  then show ?thesis using inv inv_register by blast
next
  case (forget rid)
  have less: "reqs_on ch (ps_requests (dl_table t)) \<le> reqs_on ch (ps_requests (dl_table s))" for ch
    using reqs_on_adel [of ch rid "ps_requests (dl_table s)"] by (simp add: forget Delete_def Let_def)
  have moved: "tokens t ch \<le> tokens s ch" for ch
    using less [of ch] by (simp add: forget tokens_def Delete_def Let_def)
  show ?thesis
    by (rule inv_mono [OF inv _ moved order.strict_trans2 [OF _ less]])
      (use inv in \<open>auto simp: forget delivery_inv_def pending_wf_def answers_def Delete_def Let_def aget_adel split: if_splits\<close>)
next
  case (take rid req resp)
  have f: "aget (ps_requests (dl_table s)) rid = Some req" using take(2) by (simp add: Load_def)
  have moved: "tokens t ch \<le> tokens s ch" for ch
    using reqs_on_adel_found [OF f, of ch] by (simp add: take(1) tokens_def take_out_def)
  have less: "reqs_on ch (ps_requests (dl_table t)) \<le> reqs_on ch (ps_requests (dl_table s))" for ch
    using reqs_on_adel [of ch rid "ps_requests (dl_table s)"] by (simp add: take(1) take_out_def)
  show ?thesis
    by (rule inv_mono [OF inv _ moved order.strict_trans2 [OF _ less]])
      (use inv in \<open>auto simp: take(1) delivery_inv_def pending_wf_def take_out_def answers_def aget_adel split: if_splits\<close>)
next
  case (load_direct rid req resp)
  have same: "tokens t ch = tokens s ch" "answers t ch = answers s ch" for ch
    by (simp_all add: load_direct(1) tokens_def answers_def)
  show ?thesis
    using inv found_has_chan [OF inv load_direct(2)] found_once(2) [OF inv load_direct(2)]
    unfolding delivery_inv_def same by (auto simp: load_direct(1))
next
  case (delete_direct xs rid ch resp ys)
  have loaded: "(rid, ch, resp) \<in> set (dl_loaded s)" by (simp add: delete_direct(2))
  then have d: "ch \<in> set (dl_direct s)"
      and only: "\<And>k r. aget (ps_requests (dl_table s)) k = Some r \<Longrightarrow> pr_ResponseCh r = ch \<Longrightarrow> k = rid"
    using inv unfolding delivery_inv_def by fast+
  have wf: "wf_map (ps_requests (dl_table s))" using inv by (simp add: delivery_inv_def pending_wf_def)
  have gone: "reqs_on ch (adel rid (ps_requests (dl_table s))) = 0"
  proof (rule ccontr)
    assume "reqs_on ch (adel rid (ps_requests (dl_table s))) \<noteq> 0"
    then obtain k r where kr: "(k, r) \<in> set (adel rid (ps_requests (dl_table s)))" "pr_ResponseCh r = ch"
      using reqs_on_pos by blast
    have "wf_map (adel rid (ps_requests (dl_table s)))" using wf by simp
    then have "aget (adel rid (ps_requests (dl_table s))) k = Some r" using kr(1) by (rule iffD2 [OF aget_iff_in_set])
    then have "aget (ps_requests (dl_table s)) k = Some r" "k \<noteq> rid" by (simp_all add: aget_adel split: if_splits)
    then show False using only kr(2) by blast
  qed
  have less: "reqs_on ch' (ps_requests (dl_table t)) \<le> reqs_on ch' (ps_requests (dl_table s))" for ch'
    using reqs_on_adel [of ch' rid "ps_requests (dl_table s)"] by (simp add: delete_direct(1) Delete_def Let_def)
  have moved: "tokens t ch' \<le> tokens s ch'" if "ch' \<notin> set (dl_direct s) \<or> 0 < reqs_on ch' (ps_requests (dl_table t))" for ch'
    using reqs_on_adel [of ch' rid "ps_requests (dl_table s)"] d that gone
    by (auto simp: delete_direct(1) tokens_def Delete_def Let_def)
  show ?thesis
    by (rule inv_mono [OF inv _ moved order.strict_trans2 [OF _ less]])
      (use inv in \<open>auto simp: delete_direct delivery_inv_def pending_wf_def Delete_def Let_def answers_def aget_adel split: if_splits\<close>)
next
  case (expire now maxAge p stale)
  have wf: "wf_map (ps_requests (dl_table s))"
    using inv by (simp add: delivery_inv_def pending_wf_def)
  let ?P = "req_stale now maxAge"
  have p: "ps_requests p = filter (\<lambda>kv. \<not> ?P (snd kv)) (ps_requests (dl_table s))"
      "ps_chans p = ps_chans (dl_table s)"
      "stale = map snd (filter (\<lambda>kv. ?P (snd kv)) (ps_requests (dl_table s)))"
    using expire(2) by (auto simp: expire_section_def CleanupStale_loop_wf [OF wf])
  have moved: "tokens t ch \<le> tokens s ch" for ch
    using reqs_on_split [of ch ?P "ps_requests (dl_table s)" timeout_response]
    by (simp add: expire(1) tokens_def p)
  have less: "reqs_on ch (ps_requests (dl_table t)) \<le> reqs_on ch (ps_requests (dl_table s))" for ch
    using reqs_on_split [of ch ?P "ps_requests (dl_table s)" timeout_response] by (simp add: expire(1) p)
  have sub: "aget (ps_requests (dl_table t)) k = Some r \<Longrightarrow> aget (ps_requests (dl_table s)) k = Some r" for k r
    using aget_filter [OF wf, of "\<lambda>k r. \<not> ?P r" k] by (simp add: expire(1) p split: option.splits if_splits)
  show ?thesis
    by (rule inv_mono [OF inv _ moved order.strict_trans2 [OF _ less] sub])
      (use inv in \<open>auto simp: expire(1) delivery_inv_def pending_wf_def p answers_def\<close>)
next
  case (send xs ch resp ys cs)
  from send(3) obtain c where c: "aget (ps_chans (dl_table s)) ch = Some c"
      and cs: "cs = aput ch (c\<lparr>ch_buf := ch_buf c @ [resp]\<rparr>) (ps_chans (dl_table s))"
    by (auto simp: chan_try_send_def split: option.splits if_splits)
  have moved: "tokens t ch' \<le> tokens s ch'" for ch'
    using c by (simp add: send(1,2) tokens_def cs) (simp add: buffered_def)
  have more: "answers s ch' \<le> answers t ch'" for ch'
    using c by (simp add: send(1) answers_def cs) (simp add: buffered_def)
  show ?thesis
    by (rule inv_mono [OF inv _ moved _ _ _ _ more])
      (use inv c in \<open>auto simp: send(1) delivery_inv_def pending_wf_def cs split: if_splits\<close>)
next
  case (drop xs ch resp ys cs)
  note free = in_flight_not_live [OF inv drop(2)]
  from free(2) obtain c where c: "aget (ps_chans (dl_table s)) ch = Some c"
    using inv unfolding delivery_inv_def by (metis not_Some_eq)
  have full: "1 \<le> buffered ch (ps_chans (dl_table s))"
    using drop(3) c inv by (auto simp: chan_try_send_def delivery_inv_def buffered_def Suc_le_eq split: if_splits)
  have d: "ch \<in> set (dl_direct s)"
  proof (rule ccontr)
    assume "ch \<notin> set (dl_direct s)"
    then have "tokens s ch \<le> 1" using inv by (simp add: delivery_inv_def)
    then show False using full by (simp add: tokens_def drop(2))
  qed
  have tok: "tokens t ch' = (if ch' = ch then tokens s ch - 1 else tokens s ch')" "answers t ch' = answers s ch'" for ch'
    by (simp_all add: drop(1,2) tokens_def answers_def)
  show ?thesis
    using inv full d free unfolding delivery_inv_def tok
    by (auto simp: drop(1) answers_def)
next
  case (receive ch c resp rest)
  have moved: "tokens t ch' \<le> tokens s ch'" for ch'
    using receive(2,3) by (simp add: receive(1) tokens_def) (auto simp: buffered_def)
  have more: "answers s ch' \<le> answers t ch'" for ch'
    using receive(2,3) by (simp add: receive(1) answers_def) (auto simp: buffered_def)
  show ?thesis
    by (rule inv_mono [OF inv _ moved _ _ _ _ more])
      (use inv receive(2) in \<open>auto simp: receive(1) delivery_inv_def pending_wf_def split: if_splits\<close>)
qed

lemma reachable_inv: "reachable s \<Longrightarrow> delivery_inv s"
  by (induction rule: reachable.induct) (auto intro: inv_init inv_step)

subsection \<open>The sequential functions are runs\<close>

inductive dsteps :: "delivery \<Rightarrow> delivery \<Rightarrow> bool" where
  dnil: "dsteps s s"
| dmore: "\<lbrakk>dsteps s t; dstep t u\<rbrakk> \<Longrightarrow> dsteps s u"

lemma reachable_dsteps: "\<lbrakk>dsteps s t; reachable s\<rbrakk> \<Longrightarrow> reachable t"
  by (induction rule: dsteps.induct) (auto intro: reachable.step)

text \<open>The send for a request that was still in the table goes through.\<close>

lemma Resolve_sends:
  assumes "delivery_inv s" and "Load rid (dl_table s) = Some req"
  shows "\<exists>cs. chan_try_send (pr_ResponseCh req) resp (ps_chans (dl_table s)) = (True, cs)"
proof -
  obtain c where c: "aget (ps_chans (dl_table s)) (pr_ResponseCh req) = Some c" using found_has_chan [OF assms] by blast
  have "0 < reqs_on (pr_ResponseCh req) (ps_requests (dl_table s))"
    using assms(2) found_pos by (simp add: Load_def)
  then have "buffered (pr_ResponseCh req) (ps_chans (dl_table s)) = 0"
    using found_once(1) [OF assms] by (simp add: tokens_def)
  moreover have "ch_cap c = 1" using assms(1) c by (simp add: delivery_inv_def)
  ultimately show ?thesis using c by (simp add: chan_try_send_def buffered_def)
qed

lemma Resolve_is_run:
  assumes inv: "delivery_inv s" and found: "Load rid (dl_table s) = Some req"
    and idle: "dl_inflight s = []"
  shows "dsteps s (s\<lparr>dl_table := Resolve rid sc d (dl_table s)\<rparr>)"
proof -
  let ?resp = "\<lparr>StatusCode = sc, Data = Some d, RawData = None\<rparr>"
  let ?u = "s\<lparr>dl_table := take_out rid (dl_table s),
              dl_inflight := dl_inflight s @ [(pr_ResponseCh req, ?resp)]\<rparr>"
  have su: "dstep s ?u" using found by (rule dstep.take)
  have inv_u: "delivery_inv ?u" using su inv by (rule inv_step)
  obtain cs where cs: "chan_try_send (pr_ResponseCh req) ?resp (ps_chans (dl_table ?u)) = (True, cs)"
    using Resolve_sends [OF inv found] by (auto simp: take_out_def)
  have ut: "dstep ?u (?u\<lparr>dl_table := (dl_table ?u)\<lparr>ps_chans := cs\<rparr>, dl_inflight := [] @ []\<rparr>)"
    by (rule dstep.send [OF _ cs]) (simp add: idle)
  have eq: "?u\<lparr>dl_table := (dl_table ?u)\<lparr>ps_chans := cs\<rparr>, dl_inflight := [] @ []\<rparr> =
      s\<lparr>dl_table := Resolve rid sc d (dl_table s)\<rparr>"
  proof -
    have "chan_try_send (pr_ResponseCh req) ?resp (ps_chans (dl_table s)) = (True, cs)"
      using cs by (simp add: take_out_def)
    then have "(take_out rid (dl_table s))\<lparr>ps_chans := cs\<rparr> = Resolve rid sc d (dl_table s)"
      using found by (simp add: Resolve_def Load_def offer_def take_out_def Let_def)
    then show ?thesis using idle by (cases s) simp
  qed
  show ?thesis
    using dsteps.dmore [OF dsteps.dmore [OF dsteps.dnil su] ut] unfolding eq .
qed

subsection \<open>Correctness\<close>

definition ex_run1 :: delivery where
  "ex_run1 = delivery_init\<lparr>dl_table := Store ''a'' (ex_req 1 0) (new_chan 1 NewPendingRequests)\<rparr>"

lemmas ex_defs = delivery_init_def NewPendingRequests_def ex_req_def ex_run1_def Store_def new_chan_def Let_def

definition ex_resp :: WSResponse where
  "ex_resp = \<lparr>StatusCode = 200, Data = Some [], RawData = None\<rparr>"

definition ex_run2 :: delivery where
  "ex_run2 = ex_run1\<lparr>dl_table := take_out ''a'' (dl_table ex_run1), dl_inflight := [(1, ex_resp)]\<rparr>"

definition ex_run3 :: delivery where
  "ex_run3 = ex_run2\<lparr>dl_table := (dl_table ex_run2)\<lparr>ps_chans := [(1, \<lparr>ch_cap = 1, ch_buf = [ex_resp]\<rparr>)]\<rparr>,
                     dl_inflight := []\<rparr>"

definition ex_run4 :: delivery where
  "ex_run4 = ex_run3\<lparr>dl_table := (dl_table ex_run3)\<lparr>ps_chans := [(1, \<lparr>ch_cap = 1, ch_buf = []\<rparr>)]\<rparr>,
                     dl_received := [(1, ex_resp)]\<rparr>"

lemma reachable_ex_run1: "reachable ex_run1"
proof -
  have "dstep delivery_init ex_run1"
    using dstep.register [of delivery_init 1 "ex_req 1 0" "''a''"]
    by (simp add: ex_defs)
  then show ?thesis by (rule reachable.step [OF reachable.start])
qed

lemma reachable_ex_run4: "reachable ex_run4"
proof -
  have "dstep ex_run1 ex_run2"
    using dstep.take [of "''a''" ex_run1 "ex_req 1 0" ex_resp]
    by (simp add: ex_run2_def ex_defs Load_def)
  moreover have "dstep ex_run2 ex_run3"
    using dstep.send [of ex_run2 "[]" 1 ex_resp "[]" "[(1, \<lparr>ch_cap = 1, ch_buf = [ex_resp]\<rparr>)]"]
    by (simp add: ex_run2_def ex_run3_def ex_defs take_out_def chan_try_send_def)
  moreover have "dstep ex_run3 ex_run4"
    using dstep.receive [of ex_run3 1 "\<lparr>ch_cap = 1, ch_buf = [ex_resp]\<rparr>" ex_resp "[]"]
    by (simp add: ex_run2_def ex_run3_def ex_run4_def ex_defs take_out_def)
  ultimately show ?thesis
    using reachable_ex_run1 by (blast intro: reachable.step)
qed

text \<open>C1: Under every interleaving of the critical sections of the request table, of the separate load, delete
  and send of the handlers of bytes, and of the channel operations: a response is lost to the
  \<open>default\<close> branch of a send only when another one was put into the same channel, so its caller is not left without
  an answer; and a channel that no handler of bytes has loaded carries at most one response and loses none.\<close>

theorem at_most_one_answer:
  assumes "reachable s"
  shows "((ch, resp) \<in> set (dl_dropped s) \<longrightarrow> 1 \<le> answers s ch) \<and>
    (ch \<in> set (dl_direct s) \<or> answers s ch \<le> 1 \<and> ch \<notin> fst ` set (dl_dropped s))"
proof -
  have inv: "delivery_inv s" using assms by (rule reachable_inv)
  have "answers s ch \<le> tokens s ch" by (simp add: tokens_def answers_def)
  with inv show ?thesis unfolding delivery_inv_def by (fastforce intro: le_trans)
qed

lemma at_most_one_answer_witness:
  "resps_on 1 (dl_received ex_run4) = 1 \<and> answers ex_run4 1 \<le> 1 \<and> 1 \<notin> fst ` set (dl_dropped ex_run4)"
  using at_most_one_answer [OF reachable_ex_run4, of 1 ex_resp]
  by (simp add: ex_run4_def ex_run3_def ex_run2_def ex_run1_def delivery_init_def)

text \<open>The second response does happen: a clean-up between the load and the delete of such a handler answers the
  caller with 408, and the file it waited for is dropped.\<close>

lemma dstep_reachable: "reachable s \<Longrightarrow> dstep s t \<Longrightarrow> t = u \<Longrightarrow> reachable u"
  using reachable.step by blast

theorem file_dropped_after_timeout:
  "\<exists>s. reachable s \<and> dl_dropped s = [(1, ex_resp)] \<and>
     aget (ps_chans (dl_table s)) 1 = Some \<lparr>ch_cap = 1, ch_buf = [timeout_response]\<rparr>"
proof -
  let ?s1 = "ex_run1\<lparr>dl_loaded := [(''a'', 1, ex_resp)], dl_direct := [1]\<rparr>"
  let ?s2 = "?s1\<lparr>dl_table := take_out ''a'' (dl_table ex_run1), dl_inflight := [(1, timeout_response)]\<rparr>"
  let ?full = "[(1, \<lparr>ch_cap = 1, ch_buf = [timeout_response]\<rparr>)]"
  let ?s3 = "?s2\<lparr>dl_table := (dl_table ?s2)\<lparr>ps_chans := ?full\<rparr>, dl_inflight := []\<rparr>"
  let ?s4 = "?s3\<lparr>dl_table := Delete ''a'' (dl_table ?s3), dl_loaded := [], dl_inflight := [(1, ex_resp)]\<rparr>"
  let ?s5 = "?s4\<lparr>dl_inflight := [], dl_dropped := [(1, ex_resp)]\<rparr>"
  have 1: "reachable ?s1"
    by (rule dstep_reachable [OF reachable_ex_run1 dstep.load_direct [of "''a''" ex_run1 "ex_req 1 0" ex_resp]])
      (simp_all add: ex_defs Load_def)
  have 2: "reachable ?s2"
    by (rule dstep_reachable [OF 1 dstep.take [of "''a''" ?s1 "ex_req 1 0" timeout_response]])
      (simp_all add: ex_defs Load_def)
  have 3: "reachable ?s3"
    by (rule dstep_reachable [OF 2 dstep.send [of ?s2 "[]" 1 timeout_response "[]" ?full]])
      (simp_all add: ex_defs take_out_def chan_try_send_def)
  have 4: "reachable ?s4"
    by (rule dstep_reachable [OF 3 dstep.delete_direct [of ?s3 "[]" "''a''" 1 ex_resp "[]"]])
      (simp_all add: ex_defs)
  have 5: "reachable ?s5"
    by (rule dstep_reachable [OF 4 dstep.drop [of ?s4 "[]" 1 ex_resp "[]" ?full]])
      (simp_all add: ex_defs take_out_def chan_try_send_def Delete_def)
  show ?thesis using 5 by (intro exI [of _ ?s5]) (simp add: Delete_def Let_def)
qed

text \<open>C2: \<open>Resolve\<close>, which takes the request out under the lock and sends afterwards, is a run of the
  step relation from every reachable state with nothing else on its way: the sequential function
  implements the concurrent specification.\<close>

theorem Resolve_refines:
  assumes "reachable s" and "Load rid (dl_table s) = Some req" and "dl_inflight s = []"
  shows "dsteps s (s\<lparr>dl_table := Resolve rid sc d (dl_table s)\<rparr>) \<and>
    reachable (s\<lparr>dl_table := Resolve rid sc d (dl_table s)\<rparr>)"
  using Resolve_is_run [OF reachable_inv] reachable_dsteps assms by blast

lemma Resolve_refines_witness:
  "reachable (ex_run1\<lparr>dl_table := Resolve ''a'' 200 [] (dl_table ex_run1)\<rparr>)"
  using Resolve_refines [OF reachable_ex_run1, of "''a''" "ex_req 1 0" 200 "[]"]
  by (simp add: ex_run1_def Load_def Store_def delivery_init_def Let_def)

end
