(* ===== verification/RemoteRequest.thy ===== *)
theory RemoteRequest
  imports ManagerInv Permissions Delivery
begin

text \<open>
  The cross-world tunnel, \<open>internal/ws/remote_request.go\<close>: a module asks the relay to run an action
  on another module of its account.

  The database and the collaborators behind interfaces are parameters: \<open>find_token\<close> is called twice
  and so given as two functions of the token id, \<open>find_known\<close> is \<open>KnownClientStore.FindByClientID\<close>
  (\<open>None\<close> for an error or no row), \<open>rget\<close> Redis, \<open>forward\<close> and \<open>headless\<close> the two optional callbacks.
  The headless worker changes the registry (a client connects), so it maps managers to managers.
  The handler runs up to the point where it waits for the answer; what follows is
  \<open>remote_answer\<close> and \<open>remote_timeout\<close>.
\<close>

subsection \<open>The hourly limit\<close>

type_synonym buckets = "(int, int \<times> gotime) gomap"

definition hour :: int where
  "hour = 60 * minutes 1"

definition checkRemoteRequestRate :: "gotime \<Rightarrow> int \<Rightarrow> int \<Rightarrow> buckets \<Rightarrow> bool \<times> buckets" where
  "checkRemoteRequestRate now tokenID limitPerHour rateBuckets =
     (case aget rateBuckets tokenID of
        None \<Rightarrow> (True, aput tokenID (1, now) rateBuckets)
      | Some (count, windowStart) \<Rightarrow>
          if now - windowStart > hour then (True, aput tokenID (1, now) rateBuckets)
          else if count \<ge> limitPerHour then (False, rateBuckets)
          else (True, aput tokenID (count + 1, windowStart) rateBuckets))"

subsection \<open>State and environment\<close>

record remote_log =
  rg_UserID :: int
  rg_SourceClientID :: string
  rg_SourceTokenID :: int
  rg_TargetClientID :: string
  rg_Action :: string
  rg_SourceIP :: "string option"
  rg_Success :: bool
  rg_ErrorMessage :: "string option"

record batch_entry =
  be_userID :: int
  be_sourceTokenID :: int
  be_targetClientID :: string
  be_action :: string
  be_tokenName :: string
  be_success :: bool

record 'h rr_state =
  rr_manager :: "'h manager"
  rr_pending :: pending_state
  rr_buckets :: buckets
  rr_logs :: "remote_log list"
  rr_batch :: "batch_entry list"
  rr_forwarded :: "(string \<times> string \<times> string \<times> obj) list"  \<comment> \<open>calls of \<open>ForwardToInstance\<close>\<close>
  rr_started :: "(int \<times> string) list"  \<comment> \<open>calls of \<open>AutoStartForKnownClient\<close>\<close>

record 'h rr_env =
  re_find_token :: "int \<Rightarrow> ConnectionToken option"
  re_find_token_again :: "int \<Rightarrow> ConnectionToken option"
  re_find_known :: "int \<Rightarrow> string \<Rightarrow> KnownClient option"
  re_log_enabled :: "int \<Rightarrow> bool"
  re_hasBatcher :: bool
  re_rget :: "string \<Rightarrow> string option"
  re_forward :: "(string \<Rightarrow> string \<Rightarrow> string \<Rightarrow> obj \<Rightarrow> string + obj) option"
  re_headless :: "(int \<Rightarrow> string \<Rightarrow> 'h manager \<Rightarrow> string option \<times> 'h manager) option"

datatype 'h rr_result = RRDone "'h rr_state" | RRWait string nat remote_log string "'h rr_state"

text \<open>\<open>fmt\<close>'s \<open>%q\<close> on text without control characters.\<close>

definition go_quote :: "string \<Rightarrow> string" where
  "go_quote s = ''\"'' @ concat (map (\<lambda>c. if c = CHR 0x22 \<or> c = CHR 0x5C then [CHR 0x5C, c] else [c]) s) @ ''\"''"

definition send_to :: "nat \<Rightarrow> json \<Rightarrow> 'h manager \<Rightarrow> bool \<times> 'h manager" where
  "send_to ref msg m =
     (let (ok, c) = Send msg (mg_heap m ! ref) in (ok, heap_update ref c m))"

definition respond :: "nat \<Rightarrow> string \<Rightarrow> bool \<Rightarrow> string \<Rightarrow> obj option \<Rightarrow> 'h rr_state \<Rightarrow> 'h rr_state" where
  "respond source sourceRequestID success errMsg result s =
     (let out = [(''type'', JStr ''remote-response''), (''requestId'', JStr sourceRequestID),
                 (''success'', JBool success)]
            @ (if errMsg \<noteq> [] then [(''error'', JStr errMsg)] else [])
            @ (case result of None \<Rightarrow> [] | Some d \<Rightarrow> [(''data'', JObj d)])
      in s\<lparr>rr_manager := snd (send_to source (JObj out) (rr_manager s))\<rparr>)"

definition finishLog ::
    "'h rr_env \<Rightarrow> remote_log \<Rightarrow> string \<Rightarrow> bool \<Rightarrow> string \<Rightarrow> 'h rr_state \<Rightarrow> 'h rr_state" where
  "finishLog env logEntry tokenName success errMsg s =
     (let entry = logEntry\<lparr>rg_Success := success,
            rg_ErrorMessage := (if errMsg \<noteq> [] then Some errMsg else rg_ErrorMessage logEntry)\<rparr>;
          s1 = (if rg_UserID entry \<noteq> 0
                then (if re_log_enabled env (rg_UserID entry) then s\<lparr>rr_logs := rr_logs s @ [entry]\<rparr> else s)
                else s\<lparr>rr_logs := rr_logs s @ [entry]\<rparr>)
      in if re_hasBatcher env \<and> rg_UserID entry \<noteq> 0
         then s1\<lparr>rr_batch := rr_batch s1 @
                [\<lparr>be_userID = rg_UserID entry, be_sourceTokenID = rg_SourceTokenID entry,
                  be_targetClientID = rg_TargetClientID entry, be_action = rg_Action entry,
                  be_tokenName = tokenName, be_success = success\<rparr>]\<rparr>
         else s1)"

definition finish ::
    "'h rr_env \<Rightarrow> nat \<Rightarrow> string \<Rightarrow> remote_log \<Rightarrow> string \<Rightarrow> bool \<Rightarrow> string \<Rightarrow> obj option \<Rightarrow> string \<Rightarrow>
     'h rr_state \<Rightarrow> 'h rr_state" where
  "finish env source sourceRequestID logEntry tokenName success errMsg result logMsg s =
     finishLog env logEntry tokenName success logMsg
       (respond source sourceRequestID success errMsg result s)"

subsection \<open>Permission checks\<close>

definition initial_log :: "Client \<Rightarrow> string \<Rightarrow> string \<Rightarrow> remote_log" where
  "initial_log source targetClientID action =
     \<lparr>rg_UserID = 0, rg_SourceClientID = cl_id source, rg_SourceTokenID = cl_connectionTokenID source,
      rg_TargetClientID = targetClientID, rg_Action = action,
      rg_SourceIP = (if cl_ipAddress source \<noteq> [] then Some (cl_ipAddress source) else None),
      rg_Success = False, rg_ErrorMessage = None\<rparr>"

datatype 'h rr_check =
    Refused string string remote_log string "'h rr_state"  \<comment> \<open>answer, log text, log entry, token name\<close>
  | Granted ConnectionToken KnownClient remote_log "'h rr_state"

text \<open>
  Everything up to the search for the target: the required fields, the source's token and world, the
  allow list, the scope, the rate, and the target's owner.
\<close>

definition check_request ::
    "'h rr_env \<Rightarrow> gotime \<Rightarrow> nat \<Rightarrow> obj \<Rightarrow> 'h rr_state \<Rightarrow> 'h rr_check" where
  "check_request env now source data s =
     (let src = mg_heap (rr_manager s) ! source;
          sourceRequestID = get_str data ''requestId'';
          targetClientID = get_str data ''targetClientId'';
          action = get_str data ''action'';
          log0 = initial_log src targetClientID action
      in if sourceRequestID = [] \<or> targetClientID = [] \<or> action = []
         then Refused ''missing required fields: requestId, targetClientId, action'' ''missing required fields'' log0 [] s
         else
         (let sourceTokenID = cl_connectionTokenID src
          in if sourceTokenID = 0
             then Refused ''remote-request requires a connection-token-authenticated source'' ''no connection token'' log0 [] s
             else case re_find_token env sourceTokenID of
               None \<Rightarrow> Refused ''source token not found'' ''source token not found'' log0 [] s
             | Some sourceToken \<Rightarrow>
                 (let logE = log0\<lparr>rg_UserID := ct_UserID sourceToken\<rparr>; tokenName = ct_Name sourceToken
                  in case re_find_known env (ct_UserID sourceToken) (cl_id src) of
                       None \<Rightarrow> Refused ''source world not registered'' ''source world not found'' logE tokenName s
                     | Some sourceKC \<Rightarrow>
                         if targetClientID = cl_id src
                         then Refused ''cannot send a remote request to the source world itself'' ''self-target rejected'' logE tokenName s
                         else if \<not> kc_CanTarget sourceKC targetClientID
                         then Refused (''target '' @ go_quote targetClientID @ '' not in allowed clients for this world'')
                                ''target not in allow list'' logE tokenName s
                         else
                         (let (requiredScope, known) = ScopeForAction action
                          in if \<not> known
                             then Refused (''action '' @ go_quote action @ '' is not exposed via remote-request'')
                                    ''unknown action'' logE tokenName s
                             else if \<not> kc_HasRemoteScope sourceKC requiredScope
                             then Refused (''scope '' @ go_quote requiredScope @ '' not granted to source world'')
                                    ''scope not granted'' logE tokenName s
                             else
                             (let perHour = kc_RemoteRequestsPerHour sourceKC;
                                  (allowed, buckets) =
                                    (if perHour > 0
                                     then checkRemoteRequestRate now (kc_ID sourceKC) perHour (rr_buckets s)
                                     else (True, rr_buckets s));
                                  s1 = s\<lparr>rr_buckets := buckets\<rparr>
                              in if \<not> allowed
                                 then Refused (''remote-request rate limit exceeded ('' @ int_text perHour @ ''/hour)'')
                                        ''rate limited'' logE tokenName s1
                                 else case re_find_token_again env sourceTokenID of
                                   None \<Rightarrow> Refused ''source token not found or revoked'' ''source token revoked'' logE tokenName s1
                                 | Some freshToken \<Rightarrow>
                                     (case re_find_known env (ct_UserID freshToken) targetClientID of
                                        None \<Rightarrow> Refused ''target not owned by source account'' ''target not owned'' logE tokenName s1
                                      | Some known2 \<Rightarrow> Granted sourceToken known2 logE s1))))))"

subsection \<open>Finding the target and forwarding\<close>

definition fresh_chan :: "pending_state \<Rightarrow> nat" where
  "fresh_chan p = foldr max (akeys (ps_chans p)) 0 + 1"

text \<open>The registration of the request, the message to the target, and its failure.\<close>

definition forward_action ::
    "'h rr_env \<Rightarrow> gotime \<Rightarrow> nat \<Rightarrow> string \<Rightarrow> string \<Rightarrow> obj \<Rightarrow> remote_log \<Rightarrow> string \<Rightarrow> nat \<Rightarrow> 'h rr_state \<Rightarrow>
     'h rr_result" where
  "forward_action env now source sourceRequestID action payload logE tokenName target s =
     (let relayRequestID = ''rr_'' @ int_text now @ ''_'' @ action;
          ch = fresh_chan (rr_pending s);
          req = \<lparr>pr_ResponseCh = ch, pr_Type = action, pr_ClientID = cl_id (mg_heap (rr_manager s) ! target),
                 pr_UUID = [], pr_Path = [], pr_Query = [], pr_Filter = [], pr_Format = [],
                 pr_ActiveTab = None, pr_DarkMode = False, pr_InitScale = None, pr_Timestamp = now,
                 pr_MaxAge = seconds 90, pr_WSCallback = False\<rparr>;
          s1 = s\<lparr>rr_pending := Store relayRequestID req (new_chan ch (rr_pending s))\<rparr>;
          msg = aput ''requestId'' (JStr relayRequestID) (aput ''type'' (JStr action) payload);
          (sent, m) = send_to target (JObj msg) (rr_manager s1);
          s2 = s1\<lparr>rr_manager := m\<rparr>
      in if \<not> sent
         then RRDone (finish env source sourceRequestID logE tokenName False ''failed to send action to target'' None
                ''send failed'' (s2\<lparr>rr_pending := Pending.Delete relayRequestID (rr_pending s2)\<rparr>))
         else RRWait relayRequestID ch logE tokenName s2)"

definition handleRemoteRequest ::
    "'h rr_env \<Rightarrow> gotime \<Rightarrow> nat \<Rightarrow> obj \<Rightarrow> 'h rr_state \<Rightarrow> 'h rr_result" where
  "handleRemoteRequest env now source data s =
     (let sourceRequestID = get_str data ''requestId'';
          targetClientID = get_str data ''targetClientId'';
          action = get_str data ''action'';
          payload = (case aget data ''payload'' of Some (JObj p) \<Rightarrow> p | _ \<Rightarrow> []);
          autoStart = get_bool data ''autoStartIfOffline''
      in case check_request env now source data s of
           Refused msg logMsg logE tokenName s1 \<Rightarrow>
             RRDone (finish env source sourceRequestID logE tokenName False msg None logMsg s1)
         | Granted sourceToken known2 logE s1 \<Rightarrow>
             (let tokenName = ct_Name sourceToken;
                  fail = (\<lambda>msg logMsg st. RRDone (finish env source sourceRequestID logE tokenName False msg None logMsg st))
              in case GetClient targetClientID (rr_manager s1) of
                   Some target \<Rightarrow> forward_action env now source sourceRequestID action payload logE tokenName target s1
                 | None \<Rightarrow>
                     (let remoteInstance = GetClientRemoteInstance (re_rget env) targetClientID (rr_manager s1)
                      in case (if remoteInstance \<noteq> [] then re_forward env else None) of
                           Some fwd \<Rightarrow>
                             (let s2 = s1\<lparr>rr_forwarded := rr_forwarded s1 @ [(remoteInstance, targetClientID, action, payload)]\<rparr>
                              in case fwd remoteInstance targetClientID action payload of
                                Inl err \<Rightarrow> fail (''cross-instance forward failed: '' @ err) ''cross-instance forward failed'' s2
                              | Inr result \<Rightarrow>
                                  (let errMsg = get_str result ''error''
                                   in if errMsg \<noteq> [] then fail errMsg errMsg s2
                                      else RRDone (finish env source sourceRequestID logE tokenName True [] (Some result) [] s2)))
                         | None \<Rightarrow>
                             if \<not> autoStart
                             then fail ''target offline; set autoStartIfOffline:true to start a headless session'' ''target offline'' s1
                             else if \<not> kc_AutoStartOnRemoteRequest known2
                             then fail ''target offline; auto-start not enabled for this clientId'' ''auto-start disabled'' s1
                             else case re_headless env of
                               None \<Rightarrow> fail ''target offline; headless worker not available on this instance'' ''headless unavailable'' s1
                             | Some start \<Rightarrow>
                                 (let s2 = s1\<lparr>rr_started := rr_started s1 @ [(ct_UserID sourceToken, targetClientID)]\<rparr>
                                  in case start (ct_UserID sourceToken) targetClientID (rr_manager s1) of
                                    (Some err, m) \<Rightarrow>
                                      fail (''auto-start failed: '' @ err) (''auto-start failed: '' @ err) (s2\<lparr>rr_manager := m\<rparr>)
                                  | (None, m) \<Rightarrow>
                                      (case GetClient targetClientID m of
                                         None \<Rightarrow> fail ''auto-start succeeded but target still not connected'' ''auto-start race''
                                                   (s2\<lparr>rr_manager := m\<rparr>)
                                       | Some target \<Rightarrow>
                                           forward_action env now source sourceRequestID action payload logE tokenName
                                             target (s2\<lparr>rr_manager := m\<rparr>))))))"

text \<open>The answer arrives on the channel.\<close>

definition remote_answer ::
    "(string \<Rightarrow> string + obj) \<Rightarrow> 'h rr_env \<Rightarrow> nat \<Rightarrow> string \<Rightarrow> remote_log \<Rightarrow> string \<Rightarrow> WSResponse option \<Rightarrow>
     'h rr_state \<Rightarrow> 'h rr_state" where
  "remote_answer unmarshal env source sourceRequestID logE tokenName resp s =
     (let fail = (\<lambda>msg logMsg. finish env source sourceRequestID logE tokenName False msg None logMsg s)
      in case resp of
           None \<Rightarrow> fail ''no response from target'' ''no response''
         | Some r \<Rightarrow>
             (case (case RawData r of
                      Some raw \<Rightarrow> (case unmarshal raw of Inl e \<Rightarrow> Inl e | Inr d \<Rightarrow> Inr (Some d))
                    | None \<Rightarrow> Inr (Data r)) of
                Inl e \<Rightarrow> fail (''failed to parse target response: '' @ e) ''parse error''
              | Inr result \<Rightarrow>
                  (let errMsg = (case result of None \<Rightarrow> [] | Some d \<Rightarrow> get_str d ''error'')
                   in if errMsg \<noteq> [] then fail errMsg errMsg
                      else finish env source sourceRequestID logE tokenName True []
                             (map_option (adel ''requestId'') result) [] s)))"

definition remote_timeout ::
    "'h rr_env \<Rightarrow> nat \<Rightarrow> string \<Rightarrow> string \<Rightarrow> remote_log \<Rightarrow> string \<Rightarrow> 'h rr_state \<Rightarrow> 'h rr_state" where
  "remote_timeout env source sourceRequestID relayRequestID logE tokenName s =
     finish env source sourceRequestID logE tokenName False ''request timed out'' None ''timeout''
       (s\<lparr>rr_pending := Pending.Delete relayRequestID (rr_pending s)\<rparr>)"

subsection \<open>The permission checks against their declarative reading\<close>

definition authorised :: "'h rr_env \<Rightarrow> Client \<Rightarrow> string \<Rightarrow> string \<Rightarrow> bool" where
  "authorised env src targetClientID action \<longleftrightarrow>
     (\<exists>tok kc scope fresh known.
        cl_connectionTokenID src \<noteq> 0 \<and> re_find_token env (cl_connectionTokenID src) = Some tok \<and>
        re_find_known env (ct_UserID tok) (cl_id src) = Some kc \<and>
        targetClientID \<noteq> cl_id src \<and> kc_CanTarget kc targetClientID \<and>
        ScopeForAction action = (scope, True) \<and> kc_HasRemoteScope kc scope \<and>
        re_find_token_again env (cl_connectionTokenID src) = Some fresh \<and>
        re_find_known env (ct_UserID fresh) targetClientID = Some known)"

lemma Granted_authorised:
  assumes "check_request env now source data s = Granted tok known2 logE s1"
  shows "authorised env (mg_heap (rr_manager s) ! source) (get_str data ''targetClientId'') (get_str data ''action'')"
    and "rr_manager s1 = rr_manager s" and "rr_pending s1 = rr_pending s"
  using assms
  by (auto simp: check_request_def authorised_def Let_def split: if_splits option.splits prod.splits)

lemma Refused_inert:
  assumes "check_request env now source data s = Refused msg lm logE tn s1"
  shows "rr_manager s1 = rr_manager s" and "rr_pending s1 = rr_pending s"
    and "rr_forwarded s1 = rr_forwarded s" and "rr_started s1 = rr_started s"
  using assms by (auto simp: check_request_def Let_def split: if_splits option.splits prod.splits)

lemma finish_effect:
  "rr_pending (finish env source rid lg tn ok em res lm s) = rr_pending s"
  "rr_forwarded (finish env source rid lg tn ok em res lm s) = rr_forwarded s"
  "rr_started (finish env source rid lg tn ok em res lm s) = rr_started s"
  "mg_clients (rr_manager (finish env source rid lg tn ok em res lm s)) = mg_clients (rr_manager s)"
  "q \<noteq> source \<Longrightarrow> mg_heap (rr_manager (finish env source rid lg tn ok em res lm s)) ! q = mg_heap (rr_manager s) ! q"
  by (simp_all add: finish_def finishLog_def respond_def send_to_def heap_update_def case_prod_unfold Let_def)

lemma tunnel_sound:
  assumes "\<not> authorised env (mg_heap (rr_manager s) ! source) (get_str data ''targetClientId'') (get_str data ''action'')"
  shows "\<exists>s'. handleRemoteRequest env now source data s = RRDone s' \<and> rr_pending s' = rr_pending s \<and>
      rr_forwarded s' = rr_forwarded s \<and> rr_started s' = rr_started s \<and>
      mg_clients (rr_manager s') = mg_clients (rr_manager s) \<and>
      {q. mg_heap (rr_manager s') ! q \<noteq> mg_heap (rr_manager s) ! q} \<subseteq> {source}"
proof (cases "check_request env now source data s")
  case (Granted tok known2 logE s1)
  then show ?thesis using Granted_authorised assms by blast
next
  case (Refused msg lm logE tn s1)
  let ?s' = "finish env source (get_str data ''requestId'') logE tn False msg None lm s1"
  have "handleRemoteRequest env now source data s = RRDone ?s'"
    by (simp add: handleRemoteRequest_def Refused Let_def)
  moreover have "rr_pending ?s' = rr_pending s" "rr_forwarded ?s' = rr_forwarded s" "rr_started ?s' = rr_started s"
      "mg_clients (rr_manager ?s') = mg_clients (rr_manager s)"
      "{q. mg_heap (rr_manager ?s') ! q \<noteq> mg_heap (rr_manager s) ! q} \<subseteq> {source}"
    using Refused_inert [OF Refused] by (auto simp: finish_effect(1-4)) (metis finish_effect(5))
  ultimately show ?thesis by blast
qed

text \<open>C7: The tunnel is sound.  A remote request that lacks one of the permissions the account granted (a
  connection token that still exists, a registered source world whose allow list covers the
  target, the action's scope, another world than itself, and a target known to the same account)
  is answered at once: no request is registered, nothing is forwarded to another instance, no session is started,
  and no connection but the sender's receives anything.  What it does change is the sender's answer, the log of
  remote requests, its summary for the notifications and the hourly count of its world.\<close>

theorem remote_request_sound:
  assumes "\<not> authorised env (mg_heap (rr_manager s) ! source) (get_str data ''targetClientId'') (get_str data ''action'')"
  shows "\<exists>s'. handleRemoteRequest env now source data s = RRDone s' \<and> rr_pending s' = rr_pending s \<and>
      rr_forwarded s' = rr_forwarded s \<and> rr_started s' = rr_started s \<and>
      mg_clients (rr_manager s') = mg_clients (rr_manager s) \<and>
      {q. mg_heap (rr_manager s') ! q \<noteq> mg_heap (rr_manager s) ! q} \<subseteq> {source}"
  using assms by (rule tunnel_sound)

text \<open>No account sees a remote action that its own permission tables do not expose: an action outside
  the table of scopes is always refused, whatever is granted.\<close>

theorem unlisted_action_refused:
  assumes "get_str data ''action'' \<notin> fst ` set ActionToScopeRequired"
  shows "\<exists>s'. handleRemoteRequest env now source data s = RRDone s' \<and> rr_pending s' = rr_pending s"
proof -
  have "aget ActionToScopeRequired (get_str data ''action'') = None"
    using assms by (simp add: map_of_eq_None_iff)
  then have "\<not> authorised env (mg_heap (rr_manager s) ! source) (get_str data ''targetClientId'') (get_str data ''action'')"
    by (auto simp: authorised_def ScopeForAction_def)
  then show ?thesis
    using tunnel_sound [of env s source data now] by blast
qed

subsection \<open>The rate limit\<close>

fun allowed_count :: "int \<Rightarrow> int \<Rightarrow> gotime list \<Rightarrow> buckets \<Rightarrow> nat" where
  "allowed_count t limit [] b = 0"
| "allowed_count t limit (now # rest) b =
     (let (ok, b') = checkRemoteRequestRate now t limit b
      in (if ok then 1 else 0) + allowed_count t limit rest b')"

lemma allowed_in_window:
  assumes "aget b t = Some (int n, w)" and "\<forall>now \<in> set ts. now - w \<le> hour" and "int n \<le> limit"
  shows "allowed_count t limit ts b = min (length ts) (nat limit - n)"
  using assms
proof (induction ts arbitrary: b n)
  case (Cons now ts)
  show ?case
  proof (cases "int n \<ge> limit")
    case True
    then have "checkRemoteRequestRate now t limit b = (False, b)"
      using Cons.prems by (simp add: checkRemoteRequestRate_def)
    then show ?thesis
      using Cons.IH [of b n] Cons.prems True by (simp add: Let_def)
  next
    case False
    let ?b = "aput t (int n + 1, w) b"
    have "checkRemoteRequestRate now t limit b = (True, ?b)"
      using Cons.prems False by (simp add: checkRemoteRequestRate_def)
    moreover have "allowed_count t limit ts ?b = min (length ts) (nat limit - (n + 1))"
      using Cons.IH [of ?b "n + 1"] Cons.prems False by simp
    moreover have "nat limit - n = Suc (nat limit - Suc n)" using False by linarith
    ultimately show ?thesis by (simp add: Let_def)
  qed
qed simp

text \<open>From the first request of a window on, the hour admits exactly the configured number of
  requests and refuses every further one, whatever other worlds do.\<close>

theorem hourly_limit_exact:
  assumes "aget b t = None" and "\<forall>now \<in> set ts. now - t0 \<le> hour" and "1 \<le> limit"
  shows "allowed_count t limit (t0 # ts) b = min (length (t0 # ts)) (nat limit)"
proof -
  let ?b = "aput t (1, t0) b"
  have "checkRemoteRequestRate t0 t limit b = (True, ?b)"
    using assms(1) by (simp add: checkRemoteRequestRate_def)
  moreover have "allowed_count t limit ts ?b = min (length ts) (nat limit - 1)"
    using allowed_in_window [of ?b t 1 t0 ts limit] assms by simp
  ultimately show ?thesis using assms(3) by (simp add: Let_def)
qed

lemma hourly_limit_exact_witness: "allowed_count 5 2 [0, 10, 20] [] = 2"
  using hourly_limit_exact [of "[]" 5 "[10, 20]" 0 2] by (simp add: hour_def minutes_def seconds_def)

subsection \<open>Whose module answers\<close>

text \<open>Ownership of the target is checked in the database only: when a client registered under
  another account's key is connected with the target's identifier, the authorised request is
  forwarded to that client.\<close>

theorem forwards_to_foreign_client:
  assumes "check_request env now source data s = Granted tok known2 logE s1"
    and "GetClient (get_str data ''targetClientId'') (rr_manager s) = Some target"
    and "target < length (mg_heap (rr_manager s))" and "IsAlive (mg_heap (rr_manager s) ! target)"
    and "length (cl_sendCh (mg_heap (rr_manager s) ! target)) < sendCap"
    and "cl_apiKey (mg_heap (rr_manager s) ! target) \<noteq> cl_apiKey (mg_heap (rr_manager s) ! source)"
  shows "\<exists>rid ch lg tn s' msg. handleRemoteRequest env now source data s = RRWait rid ch lg tn s' \<and>
    cl_sendCh (mg_heap (rr_manager s') ! target) =
      cl_sendCh (mg_heap (rr_manager s) ! target) @ [Encoded (JObj msg)] \<and>
    get_str msg ''type'' = get_str data ''action''"
proof -
  let ?action = "get_str data ''action''"
  let ?rid = "''rr_'' @ int_text now @ ''_'' @ ?action"
  let ?payload = "case aget data ''payload'' of Some (JObj p) \<Rightarrow> p | _ \<Rightarrow> []"
  let ?msg = "aput ''requestId'' (JStr ?rid) (aput ''type'' (JStr ?action) ?payload)"
  note same = Granted_authorised(2,3) [OF assms(1)]
  let ?c = "mg_heap (rr_manager s) ! target"
  have send: "send_to target (JObj ?msg) (rr_manager s) =
      (True, heap_update target (?c\<lparr>cl_sendCh := cl_sendCh ?c @ [Encoded (JObj ?msg)]\<rparr>) (rr_manager s))"
    using assms(4,5) by (simp add: send_to_def Send_def enqueue_def)
  have "\<exists>ch lg tn s'. handleRemoteRequest env now source data s = RRWait ?rid ch lg tn s' \<and>
      rr_manager s' = heap_update target (?c\<lparr>cl_sendCh := cl_sendCh ?c @ [Encoded (JObj ?msg)]\<rparr>) (rr_manager s)"
    using assms(1,2) same send by (simp add: handleRemoteRequest_def forward_action_def Let_def)
  moreover have "get_str ?msg ''type'' = ?action" by (simp add: get_str_def)
  ultimately show ?thesis
    using assms(3) by (fastforce simp: heap_update_def)
qed

definition ex_kc :: "int \<Rightarrow> string \<Rightarrow> KnownClient" where
  "ex_kc i cid = \<lparr>kc_ID = i, kc_UserID = 1, kc_ClientID = cid, kc_WorldID = None, kc_WorldTitle = None,
     kc_SystemID = None, kc_SystemTitle = None, kc_SystemVersion = None, kc_FoundryVersion = None,
     kc_CustomName = None, kc_LastSeenAt = None, kc_IsOnline = True, kc_AutoStartOnRemoteRequest = False,
     kc_CredentialID = None, kc_ServerFingerprint = None, kc_PublicUrl = None,
     kc_AllowedTargetClients = Some ''*'', kc_RemoteScopes = Some ''user:write'',
     kc_RemoteRequestsPerHour = 0, kc_CreatedAt = 0, kc_UpdatedAt = 0\<rparr>"

definition ex_token :: ConnectionToken where
  "ex_token = \<lparr>ct_ID = 7, ct_UserID = 1, ct_TokenHash = [], ct_Name = ''tab'', ct_AllowedIPs = None,
     ct_AllowedTargetClients = None, ct_RemoteScopes = None, ct_RemoteRequestsPerHour = 0,
     ct_ClientID = [], ct_Source = ''dashboard'', ct_LastUsedAt = None, ct_CreatedAt = 0, ct_UpdatedAt = 0\<rparr>"

definition ex_env :: "unit rr_env" where
  "ex_env = \<lparr>re_find_token = (\<lambda>i. if i = 7 then Some ex_token else None),
     re_find_token_again = (\<lambda>i. if i = 7 then Some ex_token else None),
     re_find_known = (\<lambda>u c. if u = 1 then Some (ex_kc 3 c) else None), re_log_enabled = (\<lambda>u. True),
     re_hasBatcher = False, re_rget = (\<lambda>k. None), re_forward = None, re_headless = None\<rparr>"

definition ex_state :: "unit rr_state" where
  "ex_state = \<lparr>rr_manager = (NewClientManager False ''i1'')\<lparr>
       mg_heap := [ex_client\<lparr>cl_connectionTokenID := 7\<rparr>, ex_client\<lparr>cl_id := ''fvtt_2'', cl_apiKey := ''victim''\<rparr>],
       mg_clients := [(''fvtt_1'', 0), (''fvtt_2'', 1)]\<rparr>,
     rr_pending = NewPendingRequests, rr_buckets = [], rr_logs = [], rr_batch = [], rr_forwarded = [],
     rr_started = []\<rparr>"

definition ex_data :: obj where
  "ex_data = [(''requestId'', JStr ''r1''), (''targetClientId'', JStr ''fvtt_2''), (''action'', JStr ''create-user'')]"

lemma ex_granted:
  "\<exists>lg. check_request ex_env 9 0 ex_data ex_state = Granted ex_token (ex_kc 3 ''fvtt_2'') lg ex_state"
proof -
  have "ScopeForAction ''create-user'' = (''user:write'', True)" by code_simp
  moreover have "kc_CanTarget (ex_kc 3 ''fvtt_1'') ''fvtt_2''" "kc_HasRemoteScope (ex_kc 3 ''fvtt_1'') ''user:write''"
    by code_simp+
  ultimately show ?thesis
    by (simp add: check_request_def ex_env_def ex_data_def ex_state_def get_str_def ex_client_def NewClient_def
        ex_token_def Let_def) (simp add: ex_kc_def)
qed

lemma forwards_to_foreign_client_witness:
  "\<exists>rid ch lg tn s'. handleRemoteRequest ex_env 9 0 ex_data ex_state = RRWait rid ch lg tn s'"
proof -
  obtain lg where g: "check_request ex_env 9 0 ex_data ex_state = Granted ex_token (ex_kc 3 ''fvtt_2'') lg ex_state"
    using ex_granted by blast
  show ?thesis
    using forwards_to_foreign_client [OF g, of 1]
    by (auto simp: ex_data_def ex_state_def get_str_def GetClient_def ex_client_def NewClient_def IsAlive_def
        sendCap_def Let_def)
qed

lemma unlisted_action_refused_witness:
  "\<exists>s'. handleRemoteRequest ex_env 9 0 [(''action'', JStr ''no-such-action'')] ex_state = RRDone s'"
proof -
  have "''no-such-action'' \<notin> set (map fst ActionToScopeRequired)" by code_simp
  then show ?thesis
    using unlisted_action_refused [of "[(''action'', JStr ''no-such-action'')]" ex_env 9 0 ex_state]
    by (auto simp: get_str_def)
qed

lemma remote_request_sound_witness:
  "\<exists>s'. handleRemoteRequest ex_env 9 0 (aput ''targetClientId'' (JStr ''fvtt_1'') ex_data) ex_state = RRDone s' \<and>
     rr_forwarded s' = [] \<and> rr_started s' = []"
proof -
  have "\<not> authorised ex_env (mg_heap (rr_manager ex_state) ! 0) ''fvtt_1'' action" for action
    by (simp add: authorised_def ex_state_def ex_client_def NewClient_def Let_def)
  then show ?thesis
    using remote_request_sound [of ex_env ex_state 0 "aput ''targetClientId'' (JStr ''fvtt_1'') ex_data" 9]
    by (auto simp: get_str_def ex_state_def ex_data_def)
qed

end
