(* ===== verification/Route.thy ===== *)
theory Route
  imports KeyRequests RemoteRequest
begin

text \<open>
  The route every REST endpoint is built from: parameters (\<open>internal/handler/helpers/params.go\<close>),
  \<open>CreateAPIRoute\<close> of \<open>helpers/route.go\<close>, and the route that creates scoped API keys
  (\<open>POST /auth/api-keys\<close> of \<open>internal/handler/auth.go\<close>).

  \<open>JNull\<close> is Go's nil \<open>interface{}\<close>.  The parsers of numbers and JSON arrays are parameters; a number
  only passes through.  The handler runs in two steps: up to the wait for the module's answer, and
  from the answer, the timeout or the caller's departure on.
\<close>

subsection \<open>Parameters\<close>

datatype param_source = FromBody | FromQuery | FromParams
datatype param_type = TypeString | TypeNumber | TypeBoolean | TypeArray | TypeObject

record ParamDef =
  pd_Name :: string
  pd_From :: "param_source list"
  pd_Type :: "param_type option"
  pd_Required :: bool

record api_request =
  aq_method :: string
  aq_query :: "(string, string) gomap"  \<comment> \<open>the first value of each key\<close>
  aq_body :: "obj option"
  aq_params :: "(string, string) gomap"  \<comment> \<open>of the route pattern\<close>
  aq_context :: "req_context option"

record parsers =
  ps_float :: "string \<Rightarrow> json option"  \<comment> \<open>\<open>strconv.ParseFloat\<close>\<close>
  ps_array :: "string \<Rightarrow> json list option"  \<comment> \<open>\<open>json.Unmarshal\<close> into a slice\<close>

definition params_GetString :: "obj \<Rightarrow> string \<Rightarrow> string" where
  "params_GetString p k = (case aget p k of Some (JStr s) \<Rightarrow> s | _ \<Rightarrow> [])"

definition params_GetBool :: "obj \<Rightarrow> string \<Rightarrow> bool" where
  "params_GetBool p k = (case aget p k of Some (JBool b) \<Rightarrow> b | _ \<Rightarrow> False)"

definition params_GetInt :: "obj \<Rightarrow> string \<Rightarrow> int" where
  "params_GetInt p k =
     (case aget p k of
        Some (JNum n) \<Rightarrow> n
      | Some (JStr s) \<Rightarrow> (case ParseInt64 s of Some n \<Rightarrow> n | None \<Rightarrow> 0)
      | _ \<Rightarrow> 0)"

definition params_Has :: "obj \<Rightarrow> string \<Rightarrow> bool" where
  "params_Has p k \<longleftrightarrow> (case aget p k of None \<Rightarrow> False | Some v \<Rightarrow> v \<noteq> JNull)"

definition source_value :: "api_request \<Rightarrow> obj option \<Rightarrow> string \<Rightarrow> param_source \<Rightarrow> json" where
  "source_value r body name src =
     (case src of
        FromQuery \<Rightarrow> (case aget (aq_query r) name of Some v \<Rightarrow> if v \<noteq> [] then JStr v else JNull | None \<Rightarrow> JNull)
      | FromBody \<Rightarrow> (case body of Some b \<Rightarrow> (case aget b name of Some v \<Rightarrow> v | None \<Rightarrow> JNull) | None \<Rightarrow> JNull)
      | FromParams \<Rightarrow> (case aget (aq_params r) name of Some v \<Rightarrow> if v \<noteq> [] then JStr v else JNull | None \<Rightarrow> JNull))"

fun first_value :: "api_request \<Rightarrow> obj option \<Rightarrow> string \<Rightarrow> param_source list \<Rightarrow> json" where
  "first_value r body name [] = JNull"
| "first_value r body name (src # rest) =
     (let v = source_value r body name src in if v \<noteq> JNull then v else first_value r body name rest)"

definition must_be :: "string \<Rightarrow> string \<Rightarrow> string" where
  "must_be name what = CHR 0x27 # name @ [CHR 0x27] @ '' must be '' @ what"

definition coerceType :: "parsers \<Rightarrow> string \<Rightarrow> json \<Rightarrow> param_type \<Rightarrow> string + json" where
  "coerceType ps name v expected =
     (case expected of
        TypeNumber \<Rightarrow>
          (case v of
             JNum n \<Rightarrow> Inr v
           | JStr s \<Rightarrow> (case ps_float ps s of Some f \<Rightarrow> Inr f | None \<Rightarrow> Inl (must_be name ''a valid number''))
           | _ \<Rightarrow> Inl (must_be name ''a valid number''))
      | TypeBoolean \<Rightarrow>
          (case v of
             JBool b \<Rightarrow> Inr v
           | JStr s \<Rightarrow>
               if to_lower s = ''true'' then Inr (JBool True)
               else if to_lower s = ''false'' then Inr (JBool False)
               else Inl (must_be name ''a valid boolean'')
           | _ \<Rightarrow> Inl (must_be name ''a valid boolean''))
      | TypeArray \<Rightarrow>
          (case v of
             JArr xs \<Rightarrow> Inr v
           | JStr s \<Rightarrow> (case ps_array ps s of Some xs \<Rightarrow> Inr (JArr xs) | None \<Rightarrow> Inl (must_be name ''a valid array''))
           | _ \<Rightarrow> Inl (must_be name ''an array''))
      | TypeObject \<Rightarrow> (case v of JObj ob \<Rightarrow> Inr v | _ \<Rightarrow> Inl (must_be name ''an object''))
      | TypeString \<Rightarrow> (case v of JStr s \<Rightarrow> Inr v | _ \<Rightarrow> Inl (must_be name ''a string'')))"

fun ExtractParams :: "parsers \<Rightarrow> api_request \<Rightarrow> obj option \<Rightarrow> ParamDef list \<Rightarrow> obj \<Rightarrow> string + obj" where
  "ExtractParams ps r body [] params = Inr params"
| "ExtractParams ps r body (def # defs) params =
     (let value = first_value r body (pd_Name def) (pd_From def)
      in if value = JNull then ExtractParams ps r body defs params
         else (case (case pd_Type def of None \<Rightarrow> Inr value | Some t \<Rightarrow> coerceType ps (pd_Name def) value t) of
                 Inl err \<Rightarrow> Inl err
               | Inr v \<Rightarrow> ExtractParams ps r body defs (aput (pd_Name def) v params)))"

fun ValidateRequired :: "obj \<Rightarrow> ParamDef list \<Rightarrow> string option" where
  "ValidateRequired params [] = None"
| "ValidateRequired params (def # defs) =
     (if pd_Required def \<and> \<not> params_Has params (pd_Name def)
      then Some (CHR 0x27 # pd_Name def @ [CHR 0x27] @ '' is required'')
      else ValidateRequired params defs)"

text \<open>A value of a declared type.\<close>

fun has_type :: "param_type \<Rightarrow> json \<Rightarrow> bool" where
  "has_type TypeString (JStr _) \<longleftrightarrow> True"
| "has_type TypeNumber (JNum _) \<longleftrightarrow> True"
| "has_type TypeBoolean (JBool _) \<longleftrightarrow> True"
| "has_type TypeArray (JArr _) \<longleftrightarrow> True"
| "has_type TypeObject (JObj _) \<longleftrightarrow> True"
| "has_type _ _ \<longleftrightarrow> False"

text \<open>\<open>strconv.ParseFloat\<close> returns numbers.\<close>

definition numbers :: "parsers \<Rightarrow> bool" where
  "numbers ps \<longleftrightarrow> (\<forall>s f. ps_float ps s = Some f \<longrightarrow> has_type TypeNumber f)"

lemma numbersD: "\<lbrakk>numbers ps; ps_float ps s = Some f\<rbrakk> \<Longrightarrow> has_type TypeNumber f"
  by (simp add: numbers_def)

lemma coerceType_typed: "\<lbrakk>coerceType ps name v t = Inr v'; numbers ps\<rbrakk> \<Longrightarrow> has_type t v'"
  by (cases t) (auto simp: coerceType_def dest: numbersD split: json.splits option.splits if_splits)

lemma ExtractParams_typed:
  assumes "ExtractParams ps r body defs p0 = Inr params" and "numbers ps" and "aget params k = Some v"
  shows "aget p0 k = Some v \<or> (\<exists>def\<in>set defs. pd_Name def = k \<and> (\<forall>t. pd_Type def = Some t \<longrightarrow> has_type t v))"
  using assms
proof (induction ps r body defs p0 rule: ExtractParams.induct)
  case (2 ps r body def defs p0)
  let ?v0 = "first_value r body (pd_Name def) (pd_From def)"
  show ?case
  proof (cases "?v0 = JNull")
    case True
    then show ?thesis using 2 by auto
  next
    case False
    then obtain v' where v': "(case pd_Type def of None \<Rightarrow> Inr ?v0 | Some t \<Rightarrow> coerceType ps (pd_Name def) ?v0 t) = Inr v'"
        "ExtractParams ps r body defs (aput (pd_Name def) v' p0) = Inr params"
      using "2.prems"(1) by (auto simp: Let_def split: sum.splits)
    have typed: "\<forall>t. pd_Type def = Some t \<longrightarrow> has_type t v'"
      using v'(1) "2.prems"(2) by (auto intro: coerceType_typed)
    have "aget (aput (pd_Name def) v' p0) k = Some v \<or>
        (\<exists>d\<in>set defs. pd_Name d = k \<and> (\<forall>t. pd_Type d = Some t \<longrightarrow> has_type t v))"
      using "2.IH"(2) [OF refl False v'(1) v'(2) "2.prems"(2,3)] .
    then show ?thesis using typed by (auto split: if_splits)
  qed
qed simp

text \<open>C33: What a route works with is typed as it is declared: every extracted parameter has the name of a
  declared one, and the type declared for it, whatever the query, the body and the path held.\<close>

theorem params_typed:
  assumes "ExtractParams ps r body defs [] = Inr params" and "numbers ps" and "aget params k = Some v"
  shows "\<exists>def\<in>set defs. pd_Name def = k \<and> (\<forall>t. pd_Type def = Some t \<longrightarrow> has_type t v)"
  using ExtractParams_typed [OF assms] by simp

subsection \<open>The target of a request\<close>

record 'h route_state =
  rt_manager :: "'h manager"
  rt_pending :: pending_state

record 'h route_cfg =
  ra_Type :: string
  ra_RequiredParams :: "ParamDef list"
  ra_OptionalParams :: "ParamDef list"
  ra_Timeout :: int  \<comment> \<open>nanoseconds, 0 for the default\<close>
  ra_ValidateParams :: "(req_context option \<Rightarrow> obj \<Rightarrow> obj option) option"  \<comment> \<open>the answer's body when it finds an error\<close>
  ra_BuildPayload :: "(obj \<Rightarrow> obj) option"
  ra_BuildPendingRequest :: "(obj \<Rightarrow> PendingRequest option) option"
  ra_AutoStart :: "(req_context \<Rightarrow> string \<Rightarrow> 'h manager \<Rightarrow> string \<times> 'h manager) option"  \<comment> \<open>\<open>AutoStartFunc\<close>\<close>

definition route_timeout :: "'h route_cfg \<Rightarrow> int" where
  "route_timeout cfg = (if ra_Timeout cfg = 0 then seconds 10 else ra_Timeout cfg)"

definition scoped_key :: "req_context option \<Rightarrow> ScopedKeyInfo option" where
  "scoped_key ctx = (case ctx of None \<Rightarrow> None | Some c \<Rightarrow> rc_ScopedKey c)"

definition bind_client :: "req_context option \<Rightarrow> obj \<Rightarrow> answer + obj" where
  "bind_client ctx params =
     (case scoped_key ctx of
        None \<Rightarrow> Inr params
      | Some k \<Rightarrow>
          if length (sk_ScopedClientIDs k) > 0
          then (let requested = params_GetString params ''clientId''
                in if requested \<noteq> []
                   then (if \<not> sk_CanAccessClient k requested then Inl (WriteError 403 ''API key is not authorized for this client'')
                         else Inr params)
                   else if length (sk_ScopedClientIDs k) = 1
                   then Inr (aput ''clientId'' (JStr (sk_ScopedClientIDs k ! 0)) params)
                   else Inr params)
          else if sk_ScopedClientID k \<noteq> [] then Inr (aput ''clientId'' (JStr (sk_ScopedClientID k)) params)
          else Inr params)"

definition resolve_client ::
    "'h route_cfg \<Rightarrow> req_context option \<Rightarrow> obj \<Rightarrow> 'h manager \<Rightarrow> (answer + (string \<times> obj)) \<times> 'h manager" where
  "resolve_client cfg ctx params m =
     (let clientID = params_GetString params ''clientId'';
          masterKey = (case ctx of None \<Rightarrow> [] | Some c \<Rightarrow> rc_MasterAPIKey c)
      in if clientID \<noteq> [] then (Inr (clientID, params), m)
         else if masterKey = [] then (Inl (WriteError 400 (CHR 0x27 # ''clientId'' @ [CHR 0x27] @ '' is required'')), m)
         else
           (let all = GetConnectedClients masterKey m;
                clients = (case scoped_key ctx of
                             Some k \<Rightarrow> if length (sk_ScopedClientIDs k) > 0 then filter (sk_CanAccessClient k) all else all
                           | None \<Rightarrow> all)
            in case clients of
                 [c] \<Rightarrow> (Inr (c, aput ''clientId'' (JStr c) params), m)
               | [] \<Rightarrow>
                   (let (autoID, m1) = (case (ra_AutoStart cfg, ctx) of
                                          (Some f, Some c) \<Rightarrow> f c [] m
                                        | _ \<Rightarrow> ([], m))
                    in if autoID \<noteq> [] then (Inr (autoID, aput ''clientId'' (JStr autoID) params), m1)
                       else (Inl (WriteError 404 ''No connected Foundry clients found''), m1))
               | _ \<Rightarrow> (Inl (400, [(''error'', JStr ''Multiple clients connected. Please specify clientId.''),
                                   (''connectedClients'', jstrs clients)]), m)))"

definition inject_user :: "req_context option \<Rightarrow> string \<Rightarrow> obj \<Rightarrow> obj" where
  "inject_user ctx clientID params =
     (case scoped_key ctx of
        None \<Rightarrow> params
      | Some k \<Rightarrow>
          if length (sk_ScopedUserIDs k) > 0
          then (case aget (sk_ScopedUserIDs k) clientID of
                  Some uid \<Rightarrow> if uid \<noteq> [] then aput ''userId'' (JStr uid) params else params
                | None \<Rightarrow> params)
          else if sk_ScopedUserID k \<noteq> [] then aput ''userId'' (JStr (sk_ScopedUserID k)) params
          else params)"

text \<open>The connected client, after an attempt to start it when the request came with an API key.\<close>

definition find_client ::
    "'h route_cfg \<Rightarrow> req_context option \<Rightarrow> string \<Rightarrow> obj \<Rightarrow> 'h manager \<Rightarrow> (nat option \<times> string \<times> obj) \<times> 'h manager" where
  "find_client cfg ctx clientID params m =
     (case GetClient clientID m of
        Some ref \<Rightarrow> ((Some ref, clientID, params), m)
      | None \<Rightarrow>
          (case (ra_AutoStart cfg, ctx, scoped_key ctx) of
             (Some f, Some c, Some k) \<Rightarrow>
               (let (autoID, m1) = f c clientID m
                in if autoID \<noteq> [] then ((GetClient autoID m1, autoID, aput ''clientId'' (JStr autoID) params), m1)
                   else ((None, clientID, params), m1))
           | _ \<Rightarrow> ((None, clientID, params), m)))"

subsection \<open>Sending the request\<close>

definition request_id :: "gotime \<Rightarrow> string \<Rightarrow> string" where
  "request_id now typ = typ @ ''_'' @ int_text (unix_milli now)"

definition new_pending :: "'h route_cfg \<Rightarrow> gotime \<Rightarrow> nat \<Rightarrow> string \<Rightarrow> obj \<Rightarrow> PendingRequest" where
  "new_pending cfg now ch clientID params =
     (let req = \<lparr>pr_ResponseCh = ch, pr_Type = ra_Type cfg, pr_ClientID = clientID, pr_UUID = [], pr_Path = [], pr_Query = [],
            pr_Filter = [], pr_Format = [], pr_ActiveTab = None, pr_DarkMode = False, pr_InitScale = None, pr_Timestamp = now,
            pr_MaxAge = 0, pr_WSCallback = False\<rparr>
      in case (case ra_BuildPendingRequest cfg of None \<Rightarrow> None | Some f \<Rightarrow> f params) of
           None \<Rightarrow> req
         | Some extra \<Rightarrow>
             req\<lparr>pr_Format := pr_Format extra, pr_ActiveTab := pr_ActiveTab extra, pr_DarkMode := pr_DarkMode extra,
                 pr_InitScale := pr_InitScale extra, pr_UUID := pr_UUID extra, pr_Path := pr_Path extra,
                 pr_Query := pr_Query extra, pr_Filter := pr_Filter extra\<rparr>)"

definition build_payload :: "'h route_cfg \<Rightarrow> req_context option \<Rightarrow> string \<Rightarrow> obj \<Rightarrow> obj" where
  "build_payload cfg ctx requestID params =
     (let p0 = (case ra_BuildPayload cfg of
                  Some f \<Rightarrow> f params
                | None \<Rightarrow> filter (\<lambda>kv. fst kv \<noteq> ''clientId'' \<and> fst kv \<noteq> ''type'') params);
          p1 = aput ''requestId'' (JStr requestID) (aput ''type'' (JStr (ra_Type cfg)) p0);
          p2 = (case scoped_key ctx of None \<Rightarrow> p1 | Some k \<Rightarrow> aput ''_scopes'' (jstrs (sk_Scopes k)) p1)
      in if aget p2 ''data'' = None then aput ''data'' (JObj []) p2 else p2)"

datatype route_step = Answered answer | Waiting string nat string

definition api_send :: "parsers \<Rightarrow> 'h route_cfg \<Rightarrow> gotime \<Rightarrow> api_request \<Rightarrow> 'h route_state \<Rightarrow> route_step \<times> 'h route_state" where
  "api_send ps cfg now r s =
     (let body = (if aq_method r \<noteq> ''GET'' then aq_body r else None); ctx = aq_context r
      in case ExtractParams ps r body (ra_RequiredParams cfg @ ra_OptionalParams cfg) [] of
           Inl err \<Rightarrow> (Answered (WriteError 400 err), s)
         | Inr params \<Rightarrow>
      (case ValidateRequired params (ra_RequiredParams cfg) of
         Some err \<Rightarrow> (Answered (WriteError 400 err), s)
       | None \<Rightarrow>
      (case (case ra_ValidateParams cfg of None \<Rightarrow> None | Some f \<Rightarrow> f ctx params) of
         Some errData \<Rightarrow> (Answered (400, errData), s)
       | None \<Rightarrow>
      (case bind_client ctx params of
         Inl a \<Rightarrow> (Answered a, s)
       | Inr params1 \<Rightarrow>
      (case resolve_client cfg ctx params1 (rt_manager s) of
         (Inl a, m1) \<Rightarrow> (Answered a, s\<lparr>rt_manager := m1\<rparr>)
       | (Inr (clientID, params2), m1) \<Rightarrow>
      (case find_client cfg ctx clientID (inject_user ctx clientID params2) m1 of
         ((None, cid, params3), m2) \<Rightarrow>
           (Answered (404, [(''error'', JStr ''Invalid client ID''), (''clientId'', JStr cid),
                            (''message'', JStr ''No Foundry client connected with this ID.'')]), s\<lparr>rt_manager := m2\<rparr>)
       | ((Some ref, cid, params3), m2) \<Rightarrow>
           (let requestID = request_id now (ra_Type cfg);
                ch = fresh_chan (rt_pending s);
                p = Store requestID (new_pending cfg now ch cid params3) (new_chan ch (rt_pending s));
                (sent, m3) = send_to ref (JObj (build_payload cfg ctx requestID params3)) m2
            in if \<not> sent
               then (Answered (WriteError 500 ''Failed to send request to Foundry client''),
                     s\<lparr>rt_manager := m3, rt_pending := Pending.Delete requestID p\<rparr>)
               else (Waiting requestID ch cid, s\<lparr>rt_manager := m3, rt_pending := p\<rparr>))))))))"

subsection \<open>The answer\<close>

text \<open>What is written: a JSON object, bytes with their headers (a number is printed), or nothing.\<close>

datatype http_out = HJson int obj | HRaw int "(string \<times> json) list" string | HNothing

definition json_header :: "(string \<times> json) list" where
  "json_header = [(''Content-Type'', JStr ''application/json'')]"

definition header_if :: "string \<Rightarrow> json \<Rightarrow> (json \<Rightarrow> bool) \<Rightarrow> (string \<times> json) list" where
  "header_if name v P = (if P v then [(name, v)] else [])"

definition is_str :: "json \<Rightarrow> bool" where "is_str v = (case v of JStr s \<Rightarrow> True | _ \<Rightarrow> False)"
definition is_num :: "json \<Rightarrow> bool" where "is_num v = (case v of JNum n \<Rightarrow> True | _ \<Rightarrow> False)"

definition api_answer :: "WSResponse option \<Rightarrow> http_out" where
  "api_answer resp =
     (case resp of
        None \<Rightarrow> HJson 504 [(''error'', JStr ''Request timed out'')]
      | Some r \<Rightarrow>
          (case RawData r of
             Some raw \<Rightarrow>
               (case Data r of
                  Some d \<Rightarrow>
                    if is_str (get_any d ''_contentType'')
                    then HRaw (int (StatusCode r))
                           ((''Content-Type'', get_any d ''_contentType'')
                            # header_if ''Content-Disposition'' (get_any d ''_contentDisposition'') is_str
                            @ header_if ''Content-Length'' (get_any d ''_contentLength'') is_num
                            @ header_if ''X-Image-Width'' (get_any d ''width'') (\<lambda>v. v \<noteq> JNull)
                            @ header_if ''X-Image-Height'' (get_any d ''height'') (\<lambda>v. v \<noteq> JNull)) raw
                    else HRaw (int (StatusCode r)) json_header raw
                | None \<Rightarrow> HRaw (int (StatusCode r)) json_header raw)
           | None \<Rightarrow> (case Data r of Some d \<Rightarrow> HJson (int (StatusCode r)) d | None \<Rightarrow> HNothing)))"

definition api_timeout :: "string \<Rightarrow> 'h route_state \<Rightarrow> answer \<times> 'h route_state" where
  "api_timeout requestID s =
     (WriteError 408 ''Request timed out'', s\<lparr>rt_pending := Pending.Delete requestID (rt_pending s)\<rparr>)"

definition api_gone :: "string \<Rightarrow> 'h route_state \<Rightarrow> 'h route_state" where
  "api_gone requestID s = s\<lparr>rt_pending := Pending.Delete requestID (rt_pending s)\<rparr>"

subsection \<open>Creating a scoped key\<close>

text \<open>The strings of an array, and the per-client users with empty ones left out; \<open>marshal\<close> is \<open>json.Marshal\<close>.\<close>

definition strs_of :: "json option \<Rightarrow> string list" where
  "strs_of v = (case v of Some (JArr xs) \<Rightarrow> List.map_filter (\<lambda>x. case x of JStr s \<Rightarrow> Some s | _ \<Rightarrow> None) xs | _ \<Rightarrow> [])"

definition users_of :: "json option \<Rightarrow> (string, string) gomap" where
  "users_of v =
     (case v of
        Some (JObj kvs) \<Rightarrow>
          List.map_filter (\<lambda>(k, x). case x of JStr s \<Rightarrow> if s \<noteq> [] then Some (k, s) else None | _ \<Rightarrow> None) kvs
      | _ \<Rightarrow> [])"

definition created_key ::
    "((string, string) gomap \<Rightarrow> string) \<Rightarrow> (string \<Rightarrow> gotime option) \<Rightarrow> User \<Rightarrow> string \<Rightarrow> obj \<Rightarrow> ApiKey" where
  "created_key marshal time_parse user keyStr body =
     (let ids = filter (\<lambda>s. s \<noteq> []) (strs_of (aget body ''scopedClientIds'')); users = users_of (aget body ''scopedUserIds'')
      in \<lparr>ak_ID = 0, ak_UserID = us_ID user, ak_Key = keyStr, ak_KeyHash = [], ak_Name = get_str body ''name'',
          ak_ScopedClientID = nonempty_str (get_str body ''scopedClientId''),
          ak_ScopedUserID = nonempty_str (get_str body ''scopedUserId''),
          ak_MonthlyLimit = (if get_str body ''monthlyLimit'' \<noteq> [] then ParseInt64 (get_str body ''monthlyLimit'') else None),
          ak_RequestsThisMonth = 0, ak_LastResetDate = None, ak_Scopes = ScopesString (strs_of (aget body ''scopes'')),
          ak_ScopedClientIDs = (if length ids > 0 then Some (go_join '','' ids) else None),
          ak_ScopedUserIDs = (if length users > 0 then Some (marshal users) else None),
          ak_ExpiresAt = (if get_str body ''expiresAt'' \<noteq> [] then time_parse (get_str body ''expiresAt'') else None),
          ak_Enabled = True, ak_CreatedAt = 0, ak_UpdatedAt = 0\<rparr>)"

definition api_key_create ::
    "(string \<Rightarrow> string) \<Rightarrow> ((string, string) gomap \<Rightarrow> string) \<Rightarrow> (string \<Rightarrow> (string, string) gomap) \<Rightarrow> (string \<Rightarrow> gotime option) \<Rightarrow>
     gotime \<Rightarrow> string option \<Rightarrow> User option \<Rightarrow> string + obj \<Rightarrow> db \<Rightarrow> (answer \<times> ApiKey option) \<times> db" where
  "api_key_create sha marshal unmarshal time_parse now random usr parsed d =
     (case usr of None \<Rightarrow> ((WriteError 401 ''Invalid user'', None), d)
      | Some user \<Rightarrow>
     (case parsed of Inl err \<Rightarrow> ((WriteError 400 err, None), d)
      | Inr body \<Rightarrow>
          if get_str body ''name'' = [] then ((WriteError 400 ''Name is required'', None), d)
          else case random of None \<Rightarrow> ((WriteError 500 ''Internal server error'', None), d)
          | Some keyStr \<Rightarrow>
              (let scopes = strs_of (aget body ''scopes''); invalid = ValidateScopes scopes
               in if scopes = [] then ((WriteError 400 ''At least one scope is required'', None), d)
                  else if invalid \<noteq> [] then ((WriteError 400 (''Invalid scope: '' @ invalid), None), d)
                  else (case ak_Create sha now keyStr (created_key marshal time_parse user keyStr body) d of
                          (DBErr, k, d1) \<Rightarrow> ((WriteError 500 ''Failed to create API key'', None), d1)
                        | (DBOk _, k, d1) \<Rightarrow>
                            (((201, [(''id'', JNum (ak_ID k)), (''key'', JStr (ak_Key k)), (''name'', JStr (ak_Name k)),
                                     (''scopes'', jstrs (GetScopes k)), (''scopedClientId'', JStr (null_str (ak_ScopedClientID k))),
                                     (''scopedClientIds'', jstrs (GetScopedClientIDs k)),
                                     (''scopedUserId'', JStr (null_str (ak_ScopedUserID k))),
                                     (''scopedUserIds'', JObj (map (\<lambda>(c, u). (c, JStr u)) (GetScopedUserIDs unmarshal k))),
                                     (''monthlyLimit'', JNum (int_or_zero (ak_MonthlyLimit k))),
                                     (''expiresAt'', (case ak_ExpiresAt k of None \<Rightarrow> JNull | Some t \<Rightarrow> JNum t)),
                                     (''enabled'', JBool True), (''createdAt'', JNum (ak_CreatedAt k))]), Some k), d1)))))"

subsection \<open>A scoped key stays with its worlds\<close>

definition starts_target :: "'h route_cfg \<Rightarrow> bool" where
  "starts_target cfg \<longleftrightarrow> (\<forall>f. ra_AutoStart cfg = Some f \<longrightarrow> (\<forall>c t m. fst (f c t m) = [] \<or> fst (f c t m) = t))"

lemma bind_client_confined:
  assumes "bind_client ctx params = Inr params1" and "scoped_key ctx = Some k" and "sk_ScopedClientIDs k \<noteq> []"
  shows "params_GetString params1 ''clientId'' = [] \<or> params_GetString params1 ''clientId'' \<in> set (sk_ScopedClientIDs k)"
  using assms
  by (auto simp: bind_client_def params_GetString_def sk_CanAccessClient_def Let_def length_Suc_conv split: if_splits)

lemma resolve_client_confined:
  assumes "resolve_client cfg ctx params m = (Inr (cid, params2), m1)" and "scoped_key ctx = Some k"
    and "sk_ScopedClientIDs k \<noteq> []" and "starts_target cfg"
    and "params_GetString params ''clientId'' = [] \<or> params_GetString params ''clientId'' \<in> set (sk_ScopedClientIDs k)"
  shows "cid \<in> set (sk_ScopedClientIDs k)"
proof -
  let ?f = "filter (sk_CanAccessClient k) (GetConnectedClients (case ctx of None \<Rightarrow> [] | Some c \<Rightarrow> rc_MasterAPIKey c) m)"
  have one: "c \<in> set (sk_ScopedClientIDs k)" if "?f = [c]" for c
  proof -
    have "c \<in> set ?f" using that by simp
    then show ?thesis using assms(3) by (simp add: sk_CanAccessClient_def)
  qed
  have none: "x = []" if "ra_AutoStart cfg = Some f" "f c [] m = (x, m')" for f c x m'
    using assms(4) that unfolding starts_target_def by (metis fst_conv)
  show ?thesis
    using assms(1,2,3,5) one
    by (auto simp: resolve_client_def Let_def dest: none split: if_splits list.splits prod.splits option.splits)
qed

lemma find_client_confined:
  assumes "find_client cfg ctx cid params m = ((Some ref, cid', params3), m2)" and "starts_target cfg"
  shows "cid' = cid"
  using assms
  by (auto simp: find_client_def starts_target_def Let_def split: option.splits prod.splits if_splits) (metis fst_conv)

lemma api_send_Waiting:
  assumes "api_send ps cfg now r s = (Waiting rid ch cid, s')"
  obtains params params1 params2 cid0 m1 ref params3 m2 m3 where
    "bind_client (aq_context r) params = Inr params1"
    "resolve_client cfg (aq_context r) params1 (rt_manager s) = (Inr (cid0, params2), m1)"
    "find_client cfg (aq_context r) cid0 (inject_user (aq_context r) cid0 params2) m1 = ((Some ref, cid, params3), m2)"
    "rid = request_id now (ra_Type cfg)" "ch = fresh_chan (rt_pending s)"
    "send_to ref (JObj (build_payload cfg (aq_context r) rid params3)) m2 = (True, m3)"
    "s' = s\<lparr>rt_manager := m3, rt_pending := Store rid (new_pending cfg now ch cid params3) (new_chan ch (rt_pending s))\<rparr>"
  using assms
  by (auto simp: api_send_def Let_def split: sum.splits option.splits prod.splits if_splits)


subsection \<open>Two requests in one millisecond\<close>

text \<open>The identifier of a request is its type and the millisecond.  Of two requests of one type in the same
  millisecond, whoever sent them, the second replaces the first in the table: the answer that carries the
  identifier goes to the second caller's channel and the first caller's channel stays empty.\<close>

theorem same_millisecond_crossed:
  assumes "api_send ps cfg1 now1 r1 s = (Waiting id1 ch1 cid1, s1)" and "api_send ps cfg2 now2 r2 s1 = (Waiting id2 ch2 cid2, s2)"
    and "ra_Type cfg1 = ra_Type cfg2" and "unix_milli now1 = unix_milli now2"
  shows "ch1 \<noteq> ch2 \<and>
    aget (ps_chans (ResolveRaw id1 status raw (rt_pending s2))) ch1 = Some \<lparr>ch_cap = 1, ch_buf = []\<rparr> \<and>
    aget (ps_chans (ResolveRaw id1 status raw (rt_pending s2))) ch2 =
      Some \<lparr>ch_cap = 1, ch_buf = [\<lparr>StatusCode = status, Data = None, RawData = Some raw\<rparr>]\<rparr> \<and>
    Load id1 (ResolveRaw id1 status raw (rt_pending s2)) = None"
proof -
  obtain q1 where 1: "rt_pending s1 = Store id1 q1 (new_chan ch1 (rt_pending s))" "id1 = request_id now1 (ra_Type cfg1)"
    using assms(1) by (rule api_send_Waiting) simp
  obtain q2 where 2: "rt_pending s2 = Store id2 q2 (new_chan ch2 (rt_pending s1))" "id2 = request_id now2 (ra_Type cfg2)"
      "ch2 = fresh_chan (rt_pending s1)" "pr_ResponseCh q2 = ch2"
    using assms(2) by (rule api_send_Waiting) (simp add: new_pending_def Let_def split: option.splits)
  have same: "id2 = id1" using 1(2) 2(2) assms(3,4) by (simp add: request_id_def)
  have chans: "ps_chans (rt_pending s1) = aput ch1 \<lparr>ch_cap = 1, ch_buf = []\<rparr> (ps_chans (rt_pending s))"
    by (simp add: 1(1) Store_def new_chan_def Let_def)
  have "ch1 \<in> set (akeys (ps_chans (rt_pending s1)))" unfolding chans by (rule iffD1 [OF aget_keys]) simp
  moreover have "k < foldr max ks 0 + 1" if "k \<in> set ks" for k :: nat and ks using that by (induction ks) auto
  ultimately have ne: "ch1 \<noteq> ch2" unfolding 2(3) fresh_chan_def by fastforce
  show ?thesis
    using ne 2(4)
    by (simp add: 2(1) same ResolveRaw_def Store_def new_chan_def Load_def offer_def chan_try_send_def chans Let_def)
qed

subsection \<open>A key bound to a world of another account\<close>

text \<open>Neither way of creating a key asks whose the listed worlds are.\<close>

lemma created_key_binds_any_world:
  assumes "aget body ''scopedClientIds'' = Some (JArr [JStr cid])" and "cid \<noteq> []" and "CHR '','' \<notin> set cid"
  shows "GetScopedClientIDs (created_key marshal time_parse user keyStr body) = [cid]"
  using assms by (simp add: created_key_def strs_of_def GetScopedClientIDs_def Let_def go_split_no_sep List.map_filter_def)

text \<open>C35: A request that names a world of another account is refused, but with a key bound to that world the
  request need not name it: it passes the authentication, and the route then sends the action to the other
  account's module.\<close>

theorem scoped_key_crosses_accounts:
  assumes "ak_FindByKey (ae_sha env) (hq_apiKey r) (au_db s) = (DBOk (Some k), d)"
    and "\<not> hasBearerHeader r" and "hq_apiKey r \<noteq> []" and "getCachedAuth now (hq_apiKey r) s = None" and "hq_clientId r = []"
    and "ak_Enabled k" and "\<not> IsExpired now k" and "ak_MonthlyLimit k = None"
    and "us_FindByID (ak_UserID k) d = DBOk (Some u)"
    and "us_EmailVerified u" and "\<not> us_APIKeyRotationRequired u" and "\<not> us_Disabled u"
    and "GetScopedClientIDs k = [cid]" and "cid \<noteq> []"
    and "GetClient cid m = Some ref" and "ref < length (mg_heap m)" and "cl_apiKey (mg_heap m ! ref) \<noteq> null_str (us_APIKeyHash u)"
    and "IsAlive (mg_heap m ! ref)" and "length (cl_sendCh (mg_heap m ! ref)) < sendCap"
    and "ra_RequiredParams cfg = []" and "ra_OptionalParams cfg = []" and "ra_ValidateParams cfg = None"
  shows "fst (AuthMiddleware env now m (r\<lparr>hq_clientId := cid\<rparr>) s) = Answer 401 ''Invalid API key for this client ID'' \<and>
    (\<exists>c s' rid ch st payload. AuthMiddleware env now m r s = (Next c, s') \<and>
      api_send ps cfg now \<lparr>aq_method = ''GET'', aq_query = [], aq_body = None, aq_params = [], aq_context = Some c\<rparr>
        \<lparr>rt_manager = m, rt_pending = p\<rparr> = (Waiting rid ch cid, st) \<and>
      cl_sendCh (mg_heap (rt_manager st) ! ref) = cl_sendCh (mg_heap m ! ref) @ [Encoded (JObj payload)])"
proof
  have look: "lookup_auth env now m r s = (Next (key_context env u k), setCachedAuth now (hq_apiKey r) u k (s\<lparr>au_db := d\<rparr>))"
    using assms(1,5-12) by (simp add: lookup_auth_def client_gate_def Let_def)
  have nb: "\<not> hasBearerHeader (r\<lparr>hq_clientId := cid\<rparr>)" using assms(2) by (simp add: hasBearerHeader_def)
  have "fst (lookup_auth env now m (r\<lparr>hq_clientId := cid\<rparr>) s) = Answer 401 ''Invalid API key for this client ID''"
    using assms(1,6-12,14,15,17) by (simp add: lookup_auth_def client_gate_def Let_def)
  then show "fst (AuthMiddleware env now m (r\<lparr>hq_clientId := cid\<rparr>) s) = Answer 401 ''Invalid API key for this client ID''"
    using assms(3,4) nb by (simp add: AuthMiddleware_def)
  have auth: "AuthMiddleware env now m r s = (Next (key_context env u k), setCachedAuth now (hq_apiKey r) u k (s\<lparr>au_db := d\<rparr>))"
    using look assms(2-4) by (simp add: AuthMiddleware_def)
  let ?ctx = "Some (key_context env u k)"
  let ?params = "inject_user ?ctx cid [(''clientId'', JStr cid)]"
  let ?msg = "build_payload cfg ?ctx (request_id now (ra_Type cfg)) ?params"
  have bind: "bind_client ?ctx [] = Inr [(''clientId'', JStr cid)]"
    using assms(13) by (simp add: bind_client_def scoped_key_def key_context_def params_GetString_def)
  have resolve: "resolve_client cfg ?ctx [(''clientId'', JStr cid)] m = (Inr (cid, [(''clientId'', JStr cid)]), m)"
    using assms(14) by (simp add: resolve_client_def params_GetString_def)
  have find: "find_client cfg ?ctx cid ?params m = ((Some ref, cid, ?params), m)"
    using assms(15) by (simp add: find_client_def)
  have send: "send_to ref (JObj ?msg) m =
      (True, heap_update ref ((mg_heap m ! ref)\<lparr>cl_sendCh := cl_sendCh (mg_heap m ! ref) @ [Encoded (JObj ?msg)]\<rparr>) m)"
    using assms(18,19) by (simp add: send_to_def Send_def enqueue_def)
  have "\<exists>rid ch st. api_send ps cfg now \<lparr>aq_method = ''GET'', aq_query = [], aq_body = None, aq_params = [], aq_context = ?ctx\<rparr>
        \<lparr>rt_manager = m, rt_pending = p\<rparr> = (Waiting rid ch cid, st) \<and>
      cl_sendCh (mg_heap (rt_manager st) ! ref) = cl_sendCh (mg_heap m ! ref) @ [Encoded (JObj ?msg)]"
    using assms(16,20-22) by (simp add: api_send_def bind resolve find send heap_update_def Let_def)
  then show "\<exists>c s' rid ch st payload. AuthMiddleware env now m r s = (Next c, s') \<and>
      api_send ps cfg now \<lparr>aq_method = ''GET'', aq_query = [], aq_body = None, aq_params = [], aq_context = Some c\<rparr>
        \<lparr>rt_manager = m, rt_pending = p\<rparr> = (Waiting rid ch cid, st) \<and>
      cl_sendCh (mg_heap (rt_manager st) ! ref) = cl_sendCh (mg_heap m ! ref) @ [Encoded (JObj payload)]"
    using auth by blast
qed

subsection \<open>Concrete runs\<close>

definition ex_route :: "unit route_cfg" where
  "ex_route =
     \<lparr>ra_Type = ''structure'', ra_RequiredParams = [], ra_OptionalParams = [], ra_Timeout = 0, ra_ValidateParams = None, ra_BuildPayload = None,
      ra_BuildPendingRequest = None, ra_AutoStart = None\<rparr>"

definition ex_parsers :: parsers where
  "ex_parsers = \<lparr>ps_float = (\<lambda>s. None), ps_array = (\<lambda>s. None)\<rparr>"

definition ex_bound_key :: ApiKey where
  "ex_bound_key = (ex_key 7 1 ''k1'')\<lparr>ak_ScopedClientIDs := Some ''fvtt_1''\<rparr>"

definition ex_ctx :: req_context where
  "ex_ctx = key_context ex_auth_env (ex_user 1) ex_bound_key"

definition ex_api :: api_request where
  "ex_api = \<lparr>aq_method = ''GET'', aq_query = [], aq_body = None, aq_params = [], aq_context = Some ex_ctx\<rparr>"

definition ex_route_state :: "unit route_state" where
  "ex_route_state = \<lparr>rt_manager = ex_manager False ''i1'', rt_pending = NewPendingRequests\<rparr>"

lemma ex_bound: "GetScopedClientIDs ex_bound_key = [''fvtt_1'']"
  by (simp add: ex_bound_key_def GetScopedClientIDs_def)

lemma ex_ctx_key: "rc_ScopedKey ex_ctx = Some k \<Longrightarrow> sk_ScopedClientIDs k = [''fvtt_1'']"
  by (auto simp: ex_ctx_def key_context_def ex_bound)

lemma ex_target: "GetClient ''fvtt_1'' (ex_manager False ''i1'') = Some 0" "0 < length (mg_heap (ex_manager False ''i1''))"
  "IsAlive (mg_heap (ex_manager False ''i1'') ! 0)" "length (cl_sendCh (mg_heap (ex_manager False ''i1'') ! 0)) < sendCap"
  "cl_apiKey (mg_heap (ex_manager False ''i1'') ! 0) = ''key''"
  by (simp_all add: ex_manager_defs GetClient_def IsAlive_def sendCap_def)

lemma scoped_key_crosses_accounts_witness:
  "\<exists>c s' rid ch st payload. AuthMiddleware ex_auth_env 5 (ex_manager False ''i1'') (ex_request ''k1'' []) (ex_auth ex_bound_key) = (Next c, s') \<and>
    api_send ex_parsers ex_route 5 \<lparr>aq_method = ''GET'', aq_query = [], aq_body = None, aq_params = [], aq_context = Some c\<rparr>
      \<lparr>rt_manager = ex_manager False ''i1'', rt_pending = NewPendingRequests\<rparr> = (Waiting rid ch ''fvtt_1'', st) \<and>
    cl_sendCh (mg_heap (rt_manager st) ! 0) = cl_sendCh (mg_heap (ex_manager False ''i1'') ! 0) @ [Encoded (JObj payload)]"
proof -
  let ?r = "ex_request ''k1'' []" and ?d = "empty_db\<lparr>db_users := [ex_user 1], db_keys := [ex_bound_key]\<rparr>"
  have f: "ak_FindByKey (ae_sha ex_auth_env) (hq_apiKey ?r) (au_db (ex_auth ex_bound_key)) = (DBOk (Some ex_bound_key), ?d)"
    by (simp add: ak_FindByKey_def get_row_def db_ok_def HashAPIKey_def ex_bound_key_def ex_auth_defs Let_def)
  have u: "us_FindByID (ak_UserID ex_bound_key) ?d = DBOk (Some (ex_user 1))"
    by (simp add: us_FindByID_def get_row_def db_ok_def ex_bound_key_def ex_rows)
  have k: "ak_Enabled ex_bound_key" "\<not> IsExpired 5 ex_bound_key" "ak_MonthlyLimit ex_bound_key = None"
    by (simp_all add: ex_bound_key_def ex_key_def IsExpired_def)
  have r: "\<not> hasBearerHeader ?r" "hq_apiKey ?r \<noteq> []" "getCachedAuth 5 (hq_apiKey ?r) (ex_auth ex_bound_key) = None" "hq_clientId ?r = []"
    by (simp_all add: hasBearerHeader_def getCachedAuth_def ex_auth_defs)
  have v: "us_EmailVerified (ex_user 1)" "\<not> us_APIKeyRotationRequired (ex_user 1)" "\<not> us_Disabled (ex_user 1)"
    "cl_apiKey (mg_heap (ex_manager False ''i1'') ! 0) \<noteq> null_str (us_APIKeyHash (ex_user 1))"
    by (simp_all add: ex_target ex_user_def null_str_def)
  show ?thesis
    by (rule scoped_key_crosses_accounts [OF f r k u v(1-3) ex_bound _ ex_target(1,2) v(4) ex_target(3,4), THEN conjunct2])
      (simp_all add: ex_route_def)
qed

lemma ex_api_run:
  assumes "GetClient ''fvtt_1'' m = Some 0" and "0 < length (mg_heap m)" and "IsAlive (mg_heap m ! 0)"
    and "length (cl_sendCh (mg_heap m ! 0)) < sendCap"
  shows "\<exists>rid st. api_send ex_parsers ex_route now ex_api \<lparr>rt_manager = m, rt_pending = p\<rparr> = (Waiting rid (fresh_chan p) ''fvtt_1'', st) \<and>
    rid = request_id now ''structure'' \<and> GetClient ''fvtt_1'' (rt_manager st) = Some 0 \<and> 0 < length (mg_heap (rt_manager st)) \<and>
    IsAlive (mg_heap (rt_manager st) ! 0) \<and>
    length (cl_sendCh (mg_heap (rt_manager st) ! 0)) = length (cl_sendCh (mg_heap m ! 0)) + 1"
proof -
  have "bind_client (Some ex_ctx) [] = Inr [(''clientId'', JStr ''fvtt_1'')]"
    by (simp add: bind_client_def scoped_key_def ex_ctx_def key_context_def params_GetString_def ex_bound)
  then show ?thesis
    using assms
    by (simp add: api_send_def ex_route_def ex_api_def resolve_client_def params_GetString_def find_client_def
        send_to_def Send_def enqueue_def Let_def heap_update_def GetClient_def IsAlive_def)
qed


lemma same_millisecond_crossed_witness:
  "\<exists>id1 ch1 st1 id2 ch2 st2. api_send ex_parsers ex_route 5 ex_api ex_route_state = (Waiting id1 ch1 ''fvtt_1'', st1) \<and>
    api_send ex_parsers ex_route 5 ex_api st1 = (Waiting id2 ch2 ''fvtt_1'', st2) \<and> ch1 \<noteq> ch2 \<and>
    aget (ps_chans (ResolveRaw id1 200 ''{}'' (rt_pending st2))) ch1 = Some \<lparr>ch_cap = 1, ch_buf = []\<rparr>"
proof -
  obtain id1 ch1 st1 where r1: "api_send ex_parsers ex_route 5 ex_api ex_route_state = (Waiting id1 ch1 ''fvtt_1'', st1)"
    and st1: "GetClient ''fvtt_1'' (rt_manager st1) = Some 0" "0 < length (mg_heap (rt_manager st1))" "IsAlive (mg_heap (rt_manager st1) ! 0)"
      "length (cl_sendCh (mg_heap (rt_manager st1) ! 0)) = length (cl_sendCh (mg_heap (ex_manager False ''i1'') ! 0)) + 1"
    using ex_api_run [OF ex_target(1-4), where now = 5 and p = NewPendingRequests] unfolding ex_route_state_def by blast
  have "length (cl_sendCh (mg_heap (rt_manager st1) ! 0)) < sendCap" by (simp add: st1(4) ex_manager_defs sendCap_def)
  moreover have "\<lparr>rt_manager = rt_manager st1, rt_pending = rt_pending st1\<rparr> = st1" by simp
  ultimately
  obtain id2 ch2 st2 where r2: "api_send ex_parsers ex_route 5 ex_api st1 = (Waiting id2 ch2 ''fvtt_1'', st2)"
    using ex_api_run [OF st1(1-3), where now = 5 and p = "rt_pending st1"] by metis
  show ?thesis using r1 r2 same_millisecond_crossed [OF r1 r2 refl refl] by blast
qed

definition ex_defs :: "ParamDef list" where
  "ex_defs =
     [\<lparr>pd_Name = ''limit'', pd_From = [FromBody, FromQuery], pd_Type = Some TypeNumber, pd_Required = False\<rparr>,
      \<lparr>pd_Name = ''all'', pd_From = [FromQuery], pd_Type = Some TypeBoolean, pd_Required = False\<rparr>]"

definition ex_query :: api_request where
  "ex_query = \<lparr>aq_method = ''GET'', aq_query = [(''all'', ''TRUE''), (''limit'', ''7''), (''other'', ''x'')], aq_body = None,
     aq_params = [], aq_context = None\<rparr>"

definition ex_numbers :: parsers where
  "ex_numbers = \<lparr>ps_float = (\<lambda>s. map_option JNum (ParseInt64 s)), ps_array = (\<lambda>s. None)\<rparr>"

lemma params_typed_witness:
  "\<exists>def\<in>set ex_defs. pd_Name def = ''all'' \<and> (\<forall>t. pd_Type def = Some t \<longrightarrow> has_type t (JBool True))"
proof (rule params_typed [of ex_numbers ex_query None])
  have "to_lower ''TRUE'' = ''true''" by code_simp
  then show "ExtractParams ex_numbers ex_query None ex_defs [] = Inr [(''limit'', JNum 7), (''all'', JBool True)]"
    by (simp add: ex_defs_def ex_query_def ex_numbers_def source_value_def coerceType_def ParseInt64_def digit_val_def in_range_def)
  show "numbers ex_numbers" by (auto simp: numbers_def ex_numbers_def)
qed simp

end
