(* ===== verification/Logs.thy ===== *)
theory Logs
  imports Pairing "HOL-Library.Multiset"
begin

text \<open>
  The logs of an account: the stores of connections, cross-world requests, module events and admin
  actions (\<open>internal/model/connection_log.go\<close>, \<open>remote_request_log.go\<close>, \<open>module_event_log.go\<close>,
  \<open>audit_log.go\<close>), the merged activity feed (\<open>handler/activity_log.go\<close>, \<open>admin_activity.go\<close>), the two
  listings of \<open>connection_tokens.go\<close> and the query of \<open>admin_audit.go\<close>.

  Rows are kept in the order of their identifiers.  Where SQL or \<open>sort.Slice\<close> leave the order of
  equal times open, the model takes a stable sort.  A query is the list of its parameters, each with its first value;
  \<open>time.Parse\<close> for RFC 3339 is a parameter.  A negative \<open>LIMIT\<close> is none, as in SQLite.
\<close>

subsection \<open>Queries\<close>

definition by_time :: "('r \<Rightarrow> gotime) \<Rightarrow> 'r list \<Rightarrow> 'r list" where
  "by_time f rows = sort_key (\<lambda>r. - f r) rows"

definition sql_limit :: "int \<Rightarrow> 'r list \<Rightarrow> 'r list" where
  "sql_limit n rows = (if n < 0 then rows else take (nat n) rows)"

definition days :: "int \<Rightarrow> int" where
  "days n = n * minutes 1440"

record ActivityFilters =
  fl_Type :: string
  fl_World :: string
  fl_Action :: string
  fl_Success :: "bool option"
  fl_Since :: gotime
  fl_Until :: gotime
  fl_UserID :: int
  fl_Limit :: int
  fl_Offset :: int

definition since_until :: "ActivityFilters \<Rightarrow> gotime \<Rightarrow> bool" where
  "since_until fl t \<longleftrightarrow>
     (fl_Since fl \<noteq> zero_time \<longrightarrow> t \<ge> db_time (fl_Since fl)) \<and> (fl_Until fl \<noteq> zero_time \<longrightarrow> t \<le> db_time (fl_Until fl))"

definition fetch_count :: "ActivityFilters \<Rightarrow> int" where
  "fetch_count fl = fl_Offset fl + (if fl_Limit fl \<le> 0 then 50 else fl_Limit fl)"

text \<open>The rows of one page and the number of all rows that match.\<close>

definition find_filtered ::
    "string \<Rightarrow> ('r \<Rightarrow> bool) \<Rightarrow> ('r list \<Rightarrow> 'r list) \<Rightarrow> ActivityFilters \<Rightarrow> 'r list \<Rightarrow> db \<Rightarrow> ('r list \<times> int) db_result" where
  "find_filtered stmt P order fl rows d =
     (if db_ok stmt d
      then DBOk (sql_limit (fetch_count fl) (order (filter P rows)), int (length (filter P rows)))
      else DBErr)"

subsection \<open>Connections\<close>

definition cg_Create :: "gotime \<Rightarrow> ConnectionLog \<Rightarrow> db \<Rightarrow> unit db_result \<times> db" where
  "cg_Create now l d =
     exec ''cg_Create'' (\<lambda>d. d\<lparr>db_connectionLogs := db_connectionLogs d @
         [l\<lparr>cg_ID := db_next d, cg_CreatedAt := db_time now\<rparr>], db_next := db_next d + 1\<rparr>) d"

definition cg_FindByUser :: "int \<Rightarrow> int \<Rightarrow> int \<Rightarrow> db \<Rightarrow> ConnectionLog list db_result" where
  "cg_FindByUser uid limit offset d =
     (if db_ok ''cg_FindByUser'' d
      then DBOk (sql_limit limit (drop (nat offset) (by_time cg_CreatedAt (filter (\<lambda>l. cg_UserID l = uid) (db_connectionLogs d)))))
      else DBErr)"

definition cg_matches :: "ActivityFilters \<Rightarrow> ConnectionLog \<Rightarrow> bool" where
  "cg_matches fl l \<longleftrightarrow>
     (fl_UserID fl \<noteq> 0 \<longrightarrow> cg_UserID l = fl_UserID fl) \<and> (fl_World fl \<noteq> [] \<longrightarrow> cg_ClientID l = fl_World fl) \<and>
     since_until fl (cg_CreatedAt l)"

definition cg_FindFiltered :: "ActivityFilters \<Rightarrow> db \<Rightarrow> (ConnectionLog list \<times> int) db_result" where
  "cg_FindFiltered fl d = find_filtered ''cg_FindFiltered'' (cg_matches fl) (by_time cg_CreatedAt) fl (db_connectionLogs d) d"

definition cg_CleanupOlderThan :: "gotime \<Rightarrow> int \<Rightarrow> db \<Rightarrow> int db_result \<times> db" where
  "cg_CleanupOlderThan now n d =
     delete_rows ''cg_CleanupOlderThan'' (\<lambda>l. cg_CreatedAt l < now - days n) (db_connectionLogs d)
       (\<lambda>ls d. d\<lparr>db_connectionLogs := ls\<rparr>) d"

subsection \<open>Cross-world requests\<close>

definition rx_Create :: "gotime \<Rightarrow> RemoteRequestLog \<Rightarrow> db \<Rightarrow> unit db_result \<times> db" where
  "rx_Create now l d =
     exec ''rx_Create'' (\<lambda>d. d\<lparr>db_remoteLogs := db_remoteLogs d @
         [l\<lparr>rx_ID := db_next d, rx_CreatedAt := db_time now\<rparr>], db_next := db_next d + 1\<rparr>) d"

definition rx_FindRecentByUser :: "int \<Rightarrow> int \<Rightarrow> int \<Rightarrow> db \<Rightarrow> (RemoteRequestLog list \<times> int) db_result" where
  "rx_FindRecentByUser uid limit offset d =
     (let own = filter (\<lambda>l. rx_UserID l = uid) (db_remoteLogs d)
      in if db_ok ''rx_FindRecentByUser'' d then DBOk (page offset limit (rev own), int (length own)) else DBErr)"

definition rx_matches :: "ActivityFilters \<Rightarrow> RemoteRequestLog \<Rightarrow> bool" where
  "rx_matches fl l \<longleftrightarrow>
     (fl_UserID fl \<noteq> 0 \<longrightarrow> rx_UserID l = fl_UserID fl) \<and>
     (fl_World fl \<noteq> [] \<longrightarrow> rx_SourceClientID l = fl_World fl \<or> rx_TargetClientID l = fl_World fl) \<and>
     (fl_Action fl \<noteq> [] \<longrightarrow> rx_Action l = fl_Action fl) \<and>
     (case fl_Success fl of None \<Rightarrow> True | Some b \<Rightarrow> rx_Success l = b) \<and>
     since_until fl (rx_CreatedAt l)"

definition rx_FindFiltered :: "ActivityFilters \<Rightarrow> db \<Rightarrow> (RemoteRequestLog list \<times> int) db_result" where
  "rx_FindFiltered fl d = find_filtered ''rx_FindFiltered'' (rx_matches fl) rev fl (db_remoteLogs d) d"

definition rx_CleanupOlderThan :: "gotime \<Rightarrow> db \<Rightarrow> int db_result \<times> db" where
  "rx_CleanupOlderThan cutoff d =
     delete_rows ''rx_CleanupOlderThan'' (\<lambda>l. rx_CreatedAt l < db_time cutoff) (db_remoteLogs d)
       (\<lambda>ls d. d\<lparr>db_remoteLogs := ls\<rparr>) d"

subsection \<open>Module events\<close>

definition me_Create :: "gotime \<Rightarrow> ModuleEventLog \<Rightarrow> db \<Rightarrow> unit db_result \<times> db" where
  "me_Create now l d =
     exec ''me_Create'' (\<lambda>d. d\<lparr>db_moduleLogs := db_moduleLogs d @
         [l\<lparr>me_ID := db_next d, me_CreatedAt := db_time now\<rparr>], db_next := db_next d + 1\<rparr>) d"

definition me_matches :: "ActivityFilters \<Rightarrow> ModuleEventLog \<Rightarrow> bool" where
  "me_matches fl l \<longleftrightarrow>
     (fl_UserID fl \<noteq> 0 \<longrightarrow> me_UserID l = fl_UserID fl) \<and> (fl_World fl \<noteq> [] \<longrightarrow> me_ClientID l = fl_World fl) \<and>
     (fl_Action fl \<noteq> [] \<longrightarrow> me_EventType l = fl_Action fl) \<and> since_until fl (me_CreatedAt l)"

definition me_FindFiltered :: "ActivityFilters \<Rightarrow> db \<Rightarrow> (ModuleEventLog list \<times> int) db_result" where
  "me_FindFiltered fl d = find_filtered ''me_FindFiltered'' (me_matches fl) rev fl (db_moduleLogs d) d"

definition me_CleanupOlderThan :: "gotime \<Rightarrow> db \<Rightarrow> int db_result \<times> db" where
  "me_CleanupOlderThan cutoff d =
     delete_rows ''me_CleanupOlderThan'' (\<lambda>l. me_CreatedAt l < db_time cutoff) (db_moduleLogs d)
       (\<lambda>ls d. d\<lparr>db_moduleLogs := ls\<rparr>) d"

subsection \<open>Actions of administrators\<close>

record AuditLogFilters =
  aq_AdminUserID :: int
  aq_Action :: string
  aq_TargetType :: string
  aq_Since :: "gotime option"
  aq_Until :: "gotime option"
  aq_Offset :: int
  aq_Limit :: int

definition ad_Create :: "gotime \<Rightarrow> AdminAuditLog \<Rightarrow> db \<Rightarrow> unit db_result \<times> db" where
  "ad_Create now l d =
     exec ''ad_Create'' (\<lambda>d. d\<lparr>db_auditLogs := db_auditLogs d @ [l\<lparr>ad_ID := db_next d, ad_CreatedAt := now\<rparr>],
         db_next := db_next d + 1\<rparr>) d"

definition ad_matches :: "AuditLogFilters \<Rightarrow> AdminAuditLog \<Rightarrow> bool" where
  "ad_matches fl l \<longleftrightarrow>
     (aq_AdminUserID fl \<noteq> 0 \<longrightarrow> ad_AdminUserID l = aq_AdminUserID fl) \<and>
     (aq_Action fl \<noteq> [] \<longrightarrow> ad_Action l = aq_Action fl) \<and>
     (aq_TargetType fl \<noteq> [] \<longrightarrow> ad_TargetType l = aq_TargetType fl) \<and>
     (case aq_Since fl of None \<Rightarrow> True | Some t \<Rightarrow> ad_CreatedAt l \<ge> t) \<and>
     (case aq_Until fl of None \<Rightarrow> True | Some t \<Rightarrow> ad_CreatedAt l \<le> t)"

definition ad_FindAll :: "AuditLogFilters \<Rightarrow> db \<Rightarrow> (AdminAuditLog list \<times> int) db_result" where
  "ad_FindAll fl d =
     (let found = filter (ad_matches fl) (db_auditLogs d)
      in if db_ok ''ad_FindAll'' d
         then DBOk (page (aq_Offset fl) (aq_Limit fl) (by_time ad_CreatedAt found), int (length found))
         else DBErr)"

definition ad_DeleteByAdminUserID :: "int \<Rightarrow> db \<Rightarrow> int db_result \<times> db" where
  "ad_DeleteByAdminUserID uid d =
     delete_rows ''ad_DeleteByAdminUserID'' (\<lambda>l. ad_AdminUserID l = uid) (db_auditLogs d) (\<lambda>ls d. d\<lparr>db_auditLogs := ls\<rparr>) d"

definition ad_CleanupOlderThan :: "gotime \<Rightarrow> int \<Rightarrow> db \<Rightarrow> int db_result \<times> db" where
  "ad_CleanupOlderThan now n d =
     delete_rows ''ad_CleanupOlderThan'' (\<lambda>l. ad_CreatedAt l < now - days n) (db_auditLogs d)
       (\<lambda>ls d. d\<lparr>db_auditLogs := ls\<rparr>) d"

subsection \<open>The parameters of a query\<close>

type_synonym query = "(string, string) gomap"

abbreviation q_get :: "query \<Rightarrow> string \<Rightarrow> string" where
  "q_get q k \<equiv> null_str (aget q k)"

text \<open>\<open>cap\<close> refuses a larger limit, as the listings do; the activity feed shortens it.\<close>

definition offset_of :: "query \<Rightarrow> int" where
  "offset_of q =
     (let o' = q_get q ''offset''
      in if o' = [] then 0 else (case ParseInt64 o' of Some v \<Rightarrow> if v \<ge> 0 then v else 0 | None \<Rightarrow> 0))"

definition limit_up_to :: "int \<Rightarrow> query \<Rightarrow> int" where
  "limit_up_to cap q =
     (let l = q_get q ''limit''
      in if l = [] then 50 else (case ParseInt64 l of Some v \<Rightarrow> if v > 0 \<and> v \<le> cap then v else 50 | None \<Rightarrow> 50))"

definition parsePagination :: "query \<Rightarrow> int \<times> int" where
  "parsePagination q = (offset_of q, limit_up_to 500 q)"

definition parse_bound :: "(string \<Rightarrow> gotime option) \<Rightarrow> string \<Rightarrow> gotime" where
  "parse_bound rfc s = (if s = [] then zero_time else (case rfc s of Some t \<Rightarrow> t | None \<Rightarrow> zero_time))"

definition parseActivityParams :: "(string \<Rightarrow> gotime option) \<Rightarrow> query \<Rightarrow> int \<Rightarrow> ActivityFilters \<times> int \<times> int" where
  "parseActivityParams rfc q userID =
     (let l = q_get q ''limit'';
          limit0 = (if l = [] then 50 else (case ParseInt64 l of Some v \<Rightarrow> if v > 0 then v else 50 | None \<Rightarrow> 50));
          limit = (if limit0 > 200 then 200 else limit0);
          offset = offset_of q
      in (\<lparr>fl_Type = q_get q ''type'', fl_World = q_get q ''world'', fl_Action = q_get q ''action'',
           fl_Success = (if q_get q ''success'' = ''true'' then Some True
                         else if q_get q ''success'' = ''false'' then Some False else None),
           fl_Since = parse_bound rfc (q_get q ''since''), fl_Until = parse_bound rfc (q_get q ''until''),
           fl_UserID = userID, fl_Limit = limit, fl_Offset = offset\<rparr>, limit, offset))"

subsection \<open>The activity feed\<close>

record ActivityEvent =
  ay_ID :: int
  ay_Type :: string
  ay_EventSubtype :: string
  ay_ClientID :: string
  ay_WorldTitle :: string
  ay_TargetClientID :: string
  ay_Action :: string
  ay_Success :: "bool option"
  ay_ErrorMessage :: string
  ay_TokenName :: string
  ay_IPAddress :: string
  ay_Flagged :: bool
  ay_Actor :: string
  ay_Description :: string
  ay_UserID :: int
  ay_CreatedAt :: gotime

definition blank_event :: ActivityEvent where
  "blank_event =
     \<lparr>ay_ID = 0, ay_Type = [], ay_EventSubtype = [], ay_ClientID = [], ay_WorldTitle = [], ay_TargetClientID = [],
      ay_Action = [], ay_Success = None, ay_ErrorMessage = [], ay_TokenName = [], ay_IPAddress = [], ay_Flagged = False,
      ay_Actor = [], ay_Description = [], ay_UserID = 0, ay_CreatedAt = 0\<rparr>"

definition connection_event :: "ConnectionLog \<Rightarrow> ActivityEvent" where
  "connection_event c = blank_event\<lparr>ay_ID := cg_ID c, ay_Type := ''connection'', ay_EventSubtype := ''connect'',
     ay_ClientID := cg_ClientID c, ay_Flagged := cg_Flagged c, ay_UserID := cg_UserID c, ay_CreatedAt := cg_CreatedAt c,
     ay_WorldTitle := null_str (cg_WorldTitle c), ay_TokenName := null_str (cg_TokenName c),
     ay_IPAddress := null_str (cg_IPAddress c)\<rparr>"

definition remote_event :: "RemoteRequestLog \<Rightarrow> ActivityEvent" where
  "remote_event l = blank_event\<lparr>ay_ID := rx_ID l, ay_Type := ''remote_request'', ay_ClientID := rx_SourceClientID l,
     ay_TargetClientID := rx_TargetClientID l, ay_Action := rx_Action l, ay_Success := Some (rx_Success l),
     ay_UserID := rx_UserID l, ay_CreatedAt := rx_CreatedAt l, ay_ErrorMessage := null_str (rx_ErrorMessage l)\<rparr>"

definition module_event :: "ModuleEventLog \<Rightarrow> ActivityEvent" where
  "module_event l = blank_event\<lparr>ay_ID := me_ID l, ay_Type := ''module_event'', ay_ClientID := me_ClientID l,
     ay_WorldTitle := me_WorldTitle l, ay_Action := me_EventType l, ay_Actor := me_Actor l,
     ay_Description := me_Description l, ay_UserID := me_UserID l, ay_CreatedAt := me_CreatedAt l\<rparr>"

text \<open>One source of the feed: skipped when the filter names another, and an error of its query ends the merge.\<close>

definition feed_source ::
    "string \<Rightarrow> (ActivityFilters \<Rightarrow> db \<Rightarrow> ('r list \<times> int) db_result) \<Rightarrow> ('r \<Rightarrow> ActivityEvent) \<Rightarrow>
     ActivityFilters \<Rightarrow> db \<Rightarrow> (ActivityEvent list \<times> int) db_result" where
  "feed_source kind lookup event fl d =
     (if fl_Type fl = [] \<or> fl_Type fl = kind
      then (case lookup (fl\<lparr>fl_Offset := 0\<rparr>) d of DBErr \<Rightarrow> DBErr | DBOk (rows, tot) \<Rightarrow> DBOk (map event rows, tot))
      else DBOk ([], 0))"

definition page_slice :: "int \<Rightarrow> int \<Rightarrow> 'r list \<Rightarrow> 'r list" where
  "page_slice offset limit xs =
     (if offset \<ge> int (length xs) then []
      else (let stop = (if offset + limit > int (length xs) then int (length xs) else offset + limit)
            in take (nat (stop - offset)) (drop (nat offset) xs)))"

definition mergeActivityLogs :: "ActivityFilters \<Rightarrow> int \<Rightarrow> int \<Rightarrow> db \<Rightarrow> (ActivityEvent list \<times> int) db_result" where
  "mergeActivityLogs fl limit offset d =
     (case feed_source ''connection'' cg_FindFiltered connection_event fl d of DBErr \<Rightarrow> DBErr
      | DBOk (conns, totalConn) \<Rightarrow>
     (case feed_source ''remote_request'' rx_FindFiltered remote_event fl d of DBErr \<Rightarrow> DBErr
      | DBOk (remotes, totalRR) \<Rightarrow>
     (case feed_source ''module_event'' me_FindFiltered module_event fl d of DBErr \<Rightarrow> DBErr
      | DBOk (mods, totalME) \<Rightarrow>
          DBOk (page_slice offset limit (by_time ay_CreatedAt (conns @ remotes @ mods)), totalConn + totalRR + totalME))))"

definition omit_empty :: "string \<Rightarrow> string \<Rightarrow> obj" where
  "omit_empty k s = (if s = [] then [] else [(k, JStr s)])"

definition event_view :: "ActivityEvent \<Rightarrow> json" where
  "event_view e =
     JObj ([(''id'', JNum (ay_ID e)), (''type'', JStr (ay_Type e))] @ omit_empty ''eventSubtype'' (ay_EventSubtype e) @
           [(''clientId'', JStr (ay_ClientID e))] @ omit_empty ''worldTitle'' (ay_WorldTitle e) @
           omit_empty ''targetClientId'' (ay_TargetClientID e) @ omit_empty ''action'' (ay_Action e) @
           (case ay_Success e of None \<Rightarrow> [] | Some b \<Rightarrow> [(''success'', JBool b)]) @
           omit_empty ''errorMessage'' (ay_ErrorMessage e) @ omit_empty ''tokenName'' (ay_TokenName e) @
           omit_empty ''ipAddress'' (ay_IPAddress e) @ (if ay_Flagged e then [(''flagged'', JBool True)] else []) @
           omit_empty ''actor'' (ay_Actor e) @ omit_empty ''description'' (ay_Description e) @
           (if ay_UserID e = 0 then [] else [(''userId'', JNum (ay_UserID e))]) @ [(''createdAt'', JNum (ay_CreatedAt e))])"

definition feed_answer :: "ActivityFilters \<Rightarrow> int \<Rightarrow> int \<Rightarrow> db \<Rightarrow> answer" where
  "feed_answer fl limit offset d =
     (case mergeActivityLogs fl limit offset d of
        DBErr \<Rightarrow> WriteError 500 ''Failed to fetch activity log''
      | DBOk (events, tot) \<Rightarrow>
          (200, [(''events'', JArr (map event_view events)), (''total'', JNum tot), (''offset'', JNum offset), (''limit'', JNum limit)]))"

definition activity_feed :: "(string \<Rightarrow> gotime option) \<Rightarrow> User option \<Rightarrow> query \<Rightarrow> db \<Rightarrow> answer" where
  "activity_feed rfc usr q d =
     (case usr of None \<Rightarrow> WriteError 401 ''Unauthorized''
      | Some user \<Rightarrow> (let (fl, limit, offset) = parseActivityParams rfc q (us_ID user) in feed_answer fl limit offset d))"

definition admin_activity :: "(string \<Rightarrow> gotime option) \<Rightarrow> query \<Rightarrow> db \<Rightarrow> answer" where
  "admin_activity rfc q d =
     (let (fl, limit, offset) = parseActivityParams rfc q 0;
          uid = q_get q ''userId'';
          fl1 = (if uid = [] then fl
                 else (case ParseInt64 uid of Some v \<Rightarrow> if v > 0 then fl\<lparr>fl_UserID := v\<rparr> else fl | None \<Rightarrow> fl))
      in feed_answer fl1 limit offset d)"

subsection \<open>The listings of the dashboard\<close>

definition remote_log_view :: "RemoteRequestLog \<Rightarrow> json" where
  "remote_log_view l =
     JObj [(''id'', JNum (rx_ID l)), (''sourceClientId'', JStr (rx_SourceClientID l)), (''sourceTokenId'', JNum (rx_SourceTokenID l)),
           (''targetClientId'', JStr (rx_TargetClientID l)), (''action'', JStr (rx_Action l)), (''success'', JBool (rx_Success l)),
           (''errorMessage'', JStr (null_str (rx_ErrorMessage l))), (''sourceIp'', JStr (null_str (rx_SourceIP l))),
           (''createdAt'', JNum (rx_CreatedAt l))]"

definition remote_request_logs :: "User option \<Rightarrow> query \<Rightarrow> db \<Rightarrow> answer" where
  "remote_request_logs usr q d =
     (case usr of None \<Rightarrow> WriteError 401 ''Invalid user''
      | Some user \<Rightarrow>
          (let limit = limit_up_to 200 q; offset = offset_of q
           in case rx_FindRecentByUser (us_ID user) limit offset d of
                DBErr \<Rightarrow> WriteError 500 ''Failed to list remote request logs''
              | DBOk (logs, tot) \<Rightarrow>
                  (200, [(''logs'', JArr (map remote_log_view logs)), (''limit'', JNum limit), (''offset'', JNum offset),
                         (''total'', JNum tot)])))"

definition connection_log_view :: "ConnectionLog \<Rightarrow> json" where
  "connection_log_view l =
     JObj [(''id'', JNum (cg_ID l)), (''clientId'', JStr (cg_ClientID l)), (''tokenName'', JStr (null_str (cg_TokenName l))),
           (''ipAddress'', JStr (null_str (cg_IPAddress l))), (''userAgent'', JStr (null_str (cg_UserAgent l))),
           (''worldId'', JStr (null_str (cg_WorldID l))), (''worldTitle'', JStr (null_str (cg_WorldTitle l))),
           (''systemId'', JStr (null_str (cg_SystemID l))), (''foundryVersion'', JStr (null_str (cg_FoundryVersion l))),
           (''metadataMatch'', JBool (cg_MetadataMatch l)), (''flagged'', JBool (cg_Flagged l)),
           (''flagReason'', JStr (null_str (cg_FlagReason l))), (''createdAt'', JNum (cg_CreatedAt l))]"

definition connection_logs :: "User option \<Rightarrow> query \<Rightarrow> db \<Rightarrow> answer" where
  "connection_logs usr q d =
     (case usr of None \<Rightarrow> WriteError 401 ''Invalid user''
      | Some user \<Rightarrow>
          (let limit = limit_up_to 200 q; offset = offset_of q
           in case cg_FindByUser (us_ID user) limit offset d of
                DBErr \<Rightarrow> WriteError 500 ''Failed to list connection logs''
              | DBOk logs \<Rightarrow>
                  (200, [(''logs'', JArr (map connection_log_view logs)), (''limit'', JNum limit), (''offset'', JNum offset),
                         (''total'', JNum (int (length logs)))])))"

text \<open>A \<open>sql.NullString\<close> is marshalled as the structure it is.\<close>

definition null_json :: "string option \<Rightarrow> json" where
  "null_json s = JObj [(''String'', JStr (null_str s)), (''Valid'', JBool (s \<noteq> None))]"

definition audit_view :: "AdminAuditLog \<Rightarrow> json" where
  "audit_view l =
     JObj [(''id'', JNum (ad_ID l)), (''adminUserId'', JNum (ad_AdminUserID l)), (''action'', JStr (ad_Action l)),
           (''targetType'', JStr (ad_TargetType l)), (''targetId'', null_json (ad_TargetID l)),
           (''details'', null_json (ad_Details l)), (''ipAddress'', null_json (ad_IPAddress l)),
           (''createdAt'', JNum (ad_CreatedAt l))]"

definition admin_audit :: "(string \<Rightarrow> gotime option) \<Rightarrow> query \<Rightarrow> db \<Rightarrow> answer" where
  "admin_audit rfc q d =
     (let (offset, limit) = parsePagination q;
          bound = (\<lambda>k. if q_get q k = [] then None else rfc (q_get q k));
          fl = \<lparr>aq_AdminUserID = (if q_get q ''adminUserId'' = [] then 0
                                   else (case ParseInt64 (q_get q ''adminUserId'') of Some i \<Rightarrow> i | None \<Rightarrow> 0)),
                aq_Action = q_get q ''action'', aq_TargetType = q_get q ''targetType'',
                aq_Since = bound ''since'', aq_Until = bound ''until'', aq_Offset = offset, aq_Limit = limit\<rparr>
      in case ad_FindAll fl d of
           DBErr \<Rightarrow> WriteError 500 ''Failed to query audit logs''
         | DBOk (found, tot) \<Rightarrow>
             (200, [(''entries'', JArr (map audit_view found)), (''total'', JNum tot), (''offset'', JNum offset),
                    (''limit'', JNum limit)]))"

subsection \<open>Merging the newest rows of several tables\<close>

lemma by_time_mset [simp]: "mset (by_time f rows) = mset rows"
  by (simp add: by_time_def)

lemma length_by_time [simp]: "length (by_time f rows) = length rows"
  by (simp add: by_time_def)

definition newest_first :: "int list \<Rightarrow> int list" where
  "newest_first ts = rev (sort ts)"

lemma newest_first_sorted: "sorted_wrt (\<ge>) (newest_first ts)"
  by (simp add: newest_first_def sorted_wrt_rev)

lemma newest_first_unique: "\<lbrakk>mset xs = mset ys; sorted_wrt (\<ge>) xs\<rbrakk> \<Longrightarrow> newest_first ys = xs"
  by (metis newest_first_def properties_for_sort mset_rev rev_rev_ident sorted_wrt_rev)

lemma times_by_time: "map f (by_time f rows) = newest_first (map f rows)"
proof -
  have "sorted_wrt (\<lambda>x y. - f x \<le> - f y) (by_time f rows)"
    unfolding by_time_def using sorted_sort_key [of "\<lambda>r. - f r" rows] by (simp add: sorted_wrt_map)
  then have "sorted_wrt (\<ge>) (map f (by_time f rows))"
    by (simp add: sorted_wrt_map)
  moreover have "mset (map f (by_time f rows)) = mset (map f rows)"
    by simp
  ultimately show ?thesis
    using newest_first_unique by metis
qed

lemma newest_first_mset: "mset xs = mset ys \<Longrightarrow> newest_first xs = newest_first ys"
  by (metis newest_first_def properties_for_sort mset_sort sorted_sort)

text \<open>An element below the first \<open>n\<close> does not show.\<close>

lemma insort_rev_take:
  assumes "sorted_wrt (\<ge>) xs" and "n \<le> length xs" and "\<forall>y \<in> set (take n xs). (x :: int) \<le> y"
  shows "\<exists>zs. mset zs = mset (x # xs) \<and> sorted_wrt (\<ge>) zs \<and> take n zs = take n xs"
proof -
  let ?big = "filter (\<lambda>y. x \<le> y) (drop n xs)" and ?small = "filter (\<lambda>y. \<not> x \<le> y) (drop n xs)"
  have srt: "sorted_wrt (\<ge>) (take n xs @ drop n xs)"
    using assms(1) by simp
  then have parts: "sorted_wrt (\<ge>) (take n xs)" "sorted_wrt (\<ge>) (drop n xs)"
      "\<forall>a \<in> set (take n xs). \<forall>b \<in> set (drop n xs). b \<le> a"
    unfolding sorted_wrt_append by auto
  have "sorted_wrt (\<ge>) (take n xs @ ?big @ x # ?small)"
    using parts assms(3) by (auto simp: sorted_wrt_append intro: sorted_wrt_filter)
  moreover have "mset (take n xs @ ?big @ x # ?small) = mset (x # xs)"
    by (metis append_take_drop_id mset_append mset_filter multiset_partition union_mset_add_mset_right mset.simps(2))
  moreover have "take n (take n xs @ ?big @ x # ?small) = take n xs"
    using assms(2) by simp
  ultimately show ?thesis by blast
qed

lemma newest_drop_one:
  assumes "n \<le> length xs" and "\<forall>y \<in> set (take n (newest_first xs)). x \<le> y"
  shows "take n (newest_first (x # xs)) = take n (newest_first xs)"
proof -
  have "n \<le> length (newest_first xs)"
    using assms(1) by (simp add: newest_first_def)
  from insort_rev_take [OF newest_first_sorted this assms(2)]
  obtain zs where zs: "mset zs = mset (x # newest_first xs)" "sorted_wrt (\<ge>) zs" "take n zs = take n (newest_first xs)"
    by blast
  have "mset zs = mset (x # xs)"
    using zs(1) by (simp add: newest_first_def)
  then show ?thesis
    using newest_first_unique [OF _ zs(2)] zs(3) by simp
qed

lemma sorted_take_ge:
  assumes "sorted_wrt (\<ge>) zs" and "n \<le> length (filter (\<lambda>y. (x :: int) \<le> y) zs)"
  shows "\<forall>y \<in> set (take n zs). x \<le> y"
  using assms
proof (induction zs arbitrary: n)
  case (Cons z zs)
  show ?case
  proof (cases "x \<le> z")
    case True
    have srt: "sorted_wrt (\<ge>) zs"
      using Cons.prems(1) by simp
    have "n - 1 \<le> length (filter (\<lambda>y. x \<le> y) zs)"
      using Cons.prems(2) True by simp
    note Cons.IH [OF srt this]
    then show ?thesis
      using True by (cases n) simp_all
  next
    case False
    have "filter (\<lambda>y. x \<le> y) zs = []"
      using Cons.prems(1) False by (force simp: filter_empty_conv)
    then show ?thesis
      using Cons.prems(2) False by simp
  qed
qed simp

lemma filter_newest_first: "length (filter P (newest_first xs)) = length (filter P xs)"
  proof -
  have "mset (filter P (newest_first xs)) = mset (filter P xs)"
    by (simp add: newest_first_def)
  then show ?thesis
    by (rule mset_eq_length)
qed

lemma newest_drop_many:
  assumes "\<forall>x \<in> set u. n \<le> length (filter (\<lambda>y. x \<le> y) xs)"
  shows "take n (newest_first (u @ xs)) = take n (newest_first xs)"
  using assms
proof (induction u)
  case (Cons x u)
  have many: "n \<le> length (filter (\<lambda>y. x \<le> y) (u @ xs))"
    using Cons.prems by simp
  then have "n \<le> length (u @ xs)"
    by (rule le_trans) (rule length_filter_le)
  moreover have "\<forall>y \<in> set (take n (newest_first (u @ xs))). x \<le> y"
    using many by (intro sorted_take_ge newest_first_sorted) (simp only: filter_newest_first)
  ultimately show ?case
    using newest_drop_one [of n "u @ xs" x] Cons by simp
qed simp

lemma newest_cut:
  assumes "sorted_wrt (\<ge>) a"
  shows "take n (newest_first (take n a @ r)) = take n (newest_first (a @ r))"
proof (cases "n \<le> length a")
  case True
  have "sorted_wrt (\<ge>) (take n a @ drop n a)"
    using assms by simp
  then have ge: "\<forall>y \<in> set (take n a). \<forall>x \<in> set (drop n a). x \<le> y"
    unfolding sorted_wrt_append by auto
  have "\<forall>x \<in> set (drop n a). n \<le> length (filter (\<lambda>y. x \<le> y) (take n a @ r))"
  proof
    fix x assume "x \<in> set (drop n a)"
    then have "filter (\<lambda>y. x \<le> y) (take n a) = take n a"
      using ge by simp
    then show "n \<le> length (filter (\<lambda>y. x \<le> y) (take n a @ r))"
      using True by simp
  qed
  note cut = newest_drop_many [OF this]
  have "mset (drop n a @ take n a @ r) = mset (a @ r)"
    by (metis append_take_drop_id mset_append union_commute append.assoc)
  then show ?thesis
    using cut newest_first_mset by metis
qed simp

lemma newest_merge:
  assumes "sorted_wrt (\<ge>) a" and "sorted_wrt (\<ge>) b" and "sorted_wrt (\<ge>) c"
  shows "take n (newest_first (take n a @ take n b @ take n c)) = take n (newest_first (a @ b @ c))"
proof -
  have rot: "newest_first (x @ y @ z) = newest_first (y @ z @ x)" for x y z
    by (rule newest_first_mset) (simp add: ac_simps)
  have "take n (newest_first (take n a @ take n b @ take n c)) = take n (newest_first (a @ take n b @ take n c))"
    by (rule newest_cut [OF assms(1)])
  also have "\<dots> = take n (newest_first (take n b @ take n c @ a))"
    by (rule arg_cong [where f = "take n"], rule rot)
  also have "\<dots> = take n (newest_first (b @ take n c @ a))"
    by (rule newest_cut [OF assms(2)])
  also have "\<dots> = take n (newest_first (take n c @ a @ b))"
    by (rule arg_cong [where f = "take n"], rule rot)
  also have "\<dots> = take n (newest_first (c @ a @ b))"
    by (rule newest_cut [OF assms(3)])
  finally show ?thesis
    by (simp only: rot [of c a b])
qed

subsection \<open>What the feed shows\<close>

definition matching_events :: "ActivityFilters \<Rightarrow> db \<Rightarrow> ActivityEvent list" where
  "matching_events fl d =
     (if fl_Type fl = [] \<or> fl_Type fl = ''connection''
      then map connection_event (filter (cg_matches fl) (db_connectionLogs d)) else []) @
     (if fl_Type fl = [] \<or> fl_Type fl = ''remote_request''
      then map remote_event (filter (rx_matches fl) (db_remoteLogs d)) else []) @
     (if fl_Type fl = [] \<or> fl_Type fl = ''module_event''
      then map module_event (filter (me_matches fl) (db_moduleLogs d)) else [])"

text \<open>Identifiers follow the clock: what the inserts keep while the clock does not go back.\<close>

definition clock_ordered :: "gotime \<Rightarrow> db \<Rightarrow> bool" where
  "clock_ordered now d \<longleftrightarrow>
     sorted (map rx_CreatedAt (db_remoteLogs d) @ [db_time now]) \<and> sorted (map me_CreatedAt (db_moduleLogs d) @ [db_time now])"

lemma db_time_mono: "s \<le> t \<Longrightarrow> db_time s \<le> db_time t"
proof -
  assume "s \<le> t"
  moreover have "db_time x = 1000000000 * (x div 1000000000)" for x
    by (simp add: db_time_def minus_mod_eq_mult_div)
  ultimately show "db_time s \<le> db_time t"
    by (simp add: zdiv_mono1)
qed

lemma clock_ordered_later: "\<lbrakk>clock_ordered s d; s \<le> t\<rbrakk> \<Longrightarrow> clock_ordered t d"
  using db_time_mono [of s t] by (force simp: clock_ordered_def sorted_append)

lemma clock_ordered_Create [inv_intros]:
  assumes "clock_ordered now d"
  shows "clock_ordered now (snd (cg_Create now l1 d))" "clock_ordered now (snd (rx_Create now l2 d))"
    "clock_ordered now (snd (me_Create now l3 d))"
  using assms by (simp_all add: clock_ordered_def cg_Create_def rx_Create_def me_Create_def exec_def sorted_append)

lemma matches_offset [simp]:
  "cg_matches (fl\<lparr>fl_Offset := o'\<rparr>) = cg_matches fl" "rx_matches (fl\<lparr>fl_Offset := o'\<rparr>) = rx_matches fl"
  "me_matches (fl\<lparr>fl_Offset := o'\<rparr>) = me_matches fl"
  by (auto simp: fun_eq_iff cg_matches_def rx_matches_def me_matches_def since_until_def split: option.splits)

lemma fetch_first: "0 < fl_Limit fl \<Longrightarrow> fetch_count (fl\<lparr>fl_Offset := 0\<rparr>) = fl_Limit fl"
  by (simp add: fetch_count_def)

text \<open>One source, as the merge uses it: at most \<open>n\<close> of its matching events, newest first.\<close>

definition source_events :: "string \<Rightarrow> ('r list \<Rightarrow> 'r list) \<Rightarrow> ('r \<Rightarrow> bool) \<Rightarrow> ('r \<Rightarrow> ActivityEvent) \<Rightarrow> ActivityFilters \<Rightarrow> 'r list \<Rightarrow> ActivityEvent list" where
  "source_events kind order P event fl rows =
     (if fl_Type fl = [] \<or> fl_Type fl = kind then map event (order (filter P rows)) else [])"

lemma feed_source_find:
  assumes "0 < fl_Limit fl" and "db_ok stmt d"
    and "\<And>g d. lookup g d = find_filtered stmt (P g) order g (rows d) d" and "P (fl\<lparr>fl_Offset := 0\<rparr>) = P fl"
    and "\<And>xs. length (order xs) = length xs"
  shows "feed_source kind lookup event fl d =
    DBOk (take (nat (fl_Limit fl)) (source_events kind order (P fl) event fl (rows d)),
          int (length (source_events kind order (P fl) event fl (rows d))))"
  using assms by (simp add: feed_source_def find_filtered_def fetch_first sql_limit_def source_events_def take_map)

lemmas feed_sources =
  feed_source_find [where lookup = cg_FindFiltered and P = cg_matches and rows = db_connectionLogs,
    OF _ _ cg_FindFiltered_def matches_offset(1) length_by_time]
  feed_source_find [where lookup = rx_FindFiltered and P = rx_matches and rows = db_remoteLogs,
    OF _ _ rx_FindFiltered_def matches_offset(2) length_rev]
  feed_source_find [where lookup = me_FindFiltered and P = me_matches and rows = db_moduleLogs,
    OF _ _ me_FindFiltered_def matches_offset(3) length_rev]

abbreviation conn_source :: "ActivityFilters \<Rightarrow> db \<Rightarrow> ActivityEvent list" where
  "conn_source fl d \<equiv> source_events ''connection'' (by_time cg_CreatedAt) (cg_matches fl) connection_event fl (db_connectionLogs d)"

abbreviation remote_source :: "ActivityFilters \<Rightarrow> db \<Rightarrow> ActivityEvent list" where
  "remote_source fl d \<equiv> source_events ''remote_request'' rev (rx_matches fl) remote_event fl (db_remoteLogs d)"

abbreviation module_source :: "ActivityFilters \<Rightarrow> db \<Rightarrow> ActivityEvent list" where
  "module_source fl d \<equiv> source_events ''module_event'' rev (me_matches fl) module_event fl (db_moduleLogs d)"

definition feed_ok :: "db \<Rightarrow> bool" where
  "feed_ok d \<longleftrightarrow> db_ok ''cg_FindFiltered'' d \<and> db_ok ''rx_FindFiltered'' d \<and> db_ok ''me_FindFiltered'' d"

lemma merge_sources:
  assumes "0 < fl_Limit fl" and "feed_ok d"
  shows "mergeActivityLogs fl limit offset d =
    (let n = nat (fl_Limit fl);
         all = take n (conn_source fl d) @ take n (remote_source fl d) @ take n (module_source fl d)
     in DBOk (page_slice offset limit (by_time ay_CreatedAt all), int (length (matching_events fl d))))"
proof -
  have "length (matching_events fl d) =
      length (conn_source fl d) + length (remote_source fl d) + length (module_source fl d)"
    by (simp add: matching_events_def source_events_def)
  then show ?thesis
    using assms(2) by (simp add: mergeActivityLogs_def feed_ok_def feed_sources [OF assms(1)] Let_def)
qed

lemma mset_sources: "mset (conn_source fl d @ remote_source fl d @ module_source fl d) = mset (matching_events fl d)"
  by (simp add: matching_events_def source_events_def)

lemma times_of_rows:
  "map ay_CreatedAt (conn_source fl d) = (if fl_Type fl = [] \<or> fl_Type fl = ''connection''
     then map cg_CreatedAt (by_time cg_CreatedAt (filter (cg_matches fl) (db_connectionLogs d))) else [])"
  "map ay_CreatedAt (remote_source fl d) = (if fl_Type fl = [] \<or> fl_Type fl = ''remote_request''
     then map rx_CreatedAt (rev (filter (rx_matches fl) (db_remoteLogs d))) else [])"
  "map ay_CreatedAt (module_source fl d) = (if fl_Type fl = [] \<or> fl_Type fl = ''module_event''
     then map me_CreatedAt (rev (filter (me_matches fl) (db_moduleLogs d))) else [])"
  by (simp_all add: source_events_def connection_event_def remote_event_def module_event_def o_def)

lemma sorted_wrt_map_filter: "sorted (map f xs) \<Longrightarrow> sorted_wrt (\<ge>) (map f (rev (filter P xs)))"
  by (simp add: sorted_wrt_rev sorted_map sorted_wrt_filter sorted_wrt_map rev_map)

lemma sources_sorted:
  assumes "clock_ordered now d"
  shows "sorted_wrt (\<ge>) (map ay_CreatedAt (conn_source fl d))" "sorted_wrt (\<ge>) (map ay_CreatedAt (remote_source fl d))"
    "sorted_wrt (\<ge>) (map ay_CreatedAt (module_source fl d))"
  using assms
  by (simp_all only: times_of_rows times_by_time clock_ordered_def sorted_append, simp_all add: newest_first_sorted sorted_wrt_map_filter)

lemma mset_take_le: "mset (take n xs) \<subseteq># mset xs"
  by (metis append_take_drop_id mset_append mset_subset_eq_add_left)

lemma slice_first: "0 \<le> limit \<Longrightarrow> page_slice 0 limit xs = take (nat limit) xs"
  by (auto simp: page_slice_def Let_def)

text \<open>C31: The first page of the activity feed is right although each table contributes no more rows
  than the page holds: whatever the filters, its times are the newest times of all matching events of
  the three tables, it lists no event twice and none that does not match, and the total counts all
  matches.  The tables' identifiers have to follow the clock.
\<close>

theorem activity_first_page:
  assumes "clock_ordered now d" and "feed_ok d" and "0 < fl_Limit fl"
  shows "\<exists>events. mergeActivityLogs fl (fl_Limit fl) 0 d = DBOk (events, int (length (matching_events fl d))) \<and>
    map ay_CreatedAt events = take (nat (fl_Limit fl)) (newest_first (map ay_CreatedAt (matching_events fl d))) \<and>
    mset events \<subseteq># mset (matching_events fl d)"
proof -
  let ?n = "nat (fl_Limit fl)"
  let ?cut = "take ?n (conn_source fl d) @ take ?n (remote_source fl d) @ take ?n (module_source fl d)"
  let ?events = "take ?n (by_time ay_CreatedAt ?cut)"
  have merged: "mergeActivityLogs fl (fl_Limit fl) 0 d = DBOk (?events, int (length (matching_events fl d)))"
    using assms by (simp add: merge_sources slice_first Let_def)
  have "map ay_CreatedAt ?events = take ?n (newest_first (map ay_CreatedAt ?cut))"
    by (simp add: take_map [symmetric] times_by_time)
  also have "\<dots> = take ?n (newest_first (map ay_CreatedAt (conn_source fl d @ remote_source fl d @ module_source fl d)))"
    using newest_merge [OF sources_sorted [OF assms(1)]] by (simp add: take_map)
  also have "\<dots> = take ?n (newest_first (map ay_CreatedAt (matching_events fl d)))"
    by (intro arg_cong [where f = "take ?n"] newest_first_mset) (simp only: mset_map mset_sources)
  finally have times: "map ay_CreatedAt ?events = take ?n (newest_first (map ay_CreatedAt (matching_events fl d)))" .
  have "mset ?events \<subseteq># mset ?cut"
    using mset_take_le [of ?n "by_time ay_CreatedAt ?cut"] by (simp only: by_time_mset)
  also have "mset ?cut \<subseteq># mset (conn_source fl d @ remote_source fl d @ module_source fl d)"
    unfolding mset_append by (intro subset_mset.add_mono mset_take_le)
  also have "\<dots> = mset (matching_events fl d)"
    by (rule mset_sources)
  finally show ?thesis
    using merged times by blast
qed

definition ex_feed_db :: db where
  "ex_feed_db = empty_db\<lparr>db_moduleLogs :=
     [\<lparr>me_ID = 1, me_UserID = 7, me_ClientID = ''w'', me_WorldTitle = ''World'', me_EventType = ''execute-js'', me_Actor = ''GM'',
       me_Description = [], me_CreatedAt = seconds 1\<rparr>,
      \<lparr>me_ID = 2, me_UserID = 7, me_ClientID = ''w'', me_WorldTitle = ''World'', me_EventType = ''macro-execute'', me_Actor = ''GM'',
       me_Description = [], me_CreatedAt = seconds 2\<rparr>]\<rparr>"

definition ex_filters :: ActivityFilters where
  "ex_filters = \<lparr>fl_Type = [], fl_World = [], fl_Action = [], fl_Success = None, fl_Since = zero_time, fl_Until = zero_time,
     fl_UserID = 7, fl_Limit = 1, fl_Offset = 0\<rparr>"

lemma ex_feed_ok: "clock_ordered (seconds 2) ex_feed_db" "feed_ok ex_feed_db"
  by (simp_all add: clock_ordered_def ex_feed_db_def empty_db_def feed_ok_def db_ok_def seconds_def db_time_def)

theorem activity_first_page_witness:
  "\<exists>events. mergeActivityLogs ex_filters 1 0 ex_feed_db = DBOk (events, 2) \<and> map ay_CreatedAt events = [seconds 2]"
proof -
  have "matching_events ex_filters ex_feed_db = map module_event (db_moduleLogs ex_feed_db)"
    by (simp add: matching_events_def ex_filters_def ex_feed_db_def empty_db_def me_matches_def since_until_def)
  moreover have "map ay_CreatedAt (map module_event (db_moduleLogs ex_feed_db)) = [seconds 1, seconds 2]"
    "length (db_moduleLogs ex_feed_db) = 2"
    by (simp_all add: ex_feed_db_def module_event_def)
  moreover have "fl_Limit ex_filters = 1"
    by (simp add: ex_filters_def)
  ultimately show ?thesis
    using activity_first_page [OF ex_feed_ok, of ex_filters]
    by (auto simp: newest_first_def seconds_def)
qed

subsection \<open>The later pages\<close>

text \<open>
  Each table is asked for \<open>limit\<close> rows, not for \<open>offset + limit\<close>: a feed of one table is empty from its second
  page on, and the merged feed from its fourth, whatever the total in the same answer says.
\<close>

lemma slice_beyond: "int (length xs) \<le> offset \<Longrightarrow> page_slice offset limit xs = []"
  by (simp add: page_slice_def)

theorem later_pages_lost:
  assumes "feed_ok d" and "0 < fl_Limit fl"
    and "3 * fl_Limit fl \<le> offset \<or> (fl_Type fl \<noteq> [] \<and> fl_Limit fl \<le> offset)"
  shows "mergeActivityLogs fl (fl_Limit fl) offset d = DBOk ([], int (length (matching_events fl d)))"
proof -
  let ?n = "nat (fl_Limit fl)"
  let ?cut = "take ?n (conn_source fl d) @ take ?n (remote_source fl d) @ take ?n (module_source fl d)"
  have cut: "length (take ?n xs) \<le> ?n" for xs :: "ActivityEvent list"
    by simp
  have all: "length ?cut \<le> 3 * ?n"
    using cut [of "conn_source fl d"] cut [of "remote_source fl d"] cut [of "module_source fl d"]
    by (simp only: length_append)
  have one: "length ?cut \<le> ?n" if "fl_Type fl \<noteq> []"
    using that by (auto simp: source_events_def)
  have "int (length ?cut) \<le> offset"
    using assms(2,3) all one by linarith
  then show ?thesis
    using assms(1,2) by (simp add: merge_sources slice_beyond Let_def)
qed

end
