(* ===== verification/Settings.thy ===== *)
theory Settings
  imports Logs
begin

text \<open>
  The stores of the notification settings (\<open>internal/model/notification_settings.go\<close>,
  \<open>api_key_notification_settings.go\<close>, \<open>known_client_notification_settings.go\<close>) and of the alert settings
  (\<open>alert_config.go\<close>).  A settings row is unique for its account, its key or its world, and an upsert either inserts it or
  replaces the listed columns of the row that is there.  The identifiers a failed \<open>LastInsertId\<close> would
  leave in the caller's structure are not used by any caller.
\<close>

subsection \<open>Settings of an account\<close>

definition ns_FindByUser :: "int \<Rightarrow> db \<Rightarrow> NotificationSettings option db_result" where
  "ns_FindByUser uid d = get_row ''ns_FindByUser'' (\<lambda>r. ns_UserID r = uid) (db_settings d) d"

definition upsert_rows :: "('r \<Rightarrow> bool) \<Rightarrow> ('r \<Rightarrow> 'r) \<Rightarrow> 'r \<Rightarrow> 'r list \<Rightarrow> 'r list" where
  "upsert_rows same merge row rows = (if list_ex same rows then update_rows same merge rows else rows @ [row])"

definition ns_Upsert :: "gotime \<Rightarrow> NotificationSettings \<Rightarrow> db \<Rightarrow> unit db_result \<times> db" where
  "ns_Upsert now s d =
     exec ''ns_Upsert''
       (\<lambda>d. d\<lparr>db_settings := upsert_rows (\<lambda>r. ns_UserID r = ns_UserID s)
                (\<lambda>r. s\<lparr>ns_ID := ns_ID r, ns_CreatedAt := ns_CreatedAt r, ns_UpdatedAt := now\<rparr>)
                (s\<lparr>ns_ID := db_next d, ns_CreatedAt := now, ns_UpdatedAt := now\<rparr>) (db_settings d),
              db_next := db_next d + 1\<rparr>) d"

subsection \<open>Settings of a key\<close>

definition kn_FindByApiKey :: "int \<Rightarrow> db \<Rightarrow> ApiKeyNotificationSettings option db_result" where
  "kn_FindByApiKey i d = get_row ''kn_FindByApiKey'' (\<lambda>r. kn_ApiKeyID r = i) (db_keySettings d) d"

text \<open>The update sets every column from the second to the eighth, the time of creation among them.\<close>

definition kn_Upsert :: "gotime \<Rightarrow> ApiKeyNotificationSettings \<Rightarrow> db \<Rightarrow> unit db_result \<times> db" where
  "kn_Upsert now s d =
     exec ''kn_Upsert''
       (\<lambda>d. d\<lparr>db_keySettings := upsert_rows (\<lambda>r. kn_ApiKeyID r = kn_ApiKeyID s)
                (\<lambda>r. s\<lparr>kn_ID := kn_ID r, kn_CreatedAt := now, kn_UpdatedAt := now\<rparr>)
                (s\<lparr>kn_ID := db_next d, kn_CreatedAt := now, kn_UpdatedAt := now\<rparr>) (db_keySettings d),
              db_next := db_next d + 1\<rparr>) d"

definition kn_Delete :: "int \<Rightarrow> db \<Rightarrow> unit db_result \<times> db" where
  "kn_Delete i d = exec ''kn_Delete'' (\<lambda>d. d\<lparr>db_keySettings := filter (\<lambda>r. kn_ApiKeyID r \<noteq> i) (db_keySettings d)\<rparr>) d"

subsection \<open>Settings of a world\<close>

definition wn_FindByKnownClient :: "int \<Rightarrow> db \<Rightarrow> KnownClientNotificationSettings option db_result" where
  "wn_FindByKnownClient i d = get_row ''wn_FindByKnownClient'' (\<lambda>r. wn_KnownClientID r = i) (db_worldSettings d) d"

definition wn_Upsert :: "gotime \<Rightarrow> KnownClientNotificationSettings \<Rightarrow> db \<Rightarrow> unit db_result \<times> db" where
  "wn_Upsert now s d =
     exec ''wn_Upsert''
       (\<lambda>d. d\<lparr>db_worldSettings := upsert_rows (\<lambda>r. wn_KnownClientID r = wn_KnownClientID s)
                (\<lambda>r. s\<lparr>wn_ID := wn_ID r, wn_UserID := wn_UserID r, wn_CreatedAt := wn_CreatedAt r, wn_UpdatedAt := now\<rparr>)
                (s\<lparr>wn_ID := db_next d, wn_CreatedAt := now, wn_UpdatedAt := now\<rparr>) (db_worldSettings d),
              db_next := db_next d + 1\<rparr>) d"

definition wn_Delete :: "int \<Rightarrow> db \<Rightarrow> unit db_result \<times> db" where
  "wn_Delete i d = exec ''wn_Delete'' (\<lambda>d. d\<lparr>db_worldSettings := filter (\<lambda>r. wn_KnownClientID r \<noteq> i) (db_worldSettings d)\<rparr>) d"

subsection \<open>Alert settings\<close>

definition ab_Create :: "gotime \<Rightarrow> AlertSubscription \<Rightarrow> db \<Rightarrow> unit db_result \<times> AlertSubscription \<times> db" where
  "ab_Create now s d =
     (if db_ok ''ab_Create'' d
      then (DBOk (), s\<lparr>ab_ID := db_next d\<rparr>,
            d\<lparr>db_alertSubs := db_alertSubs d @ [s\<lparr>ab_ID := db_next d, ab_CreatedAt := now, ab_UpdatedAt := now\<rparr>],
              db_next := db_next d + 1\<rparr>)
      else (DBErr, s, d))"

definition ab_FindAll :: "db \<Rightarrow> AlertSubscription list db_result" where
  "ab_FindAll d = (if db_ok ''ab_FindAll'' d then DBOk (db_alertSubs d) else DBErr)"

definition ab_FindByAlertType :: "string \<Rightarrow> db \<Rightarrow> AlertSubscription list db_result" where
  "ab_FindByAlertType t d =
     (if db_ok ''ab_FindByAlertType'' d then DBOk (filter (\<lambda>s. ab_AlertType s = t \<and> ab_Enabled s) (db_alertSubs d)) else DBErr)"

text \<open>A missing row is an error here, unlike in the other stores.\<close>

definition ab_FindByID :: "int \<Rightarrow> db \<Rightarrow> AlertSubscription db_result" where
  "ab_FindByID i d =
     (case get_row ''ab_FindByID'' (\<lambda>s. ab_ID s = i) (db_alertSubs d) d of DBOk (Some s) \<Rightarrow> DBOk s | _ \<Rightarrow> DBErr)"

definition ab_Delete :: "int \<Rightarrow> db \<Rightarrow> unit db_result \<times> db" where
  "ab_Delete i d = exec ''ab_Delete'' (\<lambda>d. d\<lparr>db_alertSubs := filter (\<lambda>s. ab_ID s \<noteq> i) (db_alertSubs d)\<rparr>) d"

fun ab_insert_all :: "gotime \<Rightarrow> AlertSubscription list \<Rightarrow> db \<Rightarrow> unit db_result \<times> db" where
  "ab_insert_all now [] d = (DBOk (), d)"
| "ab_insert_all now (s # ss) d =
     (if db_ok ''ab_insert'' d
      then ab_insert_all now ss (d\<lparr>db_alertSubs := db_alertSubs d @
             [\<lparr>ab_ID = db_next d, ab_AlertType = ab_AlertType s, ab_Channel = ab_Channel s, ab_Destination = [], ab_Enabled = True,
               ab_CreatedAt = now, ab_UpdatedAt = now\<rparr>], db_next := db_next d + 1\<rparr>)
      else (DBErr, d))"

text \<open>Not a transaction: after a failing insert the old rows are gone.\<close>

definition ab_BulkReplace :: "gotime \<Rightarrow> AlertSubscription list \<Rightarrow> db \<Rightarrow> unit db_result \<times> db" where
  "ab_BulkReplace now ss d =
     (if db_ok ''ab_BulkReplace'' d then ab_insert_all now ss (d\<lparr>db_alertSubs := []\<rparr>) else (DBErr, d))"

definition blank_config :: AlertConfig where
  "blank_config = \<lparr>af_ID = 0, af_DiscordWebhookURL = [], af_EmailDestination = [], af_UpdatedAt = zero_time\<rparr>"

text \<open>The row is created when it is missing, errors are read as an empty configuration.\<close>

definition af_Get :: "gotime \<Rightarrow> db \<Rightarrow> AlertConfig \<times> db" where
  "af_Get now d =
     (let d1 = (if db_ok ''af_Get.insert'' d \<and> \<not> list_ex (\<lambda>c. af_ID c = 1) (db_alertConfig d)
                then d\<lparr>db_alertConfig := db_alertConfig d @ [blank_config\<lparr>af_ID := 1, af_UpdatedAt := now\<rparr>]\<rparr> else d)
      in case get_row ''af_Get'' (\<lambda>c. af_ID c = 1) (db_alertConfig d1) d1 of
           DBOk (Some c) \<Rightarrow> (c, d1)
         | _ \<Rightarrow> (blank_config, d1))"

definition af_Save :: "gotime \<Rightarrow> AlertConfig \<Rightarrow> db \<Rightarrow> unit db_result \<times> db" where
  "af_Save now c d =
     exec ''af_Save''
       (\<lambda>d. d\<lparr>db_alertConfig := filter (\<lambda>r. af_ID r \<noteq> 1) (db_alertConfig d) @ [c\<lparr>af_ID := 1, af_UpdatedAt := db_time now\<rparr>]\<rparr>) d"

subsection \<open>What the stores keep\<close>

lemma find_upsert:
  assumes "\<And>r. same r \<Longrightarrow> same (merge r)" and "same row"
  shows "find same (upsert_rows same merge row rows) = Some (case find same rows of Some r \<Rightarrow> merge r | None \<Rightarrow> row)"
proof (cases "list_ex same rows")
  case True
  then have "find same (update_rows same merge rows) = Some (case find same rows of Some r \<Rightarrow> merge r | None \<Rightarrow> row)"
    using assms(1) by (induction rows) (auto simp: update_rows_def)
  then show ?thesis
    using True by (simp add: upsert_rows_def)
next
  case False
  then have "find same rows = None" "find same (rows @ [row]) = Some row"
    using assms(2) by (induction rows) auto
  then show ?thesis
    using False by (simp add: upsert_rows_def)
qed

text \<open>Settings are read back as written, for accounts and worlds with the first time of creation, for keys with the last.\<close>

lemma ns_Upsert_read:
  assumes "db_ok ''ns_Upsert'' d" and "db_ok ''ns_FindByUser'' d"
  shows "\<exists>r. ns_FindByUser (ns_UserID s) (snd (ns_Upsert now s d)) = DBOk (Some r) \<and>
    r = s\<lparr>ns_ID := ns_ID r, ns_CreatedAt := ns_CreatedAt r, ns_UpdatedAt := now\<rparr> \<and>
    (\<forall>old. ns_FindByUser (ns_UserID s) d = DBOk (Some old) \<longrightarrow> ns_CreatedAt r = ns_CreatedAt old)"
  using assms
  by (auto simp: ns_Upsert_def ns_FindByUser_def exec_def get_row_def db_ok_def find_upsert split: option.splits)

lemma kn_Upsert_forgets_creation:
  assumes "db_ok ''kn_Upsert'' d" and "db_ok ''kn_FindByApiKey'' d"
  shows "\<exists>r. kn_FindByApiKey (kn_ApiKeyID s) (snd (kn_Upsert now s d)) = DBOk (Some r) \<and> kn_CreatedAt r = now"
  using assms
  by (auto simp: kn_Upsert_def kn_FindByApiKey_def exec_def get_row_def db_ok_def find_upsert split: option.splits)

lemma BulkReplace_not_atomic:
  assumes "db_ok ''ab_BulkReplace'' d" and "\<not> db_ok ''ab_insert'' d" and "ss \<noteq> []"
  shows "ab_BulkReplace now ss d = (DBErr, d\<lparr>db_alertSubs := []\<rparr>)"
  using assms by (cases ss) (simp_all add: ab_BulkReplace_def db_ok_def)

end
