(* ===== verification/Notify.thy ===== *)
theory Notify
  imports Settings
begin

text \<open>
  Notifications: \<open>Dispatcher\<close> of \<open>internal/service/notification_dispatcher.go\<close> with its debounce map,
  \<open>RemoteRequestBatcher\<close> of \<open>notification_batcher.go\<close> with its timers, and the test message of
  \<open>notifications.go\<close>.  An event is its text, as in the code.  What is sent is the list of attempted
  deliveries: a failure is logged and nothing else; the request to Discord and the mail transfer
  are not modelled, except that the test message reports whether they succeed.  The order of a list stands for
  the order in which Go visits a map, and \<open>span\<close> is the text of a rounded duration.
\<close>

subsection \<open>The dispatcher\<close>

record notification =
  nc_Event :: string
  nc_UserID :: int
  nc_ApiKeyID :: int
  nc_ClientID :: string
  nc_WorldID :: string
  nc_WorldTitle :: string
  nc_SystemID :: string
  nc_IPAddress :: string
  nc_Description :: string
  nc_Reason :: string
  nc_Severity :: string

definition blank_notification :: notification where
  "blank_notification =
     \<lparr>nc_Event = [], nc_UserID = 0, nc_ApiKeyID = 0, nc_ClientID = [], nc_WorldID = [], nc_WorldTitle = [], nc_SystemID = [],
      nc_IPAddress = [], nc_Description = [], nc_Reason = [], nc_Severity = []\<rparr>"

record NotificationConfig =
  nf_SMTPHost :: string
  nf_SMTPPort :: int
  nf_SMTPUser :: string
  nf_SMTPPass :: string
  nf_SMTPFrom :: string
  nf_FrontendURL :: string

datatype notice = Discord string string string int | Mail string string string

definition warning_sign :: string where
  "warning_sign = [CHR 0xE2, CHR 0x9A, CHR 0xA0]"

definition titleAndColor :: "string \<Rightarrow> string \<times> int" where
  "titleAndColor event =
     (if event = ''new-client-connect'' then (''New Foundry World Connected'', 3066993)
      else if event = ''connect'' then (''Foundry Client Connected'', 3066993)
      else if event = ''disconnect'' then (''Foundry Client Disconnected'', 15105570)
      else if event = ''metadata-mismatch'' then (warning_sign @ '' Suspicious Connection: Metadata Mismatch'', 15158332)
      else if event = ''duplicate-connection-rejected'' then (warning_sign @ '' Rejected Duplicate Connection'', 15158332)
      else if event = ''remote-request'' then (''Cross-World Activity Summary'', 3447003)
      else if event = ''settings-change'' then (warning_sign @ '' Foundry Module Setting Changed'', 15105570)
      else if event = ''execute-js'' then (''execute-js Called'', 3447003)
      else if event = ''macro-execute'' then (''macro-execute Called'', 3447003)
      else if event = ''rate-limit'' then (''API Key Rate-Limited'', 15105570)
      else if event = ''error'' then (''API Key Error'', 15158332)
      else (''Foundry REST API Event'', 3447003))"

definition newline :: string where
  "newline = [CHR 0x0A]"

definition backtick :: string where
  "backtick = [CHR 0x60]"

definition desc_line :: "string \<Rightarrow> string \<Rightarrow> string" where
  "desc_line label s = (if s = [] then [] else label @ s @ newline)"

definition buildDescription :: "notification \<Rightarrow> string" where
  "buildDescription nc =
     (let desc = desc_line ''**World:** '' (nc_WorldTitle nc) @
                 (if nc_ClientID nc = [] then [] else ''**Client:** '' @ backtick @ nc_ClientID nc @ backtick @ newline) @
                 desc_line ''**System:** '' (nc_SystemID nc) @ desc_line ''**IP:** '' (nc_IPAddress nc) @
                 desc_line ''**Reason:** '' (nc_Reason nc) @
                 (if nc_Description nc = [] then [] else newline @ nc_Description nc)
      in if desc = [] then ''(no additional details)'' else desc)"

definition smtp_ready :: "NotificationConfig option \<Rightarrow> bool" where
  "smtp_ready cfg = (case cfg of None \<Rightarrow> False | Some c \<Rightarrow> nf_SMTPHost c \<noteq> [])"

definition sendToDestination :: "NotificationConfig option \<Rightarrow> string \<Rightarrow> string \<Rightarrow> string \<Rightarrow> notification \<Rightarrow> notice list" where
  "sendToDestination cfg frontendURL url email nc =
     (let (title, color) = titleAndColor (nc_Event nc); desc = buildDescription nc
      in (if url = [] then [] else [Discord url title desc color]) @
         (if email = [] \<or> \<not> smtp_ready cfg then []
          else [Mail email (''Foundry REST API: '' @ title)
                  (title @ newline @ newline @ desc @ newline @ newline @ ''--'' @ newline @ ''Foundry REST API Relay'' @ newline @
                   frontendURL)]))"

definition accountEventEnabled :: "NotificationSettings \<Rightarrow> string \<Rightarrow> bool" where
  "accountEventEnabled s event =
     (if event = ''new-client-connect'' then ns_NotifyOnNewClientConnect s
      else if event = ''connect'' then ns_NotifyOnConnect s
      else if event = ''disconnect'' then ns_NotifyOnDisconnect s
      else if event = ''metadata-mismatch'' then ns_NotifyOnMetadataMismatch s
      else if event = ''duplicate-connection-rejected'' then True
      else if event = ''remote-request'' then ns_NotifyOnCrossWorldRequests s
      else if event = ''settings-change'' then ns_NotifyOnSettingsChange s
      else if event = ''execute-js'' then ns_NotifyOnExecuteJs s
      else if event = ''macro-execute'' then ns_NotifyOnMacroExecute s
      else False)"

definition keyEventEnabled :: "ApiKeyNotificationSettings \<Rightarrow> string \<Rightarrow> bool" where
  "keyEventEnabled s event =
     (if event = ''execute-js'' then kn_NotifyOnExecuteJs s
      else if event = ''macro-execute'' then kn_NotifyOnMacroExecute s
      else if event = ''rate-limit'' then kn_NotifyOnRateLimit s
      else if event = ''error'' then kn_NotifyOnError s
      else False)"

definition worldEventEnabled :: "KnownClientNotificationSettings \<Rightarrow> string \<Rightarrow> bool" where
  "worldEventEnabled s event =
     (if event = ''connect'' then wn_NotifyOnConnect s
      else if event = ''disconnect'' then wn_NotifyOnDisconnect s
      else if event = ''execute-js'' then wn_NotifyOnExecuteJs s
      else if event = ''macro-execute'' then wn_NotifyOnMacroExecute s
      else False)"

type_synonym debounce = "(string, gotime) gomap"

definition debounceKey :: "notification \<Rightarrow> string" where
  "debounceKey nc = int_text (nc_UserID nc) @ '':'' @ nc_Event nc @ '':'' @ nc_ClientID nc"

text \<open>\<open>None\<close> when the event is suppressed.\<close>

definition debounce_step :: "gotime \<Rightarrow> notification \<Rightarrow> NotificationSettings option \<Rightarrow> debounce \<Rightarrow> debounce option" where
  "debounce_step now nc acct deb =
     (case acct of None \<Rightarrow> Some deb
      | Some a \<Rightarrow>
          if ns_DebounceWindowSecs a > 0
          then (case aget deb (debounceKey nc) of
                  Some prev \<Rightarrow> if now - prev < seconds (ns_DebounceWindowSecs a) then None else Some (aput (debounceKey nc) now deb)
                | None \<Rightarrow> Some (aput (debounceKey nc) now deb))
          else Some deb)"

text \<open>A failing lookup yields settings without destinations, which is the same as none.\<close>

definition account_settings :: "int \<Rightarrow> db \<Rightarrow> NotificationSettings option" where
  "account_settings uid d = (case ns_FindByUser uid d of DBOk r \<Rightarrow> r | DBErr \<Rightarrow> None)"

definition account_part :: "NotificationConfig option \<Rightarrow> string \<Rightarrow> NotificationSettings option \<Rightarrow> notification \<Rightarrow> notice list" where
  "account_part cfg frontendURL acct nc =
     (case acct of
        Some a \<Rightarrow> if accountEventEnabled a (nc_Event nc)
                  then sendToDestination cfg frontendURL (null_str (ns_DiscordWebhookURL a)) (null_str (ns_NotifyEmail a)) nc else []
      | None \<Rightarrow> [])"

definition key_part :: "NotificationConfig option \<Rightarrow> string \<Rightarrow> notification \<Rightarrow> db \<Rightarrow> notice list" where
  "key_part cfg frontendURL nc d =
     (if nc_ApiKeyID nc = 0 then []
      else (case kn_FindByApiKey (nc_ApiKeyID nc) d of
              DBOk (Some s) \<Rightarrow>
                if keyEventEnabled s (nc_Event nc)
                then sendToDestination cfg frontendURL (null_str (kn_DiscordWebhookURL s)) (null_str (kn_NotifyEmail s)) nc else []
            | _ \<Rightarrow> []))"

definition world_part :: "NotificationConfig option \<Rightarrow> string \<Rightarrow> notification \<Rightarrow> db \<Rightarrow> notice list" where
  "world_part cfg frontendURL nc d =
     (if nc_ClientID nc = [] \<or> nc_Event nc \<notin> {''connect'', ''disconnect'', ''execute-js'', ''macro-execute''} then []
      else (case kc_FindByClientID (nc_UserID nc) (nc_ClientID nc) d of
              DBOk (Some kc) \<Rightarrow>
                (case wn_FindByKnownClient (kc_ID kc) d of
                   DBOk (Some s) \<Rightarrow>
                     if worldEventEnabled s (nc_Event nc)
                     then sendToDestination cfg frontendURL (null_str (wn_DiscordWebhookURL s)) (null_str (wn_NotifyEmail s)) nc
                     else []
                 | _ \<Rightarrow> [])
            | _ \<Rightarrow> []))"

definition Dispatch ::
    "NotificationConfig option \<Rightarrow> string \<Rightarrow> db \<Rightarrow> gotime \<Rightarrow> notification \<Rightarrow> debounce \<Rightarrow> notice list \<times> debounce" where
  "Dispatch cfg frontendURL d now nc deb =
     (if nc_UserID nc = 0 then ([], deb)
      else (let acct = account_settings (nc_UserID nc) d
            in case debounce_step now nc acct deb of
                 None \<Rightarrow> ([], deb)
               | Some deb1 \<Rightarrow>
                   (account_part cfg frontendURL acct nc @ key_part cfg frontendURL nc d @ world_part cfg frontendURL nc d, deb1)))"

subsection \<open>The batcher of cross-world requests\<close>

type_synonym batchKey = "int \<times> int \<times> string"

record batchEntry =
  be_ScopeCounts :: "(string, int) gomap"
  be_FailCount :: int
  be_TotalCount :: int
  be_FirstAt :: gotime
  be_LastAt :: gotime
  be_Timer :: gotime  \<comment> \<open>when it fires\<close>
  be_TokenName :: string

record batcher =
  bt_pending :: "(batchKey, batchEntry) gomap"
  bt_window :: int
  bt_done :: bool
  bt_userWindow :: "(int, int) gomap"

definition NewRemoteRequestBatcher :: "int \<Rightarrow> batcher" where
  "NewRemoteRequestBatcher window =
     \<lparr>bt_pending = [], bt_window = (if window \<le> 0 then minutes 5 else window), bt_done = False, bt_userWindow = []\<rparr>"

definition SetUserWindow :: "int \<Rightarrow> int \<Rightarrow> batcher \<Rightarrow> batcher" where
  "SetUserWindow uid d b =
     b\<lparr>bt_userWindow := (if d \<le> 0 then adel uid (bt_userWindow b) else aput uid d (bt_userWindow b))\<rparr>"

definition window_for :: "int \<Rightarrow> batcher \<Rightarrow> int" where
  "window_for uid b = (case aget (bt_userWindow b) uid of Some w \<Rightarrow> if w > 0 then w else bt_window b | None \<Rightarrow> bt_window b)"

definition batch_add :: "gotime \<Rightarrow> int \<Rightarrow> int \<Rightarrow> string \<Rightarrow> string \<Rightarrow> string \<Rightarrow> bool \<Rightarrow> batcher \<Rightarrow> batcher" where
  "batch_add now uid tok target action tokenName ok b =
     (let key = (uid, tok, target);
          entry = (case aget (bt_pending b) key of
                     Some e \<Rightarrow> e
                   | None \<Rightarrow> \<lparr>be_ScopeCounts = [], be_FailCount = 0, be_TotalCount = 0, be_FirstAt = now, be_LastAt = zero_time,
                             be_Timer = now + window_for uid b, be_TokenName = tokenName\<rparr>);
          n = (case aget (be_ScopeCounts entry) action of Some n \<Rightarrow> n | None \<Rightarrow> 0)
      in b\<lparr>bt_pending := aput key (entry\<lparr>be_ScopeCounts := aput action (n + 1) (be_ScopeCounts entry),
             be_TotalCount := be_TotalCount entry + 1,
             be_FailCount := be_FailCount entry + (if ok then 0 else 1), be_LastAt := now\<rparr>) (bt_pending b)\<rparr>)"

text \<open>The part of \<open>flush\<close> under the lock, and the text of the summary.\<close>

definition take_batch :: "batchKey \<Rightarrow> batcher \<Rightarrow> batchEntry option \<times> batcher" where
  "take_batch key b =
     (case aget (bt_pending b) key of
        None \<Rightarrow> (None, b)
      | Some e \<Rightarrow> (Some e, b\<lparr>bt_pending := adel key (bt_pending b)\<rparr>))"

definition summary :: "(int \<Rightarrow> string) \<Rightarrow> gotime \<Rightarrow> batchKey \<Rightarrow> batchEntry \<Rightarrow> notification" where
  "summary span now key e =
     (let (uid, tok, target) = key;
          counts = map (\<lambda>(scope, n). scope @ [CHR '' '', CHR 0xC3, CHR 0x97, CHR '' ''] @ int_text n) (be_ScopeCounts e);
          failNote = (if be_FailCount e > 0 then '' ('' @ int_text (be_FailCount e) @ '' failed)'' else []);
          desc = ''Cross-world activity: '' @ int_text (be_TotalCount e) @ '' action(s)'' @ failNote @ '' in '' @
                 span (now - be_FirstAt e) @ newline @ go_join newline counts;
          full = (if be_TokenName e = [] then desc
                  else ''Token '' @ [CHR 0x22] @ be_TokenName e @ [CHR 0x22, CHR '' '', CHR 0xE2, CHR 0x86, CHR 0x92, CHR '' ''] @
                       target @ newline @ desc)
      in blank_notification\<lparr>nc_Event := ''remote-request'', nc_UserID := uid, nc_ClientID := target, nc_Description := full,
           nc_Severity := ''info''\<rparr>)"

definition flush ::
    "(int \<Rightarrow> string) \<Rightarrow> gotime \<Rightarrow> batchKey \<Rightarrow> batcher \<Rightarrow> notification option \<times> batcher" where
  "flush span now key b =
     (case take_batch key b of
        (None, b1) \<Rightarrow> (None, b1)
      | (Some e, b1) \<Rightarrow> (Some (summary span now key e), b1))"

fun flush_all :: "batchKey list \<Rightarrow> batcher \<Rightarrow> (batchKey \<times> batchEntry) list \<times> batcher" where
  "flush_all [] b = ([], b)"
| "flush_all (k # ks) b =
     (let (e, b1) = take_batch k b; (es, b2) = flush_all ks b1
      in ((case e of None \<Rightarrow> es | Some x \<Rightarrow> (k, x) # es), b2))"

text \<open>The timers are stopped first, so no batch is flushed by both.\<close>

definition Shutdown :: "batcher \<Rightarrow> (batchKey \<times> batchEntry) list \<times> batcher" where
  "Shutdown b = flush_all (akeys (bt_pending b)) (b\<lparr>bt_done := True\<rparr>)"

datatype batch_op =
    Added gotime int int string string string bool
  | Fired batchKey
  | WindowSet int int
  | ShutDown

text \<open>The summaries that a sequence of operations produces, with the batches they describe.\<close>

fun batch_step :: "batch_op \<Rightarrow> batcher \<Rightarrow> (batchKey \<times> batchEntry) list \<times> batcher" where
  "batch_step (Added now uid tok target action name ok) b = ([], batch_add now uid tok target action name ok b)"
| "batch_step (Fired key) b = (case take_batch key b of (None, b1) \<Rightarrow> ([], b1) | (Some e, b1) \<Rightarrow> ([(key, e)], b1))"
| "batch_step (WindowSet uid d) b = ([], SetUserWindow uid d b)"
| "batch_step ShutDown b = Shutdown b"

fun batch_run :: "batch_op list \<Rightarrow> batcher \<Rightarrow> (batchKey \<times> batchEntry) list \<times> batcher" where
  "batch_run [] b = ([], b)"
| "batch_run (op # ops) b = (let (es, b1) = batch_step op b; (fs, b2) = batch_run ops b1 in (es @ fs, b2))"

subsection \<open>The test message\<close>

record ClientConnectionInfo =
  in_ClientID :: string
  in_WorldID :: string
  in_WorldTitle :: string
  in_SystemID :: string
  in_FoundryVersion :: string
  in_IPAddress :: string
  in_CustomName :: string

definition connection_message :: "string \<Rightarrow> ClientConnectionInfo \<Rightarrow> string \<Rightarrow> notice" where
  "connection_message url i kind =
     (let (title, color) = (if kind = ''disconnect'' then (''Foundry Client Disconnected'', 15105570)
                            else if kind = ''test'' then (''Test Notification'', 3447003)
                            else (''New Foundry Client Connected'', 3066993));
          line = (\<lambda>label s. if s = [] then [] else newline @ label @ s)
      in Discord url title
           (''**Client ID:** '' @ backtick @ in_ClientID i @ backtick @ line ''**World:** '' (in_WorldTitle i) @
            line ''**System:** '' (in_SystemID i) @ line ''**Foundry Version:** '' (in_FoundryVersion i) @
            line ''**IP Address:** '' (in_IPAddress i) @ line ''**Custom Name:** '' (in_CustomName i)) color)"

definition connection_mail :: "gotime \<Rightarrow> (gotime \<Rightarrow> string) \<Rightarrow> string \<Rightarrow> NotificationConfig \<Rightarrow> ClientConnectionInfo \<Rightarrow> string \<Rightarrow> notice" where
  "connection_mail now rfc addr cfg i kind =
     (let (subject, verb) = (if kind = ''disconnect'' then (''Foundry REST API: Client Disconnected'', ''disconnected from'')
                             else if kind = ''test'' then (''Foundry REST API: Test Notification'', ''test notification for'')
                             else (''Foundry REST API: New Client Connected'', ''connected to''));
          worldInfo = (if in_WorldTitle i = [] then in_ClientID i else in_WorldTitle i @ '' ('' @ in_ClientID i @ '')'')
      in Mail addr subject
           (''A Foundry client has '' @ verb @ '' your relay.'' @ newline @ newline @ ''Client: '' @ worldInfo @ newline @
            ''IP Address: '' @ in_IPAddress i @ newline @ ''Foundry Version: '' @ in_FoundryVersion i @ newline @
            ''System: '' @ in_SystemID i @ newline @ ''Time: '' @ rfc now @ newline @ newline @
            ''If this was not expected, log in to your dashboard to rotate the connection token.'' @ newline @
            nf_FrontendURL cfg @ newline))"

text \<open>\<open>deliver\<close> gives the error of an attempt; the second attempt is not made after a first one fails.\<close>

definition SendTestNotification ::
    "(notice \<Rightarrow> string option) \<Rightarrow> gotime \<Rightarrow> (gotime \<Rightarrow> string) \<Rightarrow> string \<Rightarrow> string \<Rightarrow> NotificationConfig option \<Rightarrow>
     notice list \<times> string option" where
  "SendTestNotification deliver now rfc url email cfg =
     (let i = \<lparr>in_ClientID = ''test-connection'', in_WorldID = [], in_WorldTitle = ''Test Notification'', in_SystemID = [],
               in_FoundryVersion = [], in_IPAddress = ''127.0.0.1'', in_CustomName = []\<rparr>;
          hook = (if url = [] then [] else [connection_message url i ''test'']);
          mail = (case cfg of Some c \<Rightarrow> if email = [] \<or> nf_SMTPHost c = [] then [] else [connection_mail now rfc email c i ''test'']
                            | None \<Rightarrow> [])
      in case (case hook of m # _ \<Rightarrow> deliver m | [] \<Rightarrow> None) of
           Some e \<Rightarrow> (hook, Some (''discord notification failed: '' @ e))
         | None \<Rightarrow>
             (case (case mail of m # _ \<Rightarrow> deliver m | [] \<Rightarrow> None) of
                Some e \<Rightarrow> (hook @ mail, Some (''email notification failed: '' @ e))
              | None \<Rightarrow> (hook @ mail, None)))"

subsection \<open>Nothing is lost in a batch\<close>

text \<open>What a measure of batches amounts to in the summaries and in the open batches of a key.\<close>

definition in_summaries :: "(batchEntry \<Rightarrow> int) \<Rightarrow> batchKey \<Rightarrow> (batchKey \<times> batchEntry) list \<Rightarrow> int" where
  "in_summaries f key es = (\<Sum>(k, e) \<leftarrow> es. if k = key then f e else 0)"

definition in_pending :: "(batchEntry \<Rightarrow> int) \<Rightarrow> batchKey \<Rightarrow> batcher \<Rightarrow> int" where
  "in_pending f key b = (case aget (bt_pending b) key of Some e \<Rightarrow> f e | None \<Rightarrow> 0)"

definition scope_count :: "string \<Rightarrow> batchEntry \<Rightarrow> int" where
  "scope_count action e = (case aget (be_ScopeCounts e) action of Some n \<Rightarrow> n | None \<Rightarrow> 0)"

fun added :: "(string \<Rightarrow> bool \<Rightarrow> bool) \<Rightarrow> batchKey \<Rightarrow> batch_op \<Rightarrow> bool" where
  "added P key (Added now uid tok target action name ok) = ((uid, tok, target) = key \<and> P action ok)"
| "added P key op = False"

lemma in_summaries_simps [simp]:
  "in_summaries f key [] = 0" "in_summaries f key ((k, e) # es) = (if k = key then f e else 0) + in_summaries f key es"
  "in_summaries f key (es @ fs) = in_summaries f key es + in_summaries f key fs"
  by (simp_all add: in_summaries_def)

lemma take_batch_in:
  assumes "take_batch k b = (e, b')"
  shows "in_pending f key b = (case e of Some x \<Rightarrow> if k = key then f x else 0 | None \<Rightarrow> 0) + in_pending f key b'"
  using assms by (auto simp: take_batch_def in_pending_def split: option.splits)

lemma flush_all_in: "flush_all ks b = (es, b') \<Longrightarrow> in_pending f key b = in_summaries f key es + in_pending f key b'"
proof (induction ks arbitrary: b es)
  case (Cons k ks)
  obtain e b1 where t: "take_batch k b = (e, b1)" by fastforce
  obtain fs b2 where r: "flush_all ks b1 = (fs, b2)" by fastforce
  have "in_pending f key b1 = in_summaries f key fs + in_pending f key b'"
    using Cons t r by simp
  then show ?case
    using Cons.prems t r take_batch_in [OF t, of f key] by (auto split: option.splits)
qed simp

lemma flush_all_pending: "bt_pending (snd (flush_all ks b)) = fold adel ks (bt_pending b)"
proof (induction ks arbitrary: b)
  case (Cons k ks)
  have "bt_pending (snd (take_batch k b)) = adel k (bt_pending b)"
    by (simp add: take_batch_def split: option.splits)
  then show ?case
    using Cons by (simp add: case_prod_unfold Let_def)
qed simp

lemma Shutdown_empties: "bt_pending (snd (Shutdown b)) = []"
  by (simp add: Shutdown_def flush_all_pending fold_adel filter_empty_conv)

text \<open>A measure that a new batch starts at zero and a request raises by its share.\<close>

definition counts :: "(batchEntry \<Rightarrow> int) \<Rightarrow> (string \<Rightarrow> bool \<Rightarrow> bool) \<Rightarrow> bool" where
  "counts f P \<longleftrightarrow>
     (\<forall>now uid tok target action name ok key b.
        in_pending f key (batch_add now uid tok target action name ok b) =
        in_pending f key b + (if added P key (Added now uid tok target action name ok) then 1 else 0))"

lemma countsD: "counts f P \<Longrightarrow> in_pending f key (batch_add now uid tok target action name ok b) =
    in_pending f key b + (if added P key (Added now uid tok target action name ok) then 1 else 0)"
  unfolding counts_def by blast

lemma counts_measures:
  "counts be_TotalCount (\<lambda>_ _. True)" "counts be_FailCount (\<lambda>_ ok. \<not> ok)" "counts (scope_count s) (\<lambda>action _. action = s)"
  by (auto simp: counts_def in_pending_def batch_add_def Let_def scope_count_def split: option.splits)

lemma batch_step_in:
  assumes "counts f P" and "batch_step op b = (es, b')"
  shows "in_summaries f key es + in_pending f key b' = in_pending f key b + (if added P key op then 1 else 0)"
proof (cases op)
  case (Added now uid tok target action name ok)
  then show ?thesis
    using assms by (auto simp: countsD)
next
  case (Fired k)
  then show ?thesis
    using assms(2) take_batch_in [of k b _ _ f key] by (auto split: prod.splits option.splits)
next
  case (WindowSet uid d)
  then show ?thesis
    using assms(2) by (auto simp: in_pending_def SetUserWindow_def)
next
  case ShutDown
  then have "flush_all (akeys (bt_pending b)) (b\<lparr>bt_done := True\<rparr>) = (es, b')"
    using assms(2) by (simp add: Shutdown_def)
  from flush_all_in [OF this, of f key] show ?thesis
    using ShutDown by (simp add: in_pending_def)
qed

lemma batch_run_in:
  assumes "counts f P" and "batch_run ops b = (es, b')"
  shows "in_summaries f key es + in_pending f key b' = in_pending f key b + int (length (filter (added P key) ops))"
  using assms(2)
proof (induction ops arbitrary: b es b')
  case (Cons op ops)
  obtain e1 b1 where s: "batch_step op b = (e1, b1)" by fastforce
  obtain e2 b2 where r: "batch_run ops b1 = (e2, b2)" by fastforce
  show ?case
    using Cons.IH [OF r] Cons.prems s r batch_step_in [OF assms(1) s, of key] by (auto split: if_splits)
qed simp

lemma batch_run_append: "batch_run (xs @ ys) b = (let (es, b1) = batch_run xs b; (fs, b2) = batch_run ys b1 in (es @ fs, b2))"
  by (induction xs arbitrary: b) (simp_all add: case_prod_unfold Let_def)

text \<open>Every cross-world request is counted once: under any sequence of requests, timers that
  fire (early, late or twice), changed windows and shutdowns, the summaries of a key together with its open batch count each
  added request, each failure and each action exactly, and after a shutdown nothing is left open.
\<close>

theorem every_request_in_one_summary:
  "let (es, b) = batch_run ops (NewRemoteRequestBatcher w)
   in in_summaries be_TotalCount key es + in_pending be_TotalCount key b = int (length (filter (added (\<lambda>_ _. True) key) ops)) \<and>
      in_summaries be_FailCount key es + in_pending be_FailCount key b = int (length (filter (added (\<lambda>_ ok. \<not> ok) key) ops)) \<and>
      in_summaries (scope_count s) key es + in_pending (scope_count s) key b =
        int (length (filter (added (\<lambda>action _. action = s) key) ops)) \<and>
      bt_pending (snd (batch_run (ops @ [ShutDown]) (NewRemoteRequestBatcher w))) = []"
proof -
  obtain es b where r: "batch_run ops (NewRemoteRequestBatcher w) = (es, b)" by fastforce
  have zero: "in_pending f key (NewRemoteRequestBatcher w) = 0" for f
    by (simp add: in_pending_def NewRemoteRequestBatcher_def)
  have "bt_pending (snd (batch_run (ops @ [ShutDown]) (NewRemoteRequestBatcher w))) = []"
    using r by (simp add: batch_run_append case_prod_unfold Let_def Shutdown_empties)
  then show ?thesis
    using r zero batch_run_in [OF counts_measures(1) r, of key] batch_run_in [OF counts_measures(2) r, of key]
      batch_run_in [OF counts_measures(3) r, of s key]
    by simp
qed

text \<open>A batcher that was shut down starts new batches: nothing reads \<open>done\<close>.\<close>

lemma Shutdown_prevents_nothing:
  "in_pending be_TotalCount (uid, tok, target) (batch_add now uid tok target action name ok (snd (Shutdown b))) = 1"
  using counts_measures(1) by (simp add: counts_def) (simp add: in_pending_def Shutdown_empties)

subsection \<open>Debouncing\<close>

text \<open>A sequence of dispatches with what each of them sent.\<close>

type_synonym sent = "gotime \<times> notification \<times> notice list"

fun dispatch_all :: "NotificationConfig option \<Rightarrow> string \<Rightarrow> db \<Rightarrow> (gotime \<times> notification) list \<Rightarrow> debounce \<Rightarrow> sent list" where
  "dispatch_all cfg url d [] deb = []"
| "dispatch_all cfg url d ((now, nc) # rest) deb =
     (let (out, deb1) = Dispatch cfg url d now nc deb in (now, nc, out) # dispatch_all cfg url d rest deb1)"

lemma Dispatch_debounced:
  assumes "account_settings uid d = Some a" and "ns_DebounceWindowSecs a > 0" and "uid \<noteq> 0" and "nc_UserID nc = uid"
  shows "Dispatch cfg url d now nc deb =
    (case aget deb (debounceKey nc) of
       Some prev \<Rightarrow> if now - prev < seconds (ns_DebounceWindowSecs a) then ([], deb)
                   else (account_part cfg url (Some a) nc @ key_part cfg url nc d @ world_part cfg url nc d, aput (debounceKey nc) now deb)
     | None \<Rightarrow> (account_part cfg url (Some a) nc @ key_part cfg url nc d @ world_part cfg url nc d, aput (debounceKey nc) now deb))"
  using assms by (simp add: Dispatch_def debounce_step_def split: option.splits)

text \<open>A dispatch leaves the times of the keys of other accounts as they are.\<close>

lemma Dispatch_debounce:
  assumes "Dispatch cfg url d now nc deb = (out, deb1)"
  shows "deb1 = deb \<or> deb1 = aput (debounceKey nc) now deb"
  using assms by (auto simp: Dispatch_def debounce_step_def Let_def split: if_splits option.splits)

definition same_topic :: "notification \<Rightarrow> notification \<Rightarrow> bool" where
  "same_topic m n \<longleftrightarrow> nc_UserID m = nc_UserID n \<and> nc_Event m = nc_Event n \<and> nc_ClientID m = nc_ClientID n"

lemma same_topic_key: "same_topic m n \<Longrightarrow> debounceKey m = debounceKey n"
  by (simp add: same_topic_def debounceKey_def)

definition spaced :: "int \<Rightarrow> int \<Rightarrow> sent \<Rightarrow> sent \<Rightarrow> bool" where
  "spaced uid w x y \<longleftrightarrow>
     (case x of (s, m, outs) \<Rightarrow> case y of (t, n, outt) \<Rightarrow>
        nc_UserID m = uid \<and> same_topic m n \<and> outs \<noteq> [] \<and> outt \<noteq> [] \<longrightarrow> t - s \<ge> seconds w)"

lemma later_deliveries:
  assumes "account_settings uid d = Some a" and "ns_DebounceWindowSecs a > 0" and "uid \<noteq> 0"
    and "aget deb k = Some p" and "sorted (p # map fst calls)"
    and "(t, n, out) \<in> set (dispatch_all cfg url d calls deb)"
    and "nc_UserID n = uid" and "debounceKey n = k" and "out \<noteq> []"
  shows "t - p \<ge> seconds (ns_DebounceWindowSecs a)"
  using assms(4-6)
proof (induction calls arbitrary: deb p)
  case (Cons c calls)
  obtain now nc where c: "c = (now, nc)" by fastforce
  obtain o1 deb1 where D: "Dispatch cfg url d now nc deb = (o1, deb1)" by fastforce
  have le: "p \<le> now" and rest: "sorted (p # map fst calls)" "sorted (now # map fst calls)"
    using Cons.prems(2) c by auto
  consider (here) "(t, n, out) = (now, nc, o1)" | (later) "(t, n, out) \<in> set (dispatch_all cfg url d calls deb1)"
    using Cons.prems(3) c D by auto
  then show ?case
  proof cases
    case here
    then show ?thesis
      using Dispatch_debounced [OF assms(1-3), of nc cfg url now deb] D Cons.prems(1) assms(7-9)
      by (auto split: if_splits)
  next
    case later
    have "aget deb1 k = Some p \<or> aget deb1 k = Some now"
      using Dispatch_debounce [OF D] Cons.prems(1) by auto
    then show ?thesis
      using Cons.IH [OF _ rest(1) later] Cons.IH [OF _ rest(2) later] le by auto
  qed
qed simp

text \<open>Two notifications of one account about the same event of the same client are sent no closer
  together than the account's debounce window, whatever is dispatched between them; the window holds for all the
  destinations of the event.
\<close>

theorem debounced_apart:
  assumes "account_settings uid d = Some a" and "ns_DebounceWindowSecs a > 0" and "uid \<noteq> 0"
    and "sorted (map fst calls)"
  shows "sorted_wrt (spaced uid (ns_DebounceWindowSecs a)) (dispatch_all cfg url d calls deb)"
  using assms(4)
proof (induction calls arbitrary: deb)
  case (Cons c calls)
  obtain now nc where c: "c = (now, nc)" by fastforce
  obtain o1 deb1 where D: "Dispatch cfg url d now nc deb = (o1, deb1)" by fastforce
  have srt: "sorted (now # map fst calls)" "sorted (map fst calls)"
    using Cons.prems c by simp_all
  have "spaced uid (ns_DebounceWindowSecs a) (now, nc, o1) (t, n, out)"
    if mem: "(t, n, out) \<in> set (dispatch_all cfg url d calls deb1)" for t n out
  proof (cases "nc_UserID nc = uid \<and> same_topic nc n \<and> o1 \<noteq> [] \<and> out \<noteq> []")
    case True
    have stored: "aget deb1 (debounceKey n) = Some now"
      using True D Dispatch_debounced [OF assms(1-3), of nc cfg url now deb] same_topic_key [of nc n]
      by (auto split: option.splits if_splits)
    have "nc_UserID n = uid"
      using True by (simp add: same_topic_def)
    from later_deliveries [OF assms(1-3) stored srt(1) mem this refl] True show ?thesis
      by (simp add: spaced_def)
  qed (auto simp: spaced_def)
  then show ?case
    using Cons.IH [OF srt(2), of deb1] c D by auto
qed simp

definition ex_settings :: NotificationSettings where
  "ex_settings =
     \<lparr>ns_ID = 1, ns_UserID = 7, ns_DiscordWebhookURL = Some ''https://hook'', ns_NotifyEmail = None, ns_NotifyOnConnect = True,
      ns_NotifyOnDisconnect = True, ns_NotifyOnMetadataMismatch = True, ns_NotifyOnSettingsChange = True, ns_NotifyOnExecuteJs = True,
      ns_NotifyOnMacroExecute = False, ns_NotifyOnNewClientConnect = True, ns_DebounceWindowSecs = 60, ns_BatchWindowSecs = 300,
      ns_LogCrossWorldRequests = True, ns_NotifyOnCrossWorldRequests = True, ns_CreatedAt = 0, ns_UpdatedAt = 0\<rparr>"

definition ex_settings_db :: db where
  "ex_settings_db = empty_db\<lparr>db_settings := [ex_settings]\<rparr>"

definition ex_connect :: notification where
  "ex_connect = blank_notification\<lparr>nc_Event := ''connect'', nc_UserID := 7\<rparr>"

lemma ex_account: "account_settings 7 ex_settings_db = Some ex_settings"
  by (simp add: account_settings_def ns_FindByUser_def get_row_def db_ok_def ex_settings_db_def empty_db_def ex_settings_def)

theorem debounced_apart_witness:
  "sorted_wrt (spaced 7 60) (dispatch_all None [] ex_settings_db [(seconds 1, ex_connect), (seconds 30, ex_connect), (seconds 70, ex_connect)] [])
   \<and> map (\<lambda>(t, n, out). length out)
      (dispatch_all None [] ex_settings_db [(seconds 1, ex_connect), (seconds 30, ex_connect), (seconds 70, ex_connect)] []) = [1, 0, 1]"
proof
  show "sorted_wrt (spaced 7 60) (dispatch_all None [] ex_settings_db [(seconds 1, ex_connect), (seconds 30, ex_connect), (seconds 70, ex_connect)] [])"
    using debounced_apart [OF ex_account, of "[(seconds 1, ex_connect), (seconds 30, ex_connect), (seconds 70, ex_connect)]" None "[]" "[]"]
    by (simp add: ex_settings_def seconds_def)
  have ex_window: "ns_DebounceWindowSecs ex_settings = 60" "nc_UserID ex_connect = 7"
    by (simp_all add: ex_settings_def ex_connect_def blank_notification_def)
  have parts: "key_part None [] ex_connect ex_settings_db = []" "world_part None [] ex_connect ex_settings_db = []"
    by (simp_all add: key_part_def world_part_def ex_connect_def blank_notification_def)
  have D: "Dispatch None [] ex_settings_db now ex_connect deb =
      (case aget deb (debounceKey ex_connect) of
         Some prev \<Rightarrow> if now - prev < seconds 60 then ([], deb)
           else (account_part None [] (Some ex_settings) ex_connect, aput (debounceKey ex_connect) now deb)
       | None \<Rightarrow> (account_part None [] (Some ex_settings) ex_connect, aput (debounceKey ex_connect) now deb))" for now deb
    using Dispatch_debounced [OF ex_account, of ex_connect None "[]" now deb] by (simp add: ex_window parts split: option.splits)
  have "length (account_part None [] (Some ex_settings) ex_connect) = 1"
    by (simp add: account_part_def ex_settings_def ex_connect_def blank_notification_def accountEventEnabled_def sendToDestination_def
        titleAndColor_def null_str_def smtp_ready_def)
  then show "map (\<lambda>(t, n, out). length out)
      (dispatch_all None [] ex_settings_db [(seconds 1, ex_connect), (seconds 30, ex_connect), (seconds 70, ex_connect)] []) = [1, 0, 1]"
    by (simp add: D seconds_def)
qed

text \<open>
  What the window also holds back: the destinations of the key and the world, which have no window of their own, the
  alarm that has no switch, and the summary of a whole batch of cross-world requests.
\<close>

lemma debounce_silences:
  assumes "account_settings uid d = Some a" and "ns_DebounceWindowSecs a > 0" and "uid \<noteq> 0" and "nc_UserID nc = uid"
    and "aget deb (debounceKey nc) = Some prev" and "now - prev < seconds (ns_DebounceWindowSecs a)"
  shows "Dispatch cfg url d now nc deb = ([], deb)"
  using Dispatch_debounced [OF assms(1-4)] assms(5,6) by simp

lemma batch_lost_to_debounce:
  assumes "account_settings uid d = Some a" and "ns_DebounceWindowSecs a > 0" and "uid \<noteq> 0"
    and "nc = summary span now (uid, tok, target) e"
    and "aget deb (debounceKey nc) = Some prev" and "now - prev < seconds (ns_DebounceWindowSecs a)"
  shows "fst (Dispatch cfg url d now nc deb) = []"
  using debounce_silences [OF assms(1-3) _ assms(5,6)] assms(4) by (simp add: summary_def Let_def)

text \<open>The time is recorded although the event is switched off and nothing was sent: switching it on does not help within the window.\<close>

lemma debounce_recorded_unsent:
  assumes "account_settings uid d = Some a" and "ns_DebounceWindowSecs a > 0" and "uid \<noteq> 0" and "nc_UserID nc = uid"
    and "\<not> accountEventEnabled a (nc_Event nc)" and "nc_ApiKeyID nc = 0" and "nc_ClientID nc = []"
    and "aget deb (debounceKey nc) = None"
  shows "Dispatch cfg url d now nc deb = ([], aput (debounceKey nc) now deb)"
  using Dispatch_debounced [OF assms(1-4)] assms(5-8) by (simp add: account_part_def key_part_def world_part_def)

end
