(* ===== verification/Quota.thy ===== *)
theory Quota
  imports Prelude
begin

text \<open>
  The contract of a table that admits a bounded number of entries per key: the interactive
  sessions of an API key and the event subscriptions of a module both keep it.
\<close>

datatype ('e, 'l) quota_op = Enter 'e | Leave 'l

locale quota =
  fixes used :: "'s \<Rightarrow> 'k \<Rightarrow> nat"
    and limit :: "'s \<Rightarrow> nat"
    and key :: "'e \<Rightarrow> 'k"
    and enter :: "'e \<Rightarrow> 's \<Rightarrow> 's option"
    and leave :: "'l \<Rightarrow> 's \<Rightarrow> 's"
    and ok :: "'s \<Rightarrow> bool"
  assumes enter_full: "ok s \<Longrightarrow> enter e s = None \<longleftrightarrow> limit s \<le> used s (key e)"
    and enter_used: "ok s \<Longrightarrow> enter e s = Some s' \<Longrightarrow>
      used s' k \<le> used s k + (if k = key e then 1 else 0) \<and> limit s' = limit s \<and> ok s'"
    and leave_used: "ok s \<Longrightarrow> used (leave l s) k \<le> used s k \<and> limit (leave l s) = limit s \<and> ok (leave l s)"
begin

definition quota_step :: "('e, 'l) quota_op \<Rightarrow> 's \<Rightarrow> 's" where
  "quota_step op s =
     (case op of Enter e \<Rightarrow> (case enter e s of None \<Rightarrow> s | Some s' \<Rightarrow> s') | Leave l \<Rightarrow> leave l s)"

definition within :: "'s \<Rightarrow> bool" where
  "within s \<longleftrightarrow> ok s \<and> (\<forall>k. used s k \<le> limit s)"

lemma within_step: "within s \<Longrightarrow> within (quota_step op s) \<and> limit (quota_step op s) = limit s"
proof (cases op)
  case (Enter e)
  assume w: "within s"
  show ?thesis
  proof (cases "enter e s")
    case None
    then show ?thesis using w Enter by (simp add: quota_step_def)
  next
    case (Some s')
    have "\<not> limit s \<le> used s (key e)"
      using enter_full [of s e] Some w by (simp add: within_def)
    moreover have e: "used s' k \<le> used s k + (if k = key e then 1 else 0) \<and> limit s' = limit s \<and> ok s'" for k
      using enter_used [of s e s' k] Some w by (simp add: within_def)
    moreover have "used s k \<le> limit s" for k using w by (simp add: within_def)
    ultimately have "used s' k \<le> limit s'" for k
    proof (cases "k = key e")
      case True
      then show ?thesis using e [of k] \<open>\<not> limit s \<le> used s (key e)\<close> by simp
    next
      case False
      then show ?thesis using e [of k] \<open>\<And>k. used s k \<le> limit s\<close> [of k] by simp
    qed
    then show ?thesis
      using Some Enter enter_used [of s e s'] w by (simp add: quota_step_def within_def)
  qed
next
  case (Leave l)
  assume w: "within s"
  then have "used (leave l s) k \<le> limit (leave l s)" for k
    using leave_used [of s l k] by (metis within_def le_trans)
  then show ?thesis
    using w leave_used [of s l] Leave by (simp add: quota_step_def within_def)
qed

lemma within_run: "within s \<Longrightarrow> within (fold quota_step ops s) \<and> limit (fold quota_step ops s) = limit s"
  by (induction ops arbitrary: s) (simp, metis fold_simps(2) within_step)

lemma never_over: "within s \<Longrightarrow> used (fold quota_step ops s) k \<le> limit s"
  using within_run [of s ops] by (metis within_def)

lemma room_again:
  assumes "within s" and "used (leave l s) (key e) < used s (key e)"
  shows "enter e (leave l s) \<noteq> None"
  using assms enter_full [of "leave l s" e] leave_used [of s l]
  by (metis le_less_trans not_le within_def)

end

end
