(* ===== verification/Interactive.thy ===== *)
theory Interactive
  imports Manager Quota
begin

text \<open>
  Interactive viewing sessions, \<open>internal/ws/interactive_sessions.go\<close>.

  The three session states are a datatype ordered by the lifecycle.  A consumer connection is an
  identity; what is written to it is returned as a list of notifications.  The random part of a
  session identifier and \<open>time.Now()\<close> are arguments.
\<close>

datatype session_state = SPending | SActive | SClosed

instantiation session_state :: linorder
begin

definition state_rank :: "session_state \<Rightarrow> nat" where
  "state_rank s = (case s of SPending \<Rightarrow> 0 | SActive \<Rightarrow> 1 | SClosed \<Rightarrow> 2)"

definition less_eq_session_state :: "session_state \<Rightarrow> session_state \<Rightarrow> bool" where
  "less_eq_session_state s t \<longleftrightarrow> state_rank s \<le> state_rank t"

definition less_session_state :: "session_state \<Rightarrow> session_state \<Rightarrow> bool" where
  "less_session_state s t \<longleftrightarrow> state_rank s < state_rank t"

instance
proof
  fix x y :: session_state
  show "x \<le> y \<Longrightarrow> y \<le> x \<Longrightarrow> x = y"
    by (cases x; cases y) (simp_all add: less_eq_session_state_def state_rank_def)
qed (auto simp: less_eq_session_state_def less_session_state_def)

end

record InteractiveSessionMetadata =
  im_UUID :: string
  im_Quality :: json
  im_Scale :: json

record InteractiveSession =
  is_SessionID :: string
  is_ClientID :: string
  is_APIKey :: string
  is_ConsumerConn :: nat
  is_ConsumerID :: string
  is_State :: session_state
  is_CreatedAt :: gotime
  is_LastActivity :: gotime
  is_Metadata :: InteractiveSessionMetadata

record session_manager =
  sm_sessions :: "(string, InteractiveSession) gomap"
  sm_maxPerKey :: int

definition interactivePendingTimeout :: int where
  "interactivePendingTimeout = seconds 30"

definition interactiveInactiveTimeout :: int where
  "interactiveInactiveTimeout = minutes 5"

definition NewInteractiveSessionManager :: "int \<Rightarrow> session_manager" where
  "NewInteractiveSessionManager maxPerKey =
     (let n = (if maxPerKey \<le> 0 then 3 else maxPerKey)
      in \<lparr>sm_sessions = [], sm_maxPerKey = n\<rparr>)"

definition open_for :: "string \<Rightarrow> (string, InteractiveSession) gomap \<Rightarrow> nat" where
  "open_for apiKey ss = length (filter (\<lambda>kv. is_APIKey (snd kv) = apiKey \<and> is_State (snd kv) \<noteq> SClosed) ss)"

definition session_id :: "gotime \<Rightarrow> string \<Rightarrow> string" where
  "session_id now rnd = ''is_'' @ int_text (unix_milli now) @ ''_'' @ rnd"

definition CreateSession ::
    "gotime \<Rightarrow> string \<Rightarrow> string \<Rightarrow> string \<Rightarrow> string \<Rightarrow> nat \<Rightarrow> InteractiveSessionMetadata \<Rightarrow>
     session_manager \<Rightarrow> string + (string \<times> session_manager)" where
  "CreateSession now rnd clientID apiKey consumerID consumerConn metadata m =
     (if int (open_for apiKey (sm_sessions m)) \<ge> sm_maxPerKey m
      then Inl (''maximum interactive sessions ('' @ int_text (sm_maxPerKey m) @ '') reached for this API key'')
      else
        (let sessionID = session_id now rnd;
             s = \<lparr>is_SessionID = sessionID, is_ClientID = clientID, is_APIKey = apiKey,
                  is_ConsumerConn = consumerConn, is_ConsumerID = consumerID, is_State = SPending,
                  is_CreatedAt = now, is_LastActivity = now, is_Metadata = metadata\<rparr>
         in Inr (sessionID, m\<lparr>sm_sessions := aput sessionID s (sm_sessions m)\<rparr>)))"

definition GetSession :: "string \<Rightarrow> session_manager \<Rightarrow> InteractiveSession option" where
  "GetSession sessionID m = aget (sm_sessions m) sessionID"

definition ListSessions :: "session_manager \<Rightarrow> InteractiveSession list" where
  "ListSessions m = map snd (sm_sessions m)"

definition ActivateSession :: "gotime \<Rightarrow> string \<Rightarrow> session_manager \<Rightarrow> session_manager" where
  "ActivateSession now sessionID m =
     (case aget (sm_sessions m) sessionID of
        None \<Rightarrow> m
      | Some s \<Rightarrow>
          if is_State s = SPending
          then m\<lparr>sm_sessions := aput sessionID (s\<lparr>is_State := SActive, is_LastActivity := now\<rparr>) (sm_sessions m)\<rparr>
          else m)"

definition UpdateActivity :: "gotime \<Rightarrow> string \<Rightarrow> session_manager \<Rightarrow> session_manager" where
  "UpdateActivity now sessionID m =
     (case aget (sm_sessions m) sessionID of
        None \<Rightarrow> m
      | Some s \<Rightarrow> m\<lparr>sm_sessions := aput sessionID (s\<lparr>is_LastActivity := now\<rparr>) (sm_sessions m)\<rparr>)"

definition EndSession :: "string \<Rightarrow> session_manager \<Rightarrow> bool \<times> session_manager" where
  "EndSession sessionID m =
     (case aget (sm_sessions m) sessionID of
        None \<Rightarrow> (False, m)
      | Some s \<Rightarrow> (True, m\<lparr>sm_sessions := adel sessionID (sm_sessions m)\<rparr>))"

definition ended_msg :: "string \<Rightarrow> string \<Rightarrow> json" where
  "ended_msg sessionID reason =
     JObj [(''type'', JStr ''interactive-session-ended''), (''sessionId'', JStr sessionID),
           (''reason'', JStr reason)]"

text \<open>
  The loops of the terminations and of the cleanup: range over the map, close and delete what
  matches, collect it.
\<close>

fun close_loop ::
    "(InteractiveSession \<Rightarrow> bool) \<Rightarrow> (string \<times> InteractiveSession) list \<Rightarrow>
     (string, InteractiveSession) gomap \<Rightarrow> (string \<times> InteractiveSession) list \<Rightarrow>
     (string, InteractiveSession) gomap \<times> (string \<times> InteractiveSession) list" where
  "close_loop P [] ss closed = (ss, closed)"
| "close_loop P ((sid, s) # rest) ss closed =
     (if P s then close_loop P rest (adel sid ss) (closed @ [(sid, s\<lparr>is_State := SClosed\<rparr>)])
      else close_loop P rest ss closed)"

definition TerminateSessionsForClient ::
    "string \<Rightarrow> session_manager \<Rightarrow> (nat \<times> json) list \<times> session_manager" where
  "TerminateSessionsForClient clientID m =
     (let (ss, toNotify) =
        close_loop (\<lambda>s. is_ClientID s = clientID \<and> is_State s \<noteq> SClosed) (sm_sessions m) (sm_sessions m) []
      in (map (\<lambda>(sid, s). (is_ConsumerConn s, ended_msg (is_SessionID s) ''foundry-disconnected'')) toNotify,
          m\<lparr>sm_sessions := ss\<rparr>))"

definition TerminateSessionsForConsumer :: "string \<Rightarrow> session_manager \<Rightarrow> string list \<times> session_manager" where
  "TerminateSessionsForConsumer consumerID m =
     (let (ss, closed) =
        close_loop (\<lambda>s. is_ConsumerID s = consumerID \<and> is_State s \<noteq> SClosed) (sm_sessions m) (sm_sessions m) []
      in (map fst closed, m\<lparr>sm_sessions := ss\<rparr>))"

fun cleanup_loop ::
    "gotime \<Rightarrow> (string \<times> InteractiveSession) list \<Rightarrow>
     (string, InteractiveSession) gomap \<Rightarrow> InteractiveSession list \<Rightarrow>
     (string, InteractiveSession) gomap \<times> InteractiveSession list" where
  "cleanup_loop now [] ss timedOut = (ss, timedOut)"
| "cleanup_loop now ((sid, s) # rest) ss timedOut =
     (if is_State s = SClosed then cleanup_loop now rest (adel sid ss) timedOut
      else if is_State s = SPending \<and> now - is_CreatedAt s > interactivePendingTimeout
      then cleanup_loop now rest (adel sid ss) (timedOut @ [s\<lparr>is_State := SClosed\<rparr>])
      else if is_State s = SActive \<and> now - is_LastActivity s > interactiveInactiveTimeout
      then cleanup_loop now rest (adel sid ss) (timedOut @ [s\<lparr>is_State := SClosed\<rparr>])
      else cleanup_loop now rest ss timedOut)"

definition cleanup_notice :: "InteractiveSession \<Rightarrow> nat \<times> json" where
  "cleanup_notice s =
     (let reason = (if is_State s = SPending then ''pending-timeout'' else ''inactivity-timeout'')
      in (is_ConsumerConn s, ended_msg (is_SessionID s) reason))"

definition cleanup :: "gotime \<Rightarrow> session_manager \<Rightarrow> (nat \<times> json) list \<times> session_manager" where
  "cleanup now m =
     (let (ss, timedOut) = cleanup_loop now (sm_sessions m) (sm_sessions m) []
      in (map cleanup_notice timedOut, m\<lparr>sm_sessions := ss\<rparr>))"

subsection \<open>The loops delete exactly what they match\<close>

definition timed_out :: "gotime \<Rightarrow> InteractiveSession \<Rightarrow> bool" where
  "timed_out now s \<longleftrightarrow>
     (is_State s = SPending \<and> now - is_CreatedAt s > interactivePendingTimeout) \<or>
     (is_State s = SActive \<and> now - is_LastActivity s > interactiveInactiveTimeout)"

lemma close_loop_eq:
  "close_loop P rest ss closed =
     (fold adel (map fst (filter (P \<circ> snd) rest)) ss,
      closed @ map (\<lambda>(sid, s). (sid, s\<lparr>is_State := SClosed\<rparr>)) (filter (P \<circ> snd) rest))"
  by (induction P rest ss closed rule: close_loop.induct) auto

lemma cleanup_loop_eq:
  "cleanup_loop now rest ss timedOut =
     (fold adel (map fst (filter (\<lambda>kv. is_State (snd kv) = SClosed \<or> timed_out now (snd kv)) rest)) ss,
      timedOut @ map (\<lambda>kv. (snd kv)\<lparr>is_State := SClosed\<rparr>) (filter (\<lambda>kv. timed_out now (snd kv)) rest))"
  by (induction now rest ss timedOut rule: cleanup_loop.induct) (auto simp: timed_out_def)

lemma filter_matched:
  assumes "wf_map m"
  shows "filter (\<lambda>kv. fst kv \<notin> set (map fst (filter Q m))) m = filter (\<lambda>kv. \<not> Q kv) m"
proof (rule filter_cong)
  fix kv assume kv: "kv \<in> set m"
  have "kv' = kv" if "kv' \<in> set m" "fst kv' = fst kv" for kv'
    using assms that kv by (auto simp: wf_map_def distinct_map inj_on_def)
  then show "(fst kv \<notin> set (map fst (filter Q m))) = (\<not> Q kv)"
    using kv by auto
qed simp

lemma close_loop_wf:
  assumes "wf_map ss"
  shows "close_loop P ss ss [] =
    (filter (\<lambda>kv. \<not> P (snd kv)) ss, map (\<lambda>(sid, s). (sid, s\<lparr>is_State := SClosed\<rparr>)) (filter (P \<circ> snd) ss))"
  using filter_matched [OF assms, of "P \<circ> snd"] by (simp add: close_loop_eq fold_adel del: set_map)

lemma cleanup_wf:
  assumes "wf_map (sm_sessions m)"
  shows "cleanup now m =
    (map (\<lambda>kv. (is_ConsumerConn (snd kv), ended_msg (is_SessionID (snd kv)) ''inactivity-timeout''))
       (filter (\<lambda>kv. timed_out now (snd kv)) (sm_sessions m)),
     m\<lparr>sm_sessions := filter (\<lambda>kv. \<not> (is_State (snd kv) = SClosed \<or> timed_out now (snd kv))) (sm_sessions m)\<rparr>)"
  using filter_matched [OF assms, of "\<lambda>kv. is_State (snd kv) = SClosed \<or> timed_out now (snd kv)"]
  by (simp add: cleanup_def cleanup_loop_eq fold_adel cleanup_notice_def del: set_map)

subsection \<open>The per-key limit\<close>

datatype session_leave =
    LActivate gotime string
  | LUpdate gotime string
  | LEnd string
  | LClient string
  | LConsumer string
  | LCleanup gotime

definition session_leave_step :: "session_leave \<Rightarrow> session_manager \<Rightarrow> session_manager" where
  "session_leave_step l m =
     (case l of
        LActivate now sid \<Rightarrow> ActivateSession now sid m
      | LUpdate now sid \<Rightarrow> UpdateActivity now sid m
      | LEnd sid \<Rightarrow> snd (EndSession sid m)
      | LClient cid \<Rightarrow> snd (TerminateSessionsForClient cid m)
      | LConsumer cid \<Rightarrow> snd (TerminateSessionsForConsumer cid m)
      | LCleanup now \<Rightarrow> snd (cleanup now m))"

record session_request =
  sr_now :: gotime
  sr_rnd :: string
  sr_clientID :: string
  sr_apiKey :: string
  sr_consumerID :: string
  sr_conn :: nat
  sr_metadata :: InteractiveSessionMetadata

definition session_enter :: "session_request \<Rightarrow> session_manager \<Rightarrow> session_manager option" where
  "session_enter r m =
     (case CreateSession (sr_now r) (sr_rnd r) (sr_clientID r) (sr_apiKey r) (sr_consumerID r) (sr_conn r)
             (sr_metadata r) m of
        Inl e \<Rightarrow> None | Inr (sid, m') \<Rightarrow> Some m')"

definition session_step ::
    "(session_request, session_leave) quota_op \<Rightarrow> session_manager \<Rightarrow> session_manager" where
  "session_step op m =
     (case op of
        Enter r \<Rightarrow> (case session_enter r m of None \<Rightarrow> m | Some m' \<Rightarrow> m')
      | Leave l \<Rightarrow> session_leave_step l m)"

definition sessions_ok :: "session_manager \<Rightarrow> bool" where
  "sessions_ok m \<longleftrightarrow> wf_map (sm_sessions m) \<and> sm_maxPerKey m > 0"

lemma open_for_simps [simp]:
  "open_for k [] = 0"
  "open_for k (kv # ss) = (if is_APIKey (snd kv) = k \<and> is_State (snd kv) \<noteq> SClosed then 1 else 0) + open_for k ss"
  by (simp_all add: open_for_def)

lemma open_for_aput:
  "open_for k (aput sid s ss) \<le> open_for k ss + (if is_APIKey s = k \<and> is_State s \<noteq> SClosed then 1 else 0)"
  by (induction ss) auto

lemma open_for_aput_same:
  "\<lbrakk>aget ss sid = Some s; is_APIKey s' = is_APIKey s; is_State s = SClosed \<longrightarrow> is_State s' = SClosed\<rbrakk> \<Longrightarrow>
   open_for k (aput sid s' ss) \<le> open_for k ss"
  by (induction ss) (auto split: if_splits)

lemma open_for_filter: "open_for k (filter P ss) \<le> open_for k ss"
  by (induction ss) auto

lemma open_for_adel: "open_for k (adel sid ss) \<le> open_for k ss"
  by (simp add: adel_filter open_for_filter)

lemma leave_shrinks:
  assumes ok: "sessions_ok m"
  shows "open_for k (sm_sessions (session_leave_step l m)) \<le> open_for k (sm_sessions m) \<and>
    sm_maxPerKey (session_leave_step l m) = sm_maxPerKey m \<and> sessions_ok (session_leave_step l m)"
proof -
  have wf: "wf_map (sm_sessions m)" using ok by (simp add: sessions_ok_def)
  show ?thesis
  proof (cases l)
    case (LActivate now sid)
    then show ?thesis using ok
      by (auto simp: session_leave_step_def ActivateSession_def sessions_ok_def
          intro: open_for_aput_same split: option.splits)
  next
    case (LUpdate now sid)
    then show ?thesis using ok
      by (auto simp: session_leave_step_def UpdateActivity_def sessions_ok_def
          intro: open_for_aput_same split: option.splits)
  next
    case (LEnd sid)
    then show ?thesis using ok
      by (auto simp: session_leave_step_def EndSession_def sessions_ok_def open_for_adel split: option.splits)
  next
    case (LClient cid)
    then show ?thesis using ok
      by (simp add: session_leave_step_def TerminateSessionsForClient_def close_loop_wf [OF wf] sessions_ok_def open_for_filter)
  next
    case (LConsumer cid)
    then show ?thesis using ok
      by (simp add: session_leave_step_def TerminateSessionsForConsumer_def close_loop_wf [OF wf] sessions_ok_def open_for_filter)
  next
    case (LCleanup now)
    then show ?thesis using ok
      by (simp add: session_leave_step_def cleanup_wf [OF wf] sessions_ok_def open_for_filter)
  qed
qed

lemma enter_counts:
  assumes "sessions_ok m" and "session_enter r m = Some m'"
  shows "open_for k (sm_sessions m') \<le> open_for k (sm_sessions m) + (if k = sr_apiKey r then 1 else 0) \<and>
    sm_maxPerKey m' = sm_maxPerKey m \<and> sessions_ok m'"
  using assms order_trans [OF open_for_aput]
  by (auto simp: session_enter_def CreateSession_def sessions_ok_def Let_def split: if_splits)

interpretation session_quota: quota
  "\<lambda>m k. open_for k (sm_sessions m)" "\<lambda>m. nat (sm_maxPerKey m)" sr_apiKey session_enter
  session_leave_step sessions_ok
proof unfold_locales
  fix m :: session_manager and r
  show "sessions_ok m \<Longrightarrow> (session_enter r m = None) =
      (nat (sm_maxPerKey m) \<le> open_for (sr_apiKey r) (sm_sessions m))"
    by (auto simp: session_enter_def CreateSession_def Let_def split: if_splits)
qed (use enter_counts leave_shrinks in auto)

lemma session_step_quota: "session_step = session_quota.quota_step"
  by (intro ext) (simp add: session_step_def session_quota.quota_step_def)

text \<open>C37: Whatever sequence of creations, activations, endings, disconnects and cleanups happens, an API key
  never has more open interactive sessions than the limit, which is three when none is set.\<close>

theorem session_limit_holds:
  "open_for key (sm_sessions (fold session_step ops (NewInteractiveSessionManager n))) \<le>
     nat (if n \<le> 0 then 3 else n)"
proof -
  let ?m = "NewInteractiveSessionManager n"
  have "session_quota.within ?m"
    by (auto simp: session_quota.within_def sessions_ok_def NewInteractiveSessionManager_def Let_def)
  from session_quota.never_over [where ops = ops and k = key, OF this] show ?thesis
    by (simp add: session_step_quota NewInteractiveSessionManager_def Let_def)
qed

subsection \<open>Lifecycle and notifications\<close>

lemma aget_close: "aget (fst (close_loop P ss ss [])) sid = Some s' \<Longrightarrow> aget ss sid = Some s'"
  by (auto simp: close_loop_eq gomap.get_fold_del split: if_splits)

lemma aget_cleanup: "aget (fst (cleanup_loop now ss ss [])) sid = Some s' \<Longrightarrow> aget ss sid = Some s'"
  by (auto simp: cleanup_loop_eq gomap.get_fold_del split: if_splits)

text \<open>C38: A session only ever moves forward in its lifecycle: after any operation other than a creation, a
  session that is still in the table was there before, belongs to the same key and client, and its
  state is the same or a later one.\<close>

theorem session_lifecycle_forward:
  "case aget (sm_sessions (session_leave_step l m)) sid of
     None \<Rightarrow> True
   | Some s' \<Rightarrow>
       (case aget (sm_sessions m) sid of
          None \<Rightarrow> False
        | Some s \<Rightarrow> is_State s \<le> is_State s' \<and> is_APIKey s' = is_APIKey s \<and> is_ClientID s' = is_ClientID s)"
proof (cases l)
  case (LActivate now sid')
  then show ?thesis
    by (auto simp: session_leave_step_def ActivateSession_def less_eq_session_state_def state_rank_def
        split: option.splits)
next
  case (LUpdate now sid')
  then show ?thesis
    by (auto simp: session_leave_step_def UpdateActivity_def split: option.splits)
next
  case (LEnd sid')
  then show ?thesis
    by (auto simp: session_leave_step_def EndSession_def split: option.splits)
next
  case (LClient cid)
  then show ?thesis
    using aget_close [of "\<lambda>s. is_ClientID s = cid \<and> is_State s \<noteq> SClosed" "sm_sessions m" sid]
    by (auto simp: session_leave_step_def TerminateSessionsForClient_def case_prod_unfold Let_def
        split: option.splits)
next
  case (LConsumer cid)
  then show ?thesis
    using aget_close [of "\<lambda>s. is_ConsumerID s = cid \<and> is_State s \<noteq> SClosed" "sm_sessions m" sid]
    by (auto simp: session_leave_step_def TerminateSessionsForConsumer_def case_prod_unfold Let_def
        split: option.splits)
next
  case (LCleanup now)
  then show ?thesis
    using aget_cleanup [of now "sm_sessions m" sid]
    by (auto simp: session_leave_step_def cleanup_def case_prod_unfold Let_def split: option.splits)
qed

text \<open>When a module disconnects, its open sessions are gone, exactly their consumers are told that it
  disconnected, and no other session is touched.\<close>

theorem client_teardown_exact:
  assumes "sessions_ok m"
  shows "TerminateSessionsForClient cid m =
    (map (\<lambda>kv. (is_ConsumerConn (snd kv), ended_msg (is_SessionID (snd kv)) ''foundry-disconnected''))
       (filter (\<lambda>kv. is_ClientID (snd kv) = cid \<and> is_State (snd kv) \<noteq> SClosed) (sm_sessions m)),
     m\<lparr>sm_sessions := filter (\<lambda>kv. \<not> (is_ClientID (snd kv) = cid \<and> is_State (snd kv) \<noteq> SClosed)) (sm_sessions m)\<rparr>)"
  using assms
  by (simp add: TerminateSessionsForClient_def close_loop_wf sessions_ok_def comp_def case_prod_unfold)

text \<open>The cleanup gives a session that was never accepted the same reason as an idle one: every notice
  it sends says inactivity, since the state is overwritten before the reason is chosen.\<close>

theorem cleanup_reason_always_inactivity:
  "list_all (\<lambda>n. \<exists>sid. snd n = ended_msg sid ''inactivity-timeout'') (fst (cleanup now m))"
  by (auto simp: cleanup_def cleanup_loop_eq cleanup_notice_def list_all_iff)

definition ex_session :: InteractiveSession where
  "ex_session = \<lparr>is_SessionID = ''is_1'', is_ClientID = ''fvtt_1'', is_APIKey = ''key'', is_ConsumerConn = 4,
     is_ConsumerID = ''c'', is_State = SPending, is_CreatedAt = 0, is_LastActivity = 0,
     is_Metadata = \<lparr>im_UUID = [], im_Quality = JNum 1, im_Scale = JNum 1\<rparr>\<rparr>"

lemma client_teardown_exact_witness:
  "sm_sessions (snd (TerminateSessionsForClient ''fvtt_1''
     \<lparr>sm_sessions = [(''is_1'', ex_session)], sm_maxPerKey = 3\<rparr>)) = []"
  by (subst client_teardown_exact) (simp_all add: sessions_ok_def wf_map_def ex_session_def)

end
