(* ===== verification/ServerEvents.thy ===== *)
theory ServerEvents
  imports Notify Logs RemoteRequest Interactive
begin

text \<open>
  What the server does when a module connects, disconnects, is refused as a duplicate or reports something:
  the callbacks that \<open>internal/server/server.go\<close> gives to the manager, and the message types
  \<open>module-notify\<close>, \<open>player-list\<close> and \<open>get-known-clients\<close> with \<open>internal/ws/module_notify.go\<close> and
  \<open>internal/ws/known_clients.go\<close>.  A callback starts a goroutine of its own, here run in one step.  The error of
  a lookup that the code ignores leaves the pointer to a row of zeros, which is not \<open>nil\<close>.
\<close>

record srv_env =
  ve_cfg :: "NotificationConfig option"
  ve_frontendURL :: string
  ve_alertsDB :: bool
  ve_hasHeadless :: bool

record srv_state =
  sv_db :: db
  sv_alerts :: alert_state
  sv_debounce :: debounce
  sv_batcher :: batcher
  sv_sessions :: session_manager
  sv_consumers :: "(nat \<times> json) list"  \<comment> \<open>messages to the consumers of sessions\<close>
  sv_headless :: "string list"  \<comment> \<open>calls of \<open>HeadlessManager.OnClientDisconnected\<close>\<close>
  sv_sent :: "notice list"

definition sv_dispatch :: "srv_env \<Rightarrow> gotime \<Rightarrow> notification \<Rightarrow> srv_state \<Rightarrow> srv_state" where
  "sv_dispatch env now nc s =
     (case Dispatch (ve_cfg env) (ve_frontendURL env) (sv_db s) now nc (sv_debounce s) of
        (notices, deb) \<Rightarrow> s\<lparr>sv_sent := sv_sent s @ notices, sv_debounce := deb\<rparr>)"

definition warning :: "string \<Rightarrow> string \<Rightarrow> obj \<Rightarrow> alert_event" where
  "warning typ msg details =
     \<lparr>ae_Type = typ, ae_Severity = ''warning'', ae_Message = msg, ae_Details = details, ae_Timestamp = zero_time\<rparr>"

definition sv_track :: "srv_env \<Rightarrow> gotime \<Rightarrow> string \<Rightarrow> int \<Rightarrow> int \<Rightarrow> int \<Rightarrow> alert_event \<Rightarrow> srv_state \<Rightarrow> srv_state" where
  "sv_track env now key threshold window cooldown event s =
     s\<lparr>sv_alerts := track_and_fire now (ve_alertsDB env) key threshold window cooldown event (sv_alerts s)\<rparr>"

subsection \<open>Lookups whose error is ignored\<close>

definition account_of :: "string \<Rightarrow> db \<Rightarrow> int option" where
  "account_of apiKey d =
     (case us_FindByAPIKeyHash apiKey d of
        DBErr \<Rightarrow> Some 0
      | DBOk None \<Rightarrow> None
      | DBOk (Some user) \<Rightarrow> Some (us_ID user))"

definition zero_known :: KnownClient where
  "zero_known =
     \<lparr>kc_ID = 0, kc_UserID = 0, kc_ClientID = [], kc_WorldID = None, kc_WorldTitle = None, kc_SystemID = None,
      kc_SystemTitle = None, kc_SystemVersion = None, kc_FoundryVersion = None, kc_CustomName = None, kc_LastSeenAt = None,
      kc_IsOnline = False, kc_AutoStartOnRemoteRequest = False, kc_CredentialID = None, kc_ServerFingerprint = None,
      kc_PublicUrl = None, kc_AllowedTargetClients = None, kc_RemoteScopes = None, kc_RemoteRequestsPerHour = 0,
      kc_CreatedAt = zero_time, kc_UpdatedAt = zero_time\<rparr>"

definition known_world :: "int \<Rightarrow> string \<Rightarrow> db \<Rightarrow> KnownClient option" where
  "known_world uid cid d = (case kc_FindByClientID uid cid d of DBErr \<Rightarrow> Some zero_known | DBOk r \<Rightarrow> r)"

subsection \<open>A module disconnects\<close>

definition OnClientRemoved :: "srv_env \<Rightarrow> gotime \<Rightarrow> string \<Rightarrow> string \<Rightarrow> srv_state \<Rightarrow> srv_state" where
  "OnClientRemoved env now clientID apiKey s =
     (let s1 = s\<lparr>sv_consumers := sv_consumers s @ fst (TerminateSessionsForClient clientID (sv_sessions s)),
                 sv_sessions := snd (TerminateSessionsForClient clientID (sv_sessions s)),
                 sv_headless := sv_headless s @ (if ve_hasHeadless env then [clientID] else [])\<rparr>;
          s2 = sv_track env now ''client_disconnect'' 5 (minutes 2) (minutes 15)
                 (warning ''client_disconnect_spike'' ''5+ Foundry clients disconnected within 2 minutes'' [(''clientId'', JStr clientID)]) s1
      in case account_of apiKey (sv_db s2) of
           None \<Rightarrow> s2
         | Some uid \<Rightarrow>
             (let known = known_world uid clientID (sv_db s2);
                  s3 = s2\<lparr>sv_db := snd (kc_SetOffline now uid clientID (sv_db s2))\<rparr>;
                  nc = blank_notification\<lparr>nc_Event := ''disconnect'', nc_UserID := uid, nc_ClientID := clientID\<rparr>;
                  nc1 = (case known of None \<Rightarrow> nc
                         | Some k \<Rightarrow> nc\<lparr>nc_WorldID := null_str (kc_WorldID k), nc_WorldTitle := null_str (kc_WorldTitle k),
                                        nc_SystemID := null_str (kc_SystemID k)\<rparr>)
              in sv_dispatch env now nc1 s3))"

subsection \<open>A duplicate is refused\<close>

definition bare_host :: "string \<Rightarrow> string" where
  "bare_host addr = (case SplitHostPort addr of None \<Rightarrow> addr | Some (h, p) \<Rightarrow> h)"

definition duplicate_reason :: string where
  "duplicate_reason = ''Another client tried to connect with this clientId from a different IP while the legitimate client was already connected. The attempt was rejected.''"

definition OnDuplicateConnectionRejected :: "srv_env \<Rightarrow> gotime \<Rightarrow> string \<Rightarrow> string \<Rightarrow> string \<Rightarrow> string \<Rightarrow> srv_state \<Rightarrow> srv_state" where
  "OnDuplicateConnectionRejected env now clientID apiKey newIP existingIP s =
     (let sameHost = (bare_host newIP = bare_host existingIP \<and> bare_host newIP \<noteq> [])
      in case account_of apiKey (sv_db s) of
           None \<Rightarrow> s
         | Some uid \<Rightarrow>
             if sameHost then s
             else sv_dispatch env now
                    (blank_notification\<lparr>nc_Event := ''duplicate-connection-rejected'', nc_UserID := uid, nc_ClientID := clientID,
                       nc_IPAddress := newIP, nc_Severity := ''alert'', nc_Reason := duplicate_reason\<rparr>)
                    (sv_track env now (''dup_conn:'' @ int_text uid) 3 (minutes 10) (minutes 30)
                       (warning ''duplicate_connection_spike'' ''3+ duplicate WebSocket connection rejections for the same user in 10 minutes''
                          [(''userId'', JNum uid), (''clientId'', JStr clientID), (''newIp'', JStr newIP), (''existingIp'', JStr existingIP)]) s))"

subsection \<open>A module connects\<close>

definition opt_text :: "string \<Rightarrow> string option" where
  "opt_text s = (if s \<noteq> [] then Some s else None)"

definition mismatch :: "string \<Rightarrow> string option \<Rightarrow> string \<Rightarrow> string list" where
  "mismatch field old new =
     (case old of
        Some v \<Rightarrow> if new \<noteq> [] \<and> v \<noteq> new then [field @ '' changed from '' @ go_quote v @ '' to '' @ go_quote new] else []
      | None \<Rightarrow> [])"

definition mismatches :: "KnownClient option \<Rightarrow> ClientInfo \<Rightarrow> string list" where
  "mismatches existing md =
     (case existing of None \<Rightarrow> []
      | Some e \<Rightarrow> mismatch ''worldId'' (kc_WorldID e) (ci_WorldID md) @ mismatch ''systemId'' (kc_SystemID e) (ci_SystemID md) @
                  mismatch ''foundryVersion'' (kc_FoundryVersion e) (ci_FoundryVersion md))"

definition flag_reason :: "KnownClient option \<Rightarrow> ClientInfo \<Rightarrow> string" where
  "flag_reason existing md =
     (let ms = mismatches existing md in if length ms > 0 then ''metadata mismatch: '' @ go_join ''; '' ms else [])"

definition connected_row :: "int \<Rightarrow> string \<Rightarrow> ClientInfo \<Rightarrow> KnownClient" where
  "connected_row uid cid md =
     zero_known\<lparr>kc_UserID := uid, kc_ClientID := cid, kc_WorldID := opt_text (ci_WorldID md), kc_WorldTitle := opt_text (ci_WorldTitle md),
       kc_SystemID := opt_text (ci_SystemID md), kc_SystemTitle := opt_text (ci_SystemTitle md),
       kc_SystemVersion := opt_text (ci_SystemVersion md), kc_FoundryVersion := opt_text (ci_FoundryVersion md),
       kc_CustomName := opt_text (ci_CustomName md), kc_PublicUrl := opt_text (ci_PublicUrl md), kc_IsOnline := True\<rparr>"

definition connection_row :: "int \<Rightarrow> string \<Rightarrow> ClientInfo \<Rightarrow> string \<Rightarrow> ConnectionLog" where
  "connection_row uid cid md reason =
     \<lparr>cg_ID = 0, cg_UserID = uid, cg_ClientID = cid, cg_TokenName = opt_text (ci_TokenName md), cg_IPAddress = opt_text (ci_IPAddress md),
      cg_UserAgent = None, cg_WorldID = opt_text (ci_WorldID md), cg_WorldTitle = opt_text (ci_WorldTitle md),
      cg_SystemID = opt_text (ci_SystemID md), cg_FoundryVersion = opt_text (ci_FoundryVersion md),
      cg_MetadataMatch = (reason = []), cg_Flagged = (reason \<noteq> []), cg_FlagReason = opt_text reason, cg_CreatedAt = zero_time\<rparr>"

definition connect_notice :: "string \<Rightarrow> int \<Rightarrow> string \<Rightarrow> ClientInfo \<Rightarrow> notification" where
  "connect_notice event uid cid md =
     blank_notification\<lparr>nc_Event := event, nc_UserID := uid, nc_ClientID := cid, nc_WorldID := ci_WorldID md,
       nc_WorldTitle := ci_WorldTitle md, nc_SystemID := ci_SystemID md, nc_IPAddress := ci_IPAddress md\<rparr>"

text \<open>A world seen under another account.\<close>

definition world_cross :: "srv_env \<Rightarrow> gotime \<Rightarrow> int \<Rightarrow> ClientInfo \<Rightarrow> srv_state \<Rightarrow> srv_state" where
  "world_cross env now uid md s =
     (if ci_WorldID md = [] then s
      else (case kc_FindByWorldIDCrossUser (ci_WorldID md) uid (sv_db s) of
              DBOk (Some k) \<Rightarrow>
                sv_track env now (''world_cross:'' @ ci_WorldID md) 1 (minutes (24 * 60)) (minutes (24 * 60))
                  (warning ''world_id_cross_account'' ''Foundry world connected under a different user account than previously seen''
                     [(''worldId'', JStr (ci_WorldID md)), (''currentUserId'', JNum uid), (''previousUserId'', JNum (kc_UserID k))]) s
            | _ \<Rightarrow> s))"

definition flagged_alerts :: "srv_env \<Rightarrow> gotime \<Rightarrow> int \<Rightarrow> string \<Rightarrow> string \<Rightarrow> srv_state \<Rightarrow> srv_state" where
  "flagged_alerts env now uid cid reason s =
     (if reason = [] then s
      else sv_track env now (''meta:'' @ cid) 3 (minutes 10) (minutes 60)
             (warning ''metadata_mismatch_spike'' ''3+ metadata mismatches from the same client in 10 minutes''
                [(''userId'', JNum uid), (''clientId'', JStr cid)])
             (s\<lparr>sv_alerts := Fire now (ve_alertsDB env)
                  (warning ''flagged_connection'' ''Connection flagged due to metadata mismatch''
                     [(''userId'', JNum uid), (''clientId'', JStr cid), (''reason'', JStr reason)]) (sv_alerts s)\<rparr>))"

definition apply_window :: "int \<Rightarrow> srv_state \<Rightarrow> srv_state" where
  "apply_window uid s =
     (case ns_FindByUser uid (sv_db s) of
        DBOk (Some n) \<Rightarrow>
          if ns_BatchWindowSecs n > 0
          then s\<lparr>sv_batcher := SetUserWindow uid (seconds (ns_BatchWindowSecs n)) (sv_batcher s)\<rparr> else s
      | _ \<Rightarrow> s)"

definition OnClientConnected :: "srv_env \<Rightarrow> gotime \<Rightarrow> string \<Rightarrow> string \<Rightarrow> ClientInfo \<Rightarrow> srv_state \<Rightarrow> srv_state" where
  "OnClientConnected env now clientID apiKey md s =
     (case account_of apiKey (sv_db s) of
        None \<Rightarrow> s
      | Some uid \<Rightarrow>
          (let existing = known_world uid clientID (sv_db s);
               reason = flag_reason existing md;
               s1 = s\<lparr>sv_db := snd (kc_Upsert now (connected_row uid clientID md) (sv_db s))\<rparr>;
               s2 = world_cross env now uid md s1;
               s3 = s2\<lparr>sv_db := snd (cg_Create now (connection_row uid clientID md reason) (sv_db s2))\<rparr>;
               s4 = apply_window uid (flagged_alerts env now uid clientID reason s3);
               s5 = (if existing = None then sv_dispatch env now (connect_notice ''new-client-connect'' uid clientID md) s4 else s4);
               s6 = sv_dispatch env now (connect_notice ''connect'' uid clientID md) s5
           in if reason = [] then s6
              else sv_dispatch env now ((connect_notice ''metadata-mismatch'' uid clientID md)
                     \<lparr>nc_Reason := reason, nc_Severity := ''alert''\<rparr>) s6))"

subsection \<open>Reports of a module\<close>

record module_notice =
  mn_ClientID :: string
  mn_APIKey :: string
  mn_EventName :: string
  mn_Details :: string
  mn_Actor :: string
  mn_World :: string

definition module_notify :: "Client \<Rightarrow> obj \<Rightarrow> module_notice option" where
  "module_notify c data =
     (let eventName = get_str data ''event''
      in if eventName = [] then None
         else Some \<lparr>mn_ClientID = cl_id c, mn_APIKey = cl_apiKey c, mn_EventName = eventName, mn_Details = get_str data ''details'',
                mn_Actor = get_str data ''actor'', mn_World = get_str data ''world''\<rparr>)"

definition notice_text :: "module_notice \<Rightarrow> string" where
  "notice_text e =
     (if mn_Actor e \<noteq> [] \<and> mn_Details e \<noteq> [] then ''**Triggered by:** '' @ mn_Actor e @ newline @ mn_Details e
      else if mn_Actor e \<noteq> [] then ''**Triggered by:** '' @ mn_Actor e
      else mn_Details e)"

definition handle_module_notice :: "srv_env \<Rightarrow> gotime \<Rightarrow> module_notice \<Rightarrow> srv_state \<Rightarrow> srv_state" where
  "handle_module_notice env now e s =
     (case account_of (mn_APIKey e) (sv_db s) of
        None \<Rightarrow> s
      | Some uid \<Rightarrow>
          if mn_EventName e \<noteq> ''settings-change'' then s
          else (let s1 = sv_dispatch env now
                      (blank_notification\<lparr>nc_Event := ''settings-change'', nc_UserID := uid, nc_ClientID := mn_ClientID e,
                         nc_WorldTitle := mn_World e, nc_Description := notice_text e\<rparr>) s
                in s1\<lparr>sv_db := snd (me_Create now
                       \<lparr>me_ID = 0, me_UserID = uid, me_ClientID = mn_ClientID e, me_WorldTitle = mn_World e,
                        me_EventType = mn_EventName e, me_Actor = mn_Actor e, me_Description = notice_text e,
                        me_CreatedAt = zero_time\<rparr> (sv_db s1))\<rparr>))"

text \<open>Decoding into a Go structure: a missing member or \<open>null\<close> leaves the zero value, another type is an error.\<close>

definition decode_str :: "obj \<Rightarrow> string \<Rightarrow> string option" where
  "decode_str m k = (case aget m k of None \<Rightarrow> Some [] | Some JNull \<Rightarrow> Some [] | Some (JStr s) \<Rightarrow> Some s | _ \<Rightarrow> None)"

definition decode_int :: "obj \<Rightarrow> string \<Rightarrow> int option" where
  "decode_int m k = (case aget m k of None \<Rightarrow> Some 0 | Some JNull \<Rightarrow> Some 0 | Some (JNum n) \<Rightarrow> Some n | _ \<Rightarrow> None)"

definition decode_player :: "json \<Rightarrow> (string \<times> string \<times> int) option" where
  "decode_player v =
     (case v of
        JNull \<Rightarrow> Some ([], [], 0)
      | JObj m \<Rightarrow>
          (case (decode_str m ''id'', decode_str m ''name'', decode_int m ''role'') of
             (Some i, Some n, Some r) \<Rightarrow> Some (i, n, r)
           | _ \<Rightarrow> None)
      | _ \<Rightarrow> None)"

definition decode_players :: "json \<Rightarrow> (string \<times> string \<times> int) list option" where
  "decode_players v =
     (case v of
        JNull \<Rightarrow> Some []
      | JArr vs \<Rightarrow> if list_all (\<lambda>v. decode_player v \<noteq> None) vs then Some (List.map_filter decode_player vs) else None
      | _ \<Rightarrow> None)"

definition player_list :: "gotime \<Rightarrow> Client \<Rightarrow> obj \<Rightarrow> db \<Rightarrow> db" where
  "player_list now c data d =
     (case decode_players (get_any data ''users'') of
        None \<Rightarrow> d
      | Some incoming \<Rightarrow>
          if length incoming = 0 then d
          else (case us_FindByAPIKeyHash (cl_apiKey c) d of
                  DBOk (Some user) \<Rightarrow>
                    (case kc_FindByClientID (us_ID user) (cl_id c) d of
                       DBOk (Some known) \<Rightarrow>
                         snd (ku_UpsertAll now (kc_ID known)
                           (map (\<lambda>(i, n, r). \<lparr>ku_ID = 0, ku_KnownClientID = kc_ID known, ku_UserID = i, ku_Name = n, ku_Role = r,
                                              ku_CreatedAt = zero_time, ku_UpdatedAt = zero_time\<rparr>) incoming) d)
                     | _ \<Rightarrow> d)
                | _ \<Rightarrow> d))"

subsection \<open>The worlds of the account\<close>

definition known_clients_error :: "string \<Rightarrow> string \<Rightarrow> obj" where
  "known_clients_error requestID msg =
     [(''type'', JStr ''known-clients-result''), (''requestId'', JStr requestID), (''error'', JStr msg), (''clients'', JArr [])]"

definition known_client_view :: "(string \<Rightarrow> string option) \<Rightarrow> 'h manager \<Rightarrow> KnownClient \<Rightarrow> json" where
  "known_client_view rget m kc =
     JObj [(''clientId'', JStr (kc_ClientID kc)), (''worldTitle'', JStr (null_str (kc_WorldTitle kc))),
       (''customName'', JStr (null_str (kc_CustomName kc))), (''systemTitle'', JStr (null_str (kc_SystemTitle kc))),
       (''systemId'', JStr (null_str (kc_SystemID kc))), (''isOnline'', JBool (IsClientOnlineAnywhere rget (kc_ClientID kc) m)),
       (''canAutoStart'', JBool (kc_AutoStartOnRemoteRequest kc)), (''publicUrl'', JStr (null_str (kc_PublicUrl kc)))]"

definition known_clients_msg :: "(string \<Rightarrow> string option) \<Rightarrow> nat \<Rightarrow> obj \<Rightarrow> db \<Rightarrow> 'h manager \<Rightarrow> obj" where
  "known_clients_msg rget ref data d m =
     (let requestID = get_str data ''requestId''; c = mg_heap m ! ref; tokenID = cl_connectionTokenID c
      in if tokenID = 0 then known_clients_error requestID ''get-known-clients requires connection-token authentication''
         else (case tk_FindByID tokenID d of
                 DBOk (Some token) \<Rightarrow>
                   (case kc_FindAllByUser (ct_UserID token) d of
                      DBErr \<Rightarrow> known_clients_error requestID ''failed to retrieve known clients''
                    | DBOk kcs \<Rightarrow>
                        (let own = find (\<lambda>kc. kc_ClientID kc = cl_id c) kcs
                         in [(''type'', JStr ''known-clients-result''), (''requestId'', JStr requestID),
                             (''clients'', JArr (map (known_client_view rget m) kcs)),
                             (''tokenScopes'', jstrs (case own of None \<Rightarrow> [] | Some kc \<Rightarrow> kc_GetRemoteScopes kc)),
                             (''tokenAllowedTargets'', jstrs (case own of None \<Rightarrow> [] | Some kc \<Rightarrow> kc_GetAllowedTargets kc))]))
               | _ \<Rightarrow> known_clients_error requestID ''connection token not found or revoked''))"

definition get_known_clients :: "(string \<Rightarrow> string option) \<Rightarrow> nat \<Rightarrow> obj \<Rightarrow> db \<Rightarrow> 'h manager \<Rightarrow> 'h manager" where
  "get_known_clients rget ref data d m = snd (send_to ref (JObj (known_clients_msg rget ref data d m)) m)"

subsection \<open>Which world to start\<close>

fun sole_loop :: "KnownClient list \<Rightarrow> string \<Rightarrow> string" where
  "sole_loop [] found = found"
| "sole_loop (kc # kcs) found =
     (if \<not> kc_AutoStartOnRemoteRequest kc \<or> kc_CredentialID kc = None then sole_loop kcs found
      else if found \<noteq> [] then []
      else sole_loop kcs (kc_ClientID kc))"

definition soleAutoStartableClient :: "int \<Rightarrow> db \<Rightarrow> string" where
  "soleAutoStartableClient uid d = (case kc_FindAllByUser uid d of DBErr \<Rightarrow> [] | DBOk kcs \<Rightarrow> sole_loop kcs [])"

text \<open>The start of a world for the WebSocket API; \<open>start\<close> stands for the launch of the browser.\<close>

definition headlessAutoStart :: "(int \<Rightarrow> string \<Rightarrow> string) \<Rightarrow> string \<Rightarrow> string \<Rightarrow> db \<Rightarrow> string" where
  "headlessAutoStart start masterAPIKey scopedClientID d =
     (case us_FindByAPIKeyHash masterAPIKey d of
        DBOk (Some user) \<Rightarrow>
          (let cid = (if scopedClientID = [] then soleAutoStartableClient (us_ID user) d else scopedClientID)
           in if cid = [] then [] else start (us_ID user) cid)
      | _ \<Rightarrow> [])"

text \<open>A change of the number of subscribers is told to the module.\<close>

definition notifyModuleChannelCount :: "string \<Rightarrow> string \<Rightarrow> int \<Rightarrow> 'h manager \<Rightarrow> 'h manager" where
  "notifyModuleChannelCount clientID channel n m =
     (case GetClient clientID m of
        None \<Rightarrow> m
      | Some ref \<Rightarrow>
          snd (send_to ref (JObj [(''type'', JStr ''event-subscription-update''), (''channel'', JStr channel), (''count'', JNum n)]) m))"

subsection \<open>What a callback leaves alone\<close>

lemma sv_simps [simp]:
  "sv_db (sv_dispatch env now nc s) = sv_db s"
  "sv_db (sv_track env now k t w cd ev s) = sv_db s"
  "sv_db (world_cross env now uid md s) = sv_db s"
  "sv_db (flagged_alerts env now uid cid reason s) = sv_db s"
  "sv_db (apply_window uid s) = sv_db s"
  by (simp_all add: sv_dispatch_def sv_track_def world_cross_def flagged_alerts_def apply_window_def
      split: prod.split db_result.split option.split)

lemma flag_reason_nonempty: "flag_reason existing md = [] \<longleftrightarrow> mismatches existing md = []"
  by (simp add: flag_reason_def Let_def)

lemma mismatches_None: "mismatches None md = []"
  by (simp add: mismatches_def)

definition same_world :: "int \<Rightarrow> string \<Rightarrow> KnownClient \<Rightarrow> bool" where
  "same_world uid cid r \<longleftrightarrow> kc_UserID r = uid \<and> kc_ClientID r = cid"

lemma find_update_rows: "(\<And>r. P (f r) = P r) \<Longrightarrow> find P (update_rows P f rows) = map_option f (find P rows)"
  unfolding update_rows_def by (induction rows) auto

lemma others_kept_by_update: "(\<And>r. P (f r) = P r) \<Longrightarrow> filter (\<lambda>r. \<not> P r) (update_rows P f rows) = filter (\<lambda>r. \<not> P r) rows"
  unfolding update_rows_def by (induction rows) auto

lemma known_world_find: "db_fails d = [] \<Longrightarrow> known_world uid cid d = find (same_world uid cid) (db_known d)"
  by (simp add: known_world_def kc_FindByClientID_def get_row_def db_ok_def same_world_def [abs_def])

lemma list_ex_find: "list_ex P xs \<longleftrightarrow> find P xs \<noteq> None"
  by (auto simp: find_None_iff list_ex_iff)

lemma find_append_new: "find P xs = None \<Longrightarrow> find P (xs @ [x]) = (if P x then Some x else None)"
  by (induction xs) (auto split: if_splits)

lemma kc_Upsert_known:
  fixes now :: gotime and c :: KnownClient and d :: db
  assumes "db_fails d = []"
  defines "d1 \<equiv> snd (kc_Upsert now c d)" and "W \<equiv> same_world (kc_UserID c) (kc_ClientID c)"
  shows "\<exists>r. find W (db_known d1) = Some r \<and> kc_IsOnline r = kc_IsOnline c \<and>
      (\<forall>(f, new) \<in> {(kc_WorldID, kc_WorldID c), (kc_SystemID, kc_SystemID c), (kc_FoundryVersion, kc_FoundryVersion c)}.
         f r = (case find W (db_known d) of None \<Rightarrow> new | Some old \<Rightarrow> keep_on_empty new (f old)))"
    and "filter (\<lambda>r. \<not> W r) (db_known d1) = filter (\<lambda>r. \<not> W r) (db_known d)"
    and "db_fails d1 = []" "db_connectionLogs d1 = db_connectionLogs d" "db_users d1 = db_users d"
proof -
  note defs = d1_def W_def kc_Upsert_def exec_def db_ok_def Let_def same_world_def [abs_def]
  show "\<exists>r. find W (db_known d1) = Some r \<and> kc_IsOnline r = kc_IsOnline c \<and>
      (\<forall>(f, new) \<in> {(kc_WorldID, kc_WorldID c), (kc_SystemID, kc_SystemID c), (kc_FoundryVersion, kc_FoundryVersion c)}.
         f r = (case find W (db_known d) of None \<Rightarrow> new | Some old \<Rightarrow> keep_on_empty new (f old)))"
  proof (cases "find W (db_known d)")
    case None
    then show ?thesis
      using assms(1) by (simp add: defs list_ex_find find_append_new)
  next
    case (Some old)
    then show ?thesis
      using assms(1) by (simp add: defs list_ex_find find_update_rows)
  qed
  show "filter (\<lambda>r. \<not> W r) (db_known d1) = filter (\<lambda>r. \<not> W r) (db_known d)"
    using assms(1) by (simp add: defs others_kept_by_update [where P = "\<lambda>r. kc_UserID r = kc_UserID c \<and> kc_ClientID r = kc_ClientID c", simplified])
  show "db_fails d1 = []" "db_connectionLogs d1 = db_connectionLogs d" "db_users d1 = db_users d"
    using assms(1) by (simp_all add: defs)
qed

subsection \<open>Presence\<close>

text \<open>Everything a connection does to the database of a registered account.\<close>

lemma connected_db:
  fixes env :: srv_env and now :: gotime and cid hash :: string and md :: ClientInfo and s :: srv_state and u :: User
  assumes ok: "db_fails (sv_db s) = []" and usr: "us_FindByAPIKeyHash hash (sv_db s) = DBOk (Some u)"
  defines "d \<equiv> sv_db s" and "d1 \<equiv> sv_db (OnClientConnected env now cid hash md s)" and "W \<equiv> same_world (us_ID u) cid"
  shows "db_known d1 = db_known (snd (kc_Upsert now (connected_row (us_ID u) cid md) d))"
    and "\<exists>l. db_connectionLogs d1 = db_connectionLogs d @ [l] \<and> cg_UserID l = us_ID u \<and> cg_ClientID l = cid \<and>
      (cg_Flagged l \<longleftrightarrow> mismatches (find W (db_known d)) md \<noteq> [])"
    and "db_fails d1 = []" "db_users d1 = db_users d"
proof -
  let ?row = "connected_row (us_ID u) cid md"
  have acc: "account_of hash (sv_db s) = Some (us_ID u)"
    using usr by (simp add: account_of_def)
  have kw: "known_world (us_ID u) cid d = find W (db_known d)"
    using ok by (simp add: known_world_find d_def W_def)
  have row: "kc_UserID ?row = us_ID u" "kc_ClientID ?row = cid"
    by (simp_all add: connected_row_def)
  have d1: "d1 = snd (cg_Create now (connection_row (us_ID u) cid md (flag_reason (find W (db_known d)) md)) (snd (kc_Upsert now ?row d)))"
    using acc kw by (simp add: d1_def d_def OnClientConnected_def Let_def)
  note up = kc_Upsert_known(3-5) [where c = ?row and now = now and d = d, OF ok [folded d_def]]
  show "db_known d1 = db_known (snd (kc_Upsert now ?row d))" "db_fails d1 = []" "db_users d1 = db_users d"
    using up by (simp_all add: d1 cg_Create_def exec_def db_ok_def)
  show "\<exists>l. db_connectionLogs d1 = db_connectionLogs d @ [l] \<and> cg_UserID l = us_ID u \<and> cg_ClientID l = cid \<and>
      (cg_Flagged l \<longleftrightarrow> mismatches (find W (db_known d)) md \<noteq> [])"
    using up by (simp add: d1 cg_Create_def exec_def db_ok_def connection_row_def flag_reason_nonempty)
qed

lemma removed_db:
  fixes env :: srv_env and now :: gotime and cid hash :: string and s :: srv_state and u :: User
  assumes ok: "db_fails (sv_db s) = []" and usr: "us_FindByAPIKeyHash hash (sv_db s) = DBOk (Some u)"
  defines "W \<equiv> same_world (us_ID u) cid"
  shows "db_known (sv_db (OnClientRemoved env now cid hash s)) = update_rows W
      (\<lambda>c. c\<lparr>kc_IsOnline := False, kc_LastSeenAt := Some (db_time now), kc_UpdatedAt := db_time now\<rparr>) (db_known (sv_db s))"
  using assms
  by (simp add: OnClientRemoved_def Let_def account_of_def kc_SetOffline_def on_known_def exec_def db_ok_def W_def same_world_def [abs_def]
      cong: option.case_cong)

lemma account_users: "db_users d' = db_users d \<Longrightarrow> db_fails d' = [] \<Longrightarrow> db_fails d = [] \<Longrightarrow> us_FindByAPIKeyHash h d' = us_FindByAPIKeyHash h d"
  by (simp add: us_FindByAPIKeyHash_def get_row_def db_ok_def)

text \<open>The world of a registered account is online in its table from the moment its module connects until it
  disconnects, its connection is logged once under the account and the module's identifier, and neither event touches the row of any
  other world.
\<close>

theorem presence_follows_connection:
  assumes "db_fails (sv_db s) = []" and "us_FindByAPIKeyHash hash (sv_db s) = DBOk (Some u)"
    and s1: "s1 = OnClientConnected env now cid hash md s" and s2: "s2 = OnClientRemoved env later cid hash s1"
    and W: "W = same_world (us_ID u) cid"
  shows "(\<exists>r. find W (db_known (sv_db s1)) = Some r \<and> kc_IsOnline r) \<and>
    (\<exists>r. find W (db_known (sv_db s2)) = Some r \<and> \<not> kc_IsOnline r) \<and>
    filter (\<lambda>r. \<not> W r) (db_known (sv_db s1)) = filter (\<lambda>r. \<not> W r) (db_known (sv_db s)) \<and>
    filter (\<lambda>r. \<not> W r) (db_known (sv_db s2)) = filter (\<lambda>r. \<not> W r) (db_known (sv_db s)) \<and>
    (\<exists>l. db_connectionLogs (sv_db s1) = db_connectionLogs (sv_db s) @ [l] \<and> cg_UserID l = us_ID u \<and> cg_ClientID l = cid)"
proof -
  let ?row = "connected_row (us_ID u) cid md" and ?off = "\<lambda>c. c\<lparr>kc_IsOnline := False, kc_LastSeenAt := Some (db_time later), kc_UpdatedAt := db_time later\<rparr>"
  note c = connected_db [OF assms(1,2), where env = env and now = now and cid = cid and md = md, folded s1 W]
  have row: "kc_UserID ?row = us_ID u" "kc_ClientID ?row = cid" "kc_IsOnline ?row"
    by (simp_all add: connected_row_def)
  note up = kc_Upsert_known(1,2) [where c = ?row and now = now, OF assms(1), unfolded row(1,2), folded W]
  obtain r where r: "find W (db_known (sv_db s1)) = Some r" "kc_IsOnline r"
    using up(1) row(3) c(1) by auto
  have "us_FindByAPIKeyHash hash (sv_db s1) = DBOk (Some u)"
    using account_users [OF c(4,3) assms(1)] assms(2) by simp
  note rm = removed_db [OF c(3) this, where env = env and now = later and cid = cid, folded s2 W]
  have keep: "W (?off x) = W x" for x
    by (simp add: W same_world_def)
  have "find W (db_known (sv_db s2)) = Some (?off r)"
    unfolding rm using r(1) find_update_rows [where P = W and f = ?off, OF keep] by simp
  moreover have "filter (\<lambda>r. \<not> W r) (db_known (sv_db s2)) = filter (\<lambda>r. \<not> W r) (db_known (sv_db s1))"
    unfolding rm by (rule others_kept_by_update [where P = W and f = ?off, OF keep])
  ultimately show ?thesis
    using r up(2) c(1,2) by auto
qed

text \<open>A connection is flagged exactly when a world, system or version that the table records differs from a
  nonempty one the module now reports; and as the report replaces the record, the same module
  reconnecting with the same report is not flagged again.
\<close>

theorem flagged_once:
  assumes "db_fails (sv_db s) = []" and "us_FindByAPIKeyHash hash (sv_db s) = DBOk (Some u)"
    and "s1 = OnClientConnected env now cid hash md s" and "s2 = OnClientConnected env later cid hash md s1"
  shows "\<exists>l1 l2. db_connectionLogs (sv_db s2) = db_connectionLogs (sv_db s) @ [l1, l2] \<and> \<not> cg_Flagged l2 \<and>
    (cg_Flagged l1 \<longleftrightarrow> (\<exists>e. find (same_world (us_ID u) cid) (db_known (sv_db s)) = Some e \<and>
       (\<exists>(old, new) \<in> {(kc_WorldID e, ci_WorldID md), (kc_SystemID e, ci_SystemID md), (kc_FoundryVersion e, ci_FoundryVersion md)}.
          \<exists>v. old = Some v \<and> new \<noteq> [] \<and> v \<noteq> new)))"
proof -
  let ?W = "same_world (us_ID u) cid" and ?row = "connected_row (us_ID u) cid md"
  note c = connected_db [OF assms(1,2), where env = env and now = now and cid = cid and md = md, folded assms(3)]
  have row: "kc_UserID ?row = us_ID u" "kc_ClientID ?row = cid" "kc_WorldID ?row = opt_text (ci_WorldID md)"
      "kc_SystemID ?row = opt_text (ci_SystemID md)" "kc_FoundryVersion ?row = opt_text (ci_FoundryVersion md)"
    by (simp_all add: connected_row_def)
  have usr: "us_FindByAPIKeyHash hash (sv_db s1) = DBOk (Some u)"
    using account_users [OF c(4,3) assms(1)] assms(2) by simp
  note c2 = connected_db(2) [OF c(3) usr, where env = env and now = later and cid = cid and md = md, folded assms(4)]
  obtain r where r: "find ?W (db_known (sv_db s1)) = Some r"
      "kc_WorldID r = (case find ?W (db_known (sv_db s)) of None \<Rightarrow> opt_text (ci_WorldID md) | Some old \<Rightarrow> keep_on_empty (opt_text (ci_WorldID md)) (kc_WorldID old))"
      "kc_SystemID r = (case find ?W (db_known (sv_db s)) of None \<Rightarrow> opt_text (ci_SystemID md) | Some old \<Rightarrow> keep_on_empty (opt_text (ci_SystemID md)) (kc_SystemID old))"
      "kc_FoundryVersion r = (case find ?W (db_known (sv_db s)) of None \<Rightarrow> opt_text (ci_FoundryVersion md) | Some old \<Rightarrow> keep_on_empty (opt_text (ci_FoundryVersion md)) (kc_FoundryVersion old))"
    using kc_Upsert_known(1) [where c = ?row and now = now, OF assms(1), unfolded row] c(1) by auto
  have no: "mismatch f (case prior of None \<Rightarrow> opt_text x | Some old \<Rightarrow> keep_on_empty (opt_text x) (g old)) x = []"
    for f and prior :: "KnownClient option" and x g
    by (auto simp: mismatch_def opt_text_def keep_on_empty_def split: option.splits)
  have "mismatches (find ?W (db_known (sv_db s1))) md = []"
    by (simp add: r mismatches_def no)
  moreover have "mismatches (find ?W (db_known (sv_db s))) md \<noteq> [] \<longleftrightarrow> (\<exists>e. find ?W (db_known (sv_db s)) = Some e \<and>
       (\<exists>(old, new) \<in> {(kc_WorldID e, ci_WorldID md), (kc_SystemID e, ci_SystemID md), (kc_FoundryVersion e, ci_FoundryVersion md)}.
          \<exists>v. old = Some v \<and> new \<noteq> [] \<and> v \<noteq> new))"
    by (auto simp: mismatches_def mismatch_def split: option.splits if_splits)
  ultimately show ?thesis
    using c(2) c2 by auto
qed

subsection \<open>Lookups that fail\<close>

text \<open>A module whose account is gone changes no row and causes no message; only the alarm about disconnections counts it.\<close>

lemma stranger_inert:
  assumes "us_FindByAPIKeyHash hash (sv_db s) = DBOk None"
  shows "OnClientConnected env now cid hash md s = s" and "OnDuplicateConnectionRejected env now cid hash ip1 ip2 s = s"
    and "sv_db (OnClientRemoved env now cid hash s) = sv_db s" and "sv_sent (OnClientRemoved env now cid hash s) = sv_sent s"
    and "mn_APIKey e = hash \<Longrightarrow> handle_module_notice env now e s = s"
  using assms
  by (simp_all add: account_of_def OnClientConnected_def OnDuplicateConnectionRejected_def OnClientRemoved_def
      handle_module_notice_def Let_def sv_track_def)

text \<open>A lookup that fails, though, is taken for an account: the rows of the connection are written for user 0.\<close>

lemma failed_lookup_writes_user_zero:
  assumes "db_fails (sv_db s) = [''us_FindByAPIKeyHash'']" and "hash \<noteq> []"
  shows "\<exists>l. db_connectionLogs (sv_db (OnClientConnected env now cid hash md s)) = db_connectionLogs (sv_db s) @ [l] \<and> cg_UserID l = 0"
    and "\<exists>r. find (same_world 0 cid) (db_known (sv_db (OnClientConnected env now cid hash md s))) = Some r \<and> kc_IsOnline r"
proof -
  let ?row = "connected_row 0 cid md" and ?d = "sv_db s"
  have acc: "account_of hash ?d = Some 0"
    using assms by (simp add: account_of_def us_FindByAPIKeyHash_def get_row_def db_ok_def)
  have up: "kc_Upsert now ?row ?d = (DBOk (), snd (kc_Upsert now ?row ?d))"
    using assms(1) by (simp add: kc_Upsert_def exec_def db_ok_def)
  have fails: "db_fails (snd (kc_Upsert now ?row ?d)) = db_fails ?d" "db_connectionLogs (snd (kc_Upsert now ?row ?d)) = db_connectionLogs ?d"
    using assms(1) by (simp_all add: kc_Upsert_def exec_def db_ok_def Let_def)
  show "\<exists>l. db_connectionLogs (sv_db (OnClientConnected env now cid hash md s)) = db_connectionLogs (sv_db s) @ [l] \<and> cg_UserID l = 0"
    using acc fails assms(1) by (simp add: OnClientConnected_def Let_def cg_Create_def exec_def db_ok_def connection_row_def)
  have "db_known (sv_db (OnClientConnected env now cid hash md s)) = db_known (snd (kc_Upsert now ?row ?d))"
    using acc fails assms(1) by (simp add: OnClientConnected_def Let_def cg_Create_def exec_def db_ok_def)
  moreover have "db_known (snd (kc_Upsert now ?row ?d)) = db_known (snd (kc_Upsert now ?row (?d\<lparr>db_fails := []\<rparr>)))"
    using assms(1) by (simp add: kc_Upsert_def exec_def db_ok_def Let_def)
  ultimately have e: "db_known (sv_db (OnClientConnected env now cid hash md s)) =
      db_known (snd (kc_Upsert now ?row (?d\<lparr>db_fails := []\<rparr>)))"
    by (rule trans)
  have row: "kc_UserID ?row = 0" "kc_ClientID ?row = cid" "kc_IsOnline ?row"
    by (simp_all add: connected_row_def)
  have "db_fails (?d\<lparr>db_fails := []\<rparr>) = []" by simp
  from kc_Upsert_known(1) [where c = ?row and now = now, OF this, unfolded row(1,2)]
  show "\<exists>r. find (same_world 0 cid) (db_known (sv_db (OnClientConnected env now cid hash md s))) = Some r \<and> kc_IsOnline r"
    unfolding e using row(3) by blast
qed

text \<open>The window of a user's summaries is only ever set to a positive length, so a user who returns to the default
  keeps the old window, although \<open>SetUserWindow\<close> would remove it.\<close>

lemma window_never_reverts:
  assumes "ns_FindByUser uid (sv_db s) = DBOk (Some n)" and "ns_BatchWindowSecs n \<le> 0"
  shows "sv_batcher (apply_window uid s) = sv_batcher s \<and> bt_userWindow (SetUserWindow uid 0 (sv_batcher s)) = adel uid (bt_userWindow (sv_batcher s))"
  using assms by (simp add: apply_window_def SetUserWindow_def)

subsection \<open>The listing and the choice of a world\<close>

text \<open>The listing of worlds answers a module with worlds of its connection token's account only, one entry for each,
  and with none at all when the module has no token or its token is gone.
\<close>

theorem known_clients_own:
  assumes "known_clients_msg rget ref data d m = msg" and "aget msg ''clients'' = Some (JArr views)"
  shows "(views = [] \<or> (\<exists>tok. tk_FindByID (cl_connectionTokenID (mg_heap m ! ref)) d = DBOk (Some tok) \<and>
      views = map (known_client_view rget m) (filter (\<lambda>kc. kc_UserID kc = ct_UserID tok) (db_known d)))) \<and>
    (aget msg ''error'' \<noteq> None \<longrightarrow> views = [])"
  using assms
  by (auto simp: known_clients_msg_def known_clients_error_def kc_FindAllByUser_def Let_def
      split: if_splits db_result.splits option.splits)

definition startable :: "KnownClient \<Rightarrow> bool" where
  "startable kc \<longleftrightarrow> kc_AutoStartOnRemoteRequest kc \<and> kc_CredentialID kc \<noteq> None"

lemma sole_loop_filter: "sole_loop kcs found = sole_loop (filter startable kcs) found"
  by (induction kcs arbitrary: found) (auto simp: startable_def)

lemma sole_loop_found:
  assumes "\<forall>kc \<in> set kcs. startable kc"
  shows "sole_loop kcs found = (case kcs of [] \<Rightarrow> found | kc # rest \<Rightarrow> if found \<noteq> [] then [] else sole_loop rest (kc_ClientID kc))"
  using assms by (cases kcs) (auto simp: startable_def)

text \<open>A start without a named world picks one exactly when the account has a single world that may be started and has a
  credential; with none or several it picks none.
\<close>

theorem sole_world_exact:
  assumes "\<forall>kc \<in> set (db_known d). kc_ClientID kc \<noteq> []"
  shows "soleAutoStartableClient uid d =
    (if \<not> db_ok ''kc_FindAllByUser'' d then []
     else (case filter startable (filter (\<lambda>kc. kc_UserID kc = uid) (db_known d)) of [kc] \<Rightarrow> kc_ClientID kc | _ \<Rightarrow> []))"
proof -
  have "sole_loop kcs [] = (case kcs of [kc] \<Rightarrow> kc_ClientID kc | _ \<Rightarrow> [])"
    if k: "\<forall>kc \<in> set kcs. startable kc \<and> kc_ClientID kc \<noteq> []" for kcs
  proof (cases kcs)
    case (Cons kc rest)
    then have "sole_loop kcs [] = sole_loop rest (kc_ClientID kc)" "kc_ClientID kc \<noteq> []" "\<forall>kc \<in> set rest. startable kc"
      using k by (auto simp: startable_def)
    then show ?thesis
      using Cons sole_loop_found [of rest "kc_ClientID kc"] by (simp split: list.split)
  qed simp
  from this [of "filter startable (filter (\<lambda>kc. kc_UserID kc = uid) (db_known d))"] show ?thesis
    using assms sole_loop_filter [of "filter (\<lambda>kc. kc_UserID kc = uid) (db_known d)" "[]"]
    by (auto simp: soleAutoStartableClient_def kc_FindAllByUser_def)
qed

subsection \<open>A first connection\<close>

definition ex_srv_db :: db where
  "ex_srv_db = empty_db\<lparr>db_users := [ex_user 1]\<rparr>"

definition ex_srv :: srv_state where
  "ex_srv = \<lparr>sv_db = ex_srv_db, sv_alerts = \<lparr>as_trackers = [], as_recent = [], as_dispatched = []\<rparr>, sv_debounce = [],
     sv_batcher = NewRemoteRequestBatcher 0, sv_sessions = NewInteractiveSessionManager 3, sv_consumers = [], sv_headless = [],
     sv_sent = []\<rparr>"

definition ex_srv_env :: srv_env where
  "ex_srv_env = \<lparr>ve_cfg = None, ve_frontendURL = [], ve_alertsDB = True, ve_hasHeadless = False\<rparr>"

definition ex_report :: "string \<Rightarrow> ClientInfo" where
  "ex_report w = \<lparr>ci_ID = ''fvtt_1'', ci_InstanceID = ''i1'', ci_LastSeen = 0, ci_ConnectedSince = 0, ci_WorldID = w, ci_WorldTitle = [],
     ci_FoundryVersion = [], ci_SystemID = [], ci_SystemTitle = [], ci_SystemVersion = [], ci_CustomName = [], ci_PublicUrl = [],
     ci_IPAddress = [], ci_TokenName = []\<rparr>"

lemma ex_srv_account: "db_fails (sv_db ex_srv) = []" "us_FindByAPIKeyHash ''account'' (sv_db ex_srv) = DBOk (Some (ex_user 1))"
  by (simp_all add: ex_srv_def ex_srv_db_def empty_db_def us_FindByAPIKeyHash_def get_row_def db_ok_def ex_user_def)

lemma presence_follows_connection_witness:
  "\<exists>r. find (same_world 1 ''fvtt_1'') (db_known (sv_db (OnClientConnected ex_srv_env 5 ''fvtt_1'' ''account'' (ex_report ''w'') ex_srv))) = Some r \<and>
     kc_IsOnline r"
  using presence_follows_connection [OF ex_srv_account refl refl refl, of "''fvtt_1''" ex_srv_env 5 "ex_report ''w''"]
  by (auto simp: ex_user_def)

lemma flagged_once_witness:
  "\<exists>l1 l2. db_connectionLogs (sv_db (OnClientConnected ex_srv_env 9 ''fvtt_1'' ''account'' (ex_report ''w'')
      (OnClientConnected ex_srv_env 5 ''fvtt_1'' ''account'' (ex_report ''w'') ex_srv))) = [l1, l2] \<and> \<not> cg_Flagged l1 \<and> \<not> cg_Flagged l2"
proof -
  have "db_connectionLogs (sv_db ex_srv) = []" "db_known (sv_db ex_srv) = []"
    by (simp_all add: ex_srv_def ex_srv_db_def empty_db_def)
  then show ?thesis
    using flagged_once [OF ex_srv_account refl refl, of ex_srv_env 9 "''fvtt_1''" "ex_report ''w''" 5] by auto
qed

lemma known_clients_own_witness:
  "aget (known_clients_msg (\<lambda>k. None) 0 [] ex_srv_db (ex_manager False ''i1'')) ''clients'' = Some (JArr []) \<and>
   aget (known_clients_msg (\<lambda>k. None) 0 [] ex_srv_db (ex_manager False ''i1'')) ''error'' \<noteq> None"
proof -
  let ?m = "known_clients_msg (\<lambda>k. None) 0 [] ex_srv_db (ex_manager False ''i1'')"
  have "?m = known_clients_error [] ''connection token not found or revoked''"
    by (simp add: known_clients_msg_def tk_FindByID_def get_row_def db_ok_def ex_srv_db_def empty_db_def ex_manager_defs get_str_def)
  then have c: "aget ?m ''clients'' = Some (JArr [])" and e: "aget ?m ''error'' \<noteq> None"
    by (simp_all add: known_clients_error_def)
  from known_clients_own [OF refl c] show ?thesis
    using c e by blast
qed

lemma sole_world_exact_witness: "soleAutoStartableClient 1 ex_srv_db = []"
  by (subst sole_world_exact) (simp_all add: ex_srv_db_def empty_db_def db_ok_def)

end
