(* ===== verification/Endpoints.thy ===== *)
theory Endpoints
  imports Route ServerEvents
begin

text \<open>
  The REST endpoints: what each of them declares for \<open>CreateAPIRoute\<close> (\<open>internal/handler/entity.go\<close>,
  \<open>playlist.go\<close>, \<open>user.go\<close>, \<open>dnd5e.go\<close>) and the table of \<open>routes.go\<close> that gives each method and path its
  scope.  \<open>AutoStartFunc\<close>, which the server sets when it starts, is the first argument of every declaration.
  The texts that describe parameters are documentation and left out.  A declaration's \<open>AfterForward\<close> runs in a
  goroutine of its own after the message was sent; it is a function on the server's state.
\<close>

subsection \<open>Parameters in common\<close>

type_synonym 'h starter = "(req_context \<Rightarrow> string \<Rightarrow> 'h manager \<Rightarrow> string \<times> 'h manager) option"

definition required :: "string \<Rightarrow> param_source list \<Rightarrow> param_type option \<Rightarrow> ParamDef" where
  "required name from t = \<lparr>pd_Name = name, pd_From = from, pd_Type = t, pd_Required = True\<rparr>"

definition optional :: "string \<Rightarrow> param_source list \<Rightarrow> param_type option \<Rightarrow> ParamDef" where
  "optional name from t = \<lparr>pd_Name = name, pd_From = from, pd_Type = t, pd_Required = False\<rparr>"

definition clientIDParam :: ParamDef where
  "clientIDParam = optional ''clientId'' [FromQuery] (Some TypeString)"

definition userIDParam :: ParamDef where
  "userIDParam = optional ''userId'' [FromQuery, FromBody] (Some TypeString)"

definition uuidParam :: ParamDef where
  "uuidParam = optional ''uuid'' [FromQuery] (Some TypeString)"

definition selectedParam :: ParamDef where
  "selectedParam = optional ''selected'' [FromQuery, FromBody] (Some TypeBoolean)"

definition bqParam :: "param_source list" where
  "bqParam = [FromBody, FromQuery]"

definition encounterParam :: ParamDef where
  "encounterParam = optional ''encounter'' bqParam None"

definition dtParam :: ParamDef where
  "dtParam = required ''documentType'' [FromParams] (Some TypeString)"

definition route_config :: "'h starter \<Rightarrow> string \<Rightarrow> ParamDef list \<Rightarrow> ParamDef list \<Rightarrow> 'h route_cfg" where
  "route_config auto typ req opt =
     \<lparr>ra_Type = typ, ra_RequiredParams = req, ra_OptionalParams = opt, ra_Timeout = 0, ra_ValidateParams = None,
      ra_BuildPayload = None, ra_BuildPendingRequest = None, ra_AutoStart = auto\<rparr>"

subsection \<open>Checks of the parameters\<close>

text \<open>\<open>ValidateScript\<close> of \<open>helpers/validation.go\<close>: every pattern is a regular expression without operators,
  so it matches the texts that contain it.\<close>

definition forbiddenPatterns :: "string list" where
  "forbiddenPatterns =
     [''localStorage'', ''sessionStorage'', ''document.cookie'', ''eval('', ''new Worker('', ''new SharedWorker('',
      ''__proto__'', ''atob('', ''btoa('', ''crypto.'', ''Intl.'', ''postMessage('', ''XMLHttpRequest'',
      ''importScripts('', ''apiKey'', ''privateKey'', ''password'', ''Function('', ''Function.constructor'',
      ''globalThis'', ''game.settings.set'', ''Reflect.'', ''Proxy'', ''import('']"

definition ValidateScript :: "string \<Rightarrow> bool" where
  "ValidateScript script = list_all (\<lambda>p. \<not> go_contains script p) forbiddenPatterns"

definition err_body :: "string \<Rightarrow> obj" where
  "err_body msg = [(''error'', JStr msg)]"

definition quoted :: "string \<Rightarrow> string" where
  "quoted s = CHR 0x27 # s @ [CHR 0x27]"

definition script_error :: "obj \<Rightarrow> obj option" where
  "script_error params =
     (case aget params ''data'' of
        Some (JObj d) \<Rightarrow>
          (case aget d ''command'' of
             Some (JStr cmd) \<Rightarrow> if \<not> ValidateScript cmd then Some (err_body ''Script contains forbidden patterns'') else None
           | _ \<Rightarrow> None)
      | _ \<Rightarrow> None)"

definition entityCreate_validate :: "req_context option \<Rightarrow> obj \<Rightarrow> obj option" where
  "entityCreate_validate ctx params =
     (if params_GetString params ''entityType'' = ''Macro''
      then (case scoped_key ctx of
              Some k \<Rightarrow>
                if \<not> sk_HasScope k ScopeMacroWrite then Some (err_body ''macro:write scope is required to create macros'')
                else script_error params
            | None \<Rightarrow> script_error params)
      else None)"

definition executeJsPost_validate :: "req_context option \<Rightarrow> obj \<Rightarrow> obj option" where
  "executeJsPost_validate ctx params =
     (let s = params_GetString params ''script''
      in if s \<noteq> [] \<and> \<not> ValidateScript s then Some (err_body ''Script contains forbidden patterns'') else None)"

definition one_of :: "string list \<Rightarrow> string \<Rightarrow> obj \<Rightarrow> obj option" where
  "one_of names msg params = (if list_all (\<lambda>n. \<not> params_Has params n) names then Some (err_body msg) else None)"

definition searchGet_validate :: "req_context option \<Rightarrow> obj \<Rightarrow> obj option" where
  "searchGet_validate ctx =
     one_of [''query'', ''filter'']
       (quoted ''query'' @ '' or '' @ quoted ''filter'' @ '' is required'')"

definition selectPost_validate :: "req_context option \<Rightarrow> obj \<Rightarrow> obj option" where
  "selectPost_validate ctx =
     one_of [''uuids'', ''name'', ''data'', ''all'']
       (''At least one of '' @ quoted ''uuids'' @ '', '' @ quoted ''name'' @ '', '' @ quoted ''data'' @ '',
        or '' @ quoted ''all'' @ '' is required'')"

definition sceneGet_validate :: "req_context option \<Rightarrow> obj \<Rightarrow> obj option" where
  "sceneGet_validate ctx =
     one_of [''sceneId'', ''name'', ''active'', ''viewed'', ''all'']
       (''At least one of '' @ quoted ''sceneId'' @ '', '' @ quoted ''name'' @ '', '' @ quoted ''active'' @ '',
        '' @ quoted ''viewed'' @ '', or '' @ quoted ''all'' @ '' is required'')"

definition sceneUpdate_validate :: "req_context option \<Rightarrow> obj \<Rightarrow> obj option" where
  "sceneUpdate_validate ctx =
     one_of [''sceneId'', ''name'', ''active'']
       (''At least one of '' @ quoted ''sceneId'' @ '', '' @ quoted ''name'' @ '', or '' @ quoted ''active'' @
        '' is required'')"

definition sceneDelete_validate :: "req_context option \<Rightarrow> obj \<Rightarrow> obj option" where
  "sceneDelete_validate ctx =
     one_of [''sceneId'', ''name'']
       (''At least one of '' @ quoted ''sceneId'' @ '' or '' @ quoted ''name'' @ '' is required'')"

definition switchScene_validate :: "req_context option \<Rightarrow> obj \<Rightarrow> obj option" where
  "switchScene_validate ctx =
     one_of [''sceneId'', ''name'']
       (''At least one of '' @ quoted ''sceneId'' @ '' or '' @ quoted ''name'' @ '' is required'')"

definition userGet_validate :: "req_context option \<Rightarrow> obj \<Rightarrow> obj option" where
  "userGet_validate ctx =
     one_of [''id'', ''name'']
       (''At least one of '' @ quoted ''id'' @ '' or '' @ quoted ''name'' @ '' is required'')"

definition userUpdate_validate :: "req_context option \<Rightarrow> obj \<Rightarrow> obj option" where
  "userUpdate_validate ctx =
     one_of [''id'', ''name'']
       (''At least one of '' @ quoted ''id'' @ '' or '' @ quoted ''name'' @ '' is required'')"

definition userDelete_validate :: "req_context option \<Rightarrow> obj \<Rightarrow> obj option" where
  "userDelete_validate ctx =
     one_of [''id'', ''name'']
       (''At least one of '' @ quoted ''id'' @ '' or '' @ quoted ''name'' @ '' is required'')"

definition validDocTypes :: "(string, string) gomap" where
  "validDocTypes =
     [(''tokens'', ''Token''), (''tiles'', ''Tile''), (''drawings'', ''Drawing''), (''lights'', ''AmbientLight''),
      (''sounds'', ''AmbientSound''), (''notes'', ''Note''), (''templates'', ''MeasuredTemplate''), (''walls'', ''Wall''),
      (''regions'', ''Region'')]"

definition validateDocType :: "req_context option \<Rightarrow> obj \<Rightarrow> obj option" where
  "validateDocType ctx params =
     (case aget validDocTypes (params_GetString params ''documentType'') of
        None \<Rightarrow>
          Some [(''error'', JStr (''Invalid documentType. Must be one of: tokens, tiles, drawings, lights, sounds, '' @
                                  ''notes, templates, walls, regions'')),
                (''validTypes'', jstrs [''tokens'', ''tiles'', ''drawings'', ''lights'', ''sounds'', ''notes'', ''templates'',
                                        ''walls'', ''regions''])]
      | Some cls \<Rightarrow> None)"

definition addClassName :: "obj \<Rightarrow> obj" where
  "addClassName params =
     aput ''className'' (JStr (null_str (aget validDocTypes (params_GetString params ''documentType''))))
       (filter (\<lambda>kv. fst kv \<noteq> ''clientId'' \<and> fst kv \<noteq> ''type'') params)"

definition pending_format :: "string \<Rightarrow> PendingRequest" where
  "pending_format format =
     \<lparr>pr_ResponseCh = 0, pr_Type = [], pr_ClientID = [], pr_UUID = [], pr_Path = [], pr_Query = [], pr_Filter = [],
      pr_Format = format, pr_ActiveTab = None, pr_DarkMode = False, pr_InitScale = None, pr_Timestamp = 0, pr_MaxAge = 0,
      pr_WSCallback = False\<rparr>"

definition sceneRawImage_pending :: "obj \<Rightarrow> PendingRequest option" where
  "sceneRawImage_pending params = Some (pending_format ''binary'')"

definition downloadFileGet_pending :: "obj \<Rightarrow> PendingRequest option" where
  "downloadFileGet_pending params = Some (pending_format (params_GetString params ''format''))"

subsection \<open>The declarations\<close>

definition encSimple :: "'h starter \<Rightarrow> string \<Rightarrow> 'h route_cfg" where
  "encSimple auto t =
     route_config auto t
       []
       [clientIDParam, encounterParam, userIDParam]"

definition entityGet :: "'h starter \<Rightarrow> 'h route_cfg" where
  "entityGet auto =
     route_config auto ''entity''
       []
       [clientIDParam, uuidParam, selectedParam, optional ''actor'' [FromQuery] (Some TypeBoolean), userIDParam]"

definition entityCreate :: "'h starter \<Rightarrow> 'h route_cfg" where
  "entityCreate auto =
    (route_config auto ''create''
       [required ''entityType'' [FromBody] (Some TypeString), required ''data'' [FromBody] (Some TypeObject)]
       [clientIDParam, optional ''folder'' [FromBody] (Some TypeString),
        optional ''keepId'' bqParam (Some TypeBoolean), optional ''override'' bqParam (Some TypeBoolean), userIDParam])
      \<lparr>ra_ValidateParams := Some entityCreate_validate\<rparr>"

definition entityUpdate :: "'h starter \<Rightarrow> 'h route_cfg" where
  "entityUpdate auto =
     route_config auto ''update''
       [required ''data'' [FromBody] (Some TypeObject)]
       [clientIDParam, uuidParam, selectedParam, optional ''actor'' [FromQuery] (Some TypeBoolean), userIDParam]"

definition entityDelete :: "'h starter \<Rightarrow> 'h route_cfg" where
  "entityDelete auto =
     route_config auto ''delete''
       []
       [clientIDParam, uuidParam, selectedParam, userIDParam]"

definition entityGive :: "'h starter \<Rightarrow> 'h route_cfg" where
  "entityGive auto =
     route_config auto ''give''
       []
       [clientIDParam, optional ''fromUuid'' [FromBody] None, optional ''toUuid'' [FromBody] None, selectedParam,
        optional ''itemUuid'' [FromBody] None, optional ''itemName'' [FromBody] None,
        optional ''quantity'' [FromBody] (Some TypeNumber), userIDParam]"

definition entityRemove :: "'h starter \<Rightarrow> 'h route_cfg" where
  "entityRemove auto =
     route_config auto ''remove''
       []
       [clientIDParam, optional ''actorUuid'' [FromBody] None, selectedParam, optional ''itemUuid'' [FromBody] None,
        optional ''itemName'' [FromBody] None, optional ''quantity'' [FromBody] (Some TypeNumber), userIDParam]"

definition entityDecrease :: "'h starter \<Rightarrow> 'h route_cfg" where
  "entityDecrease auto =
     route_config auto ''decrease''
       [required ''attribute'' [FromBody] (Some TypeString), required ''amount'' [FromBody] (Some TypeNumber)]
       [clientIDParam, uuidParam, selectedParam, userIDParam]"

definition entityIncrease :: "'h starter \<Rightarrow> 'h route_cfg" where
  "entityIncrease auto =
     route_config auto ''increase''
       [required ''attribute'' [FromBody] (Some TypeString), required ''amount'' [FromBody] (Some TypeNumber)]
       [clientIDParam, uuidParam, selectedParam, userIDParam]"

definition entityKill :: "'h starter \<Rightarrow> 'h route_cfg" where
  "entityKill auto =
     route_config auto ''kill''
       []
       [clientIDParam, uuidParam, selectedParam, userIDParam]"

definition searchGet :: "'h starter \<Rightarrow> 'h route_cfg" where
  "searchGet auto =
    (route_config auto ''search''
       []
       [clientIDParam, optional ''query'' [FromQuery] (Some TypeString), optional ''filter'' [FromQuery] None,
        optional ''excludeCompendiums'' [FromQuery] (Some TypeBoolean),
        optional ''limit'' [FromQuery] (Some TypeNumber), optional ''minified'' [FromQuery] (Some TypeBoolean),
        optional ''ownedByUserId'' [FromQuery] None, userIDParam])
      \<lparr>ra_ValidateParams := Some searchGet_validate\<rparr>"

definition rollsGet :: "'h starter \<Rightarrow> 'h route_cfg" where
  "rollsGet auto =
     route_config auto ''rolls''
       []
       [clientIDParam, optional ''limit'' [FromQuery] (Some TypeNumber), userIDParam]"

definition lastRollGet :: "'h starter \<Rightarrow> 'h route_cfg" where
  "lastRollGet auto =
     route_config auto ''last-roll''
       []
       [clientIDParam, userIDParam]"

definition rollPost :: "'h starter \<Rightarrow> 'h route_cfg" where
  "rollPost auto =
     route_config auto ''roll''
       [required ''formula'' [FromBody] (Some TypeString)]
       [clientIDParam, optional ''flavor'' [FromBody] None,
        optional ''createChatMessage'' [FromBody] (Some TypeBoolean), optional ''speaker'' [FromBody] None,
        optional ''whisper'' [FromBody] (Some TypeArray), userIDParam]"

definition encountersGet :: "'h starter \<Rightarrow> 'h route_cfg" where
  "encountersGet auto =
     route_config auto ''encounters''
       []
       [clientIDParam, userIDParam]"

definition startEncounter :: "'h starter \<Rightarrow> 'h route_cfg" where
  "startEncounter auto =
     route_config auto ''start-encounter''
       []
       [clientIDParam, optional ''tokens'' [FromBody] (Some TypeArray),
        optional ''startWithSelected'' [FromBody] (Some TypeBoolean),
        optional ''startWithPlayers'' [FromBody] (Some TypeBoolean),
        optional ''rollNPC'' [FromBody] (Some TypeBoolean), optional ''rollAll'' [FromBody] (Some TypeBoolean),
        optional ''name'' [FromBody] None, userIDParam]"

definition nextTurn :: "'h starter \<Rightarrow> 'h route_cfg" where
  "nextTurn auto = encSimple auto ''next-turn''"

definition nextRound :: "'h starter \<Rightarrow> 'h route_cfg" where
  "nextRound auto = encSimple auto ''next-round''"

definition lastTurn :: "'h starter \<Rightarrow> 'h route_cfg" where
  "lastTurn auto = encSimple auto ''last-turn''"

definition lastRound :: "'h starter \<Rightarrow> 'h route_cfg" where
  "lastRound auto = encSimple auto ''last-round''"

definition endEncounter :: "'h starter \<Rightarrow> 'h route_cfg" where
  "endEncounter auto = encSimple auto ''end-encounter''"

definition addToEncounter :: "'h starter \<Rightarrow> 'h route_cfg" where
  "addToEncounter auto =
     route_config auto ''add-to-encounter''
       []
       [clientIDParam, encounterParam, selectedParam, optional ''uuids'' [FromBody] (Some TypeArray),
        optional ''rollInitiative'' [FromBody] (Some TypeBoolean), userIDParam]"

definition removeFromEncounter :: "'h starter \<Rightarrow> 'h route_cfg" where
  "removeFromEncounter auto =
     route_config auto ''remove-from-encounter''
       []
       [clientIDParam, encounterParam, selectedParam, optional ''uuids'' [FromBody] (Some TypeArray), userIDParam]"

definition macrosGet :: "'h starter \<Rightarrow> 'h route_cfg" where
  "macrosGet auto =
     route_config auto ''macros''
       []
       [clientIDParam, userIDParam]"

definition macroExecute :: "'h starter \<Rightarrow> 'h route_cfg" where
  "macroExecute auto =
     route_config auto ''macro-execute''
       [required ''uuid'' [FromParams] (Some TypeString)]
       [clientIDParam, optional ''args'' [FromBody] (Some TypeObject), userIDParam]"

definition structureGet :: "'h starter \<Rightarrow> 'h route_cfg" where
  "structureGet auto =
     route_config auto ''structure''
       []
       [clientIDParam, optional ''includeEntityData'' [FromQuery] (Some TypeBoolean),
        optional ''path'' [FromQuery] None, optional ''recursive'' [FromQuery] (Some TypeBoolean),
        optional ''recursiveDepth'' [FromQuery] (Some TypeNumber), optional ''types'' [FromQuery] None, userIDParam]"

definition getFolderRoute :: "'h starter \<Rightarrow> 'h route_cfg" where
  "getFolderRoute auto =
     route_config auto ''get-folder''
       [required ''name'' bqParam (Some TypeString)]
       [clientIDParam, userIDParam]"

definition createFolderRoute :: "'h starter \<Rightarrow> 'h route_cfg" where
  "createFolderRoute auto =
     route_config auto ''create-folder''
       [required ''name'' bqParam (Some TypeString), required ''folderType'' bqParam (Some TypeString)]
       [clientIDParam, optional ''parentFolderId'' bqParam None, userIDParam]"

definition deleteFolderRoute :: "'h starter \<Rightarrow> 'h route_cfg" where
  "deleteFolderRoute auto =
     route_config auto ''delete-folder''
       [required ''folderId'' bqParam (Some TypeString)]
       [clientIDParam, optional ''deleteAll'' bqParam (Some TypeBoolean), userIDParam]"

definition selectPost :: "'h starter \<Rightarrow> 'h route_cfg" where
  "selectPost auto =
    (route_config auto ''select''
       []
       [clientIDParam, optional ''uuids'' [FromBody] (Some TypeArray), optional ''name'' [FromBody] None,
        optional ''data'' [FromBody] (Some TypeObject), optional ''overwrite'' [FromBody] (Some TypeBoolean),
        optional ''all'' [FromBody] (Some TypeBoolean), userIDParam])
      \<lparr>ra_ValidateParams := Some selectPost_validate\<rparr>"

definition selectedGet :: "'h starter \<Rightarrow> 'h route_cfg" where
  "selectedGet auto =
     route_config auto ''selected''
       []
       [clientIDParam, userIDParam]"

definition playersGet :: "'h starter \<Rightarrow> 'h route_cfg" where
  "playersGet auto =
     route_config auto ''players''
       []
       [clientIDParam, userIDParam]"

definition executeJsPost :: "'h starter \<Rightarrow> 'h route_cfg" where
  "executeJsPost auto =
    (route_config auto ''execute-js''
       []
       [clientIDParam, optional ''script'' [FromBody] None, userIDParam])
      \<lparr>ra_Timeout := seconds 20,
        ra_ValidateParams := Some executeJsPost_validate\<rparr>"

definition sceneGet :: "'h starter \<Rightarrow> 'h route_cfg" where
  "sceneGet auto =
    (route_config auto ''get-scene''
       []
       [clientIDParam, optional ''sceneId'' [FromQuery] None, optional ''name'' [FromQuery] None,
        optional ''active'' [FromQuery] (Some TypeBoolean), optional ''viewed'' [FromQuery] (Some TypeBoolean),
        optional ''all'' [FromQuery] (Some TypeBoolean), userIDParam])
      \<lparr>ra_ValidateParams := Some sceneGet_validate\<rparr>"

definition sceneCreate :: "'h starter \<Rightarrow> 'h route_cfg" where
  "sceneCreate auto =
    (route_config auto ''create-scene''
       [required ''data'' [FromBody] (Some TypeObject)]
       [clientIDParam, userIDParam])
      \<lparr>ra_Timeout := seconds 30\<rparr>"

definition sceneUpdate :: "'h starter \<Rightarrow> 'h route_cfg" where
  "sceneUpdate auto =
    (route_config auto ''update-scene''
       [required ''data'' [FromBody] (Some TypeObject)]
       [clientIDParam, optional ''sceneId'' bqParam None, optional ''name'' bqParam None,
        optional ''active'' bqParam (Some TypeBoolean), userIDParam])
      \<lparr>ra_Timeout := seconds 30,
        ra_ValidateParams := Some sceneUpdate_validate\<rparr>"

definition sceneDelete :: "'h starter \<Rightarrow> 'h route_cfg" where
  "sceneDelete auto =
    (route_config auto ''delete-scene''
       []
       [clientIDParam, optional ''sceneId'' [FromQuery] None, optional ''name'' [FromQuery] None, userIDParam])
      \<lparr>ra_ValidateParams := Some sceneDelete_validate\<rparr>"

definition switchScene :: "'h starter \<Rightarrow> 'h route_cfg" where
  "switchScene auto =
    (route_config auto ''switch-scene''
       []
       [clientIDParam, optional ''sceneId'' bqParam None, optional ''name'' bqParam None, userIDParam])
      \<lparr>ra_Timeout := seconds 30,
        ra_ValidateParams := Some switchScene_validate\<rparr>"

definition canvasGet :: "'h starter \<Rightarrow> 'h route_cfg" where
  "canvasGet auto =
    (route_config auto ''get-canvas-documents''
       [dtParam]
       [clientIDParam, optional ''sceneId'' [FromQuery] None, optional ''documentId'' [FromQuery] None, userIDParam])
      \<lparr>ra_ValidateParams := Some validateDocType,
        ra_BuildPayload := Some addClassName\<rparr>"

definition canvasCreate :: "'h starter \<Rightarrow> 'h route_cfg" where
  "canvasCreate auto =
    (route_config auto ''create-canvas-document''
       [dtParam, required ''data'' [FromBody] (Some TypeObject)]
       [clientIDParam, optional ''sceneId'' bqParam None, userIDParam])
      \<lparr>ra_Timeout := seconds 30,
        ra_ValidateParams := Some validateDocType,
        ra_BuildPayload := Some addClassName\<rparr>"

definition canvasUpdate :: "'h starter \<Rightarrow> 'h route_cfg" where
  "canvasUpdate auto =
    (route_config auto ''update-canvas-document''
       [dtParam, required ''documentId'' bqParam (Some TypeString), required ''data'' [FromBody] (Some TypeObject)]
       [clientIDParam, optional ''sceneId'' bqParam None, userIDParam])
      \<lparr>ra_Timeout := seconds 30,
        ra_ValidateParams := Some validateDocType,
        ra_BuildPayload := Some addClassName\<rparr>"

definition canvasDelete :: "'h starter \<Rightarrow> 'h route_cfg" where
  "canvasDelete auto =
    (route_config auto ''delete-canvas-document''
       [dtParam, required ''documentId'' [FromQuery] (Some TypeString)]
       [clientIDParam, optional ''sceneId'' [FromQuery] None, userIDParam])
      \<lparr>ra_ValidateParams := Some validateDocType,
        ra_BuildPayload := Some addClassName\<rparr>"

definition chatGet :: "'h starter \<Rightarrow> 'h route_cfg" where
  "chatGet auto =
     route_config auto ''chat-messages''
       []
       [clientIDParam, optional ''limit'' [FromQuery] (Some TypeNumber),
        optional ''offset'' [FromQuery] (Some TypeNumber), userIDParam,
        optional ''chatType'' [FromQuery] (Some TypeNumber), optional ''speaker'' [FromQuery] None]"

definition chatSend :: "'h starter \<Rightarrow> 'h route_cfg" where
  "chatSend auto =
     route_config auto ''chat-send''
       [required ''content'' [FromBody] (Some TypeString)]
       [clientIDParam, optional ''whisper'' [FromBody] (Some TypeArray), optional ''speaker'' [FromBody] None,
        optional ''alias'' [FromBody] None, optional ''chatType'' [FromBody] (Some TypeNumber),
        optional ''flavor'' [FromBody] None, userIDParam]"

definition chatDeleteMsg :: "'h starter \<Rightarrow> 'h route_cfg" where
  "chatDeleteMsg auto =
     route_config auto ''chat-delete''
       [required ''messageId'' [FromParams] (Some TypeString)]
       [clientIDParam, userIDParam]"

definition chatFlush :: "'h starter \<Rightarrow> 'h route_cfg" where
  "chatFlush auto =
     route_config auto ''chat-flush''
       []
       [clientIDParam, userIDParam]"

definition tokenMove :: "'h starter \<Rightarrow> 'h route_cfg" where
  "tokenMove auto =
     route_config auto ''move-token''
       [required ''x'' bqParam (Some TypeNumber), required ''y'' bqParam (Some TypeNumber)]
       [clientIDParam, optional ''uuid'' bqParam (Some TypeString), optional ''name'' bqParam (Some TypeString),
        optional ''waypoints'' bqParam (Some TypeArray), optional ''animate'' bqParam (Some TypeBoolean),
        optional ''sceneId'' bqParam (Some TypeString), userIDParam]"

definition measureDistance :: "'h starter \<Rightarrow> 'h route_cfg" where
  "measureDistance auto =
     route_config auto ''measure-distance''
       []
       [clientIDParam, optional ''originX'' bqParam (Some TypeNumber),
        optional ''originY'' bqParam (Some TypeNumber), optional ''targetX'' bqParam (Some TypeNumber),
        optional ''targetY'' bqParam (Some TypeNumber), optional ''originUuid'' bqParam (Some TypeString),
        optional ''originName'' bqParam (Some TypeString), optional ''targetUuid'' bqParam (Some TypeString),
        optional ''targetName'' bqParam (Some TypeString), optional ''sceneId'' bqParam (Some TypeString),
        userIDParam]"

definition sceneRawImage :: "'h starter \<Rightarrow> 'h route_cfg" where
  "sceneRawImage auto =
    (route_config auto ''scene-raw-image''
       []
       [clientIDParam, optional ''sceneId'' bqParam (Some TypeString),
        optional ''active'' bqParam (Some TypeBoolean), userIDParam])
      \<lparr>ra_Timeout := seconds 30,
        ra_BuildPendingRequest := Some sceneRawImage_pending\<rparr>"

definition worldInfoGet :: "'h starter \<Rightarrow> 'h route_cfg" where
  "worldInfoGet auto =
     route_config auto ''world-info''
       []
       [clientIDParam, userIDParam]"

definition statusEffectsGet :: "'h starter \<Rightarrow> 'h route_cfg" where
  "statusEffectsGet auto =
     route_config auto ''get-status-effects''
       []
       [clientIDParam, userIDParam]"

definition effectsGet :: "'h starter \<Rightarrow> 'h route_cfg" where
  "effectsGet auto =
     route_config auto ''get-effects''
       [required ''uuid'' bqParam (Some TypeString)]
       [clientIDParam, userIDParam]"

definition effectsAdd :: "'h starter \<Rightarrow> 'h route_cfg" where
  "effectsAdd auto =
     route_config auto ''add-effect''
       [required ''uuid'' bqParam (Some TypeString)]
       [clientIDParam, optional ''statusId'' bqParam None, optional ''effectData'' bqParam (Some TypeObject),
        userIDParam]"

definition effectsRemove :: "'h starter \<Rightarrow> 'h route_cfg" where
  "effectsRemove auto =
     route_config auto ''remove-effect''
       [required ''uuid'' bqParam (Some TypeString)]
       [clientIDParam, optional ''effectId'' bqParam None, optional ''statusId'' bqParam None, userIDParam]"

definition fileSystemGet :: "'h starter \<Rightarrow> 'h route_cfg" where
  "fileSystemGet auto =
    (route_config auto ''file-system''
       []
       [clientIDParam, optional ''path'' [FromQuery] None, optional ''source'' [FromQuery] None,
        optional ''recursive'' [FromQuery] (Some TypeBoolean), userIDParam])
      \<lparr>ra_Timeout := seconds 15\<rparr>"

definition downloadFileGet :: "'h starter \<Rightarrow> 'h route_cfg" where
  "downloadFileGet auto =
    (route_config auto ''download-file''
       []
       [clientIDParam, optional ''path'' [FromQuery] None, optional ''source'' [FromQuery] None,
        optional ''format'' [FromQuery] None, userIDParam])
      \<lparr>ra_Timeout := seconds 45,
        ra_BuildPendingRequest := Some downloadFileGet_pending\<rparr>"

definition playlistsGet :: "'h starter \<Rightarrow> 'h route_cfg" where
  "playlistsGet auto =
     route_config auto ''get-playlists''
       []
       [clientIDParam, userIDParam]"

definition playlistPlay :: "'h starter \<Rightarrow> 'h route_cfg" where
  "playlistPlay auto =
     route_config auto ''playlist-play''
       []
       [clientIDParam, optional ''playlistId'' bqParam (Some TypeString),
        optional ''playlistName'' bqParam (Some TypeString), optional ''soundId'' bqParam (Some TypeString),
        optional ''soundName'' bqParam (Some TypeString), userIDParam]"

definition playlistStop :: "'h starter \<Rightarrow> 'h route_cfg" where
  "playlistStop auto =
     route_config auto ''playlist-stop''
       []
       [clientIDParam, optional ''playlistId'' bqParam (Some TypeString),
        optional ''playlistName'' bqParam (Some TypeString), userIDParam]"

definition playlistNext :: "'h starter \<Rightarrow> 'h route_cfg" where
  "playlistNext auto =
     route_config auto ''playlist-next''
       []
       [clientIDParam, optional ''playlistId'' bqParam (Some TypeString),
        optional ''playlistName'' bqParam (Some TypeString), userIDParam]"

definition playlistVolume :: "'h starter \<Rightarrow> 'h route_cfg" where
  "playlistVolume auto =
     route_config auto ''playlist-volume''
       [required ''volume'' bqParam (Some TypeNumber)]
       [clientIDParam, optional ''playlistId'' bqParam (Some TypeString),
        optional ''playlistName'' bqParam (Some TypeString), optional ''soundId'' bqParam (Some TypeString),
        optional ''soundName'' bqParam (Some TypeString), userIDParam]"

definition soundStop :: "'h starter \<Rightarrow> 'h route_cfg" where
  "soundStop auto =
     route_config auto ''stop-sound''
       []
       [clientIDParam, optional ''src'' bqParam (Some TypeString), userIDParam]"

definition soundPlay :: "'h starter \<Rightarrow> 'h route_cfg" where
  "soundPlay auto =
     route_config auto ''play-sound''
       [required ''src'' bqParam (Some TypeString)]
       [clientIDParam, optional ''volume'' bqParam (Some TypeNumber), optional ''loop'' bqParam (Some TypeBoolean),
        userIDParam]"

definition usersGet :: "'h starter \<Rightarrow> 'h route_cfg" where
  "usersGet auto =
     route_config auto ''get-users''
       []
       [clientIDParam, userIDParam]"

definition userGet :: "'h starter \<Rightarrow> 'h route_cfg" where
  "userGet auto =
    (route_config auto ''get-user''
       []
       [clientIDParam, optional ''id'' [FromQuery] (Some TypeString),
        optional ''name'' [FromQuery] (Some TypeString), userIDParam])
      \<lparr>ra_ValidateParams := Some userGet_validate\<rparr>"

definition userCreate :: "'h starter \<Rightarrow> 'h route_cfg" where
  "userCreate auto =
     route_config auto ''create-user''
       [required ''name'' [FromBody] (Some TypeString)]
       [clientIDParam, optional ''role'' [FromBody] (Some TypeNumber),
        optional ''password'' [FromBody] (Some TypeString), userIDParam]"

definition userUpdate :: "'h starter \<Rightarrow> 'h route_cfg" where
  "userUpdate auto =
    (route_config auto ''update-user''
       [required ''data'' [FromBody] (Some TypeObject)]
       [clientIDParam, optional ''id'' bqParam (Some TypeString), optional ''name'' bqParam (Some TypeString),
        userIDParam])
      \<lparr>ra_ValidateParams := Some userUpdate_validate\<rparr>"

definition userDelete :: "'h starter \<Rightarrow> 'h route_cfg" where
  "userDelete auto =
    (route_config auto ''delete-user''
       []
       [clientIDParam, optional ''id'' [FromQuery] (Some TypeString),
        optional ''name'' [FromQuery] (Some TypeString), userIDParam])
      \<lparr>ra_ValidateParams := Some userDelete_validate\<rparr>"

subsection \<open>Dungeons and Dragons\<close>

definition actorUuid :: ParamDef where
  "actorUuid = required ''actorUuid'' bqParam (Some TypeString)"

definition optActorUuid :: ParamDef where
  "optActorUuid = optional ''actorUuid'' bqParam (Some TypeString)"

definition abilityParams :: "ParamDef list" where
  "abilityParams =
     [clientIDParam, optional ''abilityUuid'' bqParam (Some TypeString), optional ''abilityName'' bqParam (Some TypeString),
      optional ''targetUuid'' bqParam (Some TypeString), optional ''targetName'' bqParam (Some TypeString), userIDParam]"

definition rollOptions :: "ParamDef list" where
  "rollOptions =
     [optional ''advantage'' bqParam (Some TypeBoolean), optional ''disadvantage'' bqParam (Some TypeBoolean),
      optional ''bonus'' bqParam (Some TypeString), optional ''createChatMessage'' bqParam (Some TypeBoolean)]"

definition actorNameParam :: ParamDef where
  "actorNameParam = optional ''actorName'' bqParam (Some TypeString)"

definition itemUuidParam :: ParamDef where
  "itemUuidParam = optional ''itemUuid'' bqParam (Some TypeString)"

definition itemNameParam :: ParamDef where
  "itemNameParam = optional ''itemName'' bqParam (Some TypeString)"

definition dnd_get_actor_details :: "'h starter \<Rightarrow> 'h route_cfg" where
  "dnd_get_actor_details auto =
     route_config auto ''get-actor-details''
       [actorUuid, required ''details'' bqParam (Some TypeArray)]
       [clientIDParam, userIDParam]"

definition dnd_modify_item_charges :: "'h starter \<Rightarrow> 'h route_cfg" where
  "dnd_modify_item_charges auto =
     route_config auto ''modify-item-charges''
       [actorUuid, required ''amount'' bqParam (Some TypeNumber)]
       [clientIDParam, optional ''itemUuid'' bqParam (Some TypeString),
        optional ''itemName'' bqParam (Some TypeString), userIDParam]"

definition dnd_use :: "'h starter \<Rightarrow> string \<Rightarrow> 'h route_cfg" where
  "dnd_use auto t =
     route_config auto t
       [actorUuid]
       abilityParams"

definition dnd_short_rest :: "'h starter \<Rightarrow> 'h route_cfg" where
  "dnd_short_rest auto =
     route_config auto ''short-rest''
       []
       [clientIDParam, optActorUuid, selectedParam, optional ''autoHD'' bqParam (Some TypeBoolean),
        optional ''autoHDThreshold'' bqParam (Some TypeNumber), userIDParam]"

definition dnd_long_rest :: "'h starter \<Rightarrow> 'h route_cfg" where
  "dnd_long_rest auto =
     route_config auto ''long-rest''
       []
       [clientIDParam, optActorUuid, selectedParam, optional ''newDay'' bqParam (Some TypeBoolean), userIDParam]"

definition dnd_skill_check :: "'h starter \<Rightarrow> 'h route_cfg" where
  "dnd_skill_check auto =
     route_config auto ''skill-check''
       [actorUuid, required ''skill'' bqParam (Some TypeString)]
       ([clientIDParam, userIDParam] @ rollOptions)"

definition dnd_ability_save :: "'h starter \<Rightarrow> 'h route_cfg" where
  "dnd_ability_save auto =
     route_config auto ''ability-save''
       [actorUuid, required ''ability'' bqParam (Some TypeString)]
       ([clientIDParam, userIDParam] @ rollOptions)"

definition dnd_ability_check :: "'h starter \<Rightarrow> 'h route_cfg" where
  "dnd_ability_check auto =
     route_config auto ''ability-check''
       [actorUuid, required ''ability'' bqParam (Some TypeString)]
       ([clientIDParam, userIDParam] @ rollOptions)"

definition dnd_death_save :: "'h starter \<Rightarrow> 'h route_cfg" where
  "dnd_death_save auto =
     route_config auto ''death-save''
       [actorUuid]
       [clientIDParam, optional ''advantage'' bqParam (Some TypeBoolean),
        optional ''createChatMessage'' bqParam (Some TypeBoolean), userIDParam]"

definition dnd_modify_experience :: "'h starter \<Rightarrow> 'h route_cfg" where
  "dnd_modify_experience auto =
     route_config auto ''modify-experience''
       [required ''amount'' bqParam (Some TypeNumber)]
       [clientIDParam, optActorUuid, selectedParam, userIDParam]"

definition dnd_concentration :: "'h starter \<Rightarrow> 'h route_cfg" where
  "dnd_concentration auto =
     route_config auto ''get-concentration''
       []
       [clientIDParam, optActorUuid, actorNameParam, userIDParam]"

definition dnd_break_concentration :: "'h starter \<Rightarrow> 'h route_cfg" where
  "dnd_break_concentration auto =
     route_config auto ''break-concentration''
       []
       [clientIDParam, optActorUuid, actorNameParam, userIDParam]"

definition dnd_concentration_save :: "'h starter \<Rightarrow> 'h route_cfg" where
  "dnd_concentration_save auto =
     route_config auto ''concentration-save''
       [required ''damage'' bqParam (Some TypeNumber)]
       ([clientIDParam, optActorUuid, actorNameParam, userIDParam] @ rollOptions)"

definition dnd_equip_item :: "'h starter \<Rightarrow> 'h route_cfg" where
  "dnd_equip_item auto =
     route_config auto ''equip-item''
       [required ''equipped'' bqParam (Some TypeBoolean)]
       [clientIDParam, optActorUuid, actorNameParam, itemUuidParam, itemNameParam, userIDParam]"

definition dnd_attune_item :: "'h starter \<Rightarrow> 'h route_cfg" where
  "dnd_attune_item auto =
     route_config auto ''attune-item''
       [required ''attuned'' bqParam (Some TypeBoolean)]
       [clientIDParam, optActorUuid, actorNameParam, itemUuidParam, itemNameParam, userIDParam]"

definition dnd_transfer_currency :: "'h starter \<Rightarrow> 'h route_cfg" where
  "dnd_transfer_currency auto =
     route_config auto ''transfer-currency''
       [required ''currency'' bqParam (Some TypeObject)]
       [clientIDParam, optional ''sourceActorUuid'' bqParam (Some TypeString),
        optional ''sourceActorName'' bqParam (Some TypeString),
        optional ''targetActorUuid'' bqParam (Some TypeString),
        optional ''targetActorName'' bqParam (Some TypeString), userIDParam]"

definition dnd_modify_currency :: "'h starter \<Rightarrow> 'h route_cfg" where
  "dnd_modify_currency auto =
     route_config auto ''modify-currency''
       [actorUuid, required ''currency'' bqParam (Some TypeString), required ''amount'' bqParam (Some TypeNumber)]
       [clientIDParam, userIDParam]"

definition dnd_prepare_spell :: "'h starter \<Rightarrow> 'h route_cfg" where
  "dnd_prepare_spell auto =
     route_config auto ''prepare-spell''
       [actorUuid, required ''spellName'' bqParam (Some TypeString),
        required ''prepared'' bqParam (Some TypeBoolean)]
       [clientIDParam, userIDParam]"

subsection \<open>The table of routes\<close>

text \<open>A route without declaration has a handler of its own: a stream of events, an upload, a screenshot, a
  session, the list of clients or the deprecated one.\<close>

record 'h endpoint =
  ep_Method :: string
  ep_Path :: string
  ep_Scope :: string
  ep_Config :: "'h route_cfg option"

definition endpoint :: "string \<Rightarrow> string \<Rightarrow> string \<Rightarrow> 'h route_cfg option \<Rightarrow> 'h endpoint" where
  "endpoint method path scope cfg = \<lparr>ep_Method = method, ep_Path = path, ep_Scope = scope, ep_Config = cfg\<rparr>"

definition Dnd5eRouter :: "'h starter \<Rightarrow> (string \<times> string \<times> 'h route_cfg) list" where
  "Dnd5eRouter auto =
     [(''GET'', ''/get-actor-details'', dnd_get_actor_details auto),
      (''POST'', ''/modify-item-charges'', dnd_modify_item_charges auto),
      (''POST'', ''/use-ability'', dnd_use auto ''use-ability''),
      (''POST'', ''/use-feature'', dnd_use auto ''use-feature''),
      (''POST'', ''/use-spell'', dnd_use auto ''use-spell''),
      (''POST'', ''/use-item'', dnd_use auto ''use-item''),
      (''POST'', ''/short-rest'', dnd_short_rest auto),
      (''POST'', ''/long-rest'', dnd_long_rest auto),
      (''POST'', ''/skill-check'', dnd_skill_check auto),
      (''POST'', ''/ability-save'', dnd_ability_save auto),
      (''POST'', ''/ability-check'', dnd_ability_check auto),
      (''POST'', ''/death-save'', dnd_death_save auto),
      (''POST'', ''/modify-experience'', dnd_modify_experience auto),
      (''GET'', ''/concentration'', dnd_concentration auto),
      (''POST'', ''/break-concentration'', dnd_break_concentration auto),
      (''POST'', ''/concentration-save'', dnd_concentration_save auto),
      (''POST'', ''/equip-item'', dnd_equip_item auto),
      (''POST'', ''/attune-item'', dnd_attune_item auto),
      (''POST'', ''/transfer-currency'', dnd_transfer_currency auto),
      (''POST'', ''/modify-currency'', dnd_modify_currency auto),
      (''POST'', ''/prepare-spell'', dnd_prepare_spell auto)]"

definition api_routes :: "'h starter \<Rightarrow> 'h endpoint list" where
  "api_routes auto =
     [endpoint ''GET'' ''/get'' ScopeEntityRead (Some (entityGet auto)),
      endpoint ''POST'' ''/create'' ScopeEntityWrite (Some (entityCreate auto)),
      endpoint ''PUT'' ''/update'' ScopeEntityWrite (Some (entityUpdate auto)),
      endpoint ''DELETE'' ''/delete'' ScopeEntityWrite (Some (entityDelete auto)),
      endpoint ''POST'' ''/give'' ScopeEntityWrite (Some (entityGive auto)),
      endpoint ''POST'' ''/remove'' ScopeEntityWrite (Some (entityRemove auto)),
      endpoint ''POST'' ''/decrease'' ScopeEntityWrite (Some (entityDecrease auto)),
      endpoint ''POST'' ''/increase'' ScopeEntityWrite (Some (entityIncrease auto)),
      endpoint ''POST'' ''/kill'' ScopeEntityWrite (Some (entityKill auto)),
      endpoint ''GET'' ''/search'' ScopeSearch (Some (searchGet auto)),
      endpoint ''GET'' ''/rolls'' ScopeRollRead (Some (rollsGet auto)),
      endpoint ''GET'' ''/lastroll'' ScopeRollRead (Some (lastRollGet auto)),
      endpoint ''POST'' ''/roll'' ScopeRollExecute (Some (rollPost auto)),
      endpoint ''GET'' ''/rolls/subscribe'' ScopeEventsSubscribe None,
      endpoint ''GET'' ''/encounters'' ScopeEncounterRead (Some (encountersGet auto)),
      endpoint ''POST'' ''/start-encounter'' ScopeEncounterManage (Some (startEncounter auto)),
      endpoint ''POST'' ''/next-turn'' ScopeEncounterManage (Some (nextTurn auto)),
      endpoint ''POST'' ''/next-round'' ScopeEncounterManage (Some (nextRound auto)),
      endpoint ''POST'' ''/last-turn'' ScopeEncounterManage (Some (lastTurn auto)),
      endpoint ''POST'' ''/last-round'' ScopeEncounterManage (Some (lastRound auto)),
      endpoint ''POST'' ''/end-encounter'' ScopeEncounterManage (Some (endEncounter auto)),
      endpoint ''POST'' ''/add-to-encounter'' ScopeEncounterManage (Some (addToEncounter auto)),
      endpoint ''POST'' ''/remove-from-encounter'' ScopeEncounterManage (Some (removeFromEncounter auto)),
      endpoint ''GET'' ''/macros'' ScopeMacroList (Some (macrosGet auto)),
      endpoint ''POST'' ''/macro/{uuid}/execute'' ScopeMacroExecute (Some (macroExecute auto)),
      endpoint ''GET'' ''/structure'' ScopeStructureRead (Some (structureGet auto)),
      endpoint ''GET'' ''/contents/*'' ScopeStructureRead None,
      endpoint ''GET'' ''/get-folder'' ScopeStructureRead (Some (getFolderRoute auto)),
      endpoint ''POST'' ''/create-folder'' ScopeStructureWrite (Some (createFolderRoute auto)),
      endpoint ''DELETE'' ''/delete-folder'' ScopeStructureWrite (Some (deleteFolderRoute auto)),
      endpoint ''POST'' ''/select'' ScopeEntityRead (Some (selectPost auto)),
      endpoint ''GET'' ''/selected'' ScopeEntityRead (Some (selectedGet auto)),
      endpoint ''GET'' ''/players'' ScopeEntityRead (Some (playersGet auto)),
      endpoint ''POST'' ''/execute-js'' ScopeExecuteJS (Some (executeJsPost auto)),
      endpoint ''GET'' ''/users'' ScopeUserRead (Some (usersGet auto)),
      endpoint ''GET'' ''/user'' ScopeUserRead (Some (userGet auto)),
      endpoint ''POST'' ''/user'' ScopeUserWrite (Some (userCreate auto)),
      endpoint ''PUT'' ''/user'' ScopeUserWrite (Some (userUpdate auto)),
      endpoint ''DELETE'' ''/user'' ScopeUserWrite (Some (userDelete auto)),
      endpoint ''GET'' ''/scene'' ScopeSceneRead (Some (sceneGet auto)),
      endpoint ''GET'' ''/scene/image'' ScopeSceneRead None,
      endpoint ''GET'' ''/scene/image/raw'' ScopeSceneRead (Some (sceneRawImage auto)),
      endpoint ''POST'' ''/scene'' ScopeSceneWrite (Some (sceneCreate auto)),
      endpoint ''PUT'' ''/scene'' ScopeSceneWrite (Some (sceneUpdate auto)),
      endpoint ''DELETE'' ''/scene'' ScopeSceneWrite (Some (sceneDelete auto)),
      endpoint ''POST'' ''/switch-scene'' ScopeSceneWrite (Some (switchScene auto)),
      endpoint ''GET'' ''/canvas/{documentType}'' ScopeCanvasRead (Some (canvasGet auto)),
      endpoint ''GET'' ''/measure-distance'' ScopeCanvasRead (Some (measureDistance auto)),
      endpoint ''POST'' ''/canvas/{documentType}'' ScopeCanvasWrite (Some (canvasCreate auto)),
      endpoint ''PUT'' ''/canvas/{documentType}'' ScopeCanvasWrite (Some (canvasUpdate auto)),
      endpoint ''DELETE'' ''/canvas/{documentType}'' ScopeCanvasWrite (Some (canvasDelete auto)),
      endpoint ''POST'' ''/move-token'' ScopeCanvasWrite (Some (tokenMove auto)),
      endpoint ''GET'' ''/chat'' ScopeChatRead (Some (chatGet auto)),
      endpoint ''POST'' ''/chat'' ScopeChatWrite (Some (chatSend auto)),
      endpoint ''DELETE'' ''/chat/{messageId}'' ScopeChatWrite (Some (chatDeleteMsg auto)),
      endpoint ''DELETE'' ''/chat'' ScopeChatWrite (Some (chatFlush auto)),
      endpoint ''GET'' ''/chat/subscribe'' ScopeEventsSubscribe None,
      endpoint ''GET'' ''/effects'' ScopeEffectsRead (Some (effectsGet auto)),
      endpoint ''GET'' ''/effects/list'' ScopeEffectsRead (Some (statusEffectsGet auto)),
      endpoint ''POST'' ''/effects'' ScopeEffectsWrite (Some (effectsAdd auto)),
      endpoint ''DELETE'' ''/effects'' ScopeEffectsWrite (Some (effectsRemove auto)),
      endpoint ''GET'' ''/world-info'' ScopeWorldInfo (Some (worldInfoGet auto)),
      endpoint ''GET'' ''/playlists'' ScopePlaylistControl (Some (playlistsGet auto)),
      endpoint ''POST'' ''/playlist/play'' ScopePlaylistControl (Some (playlistPlay auto)),
      endpoint ''POST'' ''/playlist/stop'' ScopePlaylistControl (Some (playlistStop auto)),
      endpoint ''POST'' ''/playlist/next'' ScopePlaylistControl (Some (playlistNext auto)),
      endpoint ''POST'' ''/playlist/volume'' ScopePlaylistControl (Some (playlistVolume auto)),
      endpoint ''POST'' ''/play-sound'' ScopePlaylistControl (Some (soundPlay auto)),
      endpoint ''POST'' ''/stop-sound'' ScopePlaylistControl (Some (soundStop auto)),
      endpoint ''GET'' ''/clients'' ScopeClientsRead None,
      endpoint ''GET'' ''/file-system'' ScopeFileRead (Some (fileSystemGet auto)),
      endpoint ''GET'' ''/download'' ScopeFileRead (Some (downloadFileGet auto)),
      endpoint ''POST'' ''/upload'' ScopeFileWrite None,
      endpoint ''GET'' ''/sheet'' ScopeSheetRead None,
      endpoint ''POST'' ''/session-handshake'' ScopeSessionManage None,
      endpoint ''POST'' ''/start-session'' ScopeSessionManage None,
      endpoint ''DELETE'' ''/end-session'' ScopeSessionManage None,
      endpoint ''GET'' ''/session'' ScopeSessionManage None,
      endpoint ''GET'' ''/hooks/subscribe'' ScopeEventsSubscribe None,
      endpoint ''GET'' ''/encounters/subscribe'' ScopeEventsSubscribe None,
      endpoint ''GET'' ''/actor/subscribe'' ScopeEventsSubscribe None,
      endpoint ''GET'' ''/scene/subscribe'' ScopeEventsSubscribe None] @
     map (\<lambda>(m, p, c). endpoint m (''/dnd5e'' @ p) ScopeDnd5e (Some c)) (Dnd5eRouter auto)"

definition contentsDeprecated :: answer where
  "contentsDeprecated =
     (400, [(''error'', JStr ''This endpoint has been deprecated.''),
            (''message'', JStr ''Use GET /structure with the path query parameter instead.''),
            (''example'', JStr ''/structure?path=your/path&recursive=true'')])"

text \<open>The middleware of the group that turns sessions away, then the one of the route.\<close>

definition needs_scoped_key :: "req_context option \<Rightarrow> scope_decision" where
  "needs_scoped_key ctx =
     (if ctx \<noteq> None \<and> scoped_key ctx = None
      then ScopeDeny 401 ''A scoped API key is required for API calls. Create one from your dashboard.''
      else ScopePass)"

definition api_gate :: "string \<Rightarrow> req_context option \<Rightarrow> scope_decision" where
  "api_gate scope ctx =
     (case needs_scoped_key ctx of
        ScopeDeny n msg \<Rightarrow> ScopeDeny n msg
      | ScopePass \<Rightarrow> RequireScope scope (map_option rc_ScopedKey ctx))"

definition serve_endpoint ::
    "parsers \<Rightarrow> string \<Rightarrow> 'h route_cfg \<Rightarrow> gotime \<Rightarrow> api_request \<Rightarrow> 'h route_state \<Rightarrow> route_step \<times> 'h route_state" where
  "serve_endpoint ps scope cfg now r s =
     (case api_gate scope (aq_context r) of
        ScopeDeny n msg \<Rightarrow> (Answered (WriteError (int n) msg), s)
      | ScopePass \<Rightarrow> api_send ps cfg now r s)"

subsection \<open>After a message was sent\<close>

definition ctx_key_id :: "req_context \<Rightarrow> int" where
  "ctx_key_id c = (case rc_ScopedKey c of None \<Rightarrow> 0 | Some k \<Rightarrow> sk_ID k)"

definition log_forward :: "gotime \<Rightarrow> int \<Rightarrow> string \<Rightarrow> string \<Rightarrow> string \<Rightarrow> srv_state \<Rightarrow> srv_state" where
  "log_forward now uid clientID event desc s =
     s\<lparr>sv_db := snd (me_Create now
         \<lparr>me_ID = 0, me_UserID = uid, me_ClientID = clientID, me_WorldTitle = [], me_EventType = event, me_Actor = [],
          me_Description = desc, me_CreatedAt = zero_time\<rparr> (sv_db s))\<rparr>"

definition macroExecute_after :: "srv_env \<Rightarrow> gotime \<Rightarrow> req_context option \<Rightarrow> string \<Rightarrow> obj \<Rightarrow> srv_state \<Rightarrow> srv_state" where
  "macroExecute_after env now ctx clientID params s =
     (case ctx of None \<Rightarrow> s
      | Some c \<Rightarrow>
     (case rc_User c of None \<Rightarrow> s
      | Some user \<Rightarrow>
          (let uuid = params_GetString params ''uuid''
           in log_forward now (us_ID user) clientID ''macro-execute'' uuid
                (sv_dispatch env now
                   (blank_notification\<lparr>nc_Event := ''macro-execute'', nc_UserID := us_ID user, nc_ApiKeyID := ctx_key_id c,
                      nc_ClientID := clientID, nc_Description := ''**Macro UUID:** `'' @ uuid @ ''`''\<rparr>) s))))"

text \<open>The snippet is cut after 100 bytes and gets the three bytes of an ellipsis.\<close>

definition js_snippet :: "string \<Rightarrow> string" where
  "js_snippet script =
     (if length script > 100 then take 100 script @ [CHR 0xE2, CHR 0x80, CHR 0xA6] else script)"

definition executeJs_after :: "srv_env \<Rightarrow> gotime \<Rightarrow> req_context option \<Rightarrow> string \<Rightarrow> obj \<Rightarrow> srv_state \<Rightarrow> srv_state" where
  "executeJs_after env now ctx clientID params s =
     (case ctx of None \<Rightarrow> s
      | Some c \<Rightarrow>
     (case rc_User c of None \<Rightarrow> s
      | Some user \<Rightarrow>
          (let snippet = js_snippet (params_GetString params ''script'');
               s1 = s\<lparr>sv_alerts := track_and_fire now (ve_alertsDB env) (''execjs:'' @ int_text (us_ID user)) 50 (minutes 5) (minutes 30)
                        (warning ''execute_js_burst'' ''execute-js called 50+ times in 5 minutes''
                           [(''userId'', JNum (us_ID user)), (''clientId'', JStr clientID)]) (sv_alerts s)\<rparr>
           in log_forward now (us_ID user) clientID ''execute-js'' snippet
                (sv_dispatch env now
                   (blank_notification\<lparr>nc_Event := ''execute-js'', nc_UserID := us_ID user, nc_ApiKeyID := ctx_key_id c,
                      nc_ClientID := clientID, nc_Description := ''```js'' @ newline @ snippet @ newline @ ''```''\<rparr>) s1))))"

end
