(* ===== verification/EndpointRules.thy ===== *)
theory EndpointRules
  imports Endpoints
begin

text \<open>
  What the REST endpoints keep to, over the table of \<open>Endpoints\<close>: the scope a request needs, the parameters that
  reach the module, the checks of scripts and canvas documents; and where the table departs from its comments.
\<close>

subsection \<open>A message that was sent\<close>

text \<open>The message that a request put into the queue of a module, the last thing it did to the registry.\<close>

definition sent_message :: "'h route_state \<Rightarrow> obj \<Rightarrow> bool" where
  "sent_message s' payload \<longleftrightarrow> (\<exists>ref m. send_to ref (JObj payload) m = (True, rt_manager s'))"

lemma aget_filter_keys: "aget (filter (\<lambda>kv. P (fst kv)) m) k = (if P k then aget m k else None)"
  by (induction m) auto

lemma bind_client_keeps:
  "bind_client ctx p = Inr p' \<Longrightarrow> k \<noteq> ''clientId'' \<Longrightarrow> aget p' k = aget p k"
  by (auto simp: bind_client_def Let_def aget_aput split: option.splits if_splits)

lemma resolve_client_keeps:
  "resolve_client cfg ctx p m = (Inr (cid, p'), m') \<Longrightarrow> k \<noteq> ''clientId'' \<Longrightarrow> aget p' k = aget p k"
  by (auto simp: resolve_client_def Let_def aget_aput split: option.splits if_splits list.splits prod.splits)

lemma inject_user_keeps: "k \<noteq> ''userId'' \<Longrightarrow> aget (inject_user ctx cid p) k = aget p k"
  by (auto simp: inject_user_def aget_aput split: option.splits)

lemma find_client_keeps:
  "find_client cfg ctx cid p m = ((Some ref, cid', p'), m') \<Longrightarrow> k \<noteq> ''clientId'' \<Longrightarrow> aget p' k = aget p k"
  by (auto simp: find_client_def Let_def aget_aput split: option.splits if_splits prod.splits)

lemma api_send_sent:
  assumes "api_send ps cfg now r s = (Waiting rid ch cid, s')"
  obtains params params3 where
    "ExtractParams ps r (if aq_method r \<noteq> ''GET'' then aq_body r else None) (ra_RequiredParams cfg @ ra_OptionalParams cfg) [] = Inr params"
    "ValidateRequired params (ra_RequiredParams cfg) = None"
    "\<forall>f. ra_ValidateParams cfg = Some f \<longrightarrow> f (aq_context r) params = None"
    "\<forall>k. k \<noteq> ''clientId'' \<longrightarrow> k \<noteq> ''userId'' \<longrightarrow> aget params3 k = aget params k"
    "rid = request_id now (ra_Type cfg)"
    "sent_message s' (build_payload cfg (aq_context r) rid params3)"
proof -
  obtain params where
      p: "ExtractParams ps r (if aq_method r \<noteq> ''GET'' then aq_body r else None) (ra_RequiredParams cfg @ ra_OptionalParams cfg) [] = Inr params"
    and v: "ValidateRequired params (ra_RequiredParams cfg) = None"
      "(case ra_ValidateParams cfg of None \<Rightarrow> None | Some f \<Rightarrow> f (aq_context r) params) = None"
    and rest: "\<exists>params1 params2 cid0 m1 ref params3 m2 m3. bind_client (aq_context r) params = Inr params1 \<and>
      resolve_client cfg (aq_context r) params1 (rt_manager s) = (Inr (cid0, params2), m1) \<and>
      find_client cfg (aq_context r) cid0 (inject_user (aq_context r) cid0 params2) m1 = ((Some ref, cid, params3), m2) \<and>
      rid = request_id now (ra_Type cfg) \<and>
      send_to ref (JObj (build_payload cfg (aq_context r) rid params3)) m2 = (True, m3) \<and> rt_manager s' = m3"
    using assms by (auto simp: api_send_def Let_def split: sum.splits option.splits prod.splits if_splits)
  from rest obtain params1 params2 cid0 m1 ref params3 m2 where
      b: "bind_client (aq_context r) params = Inr params1"
    and res: "resolve_client cfg (aq_context r) params1 (rt_manager s) = (Inr (cid0, params2), m1)"
    and f: "find_client cfg (aq_context r) cid0 (inject_user (aq_context r) cid0 params2) m1 = ((Some ref, cid, params3), m2)"
    and "rid = request_id now (ra_Type cfg)"
      "send_to ref (JObj (build_payload cfg (aq_context r) rid params3)) m2 = (True, rt_manager s')"
    by blast
  moreover have "aget params3 k = aget params k" if "k \<noteq> ''clientId''" "k \<noteq> ''userId''" for k
    using find_client_keeps [OF f that(1)] inject_user_keeps [OF that(2)] resolve_client_keeps [OF res that(1)]
      bind_client_keeps [OF b that(1)] by simp
  ultimately have keep: "\<And>k. k \<noteq> ''clientId'' \<Longrightarrow> k \<noteq> ''userId'' \<Longrightarrow> aget params3 k = aget params k"
    and rid: "rid = request_id now (ra_Type cfg)" and "sent_message s' (build_payload cfg (aq_context r) rid params3)"
    unfolding sent_message_def by blast+
  moreover have "f (aq_context r) params = None" if "ra_ValidateParams cfg = Some f" for f using v(2) that by simp
  ultimately show ?thesis using that [OF p v(1)] by blast
qed

lemma build_payload_type: "aget (build_payload cfg ctx rid p) ''type'' = Some (JStr (ra_Type cfg))"
  by (simp add: build_payload_def Let_def aget_aput split: option.splits)

lemma build_payload_scopes:
  "scoped_key ctx = Some k \<Longrightarrow> aget (build_payload cfg ctx rid p) ''_scopes'' = Some (jstrs (sk_Scopes k))"
  by (simp add: build_payload_def Let_def aget_aput)

text \<open>The keys that \<open>CreateAPIRoute\<close> itself writes.\<close>

definition reserved :: "string list" where
  "reserved = [''clientId'', ''userId'', ''type'', ''requestId'', ''_scopes'', ''className'']"

lemma build_payload_param:
  assumes "aget p k = Some v" and "k \<notin> set reserved" and "ra_BuildPayload cfg = None \<or> ra_BuildPayload cfg = Some addClassName"
  shows "aget (build_payload cfg ctx rid p) k = Some v"
proof -
  let ?p0 = "case ra_BuildPayload cfg of Some f \<Rightarrow> f p | None \<Rightarrow> filter (\<lambda>kv. fst kv \<noteq> ''clientId'' \<and> fst kv \<noteq> ''type'') p"
  have k: "k \<noteq> ''clientId''" "k \<noteq> ''type''" "k \<noteq> ''requestId''" "k \<noteq> ''_scopes''" "k \<noteq> ''className''"
    using assms(2) by (auto simp: reserved_def)
  have f: "aget (filter (\<lambda>kv. fst kv \<noteq> ''clientId'' \<and> fst kv \<noteq> ''type'') p) k = Some v"
    using assms(1) k(1,2) aget_filter_keys [of "\<lambda>x. x \<noteq> ''clientId'' \<and> x \<noteq> ''type''" p k] by simp
  have p0: "aget ?p0 k = Some v"
    using assms(3) f k(5) by (elim disjE) (simp_all add: addClassName_def aget_aput)
  let ?p1 = "aput ''requestId'' (JStr rid) (aput ''type'' (JStr (ra_Type cfg)) ?p0)"
  have p2: "aget (case scoped_key ctx of None \<Rightarrow> ?p1 | Some k \<Rightarrow> aput ''_scopes'' (jstrs (sk_Scopes k)) ?p1) k = Some v"
    using p0 k by (cases "scoped_key ctx") (simp_all add: aget_aput)
  show ?thesis
    using p2 unfolding build_payload_def Let_def by (cases "k = ''data''") (simp_all add: aget_aput)
qed

subsection \<open>Scopes\<close>

lemma api_gate_pass:
  assumes "api_gate scope ctx = ScopePass"
  obtains k where "scoped_key ctx = Some k" and "scope \<in> set (sk_Scopes k)"
  using assms
  by (auto simp: api_gate_def needs_scoped_key_def RequireScope_def scoped_key_def split: option.splits if_splits scope_decision.splits)

text \<open>The scope of a route is the one under which the tunnel lets the same message through, where it lets it through.\<close>

definition scope_agrees :: "'h endpoint \<Rightarrow> bool" where
  "scope_agrees ep =
     (case ep_Config ep of
        None \<Rightarrow> True
      | Some cfg \<Rightarrow> (case aget ActionToScopeRequired (ra_Type cfg) of None \<Rightarrow> True | Some sc \<Rightarrow> sc = ep_Scope ep))"

lemma table_scopes: "list_all scope_agrees (api_routes auto)"
  by code_simp

definition well_declared :: "'h route_cfg \<Rightarrow> bool" where
  "well_declared cfg \<longleftrightarrow>
     distinct (map pd_Name (ra_RequiredParams cfg @ ra_OptionalParams cfg)) \<and>
     list_all (\<lambda>def. pd_Required def \<and> pd_Name def \<notin> set reserved) (ra_RequiredParams cfg)"

lemma table_declarations: "list_all (\<lambda>ep. case ep_Config ep of None \<Rightarrow> True | Some cfg \<Rightarrow> well_declared cfg) (api_routes auto)"
  by code_simp

lemmas declarations =
  route_config_def encSimple_def entityGet_def entityCreate_def entityUpdate_def entityDelete_def entityGive_def
  entityRemove_def entityDecrease_def entityIncrease_def entityKill_def searchGet_def rollsGet_def lastRollGet_def
  rollPost_def encountersGet_def startEncounter_def nextTurn_def nextRound_def lastTurn_def lastRound_def
  endEncounter_def addToEncounter_def removeFromEncounter_def macrosGet_def macroExecute_def structureGet_def
  getFolderRoute_def createFolderRoute_def deleteFolderRoute_def selectPost_def selectedGet_def playersGet_def
  executeJsPost_def sceneGet_def sceneCreate_def sceneUpdate_def sceneDelete_def switchScene_def canvasGet_def
  canvasCreate_def canvasUpdate_def canvasDelete_def chatGet_def chatSend_def chatDeleteMsg_def chatFlush_def
  tokenMove_def measureDistance_def sceneRawImage_def worldInfoGet_def statusEffectsGet_def effectsGet_def
  effectsAdd_def effectsRemove_def fileSystemGet_def downloadFileGet_def playlistsGet_def playlistPlay_def
  playlistStop_def playlistNext_def playlistVolume_def soundStop_def soundPlay_def usersGet_def userGet_def
  userCreate_def userUpdate_def userDelete_def dnd_get_actor_details_def dnd_modify_item_charges_def dnd_use_def
  dnd_short_rest_def dnd_long_rest_def dnd_skill_check_def dnd_ability_save_def dnd_ability_check_def
  dnd_death_save_def dnd_modify_experience_def dnd_concentration_def dnd_break_concentration_def
  dnd_concentration_save_def dnd_equip_item_def dnd_attune_item_def dnd_transfer_currency_def dnd_modify_currency_def
  dnd_prepare_spell_def

lemma table_payloads:
  "list_all (\<lambda>ep. case ep_Config ep of None \<Rightarrow> True
     | Some cfg \<Rightarrow> ra_BuildPayload cfg = None \<or> ra_BuildPayload cfg = Some addClassName) (api_routes auto)"
  by (simp add: api_routes_def Dnd5eRouter_def endpoint_def declarations)

lemma table_entry:
  assumes "ep \<in> set (api_routes auto)" and "ep_Config ep = Some cfg"
  shows "ScopeForAction (ra_Type cfg) = (sc, True) \<Longrightarrow> sc = ep_Scope ep"
    and "distinct (map pd_Name (ra_RequiredParams cfg @ ra_OptionalParams cfg))"
    and "def \<in> set (ra_RequiredParams cfg) \<Longrightarrow> pd_Required def \<and> pd_Name def \<notin> set reserved"
    and "ra_BuildPayload cfg = None \<or> ra_BuildPayload cfg = Some addClassName"
  using assms table_scopes [of auto] table_declarations [of auto] table_payloads [of auto]
  by (auto simp: list_all_iff scope_agrees_def ScopeForAction_def well_declared_def split: option.splits)


subsection \<open>Parameters\<close>

lemma ValidateRequired_None:
  "ValidateRequired p defs = None \<Longrightarrow> def \<in> set defs \<Longrightarrow> pd_Required def \<Longrightarrow> params_Has p (pd_Name def)"
  by (induction defs) (auto split: if_splits)

lemma params_Has_Some: "params_Has p k \<longleftrightarrow> (\<exists>v. aget p k = Some v \<and> v \<noteq> JNull)"
  by (auto simp: params_Has_def split: option.splits)

lemma same_name_same_def:
  "distinct (map pd_Name defs) \<Longrightarrow> d1 \<in> set defs \<Longrightarrow> d2 \<in> set defs \<Longrightarrow> pd_Name d1 = pd_Name d2 \<Longrightarrow> d1 = d2"
  by (auto simp: distinct_map inj_on_def)

text \<open>Each parameter that an endpoint requires is in the message the module receives, under its name, not null and
  of its declared type.\<close>

theorem required_parameters_delivered:
  assumes "ep \<in> set (api_routes auto)" and "ep_Config ep = Some cfg" and "numbers ps"
    and "serve_endpoint ps (ep_Scope ep) cfg now r s = (Waiting rid ch cid, s')"
  shows "\<exists>payload. sent_message s' payload \<and>
    (\<forall>def\<in>set (ra_RequiredParams cfg). \<exists>v. aget payload (pd_Name def) = Some v \<and> v \<noteq> JNull \<and>
       (\<forall>t. pd_Type def = Some t \<longrightarrow> has_type t v))"
proof -
  have send: "api_send ps cfg now r s = (Waiting rid ch cid, s')"
    using assms(4) by (simp add: serve_endpoint_def split: scope_decision.splits)
  let ?body = "if aq_method r \<noteq> ''GET'' then aq_body r else None"
  obtain p p3 where
      ext: "ExtractParams ps r ?body (ra_RequiredParams cfg @ ra_OptionalParams cfg) [] = Inr p"
    and req: "ValidateRequired p (ra_RequiredParams cfg) = None"
    and keep: "\<forall>k. k \<noteq> ''clientId'' \<longrightarrow> k \<noteq> ''userId'' \<longrightarrow> aget p3 k = aget p k"
    and sent: "sent_message s' (build_payload cfg (aq_context r) rid p3)"
    using send by (rule api_send_sent) blast
  have "\<exists>v. aget (build_payload cfg (aq_context r) rid p3) (pd_Name def) = Some v \<and> v \<noteq> JNull \<and>
      (\<forall>t. pd_Type def = Some t \<longrightarrow> has_type t v)" if def: "def \<in> set (ra_RequiredParams cfg)" for def
  proof -
    have name: "pd_Required def" "pd_Name def \<notin> set reserved" using table_entry(3) [OF assms(1,2) def] by auto
    obtain v where v: "aget p (pd_Name def) = Some v" "v \<noteq> JNull"
      using ValidateRequired_None [OF req def name(1)] by (auto simp: params_Has_Some)
    have "has_type t v" if t: "pd_Type def = Some t" for t
    proof -
      obtain d where d: "d \<in> set (ra_RequiredParams cfg @ ra_OptionalParams cfg)" "pd_Name d = pd_Name def"
          "\<forall>t. pd_Type d = Some t \<longrightarrow> has_type t v"
        using ExtractParams_typed [OF ext assms(3) v(1)] by auto
      have "d = def" using same_name_same_def [OF table_entry(2) [OF assms(1,2)] d(1) _ d(2)] def by simp
      then show ?thesis using d(3) t by simp
    qed
    moreover have "aget p3 (pd_Name def) = Some v" using keep v(1) name(2) by (simp add: reserved_def)
    then have "aget (build_payload cfg (aq_context r) rid p3) (pd_Name def) = Some v"
      using name(2) table_entry(4) [OF assms(1,2)] by (rule build_payload_param)
    ultimately show ?thesis using v(2) by blast
  qed
  with sent show ?thesis by blast
qed

subsection \<open>Scripts\<close>

text \<open>The command of a macro to be created, and the script to be executed.\<close>

definition scripts_in :: "obj \<Rightarrow> string list" where
  "scripts_in payload =
     (case aget payload ''data'' of Some (JObj d) \<Rightarrow> (case aget d ''command'' of Some (JStr cmd) \<Rightarrow> [cmd] | _ \<Rightarrow> []) | _ \<Rightarrow> [])"

lemma build_payload_default:
  assumes "ra_BuildPayload cfg = None" and "k \<notin> set reserved" and "k \<noteq> ''data''"
  shows "aget (build_payload cfg ctx rid p) k = aget p k"
proof -
  have "aget (filter (\<lambda>kv. fst kv \<noteq> ''clientId'' \<and> fst kv \<noteq> ''type'') p) k = aget p k"
    using assms(2) aget_filter_keys [of "\<lambda>x. x \<noteq> ''clientId'' \<and> x \<noteq> ''type''" p k] by (simp add: reserved_def)
  then show ?thesis
    using assms by (cases "scoped_key ctx") (auto simp: build_payload_def Let_def aget_aput reserved_def)
qed

lemma script_error_None: "script_error p = None \<Longrightarrow> aget q ''data'' = aget p ''data'' \<Longrightarrow> list_all ValidateScript (scripts_in q)"
  by (auto simp: script_error_def scripts_in_def split: option.splits json.splits if_splits)

lemma created_macro_checked:
  assumes "api_send ps (entityCreate auto) now r s = (Waiting rid ch cid, s')"
  shows "\<exists>payload. sent_message s' payload \<and>
    (aget payload ''entityType'' = Some (JStr ''Macro'') \<longrightarrow>
       list_all ValidateScript (scripts_in payload) \<and>
       (\<forall>k. scoped_key (aq_context r) = Some k \<longrightarrow> ScopeMacroWrite \<in> set (sk_Scopes k)))"
proof -
  let ?cfg = "entityCreate auto"
  obtain p p3 where req: "ValidateRequired p (ra_RequiredParams ?cfg) = None"
    and val: "\<forall>f. ra_ValidateParams ?cfg = Some f \<longrightarrow> f (aq_context r) p = None"
    and keep: "\<forall>k. k \<noteq> ''clientId'' \<longrightarrow> k \<noteq> ''userId'' \<longrightarrow> aget p3 k = aget p k"
    and sent: "sent_message s' (build_payload ?cfg (aq_context r) rid p3)"
    using assms by (rule api_send_sent) blast
  have cfg: "ra_BuildPayload ?cfg = None" "required ''data'' [FromBody] (Some TypeObject) \<in> set (ra_RequiredParams ?cfg)"
    by (simp_all add: entityCreate_def route_config_def)
  have ok: "entityCreate_validate (aq_context r) p = None" using val by (simp add: entityCreate_def)
  obtain d where d: "aget p ''data'' = Some d"
    using ValidateRequired_None [OF req cfg(2)] by (auto simp: required_def params_Has_Some)
  have data: "aget (build_payload ?cfg (aq_context r) rid p3) ''data'' = aget p ''data''"
    unfolding d by (rule build_payload_param) (use keep d cfg(1) in \<open>simp_all add: reserved_def\<close>)
  have kind: "aget (build_payload ?cfg (aq_context r) rid p3) ''entityType'' = aget p ''entityType''"
    using keep by (simp add: build_payload_default [OF cfg(1)] reserved_def)
  show ?thesis
  proof (intro exI conjI impI)
    assume "aget (build_payload ?cfg (aq_context r) rid p3) ''entityType'' = Some (JStr ''Macro'')"
    then have macro: "params_GetString p ''entityType'' = ''Macro''" by (simp add: kind params_GetString_def)
    show "list_all ValidateScript (scripts_in (build_payload ?cfg (aq_context r) rid p3))"
      by (rule script_error_None [OF _ data])
        (use ok macro in \<open>auto simp: entityCreate_validate_def split: option.splits if_splits\<close>)
    show "\<forall>k. scoped_key (aq_context r) = Some k \<longrightarrow> ScopeMacroWrite \<in> set (sk_Scopes k)"
      using ok macro by (auto simp: entityCreate_validate_def split: if_splits)
  qed (rule sent)
qed

lemma executed_script_checked:
  assumes "api_send ps (executeJsPost auto) now r s = (Waiting rid ch cid, s')"
  shows "\<exists>payload. sent_message s' payload \<and>
    (\<forall>script. aget payload ''script'' = Some (JStr script) \<longrightarrow> script = [] \<or> ValidateScript script)"
proof -
  let ?cfg = "executeJsPost auto"
  obtain p p3 where val: "\<forall>f. ra_ValidateParams ?cfg = Some f \<longrightarrow> f (aq_context r) p = None"
    and keep: "\<forall>k. k \<noteq> ''clientId'' \<longrightarrow> k \<noteq> ''userId'' \<longrightarrow> aget p3 k = aget p k"
    and sent: "sent_message s' (build_payload ?cfg (aq_context r) rid p3)"
    using assms by (rule api_send_sent) blast
  have cfg: "ra_BuildPayload ?cfg = None" by (simp add: executeJsPost_def route_config_def)
  have "executeJsPost_validate (aq_context r) p = None" using val by (simp add: executeJsPost_def)
  then have "aget p ''script'' = Some (JStr script) \<Longrightarrow> script = [] \<or> ValidateScript script" for script
    by (auto simp: executeJsPost_validate_def params_GetString_def Let_def split: if_splits)
  moreover have "aget (build_payload ?cfg (aq_context r) rid p3) ''script'' = aget p ''script''"
    using keep by (simp add: build_payload_default [OF cfg] reserved_def)
  ultimately show ?thesis using sent by metis
qed

text \<open>No script with a forbidden pattern reaches a module through the creation of a macro or the execution of
  a script, and a key creates macros only when it holds the scope for it, whatever else it may create.\<close>

theorem scripts_checked:
  "(api_send ps (entityCreate auto) now r s = (Waiting rid ch cid, s') \<longrightarrow>
      (\<exists>payload. sent_message s' payload \<and>
         (aget payload ''entityType'' = Some (JStr ''Macro'') \<longrightarrow>
            list_all ValidateScript (scripts_in payload) \<and>
            (\<forall>k. scoped_key (aq_context r) = Some k \<longrightarrow> ScopeMacroWrite \<in> set (sk_Scopes k))))) \<and>
   (api_send ps (executeJsPost auto) now r s = (Waiting rid ch cid, s') \<longrightarrow>
      (\<exists>payload. sent_message s' payload \<and>
         (\<forall>script. aget payload ''script'' = Some (JStr script) \<longrightarrow> script = [] \<or> ValidateScript script)))"
  by (intro conjI impI created_macro_checked executed_script_checked)

subsection \<open>Documents on the canvas\<close>

text \<open>The four routes of the canvas send the class that belongs to the kind of document in the path, and nothing
  for any other kind.\<close>

theorem canvas_class_known:
  assumes "cfg \<in> {canvasGet auto, canvasCreate auto, canvasUpdate auto, canvasDelete auto}"
    and "api_send ps cfg now r s = (Waiting rid ch cid, s')"
  shows "\<exists>payload kind cls. sent_message s' payload \<and> (kind, cls) \<in> set validDocTypes \<and>
    aget payload ''documentType'' = Some (JStr kind) \<and> aget payload ''className'' = Some (JStr cls)"
proof -
  have cfg: "ra_BuildPayload cfg = Some addClassName" "ra_ValidateParams cfg = Some validateDocType"
    using assms(1) by (auto simp: canvasGet_def canvasCreate_def canvasUpdate_def canvasDelete_def route_config_def)
  obtain p p3 where val: "\<forall>f. ra_ValidateParams cfg = Some f \<longrightarrow> f (aq_context r) p = None"
    and keep: "\<forall>k. k \<noteq> ''clientId'' \<longrightarrow> k \<noteq> ''userId'' \<longrightarrow> aget p3 k = aget p k"
    and sent: "sent_message s' (build_payload cfg (aq_context r) rid p3)"
    using assms(2) by (rule api_send_sent) blast
  let ?kind = "params_GetString p ''documentType''"
  obtain cls where cls: "aget validDocTypes ?kind = Some cls"
    using val cfg(2) by (auto simp: validateDocType_def split: option.splits)
  have "?kind \<noteq> []" using cls by (auto simp: validDocTypes_def)
  then have kind: "aget p ''documentType'' = Some (JStr ?kind)"
    by (auto simp: params_GetString_def split: option.splits json.splits)
  have same: "params_GetString p3 ''documentType'' = ?kind" using keep by (simp add: params_GetString_def)
  have "aget (build_payload cfg (aq_context r) rid p3) ''documentType'' = Some (JStr ?kind)"
    by (rule build_payload_param) (use keep kind cfg(1) in \<open>simp_all add: reserved_def\<close>)
  moreover have "aget (build_payload cfg (aq_context r) rid p3) ''className'' = Some (JStr cls)"
    using cls same cfg(1) by (cases "scoped_key (aq_context r)") (simp_all add: build_payload_def Let_def aget_aput addClassName_def null_str_def)
  ultimately show ?thesis using sent aget_in_set [OF cls] by blast
qed

subsection \<open>Where the table departs from its comments\<close>

text \<open>The keys of \<open>ActionToScopeRequired\<close> are documented to match the types of messages; the one for reading an
  entity does not: no endpoint sends \<open>get\<close>, and the type of \<open>GET /get\<close> is refused.\<close>

theorem tunnel_cannot_read_entities:
  "fst (ScopeForAction ''get'') = ScopeEntityRead \<and> \<not> snd (ScopeForAction (ra_Type (entityGet auto))) \<and>
   list_all (\<lambda>ep. case ep_Config ep of None \<Rightarrow> True | Some cfg \<Rightarrow> ra_Type cfg \<noteq> ''get'') (api_routes auto)"
  by code_simp

text \<open>The tunnel asks for the right to write entities when it creates a macro, and sends no scopes along, which the
  module takes for all of them.\<close>

theorem tunnel_creates_macros:
  "ScopeForAction (ra_Type (entityCreate auto)) = (ScopeEntityWrite, True) \<and> ScopeEntityWrite \<noteq> ScopeMacroWrite"
  by code_simp

text \<open>The default scopes are described as read-only; one of them covers changes to characters.\<close>

theorem default_scopes_change_characters:
  "List.member DefaultScopes ScopeDnd5e \<and>
   list_ex (\<lambda>ep. ep_Method ep = ''POST'' \<and> ep_Path ep = ''/dnd5e/modify-currency'' \<and> ep_Scope ep = ScopeDnd5e) (api_routes auto)"
  by code_simp

text \<open>A download may take 45 seconds, but the server's clean-up of pending requests, which runs with 30 seconds,
  takes it out of the table before, and answers it.\<close>

theorem slow_download_cut_off:
  assumes "api_send ps (downloadFileGet auto) now r s = (Waiting rid ch cid, s')" and "pending_wf (rt_pending s)"
    and "now + seconds 30 < t"
  shows "route_timeout (downloadFileGet auto) = seconds 45 \<and> Load rid (rt_pending s') \<noteq> None \<and>
    Load rid (CleanupStale t (seconds 30) (rt_pending s')) = None"
proof -
  let ?cfg = "downloadFileGet auto"
  obtain req where st: "rt_pending s' = Store rid req (new_chan ch (rt_pending s))" and req: "pr_Timestamp req = now" "pr_MaxAge req = 0"
    using assms(1) by (rule api_send_Waiting) (simp add: new_pending_def downloadFileGet_def route_config_def downloadFileGet_pending_def Let_def)
  have reqs: "ps_requests (rt_pending s') = aput rid req (ps_requests (rt_pending s))"
    by (simp add: st Store_def new_chan_def Let_def)
  have wf: "wf_map (ps_requests (rt_pending s'))" using assms(2) by (simp add: reqs pending_wf_def)
  have "Load rid (rt_pending s') = Some req" by (simp add: Load_def reqs aget_aput)
  moreover have "req_stale t (seconds 30) req" using assms(3) req by (simp add: req_stale_def)
  ultimately show ?thesis
    using aget_filter [OF wf, of "\<lambda>k r. \<not> req_stale t (seconds 30) r" rid]
    by (simp add: Load_def CleanupStale_requests [OF wf] route_timeout_def downloadFileGet_def route_config_def seconds_def)
qed

subsection \<open>Concrete runs\<close>

definition ex_writer :: ScopedKeyInfo where
  "ex_writer = \<lparr>sk_ID = 7, sk_KeyPrefix = ''k1'', sk_ScopedClientID = [], sk_ScopedClientIDs = [], sk_ScopedUserID = [],
     sk_ScopedUserIDs = [], sk_Scopes = [''entity:write'', ''macro:write''], sk_MonthlyLimit = 0, sk_MonthlyLimitSet = False,
     sk_RequestsThisMonth = 0\<rparr>"

definition ex_create :: api_request where
  "ex_create = \<lparr>aq_method = ''POST'', aq_query = [(''clientId'', ''fvtt_1'')],
     aq_body = Some [(''entityType'', JStr ''Macro''), (''data'', JObj [(''command'', JStr ''1'')])], aq_params = [],
     aq_context = Some (ex_ctx\<lparr>rc_ScopedKey := Some ex_writer\<rparr>)\<rparr>"

definition ex_entry :: "unit endpoint" where
  "ex_entry = endpoint ''POST'' ''/create'' ScopeEntityWrite (Some (entityCreate None))"

lemma ex_entry: "ex_entry \<in> set (api_routes None)" "ep_Config ex_entry = Some (entityCreate None)"
  by (simp_all add: ex_entry_def api_routes_def endpoint_def)

lemma ex_numbers: "numbers ex_parsers"
  by (simp add: numbers_def ex_parsers_def)

lemma ex_create_run:
  "\<exists>rid ch s'. serve_endpoint ex_parsers (ep_Scope ex_entry) (entityCreate None) 5 ex_create ex_route_state = (Waiting rid ch ''fvtt_1'', s')"
proof -
  have scr: "ValidateScript ''1''" by code_simp
  show ?thesis
    using ex_target
    by (simp add: serve_endpoint_def api_gate_def needs_scoped_key_def RequireScope_def scoped_key_def ex_entry_def endpoint_def
        ex_create_def ex_writer_def api_send_def entityCreate_def route_config_def
        required_def optional_def clientIDParam_def userIDParam_def bqParam_def source_value_def coerceType_def params_Has_def
        entityCreate_validate_def params_GetString_def script_error_def scr bind_client_def resolve_client_def find_client_def
        inject_user_def ex_route_state_def send_to_def Send_def enqueue_def Let_def aget_aput)
qed

lemma ex_create_run_send:
  "\<exists>rid ch s'. api_send ex_parsers (entityCreate None) 5 ex_create ex_route_state = (Waiting rid ch ''fvtt_1'', s')"
  using ex_create_run by (auto simp: serve_endpoint_def split: scope_decision.splits)


lemma required_parameters_delivered_witness:
  "\<exists>payload (s' :: unit route_state) d. sent_message s' payload \<and> aget payload ''data'' = Some (JObj d)"
proof -
  obtain rid ch s' where run: "serve_endpoint ex_parsers (ep_Scope ex_entry) (entityCreate None) 5 ex_create ex_route_state = (Waiting rid ch ''fvtt_1'', s')"
    using ex_create_run by blast
  have "required ''data'' [FromBody] (Some TypeObject) \<in> set (ra_RequiredParams (entityCreate None))"
    by (simp add: entityCreate_def route_config_def)
  moreover have "has_type TypeObject v \<Longrightarrow> \<exists>d. v = JObj d" for v by (cases v) simp_all
  ultimately show ?thesis
    using required_parameters_delivered [OF ex_entry ex_numbers run] by (fastforce simp: required_def)
qed

lemma scripts_checked_witness:
  "\<exists>payload (s' :: unit route_state). sent_message s' payload \<and>
     (aget payload ''entityType'' \<noteq> Some (JStr ''Macro'') \<or> list_all ValidateScript (scripts_in payload))"
  using ex_create_run_send scripts_checked [of ex_parsers None 5 ex_create ex_route_state] by blast

text \<open>The routes of the canvas and the download, in the same way.\<close>

definition ex_canvas :: api_request where
  "ex_canvas = ex_create\<lparr>aq_method := ''GET'', aq_body := None, aq_params := [(''documentType'', ''walls'')]\<rparr>"

lemma canvas_class_known_witness:
  "\<exists>payload (s' :: unit route_state) kind cls. sent_message s' payload \<and> (kind, cls) \<in> set validDocTypes \<and>
     aget payload ''className'' = Some (JStr cls)"
proof -
  have "\<exists>rid ch s'. api_send ex_parsers (canvasGet None) 5 ex_canvas ex_route_state = (Waiting rid ch ''fvtt_1'', s')"
    using ex_target
    by (simp add: ex_canvas_def ex_create_def ex_writer_def api_send_def canvasGet_def route_config_def dtParam_def scoped_key_def
        required_def optional_def clientIDParam_def userIDParam_def bqParam_def source_value_def coerceType_def params_Has_def
        validateDocType_def validDocTypes_def params_GetString_def bind_client_def resolve_client_def find_client_def
        inject_user_def ex_route_state_def send_to_def Send_def enqueue_def Let_def aget_aput)
  then obtain rid ch s' where run: "api_send ex_parsers (canvasGet None) 5 ex_canvas ex_route_state = (Waiting rid ch ''fvtt_1'', s')"
    by blast
  show ?thesis using canvas_class_known [OF _ run, of None] by blast
qed

lemma slow_download_cut_off_witness:
  "\<exists>rid (s' :: unit route_state). Load rid (rt_pending s') \<noteq> None \<and> Load rid (CleanupStale (seconds 40) (seconds 30) (rt_pending s')) = None"
proof -
  have "\<exists>rid ch s'. api_send ex_parsers (downloadFileGet None) 5 (ex_create\<lparr>aq_method := ''GET'', aq_body := None\<rparr>) ex_route_state =
      (Waiting rid ch ''fvtt_1'', s')"
    using ex_target
    by (simp add: ex_create_def ex_writer_def api_send_def downloadFileGet_def route_config_def scoped_key_def
        required_def optional_def clientIDParam_def userIDParam_def bqParam_def source_value_def coerceType_def params_Has_def
        params_GetString_def bind_client_def resolve_client_def find_client_def
        inject_user_def ex_route_state_def send_to_def Send_def enqueue_def Let_def aget_aput)
  then obtain rid ch s' where run: "api_send ex_parsers (downloadFileGet None) 5 (ex_create\<lparr>aq_method := ''GET'', aq_body := None\<rparr>) ex_route_state =
      (Waiting rid ch ''fvtt_1'', s')"
    by blast
  show ?thesis
    using slow_download_cut_off [OF run, of "seconds 40"]
    by (auto simp: ex_route_state_def NewPendingRequests_def pending_wf_def wf_map_def seconds_def)
qed

end
