(* ===== verification/DirectRoutes.thy ===== *)
theory DirectRoutes
  imports Route
begin

text \<open>
  The handlers that talk to a module without \<open>CreateAPIRoute\<close>: the upload of files
  (\<open>internal/handler/filesystem.go\<close>), the screenshots of scenes and character sheets (\<open>scene_image.go\<close>,
  \<open>sheet.go\<close>) and the list of clients (\<open>clientsHandler\<close> of \<open>entity.go\<close>).

  Each of the first three runs in two steps, as the route of \<open>Route\<close> does: up to the wait for the module, and from
  its answer, the timeout or the caller's departure on.  Reading the body is a parameter: the parsed object or the
  text of the error, and the bytes or the text of the error.  The number 0.9 is the one that its text parses to.
\<close>

record raw_request =
  dq_contentType :: string
  dq_query :: "(string, string) gomap"  \<comment> \<open>the first value of each key\<close>
  dq_body :: "string + obj"  \<comment> \<open>what \<open>parseBody\<close> returns\<close>
  dq_data :: "string + string"  \<comment> \<open>what \<open>io.ReadAll\<close> returns\<close>
  dq_context :: "req_context option"

definition qget :: "raw_request \<Rightarrow> string \<Rightarrow> string" where
  "qget r k = null_str (aget (dq_query r) k)"

datatype direct_step = DAnswered answer | DWaiting string nat string

datatype direct_out = DJson int json | DRaw int "(string \<times> json) list" string

definition direct_pending :: "string \<Rightarrow> string \<Rightarrow> nat \<Rightarrow> string \<Rightarrow> gotime \<Rightarrow> PendingRequest" where
  "direct_pending typ format ch clientID now =
     \<lparr>pr_ResponseCh = ch, pr_Type = typ, pr_ClientID = clientID, pr_UUID = [], pr_Path = [], pr_Query = [], pr_Filter = [],
      pr_Format = format, pr_ActiveTab = None, pr_DarkMode = False, pr_InitScale = None, pr_Timestamp = now, pr_MaxAge = 0,
      pr_WSCallback = False\<rparr>"

text \<open>The common part: look up the client, register the request, send the message, undo the registration when the
  client takes no more.\<close>

definition direct_send ::
    "string \<Rightarrow> string \<Rightarrow> string \<Rightarrow> gotime \<Rightarrow> string \<Rightarrow> (string \<Rightarrow> obj) \<Rightarrow> 'h route_state \<Rightarrow> direct_step \<times> 'h route_state" where
  "direct_send typ format failed now clientID payload s =
     (case GetClient clientID (rt_manager s) of
        None \<Rightarrow> (DAnswered (WriteError 404 ''Invalid client ID''), s)
      | Some ref \<Rightarrow>
          (let requestID = request_id now typ;
               ch = fresh_chan (rt_pending s);
               p = Store requestID (direct_pending typ format ch clientID now) (new_chan ch (rt_pending s));
               (sent, m) = send_to ref (JObj (payload requestID)) (rt_manager s)
           in if \<not> sent
              then (DAnswered (WriteError 500 failed), s\<lparr>rt_manager := m, rt_pending := Pending.Delete requestID p\<rparr>)
              else (DWaiting requestID ch clientID, s\<lparr>rt_manager := m, rt_pending := p\<rparr>)))"

text \<open>The identifier in the query, replaced by the one the key is bound to.\<close>

definition named_client :: "raw_request \<Rightarrow> string" where
  "named_client r =
     (case scoped_key (dq_context r) of
        Some k \<Rightarrow> if sk_ScopedClientID k \<noteq> [] then sk_ScopedClientID k else qget r ''clientId''
      | None \<Rightarrow> qget r ''clientId'')"

definition client_needed :: answer where
  "client_needed = WriteError 400 (CHR 0x27 # ''clientId'' @ [CHR 0x27] @ '' is required'')"

subsection \<open>Uploads\<close>

record upload =
  up_path :: string
  up_filename :: string
  up_source :: string
  up_mimeType :: string
  up_overwrite :: bool
  up_fileData :: string

definition or_else :: "string \<Rightarrow> string \<Rightarrow> string" where
  "or_else s d = (if s = [] then d else s)"

definition read_upload :: "raw_request \<Rightarrow> string + upload" where
  "read_upload r =
     (if has_prefix (dq_contentType r) ''application/json'' \<or> dq_contentType r = []
      then (case dq_body r of
              Inl err \<Rightarrow> Inl err
            | Inr body \<Rightarrow>
                Inr \<lparr>up_path = or_else (get_str body ''path'') (qget r ''path''),
                     up_filename = or_else (get_str body ''filename'') (qget r ''filename''),
                     up_source = or_else (get_str body ''source'') ''data'', up_mimeType = get_str body ''mimeType'',
                     up_overwrite = get_bool body ''overwrite'', up_fileData = get_str body ''fileData''\<rparr>)
      else (case dq_data r of
              Inl err \<Rightarrow> Inl (''Failed to read upload data: '' @ err)
            | Inr bytes \<Rightarrow>
                Inr \<lparr>up_path = qget r ''path'', up_filename = qget r ''filename'', up_source = or_else (qget r ''source'') ''data'',
                     up_mimeType = qget r ''mimeType'', up_overwrite = (qget r ''overwrite'' = ''true''), up_fileData = bytes\<rparr>))"

definition upload_payload :: "upload \<Rightarrow> string \<Rightarrow> obj" where
  "upload_payload u requestID =
     [(''type'', JStr ''upload-file''), (''requestId'', JStr requestID), (''path'', JStr (up_path u)),
      (''filename'', JStr (up_filename u)), (''source'', JStr (up_source u)), (''mimeType'', JStr (up_mimeType u)),
      (''overwrite'', JBool (up_overwrite u)), (''fileData'', JStr (up_fileData u))]"

definition uploadHandler :: "gotime \<Rightarrow> raw_request \<Rightarrow> 'h route_state \<Rightarrow> direct_step \<times> 'h route_state" where
  "uploadHandler now r s =
     (case dq_context r of None \<Rightarrow> (DAnswered (WriteError 401 ''Authentication required''), s)
      | Some ctx \<Rightarrow>
     (case read_upload r of Inl err \<Rightarrow> (DAnswered (WriteError 400 err), s)
      | Inr u \<Rightarrow>
          if up_path u = [] \<or> up_filename u = []
          then (DAnswered (WriteError 400 (CHR 0x27 # ''path'' @ [CHR 0x27] @ '' and '' @ CHR 0x27 # ''filename'' @ [CHR 0x27] @ '' are required'')), s)
          else if named_client r \<noteq> []
          then direct_send ''upload-file'' [] ''Failed to send upload request'' now (named_client r) (upload_payload u) s
          else (case GetConnectedClients (rc_MasterAPIKey ctx) (rt_manager s) of
                  [c] \<Rightarrow> direct_send ''upload-file'' [] ''Failed to send upload request'' now c (upload_payload u) s
                | _ \<Rightarrow> (DAnswered client_needed, s))))"

text \<open>\<open>nil\<close> data are written as \<open>null\<close>.\<close>

definition out_json :: "WSResponse \<Rightarrow> direct_out" where
  "out_json resp = DJson (int (StatusCode resp)) (case Data resp of None \<Rightarrow> JNull | Some d \<Rightarrow> JObj d)"

definition out_error :: "int \<Rightarrow> string \<Rightarrow> direct_out" where
  "out_error n msg = DJson n (JObj [(''error'', JStr msg)])"

definition upload_answer :: "WSResponse option \<Rightarrow> direct_out" where
  "upload_answer resp =
     (case resp of
        None \<Rightarrow> out_error 504 ''Upload timed out''
      | Some resp \<Rightarrow>
          (case RawData resp of
             Some raw \<Rightarrow> DRaw (int (StatusCode resp)) json_header raw
           | None \<Rightarrow> out_json resp))"

definition direct_timeout :: "string \<Rightarrow> string \<Rightarrow> 'h route_state \<Rightarrow> answer \<times> 'h route_state" where
  "direct_timeout msg requestID s = (WriteError 408 msg, s\<lparr>rt_pending := Pending.Delete requestID (rt_pending s)\<rparr>)"

subsection \<open>Screenshots\<close>

text \<open>A number in the query, or its standard value where it is missing or no number.\<close>

definition query_float :: "parsers \<Rightarrow> raw_request \<Rightarrow> string \<Rightarrow> json \<Rightarrow> json" where
  "query_float ps r k std =
     (if qget r k = [] then std else case ps_float ps (qget r k) of Some v \<Rightarrow> v | None \<Rightarrow> std)"

definition float_lit :: "parsers \<Rightarrow> string \<Rightarrow> json" where
  "float_lit ps s = (case ps_float ps s of Some v \<Rightarrow> v | None \<Rightarrow> JNull)"

definition query_str :: "raw_request \<Rightarrow> string \<Rightarrow> obj" where
  "query_str r k = (if qget r k \<noteq> [] then [(k, JStr (qget r k))] else [])"

definition true_field :: "raw_request \<Rightarrow> string \<Rightarrow> obj" where
  "true_field r k = (if qget r k = ''true'' then [(k, JBool True)] else [])"

definition int_field :: "raw_request \<Rightarrow> string \<Rightarrow> obj" where
  "int_field r k = (if qget r k = [] then [] else case ParseInt64 (qget r k) of Some n \<Rightarrow> [(k, JNum n)] | None \<Rightarrow> [])"

definition image_client :: "raw_request \<Rightarrow> 'h manager \<Rightarrow> string" where
  "image_client r m =
     (if named_client r \<noteq> [] then named_client r
      else case dq_context r of None \<Rightarrow> []
           | Some ctx \<Rightarrow> (case GetConnectedClients (rc_MasterAPIKey ctx) m of [c] \<Rightarrow> c | _ \<Rightarrow> []))"

definition scene_payload :: "parsers \<Rightarrow> raw_request \<Rightarrow> string \<Rightarrow> obj" where
  "scene_payload ps r requestID =
     [(''type'', JStr ''scene-screenshot''), (''requestId'', JStr requestID),
      (''format'', JStr (or_else (qget r ''format'') ''png'')), (''quality'', query_float ps r ''quality'' (float_lit ps ''0.9'')),
      (''data'', JObj [])] @
     query_str r ''sceneId'' @ true_field r ''active'' @ true_field r ''viewport'' @ true_field r ''showGrid'' @
     true_field r ''hideOverlays'' @ int_field r ''width'' @ int_field r ''height'' @ query_str r ''userId''"

definition sceneImageHandler :: "parsers \<Rightarrow> gotime \<Rightarrow> raw_request \<Rightarrow> 'h route_state \<Rightarrow> direct_step \<times> 'h route_state" where
  "sceneImageHandler ps now r s =
     (let clientID = image_client r (rt_manager s)
      in if clientID = [] then (DAnswered client_needed, s)
         else direct_send ''scene-screenshot'' (or_else (qget r ''format'') ''png'') ''Failed to send request'' now clientID
                (scene_payload ps r) s)"

definition sheet_payload :: "parsers \<Rightarrow> raw_request \<Rightarrow> string \<Rightarrow> obj" where
  "sheet_payload ps r requestID =
     [(''type'', JStr ''sheet-screenshot''), (''requestId'', JStr requestID), (''uuid'', JStr (qget r ''uuid'')),
      (''format'', JStr (or_else (qget r ''format'') ''png'')), (''quality'', query_float ps r ''quality'' (float_lit ps ''0.9'')),
      (''scale'', query_float ps r ''scale'' (JNum 1)), (''data'', JObj [])] @
     (if qget r ''selected'' \<noteq> [] then [(''selected'', JBool (qget r ''selected'' = ''true''))] else []) @
     (if qget r ''actor'' \<noteq> [] then [(''actor'', JBool (qget r ''actor'' = ''true''))] else []) @
     query_str r ''userId''"

definition sheetHandler :: "parsers \<Rightarrow> gotime \<Rightarrow> raw_request \<Rightarrow> 'h route_state \<Rightarrow> direct_step \<times> 'h route_state" where
  "sheetHandler ps now r s =
     (if qget r ''uuid'' = [] \<and> qget r ''selected'' = []
      then (DAnswered (WriteError 400 (''Either '' @ CHR 0x27 # ''uuid'' @ [CHR 0x27] @ '' or '' @ CHR 0x27 # ''selected'' @ [CHR 0x27] @ '' is required'')), s)
      else (let clientID = image_client r (rt_manager s)
            in if clientID = [] then (DAnswered client_needed, s)
               else direct_send ''sheet-screenshot'' (or_else (qget r ''format'') ''png'') ''Failed to send request'' now clientID
                      (sheet_payload ps r) s))"

definition size_header :: "string \<Rightarrow> string \<Rightarrow> obj \<Rightarrow> (string \<times> json) list" where
  "size_header name k d = (case aget d k of Some v \<Rightarrow> [(name, v)] | None \<Rightarrow> [])"

definition image_answer :: "string \<Rightarrow> WSResponse option \<Rightarrow> direct_out" where
  "image_answer format resp =
     (case resp of
        None \<Rightarrow> out_error 504 ''Request timed out''
      | Some resp \<Rightarrow>
          (case RawData resp of
             Some raw \<Rightarrow>
               DRaw 200 ((''Content-Type'', JStr (if format = ''jpeg'' then ''image/jpeg'' else ''image/png''))
                         # (case Data resp of None \<Rightarrow> []
                            | Some d \<Rightarrow> size_header ''X-Image-Width'' ''width'' d @ size_header ''X-Image-Height'' ''height'' d)) raw
           | None \<Rightarrow> out_json resp))"

subsection \<open>The list of clients\<close>

definition known_info :: "KnownClient \<Rightarrow> ClientInfo" where
  "known_info kc =
     \<lparr>ci_ID = kc_ClientID kc, ci_InstanceID = [], ci_LastSeen = 0, ci_ConnectedSince = 0, ci_WorldID = null_str (kc_WorldID kc),
      ci_WorldTitle = null_str (kc_WorldTitle kc), ci_FoundryVersion = null_str (kc_FoundryVersion kc),
      ci_SystemID = null_str (kc_SystemID kc), ci_SystemTitle = null_str (kc_SystemTitle kc),
      ci_SystemVersion = null_str (kc_SystemVersion kc), ci_CustomName = null_str (kc_CustomName kc), ci_PublicUrl = [],
      ci_IPAddress = [], ci_TokenName = []\<rparr>"

definition known_clients :: "(string \<Rightarrow> string option) \<Rightarrow> req_context \<Rightarrow> ClientInfo list \<Rightarrow> 'h manager \<Rightarrow> db \<Rightarrow> (ClientInfo \<times> bool) list" where
  "known_clients rget ctx liveClients m d =
     (case rc_User ctx of None \<Rightarrow> []
      | Some user \<Rightarrow>
          (case kc_FindAllByUser (us_ID user) d of DBErr \<Rightarrow> []
           | DBOk known \<Rightarrow>
               map (\<lambda>kc. (known_info kc, IsClientOnlineAnywhere rget (kc_ClientID kc) m))
                 (filter (\<lambda>kc. kc_ClientID kc \<notin> set (map ci_ID liveClients)) known)))"

text \<open>The number of results and the results, each with whether the client is online.\<close>

definition clientsHandler ::
    "(string \<Rightarrow> string option) \<Rightarrow> req_context option \<Rightarrow> 'h manager \<Rightarrow> db \<Rightarrow> answer + nat \<times> (ClientInfo \<times> bool) list" where
  "clientsHandler rget reqCtx m d =
     (case reqCtx of None \<Rightarrow> Inl (WriteError 401 ''Authentication required'')
      | Some ctx \<Rightarrow>
          (let liveClients = GetConnectedClientInfos (rc_MasterAPIKey ctx) m;
               results = map (\<lambda>c. (c, True)) liveClients @ known_clients rget ctx liveClients m d;
               results1 = (case rc_ScopedKey ctx of
                             Some k \<Rightarrow> if sk_ScopedClientID k \<noteq> [] then filter (\<lambda>c. ci_ID (fst c) = sk_ScopedClientID k) results
                                       else results
                           | None \<Rightarrow> results)
           in Inr (length results1, results1)))"

subsection \<open>Keys bound to a world\<close>

text \<open>What a handler has done when it waits: the request of the module named is in the table, the message in its queue.\<close>

definition waits_for :: "string \<Rightarrow> string \<Rightarrow> 'h route_state \<Rightarrow> 'h route_state \<Rightarrow> bool" where
  "waits_for rid cid s s' \<longleftrightarrow>
     map_option pr_ClientID (Load rid (rt_pending s')) = Some cid \<and>
     (\<exists>ref msg. GetClient cid (rt_manager s) = Some ref \<and> send_to ref msg (rt_manager s) = (True, rt_manager s'))"

lemma direct_send_waits:
  "direct_send typ format failed now clientID payload s = (DWaiting rid ch cid, s') \<Longrightarrow> cid = clientID \<and> waits_for rid cid s s'"
  by (auto simp: direct_send_def waits_for_def Load_def Store_def new_chan_def direct_pending_def aget_aput Let_def
      split: option.splits prod.splits if_splits)

lemma named_client_bound:
  "scoped_key (dq_context r) = Some k \<Longrightarrow> sk_ScopedClientID k \<noteq> [] \<Longrightarrow> named_client r = sk_ScopedClientID k"
  by (simp add: named_client_def)

lemma uploadHandler_named:
  "uploadHandler now r s = (DWaiting rid ch cid, s') \<Longrightarrow> named_client r \<noteq> [] \<Longrightarrow> cid = named_client r \<and> waits_for rid cid s s'"
  by (auto simp: uploadHandler_def dest: direct_send_waits split: option.splits sum.splits if_splits)

lemma image_named:
  assumes "named_client r \<noteq> []"
  shows "sceneImageHandler ps now r s = (DWaiting rid ch cid, s') \<Longrightarrow> cid = named_client r \<and> waits_for rid cid s s'"
    and "sheetHandler ps now r s = (DWaiting rid ch cid, s') \<Longrightarrow> cid = named_client r \<and> waits_for rid cid s s'"
  using assms
  by (auto simp: sceneImageHandler_def sheetHandler_def image_client_def Let_def dest: direct_send_waits split: if_splits)

text \<open>With a key bound to one world, an upload and a screenshot go to that world's module and nowhere else,
  whatever the query names and whichever modules are connected, and the list of clients shows that world only.\<close>

theorem direct_routes_confined:
  assumes "scoped_key (dq_context r) = Some k" and "sk_ScopedClientID k \<noteq> []"
    and "uploadHandler now r s = (DWaiting rid ch cid, s') \<or> sceneImageHandler ps now r s = (DWaiting rid ch cid, s') \<or>
      sheetHandler ps now r s = (DWaiting rid ch cid, s')"
  shows "cid = sk_ScopedClientID k \<and> waits_for rid cid s s' \<and>
    (\<exists>n cs. clientsHandler rget (dq_context r) m d = Inr (n, cs) \<and> n = length cs \<and>
       list_all (\<lambda>c. ci_ID (fst c) = sk_ScopedClientID k) cs)"
proof -
  note bound = named_client_bound [OF assms(1,2)]
  have named: "named_client r \<noteq> []" using bound assms(2) by simp
  have "cid = named_client r \<and> waits_for rid cid s s'"
    using assms(3) by (elim disjE) (auto dest!: uploadHandler_named [OF _ named] image_named [OF named])
  moreover have "\<exists>n cs. clientsHandler rget (dq_context r) m d = Inr (n, cs) \<and> n = length cs \<and>
      list_all (\<lambda>c. ci_ID (fst c) = sk_ScopedClientID k) cs"
    using assms(1,2) by (auto simp: clientsHandler_def scoped_key_def Let_def list_all_iff split: option.splits)
  ultimately show ?thesis by (metis bound)
qed

text \<open>Without a binding, the list holds exactly the connected and the known worlds of the account.\<close>

theorem clients_complete:
  assumes "rc_User ctx = Some u" and "kc_FindAllByUser (us_ID u) d = DBOk known"
    and "\<forall>k. rc_ScopedKey ctx = Some k \<longrightarrow> sk_ScopedClientID k = []"
    and "clientsHandler rget (Some ctx) m d = Inr (n, cs)"
  shows "ci_ID ` fst ` set cs = ci_ID ` set (GetConnectedClientInfos (rc_MasterAPIKey ctx) m) \<union> kc_ClientID ` set known"
proof -
  let ?live = "GetConnectedClientInfos (rc_MasterAPIKey ctx) m"
  have cs: "cs = map (\<lambda>c. (c, True)) ?live @ known_clients rget ctx ?live m d"
    using assms(3,4) by (auto simp: clientsHandler_def Let_def split: option.splits)
  have "ci_ID ` fst ` set (known_clients rget ctx ?live m d) = kc_ClientID ` set known - ci_ID ` set ?live"
    using assms(1,2) by (auto simp: known_clients_def known_info_def image_iff)
  then show ?thesis by (simp add: cs image_Un image_image Un_Diff_cancel)
qed

subsection \<open>Keys with a list of worlds or a user\<close>

text \<open>The three handlers and the list look at the single world of a key and never at its list: what \<open>CreateAPIRoute\<close>
  refuses with 403, a screenshot does.\<close>

theorem client_list_ignored:
  assumes "scoped_key (dq_context r) = Some k" and "sk_ScopedClientID k = []" and "sk_ScopedClientIDs k \<noteq> []"
    and "qget r ''clientId'' = cid" and "cid \<noteq> []" and "cid \<notin> set (sk_ScopedClientIDs k)"
    and "GetClient cid (rt_manager s) = Some ref"
    and "IsAlive (mg_heap (rt_manager s) ! ref)" and "length (cl_sendCh (mg_heap (rt_manager s) ! ref)) < sendCap"
  shows "bind_client (dq_context r) [(''clientId'', JStr cid)] =
      Inl (WriteError 403 ''API key is not authorized for this client'') \<and>
    (\<exists>rid ch s'. sceneImageHandler ps now r s = (DWaiting rid ch cid, s') \<and> waits_for rid cid s s')"
proof
  show "bind_client (dq_context r) [(''clientId'', JStr cid)] = Inl (WriteError 403 ''API key is not authorized for this client'')"
    using assms(1,3,5,6) by (simp add: bind_client_def params_GetString_def sk_CanAccessClient_def Let_def)
  have "named_client r = cid" using assms(1,2,4) by (simp add: named_client_def)
  then have "image_client r (rt_manager s) = cid" using assms(5) by (simp add: image_client_def)
  then have run: "\<exists>rid ch s'. sceneImageHandler ps now r s = (DWaiting rid ch cid, s')"
    using assms(5,7-9) by (simp add: sceneImageHandler_def direct_send_def send_to_def Send_def enqueue_def Let_def)
  then show "\<exists>rid ch s'. sceneImageHandler ps now r s = (DWaiting rid ch cid, s') \<and> waits_for rid cid s s'"
    using image_named(1) [of r ps now s] \<open>named_client r = cid\<close> assms(5) by blast
qed

theorem client_list_shows_all:
  "clientsHandler rget (Some (ctx\<lparr>rc_ScopedKey := Some (k\<lparr>sk_ScopedClientIDs := ids\<rparr>)\<rparr>)) m d =
   clientsHandler rget (Some (ctx\<lparr>rc_ScopedKey := Some k\<rparr>)) m d"
proof -
  have "known_clients rget (ctx\<lparr>rc_ScopedKey := x\<rparr>) live m d = known_clients rget ctx live m d" for x live
    by (simp add: known_clients_def)
  then show ?thesis by (simp add: clientsHandler_def Let_def)
qed

lemma optional_fields:
  "k' \<noteq> k \<Longrightarrow> aget (query_str r k) k' = None"
  "aget (query_str r k) k = (if qget r k = [] then None else Some (JStr (qget r k)))"
  "k' \<noteq> k \<Longrightarrow> aget (true_field r k) k' = None"
  "k' \<noteq> k \<Longrightarrow> aget (int_field r k) k' = None"
  by (simp_all add: query_str_def true_field_def int_field_def split: option.split)

text \<open>The user that a key is bound to is not put into the message: the query decides whose permissions the module
  applies, and of an upload none.  Nor are the scopes sent, whose absence the module takes for all of them.\<close>

theorem screenshot_user_unbound:
  "aget (sheet_payload ps r rid) ''userId'' = (if qget r ''userId'' = [] then None else Some (JStr (qget r ''userId''))) \<and>
   aget (scene_payload ps r rid) ''userId'' = (if qget r ''userId'' = [] then None else Some (JStr (qget r ''userId''))) \<and>
   aget (sheet_payload ps r rid) ''_scopes'' = None \<and> aget (upload_payload u rid) ''_scopes'' = None \<and>
   aget (upload_payload u rid) ''userId'' = None"
  by (simp add: sheet_payload_def scene_payload_def upload_payload_def optional_fields map_add_def)

subsection \<open>Concrete runs\<close>

definition ex_direct :: "ScopedKeyInfo \<Rightarrow> raw_request" where
  "ex_direct k = \<lparr>dq_contentType = [], dq_query = [(''clientId'', ''fvtt_1'')], dq_body = Inr [], dq_data = Inr [],
     dq_context = Some (ex_ctx\<lparr>rc_ScopedKey := Some k\<rparr>)\<rparr>"

definition ex_plain_key :: ScopedKeyInfo where
  "ex_plain_key = \<lparr>sk_ID = 7, sk_KeyPrefix = ''k1'', sk_ScopedClientID = [], sk_ScopedClientIDs = [], sk_ScopedUserID = [],
     sk_ScopedUserIDs = [], sk_Scopes = [''scene:read''], sk_MonthlyLimit = 0, sk_MonthlyLimitSet = False,
     sk_RequestsThisMonth = 0\<rparr>"

lemma direct_routes_confined_witness:
  "\<exists>rid ch s'. sceneImageHandler ex_parsers 5 (ex_direct (ex_plain_key\<lparr>sk_ScopedClientID := ''fvtt_1''\<rparr>)) ex_route_state =
     (DWaiting rid ch ''fvtt_1'', s') \<and> waits_for rid ''fvtt_1'' ex_route_state s'"
proof -
  let ?k = "ex_plain_key\<lparr>sk_ScopedClientID := ''fvtt_1''\<rparr>"
  have k: "scoped_key (dq_context (ex_direct ?k)) = Some ?k" by (simp add: ex_direct_def scoped_key_def)
  have "image_client (ex_direct ?k) (rt_manager ex_route_state) = ''fvtt_1''"
    using k by (simp add: image_client_def named_client_def)
  then obtain rid ch s' where run: "sceneImageHandler ex_parsers 5 (ex_direct ?k) ex_route_state = (DWaiting rid ch ''fvtt_1'', s')"
    using ex_target by (auto simp: sceneImageHandler_def direct_send_def send_to_def Send_def enqueue_def ex_route_state_def Let_def)
  then show ?thesis using direct_routes_confined [OF k _ disjI2 [OF disjI1 [OF run]]] by auto
qed

lemma client_list_ignored_witness:
  "\<exists>rid ch s'. sceneImageHandler ex_parsers 5 (ex_direct (ex_plain_key\<lparr>sk_ScopedClientIDs := [''fvtt_2'']\<rparr>)) ex_route_state =
     (DWaiting rid ch ''fvtt_1'', s')"
  using client_list_ignored [of "ex_direct (ex_plain_key\<lparr>sk_ScopedClientIDs := [''fvtt_2'']\<rparr>)"
      "ex_plain_key\<lparr>sk_ScopedClientIDs := [''fvtt_2'']\<rparr>" "''fvtt_1''" ex_route_state 0 ex_parsers 5]
    ex_target
  by (auto simp: ex_direct_def ex_plain_key_def ex_route_state_def scoped_key_def qget_def null_str_def)

lemma clients_complete_witness:
  "\<exists>cs. clientsHandler (\<lambda>k. None) (Some (ex_ctx\<lparr>rc_ScopedKey := None\<rparr>)) (ex_manager False ''i1'')
       (empty_db\<lparr>db_known := [ex_known 1 1 ''fvtt_9'']\<rparr>) = Inr (length cs, cs) \<and> ''fvtt_9'' \<in> ci_ID ` fst ` set cs"
proof -
  let ?d = "empty_db\<lparr>db_known := [ex_known 1 1 ''fvtt_9'']\<rparr>" and ?ctx = "ex_ctx\<lparr>rc_ScopedKey := None\<rparr>"
  obtain cs where run: "clientsHandler (\<lambda>k. None) (Some ?ctx) (ex_manager False ''i1'') ?d = Inr (length cs, cs)"
    by (simp add: clientsHandler_def Let_def)
  have "kc_FindAllByUser (us_ID (ex_user 1)) ?d = DBOk [ex_known 1 1 ''fvtt_9'']"
    by (simp add: kc_FindAllByUser_def db_ok_def empty_db_def ex_known_def ex_user_def)
  then have "ci_ID ` fst ` set cs = ci_ID ` set (GetConnectedClientInfos (rc_MasterAPIKey ?ctx) (ex_manager False ''i1'')) \<union> {''fvtt_9''}"
    using clients_complete [OF _ _ _ run, of "ex_user 1" "[ex_known 1 1 ''fvtt_9'']"]
    by (simp add: ex_ctx_def key_context_def ex_known_def)
  then show ?thesis using run by blast
qed

end
