(* ===== verification/Stripe.thy ===== *)
theory Stripe
  imports Auth Pairing
begin

text \<open>
  Subscriptions, \<open>internal/handler/stripe.go\<close>: the routes of the account and the webhook with its record of processed events.

  Stripe is a parameter: \<open>pe_verify\<close> is \<open>webhook.ConstructEventWithOptions\<close> (\<open>None\<close> for a bad signature), the others are its
  calls for customers and checkout sessions, \<open>None\<close> for an error.  \<open>json.Unmarshal\<close> into a structure is written out for the
  fields that the structures have.  The alerts go to the component of \<open>Limits\<close>.
\<close>

record stripe_event =
  ev_ID :: string
  ev_Type :: string
  ev_Data :: json

record stripe_env =
  pe_secretKey :: string
  pe_portalURL :: string
  pe_verify :: "string \<Rightarrow> string \<Rightarrow> stripe_event option"
  pe_getCustomer :: "string \<Rightarrow> bool"
  pe_newCustomer :: "string \<Rightarrow> string \<Rightarrow> string option"
  pe_newSession :: "string \<Rightarrow> string \<Rightarrow> string option"
  pe_sha :: "string \<Rightarrow> string"
  pe_alertsDB :: bool

record stripe_state =
  sp_db :: db
  sp_processed :: "(string, gotime) gomap"
  sp_alerts :: alert_state

definition statusPriority :: "(string, int) gomap" where
  "statusPriority = [(''incomplete'', 0), (''incomplete_expired'', 0), (''past_due'', 1), (''canceled'', 2), (''active'', 3)]"

definition priority_or :: "int \<Rightarrow> string \<Rightarrow> int" where
  "priority_or dflt status = (case aget statusPriority status of Some p \<Rightarrow> p | None \<Rightarrow> dflt)"

subsection \<open>Processed events\<close>

definition markEventProcessed :: "gotime \<Rightarrow> string \<Rightarrow> stripe_state \<Rightarrow> bool \<times> stripe_state" where
  "markEventProcessed now i s =
     (case aget (sp_processed s) i of
        Some t \<Rightarrow> (True, s)
      | None \<Rightarrow> (False, s\<lparr>sp_processed := aput i now (sp_processed s)\<rparr>))"

definition forget_events :: "gotime \<Rightarrow> stripe_state \<Rightarrow> stripe_state" where
  "forget_events now s = s\<lparr>sp_processed := filter (\<lambda>kv. \<not> snd kv < now - minutes 1440) (sp_processed s)\<rparr>"

subsection \<open>Decoding\<close>

definition as_object :: "json \<Rightarrow> obj option" where
  "as_object v = (case v of JObj m \<Rightarrow> Some m | JNull \<Rightarrow> Some [] | _ \<Rightarrow> None)"

definition field_str :: "string \<Rightarrow> obj \<Rightarrow> string option" where
  "field_str k m = (case aget m k of None \<Rightarrow> Some [] | Some JNull \<Rightarrow> Some [] | Some (JStr t) \<Rightarrow> Some t | _ \<Rightarrow> None)"

definition field_int :: "string \<Rightarrow> obj \<Rightarrow> int option" where
  "field_int k m = (case aget m k of None \<Rightarrow> Some 0 | Some JNull \<Rightarrow> Some 0 | Some (JNum n) \<Rightarrow> Some n | _ \<Rightarrow> None)"

record SubscriptionData =
  sd_ID :: string
  sd_Customer :: string
  sd_Status :: string
  sd_CurrentPeriodEnd :: int

definition decode_subscription :: "json \<Rightarrow> SubscriptionData option" where
  "decode_subscription v =
     (case as_object v of None \<Rightarrow> None
      | Some m \<Rightarrow>
          (case (field_str ''id'' m, field_str ''customer'' m, field_str ''status'' m, field_int ''current_period_end'' m) of
             (Some i, Some c, Some st, Some e) \<Rightarrow> Some \<lparr>sd_ID = i, sd_Customer = c, sd_Status = st, sd_CurrentPeriodEnd = e\<rparr>
           | _ \<Rightarrow> None))"

definition decode_deletion :: "json \<Rightarrow> (string \<times> int) option" where
  "decode_deletion v =
     (case as_object v of None \<Rightarrow> None
      | Some m \<Rightarrow> (case (field_str ''customer'' m, field_int ''canceled_at'' m) of (Some c, Some t) \<Rightarrow> Some (c, t) | _ \<Rightarrow> None))"

definition decode_invoice :: "json \<Rightarrow> (string \<times> string) option" where
  "decode_invoice v =
     (case as_object v of None \<Rightarrow> None
      | Some m \<Rightarrow> (case (field_str ''customer'' m, field_str ''subscription'' m) of (Some c, Some t) \<Rightarrow> Some (c, t) | _ \<Rightarrow> None))"

subsection \<open>The handlers of the events\<close>

definition stripe_alert :: "gotime \<Rightarrow> stripe_env \<Rightarrow> string \<Rightarrow> string \<Rightarrow> string \<Rightarrow> obj \<Rightarrow> stripe_state \<Rightarrow> stripe_state" where
  "stripe_alert now env typ sev msg details s =
     s\<lparr>sp_alerts := Fire now (pe_alertsDB env)
         \<lparr>ae_Type = typ, ae_Severity = sev, ae_Message = msg, ae_Details = details, ae_Timestamp = zero_time\<rparr> (sp_alerts s)\<rparr>"

definition effective_status :: "string \<Rightarrow> string" where
  "effective_status st = (if st = ''trialing'' then ''active'' else st)"

text \<open>The row that an update of a subscription writes.\<close>

definition updated_subscriber :: "SubscriptionData \<Rightarrow> User \<Rightarrow> User" where
  "updated_subscriber d u =
     (let st = effective_status (sd_Status d);
          same = (null_str (us_SubscriptionID u) = sd_ID d);
          u1 = u\<lparr>us_SubscriptionID := Some (sd_ID d), us_SubscriptionEndsAt := Some (seconds (sd_CurrentPeriodEnd d))\<rparr>
      in if same \<and> priority_or 1 st < priority_or (- 1) (GetSubscriptionStatus u) then u1
         else u1\<lparr>us_SubscriptionStatus := Some st\<rparr>)"

definition skips_downgrade :: "SubscriptionData \<Rightarrow> User \<Rightarrow> bool" where
  "skips_downgrade d u \<longleftrightarrow>
     null_str (us_SubscriptionID u) = sd_ID d \<and>
     priority_or 1 (effective_status (sd_Status d)) < priority_or (- 1) (GetSubscriptionStatus u)"

definition handleSubscriptionUpdated :: "stripe_env \<Rightarrow> gotime \<Rightarrow> json \<Rightarrow> stripe_state \<Rightarrow> bool \<times> stripe_state" where
  "handleSubscriptionUpdated env now data s =
     (case decode_subscription data of
        None \<Rightarrow> (False, s)
      | Some d \<Rightarrow>
          (case us_FindByStripeCustomerID (sd_Customer d) (sp_db s) of
             DBOk (Some user) \<Rightarrow>
               (case us_Update (pe_sha env) now (updated_subscriber d user) (sp_db s) of
                  (DBErr, db') \<Rightarrow> (False, s\<lparr>sp_db := db'\<rparr>)
                | (DBOk _, db') \<Rightarrow>
                    (True,
                     if \<not> skips_downgrade d user \<and> effective_status (sd_Status d) = ''active''
                     then stripe_alert now env ''new_subscription'' ''info'' ''New subscription activated''
                            [(''userId'', JNum (us_ID user)), (''subscriptionId'', JStr (sd_ID d))] (s\<lparr>sp_db := db'\<rparr>)
                     else s\<lparr>sp_db := db'\<rparr>))
           | _ \<Rightarrow> (False, s)))"

definition handleSubscriptionDeleted :: "stripe_env \<Rightarrow> gotime \<Rightarrow> json \<Rightarrow> stripe_state \<Rightarrow> bool \<times> stripe_state" where
  "handleSubscriptionDeleted env now data s =
     (case decode_deletion data of
        None \<Rightarrow> (False, s)
      | Some (customer, canceledAt) \<Rightarrow>
          (case us_FindByStripeCustomerID customer (sp_db s) of
             DBOk (Some user) \<Rightarrow>
               (let u1 = user\<lparr>us_SubscriptionStatus := Some ''canceled''\<rparr>;
                    u2 = (if canceledAt > 0 then u1\<lparr>us_SubscriptionEndsAt := Some (seconds canceledAt)\<rparr> else u1)
                in case us_Update (pe_sha env) now u2 (sp_db s) of
                     (DBErr, db') \<Rightarrow> (False, s\<lparr>sp_db := db'\<rparr>)
                   | (DBOk _, db') \<Rightarrow>
                       (True, stripe_alert now env ''subscription_cancelled'' ''info'' ''Subscription cancelled''
                                [(''userId'', JNum (us_ID user))] (s\<lparr>sp_db := db'\<rparr>)))
           | _ \<Rightarrow> (False, s)))"

definition handlePaymentSucceeded :: "json \<Rightarrow> stripe_state \<Rightarrow> bool \<times> stripe_state" where
  "handlePaymentSucceeded data s =
     (case decode_invoice data of
        None \<Rightarrow> (False, s)
      | Some (customer, subscription) \<Rightarrow>
          (if subscription = [] then (True, s)
           else (case us_FindByStripeCustomerID customer (sp_db s) of DBOk (Some user) \<Rightarrow> (True, s) | _ \<Rightarrow> (False, s))))"

definition handlePaymentFailed :: "stripe_env \<Rightarrow> gotime \<Rightarrow> json \<Rightarrow> stripe_state \<Rightarrow> bool \<times> stripe_state" where
  "handlePaymentFailed env now data s =
     (case decode_invoice data of
        None \<Rightarrow> (False, s)
      | Some (customer, subscription) \<Rightarrow>
          (if subscription = [] then (True, s)
           else (case us_FindByStripeCustomerID customer (sp_db s) of
                   DBOk (Some user) \<Rightarrow>
                     (case us_Update (pe_sha env) now (user\<lparr>us_SubscriptionStatus := Some ''past_due''\<rparr>) (sp_db s) of
                        (DBErr, db') \<Rightarrow> (False, s\<lparr>sp_db := db'\<rparr>)
                      | (DBOk _, db') \<Rightarrow>
                          (True, stripe_alert now env ''stripe_payment_failed'' ''warning''
                                   (''Stripe payment failed '' @ [CHR 0xE2, CHR 0x80, CHR 0x94] @ '' subscription set to past_due'')
                                   [(''userId'', JNum (us_ID user)), (''subscriptionId'', JStr subscription)] (s\<lparr>sp_db := db'\<rparr>)))
                 | _ \<Rightarrow> (False, s))))"

definition handle_event :: "stripe_env \<Rightarrow> gotime \<Rightarrow> stripe_event \<Rightarrow> stripe_state \<Rightarrow> bool \<times> stripe_state" where
  "handle_event env now e s =
     (if ev_Type e = ''customer.subscription.created'' \<or> ev_Type e = ''customer.subscription.updated''
      then handleSubscriptionUpdated env now (ev_Data e) s
      else if ev_Type e = ''customer.subscription.deleted'' then handleSubscriptionDeleted env now (ev_Data e) s
      else if ev_Type e = ''invoice.payment_succeeded'' then handlePaymentSucceeded (ev_Data e) s
      else if ev_Type e = ''invoice.payment_failed'' then handlePaymentFailed env now (ev_Data e) s
      else (True, s))"

text \<open>\<open>None\<close> is a body that could not be read.\<close>

definition stripe_webhook :: "stripe_env \<Rightarrow> gotime \<Rightarrow> string option \<Rightarrow> string \<Rightarrow> stripe_state \<Rightarrow> answer \<times> stripe_state" where
  "stripe_webhook env now body signature s =
     (if pe_secretKey env = [] then ((200, [(''received'', JStr ''true'')]), s)
      else (case body of
              None \<Rightarrow> (WriteError 400 ''Failed to read request body'', s)
            | Some raw \<Rightarrow>
                (case pe_verify env raw signature of
                   None \<Rightarrow> ((400, []), s)
                 | Some e \<Rightarrow>
                     (case markEventProcessed now (ev_ID e) s of
                        (True, s1) \<Rightarrow> ((200, []), s1)
                      | (False, s1) \<Rightarrow>
                          (case handle_event env now e s1 of
                             (True, s2) \<Rightarrow> ((200, []), s2)
                           | (False, s2) \<Rightarrow> (WriteError 500 ''Failed to process webhook'', s2))))))"

subsection \<open>The routes of the account\<close>

definition subscription_status :: "stripe_env \<Rightarrow> req_context option \<Rightarrow> answer" where
  "subscription_status env rc =
     (if pe_secretKey env = []
      then (200, [(''subscriptionStatus'', JStr ''free''), (''message'', JStr ''Stripe is disabled in local mode'')])
      else (case rc of
              None \<Rightarrow> WriteError 401 ''Authentication required''
            | Some c \<Rightarrow> (200, [(''subscriptionStatus'', JStr (rc_SubscriptionStatus c))])))"

text \<open>The customer of an account: the one it has while Stripe knows it, else a new one, which is saved.\<close>

definition stripe_customer :: "stripe_env \<Rightarrow> gotime \<Rightarrow> User \<Rightarrow> db \<Rightarrow> string option \<times> db" where
  "stripe_customer env now user d =
     (let known = null_str (us_StripeCustomerID user)
      in if known \<noteq> [] \<and> pe_getCustomer env known then (Some known, d)
         else (case pe_newCustomer env (us_Email user) (int_text (us_ID user)) of
                 None \<Rightarrow> (None, d)
               | Some c \<Rightarrow>
                   (case us_Update (pe_sha env) now (user\<lparr>us_StripeCustomerID := Some c\<rparr>) d of
                      (DBErr, d') \<Rightarrow> (None, d')
                    | (DBOk _, d') \<Rightarrow> (Some c, d'))))"

definition create_checkout_session :: "stripe_env \<Rightarrow> gotime \<Rightarrow> req_context option \<Rightarrow> db \<Rightarrow> answer \<times> db" where
  "create_checkout_session env now rc d =
     (if pe_secretKey env = [] then (WriteError 503 ''Stripe is not configured'', d)
      else (case rc of
              None \<Rightarrow> (WriteError 401 ''Authentication required'', d)
            | Some c \<Rightarrow>
                (case rc_User c of
                   None \<Rightarrow> (WriteError 401 ''Invalid user'', d)
                 | Some user \<Rightarrow>
                     (case stripe_customer env now user d of
                        (None, d1) \<Rightarrow> (WriteError 500 ''Failed to create checkout session'', d1)
                      | (Some customer, d1) \<Rightarrow>
                          (case pe_newSession env customer (int_text (us_ID user)) of
                             None \<Rightarrow> (WriteError 500 ''Failed to create checkout session'', d1)
                           | Some url \<Rightarrow> ((200, [(''url'', JStr url)]), d1))))))"

definition create_portal_session :: "stripe_env \<Rightarrow> req_context option \<Rightarrow> answer" where
  "create_portal_session env rc =
     (if pe_secretKey env = [] then WriteError 503 ''Stripe is not configured''
      else (case rc of
              None \<Rightarrow> WriteError 401 ''Authentication required''
            | Some c \<Rightarrow>
                if rc_User c = None then WriteError 401 ''Invalid user''
                else if pe_portalURL env \<noteq> [] then (200, [(''url'', JStr (pe_portalURL env))])
                else WriteError 503 ''Stripe portal URL not configured''))"

subsection \<open>Each event is handled once\<close>

inductive stripe_step :: "stripe_env \<Rightarrow> gotime \<times> stripe_state \<Rightarrow> gotime \<times> stripe_state \<Rightarrow> bool" for env where
  delivery: "\<lbrakk>t \<le> now; stripe_webhook env now body sig s = (a, s')\<rbrakk> \<Longrightarrow> stripe_step env (t, s) (now, s')"
| hourly: "t \<le> now \<Longrightarrow> stripe_step env (t, s) (now, forget_events now s)"
| others: "\<lbrakk>t \<le> now; sp_processed s' = sp_processed s\<rbrakk> \<Longrightarrow> stripe_step env (t, s) (now, s')"

inductive_cases stripe_stepE: "stripe_step env (t, s) (t', s')"

inductive stripe_reaches :: "stripe_env \<Rightarrow> gotime \<times> stripe_state \<Rightarrow> gotime \<times> stripe_state \<Rightarrow> bool" for env w where
  here: "stripe_reaches env w w"
| step: "\<lbrakk>stripe_reaches env w v; stripe_step env v u\<rbrakk> \<Longrightarrow> stripe_reaches env w u"

definition remembered :: "string \<Rightarrow> gotime \<Rightarrow> stripe_state \<Rightarrow> bool" where
  "remembered i t s \<longleftrightarrow> (\<exists>r \<ge> t. aget (sp_processed s) i = Some r)"

lemma stripe_alert_processed [simp]: "sp_processed (stripe_alert now env t v m d s) = sp_processed s"
  by (simp add: stripe_alert_def)

lemma updated_processed: "sp_processed (snd (handleSubscriptionUpdated env now data s)) = sp_processed s"
  by (simp add: handleSubscriptionUpdated_def split: option.split prod.split db_result.split)

lemma deleted_processed: "sp_processed (snd (handleSubscriptionDeleted env now data s)) = sp_processed s"
  by (simp add: handleSubscriptionDeleted_def Let_def split: option.split prod.split db_result.split)

lemma succeeded_processed: "sp_processed (snd (handlePaymentSucceeded data s)) = sp_processed s"
  by (simp add: handlePaymentSucceeded_def split: option.split prod.split db_result.split)

lemma failed_processed: "sp_processed (snd (handlePaymentFailed env now data s)) = sp_processed s"
  by (simp add: handlePaymentFailed_def split: option.split prod.split db_result.split)

lemma handlers_keep_processed [simp]: "sp_processed (snd (handle_event env now e s)) = sp_processed s"
  by (simp add: handle_event_def updated_processed deleted_processed succeeded_processed failed_processed)

lemma handle_processed: "handle_event env now e s = (b, s') \<Longrightarrow> sp_processed s' = sp_processed s"
  using handlers_keep_processed [of env now e s] by simp

lemma webhook_processed:
  assumes "stripe_webhook env now body sig s = (a, s')"
  shows "sp_processed s' = sp_processed s \<or> (\<exists>i. aget (sp_processed s) i = None \<and> sp_processed s' = aput i now (sp_processed s))"
  using assms
  by (auto simp: stripe_webhook_def markEventProcessed_def dest!: handle_processed split: if_splits option.splits prod.splits bool.splits)

lemma webhook_remembers: "\<lbrakk>stripe_webhook env now body sig s = (a, s'); remembered i t s\<rbrakk> \<Longrightarrow> remembered i t s'"
  using webhook_processed by (fastforce simp: remembered_def)

lemma aget_filter_keep: "\<lbrakk>aget m k = Some v; P (k, v)\<rbrakk> \<Longrightarrow> aget (filter P m) k = Some v"
  by (induction m) (auto split: if_splits)

lemma forget_remembers: "\<lbrakk>remembered i t s; now \<le> t + minutes 1440\<rbrakk> \<Longrightarrow> remembered i t (forget_events now s)"
  by (force simp: remembered_def forget_events_def intro: aget_filter_keep)

lemma clock_grows: "stripe_reaches env w v \<Longrightarrow> fst w \<le> fst v"
  by (induction rule: stripe_reaches.induct) (auto elim!: stripe_step.cases)

lemma remembered_reaches:
  "\<lbrakk>stripe_reaches env w v; remembered i t (snd w); fst v \<le> t + minutes 1440\<rbrakk> \<Longrightarrow> remembered i t (snd v)"
proof (induction rule: stripe_reaches.induct)
  case (step v u)
  have "fst v \<le> fst u" using step.hyps(2) by (auto elim!: stripe_step.cases)
  then have "remembered i t (snd v)" using step.IH step.prems by simp
  with step.hyps(2) show ?case
    using step.prems(2) webhook_remembers forget_remembers
    by cases (fastforce simp: remembered_def)+
qed simp

text \<open>C30: an event that was delivered once is not handled a second time for a day, however often Stripe sends it and whatever
  happens in between.\<close>

theorem event_handled_once:
  assumes "pe_secretKey env \<noteq> []" and "pe_verify env raw sig = Some e" and "stripe_webhook env t (Some raw) sig s = (a, s')"
    and "aget (sp_processed s) (ev_ID e) = None"
    and "stripe_reaches env (t, s') (now, v)" and "now \<le> t + minutes 1440"
    and "pe_verify env raw' sig' = Some e'" and "ev_ID e' = ev_ID e"
  shows "stripe_webhook env now (Some raw') sig' v = ((200, []), v)"
proof -
  have "sp_processed s' = aput (ev_ID e) t (sp_processed s)"
    using assms(1-4) by (auto simp: stripe_webhook_def markEventProcessed_def dest!: handle_processed split: prod.splits bool.splits)
  then have "remembered (ev_ID e) t s'" by (simp add: remembered_def)
  then have "remembered (ev_ID e) t v"
    using remembered_reaches [OF assms(5)] assms(6) by simp
  then show ?thesis
    using assms(1,7,8) by (auto simp: stripe_webhook_def markEventProcessed_def remembered_def)
qed

text \<open>So the retry that the answer 500 asks for finds the event processed and does nothing.\<close>

theorem failed_event_lost:
  assumes "pe_secretKey env \<noteq> []" and "pe_verify env raw sig = Some e" and "aget (sp_processed s) (ev_ID e) = None"
    and "stripe_webhook env t (Some raw) sig s = ((500, out), s')"
  shows "stripe_webhook env now (Some raw) sig s' = ((200, []), s')"
proof -
  have "sp_processed s' = aput (ev_ID e) t (sp_processed s)"
    using assms by (auto simp: stripe_webhook_def markEventProcessed_def dest!: handle_processed split: prod.splits bool.splits)
  then show ?thesis
    using assms(1,2) by (simp add: stripe_webhook_def markEventProcessed_def)
qed

subsection \<open>The status of a subscription\<close>

definition priority :: "User \<Rightarrow> int" where
  "priority u = priority_or (- 1) (GetSubscriptionStatus u)"

definition by_customer :: "string \<Rightarrow> User \<Rightarrow> bool" where
  "by_customer c u \<longleftrightarrow> us_StripeCustomerID u = Some c"

lemma FindByStripe: "db_ok ''us_FindByStripeCustomerID'' d \<Longrightarrow> us_FindByStripeCustomerID c d = DBOk (find (by_customer c) (db_users d))"
  by (simp add: us_FindByStripeCustomerID_def get_row_def by_customer_def [abs_def])

lemma find_replaced:
  assumes "distinct (map g rows)" "find P rows = Some r" "P (f r)"
  shows "find P (update_rows (\<lambda>x. g x = g r) f rows) = Some (f r)"
  using assms
proof (induction rows)
  case (Cons x rows)
  show ?case
  proof (cases "P x")
    case True
    then show ?thesis using Cons.prems by (auto simp: update_rows_def)
  next
    case False
    then have "r \<in> set rows" using Cons.prems(2) by (auto simp: find_Some_iff)
    then have "g x \<noteq> g r" using Cons.prems(1) by (auto simp: image_iff)
    then show ?thesis using Cons False by (auto simp: update_rows_def)
  qed
qed simp

lemma map_replaced: "(\<And>x. g x = k \<Longrightarrow> g (f x) = k) \<Longrightarrow> map g (update_rows (\<lambda>x. g x = k) f rows) = map g rows"
  by (simp add: update_rows_def)

lemma us_Update_read:
  assumes "distinct (map us_ID (db_users d))" "find (by_customer c) (db_users d) = Some u" "db_ok ''us_Update'' d"
    and "us_ID u' = us_ID u" "us_StripeCustomerID u' = Some c"
  shows "\<exists>d' w. us_Update sha now u' d = (DBOk (), d') \<and> find (by_customer c) (db_users d') = Some w \<and>
    us_SubscriptionStatus w = us_SubscriptionStatus u' \<and> us_SubscriptionID w = us_SubscriptionID u' \<and>
    distinct (map us_ID (db_users d')) \<and> db_fails d' = db_fails d"
proof -
  define v where "v = derive_hash sha (u'\<lparr>us_UpdatedAt := now, us_Role := (if us_Role u' = [] then ''user'' else us_Role u')\<rparr>)"
  define f where "f = (\<lambda>x :: User. v\<lparr>us_APIKey := [], us_CreatedAt := us_CreatedAt x\<rparr>)"
  have v: "us_ID v = us_ID u" "us_StripeCustomerID v = Some c" "us_SubscriptionStatus v = us_SubscriptionStatus u'"
    "us_SubscriptionID v = us_SubscriptionID u'"
    using assms(4,5) by (simp_all add: v_def derive_hash_def)
  have run: "us_Update sha now u' d = (DBOk (), d\<lparr>db_users := update_rows (\<lambda>x. us_ID x = us_ID u) f (db_users d)\<rparr>)"
    using assms(3) v(1) by (simp add: us_Update_def exec_def f_def v_def [symmetric] Let_def)
  have "find (by_customer c) (update_rows (\<lambda>x. us_ID x = us_ID u) f (db_users d)) = Some (f u)"
    by (rule find_replaced [OF assms(1,2)]) (simp add: f_def by_customer_def v)
  moreover have "map us_ID (update_rows (\<lambda>x. us_ID x = us_ID u) f (db_users d)) = map us_ID (db_users d)"
    by (rule map_replaced) (simp add: f_def v)
  ultimately show ?thesis
    using run assms(1) by (auto simp: f_def v)
qed

lemma updated_priority:
  assumes "null_str (us_SubscriptionID u) = sd_ID d" "aget statusPriority (effective_status (sd_Status d)) \<noteq> None"
  shows "priority (updated_subscriber d u) = max (priority u) (priority_or (- 1) (effective_status (sd_Status d)))"
  using assms
  by (auto simp: priority_def updated_subscriber_def GetSubscriptionStatus_def priority_or_def Let_def max_def)

definition run_updates :: "stripe_env \<Rightarrow> (gotime \<times> json) list \<Rightarrow> stripe_state \<Rightarrow> stripe_state" where
  "run_updates env evs s = fold (\<lambda>(now, data) s. snd (handleSubscriptionUpdated env now data s)) evs s"

definition update_of :: "string \<Rightarrow> string \<Rightarrow> json \<Rightarrow> string \<Rightarrow> bool" where
  "update_of c i data st \<longleftrightarrow>
     (\<exists>e. decode_subscription data = Some \<lparr>sd_ID = i, sd_Customer = c, sd_Status = st, sd_CurrentPeriodEnd = e\<rparr>)"

lemma run_updates_Cons:
  "run_updates env (ev # evs) s = run_updates env evs (snd (handleSubscriptionUpdated env (fst ev) (snd ev) s))"
  by (simp add: run_updates_def split_beta)

lemma one_update:
  assumes "distinct (map us_ID (db_users (sp_db s)))" "find (by_customer c) (db_users (sp_db s)) = Some u"
    and "null_str (us_SubscriptionID u) = i" and "db_ok ''us_FindByStripeCustomerID'' (sp_db s)" "db_ok ''us_Update'' (sp_db s)"
    and "update_of c i data st" "aget statusPriority (effective_status st) \<noteq> None"
  shows "\<exists>s' w. handleSubscriptionUpdated env now data s = (True, s') \<and> distinct (map us_ID (db_users (sp_db s'))) \<and>
    find (by_customer c) (db_users (sp_db s')) = Some w \<and> null_str (us_SubscriptionID w) = i \<and>
    priority w = max (priority u) (priority_or (- 1) (effective_status st)) \<and> db_fails (sp_db s') = db_fails (sp_db s)"
proof -
  obtain e where d: "decode_subscription data = Some \<lparr>sd_ID = i, sd_Customer = c, sd_Status = st, sd_CurrentPeriodEnd = e\<rparr>" (is "_ = Some ?d")
    using assms(6) unfolding update_of_def by blast
  have u: "us_StripeCustomerID u = Some c" using assms(2) by (auto simp: find_Some_iff by_customer_def)
  have "us_ID (updated_subscriber ?d u) = us_ID u" "us_StripeCustomerID (updated_subscriber ?d u) = Some c"
    "us_SubscriptionID (updated_subscriber ?d u) = Some i"
    using u by (simp_all add: updated_subscriber_def Let_def)
  with us_Update_read [OF assms(1,2,5) this(1,2), of "pe_sha env" now]
  obtain d' w where w: "us_Update (pe_sha env) now (updated_subscriber ?d u) (sp_db s) = (DBOk (), d')"
    "find (by_customer c) (db_users d') = Some w" "us_SubscriptionStatus w = us_SubscriptionStatus (updated_subscriber ?d u)"
    "us_SubscriptionID w = Some i" "distinct (map us_ID (db_users d'))" "db_fails d' = db_fails (sp_db s)" by auto
  have "priority w = priority (updated_subscriber ?d u)" using w(3) by (simp add: priority_def GetSubscriptionStatus_def)
  also have "\<dots> = max (priority u) (priority_or (- 1) (effective_status st))"
    using updated_priority [of u ?d] assms(3,7) by simp
  finally show ?thesis
    using d w FindByStripe [OF assms(4), of c] assms(2) by (simp add: handleSubscriptionUpdated_def stripe_alert_def null_str_def)
qed

lemma Max_insert_max: "finite A \<Longrightarrow> Max (insert (max a b) A) = Max (insert a (insert b A))" for a b :: int
  by (cases "A = {}") (simp_all add: max.assoc)

text \<open>Whatever the order in which the updates of one subscription arrive, and however often, the account ends with the highest
  status among them and the one it had; so late messages do no harm.\<close>

theorem update_order_irrelevant:
  assumes "distinct (map us_ID (db_users (sp_db s)))" and "find (by_customer c) (db_users (sp_db s)) = Some u"
    and "null_str (us_SubscriptionID u) = i"
    and "db_ok ''us_FindByStripeCustomerID'' (sp_db s)" and "db_ok ''us_Update'' (sp_db s)"
    and "list_all2 (\<lambda>ev st. update_of c i (snd ev) st \<and> aget statusPriority (effective_status st) \<noteq> None) evs sts"
  shows "\<exists>w. us_FindByStripeCustomerID c (sp_db (run_updates env evs s)) = DBOk (Some w) \<and>
    priority w = Max (set (priority u # map (\<lambda>st. priority_or (- 1) (effective_status st)) sts))"
  using assms(6,1-5)
proof (induction evs sts arbitrary: s u rule: list_all2_induct)
  case Nil
  then show ?case by (simp add: run_updates_def FindByStripe)
next
  case (Cons ev evs st sts)
  obtain s' w where s': "handleSubscriptionUpdated env (fst ev) (snd ev) s = (True, s')" "distinct (map us_ID (db_users (sp_db s')))"
    "find (by_customer c) (db_users (sp_db s')) = Some w" "null_str (us_SubscriptionID w) = i"
    "priority w = max (priority u) (priority_or (- 1) (effective_status st))" "db_fails (sp_db s') = db_fails (sp_db s)"
    using one_update [OF Cons.prems, of "snd ev" st env "fst ev"] Cons.hyps by blast
  have "db_ok ''us_FindByStripeCustomerID'' (sp_db s')" "db_ok ''us_Update'' (sp_db s')"
    using Cons.prems(4,5) s'(6) by (simp_all add: db_ok_def)
  from Cons.IH [OF s'(2-4) this] show ?case
    using s'(1,5) by (auto simp: run_updates_Cons Max_insert_max simp del: Max_insert)
qed

text \<open>The comment promises that an active subscription can decay to \<open>canceled\<close> and \<open>past_due\<close>; an update never lowers it.\<close>

theorem active_never_lowered:
  assumes "us_SubscriptionStatus u = Some ''active''" and "us_SubscriptionID u = Some (sd_ID d)"
  shows "us_SubscriptionStatus (updated_subscriber d u) = Some ''active''"
proof -
  have "priority_or 1 st \<le> 3" for st by (simp add: priority_or_def statusPriority_def)
  moreover have "priority_or 1 st = 3 \<Longrightarrow> st = ''active''" for st
    by (simp add: priority_or_def statusPriority_def split: if_splits)
  ultimately have "priority_or 1 st < 3 \<or> st = ''active''" for st by (metis order_le_less)
  moreover have "priority_or (- 1) ''active'' = 3" by (simp add: priority_or_def statusPriority_def)
  ultimately show ?thesis
    using assms by (auto simp: updated_subscriber_def GetSubscriptionStatus_def Let_def null_str_def)
qed

text \<open>A status without a rank, such as \<open>unpaid\<close>, counts as 1 when it comes in and as nothing once it is stored.\<close>

lemma unpaid_overridden:
  assumes "us_SubscriptionStatus u = Some ''unpaid''" "us_SubscriptionID u = Some (sd_ID d)" "sd_Status d = ''incomplete''"
  shows "us_SubscriptionStatus (updated_subscriber d u) = Some ''incomplete''"
  using assms by (simp add: updated_subscriber_def GetSubscriptionStatus_def priority_or_def statusPriority_def effective_status_def Let_def)

subsection \<open>Examples\<close>

definition ex_update :: "string \<Rightarrow> json" where
  "ex_update st = JObj [(''id'', JStr ''sub''), (''customer'', JStr ''cus''), (''status'', JStr st), (''current_period_end'', JNum 9)]"

definition ex_stripe_env :: stripe_env where
  "ex_stripe_env = \<lparr>pe_secretKey = ''sk'', pe_portalURL = [],
     pe_verify = (\<lambda>body sig. if sig = ''ok'' then Some \<lparr>ev_ID = ''e1'', ev_Type = ''customer.subscription.updated'', ev_Data = ex_update body\<rparr> else None),
     pe_getCustomer = (\<lambda>c. True), pe_newCustomer = (\<lambda>e u. None), pe_newSession = (\<lambda>c u. None), pe_sha = (\<lambda>x. x), pe_alertsDB = False\<rparr>"

definition ex_subscriber :: User where
  "ex_subscriber = (ex_user 1)\<lparr>us_StripeCustomerID := Some ''cus'', us_SubscriptionID := Some ''sub''\<rparr>"

definition ex_stripe :: stripe_state where
  "ex_stripe = \<lparr>sp_db = empty_db\<lparr>db_users := [ex_subscriber]\<rparr>, sp_processed = [],
     sp_alerts = \<lparr>as_trackers = [], as_recent = [], as_dispatched = []\<rparr>\<rparr>"

lemma ex_update_of: "update_of ''cus'' ''sub'' (ex_update st) st"
  by (simp add: update_of_def ex_update_def decode_subscription_def as_object_def field_str_def field_int_def)

lemma update_order_irrelevant_witness:
  "\<exists>w. us_FindByStripeCustomerID ''cus'' (sp_db (run_updates ex_stripe_env [(5, ex_update ''active''), (6, ex_update ''past_due'')] ex_stripe)) =
     DBOk (Some w) \<and> priority w = 3"
proof -
  have "\<exists>w. us_FindByStripeCustomerID ''cus'' (sp_db (run_updates ex_stripe_env [(5, ex_update ''active''), (6, ex_update ''past_due'')] ex_stripe)) =
       DBOk (Some w) \<and>
     priority w = Max (set (priority ex_subscriber # map (\<lambda>st. priority_or (- 1) (effective_status st)) [''active'', ''past_due'']))"
    by (rule update_order_irrelevant [where i = "''sub''"])
      (simp_all add: ex_stripe_def empty_db_def ex_subscriber_def ex_user_def by_customer_def db_ok_def null_str_def ex_update_of
        statusPriority_def effective_status_def)
  moreover have "Max (set (priority ex_subscriber # map (\<lambda>st. priority_or (- 1) (effective_status st)) [''active'', ''past_due''])) = 3"
    by (simp add: priority_def ex_subscriber_def ex_user_def GetSubscriptionStatus_def priority_or_def statusPriority_def effective_status_def)
  ultimately show ?thesis by simp
qed

lemma event_handled_once_witness:
  "\<exists>a s'. stripe_webhook ex_stripe_env 5 (Some ''active'') ''ok'' ex_stripe = (a, s') \<and>
     stripe_webhook ex_stripe_env 7 (Some ''past_due'') ''ok'' (forget_events 7 s') = ((200, []), forget_events 7 s')"
proof -
  let ?e = "\<lambda>body. \<lparr>ev_ID = ''e1'', ev_Type = ''customer.subscription.updated'', ev_Data = ex_update body\<rparr>"
  obtain a s' where r: "stripe_webhook ex_stripe_env 5 (Some ''active'') ''ok'' ex_stripe = (a, s')" by fastforce
  have run: "stripe_reaches ex_stripe_env (5, s') (7, forget_events 7 s')"
    by (rule stripe_reaches.step [OF stripe_reaches.here], rule stripe_step.hourly) simp
  have "stripe_webhook ex_stripe_env 7 (Some ''past_due'') ''ok'' (forget_events 7 s') = ((200, []), forget_events 7 s')"
    by (rule event_handled_once [OF _ _ r _ run, where e = "?e ''active''" and e' = "?e ''past_due''"])
      (simp_all add: ex_stripe_env_def ex_stripe_def minutes_def seconds_def)
  then show ?thesis using r by blast
qed

end
