(* ===== verification/KnownWorlds.thy ===== *)
theory KnownWorlds
  imports Pairing
begin

text \<open>
  The dashboard's routes for stored Foundry credentials and for the worlds of an account,
  \<open>RegisterCredentialRoutes\<close> of \<open>internal/handler/connection_tokens.go\<close> up to its notification
  settings.  \<open>encrypt\<close> is \<open>service.Encrypt\<close> with the configured key, the triple of ciphertext,
  initialisation vector and tag, and \<open>available\<close> is \<open>service.IsEncryptionAvailable\<close>; \<open>quote\<close> is the
  verb \<open>%q\<close>.
\<close>

type_synonym encrypt = "string \<Rightarrow> (string \<times> string \<times> string) option"

subsection \<open>Credentials\<close>

record credential_body =
  cb_name :: string
  cb_foundryUrl :: string
  cb_foundryUsername :: string
  cb_foundryPassword :: string
  cb_foundryAdminPassword :: string
  cb_world :: string

definition credential_create ::
    "encrypt \<Rightarrow> bool \<Rightarrow> gotime \<Rightarrow> User option \<Rightarrow> bool \<times> credential_body \<Rightarrow> db \<Rightarrow> answer \<times> db" where
  "credential_create encrypt available now usr body d =
     (case usr of None \<Rightarrow> (WriteError 401 ''Invalid user'', d)
      | Some user \<Rightarrow>
          (let (decoded, b) = body
           in if \<not> decoded then (WriteError 400 ''Invalid request body'', d)
              else if cb_name b = [] \<or> cb_foundryUrl b = [] \<or> cb_foundryUsername b = []
              then (WriteError 400 ''name, foundryUrl, and foundryUsername are required'', d)
              else if \<not> available
              then (WriteError 400 ''Credential storage is not available. CREDENTIALS_ENCRYPTION_KEY is not configured.'', d)
              else (case encrypt (cb_foundryPassword b) of
                      None \<Rightarrow> (WriteError 500 ''Failed to encrypt credentials'', d)
                    | Some (ct, iv, tag) \<Rightarrow>
                   (case encrypt (cb_foundryAdminPassword b) of
                      None \<Rightarrow> (WriteError 500 ''Failed to encrypt administrator credentials'', d)
                    | Some (act, aiv, atag) \<Rightarrow>
                        (case cr_Create now \<lparr>cr_ID = 0, cr_UserID = us_ID user, cr_Name = cb_name b, cr_FoundryURL = cb_foundryUrl b,
                                cr_FoundryUsername = cb_foundryUsername b, cr_EncryptedFoundryPassword = ct, cr_PasswordIV = iv,
                                cr_PasswordAuthTag = tag, cr_EncryptedAdminPassword = act, cr_AdminPasswordIV = aiv,
                                cr_AdminPasswordAuthTag = atag, cr_World = trim_space (cb_world b), cr_CreatedAt = 0,
                                cr_UpdatedAt = 0\<rparr> d of
                           (DBErr, c, d1) \<Rightarrow> (WriteError 500 ''Failed to create credential'', d1)
                         | (DBOk _, c, d1) \<Rightarrow>
                             ((201, [(''id'', JNum (cr_ID c)), (''name'', JStr (cr_Name c)), (''foundryUrl'', JStr (cr_FoundryURL c)),
                                     (''foundryUsername'', JStr (cr_FoundryUsername c)), (''world'', JStr (cr_World c)),
                                     (''createdAt'', JNum (cr_CreatedAt c))]), d1))))))"

definition credential_view :: "Credential \<Rightarrow> json" where
  "credential_view c =
     JObj [(''id'', JNum (cr_ID c)), (''name'', JStr (cr_Name c)), (''foundryUrl'', JStr (cr_FoundryURL c)),
           (''foundryUsername'', JStr (cr_FoundryUsername c)), (''world'', JStr (cr_World c)),
           (''createdAt'', JNum (cr_CreatedAt c)), (''updatedAt'', JNum (cr_UpdatedAt c))]"

definition credential_list :: "User option \<Rightarrow> db \<Rightarrow> answer" where
  "credential_list usr d =
     (case usr of None \<Rightarrow> WriteError 401 ''Invalid user''
      | Some user \<Rightarrow>
          (case cr_FindAllByUser (us_ID user) d of
             DBErr \<Rightarrow> WriteError 500 ''Failed to list credentials''
           | DBOk cs \<Rightarrow> (200, [(''credentials'', JArr (map credential_view cs))])))"

text \<open>The user's credential with the identifier in the path; an error of the lookup counts as none.\<close>

definition own_credential :: "User \<Rightarrow> int \<Rightarrow> db \<Rightarrow> Credential option" where
  "own_credential user i d =
     (case cr_FindByID i d of DBOk (Some c) \<Rightarrow> if cr_UserID c \<noteq> us_ID user then None else Some c | _ \<Rightarrow> None)"

definition opt_str :: "obj \<Rightarrow> string \<Rightarrow> string option" where
  "opt_str b k = (case aget b k of Some (JStr s) \<Rightarrow> Some s | _ \<Rightarrow> None)"

definition patched_fields :: "obj \<Rightarrow> Credential \<Rightarrow> Credential" where
  "patched_fields b c =
     c\<lparr>cr_Name := (case opt_str b ''name'' of Some s \<Rightarrow> if s \<noteq> [] then s else cr_Name c | None \<Rightarrow> cr_Name c),
       cr_FoundryURL := (case opt_str b ''foundryUrl'' of Some s \<Rightarrow> s | None \<Rightarrow> cr_FoundryURL c),
       cr_FoundryUsername := (case opt_str b ''foundryUsername'' of Some s \<Rightarrow> s | None \<Rightarrow> cr_FoundryUsername c),
       cr_World := (case opt_str b ''world'' of Some s \<Rightarrow> trim_space s | None \<Rightarrow> cr_World c)\<rparr>"

definition with_passwords :: "encrypt \<Rightarrow> string \<Rightarrow> string \<Rightarrow> Credential \<Rightarrow> string + Credential" where
  "with_passwords encrypt pw adminPw c =
     (case (if pw = [] then Inr c
            else (case encrypt pw of
                    None \<Rightarrow> Inl ''Failed to encrypt credentials''
                  | Some (ct, iv, tag) \<Rightarrow>
                      Inr (c\<lparr>cr_EncryptedFoundryPassword := ct, cr_PasswordIV := iv, cr_PasswordAuthTag := tag\<rparr>))) of
        Inl e \<Rightarrow> Inl e
      | Inr c1 \<Rightarrow>
          if adminPw = [] then Inr c1
          else (case encrypt adminPw of
                  None \<Rightarrow> Inl ''Failed to encrypt administrator credentials''
                | Some (ct, iv, tag) \<Rightarrow>
                    Inr (c1\<lparr>cr_EncryptedAdminPassword := ct, cr_AdminPasswordIV := iv, cr_AdminPasswordAuthTag := tag\<rparr>)))"

text \<open>A body that does not decode is the empty object.\<close>

definition credential_patch ::
    "encrypt \<Rightarrow> bool \<Rightarrow> gotime \<Rightarrow> User option \<Rightarrow> string \<Rightarrow> obj \<Rightarrow> db \<Rightarrow> answer \<times> db" where
  "credential_patch encrypt available now usr idText b d =
     (case usr of None \<Rightarrow> (WriteError 401 ''Invalid user'', d)
      | Some user \<Rightarrow>
     (case ParseInt64 idText of None \<Rightarrow> (WriteError 400 ''Invalid credential ID'', d)
      | Some i \<Rightarrow>
     (case own_credential user i d of None \<Rightarrow> (WriteError 404 ''Credential not found'', d)
      | Some cred \<Rightarrow>
          (let pw = null_str (opt_str b ''foundryPassword''); adminPw = null_str (opt_str b ''foundryAdminPassword'')
           in if \<not> available then (WriteError 400 ''Credential storage is not available.'', d)
              else (case with_passwords encrypt pw adminPw (patched_fields b cred) of
                      Inl e \<Rightarrow> (WriteError 500 e, d)
                    | Inr c \<Rightarrow>
                        if pw = [] \<and> cr_EncryptedAdminPassword c = []
                        then (WriteError 400 ''foundryPassword or foundryAdminPassword is required when updating a credential'', d)
                        else (case cr_Update now c d of
                                (DBErr, c1, d1) \<Rightarrow> (WriteError 500 ''Failed to update credential'', d1)
                              | (DBOk _, c1, d1) \<Rightarrow>
                                  ((200, [(''id'', JNum (cr_ID c1)), (''name'', JStr (cr_Name c1)),
                                          (''foundryUrl'', JStr (cr_FoundryURL c1)), (''foundryUsername'', JStr (cr_FoundryUsername c1)),
                                          (''world'', JStr (cr_World c1)), (''updatedAt'', JNum (cr_UpdatedAt c1))]), d1)))))))"

definition credential_delete :: "User option \<Rightarrow> string \<Rightarrow> db \<Rightarrow> answer \<times> db" where
  "credential_delete usr idText d =
     (case usr of None \<Rightarrow> (WriteError 401 ''Invalid user'', d)
      | Some user \<Rightarrow>
     (case ParseInt64 idText of None \<Rightarrow> (WriteError 400 ''Invalid credential ID'', d)
      | Some i \<Rightarrow>
     (case own_credential user i d of None \<Rightarrow> (WriteError 404 ''Credential not found'', d)
      | Some cred \<Rightarrow>
          (case cr_Delete i d of
             (DBErr, d1) \<Rightarrow> (WriteError 500 ''Failed to delete credential'', d1)
           | (DBOk _, d1) \<Rightarrow> ((200, [(''success'', JBool True), (''message'', JStr ''Credential deleted'')]), d1)))))"

subsection \<open>The list of worlds\<close>

text \<open>The text of a database error is left out of the answer.\<close>

definition token_view :: "ConnectionToken \<Rightarrow> json" where
  "token_view t =
     JObj [(''id'', JNum (ct_ID t)), (''name'', JStr (ct_Name t)), (''clientId'', JStr (ct_ClientID t)),
           (''source'', JStr (ct_Source t)), (''allowedIps'', JStr (null_str (ct_AllowedIPs t))),
           (''lastUsedAt'', (case ct_LastUsedAt t of None \<Rightarrow> JNull | Some n \<Rightarrow> JNum n)), (''createdAt'', JNum (ct_CreatedAt t))]"

text \<open>The tokens of a world; an active token that is missing is taken from those without a world.\<close>

definition tokens_of :: "ConnectionToken list \<Rightarrow> string \<Rightarrow> int \<Rightarrow> ConnectionToken list" where
  "tokens_of all cid active =
     (let tokens = filter (\<lambda>t. ct_ClientID t = cid) all
      in if active \<noteq> 0 \<and> \<not> list_ex (\<lambda>t. ct_ID t = active) tokens
         then tokens @ (case find (\<lambda>t. ct_ID t = active) (filter (\<lambda>t. ct_ClientID t = []) all) of None \<Rightarrow> [] | Some t \<Rightarrow> [t])
         else tokens)"

definition world_view :: "(string \<Rightarrow> string option) \<Rightarrow> 'h manager \<Rightarrow> ConnectionToken list \<Rightarrow> KnownClient \<Rightarrow> json" where
  "world_view rget m all c =
     (let active = LookupClientConnectionTokenID rget (kc_ClientID c) m
      in JObj [(''id'', JNum (kc_ID c)), (''clientId'', JStr (kc_ClientID c)), (''worldId'', JStr (null_str (kc_WorldID c))),
           (''worldTitle'', JStr (null_str (kc_WorldTitle c))), (''systemId'', JStr (null_str (kc_SystemID c))),
           (''systemTitle'', JStr (null_str (kc_SystemTitle c))), (''systemVersion'', JStr (null_str (kc_SystemVersion c))),
           (''foundryVersion'', JStr (null_str (kc_FoundryVersion c))), (''customName'', JStr (null_str (kc_CustomName c))),
           (''lastSeenAt'', (case kc_LastSeenAt c of None \<Rightarrow> JNull | Some n \<Rightarrow> JNum n)),
           (''isOnline'', JBool (IsClientOnlineAnywhere rget (kc_ClientID c) m)),
           (''autoStartOnRemoteRequest'', JBool (kc_AutoStartOnRemoteRequest c)),
           (''allowedTargetClients'', jstrs (kc_GetAllowedTargets c)), (''remoteScopes'', jstrs (kc_GetRemoteScopes c)),
           (''remoteRequestsPerHour'', JNum (kc_RemoteRequestsPerHour c)), (''createdAt'', JNum (kc_CreatedAt c)),
           (''updatedAt'', JNum (kc_UpdatedAt c)), (''tokens'', JArr (map token_view (tokens_of all (kc_ClientID c) active))),
           (''activeTokenId'', JNum active),
           (''credentialId'', (case kc_CredentialID c of None \<Rightarrow> JNull | Some n \<Rightarrow> JNum n))])"

definition world_list :: "(string \<Rightarrow> string option) \<Rightarrow> User option \<Rightarrow> 'h manager \<Rightarrow> db \<Rightarrow> answer" where
  "world_list rget usr m d =
     (case usr of None \<Rightarrow> WriteError 401 ''Invalid user''
      | Some user \<Rightarrow>
          (case kc_FindAllByUser (us_ID user) d of
             DBErr \<Rightarrow> WriteError 500 ''Failed to list known clients''
           | DBOk cs \<Rightarrow>
               (case tk_FindAllByUser (us_ID user) d of
                  DBErr \<Rightarrow> WriteError 500 ''Failed to list connection tokens''
                | DBOk all \<Rightarrow> (200, [(''clients'', JArr (map (world_view rget m all) cs))]))))"

subsection \<open>The settings of a world\<close>

text \<open>The checks the routes share: a user, a number in the path, a row of that user.\<close>

definition own_world :: "User option \<Rightarrow> string \<Rightarrow> db \<Rightarrow> answer + (User \<times> KnownClient)" where
  "own_world usr idText d =
     (case usr of None \<Rightarrow> Inl (WriteError 401 ''Invalid user'')
      | Some user \<Rightarrow>
     (case ParseInt64 idText of None \<Rightarrow> Inl (WriteError 400 ''Invalid client ID'')
      | Some i \<Rightarrow>
     (case kc_FindByID i d of
        DBOk (Some known) \<Rightarrow>
          if kc_UserID known \<noteq> us_ID user then Inl (WriteError 404 ''Known client not found'') else Inr (user, known)
      | _ \<Rightarrow> Inl (WriteError 404 ''Known client not found''))))"

definition world_credential :: "gotime \<Rightarrow> User option \<Rightarrow> string \<Rightarrow> bool \<times> int option \<Rightarrow> db \<Rightarrow> answer \<times> db" where
  "world_credential now usr idText body d =
     (case own_world usr idText d of
        Inl a \<Rightarrow> (a, d)
      | Inr (user, known) \<Rightarrow>
          (let (decoded, credentialID) = body
           in if \<not> decoded then (WriteError 400 ''Invalid JSON body'', d)
              else if (case credentialID of None \<Rightarrow> False | Some i \<Rightarrow> own_credential user i d = None)
              then (WriteError 404 ''Credential not found'', d)
              else (case kc_SetCredentialID now (kc_ID known) credentialID d of
                      (DBErr, d1) \<Rightarrow> (WriteError 500 ''Failed to set credential'', d1)
                    | (DBOk _, d1) \<Rightarrow> ((200, [(''success'', JBool True)]), d1))))"

definition csvNullString :: "string list \<Rightarrow> string option" where
  "csvNullString values =
     (let clean = filter (\<lambda>v. v \<noteq> []) (map trim_space values)
      in if clean = [] then None else Some (go_join '','' clean))"

record world_body =
  wb_allowedTargetClients :: "string list option"  \<comment> \<open>\<open>None\<close> for a nil slice\<close>
  wb_remoteScopes :: "string list option"
  wb_remoteRequestsPerHour :: "int option"

definition no_list :: "string list option \<Rightarrow> string list" where
  "no_list l = (case l of None \<Rightarrow> [] | Some xs \<Rightarrow> xs)"

definition foreign_target :: "User \<Rightarrow> db \<Rightarrow> string \<Rightarrow> bool" where
  "foreign_target user d t \<longleftrightarrow>
     t \<noteq> ''*'' \<and> (case kc_FindByClientID (us_ID user) t d of DBOk (Some kc) \<Rightarrow> False | _ \<Rightarrow> True)"

definition world_patch ::
    "(string \<Rightarrow> string) \<Rightarrow> gotime \<Rightarrow> User option \<Rightarrow> string \<Rightarrow> bool \<times> world_body \<Rightarrow> db \<Rightarrow> answer \<times> db" where
  "world_patch quote now usr idText body d =
     (case own_world usr idText d of
        Inl a \<Rightarrow> (a, d)
      | Inr (user, known) \<Rightarrow>
          (let (decoded, b) = body;
               targets = map_option (filter (\<lambda>t. t \<noteq> kc_ClientID known)) (wb_allowedTargetClients b)
           in if \<not> decoded then (WriteError 400 ''Invalid JSON body'', d)
              else (case find (foreign_target user d) (no_list targets) of
                      Some t \<Rightarrow> (WriteError 400 (''allowedTargetClient '' @ quote t @ '' not found in your known clients''), d)
                    | None \<Rightarrow>
                        (case find (\<lambda>sc. \<not> IsValidScope sc) (no_list (wb_remoteScopes b)) of
                           Some sc \<Rightarrow> (WriteError 400 (''unknown scope '' @ quote sc), d)
                         | None \<Rightarrow>
                             (case kc_SetCrossWorldSettings now (kc_ID known)
                                     (case targets of None \<Rightarrow> kc_AllowedTargetClients known | Some ts \<Rightarrow> csvNullString ts)
                                     (case wb_remoteScopes b of None \<Rightarrow> kc_RemoteScopes known | Some ss \<Rightarrow> csvNullString ss)
                                     (case wb_remoteRequestsPerHour b of None \<Rightarrow> kc_RemoteRequestsPerHour known | Some n \<Rightarrow> n) d of
                                (DBErr, d1) \<Rightarrow> (WriteError 500 ''Failed to update cross-world settings'', d1)
                              | (DBOk _, d1) \<Rightarrow> ((200, [(''success'', JBool True)]), d1))))))"

definition world_auto_start :: "gotime \<Rightarrow> User option \<Rightarrow> string \<Rightarrow> bool \<times> bool \<Rightarrow> db \<Rightarrow> answer \<times> db" where
  "world_auto_start now usr idText body d =
     (case own_world usr idText d of
        Inl a \<Rightarrow> (a, d)
      | Inr (user, known) \<Rightarrow>
          (let (decoded, enabled) = body
           in if \<not> decoded then (WriteError 400 ''Invalid JSON body'', d)
              else (case kc_SetAutoStartOnRemoteRequest now (kc_ID known) enabled d of
                      (DBErr, d1) \<Rightarrow> (WriteError 500 ''Failed to update auto-start setting'', d1)
                    | (DBOk _, d1) \<Rightarrow> ((200, [(''success'', JBool True)]), d1))))"

subsection \<open>Removing a world\<close>

fun revoke_loop :: "gotime \<Rightarrow> string \<Rightarrow> KnownClient list \<Rightarrow> db \<Rightarrow> db" where
  "revoke_loop now cid [] d = d"
| "revoke_loop now cid (sibling # rest) d =
     (let targets = kc_GetAllowedTargets sibling; kept = filter (\<lambda>t. t \<noteq> cid) targets
      in if targets = [] \<or> ''*'' \<in> set targets \<or> length kept = length targets then revoke_loop now cid rest d
         else revoke_loop now cid rest
           (snd (kc_SetCrossWorldSettings now (kc_ID sibling) (if kept \<noteq> [] then Some (go_join '','' kept) else None)
                   (kc_RemoteScopes sibling) (kc_RemoteRequestsPerHour sibling) d)))"

text \<open>Here an error of the lookup is told apart from a missing row.\<close>

definition world_to_delete :: "User option \<Rightarrow> string \<Rightarrow> db \<Rightarrow> answer + (User \<times> KnownClient)" where
  "world_to_delete usr idText d =
     (case usr of None \<Rightarrow> Inl (WriteError 401 ''Invalid user'')
      | Some user \<Rightarrow>
     (case ParseInt64 idText of None \<Rightarrow> Inl (WriteError 400 ''Invalid client ID'')
      | Some i \<Rightarrow>
     (case kc_FindByID i d of
        DBErr \<Rightarrow> Inl (WriteError 500 ''Failed to look up known client'')
      | DBOk None \<Rightarrow> Inl (WriteError 404 ''Known client not found'')
      | DBOk (Some known) \<Rightarrow>
          if kc_UserID known \<noteq> us_ID user then Inl (WriteError 404 ''Known client not found'') else Inr (user, known))))"

definition world_delete ::
    "(string \<Rightarrow> string option) \<Rightarrow> gotime \<Rightarrow> User option \<Rightarrow> string \<Rightarrow> 'h manager \<Rightarrow> db \<Rightarrow> (answer \<times> db \<times> 'h manager) go" where
  "world_delete rget now usr idText m d =
     (case world_to_delete usr idText d of
        Inl a \<Rightarrow> Ret (a, d, m)
      | Inr (user, known) \<Rightarrow>
          (let cid = kc_ClientID known; tokenID = LookupClientConnectionTokenID rget cid m
           in go_map (\<lambda>(n, m1).
                let d1 = snd (tk_DeleteAllByClientID (us_ID user) cid d)
                in case kc_Delete (kc_ID known) d1 of
                     (DBErr, d2) \<Rightarrow> (WriteError 500 ''Failed to delete known client'', d2, m1)
                   | (DBOk _, d2) \<Rightarrow>
                       ((200, [(''success'', JBool True), (''message'', JStr ''Known client removed''), (''disconnected'', JBool (n > 0))]),
                        (case kc_FindAllByUser (us_ID user) d2 of DBErr \<Rightarrow> d2 | DBOk siblings \<Rightarrow> revoke_loop now cid siblings d2), m1))
                (if tokenID \<noteq> 0 then BroadcastDisconnectByConnectionToken tokenID ''Client removed by owner'' m
                 else BroadcastDisconnectByClientID cid ''Client removed by owner'' m)))"

subsection \<open>Removing a world takes its name out of every allow-list\<close>

lemma csv_fields_trimmed:
  assumes "s \<in> set (csv_fields col)"
  shows "s \<noteq> [] \<and> CHR '','' \<notin> set s \<and> trim_space s = s"
proof -
  obtain f where f: "s = trim_space f" "s \<noteq> []" "f \<in> (case col of None \<Rightarrow> {} | Some c \<Rightarrow> set (go_split (CHR '','') c))"
    using assms by (auto simp: csv_fields_eq split: option.splits)
  have "set (trim_space f) \<subseteq> set f" by (auto simp: trim_space_def dest!: set_dropWhileD)
  moreover have "CHR '','' \<notin> set f" using f(3) go_split_fields by (auto split: option.splits)
  ultimately show ?thesis using f by auto
qed

definition cut_off :: "string \<Rightarrow> KnownClient \<Rightarrow> bool" where
  "cut_off cid r \<longleftrightarrow> ''*'' \<in> set (kc_GetAllowedTargets r) \<or> \<not> kc_CanTarget r cid"

lemma cut_off_col: "kc_AllowedTargetClients r = kc_AllowedTargetClients r' \<Longrightarrow> cut_off cid r = cut_off cid r'"
  by (simp add: cut_off_def kc_CanTarget_def kc_GetAllowedTargets_def)

lemma cut_off_kept:
  assumes "kc_AllowedTargetClients r = (if kept \<noteq> [] then Some (go_join '','' kept) else None)"
    and "kept = filter (\<lambda>t. t \<noteq> cid) (kc_GetAllowedTargets s)"
  shows "cut_off cid r"
proof -
  have "\<forall>t \<in> set kept. t \<noteq> [] \<and> CHR '','' \<notin> set t \<and> trim_space t = t"
    using csv_fields_trimmed assms(2) by (auto simp: kc_GetAllowedTargets_def)
  then have "csv_fields (Some (go_join '','' kept)) = kept" using csv_fields_join by (simp add: ScopesString_def)
  then have "kc_GetAllowedTargets r = kept" using assms(1) by (auto simp: kc_GetAllowedTargets_def csv_fields_def split: if_splits)
  then show ?thesis using assms(2) by (auto simp: cut_off_def world.can_target_iff)
qed

text \<open>One round of the loop touches the row of its sibling only, and cuts it off.\<close>

definition revoke_one :: "gotime \<Rightarrow> string \<Rightarrow> KnownClient \<Rightarrow> db \<Rightarrow> db" where
  "revoke_one now cid s d = revoke_loop now cid [s] d"

lemma revoke_loop_Cons: "revoke_loop now cid (s # ss) d = revoke_loop now cid ss (revoke_one now cid s d)"
  by (simp add: revoke_one_def Let_def)

lemma cut_off_untouched:
  "kc_GetAllowedTargets s = [] \<or> ''*'' \<in> set (kc_GetAllowedTargets s) \<or>
   length (filter (\<lambda>t. t \<noteq> cid) (kc_GetAllowedTargets s)) = length (kc_GetAllowedTargets s) \<Longrightarrow> cut_off cid s"
  unfolding cut_off_def world.can_target_iff
  by (metis (mono_tags, lifting) length_filter_less less_irrefl list.set_cases list.distinct(1))

lemma revoke_one_fails [simp]: "db_fails (revoke_one now cid s d) = db_fails d"
  by (simp add: revoke_one_def kc_SetCrossWorldSettings_def on_known_def exec_def Let_def)

text \<open>A row comes from one of \<open>rows\<close>, and is cut off if its identifier is among \<open>ids\<close>.\<close>

definition kept_row :: "string \<Rightarrow> int set \<Rightarrow> KnownClient list \<Rightarrow> KnownClient \<Rightarrow> bool" where
  "kept_row cid ids rows r \<longleftrightarrow>
     (\<exists>r0 \<in> set rows. kc_ID r = kc_ID r0 \<and> kc_UserID r = kc_UserID r0 \<and>
        (kc_ID r \<notin> ids \<longrightarrow> kc_AllowedTargetClients r = kc_AllowedTargetClients r0) \<and> (kc_ID r \<in> ids \<longrightarrow> cut_off cid r))"

lemma kept_row_trans:
  assumes "kept_row cid ids rows1 r" and "\<And>r1. r1 \<in> set rows1 \<Longrightarrow> kept_row cid {i} rows r1"
  shows "kept_row cid (insert i ids) rows r"
proof -
  obtain r1 where r1: "r1 \<in> set rows1" "kc_ID r = kc_ID r1" "kc_UserID r = kc_UserID r1"
      "kc_ID r \<notin> ids \<Longrightarrow> kc_AllowedTargetClients r = kc_AllowedTargetClients r1" "kc_ID r \<in> ids \<Longrightarrow> cut_off cid r"
    using assms(1) unfolding kept_row_def by blast
  obtain r0 where r0: "r0 \<in> set rows" "kc_ID r1 = kc_ID r0" "kc_UserID r1 = kc_UserID r0"
      "kc_ID r1 \<noteq> i \<Longrightarrow> kc_AllowedTargetClients r1 = kc_AllowedTargetClients r0" "kc_ID r1 = i \<Longrightarrow> cut_off cid r1"
    using assms(2) [OF r1(1)] unfolding kept_row_def by blast
  have "cut_off cid r" if "kc_ID r \<in> insert i ids"
    using that r1(2,4,5) r0(5) cut_off_col by (metis insertE)
  moreover have "kc_AllowedTargetClients r = kc_AllowedTargetClients r0" if "kc_ID r \<notin> insert i ids"
    using that r1(2,4) r0(4) by simp
  ultimately show ?thesis unfolding kept_row_def using r0(1-3) r1(2,3) by metis
qed

text \<open>The snapshot the loop runs over still shows the allow-lists of the table.\<close>

definition agree :: "KnownClient list \<Rightarrow> KnownClient list \<Rightarrow> bool" where
  "agree ss rows \<longleftrightarrow> (\<forall>s \<in> set ss. \<forall>r \<in> set rows. kc_ID r = kc_ID s \<longrightarrow> kc_AllowedTargetClients r = kc_AllowedTargetClients s)"

lemma agree_Cons: "agree (s # ss) rows \<Longrightarrow> agree [s] rows \<and> agree ss rows"
  by (simp add: agree_def)

lemma agree_kept:
  assumes "agree ss rows" and "\<And>r1. r1 \<in> set rows1 \<Longrightarrow> kept_row cid {i} rows r1" and "i \<notin> kc_ID ` set ss"
  shows "agree ss rows1"
  unfolding agree_def
proof (intro ballI impI)
  fix s r assume a: "s \<in> set ss" "r \<in> set rows1" "kc_ID r = kc_ID s"
  then have "kc_ID r \<noteq> i" using assms(3) by force
  then obtain r0 where "r0 \<in> set rows" "kc_ID r = kc_ID r0" "kc_AllowedTargetClients r = kc_AllowedTargetClients r0"
    using assms(2) [OF a(2)] unfolding kept_row_def by blast
  then show "kc_AllowedTargetClients r = kc_AllowedTargetClients s"
    using assms(1) a(1,3) unfolding agree_def by metis
qed

lemma revoke_one_row:
  assumes "db_fails d = []" and "r \<in> set (db_known (revoke_one now cid s d))"
    and "agree [s] (db_known d)"
  shows "kept_row cid {kc_ID s} (db_known d) r"
proof -
  let ?targets = "kc_GetAllowedTargets s" let ?kept = "filter (\<lambda>t. t \<noteq> cid) ?targets"
  let ?col = "if ?kept \<noteq> [] then Some (go_join '','' ?kept) else None"
  show ?thesis
  proof (cases "?targets = [] \<or> ''*'' \<in> set ?targets \<or> length ?kept = length ?targets")
    case True
    then have "cut_off cid s" by (rule cut_off_untouched)
    moreover have "r \<in> set (db_known d)" using assms(2) True by (auto simp: revoke_one_def Let_def)
    ultimately have "r \<in> set (db_known d)" "kc_ID r = kc_ID s \<Longrightarrow> cut_off cid r"
      using assms(3) cut_off_col [of r s cid] by (simp_all add: agree_def)
    then show ?thesis unfolding kept_row_def by (intro bexI [of _ r]) simp_all
  next
    case False
    then obtain r0 where r0: "r0 \<in> set (db_known d)"
      "r = (if kc_ID r0 = kc_ID s then r0\<lparr>kc_AllowedTargetClients := ?col, kc_RemoteScopes := kc_RemoteScopes s,
          kc_RemoteRequestsPerHour := kc_RemoteRequestsPerHour s, kc_UpdatedAt := db_time now\<rparr> else r0)"
      using assms(1,2)
      by (auto simp: revoke_one_def Let_def kc_SetCrossWorldSettings_def on_known_def exec_def db_ok_def update_rows_def)
    have "cut_off cid r" if "kc_ID r0 = kc_ID s" by (rule cut_off_kept [of r ?kept cid s]) (simp_all add: r0(2) that)
    then show ?thesis unfolding kept_row_def using r0 by (intro bexI [of _ r0]) auto
  qed
qed

lemma revoke_loop_row:
  assumes "db_fails d = []" and "distinct (map kc_ID ss)" and "r \<in> set (db_known (revoke_loop now cid ss d))"
    and "agree ss (db_known d)"
  shows "kept_row cid (kc_ID ` set ss) (db_known d) r"
  using assms
proof (induction ss arbitrary: d r)
  case Nil
  then show ?case by (auto simp: kept_row_def)
next
  case (Cons s ss)
  let ?d = "revoke_one now cid s d"
  have ag: "agree [s] (db_known d)" "agree ss (db_known d)" using agree_Cons [OF Cons.prems(4)] by blast+
  have row: "kept_row cid {kc_ID s} (db_known d) r1" if "r1 \<in> set (db_known ?d)" for r1
    using Cons.prems(1) that ag(1) by (rule revoke_one_row)
  have "agree ss (db_known ?d)" by (rule agree_kept [OF ag(2) row]) (use Cons.prems(2) in simp_all)
  moreover have "r \<in> set (db_known (revoke_loop now cid ss ?d))" using Cons.prems(3) unfolding revoke_loop_Cons .
  ultimately have "kept_row cid (kc_ID ` set ss) (db_known ?d) r"
    using Cons.IH [of ?d r] Cons.prems(1,2) by simp
  then have "kept_row cid (insert (kc_ID s) (kc_ID ` set ss)) (db_known d) r"
    using row by (rule kept_row_trans)
  then show ?case by simp
qed

text \<open>After a world has been removed without a failing statement, no other world of the account may target it, except those
  that have the wildcard, which is left alone on purpose.  When the clean-up of the lists fails the handler answers
  200 all the same, so the condition on the statements is needed.\<close>

theorem removal_cuts_off:
  assumes "world_delete rget now (Some user) idText m d = Ret ((200, ans), d', m')"
    and "world_to_delete (Some user) idText d = Inr (user, known)"
    and "db_fails d = []" and "distinct (map kc_ID (db_known d))"
  shows "\<forall>r \<in> set (db_known d'). kc_UserID r = us_ID user \<longrightarrow>
    ''*'' \<in> set (kc_GetAllowedTargets r) \<or> \<not> kc_CanTarget r (kc_ClientID known)"
proof
  fix r assume r: "r \<in> set (db_known d')"
  let ?cid = "kc_ClientID known"
  let ?d1 = "snd (tk_DeleteAllByClientID (us_ID user) ?cid d)"
  let ?d2 = "?d1\<lparr>db_known := filter (\<lambda>c. kc_ID c \<noteq> kc_ID known) (db_known d)\<rparr>"
  let ?ss = "filter (\<lambda>c. kc_UserID c = us_ID user) (db_known ?d2)"
  have d1: "db_fails ?d1 = []" "db_known ?d1 = db_known d"
    using assms(3) by (simp_all add: tk_DeleteAllByClientID_def delete_rows_def)
  have del: "kc_Delete (kc_ID known) ?d1 = (DBOk (), ?d2)" "kc_FindAllByUser (us_ID user) ?d2 = DBOk ?ss"
    using d1 by (simp_all add: kc_Delete_def exec_def db_ok_def kc_FindAllByUser_def)
  have d': "d' = revoke_loop now ?cid ?ss ?d2"
    using assms(1) by (simp add: world_delete_def assms(2) go_map_def del Let_def split: go.splits prod.splits)
  have inj: "inj_on kc_ID (set (db_known d))" using assms(4) by (simp add: distinct_map)
  have "agree ?ss (db_known ?d2)" unfolding agree_def using inj_onD [OF inj] by fastforce
  moreover have "distinct (map kc_ID ?ss)" using assms(4) by (simp add: distinct_map_filter)
  moreover have "r \<in> set (db_known (revoke_loop now ?cid ?ss ?d2))" using r unfolding d' .
  ultimately have "kept_row ?cid (kc_ID ` set ?ss) (db_known ?d2) r"
    using revoke_loop_row [of ?d2 ?ss r now ?cid] d1(1) by simp
  then obtain r0 where "r0 \<in> set (db_known ?d2)" "kc_ID r = kc_ID r0" "kc_UserID r = kc_UserID r0"
      "kc_ID r \<in> kc_ID ` set ?ss \<longrightarrow> cut_off ?cid r" unfolding kept_row_def by blast
  then have "kc_UserID r = us_ID user \<Longrightarrow> cut_off ?cid r" by (simp add: image_iff) metis
  then show "kc_UserID r = us_ID user \<longrightarrow> ''*'' \<in> set (kc_GetAllowedTargets r) \<or> \<not> kc_CanTarget r ?cid"
    by (auto simp: cut_off_def)
qed

subsection \<open>What a world may be granted\<close>

lemma csv_fields_csvNullString:
  assumes "\<forall>v \<in> set vs. CHR '','' \<notin> set v \<and> trim_space v = v"
  shows "csv_fields (csvNullString vs) = filter (\<lambda>v. v \<noteq> []) vs"
proof -
  have "map trim_space vs = vs" by (rule map_idI) (use assms in auto)
  moreover have "\<forall>v \<in> set (filter (\<lambda>v. v \<noteq> []) vs). v \<noteq> [] \<and> CHR '','' \<notin> set v \<and> trim_space v = v"
    using assms by auto
  ultimately show ?thesis
    using csv_fields_join [of "filter (\<lambda>v. v \<noteq> []) vs"]
    by (auto simp: csvNullString_def Let_def ScopesString_def csv_fields_def)
qed

lemma not_foreign:
  assumes "\<not> foreign_target user d t" and "t \<noteq> ''*''"
  shows "\<exists>c \<in> set (db_known d). kc_UserID c = us_ID user \<and> kc_ClientID c = t"
  using assms
  by (auto simp: foreign_target_def kc_FindByClientID_def get_row_def find_Some_iff split: if_splits option.splits)

text \<open>An edit of a world's allow-list grants targets inside the account only: unless the wildcard was asked
  for, whatever the world may target afterwards is another world of the same account.  This rests on client
  identifiers without commas and without blanks at their ends, which the relay does not check when a client
  connects: the list is stored joined by commas.\<close>

theorem world_patch_sound:
  assumes "world_patch quote now (Some user) idText (True, b) d = ((200, ans), d')"
    and "own_world (Some user) idText d = Inr (user, known)" and "wb_allowedTargetClients b = Some ts"
    and "\<forall>c \<in> set (db_known d). CHR '','' \<notin> set (kc_ClientID c) \<and> trim_space (kc_ClientID c) = kc_ClientID c"
  shows "\<forall>r \<in> set (db_known d'). kc_ID r = kc_ID known \<longrightarrow> (\<forall>t. kc_CanTarget r t \<longrightarrow>
    ''*'' \<in> set ts \<or> (t \<noteq> kc_ClientID known \<and> (\<exists>c \<in> set (db_known d). kc_UserID c = us_ID user \<and> kc_ClientID c = t)))"
proof (intro ballI impI allI)
  fix r t assume r: "r \<in> set (db_known d')" "kc_ID r = kc_ID known" and t: "kc_CanTarget r t"
  let ?ts = "filter (\<lambda>t. t \<noteq> kc_ClientID known) ts"
  have own: "\<forall>t \<in> set ?ts. \<not> foreign_target user d t" and d': "\<exists>ss n. d' = snd (kc_SetCrossWorldSettings now (kc_ID known) (csvNullString ?ts) ss n d)"
    and ok: "db_ok ''kc_SetCrossWorldSettings'' d"
    using assms(1-3)
    by (auto simp: world_patch_def WriteError_def no_list_def find_None_iff kc_SetCrossWorldSettings_def on_known_def exec_def
        split: prod.splits option.splits db_result.splits if_splits)
  have known: "t' = ''*'' \<or> (\<exists>c \<in> set (db_known d). kc_UserID c = us_ID user \<and> kc_ClientID c = t')" if "t' \<in> set ?ts" for t'
    using not_foreign [of user d t'] own that by blast
  have "trim_space ''*'' = ''*''" by (simp add: trim_space_def is_space_def)
  then have "\<forall>v \<in> set ?ts. CHR '','' \<notin> set v \<and> trim_space v = v" using known assms(4) by fastforce
  then have "csv_fields (csvNullString ?ts) = filter (\<lambda>v. v \<noteq> []) ?ts" by (rule csv_fields_csvNullString)
  moreover have "kc_AllowedTargetClients r = csvNullString ?ts"
    using r d' ok by (auto simp: kc_SetCrossWorldSettings_def on_known_def exec_def update_rows_def split: if_splits)
  ultimately have "''*'' \<in> set ?ts \<or> t \<in> set ?ts" using t by (auto simp: world.can_target_iff kc_GetAllowedTargets_def)
  then show "''*'' \<in> set ts \<or> (t \<noteq> kc_ClientID known \<and> (\<exists>c \<in> set (db_known d). kc_UserID c = us_ID user \<and> kc_ClientID c = t))"
    using known [of t] by auto
qed

subsection \<open>Concrete runs\<close>

definition ex_worlds_db :: db where
  "ex_worlds_db =
     empty_db\<lparr>db_users := [ex_user 1],
       db_known := [ex_known 5 1 ''fvtt_1'', (ex_known 6 1 ''fvtt_2'')\<lparr>kc_AllowedTargetClients := Some ''fvtt_1''\<rparr>]\<rparr>"

lemma ParseInt64_5: "ParseInt64 ''5'' = Some 5"
  by (simp add: ParseInt64_def digit_val_def in_range_def)

lemma ex_worlds: "db_fails ex_worlds_db = []" "us_ID (ex_user 1) = 1"
  "kc_FindByID 5 ex_worlds_db = DBOk (Some (ex_known 5 1 ''fvtt_1''))"
  "kc_UserID (ex_known 5 1 ''fvtt_1'') = 1" "kc_ClientID (ex_known 5 1 ''fvtt_1'') = ''fvtt_1''" "kc_ID (ex_known 5 1 ''fvtt_1'') = 5"
  by (simp_all add: ex_worlds_db_def kc_FindByID_def get_row_def db_ok_def ex_rows)

lemma removal_cuts_off_witness:
  "\<exists>ans d' m'. world_delete (\<lambda>k. None) 9 (Some (ex_user 1)) ''5'' (NewClientManager False ''i1'' :: unit manager) ex_worlds_db = Ret ((200, ans), d', m') \<and>
    (\<forall>r \<in> set (db_known d'). kc_UserID r = 1 \<longrightarrow> ''*'' \<in> set (kc_GetAllowedTargets r) \<or> \<not> kc_CanTarget r ''fvtt_1'')"
proof -
  let ?m = "NewClientManager False ''i1'' :: unit manager"
  have w: "world_to_delete (Some (ex_user 1)) ''5'' ex_worlds_db = Inr (ex_user 1, ex_known 5 1 ''fvtt_1'')"
    by (simp add: world_to_delete_def ParseInt64_5 ex_worlds)
  have dist: "distinct (map kc_ID (db_known ex_worlds_db))" by (simp add: ex_worlds_db_def ex_rows)
  have look: "LookupClientConnectionTokenID (\<lambda>k. None) ''fvtt_1'' ?m = 0"
    by (simp add: LookupClientConnectionTokenID_def NewClientManager_def Let_def)
  have "\<exists>n m1. BroadcastDisconnectByClientID ''fvtt_1'' ''Client removed by owner'' ?m = Ret (n, m1)"
    by (simp add: BroadcastDisconnectByClientID_def disconnectLocalByClientID_def go_map_def NewClientManager_def closeClients_def Let_def)
  then obtain ans d' m' where run: "world_delete (\<lambda>k. None) 9 (Some (ex_user 1)) ''5'' ?m ex_worlds_db = Ret ((200, ans), d', m')"
    by (auto simp: world_delete_def w look go_map_def kc_Delete_def exec_def db_ok_def tk_DeleteAllByClientID_def delete_rows_def
        ex_worlds Let_def)
  from removal_cuts_off [OF run w ex_worlds(1) dist] run show ?thesis by (auto simp: ex_worlds)
qed

lemma world_patch_sound_witness:
  "\<exists>ans d'. world_patch (\<lambda>x. x) 9 (Some (ex_user 1)) ''5''
      (True, \<lparr>wb_allowedTargetClients = Some [''fvtt_2''], wb_remoteScopes = None, wb_remoteRequestsPerHour = None\<rparr>)
      ex_worlds_db = ((200, ans), d') \<and>
    (\<forall>r \<in> set (db_known d'). kc_ID r = 5 \<longrightarrow> \<not> kc_CanTarget r ''fvtt_1'')"
proof -
  let ?b = "\<lparr>wb_allowedTargetClients = Some [''fvtt_2''], wb_remoteScopes = None, wb_remoteRequestsPerHour = None\<rparr>"
  have w: "own_world (Some (ex_user 1)) ''5'' ex_worlds_db = Inr (ex_user 1, ex_known 5 1 ''fvtt_1'')"
    by (simp add: own_world_def ParseInt64_5 ex_worlds)
  have "\<not> foreign_target (ex_user 1) ex_worlds_db ''fvtt_2''"
    by (simp add: foreign_target_def kc_FindByClientID_def get_row_def db_ok_def ex_worlds_db_def ex_rows)
  then obtain ans d' where run: "world_patch (\<lambda>x. x) 9 (Some (ex_user 1)) ''5'' (True, ?b) ex_worlds_db = ((200, ans), d')"
    by (simp add: world_patch_def w no_list_def kc_SetCrossWorldSettings_def on_known_def exec_def db_ok_def ex_worlds Let_def)
  have plain: "\<forall>c \<in> set (db_known ex_worlds_db). CHR '','' \<notin> set (kc_ClientID c) \<and> trim_space (kc_ClientID c) = kc_ClientID c"
    by (simp add: ex_worlds_db_def ex_rows trim_space_def is_space_def)
  from world_patch_sound [OF run w _ plain] run show ?thesis by (force simp: ex_worlds)
qed

end
