(* ===== verification/Base64.thy ===== *)
theory Base64
  imports Prelude
begin

text \<open>
  \<open>encoding/base64.StdEncoding\<close>: \<open>DecodeString\<close> as the Go library does it (line breaks skipped,
  padding required, bits beyond the last byte ignored), and the encoder the modules use, for the
  round trip.  A byte is a character.
\<close>

definition b64_alphabet :: string where
  "b64_alphabet = ''ABCDEFGHIJKLMNOPQRSTUVWXYZabcdefghijklmnopqrstuvwxyz0123456789+/''"

fun index_of :: "char \<Rightarrow> string \<Rightarrow> nat option" where
  "index_of c [] = None"
| "index_of c (x # xs) = (if c = x then Some 0 else map_option Suc (index_of c xs))"

definition b64_val :: "char \<Rightarrow> nat option" where
  "b64_val c = index_of c b64_alphabet"

definition byte :: "nat \<Rightarrow> char" where
  "byte n = char_of n"

fun b64_quads :: "string \<Rightarrow> string option" where
  "b64_quads [] = Some []"
| "b64_quads (a # b # c # d # rest) =
     (case (b64_val a, b64_val b) of
        (Some v, Some w) \<Rightarrow>
          if c = CHR ''='' then
            (if d = CHR ''='' \<and> rest = [] then Some [byte (v * 4 + w div 16)] else None)
          else
            (case b64_val c of
               None \<Rightarrow> None
             | Some x \<Rightarrow>
                 if d = CHR ''='' then
                   (if rest = [] then Some [byte (v * 4 + w div 16), byte (w mod 16 * 16 + x div 4)]
                    else None)
                 else
                   (case (b64_val d, b64_quads rest) of
                      (Some y, Some bs) \<Rightarrow>
                        Some (byte (v * 4 + w div 16) # byte (w mod 16 * 16 + x div 4)
                              # byte (x mod 4 * 64 + y) # bs)
                    | _ \<Rightarrow> None))
      | _ \<Rightarrow> None)"
| "b64_quads s = None"

definition DecodeString :: "string \<Rightarrow> string option" where
  "DecodeString s = b64_quads (filter (\<lambda>c. c \<noteq> CHR 0x0A \<and> c \<noteq> CHR 0x0D) s)"

definition b64_digit :: "nat \<Rightarrow> char" where
  "b64_digit n = b64_alphabet ! n"

fun b64_encode :: "string \<Rightarrow> string" where
  "b64_encode [] = []"
| "b64_encode [a] =
     (let x = of_char a :: nat
      in [b64_digit (x div 4), b64_digit (x mod 4 * 16), CHR ''='', CHR ''=''])"
| "b64_encode [a, b] =
     (let x = of_char a :: nat; y = of_char b :: nat
      in [b64_digit (x div 4), b64_digit (x mod 4 * 16 + y div 16), b64_digit (y mod 16 * 4), CHR ''=''])"
| "b64_encode (a # b # c # rest) =
     (let x = of_char a :: nat; y = of_char b :: nat; z = of_char c :: nat
      in b64_digit (x div 4) # b64_digit (x mod 4 * 16 + y div 16)
         # b64_digit (y mod 16 * 4 + z div 64) # b64_digit (z mod 64) # b64_encode rest)"

lemma length_alphabet: "length b64_alphabet = 64"
  by (simp add: b64_alphabet_def)

lemma distinct_alphabet: "distinct b64_alphabet"
  by (simp add: b64_alphabet_def)

lemma plain_alphabet: "CHR ''='' \<notin> set b64_alphabet" "CHR 0x0A \<notin> set b64_alphabet"
    "CHR 0x0D \<notin> set b64_alphabet" "CHR '','' \<notin> set b64_alphabet"
  by (simp_all add: b64_alphabet_def)

lemma index_of_nth: "\<lbrakk>distinct xs; n < length xs\<rbrakk> \<Longrightarrow> index_of (xs ! n) xs = Some n"
  by (induction xs arbitrary: n) (auto simp: nth_Cons split: nat.splits)

lemma b64_val_digit [simp]: "n < 64 \<Longrightarrow> b64_val (b64_digit n) = Some n"
  by (simp add: b64_val_def b64_digit_def index_of_nth distinct_alphabet length_alphabet)

lemma b64_digit_in: "n < 64 \<Longrightarrow> b64_digit n \<in> set b64_alphabet"
  by (simp add: b64_digit_def length_alphabet)

lemma b64_digit_plain [simp]:
  "n < 64 \<Longrightarrow> b64_digit n \<noteq> CHR ''=''" "n < 64 \<Longrightarrow> b64_digit n \<noteq> CHR 0x0A"
  "n < 64 \<Longrightarrow> b64_digit n \<noteq> CHR 0x0D" "n < 64 \<Longrightarrow> b64_digit n \<noteq> CHR '',''"
  using b64_digit_in plain_alphabet by metis+

lemma byte_of_char [simp]: "byte (of_char c) = c"
  by (simp add: byte_def)

lemma join_bits:
  fixes a b k :: nat
  assumes "b < k"
  shows "(a * k + b) div k = a" and "(a * k + b) mod k = b"
  using assms by simp_all

lemma first_byte:
  fixes x q :: nat
  assumes "x < 256" and "q < 16"
  shows "x div 4 < 64" and "x mod 4 * 16 + q < 64" and "x div 4 * 4 + (x mod 4 * 16 + q) div 16 = x"
proof -
  show "x div 4 < 64" using assms(1) by (simp add: div_less_iff_less_mult)
  have "x mod 4 < 4" by simp
  then show "x mod 4 * 16 + q < 64" using assms(2) by linarith
  show "x div 4 * 4 + (x mod 4 * 16 + q) div 16 = x"
    unfolding join_bits(1) [OF assms(2)] by (rule div_mult_mod_eq)
qed

lemma second_byte:
  fixes p y r :: nat
  assumes "y < 256" and "r < 4"
  shows "y div 16 < 16" and "y mod 16 * 4 + r < 64"
    and "(p * 16 + y div 16) mod 16 * 16 + (y mod 16 * 4 + r) div 4 = y"
proof -
  show d: "y div 16 < 16" using assms(1) by (simp add: div_less_iff_less_mult)
  have "y mod 16 < 16" by simp
  then show "y mod 16 * 4 + r < 64" using assms(2) by linarith
  show "(p * 16 + y div 16) mod 16 * 16 + (y mod 16 * 4 + r) div 4 = y"
    unfolding join_bits(2) [OF d] join_bits(1) [OF assms(2)] by (rule div_mult_mod_eq)
qed

lemma third_byte:
  fixes p z :: nat
  assumes "z < 256"
  shows "z div 64 < 4" and "z mod 64 < 64" and "(p * 4 + z div 64) mod 4 * 64 + z mod 64 = z"
proof -
  show d: "z div 64 < 4" using assms by (simp add: div_less_iff_less_mult)
  show "z mod 64 < 64" by simp
  show "(p * 4 + z div 64) mod 4 * 64 + z mod 64 = z"
    unfolding join_bits(2) [OF d] by (rule div_mult_mod_eq)
qed

definition code :: "char \<Rightarrow> nat" where
  "code c = of_char c"

lemma code_less: "code c < 256"
  by (simp add: code_def)

lemma byte_code [simp]: "byte (code c) = c"
  by (simp add: code_def)

text \<open>The sextets of one group of input bytes, with what the decoder needs of them.\<close>

lemma encode1:
  obtains v w where "b64_encode [a] = [b64_digit v, b64_digit w, CHR ''='', CHR ''='']"
    and "v < 64" "w < 64" "byte (v * 4 + w div 16) = a"
proof -
  have f: "code a div 4 < 64" "code a mod 4 * 16 + 0 < 64"
      "code a div 4 * 4 + (code a mod 4 * 16 + 0) div 16 = code a"
    using first_byte [OF code_less [of a], of 0] by simp_all
  then show ?thesis
    using that [of "code a div 4" "code a mod 4 * 16 + 0"] by (simp add: Let_def code_def [symmetric])
qed

lemma encode2:
  obtains v w x where "b64_encode [a, b] = [b64_digit v, b64_digit w, b64_digit x, CHR ''='']"
    and "v < 64" "w < 64" "x < 64" "byte (v * 4 + w div 16) = a" "byte (w mod 16 * 16 + x div 4) = b"
proof -
  have z: "(0 :: nat) < 4" by simp
  note s = second_byte(1,2) [OF code_less [of b] z, unfolded add_0_right]
    second_byte(3) [OF code_less [of b] z, of "code a mod 4", unfolded add_0_right]
  note f = first_byte [OF code_less [of a] s(1)]
  show ?thesis
  proof (rule that)
    show "b64_encode [a, b] = [b64_digit (code a div 4), b64_digit (code a mod 4 * 16 + code b div 16),
        b64_digit (code b mod 16 * 4), CHR ''='']"
      by (simp add: Let_def code_def)
  qed (use f s z in \<open>simp_all only: byte_code\<close>)
qed

lemma encode3:
  obtains v w x y where
    "b64_encode (a # b # c # rest) = b64_digit v # b64_digit w # b64_digit x # b64_digit y # b64_encode rest"
    and "v < 64" "w < 64" "x < 64" "y < 64" "byte (v * 4 + w div 16) = a"
    "byte (w mod 16 * 16 + x div 4) = b" "byte (x mod 4 * 64 + y) = c"
proof -
  note t = third_byte(1,2) [OF code_less [of c]] third_byte(3) [OF code_less [of c], of "code b mod 16"]
  note s = second_byte(1,2) [OF code_less [of b] t(1)]
    second_byte(3) [OF code_less [of b] t(1), of "code a mod 4"]
  note f = first_byte [OF code_less [of a] s(1)]
  show ?thesis
  proof (rule that)
    show "b64_encode (a # b # c # rest) =
        b64_digit (code a div 4) # b64_digit (code a mod 4 * 16 + code b div 16)
        # b64_digit (code b mod 16 * 4 + code c div 64) # b64_digit (code c mod 64) # b64_encode rest"
      by (simp add: Let_def code_def)
  qed (use f s t in \<open>simp_all only: byte_code\<close>)
qed

lemma b64_quads_encode: "b64_quads (b64_encode s) = Some s"
proof (induction s rule: b64_encode.induct)
  case 1
  then show ?case by simp
next
  case (2 a)
  show ?case by (rule encode1 [of a]) (simp del: b64_encode.simps)
next
  case (3 a b)
  show ?case by (rule encode2 [of a b]) (simp del: b64_encode.simps)
next
  case (4 a b c rest)
  have "b64_quads (b64_encode rest) = Some rest" using 4 by blast
  note [simp del] = b64_encode.simps
  obtain v w x y where "b64_encode (a # b # c # rest) =
      b64_digit v # b64_digit w # b64_digit x # b64_digit y # b64_encode rest"
    and "v < 64" "w < 64" "x < 64" "y < 64" "byte (v * 4 + w div 16) = a"
    "byte (w mod 16 * 16 + x div 4) = b" "byte (x mod 4 * 64 + y) = c"
    by (rule encode3)
  then show ?case using \<open>b64_quads (b64_encode rest) = Some rest\<close> by simp
qed

lemma b64_encode_chars: "c \<in> set (b64_encode s) \<Longrightarrow> c = CHR ''='' \<or> c \<in> set b64_alphabet"
proof (induction s rule: b64_encode.induct)
  case (2 a)
  show ?case by (rule encode1 [of a]) (use 2 b64_digit_in in \<open>auto simp del: b64_encode.simps\<close>)
next
  case (3 a b)
  show ?case by (rule encode2 [of a b]) (use 3 b64_digit_in in \<open>auto simp del: b64_encode.simps\<close>)
next
  case (4 a b d rest)
  note [simp del] = b64_encode.simps
  obtain v w x y where "b64_encode (a # b # d # rest) =
      b64_digit v # b64_digit w # b64_digit x # b64_digit y # b64_encode rest"
    and "v < 64" "w < 64" "x < 64" "y < 64"
    by (rule encode3)
  then have "c \<in> b64_digit ` {..<64} \<union> set (b64_encode rest)" using 4(2) by auto
  then show ?case using 4(1) b64_digit_in by auto
qed simp

lemma Decode_encode: "DecodeString (b64_encode s) = Some s"
proof -
  have "filter (\<lambda>c. c \<noteq> CHR 0x0A \<and> c \<noteq> CHR 0x0D) (b64_encode s) = b64_encode s"
    by (rule filter_True) (use b64_encode_chars plain_alphabet in fastforce)
  then show ?thesis by (simp add: DecodeString_def b64_quads_encode)
qed

end
