(* ===== verification/MessageHandlers.thy ===== *)
theory MessageHandlers
  imports Interactive Delivery Base64
begin

text \<open>
  What the relay does with the messages of a module, \<open>internal/ws/message_handlers.go\<close>.

  A handler is a datatype value that the manager's tables hold; \<open>run_handler\<close> and
  \<open>run_raw_handler\<close> give its effect on the request table, the interactive sessions and the
  outside world (the event fan-out and the consumers' sockets).  The connection a consumer writes
  to is its identity.
\<close>

datatype out_event =
    FanOut string string obj  \<comment> \<open>kind, client identifier, data\<close>
  | ConsumerWrite nat json

record relay =
  rl_pending :: pending_state
  rl_sessions :: session_manager
  rl_fanout :: "string list"  \<comment> \<open>the callbacks of \<open>EventFanout\<close> that are set\<close>
  rl_out :: "out_event list"

datatype handler =
    HResult string
  | HDownload
  | HSheetScreenshot
  | HSceneScreenshot
  | HEvent string
  | HInteractiveStarted
  | HInteractiveFrame
  | HInteractiveError
  | HInteractiveEnded

definition special_types :: "string list" where
  "special_types = [''download-file'', ''sheet-screenshot'', ''scene-screenshot'']"

definition event_types :: "string list" where
  "event_types = [''chat-event'', ''roll-data'', ''hook-event'', ''combat-event'', ''actor-event'', ''scene-event'']"

definition register_special :: "bool \<Rightarrow> (string \<times> handler) list" where
  "register_special hasSessions =
     [(''download-file-result'', HDownload), (''sheet-screenshot-result'', HSheetScreenshot),
      (''chat-event'', HEvent ''chat-event''), (''roll-data'', HEvent ''roll-data''),
      (''scene-screenshot-result'', HSceneScreenshot), (''hook-event'', HEvent ''hook-event''),
      (''combat-event'', HEvent ''combat-event''), (''actor-event'', HEvent ''actor-event''),
      (''scene-event'', HEvent ''scene-event'')]
     @ (if hasSessions
        then [(''interactive-session-started'', HInteractiveStarted),
              (''interactive-frame'', HInteractiveFrame),
              (''interactive-session-error'', HInteractiveError),
              (''interactive-session-ended'', HInteractiveEnded)]
        else [])"

text \<open>\<open>types\<close> is \<open>PendingRequestTypes\<close> in the order the range visits it.\<close>

definition RegisterMessageHandlers ::
    "string list \<Rightarrow> bool \<Rightarrow> handler manager \<Rightarrow> handler manager" where
  "RegisterMessageHandlers types hasSessions m =
     (let m1 = fold (\<lambda>rt m. if rt \<in> set special_types then m
                        else OnRawMessageType (rt @ ''-result'') (HResult rt) m) types m
      in fold (\<lambda>(t, h) m. OnMessageType t h m) (register_special hasSessions) m1)"

subsection \<open>Answers to requests\<close>

definition handle_result :: "obj \<Rightarrow> string \<Rightarrow> relay \<Rightarrow> relay" where
  "handle_result data rawBytes r =
     (let requestID = get_str data ''requestId''
      in if requestID = [] then r
         else
           (let statusCode = (if aget data ''error'' \<noteq> None then 400 else 200)
            in r\<lparr>rl_pending := ResolveRaw requestID statusCode rawBytes (rl_pending r)\<rparr>))"

text \<open>\<open>pending.Load\<close>, \<open>Delete\<close>, then the non-blocking send, as the binary answers do it.\<close>

definition deliver_binary :: "string \<Rightarrow> WSResponse \<Rightarrow> pending_state \<Rightarrow> pending_state" where
  "deliver_binary requestID resp p =
     (case Load requestID p of
        None \<Rightarrow> p
      | Some req \<Rightarrow> offer req resp (Delete requestID p))"

text \<open>Drop the header of a data URL.\<close>

definition after_comma :: "string \<Rightarrow> string" where
  "after_comma s = (case index_byte s (CHR '','') of None \<Rightarrow> s | Some i \<Rightarrow> drop (i + 1) s)"

definition error_answer :: "string \<Rightarrow> string \<Rightarrow> obj" where
  "error_answer requestID errMsg = [(''requestId'', JStr requestID), (''error'', JStr errMsg)]"

definition handle_download :: "obj \<Rightarrow> relay \<Rightarrow> relay" where
  "handle_download data r =
     (let requestID = get_str data ''requestId''; p = rl_pending r
      in if requestID = [] then r
         else case Load requestID p of
           None \<Rightarrow> r
         | Some req \<Rightarrow>
             r\<lparr>rl_pending :=
               (let errMsg = get_str data ''error''
                in if errMsg \<noteq> [] then Resolve requestID 400 (error_answer requestID errMsg) p
                   else if pr_WSCallback req \<or> pr_Format req = ''base64'' then Resolve requestID 200 data p
                   else
                     (let fileDataStr = get_str data ''fileData''
                      in if fileDataStr = [] then Resolve requestID 200 data p
                         else case DecodeString (after_comma fileDataStr) of
                           None \<Rightarrow> Resolve requestID 200 data p
                         | Some decoded \<Rightarrow>
                             (let mt = get_str data ''mimeType'';
                                  mimeType = (if mt = [] then ''application/octet-stream'' else mt);
                                  fn = get_str data ''fileName'';
                                  fileName = (if fn = [] then get_str data ''filename'' else fn);
                                  resp = \<lparr>StatusCode = 200,
                                    Data = Some [(''_contentType'', JStr mimeType),
                                      (''_contentDisposition'', JStr (''attachment; filename=\"'' @ fileName @ ''\"'')),
                                      (''_contentLength'', JNum (int (length decoded)))],
                                    RawData = Some decoded\<rparr>
                              in deliver_binary requestID resp p)))\<rparr>)"

text \<open>The two screenshot handlers have the same text.\<close>

definition handle_screenshot :: "obj \<Rightarrow> relay \<Rightarrow> relay" where
  "handle_screenshot data r =
     (let requestID = get_str data ''requestId''; p = rl_pending r
      in if requestID = [] then r
         else case Load requestID p of
           None \<Rightarrow> r
         | Some req \<Rightarrow>
             r\<lparr>rl_pending :=
               (let errMsg = get_str data ''error''
                in if errMsg \<noteq> [] then Resolve requestID 400 (error_answer requestID errMsg) p
                   else if pr_WSCallback req then Resolve requestID 200 data p
                   else
                     (let direct = get_str data ''imageData'';
                          imageDataStr =
                            (if direct = []
                             then (case aget data ''data'' of Some (JObj d) \<Rightarrow> get_str d ''imageData'' | _ \<Rightarrow> [])
                             else direct)
                      in if imageDataStr = [] then Resolve requestID 200 data p
                         else case DecodeString (after_comma imageDataStr) of
                           None \<Rightarrow> Resolve requestID 200 data p
                         | Some decoded \<Rightarrow>
                             (let mt = get_str data ''mimeType'';
                                  mimeType = (if mt = [] then ''image/png'' else mt);
                                  resp = \<lparr>StatusCode = 200,
                                    Data = Some [(''_contentType'', JStr mimeType),
                                      (''width'', get_any data ''width''), (''height'', get_any data ''height'')],
                                    RawData = Some decoded\<rparr>
                              in deliver_binary requestID resp p)))\<rparr>)"

subsection \<open>Events and interactive sessions\<close>

definition fan_out :: "string \<Rightarrow> string \<Rightarrow> obj \<Rightarrow> relay \<Rightarrow> relay" where
  "fan_out kind clientID data r =
     (if kind \<in> set (rl_fanout r) then r\<lparr>rl_out := rl_out r @ [FanOut kind clientID data]\<rparr> else r)"

definition consumer_write :: "InteractiveSession \<Rightarrow> obj \<Rightarrow> relay \<Rightarrow> relay" where
  "consumer_write s msg r = r\<lparr>rl_out := rl_out r @ [ConsumerWrite (is_ConsumerConn s) (JObj msg)]\<rparr>"

definition frame_fields :: "obj \<Rightarrow> obj" where
  "frame_fields data =
     [(''imageData'', get_any data ''imageData''), (''mimeType'', get_any data ''mimeType''),
      (''width'', get_any data ''width''), (''height'', get_any data ''height'')]"

definition handle_interactive :: "gotime \<Rightarrow> handler \<Rightarrow> obj \<Rightarrow> relay \<Rightarrow> relay" where
  "handle_interactive now h data r =
     (let sessionID = get_str data ''sessionId''
      in case GetSession sessionID (rl_sessions r) of
           None \<Rightarrow> r
         | Some session \<Rightarrow>
             (case h of
                HInteractiveStarted \<Rightarrow>
                  consumer_write session
                    ([(''type'', JStr ''interactive-session-started''), (''sessionId'', JStr sessionID)] @ frame_fields data)
                    (r\<lparr>rl_sessions := ActivateSession now sessionID (rl_sessions r)\<rparr>)
              | HInteractiveFrame \<Rightarrow>
                  consumer_write session
                    ([(''type'', JStr ''interactive-frame''), (''sessionId'', JStr sessionID)] @ frame_fields data
                     @ [(''trigger'', get_any data ''trigger'')])
                    (r\<lparr>rl_sessions := UpdateActivity now sessionID (rl_sessions r)\<rparr>)
              | HInteractiveError \<Rightarrow>
                  (let r1 = consumer_write session
                     [(''type'', JStr ''interactive-session-error''), (''sessionId'', JStr sessionID),
                      (''error'', get_any data ''error'')] r
                   in if get_bool data ''fatal''
                      then r1\<lparr>rl_sessions := snd (EndSession sessionID (rl_sessions r1))\<rparr> else r1)
              | HInteractiveEnded \<Rightarrow>
                  (let r1 = consumer_write session
                     [(''type'', JStr ''interactive-session-ended''), (''sessionId'', JStr sessionID),
                      (''reason'', get_any data ''reason'')] r
                   in r1\<lparr>rl_sessions := snd (EndSession sessionID (rl_sessions r1))\<rparr>)
              | _ \<Rightarrow> r))"

definition run_raw_handler :: "handler \<Rightarrow> obj \<Rightarrow> string \<Rightarrow> relay \<Rightarrow> relay" where
  "run_raw_handler h data rawBytes r =
     (case h of HResult rt \<Rightarrow> handle_result data rawBytes r | _ \<Rightarrow> r)"

definition run_handler :: "gotime \<Rightarrow> handler \<Rightarrow> string \<Rightarrow> obj \<Rightarrow> relay \<Rightarrow> relay" where
  "run_handler now h clientID data r =
     (case h of
        HResult rt \<Rightarrow> r
      | HDownload \<Rightarrow> handle_download data r
      | HSheetScreenshot \<Rightarrow> handle_screenshot data r
      | HSceneScreenshot \<Rightarrow> handle_screenshot data r
      | HEvent kind \<Rightarrow> fan_out kind clientID data r
      | _ \<Rightarrow> handle_interactive now h data r)"

text \<open>A message of a module from the socket to its effect: the manager's dispatch, then the handlers.\<close>

definition relay_message ::
    "(string \<Rightarrow> obj option) \<Rightarrow> gotime \<Rightarrow> string \<Rightarrow> string \<Rightarrow> string \<Rightarrow> handler manager \<times> relay \<Rightarrow>
     handler manager \<times> relay" where
  "relay_message decode now clientID msgType rawBytes s =
     (case s of (m, r) \<Rightarrow>
       (case HandleIncomingMessageFast decode now clientID msgType rawBytes m of
          (RunRaw hs ref data raw, m') \<Rightarrow> (m', fold (\<lambda>h. run_raw_handler h data raw) hs r)
        | (RunHandlers hs ref data, m') \<Rightarrow> (m', fold (\<lambda>h. run_handler now h (cl_id (mg_heap m' ! ref)) data) hs r)
        | (_, m') \<Rightarrow> (m', r)))"

subsection \<open>The routing table\<close>

lemma raw_OnRaw: "handlers_for (mg_rawMessageHandlers (OnRawMessageType t h m)) t' =
   handlers_for (mg_rawMessageHandlers m) t' @ (if t' = t then [h] else [])"
  by (simp add: OnRawMessageType_def handlers_for_def)

lemma raw_On [simp]: "mg_rawMessageHandlers (OnMessageType t h m) = mg_rawMessageHandlers m"
  by (simp add: OnMessageType_def)

lemma msg_OnRaw [simp]: "mg_messageHandlers (OnRawMessageType t h m) = mg_messageHandlers m"
  by (simp add: OnRawMessageType_def)

lemma msg_On: "handlers_for (mg_messageHandlers (OnMessageType t h m)) t' =
   handlers_for (mg_messageHandlers m) t' @ (if t' = t then [h] else [])"
  by (simp add: OnMessageType_def handlers_for_def)

lemma raw_fold_On [simp]:
  "mg_rawMessageHandlers (fold (\<lambda>(t, h) m. OnMessageType t h m) hs m) = mg_rawMessageHandlers m"
  by (induction hs arbitrary: m) (auto simp: case_prod_unfold)

lemma raw_fold_OnRaw:
  "handlers_for (mg_rawMessageHandlers (fold (\<lambda>rt m. if rt \<in> set special_types then m
       else OnRawMessageType (rt @ ''-result'') (HResult rt) m) types m)) t =
   handlers_for (mg_rawMessageHandlers m) t @
     map HResult (filter (\<lambda>rt. rt \<notin> set special_types \<and> rt @ ''-result'' = t) types)"
  by (induction types arbitrary: m) (auto simp: raw_OnRaw)

lemma raw_table:
  "handlers_for (mg_rawMessageHandlers (RegisterMessageHandlers types b m)) t =
   handlers_for (mg_rawMessageHandlers m) t @
     map HResult (filter (\<lambda>rt. rt \<notin> set special_types \<and> rt @ ''-result'' = t) types)"
  by (simp add: RegisterMessageHandlers_def raw_fold_OnRaw Let_def)

lemma same_suffix: "(rt @ ''-result'' = rt' @ ''-result'') = (rt = rt')"
  by simp

lemma filter_single: "\<lbrakk>distinct xs; x \<in> set xs\<rbrakk> \<Longrightarrow> filter (\<lambda>y. P y \<and> y = x) xs = (if P x then [x] else [])"
  by (induction xs) (auto simp: filter_empty_conv)

lemma distinct_types: "distinct PendingRequestTypes"
  by code_simp

lemma clients_fold_register [simp]:
  "mg_clients (RegisterMessageHandlers types b m) = mg_clients m"
proof -
  have 1: "mg_clients (fold (\<lambda>rt m. if rt \<in> set special_types then m
       else OnRawMessageType (rt @ ''-result'') (HResult rt) m) types m) = mg_clients m" for m :: "handler manager"
    by (induction types arbitrary: m) (auto simp: OnRawMessageType_def)
  have 2: "mg_clients (fold (\<lambda>(t, h) m. OnMessageType t h m) hs m) = mg_clients m" for hs and m :: "handler manager"
    by (induction hs arbitrary: m) (auto simp: case_prod_unfold OnMessageType_def)
  show ?thesis by (simp add: RegisterMessageHandlers_def 1 2 Let_def)
qed

lemma result_not_ping: "rt @ ''-result'' \<noteq> ''ping''"
proof
  assume "rt @ ''-result'' = ''ping''"
  then have "last (rt @ ''-result'') = last ''ping''" by (rule arg_cong)
  then show False by simp
qed

definition answer_status :: "obj \<Rightarrow> nat" where
  "answer_status msg = (case aget msg ''error'' of None \<Rightarrow> 200 | Some JNull \<Rightarrow> 200 | Some _ \<Rightarrow> 400)"

lemma partial_message_fields:
  assumes "decode raw = Some msg"
  shows "get_str (partial_message decode raw) ''requestId'' = get_str msg ''requestId''"
    and "(aget (partial_message decode raw) ''error'' \<noteq> None) = (answer_status msg = 400)"
  using assms by (auto simp: partial_message_def get_str_def answer_status_def Let_def split: option.splits json.splits)

text \<open>C12: End to end, whatever order the handlers were registered in: when a registered module sends a
  result message for a pending request of an ordinary type, the waiting caller's channel receives
  exactly the bytes the module sent, with status 400 if it carries an error and 200 otherwise,
  and the request leaves the table.  The module need not be the one the request was sent to.\<close>

theorem result_reaches_caller:
  assumes "distinct types" and "set types = set PendingRequestTypes"
    and "rt \<in> set PendingRequestTypes" and "rt \<notin> set special_types"
    and "mg_rawMessageHandlers m0 = []" and "aget (mg_clients m0) cid = Some ref"
    and "decode raw = Some msg" and "get_str msg ''requestId'' = rid" and "rid \<noteq> []"
    and "Load rid (rl_pending r) = Some req"
    and "aget (ps_chans (rl_pending r)) (pr_ResponseCh req) = Some \<lparr>ch_cap = 1, ch_buf = []\<rparr>"
  shows "let r' = snd (relay_message decode now cid (rt @ ''-result'') raw (RegisterMessageHandlers types b m0, r))
    in Load rid (rl_pending r') = None \<and>
       aget (ps_chans (rl_pending r')) (pr_ResponseCh req) =
         Some \<lparr>ch_cap = 1, ch_buf = [\<lparr>StatusCode = answer_status msg, Data = None, RawData = Some raw\<rparr>]\<rparr>"
proof -
  let ?m = "RegisterMessageHandlers types b m0"
  let ?m1 = "heap_update ref (UpdateLastSeen now (mg_heap ?m ! ref)) ?m"
  have "handlers_for (mg_rawMessageHandlers ?m) (rt @ ''-result'') =
      map HResult (filter (\<lambda>y. y \<notin> set special_types \<and> y = rt) types)"
    unfolding raw_table by (simp add: assms(5) handlers_for_def)
  also have "\<dots> = [HResult rt]"
    using filter_single [OF assms(1), of rt "\<lambda>y. y \<notin> set special_types"] assms(2,3,4) by simp
  finally have hs: "handlers_for (mg_rawMessageHandlers ?m1) (rt @ ''-result'') = [HResult rt]"
    by (simp add: heap_update_def)
  have "HandleIncomingMessageFast decode now cid (rt @ ''-result'') raw ?m =
      (RunRaw [HResult rt] ref (partial_message decode raw) raw, ?m1)"
    using assms(6) hs result_not_ping [of rt] by (simp add: HandleIncomingMessageFast_def Let_def)
  then have "snd (relay_message decode now cid (rt @ ''-result'') raw (?m, r)) =
      r\<lparr>rl_pending := ResolveRaw rid (answer_status msg) raw (rl_pending r)\<rparr>"
    using partial_message_fields [of decode raw msg, OF assms(7)] assms(8,9)
    by (auto simp: relay_message_def run_raw_handler_def handle_result_def answer_status_def Let_def
        split: option.splits json.splits)
  then show ?thesis
    using assms(10,11)
    by (simp add: Let_def Load_def) (simp add: ResolveRaw_def offer_def chan_try_send_def Let_def)
qed

lemma index_byte_comma: "CHR '','' \<notin> set pre \<Longrightarrow> after_comma (pre @ '','' @ s) = s"
  by (simp add: after_comma_def index_byte_append)

text \<open>C34: A file that a module sends as a base64 data URL comes out of the relay byte for byte: the HTTP
  caller's channel receives the decoded bytes with their length and content type, and the request
  is settled.\<close>

theorem download_roundtrip:
  assumes "get_str data ''requestId'' = rid" and "rid \<noteq> []" and "get_str data ''error'' = []"
    and "get_str data ''fileData'' = pre @ '','' @ b64_encode bs" and "CHR '','' \<notin> set pre"
    and "get_str data ''mimeType'' = mt" and "mt \<noteq> []" and "get_str data ''fileName'' = fn" and "fn \<noteq> []"
    and "Load rid (rl_pending r) = Some req" and "\<not> pr_WSCallback req" and "pr_Format req \<noteq> ''base64''"
    and "aget (ps_chans (rl_pending r)) (pr_ResponseCh req) = Some \<lparr>ch_cap = 1, ch_buf = []\<rparr>"
  shows "let r' = run_handler now HDownload cid data r
    in Load rid (rl_pending r') = None \<and>
       aget (ps_chans (rl_pending r')) (pr_ResponseCh req) = Some \<lparr>ch_cap = 1, ch_buf =
         [\<lparr>StatusCode = 200, Data = Some [(''_contentType'', JStr mt),
             (''_contentDisposition'', JStr (''attachment; filename=\"'' @ fn @ ''\"'')),
             (''_contentLength'', JNum (int (length bs)))], RawData = Some bs\<rparr>]\<rparr>"
proof -
  have b: "DecodeString (after_comma (get_str data ''fileData'')) = Some bs"
    unfolding assms(4) index_byte_comma [OF assms(5)] by (rule Decode_encode)
  have ne: "get_str data ''fileData'' \<noteq> []" using assms(4) by simp
  have "rl_pending (run_handler now HDownload cid data r) = deliver_binary rid
      \<lparr>StatusCode = 200, Data = Some [(''_contentType'', JStr mt),
         (''_contentDisposition'', JStr (''attachment; filename=\"'' @ fn @ ''\"'')),
         (''_contentLength'', JNum (int (length bs)))], RawData = Some bs\<rparr> (rl_pending r)"
    using assms(1-3,6-12) b ne by (simp add: run_handler_def handle_download_def Let_def)
  then show ?thesis
    using assms(10,13)
    by (simp add: deliver_binary_def Let_def) (simp add: Load_def Pending.Delete_def offer_def chan_try_send_def Let_def)
qed

subsection \<open>Concrete answers\<close>

definition ex_relay :: relay where
  "ex_relay = \<lparr>rl_pending = ex_pending, rl_sessions = NewInteractiveSessionManager 3, rl_fanout = [], rl_out = []\<rparr>"

definition ex_handlers :: "handler manager" where
  "ex_handlers = (NewClientManager False ''i1'')\<lparr>mg_heap := [ex_client], mg_clients := [(''fvtt_9'', 0)]\<rparr>"

lemma result_reaches_caller_witness:
  "Load ''a'' (rl_pending (snd (relay_message (\<lambda>s. Some [(''requestId'', JStr ''a'')]) 1 ''fvtt_9''
     ''search-result'' ''{}'' (RegisterMessageHandlers PendingRequestTypes True ex_handlers, ex_relay)))) = None"
proof -
  have "''search'' \<in> set PendingRequestTypes" by (simp add: PendingRequestTypes_def)
  then show ?thesis
    using result_reaches_caller [OF distinct_types refl, of "''search''" ex_handlers "''fvtt_9''" 0
      "\<lambda>s. Some [(''requestId'', JStr ''a'')]" "''{}''" "[(''requestId'', JStr ''a'')]" "''a''" ex_relay "ex_req 1 0" 1 True]
    by (simp add: special_types_def ex_handlers_def NewClientManager_def get_str_def ex_relay_def
        ex_pending_def Load_def ex_req_def Let_def)
qed

lemma download_roundtrip_witness:
  "Load ''a'' (rl_pending (run_handler 0 HDownload ''fvtt_1''
     [(''requestId'', JStr ''a''), (''fileData'', JStr (''data:x;base64,'' @ b64_encode ''hi'')),
      (''mimeType'', JStr ''x''), (''fileName'', JStr ''f'')] ex_relay)) = None"
  using download_roundtrip [of "[(''requestId'', JStr ''a''), (''fileData'', JStr (''data:x;base64,'' @ b64_encode ''hi'')),
      (''mimeType'', JStr ''x''), (''fileName'', JStr ''f'')]" "''a''" "''data:x;base64''" "''hi''" "''x''" "''f''"
      ex_relay "ex_req 1 0" 0 "''fvtt_1''"]
  by (simp add: get_str_def ex_relay_def ex_pending_def Load_def ex_req_def Let_def)

end
