(* ===== verification/RelayProto.thy ===== *)
theory RelayProto
  imports MessageHandlers
begin

text \<open>
  The module's end of the relay, \<open>internal/ws/relay.go\<close>: the byte scanner that finds a message's
  type without parsing it, the handshake of a connection and its read loop.
\<close>

subsection \<open>The scanner\<close>

text \<open>
  \<open>data\<close> is the message, \<open>spare\<close> the bytes between its length and its capacity: a backslash as the
  last byte moves the index past the length, and Go's slice expression \<open>data[a:b]\<close> panics only
  beyond the capacity.
\<close>

definition slice_of :: "string \<Rightarrow> string \<Rightarrow> nat \<Rightarrow> nat \<Rightarrow> string go" where
  "slice_of data spare a b =
     (if b \<le> length data + length spare then Ret (drop a (take b (data @ spare)))
      else Panic ''slice bounds out of range'')"

function scan_string :: "string \<Rightarrow> nat \<Rightarrow> nat" where
  "scan_string data i =
     (if i < length data then
        (if data ! i = CHR 0x5C then scan_string data (i + 2)
         else if data ! i = CHR 0x22 then i
         else scan_string data (i + 1))
      else i)"
  by pat_completeness auto
termination by (relation "measure (\<lambda>(data, i). length data - i)") auto

definition is_gap :: "char \<Rightarrow> bool" where
  "is_gap c \<longleftrightarrow> c = CHR '' '' \<or> c = CHR '':'' \<or> c = CHR 0x09 \<or> c = CHR 0x0A"

function skip_gap :: "string \<Rightarrow> nat \<Rightarrow> nat" where
  "skip_gap data i = (if i < length data \<and> is_gap (data ! i) then skip_gap data (i + 1) else i)"
  by pat_completeness auto
termination by (relation "measure (\<lambda>(data, i). length data - i)") auto

declare scan_string.simps [simp del] skip_gap.simps [simp del]

lemma scan_string_ge: "i \<le> scan_string data i"
  by (induction data i rule: scan_string.induct) (subst scan_string.simps, auto)

lemma skip_gap_ge: "i \<le> skip_gap data i"
  by (induction data i rule: skip_gap.induct) (subst skip_gap.simps, auto)

function extract_loop :: "string \<Rightarrow> string \<Rightarrow> int \<Rightarrow> nat \<Rightarrow> string go" where
  "extract_loop data spare depth i =
     (if i < length data then
        (let b = data ! i
         in if b = CHR ''{'' then extract_loop data spare (depth + 1) (i + 1)
            else if b = CHR ''}'' then extract_loop data spare (depth - 1) (i + 1)
            else if b = CHR 0x22 then
              (let keyStart = i + 1; keyEnd = scan_string data keyStart; after = keyEnd + 1
               in if depth \<noteq> 1 then extract_loop data spare depth after
                  else
                    (let j = skip_gap data after
                     in case slice_of data spare keyStart keyEnd of
                          Panic e \<Rightarrow> Panic e
                        | Ret key \<Rightarrow>
                            if key = ''type'' \<and> j < length data \<and> data ! j = CHR 0x22
                            then slice_of data spare (j + 1) (scan_string data (j + 1))
                            else extract_loop data spare depth j))
            else extract_loop data spare depth (i + 1))
      else Ret [])"
  by pat_completeness auto
termination
proof (relation "measure (\<lambda>(data, spare, depth, i). length data - i)", goal_cases)
  case (4 data spare depth i b keyStart keyEnd after)
  then show ?case using scan_string_ge [of keyStart data] by simp
next
  case (5 data spare depth i b keyStart keyEnd after j key)
  then show ?case
    using scan_string_ge [of keyStart data] skip_gap_ge [of after data] by simp
qed auto

declare extract_loop.simps [simp del]

definition fastExtractType :: "string \<Rightarrow> string \<Rightarrow> string go" where
  "fastExtractType data spare = extract_loop data spare 0 0"

subsection \<open>Compact JSON text\<close>

text \<open>
  The text \<open>JSON.stringify\<close> gives a value, which is what the modules send: no white space, quotes
  and backslashes escaped, the control characters with a letter of their own as \<open>\b\<close>, \<open>\t\<close>, \<open>\n\<close>, \<open>\f\<close> and \<open>\r\<close>,
  the others as \<open>\u00XX\<close>.  The numbers of the model are integers.
\<close>

definition hex_digit :: "nat \<Rightarrow> char" where
  "hex_digit n = (if n < 10 then char_of (48 + n) else char_of (87 + n))"

definition short_escape :: "char \<Rightarrow> char option" where
  "short_escape c =
     (if c = CHR 0x08 then Some CHR ''b'' else if c = CHR 0x09 then Some CHR ''t'' else if c = CHR 0x0A then Some CHR ''n''
      else if c = CHR 0x0C then Some CHR ''f'' else if c = CHR 0x0D then Some CHR ''r'' else None)"

definition json_escape :: "char \<Rightarrow> string" where
  "json_escape c =
     (if c = CHR 0x22 \<or> c = CHR 0x5C then [CHR 0x5C, c]
      else if short_escape c \<noteq> None then [CHR 0x5C, the (short_escape c)]
      else if (of_char c :: nat) < 32
      then [CHR 0x5C, CHR ''u'', CHR ''0'', CHR ''0'', hex_digit (of_char c div 16), hex_digit (of_char c mod 16)]
      else [c])"

definition json_quote :: "string \<Rightarrow> string" where
  "json_quote s = CHR 0x22 # concat (map json_escape s) @ [CHR 0x22]"

fun json_text :: "json \<Rightarrow> string" where
  "json_text JNull = ''null''"
| "json_text (JBool b) = (if b then ''true'' else ''false'')"
| "json_text (JNum n) = int_text n"
| "json_text (JStr s) = json_quote s"
| "json_text (JArr vs) = ''['' @ go_join '','' (map json_text vs) @ '']''"
| "json_text (JObj kvs) =
     ''{'' @ go_join '','' (map (\<lambda>(k, v). json_quote k @ '':'' @ json_text v) kvs) @ ''}''"

subsection \<open>The scanner on compact text\<close>

lemma drop_Cons:
  assumes "drop i data = c # rest"
  shows "i < length data" and "data ! i = c" and "drop (Suc i) data = rest"
proof -
  show lt: "i < length data"
    using assms by (cases "i < length data") auto
  then have "drop i data = data ! i # drop (Suc i) data"
    by (rule Cons_nth_drop_Suc [symmetric])
  then show "data ! i = c" "drop (Suc i) data = rest"
    using assms by auto
qed

lemma drop_append:
  "drop i data = xs @ rest \<Longrightarrow> drop (i + length xs) data = rest"
  by (metis add.commute append_eq_conv_conj drop_drop)

lemma hex_digit_plain:
  "n < 16 \<Longrightarrow> hex_digit n \<noteq> CHR 0x22 \<and> hex_digit n \<noteq> CHR 0x5C"
proof -
  assume "n < 16"
  then have "n \<in> set [0..<16]" by simp
  moreover have "\<forall>n \<in> set [0..<16]. hex_digit n \<noteq> CHR 0x22 \<and> hex_digit n \<noteq> CHR 0x5C"
    by code_simp
  ultimately show ?thesis by blast
qed

lemma of_char_div16: "(of_char c :: nat) < 32 \<Longrightarrow> (of_char c :: nat) div 16 < 16"
  by simp

text \<open>The scanner's two steps, on what is left of the text.\<close>

lemma scan_quote: "drop i data = CHR 0x22 # rest \<Longrightarrow> scan_string data i = i"
  using drop_Cons [of i data] by (subst scan_string.simps) simp

lemma scan_plain:
  "\<lbrakk>drop i data = c # rest; c \<noteq> CHR 0x22; c \<noteq> CHR 0x5C\<rbrakk> \<Longrightarrow> scan_string data i = scan_string data (Suc i)"
  using drop_Cons [of i data] by (subst scan_string.simps) simp

lemma scan_backslash:
  "drop i data = CHR 0x5C # c # rest \<Longrightarrow> scan_string data i = scan_string data (Suc (Suc i))"
  using drop_Cons [of i data] by (subst scan_string.simps) simp

lemma scan_plains:
  "\<lbrakk>drop i data = xs @ rest; \<forall>c \<in> set xs. c \<noteq> CHR 0x22 \<and> c \<noteq> CHR 0x5C\<rbrakk> \<Longrightarrow>
   scan_string data i = scan_string data (i + length xs)"
proof (induction xs arbitrary: i)
  case (Cons c xs)
  then show ?case
    using scan_plain [of i data c "xs @ rest"] drop_Cons(3) [of i data c "xs @ rest"] Cons.IH [of "Suc i"] by simp
qed simp

lemma scan_escape:
  assumes "drop i data = json_escape c @ rest"
  shows "scan_string data i = scan_string data (i + length (json_escape c))"
proof -
  consider (esc) "c = CHR 0x22 \<or> c = CHR 0x5C" | (short) "c \<noteq> CHR 0x22" "c \<noteq> CHR 0x5C" "short_escape c \<noteq> None"
    | (ctl) "c \<noteq> CHR 0x22" "c \<noteq> CHR 0x5C" "short_escape c = None" "(of_char c :: nat) < 32"
    | (plain) "c \<noteq> CHR 0x22" "c \<noteq> CHR 0x5C" "short_escape c = None" "\<not> (of_char c :: nat) < 32"
    by blast
  then show ?thesis
  proof cases
    case esc
    then show ?thesis
      using assms scan_backslash [of i data c rest] by (auto simp: json_escape_def)
  next
    case short
    then show ?thesis
      using assms scan_backslash [of i data _ rest] by (auto simp: json_escape_def)
  next
    case ctl
    let ?h = "hex_digit (of_char c div 16)" and ?l = "hex_digit (of_char c mod 16)"
    have d: "drop i data = CHR 0x5C # CHR ''u'' # CHR ''0'' # CHR ''0'' # ?h # ?l # rest"
      using assms ctl by (simp add: json_escape_def)
    have d2: "drop (Suc (Suc i)) data = [CHR ''0'', CHR ''0'', ?h, ?l] @ rest"
      using drop_Cons(3) [OF drop_Cons(3) [OF d]] by simp
    have "scan_string data i = scan_string data (Suc (Suc i) + length [CHR ''0'', CHR ''0'', ?h, ?l])"
      unfolding scan_backslash [OF d] using ctl hex_digit_plain
      by (intro scan_plains [OF d2]) simp
    then show ?thesis using ctl by (simp add: json_escape_def)
  next
    case plain
    then show ?thesis
      using assms scan_plain [of i data c rest] by (simp add: json_escape_def)
  qed
qed

lemma scan_escaped:
  "drop i data = concat (map json_escape s) @ CHR 0x22 # rest \<Longrightarrow>
   scan_string data i = i + length (concat (map json_escape s))"
proof (induction s arbitrary: i)
  case Nil
  then show ?case by (simp add: scan_quote)
next
  case (Cons c s)
  have d: "drop i data = json_escape c @ concat (map json_escape s) @ CHR 0x22 # rest"
    using Cons.prems by simp
  show ?case
    using scan_escape [OF d] Cons.IH [OF drop_append [OF d]] by simp
qed

lemma loop_end: "extract_loop data spare d (length data) = Ret []"
  by (subst extract_loop.simps) simp

lemma loop_open:
  "drop i data = CHR ''{'' # rest \<Longrightarrow> extract_loop data spare d i = extract_loop data spare (d + 1) (Suc i)"
  using drop_Cons [of i data] by (subst extract_loop.simps) simp

lemma loop_close:
  "drop i data = CHR ''}'' # rest \<Longrightarrow> extract_loop data spare d i = extract_loop data spare (d - 1) (Suc i)"
  using drop_Cons [of i data] by (subst extract_loop.simps) simp

definition inert :: "char \<Rightarrow> bool" where
  "inert c \<longleftrightarrow> c \<noteq> CHR ''{'' \<and> c \<noteq> CHR ''}'' \<and> c \<noteq> CHR 0x22"

lemma loop_inert:
  "\<lbrakk>drop i data = c # rest; inert c\<rbrakk> \<Longrightarrow> extract_loop data spare d i = extract_loop data spare d (Suc i)"
  using drop_Cons [of i data] by (subst extract_loop.simps) (simp add: inert_def)

lemma loop_inerts:
  "\<lbrakk>drop i data = xs @ rest; \<forall>c \<in> set xs. inert c\<rbrakk> \<Longrightarrow>
   extract_loop data spare d i = extract_loop data spare d (i + length xs)"
proof (induction xs arbitrary: i)
  case (Cons c xs)
  then show ?case
    using loop_inert [of i data c "xs @ rest"] drop_Cons(3) [of i data c "xs @ rest"] Cons.IH [of "Suc i"] by simp
qed simp

text \<open>A quoted text: where the scan stops, and what the slice is.\<close>

lemma quote_scan:
  assumes "drop i data = json_quote s @ rest"
  shows "scan_string data (Suc i) + 1 = i + length (json_quote s)"
    and "slice_of data spare (Suc i) (scan_string data (Suc i)) = Ret (concat (map json_escape s))"
    and "i < length data" and "data ! i = CHR 0x22"
    and "drop (i + length (json_quote s)) data = rest"
proof -
  let ?e = "concat (map json_escape s)"
  have d: "drop i data = CHR 0x22 # ?e @ CHR 0x22 # rest"
    using assms by (simp add: json_quote_def)
  note d1 = drop_Cons [OF d]
  have k: "scan_string data (Suc i) = Suc i + length ?e"
    by (rule scan_escaped [OF d1(3)])
  show "scan_string data (Suc i) + 1 = i + length (json_quote s)"
    by (simp add: k json_quote_def)
  show "i < length data" "data ! i = CHR 0x22" using d1 by simp_all
  have "drop (Suc i) (take (Suc i + length ?e) data) = take (length ?e) (drop (Suc i) data)"
    by (simp add: drop_take)
  also have "\<dots> = ?e" by (simp add: d1(3))
  finally have sl: "drop (Suc i) (take (Suc i + length ?e) data) = ?e" .
  have "length (drop (Suc i) data) = length ?e + 1 + length rest" by (simp only: d1(3)) simp
  then have "Suc i + length ?e \<le> length data" by simp
  then show "slice_of data spare (Suc i) (scan_string data (Suc i)) = Ret ?e"
    using sl by (simp add: slice_of_def k)
  show "drop (i + length (json_quote s)) data = rest" by (rule drop_append [OF assms])
qed

lemma skip_stop: "\<lbrakk>drop i data = c # rest; \<not> is_gap c\<rbrakk> \<Longrightarrow> skip_gap data i = i"
  using drop_Cons [of i data] by (subst skip_gap.simps) simp

lemma skip_colon: "drop i data = CHR '':'' # rest \<Longrightarrow> skip_gap data i = skip_gap data (Suc i)"
  using drop_Cons [of i data] by (subst skip_gap.simps) (simp add: is_gap_def)

lemma loop_string_deep:
  assumes "drop i data = json_quote s @ rest" and "d \<noteq> 1"
  shows "extract_loop data spare d i = extract_loop data spare d (i + length (json_quote s))"
  using quote_scan [OF assms(1)] assms(2) by (subst extract_loop.simps) (simp add: Let_def)

lemma loop_string_top:
  assumes "drop i data = json_quote s @ rest"
  shows "extract_loop data spare 1 i =
    (let j = skip_gap data (i + length (json_quote s))
     in if concat (map json_escape s) = ''type'' \<and> j < length data \<and> data ! j = CHR 0x22
        then slice_of data spare (j + 1) (scan_string data (j + 1)) else extract_loop data spare 1 j)"
  using quote_scan [OF assms(1)] by (subst extract_loop.simps) (simp add: Let_def)

definition closing :: "char \<Rightarrow> bool" where
  "closing c \<longleftrightarrow> c = CHR '','' \<or> c = CHR ''}'' \<or> c = CHR '']''"

lemma loop_string_value:
  assumes "drop i data = json_quote s @ c # rest" and "closing c"
  shows "extract_loop data spare d i = extract_loop data spare d (i + length (json_quote s))"
proof (cases "d = 1")
  case True
  have d: "drop (i + length (json_quote s)) data = c # rest"
    by (rule drop_append [OF assms(1)])
  then show ?thesis
    using loop_string_top [OF assms(1), of spare] skip_stop [OF d] drop_Cons [OF d] assms(2) True
    by (auto simp: closing_def is_gap_def)
next
  case False
  then show ?thesis using loop_string_deep assms(1) by blast
qed

text \<open>A comma-separated list whose items the scanner passes over.\<close>

lemma loop_join:
  assumes "\<And>x i c rest. \<lbrakk>x \<in> set xs; drop i data = x @ c # rest; closing c\<rbrakk> \<Longrightarrow>
      extract_loop data spare d i = extract_loop data spare d (i + length x)"
    and "drop i data = go_join '','' xs @ c # rest" and "closing c"
  shows "extract_loop data spare d i = extract_loop data spare d (i + length (go_join '','' xs))"
  using assms
proof (induction "'',''" xs arbitrary: i rule: go_join.induct)
  case (3 s t ss)
  let ?r = "go_join '','' (t # ss) @ c # rest"
  have d: "drop i data = s @ CHR '','' # ?r" using 3 by simp
  note d' = drop_append [OF d]
  have "extract_loop data spare d i = extract_loop data spare d (i + length s)"
    using 3(2) [OF _ d] by (simp add: closing_def)
  also have "\<dots> = extract_loop data spare d (Suc (i + length s))"
    using loop_inert [OF d'] by (simp add: inert_def)
  also have "\<dots> = extract_loop data spare d (Suc (i + length s) + length (go_join '','' (t # ss)))"
    using 3(1) [OF 3(2)] drop_Cons(3) [OF d'] 3(4) by simp
  finally show ?case by (simp add: add.assoc)
qed simp_all

lemma digits_inert: "c \<in> set (nat_text_digits fuel n) \<Longrightarrow> inert c \<and> \<not> is_gap c \<and> c \<noteq> CHR 0x22"
proof (induction fuel n rule: nat_text_digits.induct)
  case (2 fuel n)
  have small: "inert (char_of (48 + k)) \<and> \<not> is_gap (char_of (48 + k)) \<and> char_of (48 + k) \<noteq> CHR 0x22"
    if "k < 10" for k :: nat
  proof -
    have "k \<in> set [0..<10]" using that by simp
    moreover have "\<forall>k \<in> set [0..<10]. inert (char_of (48 + k)) \<and> \<not> is_gap (char_of (48 + k)) \<and> char_of (48 + k) \<noteq> CHR 0x22"
      by code_simp
    ultimately show ?thesis by blast
  qed
  show ?case
  proof (cases "n < 10")
    case True
    then show ?thesis using 2 small by simp
  next
    case False
    then show ?thesis using 2 small [of "n mod 10"] by auto
  qed
qed simp

lemma int_text_inert: "c \<in> set (int_text n) \<Longrightarrow> inert c \<and> \<not> is_gap c \<and> c \<noteq> CHR 0x22"
  by (auto simp: int_text_def inert_def is_gap_def dest: digits_inert split: if_splits)

lemma digits_nonempty: "nat_text_digits (Suc fuel) n \<noteq> []"
  by simp

lemma int_text_nonempty: "int_text n \<noteq> []"
proof -
  have "nat_text_digits 20 k \<noteq> []" for k
    using digits_nonempty [of 19 k] by (simp only: Suc_numeral add_num_simps semiring_norm not_False_eq_True simp_thms)
  then show ?thesis by (simp add: int_text_def)
qed

text \<open>What a value's text begins with.\<close>

lemma value_start:
  "\<exists>c cs. json_text v = c # cs \<and> \<not> is_gap c \<and> (c = CHR 0x22 \<longleftrightarrow> (\<exists>s. v = JStr s))"
proof (cases v)
  case (JNum n)
  then show ?thesis
    using int_text_nonempty [of n] int_text_inert [of _ n] by (cases "int_text n") auto
qed (auto simp: is_gap_def json_quote_def)

text \<open>The scanner passes over a value that is followed by a comma or a closing bracket.\<close>

lemma loop_value:
  "\<lbrakk>1 \<le> d; drop i data = json_text v @ c # rest; closing c\<rbrakk> \<Longrightarrow>
   extract_loop data spare d i = extract_loop data spare d (i + length (json_text v))"
proof (induction v arbitrary: d i c rest)
  case JNull
  then show ?case using loop_inerts [of i data "''null''"] by (simp add: inert_def)
next
  case (JBool b)
  then show ?case
    using loop_inerts [of i data "''true''"] loop_inerts [of i data "''false''"] by (simp add: inert_def split: if_splits)
next
  case (JNum n)
  then show ?case using loop_inerts [of i data "int_text n"] int_text_inert by simp
next
  case (JStr s)
  then show ?case using loop_string_value [of i data s c rest] by simp
next
  case (JArr vs)
  let ?l = "go_join '','' (map json_text vs)"
  have d0: "drop i data = CHR ''['' # ?l @ CHR '']'' # c # rest"
    using JArr.prems by simp
  note d1 = drop_Cons(3) [OF d0]
  have "extract_loop data spare d i = extract_loop data spare d (Suc i)"
    using loop_inert [OF d0] by (simp add: inert_def)
  also have "\<dots> = extract_loop data spare d (Suc i + length ?l)"
  proof (rule loop_join [OF _ d1])
    fix x i c rest
    assume "x \<in> set (map json_text vs)" "drop i data = x @ c # rest" "closing c"
    then show "extract_loop data spare d i = extract_loop data spare d (i + length x)"
      using JArr.IH JArr.prems(1) by auto
  qed (simp add: closing_def)
  also have "\<dots> = extract_loop data spare d (Suc (Suc i + length ?l))"
    using loop_inert [OF drop_append [OF d1]] by (simp add: inert_def)
  finally show ?case by simp
next
  case (JObj kvs)
  let ?m = "\<lambda>(k, v). json_quote k @ '':'' @ json_text v"
  let ?l = "go_join '','' (map ?m kvs)"
  have d0: "drop i data = CHR ''{'' # ?l @ CHR ''}'' # c # rest"
    using JObj.prems by simp
  note d1 = drop_Cons(3) [OF d0]
  have deep: "d + 1 \<noteq> 1" "1 \<le> d + 1" using JObj.prems(1) by simp_all
  have "extract_loop data spare d i = extract_loop data spare (d + 1) (Suc i)"
    by (rule loop_open [OF d0])
  also have "\<dots> = extract_loop data spare (d + 1) (Suc i + length ?l)"
  proof (rule loop_join [OF _ d1])
    fix x i c rest
    assume "x \<in> set (map ?m kvs)" and dx: "drop i data = x @ c # rest" and c: "closing c"
    then obtain k v where kv: "(k, v) \<in> set kvs" and x: "x = json_quote k @ '':'' @ json_text v" by auto
    have dq: "drop i data = json_quote k @ CHR '':'' # json_text v @ c # rest" using dx x by simp
    note dc = drop_append [OF dq]
    have "extract_loop data spare (d + 1) i = extract_loop data spare (d + 1) (i + length (json_quote k))"
      by (rule loop_string_deep [OF dq deep(1)])
    also have "\<dots> = extract_loop data spare (d + 1) (Suc (i + length (json_quote k)))"
      using loop_inert [OF dc] by (simp add: inert_def)
    also have "\<dots> = extract_loop data spare (d + 1) (Suc (i + length (json_quote k)) + length (json_text v))"
      using JObj.IH [OF kv _ deep(2) drop_Cons(3) [OF dc] c] by simp
    finally show "extract_loop data spare (d + 1) i = extract_loop data spare (d + 1) (i + length x)"
      by (simp add: x add.assoc)
  qed (simp add: closing_def)
  also have "\<dots> = extract_loop data spare d (Suc (Suc i + length ?l))"
    using loop_close [OF drop_append [OF d1], of spare "d + 1"] by simp
  finally show ?case by simp
qed

lemma escape_plain:
  assumes "CHR 0x5C \<notin> set (concat (map json_escape s))"
  shows "concat (map json_escape s) = s"
  using assms
proof (induction s)
  case (Cons c s)
  then have "json_escape c = [c]" by (auto simp: json_escape_def split: if_splits)
  then show ?case using Cons by simp
qed simp

lemma escaped_type: "concat (map json_escape k) = ''type'' \<longleftrightarrow> k = ''type''"
proof
  assume "concat (map json_escape k) = ''type''"
  then show "k = ''type''" using escape_plain [of k] by simp
next
  have "concat (map json_escape ''type'') = ''type''" by code_simp
  then show "k = ''type'' \<Longrightarrow> concat (map json_escape k) = ''type''" by simp
qed

text \<open>One member of the top-level object.\<close>

lemma loop_member:
  assumes d: "drop i data = json_quote k @ CHR '':'' # json_text v @ c # rest" and c: "closing c"
  shows "extract_loop data spare 1 i =
    (case v of JStr s \<Rightarrow> if k = ''type'' then Ret (concat (map json_escape s))
                       else extract_loop data spare 1 (Suc (i + length (json_quote k)) + length (json_text v))
     | _ \<Rightarrow> extract_loop data spare 1 (Suc (i + length (json_quote k)) + length (json_text v)))"
proof -
  let ?j = "Suc (i + length (json_quote k))"
  note dc = drop_append [OF d]
  note dv = drop_Cons(3) [OF dc]
  obtain b bs where start: "json_text v = b # bs" "\<not> is_gap b" "b = CHR 0x22 \<longleftrightarrow> (\<exists>s. v = JStr s)"
    using value_start by blast
  have db: "drop ?j data = b # bs @ c # rest" using dv start(1) by simp
  have "skip_gap data (i + length (json_quote k)) = ?j"
    using skip_colon [OF dc] skip_stop [OF db start(2)] by simp
  then have step: "extract_loop data spare 1 i =
      (if k = ''type'' \<and> (\<exists>s. v = JStr s) then slice_of data spare (?j + 1) (scan_string data (?j + 1))
       else extract_loop data spare 1 ?j)"
    using loop_string_top [OF d, of spare] drop_Cons [OF db] start(3) by (simp add: escaped_type Let_def)
  have past: "extract_loop data spare 1 ?j = extract_loop data spare 1 (?j + length (json_text v))"
    using loop_value [of 1, OF _ dv c] by simp
  show ?thesis
  proof (cases "\<exists>s. v = JStr s")
    case True
    then obtain s where v: "v = JStr s" by blast
    show ?thesis using step past quote_scan(2) [of ?j data s, where spare = spare] dv by (auto simp: v)
  next
    case False
    then show ?thesis using step past by (cases v) simp_all
  qed
qed

abbreviation member :: "string \<times> json \<Rightarrow> string" where
  "member \<equiv> \<lambda>(k, v). json_quote k @ '':'' @ json_text v"

lemma loop_members:
  "\<lbrakk>drop i data = go_join '','' (map member m) @ ''}''; wf_map m\<rbrakk> \<Longrightarrow>
   extract_loop data spare 1 i = Ret (concat (map json_escape (get_str m ''type'')))"
proof (induction m arbitrary: i)
  case Nil
  then have d: "drop i data = CHR ''}'' # []" by simp
  have "Suc i = length data"
    using drop_Cons [OF d] by simp
  then show ?case using loop_close [OF d, of spare 1] loop_end [of data spare 0] by (simp add: get_str_def)
next
  case (Cons kv m)
  obtain k v where kv: "kv = (k, v)" by (cases kv)
  obtain c rest where tail: "closing c"
      "drop i data = json_quote k @ CHR '':'' # json_text v @ c # rest"
      "(m = [] \<and> c = CHR ''}'' \<and> rest = []) \<or>
       (m \<noteq> [] \<and> c = CHR '','' \<and> rest = go_join '','' (map member m) @ ''}'')"
    using Cons.prems(1) kv by (cases m) (auto simp: closing_def)
  let ?n = "Suc (i + length (json_quote k)) + length (json_text v)"
  have dn: "drop ?n data = c # rest"
    using drop_append [OF drop_Cons(3) [OF drop_append [OF tail(2)]]] .
  have wf: "wf_map m" and fresh: "aget m k = None"
    using Cons.prems(2) kv by (auto simp: wf_map_def map_of_eq_None_iff)
  have next_: "extract_loop data spare 1 ?n = Ret (concat (map json_escape (get_str m ''type'')))"
  proof (cases "m = []")
    case True
    then have d: "drop ?n data = CHR ''}'' # []" using tail(3) dn by simp
    have "Suc ?n = length data" using drop_Cons [OF d] by simp
    then show ?thesis
      using loop_close [OF d, of spare 1] loop_end [of data spare 0] True by (simp add: get_str_def)
  next
    case False
    then have d: "drop ?n data = CHR '','' # go_join '','' (map member m) @ ''}''" using tail(3) dn by simp
    then show ?thesis
      using loop_inert [OF d, of spare 1] Cons.IH [OF drop_Cons(3) [OF d] wf] by (simp add: inert_def)
  qed
  show ?case
    using loop_member [OF tail(2,1), of spare] next_ fresh
    by (cases v) (auto simp: kv get_str_def)
qed

text \<open>C18: On a message in compact JSON the byte scanner agrees with parsing it: whatever is nested inside,
  it finds the \<open>type\<close> of the outermost object (in its escaped form) and nothing when that is not a
  text, and it never reads outside the message.\<close>

theorem scanner_exact:
  assumes "wf_map m"
  shows "fastExtractType (json_text (JObj m)) spare = Ret (concat (map json_escape (get_str m ''type'')))"
proof -
  let ?data = "json_text (JObj m)"
  have d: "drop 0 ?data = CHR ''{'' # go_join '','' (map member m) @ ''}''" by simp
  show ?thesis
    using loop_open [OF d, of spare 0] loop_members [OF drop_Cons(3) [OF d] assms, of spare]
    by (simp add: fastExtractType_def)
qed

lemma scanner_exact_witness:
  "fastExtractType ''{\"data\":{\"type\":\"fake\"},\"type\":\"entity\"}'' [] = Ret ''entity''"
proof -
  have "json_text (JObj [(''data'', JObj [(''type'', JStr ''fake'')]), (''type'', JStr ''entity'')]) =
      ''{\"data\":{\"type\":\"fake\"},\"type\":\"entity\"}''"
    by code_simp
  moreover have "concat (map json_escape ''entity'') = ''entity''" by code_simp
  ultimately show ?thesis
    using scanner_exact [of "[(''data'', JObj [(''type'', JStr ''fake'')]), (''type'', JStr ''entity'')]" "[]"]
    by (simp add: wf_map_def get_str_def)
qed

text \<open>A text that ends in a backslash drives the scanner's index past the message: without spare
  capacity in the buffer the slice expression panics, and the read loop has no recovery.\<close>

theorem scanner_overrun:
  "fastExtractType (''{\"type\":\"a'' @ [CHR 0x5C]) [] = Panic ''slice bounds out of range'' \<and>
   fastExtractType (''{\"type\":\"a'' @ [CHR 0x5C]) [x] = Ret [CHR ''a'', CHR 0x5C, x]"
  by (simp add: fastExtractType_def)
     (simp add: extract_loop.simps scan_string.simps skip_gap.simps slice_of_def is_gap_def Let_def numeral_eq_Suc)

subsection \<open>The handshake\<close>

text \<open>
  The request of a module as the handler sees it: the query parameters (\<open>Get\<close> of a missing one is
  empty), the origin header, the remote address (which \<open>RealIP\<close> may have rewritten), the peer of the connection, whether the upgrade succeeds, and the first frame
  (\<open>None\<close> when it does not come in time).  Of the configuration, the validators are parameters:
  \<open>ValidateConnectionToken\<close> gives the account's key, the allowlist, the token's name and number, or
  \<open>None\<close> for an error, and \<open>ValidateHeadless\<close> a verdict or an error.  \<open>url_parse\<close> stands for
  \<open>net/url\<close>: scheme, host, path, raw query and fragment.
\<close>

record relay_cfg =
  rc_ValidateConnectionToken :: "(string \<Rightarrow> (string \<times> string \<times> string \<times> int) option) option"
  rc_hasValidateAPIKey :: bool
  rc_ValidateHeadless :: "(string \<Rightarrow> string \<Rightarrow> bool option) option"
  rc_hasConnected :: bool

record relay_request =
  rq_query :: "(string, string) gomap"
  rq_Origin :: string
  rq_RemoteAddr :: string
  rq_peer :: "string option"  \<comment> \<open>\<open>conn.RemoteAddr()\<close>, \<open>None\<close> for nil\<close>
  rq_upgrades :: bool
  rq_first :: "string option"

definition query_get :: "relay_request \<Rightarrow> string \<Rightarrow> string" where
  "query_get r k = null_str (aget (rq_query r) k)"

definition relayValidateToken :: "relay_cfg \<Rightarrow> string \<Rightarrow> string + (string \<times> string \<times> string \<times> int)" where
  "relayValidateToken cfg token =
     (if rc_ValidateConnectionToken cfg = None \<and> \<not> rc_hasValidateAPIKey cfg then Inr (token, [], [], 0)
      else case rc_ValidateConnectionToken cfg of
        None \<Rightarrow> Inl ''connection token validation not configured''
      | Some validate \<Rightarrow>
          (case validate token of
             None \<Rightarrow> Inl ''invalid connection token''
           | Some (masterAPIKey, allowedIPs, tokenName, tokenID) \<Rightarrow>
               if masterAPIKey = [] then Inl ''invalid connection token''
               else Inr (masterAPIKey, allowedIPs, tokenName, tokenID)))"

text \<open>A field of Go type \<open>string\<close>: absent and \<open>null\<close> leave it empty, another type is an error.\<close>

definition str_field :: "obj \<Rightarrow> string \<Rightarrow> string option" where
  "str_field m k = (case aget m k of None \<Rightarrow> Some [] | Some JNull \<Rightarrow> Some [] | Some (JStr s) \<Rightarrow> Some s | Some _ \<Rightarrow> None)"

definition auth_token :: "(string \<Rightarrow> obj option) \<Rightarrow> string \<Rightarrow> string option" where
  "auth_token decode messageBytes =
     (case decode messageBytes of
        None \<Rightarrow> None
      | Some m \<Rightarrow>
          (case (str_field m ''type'', str_field m ''token'') of
             (Some t, Some tok) \<Rightarrow> if t \<noteq> ''auth'' \<or> tok = [] then None else Some tok
           | _ \<Rightarrow> None))"

definition public_url ::
    "(string \<Rightarrow> (string \<times> string \<times> string \<times> string \<times> string) option) \<Rightarrow> string \<Rightarrow> string" where
  "public_url url_parse raw =
     (if raw = [] then []
      else case url_parse raw of
        None \<Rightarrow> []
      | Some (scheme, host, path, rawQuery, fragment) \<Rightarrow>
          if (scheme = ''http'' \<or> scheme = ''https'') \<and> host \<noteq> [] \<and> path = [] \<and> rawQuery = [] \<and>
             fragment = [] \<and> length raw \<le> 512
          then raw else [])"

datatype handshake =
    HTTPError int string
  | UpgradeFailed
  | Hangup int string  \<comment> \<open>a close frame, then \<open>conn.Close\<close>\<close>
  | Accept string string string int  \<comment> \<open>key to register under, raw token, token's name and number\<close>

definition relay_handshake :: "relay_cfg \<Rightarrow> (string \<Rightarrow> obj option) \<Rightarrow> relay_request \<Rightarrow> handshake" where
  "relay_handshake cfg decode r =
     (let cid = query_get r ''id''
      in if cid = [] then HTTPError 400 ''Missing client ID''
         else if query_get r ''token'' \<noteq> []
         then HTTPError 400 ''Token URL parameter is not supported. Send auth as the first WebSocket message.''
         else if \<not> rq_upgrades r then UpgradeFailed
         else case rq_first r of
           None \<Rightarrow> Hangup 4002 ''Authentication timeout''
         | Some messageBytes \<Rightarrow>
             (case auth_token decode messageBytes of
                None \<Rightarrow> Hangup 4002 ''Invalid auth message''
              | Some token \<Rightarrow>
                  (case relayValidateToken cfg token of
                     Inl err \<Rightarrow> Hangup 1008 ''Authentication failed''
                   | Inr (registrationToken, allowedIPs, tokenName, tokenID) \<Rightarrow>
                       if allowedIPs \<noteq> [] \<and> \<not> isIPAllowed (rq_RemoteAddr r) allowedIPs
                       then Hangup 4002 ''IP address not allowed''
                       else if (case rc_ValidateHeadless cfg of
                                  None \<Rightarrow> False | Some validate \<Rightarrow> validate cid token \<noteq> Some True)
                       then Hangup 4002 ''Invalid headless session''
                       else Accept registrationToken token tokenName tokenID)))"

definition relay_hello ::
    "(string \<Rightarrow> (string \<times> string \<times> string \<times> string \<times> string) option) \<Rightarrow> relay_request \<Rightarrow> hello" where
  "relay_hello url_parse r =
     \<lparr>h_worldID = query_get r ''worldId'', h_worldTitle = query_get r ''worldTitle'',
      h_foundryVersion = query_get r ''foundryVersion'', h_systemID = query_get r ''systemId'',
      h_systemTitle = query_get r ''systemTitle'', h_systemVersion = query_get r ''systemVersion'',
      h_customName = query_get r ''customName'', h_publicUrl = public_url url_parse (rq_Origin r)\<rparr>"

datatype 'h connection =
    NotConnected handshake
  | Duplicate "'h manager"
  | ConnectPanic string "'h manager"
  | Connected nat "string list" "'h manager"  \<comment> \<open>the client, the \<open>OnClientConnected\<close> calls\<close>

definition startRelayClient ::
    "gotime \<Rightarrow> relay_cfg \<Rightarrow> string option \<Rightarrow> string \<Rightarrow> string \<Rightarrow> string \<Rightarrow> int \<Rightarrow> hello \<Rightarrow> 'h manager \<Rightarrow> 'h connection" where
  "startRelayClient now cfg peer cid registrationToken tokenName tokenID h m =
     (case AddClient now peer cid registrationToken tokenName h m of
        Rejected e m1 \<Rightarrow> Duplicate m1
      | AddPanic e m1 \<Rightarrow> ConnectPanic e m1
      | Added ref m1 \<Rightarrow>
          (let clientID = cl_id (mg_heap m1 ! ref);
               m2 = (if tokenID \<noteq> 0 then SetClientConnectionTokenID clientID tokenID m1 else m1)
           in Connected ref (if rc_hasConnected cfg then [clientID] else []) m2))"

definition HandleRelayConnection ::
    "gotime \<Rightarrow> relay_cfg \<Rightarrow> (string \<Rightarrow> obj option) \<Rightarrow>
     (string \<Rightarrow> (string \<times> string \<times> string \<times> string \<times> string) option) \<Rightarrow> relay_request \<Rightarrow> 'h manager \<Rightarrow>
     'h connection" where
  "HandleRelayConnection now cfg decode url_parse r m =
     (case relay_handshake cfg decode r of
        Accept registrationToken token tokenName tokenID \<Rightarrow>
          startRelayClient now cfg (rq_peer r) (query_get r ''id'') registrationToken tokenName tokenID
            (relay_hello url_parse r) m
      | refused \<Rightarrow> NotConnected refused)"

subsection \<open>The read loop\<close>

text \<open>A message that the scanner finds no type in goes through the full parse.\<close>

definition relay_message_full ::
    "gotime \<Rightarrow> string \<Rightarrow> obj \<Rightarrow> string \<Rightarrow> handler manager \<times> relay \<Rightarrow> handler manager \<times> relay" where
  "relay_message_full now clientID message rawBytes s =
     (case s of (m, r) \<Rightarrow>
       (case HandleIncomingMessage now clientID message rawBytes m of
          (RunRaw hs ref data raw, m') \<Rightarrow> (m', fold (\<lambda>h. run_raw_handler h data raw) hs r)
        | (RunHandlers hs ref data, m') \<Rightarrow> (m', fold (\<lambda>h. run_handler now h (cl_id (mg_heap m' ! ref)) data) hs r)
        | (_, m') \<Rightarrow> (m', r)))"

definition read_message ::
    "(string \<Rightarrow> obj option) \<Rightarrow> gotime \<Rightarrow> string \<Rightarrow> string \<Rightarrow> string \<Rightarrow> handler manager \<times> relay \<Rightarrow>
     (handler manager \<times> relay) go" where
  "read_message decode now cid messageBytes spare s =
     (case fastExtractType messageBytes spare of
        Panic e \<Rightarrow> Panic e
      | Ret msgType \<Rightarrow>
          if msgType = [] then
            (case decode messageBytes of
               None \<Rightarrow> Ret s
             | Some message \<Rightarrow> Ret (relay_message_full now cid message messageBytes s))
          else Ret (relay_message decode now cid msgType messageBytes s))"

text \<open>The frames of a connection until a read fails, then the deferred removal and \<open>conn.Close\<close>.\<close>

fun read_pump ::
    "(string \<Rightarrow> obj option) \<Rightarrow> (string \<Rightarrow> nat option) \<Rightarrow> string \<Rightarrow> nat \<Rightarrow> (gotime \<times> string \<times> string) list \<Rightarrow>
     handler manager \<times> relay \<Rightarrow> (handler manager \<times> relay) go" where
  "read_pump decode scard cid ref [] s =
     (case s of (m, r) \<Rightarrow>
        (let m1 = RemoveClientIfMatch scard cid ref m
         in Ret (heap_update ref ((mg_heap m1 ! ref)\<lparr>cl_sockClosed := True\<rparr>) m1, r)))"
| "read_pump decode scard cid ref ((now, messageBytes, spare) # fs) s =
     (case read_message decode now cid messageBytes spare s of
        Panic e \<Rightarrow> Panic e
      | Ret s' \<Rightarrow> read_pump decode scard cid ref fs s')"

subsection \<open>Who gets in\<close>

lemma register_fields:
  "register now a cid token tn h m = (ref, m1) \<Longrightarrow>
   ref < length (mg_heap m1) \<and> cl_id (mg_heap m1 ! ref) = cid \<and> cl_apiKey (mg_heap m1 ! ref) = token \<and>
   cl_connectionTokenID (mg_heap m1 ! ref) = 0 \<and> aget (mg_clients m1) cid = Some ref"
  by (auto simp: register_def NewClient_def Let_def)

lemma announce_keeps:
  "announce cid token h ref m = Added ref' m' \<Longrightarrow>
   ref' = ref \<and> mg_heap m' = mg_heap m \<and> mg_clients m' = mg_clients m"
  by (auto simp: announce_def emit_def Let_def split: if_splits)

lemma AddClient_fields:
  assumes "AddClient now a cid token tn h m = Added ref m'"
  shows "ref < length (mg_heap m')" and "cl_id (mg_heap m' ! ref) = cid" and "cl_apiKey (mg_heap m' ! ref) = token"
    and "cl_connectionTokenID (mg_heap m' ! ref) = 0" and "aget (mg_clients m') cid = Some ref"
proof -
  obtain m0 ref1 m1 where r: "register now a cid token tn h m0 = (ref1, m1)" and an: "announce cid token h ref1 m1 = Added ref m'"
    using assms by (auto simp: AddClient_def Let_def split: option.splits if_splits prod.splits)
  show "ref < length (mg_heap m')" "cl_id (mg_heap m' ! ref) = cid" "cl_apiKey (mg_heap m' ! ref) = token"
    "cl_connectionTokenID (mg_heap m' ! ref) = 0" "aget (mg_clients m') cid = Some ref"
    using register_fields [OF r] announce_keeps [OF an] by auto
qed

lemma handshake_accepts:
  assumes "relay_handshake cfg decode r = Accept k tok name tid"
  shows "query_get r ''id'' \<noteq> []" and "query_get r ''token'' = []"
    and "\<exists>b. rq_first r = Some b \<and> auth_token decode b = Some tok"
    and "\<exists>ips. relayValidateToken cfg tok = Inr (k, ips, name, tid) \<and> (ips \<noteq> [] \<longrightarrow> isIPAllowed (rq_RemoteAddr r) ips)"
    and "\<And>v. rc_ValidateHeadless cfg = Some v \<Longrightarrow> v (query_get r ''id'') tok = Some True"
  using assms by (auto simp: relay_handshake_def Let_def split: if_splits option.splits sum.splits)

text \<open>C6: With a token store configured, a module is registered only with a valid connection token: its
  first frame carried a token that the store maps to the account's key, its address passes that
  token's allowlist, a configured headless check accepted it, and it is registered under exactly
  that key, remembers exactly that token's number, and holds the identifier it asked for.\<close>

theorem registered_only_with_token:
  assumes "rc_ValidateConnectionToken cfg = Some validate"
    and "HandleRelayConnection now cfg decode url_parse r m = Connected ref calls m'"
  shows "\<exists>b tok k ips name tid.
    rq_first r = Some b \<and> auth_token decode b = Some tok \<and> validate tok = Some (k, ips, name, tid) \<and>
    k \<noteq> [] \<and> isIPAllowed (rq_RemoteAddr r) ips \<and>
    (\<forall>v. rc_ValidateHeadless cfg = Some v \<longrightarrow> v (query_get r ''id'') tok = Some True) \<and>
    aget (mg_clients m') (query_get r ''id'') = Some ref \<and>
    cl_apiKey (mg_heap m' ! ref) = k \<and> cl_connectionTokenID (mg_heap m' ! ref) = tid"
proof -
  obtain k tok name tid where acc: "relay_handshake cfg decode r = Accept k tok name tid"
      and start: "startRelayClient now cfg (rq_peer r) (query_get r ''id'') k name tid (relay_hello url_parse r) m
        = Connected ref calls m'"
    using assms(2) by (auto simp: HandleRelayConnection_def split: handshake.splits)
  note h = handshake_accepts [OF acc]
  obtain ips where v: "validate tok = Some (k, ips, name, tid)" "k \<noteq> []"
      and ips: "ips \<noteq> [] \<longrightarrow> isIPAllowed (rq_RemoteAddr r) ips"
    using h(4) assms(1) by (auto simp: relayValidateToken_def split: option.splits if_splits)
  have allowed: "isIPAllowed (rq_RemoteAddr r) ips"
    using ips by (cases "ips = []") (simp_all add: isIPAllowed_def)
  obtain m1 where add: "AddClient now (rq_peer r) (query_get r ''id'') k name (relay_hello url_parse r) m = Added ref m1"
      and m': "m' = (if tid \<noteq> 0 then SetClientConnectionTokenID (cl_id (mg_heap m1 ! ref)) tid m1 else m1)"
    using start by (auto simp: startRelayClient_def Let_def split: add_result.splits)
  note a = AddClient_fields [OF add]
  have "aget (mg_clients m') (query_get r ''id'') = Some ref \<and> cl_apiKey (mg_heap m' ! ref) = k \<and>
      cl_connectionTokenID (mg_heap m' ! ref) = tid"
    using a by (auto simp: m' SetClientConnectionTokenID_def SetConnectionTokenID_def heap_update_def emit_def Let_def)
  then show ?thesis using h(3,5) v allowed by blast
qed

definition ex_cfg :: relay_cfg where
  "ex_cfg = \<lparr>rc_ValidateConnectionToken =
       Some (\<lambda>t. if t = ''s3cret'' then Some (''account1'', [], ''tab'', 7) else None),
     rc_hasValidateAPIKey = True, rc_ValidateHeadless = None, rc_hasConnected = False\<rparr>"

definition ex_request :: relay_request where
  "ex_request = \<lparr>rq_query = [(''id'', ''fvtt_1'')], rq_Origin = [], rq_RemoteAddr = ''10.2.3.4:5000'', rq_peer = Some ''10.2.3.4:5000'',
     rq_upgrades = True, rq_first = Some ''auth''\<rparr>"

definition ex_decode :: "string \<Rightarrow> obj option" where
  "ex_decode b = (if b = ''auth'' then Some [(''type'', JStr ''auth''), (''token'', JStr ''s3cret'')] else None)"

lemma ex_connected:
  "\<exists>m'. HandleRelayConnection 5 ex_cfg ex_decode (\<lambda>u. None) ex_request (NewClientManager False ''i1'' :: unit manager)
     = Connected 0 [] m'"
proof -
  have "relay_handshake ex_cfg ex_decode ex_request = Accept ''account1'' ''s3cret'' ''tab'' 7"
    by code_simp
  then have "HandleRelayConnection 5 ex_cfg ex_decode (\<lambda>u. None) ex_request (NewClientManager False ''i1'' :: unit manager) =
      startRelayClient 5 ex_cfg (rq_peer ex_request) (query_get ex_request ''id'') ''account1'' ''tab'' 7
        (relay_hello (\<lambda>u. None) ex_request) (NewClientManager False ''i1'')"
    by (simp add: HandleRelayConnection_def)
  then show ?thesis
    by (simp add: startRelayClient_def AddClient_def NewClientManager_def register_def announce_def Let_def)
       (simp add: ex_cfg_def)
qed

lemma registered_only_with_token_witness:
  "\<exists>m'. HandleRelayConnection 5 ex_cfg ex_decode (\<lambda>u. None) ex_request (NewClientManager False ''i1'' :: unit manager)
     = Connected 0 [] m' \<and> cl_apiKey (mg_heap m' ! 0) = ''account1''"
proof -
  obtain m' where c: "HandleRelayConnection 5 ex_cfg ex_decode (\<lambda>u. None) ex_request
      (NewClientManager False ''i1'' :: unit manager) = Connected 0 [] m'"
    using ex_connected by blast
  have v: "rc_ValidateConnectionToken ex_cfg =
      Some (\<lambda>t. if t = ''s3cret'' then Some (''account1'', [], ''tab'', 7) else None)"
    by (simp add: ex_cfg_def)
  show ?thesis
    using registered_only_with_token [OF v c] c by (auto split: if_splits)
qed

subsection \<open>The life of a connection\<close>

lemma scan_string_le: "i \<le> length data \<Longrightarrow> scan_string data i \<le> Suc (length data)"
proof (induction data i rule: scan_string.induct)
  case (1 data i)
  show ?case
  proof (cases "data ! i = CHR 0x5C \<and> Suc i = length data")
    case True
    then show ?thesis by (subst scan_string.simps, subst scan_string.simps) simp
  next
    case False
    then show ?thesis using 1 by (subst scan_string.simps) auto
  qed
qed

lemma scan_string_in: "\<lbrakk>i \<le> length data; data = [] \<or> last data \<noteq> CHR 0x5C\<rbrakk> \<Longrightarrow> scan_string data i \<le> length data"
proof (induction data i rule: scan_string.induct)
  case (1 data i)
  have "Suc i < length data" if i: "i < length data" "data ! i = CHR 0x5C"
  proof (rule ccontr)
    assume "\<not> Suc i < length data"
    with i(1) have "i = length data - 1" "data \<noteq> []" by auto
    then show False using "1.prems"(2) i(2) by (simp add: last_conv_nth)
  qed
  then show ?case using 1 by (subst scan_string.simps) auto
qed

lemma extract_loop_safe:
  assumes "spare \<noteq> [] \<or> data = [] \<or> last data \<noteq> CHR 0x5C"
  shows "\<exists>t. extract_loop data spare d i = Ret t"
  using assms
proof (induction data spare d i rule: extract_loop.induct)
  case (1 data spare depth i)
  have ok: "\<exists>t. slice_of data spare a (scan_string data b) = Ret t" if "b \<le> length data" for a b
    using scan_string_le [OF that] scan_string_in [OF that] "1.prems" by (cases spare) (auto simp: slice_of_def)
  show ?case
  proof (cases "i < length data")
    case True
    obtain t where t: "slice_of data spare (Suc i) (scan_string data (Suc i)) = Ret t"
      using ok [of "Suc i" "Suc i"] True by auto
    show ?thesis
      using 1 ok by (subst extract_loop.simps) (auto simp: Let_def Suc_leI t split: go.splits)
  qed (subst extract_loop.simps, simp)
qed

text \<open>C36: Whatever finite sequence of messages a module sends before a read of its connection fails, however malformed,
  its read loop ends with the client no longer the registered holder of its identifier; or else the loop stops
  with a panic, and that takes a message that ends in a backslash and fills its buffer to the last byte.\<close>

theorem connection_ends_unregistered:
  "(\<exists>m' r'. read_pump decode scard cid ref fs s = Ret (m', r') \<and> aget (mg_clients m') cid \<noteq> Some ref) \<or>
   (\<exists>e. read_pump decode scard cid ref fs s = Panic e) \<and>
   (\<exists>(t, b, spare) \<in> set fs. spare = [] \<and> b \<noteq> [] \<and> last b = CHR 0x5C)"
proof (induction fs arbitrary: s)
  case Nil
  then show ?case
    by (cases s) (auto simp: RemoveClientIfMatch_def unregister_def heap_update_def emit_def Let_def split: option.splits)
next
  case (Cons f fs)
  obtain t b spare where f: "f = (t, b, spare)" by (cases f)
  show ?case
  proof (cases "read_message decode t cid b spare s")
    case (Ret s')
    then show ?thesis using Cons [of s'] f by auto
  next
    case (Panic e)
    then have "\<nexists>ty. fastExtractType b spare = Ret ty" by (auto simp: read_message_def split: option.splits if_splits)
    then have "spare = [] \<and> b \<noteq> [] \<and> last b = CHR 0x5C"
      using extract_loop_safe [of spare b 0 0] by (auto simp: fastExtractType_def)
    then show ?thesis using Panic f by auto
  qed
qed

text \<open>The two paths of the read loop agree on a message in compact JSON whose type has no raw handler; the types of the
  modules' answers have one, and for these the paths are different by design.\<close>

theorem fast_path_is_full:
  assumes "wf_map msg" and "decode (json_text (JObj msg)) = Some msg"
    and "get_str msg ''type'' \<noteq> []" and "CHR 0x5C \<notin> set (concat (map json_escape (get_str msg ''type'')))"
    and "handlers_for (mg_rawMessageHandlers m) (get_str msg ''type'') = []"
  shows "read_message decode now cid (json_text (JObj msg)) spare (m, r) =
    Ret (relay_message_full now cid msg (json_text (JObj msg)) (m, r))"
proof -
  let ?text = "json_text (JObj msg)" and ?t = "get_str msg ''type''"
  have d: "drop 0 ?text = CHR ''{'' # go_join '','' (map member msg) @ ''}''" by simp
  have "fastExtractType ?text spare = Ret ?t"
    using loop_open [OF d, of spare 0] loop_members [OF drop_Cons(3) [OF d] assms(1), of spare]
      escape_plain [OF assms(4)] by (simp add: fastExtractType_def)
  then have "read_message decode now cid ?text spare (m, r) = Ret (relay_message decode now cid ?t ?text (m, r))"
    using assms(3) by (simp add: read_message_def)
  also have "relay_message decode now cid ?t ?text (m, r) = relay_message_full now cid msg ?text (m, r)"
    using assms(2,5)
    by (simp add: relay_message_def relay_message_full_def HandleIncomingMessageFast_def HandleIncomingMessage_def
        heap_update_def Let_def split: option.splits del: json_text.simps)
  finally show ?thesis .
qed

lemma fast_path_is_full_witness:
  "read_message (\<lambda>b. Some [(''type'', JStr ''chat-event'')]) 9 ''c''
     (json_text (JObj [(''type'', JStr ''chat-event'')])) [] (NewClientManager False ''i1'', ex_relay) =
   Ret (relay_message_full 9 ''c'' [(''type'', JStr ''chat-event'')]
     (json_text (JObj [(''type'', JStr ''chat-event'')])) (NewClientManager False ''i1'', ex_relay))"
proof (rule fast_path_is_full)
  have "CHR 0x5C \<notin> set (concat (map json_escape ''chat-event''))" by code_simp
  then show "CHR 0x5C \<notin> set (concat (map json_escape (get_str [(''type'', JStr ''chat-event'')] ''type'')))"
    by (simp add: get_str_def)
qed (simp_all add: wf_map_def get_str_def handlers_for_def NewClientManager_def)

end
