(* ===== verification/Encryption.thy ===== *)
theory Encryption
  imports KnownWorlds Base64 RelayProto
begin

text \<open>
  The encryption of stored passwords, \<open>internal/service/encryption.go\<close>: the key from its hexadecimal or base64 text, and
  AES-256-GCM with the tag split off.  The cipher is a parameter: \<open>gc_seal\<close> appends a tag of 16 bytes, \<open>gc_open\<close> checks it.
  A byte is a character; \<open>random\<close> gives the 12 bytes of the initialisation vector, \<open>None\<close> for an error.  The errors are told apart by their
  prefix.
\<close>

record gcm =
  gc_seal :: "string \<Rightarrow> string \<Rightarrow> string \<Rightarrow> string"
  gc_open :: "string \<Rightarrow> string \<Rightarrow> string \<Rightarrow> string option"

record EncryptedData =
  ed_Ciphertext :: string
  ed_IV :: string
  ed_AuthTag :: string

subsection \<open>Hexadecimal text\<close>

definition hex_encode :: "string \<Rightarrow> string" where
  "hex_encode bs = concat (map (\<lambda>c. [hex_digit (of_char c div 16), hex_digit (of_char c mod 16)]) bs)"

fun hex_decode :: "string \<Rightarrow> string option" where
  "hex_decode [] = Some []"
| "hex_decode (a # b # rest) =
     (case (hex_val a, hex_val b, hex_decode rest) of
        (Some v, Some w, Some bs) \<Rightarrow> Some (char_of (v * 16 + w) # bs)
      | _ \<Rightarrow> None)"
| "hex_decode [a] = None"

subsection \<open>The operations\<close>

definition hexPattern :: "string \<Rightarrow> bool" where
  "hexPattern s \<longleftrightarrow> s \<noteq> [] \<and> list_all (\<lambda>c. hex_val c \<noteq> None) s"

definition key_format_error :: string where
  "key_format_error = ''CREDENTIALS_ENCRYPTION_KEY must be a 32-byte key encoded as hex (64 chars) or base64 (44 chars)''"

definition getEncryptionKey :: "string \<Rightarrow> string + string" where
  "getEncryptionKey keyEnv =
     (if keyEnv = [] then Inl ''CREDENTIALS_ENCRYPTION_KEY is not set''
      else if length keyEnv = 64 \<and> hexPattern keyEnv
      then (case hex_decode keyEnv of None \<Rightarrow> Inl ''encoding/hex'' | Some k \<Rightarrow> Inr k)
      else (case DecodeString keyEnv of
              Some k \<Rightarrow> if length k = 32 then Inr k else Inl key_format_error
            | None \<Rightarrow> Inl key_format_error))"

definition Encrypt :: "gcm \<Rightarrow> string option \<Rightarrow> string \<Rightarrow> string \<Rightarrow> string + EncryptedData" where
  "Encrypt g random plaintext keyEnv =
     (case getEncryptionKey keyEnv of
        Inl e \<Rightarrow> Inl e
      | Inr key \<Rightarrow>
          (case random of
             None \<Rightarrow> Inl ''generate IV''
           | Some iv \<Rightarrow>
               (let sealed = gc_seal g key iv plaintext; n = length sealed - 16
                in Inr \<lparr>ed_Ciphertext = hex_encode (take n sealed), ed_IV = hex_encode iv,
                        ed_AuthTag = hex_encode (drop n sealed)\<rparr>)))"

text \<open>A vector of another length than 12 makes the library panic.\<close>

definition Decrypt :: "gcm \<Rightarrow> string \<Rightarrow> string \<Rightarrow> string \<Rightarrow> string \<Rightarrow> (string + string) go" where
  "Decrypt g ciphertextHex ivHex authTagHex keyEnv =
     (case getEncryptionKey keyEnv of
        Inl e \<Rightarrow> Ret (Inl e)
      | Inr key \<Rightarrow>
          (case hex_decode ciphertextHex of
             None \<Rightarrow> Ret (Inl ''decode ciphertext'')
           | Some ciphertext \<Rightarrow>
               (case hex_decode ivHex of
                  None \<Rightarrow> Ret (Inl ''decode IV'')
                | Some iv \<Rightarrow>
                    (case hex_decode authTagHex of
                       None \<Rightarrow> Ret (Inl ''decode auth tag'')
                     | Some authTag \<Rightarrow>
                         if length iv \<noteq> 12 then Panic ''crypto/cipher: incorrect nonce length given to GCM''
                         else (case gc_open g key iv (ciphertext @ authTag) of
                                 None \<Rightarrow> Ret (Inl ''decrypt'')
                               | Some plaintext \<Rightarrow> Ret (Inr plaintext))))))"

definition IsEncryptionAvailable :: "string \<Rightarrow> bool" where
  "IsEncryptionAvailable keyEnv = (case getEncryptionKey keyEnv of Inr k \<Rightarrow> True | Inl e \<Rightarrow> False)"

subsection \<open>The key\<close>

lemma hex_val_digit: "n < 16 \<Longrightarrow> hex_val (hex_digit n) = Some n"
  by (cases "n < 10") (simp_all add: hex_val_def hex_digit_def in_range_def)

lemma char_256: "(of_char c :: nat) < 256"
  using code_less [of c] by (simp add: code_def)

lemma hex_decode_encode [simp]: "hex_decode (hex_encode bs) = Some bs"
proof (induction bs)
  case (Cons c bs)
  have "(of_char c :: nat) < 256" by (rule char_256)
  then have v: "hex_val (hex_digit (of_char c div 16)) = Some (of_char c div 16)"
    and w: "hex_val (hex_digit (of_char c mod 16)) = Some (of_char c mod 16)"
    by (simp_all add: hex_val_digit less_mult_imp_div_less)
  have "char_of ((of_char c :: nat) div 16 * 16 + of_char c mod 16) = c" by simp
  then show ?case
    using Cons v w by (simp add: hex_encode_def)
qed (simp add: hex_encode_def)

lemma length_hex_encode [simp]: "length (hex_encode bs) = 2 * length bs"
  by (induction bs) (auto simp: hex_encode_def)

lemma hex_encode_pattern: "bs \<noteq> [] \<Longrightarrow> hexPattern (hex_encode bs)"
proof -
  have "list_all (\<lambda>c. hex_val c \<noteq> None) (hex_encode bs)"
    by (induction bs) (auto simp: hex_encode_def hex_val_digit char_256 less_mult_imp_div_less)
  moreover have "hex_encode bs \<noteq> []" if "bs \<noteq> []" using that by (cases bs) (auto simp: hex_encode_def)
  ultimately show "bs \<noteq> [] \<Longrightarrow> hexPattern (hex_encode bs)" by (simp add: hexPattern_def)
qed

lemma hex_decode_length: "hex_decode s = Some bs \<Longrightarrow> length s = 2 * length bs"
  by (induction s arbitrary: bs rule: hex_decode.induct) (auto split: option.splits)

text \<open>Whatever key is accepted has 32 bytes; both notations of a key of 32 bytes are accepted.\<close>

lemma key_has_32_bytes: "getEncryptionKey s = Inr k \<Longrightarrow> length k = 32"
  by (auto simp: getEncryptionKey_def dest: hex_decode_length split: if_splits option.splits)

lemma hex_key_accepted: "length k = 32 \<Longrightarrow> getEncryptionKey (hex_encode k) = Inr k"
proof -
  assume l: "length k = 32"
  then have "k \<noteq> []" by auto
  then have "hex_encode k \<noteq> []" by (cases k) (auto simp: hex_encode_def)
  then show ?thesis using l hex_encode_pattern [OF \<open>k \<noteq> []\<close>] by (simp add: getEncryptionKey_def)
qed

lemma length_b64_encode: "length (b64_encode bs) = 4 * ((length bs + 2) div 3)"
proof -
  have "(5 + n) div 3 = Suc (Suc (Suc n) div 3)" for n :: nat by presburger
  then show ?thesis by (induction bs rule: b64_encode.induct) (simp_all add: Let_def)
qed

lemma base64_key_accepted: "length k = 32 \<Longrightarrow> getEncryptionKey (b64_encode k) = Inr k"
proof -
  assume l: "length k = 32"
  then have n: "length (b64_encode k) = 44" by (simp add: length_b64_encode)
  then have "b64_encode k \<noteq> []" by auto
  then show ?thesis using l n by (simp add: getEncryptionKey_def Decode_encode)
qed

subsection \<open>Round trips\<close>

text \<open>What the code relies on: the cipher opens what it sealed with the same key and vector, and appends 16 bytes.\<close>

definition gcm_law :: "gcm \<Rightarrow> bool" where
  "gcm_law g \<longleftrightarrow>
     (\<forall>key iv p. gc_open g key iv (gc_seal g key iv p) = Some p) \<and> (\<forall>key iv p. length (gc_seal g key iv p) = length p + 16)"

lemma Decrypt_Encrypt:
  assumes "gcm_law g" "length iv = 12" "Encrypt g (Some iv) p keyEnv = Inr e"
  shows "Decrypt g (ed_Ciphertext e) (ed_IV e) (ed_AuthTag e) keyEnv = Ret (Inr p)"
  using assms by (auto simp: Encrypt_def Decrypt_def gcm_law_def Let_def split: sum.splits)

text \<open>The triple that the routes store, with a vector for each password.\<close>

definition encrypt_with :: "gcm \<Rightarrow> (string \<Rightarrow> string) \<Rightarrow> string \<Rightarrow> encrypt" where
  "encrypt_with g ivs keyEnv p =
     (case Encrypt g (Some (ivs p)) p keyEnv of Inl e \<Rightarrow> None | Inr e \<Rightarrow> Some (ed_Ciphertext e, ed_IV e, ed_AuthTag e))"

lemma encrypt_with_Decrypt:
  assumes "gcm_law g" "length (ivs p) = 12" "encrypt_with g ivs keyEnv p = Some (ct, iv, tag)"
  shows "Decrypt g ct iv tag keyEnv = Ret (Inr p)"
  using assms Decrypt_Encrypt by (fastforce simp: encrypt_with_def split: sum.splits)

text \<open>The passwords of a credential that an account stores come back as they were typed when a browser is started with it: the stored row
  decrypts to them under the same configured key.\<close>

theorem stored_passwords_come_back:
  assumes law: "gcm_law g" and ivs: "\<forall>p. length (ivs p) = 12"
    and stored: "credential_create (encrypt_with g ivs keyEnv) (IsEncryptionAvailable keyEnv) now (Some user) (True, b) d = ((201, out), d')"
  shows "\<exists>c. db_credentials d' = db_credentials d @ [c] \<and> cr_UserID c = us_ID user \<and>
    Decrypt g (cr_EncryptedFoundryPassword c) (cr_PasswordIV c) (cr_PasswordAuthTag c) keyEnv = Ret (Inr (cb_foundryPassword b)) \<and>
    Decrypt g (cr_EncryptedAdminPassword c) (cr_AdminPasswordIV c) (cr_AdminPasswordAuthTag c) keyEnv = Ret (Inr (cb_foundryAdminPassword b))"
proof -
  obtain ct iv tag act aiv atag where e: "encrypt_with g ivs keyEnv (cb_foundryPassword b) = Some (ct, iv, tag)"
      "encrypt_with g ivs keyEnv (cb_foundryAdminPassword b) = Some (act, aiv, atag)"
    using stored by (auto simp: credential_create_def WriteError_def Let_def split: if_splits option.splits prod.splits)
  have "Decrypt g ct iv tag keyEnv = Ret (Inr (cb_foundryPassword b))" "Decrypt g act aiv atag keyEnv = Ret (Inr (cb_foundryAdminPassword b))"
    using encrypt_with_Decrypt [OF law] ivs e by blast+
  then show ?thesis
    using stored e by (auto simp: credential_create_def WriteError_def cr_Create_def Let_def split: if_splits)
qed

text \<open>A key that is not configured is noticed before anything is stored.\<close>

lemma no_key_nothing_stored:
  "getEncryptionKey keyEnv = Inl e \<Longrightarrow>
   \<exists>a. credential_create (encrypt_with g ivs keyEnv) (IsEncryptionAvailable keyEnv) now usr body d = (a, d) \<and> 400 \<le> fst a"
  by (auto simp: credential_create_def IsEncryptionAvailable_def WriteError_def Let_def split: option.splits prod.splits)

subsection \<open>Example\<close>

text \<open>A toy cipher that obeys the law.\<close>

definition ex_gcm :: gcm where
  "ex_gcm = \<lparr>gc_seal = (\<lambda>key iv p. p @ replicate 16 (CHR ''t'')),
             gc_open = (\<lambda>key iv s. if drop (length s - 16) s = replicate 16 (CHR ''t'') then Some (take (length s - 16) s) else None)\<rparr>"

lemma ex_gcm_law: "gcm_law ex_gcm"
  by (simp add: gcm_law_def ex_gcm_def)

definition ex_body :: credential_body where
  "ex_body = \<lparr>cb_name = ''vtt'', cb_foundryUrl = ''https://v.org'', cb_foundryUsername = ''gm'', cb_foundryPassword = ''secret'',
     cb_foundryAdminPassword = [], cb_world = []\<rparr>"

lemma stored_passwords_come_back_witness:
  "\<exists>out d' c. credential_create (encrypt_with ex_gcm (\<lambda>p. replicate 12 (CHR ''0'')) (hex_encode (replicate 32 (CHR ''k''))))
      (IsEncryptionAvailable (hex_encode (replicate 32 (CHR ''k'')))) 5 (Some (ex_user 1)) (True, ex_body) empty_db = ((201, out), d') \<and>
    db_credentials d' = [c] \<and>
    Decrypt ex_gcm (cr_EncryptedFoundryPassword c) (cr_PasswordIV c) (cr_PasswordAuthTag c) (hex_encode (replicate 32 (CHR ''k''))) =
      Ret (Inr ''secret'')"
proof -
  let ?k = "hex_encode (replicate 32 (CHR ''k''))" and ?ivs = "\<lambda>p :: string. replicate 12 (CHR ''0'')"
  have k: "getEncryptionKey ?k = Inr (replicate 32 (CHR ''k''))" by (rule hex_key_accepted) simp
  obtain out d' where r: "credential_create (encrypt_with ex_gcm ?ivs ?k) (IsEncryptionAvailable ?k) 5 (Some (ex_user 1)) (True, ex_body) empty_db =
      ((201, out), d')"
    by (simp add: credential_create_def encrypt_with_def Encrypt_def IsEncryptionAvailable_def k cr_Create_def db_ok_def empty_db_def Let_def
        ex_body_def)
  have "db_credentials empty_db = []" "cb_foundryPassword ex_body = ''secret''" by (simp_all add: empty_db_def ex_body_def)
  then show ?thesis
    using stored_passwords_come_back [OF ex_gcm_law _ r] r by auto
qed

end
