(* ===== verification/Admin.thy ===== *)
theory Admin
  imports ServerEvents Logs NetAddr
begin

text \<open>
  The sign-in of administrators: the JWT cookie, \<open>RequireAdmin\<close> with its sliding refresh, and login, logout and \<open>me\<close>
  (\<open>internal/middleware/admin_auth.go\<close>, \<open>internal/handler/admin_auth.go\<close>).

  The JWT library is a parameter: \<open>sign\<close> gives the text of a token (\<open>None\<close> for an error), \<open>verify\<close> the claims of a text whose
  signature is right.  Its check of the times is written out: they are whole seconds.  \<open>bcrypt\<close> compares a
  hash with a password.  A cookie is the text of the request's cookie, empty when it is missing.
\<close>

record AdminClaims =
  cm_Email :: string
  cm_Role :: string
  cm_SessionStart :: int
  cm_CSRFToken :: string
  cm_Subject :: string
  cm_ID :: string
  cm_IssuedAt :: "int option"
  cm_ExpiresAt :: "int option"
  cm_NotBefore :: "int option"

record AdminAuthConfig =
  ag_SessionMaxHrs :: int
  ag_TokenTTL :: int
  ag_IsDevelopment :: bool
  ag_SecureCookies :: bool

record jwt_env =
  je_sign :: "AdminClaims \<Rightarrow> string option"
  je_verify :: "string \<Rightarrow> AdminClaims option"
  je_bcrypt :: "string \<Rightarrow> string \<Rightarrow> bool"

text \<open>What a response does to the cookie: its name, text, and the seconds it lives (or its removal).\<close>

datatype cookie_op = SetCookie string string int | ClearCookie string

definition adminCookieName :: "bool \<Rightarrow> string" where
  "adminCookieName secure = (if secure then ''__Host-admin_token'' else ''admin_token'')"

definition DefaultAccessTTL :: int where "DefaultAccessTTL = minutes 15"

definition defaultRefreshWindow :: int where "defaultRefreshWindow = minutes 7 + seconds 30"

definition unix_seconds :: "gotime \<Rightarrow> int" where "unix_seconds t = t div 1000000000"

definition token_ttl :: "AdminAuthConfig \<Rightarrow> int" where
  "token_ttl cfg = (if ag_TokenTTL cfg \<le> 0 then DefaultAccessTTL else ag_TokenTTL cfg)"

definition max_session_age :: "AdminAuthConfig \<Rightarrow> int" where
  "max_session_age cfg = ag_SessionMaxHrs cfg * minutes 60"

text \<open>The claims of a login, and those of a refresh, which keep the start of the session and the CSRF token.\<close>

definition login_claims :: "AdminAuthConfig \<Rightarrow> gotime \<Rightarrow> string \<Rightarrow> string \<Rightarrow> User \<Rightarrow> AdminClaims" where
  "login_claims cfg now jti csrf user =
     \<lparr>cm_Email = us_Email user, cm_Role = us_Role user, cm_SessionStart = unix_seconds now, cm_CSRFToken = csrf,
      cm_Subject = int_text (us_ID user), cm_ID = jti, cm_IssuedAt = Some (unix_seconds now),
      cm_ExpiresAt = Some (unix_seconds (now + token_ttl cfg)), cm_NotBefore = Some (unix_seconds now)\<rparr>"

definition refreshed_claims :: "AdminAuthConfig \<Rightarrow> gotime \<Rightarrow> string \<Rightarrow> AdminClaims \<Rightarrow> AdminClaims" where
  "refreshed_claims cfg now jti c =
     c\<lparr>cm_ID := jti, cm_IssuedAt := Some (unix_seconds now), cm_ExpiresAt := Some (unix_seconds (now + token_ttl cfg)),
       cm_NotBefore := Some (unix_seconds now)\<rparr>"

text \<open>\<open>None\<close>: the token could not be signed.\<close>

definition set_admin_cookie :: "jwt_env \<Rightarrow> AdminAuthConfig \<Rightarrow> AdminClaims \<Rightarrow> cookie_op option" where
  "set_admin_cookie env cfg c =
     map_option (\<lambda>signed. SetCookie (adminCookieName (ag_SecureCookies cfg)) signed (unix_seconds (token_ttl cfg))) (je_sign env c)"

text \<open>\<open>csrf\<close> is \<open>None\<close> when the random source fails.\<close>

definition IssueAdminJWT ::
    "jwt_env \<Rightarrow> AdminAuthConfig \<Rightarrow> gotime \<Rightarrow> string \<Rightarrow> string option \<Rightarrow> User \<Rightarrow> (string \<times> cookie_op) option" where
  "IssueAdminJWT env cfg now jti csrf user =
     (case csrf of None \<Rightarrow> None
      | Some x \<Rightarrow> map_option (\<lambda>op. (x, op)) (set_admin_cookie env cfg (login_claims cfg now jti x user)))"

definition ClearAdminCookie :: "AdminAuthConfig \<Rightarrow> cookie_op" where
  "ClearAdminCookie cfg = ClearCookie (adminCookieName (ag_SecureCookies cfg))"

text \<open>\<open>jwt.ParseWithClaims\<close>: the signature, then the times that are present.\<close>

definition in_time :: "gotime \<Rightarrow> AdminClaims \<Rightarrow> bool" where
  "in_time now c \<longleftrightarrow>
     (case cm_ExpiresAt c of None \<Rightarrow> True | Some e \<Rightarrow> now < seconds e) \<and>
     (case cm_NotBefore c of None \<Rightarrow> True | Some n \<Rightarrow> seconds n \<le> now)"

definition ParseWithClaims :: "jwt_env \<Rightarrow> gotime \<Rightarrow> string \<Rightarrow> AdminClaims option" where
  "ParseWithClaims env now cookie =
     (case je_verify env cookie of None \<Rightarrow> None | Some c \<Rightarrow> if in_time now c then Some c else None)"

definition ParseAdminCookie :: "jwt_env \<Rightarrow> gotime \<Rightarrow> string \<Rightarrow> AdminClaims option" where
  "ParseAdminCookie env now cookie = (if cookie = [] then None else ParseWithClaims env now cookie)"

definition isMutating :: "string \<Rightarrow> bool" where
  "isMutating m \<longleftrightarrow> m = ''POST'' \<or> m = ''PUT'' \<or> m = ''PATCH'' \<or> m = ''DELETE''"

datatype admin_verdict = AdminAnswer answer | AdminPanic | AdminNext User

definition refreshAdminJWT :: "jwt_env \<Rightarrow> AdminAuthConfig \<Rightarrow> gotime \<Rightarrow> string \<Rightarrow> AdminClaims \<Rightarrow> cookie_op list" where
  "refreshAdminJWT env cfg now jti c =
     (case set_admin_cookie env cfg (refreshed_claims cfg now jti c) of None \<Rightarrow> [] | Some op \<Rightarrow> [op])"

record admin_request =
  aw_cookie :: string
  aw_method :: string
  aw_csrf :: string  \<comment> \<open>the header\<close>
  aw_addr :: string

text \<open>A token without an expiry makes the middleware read a \<open>nil\<close> pointer.\<close>

definition RequireAdmin ::
    "jwt_env \<Rightarrow> AdminAuthConfig \<Rightarrow> gotime \<Rightarrow> string \<Rightarrow> admin_request \<Rightarrow> db \<Rightarrow> admin_verdict \<times> cookie_op list" where
  "RequireAdmin env cfg now jti r d =
     (if aw_cookie r = [] then (AdminAnswer (WriteError 401 ''Admin authentication required''), [])
      else case ParseWithClaims env now (aw_cookie r) of
        None \<Rightarrow> (AdminAnswer (WriteError 401 ''Invalid or expired admin session''), [])
      | Some c \<Rightarrow>
          (case jd_IsDenied (cm_ID c) d of
             DBErr \<Rightarrow> (AdminAnswer (WriteError 500 ''Authentication error''), [])
           | DBOk True \<Rightarrow> (AdminAnswer (WriteError 401 ''Session has been revoked''), [ClearAdminCookie cfg])
           | DBOk False \<Rightarrow>
               if now - seconds (cm_SessionStart c) > max_session_age cfg
               then (AdminAnswer (WriteError 401 ''Session expired, please log in again''), [ClearAdminCookie cfg])
               else (case ParseInt64 (cm_Subject c) of
                 None \<Rightarrow> (AdminAnswer (WriteError 401 ''Invalid session''), [])
               | Some uid \<Rightarrow>
                   (case us_FindByID uid d of
                      DBOk (Some user) \<Rightarrow>
                        if us_Role user \<noteq> ''admin'' then (AdminAnswer (WriteError 403 ''Admin access required''), [])
                        else if us_Disabled user then (AdminAnswer (WriteError 403 ''Account disabled''), [])
                        else if isMutating (aw_method r) \<and> (aw_csrf r = [] \<or> aw_csrf r \<noteq> cm_CSRFToken c)
                        then (AdminAnswer (WriteError 403 ''CSRF token missing or invalid''), [])
                        else (case cm_ExpiresAt c of
                                None \<Rightarrow> (AdminPanic, [])
                              | Some e \<Rightarrow>
                                  (AdminNext user,
                                   if seconds e - now < defaultRefreshWindow \<and>
                                      now - seconds (cm_SessionStart c) < max_session_age cfg
                                   then refreshAdminJWT env cfg now jti c else []))
                    | _ \<Rightarrow> (AdminAnswer (WriteError 401 ''Invalid session''), [])))))"

definition DenyAdminJWT :: "jwt_env \<Rightarrow> gotime \<Rightarrow> string \<Rightarrow> db \<Rightarrow> db" where
  "DenyAdminJWT env now cookie d =
     (if cookie = [] then d
      else case ParseWithClaims env now cookie of
        None \<Rightarrow> d
      | Some c \<Rightarrow> (case cm_ExpiresAt c of
                    None \<Rightarrow> d
                  | Some e \<Rightarrow> if cm_ID c = [] then d else snd (jd_Add now (cm_ID c) (seconds e) d)))"

subsection \<open>Login and logout\<close>

record admin_state =
  am_db :: db
  am_lockout :: lockout_tracker
  am_logins :: "string list"  \<comment> \<open>labels of \<open>metrics.AdminLoginsTotal\<close>\<close>
  am_alerts :: alert_state
  am_alertsDB :: bool

definition audit_row :: "int \<Rightarrow> string \<Rightarrow> string \<Rightarrow> string option \<Rightarrow> string \<Rightarrow> AdminAuditLog" where
  "audit_row uid action targetType target addr =
     \<lparr>ad_ID = 0, ad_AdminUserID = uid, ad_Action = action, ad_TargetType = targetType, ad_TargetID = target, ad_Details = None,
      ad_IPAddress = Some addr, ad_CreatedAt = zero_time\<rparr>"

definition bad_credentials :: answer where
  "bad_credentials = WriteError 401 ''Invalid credentials''"

definition login_failed :: "gotime \<Rightarrow> string \<Rightarrow> admin_state \<Rightarrow> answer \<times> cookie_op list \<times> admin_state" where
  "login_failed now email s = (bad_credentials, [], s\<lparr>am_lockout := RecordFailure now email (am_lockout s)\<rparr>)"

definition login_alert :: "User \<Rightarrow> string \<Rightarrow> alert_event" where
  "login_alert user addr =
     \<lparr>ae_Type = ''admin_login'', ae_Severity = ''info'', ae_Message = ''Admin login successful'',
      ae_Details = [(''userId'', JNum (us_ID user)), (''ip'', JStr addr)], ae_Timestamp = zero_time\<rparr>"

definition admin_login ::
    "jwt_env \<Rightarrow> AdminAuthConfig \<Rightarrow> gotime \<Rightarrow> string \<Rightarrow> string option \<Rightarrow> string \<Rightarrow> string + obj \<Rightarrow> admin_state \<Rightarrow>
     answer \<times> cookie_op list \<times> admin_state" where
  "admin_login env cfg now jti csrf addr parsed s =
     (case parsed of
        Inl e \<Rightarrow> (WriteError 400 e, [], s)
      | Inr body \<Rightarrow>
          (let email = get_str body ''email''; password = get_str body ''password''
           in if email = [] \<or> password = [] then (WriteError 400 ''Email and password are required'', [], s)
              else case IsLocked now email (am_lockout s) of
                (True, tr) \<Rightarrow>
                  (WriteError 429 ''Account temporarily locked due to repeated failed attempts. Try again later.'', [], s\<lparr>am_lockout := tr\<rparr>)
              | (False, tr) \<Rightarrow>
                  (let s1 = s\<lparr>am_lockout := tr\<rparr>
                   in case us_FindByEmail email (am_db s1) of
                        DBOk (Some user) \<Rightarrow>
                          if us_Disabled user then login_failed now email s1
                          else if \<not> je_bcrypt env (us_Password user) password then login_failed now email s1
                          else if us_Role user \<noteq> ''admin'' then (bad_credentials, [], s1)
                          else (let s2 = s1\<lparr>am_lockout := RecordSuccess email (am_lockout s1)\<rparr>
                                in case IssueAdminJWT env cfg now jti csrf user of
                                     None \<Rightarrow> (WriteError 500 ''Login failed'', [], s2\<lparr>am_logins := am_logins s2 @ [''failure'']\<rparr>)
                                   | Some (x, cookie) \<Rightarrow>
                                       ((200, [(''email'', JStr (us_Email user)), (''role'', JStr (us_Role user)), (''csrfToken'', JStr x)]),
                                        [cookie],
                                        s2\<lparr>am_logins := am_logins s2 @ [''success''],
                                           am_db := snd (ad_Create now (audit_row (us_ID user) ''admin.login'' ''session''
                                                     (Some (us_Email user)) addr) (am_db s2)),
                                           am_alerts := Fire now (am_alertsDB s2) (login_alert user addr) (am_alerts s2)\<rparr>))
                      | _ \<Rightarrow> login_failed now email s1)))"

definition admin_logout ::
    "jwt_env \<Rightarrow> AdminAuthConfig \<Rightarrow> gotime \<Rightarrow> admin_request \<Rightarrow> admin_state \<Rightarrow> answer \<times> cookie_op list \<times> admin_state" where
  "admin_logout env cfg now r s =
     (case ParseAdminCookie env now (aw_cookie r) of
        None \<Rightarrow> (WriteError 401 ''Not authenticated'', [], s)
      | Some c \<Rightarrow>
          if aw_csrf r \<noteq> cm_CSRFToken c then (WriteError 403 ''CSRF token missing or invalid'', [], s)
          else (let d1 = DenyAdminJWT env now (aw_cookie r) (am_db s);
                    d2 = (case ParseInt64 (cm_Subject c) of
                            None \<Rightarrow> d1
                          | Some uid \<Rightarrow> snd (ad_Create now (audit_row uid ''admin.logout'' ''session'' None (aw_addr r)) d1))
                in ((200, [(''message'', JStr ''Logged out'')]), [ClearAdminCookie cfg], s\<lparr>am_db := d2\<rparr>)))"

text \<open>\<open>me\<close> runs behind \<open>RequireAdmin\<close>; the header is the CSRF token that the page lost.\<close>

definition admin_me :: "jwt_env \<Rightarrow> gotime \<Rightarrow> admin_request \<Rightarrow> User option \<Rightarrow> answer \<times> string option" where
  "admin_me env now r admin =
     (case admin of
        None \<Rightarrow> (WriteError 401 ''Not authenticated'', None)
      | Some user \<Rightarrow>
          ((200, [(''id'', JNum (us_ID user)), (''email'', JStr (us_Email user)), (''role'', JStr (us_Role user))]),
           map_option cm_CSRFToken (ParseAdminCookie env now (aw_cookie r))))"

definition buildAdminAuthConfig :: "int \<Rightarrow> bool \<Rightarrow> bool \<Rightarrow> AdminAuthConfig" where
  "buildAdminAuthConfig maxHours isProd secure =
     (let maxHrs = (if maxHours \<le> 0 then 8 else maxHours)
      in \<lparr>ag_SessionMaxHrs = maxHrs, ag_TokenTTL = (if isProd then DefaultAccessTTL else maxHrs * minutes 60),
          ag_IsDevelopment = \<not> isProd, ag_SecureCookies = secure\<rparr>)"

subsection \<open>Decimal numbers\<close>

lemma digits_val_append: "digits_val (xs @ ys) a = (case digits_val xs a of None \<Rightarrow> None | Some b \<Rightarrow> digits_val ys b)"
  by (induction xs arbitrary: a) (auto split: option.splits)

lemma digits_val_text: "n < 10 ^ fuel \<Longrightarrow> digits_val (nat_text_digits fuel n) 0 = Some n"
proof (induction fuel arbitrary: n)
  case (Suc fuel)
  then have "n div 10 < 10 ^ fuel" by (simp add: div_less_iff_less_mult mult.commute)
  moreover have "digit_val (char_of (48 + n mod 10)) = Some (n mod 10)" by (rule digit_val_char) simp
  moreover have "n < 10 \<Longrightarrow> digit_val (char_of (48 + n)) = Some n" by (rule digit_val_char)
  ultimately show ?case
    using Suc.IH by (auto simp: digits_val_append)
qed simp

definition int64 :: "int \<Rightarrow> bool" where
  "int64 i \<longleftrightarrow> - 9223372036854775808 \<le> i \<and> i \<le> 9223372036854775807"

lemma first_digit: "\<exists>n < (10 :: nat). \<exists>cs. nat_text_digits (Suc fuel) m = char_of (48 + n) # cs"
proof (induction fuel arbitrary: m)
  case 0
  show ?case by (cases "m < 10") (auto intro: exI [of _ m] exI [of _ "m mod 10"])
next
  case (Suc fuel)
  show ?case
  proof (cases "m < 10")
    case False
    obtain n cs where "(n :: nat) < 10" "nat_text_digits (Suc fuel) (m div 10) = char_of (48 + n) # cs"
      using Suc.IH by blast
    then show ?thesis using False by (subst nat_text_digits.simps) auto
  qed (auto intro: exI [of _ m])
qed

lemma first_of_twenty: "\<exists>n < (10 :: nat). \<exists>cs. nat_text_digits 20 m = char_of (48 + n) # cs"
proof -
  have "Suc 19 = 20" by simp
  then show ?thesis using first_digit [of 19 m] by metis
qed

lemma digit_no_sign: "(n :: nat) < 10 \<Longrightarrow> char_of (48 + n) \<noteq> CHR ''-''" "n < 10 \<Longrightarrow> char_of (48 + n) \<noteq> CHR ''+''"
proof -
  have "digit_val (CHR ''-'') = None" "digit_val (CHR ''+'') = None" by code_simp+
  then show "n < 10 \<Longrightarrow> char_of (48 + n) \<noteq> CHR ''-''" "n < 10 \<Longrightarrow> char_of (48 + n) \<noteq> CHR ''+''"
    using digit_val_char [of n] by auto
qed

lemma ParseInt64_int_text:
  assumes "int64 i"
  shows "ParseInt64 (int_text i) = Some i"
proof -
  have v: "digits_val (nat_text_digits 20 n) 0 = Some n" if "n \<le> 9223372036854775808" for n
    by (rule digits_val_text) (use that in simp)
  have ne: "nat_text_digits 20 n \<noteq> []" for n
    using first_of_twenty [of n] by auto
  show ?thesis
  proof (cases "i < 0")
    case True
    then have "nat (- i) \<le> 9223372036854775808" using assms by (simp add: int64_def)
    then show ?thesis
      using True v [of "nat (- i)"] ne by (simp add: int_text_def ParseInt64_def)
  next
    case False
    obtain n cs where d: "(n :: nat) < 10" "nat_text_digits 20 (nat i) = char_of (48 + n) # cs"
      using first_of_twenty [of "nat i"] by blast
    have "nat i \<le> 9223372036854775807" using assms False by (simp add: int64_def)
    then show ?thesis
      using False v [of "nat i"] digit_no_sign [OF d(1)] by (auto simp: int_text_def ParseInt64_def d(2))
  qed
qed

subsection \<open>Runs\<close>

text \<open>
  The administrators' sign-ins over time.  The world holds the tokens that responses have set, and of each successful login the row
  of the user, the password given and the moment.  A token cannot be forged: a cookie that verifies was set by an earlier
  response.  The handlers behind \<open>RequireAdmin\<close> and the rest of the program change the database as they like, but only the
  clean-up deletes from the denylist.
\<close>

record admin_world =
  ax_state :: admin_state
  ax_issued :: "(string \<times> AdminClaims) list"
  ax_logins :: "(User \<times> string \<times> gotime) list"
  ax_clock :: gotime

definition new_tokens :: "jwt_env \<Rightarrow> cookie_op list \<Rightarrow> (string \<times> AdminClaims) list" where
  "new_tokens env ops =
     List.map_filter (\<lambda>op. case op of SetCookie n t ttl \<Rightarrow> map_option (Pair t) (je_verify env t) | ClearCookie n \<Rightarrow> None) ops"

definition login_note :: "gotime \<Rightarrow> string + obj \<Rightarrow> answer \<Rightarrow> db \<Rightarrow> (User \<times> string \<times> gotime) list" where
  "login_note now parsed a d =
     (case parsed of
        Inr body \<Rightarrow>
          if fst a \<noteq> 200 then []
          else (case us_FindByEmail (get_str body ''email'') d of
                  DBOk (Some u) \<Rightarrow> [(u, get_str body ''password'', now)]
                | _ \<Rightarrow> [])
      | Inl e \<Rightarrow> [])"

definition unforged :: "jwt_env \<Rightarrow> admin_world \<Rightarrow> string \<Rightarrow> bool" where
  "unforged env w cookie \<longleftrightarrow> (\<forall>c. je_verify env cookie = Some c \<longrightarrow> (cookie, c) \<in> set (ax_issued w))"

inductive admin_step :: "jwt_env \<Rightarrow> AdminAuthConfig \<Rightarrow> admin_world \<Rightarrow> admin_world \<Rightarrow> bool" for env cfg where
  login: "\<lbrakk>ax_clock w \<le> now; admin_login env cfg now jti csrf addr parsed (ax_state w) = (a, ops, s)\<rbrakk> \<Longrightarrow>
     admin_step env cfg w
       (w\<lparr>ax_state := s, ax_issued := ax_issued w @ new_tokens env ops,
          ax_logins := ax_logins w @ login_note now parsed a (am_db (ax_state w)), ax_clock := now\<rparr>)"
| request: "\<lbrakk>ax_clock w \<le> now; unforged env w (aw_cookie r);
     RequireAdmin env cfg now jti r (am_db (ax_state w)) = (v, ops)\<rbrakk> \<Longrightarrow>
     admin_step env cfg w (w\<lparr>ax_issued := ax_issued w @ new_tokens env ops, ax_clock := now\<rparr>)"
| logout: "\<lbrakk>ax_clock w \<le> now; admin_logout env cfg now r (ax_state w) = (a, ops, s)\<rbrakk> \<Longrightarrow>
     admin_step env cfg w (w\<lparr>ax_state := s, ax_issued := ax_issued w @ new_tokens env ops, ax_clock := now\<rparr>)"
| expire: "\<lbrakk>ax_clock w \<le> now; jd_CleanupExpired now (am_db (ax_state w)) = (n, d)\<rbrakk> \<Longrightarrow>
     admin_step env cfg w (w\<lparr>ax_state := (ax_state w)\<lparr>am_db := d\<rparr>, ax_clock := now\<rparr>)"
| others: "\<lbrakk>ax_clock w \<le> now; set (db_denylist (am_db (ax_state w))) \<subseteq> set (db_denylist d)\<rbrakk> \<Longrightarrow>
     admin_step env cfg w (w\<lparr>ax_state := (ax_state w)\<lparr>am_db := d\<rparr>, ax_clock := now\<rparr>)"

inductive admin_reaches :: "jwt_env \<Rightarrow> AdminAuthConfig \<Rightarrow> admin_world \<Rightarrow> admin_world \<Rightarrow> bool" for env cfg w where
  here: "admin_reaches env cfg w w"
| step: "\<lbrakk>admin_reaches env cfg w v; admin_step env cfg v u\<rbrakk> \<Longrightarrow> admin_reaches env cfg w u"

definition sound_signatures :: "jwt_env \<Rightarrow> bool" where
  "sound_signatures env \<longleftrightarrow> (\<forall>c t. je_sign env c = Some t \<longrightarrow> je_verify env t = Some c)"

lemma sound_signaturesD: "sound_signatures env \<Longrightarrow> je_sign env c = Some t \<Longrightarrow> je_verify env t = Some c"
  by (simp add: sound_signatures_def)

definition signed_in :: "jwt_env \<Rightarrow> admin_world \<Rightarrow> AdminClaims \<Rightarrow> bool" where
  "signed_in env w c \<longleftrightarrow>
     (\<exists>u p t. (u, p, t) \<in> set (ax_logins w) \<and> us_Role u = ''admin'' \<and> \<not> us_Disabled u \<and> je_bcrypt env (us_Password u) p \<and>
        cm_Subject c = int_text (us_ID u) \<and> cm_SessionStart c = unix_seconds t \<and> cm_ExpiresAt c \<noteq> None)"

definition tokens_from_logins :: "jwt_env \<Rightarrow> admin_world \<Rightarrow> bool" where
  "tokens_from_logins env w \<longleftrightarrow> (\<forall>(t, c) \<in> set (ax_issued w). signed_in env w c)"

lemma new_tokens_SetCookie: "(t, c) \<in> set (new_tokens env ops) \<Longrightarrow> \<exists>n ttl. SetCookie n t ttl \<in> set ops \<and> je_verify env t = Some c"
  by (force simp: new_tokens_def List.map_filter_def split: cookie_op.splits)

lemma signed_cookie:
  assumes sound: "\<And>c t. je_sign env c = Some t \<Longrightarrow> je_verify env t = Some c"
    and "set_admin_cookie env cfg c = Some (SetCookie n t ttl)" "je_verify env t = Some c'"
  shows "c' = c"
  using assms by (fastforce simp: set_admin_cookie_def)

lemma admin_login_cookies:
  assumes "admin_login env cfg now jti csrf addr parsed s = (a, ops, s')" "op \<in> set ops"
  shows "\<exists>u p x. login_note now parsed a (am_db s) = [(u, p, now)] \<and> us_Role u = ''admin'' \<and> \<not> us_Disabled u \<and>
    je_bcrypt env (us_Password u) p \<and> set_admin_cookie env cfg (login_claims cfg now jti x u) = Some op"
  using assms
  by (auto simp: admin_login_def login_failed_def bad_credentials_def IssueAdminJWT_def login_note_def Let_def
      split: sum.splits if_splits prod.splits bool.splits db_result.splits option.splits)

lemma RequireAdmin_cookies:
  assumes "RequireAdmin env cfg now jti r d = (v, ops)" "SetCookie n t ttl \<in> set ops"
  shows "\<exists>c. je_verify env (aw_cookie r) = Some c \<and> set_admin_cookie env cfg (refreshed_claims cfg now jti c) = Some (SetCookie n t ttl)"
  using assms
  by (auto simp: RequireAdmin_def ParseWithClaims_def refreshAdminJWT_def ClearAdminCookie_def
      split: if_splits option.splits db_result.splits bool.splits)

lemma signed_in_mono: "set (ax_logins w) \<subseteq> set (ax_logins w') \<Longrightarrow> signed_in env w c \<Longrightarrow> signed_in env w' c"
  unfolding signed_in_def by blast

lemma tokens_from_logins_step:
  assumes sound: "\<And>c t. je_sign env c = Some t \<Longrightarrow> je_verify env t = Some c"
    and "admin_step env cfg w v" "tokens_from_logins env w"
  shows "tokens_from_logins env v"
  using assms(2,3)
proof (induction rule: admin_step.induct)
  case (login w now jti csrf addr parsed a ops s)
  let ?v = "w\<lparr>ax_state := s, ax_issued := ax_issued w @ new_tokens env ops,
          ax_logins := ax_logins w @ login_note now parsed a (am_db (ax_state w)), ax_clock := now\<rparr>"
  have "signed_in env ?v c" if new: "(t, c) \<in> set (new_tokens env ops)" for t c
  proof -
    obtain n ttl where op: "SetCookie n t ttl \<in> set ops" "je_verify env t = Some c"
      using new_tokens_SetCookie [OF new] by blast
    obtain u p x where u: "login_note now parsed a (am_db (ax_state w)) = [(u, p, now)]" "us_Role u = ''admin''" "\<not> us_Disabled u"
      "je_bcrypt env (us_Password u) p" "set_admin_cookie env cfg (login_claims cfg now jti x u) = Some (SetCookie n t ttl)"
      using admin_login_cookies [OF login(2) op(1)] by blast
    have "c = login_claims cfg now jti x u" by (rule signed_cookie [OF sound u(5) op(2)])
    then show ?thesis using u by (auto simp: signed_in_def login_claims_def)
  qed
  moreover have "signed_in env ?v c" if "(t, c) \<in> set (ax_issued w)" for t c
    using login(3) that by (auto simp: tokens_from_logins_def intro!: signed_in_mono [of w ?v])
  ultimately show ?case by (auto simp: tokens_from_logins_def)
next
  case (request w now r jti v ops)
  have "signed_in env w c" if new: "(t, c) \<in> set (new_tokens env ops)" for t c
  proof -
    obtain n ttl where op: "SetCookie n t ttl \<in> set ops" "je_verify env t = Some c"
      using new_tokens_SetCookie [OF new] by blast
    obtain c0 where c0: "je_verify env (aw_cookie r) = Some c0"
      "set_admin_cookie env cfg (refreshed_claims cfg now jti c0) = Some (SetCookie n t ttl)"
      using RequireAdmin_cookies [OF request(3) op(1)] by blast
    have "c = refreshed_claims cfg now jti c0" by (rule signed_cookie [OF sound c0(2) op(2)])
    moreover have "signed_in env w c0"
      using request(2,4) c0(1) by (auto simp: unforged_def tokens_from_logins_def)
    ultimately show ?thesis by (auto simp: signed_in_def refreshed_claims_def)
  qed
  then show ?case
    using request(4) by (auto simp: tokens_from_logins_def signed_in_def)
next
  case (logout w now r a ops s)
  have "new_tokens env ops = []"
    using logout(2) by (auto simp: admin_logout_def new_tokens_def ClearAdminCookie_def Let_def List.map_filter_def split: option.splits if_splits)
  then show ?case
    using logout(3) by (auto simp: tokens_from_logins_def signed_in_def)
qed (auto simp: tokens_from_logins_def signed_in_def)

lemma tokens_from_logins_reaches:
  assumes sound: "\<And>c t. je_sign env c = Some t \<Longrightarrow> je_verify env t = Some c"
    and "admin_reaches env cfg w v" "tokens_from_logins env w"
  shows "tokens_from_logins env v"
  using assms(2,3)
  by (induction rule: admin_reaches.induct) (blast intro: tokens_from_logins_step [OF sound])+

lemma RequireAdmin_Next:
  assumes "RequireAdmin env cfg now jti r d = (AdminNext user, ops)"
  obtains c uid where "je_verify env (aw_cookie r) = Some c" "in_time now c" "jd_IsDenied (cm_ID c) d = DBOk False"
    "now - seconds (cm_SessionStart c) \<le> max_session_age cfg" "ParseInt64 (cm_Subject c) = Some uid"
    "us_FindByID uid d = DBOk (Some user)" "us_Role user = ''admin''" "\<not> us_Disabled user"
    "isMutating (aw_method r) \<Longrightarrow> aw_csrf r \<noteq> [] \<and> aw_csrf r = cm_CSRFToken c"
  using assms
  by (auto simp: RequireAdmin_def ParseWithClaims_def split: if_splits option.splits db_result.splits bool.splits)

text \<open>C14: a request is served as an administrator's only when that administrator once logged in with the right password, enabled and
  an admin, no longer ago than the longest session, is still enabled and an admin, and sent the session's CSRF
  token along when the request changes something.\<close>

theorem admin_access_from_login:
  assumes sound: "sound_signatures env"
    and start: "ax_issued w = []" and run: "admin_reaches env cfg w v" and unforged: "unforged env v (aw_cookie r)"
    and served: "RequireAdmin env cfg now jti r (am_db (ax_state v)) = (AdminNext user, ops)"
    and id64: "\<forall>(u, p, t) \<in> set (ax_logins v). int64 (us_ID u)"
  shows "\<exists>u p t c. (u, p, t) \<in> set (ax_logins v) \<and> us_ID u = us_ID user \<and> us_Role u = ''admin'' \<and> \<not> us_Disabled u \<and>
    je_bcrypt env (us_Password u) p \<and> now - t \<le> max_session_age cfg \<and> us_Role user = ''admin'' \<and> \<not> us_Disabled user \<and>
    je_verify env (aw_cookie r) = Some c \<and> (isMutating (aw_method r) \<longrightarrow> aw_csrf r \<noteq> [] \<and> aw_csrf r = cm_CSRFToken c)"
proof -
  obtain c uid where c: "je_verify env (aw_cookie r) = Some c" "now - seconds (cm_SessionStart c) \<le> max_session_age cfg"
    "ParseInt64 (cm_Subject c) = Some uid" "us_FindByID uid (am_db (ax_state v)) = DBOk (Some user)"
    "us_Role user = ''admin''" "\<not> us_Disabled user" "isMutating (aw_method r) \<Longrightarrow> aw_csrf r \<noteq> [] \<and> aw_csrf r = cm_CSRFToken c"
    by (rule RequireAdmin_Next [OF served]) blast
  have "tokens_from_logins env w" using start by (simp add: tokens_from_logins_def)
  from tokens_from_logins_reaches [OF sound_signaturesD [OF sound] run this] have "signed_in env v c"
    using unforged c(1) by (auto simp: unforged_def tokens_from_logins_def)
  then obtain u p t where u: "(u, p, t) \<in> set (ax_logins v)" "us_Role u = ''admin''" "\<not> us_Disabled u" "je_bcrypt env (us_Password u) p"
    "cm_Subject c = int_text (us_ID u)" "cm_SessionStart c = unix_seconds t"
    unfolding signed_in_def by blast
  have "int64 (us_ID u)" using id64 u(1) by auto
  then have "uid = us_ID u" using c(3) u(5) by (simp add: ParseInt64_int_text)
  moreover have "us_ID user = uid"
    using c(4) by (auto simp: us_FindByID_def get_row_def find_Some_iff split: if_splits)
  moreover have "seconds (unix_seconds t) \<le> t"
    by (simp add: seconds_def unix_seconds_def mult.commute)
  ultimately show ?thesis
    using c u by (intro exI [of _ u] exI [of _ p] exI [of _ t] exI [of _ c]) auto
qed

subsection \<open>Logout\<close>

lemma ad_Create_denylist [simp]: "db_denylist (snd (ad_Create now l d)) = db_denylist d"
  by (simp add: ad_Create_def exec_def)

lemma admin_login_denylist:
  "admin_login env cfg now jti csrf addr parsed s = (a, ops, s') \<Longrightarrow> db_denylist (am_db s') = db_denylist (am_db s)"
  by (auto simp: admin_login_def login_failed_def Let_def split: sum.splits if_splits prod.splits bool.splits db_result.splits option.splits)

lemma jd_Add_keeps: "set (db_denylist d) \<subseteq> set (db_denylist (snd (jd_Add now jti e d)))"
  by (auto simp: jd_Add_def exec_def)

lemma admin_logout_denylist:
  "admin_logout env cfg now r s = (a, ops, s') \<Longrightarrow> set (db_denylist (am_db s)) \<subseteq> set (db_denylist (am_db s'))"
  using jd_Add_keeps
  by (fastforce simp: admin_logout_def DenyAdminJWT_def Let_def split: option.splits if_splits)

definition dead_token :: "string \<Rightarrow> int \<Rightarrow> admin_world \<Rightarrow> bool" where
  "dead_token jti e w \<longleftrightarrow>
     (\<exists>x \<in> set (db_denylist (am_db (ax_state w))). jd_TokenJTI x = jti \<and> jd_ExpiresAt x = seconds e) \<or> seconds e \<le> ax_clock w"

lemma dead_token_step:
  assumes "admin_step env cfg w v" "dead_token jti e w"
  shows "dead_token jti e v"
  using assms
proof (induction rule: admin_step.induct)
  case (login w now jti' csrf addr parsed a ops s)
  then show ?case using admin_login_denylist [OF login(2)] by (auto simp: dead_token_def)
next
  case (logout w now r a ops s)
  then show ?case using admin_logout_denylist [OF logout(2)] by (auto simp: dead_token_def)
next
  case (expire w now n d)
  have "db_denylist d = filter (\<lambda>x. \<not> jd_ExpiresAt x < now) (db_denylist (am_db (ax_state w))) \<or> d = am_db (ax_state w)"
    using expire(2) by (auto simp: jd_CleanupExpired_def delete_rows_def split: if_splits)
  then show ?case using expire(1,3) by (auto simp: dead_token_def)
qed (auto simp: dead_token_def)

lemma dead_token_reaches: "\<lbrakk>admin_reaches env cfg w v; dead_token jti e w\<rbrakk> \<Longrightarrow> dead_token jti e v"
  by (induction rule: admin_reaches.induct) (blast intro: dead_token_step)+

lemma clock_reaches: "admin_reaches env cfg w v \<Longrightarrow> ax_clock w \<le> ax_clock v"
  by (induction rule: admin_reaches.induct) (auto elim!: admin_step.cases)

lemma dead_token_refused:
  assumes "dead_token (cm_ID c) e w" "je_verify env (aw_cookie r) = Some c" "cm_ExpiresAt c = Some e" "ax_clock w \<le> now"
  shows "\<exists>a. fst (RequireAdmin env cfg now jti r (am_db (ax_state w))) = AdminAnswer a"
proof (cases "seconds e \<le> ax_clock w")
  case True
  then have "ParseWithClaims env now (aw_cookie r) = None"
    using assms by (simp add: ParseWithClaims_def in_time_def)
  then show ?thesis by (simp add: RequireAdmin_def)
next
  case False
  then have "jd_IsDenied (cm_ID c) (am_db (ax_state w)) \<in> {DBErr, DBOk True}"
    using assms(1) by (auto simp: dead_token_def jd_IsDenied_def filter_empty_conv)
  then show ?thesis
    using assms(2) by (auto simp: RequireAdmin_def ParseWithClaims_def)
qed

text \<open>After a logout its cookie opens nothing any more, whatever happens next: the entry in the denylist is only deleted when
  the token has expired by itself.\<close>

theorem logout_is_final:
  assumes out: "admin_logout env cfg t r s = ((200, out), ops, s')" and token: "je_verify env (aw_cookie r) = Some c"
    and signed: "cm_ID c \<noteq> []" "cm_ExpiresAt c = Some e"
    and works: "db_ok ''jd_Add'' (am_db s)" "\<not> list_ex (\<lambda>x. jd_TokenJTI x = cm_ID c) (db_denylist (am_db s))"
    and run: "ax_state w = s'" "admin_reaches env cfg w v" and later: "ax_clock v \<le> now" "aw_cookie r' = aw_cookie r"
  shows "\<exists>a. fst (RequireAdmin env cfg now jti r' (am_db (ax_state v))) = AdminAnswer a"
proof -
  have "\<exists>x \<in> set (db_denylist (am_db s')). jd_TokenJTI x = cm_ID c \<and> jd_ExpiresAt x = seconds e"
    using out token signed works
    by (auto simp: admin_logout_def ParseAdminCookie_def ParseWithClaims_def DenyAdminJWT_def jd_Add_def exec_def Let_def WriteError_def
        split: if_splits option.splits)
  then have "dead_token (cm_ID c) e w" using run(1) by (auto simp: dead_token_def)
  then have "dead_token (cm_ID c) e v" by (rule dead_token_reaches [OF run(2)])
  then show ?thesis
    using dead_token_refused token signed(2) later by metis
qed

text \<open>A refresh sets a token with an identifier of its own and denies the old one nothing: after the logout an older token of the same
  session still opens everything until it expires.\<close>

theorem logout_misses_older_token:
  assumes old: "RequireAdmin env cfg now jti r d = (AdminNext user, ops)" "je_verify env (aw_cookie r) = Some c"
    and new: "je_verify env cookie = Some c'" "cm_ID c' \<noteq> cm_ID c"
  shows "RequireAdmin env cfg now jti r (DenyAdminJWT env t cookie d) = (AdminNext user, ops)"
proof -
  let ?d = "DenyAdminJWT env t cookie d"
  have "filter (\<lambda>x. jd_TokenJTI x = cm_ID c) (db_denylist ?d) = filter (\<lambda>x. jd_TokenJTI x = cm_ID c) (db_denylist d)"
    "db_users ?d = db_users d" "db_fails ?d = db_fails d"
    using new by (auto simp: DenyAdminJWT_def ParseWithClaims_def jd_Add_def exec_def split: option.splits)
  then have reads: "jd_IsDenied (cm_ID c) ?d = jd_IsDenied (cm_ID c) d" "\<And>i. us_FindByID i ?d = us_FindByID i d"
    by (simp_all add: jd_IsDenied_def us_FindByID_def get_row_def db_ok_def)
  have "RequireAdmin env cfg now jti r ?d = RequireAdmin env cfg now jti r d"
    unfolding RequireAdmin_def ParseWithClaims_def old(2) reads
    by (cases "in_time now c") (simp_all add: reads)
  then show ?thesis using old(1) by simp
qed

text \<open>Nothing reads the development mode: the longest session is enforced there, too.\<close>

lemma unread_mode:
  "token_ttl (cfg\<lparr>ag_IsDevelopment := b\<rparr>) = token_ttl cfg"
  "max_session_age (cfg\<lparr>ag_IsDevelopment := b\<rparr>) = max_session_age cfg"
  "ClearAdminCookie (cfg\<lparr>ag_IsDevelopment := b\<rparr>) = ClearAdminCookie cfg"
  "refreshAdminJWT env (cfg\<lparr>ag_IsDevelopment := b\<rparr>) now jti c = refreshAdminJWT env cfg now jti c"
proof -
  show t: "token_ttl (cfg\<lparr>ag_IsDevelopment := b\<rparr>) = token_ttl cfg" by (simp add: token_ttl_def)
  show "refreshAdminJWT env (cfg\<lparr>ag_IsDevelopment := b\<rparr>) now jti c = refreshAdminJWT env cfg now jti c"
    unfolding refreshAdminJWT_def set_admin_cookie_def refreshed_claims_def t by simp
qed (simp_all add: max_session_age_def ClearAdminCookie_def)

lemma development_mode_unread:
  "RequireAdmin env (cfg\<lparr>ag_IsDevelopment := b\<rparr>) now jti r d = RequireAdmin env cfg now jti r d"
  unfolding RequireAdmin_def unread_mode ..

text \<open>A refused login is not counted as one: the label \<open>failure\<close> stands for a token that could not be issued.\<close>

lemma refused_logins_uncounted:
  assumes "admin_login env cfg now jti csrf addr parsed s = ((401, out), ops, s')"
  shows "am_logins s' = am_logins s"
  using assms
  by (auto simp: admin_login_def login_failed_def bad_credentials_def WriteError_def Let_def
      split: sum.splits if_splits prod.splits bool.splits db_result.splits option.splits)

subsection \<open>Examples\<close>

definition ex_admin :: User where
  "ex_admin = (ex_user 1)\<lparr>us_Role := ''admin'', us_Password := ''Sesame123''\<rparr>"

definition ex_admin_cfg :: AdminAuthConfig where
  "ex_admin_cfg = buildAdminAuthConfig 8 True True"

definition ex_admin_claims :: AdminClaims where
  "ex_admin_claims = login_claims ex_admin_cfg 0 ''j1'' ''csrf'' ex_admin"

definition ex_jwt :: jwt_env where
  "ex_jwt = \<lparr>je_sign = (\<lambda>c. if c = ex_admin_claims then Some ''jwt'' else None),
             je_verify = (\<lambda>t. if t = ''jwt'' then Some ex_admin_claims else None),
             je_bcrypt = (\<lambda>hash password. hash = password)\<rparr>"

definition ex_admin_state :: admin_state where
  "ex_admin_state = \<lparr>am_db = empty_db\<lparr>db_users := [ex_admin]\<rparr>, am_lockout = NewAdminLockoutTracker 0 0, am_logins = [],
     am_alerts = \<lparr>as_trackers = [], as_recent = [], as_dispatched = []\<rparr>, am_alertsDB = False\<rparr>"

definition ex_admin_request :: "string \<Rightarrow> admin_request" where
  "ex_admin_request m = \<lparr>aw_cookie = ''jwt'', aw_method = m, aw_csrf = ''csrf'', aw_addr = ''10.0.0.1:5''\<rparr>"

abbreviation ex_admin_body :: obj where
  "ex_admin_body \<equiv> [(''email'', JStr ''gm@x.org''), (''password'', JStr ''Sesame123'')]"

definition ex_admin_world :: admin_world where
  "ex_admin_world = \<lparr>ax_state = ex_admin_state, ax_issued = [], ax_logins = [], ax_clock = 0\<rparr>"

lemma ex_admin_row: "us_Email ex_admin = ''gm@x.org''" "us_Password ex_admin = ''Sesame123''" "us_Role ex_admin = ''admin''"
  "\<not> us_Disabled ex_admin" "us_ID ex_admin = 1"
  by (simp_all add: ex_admin_def ex_user_def)

lemma ex_admin_fields: "cm_ID ex_admin_claims = ''j1''" "cm_ExpiresAt ex_admin_claims = Some 900" "cm_NotBefore ex_admin_claims = Some 0"
  "cm_SessionStart ex_admin_claims = 0" "cm_Subject ex_admin_claims = int_text 1" "cm_CSRFToken ex_admin_claims = ''csrf''"
  by (simp_all add: ex_admin_claims_def login_claims_def ex_admin_cfg_def buildAdminAuthConfig_def unix_seconds_def token_ttl_def
      DefaultAccessTTL_def minutes_def seconds_def ex_admin_row Let_def)

lemma ex_admin_found: "us_FindByEmail ''gm@x.org'' (am_db ex_admin_state) = DBOk (Some ex_admin)"
  "us_FindByID 1 (am_db ex_admin_state) = DBOk (Some ex_admin)"
  by (simp_all add: ex_admin_state_def us_FindByEmail_def us_FindByID_def get_row_def db_ok_def empty_db_def ex_admin_row)

lemma ex_jwt_sound: "sound_signatures ex_jwt"
  by (auto simp: sound_signatures_def ex_jwt_def)

lemma ex_admin_login:
  "\<exists>out s. admin_login ex_jwt ex_admin_cfg 0 ''j1'' (Some ''csrf'') ''10.0.0.1:5'' (Inr ex_admin_body) ex_admin_state =
     ((200, out), [SetCookie ''__Host-admin_token'' ''jwt'' 900], s) \<and> db_users (am_db s) = [ex_admin] \<and>
     db_fails (am_db s) = [] \<and> db_denylist (am_db s) = []"
proof -
  have e: "get_str ex_admin_body ''email'' = ''gm@x.org''" "get_str ex_admin_body ''password'' = ''Sesame123''"
    by (simp_all add: get_str_def)
  have l: "IsLocked 0 ''gm@x.org'' (am_lockout ex_admin_state) = (False, am_lockout ex_admin_state)"
    by (simp add: IsLocked_def ex_admin_state_def NewAdminLockoutTracker_def)
  have j: "IssueAdminJWT ex_jwt ex_admin_cfg 0 ''j1'' (Some ''csrf'') ex_admin =
      Some (''csrf'', SetCookie ''__Host-admin_token'' ''jwt'' 900)"
    by (simp add: IssueAdminJWT_def set_admin_cookie_def ex_admin_claims_def [symmetric])
      (simp add: ex_jwt_def ex_admin_cfg_def buildAdminAuthConfig_def adminCookieName_def token_ttl_def DefaultAccessTTL_def
        unix_seconds_def minutes_def seconds_def Let_def)
  have b: "je_bcrypt ex_jwt x x" for x by (simp add: ex_jwt_def)
  have d: "db_users (am_db ex_admin_state) = [ex_admin]" "db_fails (am_db ex_admin_state) = []" "db_denylist (am_db ex_admin_state) = []"
    by (simp_all add: ex_admin_state_def empty_db_def)
  show ?thesis
    by (simp add: admin_login_def e l ex_admin_found j b ex_admin_row d Let_def)
      (simp add: ad_Create_def exec_def d)
qed

lemma admin_access_from_login_witness:
  "\<exists>out ops s (u :: User) p t. admin_login ex_jwt ex_admin_cfg 0 ''j1'' (Some ''csrf'') ''10.0.0.1:5'' (Inr ex_admin_body) ex_admin_state =
     ((200, out), ops, s) \<and> RequireAdmin ex_jwt ex_admin_cfg 5 ''j2'' (ex_admin_request ''POST'') (am_db s) = (AdminNext ex_admin, []) \<and>
     us_ID u = 1 \<and> je_bcrypt ex_jwt (us_Password u) p \<and> 5 - t \<le> max_session_age ex_admin_cfg"
proof -
  let ?w = ex_admin_world
  obtain out s where L: "admin_login ex_jwt ex_admin_cfg 0 ''j1'' (Some ''csrf'') ''10.0.0.1:5'' (Inr ex_admin_body) ex_admin_state =
     ((200, out), [SetCookie ''__Host-admin_token'' ''jwt'' 900], s)" (is "_ = (?a, ?ops, _)")
    and s: "db_users (am_db s) = [ex_admin]" "db_fails (am_db s) = []" "db_denylist (am_db s) = []"
    using ex_admin_login by blast
  define v where "v = ?w\<lparr>ax_state := s, ax_issued := ax_issued ?w @ new_tokens ex_jwt ?ops,
    ax_logins := ax_logins ?w @ login_note 0 (Inr ex_admin_body) ?a (am_db (ax_state ?w)), ax_clock := 0\<rparr>"
  have run: "admin_reaches ex_jwt ex_admin_cfg ?w v"
    unfolding v_def
    by (rule admin_reaches.step [OF admin_reaches.here], rule admin_step.login) (use L in \<open>simp_all add: ex_admin_world_def\<close>)
  have v: "ax_issued v = [(''jwt'', ex_admin_claims)]" "ax_logins v = [(ex_admin, ''Sesame123'', 0)]" "ax_state v = s"
    using ex_admin_found
    by (simp_all add: v_def ex_admin_world_def new_tokens_def List.map_filter_def ex_jwt_def login_note_def get_str_def)
  have u: "unforged ex_jwt v (aw_cookie (ex_admin_request ''POST''))"
    by (simp add: unforged_def v ex_jwt_def ex_admin_request_def)
  have "ParseInt64 (int_text 1) = Some 1" by (rule ParseInt64_int_text) (simp add: int64_def)
  then have R: "RequireAdmin ex_jwt ex_admin_cfg 5 ''j2'' (ex_admin_request ''POST'') (am_db (ax_state v)) = (AdminNext ex_admin, [])"
    by (simp add: v RequireAdmin_def ex_admin_request_def ParseWithClaims_def ex_jwt_def in_time_def ex_admin_fields seconds_def
        jd_IsDenied_def us_FindByID_def get_row_def db_ok_def s ex_admin_row max_session_age_def ex_admin_cfg_def
        buildAdminAuthConfig_def minutes_def defaultRefreshWindow_def Let_def)
  have issued: "ax_issued ?w = []" and id64: "\<forall>(u, p, t) \<in> set (ax_logins v). int64 (us_ID u)"
    by (simp_all add: ex_admin_world_def v ex_admin_row int64_def)
  have "\<exists>(u :: User) p t. us_ID u = 1 \<and> je_bcrypt ex_jwt (us_Password u) p \<and> 5 - t \<le> max_session_age ex_admin_cfg"
    using admin_access_from_login [OF ex_jwt_sound issued run u R id64] ex_admin_row(5) by fastforce
  then show ?thesis using L R v(3) by blast
qed

lemma logout_is_final_witness:
  "\<exists>out s' a. admin_logout ex_jwt ex_admin_cfg 5 (ex_admin_request ''POST'') ex_admin_state = ((200, out), [ClearCookie ''__Host-admin_token''], s') \<and>
     fst (RequireAdmin ex_jwt ex_admin_cfg 6 ''j2'' (ex_admin_request ''GET'') (am_db s')) = AdminAnswer a"
proof -
  let ?r = "ex_admin_request ''POST''"
  have "ParseAdminCookie ex_jwt 5 (aw_cookie ?r) = Some ex_admin_claims"
    by (simp add: ParseAdminCookie_def ParseWithClaims_def ex_admin_request_def ex_jwt_def in_time_def ex_admin_fields seconds_def)
  then obtain out s' where L: "admin_logout ex_jwt ex_admin_cfg 5 ?r ex_admin_state = ((200, out), [ClearCookie ''__Host-admin_token''], s')"
    by (simp add: admin_logout_def ex_admin_fields ex_admin_request_def ClearAdminCookie_def adminCookieName_def ex_admin_cfg_def
        buildAdminAuthConfig_def Let_def)
  let ?w = "ex_admin_world\<lparr>ax_state := s'\<rparr>"
  have "\<exists>a. fst (RequireAdmin ex_jwt ex_admin_cfg 6 ''j2'' (ex_admin_request ''GET'') (am_db (ax_state ?w))) = AdminAnswer a"
    by (rule logout_is_final [OF L, of ex_admin_claims 900 ?w])
      (simp_all add: ex_jwt_def ex_admin_request_def ex_admin_fields ex_admin_state_def db_ok_def empty_db_def ex_admin_world_def
        admin_reaches.here)
  then show ?thesis using L by auto
qed

end
