(* ===== verification/AccountRoutes.thy ===== *)
theory AccountRoutes
  imports Pairing
begin

text \<open>
  The account routes of \<open>AuthRouter\<close>, \<open>internal/handler/auth.go\<close>, up to the scoped keys: registration,
  verification of the address, login and logout, rotation of the master key, password reset and
  change, export and deletion, with the check of a new address of \<open>helpers/email_block.go\<close>.

  \<open>bcrypt\<close>, \<open>mail.ParseAddress\<close>, the environment and the configuration are fields of \<open>acct_env\<close>, random
  values are arguments (\<open>None\<close> when the source fails).  A body is what \<open>parseBody\<close> returned.  Sent mails and
  cancelled subscriptions are recorded; the pages of \<open>/verify\<close> are their status and heading.  A transaction
  is a function on the database whose result is dropped when it fails.
\<close>

record acct_env =
  av_sha :: "string \<Rightarrow> string"
  av_hash :: "string \<Rightarrow> string option"  \<comment> \<open>\<open>bcrypt.GenerateFromPassword\<close>\<close>
  av_check :: "string \<Rightarrow> string \<Rightarrow> bool"  \<comment> \<open>\<open>bcrypt.CompareHashAndPassword\<close> finds no error\<close>
  av_mail :: "string \<Rightarrow> string option"  \<comment> \<open>the address \<open>mail.ParseAddress\<close> finds\<close>
  av_getenv :: "string \<Rightarrow> string"
  av_DisableRegistration :: bool
  av_SMTPHost :: string
  av_MonthlyRequestLimit :: int
  av_IsProduction :: bool
  av_alertsDB :: bool

datatype mail_sent = VerificationEmail string string | PasswordResetEmail string string

record acct_state =
  ac_auth :: auth_state
  ac_mails :: "mail_sent list"
  ac_cancelled :: "string list"  \<comment> \<open>subscriptions\<close>

record acct_request =
  ar_authorization :: string
  ar_remoteAddr :: string
  ar_userAgent :: string
  ar_body :: "string + obj"

abbreviation ac_db :: "acct_state \<Rightarrow> db" where
  "ac_db s \<equiv> au_db (ac_auth s)"

definition with_db :: "db \<Rightarrow> acct_state \<Rightarrow> acct_state" where
  "with_db d s = s\<lparr>ac_auth := (ac_auth s)\<lparr>au_db := d\<rparr>\<rparr>"

definition acct_alert :: "(alert_state \<Rightarrow> alert_state) \<Rightarrow> acct_state \<Rightarrow> acct_state" where
  "acct_alert f s = s\<lparr>ac_auth := (ac_auth s)\<lparr>au_alerts := f (au_alerts (ac_auth s))\<rparr>\<rparr>"

definition send_mail :: "mail_sent \<Rightarrow> acct_state \<Rightarrow> acct_state" where
  "send_mail e s = s\<lparr>ac_mails := ac_mails s @ [e]\<rparr>"

subsection \<open>Passwords and addresses\<close>

definition char_between :: "nat \<Rightarrow> nat \<Rightarrow> char \<Rightarrow> bool" where
  "char_between lo hi c \<longleftrightarrow> lo \<le> of_char c \<and> of_char c \<le> hi"

text \<open>\<open>None\<close> is a valid password.\<close>

definition validatePassword :: "string \<Rightarrow> string option" where
  "validatePassword p =
     (if length p < 8 then Some ''Password must be at least 8 characters long''
      else if \<not> list_ex (char_between 65 90) p then Some ''Password must contain at least one uppercase letter''
      else if \<not> list_ex (char_between 97 122) p then Some ''Password must contain at least one lowercase letter''
      else if \<not> list_ex (char_between 48 57) p then Some ''Password must contain at least one number''
      else None)"

definition disposableEmailDomains :: "string list" where
  "disposableEmailDomains =
     [''mailinator.com'', ''guerrillamail.com'', ''guerrillamail.net'', ''guerrillamail.org'', ''guerrillamail.biz'',
      ''guerrillamail.de'', ''guerrillamail.info'', ''guerrillamailblock.com'', ''grr.la'', ''sharklasers.com'',
      ''spam4.me'', ''tempmail.com'', ''temp-mail.org'', ''10minutemail.com'', ''10minutemail.net'', ''throwam.com'',
      ''throwaway.email'', ''trashmail.com'', ''trashmail.me'', ''trashmail.net'', ''trashmail.at'',
      ''trashmail.io'', ''dispostable.com'', ''maildrop.cc'', ''mailnesia.com'', ''mailnull.com'', ''discard.email'',
      ''mailsac.com'', ''yopmail.com'', ''yopmail.fr'', ''cool.fr.nf'', ''jetable.fr.nf'', ''jetable.com'',
      ''jetable.net'', ''jetable.org'', ''nospam.ze.tc'', ''nomail.xl.cx'', ''nomail.pw'', ''nospamfor.us'',
      ''mega.zik.dj'', ''speed.1s.fr'', ''courriel.fr.nf'', ''moncourrier.fr.nf'', ''monemail.fr.nf'',
      ''monmail.fr.nf'', ''spamgourmet.com'', ''spamgourmet.net'', ''spamgourmet.org'', ''spamspot.com'',
      ''spamevader.com'', ''spamcorner.com'', ''spamcero.com'', ''spamcon.org'', ''spamfree24.org'', ''spamgob.com'',
      ''spaml.com'', ''spamoff.de'', ''spamthis.co.uk'', ''spamtrap.ro'', ''spamboy.com'', ''spam.la'',
      ''spamfighter.cf'', ''spamfighter.ga'', ''spamfighter.gq'', ''spamfighter.ml'', ''spamfighter.tk'',
      ''tradermail.info'', ''objectmail.com'', ''rklips.com'', ''getonemail.net'', ''mailfreeonline.com'',
      ''mailguard.me'', ''mail-temporaire.fr'', ''tempr.email'', ''tempe.email'', ''tmail.com'', ''tmail.io'',
      ''mohmal.com'', ''mailtemp.info'', ''burnermail.io'', ''getairmail.com'', ''fakeinbox.com'', ''inboxbear.com'',
      ''tempinbox.com'', ''emailondeck.com'', ''filzmail.com'', ''einrot.com'', ''tempomail.fr'', ''owlpic.com'',
      ''inemail.com'', ''inoutmail.de'', ''inoutmail.eu'', ''inoutmail.info'', ''inoutmail.net'', ''lroid.com'',
      ''mailboxy.fun'', ''mailscrap.com'', ''mailslapping.com'', ''mailslite.com'', ''mailsiphon.com'',
      ''sogetthis.com'', ''soodonims.com'', ''superrito.com'', ''tempalias.com'', ''tempail.com'', ''tempem.com'',
      ''tempsky.com'', ''wibblesmith.com'']"

definition isBlockedDomain :: "(string \<Rightarrow> string) \<Rightarrow> string \<Rightarrow> bool" where
  "isBlockedDomain env domain =
     (if domain \<in> set disposableEmailDomains then True
      else (let extra = env ''BLOCKED_EMAIL_DOMAINS''
            in if extra = [] then False
               else list_ex (\<lambda>d. to_lower (trim_space d) = to_lower domain) (go_split CHR '','' extra)))"

definition ValidateEmailForRegistration :: "acct_env \<Rightarrow> string \<Rightarrow> string" where
  "ValidateEmailForRegistration env email =
     (case av_mail env email of
        None \<Rightarrow> ''Invalid email address.''
      | Some addr \<Rightarrow>
          (case index_byte addr CHR ''@'' of
             None \<Rightarrow> ''Invalid email address.''
           | Some i \<Rightarrow>
               (let host = drop (i + 1) addr
                in if CHR ''.'' \<notin> set host then ''Invalid email address.''
                   else if isBlockedDomain (av_getenv env) (to_lower host) then ''This email domain is not allowed.''
                   else [])))"

subsection \<open>Sessions\<close>

text \<open>\<open>HasPrefix\<close> here, while the routes below ask for at least one character after the prefix.\<close>

definition lookupUserByAuth :: "acct_env \<Rightarrow> gotime \<Rightarrow> acct_request \<Rightarrow> db \<Rightarrow> answer + User" where
  "lookupUserByAuth env now r d =
     (if has_prefix (ar_authorization r) ''Bearer ''
      then (let hash = HashSessionToken (av_sha env) (drop 7 (ar_authorization r))
            in case se_FindByTokenHash now hash d of
                 DBOk (Some session) \<Rightarrow>
                   (case us_FindByID (se_UserID session) d of
                      DBOk (Some user) \<Rightarrow> Inr user
                    | _ \<Rightarrow> Inl (WriteError 401 ''User not found''))
               | _ \<Rightarrow> Inl (WriteError 401 ''Invalid or expired session''))
      else Inl (WriteError 401 ''Session required''))"

definition bearer_token :: "acct_request \<Rightarrow> string option" where
  "bearer_token r =
     (let header = ar_authorization r
      in if length header \<le> 7 \<or> take 7 header \<noteq> ''Bearer '' then None else Some (drop 7 header))"

definition new_session :: "acct_env \<Rightarrow> gotime \<Rightarrow> int \<Rightarrow> string \<Rightarrow> acct_request \<Rightarrow> Session" where
  "new_session env now uid raw r =
     \<lparr>se_ID = 0, se_UserID = uid, se_TokenHash = av_sha env raw, se_UserAgent = nonempty_str (ar_userAgent r),
      se_IPAddress = nonempty_str (ar_remoteAddr r), se_ExpiresAt = now + minutes (30 * 24 * 60),
      se_LastUsedAt = None, se_CreatedAt = 0\<rparr>"

subsection \<open>Registration and verification\<close>

record acct_random =
  an_apiKey :: "string option"
  an_verifyToken :: "string option"
  an_sessionToken :: "string option"

definition new_account :: "acct_env \<Rightarrow> gotime \<Rightarrow> string \<Rightarrow> string \<Rightarrow> string \<Rightarrow> string option \<Rightarrow> User" where
  "new_account env now email hash apiKey verify =
     \<lparr>us_ID = 0, us_Email = email, us_Password = hash, us_APIKey = apiKey, us_APIKeyHash = None, us_RequestsThisMonth = 0,
      us_RequestsToday = 0, us_LastRequestDate = None, us_StripeCustomerID = None, us_SubscriptionStatus = Some ''free'',
      us_SubscriptionID = None, us_SubscriptionEndsAt = None, us_MaxHeadlessSessions = None, us_EmailVerified = (verify = None),
      us_VerificationTokenHash = map_option (av_sha env) verify,
      us_VerificationTokenExpiresAt = map_option (\<lambda>_. now + minutes (24 * 60)) verify, us_Role = [], us_Disabled = False,
      us_APIKeyRotationRequired = False, us_CreatedAt = 0, us_UpdatedAt = 0\<rparr>"

definition plain_event :: "string \<Rightarrow> string \<Rightarrow> string \<Rightarrow> obj \<Rightarrow> alert_event" where
  "plain_event typ severity msg details =
     \<lparr>ae_Type = typ, ae_Severity = severity, ae_Message = msg, ae_Details = details, ae_Timestamp = zero_time\<rparr>"

definition registered_alerts :: "acct_env \<Rightarrow> gotime \<Rightarrow> string \<Rightarrow> int \<Rightarrow> alert_state \<Rightarrow> alert_state" where
  "registered_alerts env now ip uid al =
     track_and_fire now (av_alertsDB env) (''reg_ip:'' @ ip) 3 (minutes 60) (minutes (4 * 60))
       (plain_event ''registration_spike'' ''warning'' ''3+ new accounts registered from the same IP within 1 hour'' [(''ip'', JStr ip)])
       (Fire now (av_alertsDB env)
          (plain_event ''new_user_registration'' ''info'' ''New user registered'' [(''userId'', JNum uid)]) al)"

text \<open>What follows the creation of the row.\<close>

definition registered :: "acct_env \<Rightarrow> gotime \<Rightarrow> acct_random \<Rightarrow> acct_request \<Rightarrow> User \<Rightarrow> string option \<Rightarrow> acct_state \<Rightarrow> answer \<times> acct_state" where
  "registered env now rnd r user verify s =
     (let s1 = acct_alert (registered_alerts env now (ar_remoteAddr r) (us_ID user)) s;
          s2 = (case verify of Some t \<Rightarrow> if t \<noteq> [] then send_mail (VerificationEmail (us_Email user) t) s1 else s1 | None \<Rightarrow> s1)
      in case an_sessionToken rnd of
           None \<Rightarrow> (WriteError 500 ''Registration failed'', s2)
         | Some raw \<Rightarrow>
             (let session = new_session env now (us_ID user) raw r; s3 = with_db (snd (se_Create now session (ac_db s2))) s2
              in ((201, [(''id'', JNum (us_ID user)), (''email'', JStr (us_Email user)), (''emailVerified'', JBool (us_EmailVerified user)),
                         (''createdAt'', JNum (us_CreatedAt user)), (''subscriptionStatus'', JStr ''free''),
                         (''sessionToken'', JStr raw), (''sessionExpiresAt'', JNum (se_ExpiresAt session))] @
                        (case verify of Some t \<Rightarrow> if t \<noteq> [] then [(''verificationToken'', JStr t)] else [] | None \<Rightarrow> [])), s3)))"

definition acct_register :: "acct_env \<Rightarrow> gotime \<Rightarrow> acct_random \<Rightarrow> acct_request \<Rightarrow> acct_state \<Rightarrow> answer \<times> acct_state" where
  "acct_register env now rnd r s =
     (if av_DisableRegistration env then (WriteError 403 ''Registration is disabled on this server'', s)
      else case ar_body r of
        Inl err \<Rightarrow> (WriteError 400 err, s)
      | Inr body \<Rightarrow>
          (let email = get_str body ''email''; password = get_str body ''password''; msg = ValidateEmailForRegistration env email
           in if email = [] \<or> password = [] then (WriteError 400 ''Email and password are required'', s)
              else if msg \<noteq> [] then (WriteError 400 msg, s)
              else case validatePassword password of
                Some errMsg \<Rightarrow> (WriteError 400 errMsg, s)
              | None \<Rightarrow>
                  if (case us_FindByEmail email (ac_db s) of DBOk (Some u) \<Rightarrow> True | _ \<Rightarrow> False)
                  then (WriteError 409 ''User already exists'', s)
                  else (case av_hash env password of
                     None \<Rightarrow> (WriteError 500 ''Registration failed'', s)
                   | Some hash \<Rightarrow>
                       (case an_apiKey rnd of
                          None \<Rightarrow> (WriteError 500 ''Internal server error'', s)
                        | Some apiKey \<Rightarrow>
                            if av_SMTPHost env \<noteq> [] \<and> an_verifyToken rnd = None then (WriteError 500 ''Registration failed'', s)
                            else
                              (let verify = (if av_SMTPHost env \<noteq> [] then an_verifyToken rnd else None)
                               in case us_Create (av_sha env) now (new_account env now email hash apiKey verify) (ac_db s) of
                                    (DBErr, user, d) \<Rightarrow> (WriteError 500 ''Registration failed'', with_db d s)
                                  | (DBOk _, user, d) \<Rightarrow> registered env now rnd r user verify (with_db d s))))))"

definition us_FindByVerificationToken :: "string \<Rightarrow> db \<Rightarrow> User option db_result" where
  "us_FindByVerificationToken hash d = get_row ''us_FindByVerificationToken'' (\<lambda>u. us_VerificationTokenHash u = Some hash) (db_users d) d"

definition acct_verify :: "acct_env \<Rightarrow> gotime \<Rightarrow> string \<Rightarrow> db \<Rightarrow> (int \<times> string) \<times> db" where
  "acct_verify env now rawToken d =
     (if rawToken = [] then ((400, ''Verification Failed''), d)
      else case us_FindByVerificationToken (av_sha env rawToken) d of
        DBOk (Some user) \<Rightarrow>
          if (case us_VerificationTokenExpiresAt user of Some t \<Rightarrow> now > t | None \<Rightarrow> False) then ((400, ''Link Expired''), d)
          else if us_EmailVerified user then ((200, ''Already Verified''), d)
          else (case us_Update (av_sha env) now (user\<lparr>us_EmailVerified := True, us_VerificationTokenHash := None,
                                                      us_VerificationTokenExpiresAt := None\<rparr>) d of
                  (DBErr, d1) \<Rightarrow> ((500, ''Something Went Wrong''), d1)
                | (DBOk _, d1) \<Rightarrow> ((200, ''Email Verified!''), d1))
      | _ \<Rightarrow> ((400, ''Invalid or Expired Link''), d))"

definition acct_resend :: "acct_env \<Rightarrow> gotime \<Rightarrow> string option \<Rightarrow> acct_request \<Rightarrow> acct_state \<Rightarrow> answer \<times> acct_state" where
  "acct_resend env now random r s =
     (case bearer_token r of
        None \<Rightarrow> (WriteError 401 ''Bearer token required'', s)
      | Some rawToken \<Rightarrow>
          (case se_FindByTokenHash now (HashSessionToken (av_sha env) rawToken) (ac_db s) of
             DBOk (Some session) \<Rightarrow>
               (case us_FindByID (se_UserID session) (ac_db s) of
                  DBOk (Some user) \<Rightarrow>
                    if us_EmailVerified user then ((200, [(''message'', JStr ''Email is already verified'')]), s)
                    else if av_SMTPHost env = [] then (WriteError 503 ''Email service is not configured'', s)
                    else (case random of
                       None \<Rightarrow> (WriteError 500 ''Failed to resend verification'', s)
                     | Some t \<Rightarrow>
                         (case us_Update (av_sha env) now (user\<lparr>us_VerificationTokenHash := Some (av_sha env t),
                                  us_VerificationTokenExpiresAt := Some (now + minutes (24 * 60))\<rparr>) (ac_db s) of
                            (DBErr, d) \<Rightarrow> (WriteError 500 ''Failed to resend verification'', with_db d s)
                          | (DBOk _, d) \<Rightarrow>
                              ((200, [(''message'', JStr ''Verification email sent'')]),
                               send_mail (VerificationEmail (us_Email user) t) (with_db d s))))
                | _ \<Rightarrow> (WriteError 404 ''User not found'', s))
           | _ \<Rightarrow> (WriteError 401 ''Invalid session'', s)))"

subsection \<open>Login, logout and rotation of the master key\<close>

definition failed_login :: "acct_env \<Rightarrow> gotime \<Rightarrow> string \<Rightarrow> acct_state \<Rightarrow> answer \<times> acct_state" where
  "failed_login env now ip s =
     (WriteError 401 ''Invalid credentials'',
      acct_alert (track_and_fire now (av_alertsDB env) (''failed_auth:'' @ ip) 5 (minutes 10) (minutes 30)
        (plain_event ''failed_auth_spike'' ''critical'' ''5+ failed login attempts from the same IP in 10 minutes'' [(''ip'', JStr ip)])) s)"

definition acct_login :: "acct_env \<Rightarrow> gotime \<Rightarrow> string option \<Rightarrow> acct_request \<Rightarrow> acct_state \<Rightarrow> answer \<times> acct_state" where
  "acct_login env now random r s =
     (case ar_body r of
        Inl err \<Rightarrow> (WriteError 400 err, s)
      | Inr body \<Rightarrow>
          (let email = get_str body ''email''; password = get_str body ''password''
           in if email = [] \<or> password = [] then (WriteError 400 ''Email and password are required'', s)
              else case us_FindByEmail email (ac_db s) of
                DBOk (Some user) \<Rightarrow>
                  if \<not> av_check env (us_Password user) password then failed_login env now (ar_remoteAddr r) s
                  else (case random of
                     None \<Rightarrow> (WriteError 500 ''Login failed'', s)
                   | Some raw \<Rightarrow>
                       (let session = new_session env now (us_ID user) raw r
                        in case se_Create now session (ac_db s) of
                             (DBErr, d) \<Rightarrow> (WriteError 500 ''Login failed'', with_db d s)
                           | (DBOk _, d) \<Rightarrow>
                               ((200, [(''id'', JNum (us_ID user)), (''email'', JStr (us_Email user)),
                                       (''emailVerified'', JBool (us_EmailVerified user)),
                                       (''apiKeyRotationRequired'', JBool (us_APIKeyRotationRequired user)), (''role'', JStr (us_Role user)),
                                       (''requestsThisMonth'', JNum (us_RequestsThisMonth user)), (''createdAt'', JNum (us_CreatedAt user)),
                                       (''sessionToken'', JStr raw), (''sessionExpiresAt'', JNum (se_ExpiresAt session))]), with_db d s)))
              | _ \<Rightarrow> failed_login env now (ar_remoteAddr r) s))"

definition acct_logout :: "acct_env \<Rightarrow> gotime \<Rightarrow> acct_request \<Rightarrow> db \<Rightarrow> answer \<times> db" where
  "acct_logout env now r d =
     (case bearer_token r of
        None \<Rightarrow> (WriteError 401 ''Bearer token required'', d)
      | Some rawToken \<Rightarrow>
          (case se_FindByTokenHash now (HashSessionToken (av_sha env) rawToken) d of
             DBErr \<Rightarrow> (WriteError 500 ''Logout failed'', d)
           | DBOk None \<Rightarrow> (WriteError 401 ''Invalid token'', d)
           | DBOk (Some session) \<Rightarrow>
               (case se_Delete (se_ID session) d of
                  (DBErr, d1) \<Rightarrow> (WriteError 500 ''Logout failed'', d1)
                | (DBOk _, d1) \<Rightarrow> ((200, [(''success'', JBool True)]), d1))))"

text \<open>The disconnects by account identifier, which only \<open>manager\<close> being set and the identifier not being empty guard.\<close>

definition disconnect_account :: "string \<Rightarrow> string \<Rightarrow> 'h manager \<Rightarrow> 'h manager go" where
  "disconnect_account identifier reason m =
     (if identifier = [] then Ret m else go_map snd (BroadcastDisconnectByAPIKey identifier reason m))"

text \<open>What a successful rotation invalidates, in order; the errors are only logged.\<close>

definition panic_button :: "int \<Rightarrow> acct_state \<Rightarrow> acct_state" where
  "panic_button uid s =
     (let s1 = s\<lparr>ac_auth := InvalidateCachedAuthForUser uid (ac_auth s)\<rparr>;
          s2 = with_db (snd (se_DeleteAllByUser uid (ac_db s1))) s1;
          s3 = with_db (snd (ak_DeleteAllByUser uid (ac_db s2))) s2
      in with_db (snd (tk_DeleteAllByUser uid (ac_db s3))) s3)"

definition acct_regenerate ::
    "acct_env \<Rightarrow> gotime \<Rightarrow> string option \<Rightarrow> acct_request \<Rightarrow> acct_state \<Rightarrow> 'h manager \<Rightarrow> (answer \<times> acct_state \<times> 'h manager) go" where
  "acct_regenerate env now random r s m =
     (case ar_body r of
        Inl err \<Rightarrow> Ret (WriteError 400 err, s, m)
      | Inr body \<Rightarrow>
          (let email = get_str body ''email''; password = get_str body ''password''
           in if email = [] \<or> password = [] then Ret (WriteError 400 ''Email and password are required'', s, m)
              else case us_FindByEmail email (ac_db s) of
                DBOk (Some user) \<Rightarrow>
                  if \<not> av_check env (us_Password user) password then Ret (WriteError 401 ''Invalid credentials'', s, m)
                  else (case random of
                     None \<Rightarrow> Ret (WriteError 500 ''Internal server error'', s, m)
                   | Some newKey \<Rightarrow>
                       (let old = null_str (us_APIKeyHash user)
                        in case us_Update (av_sha env) now (user\<lparr>us_APIKey := newKey, us_APIKeyRotationRequired := False\<rparr>) (ac_db s) of
                             (DBErr, d) \<Rightarrow> Ret (WriteError 500 ''Failed to regenerate API key'', with_db d s, m)
                           | (DBOk _, d) \<Rightarrow>
                               (let s1 = panic_button (us_ID user) (with_db d s)
                                in go_map (\<lambda>m'. ((200, [(''apiKey'', JStr newKey)]), s1, m'))
                                     (disconnect_account old ''Master API key regenerated'' m))))
              | _ \<Rightarrow> Ret (WriteError 401 ''Invalid credentials'', s, m)))"

definition acct_user_data :: "acct_env \<Rightarrow> gotime \<Rightarrow> acct_request \<Rightarrow> db \<Rightarrow> answer" where
  "acct_user_data env now r d =
     (case bearer_token r of
        None \<Rightarrow> WriteError 401 ''Bearer token required''
      | Some rawToken \<Rightarrow>
          (case se_FindByTokenHash now (HashSessionToken (av_sha env) rawToken) d of
             DBErr \<Rightarrow> WriteError 500 ''Internal server error''
           | DBOk None \<Rightarrow> WriteError 401 ''Invalid or expired session''
           | DBOk (Some session) \<Rightarrow>
               (case us_FindByID (se_UserID session) d of
                  DBOk (Some user) \<Rightarrow>
                    if us_Disabled user then WriteError 403 ''Account disabled''
                    else (200, [(''id'', JNum (us_ID user)), (''email'', JStr (us_Email user)),
                                (''emailVerified'', JBool (us_EmailVerified user)),
                                (''apiKeyRotationRequired'', JBool (us_APIKeyRotationRequired user)), (''role'', JStr (us_Role user)),
                                (''requestsThisMonth'', JNum (us_RequestsThisMonth user)),
                                (''subscriptionStatus'', JStr (GetSubscriptionStatus user)),
                                (''limits'', JObj [(''monthlyLimit'', JNum (av_MonthlyRequestLimit env)),
                                   (''unlimitedMonthly'', JBool (GetSubscriptionStatus user = ''active''))])])
                | _ \<Rightarrow> WriteError 404 ''User not found'')))"

subsection \<open>Forgotten and changed passwords\<close>

definition generic_msg :: string where
  "generic_msg = ''If an account with that email exists, a password reset link has been sent.''"

definition acct_forgot :: "acct_env \<Rightarrow> gotime \<Rightarrow> string option \<Rightarrow> acct_request \<Rightarrow> acct_state \<Rightarrow> answer \<times> acct_state" where
  "acct_forgot env now random r s =
     (case ar_body r of
        Inl err \<Rightarrow> (WriteError 400 err, s)
      | Inr body \<Rightarrow>
          (let email = get_str body ''email''; ip = ar_remoteAddr r
           in if email = [] then (WriteError 400 ''Email is required'', s)
              else case us_FindByEmail email (ac_db s) of
                DBOk (Some user) \<Rightarrow>
                  (let s1 = with_db (snd (pt_InvalidateForUser now (us_ID user) (ac_db s))) s
                   in case random of
                        None \<Rightarrow> (WriteError 500 ''Internal server error'', s1)
                      | Some raw \<Rightarrow>
                          (let token = \<lparr>pt_ID = 0, pt_UserID = us_ID user, pt_TokenHash = av_sha env raw, pt_ExpiresAt = now + minutes 60,
                                  pt_Used = False, pt_CreatedAt = 0, pt_UpdatedAt = 0\<rparr>;
                               s2 = with_db (snd (pt_Create now token (ac_db s1))) s1;
                               s3 = acct_alert (track_and_fire now (av_alertsDB env) (''pwd_reset:'' @ ip) 5 (minutes 10) (minutes 60)
                                      (plain_event ''password_reset_flood'' ''warning''
                                         ''5+ password reset requests from the same IP in 10 minutes'' [(''ip'', JStr ip)])) s2
                           in ((200, (''message'', JStr generic_msg) #
                                     (if av_getenv env ''RETURN_RESET_TOKEN'' = ''true'' \<and> \<not> av_IsProduction env
                                      then [(''token'', JStr raw)] else [])),
                               send_mail (PasswordResetEmail email raw) s3)))
              | _ \<Rightarrow> ((200, [(''message'', JStr generic_msg)]), s)))"

text \<open>\<open>WithTx\<close>: the statements run one after the other, an error rolls all of them back.\<close>

fun with_tx :: "(db \<Rightarrow> unit db_result \<times> db) list \<Rightarrow> db \<Rightarrow> unit db_result \<times> db" where
  "with_tx [] d = (DBOk (), d)"
| "with_tx (f # fs) d =
     (case f d of
        (DBErr, d1) \<Rightarrow> (DBErr, d)
      | (DBOk _, d1) \<Rightarrow> (case with_tx fs d1 of (DBErr, d2) \<Rightarrow> (DBErr, d) | (DBOk _, d2) \<Rightarrow> (DBOk (), d2)))"

definition acct_reset :: "acct_env \<Rightarrow> gotime \<Rightarrow> acct_request \<Rightarrow> db \<Rightarrow> answer \<times> db" where
  "acct_reset env now r d =
     (case ar_body r of
        Inl err \<Rightarrow> (WriteError 400 err, d)
      | Inr body \<Rightarrow>
          (let rawToken = get_str body ''token''; password = get_str body ''password''
           in if rawToken = [] \<or> password = [] then (WriteError 400 ''Token and password are required'', d)
              else case validatePassword password of
                Some errMsg \<Rightarrow> (WriteError 400 errMsg, d)
              | None \<Rightarrow>
                  (case pt_FindByTokenHash now (av_sha env rawToken) d of
                     DBOk (Some resetToken) \<Rightarrow>
                       (case us_FindByID (pt_UserID resetToken) d of
                          DBOk (Some user) \<Rightarrow>
                            (case av_hash env password of
                               None \<Rightarrow> (WriteError 500 ''Failed to reset password'', d)
                             | Some newHash \<Rightarrow>
                                 (case with_tx [us_Update (av_sha env) now (user\<lparr>us_Password := newHash\<rparr>), pt_MarkUsed now (pt_ID resetToken),
                                                pt_InvalidateForUser now (us_ID user)] d of
                                    (DBErr, d1) \<Rightarrow> (WriteError 500 ''Failed to reset password'', d1)
                                  | (DBOk _, d1) \<Rightarrow> ((200, [(''message'', JStr ''Password has been reset successfully'')]), d1)))
                        | _ \<Rightarrow> (WriteError 400 ''Invalid or expired reset token'', d))
                   | _ \<Rightarrow> (WriteError 400 ''Invalid or expired reset token'', d))))"

definition acct_validate_reset :: "acct_env \<Rightarrow> gotime \<Rightarrow> string \<Rightarrow> db \<Rightarrow> answer" where
  "acct_validate_reset env now rawToken d =
     (200, [(''valid'', JBool (rawToken \<noteq> [] \<and>
        (case pt_FindByTokenHash now (av_sha env rawToken) d of DBOk (Some t) \<Rightarrow> True | _ \<Rightarrow> False)))])"

text \<open>The result of \<open>bcrypt\<close> and of the update are not looked at: a failing \<open>bcrypt\<close> stores the empty text.\<close>

definition acct_change_password :: "acct_env \<Rightarrow> gotime \<Rightarrow> acct_request \<Rightarrow> acct_state \<Rightarrow> answer \<times> acct_state" where
  "acct_change_password env now r s =
     (case lookupUserByAuth env now r (ac_db s) of
        Inl a \<Rightarrow> (a, s)
      | Inr user \<Rightarrow>
          (case ar_body r of
             Inl err \<Rightarrow> (WriteError 400 err, s)
           | Inr body \<Rightarrow>
               (let current = get_str body ''currentPassword''; new = get_str body ''newPassword''
                in if current = [] \<or> new = [] then (WriteError 400 ''Current password and new password are required'', s)
                   else if \<not> av_check env (us_Password user) current then (WriteError 401 ''Current password is incorrect'', s)
                   else case validatePassword new of
                     Some errMsg \<Rightarrow> (WriteError 400 errMsg, s)
                   | None \<Rightarrow>
                       (let hash = (case av_hash env new of Some h \<Rightarrow> h | None \<Rightarrow> []);
                            s1 = with_db (snd (us_Update (av_sha env) now (user\<lparr>us_Password := hash\<rparr>) (ac_db s))) s
                        in ((200, [(''message'', JStr ''Password changed successfully'')]),
                            acct_alert (Fire now (av_alertsDB env)
                              (plain_event ''account_password_change'' ''info'' ''User changed their account password''
                                 [(''userId'', JNum (us_ID user))])) s1)))))"

subsection \<open>Export and deletion\<close>

definition opt_num :: "int option \<Rightarrow> json" where
  "opt_num x = (case x of Some n \<Rightarrow> JNum n | None \<Rightarrow> JNull)"

definition exported_key :: "ApiKey \<Rightarrow> json" where
  "exported_key k =
     JObj [(''id'', JNum (ak_ID k)), (''name'', JStr (ak_Name k)), (''scopedClientId'', JStr (null_str (ak_ScopedClientID k))),
           (''scopedUserId'', JStr (null_str (ak_ScopedUserID k))),
           (''monthlyLimit'', JNum (case ak_MonthlyLimit k of Some n \<Rightarrow> n | None \<Rightarrow> 0)), (''expiresAt'', opt_num (ak_ExpiresAt k)),
           (''enabled'', JBool (ak_Enabled k)), (''createdAt'', JNum (ak_CreatedAt k))]"

definition acct_export :: "acct_env \<Rightarrow> (gotime \<Rightarrow> string) \<Rightarrow> gotime \<Rightarrow> acct_request \<Rightarrow> db \<Rightarrow> answer" where
  "acct_export env rfc3339 now r d =
     (case lookupUserByAuth env now r d of
        Inl a \<Rightarrow> a
      | Inr user \<Rightarrow>
          (200, [(''exportDate'', JStr (rfc3339 now)),
                 (''user'', JObj [(''id'', JNum (us_ID user)), (''email'', JStr (us_Email user)),
                    (''createdAt'', JNum (us_CreatedAt user)), (''updatedAt'', JNum (us_UpdatedAt user))]),
                 (''subscription'', JObj [(''status'', JStr (GetSubscriptionStatus user)),
                    (''stripeCustomerId'', JStr (null_str (us_StripeCustomerID user))),
                    (''subscriptionId'', JStr (null_str (us_SubscriptionID user)))]),
                 (''usage'', JObj [(''requestsThisMonth'', JNum (us_RequestsThisMonth user)), (''requestsToday'', JNum (us_RequestsToday user))]),
                 (''apiAccess'', JObj [(''hasMasterKey'', JBool (us_APIKeyHash user \<noteq> None))]),
                 (''scopedKeys'', JArr (case ak_FindAllByUser (us_ID user) d of DBOk ks \<Rightarrow> map exported_key ks | DBErr \<Rightarrow> []))]))"

definition forget_result :: "'a db_result \<times> db \<Rightarrow> unit db_result \<times> db" where
  "forget_result x = (case x of (DBErr, d) \<Rightarrow> (DBErr, d) | (DBOk _, d) \<Rightarrow> (DBOk (), d))"

definition acct_delete ::
    "acct_env \<Rightarrow> gotime \<Rightarrow> acct_request \<Rightarrow> acct_state \<Rightarrow> 'h manager \<Rightarrow> (answer \<times> acct_state \<times> 'h manager) go" where
  "acct_delete env now r s m =
     (case lookupUserByAuth env now r (ac_db s) of
        Inl a \<Rightarrow> Ret (a, s, m)
      | Inr user \<Rightarrow>
          (case ar_body r of
             Inl err \<Rightarrow> Ret (WriteError 400 err, s, m)
           | Inr body \<Rightarrow>
               (let confirmEmail = get_str body ''confirmEmail''; password = get_str body ''password''; uid = us_ID user;
                    sub = null_str (us_SubscriptionID user);
                    s1 = (if us_SubscriptionStatus user = Some ''active'' \<and> sub \<noteq> [] then s\<lparr>ac_cancelled := ac_cancelled s @ [sub]\<rparr> else s)
                in if confirmEmail = [] \<or> confirmEmail \<noteq> us_Email user
                   then Ret ((400, [(''error'', JStr ''Email confirmation required''),
                               (''message'', JStr ''Please provide your email address in the confirmEmail field to confirm account deletion'')]), s, m)
                   else if password = []
                   then Ret ((400, [(''error'', JStr ''Password required''),
                               (''message'', JStr ''Please provide your password to confirm account deletion'')]), s, m)
                   else if \<not> av_check env (us_Password user) password then Ret (WriteError 401 ''Invalid password'', s, m)
                   else (case with_tx [\<lambda>d. forget_result (ak_DeleteAllByUser uid d), pt_InvalidateForUser now uid, us_Delete uid] (ac_db s1) of
                           (DBErr, d) \<Rightarrow> Ret (WriteError 500 ''Failed to delete account'', with_db d s1, m)
                         | (DBOk _, d) \<Rightarrow>
                             (let s2 = with_db (snd (tk_DeleteAllByUser uid d)) s1;
                                  s3 = s2\<lparr>ac_auth := InvalidateCachedAuthForUser uid (ac_auth s2)\<rparr>
                              in go_map (\<lambda>m'. ((200, [(''success'', JBool True), (''message'', JStr ''Account successfully deleted'')]), s3, m'))
                                   (disconnect_account (null_str (us_APIKeyHash user)) ''Account deleted'' m))))))"

subsection \<open>The rotation of the master key is a panic button\<close>

lemma fold_adel_cache:
  "aget (fold adel (map fst (filter (\<lambda>kv. P (snd kv)) c)) c) k = Some e \<Longrightarrow> \<not> P e"
  by (force simp: fold_adel dest: map_of_SomeD)

lemma cached_not_user:
  "getCachedAuth now k (InvalidateCachedAuthForUser uid a) = Some e \<Longrightarrow> us_ID (ce_user e) \<noteq> uid"
  using fold_adel_cache [of "\<lambda>e. us_ID (ce_user e) = uid" "au_cache a" k e]
  by (auto simp: getCachedAuth_def InvalidateCachedAuthForUser_def split: option.splits if_splits)

text \<open>Nothing in the database or in the cache speaks for the account.\<close>

definition speechless :: "int \<Rightarrow> auth_state \<Rightarrow> bool" where
  "speechless uid a \<longleftrightarrow>
     (\<forall>x \<in> set (db_sessions (au_db a)). se_UserID x \<noteq> uid) \<and> (\<forall>x \<in> set (db_keys (au_db a)). ak_UserID x \<noteq> uid) \<and>
     (\<forall>x \<in> set (db_tokens (au_db a)). ct_UserID x \<noteq> uid) \<and>
     (\<forall>now k e. getCachedAuth now k a = Some e \<longrightarrow> us_ID (ce_user e) \<noteq> uid)"

lemma panic_button_speechless:
  assumes "db_fails (ac_db s) = []"
  shows "speechless uid (ac_auth (panic_button uid s))"
proof -
  let ?a = "InvalidateCachedAuthForUser uid (ac_auth s)"
  have "\<exists>d. au_db (ac_auth (panic_button uid s)) = d \<and> au_cache (ac_auth (panic_button uid s)) = au_cache ?a \<and>
      db_sessions d = filter (\<lambda>x. se_UserID x \<noteq> uid) (db_sessions (ac_db s)) \<and>
      db_keys d = filter (\<lambda>x. ak_UserID x \<noteq> uid) (db_keys (ac_db s)) \<and>
      db_tokens d = filter (\<lambda>x. ct_UserID x \<noteq> uid) (db_tokens (ac_db s))"
    using assms
    by (simp add: panic_button_def with_db_def Let_def se_DeleteAllByUser_def deleting_sessions_def db_ok_def
        ak_DeleteAllByUser_def tk_DeleteAllByUser_def delete_rows_def InvalidateCachedAuthForUser_def)
  moreover have "getCachedAuth now k (ac_auth (panic_button uid s)) = getCachedAuth now k ?a" for now k
    using calculation by (auto simp: getCachedAuth_def)
  ultimately show ?thesis using cached_not_user by (auto simp: speechless_def)
qed

lemma us_FindByID_row: "us_FindByID i d = DBOk (Some u) \<Longrightarrow> us_ID u = i"
  unfolding us_FindByID_def by (drule get_row_mem) simp

lemma speechless_session:
  assumes "speechless uid a" and "SessionOnlyMiddleware env now rq a = (Next c, t)"
  shows "\<exists>u. rc_User c = Some u \<and> us_ID u \<noteq> uid"
proof -
  obtain user d where u: "tryBearerAuth env now rq (au_db a) = (Some user, d)" and c: "session_gate user = Next c"
    using assms(2) by (auto simp: SessionOnlyMiddleware_def split: prod.splits option.splits)
  from u obtain x where x: "x \<in> set (db_sessions (au_db a))" "us_FindByID (se_UserID x) (au_db a) = DBOk (Some user)"
    by (auto simp: tryBearerAuth_def Let_def se_FindByTokenHash_def dest: get_row_mem
        split: if_splits option.splits db_result.splits)
  then have "us_ID user \<noteq> uid" using assms(1) us_FindByID_row [OF x(2)] by (auto simp: speechless_def)
  then show ?thesis using c by (auto simp: session_gate_def session_context_def split: if_splits)
qed

lemma speechless_AuthMiddleware:
  assumes q: "speechless uid a" and n: "AuthMiddleware env now m rq a = (Next c, t)"
  shows "\<exists>u. rc_User c = Some u \<and> us_ID u \<noteq> uid"
proof (cases "hasBearerHeader rq")
  case True
  then show ?thesis using speechless_session [OF q] n by (simp add: AuthMiddleware_def)
next
  case bearer: False
  show ?thesis
  proof (cases "getCachedAuth now (hq_apiKey rq) a")
    case None
    then have "lookup_auth env now m rq a = (Next c, t)" using n bearer by (auto simp: AuthMiddleware_def split: if_splits)
    from lookup_auth_Next [OF this] obtain k u d where f: "ak_FindByKey (ae_sha env) (hq_apiKey rq) (au_db a) = (DBOk (Some k), d)"
      and u: "us_FindByID (ak_UserID k) d = DBOk (Some u)" "c = key_context env u k" by blast
    obtain row where "row \<in> set (db_keys (au_db a))" "ak_UserID k = ak_UserID row" using ak_FindByKey_row [OF f] by fastforce
    then have "us_ID u \<noteq> uid" using q us_FindByID_row [OF u(1)] by (auto simp: speechless_def)
    then show ?thesis by (simp add: u(2) key_context_def)
  next
    case (Some e)
    then have "us_ID (ce_user e) \<noteq> uid" using q by (auto simp: speechless_def)
    moreover have "cached_auth env m rq e a = Next c" using Some n bearer by (auto simp: AuthMiddleware_def split: if_splits)
    ultimately show ?thesis
      by (auto simp: cached_auth_def key_context_def Let_def split: option.splits if_splits dest: client_gate_Answer)
  qed
qed

lemma disconnect_account_spec:
  assumes "mg_inv m" and "k \<noteq> []"
  shows "\<exists>m'. disconnect_account k reason m = Ret m' \<and> (\<forall>ref \<in> set (group_refs k m). \<not> IsAlive (mg_heap m' ! ref))"
proof -
  have valid: "\<forall>ref \<in> set (group_refs k m). ref < length (mg_heap m)" using assms(1) by (rule group_refs_valid)
  obtain m1 where m1: "closeClients (group_refs k m) 4002 reason m = Ret (length (group_refs k m), m1)"
      and e: "closed_effect (group_refs k m) m m1"
    using closeClients_spec [OF assms(1) valid] by blast
  have "\<forall>ref \<in> set (group_refs k m). \<not> IsAlive (mg_heap (if mg_redisUp m1 then emit es m1 else m1) ! ref)" for es
    using e valid by (simp add: closed_effect_def emit_simps)
  then show ?thesis
    using assms(2) by (simp add: disconnect_account_def BroadcastDisconnectByAPIKey_def disconnectLocalByAPIKey_def m1 go_map_def publish_def)
qed

text \<open>C21: Rotating the master key with the right password is a panic button: afterwards no session, no API key,
  cached or stored, and no connection token speaks for the account, so that every request that still
  passes the authentication belongs to another one, and every module connected under the old
  identifier is cut off.\<close>

theorem rotation_locks_out:
  assumes "ar_body r = Inr body" and "us_FindByEmail (get_str body ''email'') (ac_db s) = DBOk (Some user)"
    and "get_str body ''email'' \<noteq> []" and "get_str body ''password'' \<noteq> []"
    and "av_check env (us_Password user) (get_str body ''password'')"
    and "db_fails (ac_db s) = []" and "mg_inv m" and "us_APIKeyHash user = Some old" and "old \<noteq> []"
  shows "\<exists>s' m'. acct_regenerate env now (Some newKey) r s m = Ret ((200, [(''apiKey'', JStr newKey)]), s', m') \<and>
    (\<forall>aenv t (m2 :: 'h manager) rq c a. AuthMiddleware aenv t m2 rq (ac_auth s') = (Next c, a) \<longrightarrow>
       (\<exists>u. rc_User c = Some u \<and> us_ID u \<noteq> us_ID user)) \<and>
    (\<forall>tok \<in> set (db_tokens (ac_db s')). ct_UserID tok \<noteq> us_ID user) \<and>
    (\<forall>ref \<in> set (group_refs old m). \<not> IsAlive (mg_heap m' ! ref))"
proof -
  let ?user = "user\<lparr>us_APIKey := newKey, us_APIKeyRotationRequired := False\<rparr>"
  obtain d where d: "us_Update (av_sha env) now ?user (ac_db s) = (DBOk (), d)" "db_fails d = []"
    using assms(6) by (simp add: us_Update_def exec_def db_ok_def Let_def)
  let ?s' = "panic_button (us_ID user) (with_db d s)"
  obtain m' where m': "disconnect_account old ''Master API key regenerated'' m = Ret m'" "\<forall>ref \<in> set (group_refs old m). \<not> IsAlive (mg_heap m' ! ref)"
    using disconnect_account_spec [OF assms(7,9)] by blast
  have q: "speechless (us_ID user) (ac_auth ?s')" using d(2) by (intro panic_button_speechless) (simp add: with_db_def)
  have run: "acct_regenerate env now (Some newKey) r s m = Ret ((200, [(''apiKey'', JStr newKey)]), ?s', m')"
    using assms(1-5) m'(1) by (simp add: acct_regenerate_def assms(8) d(1) go_map_def null_str_def Let_def)
  show ?thesis
    using run q m'(2) speechless_AuthMiddleware [OF q] unfolding speechless_def by blast
qed

subsection \<open>A reset token works once\<close>

lemma with_tx_reset:
  assumes "with_tx [us_Update sha now u, pt_MarkUsed now i, pt_InvalidateForUser now uid] d = (DBOk (), d')"
  shows "db_resets d' = update_rows (\<lambda>t. pt_UserID t = uid \<and> \<not> pt_Used t) (\<lambda>t. t\<lparr>pt_Used := True, pt_UpdatedAt := now\<rparr>)
    (update_rows (\<lambda>t. pt_ID t = i) (\<lambda>t. t\<lparr>pt_Used := True, pt_UpdatedAt := now\<rparr>) (db_resets d))"
  using assms
  by (auto simp: us_Update_def pt_MarkUsed_def pt_InvalidateForUser_def exec_def Let_def split: if_splits prod.splits db_result.splits)

text \<open>A password is reset at most once with a token, and a reset kills every other token of the account: after
  a successful reset, every attempt with a token that was issued to the account before it is refused
  and leaves the database as it is.\<close>

theorem reset_token_once:
  assumes "acct_reset env now r d = ((200, ans), d')" and "ar_body r = Inr body"
    and "pt_FindByTokenHash now (av_sha env (get_str body ''token'')) d = DBOk (Some tok)"
    and "\<forall>x \<in> set (db_resets d). pt_TokenHash x = av_sha env (get_str body2 ''token'') \<longrightarrow> pt_UserID x = pt_UserID tok"
    and "ar_body r2 = Inr body2"
  shows "\<exists>msg. acct_reset env later r2 d' = (WriteError 400 msg, d')"
proof -
  obtain user newHash where u: "us_FindByID (pt_UserID tok) d = DBOk (Some user)"
      and tx: "with_tx [us_Update (av_sha env) now (user\<lparr>us_Password := newHash\<rparr>), pt_MarkUsed now (pt_ID tok),
                 pt_InvalidateForUser now (us_ID user)] d = (DBOk (), d')"
    using assms(1-3)
    by (auto simp: acct_reset_def WriteError_def Let_def split: if_splits option.splits db_result.splits prod.splits)
  have uid: "us_ID user = pt_UserID tok" using u by (rule us_FindByID_row)
  have used: "pt_Used x" if "x \<in> set (db_resets d')" "pt_TokenHash x = av_sha env (get_str body2 ''token'')" for x
    using that assms(4) unfolding with_tx_reset [OF tx] uid by (auto simp: update_rows_def split: if_splits)
  have "pt_FindByTokenHash later (av_sha env (get_str body2 ''token'')) d' \<noteq> DBOk (Some x)" for x
  proof
    assume "pt_FindByTokenHash later (av_sha env (get_str body2 ''token'')) d' = DBOk (Some x)"
    then have "x \<in> set (db_resets d') \<and> pt_TokenHash x = av_sha env (get_str body2 ''token'') \<and> \<not> pt_Used x"
      unfolding pt_FindByTokenHash_def by (auto dest: get_row_mem)
    then show False using used by blast
  qed
  then show ?thesis
    using assms(5) by (auto simp: acct_reset_def Let_def split: option.split db_result.split)
qed

subsection \<open>What the code leaves open\<close>

text \<open>The answer to a registration contains the token that only the mail should carry: with it the address is
verified without reading the mail.\<close>

lemma verification_without_mail:
  assumes "acct_register env now rnd r s = ((201, ans), s')" and "av_SMTPHost env \<noteq> []"
    and "an_verifyToken rnd = Some t" and "t \<noteq> []"
  shows "aget ans ''verificationToken'' = Some (JStr t)"
  using assms
  by (auto simp: acct_register_def registered_def WriteError_def Let_def split: sum.splits option.splits if_splits prod.splits db_result.splits)

text \<open>Neither a reset nor a change of the password ends a session.\<close>

lemma reset_keeps_sessions:
  "acct_reset env now r d = (a, d') \<Longrightarrow> db_sessions d' = db_sessions d"
  by (auto simp: acct_reset_def us_Update_def pt_MarkUsed_def pt_InvalidateForUser_def exec_def Let_def
      split: sum.splits option.splits if_splits prod.splits db_result.splits)

subsection \<open>Concrete runs\<close>

definition ex_acct_env :: acct_env where
  "ex_acct_env =
     \<lparr>av_sha = (\<lambda>x. x), av_hash = Some, av_check = (=), av_mail = Some, av_getenv = (\<lambda>k. []), av_DisableRegistration = False,
      av_SMTPHost = [], av_MonthlyRequestLimit = 0, av_IsProduction = True, av_alertsDB = False\<rparr>"

definition ex_owner :: User where
  "ex_owner = (ex_user 1)\<lparr>us_Password := ''Sesame123'', us_APIKeyHash := Some ''key''\<rparr>"

definition ex_acct :: acct_state where
  "ex_acct =
     \<lparr>ac_auth = (ex_auth (ex_key 7 1 ''k1''))\<lparr>au_db := empty_db\<lparr>db_users := [ex_owner], db_keys := [ex_key 7 1 ''k1''],
        db_resets := [\<lparr>pt_ID = 3, pt_UserID = 1, pt_TokenHash = ''t'', pt_ExpiresAt = 100, pt_Used = False, pt_CreatedAt = 0,
                        pt_UpdatedAt = 0\<rparr>]\<rparr>\<rparr>, ac_mails = [], ac_cancelled = []\<rparr>"

definition ex_acct_request :: "obj \<Rightarrow> acct_request" where
  "ex_acct_request body = \<lparr>ar_authorization = [], ar_remoteAddr = ''10.0.0.1'', ar_userAgent = [], ar_body = Inr body\<rparr>"

lemma rotation_locks_out_witness:
  "\<exists>s' m'. acct_regenerate ex_acct_env 5 (Some ''new'')
      (ex_acct_request [(''email'', JStr ''gm@x.org''), (''password'', JStr ''Sesame123'')]) ex_acct (ex_manager True ''i1'') =
      Ret ((200, [(''apiKey'', JStr ''new'')]), s', m') \<and> \<not> IsAlive (mg_heap m' ! 0)"
proof -
  let ?body = "[(''email'', JStr ''gm@x.org''), (''password'', JStr ''Sesame123'')]" and ?m = "ex_manager True ''i1''"
  have e: "get_str ?body ''email'' = ''gm@x.org''" "get_str ?body ''password'' = ''Sesame123''" by (simp_all add: get_str_def)
  have d: "ac_db ex_acct = empty_db\<lparr>db_users := [ex_owner], db_keys := [ex_key 7 1 ''k1''], db_resets := db_resets (ac_db ex_acct)\<rparr>"
    "db_fails (ac_db ex_acct) = []"
    by (simp_all add: ex_acct_def empty_db_def)
  have u: "us_Email ex_owner = ''gm@x.org''" "us_Password ex_owner = ''Sesame123''" "us_APIKeyHash ex_owner = Some ''key''"
    by (simp_all add: ex_owner_def ex_user_def)
  have f: "us_FindByEmail (get_str ?body ''email'') (ac_db ex_acct) = DBOk (Some ex_owner)"
    by (subst d) (simp add: e u us_FindByEmail_def get_row_def db_ok_def empty_db_def)
  have c: "av_check ex_acct_env (us_Password ex_owner) (get_str ?body ''password'')" by (simp add: e u ex_acct_env_def)
  have b: "ar_body (ex_acct_request ?body) = Inr ?body" by (simp add: ex_acct_request_def)
  have ne: "get_str ?body ''email'' \<noteq> []" "get_str ?body ''password'' \<noteq> []" by (simp_all add: e)
  have g: "0 \<in> set (group_refs ''key'' ?m)"
    by (simp add: group_refs_def group_ids_def ex_manager_defs List.map_filter_def)
  show ?thesis
    using rotation_locks_out [OF b f ne c d(2) ex_manager_inv [of True "''i1''"] u(3), where now = 5 and newKey = "''new''"] g by blast
qed

lemma reset_token_once_witness:
  "\<exists>msg. acct_reset ex_acct_env 6 (ex_acct_request [(''token'', JStr ''t''), (''password'', JStr ''Sesame456'')])
     (snd (acct_reset ex_acct_env 5 (ex_acct_request [(''token'', JStr ''t''), (''password'', JStr ''Sesame123'')]) (ac_db ex_acct))) =
   (WriteError 400 msg, snd (acct_reset ex_acct_env 5 (ex_acct_request [(''token'', JStr ''t''), (''password'', JStr ''Sesame123'')]) (ac_db ex_acct)))"
proof -
  let ?b = "\<lambda>p. [(''token'', JStr ''t''), (''password'', JStr p)]" and ?d = "ac_db ex_acct"
  let ?tok = "\<lparr>pt_ID = 3, pt_UserID = 1, pt_TokenHash = ''t'', pt_ExpiresAt = 100, pt_Used = False, pt_CreatedAt = 0, pt_UpdatedAt = 0\<rparr>"
  have b: "ar_body (ex_acct_request x) = Inr x" for x by (simp add: ex_acct_request_def)
  have e: "get_str (?b p) ''token'' = ''t''" "get_str (?b p) ''password'' = p" for p by (simp_all add: get_str_def)
  have env: "av_sha ex_acct_env x = x" "av_hash ex_acct_env x = Some x" for x by (simp_all add: ex_acct_env_def)
  have rows: "db_resets ?d = [?tok]" "db_users ?d = [ex_owner]" "db_fails ?d = []" "us_ID ex_owner = 1"
    by (simp_all add: ex_acct_def empty_db_def ex_owner_def ex_user_def)
  have v: "validatePassword ''Sesame123'' = None" by code_simp
  have f: "pt_FindByTokenHash 5 (av_sha ex_acct_env (get_str (?b p) ''token'')) ?d = DBOk (Some ?tok)" for p
    by (simp add: e env pt_FindByTokenHash_def get_row_def db_ok_def rows)
  have u: "us_FindByID 1 ?d = DBOk (Some ex_owner)" by (simp add: us_FindByID_def get_row_def db_ok_def rows)
  have "\<exists>d1. with_tx [us_Update (av_sha ex_acct_env) 5 (ex_owner\<lparr>us_Password := ''Sesame123''\<rparr>), pt_MarkUsed 5 3,
      pt_InvalidateForUser 5 (us_ID ex_owner)] ?d = (DBOk (), d1)"
    by (simp add: us_Update_def pt_MarkUsed_def pt_InvalidateForUser_def exec_def db_ok_def rows Let_def)
  then obtain d1 where tx: "with_tx [us_Update (av_sha ex_acct_env) 5 (ex_owner\<lparr>us_Password := ''Sesame123''\<rparr>), pt_MarkUsed 5 3,
      pt_InvalidateForUser 5 (us_ID ex_owner)] ?d = (DBOk (), d1)" ..
  have run: "acct_reset ex_acct_env 5 (ex_acct_request (?b ''Sesame123'')) ?d =
      ((200, [(''message'', JStr ''Password has been reset successfully'')]), d1)"
    using f [of "''Sesame123''"] by (simp add: acct_reset_def b e v env u tx Let_def del: with_tx.simps)
  have "\<forall>x \<in> set (db_resets ?d). pt_TokenHash x = av_sha ex_acct_env (get_str (?b ''Sesame456'') ''token'') \<longrightarrow> pt_UserID x = pt_UserID ?tok"
    by (simp add: rows)
  from reset_token_once [OF run b f this b] show ?thesis unfolding run by simp
qed

end
