(* ===== verification/Headless.thy ===== *)
theory Headless
  imports ServerEvents
begin

text \<open>
  The headless browser sessions of \<open>internal/worker/headless.go\<close>: the table of sessions and of sessions that wait
  for their module, the launches in flight with their waiters, the cooldown after a failed start, and the
  launch itself.  The browser (\<open>chromedp\<close>) is a record of the answers of its commands; a launch also
  receives what the rest of the program does meanwhile: the registry at each poll, a change of the
  manager's tables before it, and a change of the database.  A tab is a number, and \<open>ContextCancel\<close> records it as
  cancelled.
\<close>

record HeadlessSession =
  hs_SessionID :: string
  hs_ClientID :: string
  hs_APIKey :: string
  hs_FoundryURL :: string
  hs_Username :: string
  hs_WorldName :: string
  hs_tab :: nat  \<comment> \<open>\<open>ContextCancel\<close>\<close>
  hs_StartedAt :: gotime
  hs_LastActivity :: gotime

record PendingHeadless =
  hp_SessionID :: string
  hp_ExpectedClientID :: string
  hp_APIKey :: string
  hp_tab :: nat
  hp_StartTime :: gotime

record SessionInfo =
  sx_SessionID :: string
  sx_ClientID :: string
  sx_FoundryURL :: string
  sx_Username :: string
  sx_WorldName :: string
  sx_StartedAt :: int
  sx_LastActivity :: int

record launchQueue =
  lq_done :: bool  \<comment> \<open>the channel is closed\<close>
  lq_errVal :: "string option"
  lq_clientID :: string

record headless =
  hl_sessions :: "(string, HeadlessSession) gomap"
  hl_pending :: "(string, PendingHeadless) gomap"
  hl_maxSessions :: int
  hl_inactiveTimeout :: int
  hl_redisUp :: bool
  hl_heap :: "launchQueue list"
  hl_launchQueues :: "(string, nat) gomap"
  hl_failureCooldowns :: "(string, gotime \<times> string) gomap"
  hl_cancelled :: "nat list"
  hl_out :: "event list"  \<comment> \<open>commands to Redis\<close>
  hl_alerts :: alert_state

definition pendingSessionTimeout :: int where "pendingSessionTimeout = minutes 5"

definition autoStartCooldownOnFail :: int where "autoStartCooldownOnFail = minutes 2"

definition NewHeadlessManager :: "bool \<Rightarrow> int \<Rightarrow> int \<Rightarrow> alert_state \<Rightarrow> headless" where
  "NewHeadlessManager redisUp maxSessions inactiveSecs alerts =
     \<lparr>hl_sessions = [], hl_pending = [], hl_maxSessions = maxSessions,
      hl_inactiveTimeout = (if inactiveSecs > 0 then seconds inactiveSecs else 0), hl_redisUp = redisUp, hl_heap = [],
      hl_launchQueues = [], hl_failureCooldowns = [], hl_cancelled = [], hl_out = [], hl_alerts = alerts\<rparr>"

subsection \<open>Launches in flight\<close>

definition IsLaunching :: "string \<Rightarrow> headless \<Rightarrow> bool" where
  "IsLaunching cid s \<longleftrightarrow> aget (hl_launchQueues s) cid \<noteq> None"

text \<open>The slot of an earlier launch, or a new one.\<close>

definition tryRegisterLaunch :: "string \<Rightarrow> headless \<Rightarrow> bool \<times> nat \<times> headless" where
  "tryRegisterLaunch cid s =
     (case aget (hl_launchQueues s) cid of
        Some q \<Rightarrow> (False, q, s)
      | None \<Rightarrow>
          (True, length (hl_heap s),
           s\<lparr>hl_heap := hl_heap s @ [\<lparr>lq_done = False, lq_errVal = None, lq_clientID = []\<rparr>],
             hl_launchQueues := aput cid (length (hl_heap s)) (hl_launchQueues s)\<rparr>))"

definition resolve_launch :: "string \<Rightarrow> (launchQueue \<Rightarrow> launchQueue) \<Rightarrow> headless \<Rightarrow> headless" where
  "resolve_launch cid f s =
     (case aget (hl_launchQueues s) cid of
        None \<Rightarrow> s
      | Some q \<Rightarrow> s\<lparr>hl_heap := (hl_heap s)[q := f (hl_heap s ! q)\<lparr>lq_done := True\<rparr>],
                   hl_launchQueues := adel cid (hl_launchQueues s)\<rparr>)"

definition CompleteLaunch :: "string \<Rightarrow> string \<Rightarrow> headless \<Rightarrow> headless" where
  "CompleteLaunch cid result s = resolve_launch cid (\<lambda>q. q\<lparr>lq_clientID := result\<rparr>) s"

definition FailLaunch :: "string \<Rightarrow> string \<Rightarrow> headless \<Rightarrow> headless" where
  "FailLaunch cid err s = resolve_launch cid (\<lambda>q. q\<lparr>lq_errVal := Some err\<rparr>) s"

text \<open>What a waiter reads once the channel is closed.\<close>

definition queue_result :: "string \<Rightarrow> launchQueue \<Rightarrow> string + string" where
  "queue_result otherwise q =
     (if lq_clientID q \<noteq> [] then Inr (lq_clientID q)
      else (case lq_errVal q of Some e \<Rightarrow> Inl e | None \<Rightarrow> Inl otherwise))"

text \<open>\<open>WaitForLaunch\<close> first looks the queue up, then waits for the channel or the timeout.\<close>

definition WaitForLaunch_lookup :: "string \<Rightarrow> headless \<Rightarrow> string + nat" where
  "WaitForLaunch_lookup cid s =
     (case aget (hl_launchQueues s) cid of
        None \<Rightarrow> Inl (''no pending launch for client '' @ cid)
      | Some q \<Rightarrow> Inr q)"

definition WaitForLaunch_result :: "string \<Rightarrow> nat \<Rightarrow> headless \<Rightarrow> string + string" where
  "WaitForLaunch_result cid q s =
     (if lq_done (hl_heap s ! q) then queue_result (''launch failed for client '' @ cid) (hl_heap s ! q)
      else Inl (''timed out waiting for headless session (client '' @ cid @ '')''))"

subsection \<open>Sessions\<close>

definition redis :: "event list \<Rightarrow> headless \<Rightarrow> headless" where
  "redis es s = (if hl_redisUp s then s\<lparr>hl_out := hl_out s @ es\<rparr> else s)"

definition session_key :: "string \<Rightarrow> string" where "session_key i = ''headless_session:'' @ i"

definition headless_key :: "string \<Rightarrow> string" where "headless_key cid = ''headless_client:'' @ cid"

definition global_key :: string where "global_key = ''headless:global_sessions''"

definition registerInRedis :: "string \<Rightarrow> string \<Rightarrow> headless \<Rightarrow> headless" where
  "registerInRedis i cid s =
     redis [RSet (session_key i) cid (minutes 180), RSet (headless_key cid) i (minutes 180), RSAdd global_key i,
            RExpire global_key (minutes 180)] s"

definition forget_in_redis :: "string \<Rightarrow> string \<Rightarrow> headless \<Rightarrow> headless" where
  "forget_in_redis i cid s = redis [RDel (session_key i), RDel (headless_key cid), RSRem global_key i] s"

definition checkGlobalSessionCap :: "(string \<Rightarrow> nat option) \<Rightarrow> headless \<Rightarrow> string option" where
  "checkGlobalSessionCap scard s =
     (if \<not> hl_redisUp s then None
      else (let globalCount = (case scard global_key of None \<Rightarrow> 0 | Some n \<Rightarrow> int n)
            in if hl_maxSessions s > 0 \<and> globalCount \<ge> hl_maxSessions s
               then Some (''maximum headless sessions ('' @ int_text (hl_maxSessions s) @ '') reached globally across all relay instances'')
               else None))"

definition cancel_session :: "string \<Rightarrow> HeadlessSession \<Rightarrow> headless \<Rightarrow> headless" where
  "cancel_session i x s = s\<lparr>hl_cancelled := hl_cancelled s @ [hs_tab x], hl_sessions := adel i (hl_sessions s)\<rparr>"

fun disconnected_loop :: "string \<Rightarrow> (string \<times> HeadlessSession) list \<Rightarrow> headless \<Rightarrow> headless" where
  "disconnected_loop cid [] s = s"
| "disconnected_loop cid ((i, x) # xs) s =
     disconnected_loop cid xs (if hs_ClientID x = cid then forget_in_redis i cid (cancel_session i x s) else s)"

definition OnClientDisconnected :: "string \<Rightarrow> headless \<Rightarrow> headless" where
  "OnClientDisconnected cid s = disconnected_loop cid (hl_sessions s) s"

definition hm_EndSession ::
    "(string \<Rightarrow> nat option) \<Rightarrow> string \<Rightarrow> 'h manager \<Rightarrow> headless \<Rightarrow> string option \<times> 'h manager \<times> headless" where
  "hm_EndSession scard i m s =
     (case aget (hl_sessions s) i of
        Some x \<Rightarrow> (None, RemoveClient scard (hs_ClientID x) m, forget_in_redis i (hs_ClientID x) (cancel_session i x s))
      | None \<Rightarrow>
          (case aget (hl_pending s) i of
             Some p \<Rightarrow> (None, m, s\<lparr>hl_pending := adel i (hl_pending s), hl_cancelled := hl_cancelled s @ [hp_tab p]\<rparr>)
           | None \<Rightarrow> (Some (''session not found: '' @ i), m, s)))"

definition session_info :: "HeadlessSession \<Rightarrow> SessionInfo" where
  "session_info x =
     \<lparr>sx_SessionID = hs_SessionID x, sx_ClientID = hs_ClientID x, sx_FoundryURL = hs_FoundryURL x, sx_Username = hs_Username x,
      sx_WorldName = hs_WorldName x, sx_StartedAt = unix_milli (hs_StartedAt x), sx_LastActivity = unix_milli (hs_LastActivity x)\<rparr>"

definition hm_ListSessions :: "headless \<Rightarrow> SessionInfo list" where
  "hm_ListSessions s = map (\<lambda>(i, x). session_info x) (hl_sessions s)"

definition ValidateHeadlessSession :: "(string \<Rightarrow> string option) \<Rightarrow> string \<Rightarrow> string \<Rightarrow> headless \<Rightarrow> bool option \<times> headless" where
  "ValidateHeadlessSession rget cid token s =
     (if \<not> has_prefix ''foundry-'' cid then (Some True, s)
      else if hl_redisUp s
      then (case rget (headless_key cid) of
              Some (i # is) \<Rightarrow>
                (Some True, redis [RExpire (session_key (i # is)) (minutes 180), RExpire (headless_key cid) (minutes 180)] s)
            | _ \<Rightarrow> (Some True, s))
      else (Some True, s))"

fun hm_end_sessions :: "(string \<Rightarrow> nat option) \<Rightarrow> string list \<Rightarrow> 'h manager \<Rightarrow> headless \<Rightarrow> 'h manager \<times> headless" where
  "hm_end_sessions scard [] m s = (m, s)"
| "hm_end_sessions scard (i # is) m s = (case hm_EndSession scard i m s of (_, m1, s1) \<Rightarrow> hm_end_sessions scard is m1 s1)"

definition inactive_sessions :: "gotime \<Rightarrow> headless \<Rightarrow> string list" where
  "inactive_sessions now s =
     map fst (filter (\<lambda>(i, x). hl_inactiveTimeout s > 0 \<and> now - hs_LastActivity x > hl_inactiveTimeout s) (hl_sessions s))"

definition cleanupInactive :: "(string \<Rightarrow> nat option) \<Rightarrow> gotime \<Rightarrow> 'h manager \<Rightarrow> headless \<Rightarrow> 'h manager \<times> headless" where
  "cleanupInactive scard now m s = hm_end_sessions scard (inactive_sessions now s) m s"

definition cleanupOrphanedPending :: "(string \<Rightarrow> nat option) \<Rightarrow> gotime \<Rightarrow> 'h manager \<Rightarrow> headless \<Rightarrow> 'h manager \<times> headless" where
  "cleanupOrphanedPending scard now m s =
     hm_end_sessions scard (map fst (filter (\<lambda>(i, p). now - hp_StartTime p > pendingSessionTimeout) (hl_pending s))) m s"

definition hm_Shutdown :: "headless \<Rightarrow> headless" where
  "hm_Shutdown s =
     s\<lparr>hl_cancelled := hl_cancelled s @ map (hs_tab \<circ> snd) (hl_sessions s) @ map (hp_tab \<circ> snd) (hl_pending s),
       hl_sessions := [], hl_pending := []\<rparr>"

subsection \<open>The browser\<close>

text \<open>
  What is done in the tab, in order.  The answers of the browser may depend on how many commands the tab
  has received; \<open>br_newTab\<close> may panic (a context without a browser).
\<close>

datatype tab_cmd =
    TSeed string | TNavigate string | TDetect | TAdmin string | TCreate string string | TSelect string
  | TLogin string string | TCanvas | TWorld

record browser =
  br_newTab :: "(string + nat) go"
  br_inject :: "string \<Rightarrow> string option"
  br_navigate :: "nat \<Rightarrow> string option"
  br_detectPage :: "nat \<Rightarrow> string"
  br_adminLogin :: "string \<Rightarrow> string option"
  br_createWorld :: "string \<Rightarrow> string \<Rightarrow> string option"
  br_login :: "string \<Rightarrow> string \<Rightarrow> string option"
  br_canvas :: "string option"
  br_worldID :: string

type_synonym script = "tab_cmd list \<Rightarrow> string option \<times> tab_cmd list"

definition tab_do :: "tab_cmd \<Rightarrow> string \<Rightarrow> (nat \<Rightarrow> string option) \<Rightarrow> script" where
  "tab_do c msg f tr = ((case f (length tr) of None \<Rightarrow> None | Some e \<Rightarrow> Some (msg @ '': '' @ e)), tr @ [c])"

definition tab_then :: "script \<Rightarrow> script \<Rightarrow> script" where
  "tab_then p q tr = (case p tr of (Some e, tr1) \<Rightarrow> (Some e, tr1) | (None, tr1) \<Rightarrow> q tr1)"

definition tab_when :: "bool \<Rightarrow> script \<Rightarrow> script" where
  "tab_when b p tr = (if b then p tr else (None, tr))"

definition tab_page :: "browser \<Rightarrow> (string \<Rightarrow> script) \<Rightarrow> script" where
  "tab_page br f tr = f (br_detectPage br (length tr)) (tr @ [TDetect])"

definition injectConnectionTokenSeed :: "browser \<Rightarrow> string \<Rightarrow> script" where
  "injectConnectionTokenSeed br token =
     tab_when (token \<noteq> []) (tab_do (TSeed token) ''inject connection token seed'' (\<lambda>_. br_inject br token))"

definition tab_navigate :: "browser \<Rightarrow> string \<Rightarrow> string \<Rightarrow> script" where
  "tab_navigate br url msg = tab_do (TNavigate url) msg (br_navigate br)"

text \<open>A failed selection of the world is only logged.\<close>

definition tab_selectWorld :: "browser \<Rightarrow> string \<Rightarrow> script" where
  "tab_selectWorld br world =
     tab_when (world \<noteq> []) (tab_page br (\<lambda>page. tab_when (page = ''worldList'') (tab_do (TSelect world) [] (\<lambda>_. None))))"

definition tab_enter :: "browser \<Rightarrow> string \<Rightarrow> string \<Rightarrow> script" where
  "tab_enter br user password =
     tab_then (tab_do (TLogin user password) ''login failed'' (\<lambda>_. br_login br user password))
       (tab_do TCanvas ''game canvas did not load'' (\<lambda>_. br_canvas br))"

record launch_args =
  la_apiKey :: string
  la_foundryURL :: string
  la_username :: string
  la_password :: string
  la_adminPassword :: string
  la_worldName :: string
  la_seedToken :: string
  la_createWorldName :: string
  la_createWorldSystem :: string
  la_expectedClientID :: string
  la_expectedWorldID :: string

text \<open>\<open>LaunchSession\<close> before the clients of the account are noted, and after.\<close>

definition session_script :: "browser \<Rightarrow> launch_args \<Rightarrow> script" where
  "session_script br a =
     tab_then (injectConnectionTokenSeed br (la_seedToken a))
    (tab_then (tab_navigate br (la_foundryURL a) ''navigate to Foundry'')
    (tab_then (tab_page br (\<lambda>page. tab_when (page = ''admin'')
        (tab_then (tab_do (TAdmin (la_adminPassword a)) ''administrator login failed'' (\<lambda>_. br_adminLogin br (la_adminPassword a)))
           (tab_navigate br (la_foundryURL a) ''reload after administrator login''))))
    (tab_then (tab_when (la_createWorldName a \<noteq> []) (tab_page br (\<lambda>page. tab_when (page = ''worldList'')
        (tab_then (tab_do (TCreate (la_createWorldName a) (la_createWorldSystem a)) ''world creation failed''
                     (\<lambda>_. br_createWorld br (la_createWorldName a) (la_createWorldSystem a)))
           (tab_navigate br (la_foundryURL a) ''reload world list after creation'')))))
     (tab_selectWorld br (la_worldName a)))))"

definition seeded_script :: "browser \<Rightarrow> launch_args \<Rightarrow> script" where
  "seeded_script br a =
     tab_then (injectConnectionTokenSeed br (la_seedToken a))
    (tab_then (tab_navigate br (la_foundryURL a) ''navigate to Foundry'')
    (tab_then (tab_selectWorld br (la_worldName a))
    (tab_then (tab_enter br (la_username a) (la_password a))
     (tab_when (la_expectedWorldID a \<noteq> [])
        (\<lambda>tr. (if br_worldID br \<noteq> [] \<and> br_worldID br \<noteq> la_expectedWorldID a
               then Some (''wrong world loaded: server is running '' @ go_quote (br_worldID br) @ '', expected '' @
                          go_quote (la_expectedWorldID a))
               else None, tr @ [TWorld]))))))"

subsection \<open>A launch\<close>

type_synonym 'h tick = "gotime \<times> 'h manager \<times> (headless \<Rightarrow> headless)"

text \<open>
  What a launch meets: the answers of Redis and of the browser, the identifier and the random token drawn for it,
  the registry when it begins and when it notes the clients of the account, the moment it starts to poll, the polls
  (their end is the timeout), and the change of the database that others make while it runs.
\<close>

record 'h launch_env =
  le_scard :: "string \<Rightarrow> nat option"
  le_alertsDB :: bool
  le_hasDB :: bool
  le_duration :: "int \<Rightarrow> string"
  le_stamp :: "gotime \<Rightarrow> string"
  le_sha :: "string \<Rightarrow> string"
  le_decrypt :: "string \<Rightarrow> string \<Rightarrow> string \<Rightarrow> string + string"
  le_dbError :: string
  le_browser :: browser
  le_uuid :: string
  le_random :: "string + string"
  le_now :: gotime
  le_registry :: "'h manager"
  le_snapshot :: "'h manager"
  le_ready :: "gotime \<times> (headless \<Rightarrow> headless)"
  le_ticks :: "'h tick list"
  le_last :: "headless \<Rightarrow> headless"
  le_meanwhile :: "db \<Rightarrow> db"

fun stale_loop :: "'h manager \<Rightarrow> (string \<times> HeadlessSession) list \<Rightarrow> headless \<Rightarrow> headless" where
  "stale_loop m [] s = s"
| "stale_loop m ((i, x) # xs) s =
     stale_loop m xs (if GetClient (hs_ClientID x) m = None then cancel_session i x s else s)"

definition session_count :: "string \<Rightarrow> headless \<Rightarrow> int" where
  "session_count apiKey s = int (length (filter (\<lambda>(i, x). hs_APIKey x = apiKey) (hl_sessions s)))"

text \<open>Stale sessions go, then the two caps.\<close>

definition launch_admit :: "'h launch_env \<Rightarrow> string \<Rightarrow> string \<Rightarrow> headless \<Rightarrow> string option \<times> headless" where
  "launch_admit le apiKey whose s =
     (let s1 = stale_loop (le_registry le) (hl_sessions s) s
      in if hl_maxSessions s1 > 0 \<and> session_count apiKey s1 \<ge> hl_maxSessions s1
         then (Some (''maximum headless sessions ('' @ int_text (hl_maxSessions s1) @ '') reached for this '' @ whose),
               s1\<lparr>hl_alerts := track_and_fire (le_now le) (le_alertsDB le) ''headless_limit'' 3 (minutes 10) (minutes 60)
                    (warning ''headless_session_flood'' ''Headless session limit hit 3+ times in 10 minutes''
                       [(''maxSessions'', JNum (hl_maxSessions s1))]) (hl_alerts s1)\<rparr>)
         else (checkGlobalSessionCap (le_scard le) s1, s1))"

definition cancel_tab :: "nat \<Rightarrow> headless \<Rightarrow> headless" where
  "cancel_tab tab s = s\<lparr>hl_cancelled := hl_cancelled s @ [tab]\<rparr>"

definition launch_pending :: "'h launch_env \<Rightarrow> launch_args \<Rightarrow> nat \<Rightarrow> headless \<Rightarrow> headless" where
  "launch_pending le a tab s =
     (let s1 = snd (le_ready le) s
      in s1\<lparr>hl_pending := aput (le_uuid le)
              \<lparr>hp_SessionID = le_uuid le, hp_ExpectedClientID = la_expectedClientID a, hp_APIKey = la_apiKey a, hp_tab = tab,
               hp_StartTime = fst (le_ready le)\<rparr> (hl_pending s1)\<rparr>)"

text \<open>The module has appeared as \<open>cid\<close>.\<close>

definition establish :: "'h launch_env \<Rightarrow> launch_args \<Rightarrow> nat \<Rightarrow> gotime \<Rightarrow> string \<Rightarrow> headless \<Rightarrow> headless" where
  "establish le a tab now cid s =
     registerInRedis (le_uuid le) cid
       (s\<lparr>hl_pending := adel (le_uuid le) (hl_pending s),
          hl_sessions := aput (le_uuid le)
            \<lparr>hs_SessionID = le_uuid le, hs_ClientID = cid, hs_APIKey = la_apiKey a, hs_FoundryURL = la_foundryURL a,
             hs_Username = la_username a, hs_WorldName = la_worldName a, hs_tab = tab, hs_StartedAt = now, hs_LastActivity = now\<rparr>
            (hl_sessions s)\<rparr>)"

definition poll_timeout :: "'h launch_env \<Rightarrow> nat \<Rightarrow> headless \<Rightarrow> headless" where
  "poll_timeout le tab s =
     (let s1 = le_last le s in cancel_tab tab (s1\<lparr>hl_pending := adel (le_uuid le) (hl_pending s1)\<rparr>))"

text \<open>\<open>found\<close> says which client a registry offers.\<close>

fun poll_loop ::
    "'h launch_env \<Rightarrow> launch_args \<Rightarrow> nat \<Rightarrow> ('h manager \<Rightarrow> string option) \<Rightarrow> 'h tick list \<Rightarrow> headless \<Rightarrow> string option \<times> headless" where
  "poll_loop le a tab found [] s = (None, poll_timeout le tab s)"
| "poll_loop le a tab found ((now, m, w) # ts) s =
     (case found m of
        Some cid \<Rightarrow> (Some cid, establish le a tab now cid (w s))
      | None \<Rightarrow> poll_loop le a tab found ts (w s))"

definition new_client :: "string \<Rightarrow> string list \<Rightarrow> 'h manager \<Rightarrow> string option" where
  "new_client apiKey existing m = find (\<lambda>cid. cid \<notin> set existing) (GetConnectedClients apiKey m)"

definition exact_client :: "string \<Rightarrow> string \<Rightarrow> 'h manager \<Rightarrow> string option" where
  "exact_client apiKey cid m =
     (case GetClient cid m of
        Some ref \<Rightarrow> if cl_apiKey (mg_heap m ! ref) = apiKey then Some cid else None
      | None \<Rightarrow> None)"

definition LaunchSession ::
    "'h launch_env \<Rightarrow> launch_args \<Rightarrow> headless \<Rightarrow> (string + string \<times> string) go \<times> tab_cmd list \<times> headless" where
  "LaunchSession le a s =
     (case launch_admit le (la_apiKey a) ''API key'' s of
        (Some e, s1) \<Rightarrow> (Ret (Inl e), [], s1)
      | (None, s1) \<Rightarrow>
          (case br_newTab (le_browser le) of
             Panic p \<Rightarrow> (Panic p, [], s1)
           | Ret (Inl e) \<Rightarrow> (Ret (Inl (''create isolated tab: '' @ e)), [], s1)
           | Ret (Inr tab) \<Rightarrow>
               (case session_script (le_browser le) a [] of
                  (Some e, tr) \<Rightarrow> (Ret (Inl e), tr, cancel_tab tab s1)
                | (None, tr) \<Rightarrow>
                    (case tab_enter (le_browser le) (la_username a) (la_password a) tr of
                       (Some e, tr1) \<Rightarrow> (Ret (Inl e), tr1, cancel_tab tab s1)
                     | (None, tr1) \<Rightarrow>
                         (case poll_loop le a tab (new_client (la_apiKey a) (GetConnectedClients (la_apiKey a) (le_snapshot le)))
                                 (le_ticks le) (launch_pending le a tab s1) of
                            (Some cid, s2) \<Rightarrow> (Ret (Inr (le_uuid le, cid)), tr1, s2)
                          | (None, s2) \<Rightarrow> (Ret (Inl ''client connection timed out after 5m0s''), tr1, s2))))))"

definition launchHeadlessWithSeededToken ::
    "'h launch_env \<Rightarrow> launch_args \<Rightarrow> headless \<Rightarrow> (string + string) go \<times> tab_cmd list \<times> headless" where
  "launchHeadlessWithSeededToken le a s =
     (case launch_admit le (la_apiKey a) ''account'' s of
        (Some e, s1) \<Rightarrow> (Ret (Inl e), [], s1)
      | (None, s1) \<Rightarrow>
          (case br_newTab (le_browser le) of
             Panic p \<Rightarrow> (Panic p, [], s1)
           | Ret (Inl e) \<Rightarrow> (Ret (Inl (''create isolated tab: '' @ e)), [], s1)
           | Ret (Inr tab) \<Rightarrow>
               (case seeded_script (le_browser le) a [] of
                  (Some e, tr) \<Rightarrow> (Ret (Inl e), tr, cancel_tab tab s1)
                | (None, tr) \<Rightarrow>
                    (case poll_loop le a tab (exact_client (la_apiKey a) (la_expectedClientID a)) (le_ticks le)
                            (launch_pending le a tab s1) of
                       (Some cid, s2) \<Rightarrow> (Ret (Inr (la_expectedClientID a)), tr, s2)
                     | (None, s2) \<Rightarrow> (Ret (Inl ''seeded headless client did not register within 1m0s''), tr, s2)))))"

subsection \<open>The start of a known world\<close>

text \<open>\<open>GenerateHeadlessToken\<close>: the text of 32 random bytes and its hash.\<close>

definition GenerateHeadlessToken :: "'h launch_env \<Rightarrow> string + string \<times> string" where
  "GenerateHeadlessToken le = (case le_random le of Inl e \<Rightarrow> Inl e | Inr raw \<Rightarrow> Inr (raw, le_sha le raw))"

text \<open>Steps 1 to 3: the account's hash, its world, the world's credential and the password.\<close>

definition start_plan :: "'h launch_env \<Rightarrow> int \<Rightarrow> string \<Rightarrow> db \<Rightarrow> string + string \<times> KnownClient \<times> Credential \<times> string" where
  "start_plan le uid cid d =
     (if \<not> le_hasDB le then Inl ''headless manager has no DB wired; cannot auto-start''
      else case us_FindByID uid d of
        DBOk (Some user) \<Rightarrow>
          (case us_APIKeyHash user of
             Some (h # hash) \<Rightarrow>
               (case kc_FindByClientID uid cid d of
                  DBOk (Some known) \<Rightarrow>
                    if \<not> kc_AutoStartOnRemoteRequest known then Inl (''clientId '' @ cid @ '' does not have auto-start enabled'')
                    else (case kc_CredentialID known of
                      None \<Rightarrow> Inl (''clientId '' @ cid @ '' has auto-start enabled but no credential assigned; select one in Connections'')
                    | Some crid \<Rightarrow>
                        (let bad = Inl (''KnownClient.credentialId references missing or unauthorized credential '' @ int_text crid)
                         in case cr_FindByID crid d of
                              DBOk (Some credential) \<Rightarrow>
                                if cr_UserID credential \<noteq> uid then bad
                                else (case le_decrypt le (cr_EncryptedFoundryPassword credential) (cr_PasswordIV credential)
                                             (cr_PasswordAuthTag credential) of
                                        Inl e \<Rightarrow> Inl (''decrypt credential: '' @ e)
                                      | Inr password \<Rightarrow> Inr (h # hash, known, credential, password))
                            | _ \<Rightarrow> bad))
                | _ \<Rightarrow> Inl (''clientId '' @ cid @ '' not found in known clients for user '' @ int_text uid))
           | _ \<Rightarrow> Inl (''user '' @ int_text uid @ '' has no apiKeyHash (must regenerate relay key)''))
      | _ \<Rightarrow> Inl (''user '' @ int_text uid @ '' not found''))"

definition headless_token :: "int \<Rightarrow> string \<Rightarrow> string \<Rightarrow> ConnectionToken" where
  "headless_token uid hash name =
     \<lparr>ct_ID = 0, ct_UserID = uid, ct_TokenHash = hash, ct_Name = name, ct_AllowedIPs = None, ct_AllowedTargetClients = None,
      ct_RemoteScopes = None, ct_RemoteRequestsPerHour = 0, ct_ClientID = [], ct_Source = ''headless'', ct_LastUsedAt = None,
      ct_CreatedAt = zero_time, ct_UpdatedAt = zero_time\<rparr>"

definition seeded_args :: "string \<Rightarrow> KnownClient \<Rightarrow> Credential \<Rightarrow> string \<Rightarrow> string \<Rightarrow> string \<Rightarrow> launch_args" where
  "seeded_args account known credential password cid raw =
     \<lparr>la_apiKey = account, la_foundryURL = cr_FoundryURL credential, la_username = cr_FoundryUsername credential,
      la_password = password, la_adminPassword = [],
      la_worldName = (if cr_World credential = [] then null_str (kc_WorldTitle known) else cr_World credential),
      la_seedToken = raw, la_createWorldName = [], la_createWorldSystem = [], la_expectedClientID = cid,
      la_expectedWorldID = null_str (kc_WorldID known)\<rparr>"

text \<open>The deferred revocation runs on an error and on a panic; its own error is ignored.\<close>

definition doAutoStartForKnownClient ::
    "'h launch_env \<Rightarrow> int \<Rightarrow> string \<Rightarrow> headless \<Rightarrow> db \<Rightarrow> (string + string) go \<times> tab_cmd list \<times> headless \<times> db" where
  "doAutoStartForKnownClient le uid cid s d =
     (case start_plan le uid cid d of
        Inl e \<Rightarrow> (Ret (Inl e), [], s, d)
      | Inr (account, known, credential, password) \<Rightarrow>
          (case GenerateHeadlessToken le of
             Inl e \<Rightarrow> (Ret (Inl (''generate headless token: '' @ e)), [], s, d)
           | Inr (raw, hash) \<Rightarrow>
               (case tk_Create (le_now le) (headless_token uid hash (''headless '' @ cid @ '' '' @ le_stamp le (le_now le))) d of
                  (DBErr, tok, d1) \<Rightarrow> (Ret (Inl (''persist headless token: '' @ le_dbError le)), [], s, d1)
                | (DBOk _, tok, d1) \<Rightarrow>
                    (case launchHeadlessWithSeededToken le (seeded_args account known credential password cid raw) s of
                       (Ret (Inr rid), tr, s1) \<Rightarrow> (Ret (Inr rid), tr, s1, le_meanwhile le d1)
                     | (res, tr, s1) \<Rightarrow> (res, tr, s1, snd (tk_Delete (ct_ID tok) (le_meanwhile le d1)))))))"

text \<open>Half a second and more is rounded up.\<close>

definition round_second :: "int \<Rightarrow> int" where
  "round_second n = (n + 500000000) div 1000000000 * 1000000000"

definition check_cooldown :: "'h launch_env \<Rightarrow> gotime \<Rightarrow> string \<Rightarrow> headless \<Rightarrow> string option \<times> headless" where
  "check_cooldown le now cid s =
     (case aget (hl_failureCooldowns s) cid of
        None \<Rightarrow> (None, s)
      | Some (until, reason) \<Rightarrow>
          if now < until
          then (Some (reason @ '' (auto-start blocked for '' @ le_duration le (round_second (until - now)) @ '', retry after cooldown)''), s)
          else (None, s\<lparr>hl_failureCooldowns := adel cid (hl_failureCooldowns s)\<rparr>))"

definition set_cooldown :: "gotime \<Rightarrow> string \<Rightarrow> string \<Rightarrow> headless \<Rightarrow> headless" where
  "set_cooldown now cid err s = s\<lparr>hl_failureCooldowns := aput cid (now + autoStartCooldownOnFail, err) (hl_failureCooldowns s)\<rparr>"

definition recovered :: "(string + string) go \<Rightarrow> string + string" where
  "recovered res = (case res of Ret r \<Rightarrow> r | Panic p \<Rightarrow> Inl (''auto-start panicked: '' @ p))"

text \<open>\<open>AutoStartForKnownClient\<close> at one go: \<open>Inr q\<close> when it has to wait for the launch in flight.\<close>

definition AutoStartForKnownClient ::
    "'h launch_env \<Rightarrow> gotime \<Rightarrow> int \<Rightarrow> string \<Rightarrow> headless \<Rightarrow> db \<Rightarrow> ((string + string) + nat) \<times> headless \<times> db" where
  "AutoStartForKnownClient le fin uid cid s d =
     (case check_cooldown le (le_now le) cid s of
        (Some e, s1) \<Rightarrow> (Inl (Inl e), s1, d)
      | (None, s1) \<Rightarrow>
          (case tryRegisterLaunch cid s1 of
             (False, q, s2) \<Rightarrow> (Inr q, s2, d)
           | (True, q, s2) \<Rightarrow>
               (case doAutoStartForKnownClient le uid cid s2 d of
                  (res, tr, s3, d3) \<Rightarrow>
                    (case recovered res of
                       Inl e \<Rightarrow> (Inl (Inl e), set_cooldown fin cid e (FailLaunch cid e s3), d3)
                     | Inr rid \<Rightarrow> (Inl (Inr rid), CompleteLaunch cid rid s3, d3)))))"

subsection \<open>One launch at a time for a world\<close>

text \<open>
  The goroutines that want a world started, at the grain of the critical sections of the manager.  A caller passes the
  cooldown (\<open>Cooled\<close>), then owns a new launch or joins the one in flight; or it comes from the server, saw
  \<open>IsLaunching\<close> (\<open>Checked\<close>) and asks \<open>WaitForLaunch\<close>.  The outcome of a launch is whatever
  \<open>doAutoStartForKnownClient\<close> brought; \<open>fl_outcome\<close> notes it.  A waiter may give up at any time (its context or
  timeout), and the rest of the manager changes as it likes.
\<close>

datatype caller =
    Idle | Checked string | Cooled string | Owner string nat | Failing string string | Waiter string string nat
  | Returned "string + string"

record flight =
  fl_state :: headless
  fl_callers :: "nat \<Rightarrow> caller"
  fl_outcome :: "nat \<Rightarrow> (string + string) option"

definition joined :: "string \<Rightarrow> string + string \<Rightarrow> string + string" where
  "joined otherwise r = (case r of Inr [] \<Rightarrow> Inl otherwise | _ \<Rightarrow> r)"

definition to_caller :: "nat \<Rightarrow> caller \<Rightarrow> headless \<Rightarrow> flight \<Rightarrow> flight" where
  "to_caller i c s f = f\<lparr>fl_state := s, fl_callers := (fl_callers f)(i := c)\<rparr>"

definition noted :: "nat \<Rightarrow> string + string \<Rightarrow> flight \<Rightarrow> flight" where
  "noted q r f = f\<lparr>fl_outcome := (fl_outcome f)(q := Some r)\<rparr>"

inductive flight_step :: "'h launch_env \<Rightarrow> flight \<Rightarrow> flight \<Rightarrow> bool" for le where
  refused: "\<lbrakk>fl_callers f i = Idle; check_cooldown le now cid (fl_state f) = (Some e, s)\<rbrakk> \<Longrightarrow>
     flight_step le f (to_caller i (Returned (Inl e)) s f)"
| passed: "\<lbrakk>fl_callers f i = Idle; check_cooldown le now cid (fl_state f) = (None, s)\<rbrakk> \<Longrightarrow>
     flight_step le f (to_caller i (Cooled cid) s f)"
| owns: "\<lbrakk>fl_callers f i = Cooled cid; tryRegisterLaunch cid (fl_state f) = (True, q, s)\<rbrakk> \<Longrightarrow>
     flight_step le f (to_caller i (Owner cid q) s f)"
| joins: "\<lbrakk>fl_callers f i = Cooled cid; tryRegisterLaunch cid (fl_state f) = (False, q, s)\<rbrakk> \<Longrightarrow>
     flight_step le f (to_caller i (Waiter cid (''in-flight auto-start failed for '' @ cid) q) s f)"
| succeeds: "fl_callers f i = Owner cid q \<Longrightarrow>
     flight_step le f (noted q (Inr rid) (to_caller i (Returned (Inr rid)) (CompleteLaunch cid rid (fl_state f)) f))"
| fails: "fl_callers f i = Owner cid q \<Longrightarrow>
     flight_step le f (noted q (Inl e) (to_caller i (Failing cid e) (FailLaunch cid e (fl_state f)) f))"
| cools: "fl_callers f i = Failing cid e \<Longrightarrow>
     flight_step le f (to_caller i (Returned (Inl e)) (set_cooldown now cid e (fl_state f)) f)"
| receives: "\<lbrakk>fl_callers f i = Waiter cid msg q; lq_done (hl_heap (fl_state f) ! q)\<rbrakk> \<Longrightarrow>
     flight_step le f (to_caller i (Returned (queue_result msg (hl_heap (fl_state f) ! q))) (fl_state f) f)"
| gives_up: "fl_callers f i = Waiter cid msg q \<Longrightarrow> flight_step le f (to_caller i (Returned (Inl e)) (fl_state f) f)"
| checks: "\<lbrakk>fl_callers f i = Idle; IsLaunching cid (fl_state f)\<rbrakk> \<Longrightarrow>
     flight_step le f (to_caller i (Checked cid) (fl_state f) f)"
| too_late: "\<lbrakk>fl_callers f i = Checked cid; WaitForLaunch_lookup cid (fl_state f) = Inl e\<rbrakk> \<Longrightarrow>
     flight_step le f (to_caller i (Returned (Inl e)) (fl_state f) f)"
| waits: "\<lbrakk>fl_callers f i = Checked cid; WaitForLaunch_lookup cid (fl_state f) = Inr q\<rbrakk> \<Longrightarrow>
     flight_step le f (to_caller i (Waiter cid (''launch failed for client '' @ cid) q) (fl_state f) f)"
| others: "\<lbrakk>hl_heap s = hl_heap (fl_state f); hl_launchQueues s = hl_launchQueues (fl_state f)\<rbrakk> \<Longrightarrow>
     flight_step le f (f\<lparr>fl_state := s\<rparr>)"

inductive flight_reachable :: "'h launch_env \<Rightarrow> flight \<Rightarrow> bool" for le where
  start: "\<lbrakk>hl_heap s = []; hl_launchQueues s = []\<rbrakk> \<Longrightarrow>
     flight_reachable le \<lparr>fl_state = s, fl_callers = (\<lambda>_. Idle), fl_outcome = (\<lambda>_. None)\<rparr>"
| step: "\<lbrakk>flight_reachable le f; flight_step le f g\<rbrakk> \<Longrightarrow> flight_reachable le g"

definition launch_settled :: "flight \<Rightarrow> nat \<Rightarrow> bool" where
  "launch_settled f q \<longleftrightarrow> lq_done (hl_heap (fl_state f) ! q) \<and>
     (\<exists>r. fl_outcome f q = Some r \<and> (\<forall>msg. queue_result msg (hl_heap (fl_state f) ! q) = joined msg r))"

definition flight_inv :: "flight \<Rightarrow> bool" where
  "flight_inv f \<longleftrightarrow>
     (\<forall>c q. aget (hl_launchQueues (fl_state f)) c = Some q \<longrightarrow>
        q < length (hl_heap (fl_state f)) \<and> hl_heap (fl_state f) ! q = \<lparr>lq_done = False, lq_errVal = None, lq_clientID = []\<rparr> \<and>
        (\<exists>i. fl_callers f i = Owner c q)) \<and>
     (\<forall>i c q. fl_callers f i = Owner c q \<longrightarrow> aget (hl_launchQueues (fl_state f)) c = Some q) \<and>
     (\<forall>i j c q. fl_callers f i = Owner c q \<longrightarrow> fl_callers f j = Owner c q \<longrightarrow> i = j) \<and>
     (\<forall>c c' q. aget (hl_launchQueues (fl_state f)) c = Some q \<longrightarrow> aget (hl_launchQueues (fl_state f)) c' = Some q \<longrightarrow> c = c') \<and>
     (\<forall>i c msg q. fl_callers f i = Waiter c msg q \<longrightarrow>
        q < length (hl_heap (fl_state f)) \<and> (aget (hl_launchQueues (fl_state f)) c = Some q \<or> launch_settled f q))"

lemma flight_invI:
  assumes "\<And>c q. aget (hl_launchQueues (fl_state f)) c = Some q \<Longrightarrow>
      q < length (hl_heap (fl_state f)) \<and> hl_heap (fl_state f) ! q = \<lparr>lq_done = False, lq_errVal = None, lq_clientID = []\<rparr> \<and>
      (\<exists>i. fl_callers f i = Owner c q)"
    and "\<And>i c q. fl_callers f i = Owner c q \<Longrightarrow> aget (hl_launchQueues (fl_state f)) c = Some q"
    and "\<And>i j c q. \<lbrakk>fl_callers f i = Owner c q; fl_callers f j = Owner c q\<rbrakk> \<Longrightarrow> i = j"
    and "\<And>c c' q. \<lbrakk>aget (hl_launchQueues (fl_state f)) c = Some q; aget (hl_launchQueues (fl_state f)) c' = Some q\<rbrakk> \<Longrightarrow> c = c'"
    and "\<And>i c msg q. fl_callers f i = Waiter c msg q \<Longrightarrow>
      q < length (hl_heap (fl_state f)) \<and> (aget (hl_launchQueues (fl_state f)) c = Some q \<or> launch_settled f q)"
  shows "flight_inv f"
  using assms unfolding flight_inv_def by blast

lemma flight_invD:
  assumes "flight_inv f" "aget (hl_launchQueues (fl_state f)) c = Some q"
  shows "q < length (hl_heap (fl_state f))" "hl_heap (fl_state f) ! q = \<lparr>lq_done = False, lq_errVal = None, lq_clientID = []\<rparr>"
    "\<exists>i. fl_callers f i = Owner c q"
  using assms unfolding flight_inv_def by blast+

text \<open>A step that leaves the queues alone and makes no owner.\<close>

lemma flight_inv_same:
  assumes inv: "flight_inv f" and same: "hl_heap s = hl_heap (fl_state f)" "hl_launchQueues s = hl_launchQueues (fl_state f)"
    and notowner: "\<And>c q. fl_callers f i \<noteq> Owner c q" "\<And>c q. new \<noteq> Owner c q"
    and waiter: "\<And>c msg q. new = Waiter c msg q \<Longrightarrow> aget (hl_launchQueues (fl_state f)) c = Some q"
  shows "flight_inv (to_caller i new s f)"
proof (rule flight_invI)
  show "q < length (hl_heap (fl_state (to_caller i new s f))) \<and>
      hl_heap (fl_state (to_caller i new s f)) ! q = \<lparr>lq_done = False, lq_errVal = None, lq_clientID = []\<rparr> \<and>
      (\<exists>j. fl_callers (to_caller i new s f) j = Owner c q)"
    if "aget (hl_launchQueues (fl_state (to_caller i new s f))) c = Some q" for c q
    using that inv same notowner(1) unfolding flight_inv_def to_caller_def by (fastforce split: if_splits)
  show "q < length (hl_heap (fl_state (to_caller i new s f))) \<and>
      (aget (hl_launchQueues (fl_state (to_caller i new s f))) c = Some q \<or> launch_settled (to_caller i new s f) q)"
    if "fl_callers (to_caller i new s f) j = Waiter c msg q" for j c msg q
    using that inv same waiter unfolding flight_inv_def to_caller_def launch_settled_def by (fastforce split: if_splits)
qed (use inv same notowner in \<open>auto simp: flight_inv_def to_caller_def split: if_splits\<close>)

lemma check_cooldown_queues:
  assumes "check_cooldown le now cid s = (r, s')"
  shows "hl_heap s' = hl_heap s" "hl_launchQueues s' = hl_launchQueues s"
  using assms by (auto simp: check_cooldown_def split: option.splits if_splits prod.splits)

lemma tryRegisterLaunch_True:
  assumes "tryRegisterLaunch cid s = (True, q, s')"
  shows "aget (hl_launchQueues s) cid = None" "q = length (hl_heap s)"
    "hl_heap s' = hl_heap s @ [\<lparr>lq_done = False, lq_errVal = None, lq_clientID = []\<rparr>]"
    "hl_launchQueues s' = aput cid q (hl_launchQueues s)"
  using assms by (auto simp: tryRegisterLaunch_def split: option.splits)

lemma tryRegisterLaunch_False:
  assumes "tryRegisterLaunch cid s = (False, q, s')"
  shows "aget (hl_launchQueues s) cid = Some q" "s' = s"
  using assms by (auto simp: tryRegisterLaunch_def split: option.splits)

lemma flight_inv_owns:
  assumes inv: "flight_inv f" and idle: "fl_callers f i = Cooled cid"
    and reg: "tryRegisterLaunch cid (fl_state f) = (True, q, s)"
  shows "flight_inv (to_caller i (Owner cid q) s f)"
proof -
  note r = tryRegisterLaunch_True [OF reg]
  have lt: "p < length (hl_heap (fl_state f))" if "aget (hl_launchQueues (fl_state f)) c = Some p" for c p
    using flight_invD(1) [OF inv that] .
  have wt: "p < length (hl_heap (fl_state f))" if "fl_callers f j = Waiter c msg p" for j c msg p
    using inv that unfolding flight_inv_def by blast
  show ?thesis
  proof (rule flight_invI)
    show "p < length (hl_heap (fl_state (to_caller i (Owner cid q) s f))) \<and>
        hl_heap (fl_state (to_caller i (Owner cid q) s f)) ! p = \<lparr>lq_done = False, lq_errVal = None, lq_clientID = []\<rparr> \<and>
        (\<exists>j. fl_callers (to_caller i (Owner cid q) s f) j = Owner c p)"
      if a: "aget (hl_launchQueues (fl_state (to_caller i (Owner cid q) s f))) c = Some p" for c p
    proof (cases "c = cid")
      case True
      then show ?thesis using a r by (auto simp: to_caller_def)
    next
      case False
      then have old: "aget (hl_launchQueues (fl_state f)) c = Some p"
        using a r by (simp add: to_caller_def)
      obtain j where "fl_callers f j = Owner c p"
        using inv old unfolding flight_inv_def by blast
      moreover have "j \<noteq> i" using calculation idle by auto
      ultimately show ?thesis
        using flight_invD(2) [OF inv old] lt [OF old] r by (auto simp: to_caller_def nth_append)
    qed
    show "aget (hl_launchQueues (fl_state (to_caller i (Owner cid q) s f))) c = Some p"
      if "fl_callers (to_caller i (Owner cid q) s f) j = Owner c p" for j c p
      using that inv r by (auto simp: to_caller_def flight_inv_def split: if_splits)
    show "j = k" if "fl_callers (to_caller i (Owner cid q) s f) j = Owner c p" "fl_callers (to_caller i (Owner cid q) s f) k = Owner c p"
      for j k c p
      using that inv r(1) unfolding flight_inv_def by (auto simp: to_caller_def split: if_splits)
    show "c = c'" if "aget (hl_launchQueues (fl_state (to_caller i (Owner cid q) s f))) c = Some p"
      "aget (hl_launchQueues (fl_state (to_caller i (Owner cid q) s f))) c' = Some p" for c c' p
      using that inv r lt unfolding flight_inv_def by (auto simp: to_caller_def split: if_splits)
    show "p < length (hl_heap (fl_state (to_caller i (Owner cid q) s f))) \<and>
        (aget (hl_launchQueues (fl_state (to_caller i (Owner cid q) s f))) c = Some p \<or> launch_settled (to_caller i (Owner cid q) s f) p)"
      if "fl_callers (to_caller i (Owner cid q) s f) j = Waiter c msg p" for j c msg p
    proof -
      have w: "fl_callers f j = Waiter c msg p"
        using that by (auto simp: to_caller_def split: if_splits)
      have "aget (hl_launchQueues (fl_state f)) c = Some p \<or> launch_settled f p"
        using inv w unfolding flight_inv_def by blast
      then show ?thesis
        using wt [OF w] r by (auto simp: to_caller_def launch_settled_def nth_append)
    qed
  qed
qed

text \<open>The two ways in which a launch resolves.\<close>

lemma resolve_launch_found:
  assumes "aget (hl_launchQueues s) cid = Some q"
  shows "hl_heap (resolve_launch cid g s) = (hl_heap s)[q := g (hl_heap s ! q)\<lparr>lq_done := True\<rparr>]"
    "hl_launchQueues (resolve_launch cid g s) = adel cid (hl_launchQueues s)"
  using assms by (simp_all add: resolve_launch_def)

lemma flight_inv_resolves:
  assumes inv: "flight_inv f" and owner: "fl_callers f i = Owner cid q" and new: "\<And>c p. new \<noteq> Owner c p" "\<And>c m p. new \<noteq> Waiter c m p"
    and g: "\<And>msg. queue_result msg (g \<lparr>lq_done = False, lq_errVal = None, lq_clientID = []\<rparr>\<lparr>lq_done := True\<rparr>) = joined msg r"
      "\<And>x. lq_done (g (x\<lparr>lq_done := True\<rparr>))"
  shows "flight_inv (noted q r (to_caller i new (resolve_launch cid g (fl_state f)) f))"
proof -
  let ?g = "noted q r (to_caller i new (resolve_launch cid g (fl_state f)) f)"
  have own: "aget (hl_launchQueues (fl_state f)) cid = Some q"
    using inv owner unfolding flight_inv_def by blast
  then have lt: "q < length (hl_heap (fl_state f))"
    and fresh: "hl_heap (fl_state f) ! q = \<lparr>lq_done = False, lq_errVal = None, lq_clientID = []\<rparr>"
    using flight_invD [OF inv] by blast+
  note res = resolve_launch_found [OF own, of g]
  have other: "c \<noteq> cid \<longleftrightarrow> p \<noteq> q" if "aget (hl_launchQueues (fl_state f)) c = Some p" for c p
    using inv own that unfolding flight_inv_def by (metis option.inject)
  have done_q: "launch_settled ?g q"
    using g lt fresh by (simp add: launch_settled_def noted_def to_caller_def res)
  show ?thesis
  proof (rule flight_invI)
    show "p < length (hl_heap (fl_state ?g)) \<and> hl_heap (fl_state ?g) ! p = \<lparr>lq_done = False, lq_errVal = None, lq_clientID = []\<rparr> \<and>
        (\<exists>j. fl_callers ?g j = Owner c p)" if a: "aget (hl_launchQueues (fl_state ?g)) c = Some p" for c p
    proof -
      have old: "aget (hl_launchQueues (fl_state f)) c = Some p" and "c \<noteq> cid"
        using a by (auto simp: noted_def to_caller_def res split: if_splits)
      then have "p \<noteq> q" using other by blast
      obtain j where j: "fl_callers f j = Owner c p"
        using inv old unfolding flight_inv_def by blast
      then have "j \<noteq> i" using owner \<open>c \<noteq> cid\<close> by auto
      then show ?thesis
        using j flight_invD(1,2) [OF inv old] \<open>p \<noteq> q\<close> by (auto simp: noted_def to_caller_def res)
    qed
    show "aget (hl_launchQueues (fl_state ?g)) c = Some p" if a: "fl_callers ?g j = Owner c p" for j c p
    proof -
      have j: "fl_callers f j = Owner c p" "j \<noteq> i"
        using a new by (auto simp: noted_def to_caller_def split: if_splits)
      then have p: "aget (hl_launchQueues (fl_state f)) c = Some p"
        using inv unfolding flight_inv_def by blast
      have "c \<noteq> cid"
        using inv j owner p own unfolding flight_inv_def by (metis option.inject)
      then show ?thesis using p by (simp add: noted_def to_caller_def res)
    qed
    show "j = k" if "fl_callers ?g j = Owner c p" "fl_callers ?g k = Owner c p" for j k c p
      using that inv new unfolding flight_inv_def by (auto simp: noted_def to_caller_def split: if_splits)
    show "c = c'" if "aget (hl_launchQueues (fl_state ?g)) c = Some p" "aget (hl_launchQueues (fl_state ?g)) c' = Some p" for c c' p
      using that inv unfolding flight_inv_def by (auto simp: noted_def to_caller_def res split: if_splits)
    show "p < length (hl_heap (fl_state ?g)) \<and> (aget (hl_launchQueues (fl_state ?g)) c = Some p \<or> launch_settled ?g p)"
      if a: "fl_callers ?g j = Waiter c msg p" for j c msg p
    proof -
      have w: "fl_callers f j = Waiter c msg p"
        using a new by (auto simp: noted_def to_caller_def split: if_splits)
      then have *: "p < length (hl_heap (fl_state f))" "aget (hl_launchQueues (fl_state f)) c = Some p \<or> launch_settled f p"
        using inv unfolding flight_inv_def by blast+
      have "aget (hl_launchQueues (fl_state ?g)) c = Some p \<or> launch_settled ?g p"
      proof (cases "p = q")
        case False
        then show ?thesis
          using *(2) other by (auto simp: noted_def to_caller_def res launch_settled_def)
      qed (simp add: done_q)
      then show ?thesis using *(1) by (simp add: noted_def to_caller_def res)
    qed
  qed
qed

lemma flight_inv_step:
  assumes "flight_step le f g" "flight_inv f"
  shows "flight_inv g"
  using assms
proof (induction rule: flight_step.induct)
  case (refused f i now cid e s)
  then show ?case
    by (intro flight_inv_same) (auto dest: check_cooldown_queues)
next
  case (passed f i now cid s)
  then show ?case
    by (intro flight_inv_same) (auto dest: check_cooldown_queues)
next
  case (owns f i cid q s)
  then show ?case by (intro flight_inv_owns)
next
  case (joins f i cid q s)
  then show ?case
    by (intro flight_inv_same) (auto dest: tryRegisterLaunch_False)
next
  case (succeeds f i cid q rid)
  then show ?case
    unfolding CompleteLaunch_def by (intro flight_inv_resolves) (auto simp: queue_result_def joined_def split: list.splits)
next
  case (fails f i cid q e)
  then show ?case
    unfolding FailLaunch_def by (intro flight_inv_resolves) (auto simp: queue_result_def joined_def)
next
  case (waits f i cid q)
  then show ?case
    by (intro flight_inv_same) (auto simp: WaitForLaunch_lookup_def split: option.splits)
next
  case (others s f)
  then show ?case by (simp add: flight_inv_def launch_settled_def)
qed (intro flight_inv_same; simp add: set_cooldown_def)+

lemma flight_reachable_inv: "flight_reachable le f \<Longrightarrow> flight_inv f"
proof (induction rule: flight_reachable.induct)
  case (start s)
  then show ?case by (simp add: flight_inv_def)
next
  case (step f g)
  then show ?case by (blast intro: flight_inv_step)
qed

text \<open>Of the callers that want one world started at most one launches it, and a caller that waits either
  waits for a launch that a running caller owns, or has the launch's own outcome ready to be read.\<close>

theorem single_flight:
  assumes "flight_reachable le f"
  shows "(fl_callers f i = Owner c q \<and> fl_callers f j = Owner c p \<longrightarrow> i = j) \<and>
    (fl_callers f k = Waiter c msg w \<longrightarrow>
      (\<exists>n. fl_callers f n = Owner c w) \<or>
      (\<exists>r. fl_outcome f w = Some r \<and> lq_done (hl_heap (fl_state f) ! w) \<and>
           queue_result msg (hl_heap (fl_state f) ! w) = joined msg r))"
proof (intro conjI impI)
  note inv = flight_reachable_inv [OF assms]
  show "i = j" if "fl_callers f i = Owner c q \<and> fl_callers f j = Owner c p"
    using inv that unfolding flight_inv_def by (metis option.inject)
  assume w: "fl_callers f k = Waiter c msg w"
  then have "aget (hl_launchQueues (fl_state f)) c = Some w \<or> launch_settled f w"
    using inv unfolding flight_inv_def by blast
  then show "(\<exists>n. fl_callers f n = Owner c w) \<or>
      (\<exists>r. fl_outcome f w = Some r \<and> lq_done (hl_heap (fl_state f) ! w) \<and>
           queue_result msg (hl_heap (fl_state f) ! w) = joined msg r)"
    using flight_invD(3) [OF inv] unfolding launch_settled_def by blast
qed

subsection \<open>The end of a launch\<close>

lemma redis_simps [simp]:
  "hl_sessions (redis es s) = hl_sessions s" "hl_pending (redis es s) = hl_pending s" "hl_cancelled (redis es s) = hl_cancelled s"
  "hl_launchQueues (redis es s) = hl_launchQueues s" "hl_heap (redis es s) = hl_heap s" "hl_redisUp (redis es s) = hl_redisUp s"
  "hl_failureCooldowns (redis es s) = hl_failureCooldowns s" "hl_maxSessions (redis es s) = hl_maxSessions s"
  "hl_inactiveTimeout (redis es s) = hl_inactiveTimeout s"
  by (simp_all add: redis_def)

text \<open>A session for the tab of this launch, and no pending entry.\<close>

definition open_session :: "'h launch_env \<Rightarrow> launch_args \<Rightarrow> nat \<Rightarrow> string \<Rightarrow> headless \<Rightarrow> bool" where
  "open_session le a tab cid s \<longleftrightarrow>
     aget (hl_pending s) (le_uuid le) = None \<and>
     (\<exists>x. aget (hl_sessions s) (le_uuid le) = Some x \<and> hs_tab x = tab \<and> hs_ClientID x = cid \<and> hs_APIKey x = la_apiKey a)"

lemma poll_loop_settles:
  assumes "poll_loop le a tab found ts s = (r, s')"
  shows "case r of
      Some cid \<Rightarrow> open_session le a tab cid s' \<and> (\<exists>(now, m, w) \<in> set ts. found m = Some cid)
    | None \<Rightarrow> tab \<in> set (hl_cancelled s') \<and> aget (hl_pending s') (le_uuid le) = None"
  using assms
  by (induction ts arbitrary: s)
     (auto simp: open_session_def establish_def registerInRedis_def poll_timeout_def cancel_tab_def Let_def
           split: option.splits)

lemma new_client_Some:
  assumes "new_client apiKey existing m = Some cid"
  shows "cid \<in> set (GetConnectedClients apiKey m)" "cid \<notin> set existing"
  using assms by (auto simp: new_client_def find_Some_iff)

text \<open>A launch over the API either ends with a session of the caller's account for a module that
  connected under the account's key after the launch began to log in, or with the tab closed; whatever the rest of the program does meanwhile.\<close>

theorem launch_settles:
  assumes admitted: "launch_admit le (la_apiKey a) ''API key'' s = (None, s1)" and tab: "br_newTab (le_browser le) = Ret (Inr tab)"
  shows "case LaunchSession le a s of
      (Ret (Inr (i, cid)), tr, s') \<Rightarrow>
        i = le_uuid le \<and> open_session le a tab cid s' \<and> cid \<notin> set (GetConnectedClients (la_apiKey a) (le_snapshot le)) \<and>
        (\<exists>(now, m, w) \<in> set (le_ticks le). cid \<in> set (GetConnectedClients (la_apiKey a) m))
    | (Ret (Inl e), tr, s') \<Rightarrow> tab \<in> set (hl_cancelled s')
    | (Panic p, tr, s') \<Rightarrow> False"
  using assms
  by (fastforce simp: LaunchSession_def cancel_tab_def split: option.splits prod.splits dest: poll_loop_settles new_client_Some)

subsection \<open>A started world\<close>

lemma start_plan_sound:
  assumes "start_plan le uid cid d = Inr (account, known, credential, password)"
  shows "(\<exists>user. us_FindByID uid d = DBOk (Some user) \<and> us_APIKeyHash user = Some account) \<and> account \<noteq> [] \<and>
    kc_FindByClientID uid cid d = DBOk (Some known) \<and> kc_AutoStartOnRemoteRequest known \<and>
    (\<exists>crid. kc_CredentialID known = Some crid \<and> cr_FindByID crid d = DBOk (Some credential)) \<and> cr_UserID credential = uid \<and>
    le_decrypt le (cr_EncryptedFoundryPassword credential) (cr_PasswordIV credential) (cr_PasswordAuthTag credential) = Inr password"
  using assms by (auto simp: start_plan_def Let_def split: if_splits db_result.splits option.splits list.splits sum.splits)

lemma seeded_script_order:
  assumes "seeded_script br a [] = (None, tr)" "la_seedToken a \<noteq> []"
  shows "take 2 tr = [TSeed (la_seedToken a), TNavigate (la_foundryURL a)]"
    "TLogin (la_username a) (la_password a) \<in> set tr"
    "la_expectedWorldID a = [] \<or> br_worldID br = [] \<or> br_worldID br = la_expectedWorldID a"
  using assms
  by (auto simp: seeded_script_def tab_then_def tab_when_def tab_do_def tab_page_def injectConnectionTokenSeed_def
      tab_navigate_def tab_selectWorld_def tab_enter_def split: option.splits if_splits prod.splits)

lemma exact_client_Some:
  assumes "exact_client apiKey cid m = Some c"
  shows "c = cid" "\<exists>ref. GetClient cid m = Some ref \<and> cl_apiKey (mg_heap m ! ref) = apiKey"
  using assms by (auto simp: exact_client_def split: option.splits if_splits)

lemma seeded_launch_sound:
  assumes "launchHeadlessWithSeededToken le a s = (Ret (Inr rid), tr, s')"
  shows "rid = la_expectedClientID a" "seeded_script (le_browser le) a [] = (None, tr)"
    "\<exists>tab. br_newTab (le_browser le) = Ret (Inr tab) \<and> open_session le a tab rid s'"
    "\<exists>(now, m, w) \<in> set (le_ticks le). \<exists>ref. GetClient rid m = Some ref \<and> cl_apiKey (mg_heap m ! ref) = la_apiKey a"
  using assms
  by (fastforce simp: launchHeadlessWithSeededToken_def split: option.splits prod.splits go.splits sum.splits
      dest: poll_loop_settles exact_client_Some)+

lemma doAutoStart_plan:
  assumes "doAutoStartForKnownClient le uid cid s d = (Ret (Inr rid), tr, s', d')"
  obtains account known credential password raw tok d1 where
    "start_plan le uid cid d = Inr (account, known, credential, password)" "le_random le = Inr raw"
    "launchHeadlessWithSeededToken le (seeded_args account known credential password cid raw) s = (Ret (Inr rid), tr, s')"
    "tk_Create (le_now le) (headless_token uid (le_sha le raw) (''headless '' @ cid @ '' '' @ le_stamp le (le_now le))) d = (DBOk (), tok, d1)"
    "d' = le_meanwhile le d1"
  using assms
  by (auto simp: doAutoStartForKnownClient_def GenerateHeadlessToken_def split: sum.splits db_result.splits go.splits prod.splits)

text \<open>C26: a browser is started for a world only with what its own account stored: the account's own row of the world with
  auto-start enabled, a credential of the same account, the token placed in the tab before its first page;
  and the session it ends with is for exactly that world, connected under the account's hash.\<close>

theorem autostart_own_world:
  assumes "doAutoStartForKnownClient le uid cid s d = (Ret (Inr rid), tr, s', d')" and "le_random le = Inr (r # raw)"
  shows "rid = cid \<and>
    (\<exists>user account known crid credential password tab a.
       us_FindByID uid d = DBOk (Some user) \<and> us_APIKeyHash user = Some account \<and> account \<noteq> [] \<and>
       kc_FindByClientID uid cid d = DBOk (Some known) \<and> kc_AutoStartOnRemoteRequest known \<and> kc_CredentialID known = Some crid \<and>
       cr_FindByID crid d = DBOk (Some credential) \<and> cr_UserID credential = uid \<and>
       take 2 tr = [TSeed (r # raw), TNavigate (cr_FoundryURL credential)] \<and>
       TLogin (cr_FoundryUsername credential) password \<in> set tr \<and>
       (null_str (kc_WorldID known) = [] \<or> br_worldID (le_browser le) = [] \<or>
        br_worldID (le_browser le) = null_str (kc_WorldID known)) \<and>
       la_apiKey a = account \<and> open_session le a tab cid s' \<and>
       (\<exists>(now, m, w) \<in> set (le_ticks le). \<exists>ref. GetClient cid m = Some ref \<and> cl_apiKey (mg_heap m ! ref) = account))"
proof -
  obtain account known credential password raw' tok d1 where
    plan: "start_plan le uid cid d = Inr (account, known, credential, password)" and raw: "le_random le = Inr raw'" and
    launch: "launchHeadlessWithSeededToken le (seeded_args account known credential password cid raw') s = (Ret (Inr rid), tr, s')"
    using doAutoStart_plan [OF assms(1)] by metis
  have raw': "raw' = r # raw" using raw assms(2) by simp
  let ?a = "seeded_args account known credential password cid raw'"
  note l = seeded_launch_sound [OF launch]
  have rid: "rid = cid" using l(1) by (simp add: seeded_args_def)
  have seed: "la_seedToken ?a \<noteq> []" by (simp add: seeded_args_def raw')
  note order = seeded_script_order [OF l(2) seed]
  obtain tab where "open_session le ?a tab cid s'" using l(3) rid by blast
  moreover have "la_apiKey ?a = account" "la_seedToken ?a = r # raw" "la_foundryURL ?a = cr_FoundryURL credential"
    "la_username ?a = cr_FoundryUsername credential" "la_password ?a = password" "la_expectedWorldID ?a = null_str (kc_WorldID known)"
    by (simp_all add: seeded_args_def raw')
  ultimately show ?thesis
    using start_plan_sound [OF plan] order l(4) rid by fastforce
qed

text \<open>C27: an automatic start that fails, or panics, leaves the token it minted in the database no longer, provided
  the deletion works.\<close>

theorem failed_start_leaves_no_token:
  assumes "doAutoStartForKnownClient le uid cid s d = (res, tr, s', d')" and "\<nexists>rid. res = Ret (Inr rid)"
    and fresh: "\<forall>t \<in> set (db_tokens d). ct_ID t < db_next d"
    and works: "db_fails d = []" "\<And>x. db_fails x = [] \<Longrightarrow> db_ok ''tk_Delete'' (le_meanwhile le x)"
  shows "\<forall>t \<in> set (db_tokens d'). ct_ID t \<noteq> db_next d"
proof (cases "d' = d")
  case True
  then show ?thesis using fresh by auto
next
  case False
  have tid: "ct_ID tok = db_next d \<and> db_fails d1 = db_fails d" if "tk_Create now t d = (DBOk (), tok, d1)" for now t tok d1
    using that by (auto simp: tk_Create_def Let_def split: if_splits)
  have keep: "d1 = d" if "tk_Create now t d = (DBErr, tok, d1)" for now t tok d1
    using that by (auto simp: tk_Create_def Let_def split: if_splits)
  have "\<exists>now t tok d1. tk_Create now t d = (DBOk (), tok, d1) \<and> d' = snd (tk_Delete (ct_ID tok) (le_meanwhile le d1))"
    using assms(1,2) False
    by (auto simp: doAutoStartForKnownClient_def split: sum.splits db_result.splits go.splits prod.splits dest: keep; blast)
  then obtain d1 where "d' = snd (tk_Delete (db_next d) (le_meanwhile le d1))" "db_fails d1 = []"
    using tid works(1) by metis
  then show ?thesis
    using works(2) by (auto simp: tk_Delete_def exec_def)
qed

subsection \<open>A module that leaves\<close>

lemma disconnected_loop_eq:
  "hl_sessions (disconnected_loop cid xs s) = filter (\<lambda>kv. fst kv \<notin> fst ` {kv \<in> set xs. hs_ClientID (snd kv) = cid}) (hl_sessions s)
   \<and> hl_cancelled (disconnected_loop cid xs s) = hl_cancelled s @ map (hs_tab \<circ> snd) (filter (\<lambda>kv. hs_ClientID (snd kv) = cid) xs)
   \<and> hl_pending (disconnected_loop cid xs s) = hl_pending s"
proof (induction xs arbitrary: s)
  case Nil
  then show ?case by simp
next
  case (Cons kv xs)
  obtain i x where kv: "kv = (i, x)" by (cases kv)
  have "{e \<in> set (kv # xs). hs_ClientID (snd e) = cid} =
      (if hs_ClientID x = cid then insert kv {e \<in> set xs. hs_ClientID (snd e) = cid} else {e \<in> set xs. hs_ClientID (snd e) = cid})"
    by (auto simp: kv)
  then show ?case
    by (simp add: kv Cons.IH forget_in_redis_def cancel_session_def adel_filter conj_commute del: set_simps)
qed

lemma keys_distinguish: "wf_map m \<Longrightarrow> filter (\<lambda>kv. fst kv \<notin> fst ` {kv \<in> set m. P (snd kv)}) m = filter (\<lambda>kv. \<not> P (snd kv)) m"
  by (rule filter_cong) (auto simp: wf_map_def distinct_map inj_on_def)

text \<open>When a module leaves, exactly the sessions that it served are gone and their tabs closed.\<close>

theorem departure_ends_sessions:
  assumes "wf_map (hl_sessions s)"
  shows "hl_sessions (OnClientDisconnected cid s) = filter (\<lambda>kv. hs_ClientID (snd kv) \<noteq> cid) (hl_sessions s) \<and>
    hl_cancelled (OnClientDisconnected cid s) =
      hl_cancelled s @ map (hs_tab \<circ> snd) (filter (\<lambda>kv. hs_ClientID (snd kv) = cid) (hl_sessions s)) \<and>
    hl_pending (OnClientDisconnected cid s) = hl_pending s"
  using assms by (simp add: OnClientDisconnected_def disconnected_loop_eq keys_distinguish [where P = "\<lambda>x. hs_ClientID x = cid"])

subsection \<open>What the code leaves open\<close>

text \<open>The cooldown is kept under the world's identifier alone: a failed start by an account that does not own the world
  refuses the owner, too.\<close>

theorem cooldown_crosses_accounts:
  assumes "check_cooldown le (le_now le) cid s = (None, s)" and "aget (hl_launchQueues s) cid = None"
    and stranger: "le_hasDB le" "us_FindByID uid d = DBOk (Some user)" "us_APIKeyHash user = Some (h # hash)"
      "kc_FindByClientID uid cid d = DBOk None"
    and soon: "le_now le' < fin + autoStartCooldownOnFail"
  shows "\<exists>e s'. AutoStartForKnownClient le fin uid cid s d = (Inl (Inl e), s', d) \<and>
    (\<exists>e'. AutoStartForKnownClient le' fin' owner cid s' d' = (Inl (Inl e'), s', d'))"
proof -
  obtain q s2 where reg: "tryRegisterLaunch cid s = (True, q, s2)"
    using assms(2) by (simp add: tryRegisterLaunch_def)
  obtain e where plan: "start_plan le uid cid d = Inl e"
    using stranger by (simp add: start_plan_def)
  have run: "AutoStartForKnownClient le fin uid cid s d = (Inl (Inl e), set_cooldown fin cid e (FailLaunch cid e s2), d)"
    using assms(1) reg plan by (simp add: AutoStartForKnownClient_def doAutoStartForKnownClient_def recovered_def)
  have "\<exists>e'. check_cooldown le' (le_now le') cid (set_cooldown fin cid e (FailLaunch cid e s2)) =
      (Some e', set_cooldown fin cid e (FailLaunch cid e s2))"
    using soon by (simp add: check_cooldown_def set_cooldown_def)
  then show ?thesis
    using run by (auto simp: AutoStartForKnownClient_def)
qed

text \<open>The check of a headless client accepts every client, whatever Redis answers.\<close>

lemma headless_validation_vacuous: "fst (ValidateHeadlessSession rget cid token s) = Some True"
  by (simp add: ValidateHeadlessSession_def split: option.split list.split)

text \<open>Launches that have not established their session count for no cap.\<close>

lemma cap_ignores_pending:
  "fst (launch_admit le apiKey whose (s\<lparr>hl_pending := p\<rparr>)) = fst (launch_admit le apiKey whose s)"
proof -
  have eq: "stale_loop m xs (t\<lparr>hl_pending := p\<rparr>) = (stale_loop m xs t)\<lparr>hl_pending := p\<rparr>" for m :: "'a manager" and xs t
  proof (induction m xs t rule: stale_loop.induct)
    case (2 m i x xs t)
    have "cancel_session i x (t\<lparr>hl_pending := p\<rparr>) = (cancel_session i x t)\<lparr>hl_pending := p\<rparr>"
      by (cases t) (simp add: cancel_session_def)
    then show ?case using 2 by (cases "GetClient (hs_ClientID x) m") simp_all
  qed simp
  show ?thesis
    by (simp add: launch_admit_def eq Let_def session_count_def checkGlobalSessionCap_def)
qed

text \<open>Stale sessions that a launch removes stay in the set that the global cap counts: no command is sent for them.\<close>

lemma stale_sessions_stay_counted: "hl_out (stale_loop m xs s) = hl_out s"
  by (induction m xs s rule: stale_loop.induct) (simp_all add: cancel_session_def)

text \<open>The limit of inactivity is one of age: from its start a session has the same \<open>LastActivity\<close>, which no other operation writes.\<close>

lemma inactivity_is_age:
  assumes "poll_loop le a tab found ts s = (Some cid, s')"
  shows "\<exists>x. aget (hl_sessions s') (le_uuid le) = Some x \<and> hs_LastActivity x = hs_StartedAt x"
  using assms
  by (induction ts arbitrary: s) (auto simp: establish_def registerInRedis_def split: option.splits)

text \<open>A pending session that was ended during the poll is established all the same, on its closed tab.\<close>

lemma ended_launch_established:
  assumes "found m = Some cid" and "aget (hl_sessions s) (le_uuid le) = None" and "aget (hl_pending s) (le_uuid le) = Some p" "hp_tab p = tab"
  shows "\<exists>s'. poll_loop le a tab found [(now, m, \<lambda>t. snd (snd (hm_EndSession scard (le_uuid le) reg t)))] s = (Some cid, s') \<and>
    open_session le a tab cid s' \<and> tab \<in> set (hl_cancelled s')"
  using assms by (simp add: hm_EndSession_def open_session_def establish_def registerInRedis_def)

text \<open>A caller that saw the launch in flight comes too late when it has just succeeded, and gets an error.\<close>

lemma wait_misses_success:
  assumes reach: "flight_reachable le f" and owner: "fl_callers f i = Owner cid q" and idle: "fl_callers f j = Idle"
  shows "\<exists>g. flight_reachable le g \<and> fl_callers g i = Returned (Inr rid) \<and>
    fl_callers g j = Returned (Inl (''no pending launch for client '' @ cid))"
proof -
  have ne: "i \<noteq> j" using owner idle by auto
  have found: "aget (hl_launchQueues (fl_state f)) cid = Some q"
    using flight_reachable_inv [OF reach] owner unfolding flight_inv_def by blast
  define f1 where "f1 = to_caller j (Checked cid) (fl_state f) f"
  define f2 where "f2 = noted q (Inr rid) (to_caller i (Returned (Inr rid)) (CompleteLaunch cid rid (fl_state f1)) f1)"
  define f3 where "f3 = to_caller j (Returned (Inl (''no pending launch for client '' @ cid))) (fl_state f2) f2"
  have "flight_step le f f1"
    unfolding f1_def using idle found by (intro flight_step.checks) (simp_all add: IsLaunching_def)
  moreover have "flight_step le f1 f2"
    unfolding f2_def using owner ne by (intro flight_step.succeeds) (simp add: f1_def to_caller_def)
  moreover have "flight_step le f2 f3"
    unfolding f3_def
    by (intro flight_step.too_late [where cid = cid])
       (use ne found in \<open>simp_all add: f1_def f2_def noted_def to_caller_def WaitForLaunch_lookup_def CompleteLaunch_def resolve_launch_def\<close>)
  ultimately have "flight_reachable le f3"
    using reach by (blast intro: flight_reachable.step)
  then show ?thesis
    using ne by (intro exI [of _ f3]) (simp add: f1_def f2_def f3_def noted_def to_caller_def)
qed

subsection \<open>A world is started\<close>

definition ex_browser :: browser where
  "ex_browser =
     \<lparr>br_newTab = Ret (Inr 4), br_inject = (\<lambda>_. None), br_navigate = (\<lambda>_. None), br_detectPage = (\<lambda>_. ''login''),
      br_adminLogin = (\<lambda>_. None), br_createWorld = (\<lambda>_ _. None), br_login = (\<lambda>_ _. None), br_canvas = None, br_worldID = ''w''\<rparr>"

definition ex_launch :: "unit launch_env" where
  "ex_launch =
     \<lparr>le_scard = (\<lambda>_. None), le_alertsDB = False, le_hasDB = True, le_duration = (\<lambda>_. ''2m0s''), le_stamp = (\<lambda>_. ''now''),
      le_sha = id, le_decrypt = (\<lambda>c iv tag. Inr c), le_dbError = ''error'', le_browser = ex_browser, le_uuid = ''u1'',
      le_random = Inr ''raw'', le_now = 10, le_registry = NewClientManager True ''i1'', le_snapshot = NewClientManager True ''i1'',
      le_ready = (20, id), le_ticks = [(30, NewClientManager True ''i1'', id), (40, ex_manager True ''i1'', id)], le_last = id,
      le_meanwhile = id\<rparr>"

definition ex_headless :: headless where
  "ex_headless = NewHeadlessManager True 2 600 \<lparr>as_trackers = [], as_recent = [], as_dispatched = []\<rparr>"

definition ex_stored :: Credential where
  "ex_stored =
     \<lparr>cr_ID = 9, cr_UserID = 1, cr_Name = [], cr_FoundryURL = ''http://f'', cr_FoundryUsername = ''gm'',
      cr_EncryptedFoundryPassword = ''pw'', cr_PasswordIV = ''iv'', cr_PasswordAuthTag = ''tag'', cr_EncryptedAdminPassword = [],
      cr_AdminPasswordIV = [], cr_AdminPasswordAuthTag = [], cr_World = [], cr_CreatedAt = 0, cr_UpdatedAt = 0\<rparr>"

definition ex_start_db :: db where
  "ex_start_db = empty_db\<lparr>db_users := [(ex_user 1)\<lparr>us_APIKeyHash := Some ''key''\<rparr>],
     db_known := [(ex_known 5 1 ''fvtt_1'')\<lparr>kc_AutoStartOnRemoteRequest := True, kc_CredentialID := Some 9\<rparr>],
     db_credentials := [ex_stored]\<rparr>"

lemmas ex_start_defs = ex_browser_def ex_launch_def ex_headless_def ex_stored_def ex_start_db_def NewHeadlessManager_def ex_rows

lemma ex_plan: "start_plan ex_launch 1 ''fvtt_1'' ex_start_db =
    Inr (''key'', (ex_known 5 1 ''fvtt_1'')\<lparr>kc_AutoStartOnRemoteRequest := True, kc_CredentialID := Some 9\<rparr>, ex_stored, ''pw'')"
  by (simp add: start_plan_def us_FindByID_def kc_FindByClientID_def cr_FindByID_def get_row_def db_ok_def ex_start_defs)

lemma ex_admit: "launch_admit ex_launch k w ex_headless = (None, ex_headless)"
  by (simp add: launch_admit_def session_count_def checkGlobalSessionCap_def ex_launch_def ex_headless_def NewHeadlessManager_def)

lemma ex_launch_fields: "le_browser ex_launch = ex_browser" "le_random ex_launch = Inr ''raw''"
  "le_ticks ex_launch = [(30, NewClientManager True ''i1'', id), (40, ex_manager True ''i1'', id)]"
  by (simp_all add: ex_launch_def)

lemma ex_script:
  "fst (seeded_script ex_browser (seeded_args k ((ex_known 5 1 c)\<lparr>kc_AutoStartOnRemoteRequest := x, kc_CredentialID := y\<rparr>) cr pw cid raw) []) = None"
  by (simp add: seeded_script_def tab_then_def tab_when_def tab_do_def tab_page_def injectConnectionTokenSeed_def seeded_args_def
      tab_navigate_def tab_selectWorld_def tab_enter_def ex_browser_def ex_known_def null_str_def)

lemma ex_clients: "exact_client ''key'' ''fvtt_1'' (NewClientManager True ''i1'') = None"
  "exact_client ''key'' ''fvtt_1'' (ex_manager True ''i1'') = Some ''fvtt_1''"
  by (simp_all add: exact_client_def GetClient_def ex_manager_defs)

lemma ex_start: "\<exists>tr s' d'. doAutoStartForKnownClient ex_launch 1 ''fvtt_1'' ex_headless ex_start_db = (Ret (Inr ''fvtt_1''), tr, s', d')"
proof -
  let ?a = "seeded_args ''key'' ((ex_known 5 1 ''fvtt_1'')\<lparr>kc_AutoStartOnRemoteRequest := True, kc_CredentialID := Some 9\<rparr>) ex_stored ''pw'' ''fvtt_1'' ''raw''"
  obtain tr where tr: "seeded_script ex_browser ?a [] = (None, tr)"
    using ex_script by (metis prod.collapse)
  have args: "la_apiKey ?a = ''key''" "la_expectedClientID ?a = ''fvtt_1''" by (simp_all add: seeded_args_def)
  have tab: "br_newTab ex_browser = Ret (Inr 4)" by (simp add: ex_browser_def)
  have run: "\<exists>s'. launchHeadlessWithSeededToken ex_launch ?a ex_headless = (Ret (Inr ''fvtt_1''), tr, s')"
    by (simp add: launchHeadlessWithSeededToken_def ex_admit ex_launch_fields tab tr args ex_clients)
  obtain tok d1 where "tk_Create (le_now ex_launch) (headless_token 1 (le_sha ex_launch ''raw'')
      (''headless '' @ ''fvtt_1'' @ '' '' @ le_stamp ex_launch (le_now ex_launch))) ex_start_db = (DBOk (), tok, d1)"
    by (simp add: tk_Create_def db_ok_def ex_start_db_def empty_db_def headless_token_def)
  then show ?thesis
    using run by (auto simp: doAutoStartForKnownClient_def ex_plan GenerateHeadlessToken_def ex_launch_fields)
qed

lemma autostart_own_world_witness:
  "\<exists>tr s' d' tab a. doAutoStartForKnownClient ex_launch 1 ''fvtt_1'' ex_headless ex_start_db = (Ret (Inr ''fvtt_1''), tr, s', d') \<and>
     open_session ex_launch a tab ''fvtt_1'' s'"
proof -
  obtain tr s' d' where run: "doAutoStartForKnownClient ex_launch 1 ''fvtt_1'' ex_headless ex_start_db = (Ret (Inr ''fvtt_1''), tr, s', d')"
    using ex_start by blast
  have "le_random ex_launch = Inr (CHR ''r'' # ''aw'')" by (simp add: ex_launch_def)
  from autostart_own_world [OF run this] run show ?thesis by blast
qed

text \<open>The module does not come in time.\<close>

lemma failed_start_leaves_no_token_witness:
  "1 \<notin> ct_ID ` set (db_tokens (snd (snd (snd (doAutoStartForKnownClient (ex_launch\<lparr>le_ticks := []\<rparr>) 1 ''fvtt_1'' ex_headless ex_start_db)))))"
proof -
  let ?le = "ex_launch\<lparr>le_ticks := []\<rparr>"
  obtain res tr s' d' where run: "doAutoStartForKnownClient ?le 1 ''fvtt_1'' ex_headless ex_start_db = (res, tr, s', d')"
    by (metis prod_cases4)
  have "\<nexists>rid. res = Ret (Inr rid)"
  proof
    assume "\<exists>rid. res = Ret (Inr rid)"
    then obtain rid where "doAutoStartForKnownClient ?le 1 ''fvtt_1'' ex_headless ex_start_db = (Ret (Inr rid), tr, s', d')"
      using run by blast
    then obtain a where "launchHeadlessWithSeededToken ?le a ex_headless = (Ret (Inr rid), tr, s')"
      by (metis doAutoStart_plan)
    from seeded_launch_sound(4) [OF this] show False by simp
  qed
  moreover have "\<forall>t \<in> set (db_tokens ex_start_db). ct_ID t < db_next ex_start_db" "db_next ex_start_db = 1"
    by (simp_all add: ex_start_defs)
  moreover have "db_fails (le_meanwhile ?le x) = db_fails x" for x by (simp add: ex_launch_def)
  moreover have "db_fails ex_start_db = []" by (simp add: ex_start_defs)
  ultimately show ?thesis
    using failed_start_leaves_no_token [OF run] run by (force simp: db_ok_def)
qed

text \<open>Two callers: one owns the launch, the other joins it.\<close>

definition ex_flight :: flight where
  "ex_flight = \<lparr>fl_state = snd (snd (tryRegisterLaunch ''w'' ex_headless)),
     fl_callers = (\<lambda>_. Idle)(0 := Cooled ''w'', 1 := Cooled ''w'', 0 := Owner ''w'' 0, 1 := Waiter ''w'' (''in-flight auto-start failed for '' @ ''w'') 0),
     fl_outcome = (\<lambda>_. None)\<rparr>"

lemma ex_flight_reachable: "flight_reachable ex_launch ex_flight"
proof -
  define f0 where "f0 = \<lparr>fl_state = ex_headless, fl_callers = (\<lambda>_. Idle), fl_outcome = (\<lambda>_. None)\<rparr>"
  define s1 where "s1 = snd (snd (tryRegisterLaunch ''w'' ex_headless))"
  have cool: "check_cooldown ex_launch 0 ''w'' ex_headless = (None, ex_headless)"
    by (simp add: check_cooldown_def ex_headless_def NewHeadlessManager_def)
  have own: "tryRegisterLaunch ''w'' ex_headless = (True, 0, s1)"
    by (simp add: s1_def tryRegisterLaunch_def ex_headless_def NewHeadlessManager_def)
  have join: "tryRegisterLaunch ''w'' s1 = (False, 0, s1)"
    by (simp add: s1_def tryRegisterLaunch_def ex_headless_def NewHeadlessManager_def)
  have "flight_reachable ex_launch f0"
    unfolding f0_def by (rule flight_reachable.start) (simp_all add: ex_headless_def NewHeadlessManager_def)
  note r0 = flight_reachable.step [OF this flight_step.passed [where i = 0 and now = 0 and cid = "''w''" and s = ex_headless]]
  have r1: "flight_reachable ex_launch (to_caller 0 (Cooled ''w'') ex_headless f0)"
    by (rule r0) (simp_all add: f0_def cool)
  have r2: "flight_reachable ex_launch (to_caller 1 (Cooled ''w'') ex_headless (to_caller 0 (Cooled ''w'') ex_headless f0))"
    by (rule flight_reachable.step [OF r1 flight_step.passed [where now = 0]]) (simp_all add: f0_def to_caller_def cool)
  have r3: "flight_reachable ex_launch (to_caller 0 (Owner ''w'' 0) s1 (to_caller 1 (Cooled ''w'') ex_headless (to_caller 0 (Cooled ''w'') ex_headless f0)))"
    by (rule flight_reachable.step [OF r2 flight_step.owns]) (simp_all add: f0_def to_caller_def own)
  have r4: "flight_reachable ex_launch (to_caller 1 (Waiter ''w'' (''in-flight auto-start failed for '' @ ''w'') 0) s1
      (to_caller 0 (Owner ''w'' 0) s1 (to_caller 1 (Cooled ''w'') ex_headless (to_caller 0 (Cooled ''w'') ex_headless f0))))"
    by (rule flight_reachable.step [OF r3 flight_step.joins]) (simp_all add: f0_def to_caller_def join)
  have "to_caller 1 (Waiter ''w'' (''in-flight auto-start failed for '' @ ''w'') 0) s1
      (to_caller 0 (Owner ''w'' 0) s1 (to_caller 1 (Cooled ''w'') ex_headless (to_caller 0 (Cooled ''w'') ex_headless f0))) = ex_flight"
    by (simp add: ex_flight_def to_caller_def f0_def s1_def fun_upd_twist)
  then show ?thesis using r4 by simp
qed

lemma single_flight_witness: "\<exists>n. fl_callers ex_flight n = Owner ''w'' 0"
proof -
  have "fl_callers ex_flight 1 = Waiter ''w'' (''in-flight auto-start failed for '' @ ''w'') 0" "fl_outcome ex_flight = (\<lambda>_. None)"
    by (simp_all add: ex_flight_def)
  then show ?thesis
    using single_flight [OF ex_flight_reachable, of 0 "''w''" 0 0 0 1 "''in-flight auto-start failed for '' @ ''w''" 0] by auto
qed

definition ex_request :: launch_args where
  "ex_request =
     \<lparr>la_apiKey = ''key'', la_foundryURL = ''http://f'', la_username = ''gm'', la_password = ''pw'', la_adminPassword = [],
      la_worldName = [], la_seedToken = ''raw'', la_createWorldName = [], la_createWorldSystem = [], la_expectedClientID = [],
      la_expectedWorldID = []\<rparr>"

lemma launch_settles_witness:
  "case LaunchSession ex_launch ex_request ex_headless of
      (Ret (Inr (i, cid)), tr, s') \<Rightarrow>
        i = ''u1'' \<and> (\<exists>(now, m, w) \<in> set (le_ticks ex_launch). cid \<in> set (GetConnectedClients ''key'' m))
    | (Ret (Inl e), tr, s') \<Rightarrow> 4 \<in> set (hl_cancelled s')
    | (Panic p, tr, s') \<Rightarrow> False"
proof -
  have fields: "le_uuid ex_launch = ''u1''" "la_apiKey ex_request = ''key''" "br_newTab (le_browser ex_launch) = Ret (Inr 4)"
    by (simp_all add: ex_launch_def ex_request_def ex_browser_def)
  show ?thesis
    using launch_settles [OF ex_admit fields(3), of ex_request] unfolding fields
    by (auto split: prod.splits go.splits sum.splits)
qed

lemma departure_ends_sessions_witness:
  "hl_sessions (OnClientDisconnected ''fvtt_1'' (establish ex_launch ex_request 4 7 ''fvtt_1'' ex_headless)) = []"
proof -
  have s: "hl_sessions (establish ex_launch ex_request 4 7 ''fvtt_1'' ex_headless) =
      [(''u1'', \<lparr>hs_SessionID = ''u1'', hs_ClientID = ''fvtt_1'', hs_APIKey = ''key'', hs_FoundryURL = ''http://f'', hs_Username = ''gm'',
         hs_WorldName = [], hs_tab = 4, hs_StartedAt = 7, hs_LastActivity = 7\<rparr>)]"
    by (simp add: establish_def registerInRedis_def ex_launch_def ex_request_def ex_headless_def NewHeadlessManager_def)
  then have "wf_map (hl_sessions (establish ex_launch ex_request 4 7 ''fvtt_1'' ex_headless))" by (simp add: wf_map_def)
  from departure_ends_sessions [OF this, of "''fvtt_1''"] show ?thesis by (simp add: s)
qed

end
