(* ===== verification/SessionRoutes.thy ===== *)
theory SessionRoutes
  imports Headless Route Base64
begin

text \<open>
  The routes of headless sessions: the handshake with its table, the start, the end and the list of
  \<open>internal/handler/session.go\<close>, and the administrator's view of \<open>internal/handler/admin_sessions.go\<close>.
  Key generation, RSA decryption and the decoding of the decrypted JSON are parameters; a private key
  is the text that stands for it.  The outcome of a launch is that of \<open>LaunchSession\<close> in its environment.
\<close>

record PendingHandshake =
  hk_PrivateKey :: string
  hk_PublicKeyPEM :: string
  hk_Nonce :: string
  hk_FoundryURL :: string
  hk_Username :: string
  hk_WorldName :: string
  hk_APIKey :: string
  hk_CredentialID :: int
  hk_InstanceID :: string
  hk_ExpiresAt :: gotime

type_synonym handshakes = "(string, PendingHandshake) gomap"

record session_cfg =
  sc_AllowHeadless :: bool
  sc_FrontendURL :: string
  sc_InstanceID :: string
  sc_rfc :: "gotime \<Rightarrow> string"
  sc_generate :: "(string \<times> string) option"  \<comment> \<open>private key, and its public half as PEM\<close>
  sc_marshals :: bool  \<comment> \<open>whether \<open>MarshalPKIXPublicKey\<close> succeeds\<close>
  sc_nonce :: string
  sc_token :: string
  sc_oaep :: "string \<Rightarrow> string \<Rightarrow> string option"
  sc_creds :: "string \<Rightarrow> (string \<times> string) option"  \<comment> \<open>password and nonce\<close>

definition headless_disabled :: "session_cfg \<Rightarrow> answer" where
  "headless_disabled cfg =
     (503, [(''error'', JStr ''Headless sessions are not available on this relay''),
       (''message'', JStr ''The operator has disabled headless sessions. To use headless sessions, self-host your own relay instance.''),
       (''docsUrl'', JStr (sc_FrontendURL cfg @ ''/docs/installation''))])"

subsection \<open>Handshake\<close>

text \<open>Most recently seen first, the worlds never seen last; equal ones keep their order.\<close>

definition by_last_seen :: "KnownClient list \<Rightarrow> KnownClient list" where
  "by_last_seen ks =
     sort_key (\<lambda>k. - the (kc_LastSeenAt k)) (filter (\<lambda>k. kc_LastSeenAt k \<noteq> None) ks) @ filter (\<lambda>k. kc_LastSeenAt k = None) ks"

text \<open>The stored credential chosen for a handshake: identifier, address, user and world.\<close>

type_synonym choice = "int \<times> string \<times> string \<times> string"

fun choose_world :: "KnownClient list \<Rightarrow> Credential list \<Rightarrow> choice \<Rightarrow> choice" where
  "choose_world [] creds ch = ch"
| "choose_world (k # ks) creds (i, url, user, world) =
     (case kc_CredentialID k of
        None \<Rightarrow> choose_world ks creds (i, url, user, world)
      | Some crid \<Rightarrow>
          (let ch = (case find (\<lambda>c. cr_ID c = crid) creds of
                       None \<Rightarrow> (i, url, user, world)
                     | Some c \<Rightarrow> (cr_ID c, cr_FoundryURL c, cr_FoundryUsername c,
                                 if world = [] then null_str (kc_WorldTitle k) else world))
           in if fst ch \<noteq> 0 then ch else choose_world ks creds ch))"

definition choose_credential :: "KnownClient list \<Rightarrow> Credential list \<Rightarrow> string \<Rightarrow> choice" where
  "choose_credential known creds world =
     (case choose_world (by_last_seen known) creds (0, [], [], world) of
        (i, url, user, w) \<Rightarrow>
          if i = 0 \<and> length creds = 1 then (cr_ID (hd creds), cr_FoundryURL (hd creds), cr_FoundryUsername (hd creds), w)
          else (i, url, user, w))"

text \<open>\<open>None\<close>: the stored credentials could not be read.\<close>

definition handshake_target :: "string \<Rightarrow> string \<Rightarrow> string \<Rightarrow> string \<Rightarrow> db \<Rightarrow> choice option" where
  "handshake_target master url user world d =
     (if url = [] \<and> user = []
      then (case account_of master d of
              None \<Rightarrow> Some (0, url, user, world)
            | Some uid \<Rightarrow>
                (case cr_FindAllByUser uid d of
                   DBErr \<Rightarrow> None
                 | DBOk creds \<Rightarrow>
                     Some (choose_credential (case kc_FindAllByUser uid d of DBErr \<Rightarrow> [] | DBOk ks \<Rightarrow> ks) creds world)))
      else Some (0, url, user, world))"

definition sessionHandshakeHandler ::
    "session_cfg \<Rightarrow> gotime \<Rightarrow> req_context option \<Rightarrow> string \<Rightarrow> string \<Rightarrow> string \<Rightarrow> db \<Rightarrow> handshakes \<Rightarrow> answer \<times> handshakes" where
  "sessionHandshakeHandler cfg now ctx url user world d hs =
     (if \<not> sc_AllowHeadless cfg then (headless_disabled cfg, hs)
      else case ctx of
        None \<Rightarrow> (WriteError 401 ''Authentication required'', hs)
      | Some rc \<Rightarrow>
          (case handshake_target (rc_MasterAPIKey rc) url user world d of
             None \<Rightarrow> (WriteError 500 ''Failed to load stored Foundry credentials'', hs)
           | Some (i, url1, user1, world1) \<Rightarrow>
               if url1 = [] \<or> user1 = [] then (WriteError 400 ''No stored Foundry credential is configured'', hs)
               else (case sc_generate cfg of
                       None \<Rightarrow> (WriteError 500 ''Failed to generate handshake credentials'', hs)
                     | Some (private, pem) \<Rightarrow>
                         if \<not> sc_marshals cfg then (WriteError 500 ''Failed to marshal public key'', hs)
                         else ((200, [(''token'', JStr (sc_token cfg)), (''publicKey'', JStr pem), (''nonce'', JStr (sc_nonce cfg)),
                                  (''instanceId'', JStr (sc_InstanceID cfg)), (''foundryUrl'', JStr url1), (''username'', JStr user1),
                                  (''expires'', JStr (sc_rfc cfg (now + minutes 5)))]),
                               aput (sc_token cfg)
                                 \<lparr>hk_PrivateKey = private, hk_PublicKeyPEM = pem, hk_Nonce = sc_nonce cfg, hk_FoundryURL = url1,
                                  hk_Username = user1, hk_WorldName = world1, hk_APIKey = rc_MasterAPIKey rc, hk_CredentialID = i,
                                  hk_InstanceID = sc_InstanceID cfg, hk_ExpiresAt = now + minutes 5\<rparr> hs))))"

definition CleanupExpiredHandshakes :: "gotime \<Rightarrow> handshakes \<Rightarrow> handshakes" where
  "CleanupExpiredHandshakes now hs = filter (\<lambda>kv. \<not> hk_ExpiresAt (snd kv) < now) hs"

subsection \<open>Start\<close>

text \<open>The entry is taken from the table before anything is checked.\<close>

definition take_handshake :: "gotime \<Rightarrow> string \<Rightarrow> handshakes \<Rightarrow> PendingHandshake option \<times> handshakes" where
  "take_handshake now token hs =
     (case aget hs token of
        None \<Rightarrow> (None, hs)
      | Some h \<Rightarrow> ((if hk_ExpiresAt h < now then None else Some h), adel token hs))"

text \<open>The passwords of the start: the one the caller encrypted, or those of the stored credential.\<close>

definition start_passwords ::
    "session_cfg \<Rightarrow> (string \<Rightarrow> string \<Rightarrow> string \<Rightarrow> string + string) \<Rightarrow> string \<Rightarrow> PendingHandshake \<Rightarrow> db \<Rightarrow> answer + string \<times> string" where
  "start_passwords cfg decrypt enc h d =
     (if enc \<noteq> []
      then (case DecodeString enc of
              None \<Rightarrow> Inl (WriteError 400 ''Invalid encrypted password encoding'')
            | Some bytes \<Rightarrow>
                (case sc_oaep cfg (hk_PrivateKey h) bytes of
                   None \<Rightarrow> Inl (WriteError 400 ''Failed to decrypt password'')
                 | Some plain \<Rightarrow>
                     (case sc_creds cfg plain of
                        None \<Rightarrow> Inl (WriteError 400 ''Invalid decrypted credential format'')
                      | Some (password, nonce) \<Rightarrow>
                          if nonce \<noteq> hk_Nonce h then Inl (WriteError 401 ''Nonce mismatch'') else Inr (password, []))))
      else if hk_CredentialID h \<noteq> 0
      then (case (account_of (hk_APIKey h) d, cr_FindByID (hk_CredentialID h) d) of
              (Some uid, DBOk (Some c)) \<Rightarrow>
                if cr_UserID c \<noteq> uid then Inl (WriteError 401 ''Stored Foundry credential is unavailable'')
                else (case decrypt (cr_EncryptedFoundryPassword c) (cr_PasswordIV c) (cr_PasswordAuthTag c) of
                        Inl e \<Rightarrow> Inl (WriteError 500 ''Failed to decrypt stored Foundry credential'')
                      | Inr password \<Rightarrow>
                          if cr_EncryptedAdminPassword c = [] then Inr (password, [])
                          else (case decrypt (cr_EncryptedAdminPassword c) (cr_AdminPasswordIV c) (cr_AdminPasswordAuthTag c) of
                                  Inl e \<Rightarrow> Inl (WriteError 500 ''Failed to decrypt stored Foundry administrator credential'')
                                | Inr adminPassword \<Rightarrow> Inr (password, adminPassword)))
            | _ \<Rightarrow> Inl (WriteError 401 ''Stored Foundry credential is unavailable''))
      else Inl (WriteError 400 ''encryptedPassword is required for this handshake''))"

text \<open>The token for the tab; a failure leaves the session without one.\<close>

definition mint_token :: "'h launch_env \<Rightarrow> string \<Rightarrow> db \<Rightarrow> string \<times> db" where
  "mint_token le apiKey d =
     (case account_of apiKey d of
        None \<Rightarrow> ([], d)
      | Some uid \<Rightarrow>
          (case GenerateHeadlessToken le of
             Inl e \<Rightarrow> ([], d)
           | Inr (raw, hash) \<Rightarrow>
               (case tk_Create (le_now le) (headless_token uid hash (''headless session '' @ le_stamp le (le_now le))) d of
                  (DBErr, tok, d1) \<Rightarrow> ([], d1)
                | (DBOk _, tok, d1) \<Rightarrow> (raw, d1))))"

definition session_args :: "obj \<Rightarrow> PendingHandshake \<Rightarrow> string \<times> string \<Rightarrow> string \<Rightarrow> launch_args" where
  "session_args body h pws raw =
     \<lparr>la_apiKey = hk_APIKey h, la_foundryURL = hk_FoundryURL h, la_username = hk_Username h, la_password = fst pws,
      la_adminPassword = snd pws,
      la_worldName = (if get_str body ''worldName'' \<noteq> [] then get_str body ''worldName'' else hk_WorldName h),
      la_seedToken = raw, la_createWorldName = get_str body ''createWorldName'',
      la_createWorldSystem = get_str body ''createWorldSystem'', la_expectedClientID = [], la_expectedWorldID = []\<rparr>"

record session_world =
  sw_handshakes :: handshakes
  sw_headless :: "headless option"  \<comment> \<open>\<open>None\<close>: \<open>nil\<close>, disabled by the operator\<close>
  sw_db :: db

definition launch_failed :: "string \<Rightarrow> answer" where
  "launch_failed e =
     (408, [(''error'', JStr e),
            (''message'', JStr ''Failed to start headless session. This may happen if another GM is already connected.'')])"

text \<open>The handler returns only when the launch has ended, so an answer comes with the state after it.\<close>

definition sessionStartHandler ::
    "session_cfg \<Rightarrow> 'h launch_env \<Rightarrow> string + obj \<Rightarrow> session_world \<Rightarrow> answer go \<times> session_world" where
  "sessionStartHandler cfg le parsed s =
     (case parsed of
        Inl e \<Rightarrow> (Ret (WriteError 400 e), s)
      | Inr body \<Rightarrow>
          if get_str body ''handshakeToken'' = [] then (Ret (WriteError 400 ''handshakeToken is required''), s)
          else (case take_handshake (le_now le) (get_str body ''handshakeToken'') (sw_handshakes s) of
                  (None, hs) \<Rightarrow> (Ret (WriteError 400 ''Invalid or expired handshake token''), s\<lparr>sw_handshakes := hs\<rparr>)
                | (Some h, hs) \<Rightarrow>
                    (let s1 = s\<lparr>sw_handshakes := hs\<rparr>
                     in case start_passwords cfg (le_decrypt le) (get_str body ''encryptedPassword'') h (sw_db s1) of
                          Inl a \<Rightarrow> (Ret a, s1)
                        | Inr pws \<Rightarrow>
                            (case sw_headless s1 of
                               None \<Rightarrow> (Ret (headless_disabled cfg), s1)
                             | Some hl \<Rightarrow>
                                 (case mint_token le (hk_APIKey h) (sw_db s1) of
                                    (raw, d1) \<Rightarrow>
                                      (case LaunchSession le (session_args body h pws raw) hl of
                                         (res, tr, hl1) \<Rightarrow>
                                           (case res of
                                              Panic p \<Rightarrow> Panic p
                                            | Ret (Inl e) \<Rightarrow> Ret (launch_failed e)
                                            | Ret (Inr (i, cid)) \<Rightarrow>
                                                Ret (200, [(''success'', JBool True), (''sessionId'', JStr i), (''clientId'', JStr cid)]),
                                            s1\<lparr>sw_headless := Some hl1, sw_db := le_meanwhile le d1\<rparr>)))))))"

subsection \<open>End and list\<close>

definition sessionEndHandler ::
    "(string \<Rightarrow> nat option) \<Rightarrow> string \<Rightarrow> string + obj \<Rightarrow> headless option \<Rightarrow> 'h manager \<Rightarrow> answer \<times> headless option \<times> 'h manager" where
  "sessionEndHandler scard query parsed hl m =
     (case (if query \<noteq> [] then Inr query else case parsed of Inl e \<Rightarrow> Inl e | Inr body \<Rightarrow> Inr (get_str body ''sessionId'')) of
        Inl e \<Rightarrow> (WriteError 400 e, hl, m)
      | Inr i \<Rightarrow>
          if i = [] then (WriteError 400 ''sessionId is required'', hl, m)
          else (case hl of
                  None \<Rightarrow> ((200, [(''status'', JStr ''ok'')]), hl, m)
                | Some h \<Rightarrow>
                    (case hm_EndSession scard i m h of
                       (Some e, m1, h1) \<Rightarrow> (WriteError 404 e, Some h1, m1)
                     | (None, m1, h1) \<Rightarrow> ((200, [(''status'', JStr ''ok''), (''message'', JStr ''Session ended'')]), Some h1, m1))))"

definition session_view :: "'h manager \<Rightarrow> SessionInfo \<Rightarrow> json" where
  "session_view m x =
     JObj ([(''sessionId'', JStr (sx_SessionID x)), (''clientId'', JStr (sx_ClientID x)), (''foundryUrl'', JStr (sx_FoundryURL x)),
        (''username'', JStr (sx_Username x)), (''worldName'', JStr (sx_WorldName x)), (''startedAt'', JNum (sx_StartedAt x)),
        (''lastActivity'', JNum (sx_LastActivity x))] @
       (case GetClient (sx_ClientID x) m of
          None \<Rightarrow> []
        | Some ref \<Rightarrow>
            (let c = Info (mg_instanceID m) (mg_heap m ! ref)
             in [(''worldId'', JStr (ci_WorldID c)), (''worldTitle'', JStr (ci_WorldTitle c)),
                 (''foundryVersion'', JStr (ci_FoundryVersion c)), (''systemId'', JStr (ci_SystemID c)),
                 (''systemTitle'', JStr (ci_SystemTitle c)), (''systemVersion'', JStr (ci_SystemVersion c))])))"

definition sessionListHandler :: "headless option \<Rightarrow> 'h manager \<Rightarrow> answer" where
  "sessionListHandler hl m =
     (200, [(''activeSessions'', JArr (case hl of None \<Rightarrow> [] | Some h \<Rightarrow> map (session_view m) (hm_ListSessions h)))])"

subsection \<open>The administrator's view\<close>

definition admin_session_view :: "SessionInfo \<Rightarrow> json" where
  "admin_session_view x =
     JObj [(''sessionId'', JStr (sx_SessionID x)), (''clientId'', JStr (sx_ClientID x)), (''foundryUrl'', JStr (sx_FoundryURL x)),
       (''worldName'', JStr (sx_WorldName x)), (''startedAt'', JNum (sx_StartedAt x)), (''lastActivity'', JNum (sx_LastActivity x))]"

definition admin_sessions :: "headless option \<Rightarrow> answer" where
  "admin_sessions hl =
     (let xs = (case hl of None \<Rightarrow> [] | Some h \<Rightarrow> map admin_session_view (hm_ListSessions h))
      in (200, [(''total'', JNum (int (length xs))), (''sessions'', JArr xs)]))"

text \<open>\<open>auditAdmin\<close> writes what an administrator did; without one it writes nothing, and its error is only logged.\<close>

definition auditAdmin ::
    "gotime \<Rightarrow> string \<Rightarrow> User option \<Rightarrow> string \<Rightarrow> string \<Rightarrow> string \<Rightarrow> string \<Rightarrow> db \<Rightarrow> db" where
  "auditAdmin now addr admin action targetType targetID details d =
     (case admin of
        None \<Rightarrow> d
      | Some a \<Rightarrow>
          snd (ad_Create now
            \<lparr>ad_ID = 0, ad_AdminUserID = us_ID a, ad_Action = action, ad_TargetType = targetType, ad_TargetID = opt_text targetID,
             ad_Details = opt_text details, ad_IPAddress = Some addr, ad_CreatedAt = zero_time\<rparr> d))"

definition admin_session_end ::
    "(string \<Rightarrow> nat option) \<Rightarrow> gotime \<Rightarrow> string \<Rightarrow> User option \<Rightarrow> string \<Rightarrow> headless option \<Rightarrow> 'h manager \<Rightarrow> db \<Rightarrow>
     answer \<times> headless option \<times> 'h manager \<times> db" where
  "admin_session_end scard now addr admin i hl m d =
     (case hl of
        None \<Rightarrow> (WriteError 503 ''Headless sessions disabled'', hl, m, d)
      | Some h \<Rightarrow>
          (case hm_EndSession scard i m h of
             (Some e, m1, h1) \<Rightarrow> (WriteError 404 ''Session not found or could not be ended'', Some h1, m1, d)
           | (None, m1, h1) \<Rightarrow>
               ((200, [(''message'', JStr ''Session ended'')]), Some h1, m1,
                auditAdmin now addr admin ''session.kill'' ''headless_session'' i [] d)))"

subsection \<open>What the routes keep\<close>

lemma start_takes_handshake:
  assumes "sessionStartHandler cfg le (Inr body) s = (a, s')" and "get_str body ''handshakeToken'' \<noteq> []"
  shows "aget (sw_handshakes s') (get_str body ''handshakeToken'') = None"
  using assms
  by (auto simp: sessionStartHandler_def take_handshake_def Let_def split: option.splits sum.splits prod.splits if_splits)

text \<open>A handshake token is good for one start, whatever came of it.\<close>

theorem handshake_once:
  assumes "sessionStartHandler cfg le (Inr body) s = (a, s')" and "get_str body ''handshakeToken'' \<noteq> []"
    and "get_str body' ''handshakeToken'' = get_str body ''handshakeToken''"
  shows "sessionStartHandler cfg' le' (Inr body') s' = (Ret (WriteError 400 ''Invalid or expired handshake token''), s')"
  using start_takes_handshake [OF assms(1,2)] assms(2,3)
  by (simp add: sessionStartHandler_def take_handshake_def)

lemma start_passwords_stored:
  assumes "start_passwords cfg decrypt enc h d = Inr pws"
  shows "if enc = [] then \<exists>uid c. account_of (hk_APIKey h) d = Some uid \<and> cr_FindByID (hk_CredentialID h) d = DBOk (Some c) \<and> cr_UserID c = uid
    else \<exists>bytes plain. DecodeString enc = Some bytes \<and> sc_oaep cfg (hk_PrivateKey h) bytes = Some plain \<and>
           sc_creds cfg plain = Some (fst pws, hk_Nonce h)"
  using assms
  by (auto simp: start_passwords_def WriteError_def split: if_splits option.splits sum.splits prod.splits db_result.splits)

text \<open>A start succeeds only on an unexpired handshake, with a password that was encrypted for it together with its nonce or
  with a stored credential of the handshake's account, and the session belongs to that account.\<close>

theorem start_bound_to_handshake:
  assumes run: "sessionStartHandler cfg le (Inr body) s = (Ret (200, out), s')"
  shows "\<exists>h cid tab a hl'.
    aget (sw_handshakes s) (get_str body ''handshakeToken'') = Some h \<and> le_now le \<le> hk_ExpiresAt h \<and>
    (if get_str body ''encryptedPassword'' = []
     then \<exists>uid c. account_of (hk_APIKey h) (sw_db s) = Some uid \<and> cr_FindByID (hk_CredentialID h) (sw_db s) = DBOk (Some c) \<and>
            cr_UserID c = uid
     else \<exists>bytes plain password. DecodeString (get_str body ''encryptedPassword'') = Some bytes \<and>
            sc_oaep cfg (hk_PrivateKey h) bytes = Some plain \<and> sc_creds cfg plain = Some (password, hk_Nonce h)) \<and>
    sw_headless s' = Some hl' \<and> aget out ''clientId'' = Some (JStr cid) \<and> la_apiKey a = hk_APIKey h \<and>
    la_foundryURL a = hk_FoundryURL h \<and> open_session le a tab cid hl'"
proof -
  obtain h hs where h: "take_handshake (le_now le) (get_str body ''handshakeToken'') (sw_handshakes s) = (Some h, hs)"
    using run by (auto simp: sessionStartHandler_def WriteError_def split: if_splits prod.splits option.splits)
  let ?enc = "get_str body ''encryptedPassword''"
  obtain pws where pws: "start_passwords cfg (le_decrypt le) ?enc h (sw_db s) = Inr pws"
    using run h
    by (auto simp: sessionStartHandler_def WriteError_def start_passwords_def Let_def
        split: if_splits prod.splits option.splits sum.splits db_result.splits)
  obtain hl where hl: "sw_headless s = Some hl"
    using run h pws by (auto simp: sessionStartHandler_def headless_disabled_def WriteError_def Let_def split: if_splits option.splits)
  obtain raw d1 where raw: "mint_token le (hk_APIKey h) (sw_db s) = (raw, d1)" by fastforce
  let ?a = "session_args body h pws raw"
  obtain i cid tr hl1 where launch: "LaunchSession le ?a hl = (Ret (Inr (i, cid)), tr, hl1)" and
    out: "out = [(''success'', JBool True), (''sessionId'', JStr i), (''clientId'', JStr cid)]" "sw_headless s' = Some hl1"
    using run h pws hl raw
    by (auto simp: sessionStartHandler_def WriteError_def launch_failed_def Let_def split: if_splits prod.splits go.splits sum.splits)
  obtain s1 tab where adm: "launch_admit le (la_apiKey ?a) ''API key'' hl = (None, s1)" "br_newTab (le_browser le) = Ret (Inr tab)"
    using launch by (auto simp: LaunchSession_def split: option.splits prod.splits go.splits sum.splits)
  have "open_session le ?a tab cid hl1"
    using launch adm by (auto simp: LaunchSession_def split: option.splits prod.splits dest: poll_loop_settles)
  moreover have "aget (sw_handshakes s) (get_str body ''handshakeToken'') = Some h" "le_now le \<le> hk_ExpiresAt h"
    using h by (auto simp: take_handshake_def split: option.splits if_splits)
  moreover have "la_apiKey ?a = hk_APIKey h" "la_foundryURL ?a = hk_FoundryURL h" by (simp_all add: session_args_def)
  ultimately show ?thesis
    using start_passwords_stored [OF pws] out
    by (intro exI [of _ h] exI [of _ cid] exI [of _ tab] exI [of _ ?a] exI [of _ hl1]) auto
qed

subsection \<open>Which stored credential\<close>

definition linked :: "Credential list \<Rightarrow> KnownClient \<Rightarrow> Credential option" where
  "linked creds k = (case kc_CredentialID k of None \<Rightarrow> None | Some crid \<Rightarrow> find (\<lambda>c. cr_ID c = crid) creds)"

definition seen_no_later :: "KnownClient \<Rightarrow> KnownClient \<Rightarrow> bool" where
  "seen_no_later k k' \<longleftrightarrow> (case kc_LastSeenAt k of None \<Rightarrow> True | Some t \<Rightarrow> (\<exists>t'. kc_LastSeenAt k' = Some t' \<and> t \<le> t'))"

lemma set_by_last_seen [simp]: "set (by_last_seen ks) = set ks"
  by (auto simp: by_last_seen_def)

lemma by_last_seen_sorted: "sorted_wrt (\<lambda>a b. seen_no_later b a) (by_last_seen ks)"
proof -
  let ?seen = "sort_key (\<lambda>k. - the (kc_LastSeenAt k)) (filter (\<lambda>k. kc_LastSeenAt k \<noteq> None) ks)"
  have "sorted_wrt (\<lambda>a b. - the (kc_LastSeenAt a) \<le> - the (kc_LastSeenAt b)) ?seen"
    using sorted_sort_key [of "\<lambda>k. - the (kc_LastSeenAt k)" "filter (\<lambda>k. kc_LastSeenAt k \<noteq> None) ks"]
    by (simp only: sorted_map)
  then have "sorted_wrt (\<lambda>a b. seen_no_later b a) ?seen"
    by (rule sorted_wrt_mono_rel [rotated]) (auto simp: seen_no_later_def)
  moreover have "sorted_wrt (\<lambda>a b. seen_no_later b a) (filter (\<lambda>k. kc_LastSeenAt k = None) ks)"
    by (induction ks) (auto simp: seen_no_later_def)
  ultimately show ?thesis
    by (simp add: by_last_seen_def sorted_wrt_append seen_no_later_def)
qed

lemma choose_world_find:
  assumes "\<forall>c \<in> set creds. cr_ID c \<noteq> 0"
  shows "choose_world ks creds (0, url, user, world) =
    (case find (\<lambda>k. linked creds k \<noteq> None) ks of
       None \<Rightarrow> (0, url, user, world)
     | Some k \<Rightarrow>
         (let c = the (linked creds k)
          in (cr_ID c, cr_FoundryURL c, cr_FoundryUsername c, if world = [] then null_str (kc_WorldTitle k) else world)))"
proof (induction ks)
  case (Cons k ks)
  have nz: "cr_ID c \<noteq> 0" if "find P creds = Some c" for P c
    using that assms by (auto simp: find_Some_iff)
  show ?case
  proof (cases "linked creds k")
    case None
    then show ?thesis
      using Cons by (cases "kc_CredentialID k") (simp_all add: linked_def)
  next
    case (Some c)
    then show ?thesis
      using nz by (cases "kc_CredentialID k") (auto simp: linked_def Let_def)
  qed
qed simp

lemma found_in: "find P xs = Some x \<Longrightarrow> x \<in> set xs \<and> P x"
  by (auto simp: find_Some_iff)

text \<open>The first of a sorted list.\<close>

lemma find_latest:
  assumes "find P (by_last_seen ks) = Some k" "k' \<in> set ks" "P k'"
  shows "seen_no_later k' k"
proof -
  obtain i where i: "i < length (by_last_seen ks)" "by_last_seen ks ! i = k" "\<forall>j < i. \<not> P (by_last_seen ks ! j)"
    using assms(1) by (auto simp: find_Some_iff)
  obtain j where j: "j < length (by_last_seen ks)" "by_last_seen ks ! j = k'"
    using assms(2) by (metis in_set_conv_nth set_by_last_seen)
  show ?thesis
  proof (cases "i < j")
    case True
    then show ?thesis
      using by_last_seen_sorted [of ks] i j by (auto simp: sorted_wrt_iff_nth_less)
  next
    case False
    then have "i = j" using i(3) j assms(3) by (metis linorder_neqE_nat)
    then show ?thesis using i j by (simp add: seen_no_later_def split: option.split)
  qed
qed

text \<open>a handshake without an address takes a credential of the caller's own account, the one of the most recently
  seen world that has one.\<close>

theorem handshake_picks_latest:
  assumes target: "handshake_target master [] [] world d = Some (i, url, user, w)" "i \<noteq> 0"
    and known: "account_of master d = Some uid" "kc_FindAllByUser uid d = DBOk ks"
    and ids: "\<forall>c \<in> set (db_credentials d). cr_ID c \<noteq> 0"
  shows "\<exists>c. c \<in> set (db_credentials d) \<and> cr_UserID c = uid \<and> i = cr_ID c \<and> url = cr_FoundryURL c \<and> user = cr_FoundryUsername c \<and>
    (\<forall>k \<in> set ks. linked (filter (\<lambda>c. cr_UserID c = uid) (db_credentials d)) k \<noteq> None \<longrightarrow>
       (\<exists>k' \<in> set ks. linked (filter (\<lambda>c. cr_UserID c = uid) (db_credentials d)) k' = Some c \<and> seen_no_later k k'))"
proof -
  let ?creds = "filter (\<lambda>c. cr_UserID c = uid) (db_credentials d)"
  have "cr_FindAllByUser uid d = DBOk ?creds"
    using target(1) known by (auto simp: handshake_target_def cr_FindAllByUser_def split: if_splits)
  then have ch: "choose_credential ks ?creds world = (i, url, user, w)"
    using target(1) known by (simp add: handshake_target_def)
  have own: "\<forall>c \<in> set ?creds. cr_ID c \<noteq> 0" using ids by auto
  note cw = choose_world_find [OF own, of "by_last_seen ks" "[]" "[]" world]
  show ?thesis
  proof (cases "find (\<lambda>k. linked ?creds k \<noteq> None) (by_last_seen ks)")
    case None
    then have none: "\<forall>k \<in> set ks. linked ?creds k = None"
      by (simp add: find_None_iff)
    have one: "length ?creds = 1" "i = cr_ID (hd ?creds)" "url = cr_FoundryURL (hd ?creds)" "user = cr_FoundryUsername (hd ?creds)"
      using ch cw None target(2) by (auto simp: choose_credential_def split: if_splits)
    then have "hd ?creds \<in> set ?creds" by (cases ?creds) auto
    then show ?thesis using one none by (intro exI [of _ "hd ?creds"]) auto
  next
    case (Some k)
    have "k \<in> set (by_last_seen ks)" "linked ?creds k \<noteq> None"
      using found_in [OF Some] by auto
    then obtain c where k: "k \<in> set ks" "linked ?creds k = Some c" by auto
    then have c: "c \<in> set ?creds"
      unfolding linked_def by (auto split: option.splits dest: found_in)
    have "i = cr_ID c" "url = cr_FoundryURL c" "user = cr_FoundryUsername c"
      using ch cw Some k(2) own c by (auto simp: choose_credential_def Let_def split: if_splits)
    then show ?thesis
      using c k find_latest [OF Some] by (intro exI [of _ c]) auto
  qed
qed

subsection \<open>What the routes leave open\<close>

text \<open>The list and the end of sessions take no account: every session is listed and can be ended, whoever asks.\<close>

lemma every_session_listed:
  assumes "aget (hl_sessions h) i = Some x"
  shows "\<exists>views. sessionListHandler (Some h) m = (200, [(''activeSessions'', JArr views)]) \<and> session_view m (session_info x) \<in> set views"
  using aget_in_set [OF assms] by (force simp: sessionListHandler_def hm_ListSessions_def)

lemma any_session_ended:
  assumes "aget (hl_sessions h) i = Some x" "i \<noteq> []"
  shows "\<exists>h' m'. sessionEndHandler scard i parsed (Some h) m =
      ((200, [(''status'', JStr ''ok''), (''message'', JStr ''Session ended'')]), Some h', m') \<and>
    aget (hl_sessions h') i = None \<and> GetClient (hs_ClientID x) m' = None"
  using assms
  by (simp add: sessionEndHandler_def hm_EndSession_def cancel_session_def forget_in_redis_def GetClient_def RemoveClient_def
      unregister_def Let_def split: option.split)

text \<open>A start whose launch fails leaves the token it minted, unlike the automatic start.\<close>

lemma failed_session_leaves_token:
  assumes "mint_token le (hk_APIKey h) d = (raw, d1)" "raw \<noteq> []"
  shows "\<exists>t \<in> set (db_tokens d1). ct_Source t = ''headless'' \<and> ct_TokenHash t = le_sha le raw"
  using assms
  by (auto simp: mint_token_def GenerateHeadlessToken_def tk_Create_def headless_token_def Let_def
      split: option.splits sum.splits if_splits)

text \<open>The end of a session removes the module and no token: it takes no database at all.  The token of a started world outlives it.\<close>

subsection \<open>A stored world\<close>

definition ex_session_cfg :: session_cfg where
  "ex_session_cfg =
     \<lparr>sc_AllowHeadless = True, sc_FrontendURL = [], sc_InstanceID = ''i1'', sc_rfc = (\<lambda>_. []), sc_generate = Some (''sk'', ''pk''),
      sc_marshals = True, sc_nonce = ''n'', sc_token = ''t'', sc_oaep = (\<lambda>_ _. None), sc_creds = (\<lambda>_. None)\<rparr>"

definition ex_handshake :: PendingHandshake where
  "ex_handshake =
     \<lparr>hk_PrivateKey = ''sk'', hk_PublicKeyPEM = ''pk'', hk_Nonce = ''n'', hk_FoundryURL = ''http://f'', hk_Username = ''gm'',
      hk_WorldName = [], hk_APIKey = ''key'', hk_CredentialID = 9, hk_InstanceID = ''i1'', hk_ExpiresAt = 100\<rparr>"

definition ex_session_world :: session_world where
  "ex_session_world = \<lparr>sw_handshakes = [(''t'', ex_handshake)], sw_headless = Some ex_headless, sw_db = ex_start_db\<rparr>"

definition ex_body :: obj where
  "ex_body = [(''handshakeToken'', JStr ''t'')]"

lemma ex_account_of: "account_of ''key'' ex_start_db = Some 1"
  by (simp add: account_of_def us_FindByAPIKeyHash_def get_row_def db_ok_def ex_start_defs)

lemma handshake_once_witness:
  "\<exists>s'. snd (sessionStartHandler ex_session_cfg ex_launch (Inr ex_body) ex_session_world) = s' \<and>
     sessionStartHandler ex_session_cfg ex_launch (Inr ex_body) s' = (Ret (WriteError 400 ''Invalid or expired handshake token''), s')"
proof -
  have "get_str ex_body ''handshakeToken'' \<noteq> []" by (simp add: ex_body_def get_str_def)
  from handshake_once [OF prod.collapse [symmetric] this refl] show ?thesis by blast
qed

lemma ex_session_script: "fst (session_script ex_browser a []) = None"
  by (cases "la_seedToken a = []"; cases "la_createWorldName a = []"; cases "la_worldName a = []")
     (simp_all add: session_script_def tab_then_def tab_when_def tab_do_def tab_page_def injectConnectionTokenSeed_def
      tab_navigate_def tab_selectWorld_def ex_browser_def)

lemma ex_session_launch:
  assumes "la_apiKey a = ''key''"
  shows "\<exists>tr s'. LaunchSession ex_launch a ex_headless = (Ret (Inr (''u1'', ''fvtt_1'')), tr, s')"
proof -
  have tab: "br_newTab ex_browser = Ret (Inr 4)" "le_uuid ex_launch = ''u1''" "le_snapshot ex_launch = NewClientManager True ''i1''"
    by (simp_all add: ex_browser_def ex_launch_def)
  obtain tr where tr: "session_script ex_browser a [] = (None, tr)"
    using ex_session_script by (metis prod.collapse)
  have tr1: "tab_enter ex_browser u p tr = (None, tr @ [TLogin u p, TCanvas])" for u p
    by (simp add: tab_enter_def tab_then_def tab_do_def ex_browser_def)
  have found: "new_client ''key'' [] (NewClientManager True ''i1'' :: unit manager) = None"
    "new_client ''key'' [] (ex_manager True ''i1'') = Some ''fvtt_1''" "GetConnectedClients ''key'' (NewClientManager True ''i1'' :: unit manager) = []"
    by (simp_all add: new_client_def GetConnectedClients_def group_ids_def live_def IsAlive_def ex_manager_defs)
  show ?thesis
    by (simp add: LaunchSession_def ex_admit ex_launch_fields tab tr tr1 found assms)
qed

lemma start_bound_to_handshake_witness:
  "\<exists>out s' h. sessionStartHandler ex_session_cfg ex_launch (Inr ex_body) ex_session_world = (Ret (200, out), s') \<and>
     aget (sw_handshakes ex_session_world) ''t'' = Some h \<and> le_now ex_launch \<le> hk_ExpiresAt h"
proof -
  let ?s = "ex_session_world\<lparr>sw_handshakes := []\<rparr>"
  have fields: "get_str ex_body ''handshakeToken'' = ''t''" "get_str ex_body ''encryptedPassword'' = []" "le_now ex_launch = 10"
    "sw_handshakes ex_session_world = [(''t'', ex_handshake)]" "hk_ExpiresAt ex_handshake = 100" "sw_headless ex_session_world = Some ex_headless"
    "hk_APIKey ex_handshake = ''key''" "hk_CredentialID ex_handshake = 9" "sw_db ex_session_world = ex_start_db"
    by (simp_all add: ex_body_def get_str_def ex_launch_def ex_session_world_def ex_handshake_def)
  have taken: "take_handshake 10 ''t'' [(''t'', ex_handshake)] = (Some ex_handshake, [])"
    by (simp add: take_handshake_def fields)
  have cred: "cr_FindByID 9 ex_start_db = DBOk (Some ex_stored)" "cr_UserID ex_stored = 1" "cr_EncryptedAdminPassword ex_stored = []"
    by (simp_all add: cr_FindByID_def get_row_def db_ok_def ex_start_defs)
  have "\<exists>pws. start_passwords ex_session_cfg (le_decrypt ex_launch) [] ex_handshake ex_start_db = Inr pws"
    by (simp add: start_passwords_def fields ex_account_of cred) (simp add: ex_launch_def)
  then obtain pws where pws: "start_passwords ex_session_cfg (le_decrypt ex_launch) [] ex_handshake ex_start_db = Inr pws" by blast
  obtain raw d1 where raw: "mint_token ex_launch ''key'' ex_start_db = (raw, d1)" by fastforce
  have "la_apiKey (session_args ex_body ex_handshake pws raw) = ''key''" by (simp add: session_args_def fields)
  from ex_session_launch [OF this] obtain tr hl' where
    "LaunchSession ex_launch (session_args ex_body ex_handshake pws raw) ex_headless = (Ret (Inr (''u1'', ''fvtt_1'')), tr, hl')" by blast
  then obtain out s' where run: "sessionStartHandler ex_session_cfg ex_launch (Inr ex_body) ex_session_world = (Ret (200, out), s')"
    by (simp add: sessionStartHandler_def fields taken pws raw Let_def)
  from start_bound_to_handshake [OF run] run show ?thesis unfolding fields by auto
qed

lemma handshake_picks_latest_witness:
  "\<exists>c. c \<in> set (db_credentials ex_start_db) \<and> cr_UserID c = 1 \<and> cr_FoundryURL c = ''http://f''"
proof -
  let ?ks = "[(ex_known 5 1 ''fvtt_1'')\<lparr>kc_AutoStartOnRemoteRequest := True, kc_CredentialID := Some 9\<rparr>]"
  have ks: "kc_FindAllByUser 1 ex_start_db = DBOk ?ks"
    by (simp add: kc_FindAllByUser_def db_ok_def ex_start_defs)
  have creds: "cr_FindAllByUser 1 ex_start_db = DBOk [ex_stored]"
    by (simp add: cr_FindAllByUser_def db_ok_def ex_start_defs)
  have c: "cr_ID ex_stored = 9" "cr_FoundryURL ex_stored = ''http://f''" "cr_FoundryUsername ex_stored = ''gm''"
    by (simp_all add: ex_stored_def)
  have "handshake_target ''key'' [] [] [] ex_start_db = Some (9, ''http://f'', ''gm'', [])"
    by (simp add: handshake_target_def ex_account_of ks creds choose_credential_def by_last_seen_def c ex_known_def null_str_def)
  moreover have "\<forall>c \<in> set (db_credentials ex_start_db). cr_ID c \<noteq> 0" by (simp add: ex_start_defs)
  ultimately show ?thesis
    using handshake_picks_latest [OF _ _ ex_account_of ks, of "[]" 9 "''http://f''" "''gm''" "[]"] by fastforce
qed

end
