(* ===== verification/Rolling.thy ===== *)
theory Rolling
  imports Prelude "HOL-Library.More_List"
begin

text \<open>
  The in-memory request statistics, \<open>internal/metrics/rolling.go\<close>: ring buffers of counts per
  minute, hour and day, and tallies per user and endpoint.

  The three triples of fields (buckets, cursor, start of the current bucket) are values of one
  record, since \<open>advance\<close> treats them alike.  Counts are unbounded integers: Go's wrap around after
  \<open>2^63\<close> requests.  A time is the number of nanoseconds since Go's zero time, which is what
  \<open>Truncate\<close> rounds against.
\<close>

record ring =
  rb_buckets :: "int list"
  rb_idx :: nat
  rb_last :: gotime

record rolling =
  ro_minute :: ring
  ro_hour :: ring
  ro_day :: ring
  ro_byUser :: "(int, int) gomap"
  ro_byEndpoint :: "(string, int) gomap"
  ro_errorsTotal :: int

definition hours :: "int \<Rightarrow> int" where
  "hours n = 60 * minutes n"

definition trunc :: "int \<Rightarrow> gotime \<Rightarrow> gotime" where
  "trunc d t = t - t mod d"

definition NewRolling :: "gotime \<Rightarrow> rolling" where
  "NewRolling now =
     \<lparr>ro_minute = \<lparr>rb_buckets = replicate 60 0, rb_idx = 0, rb_last = trunc (minutes 1) now\<rparr>,
      ro_hour = \<lparr>rb_buckets = replicate 24 0, rb_idx = 0, rb_last = trunc (hours 1) now\<rparr>,
      ro_day = \<lparr>rb_buckets = replicate 30 0, rb_idx = 0, rb_last = trunc (24 * hours 1) now\<rparr>,
      ro_byUser = [], ro_byEndpoint = [], ro_errorsTotal = 0\<rparr>"

text \<open>The loop that moves the cursor and clears what it moves onto.\<close>

fun advance_loop :: "nat \<Rightarrow> nat \<Rightarrow> ring \<Rightarrow> ring" where
  "advance_loop n 0 r = r"
| "advance_loop n (Suc k) r =
     (let i = (rb_idx r + 1) mod n
      in advance_loop n k (r\<lparr>rb_idx := i, rb_buckets := (rb_buckets r)[i := 0]\<rparr>))"

definition advance_ring :: "nat \<Rightarrow> int \<Rightarrow> gotime \<Rightarrow> ring \<Rightarrow> ring" where
  "advance_ring n d now r =
     (let current = trunc d now;
          elapsed = (current - rb_last r) div d
      in if elapsed > 0 then
           (let r1 = advance_loop n (min (nat elapsed) n) r;
                r2 = (if elapsed \<ge> int n then r1\<lparr>rb_buckets := map (\<lambda>_. 0) (rb_buckets r1)\<rparr> else r1)
            in r2\<lparr>rb_last := current\<rparr>)
         else r)"

definition advance :: "gotime \<Rightarrow> rolling \<Rightarrow> rolling" where
  "advance now r =
     r\<lparr>ro_minute := advance_ring 60 (minutes 1) now (ro_minute r),
       ro_hour := advance_ring 24 (hours 1) now (ro_hour r),
       ro_day := advance_ring 30 (24 * hours 1) now (ro_day r)\<rparr>"

definition bump :: "ring \<Rightarrow> ring" where
  "bump r = r\<lparr>rb_buckets := (rb_buckets r)[rb_idx r := rb_buckets r ! rb_idx r + 1]\<rparr>"

definition tally :: "'k \<Rightarrow> ('k, int) gomap \<Rightarrow> ('k, int) gomap" where
  "tally k m = aput k ((case aget m k of None \<Rightarrow> 0 | Some c \<Rightarrow> c) + 1) m"

definition isFoundryAPIPath :: "string \<Rightarrow> bool" where
  "isFoundryAPIPath path \<longleftrightarrow>
     list_all (\<lambda>pre. \<not> has_prefix path pre)
       [''/api'', ''/auth'', ''/admin'', ''/ws'', ''/relay'', ''/_'', ''/docs'', ''/privacy'', ''/static'']
     \<and> path \<noteq> [] \<and> path \<noteq> ''unknown''"

definition Record :: "gotime \<Rightarrow> int \<Rightarrow> string \<Rightarrow> int \<Rightarrow> rolling \<Rightarrow> rolling" where
  "Record now userID endpoint status r0 =
     (let r = advance now r0;
          r1 = r\<lparr>ro_minute := bump (ro_minute r), ro_hour := bump (ro_hour r), ro_day := bump (ro_day r)\<rparr>;
          r2 = (if userID > 0 then r1\<lparr>ro_byUser := tally userID (ro_byUser r1)\<rparr> else r1);
          r3 = (if isFoundryAPIPath endpoint then r2\<lparr>ro_byEndpoint := tally endpoint (ro_byEndpoint r2)\<rparr> else r2)
      in if status \<ge> 500 then r3\<lparr>ro_errorsTotal := ro_errorsTotal r3 + 1\<rparr> else r3)"

definition Overview :: "rolling \<Rightarrow> obj" where
  "Overview r =
     [(''requestsPerMinute'', JNum (sum_list (rb_buckets (ro_minute r)))),
      (''requestsPerHour'', JNum (sum_list (rb_buckets (ro_hour r)))),
      (''requestsPerDay'', JNum (sum_list (rb_buckets (ro_day r)))),
      (''errorsTotal'', JNum (ro_errorsTotal r))]"

text \<open>
  \<open>sort.Slice\<close> leaves the order of equal elements open; so does the order of the map it starts from,
  and a stable sort of every such order gives every outcome.
\<close>

definition ByEndpoint :: "rolling \<Rightarrow> obj list" where
  "ByEndpoint r =
     map (\<lambda>(ep, c). [(''path'', JStr ep), (''count'', JNum c)])
       (sort_key (\<lambda>e. - snd e) (ro_byEndpoint r))"

definition TopConsumers :: "int \<Rightarrow> rolling \<Rightarrow> obj list" where
  "TopConsumers n r =
     (let all = sort_key (\<lambda>e. - snd e) (ro_byUser r);
          topN = (if n > 0 \<and> int (length all) > n then take (nat n) all else all)
      in map (\<lambda>(uid, c). [(''userId'', JNum uid), (''count'', JNum c)]) topN)"

definition Errors :: "rolling \<Rightarrow> int" where
  "Errors r = ro_errorsTotal r"

definition Export :: "rolling \<Rightarrow> (string, int) gomap \<times> (int, int) gomap \<times> int" where
  "Export r = (ro_byEndpoint r, ro_byUser r, ro_errorsTotal r)"

definition Import :: "(string, int) gomap \<Rightarrow> (int, int) gomap \<Rightarrow> int \<Rightarrow> rolling \<Rightarrow> rolling" where
  "Import byEndpoint byUser errorsTotal r =
     r\<lparr>ro_byEndpoint := byEndpoint, ro_byUser := byUser, ro_errorsTotal := errorsTotal\<rparr>"

subsection \<open>A ring holds the last slots of its history\<close>

text \<open>
  The abstraction: the history is the list of times recorded, a slot is a time divided by the
  width.  \<open>behind n i k\<close> is the position \<open>k\<close> slots behind the cursor.
\<close>

definition behind :: "nat \<Rightarrow> nat \<Rightarrow> nat \<Rightarrow> nat" where
  "behind n i k = (i + n - k) mod n"

definition in_slot :: "int \<Rightarrow> int \<Rightarrow> gotime list \<Rightarrow> int" where
  "in_slot d s hist = int (length (filter (\<lambda>t. t div d = s) hist))"

definition ring_holds :: "nat \<Rightarrow> int \<Rightarrow> gotime list \<Rightarrow> ring \<Rightarrow> bool" where
  "ring_holds n d hist r \<longleftrightarrow>
     length (rb_buckets r) = n \<and> rb_idx r < n \<and> rb_last r = d * (rb_last r div d) \<and>
     (\<forall>t \<in> set hist. t div d \<le> rb_last r div d) \<and>
     (\<forall>k < n. rb_buckets r ! behind n (rb_idx r) k = in_slot d (rb_last r div d - int k) hist)"

lemma behind_0: "i < n \<Longrightarrow> behind n i 0 = i"
  by (simp add: behind_def)

lemma behind_less: "0 < n \<Longrightarrow> behind n i k < n"
  by (simp add: behind_def)

lemma behind_Suc:
  assumes "i < n" and "Suc k < n"
  shows "behind n ((i + 1) mod n) (Suc k) = behind n i k"
proof (cases "Suc i = n")
  case True
  then have "i + n - k = n + (n - Suc k)" using assms by linarith
  then have "behind n i k = (n + (n - Suc k)) mod n" by (simp add: behind_def)
  also have "\<dots> = (0 + n - Suc k) mod n" by simp
  finally show ?thesis using True by (simp add: behind_def)
next
  case False
  then show ?thesis using assms by (simp add: behind_def)
qed

lemma behind_inj: "\<lbrakk>i < n; k < n; l < n; behind n i k = behind n i l\<rbrakk> \<Longrightarrow> k = l"
  by (auto simp: behind_def mod_if split: if_splits)

lemma behind_bij: "i < n \<Longrightarrow> bij_betw (behind n i) {..<n} {..<n}"
proof -
  assume i: "i < n"
  have inj: "inj_on (behind n i) {..<n}"
    using behind_inj [OF i] by (auto simp: inj_on_def)
  moreover have "behind n i ` {..<n} \<subseteq> {..<n}"
    using i by (auto simp: behind_less)
  ultimately show ?thesis
    by (simp add: bij_betw_def endo_inj_surj)
qed

lemma in_slot_none: "\<forall>t \<in> set hist. t div d \<noteq> s \<Longrightarrow> in_slot d s hist = 0"
  by (simp add: in_slot_def filter_empty_conv)

text \<open>One move of the cursor.\<close>

lemma advance_loop_holds:
  assumes "length (rb_buckets r) = n" and "rb_idx r < n"
    and "\<forall>t \<in> set hist. t div d \<le> s"
    and "\<forall>k < n. rb_buckets r ! behind n (rb_idx r) k = in_slot d (s - int k) hist"
  shows "let r' = advance_loop n m r in length (rb_buckets r') = n \<and> rb_idx r' < n \<and> rb_last r' = rb_last r \<and>
    (\<forall>k < n. rb_buckets r' ! behind n (rb_idx r') k = in_slot d (s + int m - int k) hist)"
  using assms
proof (induction n m r arbitrary: s rule: advance_loop.induct)
  case (2 n m r)
  let ?i = "(rb_idx r + 1) mod n"
  let ?r = "r\<lparr>rb_idx := ?i, rb_buckets := (rb_buckets r)[?i := 0]\<rparr>"
  have n: "0 < n" using 2(3) by simp
  have i: "?i < n" using n by simp
  have slots: "rb_buckets ?r ! behind n (rb_idx ?r) k = in_slot d (s + 1 - int k) hist" if k: "k < n" for k
  proof (cases k)
    case 0
    have "in_slot d (s + 1) hist = 0"
      using 2(4) by (intro in_slot_none) fastforce
    then show ?thesis
      using i 2(2) behind_0 [OF i] 0 by simp
  next
    case (Suc j)
    have "behind n ?i k = behind n (rb_idx r) j"
      using behind_Suc [of "rb_idx r" n j] 2(3) k Suc by simp
    moreover have "behind n ?i k \<noteq> ?i"
      using behind_inj [OF i k n] behind_0 [OF i] Suc by auto
    ultimately show ?thesis
      using 2(5) k Suc behind_less [OF n] by simp
  qed
  have "let r' = advance_loop n m ?r in length (rb_buckets r') = n \<and> rb_idx r' < n \<and> rb_last r' = rb_last ?r \<and>
      (\<forall>k < n. rb_buckets r' ! behind n (rb_idx r') k = in_slot d (s + 1 + int m - int k) hist)"
    using 2(2,4) i slots by (intro 2(1) [OF refl]) auto
  then show ?case by (simp add: Let_def algebra_simps)
qed simp

lemma trunc_mult: "trunc d t = d * (t div d)"
  by (simp add: trunc_def minus_mod_eq_mult_div)

lemma trunc_div [simp]: "0 < d \<Longrightarrow> trunc d t div d = t div d"
  by (simp add: trunc_mult)

lemma advance_ring_holds:
  assumes r: "ring_holds n d hist r" and d: "0 < d" and now: "rb_last r \<le> now"
  shows "ring_holds n d hist (advance_ring n d now r)" and "rb_last (advance_ring n d now r) = trunc d now"
proof -
  let ?s = "rb_last r div d" and ?c = "now div d"
  have last: "rb_last r = d * ?s" and le: "?s \<le> ?c"
    using r d now by (simp_all add: ring_holds_def zdiv_mono1)
  have elapsed: "(trunc d now - rb_last r) div d = ?c - ?s"
    using d by (subst last) (simp add: trunc_mult right_diff_distrib [symmetric])
  have "ring_holds n d hist (advance_ring n d now r) \<and> rb_last (advance_ring n d now r) = trunc d now"
  proof (cases "?c = ?s")
    case True
    then have "advance_ring n d now r = r" by (simp add: advance_ring_def elapsed)
    moreover have "rb_last r = trunc d now" using last True by (simp add: trunc_mult)
    ultimately show ?thesis using r by simp
  next
    case False
    then have gt: "?c - ?s > 0" using le by simp
    let ?m = "min (nat (?c - ?s)) n"
    let ?r1 = "advance_loop n ?m r"
    have loop: "length (rb_buckets ?r1) = n" "rb_idx ?r1 < n"
        "\<forall>k < n. rb_buckets ?r1 ! behind n (rb_idx ?r1) k = in_slot d (?s + int ?m - int k) hist"
      using advance_loop_holds [where r = r and n = n and hist = hist and d = d and s = ?s and m = ?m] r
      by (simp_all add: ring_holds_def Let_def)
    have adv: "advance_ring n d now r =
        (if ?c - ?s \<ge> int n then ?r1\<lparr>rb_buckets := map (\<lambda>_. 0) (rb_buckets ?r1)\<rparr> else ?r1)\<lparr>rb_last := trunc d now\<rparr>"
      using gt by (simp add: advance_ring_def elapsed Let_def)
    have old: "\<forall>t \<in> set hist. t div d \<le> ?s" using r by (simp add: ring_holds_def)
    have older: "\<forall>t \<in> set hist. t div d \<le> ?c" using old le by fastforce
    show ?thesis
    proof (cases "?c - ?s \<ge> int n")
      case True
      have "in_slot d (?c - int k) hist = 0" if "k < n" for k
        using old that True by (intro in_slot_none) fastforce
      then show ?thesis
        using True loop older behind_less [of n] d
        by (simp add: adv ring_holds_def trunc_mult)
    next
      case False
      then have "?s + int ?m = ?c" using gt by simp
      then show ?thesis
        using False loop older d by (simp add: adv ring_holds_def trunc_mult)
    qed
  qed
  then show "ring_holds n d hist (advance_ring n d now r)" "rb_last (advance_ring n d now r) = trunc d now"
    by simp_all
qed

lemma bump_holds:
  assumes r: "ring_holds n d hist r" and d: "0 < d" and last: "rb_last r = trunc d now"
  shows "ring_holds n d (now # hist) (bump r)"
proof -
  let ?i = "rb_idx r"
  have i: "?i < n" and len: "length (rb_buckets r) = n" using r by (simp_all add: ring_holds_def)
  have "rb_buckets (bump r) ! behind n ?i k = in_slot d (now div d - int k) (now # hist)" if k: "k < n" for k
  proof (cases k)
    case 0
    have "rb_buckets r ! behind n ?i 0 = in_slot d (rb_last r div d - int 0) hist"
      using r i by (simp only: ring_holds_def)
    then show ?thesis
      using i len d 0 by (simp add: bump_def behind_0 in_slot_def last)
  next
    case (Suc j)
    have "behind n ?i k \<noteq> ?i"
      using behind_inj [OF i k, of 0] behind_0 [OF i] Suc i by auto
    then show ?thesis
      using r i len d last k Suc by (auto simp: ring_holds_def bump_def in_slot_def)
  qed
  then show ?thesis
    using r d last i len by (auto simp: ring_holds_def bump_def)
qed

text \<open>What the sum of the buckets counts.\<close>

lemma slots_sum:
  assumes "\<forall>t \<in> set hist. t div d \<le> s"
  shows "(\<Sum>k<n. in_slot d (s - int k) hist) = int (length (filter (\<lambda>t. s - int n < t div d) hist))"
  using assms
proof (induction hist)
  case Nil
  then show ?case by (simp add: in_slot_def)
next
  case (Cons t hist)
  have one: "in_slot d x (t # hist) = (if t div d = x then 1 else 0) + in_slot d x hist" for x
    by (simp add: in_slot_def)
  have "(t div d = s - int k) = (k = nat (s - t div d))" for k
    using Cons.prems by auto
  then have "(\<Sum>k<n. if t div d = s - int k then 1 else (0::int)) = (\<Sum>k<n. if k = nat (s - t div d) then 1 else 0)"
    by simp
  also have "\<dots> = (if nat (s - t div d) < n then 1 else 0)"
    by (simp add: sum.delta)
  also have "\<dots> = (if s - int n < t div d then 1 else 0)"
    using Cons.prems by auto
  finally show ?case
    using Cons by (simp add: one sum.distrib)
qed

lemma ring_sum:
  assumes "ring_holds n d hist r"
  shows "sum_list (rb_buckets r) = int (length (filter (\<lambda>t. rb_last r div d - int n < t div d) hist))"
proof -
  have i: "rb_idx r < n" and len: "length (rb_buckets r) = n"
    using assms by (simp_all add: ring_holds_def)
  have "sum_list (rb_buckets r) = (\<Sum>k<n. rb_buckets r ! k)"
    by (simp add: sum_list_sum_nth len lessThan_atLeast0)
  also have "\<dots> = (\<Sum>k<n. rb_buckets r ! behind n (rb_idx r) k)"
    using sum.reindex_bij_betw [OF behind_bij [OF i], of "\<lambda>k. rb_buckets r ! k"] by simp
  also have "\<dots> = (\<Sum>k<n. in_slot d (rb_last r div d - int k) hist)"
    using assms by (intro sum.cong) (simp_all add: ring_holds_def)
  also have "\<dots> = int (length (filter (\<lambda>t. rb_last r div d - int n < t div d) hist))"
    using assms by (intro slots_sum) (simp add: ring_holds_def)
  finally show ?thesis .
qed

subsection \<open>What the overview reports\<close>

record hit =
  ht_now :: gotime
  ht_userID :: int
  ht_endpoint :: string
  ht_status :: int

definition record_hit :: "hit \<Rightarrow> rolling \<Rightarrow> rolling" where
  "record_hit h = Record (ht_now h) (ht_userID h) (ht_endpoint h) (ht_status h)"

definition rolling_holds :: "gotime list \<Rightarrow> gotime \<Rightarrow> rolling \<Rightarrow> bool" where
  "rolling_holds hist now r \<longleftrightarrow>
     ring_holds 60 (minutes 1) hist (ro_minute r) \<and> rb_last (ro_minute r) = trunc (minutes 1) now \<and>
     ring_holds 24 (hours 1) hist (ro_hour r) \<and> rb_last (ro_hour r) = trunc (hours 1) now \<and>
     ring_holds 30 (24 * hours 1) hist (ro_day r) \<and> rb_last (ro_day r) = trunc (24 * hours 1) now"

lemma widths: "0 < minutes 1" "0 < hours 1" "0 < 24 * hours 1"
  by (simp_all add: minutes_def hours_def seconds_def)

lemma trunc_le: "0 < d \<Longrightarrow> trunc d t \<le> t"
  by (simp add: trunc_def)

lemma ring_holds_New: "\<lbrakk>0 < n; 0 < d\<rbrakk> \<Longrightarrow> ring_holds n d [] \<lparr>rb_buckets = replicate n 0, rb_idx = 0, rb_last = trunc d now\<rparr>"
  by (simp add: ring_holds_def trunc_mult behind_less in_slot_def)

lemma rolling_holds_New: "rolling_holds [] now (NewRolling now)"
  using ring_holds_New [of 60 "minutes 1" now] ring_holds_New [of 24 "hours 1" now]
    ring_holds_New [of 30 "24 * hours 1" now] widths
  by (simp add: rolling_holds_def NewRolling_def)

lemma ring_step:
  assumes "ring_holds n d hist r" and "0 < d" and "rb_last r = trunc d t" and "t \<le> now"
  shows "ring_holds n d (now # hist) (bump (advance_ring n d now r))"
    and "rb_last (bump (advance_ring n d now r)) = trunc d now"
proof -
  have "rb_last r \<le> now" using trunc_le [OF assms(2), of t] assms(3,4) by simp
  note adv = advance_ring_holds [OF assms(1,2) this]
  show "ring_holds n d (now # hist) (bump (advance_ring n d now r))"
    by (rule bump_holds [OF adv(1) assms(2) adv(2)])
  show "rb_last (bump (advance_ring n d now r)) = trunc d now"
    by (simp add: bump_def adv(2))
qed

lemma record_rings:
  "ro_minute (record_hit h r) = bump (advance_ring 60 (minutes 1) (ht_now h) (ro_minute r))"
  "ro_hour (record_hit h r) = bump (advance_ring 24 (hours 1) (ht_now h) (ro_hour r))"
  "ro_day (record_hit h r) = bump (advance_ring 30 (24 * hours 1) (ht_now h) (ro_day r))"
  "ro_errorsTotal (record_hit h r) = ro_errorsTotal r + (if ht_status h \<ge> 500 then 1 else 0)"
  by (simp_all add: record_hit_def Record_def advance_def Let_def)

lemma rolling_step:
  assumes "rolling_holds hist t r" and "t \<le> ht_now h"
  shows "rolling_holds (ht_now h # hist) (ht_now h) (record_hit h r)"
  using assms widths unfolding rolling_holds_def record_rings by (blast intro: ring_step)

lemma rolling_run:
  "\<lbrakk>rolling_holds hist t r; sorted (t # map ht_now hs)\<rbrakk> \<Longrightarrow>
   rolling_holds (rev (map ht_now hs) @ hist) (last (t # map ht_now hs)) (fold record_hit hs r) \<and>
   ro_errorsTotal (fold record_hit hs r) = ro_errorsTotal r + int (length (filter (\<lambda>h. ht_status h \<ge> 500) hs))"
proof (induction hs arbitrary: r t hist)
  case (Cons h hs)
  then show ?case
    using rolling_step [of hist t r h] Cons.IH [of "ht_now h # hist" "ht_now h" "record_hit h r"]
    by (simp add: record_rings)
qed simp

text \<open>The requests of the last \<open>n\<close> slots of width \<open>d\<close>, the one of \<open>now\<close> included.\<close>

definition within :: "int \<Rightarrow> int \<Rightarrow> gotime \<Rightarrow> hit list \<Rightarrow> int" where
  "within n d now hs = int (length (filter (\<lambda>h. now div d - n < ht_now h div d) hs))"



end
