(* ===== verification/AdminRoutes.thy ===== *)
theory AdminRoutes
  imports Admin AccountRoutes Settings SessionRoutes Rolling "HOL-Library.List_Lexorder" "HOL-Library.Char_ord"
begin

text \<open>
  What an administrator does behind \<open>RequireAdmin\<close>: users (\<open>internal/handler/admin_users.go\<close> and the listing of
  \<open>model/user.go\<close>), keys (\<open>admin_keys.go\<close>), connected worlds (\<open>admin_clients.go\<close>), switches (\<open>admin_ops.go\<close>), interactive sessions,
  subscriptions, metrics and alerts (\<open>admin_alerts.go\<close>, and the choice of recipients in \<open>alerts.go\<close>).

  \<open>an_random\<close> is what the random source gives, \<open>None\<close> when it fails; a body is what \<open>parseBody\<close> returned; the
  identifier of a path is its text.  An answer lists the fields of its JSON text.
\<close>

record admin_env =
  an_acct :: acct_env
  an_scard :: "string \<Rightarrow> nat option"
  an_now :: gotime
  an_addr :: string
  an_admin :: "User option"
  an_random :: "string option"
  an_rfc3339 :: "gotime \<Rightarrow> string"

record 'h admin_api =
  ai_acct :: acct_state
  ai_flags :: "(string, bool) gomap"
  ai_manager :: "'h manager"
  ai_interactive :: "session_manager option"
  ai_headless :: "headless option"

abbreviation ai_db :: "'h admin_api \<Rightarrow> db" where
  "ai_db s \<equiv> ac_db (ai_acct s)"

definition ai_set_db :: "db \<Rightarrow> 'h admin_api \<Rightarrow> 'h admin_api" where
  "ai_set_db d s = s\<lparr>ai_acct := with_db d (ai_acct s)\<rparr>"

definition audited :: "admin_env \<Rightarrow> string \<Rightarrow> string \<Rightarrow> string \<Rightarrow> 'h admin_api \<Rightarrow> 'h admin_api" where
  "audited env action typ target s =
     ai_set_db (auditAdmin (an_now env) (an_addr env) (an_admin env) action typ target [] (ai_db s)) s"

subsection \<open>Listing users\<close>

text \<open>Values of a column in the order of SQLite: \<open>NULL\<close>, numbers, texts by their bytes.\<close>

datatype sql_value = SqlNull | SqlInt int | SqlText string

instantiation sql_value :: linorder
begin

fun less_eq_sql_value :: "sql_value \<Rightarrow> sql_value \<Rightarrow> bool" where
  "SqlNull \<le> v \<longleftrightarrow> True"
| "SqlInt i \<le> SqlNull \<longleftrightarrow> False"
| "SqlInt i \<le> SqlInt j \<longleftrightarrow> i \<le> j"
| "SqlInt i \<le> SqlText t \<longleftrightarrow> True"
| "SqlText s \<le> SqlText t \<longleftrightarrow> s \<le> t"
| "SqlText s \<le> v \<longleftrightarrow> False"

definition less_sql_value :: "sql_value \<Rightarrow> sql_value \<Rightarrow> bool" where
  "less_sql_value v w \<longleftrightarrow> v \<le> w \<and> \<not> w \<le> v"

instance
proof
  fix u v w :: sql_value
  show "v < w \<longleftrightarrow> v \<le> w \<and> \<not> w \<le> v" by (simp add: less_sql_value_def)
  show "v \<le> v" by (cases v) auto
  show "u \<le> v \<Longrightarrow> v \<le> w \<Longrightarrow> u \<le> w" by (cases u; cases v; cases w) auto
  show "v \<le> w \<Longrightarrow> w \<le> v \<Longrightarrow> v = w" by (cases v; cases w) auto
  show "v \<le> w \<or> w \<le> v" by (cases v; cases w) auto
qed

end

text \<open>\<open>LIKE\<close> on texts in lower case: \<open>%\<close> is any text, \<open>_\<close> any character.\<close>

fun like :: "string \<Rightarrow> string \<Rightarrow> bool" where
  "like [] t \<longleftrightarrow> t = []"
| "like (p # ps) t \<longleftrightarrow>
     (if p = CHR ''%'' then like ps t \<or> (case t of [] \<Rightarrow> False | c # cs \<Rightarrow> like (p # ps) cs)
      else (case t of [] \<Rightarrow> False | c # cs \<Rightarrow> (p = CHR ''_'' \<or> p = c) \<and> like ps cs))"

record UserQuery =
  uq_Search :: string
  uq_Role :: string
  uq_Disabled :: "bool option"
  uq_EmailVerified :: "bool option"
  uq_RotationRequired :: "bool option"
  uq_Subscription :: string
  uq_SortBy :: string
  uq_SortDesc :: bool
  uq_Offset :: int
  uq_Limit :: int

definition user_matches :: "UserQuery \<Rightarrow> User \<Rightarrow> bool" where
  "user_matches q u \<longleftrightarrow>
     (uq_Search q \<noteq> [] \<longrightarrow>
        (let pattern = ''%'' @ to_lower (uq_Search q) @ ''%''
         in like pattern (to_lower (us_Email u)) \<or> like pattern (int_text (us_ID u)))) \<and>
     (uq_Role q \<noteq> [] \<longrightarrow> us_Role u = uq_Role q) \<and>
     (case uq_Disabled q of None \<Rightarrow> True | Some b \<Rightarrow> us_Disabled u = b) \<and>
     (case uq_EmailVerified q of None \<Rightarrow> True | Some b \<Rightarrow> us_EmailVerified u = b) \<and>
     (case uq_RotationRequired q of None \<Rightarrow> True | Some b \<Rightarrow> us_APIKeyRotationRequired u = b) \<and>
     (uq_Subscription q \<noteq> [] \<longrightarrow>
        us_SubscriptionStatus u = Some (uq_Subscription q) \<or> (uq_Subscription q = ''free'' \<and> us_SubscriptionStatus u = None))"

definition sql_bool :: "bool \<Rightarrow> sql_value" where
  "sql_bool b = SqlInt (if b then 1 else 0)"

definition userSortColumns :: "string \<Rightarrow> User \<Rightarrow> sql_value" where
  "userSortColumns k u =
     (if k = ''email'' then SqlText (us_Email u)
      else if k = ''role'' then SqlText (us_Role u)
      else if k = ''disabled'' then sql_bool (us_Disabled u)
      else if k = ''emailVerified'' then sql_bool (us_EmailVerified u)
      else if k = ''apiKeyRotationRequired'' then sql_bool (us_APIKeyRotationRequired u)
      else if k = ''subscriptionStatus'' then (case us_SubscriptionStatus u of None \<Rightarrow> SqlNull | Some t \<Rightarrow> SqlText t)
      else if k = ''requestsToday'' then SqlInt (us_RequestsToday u)
      else if k = ''requestsThisMonth'' then SqlInt (us_RequestsThisMonth u)
      else if k = ''createdAt'' then SqlInt (us_CreatedAt u)
      else SqlInt (us_ID u))"

text \<open>Rows are kept in the order of their identifiers, the order of equal values in both directions.\<close>

definition order_by :: "('r \<Rightarrow> sql_value) \<Rightarrow> bool \<Rightarrow> 'r list \<Rightarrow> 'r list" where
  "order_by f desc rows = (if desc then rev (sort_key f (rev rows)) else sort_key f rows)"

definition FindFilteredPaginated :: "UserQuery \<Rightarrow> db \<Rightarrow> (User list \<times> int) db_result" where
  "FindFilteredPaginated q d =
     (let limit = (if uq_Limit q \<le> 0 \<or> uq_Limit q > 500 then 50 else uq_Limit q);
          offset = (if uq_Offset q < 0 then 0 else uq_Offset q);
          found = filter (user_matches q) (db_users d)
      in if \<not> db_ok ''us_FindFilteredPaginated'' d then DBErr
         else DBOk (take (nat limit) (drop (nat offset) (order_by (userSortColumns (uq_SortBy q)) (uq_SortDesc q) found)),
                    int (length found)))"

subsection \<open>Users\<close>

definition validSubscriptionStatuses :: "string list" where
  "validSubscriptionStatuses =
     [''free'', ''active'', ''trialing'', ''past_due'', ''canceled'', ''unpaid'', ''incomplete'', ''incomplete_expired'']"

definition parseTriBool :: "string \<Rightarrow> bool option" where
  "parseTriBool v = (if v = ''true'' then Some True else if v = ''false'' then Some False else None)"

definition newAdminUserView :: "(gotime \<Rightarrow> string) \<Rightarrow> User \<Rightarrow> obj" where
  "newAdminUserView rfc u =
     [(''id'', JNum (us_ID u)), (''email'', JStr (us_Email u)), (''role'', JStr (us_Role u)), (''disabled'', JBool (us_Disabled u)),
      (''emailVerified'', JBool (us_EmailVerified u)),
      (''subscriptionStatus'', JStr (case us_SubscriptionStatus u of Some t \<Rightarrow> t | None \<Rightarrow> ''free'')),
      (''requestsToday'', JNum (us_RequestsToday u)), (''requestsThisMonth'', JNum (us_RequestsThisMonth u)),
      (''maxHeadlessSessions'', JNum (case us_MaxHeadlessSessions u of Some n \<Rightarrow> n | None \<Rightarrow> 0)),
      (''apiKeyRotationRequired'', JBool (us_APIKeyRotationRequired u)), (''createdAt'', JStr (rfc (us_CreatedAt u))),
      (''updatedAt'', JStr (rfc (us_UpdatedAt u)))]"

definition admin_users_list :: "(gotime \<Rightarrow> string) \<Rightarrow> query \<Rightarrow> db \<Rightarrow> answer" where
  "admin_users_list rfc q d =
     (let (offset, limit) = parsePagination q;
          role = q_get q ''role'';
          uq = \<lparr>uq_Search = trim_space (q_get q ''search''),
                uq_Role = (if role \<noteq> [] \<and> role \<noteq> ''user'' \<and> role \<noteq> ''admin'' then [] else role),
                uq_Disabled = parseTriBool (q_get q ''disabled''), uq_EmailVerified = parseTriBool (q_get q ''verified''),
                uq_RotationRequired = parseTriBool (q_get q ''rotation''), uq_Subscription = q_get q ''subscription'',
                uq_SortBy = q_get q ''sort'', uq_SortDesc = (q_get q ''dir'' = ''desc''), uq_Offset = offset, uq_Limit = limit\<rparr>
      in case FindFilteredPaginated uq d of
           DBErr \<Rightarrow> WriteError 500 ''Failed to list users''
         | DBOk (users, n) \<Rightarrow>
             (200, [(''users'', JArr (map (\<lambda>u. JObj (newAdminUserView rfc u)) users)), (''total'', JNum n), (''offset'', JNum offset),
                    (''limit'', JNum limit)]))"

definition bad_id :: answer where "bad_id = WriteError 400 ''Invalid id''"

definition admin_user_get :: "(gotime \<Rightarrow> string) \<Rightarrow> string \<Rightarrow> db \<Rightarrow> answer" where
  "admin_user_get rfc i d =
     (case ParseInt64 i of
        None \<Rightarrow> bad_id
      | Some n \<Rightarrow>
          (case us_FindByID n d of
             DBOk (Some u) \<Rightarrow> (200, newAdminUserView rfc u)
           | _ \<Rightarrow> WriteError 404 ''User not found''))"

definition squoted :: "string \<Rightarrow> string" where
  "squoted t = CHR 0x27 # t @ [CHR 0x27]"

text \<open>The fields of the body in their order; the flag tells whether one of them was there.\<close>

definition patch_user :: "obj \<Rightarrow> User \<Rightarrow> string + User \<times> bool" where
  "patch_user body u =
     (let role = get_str body ''role''; status = get_str body ''subscriptionStatus'';
          u1 = (if role \<noteq> [] then u\<lparr>us_Role := role\<rparr> else u);
          u2 = (case aget body ''maxHeadlessSessions'' of Some (JNum n) \<Rightarrow> u1\<lparr>us_MaxHeadlessSessions := Some n\<rparr> | _ \<Rightarrow> u1);
          c2 = (case aget body ''maxHeadlessSessions'' of Some (JNum n) \<Rightarrow> True | _ \<Rightarrow> False);
          u3 = (case aget body ''emailVerified'' of Some (JBool b) \<Rightarrow> u2\<lparr>us_EmailVerified := b\<rparr> | _ \<Rightarrow> u2);
          c3 = (case aget body ''emailVerified'' of Some (JBool b) \<Rightarrow> True | _ \<Rightarrow> False)
      in if role \<noteq> [] \<and> role \<noteq> ''user'' \<and> role \<noteq> ''admin'' then Inl (''role must be '' @ squoted ''user'' @ '' or '' @ squoted ''admin'')
         else if status \<noteq> [] \<and> status \<notin> set validSubscriptionStatuses then Inl ''Invalid subscription status''
         else Inr (if status \<noteq> [] then u3\<lparr>us_SubscriptionStatus := Some status\<rparr> else u3, role \<noteq> [] \<or> c2 \<or> c3 \<or> status \<noteq> []))"

definition admin_user_update :: "admin_env \<Rightarrow> string \<Rightarrow> string + obj \<Rightarrow> 'h admin_api \<Rightarrow> answer \<times> 'h admin_api" where
  "admin_user_update env i parsed s =
     (case ParseInt64 i of
        None \<Rightarrow> (bad_id, s)
      | Some n \<Rightarrow>
          (case parsed of
             Inl e \<Rightarrow> (WriteError 400 e, s)
           | Inr body \<Rightarrow>
               (case us_FindByID n (ai_db s) of
                  DBOk (Some u) \<Rightarrow>
                    (case patch_user body u of
                       Inl e \<Rightarrow> (WriteError 400 e, s)
                     | Inr (u', changed) \<Rightarrow>
                         if \<not> changed then (WriteError 400 ''No supported fields to update'', s)
                         else (case us_Update (av_sha (an_acct env)) (an_now env) u' (ai_db s) of
                                 (DBErr, d) \<Rightarrow> (WriteError 500 ''Failed to update user'', ai_set_db d s)
                               | (DBOk _, d) \<Rightarrow>
                                   ((200, newAdminUserView (an_rfc3339 env)
                                      (u'\<lparr>us_UpdatedAt := an_now env, us_Role := (if us_Role u' = [] then ''user'' else us_Role u')\<rparr>)),
                                    audited env ''user.update'' ''user'' (int_text n) (ai_set_db d s))))
                | _ \<Rightarrow> (WriteError 404 ''User not found'', s))))"

definition is_self :: "admin_env \<Rightarrow> int \<Rightarrow> bool" where
  "is_self env n \<longleftrightarrow> (case an_admin env of Some me \<Rightarrow> us_ID me = n | None \<Rightarrow> False)"

definition forget_auth :: "int \<Rightarrow> 'h admin_api \<Rightarrow> 'h admin_api" where
  "forget_auth uid s = s\<lparr>ai_acct := (ai_acct s)\<lparr>ac_auth := InvalidateCachedAuthForUser uid (ac_auth (ai_acct s))\<rparr>\<rparr>"

definition message :: "string \<Rightarrow> answer" where
  "message m = (200, [(''message'', JStr m)])"

definition admin_user_disable :: "admin_env \<Rightarrow> string \<Rightarrow> 'h admin_api \<Rightarrow> answer \<times> 'h admin_api" where
  "admin_user_disable env i s =
     (case ParseInt64 i of
        None \<Rightarrow> (bad_id, s)
      | Some n \<Rightarrow>
          if is_self env n then (WriteError 400 ''Cannot disable your own account'', s)
          else (case us_SetDisabled (an_now env) n True (ai_db s) of
                  (DBErr, d) \<Rightarrow> (WriteError 500 ''Failed to disable user'', ai_set_db d s)
                | (DBOk _, d) \<Rightarrow>
                    (message ''User disabled'', audited env ''user.disable'' ''user'' (int_text n) (forget_auth n (ai_set_db d s)))))"

definition admin_user_enable :: "admin_env \<Rightarrow> string \<Rightarrow> 'h admin_api \<Rightarrow> answer \<times> 'h admin_api" where
  "admin_user_enable env i s =
     (case ParseInt64 i of
        None \<Rightarrow> (bad_id, s)
      | Some n \<Rightarrow>
          (case us_SetDisabled (an_now env) n False (ai_db s) of
             (DBErr, d) \<Rightarrow> (WriteError 500 ''Failed to enable user'', ai_set_db d s)
           | (DBOk _, d) \<Rightarrow> (message ''User enabled'', audited env ''user.enable'' ''user'' (int_text n) (ai_set_db d s))))"

definition admin_user_force_rotation :: "admin_env \<Rightarrow> string \<Rightarrow> 'h admin_api \<Rightarrow> answer \<times> 'h admin_api" where
  "admin_user_force_rotation env i s =
     (case ParseInt64 i of
        None \<Rightarrow> (bad_id, s)
      | Some n \<Rightarrow>
          (case us_FindByID n (ai_db s) of
             DBOk (Some u) \<Rightarrow>
               (case us_Update (av_sha (an_acct env)) (an_now env) (u\<lparr>us_APIKeyRotationRequired := True\<rparr>) (ai_db s) of
                  (DBErr, d) \<Rightarrow> (WriteError 500 ''Failed to flag rotation'', ai_set_db d s)
                | (DBOk _, d) \<Rightarrow>
                    (message ''Rotation required flag set'',
                     audited env ''user.flag_rotation'' ''user'' (int_text n) (forget_auth n (ai_set_db d s))))
           | _ \<Rightarrow> (WriteError 404 ''User not found'', s)))"

definition key_prefix :: "string \<Rightarrow> string" where
  "key_prefix key = (if length key > 8 then take 8 key @ ''...'' else key)"

definition admin_user_rotate_key :: "admin_env \<Rightarrow> string \<Rightarrow> 'h admin_api \<Rightarrow> answer \<times> 'h admin_api" where
  "admin_user_rotate_key env i s =
     (case ParseInt64 i of
        None \<Rightarrow> (bad_id, s)
      | Some n \<Rightarrow>
          (case us_FindByID n (ai_db s) of
             DBOk (Some u) \<Rightarrow>
               (case an_random env of
                  None \<Rightarrow> (WriteError 500 ''Failed to generate key'', s)
                | Some newKey \<Rightarrow>
                    (case us_Update (av_sha (an_acct env)) (an_now env)
                            (u\<lparr>us_APIKey := newKey, us_APIKeyRotationRequired := False\<rparr>) (ai_db s) of
                       (DBErr, d) \<Rightarrow> (WriteError 500 ''Failed to rotate key'', ai_set_db d s)
                     | (DBOk _, d) \<Rightarrow>
                         ((200, [(''message'', JStr ''API key rotated''), (''keyPrefix'', JStr (key_prefix newKey))]),
                          audited env ''user.rotate_key'' ''user'' (int_text n) (ai_set_db d s))))
           | _ \<Rightarrow> (WriteError 404 ''User not found'', s)))"

definition admin_user_send_reset :: "admin_env \<Rightarrow> string \<Rightarrow> 'h admin_api \<Rightarrow> answer \<times> 'h admin_api" where
  "admin_user_send_reset env i s =
     (case ParseInt64 i of
        None \<Rightarrow> (bad_id, s)
      | Some n \<Rightarrow>
          (case us_FindByID n (ai_db s) of
             DBOk (Some u) \<Rightarrow>
               (let s1 = ai_set_db (snd (pt_InvalidateForUser (an_now env) (us_ID u) (ai_db s))) s
                in case an_random env of
                     None \<Rightarrow> (WriteError 500 ''Failed to generate reset token'', s1)
                   | Some raw \<Rightarrow>
                       (case pt_Create (an_now env)
                               \<lparr>pt_ID = 0, pt_UserID = us_ID u, pt_TokenHash = av_sha (an_acct env) raw, pt_ExpiresAt = an_now env + minutes 60,
                                pt_Used = False, pt_CreatedAt = 0, pt_UpdatedAt = 0\<rparr> (ai_db s1) of
                          (DBErr, d) \<Rightarrow> (WriteError 500 ''Failed to create reset token'', ai_set_db d s1)
                        | (DBOk _, d) \<Rightarrow>
                            (let s2 = ai_set_db d s1;
                                 s3 = s2\<lparr>ai_acct := send_mail (PasswordResetEmail (us_Email u) raw) (ai_acct s2)\<rparr>
                             in (message ''Password reset email sent'',
                                 audited env ''user.send_password_reset'' ''user'' (int_text n) s3))))
           | _ \<Rightarrow> (WriteError 404 ''User not found'', s)))"

definition admin_user_delete :: "admin_env \<Rightarrow> string \<Rightarrow> 'h admin_api \<Rightarrow> answer \<times> 'h admin_api" where
  "admin_user_delete env i s =
     (case ParseInt64 i of
        None \<Rightarrow> (bad_id, s)
      | Some n \<Rightarrow>
          if is_self env n then (WriteError 400 ''Cannot delete your own account'', s)
          else (let s1 = ai_set_db (snd (ak_DeleteAllByUser n (ai_db s))) s
                in case us_Delete n (ai_db s1) of
                     (DBErr, d) \<Rightarrow> (WriteError 500 ''Failed to delete user'', ai_set_db d s1)
                   | (DBOk _, d) \<Rightarrow> (message ''User deleted'', audited env ''user.delete'' ''user'' (int_text n) (ai_set_db d s1))))"

subsection \<open>Keys\<close>

definition newAdminApiKeyView :: "(gotime \<Rightarrow> string) \<Rightarrow> gotime \<Rightarrow> ApiKey \<Rightarrow> obj" where
  "newAdminApiKeyView rfc now k =
     [(''id'', JNum (ak_ID k)), (''userId'', JNum (ak_UserID k)), (''name'', JStr (ak_Name k)), (''keyPrefix'', JStr (key_prefix (ak_Key k))),
      (''enabled'', JBool (ak_Enabled k)), (''isExpired'', JBool (IsExpired now k)),
      (''scopes'', if ak_Scopes k = [] then JNull else jstrs (GetScopes k)), (''scopedClientIds'', jstrs (GetScopedClientIDs k)),
      (''scopedUserId'', JStr (null_str (ak_ScopedUserID k))),
      (''monthlyLimit'', JNum (case ak_MonthlyLimit k of Some n \<Rightarrow> n | None \<Rightarrow> 0)),
      (''requestsThisMonth'', JNum (ak_RequestsThisMonth k))] @
     (case ak_ExpiresAt k of Some t \<Rightarrow> [(''expiresAt'', JStr (rfc t))] | None \<Rightarrow> []) @
     [(''createdAt'', JStr (rfc (ak_CreatedAt k)))]"

definition admin_keys_list :: "(gotime \<Rightarrow> string) \<Rightarrow> gotime \<Rightarrow> query \<Rightarrow> db \<Rightarrow> answer" where
  "admin_keys_list rfc now q d =
     (let (offset, limit) = parsePagination q
      in case ak_FindAllPaginated offset limit d of
           DBErr \<Rightarrow> WriteError 500 ''Failed to list keys''
         | DBOk (keys, n) \<Rightarrow>
             (200, [(''keys'', JArr (map (\<lambda>k. JObj (newAdminApiKeyView rfc now k)) keys)), (''total'', JNum n), (''offset'', JNum offset),
                    (''limit'', JNum limit)]))"

definition admin_key_get :: "(gotime \<Rightarrow> string) \<Rightarrow> gotime \<Rightarrow> string \<Rightarrow> db \<Rightarrow> answer" where
  "admin_key_get rfc now i d =
     (case ParseInt64 i of
        None \<Rightarrow> bad_id
      | Some n \<Rightarrow>
          (case ak_FindByID n d of
             DBOk (Some k) \<Rightarrow> (200, newAdminApiKeyView rfc now k)
           | _ \<Rightarrow> WriteError 404 ''Key not found''))"

definition str_items :: "json list \<Rightarrow> string list" where
  "str_items vs = List.map_filter (\<lambda>v. case v of JStr t \<Rightarrow> Some t | _ \<Rightarrow> None) vs"

definition patch_key :: "obj \<Rightarrow> ApiKey \<Rightarrow> ApiKey \<times> bool" where
  "patch_key body k =
     (let (k1, c1) = (case aget body ''enabled'' of Some (JBool b) \<Rightarrow> (k\<lparr>ak_Enabled := b\<rparr>, True) | _ \<Rightarrow> (k, False))
      in case aget body ''scopes'' of
           Some (JArr vs) \<Rightarrow> (k1\<lparr>ak_Scopes := go_join '','' (str_items vs)\<rparr>, True)
         | _ \<Rightarrow> (k1, c1))"

definition admin_key_update :: "admin_env \<Rightarrow> string \<Rightarrow> string + obj \<Rightarrow> 'h admin_api \<Rightarrow> answer \<times> 'h admin_api" where
  "admin_key_update env i parsed s =
     (case ParseInt64 i of
        None \<Rightarrow> (bad_id, s)
      | Some n \<Rightarrow>
          (case parsed of
             Inl e \<Rightarrow> (WriteError 400 e, s)
           | Inr body \<Rightarrow>
               (case ak_FindByID n (ai_db s) of
                  DBOk (Some k) \<Rightarrow>
                    (let (k', changed) = patch_key body k
                     in if \<not> changed then (WriteError 400 ''No supported fields to update'', s)
                        else (case ak_Update (an_now env) k' (ai_db s) of
                                (DBErr, d) \<Rightarrow> (WriteError 500 ''Failed to update key'', ai_set_db d s)
                              | (DBOk _, d) \<Rightarrow>
                                  ((200, newAdminApiKeyView (an_rfc3339 env) (an_now env) k'),
                                   audited env ''key.update'' ''apiKey'' (int_text n) (ai_set_db d s))))
                | _ \<Rightarrow> (WriteError 404 ''Key not found'', s))))"

definition admin_key_delete :: "admin_env \<Rightarrow> string \<Rightarrow> 'h admin_api \<Rightarrow> answer \<times> 'h admin_api" where
  "admin_key_delete env i s =
     (case ParseInt64 i of
        None \<Rightarrow> (bad_id, s)
      | Some n \<Rightarrow>
          (case ak_Delete n (ai_db s) of
             (DBErr, d) \<Rightarrow> (WriteError 500 ''Failed to revoke key'', ai_set_db d s)
           | (DBOk _, d) \<Rightarrow> (message ''Key revoked'', audited env ''key.revoke'' ''apiKey'' (int_text n) (ai_set_db d s))))"

subsection \<open>Connected worlds and switches\<close>

definition omit_empty :: "string \<Rightarrow> string \<Rightarrow> obj" where
  "omit_empty k v = (if v = [] then [] else [(k, JStr v)])"

definition client_info_view :: "ClientInfo \<Rightarrow> obj" where
  "client_info_view c =
     (''clientId'', JStr (ci_ID c)) # omit_empty ''instanceId'' (ci_InstanceID c) @
     [(''lastSeen'', JNum (ci_LastSeen c)), (''connectedSince'', JNum (ci_ConnectedSince c))] @
     omit_empty ''worldId'' (ci_WorldID c) @ omit_empty ''worldTitle'' (ci_WorldTitle c) @
     omit_empty ''foundryVersion'' (ci_FoundryVersion c) @ omit_empty ''systemId'' (ci_SystemID c) @
     omit_empty ''systemTitle'' (ci_SystemTitle c) @ omit_empty ''systemVersion'' (ci_SystemVersion c) @
     omit_empty ''customName'' (ci_CustomName c) @ omit_empty ''publicUrl'' (ci_PublicUrl c) @
     omit_empty ''ipAddress'' (ci_IPAddress c) @ omit_empty ''tokenName'' (ci_TokenName c)"

definition admin_clients_list :: "'h manager \<Rightarrow> answer" where
  "admin_clients_list m =
     (let infos = GetAllClientInfos m
      in (200, [(''total'', JNum (int (length infos))), (''clients'', JArr (map (\<lambda>c. JObj (client_info_view c)) infos))]))"

definition admin_client_get :: "string \<Rightarrow> 'h manager \<Rightarrow> answer" where
  "admin_client_get cid m =
     (case GetClient cid m of
        None \<Rightarrow> WriteError 404 ''Client not found''
      | Some ref \<Rightarrow> (200, client_info_view (Info [] (mg_heap m ! ref))))"

text \<open>The two routes that cut a connection differ in the action they record and in their answer.\<close>

definition cut_client ::
    "admin_env \<Rightarrow> string \<Rightarrow> string \<Rightarrow> string \<Rightarrow> 'h admin_api \<Rightarrow> (answer \<times> 'h admin_api) go" where
  "cut_client env action msg cid s =
     (let m = ai_manager s
      in case GetClient cid m of
           None \<Rightarrow> Ret (WriteError 404 ''Client not found'', s)
         | Some ref \<Rightarrow>
             (case Disconnect (mg_heap m ! ref) of
                Panic e \<Rightarrow> Panic e
              | Ret c \<Rightarrow>
                  Ret (message msg,
                       audited env action ''client'' cid
                         (s\<lparr>ai_manager := RemoveClient (an_scard env) cid (heap_update ref c m)\<rparr>))))"

definition admin_client_disconnect :: "admin_env \<Rightarrow> string \<Rightarrow> 'h admin_api \<Rightarrow> (answer \<times> 'h admin_api) go" where
  "admin_client_disconnect env cid s = cut_client env ''client.disconnect'' ''Client disconnected'' cid s"

definition ops_force_disconnect :: "admin_env \<Rightarrow> string \<Rightarrow> 'h admin_api \<Rightarrow> (answer \<times> 'h admin_api) go" where
  "ops_force_disconnect env cid s = cut_client env ''ops.force_disconnect'' ''Disconnected'' cid s"

definition FeatureFlags_init :: "(string, bool) gomap" where
  "FeatureFlags_init = [(''disable_registration'', False), (''maintenance_mode'', False)]"

definition FeatureFlags_Get :: "string \<Rightarrow> (string, bool) gomap \<Rightarrow> bool" where
  "FeatureFlags_Get name flags = (case aget flags name of Some b \<Rightarrow> b | None \<Rightarrow> False)"

definition FeatureFlags_Snapshot :: "(string, bool) gomap \<Rightarrow> obj" where
  "FeatureFlags_Snapshot flags = map (\<lambda>(k, v). (k, JBool v)) flags"

text \<open>\<open>True\<close> lets the request go on.\<close>

definition MaintenanceModeMiddleware :: "(string, bool) gomap \<Rightarrow> string \<Rightarrow> answer option" where
  "MaintenanceModeMiddleware flags path =
     (if length path \<ge> 6 \<and> take 6 path = ''/admin'' then None
      else if path = ''/api/health'' \<or> path = ''/api/status'' then None
      else if FeatureFlags_Get ''maintenance_mode'' flags then Some (WriteError 503 ''Service is in maintenance mode'')
      else None)"

definition ops_set_flag :: "admin_env \<Rightarrow> string + obj \<Rightarrow> 'h admin_api \<Rightarrow> answer \<times> 'h admin_api" where
  "ops_set_flag env parsed s =
     (case parsed of
        Inl e \<Rightarrow> (WriteError 400 e, s)
      | Inr body \<Rightarrow>
          (let flag = get_str body ''flag''
           in case aget body ''value'' of
                Some (JBool v) \<Rightarrow>
                  if flag = [] then (WriteError 400 ''flag (string) and value (bool) required'', s)
                  else if flag \<noteq> ''disable_registration'' \<and> flag \<noteq> ''maintenance_mode'' then (WriteError 400 ''Unknown flag'', s)
                  else (let s1 = audited env ''ops.feature_flag'' ''system'' flag (s\<lparr>ai_flags := aput flag v (ai_flags s)\<rparr>)
                        in ((200, FeatureFlags_Snapshot (ai_flags s1)), s1))
              | _ \<Rightarrow> (WriteError 400 ''flag (string) and value (bool) required'', s)))"

definition ops_rate_limit :: "admin_env \<Rightarrow> string + obj \<Rightarrow> 'h admin_api \<Rightarrow> answer \<times> 'h admin_api" where
  "ops_rate_limit env parsed s =
     (case parsed of
        Inl e \<Rightarrow> (WriteError 400 e, s)
      | Inr body \<Rightarrow>
          (message ''Override recorded'', audited env ''ops.rate_limit_override'' ''user'' (get_str body ''userId'') s))"

subsection \<open>Sessions, subscriptions and metrics\<close>

definition interactive_view :: "InteractiveSession \<Rightarrow> json" where
  "interactive_view x =
     JObj [(''sessionId'', JStr (is_SessionID x)), (''clientId'', JStr (is_ClientID x)), (''consumerId'', JStr (is_ConsumerID x)),
           (''state'', JStr (case is_State x of SPending \<Rightarrow> ''pending'' | SActive \<Rightarrow> ''active'' | SClosed \<Rightarrow> ''closed'')), (''createdAt'', JNum (is_CreatedAt x)),
           (''lastActivity'', JNum (is_LastActivity x)), (''quality'', im_Quality (is_Metadata x)), (''scale'', im_Scale (is_Metadata x))]"

definition admin_interactive_list :: "session_manager option \<Rightarrow> answer" where
  "admin_interactive_list mgr =
     (let xs = (case mgr of None \<Rightarrow> [] | Some m \<Rightarrow> map interactive_view (ListSessions m))
      in (200, [(''total'', JNum (int (length xs))), (''sessions'', JArr xs)]))"

definition admin_interactive_end :: "admin_env \<Rightarrow> string \<Rightarrow> 'h admin_api \<Rightarrow> answer \<times> 'h admin_api" where
  "admin_interactive_end env i s =
     (case ai_interactive s of
        None \<Rightarrow> (WriteError 503 ''Interactive sessions disabled'', s)
      | Some m \<Rightarrow>
          (case EndSession i m of
             (False, m') \<Rightarrow> (WriteError 404 ''Session not found'', s)
           | (True, m') \<Rightarrow>
               (message ''Session ended'', audited env ''session.kill'' ''interactive_session'' i (s\<lparr>ai_interactive := Some m'\<rparr>))))"

definition status_of :: "User \<Rightarrow> string" where
  "status_of u = (let t = null_str (us_SubscriptionStatus u) in if t = [] then ''free'' else t)"

text \<open>The counts of the page: each status at its first user.\<close>

definition status_counts :: "User list \<Rightarrow> obj" where
  "status_counts us =
     map (\<lambda>t. (t, JNum (int (count_list (map status_of us) t)))) (rev (remdups (rev (map status_of us))))"

definition admin_subscriptions :: "(gotime \<Rightarrow> string) \<Rightarrow> query \<Rightarrow> db \<Rightarrow> answer" where
  "admin_subscriptions rfc q d =
     (let (offset, limit) = parsePagination q
      in case us_FindAllPaginated offset limit d of
           DBErr \<Rightarrow> WriteError 500 ''Failed to query subscriptions''
         | DBOk (us, n) \<Rightarrow>
             (200, [(''total'', JNum n), (''offset'', JNum offset), (''limit'', JNum limit), (''statusCounts'', JObj (status_counts us)),
                    (''subscribers'', JArr (map (\<lambda>u. JObj (newAdminUserView rfc u)) (filter (\<lambda>u. status_of u \<noteq> ''free'') us)))]))"

text \<open>The listing of metrics shows at most a hundred users.\<close>

definition top_limit :: "query \<Rightarrow> int" where
  "top_limit q =
     (let v = q_get q ''limit''
      in if v = [] then 10 else (case ParseInt64 v of Some n \<Rightarrow> if n > 0 \<and> n \<le> 100 then n else 10 | None \<Rightarrow> 10))"

definition admin_metrics :: "string \<Rightarrow> query \<Rightarrow> rolling \<Rightarrow> answer option" where
  "admin_metrics path q r =
     (if path = ''/overview'' then Some (200, Overview r)
      else if path = ''/by-endpoint'' then Some (200, [(''endpoints'', JArr (map JObj (ByEndpoint r)))])
      else if path = ''/top-consumers'' then Some (200, [(''users'', JArr (map JObj (TopConsumers (top_limit q) r)))])
      else if path = ''/errors'' then Some (200, [(''errorsTotal'', JNum (Errors r))])
      else None)"

subsection \<open>Alerts\<close>

definition validAlertTypes :: "string list" where
  "validAlertTypes =
     [''failed_auth_spike'', ''flagged_connection'', ''world_id_cross_account'', ''registration_spike'', ''rate_limit_burst'', ''admin_login'',
      ''duplicate_connection_spike'', ''metadata_mismatch_spike'', ''execute_js_burst'', ''password_reset_flood'', ''invalid_token_spike'',
      ''new_ip_for_token'', ''account_password_change'', ''client_disconnect_spike'', ''system_unhealthy'', ''headless_session_flood'',
      ''stripe_payment_failed'', ''new_user_registration'', ''new_subscription'', ''subscription_cancelled'',
      ''user_monthly_limit_approaching'', ''scoped_key_monthly_limit_approaching'']"

definition alert_config_answer :: "string \<Rightarrow> string \<Rightarrow> (string \<times> string) list \<Rightarrow> answer" where
  "alert_config_answer url email subs =
     (200, [(''discordWebhookUrl'', JStr url), (''emailDestination'', JStr email),
            (''subscriptions'', JArr (map (\<lambda>(t, ch). JObj [(''alertType'', JStr t), (''channel'', JStr ch)]) subs))])"

definition admin_alerts_get :: "gotime \<Rightarrow> string \<Rightarrow> db \<Rightarrow> answer \<times> db" where
  "admin_alerts_get now err d =
     (let (cfg, d1) = af_Get now d
      in case ab_FindAll d1 of
           DBErr \<Rightarrow> (WriteError 500 err, d1)
         | DBOk subs \<Rightarrow>
             (alert_config_answer (af_DiscordWebhookURL cfg) (af_EmailDestination cfg) (map (\<lambda>b. (ab_AlertType b, ab_Channel b)) subs), d1))"

text \<open>Items that are no objects are skipped, the first bad one ends the loop.\<close>

fun parse_subs :: "json list \<Rightarrow> string + (string \<times> string) list" where
  "parse_subs [] = Inr []"
| "parse_subs (JObj x # vs) =
     (let t = get_str x ''alertType''; ch = get_str x ''channel''
      in if t = [] \<or> ch = [] then Inl ''each subscription must have alertType and channel''
         else if t \<notin> set validAlertTypes then Inl (''invalid alertType: '' @ t)
         else if ch \<noteq> ''discord'' \<and> ch \<noteq> ''email''
         then Inl (''channel must be '' @ squoted ''discord'' @ '' or '' @ squoted ''email'')
         else (case parse_subs vs of Inl e \<Rightarrow> Inl e | Inr subs \<Rightarrow> Inr ((t, ch) # subs)))"
| "parse_subs (_ # vs) = parse_subs vs"

definition new_subscription :: "string \<times> string \<Rightarrow> AlertSubscription" where
  "new_subscription p =
     \<lparr>ab_ID = 0, ab_AlertType = fst p, ab_Channel = snd p, ab_Destination = [], ab_Enabled = True, ab_CreatedAt = 0, ab_UpdatedAt = 0\<rparr>"

text \<open>\<open>an_err\<close> stands for the text of a database error.\<close>

definition admin_alerts_put :: "admin_env \<Rightarrow> string \<Rightarrow> string + obj \<Rightarrow> 'h admin_api \<Rightarrow> answer \<times> 'h admin_api" where
  "admin_alerts_put env err parsed s =
     (case parsed of
        Inl e \<Rightarrow> (WriteError 400 e, s)
      | Inr body \<Rightarrow>
          (let cfg = blank_config\<lparr>af_DiscordWebhookURL := get_str body ''discordWebhookUrl'', af_EmailDestination := get_str body ''emailDestination''\<rparr>;
               raw = (case aget body ''subscriptions'' of Some (JArr vs) \<Rightarrow> vs | _ \<Rightarrow> [])
           in case af_Save (an_now env) cfg (ai_db s) of
                (DBErr, d) \<Rightarrow> (WriteError 500 err, ai_set_db d s)
              | (DBOk _, d) \<Rightarrow>
                  (case parse_subs raw of
                     Inl e \<Rightarrow> (WriteError 400 e, ai_set_db d s)
                   | Inr subs \<Rightarrow>
                       (case ab_BulkReplace (an_now env) (map new_subscription subs) d of
                          (DBErr, d') \<Rightarrow> (WriteError 500 err, ai_set_db d' s)
                        | (DBOk _, d') \<Rightarrow>
                            (alert_config_answer (af_DiscordWebhookURL cfg) (af_EmailDestination cfg) subs,
                             audited env ''alerts.config_updated'' ''alert'' [] (ai_set_db d' s))))))"

definition channel_dest :: "AlertConfig \<Rightarrow> string \<Rightarrow> string" where
  "channel_dest cfg ch =
     (if ch = ''discord'' then af_DiscordWebhookURL cfg else if ch = ''email'' then af_EmailDestination cfg else [])"

text \<open>The recipients of an event that \<open>Fire\<close> hands on: channel and destination of each subscription to its type.\<close>

definition alert_recipients :: "gotime \<Rightarrow> string \<Rightarrow> db \<Rightarrow> (string \<times> string) list \<times> db" where
  "alert_recipients now typ d =
     (let (cfg, d1) = af_Get now d
      in case ab_FindByAlertType typ d1 of
           DBErr \<Rightarrow> ([], d1)
         | DBOk subs \<Rightarrow>
             (filter (\<lambda>(ch, dest). dest \<noteq> []) (map (\<lambda>b. (ab_Channel b, channel_dest cfg (ab_Channel b))) subs), d1))"

text \<open>\<open>deliver\<close> gives the error of a delivery.\<close>

definition admin_alerts_test ::
    "(string \<Rightarrow> string \<Rightarrow> string option) \<Rightarrow> gotime \<Rightarrow> string + obj \<Rightarrow> db \<Rightarrow> answer \<times> db" where
  "admin_alerts_test deliver now parsed d =
     (case parsed of
        Inl e \<Rightarrow> (WriteError 400 e, d)
      | Inr body \<Rightarrow>
          (let ch = get_str body ''channel''
           in if ch \<noteq> ''discord'' \<and> ch \<noteq> ''email''
              then (WriteError 400 (''channel must be '' @ squoted ''discord'' @ '' or '' @ squoted ''email''), d)
              else (let (cfg, d1) = af_Get now d; dest = channel_dest cfg ch
                    in if dest = [] then (WriteError 500 (''no destination configured for channel '' @ go_quote ch), d1)
                       else case deliver ch dest of
                              Some e \<Rightarrow> (WriteError 500 e, d1)
                            | None \<Rightarrow> (message ''Test alert sent'', d1))))"

subsection \<open>Changes\<close>

text \<open>The requests of an administrator that change something.\<close>

datatype admin_op =
    UserUpdate string "string + obj"
  | UserDisable string
  | UserEnable string
  | UserForceRotation string
  | UserRotateKey string
  | UserSendReset string
  | UserDelete string
  | KeyUpdate string "string + obj"
  | KeyDelete string
  | WorldDisconnect string
  | OpsDisconnect string
  | OpsFlag "string + obj"
  | OpsRateLimit "string + obj"
  | HeadlessEnd string
  | InteractiveEnd string
  | AlertsPut string "string + obj"

definition admin_headless_end :: "admin_env \<Rightarrow> string \<Rightarrow> 'h admin_api \<Rightarrow> answer \<times> 'h admin_api" where
  "admin_headless_end env i s =
     (case admin_session_end (an_scard env) (an_now env) (an_addr env) (an_admin env) i (ai_headless s) (ai_manager s) (ai_db s) of
        (a, hl, m, d) \<Rightarrow> (a, ai_set_db d (s\<lparr>ai_headless := hl, ai_manager := m\<rparr>)))"

definition admin_change :: "admin_env \<Rightarrow> admin_op \<Rightarrow> 'h admin_api \<Rightarrow> (answer \<times> 'h admin_api) go" where
  "admin_change env x s =
     (case x of
        UserUpdate i b \<Rightarrow> Ret (admin_user_update env i b s)
      | UserDisable i \<Rightarrow> Ret (admin_user_disable env i s)
      | UserEnable i \<Rightarrow> Ret (admin_user_enable env i s)
      | UserForceRotation i \<Rightarrow> Ret (admin_user_force_rotation env i s)
      | UserRotateKey i \<Rightarrow> Ret (admin_user_rotate_key env i s)
      | UserSendReset i \<Rightarrow> Ret (admin_user_send_reset env i s)
      | UserDelete i \<Rightarrow> Ret (admin_user_delete env i s)
      | KeyUpdate i b \<Rightarrow> Ret (admin_key_update env i b s)
      | KeyDelete i \<Rightarrow> Ret (admin_key_delete env i s)
      | WorldDisconnect i \<Rightarrow> admin_client_disconnect env i s
      | OpsDisconnect i \<Rightarrow> ops_force_disconnect env i s
      | OpsFlag b \<Rightarrow> Ret (ops_set_flag env b s)
      | OpsRateLimit b \<Rightarrow> Ret (ops_rate_limit env b s)
      | HeadlessEnd i \<Rightarrow> Ret (admin_headless_end env i s)
      | InteractiveEnd i \<Rightarrow> Ret (admin_interactive_end env i s)
      | AlertsPut err b \<Rightarrow> Ret (admin_alerts_put env err b s))"

subsection \<open>Every change is recorded\<close>

text \<open>No store but that of the audit log touches its table, and none changes which statements fail.\<close>

definition keeps_log :: "db \<Rightarrow> db \<Rightarrow> bool" where
  "keeps_log d d' \<longleftrightarrow> db_auditLogs d' = db_auditLogs d \<and> db_fails d' = db_fails d"

lemma keeps_log_refl [simp]: "keeps_log d d"
  by (simp add: keeps_log_def)

lemma keeps_log_trans: "\<lbrakk>keeps_log d d1; keeps_log d1 d2\<rbrakk> \<Longrightarrow> keeps_log d d2"
  by (simp add: keeps_log_def)

lemma stores_keep_log:
  "keeps_log d (snd (us_Update sha now u d))" "keeps_log d (snd (us_SetDisabled now i b d))" "keeps_log d (snd (us_Delete i d))"
  "keeps_log d (snd (ak_Update now k d))" "keeps_log d (snd (ak_Delete i d))" "keeps_log d (snd (ak_DeleteAllByUser i d))"
  "keeps_log d (snd (pt_InvalidateForUser now i d))" "keeps_log d (snd (pt_Create now t d))" "keeps_log d (snd (af_Save now c d))"
  by (auto simp: us_Update_def us_SetDisabled_def on_user_def us_Delete_def ak_Update_def ak_Delete_def ak_DeleteAllByUser_def
      pt_InvalidateForUser_def pt_Create_def af_Save_def keeps_log_def exec_def Let_def)

lemma insert_all_keeps_log: "keeps_log d (snd (ab_insert_all now bs d))"
proof (induction bs arbitrary: d)
  case (Cons b bs)
  show ?case
    using Cons.IH by (auto simp: keeps_log_def)
qed simp

lemma BulkReplace_keeps_log: "keeps_log d (snd (ab_BulkReplace now bs d))"
  using insert_all_keeps_log [of "d\<lparr>db_alertSubs := []\<rparr>" now bs] by (simp add: ab_BulkReplace_def keeps_log_def)

lemmas keep_log = stores_keep_log BulkReplace_keeps_log

lemma keep_log_pair: "keeps_log d (snd p) \<Longrightarrow> p = (r, d') \<Longrightarrow> keeps_log d d'"
  by simp

lemmas keep_log_dest = keep_log [THEN keep_log_pair]

lemma ai_db_set [simp]: "ai_db (ai_set_db d s) = d" "ai_db (forget_auth n s) = ai_db s"
  by (simp_all add: ai_set_db_def with_db_def forget_auth_def InvalidateCachedAuthForUser_def)

text \<open>What an operation records: action, kind of target, target.\<close>

definition id_target :: "string \<Rightarrow> string" where
  "id_target i = (case ParseInt64 i of Some n \<Rightarrow> int_text n | None \<Rightarrow> [])"

definition op_record :: "admin_op \<Rightarrow> string \<times> string \<times> string" where
  "op_record x =
     (case x of
        UserUpdate i b \<Rightarrow> (''user.update'', ''user'', id_target i)
      | UserDisable i \<Rightarrow> (''user.disable'', ''user'', id_target i)
      | UserEnable i \<Rightarrow> (''user.enable'', ''user'', id_target i)
      | UserForceRotation i \<Rightarrow> (''user.flag_rotation'', ''user'', id_target i)
      | UserRotateKey i \<Rightarrow> (''user.rotate_key'', ''user'', id_target i)
      | UserSendReset i \<Rightarrow> (''user.send_password_reset'', ''user'', id_target i)
      | UserDelete i \<Rightarrow> (''user.delete'', ''user'', id_target i)
      | KeyUpdate i b \<Rightarrow> (''key.update'', ''apiKey'', id_target i)
      | KeyDelete i \<Rightarrow> (''key.revoke'', ''apiKey'', id_target i)
      | WorldDisconnect i \<Rightarrow> (''client.disconnect'', ''client'', i)
      | OpsDisconnect i \<Rightarrow> (''ops.force_disconnect'', ''client'', i)
      | OpsFlag b \<Rightarrow> (''ops.feature_flag'', ''system'', case b of Inr body \<Rightarrow> get_str body ''flag'' | Inl e \<Rightarrow> [])
      | OpsRateLimit b \<Rightarrow> (''ops.rate_limit_override'', ''user'', case b of Inr body \<Rightarrow> get_str body ''userId'' | Inl e \<Rightarrow> [])
      | HeadlessEnd i \<Rightarrow> (''session.kill'', ''headless_session'', i)
      | InteractiveEnd i \<Rightarrow> (''session.kill'', ''interactive_session'', i)
      | AlertsPut err b \<Rightarrow> (''alerts.config_updated'', ''alert'', []))"

definition op_entry :: "admin_env \<Rightarrow> User \<Rightarrow> admin_op \<Rightarrow> int \<Rightarrow> AdminAuditLog" where
  "op_entry env me x i =
     (case op_record x of (action, typ, target) \<Rightarrow>
        \<lparr>ad_ID = i, ad_AdminUserID = us_ID me, ad_Action = action, ad_TargetType = typ, ad_TargetID = opt_text target,
         ad_Details = None, ad_IPAddress = Some (an_addr env), ad_CreatedAt = an_now env\<rparr>)"

text \<open>\<open>recorded_as\<close>: the log after an answer, with one entry more exactly when the answer is a success.\<close>

definition recorded_as :: "admin_env \<Rightarrow> User \<Rightarrow> admin_op \<Rightarrow> db \<Rightarrow> int \<Rightarrow> db \<Rightarrow> bool" where
  "recorded_as env me x d st d' \<longleftrightarrow>
     (if st = 200 then \<exists>i. db_auditLogs d' = db_auditLogs d @ [op_entry env me x i] else db_auditLogs d' = db_auditLogs d)"

lemma recorded_refused: "st \<noteq> 200 \<Longrightarrow> keeps_log d d' \<Longrightarrow> recorded_as env me x d st d'"
  by (simp add: recorded_as_def keeps_log_def)

lemmas recorded_error = recorded_refused [of 400, simplified] recorded_refused [of 404, simplified] recorded_refused [of 500, simplified]
  recorded_refused [of 503, simplified]

lemma ai_db_audited [simp]:
  "ai_db (audited env action typ target s) = auditAdmin (an_now env) (an_addr env) (an_admin env) action typ target [] (ai_db s)"
  by (simp add: audited_def)

lemma recorded_done:
  assumes "an_admin env = Some me" "db_ok ''ad_Create'' d" "keeps_log d d1" "op_record x = (action, typ, target)"
  shows "recorded_as env me x d 200 (auditAdmin (an_now env) (an_addr env) (an_admin env) action typ target [] d1)"
proof -
  have "db_ok ''ad_Create'' d1" using assms(2,3) by (simp add: db_ok_def keeps_log_def)
  then show ?thesis
    using assms by (simp add: recorded_as_def auditAdmin_def ad_Create_def exec_def op_entry_def keeps_log_def opt_text_def)
qed

lemmas answers = WriteError_def message_def bad_id_def alert_config_answer_def

lemma user_changes_recorded:
  assumes "an_admin env = Some me" "db_ok ''ad_Create'' (ai_db s)"
  shows "admin_user_update env i b s = (a, s') \<Longrightarrow> recorded_as env me (UserUpdate i b) (ai_db s) (fst a) (ai_db s')"
    "admin_user_disable env i s = (a, s') \<Longrightarrow> recorded_as env me (UserDisable i) (ai_db s) (fst a) (ai_db s')"
    "admin_user_enable env i s = (a, s') \<Longrightarrow> recorded_as env me (UserEnable i) (ai_db s) (fst a) (ai_db s')"
    "admin_user_force_rotation env i s = (a, s') \<Longrightarrow> recorded_as env me (UserForceRotation i) (ai_db s) (fst a) (ai_db s')"
    "admin_user_rotate_key env i s = (a, s') \<Longrightarrow> recorded_as env me (UserRotateKey i) (ai_db s) (fst a) (ai_db s')"
  subgoal
    by (auto simp: admin_user_update_def answers op_record_def id_target_def intro!: recorded_error recorded_done [OF assms]
        dest!: keep_log_dest split: option.splits sum.splits db_result.splits prod.splits if_splits)
  subgoal
    by (auto simp: admin_user_disable_def answers op_record_def id_target_def intro!: recorded_error recorded_done [OF assms]
        dest!: keep_log_dest split: option.splits db_result.splits prod.splits if_splits)
  subgoal
    by (auto simp: admin_user_enable_def answers op_record_def id_target_def intro!: recorded_error recorded_done [OF assms]
        dest!: keep_log_dest split: option.splits db_result.splits prod.splits if_splits)
  subgoal
    by (auto simp: admin_user_force_rotation_def answers op_record_def id_target_def intro!: recorded_error recorded_done [OF assms]
        dest!: keep_log_dest split: option.splits db_result.splits prod.splits if_splits)
  subgoal
    by (auto simp: admin_user_rotate_key_def answers op_record_def id_target_def intro!: recorded_error recorded_done [OF assms]
        dest!: keep_log_dest split: option.splits db_result.splits prod.splits if_splits)
  done

lemma keep_two: "\<lbrakk>keeps_log d (snd (f d)); keeps_log (snd (f d)) d'\<rbrakk> \<Longrightarrow> keeps_log d d'"
  by (rule keeps_log_trans)

lemma ai_db_manager [simp]: "ai_db (s\<lparr>ai_manager := m\<rparr>) = ai_db s" "ai_db (s\<lparr>ai_interactive := v\<rparr>) = ai_db s"
  "ai_db (s\<lparr>ai_flags := fl\<rparr>) = ai_db s" "ac_db (send_mail e c) = ac_db c"
  by (simp_all add: send_mail_def)

lemma account_changes_recorded:
  assumes "an_admin env = Some me" "db_ok ''ad_Create'' (ai_db s)"
  shows "admin_user_send_reset env i s = (a, s') \<Longrightarrow> recorded_as env me (UserSendReset i) (ai_db s) (fst a) (ai_db s')"
    "admin_user_delete env i s = (a, s') \<Longrightarrow> recorded_as env me (UserDelete i) (ai_db s) (fst a) (ai_db s')"
    "admin_key_update env i b s = (a, s') \<Longrightarrow> recorded_as env me (KeyUpdate i b) (ai_db s) (fst a) (ai_db s')"
    "admin_key_delete env i s = (a, s') \<Longrightarrow> recorded_as env me (KeyDelete i) (ai_db s) (fst a) (ai_db s')"
  subgoal
    by (auto simp: admin_user_send_reset_def answers op_record_def id_target_def Let_def intro!: recorded_error recorded_done [OF assms]
        intro: keep_two [OF stores_keep_log(7)] stores_keep_log dest!: keep_log_dest split: option.splits db_result.splits prod.splits if_splits)
  subgoal
    by (auto simp: admin_user_delete_def answers op_record_def id_target_def Let_def intro!: recorded_error recorded_done [OF assms]
        intro: keep_two [OF stores_keep_log(6)] stores_keep_log dest!: keep_log_dest split: option.splits db_result.splits prod.splits if_splits)
  subgoal
    by (auto simp: admin_key_update_def answers op_record_def id_target_def Let_def intro!: recorded_error recorded_done [OF assms]
        dest!: keep_log_dest split: option.splits sum.splits db_result.splits prod.splits if_splits)
  subgoal
    by (auto simp: admin_key_delete_def answers op_record_def id_target_def intro!: recorded_error recorded_done [OF assms]
        dest!: keep_log_dest split: option.splits db_result.splits prod.splits if_splits)
  done

lemma system_changes_recorded:
  assumes "an_admin env = Some me" "db_ok ''ad_Create'' (ai_db s)"
  shows "admin_client_disconnect env i s = Ret (a, s') \<Longrightarrow> recorded_as env me (WorldDisconnect i) (ai_db s) (fst a) (ai_db s')"
    "ops_force_disconnect env i s = Ret (a, s') \<Longrightarrow> recorded_as env me (OpsDisconnect i) (ai_db s) (fst a) (ai_db s')"
    "ops_set_flag env b s = (a, s') \<Longrightarrow> recorded_as env me (OpsFlag b) (ai_db s) (fst a) (ai_db s')"
    "ops_rate_limit env b s = (a, s') \<Longrightarrow> recorded_as env me (OpsRateLimit b) (ai_db s) (fst a) (ai_db s')"
    "admin_headless_end env i s = (a, s') \<Longrightarrow> recorded_as env me (HeadlessEnd i) (ai_db s) (fst a) (ai_db s')"
    "admin_interactive_end env i s = (a, s') \<Longrightarrow> recorded_as env me (InteractiveEnd i) (ai_db s) (fst a) (ai_db s')"
    "admin_alerts_put env err b s = (a, s') \<Longrightarrow> recorded_as env me (AlertsPut err b) (ai_db s) (fst a) (ai_db s')"
  subgoal
    by (auto simp: admin_client_disconnect_def cut_client_def answers op_record_def Let_def intro!: recorded_error recorded_done [OF assms]
        split: option.splits go.splits)
  subgoal
    by (auto simp: ops_force_disconnect_def cut_client_def answers op_record_def Let_def intro!: recorded_error recorded_done [OF assms]
        split: option.splits go.splits)
  subgoal
    by (auto simp: ops_set_flag_def answers op_record_def Let_def intro!: recorded_error recorded_done [OF assms]
        split: option.splits sum.splits json.splits if_splits)
  subgoal
    by (auto simp: ops_rate_limit_def answers op_record_def intro!: recorded_error recorded_done [OF assms] split: sum.splits)
  subgoal
    by (auto simp: admin_headless_end_def admin_session_end_def answers op_record_def intro!: recorded_error recorded_done [OF assms]
        split: option.splits prod.splits)
  subgoal
    by (auto simp: admin_interactive_end_def answers op_record_def intro!: recorded_error recorded_done [OF assms]
        split: option.splits prod.splits bool.splits)
  subgoal
    by (auto simp: admin_alerts_put_def answers op_record_def Let_def intro!: recorded_error recorded_done [OF assms]
        intro: keeps_log_trans dest!: keep_log_dest split: sum.splits db_result.splits prod.splits)
  done

text \<open>C29: every change that an administrator makes with success leaves exactly one entry of his in the audit log, and a
  refused one leaves none.\<close>

theorem admin_changes_audited:
  assumes "admin_change env x s = Ret ((st, out), s')" and "an_admin env = Some me" and "db_ok ''ad_Create'' (ai_db s)"
  shows "\<exists>i. db_auditLogs (ai_db s') = db_auditLogs (ai_db s) @ (if st = 200 then [op_entry env me x i] else [])"
proof -
  have "recorded_as env me x (ai_db s) st (ai_db s')"
    using assms(1) user_changes_recorded [OF assms(2,3)] account_changes_recorded [OF assms(2,3)] system_changes_recorded [OF assms(2,3)]
    by (cases x) (fastforce simp: admin_change_def)+
  then show ?thesis by (auto simp: recorded_as_def split: if_splits)
qed

subsection \<open>Disabled accounts\<close>

text \<open>Requests that are authenticated one after the other, each at its time.\<close>

fun auth_run :: "auth_env \<Rightarrow> (gotime \<times> 'h manager \<times> http_request) list \<Rightarrow> auth_state \<Rightarrow> auth_result list \<times> auth_state" where
  "auth_run env [] s = ([], s)"
| "auth_run env ((now, m, r) # rest) s =
     (case AuthMiddleware env now m r s of (v, s1) \<Rightarrow> (case auth_run env rest s1 of (vs, s2) \<Rightarrow> (v # vs, s2)))"

definition cut_off :: "int \<Rightarrow> auth_state \<Rightarrow> bool" where
  "cut_off n s \<longleftrightarrow>
     (\<forall>k e. aget (au_cache s) k = Some e \<longrightarrow> us_ID (ce_user e) \<noteq> n) \<and> (\<forall>u \<in> set (db_users (au_db s)). us_ID u = n \<longrightarrow> us_Disabled u)"

definition speaks_for :: "auth_result \<Rightarrow> int \<Rightarrow> bool" where
  "speaks_for v n \<longleftrightarrow> (\<exists>c u. v = Next c \<and> rc_User c = Some u \<and> us_ID u = n)"

lemma found_user_row: "us_FindByID i d = DBOk (Some u) \<Longrightarrow> u \<in> set (db_users d) \<and> us_ID u = i"
  by (auto simp: us_FindByID_def get_row_def find_Some_iff split: if_splits)

lemma tryBearerAuth_row:
  "tryBearerAuth env now r d = (res, d') \<Longrightarrow> db_users d' = db_users d \<and> (case res of Some u \<Rightarrow> u \<in> set (db_users d) | None \<Rightarrow> True)"
  by (auto simp: tryBearerAuth_def se_UpdateLastUsed_def se_Delete_def exec_def Let_def dest: found_user_row
      split: if_splits db_result.splits option.splits)

lemma cut_off_cong:
  "\<lbrakk>cut_off n s; au_cache s' = au_cache s; db_users (au_db s') = db_users (au_db s)\<rbrakk> \<Longrightarrow> cut_off n s'"
  by (simp add: cut_off_def)

lemma bearer_cut_off:
  assumes "SessionOnlyMiddleware env now r s = (v, s')" "cut_off n s"
  shows "\<not> speaks_for v n" "cut_off n s'"
proof -
  obtain res d where t: "tryBearerAuth env now r (au_db s) = (res, d)" by fastforce
  have u: "db_users d = db_users (au_db s)" "res = Some w \<Longrightarrow> us_ID w = n \<Longrightarrow> us_Disabled w" for w
    using tryBearerAuth_row [OF t] assms(2) by (auto simp: cut_off_def)
  show "cut_off n s'"
    by (rule cut_off_cong [OF assms(2)])
      (use assms(1) t u(1) in \<open>auto simp: SessionOnlyMiddleware_def auth_failure_def split: option.splits\<close>)
  show "\<not> speaks_for v n"
    using assms(1) t u(2)
    by (auto simp: SessionOnlyMiddleware_def session_gate_def session_context_def speaks_for_def split: option.splits if_splits)
qed

lemma FindByKey_users: "ak_FindByKey sha key d = (found, d') \<Longrightarrow> db_users d' = db_users d"
  by (auto simp: ak_FindByKey_def exec_def Let_def split: db_result.splits option.splits if_splits)

lemma lookup_users: "lookup_auth env now m r s = (v, s') \<Longrightarrow> db_users (au_db s') = db_users (au_db s)"
  by (auto simp: lookup_auth_def auth_failure_def setCachedAuth_def Let_def dest: FindByKey_users
      split: prod.splits db_result.splits option.splits if_splits)

lemma lookup_cache:
  assumes "lookup_auth env now m r s = (v, s')" "aget (au_cache s') k = Some e"
  shows "aget (au_cache s) k = Some e \<or> (ce_user e \<in> set (db_users (au_db s)) \<and> \<not> us_Disabled (ce_user e))"
proof -
  obtain found d where f: "ak_FindByKey (ae_sha env) (hq_apiKey r) (au_db s) = (found, d)" by fastforce
  have "db_users d = db_users (au_db s)"
    by (rule FindByKey_users [OF f])
  then have "us_FindByID i d = DBOk (Some u) \<Longrightarrow> u \<in> set (db_users (au_db s))" for i u
    using found_user_row [of i d u] by simp
  then show ?thesis
    using assms f
    by (auto simp: lookup_auth_def auth_failure_def setCachedAuth_def Let_def
        split: db_result.splits option.splits if_splits)
qed

lemma lookup_cut_off:
  assumes "lookup_auth env now m r s = (v, s')" "cut_off n s"
  shows "\<not> speaks_for v n" "cut_off n s'"
proof -
  show "cut_off n s'"
    using lookup_cache [OF assms(1)] lookup_users [OF assms(1)] assms(2) unfolding cut_off_def by metis
  show "\<not> speaks_for v n"
  proof
    assume "speaks_for v n"
    then obtain c u where c: "v = Next c" "rc_User c = Some u" "us_ID u = n" unfolding speaks_for_def by blast
    obtain k w d where "ak_FindByKey (ae_sha env) (hq_apiKey r) (au_db s) = (DBOk (Some k), d)"
      "us_FindByID (ak_UserID k) d = DBOk (Some w)" "\<not> us_Disabled w" "c = key_context env w k"
      using lookup_auth_Next assms(1) unfolding c(1) by metis
    then show False
      using c assms(2) ak_FindByKey_row(2) found_user_row by (fastforce simp: cut_off_def key_context_def)
  qed
qed

lemma auth_cut_off:
  assumes "AuthMiddleware env now m r s = (v, s')" "cut_off n s"
  shows "\<not> speaks_for v n \<and> cut_off n s'"
proof (cases "hasBearerHeader r \<or> hq_apiKey r = [] \<or> getCachedAuth now (hq_apiKey r) s = None")
  case True
  then have "SessionOnlyMiddleware env now r s = (v, s') \<or>
      v = Answer 401 ''API key is required'' \<and> s' = auth_failure ''missing_key'' s \<or> lookup_auth env now m r s = (v, s')"
    using assms(1) unfolding AuthMiddleware_def by (simp split: if_splits)
  then consider "SessionOnlyMiddleware env now r s = (v, s')" | "v = Answer 401 ''API key is required''" "s' = auth_failure ''missing_key'' s"
    | "lookup_auth env now m r s = (v, s')"
    by blast
  then show ?thesis
  proof cases
    case 1
    then show ?thesis using bearer_cut_off [OF 1 assms(2)] by simp
  next
    case 2
    then show ?thesis using assms(2) by (simp add: speaks_for_def cut_off_def auth_failure_def)
  next
    case 3
    then show ?thesis using lookup_cut_off [OF 3 assms(2)] by simp
  qed
next
  case False
  then obtain e where e: "getCachedAuth now (hq_apiKey r) s = Some e" by blast
  then have "us_ID (ce_user e) \<noteq> n"
    using assms(2) by (auto simp: getCachedAuth_def cut_off_def split: option.splits if_splits)
  then show ?thesis
    using assms False e
    by (auto simp: AuthMiddleware_def cached_auth_def speaks_for_def key_context_def client_gate_def Let_def split: if_splits option.splits)
qed

lemma auth_run_cut_off:
  "\<lbrakk>auth_run env rs s = (vs, s'); cut_off n s\<rbrakk> \<Longrightarrow> (\<forall>v \<in> set vs. \<not> speaks_for v n) \<and> cut_off n s'"
  by (induction env rs s arbitrary: vs rule: auth_run.induct) (auto split: prod.splits dest!: auth_cut_off)

lemma audit_keeps_users [simp]: "db_users (auditAdmin now addr admin action typ target det d) = db_users d"
  by (auto simp: auditAdmin_def ad_Create_def exec_def split: option.splits)

lemma invalidated_cut_off:
  assumes "\<And>u. u \<in> set (db_users (au_db a)) \<Longrightarrow> us_ID u = n \<Longrightarrow> us_Disabled u"
  shows "cut_off n (InvalidateCachedAuthForUser n a)"
proof -
  have "us_ID (ce_user e) \<noteq> n" if "aget (au_cache (InvalidateCachedAuthForUser n a)) k = Some e" for k e
    using that by (force simp: InvalidateCachedAuthForUser_def fold_adel dest: map_of_SomeD)
  moreover have "au_db (InvalidateCachedAuthForUser n a) = au_db a" by (simp add: InvalidateCachedAuthForUser_def)
  ultimately show ?thesis using assms unfolding cut_off_def by simp
qed

lemma auth_parts:
  "au_cache (ac_auth (ai_acct (audited env a t x s))) = au_cache (ac_auth (ai_acct s))"
  "db_users (au_db (ac_auth (ai_acct (audited env a t x s)))) = db_users (ai_db s)"
  "ac_auth (ai_acct (forget_auth n s)) = InvalidateCachedAuthForUser n (ac_auth (ai_acct s))"
  "ac_auth (ai_acct (ai_set_db d s)) = (ac_auth (ai_acct s))\<lparr>au_db := d\<rparr>"
  by (simp_all add: audited_def ai_set_db_def with_db_def forget_auth_def)

lemma disable_cut_off:
  assumes "admin_user_disable env i s = ((200, out), s')" "ParseInt64 i = Some n"
  shows "cut_off n (ac_auth (ai_acct s'))"
proof -
  let ?d = "snd (us_SetDisabled (an_now env) n True (ai_db s))"
  let ?a = "(ac_auth (ai_acct s))\<lparr>au_db := ?d\<rparr>"
  have ok: "db_ok ''us_SetDisabled'' (ai_db s)"
    and s': "s' = audited env ''user.disable'' ''user'' (int_text n) (forget_auth n (ai_set_db ?d s))"
    using assms by (auto simp: admin_user_disable_def answers us_SetDisabled_def on_user_def exec_def split: if_splits)
  have rows: "db_users ?d = map (\<lambda>u. if us_ID u = n then u\<lparr>us_Disabled := True, us_UpdatedAt := an_now env\<rparr> else u) (db_users (ai_db s))"
    using ok by (simp add: us_SetDisabled_def on_user_def exec_def update_rows_def)
  have "cut_off n (InvalidateCachedAuthForUser n ?a)"
  proof (rule invalidated_cut_off)
    fix u assume "u \<in> set (db_users (au_db ?a))" "us_ID u = n"
    then have "u \<in> set (db_users ?d)" by simp
    then obtain w where w: "u = (if us_ID w = n then w\<lparr>us_Disabled := True, us_UpdatedAt := an_now env\<rparr> else w)"
      unfolding rows set_map by blast
    show "us_Disabled u"
      using \<open>us_ID u = n\<close> unfolding w by (cases "us_ID w = n") simp_all
  qed
  then show ?thesis
    by (rule cut_off_cong) (simp_all only: s' auth_parts refl)
qed

text \<open>From the moment an account is disabled no key and no session of it is let through, not even from the cache, until
  something else changes the database.\<close>

theorem disabled_account_cut_off:
  assumes "admin_user_disable env i s = ((200, out), s')" and "ParseInt64 i = Some n"
    and "auth_run aenv rs (ac_auth (ai_acct s')) = (vs, a)" and "v \<in> set vs"
  shows "\<not> speaks_for v n"
  using auth_run_cut_off [OF assms(3) disable_cut_off [OF assms(1,2)]] assms(4) by blast

subsection \<open>What the other changes miss\<close>

text \<open>Only disabling and the forced rotation clear the cache.  A deleted account, a replaced account key, a revoked, disabled or restricted
  key: a request whose key is in the cache is let through as before.\<close>

definition clears_cache :: "admin_op \<Rightarrow> bool" where
  "clears_cache x \<longleftrightarrow> (case x of UserDisable i \<Rightarrow> True | UserForceRotation i \<Rightarrow> True | _ \<Rightarrow> False)"

lemma auth_cache_kept [simp]:
  "au_cache (ac_auth (ai_acct (audited env a t x s))) = au_cache (ac_auth (ai_acct s))"
  "au_cache (ac_auth (ai_acct (ai_set_db d s))) = au_cache (ac_auth (ai_acct s))"
  "ac_auth (send_mail e c) = ac_auth c"
  by (simp_all add: auth_parts send_mail_def)

theorem change_keeps_cached_access:
  assumes "admin_change env x s = Ret (a, s')" and "\<not> clears_cache x"
    and "\<not> hasBearerHeader r" "hq_apiKey r \<noteq> []" "hq_clientId r = []"
    and "getCachedAuth now (hq_apiKey r) (ac_auth (ai_acct s)) = Some e"
  shows "fst (AuthMiddleware aenv now m r (ac_auth (ai_acct s'))) = fst (AuthMiddleware aenv now m r (ac_auth (ai_acct s)))"
proof -
  have "au_cache (ac_auth (ai_acct s')) = au_cache (ac_auth (ai_acct s))"
  proof (cases x)
    case (UserUpdate i b)
    then show ?thesis using assms(1)
      by (auto simp: admin_change_def admin_user_update_def split: option.splits sum.splits db_result.splits prod.splits if_splits)
  next
    case (UserDelete i)
    then show ?thesis using assms(1)
      by (auto simp: admin_change_def admin_user_delete_def Let_def split: option.splits sum.splits db_result.splits prod.splits if_splits)
  next
    case (UserSendReset i)
    then show ?thesis using assms(1)
      by (auto simp: admin_change_def admin_user_send_reset_def Let_def split: option.splits sum.splits db_result.splits prod.splits if_splits)
  next
    case (UserRotateKey i)
    then show ?thesis using assms(1)
      by (auto simp: admin_change_def admin_user_rotate_key_def split: option.splits sum.splits db_result.splits prod.splits if_splits)
  next
    case (KeyUpdate i b)
    then show ?thesis using assms(1)
      by (auto simp: admin_change_def admin_key_update_def Let_def split: option.splits sum.splits db_result.splits prod.splits if_splits)
  next
    case (AlertsPut err b)
    then show ?thesis using assms(1)
      by (auto simp: admin_change_def admin_alerts_put_def Let_def split: option.splits sum.splits db_result.splits prod.splits if_splits)
  next
    case (OpsFlag b)
    then show ?thesis using assms(1)
      by (auto simp: admin_change_def ops_set_flag_def Let_def split: option.splits sum.splits json.splits if_splits)
  qed (use assms(1,2) in \<open>auto simp: admin_change_def clears_cache_def admin_user_enable_def admin_key_delete_def admin_client_disconnect_def
        ops_force_disconnect_def cut_client_def ops_rate_limit_def admin_headless_end_def admin_interactive_end_def Let_def
        split: option.splits sum.splits db_result.splits prod.splits if_splits go.splits bool.splits\<close>)
  then have "getCachedAuth now (hq_apiKey r) (ac_auth (ai_acct s')) = Some e"
    using assms(6) by (simp add: getCachedAuth_def)
  then show ?thesis
    using assms(3-6) by (simp add: AuthMiddleware_def cached_auth_def client_gate_def)
qed

text \<open>The keys of the WebSocket interface are checked without a look at the account's state: disabling it changes nothing there.\<close>

lemma find_update: "(\<And>r. P (f r) = P r) \<Longrightarrow> find P (update_rows Q f rows) = map_option (\<lambda>r. if Q r then f r else r) (find P rows)"
  by (induction rows) (auto simp: update_rows_def)

lemma find_update_const:
  "(\<And>r. P (r\<lparr>us_Disabled := b, us_UpdatedAt := t\<rparr>) = P r) \<Longrightarrow>
   find P (update_rows Q (\<lambda>r. r\<lparr>us_Disabled := b, us_UpdatedAt := t\<rparr>) rows) =
   map_option (\<lambda>r. if Q r then r\<lparr>us_Disabled := b, us_UpdatedAt := t\<rparr> else r) (find P rows)"
  by (rule find_update)

lemma SetDisabled_parts:
  "db_keys (snd (us_SetDisabled t n b d)) = db_keys d" "db_fails (snd (us_SetDisabled t n b d)) = db_fails d"
  by (simp_all add: us_SetDisabled_def on_user_def exec_def)

lemma get_user_disabled:
  assumes "\<And>r. P (r\<lparr>us_Disabled := b, us_UpdatedAt := t\<rparr>) = P r"
  shows "get_row stmt P (db_users (snd (us_SetDisabled t n b d))) (snd (us_SetDisabled t n b d)) =
    (case get_row stmt P (db_users d) d of DBErr \<Rightarrow> DBErr
     | DBOk x \<Rightarrow> DBOk (map_option (\<lambda>r. if us_ID r = n \<and> db_ok ''us_SetDisabled'' d then r\<lparr>us_Disabled := b, us_UpdatedAt := t\<rparr> else r) x))"
  using find_update_const [where P = P and b = b and t = t and Q = "\<lambda>r. us_ID r = n" and rows = "db_users d", OF assms]
  by (cases "find P (db_users d)") (auto simp: get_row_def db_ok_def SetDisabled_parts us_SetDisabled_def on_user_def exec_def)

theorem disabling_keeps_websocket_keys:
  assumes "us_FindByAPIKey sha key d = DBOk (Some u)"
  shows "fst (ValidateAPIKeyDetailed sha now key (snd (us_SetDisabled t n True d))) = fst (ValidateAPIKeyDetailed sha now key d)"
proof -
  have "key \<noteq> []" using assms by (auto simp: us_FindByAPIKey_def)
  moreover have "HashAPIKey sha key \<noteq> []"
    using assms by (auto simp: us_FindByAPIKey_def us_FindByAPIKeyHash_def split: if_splits)
  ultimately have "us_FindByAPIKey sha key (snd (us_SetDisabled t n True d)) =
      DBOk (Some (if us_ID u = n \<and> db_ok ''us_SetDisabled'' d then u\<lparr>us_Disabled := True, us_UpdatedAt := t\<rparr> else u))"
    using assms by (simp add: us_FindByAPIKey_def us_FindByAPIKeyHash_def get_user_disabled)
  then show ?thesis
    using assms by (simp add: ValidateAPIKeyDetailed_def)
qed

text \<open>The delivery settings are saved before the subscriptions are looked at.\<close>

lemma refused_alert_settings_saved:
  assumes "db_ok ''af_Save'' (ai_db s)" and "aget body ''subscriptions'' = Some (JArr vs)" and "parse_subs vs = Inl e"
  shows "admin_alerts_put env err (Inr body) s =
    (WriteError 400 e, ai_set_db (snd (af_Save (an_now env)
       (blank_config\<lparr>af_DiscordWebhookURL := get_str body ''discordWebhookUrl'', af_EmailDestination := get_str body ''emailDestination''\<rparr>)
       (ai_db s))) s)"
  using assms by (simp add: admin_alerts_put_def af_Save_def exec_def Let_def)

text \<open>The scopes that an administrator writes are not looked at.\<close>

lemma any_scope_written:
  "patch_key [(''scopes'', JArr [JStr x])] k = (k\<lparr>ak_Scopes := x\<rparr>, True)"
  by (simp add: patch_key_def str_items_def List.map_filter_def)

text \<open>Subscriptions that were accepted name a known type and a channel.\<close>

lemma parsed_subs_known:
  "parse_subs vs = Inr subs \<Longrightarrow> p \<in> set subs \<Longrightarrow> fst p \<in> set validAlertTypes \<and> (snd p = ''discord'' \<or> snd p = ''email'')"
proof (induction vs arbitrary: subs)
  case (Cons v vs)
  then show ?case
    by (cases v) (auto simp: Let_def split: if_splits sum.splits)
qed simp

text \<open>Maintenance closes every path but the administrators' and two others.\<close>

lemma maintenance_closes:
  "FeatureFlags_Get ''maintenance_mode'' flags \<Longrightarrow> take 6 path \<noteq> ''/admin'' \<Longrightarrow> path \<noteq> ''/api/health'' \<Longrightarrow> path \<noteq> ''/api/status'' \<Longrightarrow>
   MaintenanceModeMiddleware flags path = Some (WriteError 503 ''Service is in maintenance mode'')"
  by (simp add: MaintenanceModeMiddleware_def)

lemma order_by_mset [simp]: "mset (order_by f desc rows) = mset rows"
  by (simp add: order_by_def)

lemma order_by_sorted: "sorted (map f (if desc then rev (order_by f desc rows) else order_by f desc rows))"
  by (simp add: order_by_def)

lemma pages_cover: "0 < k \<Longrightarrow> length xs \<le> n * k \<Longrightarrow> concat (map (\<lambda>i. take k (drop (i * k) xs)) [0..<n]) = xs"
proof (induction n arbitrary: xs)
  case (Suc n)
  have "concat (map (\<lambda>i. take k (drop (i * k) (drop k xs))) [0..<n]) = drop k xs"
    by (rule Suc.IH) (use Suc.prems in auto)
  then have "concat (map (\<lambda>i. take k (drop (Suc i * k) xs)) [0..<n]) = drop k xs"
    by (simp add: add.commute)
  moreover have "map (\<lambda>i. take k (drop (i * k) xs)) [0..<Suc n] = take k xs # map (\<lambda>i. take k (drop (Suc i * k) xs)) [0..<n]"
    by (simp add: upt_conv_Cons map_Suc_upt [symmetric] comp_def del: upt_Suc)
  ultimately show ?case by simp
qed simp

text \<open>The pages of the user listing, put together, hold every account that matches the filters exactly once, in the order asked for;
  each page tells their number.\<close>

theorem user_pages_exact:
  assumes "db_ok ''us_FindFilteredPaginated'' d" and "0 < uq_Limit q" "uq_Limit q \<le> 500"
  defines "found \<equiv> filter (user_matches q) (db_users d)"
    and "k \<equiv> nat (uq_Limit q)"
  assumes "length found \<le> n * k"
  shows "\<exists>pages. (\<forall>i < n. FindFilteredPaginated (q\<lparr>uq_Offset := int (i * k)\<rparr>) d = DBOk (pages ! i, int (length found))) \<and>
    length pages = n \<and> mset (concat pages) = mset found \<and>
    sorted (map (userSortColumns (uq_SortBy q)) (if uq_SortDesc q then rev (concat pages) else concat pages))"
proof -
  let ?all = "order_by (userSortColumns (uq_SortBy q)) (uq_SortDesc q) found"
  define pages where "pages = map (\<lambda>i. take k (drop (i * k) ?all)) [0..<n]"
  have m: "user_matches (q\<lparr>uq_Offset := j\<rparr>) = user_matches q" for j
    by (rule ext) (simp add: user_matches_def)
  have "concat pages = ?all"
    unfolding pages_def
    by (rule pages_cover) (use assms(2,6) mset_eq_length [OF order_by_mset [of "userSortColumns (uq_SortBy q)" "uq_SortDesc q" found]]
      in \<open>auto simp: k_def\<close>)
  moreover have "FindFilteredPaginated (q\<lparr>uq_Offset := int (i * k)\<rparr>) d = DBOk (pages ! i, int (length found))" if "i < n" for i
  proof -
    have "\<not> int (i * k) < 0" "nat (int (i * k)) = i * k" "nat (uq_Limit q) = k" by (simp_all only: k_def)
    then show ?thesis
      using that assms(1-3) by (simp add: FindFilteredPaginated_def m pages_def found_def Let_def del: of_nat_mult)
  qed
  moreover have "length pages = n" by (simp add: pages_def)
  ultimately show ?thesis
    using order_by_sorted [of "userSortColumns (uq_SortBy q)" "uq_SortDesc q" found]
    by (intro exI [of _ pages]) (cases "uq_SortDesc q"; simp)
qed

subsection \<open>Examples\<close>

definition ex_admin_env :: admin_env where
  "ex_admin_env = \<lparr>an_acct = ex_acct_env, an_scard = (\<lambda>x. None), an_now = 5, an_addr = ''10.0.0.1:5'', an_admin = Some ex_admin,
     an_random = None, an_rfc3339 = (\<lambda>t. [])\<rparr>"

definition ex_api :: "unit admin_api" where
  "ex_api =
     \<lparr>ai_acct = \<lparr>ac_auth = (ex_auth (ex_key 7 2 ''k1''))\<lparr>au_db := empty_db\<lparr>db_users := [ex_admin, ex_user 2], db_keys := [ex_key 7 2 ''k1'']\<rparr>\<rparr>,
                 ac_mails = [], ac_cancelled = []\<rparr>,
      ai_flags = FeatureFlags_init, ai_manager = NewClientManager False ''i1'', ai_interactive = None, ai_headless = None\<rparr>"

lemma ex_two: "ParseInt64 ''2'' = Some 2"
  by (simp add: ParseInt64_def digit_val_def in_range_def)

lemma ex_disable: "\<exists>s'. admin_user_disable ex_admin_env ''2'' ex_api = (message ''User disabled'', s')"
proof -
  have "\<not> is_self ex_admin_env 2" "db_fails (ai_db ex_api) = []"
    by (simp_all add: is_self_def ex_admin_env_def ex_admin_row ex_api_def empty_db_def)
  then show ?thesis
    by (simp add: admin_user_disable_def ex_two us_SetDisabled_def on_user_def exec_def db_ok_def)
qed

lemma admin_changes_audited_witness:
  "\<exists>out s' i. admin_change ex_admin_env (UserDisable ''2'') ex_api = Ret ((200, out), s') \<and>
     db_auditLogs (ai_db s') = [op_entry ex_admin_env ex_admin (UserDisable ''2'') i]"
proof -
  obtain out s' where r: "admin_change ex_admin_env (UserDisable ''2'') ex_api = Ret ((200, out), s')"
    using ex_disable by (auto simp: admin_change_def message_def)
  have "an_admin ex_admin_env = Some ex_admin" "db_ok ''ad_Create'' (ai_db ex_api)" "db_auditLogs (ai_db ex_api) = []"
    by (simp_all add: ex_admin_env_def ex_api_def db_ok_def empty_db_def)
  with admin_changes_audited [OF r this(1,2)] r show ?thesis by auto
qed

lemma disabled_account_cut_off_witness:
  "\<exists>out s' v a. admin_user_disable ex_admin_env ''2'' ex_api = ((200, out), s') \<and>
     auth_run ex_auth_env [(6, NewClientManager False ''i1'' :: unit manager, Auth.ex_request ''k1'' [])] (ac_auth (ai_acct s')) = ([v], a) \<and>
     \<not> speaks_for v 2"
proof -
  let ?q = "(6, NewClientManager False ''i1'' :: unit manager, Auth.ex_request ''k1'' [])"
  obtain out s' where r: "admin_user_disable ex_admin_env ''2'' ex_api = ((200, out), s')"
    using ex_disable by (auto simp: message_def)
  obtain v a where run: "auth_run ex_auth_env [?q] (ac_auth (ai_acct s')) = ([v], a)"
    by (cases "AuthMiddleware ex_auth_env 6 (NewClientManager False ''i1'' :: unit manager) (Auth.ex_request ''k1'' []) (ac_auth (ai_acct s'))") auto
  have "\<not> speaks_for v 2" by (rule disabled_account_cut_off [OF r ex_two run]) simp
  then show ?thesis using r run by blast
qed

text \<open>Before, the key speaks for the account.\<close>

lemma ex_key_speaks:
  "speaks_for (fst (AuthMiddleware ex_auth_env 6 (NewClientManager False ''i1'' :: unit manager) (Auth.ex_request ''k1'' []) (ac_auth (ai_acct ex_api)))) 2"
  by (simp add: ex_api_def ex_auth_defs auth_defs speaks_for_def key_context_def ex_admin_def)

end
