(* ===== verification/ApiKeyRoutes.thy ===== *)
theory ApiKeyRoutes
  imports Route AccountRoutes
begin

text \<open>
  The dashboard's routes over an account's scoped API keys after their creation: listing, editing,
  deleting and regenerating, \<open>/auth/api-keys\<close> of \<open>internal/handler/auth.go\<close>.

  The JSON codecs of the per-client users (\<open>marshal\<close>, \<open>unmarshal\<close>) and \<open>time_parse\<close> are parameters.
\<close>

definition masked_key :: "string \<Rightarrow> string" where
  "masked_key key = (if length key \<ge> 8 then take 8 key @ ''...'' else ''...'')"

definition users_json :: "(string \<Rightarrow> (string, string) gomap) \<Rightarrow> ApiKey \<Rightarrow> json" where
  "users_json unmarshal k = JObj (map (\<lambda>(c, u). (c, JStr u)) (GetScopedUserIDs unmarshal k))"

definition api_key_view :: "(string \<Rightarrow> (string, string) gomap) \<Rightarrow> gotime \<Rightarrow> ApiKey \<Rightarrow> json" where
  "api_key_view unmarshal now k =
     JObj [(''id'', JNum (ak_ID k)), (''key'', JStr (masked_key (ak_Key k))), (''name'', JStr (ak_Name k)),
           (''scopes'', jstrs (GetScopes k)), (''scopedClientId'', JStr (null_str (ak_ScopedClientID k))),
           (''scopedClientIds'', jstrs (GetScopedClientIDs k)), (''scopedUserId'', JStr (null_str (ak_ScopedUserID k))),
           (''scopedUserIds'', users_json unmarshal k), (''monthlyLimit'', JNum (int_or_zero (ak_MonthlyLimit k))),
           (''requestsThisMonth'', JNum (ak_RequestsThisMonth k)), (''expiresAt'', opt_num (ak_ExpiresAt k)),
           (''isExpired'', JBool (IsExpired now k)), (''enabled'', JBool (ak_Enabled k)), (''createdAt'', JNum (ak_CreatedAt k)),
           (''updatedAt'', JNum (ak_UpdatedAt k))]"

definition api_key_list :: "(string \<Rightarrow> (string, string) gomap) \<Rightarrow> gotime \<Rightarrow> User option \<Rightarrow> db \<Rightarrow> answer" where
  "api_key_list unmarshal now usr d =
     (case usr of None \<Rightarrow> WriteError 401 ''Invalid user''
      | Some user \<Rightarrow>
          (case ak_FindAllByUser (us_ID user) d of
             DBErr \<Rightarrow> WriteError 500 ''Failed to list API keys''
           | DBOk ks \<Rightarrow> (200, [(''keys'', JArr (map (api_key_view unmarshal now) ks))])))"

text \<open>The key an identifier names, if it is the user's; the three routes check the user and the identifier
themselves.\<close>

definition own_key :: "User \<Rightarrow> int \<Rightarrow> db \<Rightarrow> ApiKey option" where
  "own_key user i d =
     (case ak_FindByID i d of DBOk (Some k) \<Rightarrow> if ak_UserID k \<noteq> us_ID user then None else Some k | _ \<Rightarrow> None)"

definition key_to_edit :: "User option \<Rightarrow> string \<Rightarrow> db \<Rightarrow> answer + (User \<times> int \<times> ApiKey)" where
  "key_to_edit usr idText d =
     (case usr of None \<Rightarrow> Inl (WriteError 401 ''Invalid user'')
      | Some user \<Rightarrow>
     (case ParseInt64 idText of None \<Rightarrow> Inl (WriteError 400 ''Invalid key ID'')
      | Some i \<Rightarrow>
     (case own_key user i d of None \<Rightarrow> Inl (WriteError 404 ''API key not found'')
      | Some k \<Rightarrow> Inr (user, i, k))))"

subsection \<open>Editing\<close>

text \<open>One field of the body: absent, null or of another type leaves, clears or keeps the column.\<close>

definition patch_scopes :: "obj \<Rightarrow> ApiKey \<Rightarrow> string + ApiKey" where
  "patch_scopes body k =
     (case aget body ''scopes'' of None \<Rightarrow> Inr k
      | Some v \<Rightarrow>
          (let scopes = strs_of (Some v); invalid = ValidateScopes scopes
           in if scopes = [] then Inl ''At least one scope is required''
              else if invalid \<noteq> [] then Inl (''Invalid scope: '' @ invalid)
              else Inr (k\<lparr>ak_Scopes := ScopesString scopes\<rparr>)))"

definition patch_client_ids :: "obj \<Rightarrow> ApiKey \<Rightarrow> ApiKey" where
  "patch_client_ids body k =
     (case aget body ''scopedClientIds'' of
        Some JNull \<Rightarrow> k\<lparr>ak_ScopedClientIDs := None\<rparr>
      | Some (JArr xs) \<Rightarrow>
          (let ids = filter (\<lambda>s. s \<noteq> []) (strs_of (Some (JArr xs)))
           in k\<lparr>ak_ScopedClientIDs := (if length ids > 0 then Some (go_join '','' ids) else None)\<rparr>)
      | _ \<Rightarrow> k)"

definition patched_str :: "obj \<Rightarrow> string \<Rightarrow> string option \<Rightarrow> string option" where
  "patched_str body name old =
     (case aget body name of Some JNull \<Rightarrow> None | Some (JStr s) \<Rightarrow> nonempty_str s | _ \<Rightarrow> old)"

definition patched_users :: "((string, string) gomap \<Rightarrow> string) \<Rightarrow> obj \<Rightarrow> string option \<Rightarrow> string option" where
  "patched_users marshal body old =
     (case aget body ''scopedUserIds'' of
        Some JNull \<Rightarrow> None
      | Some (JObj kvs) \<Rightarrow>
          (let clean = users_of (Some (JObj kvs)) in if length clean > 0 then Some (marshal clean) else None)
      | _ \<Rightarrow> old)"

definition patched_key ::
    "((string, string) gomap \<Rightarrow> string) \<Rightarrow> (string \<Rightarrow> gotime option) \<Rightarrow> obj \<Rightarrow> ApiKey \<Rightarrow> string + ApiKey" where
  "patched_key marshal time_parse body k0 =
     (let k1 = (if get_str body ''name'' \<noteq> [] then k0\<lparr>ak_Name := get_str body ''name''\<rparr> else k0)
      in case patch_scopes body k1 of
           Inl msg \<Rightarrow> Inl msg
         | Inr k2 \<Rightarrow>
             (let k3 = patch_client_ids body k2
              in Inr (k3\<lparr>ak_ScopedClientID := patched_str body ''scopedClientId'' (ak_ScopedClientID k3),
                         ak_ScopedUserID := patched_str body ''scopedUserId'' (ak_ScopedUserID k3),
                         ak_ScopedUserIDs := patched_users marshal body (ak_ScopedUserIDs k3),
                         ak_MonthlyLimit := (case aget body ''monthlyLimit'' of
                            Some JNull \<Rightarrow> None | Some (JNum n) \<Rightarrow> Some n | _ \<Rightarrow> ak_MonthlyLimit k3),
                         ak_ExpiresAt := (case aget body ''expiresAt'' of
                            Some JNull \<Rightarrow> None
                          | Some (JStr t) \<Rightarrow> (case time_parse t of Some x \<Rightarrow> Some x | None \<Rightarrow> ak_ExpiresAt k3)
                          | _ \<Rightarrow> ak_ExpiresAt k3),
                         ak_Enabled := (case aget body ''enabled'' of Some (JBool b) \<Rightarrow> b | _ \<Rightarrow> ak_Enabled k3)\<rparr>)))"

definition api_key_patch ::
    "((string, string) gomap \<Rightarrow> string) \<Rightarrow> (string \<Rightarrow> (string, string) gomap) \<Rightarrow> (string \<Rightarrow> gotime option) \<Rightarrow> gotime \<Rightarrow>
     User option \<Rightarrow> string \<Rightarrow> string + obj \<Rightarrow> db \<Rightarrow> answer \<times> db" where
  "api_key_patch marshal unmarshal time_parse now usr idText parsed d =
     (case key_to_edit usr idText d of
        Inl a \<Rightarrow> (a, d)
      | Inr (user, i, k0) \<Rightarrow>
          (case parsed of Inl err \<Rightarrow> (WriteError 400 err, d)
           | Inr body \<Rightarrow>
               (case patched_key marshal time_parse body k0 of
                  Inl msg \<Rightarrow> (WriteError 400 msg, d)
                | Inr k \<Rightarrow>
                    (case ak_Update now k d of
                       (DBErr, d1) \<Rightarrow> (WriteError 500 ''Failed to update API key'', d1)
                     | (DBOk _, d1) \<Rightarrow>
                         ((200, [(''id'', JNum (ak_ID k)), (''name'', JStr (ak_Name k)), (''scopes'', jstrs (GetScopes k)),
                                 (''scopedClientIds'', jstrs (GetScopedClientIDs k)),
                                 (''scopedClientId'', JStr (null_str (ak_ScopedClientID k))),
                                 (''scopedUserId'', JStr (null_str (ak_ScopedUserID k))), (''scopedUserIds'', users_json unmarshal k),
                                 (''monthlyLimit'', JNum (int_or_zero (ak_MonthlyLimit k))), (''expiresAt'', opt_num (ak_ExpiresAt k)),
                                 (''enabled'', JBool (ak_Enabled k)), (''updatedAt'', JNum now)]), d1)))))"

subsection \<open>Deleting and regenerating\<close>

text \<open>Here the identifier is parsed before the user is looked at.\<close>

definition api_key_delete :: "User option \<Rightarrow> string \<Rightarrow> db \<Rightarrow> answer \<times> db" where
  "api_key_delete usr idText d =
     (case ParseInt64 idText of None \<Rightarrow> (WriteError 400 ''Invalid key ID'', d)
      | Some i \<Rightarrow>
     (case usr of None \<Rightarrow> (WriteError 401 ''Invalid user'', d)
      | Some user \<Rightarrow>
     (case own_key user i d of None \<Rightarrow> (WriteError 404 ''API key not found'', d)
      | Some k \<Rightarrow>
          (case ak_Delete i d of
             (DBErr, d1) \<Rightarrow> (WriteError 500 ''Failed to delete API key'', d1)
           | (DBOk _, d1) \<Rightarrow> ((200, [(''success'', JBool True), (''message'', JStr ''API key deleted'')]), d1)))))"

definition api_key_regenerate :: "(string \<Rightarrow> string) \<Rightarrow> gotime \<Rightarrow> string \<Rightarrow> User option \<Rightarrow> string \<Rightarrow> db \<Rightarrow> answer \<times> db" where
  "api_key_regenerate sha now newKey usr idText d =
     (case key_to_edit usr idText d of
        Inl a \<Rightarrow> (a, d)
      | Inr (user, i, k) \<Rightarrow>
          (case ak_RegenerateKey sha now newKey i d of
             (DBErr, d1) \<Rightarrow> (WriteError 500 ''Failed to regenerate API key'', d1)
           | (DBOk key, d1) \<Rightarrow> ((200, [(''key'', JStr key)]), d1)))"

subsection \<open>The routes stay within the account\<close>

text \<open>The keys of everybody else.\<close>

definition others_keys :: "int \<Rightarrow> db \<Rightarrow> ApiKey list" where
  "others_keys uid d = filter (\<lambda>k. ak_UserID k \<noteq> uid) (db_keys d)"

lemma own_key_row:
  assumes "own_key user i d = Some k"
  shows "k \<in> set (db_keys d)" and "ak_ID k = i" and "ak_UserID k = us_ID user"
  using assms get_row_mem [of "''ak_FindByID''" "\<lambda>k. ak_ID k = i" "db_keys d" d]
  by (auto simp: own_key_def ak_FindByID_def split: db_result.splits option.splits if_splits)

lemma key_to_edit_own: "key_to_edit usr idText d = Inr (user, i, k) \<Longrightarrow> usr = Some user \<and> own_key user i d = Some k"
  by (auto simp: key_to_edit_def split: option.splits)

text \<open>A statement on one identifier touches only the row of that identifier.\<close>

lemma others_unique:
  assumes "distinct (map ak_ID (db_keys d))" and "k \<in> set (db_keys d)" and "r \<in> set (db_keys d)" and "ak_ID r = ak_ID k"
  shows "r = k"
  using assms by (auto simp: distinct_map dest: inj_onD)

lemma others_update_rows:
  assumes "\<And>r. r \<in> set rows \<Longrightarrow> P r \<Longrightarrow> ak_UserID r = uid" and "\<And>r. ak_UserID (f r) = ak_UserID r"
  shows "filter (\<lambda>k. ak_UserID k \<noteq> uid) (update_rows P f rows) = filter (\<lambda>k. ak_UserID k \<noteq> uid) rows"
  using assms by (induction rows) (auto simp: update_rows_def)

lemma others_filter:
  assumes "\<And>r. r \<in> set rows \<Longrightarrow> \<not> P r \<Longrightarrow> ak_UserID r = uid"
  shows "filter (\<lambda>k. ak_UserID k \<noteq> uid) (filter P rows) = filter (\<lambda>k. ak_UserID k \<noteq> uid) rows"
  using assms by (auto intro!: filter_cong)

lemma patch_scopes_same: "patch_scopes body k0 = Inr k \<Longrightarrow> ak_ID k = ak_ID k0"
  by (auto simp: patch_scopes_def Let_def split: option.splits if_splits)

lemma patch_client_ids_same [simp]: "ak_ID (patch_client_ids body k) = ak_ID k"
  by (simp add: patch_client_ids_def Let_def split: option.split json.split)

lemma patched_key_same:
  assumes "patched_key marshal time_parse body k0 = Inr k"
  shows "ak_ID k = ak_ID k0"
proof -
  let ?k1 = "if get_str body ''name'' \<noteq> [] then k0\<lparr>ak_Name := get_str body ''name''\<rparr> else k0"
  obtain k2 where k2: "patch_scopes body ?k1 = Inr k2"
    using assms by (cases "patch_scopes body ?k1") (simp_all add: patched_key_def Let_def)
  have "ak_ID k = ak_ID k2" using assms by (auto simp: patched_key_def k2 Let_def simp del: if_image_distrib)
  also have "\<dots> = ak_ID ?k1" using k2 by (rule patch_scopes_same)
  also have "\<dots> = ak_ID k0" by simp
  finally show ?thesis .
qed

datatype key_op =
    EditKey "string + obj"
  | DeleteKey
  | RegenerateKey string

definition key_op_run ::
    "((string, string) gomap \<Rightarrow> string) \<Rightarrow> (string \<Rightarrow> (string, string) gomap) \<Rightarrow> (string \<Rightarrow> gotime option) \<Rightarrow> (string \<Rightarrow> string) \<Rightarrow>
     gotime \<Rightarrow> User option \<Rightarrow> string \<Rightarrow> key_op \<Rightarrow> db \<Rightarrow> answer \<times> db" where
  "key_op_run marshal unmarshal time_parse sha now usr idText op d =
     (case op of
        EditKey parsed \<Rightarrow> api_key_patch marshal unmarshal time_parse now usr idText parsed d
      | DeleteKey \<Rightarrow> api_key_delete usr idText d
      | RegenerateKey newKey \<Rightarrow> api_key_regenerate sha now newKey usr idText d)"

text \<open>C22: Whatever a user does to the key an identifier names, be it an edit, a deletion or a regeneration, the keys
  of every other account stay as they are, and the answer 200 is given only for a key of the user's own.\<close>

theorem key_routes_confined:
  assumes "distinct (map ak_ID (db_keys d))"
    and "key_op_run marshal unmarshal time_parse sha now (Some user) idText op d = ((status, ans), d')"
  shows "others_keys (us_ID user) d' = others_keys (us_ID user) d \<and>
    (status = 200 \<longrightarrow> (\<exists>k \<in> set (db_keys d). ParseInt64 idText = Some (ak_ID k) \<and> ak_UserID k = us_ID user))"
proof -
  have mine: "ak_UserID r = us_ID user" if "own_key user i d = Some k" "r \<in> set (db_keys d)" "ak_ID r = i" for r k i
    using own_key_row [OF that(1)] others_unique [OF assms(1), of k r] that(2,3) by simp
  have upd: "others_keys (us_ID user) (d\<lparr>db_keys := update_rows (\<lambda>r. ak_ID r = i) f (db_keys d)\<rparr>) = others_keys (us_ID user) d"
    if "own_key user i d = Some k" "\<And>r. ak_UserID (f r) = ak_UserID r" for i k f
    unfolding others_keys_def using that mine [OF that(1)] by (simp add: others_update_rows)
  have del: "others_keys (us_ID user) (d\<lparr>db_keys := filter (\<lambda>k. ak_ID k \<noteq> i) (db_keys d)\<rparr>) = others_keys (us_ID user) d"
    if "own_key user i d = Some k" for i k
    unfolding others_keys_def using mine [OF that] by (simp del: filter_filter) (rule others_filter, auto)
  show ?thesis
  proof (cases op)
    case (EditKey parsed)
    then show ?thesis
      using assms(2) upd own_key_row
      by (fastforce simp: key_op_run_def api_key_patch_def WriteError_def ak_Update_def exec_def key_to_edit_def patched_key_same
          split: option.splits sum.splits prod.splits db_result.splits if_splits)
  next
    case DeleteKey
    then show ?thesis
      using assms(2) del own_key_row
      by (fastforce simp: key_op_run_def api_key_delete_def WriteError_def ak_Delete_def exec_def
          split: option.splits prod.splits db_result.splits if_splits)
  next
    case (RegenerateKey newKey)
    then show ?thesis
      using assms(2) upd own_key_row
      by (fastforce simp: key_op_run_def api_key_regenerate_def WriteError_def ak_RegenerateKey_def exec_def key_to_edit_def
          split: option.splits prod.splits db_result.splits if_splits)
  qed
qed

lemma key_routes_confined_witness:
  "others_keys 1 (snd (key_op_run (\<lambda>u. []) (\<lambda>t. []) (\<lambda>t. None) (\<lambda>x. x) 5 (Some (ex_user 1)) ''7'' DeleteKey
     (empty_db\<lparr>db_keys := [ex_key 7 1 ''k1'', ex_key 8 2 ''k2'']\<rparr>))) =
   others_keys 1 (empty_db\<lparr>db_keys := [ex_key 7 1 ''k1'', ex_key 8 2 ''k2'']\<rparr>)"
proof -
  let ?d = "empty_db\<lparr>db_keys := [ex_key 7 1 ''k1'', ex_key 8 2 ''k2'']\<rparr>"
  let ?x = "key_op_run (\<lambda>u. []) (\<lambda>t. []) (\<lambda>t. None) (\<lambda>x. x) 5 (Some (ex_user 1)) ''7'' DeleteKey ?d"
  have d: "distinct (map ak_ID (db_keys ?d))" and u: "us_ID (ex_user 1) = 1" by (simp_all add: ex_rows)
  obtain st ans d' where x: "?x = ((st, ans), d')" by (metis prod.exhaust)
  show ?thesis using key_routes_confined [OF d x] by (simp add: x u)
qed

subsection \<open>A deleted key lives on in the cache\<close>

text \<open>None of the routes invalidates the cached entry of the key: until it expires, a deleted key authenticates.\<close>

lemma deleted_key_lives_on:
  assumes "AuthMiddleware env now m r s = (Next c, s1)" and "getCachedAuth now (hq_apiKey r) s = Some e" and "\<not> hasBearerHeader r"
    and "hq_clientId r = []" and "later \<le> ce_expiresAt e"
  shows "\<exists>c'. fst (AuthMiddleware env later m r (s\<lparr>au_db := snd (api_key_delete usr idText (au_db s))\<rparr>)) = Next c'"
proof -
  let ?s = "s\<lparr>au_db := snd (api_key_delete usr idText (au_db s))\<rparr>"
  have k: "hq_apiKey r \<noteq> []" using assms(1,3) by (auto simp: AuthMiddleware_def)
  have "getCachedAuth later (hq_apiKey r) ?s = Some e"
    using assms(2,5) by (auto simp: getCachedAuth_def split: option.splits if_splits)
  moreover have "cached_auth env m r e s = Next c" using assms(1,2,3) k by (auto simp: AuthMiddleware_def)
  then have "cached_auth env m r e ?s = Next c" using assms(4) by (simp add: cached_auth_def client_gate_def)
  ultimately show ?thesis using assms(3) k by (simp add: AuthMiddleware_def)
qed

end
