(* ===== verification/NotifyRoutes.thy ===== *)
theory NotifyRoutes
  imports Notify ApiKeyRoutes KnownWorlds
begin

text \<open>
  The dashboard's routes for the notification settings of an account, a key and a world, and the list of
  the users of a world: the end of \<open>RegisterCredentialRoutes\<close> in \<open>internal/handler/connection_tokens.go\<close>.
  A body is whether it decoded, its two texts and the switches and numbers that it contains.
\<close>

record notify_body =
  nb_discordWebhookUrl :: string
  nb_notifyEmail :: string
  nb_bools :: "(string, bool) gomap"
  nb_ints :: "(string, int) gomap"

definition boolPtrOr :: "notify_body \<Rightarrow> string \<Rightarrow> bool \<Rightarrow> bool" where
  "boolPtrOr b k dflt = (case aget (nb_bools b) k of Some v \<Rightarrow> v | None \<Rightarrow> dflt)"

definition intPtrOr :: "notify_body \<Rightarrow> string \<Rightarrow> int \<Rightarrow> int" where
  "intPtrOr b k dflt = (case aget (nb_ints b) k of Some v \<Rightarrow> v | None \<Rightarrow> dflt)"

text \<open>The environment of the test messages: configuration, notice, the text of a time.\<close>

record notify_env =
  nv_cfg :: NotificationConfig
  nv_deliver :: "notice \<Rightarrow> string option"
  nv_rfc :: "gotime \<Rightarrow> string"

definition smtpAvailable :: "notify_env \<Rightarrow> string \<times> json" where
  "smtpAvailable env = (''smtpAvailable'', JBool (nf_SMTPHost (nv_cfg env) \<noteq> []))"

definition test_answer :: "notify_env \<Rightarrow> gotime \<Rightarrow> string \<Rightarrow> string \<Rightarrow> answer \<times> notice list" where
  "test_answer env now url email =
     (case SendTestNotification (nv_deliver env) now (nv_rfc env) url email (Some (nv_cfg env)) of
        (out, Some e) \<Rightarrow> (WriteError 500 (''Test notification failed: '' @ e), out)
      | (out, None) \<Rightarrow> ((200, [(''success'', JBool True), (''message'', JStr ''Test notification sent'')]), out))"

subsection \<open>Account\<close>

definition default_settings :: "int \<Rightarrow> NotificationSettings" where
  "default_settings uid =
     \<lparr>ns_ID = 0, ns_UserID = uid, ns_DiscordWebhookURL = None, ns_NotifyEmail = None, ns_NotifyOnConnect = True,
      ns_NotifyOnDisconnect = True, ns_NotifyOnMetadataMismatch = True, ns_NotifyOnSettingsChange = True, ns_NotifyOnExecuteJs = True,
      ns_NotifyOnMacroExecute = False, ns_NotifyOnNewClientConnect = True, ns_DebounceWindowSecs = 0, ns_BatchWindowSecs = 300,
      ns_LogCrossWorldRequests = True, ns_NotifyOnCrossWorldRequests = True, ns_CreatedAt = zero_time, ns_UpdatedAt = zero_time\<rparr>"

definition settings_view :: "NotificationSettings \<Rightarrow> obj" where
  "settings_view s =
     [(''discordWebhookUrl'', JStr (null_str (ns_DiscordWebhookURL s))), (''notifyEmail'', JStr (null_str (ns_NotifyEmail s))),
      (''notifyOnConnect'', JBool (ns_NotifyOnConnect s)), (''notifyOnDisconnect'', JBool (ns_NotifyOnDisconnect s)),
      (''notifyOnMetadataMismatch'', JBool (ns_NotifyOnMetadataMismatch s)),
      (''notifyOnSettingsChange'', JBool (ns_NotifyOnSettingsChange s)), (''notifyOnExecuteJs'', JBool (ns_NotifyOnExecuteJs s)),
      (''notifyOnMacroExecute'', JBool (ns_NotifyOnMacroExecute s)),
      (''notifyOnNewClientConnect'', JBool (ns_NotifyOnNewClientConnect s)),
      (''notificationDebounceWindowSecs'', JNum (ns_DebounceWindowSecs s)),
      (''remoteRequestBatchWindowSecs'', JNum (ns_BatchWindowSecs s)), (''logCrossWorldRequests'', JBool (ns_LogCrossWorldRequests s)),
      (''notifyOnCrossWorldRequests'', JBool (ns_NotifyOnCrossWorldRequests s))]"

definition settings_get :: "notify_env \<Rightarrow> User option \<Rightarrow> db \<Rightarrow> answer" where
  "settings_get env usr d =
     (case usr of None \<Rightarrow> WriteError 401 ''Invalid user''
      | Some user \<Rightarrow>
          (case ns_FindByUser (us_ID user) d of
             DBErr \<Rightarrow> WriteError 500 ''Failed to get notification settings''
           | DBOk None \<Rightarrow> (200, settings_view (default_settings (us_ID user)) @ [smtpAvailable env])
           | DBOk (Some s) \<Rightarrow> (200, settings_view s @ [smtpAvailable env])))"

definition settings_of_body :: "int \<Rightarrow> notify_body \<Rightarrow> NotificationSettings" where
  "settings_of_body uid b =
     \<lparr>ns_ID = 0, ns_UserID = uid, ns_DiscordWebhookURL = nonempty_str (nb_discordWebhookUrl b),
      ns_NotifyEmail = nonempty_str (nb_notifyEmail b), ns_NotifyOnConnect = boolPtrOr b ''notifyOnConnect'' True,
      ns_NotifyOnDisconnect = boolPtrOr b ''notifyOnDisconnect'' True,
      ns_NotifyOnMetadataMismatch = boolPtrOr b ''notifyOnMetadataMismatch'' True,
      ns_NotifyOnSettingsChange = boolPtrOr b ''notifyOnSettingsChange'' True,
      ns_NotifyOnExecuteJs = boolPtrOr b ''notifyOnExecuteJs'' True,
      ns_NotifyOnMacroExecute = boolPtrOr b ''notifyOnMacroExecute'' False,
      ns_NotifyOnNewClientConnect = boolPtrOr b ''notifyOnNewClientConnect'' True,
      ns_DebounceWindowSecs = intPtrOr b ''notificationDebounceWindowSecs'' 0,
      ns_BatchWindowSecs = intPtrOr b ''remoteRequestBatchWindowSecs'' 300,
      ns_LogCrossWorldRequests = boolPtrOr b ''logCrossWorldRequests'' True,
      ns_NotifyOnCrossWorldRequests = boolPtrOr b ''notifyOnCrossWorldRequests'' True,
      ns_CreatedAt = zero_time, ns_UpdatedAt = zero_time\<rparr>"

definition settings_put :: "gotime \<Rightarrow> User option \<Rightarrow> bool \<times> notify_body \<Rightarrow> db \<Rightarrow> answer \<times> db" where
  "settings_put now usr body d =
     (case usr of None \<Rightarrow> (WriteError 401 ''Invalid user'', d)
      | Some user \<Rightarrow>
          if \<not> fst body then (WriteError 400 ''Invalid request body'', d)
          else (let s = settings_of_body (us_ID user) (snd body)
                in case ns_Upsert now s d of
                     (DBErr, d1) \<Rightarrow> (WriteError 500 ''Failed to update notification settings'', d1)
                   | (DBOk _, d1) \<Rightarrow> ((200, settings_view s), d1)))"

text \<open>A body that does not decode leaves the two texts it got so far; a failing lookup leaves them empty.\<close>

definition settings_test :: "notify_env \<Rightarrow> gotime \<Rightarrow> User option \<Rightarrow> notify_body \<Rightarrow> db \<Rightarrow> answer \<times> notice list" where
  "settings_test env now usr b d =
     (case usr of None \<Rightarrow> (WriteError 401 ''Invalid user'', [])
      | Some user \<Rightarrow>
          (let saved = (if nb_discordWebhookUrl b = [] \<or> nb_notifyEmail b = [] then account_settings (us_ID user) d else None);
               pick = (\<lambda>t sel. if t = [] then (case saved of Some s \<Rightarrow> null_str (sel s) | None \<Rightarrow> []) else t);
               url = pick (nb_discordWebhookUrl b) ns_DiscordWebhookURL;
               email = pick (nb_notifyEmail b) ns_NotifyEmail
           in if url = [] \<and> email = [] then (WriteError 400 ''No notification destination configured'', [])
              else test_answer env now url email))"

subsection \<open>Key\<close>

definition key_view :: "ApiKeyNotificationSettings \<Rightarrow> obj" where
  "key_view s =
     [(''apiKeyId'', JNum (kn_ApiKeyID s)), (''discordWebhookUrl'', JStr (null_str (kn_DiscordWebhookURL s))),
      (''notifyEmail'', JStr (null_str (kn_NotifyEmail s))), (''notifyOnExecuteJs'', JBool (kn_NotifyOnExecuteJs s)),
      (''notifyOnMacroExecute'', JBool (kn_NotifyOnMacroExecute s)), (''notifyOnRateLimit'', JBool (kn_NotifyOnRateLimit s)),
      (''notifyOnError'', JBool (kn_NotifyOnError s))]"

definition key_settings_of_body :: "int \<Rightarrow> notify_body \<Rightarrow> ApiKeyNotificationSettings" where
  "key_settings_of_body i b =
     \<lparr>kn_ID = 0, kn_ApiKeyID = i, kn_DiscordWebhookURL = nonempty_str (nb_discordWebhookUrl b),
      kn_NotifyEmail = nonempty_str (nb_notifyEmail b), kn_NotifyOnExecuteJs = boolPtrOr b ''notifyOnExecuteJs'' False,
      kn_NotifyOnMacroExecute = boolPtrOr b ''notifyOnMacroExecute'' False, kn_NotifyOnRateLimit = boolPtrOr b ''notifyOnRateLimit'' False,
      kn_NotifyOnError = boolPtrOr b ''notifyOnError'' False, kn_CreatedAt = zero_time, kn_UpdatedAt = zero_time\<rparr>"

definition empty_body :: notify_body where
  "empty_body = \<lparr>nb_discordWebhookUrl = [], nb_notifyEmail = [], nb_bools = [], nb_ints = []\<rparr>"

definition key_settings_get :: "notify_env \<Rightarrow> User option \<Rightarrow> string \<Rightarrow> db \<Rightarrow> answer" where
  "key_settings_get env usr idText d =
     (case key_to_edit usr idText d of Inl a \<Rightarrow> a
      | Inr (user, i, key) \<Rightarrow>
          (case kn_FindByApiKey (ak_ID key) d of
             DBErr \<Rightarrow> WriteError 500 ''Failed to get key notification settings''
           | DBOk None \<Rightarrow> (200, key_view (key_settings_of_body (ak_ID key) empty_body) @ [smtpAvailable env])
           | DBOk (Some s) \<Rightarrow> (200, key_view s @ [smtpAvailable env])))"

definition key_settings_put :: "gotime \<Rightarrow> User option \<Rightarrow> string \<Rightarrow> bool \<times> notify_body \<Rightarrow> db \<Rightarrow> answer \<times> db" where
  "key_settings_put now usr idText body d =
     (case key_to_edit usr idText d of Inl a \<Rightarrow> (a, d)
      | Inr (user, i, key) \<Rightarrow>
          if \<not> fst body then (WriteError 400 ''Invalid request body'', d)
          else (let s = key_settings_of_body (ak_ID key) (snd body)
                in case kn_Upsert now s d of
                     (DBErr, d1) \<Rightarrow> (WriteError 500 ''Failed to update key notification settings'', d1)
                   | (DBOk _, d1) \<Rightarrow> ((200, key_view s), d1)))"

definition key_settings_delete :: "User option \<Rightarrow> string \<Rightarrow> db \<Rightarrow> answer \<times> db" where
  "key_settings_delete usr idText d =
     (case key_to_edit usr idText d of Inl a \<Rightarrow> (a, d)
      | Inr (user, i, key) \<Rightarrow>
          (case kn_Delete (ak_ID key) d of
             (DBErr, d1) \<Rightarrow> (WriteError 500 ''Failed to delete key notification settings'', d1)
           | (DBOk _, d1) \<Rightarrow> ((200, [(''success'', JBool True)]), d1)))"

definition key_settings_test :: "notify_env \<Rightarrow> gotime \<Rightarrow> User option \<Rightarrow> string \<Rightarrow> db \<Rightarrow> answer \<times> notice list" where
  "key_settings_test env now usr idText d =
     (case key_to_edit usr idText d of Inl a \<Rightarrow> (a, [])
      | Inr (user, i, key) \<Rightarrow>
          (case kn_FindByApiKey (ak_ID key) d of
             DBOk (Some s) \<Rightarrow> test_answer env now (null_str (kn_DiscordWebhookURL s)) (null_str (kn_NotifyEmail s))
           | _ \<Rightarrow> (WriteError 400 ''No notification settings configured for this key'', [])))"

subsection \<open>World\<close>

definition world_to_notify :: "User option \<Rightarrow> string \<Rightarrow> db \<Rightarrow> answer + (User \<times> KnownClient)" where
  "world_to_notify usr idText d =
     (case usr of None \<Rightarrow> Inl (WriteError 401 ''Invalid user'')
      | Some user \<Rightarrow>
     (case ParseInt64 idText of None \<Rightarrow> Inl (WriteError 400 ''Invalid known client ID'')
      | Some i \<Rightarrow>
     (case kc_FindByID i d of
        DBOk (Some kc) \<Rightarrow> if kc_UserID kc \<noteq> us_ID user then Inl (WriteError 404 ''World not found'') else Inr (user, kc)
      | _ \<Rightarrow> Inl (WriteError 404 ''World not found''))))"

definition world_settings_view :: "KnownClientNotificationSettings \<Rightarrow> obj" where
  "world_settings_view s =
     [(''knownClientId'', JNum (wn_KnownClientID s)), (''discordWebhookUrl'', JStr (null_str (wn_DiscordWebhookURL s))),
      (''notifyEmail'', JStr (null_str (wn_NotifyEmail s))), (''notifyOnConnect'', JBool (wn_NotifyOnConnect s)),
      (''notifyOnDisconnect'', JBool (wn_NotifyOnDisconnect s)), (''notifyOnExecuteJs'', JBool (wn_NotifyOnExecuteJs s)),
      (''notifyOnMacroExecute'', JBool (wn_NotifyOnMacroExecute s))]"

definition world_settings_of_body :: "int \<Rightarrow> int \<Rightarrow> notify_body \<Rightarrow> KnownClientNotificationSettings" where
  "world_settings_of_body kc uid b =
     \<lparr>wn_ID = 0, wn_KnownClientID = kc, wn_UserID = uid, wn_DiscordWebhookURL = nonempty_str (nb_discordWebhookUrl b),
      wn_NotifyEmail = nonempty_str (nb_notifyEmail b), wn_NotifyOnConnect = boolPtrOr b ''notifyOnConnect'' False,
      wn_NotifyOnDisconnect = boolPtrOr b ''notifyOnDisconnect'' False, wn_NotifyOnExecuteJs = boolPtrOr b ''notifyOnExecuteJs'' False,
      wn_NotifyOnMacroExecute = boolPtrOr b ''notifyOnMacroExecute'' False, wn_CreatedAt = zero_time, wn_UpdatedAt = zero_time\<rparr>"

definition world_settings_get :: "notify_env \<Rightarrow> User option \<Rightarrow> string \<Rightarrow> db \<Rightarrow> answer" where
  "world_settings_get env usr idText d =
     (case world_to_notify usr idText d of Inl a \<Rightarrow> a
      | Inr (user, kc) \<Rightarrow>
          (case wn_FindByKnownClient (kc_ID kc) d of
             DBErr \<Rightarrow> WriteError 500 ''Failed to get world notification settings''
           | DBOk None \<Rightarrow> (200, world_settings_view (world_settings_of_body (kc_ID kc) (us_ID user) empty_body) @ [smtpAvailable env])
           | DBOk (Some s) \<Rightarrow> (200, world_settings_view s @ [smtpAvailable env])))"

definition world_settings_put ::
    "notify_env \<Rightarrow> gotime \<Rightarrow> User option \<Rightarrow> string \<Rightarrow> bool \<times> notify_body \<Rightarrow> db \<Rightarrow> answer \<times> db" where
  "world_settings_put env now usr idText body d =
     (case world_to_notify usr idText d of Inl a \<Rightarrow> (a, d)
      | Inr (user, kc) \<Rightarrow>
          if \<not> fst body then (WriteError 400 ''Invalid request body'', d)
          else (let s = world_settings_of_body (kc_ID kc) (us_ID user) (snd body)
                in case wn_Upsert now s d of
                     (DBErr, d1) \<Rightarrow> (WriteError 500 ''Failed to update world notification settings'', d1)
                   | (DBOk _, d1) \<Rightarrow> ((200, world_settings_view s @ [smtpAvailable env]), d1)))"

definition world_settings_delete :: "User option \<Rightarrow> string \<Rightarrow> db \<Rightarrow> answer \<times> db" where
  "world_settings_delete usr idText d =
     (case world_to_notify usr idText d of Inl a \<Rightarrow> (a, d)
      | Inr (user, kc) \<Rightarrow>
          (case wn_Delete (kc_ID kc) d of
             (DBErr, d1) \<Rightarrow> (WriteError 500 ''Failed to delete world notification settings'', d1)
           | (DBOk _, d1) \<Rightarrow> ((200, [(''success'', JBool True)]), d1)))"

definition world_settings_test :: "notify_env \<Rightarrow> gotime \<Rightarrow> User option \<Rightarrow> string \<Rightarrow> db \<Rightarrow> answer \<times> notice list" where
  "world_settings_test env now usr idText d =
     (case world_to_notify usr idText d of Inl a \<Rightarrow> (a, [])
      | Inr (user, kc) \<Rightarrow>
          (case wn_FindByKnownClient (kc_ID kc) d of
             DBOk (Some s) \<Rightarrow> test_answer env now (null_str (wn_DiscordWebhookURL s)) (null_str (wn_NotifyEmail s))
           | _ \<Rightarrow> (WriteError 400 ''No notification settings configured for this world'', [])))"

definition known_user_view :: "KnownUser \<Rightarrow> json" where
  "known_user_view u =
     JObj [(''id'', JNum (ku_ID u)), (''knownClientId'', JNum (ku_KnownClientID u)), (''userId'', JStr (ku_UserID u)),
           (''name'', JStr (ku_Name u)), (''role'', JNum (ku_Role u)), (''createdAt'', JNum (ku_CreatedAt u)),
           (''updatedAt'', JNum (ku_UpdatedAt u))]"

definition world_users :: "User option \<Rightarrow> string \<Rightarrow> db \<Rightarrow> answer" where
  "world_users usr idText d =
     (case own_world usr idText d of Inl a \<Rightarrow> a
      | Inr (user, known) \<Rightarrow>
          (case ku_FindAllByKnownClient (kc_ID known) d of
             DBErr \<Rightarrow> WriteError 500 ''Failed to list known users''
           | DBOk us \<Rightarrow> (200, [(''users'', JArr (map known_user_view us))])))"

subsection \<open>Settings come back as they were put\<close>

lemma exec_ok: "exec stmt f d = (DBOk u, d1) \<Longrightarrow> d1 = f d"
  by (auto simp: exec_def split: if_splits)

lemma settings_put_ok:
  assumes "settings_put now usr body d = ((200, v), d1)"
  obtains user where "usr = Some user" "ns_Upsert now (settings_of_body (us_ID user) (snd body)) d = (DBOk (), d1)"
    "v = settings_view (settings_of_body (us_ID user) (snd body))"
  using assms by (auto simp: settings_put_def WriteError_def Let_def split: option.splits if_splits prod.splits db_result.splits)

lemma key_settings_put_ok:
  assumes "key_settings_put now usr idText body d = ((200, v), d1)"
  obtains user i key where "key_to_edit usr idText d = Inr (user, i, key)"
    "kn_Upsert now (key_settings_of_body (ak_ID key) (snd body)) d = (DBOk (), d1)"
    "v = key_view (key_settings_of_body (ak_ID key) (snd body))"
  using assms key_to_edit_def
  by (auto simp: key_settings_put_def WriteError_def Let_def key_to_edit_def
      split: option.splits if_splits prod.splits db_result.splits sum.splits)

lemma world_settings_put_ok:
  assumes "world_settings_put env now usr idText body d = ((200, v), d1)"
  obtains user kc where "world_to_notify usr idText d = Inr (user, kc)"
    "wn_Upsert now (world_settings_of_body (kc_ID kc) (us_ID user) (snd body)) d = (DBOk (), d1)"
    "v = world_settings_view (world_settings_of_body (kc_ID kc) (us_ID user) (snd body)) @ [smtpAvailable env]"
  using assms
  by (auto simp: world_settings_put_def WriteError_def Let_def world_to_notify_def
      split: option.splits if_splits prod.splits db_result.splits sum.splits)

lemma settings_put_get:
  assumes "settings_put now usr body d = ((200, v), d1)" and "db_ok ''ns_FindByUser'' d"
  shows "settings_get env usr d1 = (200, v @ [smtpAvailable env])"
proof -
  obtain user where u: "usr = Some user" "ns_Upsert now (settings_of_body (us_ID user) (snd body)) d = (DBOk (), d1)"
      "v = settings_view (settings_of_body (us_ID user) (snd body))"
    using assms(1) by (rule settings_put_ok)
  let ?s = "settings_of_body (us_ID user) (snd body)"
  have uid: "ns_UserID ?s = us_ID user"
    by (simp add: settings_of_body_def)
  have "db_ok ''ns_Upsert'' d"
    using u(2) by (auto simp: ns_Upsert_def exec_def split: if_splits)
  from ns_Upsert_read [OF this assms(2), of ?s now] obtain r where
    r: "ns_FindByUser (us_ID user) d1 = DBOk (Some r)" "r = ?s\<lparr>ns_ID := ns_ID r, ns_CreatedAt := ns_CreatedAt r, ns_UpdatedAt := now\<rparr>"
    using u(2) uid by auto
  have "settings_view r = settings_view ?s"
    by (subst r(2)) (simp add: settings_view_def)
  then show ?thesis
    using u r(1) by (simp add: settings_get_def)
qed

lemma find_by_unique:
  assumes "get_row stmt P rows d = DBOk r" and "db_ok stmt d"
  shows "find P rows = r"
  using assms by (simp add: get_row_def)

lemma kn_Upsert_read:
  assumes "kn_Upsert now s d = (DBOk (), d1)" and "db_ok ''kn_FindByApiKey'' d"
  shows "\<exists>r. kn_FindByApiKey (kn_ApiKeyID s) d1 = DBOk (Some r) \<and> key_view r = key_view s"
  using assms
  by (auto simp: kn_Upsert_def kn_FindByApiKey_def exec_def get_row_def db_ok_def find_upsert key_view_def split: if_splits option.splits)

lemma wn_Upsert_read:
  assumes "wn_Upsert now s d = (DBOk (), d1)" and "db_ok ''wn_FindByKnownClient'' d"
  shows "\<exists>r. wn_FindByKnownClient (wn_KnownClientID s) d1 = DBOk (Some r) \<and> world_settings_view r = world_settings_view s"
  using assms
  by (auto simp: wn_Upsert_def wn_FindByKnownClient_def exec_def get_row_def db_ok_def find_upsert world_settings_view_def
      split: if_splits option.splits)

text \<open>An upsert of settings touches no table of keys or worlds, so the checks of the routes come out the same.\<close>

lemma lookups_after_upsert:
  "kn_Upsert now s d = (DBOk (), d1) \<Longrightarrow> key_to_edit usr idText d1 = key_to_edit usr idText d"
  "wn_Upsert now w d = (DBOk (), d2) \<Longrightarrow> world_to_notify usr idText d2 = world_to_notify usr idText d"
proof -
  assume u: "kn_Upsert now s d = (DBOk (), d1)"
  have "own_key user i d1 = own_key user i d" for user i
    using exec_ok [OF u [unfolded kn_Upsert_def]] by (simp add: own_key_def ak_FindByID_def get_row_def db_ok_def)
  then show "key_to_edit usr idText d1 = key_to_edit usr idText d"
    by (simp add: key_to_edit_def split: option.split)
next
  assume u: "wn_Upsert now w d = (DBOk (), d2)"
  have "kc_FindByID i d2 = kc_FindByID i d" for i
    using exec_ok [OF u [unfolded wn_Upsert_def]] by (simp add: kc_FindByID_def get_row_def db_ok_def)
  then show "world_to_notify usr idText d2 = world_to_notify usr idText d"
    by (simp add: world_to_notify_def split: option.split)
qed

text \<open>What a dashboard puts into the notification settings of its account, of one of its keys or of
  one of its worlds is what it gets back, with the availability of mail added, whether the row existed or not.
\<close>

theorem settings_roundtrip:
  assumes "db_ok ''ns_FindByUser'' d" and "db_ok ''kn_FindByApiKey'' d" and "db_ok ''wn_FindByKnownClient'' d"
  shows "(settings_put now usr body d = ((200, v), d1) \<longrightarrow> settings_get env usr d1 = (200, v @ [smtpAvailable env])) \<and>
    (key_settings_put now usr idText body d = ((200, v), d1) \<longrightarrow>
      key_settings_get env usr idText d1 = (200, v @ [smtpAvailable env])) \<and>
    (world_settings_put env now usr idText body d = ((200, v), d1) \<longrightarrow> world_settings_get env usr idText d1 = (200, v))"
proof (intro conjI impI)
  assume "settings_put now usr body d = ((200, v), d1)"
  then show "settings_get env usr d1 = (200, v @ [smtpAvailable env])"
    using assms(1) by (rule settings_put_get)
next
  assume "key_settings_put now usr idText body d = ((200, v), d1)"
  then obtain user i key where k: "key_to_edit usr idText d = Inr (user, i, key)"
      "kn_Upsert now (key_settings_of_body (ak_ID key) (snd body)) d = (DBOk (), d1)"
      "v = key_view (key_settings_of_body (ak_ID key) (snd body))"
    by (rule key_settings_put_ok)
  obtain r where "kn_FindByApiKey (ak_ID key) d1 = DBOk (Some r)" "key_view r = v"
    using kn_Upsert_read [OF k(2) assms(2)] k(3) by (auto simp: key_settings_of_body_def)
  then show "key_settings_get env usr idText d1 = (200, v @ [smtpAvailable env])"
    using k(1) lookups_after_upsert(1) [OF k(2)] by (simp add: key_settings_get_def)
next
  assume "world_settings_put env now usr idText body d = ((200, v), d1)"
  then obtain user kc where w: "world_to_notify usr idText d = Inr (user, kc)"
      "wn_Upsert now (world_settings_of_body (kc_ID kc) (us_ID user) (snd body)) d = (DBOk (), d1)"
      "v = world_settings_view (world_settings_of_body (kc_ID kc) (us_ID user) (snd body)) @ [smtpAvailable env]"
    by (rule world_settings_put_ok)
  obtain r where "wn_FindByKnownClient (kc_ID kc) d1 = DBOk (Some r)" "world_settings_view r @ [smtpAvailable env] = v"
    using wn_Upsert_read [OF w(2) assms(3)] w(3) by (auto simp: world_settings_of_body_def)
  then show "world_settings_get env usr idText d1 = (200, v)"
    using w(1) lookups_after_upsert(2) [OF w(2)] by (simp add: world_settings_get_def)
qed

definition ex_notify_env :: notify_env where
  "ex_notify_env = \<lparr>nv_cfg = \<lparr>nf_SMTPHost = [], nf_SMTPPort = 0, nf_SMTPUser = [], nf_SMTPPass = [], nf_SMTPFrom = [], nf_FrontendURL = []\<rparr>,
     nv_deliver = (\<lambda>_. None), nv_rfc = (\<lambda>_. [])\<rparr>"

definition ex_body :: notify_body where
  "ex_body = empty_body\<lparr>nb_discordWebhookUrl := ''https://hook'', nb_bools := [(''notifyOnConnect'', False)]\<rparr>"

theorem settings_roundtrip_witness:
  "\<exists>v d1. settings_put 5 (Some (ex_user 1)) (True, ex_body) empty_db = ((200, v), d1) \<and>
     settings_get ex_notify_env (Some (ex_user 1)) d1 = (200, v @ [smtpAvailable ex_notify_env]) \<and>
     aget v ''notifyOnConnect'' = Some (JBool False)"
proof -
  let ?v = "settings_view (settings_of_body (us_ID (ex_user 1)) ex_body)"
  obtain d1 where put: "settings_put 5 (Some (ex_user 1)) (True, ex_body) empty_db = ((200, ?v), d1)"
    by (simp add: settings_put_def ns_Upsert_def exec_def db_ok_def empty_db_def Let_def)
  have "settings_get ex_notify_env (Some (ex_user 1)) d1 = (200, ?v @ [smtpAvailable ex_notify_env])"
    using settings_roundtrip [of empty_db 5 "Some (ex_user 1)" "(True, ex_body)" ?v d1 ex_notify_env] put
    by (simp add: db_ok_def empty_db_def)
  moreover have "aget ?v ''notifyOnConnect'' = Some (JBool False)"
    by (simp add: settings_view_def settings_of_body_def boolPtrOr_def ex_body_def empty_body_def)
  ultimately show ?thesis
    using put by blast
qed

end
