(* ===== verification/Scheduler.thy ===== *)
theory Scheduler
  imports Logs
begin

text \<open>
  The periodic jobs of \<open>internal/cron/scheduler.go\<close>: the resets of the request counters and the
  removal of expired and old rows.  \<open>lock\<close> is the answer of Redis to \<open>SETNX\<close>: \<open>None\<close> without Redis,
  \<open>Some False\<close> when another instance holds the lock or the call fails.  What a job does beside the database is
  recorded.  An error of a statement is logged and the job goes on.
\<close>

datatype cron_effect = RedisSet string | RedisDel string | CleanBrowserLogs int

record cron_config =
  cc_ConnectionLogRetentionDays :: int
  cc_RemoteRequestLogRetentionDays :: int
  cc_ModuleEventLogRetentionDays :: int

definition with_lock :: "string \<Rightarrow> bool option \<Rightarrow> db \<Rightarrow> (cron_effect list \<times> db) \<Rightarrow> cron_effect list \<times> db" where
  "with_lock name lock d body =
     (case lock of
        Some False \<Rightarrow> ([], d)
      | Some True \<Rightarrow> (fst body @ [RedisDel name], snd body)
      | None \<Rightarrow> body)"

definition next_midnight :: "gotime \<Rightarrow> gotime" where
  "next_midnight now = (now div days 1 + 1) * days 1"

definition runDailyReset :: "gotime \<Rightarrow> int \<Rightarrow> bool option \<Rightarrow> db \<Rightarrow> cron_effect list \<times> db" where
  "runDailyReset now browserLogDays lock d =
     with_lock ''cron:daily_reset_lock'' lock d
       ((if lock = None then [] else [RedisSet ''last_daily_reset'']) @ [CleanBrowserLogs browserLogDays],
        snd (us_ResetDailyRequests now d))"

definition runMonthlyReset :: "gotime \<Rightarrow> bool option \<Rightarrow> db \<Rightarrow> cron_effect list \<times> db" where
  "runMonthlyReset now lock d =
     with_lock ''cron:monthly_reset_lock'' lock d
       (if lock = None then [] else [RedisSet ''last_monthly_reset''],
        snd (ak_ResetMonthlyCounters now (snd (us_ResetMonthlyRequests now d))))"

definition runTokenCleanup :: "gotime \<Rightarrow> db \<Rightarrow> db" where
  "runTokenCleanup now d = snd (se_CleanupExpired now (snd (pt_CleanupExpired now d)))"

definition retention :: "int \<Rightarrow> (cron_config \<Rightarrow> int) \<Rightarrow> cron_config option \<Rightarrow> int" where
  "retention n sel cfg = (case cfg of Some c \<Rightarrow> if sel c > 0 then sel c else n | None \<Rightarrow> n)"

definition runSecurityCleanup :: "gotime \<Rightarrow> cron_config option \<Rightarrow> db \<Rightarrow> db" where
  "runSecurityCleanup now cfg d =
     (let d1 = snd (pc_CleanupExpired now d);
          d2 = snd (kr_CleanupExpired now d1);
          d3 = snd (pq_CleanupExpired now d2);
          d4 = snd (cg_CleanupOlderThan now (retention 90 cc_ConnectionLogRetentionDays cfg) d3);
          d5 = snd (rx_CleanupOlderThan (now - days (retention 30 cc_RemoteRequestLogRetentionDays cfg)) d4)
      in snd (me_CleanupOlderThan (now - days (retention 7 cc_ModuleEventLogRetentionDays cfg)) d5))"

text \<open>The retention of the audit log is a constant.\<close>

definition runAdminCleanup :: "gotime \<Rightarrow> bool option \<Rightarrow> db \<Rightarrow> cron_effect list \<times> db" where
  "runAdminCleanup now lock d =
     with_lock ''cron:admin_cleanup_lock'' lock d
       ([], snd (ad_CleanupOlderThan now 90 (snd (jd_CleanupExpired now d))))"

subsection \<open>What the jobs leave\<close>

lemma next_midnight_later: "now < next_midnight now" "next_midnight now - now \<le> days 1"
proof -
  have "0 < days 1"
    by (simp add: days_def minutes_def seconds_def)
  then show "now < next_midnight now" "next_midnight now - now \<le> days 1"
    by (simp_all add: next_midnight_def algebra_simps) (smt (verit) mult_div_mod_eq pos_mod_sign pos_mod_bound)+
qed

text \<open>
  Each statement of the clean-up acts on its own table.  \<open>sweep\<close> names the six of them with what they do
  to a row: drop it, replace it or keep it.
\<close>

definition old_code :: "gotime \<Rightarrow> PairingCode \<Rightarrow> bool" where
  "old_code now c \<longleftrightarrow> pc_Used c \<or> pc_ExpiresAt c < db_time now"

definition old_request :: "gotime \<Rightarrow> KeyRequest \<Rightarrow> bool" where
  "old_request now r \<longleftrightarrow> kr_Status r = ''pending'' \<and> kr_ExpiresAt r < db_time now"

definition old_pair :: "gotime \<Rightarrow> PairRequest \<Rightarrow> bool" where
  "old_pair now r \<longleftrightarrow> pq_Status r = ''pending'' \<and> pq_ExpiresAt r < db_time now"

definition conn_cutoff :: "gotime \<Rightarrow> cron_config option \<Rightarrow> gotime" where
  "conn_cutoff now cfg = now - days (retention 90 cc_ConnectionLogRetentionDays cfg)"

definition remote_cutoff :: "gotime \<Rightarrow> cron_config option \<Rightarrow> gotime" where
  "remote_cutoff now cfg = db_time (now - days (retention 30 cc_RemoteRequestLogRetentionDays cfg))"

definition module_cutoff :: "gotime \<Rightarrow> cron_config option \<Rightarrow> gotime" where
  "module_cutoff now cfg = db_time (now - days (retention 7 cc_ModuleEventLogRetentionDays cfg))"

definition on_stmt :: "string \<Rightarrow> db \<Rightarrow> ('r list \<Rightarrow> 'r list) \<Rightarrow> 'r list \<Rightarrow> 'r list" where
  "on_stmt stmt d f rows = (if db_ok stmt d then f rows else rows)"

lemma runSecurityCleanup_tables:
  "runSecurityCleanup now cfg d = d\<lparr>
     db_codes := on_stmt ''pc_CleanupExpired'' d (filter (\<lambda>c. \<not> old_code now c)) (db_codes d),
     db_requests := on_stmt ''kr_CleanupExpired'' d
       (update_rows (old_request now) (\<lambda>r. r\<lparr>kr_Status := ''expired'', kr_UpdatedAt := now\<rparr>)) (db_requests d),
     db_pairs := on_stmt ''pq_CleanupExpired'' d (update_rows (old_pair now) (\<lambda>r. r\<lparr>pq_Status := ''expired''\<rparr>)) (db_pairs d),
     db_connectionLogs := on_stmt ''cg_CleanupOlderThan'' d (filter (\<lambda>l. \<not> cg_CreatedAt l < conn_cutoff now cfg)) (db_connectionLogs d),
     db_remoteLogs := on_stmt ''rx_CleanupOlderThan'' d (filter (\<lambda>l. \<not> rx_CreatedAt l < remote_cutoff now cfg)) (db_remoteLogs d),
     db_moduleLogs := on_stmt ''me_CleanupOlderThan'' d (filter (\<lambda>l. \<not> me_CreatedAt l < module_cutoff now cfg)) (db_moduleLogs d)\<rparr>"
proof -
  have steps:
    "snd (pc_CleanupExpired now d) = d\<lparr>db_codes := on_stmt ''pc_CleanupExpired'' d (filter (\<lambda>c. \<not> old_code now c)) (db_codes d)\<rparr>"
    "snd (kr_CleanupExpired now d) = d\<lparr>db_requests := on_stmt ''kr_CleanupExpired'' d
       (update_rows (old_request now) (\<lambda>r. r\<lparr>kr_Status := ''expired'', kr_UpdatedAt := now\<rparr>)) (db_requests d)\<rparr>"
    "snd (pq_CleanupExpired now d) = d\<lparr>db_pairs := on_stmt ''pq_CleanupExpired'' d
       (update_rows (old_pair now) (\<lambda>r. r\<lparr>pq_Status := ''expired''\<rparr>)) (db_pairs d)\<rparr>"
    "snd (cg_CleanupOlderThan now (retention 90 cc_ConnectionLogRetentionDays cfg) d) = d\<lparr>db_connectionLogs :=
       on_stmt ''cg_CleanupOlderThan'' d (filter (\<lambda>l. \<not> cg_CreatedAt l < conn_cutoff now cfg)) (db_connectionLogs d)\<rparr>"
    "snd (rx_CleanupOlderThan (now - days (retention 30 cc_RemoteRequestLogRetentionDays cfg)) d) = d\<lparr>db_remoteLogs :=
       on_stmt ''rx_CleanupOlderThan'' d (filter (\<lambda>l. \<not> rx_CreatedAt l < remote_cutoff now cfg)) (db_remoteLogs d)\<rparr>"
    "snd (me_CleanupOlderThan (now - days (retention 7 cc_ModuleEventLogRetentionDays cfg)) d) = d\<lparr>db_moduleLogs :=
       on_stmt ''me_CleanupOlderThan'' d (filter (\<lambda>l. \<not> me_CreatedAt l < module_cutoff now cfg)) (db_moduleLogs d)\<rparr>" for d
    by (simp_all add: pc_CleanupExpired_def kr_CleanupExpired_def pq_CleanupExpired_def cg_CleanupOlderThan_def rx_CleanupOlderThan_def
        me_CleanupOlderThan_def delete_rows_def on_stmt_def old_code_def [abs_def] old_request_def [abs_def] old_pair_def [abs_def]
        conn_cutoff_def remote_cutoff_def module_cutoff_def on_pair_def exec_def Let_def)
  show ?thesis
    by (simp add: runSecurityCleanup_def steps Let_def) (simp add: on_stmt_def db_ok_def)
qed

lemma filter_on_stmt_filter: "(\<And>r. P r \<Longrightarrow> Q r) \<Longrightarrow> filter P (on_stmt stmt d (filter Q) rows) = filter P rows"
  by (auto simp: on_stmt_def intro: filter_cong)

lemma kept_by_update: "{r \<in> set rows. \<not> P r} \<subseteq> set (on_stmt stmt d (update_rows P f) rows)"
  by (force simp: on_stmt_def update_rows_def)

lemma on_stmt_idem: "(\<And>rows. f (f rows) = f rows) \<Longrightarrow> on_stmt stmt d f (on_stmt stmt d f rows) = on_stmt stmt d f rows"
  by (simp add: on_stmt_def)

lemma update_rows_idem: "(\<And>r. \<not> P (f r)) \<Longrightarrow> update_rows P f (update_rows P f rows) = update_rows P f rows"
  by (simp add: update_rows_def)

text \<open>C32: Whatever statements fail, the hourly clean-up keeps every unused and unexpired pairing code, every
  request of an application or a module that is decided or not yet expired, every log row within its retention,
  and all the tables of users, keys, sessions, tokens and worlds; a second run at the same time changes nothing.
\<close>

theorem cleanup_keeps_live:
  "let d' = runSecurityCleanup now cfg d in
     filter (\<lambda>c. \<not> pc_Used c \<and> pc_ExpiresAt c \<ge> db_time now) (db_codes d') =
       filter (\<lambda>c. \<not> pc_Used c \<and> pc_ExpiresAt c \<ge> db_time now) (db_codes d) \<and>
     {r \<in> set (db_requests d). \<not> old_request now r} \<subseteq> set (db_requests d') \<and>
     {r \<in> set (db_pairs d). \<not> old_pair now r} \<subseteq> set (db_pairs d') \<and>
     filter (\<lambda>l. cg_CreatedAt l \<ge> conn_cutoff now cfg) (db_connectionLogs d') =
       filter (\<lambda>l. cg_CreatedAt l \<ge> conn_cutoff now cfg) (db_connectionLogs d) \<and>
     filter (\<lambda>l. rx_CreatedAt l \<ge> remote_cutoff now cfg) (db_remoteLogs d') =
       filter (\<lambda>l. rx_CreatedAt l \<ge> remote_cutoff now cfg) (db_remoteLogs d) \<and>
     filter (\<lambda>l. me_CreatedAt l \<ge> module_cutoff now cfg) (db_moduleLogs d') =
       filter (\<lambda>l. me_CreatedAt l \<ge> module_cutoff now cfg) (db_moduleLogs d) \<and>
     db_users d' = db_users d \<and> db_keys d' = db_keys d \<and> db_sessions d' = db_sessions d \<and> db_tokens d' = db_tokens d \<and>
     db_known d' = db_known d \<and> db_credentials d' = db_credentials d \<and> db_auditLogs d' = db_auditLogs d \<and>
     runSecurityCleanup now cfg d' = d'"
proof -
  let ?d = "runSecurityCleanup now cfg d"
  have idem: "runSecurityCleanup now cfg ?d = ?d"
    unfolding runSecurityCleanup_tables [of now cfg ?d]
    unfolding runSecurityCleanup_tables [of now cfg d]
    by (simp add: on_stmt_def db_ok_def update_rows_idem old_request_def old_pair_def)
  show ?thesis
    unfolding Let_def
  proof (intro conjI)
    show "runSecurityCleanup now cfg ?d = ?d"
      by (rule idem)
  qed (simp_all add: runSecurityCleanup_tables kept_by_update old_code_def,
      (rule filter_on_stmt_filter, simp)+)
qed

text \<open>
  The administrators' clean-up has no access to the configured retention of the audit log.
\<close>

lemma audit_retention_fixed:
  assumes "db_ok ''ad_CleanupOlderThan'' d" and "l \<in> set (db_auditLogs d)" and "ad_CreatedAt l < now - days 90"
  shows "l \<notin> set (db_auditLogs (snd (runAdminCleanup now None d)))"
  using assms
  by (simp add: runAdminCleanup_def with_lock_def ad_CleanupOlderThan_def jd_CleanupExpired_def delete_rows_def db_ok_def)

end
