(* ===== verification/Reconcile.thy ===== *)
theory Reconcile
  imports ManagerInv Tables
begin

text \<open>
  The reconciliation pass of \<open>internal/server/server.go\<close>: every locally connected module is checked
  against the database, and one whose account key or connection token is gone is disconnected and
  removed.  The pass reads the database at one moment; what may happen between its snapshot and its turn to a client is the last
  part of this theory.
\<close>

definition drop_client :: "(string \<Rightarrow> nat option) \<Rightarrow> nat \<Rightarrow> string \<Rightarrow> 'h manager \<Rightarrow> 'h manager go" where
  "drop_client scard ref reason m =
     (case ForceDisconnectLocal (Some ref) 4002 reason m of
        Panic e \<Rightarrow> Panic e
      | Ret m1 \<Rightarrow> Ret (RemoveClient scard (cl_id (mg_heap m ! ref)) m1))"

definition reconcile_one :: "(string \<Rightarrow> nat option) \<Rightarrow> db \<Rightarrow> nat \<Rightarrow> 'h manager \<Rightarrow> 'h manager go" where
  "reconcile_one scard d ref m =
     (let c = mg_heap m ! ref
      in if \<not> IsAlive c then Ret m
         else (case us_FindByAPIKeyHash (cl_apiKey c) d of
                 DBErr \<Rightarrow> Ret m
               | DBOk None \<Rightarrow> drop_client scard ref ''Master API key revoked'' m
               | DBOk (Some user) \<Rightarrow>
                   let tokenID = cl_connectionTokenID c
                   in if tokenID = 0 then Ret m
                      else (case tk_FindByID tokenID d of
                              DBErr \<Rightarrow> Ret m
                            | DBOk None \<Rightarrow> drop_client scard ref ''Connection token revoked'' m
                            | DBOk (Some token) \<Rightarrow>
                                if ct_UserID token \<noteq> us_ID user then drop_client scard ref ''Connection token revoked'' m
                                else Ret m)))"

fun reconcile_loop :: "(string \<Rightarrow> nat option) \<Rightarrow> db \<Rightarrow> nat list \<Rightarrow> 'h manager \<Rightarrow> 'h manager go" where
  "reconcile_loop scard d [] m = Ret m"
| "reconcile_loop scard d (ref # refs) m =
     (case reconcile_one scard d ref m of Panic e \<Rightarrow> Panic e | Ret m1 \<Rightarrow> reconcile_loop scard d refs m1)"

definition reconcileConnections :: "(string \<Rightarrow> nat option) \<Rightarrow> db \<Rightarrow> 'h manager \<Rightarrow> 'h manager go" where
  "reconcileConnections scard d m = reconcile_loop scard d (SnapshotLocalClients m) m"

subsection \<open>What a pass does to one client\<close>

text \<open>The database says that the client's account is gone, or that its token is gone or another account's.\<close>

definition revoked :: "db \<Rightarrow> Client \<Rightarrow> bool" where
  "revoked d c \<longleftrightarrow>
     us_FindByAPIKeyHash (cl_apiKey c) d = DBOk None \<or>
     (\<exists>user t. us_FindByAPIKeyHash (cl_apiKey c) d = DBOk (Some user) \<and> cl_connectionTokenID c \<noteq> 0 \<and>
        tk_FindByID (cl_connectionTokenID c) d = DBOk t \<and> (case t of None \<Rightarrow> True | Some token \<Rightarrow> ct_UserID token \<noteq> us_ID user))"

text \<open>The relation of the registry before and after one turn of the loop.\<close>

definition turned :: "db \<Rightarrow> string \<Rightarrow> nat \<Rightarrow> 'h manager \<Rightarrow> 'h manager \<Rightarrow> bool" where
  "turned d cid ref m m' \<longleftrightarrow>
     mg_inv m' \<and> length (mg_heap m') = length (mg_heap m) \<and>
     (\<forall>q < length (mg_heap m). q \<noteq> ref \<longrightarrow> mg_heap m' ! q = mg_heap m ! q) \<and>
     (if IsAlive (mg_heap m ! ref) \<and> revoked d (mg_heap m ! ref)
      then mg_clients m' = adel cid (mg_clients m) \<and> \<not> IsAlive (mg_heap m' ! ref)
      else m' = m)"

lemma RemoveClient_effect:
  assumes "aget (mg_clients m) cid = Some ref"
  shows "mg_clients (RemoveClient scard cid m) = adel cid (mg_clients m)" "mg_heap (RemoveClient scard cid m) = mg_heap m"
  using assms by (simp_all add: RemoveClient_def unregister_def Let_def)

lemma drop_client_spec:
  assumes inv: "mg_inv m" and reg: "aget (mg_clients m) cid = Some ref"
  shows "\<exists>m'. drop_client scard ref r m = Ret m' \<and> mg_inv m' \<and> length (mg_heap m') = length (mg_heap m) \<and>
    (\<forall>q < length (mg_heap m). q \<noteq> ref \<longrightarrow> mg_heap m' ! q = mg_heap m ! q) \<and>
    mg_clients m' = adel cid (mg_clients m) \<and> \<not> IsAlive (mg_heap m' ! ref)"
proof -
  have lt: "ref < length (mg_heap m)" and cid: "cl_id (mg_heap m ! ref) = cid"
    using inv reg registry_okD(1,2) by (auto simp: mg_inv_def)
  obtain m1 where m1: "closeClients_loop [ref] 4002 r 0 m = Ret (1, m1)" "length (mg_heap m1) = length (mg_heap m)"
    using closeClients_loop_spec [OF inv, of "[ref]" 4002 r 0] lt by auto
  obtain m2 where m2: "closeClients [ref] 4002 r m = Ret (1, m2)" "closed_effect [ref] m m2"
    using closeClients_spec [OF inv, of "[ref]" 4002 r] lt by auto
  have same: "m2 = m1"
    using m1(1) m2(1) by (simp add: closeClients_def)
  have reg2: "aget (mg_clients m2) cid = Some ref"
    using m2(2) reg by (simp add: closed_effect_def)
  have "drop_client scard ref r m = Ret (RemoveClient scard cid m2)"
    using m2(1) cid by (simp add: drop_client_def ForceDisconnectLocal_def)
  moreover have "mg_inv (RemoveClient scard cid m2)"
    using m2(2) by (intro mg_inv_RemoveClient) (simp add: closed_effect_def)
  ultimately show ?thesis
    using RemoveClient_effect [OF reg2, of scard] m2(2) m1(2) same lt by (auto simp: closed_effect_def)
qed

lemma reconcile_one_spec:
  assumes inv: "mg_inv m" and reg: "aget (mg_clients m) cid = Some ref"
  shows "\<exists>m'. reconcile_one scard d ref m = Ret m' \<and> turned d cid ref m m'"
proof (cases "IsAlive (mg_heap m ! ref) \<and> revoked d (mg_heap m ! ref)")
  case True
  then have "\<exists>r. reconcile_one scard d ref m = drop_client scard ref r m"
    by (auto simp: reconcile_one_def revoked_def Let_def split: option.splits)
  then obtain r where r: "reconcile_one scard d ref m = drop_client scard ref r m" ..
  obtain m' where "drop_client scard ref r m = Ret m'" "mg_inv m'" "length (mg_heap m') = length (mg_heap m)"
      "\<forall>q < length (mg_heap m). q \<noteq> ref \<longrightarrow> mg_heap m' ! q = mg_heap m ! q"
      "mg_clients m' = adel cid (mg_clients m)" "\<not> IsAlive (mg_heap m' ! ref)"
    using drop_client_spec [OF inv reg, of scard r] by blast
  then have "turned d cid ref m m'"
    using True by (simp add: turned_def)
  then show ?thesis
    using r \<open>drop_client scard ref r m = Ret m'\<close> by simp
next
  case False
  then have "reconcile_one scard d ref m = Ret m"
    by (auto simp: reconcile_one_def revoked_def Let_def split: option.splits db_result.splits)
  then show ?thesis
    using False inv by (auto simp: turned_def)
qed

subsection \<open>A whole pass\<close>

definition settled :: "db \<Rightarrow> 'h manager \<Rightarrow> 'h manager \<Rightarrow> string \<Rightarrow> nat \<Rightarrow> bool" where
  "settled d m m' cid ref \<longleftrightarrow>
     (if IsAlive (mg_heap m ! ref) \<and> revoked d (mg_heap m ! ref)
      then aget (mg_clients m') cid = None \<and> \<not> IsAlive (mg_heap m' ! ref)
      else aget (mg_clients m') cid = Some ref \<and> mg_heap m' ! ref = mg_heap m ! ref)"

lemma reconcile_loop_spec:
  assumes "mg_inv m" and "\<forall>(cid, ref) \<in> set kvs. aget (mg_clients m) cid = Some ref" and "distinct (map fst kvs)"
  shows "\<exists>m'. reconcile_loop scard d (map snd kvs) m = Ret m' \<and> mg_inv m' \<and> length (mg_heap m') = length (mg_heap m) \<and>
    (\<forall>(cid, ref) \<in> set kvs. settled d m m' cid ref) \<and>
    (\<forall>cid. cid \<notin> fst ` set kvs \<longrightarrow> aget (mg_clients m') cid = aget (mg_clients m) cid) \<and>
    (\<forall>q < length (mg_heap m). q \<notin> snd ` set kvs \<longrightarrow> mg_heap m' ! q = mg_heap m ! q)"
  using assms
proof (induction kvs arbitrary: m)
  case Nil
  then show ?case by simp
next
  case (Cons kv kvs)
  obtain cid ref where kv: "kv = (cid, ref)" by fastforce
  have reg: "aget (mg_clients m) cid = Some ref"
    using Cons.prems(2) kv by simp
  obtain m1 where one: "reconcile_one scard d ref m = Ret m1" and t: "turned d cid ref m m1"
    using reconcile_one_spec [OF Cons.prems(1) reg] by blast
  have lt: "ref < length (mg_heap m)" if "aget (mg_clients m) c = Some ref" for c ref
    using that Cons.prems(1) registry_okD(1) by (auto simp: mg_inv_def)
  have others: "aget (mg_clients m1) c = aget (mg_clients m) c" if "c \<noteq> cid" for c
    using t that by (auto simp: turned_def split: if_splits)
  have fresh: "cid \<notin> fst ` set kvs"
    using Cons.prems(3) kv by simp
  have other: "c \<noteq> cid" if "(c, q) \<in> set kvs" for c q
    using fresh that by force
  have tail: "\<forall>(c, q) \<in> set kvs. aget (mg_clients m1) c = Some q"
  proof (clarify)
    fix c q
    assume cq: "(c, q) \<in> set kvs"
    then have "aget (mg_clients m) c = Some q"
      using bspec [OF Cons.prems(2), of "(c, q)"] by simp
    then show "aget (mg_clients m1) c = Some q"
      using others [OF other [OF cq]] by simp
  qed
  have freshref: "ref \<notin> snd ` set kvs"
  proof
    assume "ref \<in> snd ` set kvs"
    then obtain c where c: "(c, ref) \<in> set kvs" by auto
    then have "aget (mg_clients m) c = Some ref"
      using Cons.prems(2) by auto
    then have "c = cid"
      using registry_inj [OF _ _ reg] Cons.prems(1) by (simp add: mg_inv_def)
    then show False
      using other [OF c] by simp
  qed
  have heap: "mg_heap m1 ! q = mg_heap m ! q" if "q < length (mg_heap m)" "q \<noteq> ref" for q
    using t that by (simp add: turned_def)
  have len: "length (mg_heap m1) = length (mg_heap m)" and inv1: "mg_inv m1"
    using t by (simp_all add: turned_def)
  obtain m' where r: "reconcile_loop scard d (map snd kvs) m1 = Ret m'" "mg_inv m'" "length (mg_heap m') = length (mg_heap m1)"
      "\<forall>(c, q) \<in> set kvs. settled d m1 m' c q"
      "\<forall>c. c \<notin> fst ` set kvs \<longrightarrow> aget (mg_clients m') c = aget (mg_clients m1) c"
      "\<forall>q < length (mg_heap m1). q \<notin> snd ` set kvs \<longrightarrow> mg_heap m' ! q = mg_heap m1 ! q"
    using Cons.IH [OF inv1 tail] Cons.prems(3) kv by auto
  have "settled d m m' cid ref"
    using t r(5,6) fresh freshref reg lt [OF reg] len by (auto simp: settled_def turned_def split: if_splits)
  moreover have "settled d m m' c q" if "(c, q) \<in> set kvs" for c q
  proof -
    have "q < length (mg_heap m)" "q \<noteq> ref"
      using that Cons.prems(2) lt kv freshref by force+
    then show ?thesis
      using r(4) that heap by (force simp: settled_def)
  qed
  ultimately have "\<forall>(c, q) \<in> set (kv # kvs). settled d m m' c q"
    using kv by auto
  moreover have "\<forall>c. c \<notin> fst ` set (kv # kvs) \<longrightarrow> aget (mg_clients m') c = aget (mg_clients m) c"
    using r(5) others kv by auto
  moreover have "\<forall>q < length (mg_heap m). q \<notin> snd ` set (kv # kvs) \<longrightarrow> mg_heap m' ! q = mg_heap m ! q"
    using r(6) heap len kv by auto
  ultimately show ?case
    using one r(1-3) len kv by auto
qed

text \<open>A reconciliation pass over a consistent registry ends without a panic, keeps the registry
  consistent, and does exactly what it is for: a live module whose account key or token the database no longer knows is
  removed and its socket closed, and every other module, in particular one whose lookup failed, stays
  registered and untouched.
\<close>

theorem reconcile_exact:
  assumes "mg_inv m"
  shows "\<exists>m'. reconcileConnections scard d m = Ret m' \<and> mg_inv m' \<and>
    (\<forall>cid ref. aget (mg_clients m) cid = Some ref \<longrightarrow> settled d m m' cid ref) \<and>
    (\<forall>cid. aget (mg_clients m) cid = None \<longrightarrow> aget (mg_clients m') cid = None)"
proof -
  have wf: "wf_map (mg_clients m)"
    using assms by (simp add: mg_inv_def registry_ok_def)
  have all: "\<forall>(cid, ref) \<in> set (mg_clients m). aget (mg_clients m) cid = Some ref"
    using wf by (auto simp: aget_iff_in_set)
  from reconcile_loop_spec [OF assms all, of scard d] wf obtain m' where
    "reconcile_loop scard d (map snd (mg_clients m)) m = Ret m'" "mg_inv m'"
    "\<forall>(cid, ref) \<in> set (mg_clients m). settled d m m' cid ref"
    "\<forall>cid. cid \<notin> fst ` set (mg_clients m) \<longrightarrow> aget (mg_clients m') cid = aget (mg_clients m) cid"
    by (auto simp: wf_map_def)
  note r = this
  have "settled d m m' cid ref" if "aget (mg_clients m) cid = Some ref" for cid ref
    using r(3) aget_in_set [OF that] by auto
  moreover have "aget (mg_clients m') cid = None" if "aget (mg_clients m) cid = None" for cid
    using r(4) that by (simp add: map_of_eq_None_iff)
  ultimately show ?thesis
    using r(1,2) by (auto simp: reconcileConnections_def SnapshotLocalClients_def)
qed

subsection \<open>A client that reconnects during a lookup\<close>

text \<open>
  A turn asks whether the client is alive, then waits for the database, up to five seconds a query, and only then drops it.  A module
  that reconnects under the same id in between, say with a newly paired key, is registered as another
  client, and \<open>RemoveClient\<close> by id removes that one: \<open>RemoveClientIfMatch\<close>, which the read loop uses for this
  case, would not.  Its socket stays open.
\<close>

definition drop_match :: "(string \<Rightarrow> nat option) \<Rightarrow> nat \<Rightarrow> string \<Rightarrow> 'h manager \<Rightarrow> 'h manager go" where
  "drop_match scard ref reason m =
     (case ForceDisconnectLocal (Some ref) 4002 reason m of
        Panic e \<Rightarrow> Panic e
      | Ret m1 \<Rightarrow> Ret (RemoveClientIfMatch scard (cl_id (mg_heap m ! ref)) ref m1))"

lemma drop_client_and_successor:
  assumes inv: "mg_inv m" and lt: "ref < length (mg_heap m)" and reg: "aget (mg_clients m) (cl_id (mg_heap m ! ref)) = Some new"
    and ne: "new \<noteq> ref"
  shows "(\<exists>m'. drop_client scard ref r m = Ret m' \<and> aget (mg_clients m') (cl_id (mg_heap m ! ref)) = None \<and>
            mg_heap m' ! new = mg_heap m ! new) \<and>
         (\<exists>m'. drop_match scard ref r m = Ret m' \<and> aget (mg_clients m') (cl_id (mg_heap m ! ref)) = Some new)"
proof -
  obtain m2 where m2: "closeClients [ref] 4002 r m = Ret (1, m2)" "closed_effect [ref] m m2"
    using closeClients_spec [OF inv, of "[ref]" 4002 r] lt by auto
  have "new < length (mg_heap m)"
    using inv reg registry_okD(1) by (auto simp: mg_inv_def)
  then have "mg_heap m2 ! new = mg_heap m ! new" and reg2: "aget (mg_clients m2) (cl_id (mg_heap m ! ref)) = Some new"
    using m2(2) ne reg by (simp_all add: closed_effect_def)
  then show ?thesis
    using m2(1) RemoveClient_effect [OF reg2, of scard] ne
    by (simp add: drop_client_def drop_match_def ForceDisconnectLocal_def RemoveClientIfMatch_def)
qed

lemma reconcile_exact_witness:
  "\<exists>m'. reconcileConnections (\<lambda>k. None) empty_db (ex_manager True ''i1'') = Ret m' \<and> aget (mg_clients m') ''fvtt_1'' = None"
proof -
  have "revoked empty_db (mg_heap (ex_manager True ''i1'') ! 0)" "IsAlive (mg_heap (ex_manager True ''i1'') ! 0)"
    "aget (mg_clients (ex_manager True ''i1'')) ''fvtt_1'' = Some 0"
    by (simp_all add: revoked_def us_FindByAPIKeyHash_def empty_db_def ex_manager_defs IsAlive_def get_row_def db_ok_def)
  then show ?thesis
    using reconcile_exact [OF ex_manager_inv, of "\<lambda>k. None" empty_db True "''i1''"]
    by (auto simp: settled_def)
qed

end
