(* ===== verification/SSE.thy ===== *)
theory SSE
  imports Quota
begin

text \<open>
  Event subscriptions, \<open>internal/handler/helpers/sse.go\<close>.

  The seven subscription tables have the same operations, one copy per table in the source; here
  each copy is the shared operation at its table.  The code hands the stored slices out and removes
  an element by shifting the backing array in place, so slices are kept as references into a store
  of arrays: an \<open>append\<close> within the capacity writes the shared array, a growing one allocates.  The
  capacity doubles on growth, as the Go runtime does for slices of pointers of this size.  A
  connection is a pointer with the fields the manager reads; the filters are the handlers' business.
\<close>

definition MaxSSEConnectionsPerClient :: nat where
  "MaxSSEConnectionsPerClient = 10"

datatype table = TChat | TRoll | TWS | TGeneric | TCombat | TActor | TScene

record sse_conn =
  sc_ref :: nat
  sc_ClientID :: string
  sc_Channel :: string

record slice =
  sl_arr :: nat
  sl_len :: nat

type_synonym slices = "(string, slice) gomap"

record sse_manager =
  se_chatSSE :: slices
  se_rollSSE :: slices
  se_wsEvents :: slices
  se_genericSSE :: slices
  se_combatSSE :: slices
  se_actorSSE :: slices
  se_sceneSSE :: slices
  se_arrays :: "sse_conn option list list"  \<comment> \<open>each backing array, at its full capacity\<close>
  se_cancelSeq :: nat
  se_sseCancel :: "(string, (nat, nat) gomap) gomap"
  se_hasCallback :: bool
  se_events :: "(string \<times> string \<times> nat) list"  \<comment> \<open>calls of \<open>OnSubscriberCountChanged\<close>\<close>
  se_cancelled :: "nat list"

definition NewSSEManager :: sse_manager where
  "NewSSEManager =
     \<lparr>se_chatSSE = [], se_rollSSE = [], se_wsEvents = [], se_genericSSE = [], se_combatSSE = [],
      se_actorSSE = [], se_sceneSSE = [], se_arrays = [], se_cancelSeq = 0, se_sseCancel = [],
      se_hasCallback = False, se_events = [], se_cancelled = []\<rparr>"

fun tab :: "table \<Rightarrow> sse_manager \<Rightarrow> slices" where
  "tab TChat m = se_chatSSE m"
| "tab TRoll m = se_rollSSE m"
| "tab TWS m = se_wsEvents m"
| "tab TGeneric m = se_genericSSE m"
| "tab TCombat m = se_combatSSE m"
| "tab TActor m = se_actorSSE m"
| "tab TScene m = se_sceneSSE m"

fun set_tab :: "table \<Rightarrow> slices \<Rightarrow> sse_manager \<Rightarrow> sse_manager" where
  "set_tab TChat t m = m\<lparr>se_chatSSE := t\<rparr>"
| "set_tab TRoll t m = m\<lparr>se_rollSSE := t\<rparr>"
| "set_tab TWS t m = m\<lparr>se_wsEvents := t\<rparr>"
| "set_tab TGeneric t m = m\<lparr>se_genericSSE := t\<rparr>"
| "set_tab TCombat t m = m\<lparr>se_combatSSE := t\<rparr>"
| "set_tab TActor t m = m\<lparr>se_actorSSE := t\<rparr>"
| "set_tab TScene t m = m\<lparr>se_sceneSSE := t\<rparr>"

subsection \<open>Slices\<close>

text \<open>Reading a slice now: the first \<open>sl_len\<close> cells of its array as they are at this moment.\<close>

definition read_slice :: "sse_manager \<Rightarrow> slice \<Rightarrow> sse_conn list" where
  "read_slice m s = List.map_filter (\<lambda>x. x) (take (sl_len s) (se_arrays m ! sl_arr s))"

definition slice_append :: "slice option \<Rightarrow> sse_conn \<Rightarrow> sse_manager \<Rightarrow> slice \<times> sse_manager" where
  "slice_append s c m =
     (case s of
        None \<Rightarrow> (\<lparr>sl_arr = length (se_arrays m), sl_len = 1\<rparr>, m\<lparr>se_arrays := se_arrays m @ [[Some c]]\<rparr>)
      | Some sl \<Rightarrow>
          (let arr = se_arrays m ! sl_arr sl
           in if sl_len sl < length arr
              then (sl\<lparr>sl_len := sl_len sl + 1\<rparr>,
                    m\<lparr>se_arrays := (se_arrays m)[sl_arr sl := arr[sl_len sl := Some c]]\<rparr>)
              else (\<lparr>sl_arr = length (se_arrays m), sl_len = sl_len sl + 1\<rparr>,
                    m\<lparr>se_arrays := se_arrays m @
                        [take (sl_len sl) arr @ [Some c] @ replicate (sl_len sl - 1) None]\<rparr>)))"

text \<open>\<open>append(conns[:i], conns[i+1:]...)\<close>: shifts the array in place, the last cell stays behind.\<close>

definition slice_remove :: "slice \<Rightarrow> nat \<Rightarrow> sse_manager \<Rightarrow> slice \<times> sse_manager" where
  "slice_remove sl i m =
     (let arr = se_arrays m ! sl_arr sl; n = sl_len sl;
          arr' = take i arr @ take (n - i - 1) (drop (i + 1) arr) @ drop (n - 1) arr
      in (sl\<lparr>sl_len := n - 1\<rparr>, m\<lparr>se_arrays := (se_arrays m)[sl_arr sl := arr']\<rparr>))"

definition conns_of :: "table \<Rightarrow> string \<Rightarrow> sse_manager \<Rightarrow> sse_conn list" where
  "conns_of t cid m = (case aget (tab t m) cid of None \<Rightarrow> [] | Some s \<Rightarrow> read_slice m s)"

definition len_of :: "table \<Rightarrow> string \<Rightarrow> sse_manager \<Rightarrow> nat" where
  "len_of t cid m = (case aget (tab t m) cid of None \<Rightarrow> 0 | Some s \<Rightarrow> sl_len s)"

subsection \<open>Cancel functions\<close>

definition RegisterSSECancel :: "string \<Rightarrow> nat \<Rightarrow> sse_manager \<Rightarrow> nat \<times> sse_manager" where
  "RegisterSSECancel clientID cancel m =
     (let i = se_cancelSeq m + 1;
          inner = (case aget (se_sseCancel m) clientID of None \<Rightarrow> [] | Some x \<Rightarrow> x)
      in (i, m\<lparr>se_cancelSeq := i, se_sseCancel := aput clientID (aput i cancel inner) (se_sseCancel m)\<rparr>))"

text \<open>The function \<open>RegisterSSECancel\<close> returns.\<close>

definition unregister_cancel :: "string \<Rightarrow> nat \<Rightarrow> sse_manager \<Rightarrow> sse_manager" where
  "unregister_cancel clientID i m =
     (case aget (se_sseCancel m) clientID of
        None \<Rightarrow> m
      | Some inner \<Rightarrow>
          (let inner' = adel i inner
           in if length inner' = 0 then m\<lparr>se_sseCancel := adel clientID (se_sseCancel m)\<rparr>
              else m\<lparr>se_sseCancel := aput clientID inner' (se_sseCancel m)\<rparr>))"

definition CloseForClientID :: "string \<Rightarrow> sse_manager \<Rightarrow> sse_manager" where
  "CloseForClientID clientID m =
     (let fns = (case aget (se_sseCancel m) clientID of None \<Rightarrow> [] | Some x \<Rightarrow> map snd x)
      in m\<lparr>se_sseCancel := adel clientID (se_sseCancel m), se_cancelled := se_cancelled m @ fns\<rparr>)"

subsection \<open>Counting\<close>

definition channel_table :: "string \<Rightarrow> table option" where
  "channel_table channel =
     (if channel = ''chat-events'' then Some TChat
      else if channel = ''roll-events'' then Some TRoll
      else if channel = ''hooks'' then Some TGeneric
      else if channel = ''combat-events'' then Some TCombat
      else if channel = ''actor-events'' then Some TActor
      else if channel = ''scene-events'' then Some TScene
      else None)"

definition totalForChannel :: "string \<Rightarrow> string \<Rightarrow> sse_manager \<Rightarrow> nat" where
  "totalForChannel clientID channel m =
     (let n = (case channel_table channel of None \<Rightarrow> 0 | Some t \<Rightarrow> len_of t clientID m)
      in n + length (filter (\<lambda>ws. sc_Channel ws = channel) (conns_of TWS clientID m)))"

definition emitCountChanged :: "string \<Rightarrow> string \<Rightarrow> nat \<Rightarrow> sse_manager \<Rightarrow> sse_manager" where
  "emitCountChanged clientID channel count m =
     (if se_hasCallback m then m\<lparr>se_events := se_events m @ [(clientID, channel, count)]\<rparr> else m)"

subsection \<open>Adding and removing subscriptions\<close>

definition sse_add :: "table \<Rightarrow> string \<Rightarrow> sse_conn \<Rightarrow> sse_manager \<Rightarrow> bool \<times> sse_manager" where
  "sse_add t channel conn m =
     (let cid = sc_ClientID conn
      in if len_of t cid m \<ge> MaxSSEConnectionsPerClient then (False, m)
         else
           (let (s, m1) = slice_append (aget (tab t m) cid) conn m;
                m2 = set_tab t (aput cid s (tab t m1)) m1
            in (True, emitCountChanged cid channel (totalForChannel cid channel m2) m2)))"

fun find_conn :: "sse_conn list \<Rightarrow> nat \<Rightarrow> nat \<Rightarrow> nat option" where
  "find_conn [] r i = None"
| "find_conn (c # cs) r i = (if sc_ref c = r then Some i else find_conn cs r (i + 1))"

definition sse_remove :: "table \<Rightarrow> string \<Rightarrow> sse_conn \<Rightarrow> sse_manager \<Rightarrow> sse_manager" where
  "sse_remove t channel conn m =
     (let cid = sc_ClientID conn;
          m1 = (case aget (tab t m) cid of
                  None \<Rightarrow> m
                | Some s \<Rightarrow>
                    (case find_conn (read_slice m s) (sc_ref conn) 0 of
                       None \<Rightarrow> m
                     | Some i \<Rightarrow> (let (s', m') = slice_remove s i m
                                 in set_tab t (aput cid s' (tab t m')) m')));
          m2 = (if len_of t cid m1 = 0 then set_tab t (adel cid (tab t m1)) m1 else m1)
      in emitCountChanged cid channel (totalForChannel cid channel m2) m2)"

text \<open>The getters return the stored slice itself, not a copy.\<close>

definition sse_get :: "table \<Rightarrow> string \<Rightarrow> sse_manager \<Rightarrow> slice option" where
  "sse_get t cid m = aget (tab t m) cid"

definition AddChatSSE :: "sse_conn \<Rightarrow> sse_manager \<Rightarrow> bool \<times> sse_manager" where
  "AddChatSSE conn m = sse_add TChat ''chat-events'' conn m"

definition RemoveChatSSE :: "sse_conn \<Rightarrow> sse_manager \<Rightarrow> sse_manager" where
  "RemoveChatSSE conn m = sse_remove TChat ''chat-events'' conn m"

definition GetChatSSE :: "string \<Rightarrow> sse_manager \<Rightarrow> slice option" where
  "GetChatSSE cid m = sse_get TChat cid m"

definition AddRollSSE :: "sse_conn \<Rightarrow> sse_manager \<Rightarrow> bool \<times> sse_manager" where
  "AddRollSSE conn m = sse_add TRoll ''roll-events'' conn m"

definition RemoveRollSSE :: "sse_conn \<Rightarrow> sse_manager \<Rightarrow> sse_manager" where
  "RemoveRollSSE conn m = sse_remove TRoll ''roll-events'' conn m"

definition GetRollSSE :: "string \<Rightarrow> sse_manager \<Rightarrow> slice option" where
  "GetRollSSE cid m = sse_get TRoll cid m"

definition AddWSEvent :: "sse_conn \<Rightarrow> sse_manager \<Rightarrow> bool \<times> sse_manager" where
  "AddWSEvent conn m = sse_add TWS (sc_Channel conn) conn m"

definition RemoveWSEvent :: "sse_conn \<Rightarrow> sse_manager \<Rightarrow> sse_manager" where
  "RemoveWSEvent conn m = sse_remove TWS (sc_Channel conn) conn m"

definition GetWSEvents :: "string \<Rightarrow> sse_manager \<Rightarrow> slice option" where
  "GetWSEvents cid m = sse_get TWS cid m"

definition AddWSEventFunc :: "nat \<Rightarrow> string \<Rightarrow> string \<Rightarrow> sse_manager \<Rightarrow> sse_conn option \<times> sse_manager" where
  "AddWSEventFunc ref clientID channel m =
     (let conn = \<lparr>sc_ref = ref, sc_ClientID = clientID, sc_Channel = channel\<rparr>
      in case AddWSEvent conn m of
           (False, m') \<Rightarrow> (None, m')
         | (True, m') \<Rightarrow> (Some conn, m'))"

definition AddGenericSSE :: "sse_conn \<Rightarrow> sse_manager \<Rightarrow> bool \<times> sse_manager" where
  "AddGenericSSE conn m = sse_add TGeneric ''hooks'' conn m"

definition RemoveGenericSSE :: "sse_conn \<Rightarrow> sse_manager \<Rightarrow> sse_manager" where
  "RemoveGenericSSE conn m = sse_remove TGeneric ''hooks'' conn m"

definition GetGenericSSE :: "string \<Rightarrow> sse_manager \<Rightarrow> slice option" where
  "GetGenericSSE cid m = sse_get TGeneric cid m"

definition AddCombatSSE :: "sse_conn \<Rightarrow> sse_manager \<Rightarrow> bool \<times> sse_manager" where
  "AddCombatSSE conn m = sse_add TCombat ''combat-events'' conn m"

definition RemoveCombatSSE :: "sse_conn \<Rightarrow> sse_manager \<Rightarrow> sse_manager" where
  "RemoveCombatSSE conn m = sse_remove TCombat ''combat-events'' conn m"

definition GetCombatSSE :: "string \<Rightarrow> sse_manager \<Rightarrow> slice option" where
  "GetCombatSSE cid m = sse_get TCombat cid m"

definition AddActorSSE :: "sse_conn \<Rightarrow> sse_manager \<Rightarrow> bool \<times> sse_manager" where
  "AddActorSSE conn m = sse_add TActor ''actor-events'' conn m"

definition RemoveActorSSE :: "sse_conn \<Rightarrow> sse_manager \<Rightarrow> sse_manager" where
  "RemoveActorSSE conn m = sse_remove TActor ''actor-events'' conn m"

definition GetActorSSE :: "string \<Rightarrow> sse_manager \<Rightarrow> slice option" where
  "GetActorSSE cid m = sse_get TActor cid m"

definition AddSceneSSE :: "sse_conn \<Rightarrow> sse_manager \<Rightarrow> bool \<times> sse_manager" where
  "AddSceneSSE conn m = sse_add TScene ''scene-events'' conn m"

definition RemoveSceneSSE :: "sse_conn \<Rightarrow> sse_manager \<Rightarrow> sse_manager" where
  "RemoveSceneSSE conn m = sse_remove TScene ''scene-events'' conn m"

definition GetSceneSSE :: "string \<Rightarrow> sse_manager \<Rightarrow> slice option" where
  "GetSceneSSE cid m = sse_get TScene cid m"

subsection \<open>The limit\<close>

definition channel_name :: "table \<Rightarrow> sse_conn \<Rightarrow> string" where
  "channel_name t conn =
     (case t of TChat \<Rightarrow> ''chat-events'' | TRoll \<Rightarrow> ''roll-events'' | TWS \<Rightarrow> sc_Channel conn
      | TGeneric \<Rightarrow> ''hooks'' | TCombat \<Rightarrow> ''combat-events'' | TActor \<Rightarrow> ''actor-events''
      | TScene \<Rightarrow> ''scene-events'')"

lemma tab_set_tab [simp]: "tab t' (set_tab t x m) = (if t' = t then x else tab t' m)"
  by (cases t; cases t') simp_all

lemma se_arrays_set_tab [simp]: "se_arrays (set_tab t x m) = se_arrays m"
  by (cases t) simp_all

lemma tab_arrays [simp]: "tab t (m\<lparr>se_arrays := a\<rparr>) = tab t m"
  by (cases t) simp_all

lemma sse_emit_simps [simp]:
  "tab t (emitCountChanged c ch n m) = tab t m"
  "se_arrays (emitCountChanged c ch n m) = se_arrays m"
  by (cases t; simp add: emitCountChanged_def) (simp add: emitCountChanged_def)

lemma slice_append_len:
  "slice_append s c m = (s', m') \<Longrightarrow>
   tab t m' = tab t m \<and> sl_len s' = (case s of None \<Rightarrow> 1 | Some sl \<Rightarrow> sl_len sl + 1)"
  by (auto simp: slice_append_def Let_def split: option.splits if_splits)

lemma slice_remove_len:
  "slice_remove s i m = (s', m') \<Longrightarrow> tab t m' = tab t m \<and> sl_len s' = sl_len s - 1"
  by (auto simp: slice_remove_def Let_def)

lemma len_of_add:
  assumes "sse_add t ch conn m = (True, m')"
  shows "len_of t' cid m' = len_of t' cid m + (if t' = t \<and> cid = sc_ClientID conn then 1 else 0)"
proof -
  obtain s m1 where ap: "slice_append (aget (tab t m) (sc_ClientID conn)) conn m = (s, m1)" by force
  have "tab t' m' = (if t' = t then aput (sc_ClientID conn) s (tab t m) else tab t' m)"
    using assms ap slice_append_len [OF ap] by (auto simp: sse_add_def Let_def split: if_splits)
  then show ?thesis
    using slice_append_len [OF ap, of t] by (auto simp: len_of_def split: option.splits)
qed

lemma len_of_remove: "len_of t' cid (sse_remove t ch conn m) \<le> len_of t' cid m"
proof -
  let ?m1 = "case aget (tab t m) (sc_ClientID conn) of
                  None \<Rightarrow> m
                | Some s \<Rightarrow>
                    (case find_conn (read_slice m s) (sc_ref conn) 0 of
                       None \<Rightarrow> m
                     | Some i \<Rightarrow> (let (s', m') = slice_remove s i m
                                 in set_tab t (aput (sc_ClientID conn) s' (tab t m')) m'))"
  have "len_of t' cid ?m1 \<le> len_of t' cid m"
    by (auto simp: len_of_def slice_remove_def Let_def split: option.splits)
  moreover have "len_of t' cid (set_tab t (adel c (tab t m1)) m1) \<le> len_of t' cid m1" for c m1
    by (auto simp: len_of_def)
  ultimately show ?thesis
    unfolding sse_remove_def Let_def [of "sc_ClientID conn"]
    by (auto simp: Let_def len_of_def [of _ _ "emitCountChanged _ _ _ _"] len_of_def [symmetric]
        intro: order_trans split: if_splits)
qed

datatype sse_leave = LRemove table sse_conn | LClose string | LCancelReg string nat | LCancelUnreg string nat

definition sse_leave_step :: "sse_leave \<Rightarrow> sse_manager \<Rightarrow> sse_manager" where
  "sse_leave_step l m =
     (case l of
        LRemove t conn \<Rightarrow> sse_remove t (channel_name t conn) conn m
      | LClose cid \<Rightarrow> CloseForClientID cid m
      | LCancelReg cid f \<Rightarrow> snd (RegisterSSECancel cid f m)
      | LCancelUnreg cid i \<Rightarrow> unregister_cancel cid i m)"

definition sse_enter :: "table \<times> sse_conn \<Rightarrow> sse_manager \<Rightarrow> sse_manager option" where
  "sse_enter e m =
     (case e of (t, conn) \<Rightarrow>
        (case sse_add t (channel_name t conn) conn m of (True, m') \<Rightarrow> Some m' | (False, m') \<Rightarrow> None))"

definition sse_step :: "(table \<times> sse_conn, sse_leave) quota_op \<Rightarrow> sse_manager \<Rightarrow> sse_manager" where
  "sse_step op m =
     (case op of
        Enter e \<Rightarrow> (case sse_enter e m of None \<Rightarrow> m | Some m' \<Rightarrow> m')
      | Leave l \<Rightarrow> sse_leave_step l m)"

lemma tab_cancel [simp]:
  "tab t (CloseForClientID cid m) = tab t m"
  "tab t (snd (RegisterSSECancel cid f m)) = tab t m"
  "tab t (unregister_cancel cid i m) = tab t m"
  by (cases t; simp add: CloseForClientID_def RegisterSSECancel_def unregister_cancel_def Let_def split: option.splits)+

lemma len_of_cancel [simp]:
  "len_of t c (CloseForClientID cid m) = len_of t c m"
  "len_of t c (snd (RegisterSSECancel cid f m)) = len_of t c m"
  "len_of t c (unregister_cancel cid i m) = len_of t c m"
  by (simp_all add: len_of_def)

lemma sse_add_False: "fst (sse_add t ch conn m) = (\<not> MaxSSEConnectionsPerClient \<le> len_of t (sc_ClientID conn) m)"
  by (simp add: sse_add_def Let_def case_prod_unfold)

interpretation sse_quota: quota
  "\<lambda>m (t, cid). len_of t cid m" "\<lambda>m. MaxSSEConnectionsPerClient" "\<lambda>(t, conn). (t, sc_ClientID conn)"
  sse_enter sse_leave_step "\<lambda>m. True"
proof (unfold_locales, goal_cases)
  case (1 m e)
  then show ?case
    using sse_add_False [of "fst e" "channel_name (fst e) (snd e)" "snd e" m]
    by (cases e) (auto simp: sse_enter_def split: prod.splits bool.splits)
next
  case (2 m e m' k)
  then show ?case
    by (cases e; cases k) (auto simp: sse_enter_def len_of_add split: prod.splits bool.splits)
next
  case (3 m l k)
  then show ?case
    by (cases k; cases l) (auto simp: sse_leave_step_def len_of_remove len_of_cancel)
qed

lemma sse_step_quota: "sse_step = sse_quota.quota_step"
  by (intro ext) (simp add: sse_step_def sse_quota.quota_step_def)

text \<open>C39: Whatever sequence of subscriptions, removals and closings happens on a new manager, no module has
  more than ten subscriptions of one kind.\<close>

theorem subscription_limit_holds:
  "len_of t cid (fold sse_step ops NewSSEManager) \<le> MaxSSEConnectionsPerClient"
proof -
  have "sse_quota.within NewSSEManager"
    unfolding sse_quota.within_def
  proof (intro conjI allI TrueI)
    fix k :: "table \<times> string"
    show "(case k of (t, cid) \<Rightarrow> len_of t cid NewSSEManager) \<le> MaxSSEConnectionsPerClient"
      by (cases k; cases "fst k") (auto simp: len_of_def NewSSEManager_def)
  qed
  from sse_quota.never_over [OF this, where ops = ops and k = "(t, cid)"] show ?thesis
    by (simp add: sse_step_quota)
qed

subsection \<open>What a slice holds\<close>

definition holds :: "sse_manager \<Rightarrow> slice \<Rightarrow> sse_conn list \<Rightarrow> bool" where
  "holds m s xs \<longleftrightarrow> sl_arr s < length (se_arrays m) \<and> sl_len s = length xs \<and>
     (\<exists>rest. se_arrays m ! sl_arr s = map Some xs @ rest)"

lemma map_filter_Some [simp]: "List.map_filter (\<lambda>x. x) (map Some xs) = xs"
  by (induction xs) (simp_all add: List.map_filter_def)

lemma read_holds: "holds m s xs \<Longrightarrow> read_slice m s = xs"
  by (auto simp: holds_def read_slice_def)

definition sse_ok :: "sse_manager \<Rightarrow> bool" where
  "sse_ok m \<longleftrightarrow>
     (\<forall>t cid s. aget (tab t m) cid = Some s \<longrightarrow> (\<exists>xs. xs \<noteq> [] \<and> holds m s xs)) \<and>
     (\<forall>t cid s t' cid' s'. aget (tab t m) cid = Some s \<longrightarrow> aget (tab t' m) cid' = Some s' \<longrightarrow>
        sl_arr s = sl_arr s' \<longrightarrow> t = t' \<and> cid = cid')"

lemma sse_okD:
  assumes "sse_ok m" and "aget (tab t m) cid = Some s"
  shows "holds m s (conns_of t cid m)" and "conns_of t cid m \<noteq> []"
  using assms read_holds by (fastforce simp: sse_ok_def conns_of_def)+

lemma len_conns: "sse_ok m \<Longrightarrow> len_of t cid m = length (conns_of t cid m)"
  using sse_okD(1) [of m t cid] by (auto simp: len_of_def conns_of_def holds_def split: option.splits)

text \<open>Writing another array, or allocating one, leaves a slice's contents alone.\<close>

lemma holds_other:
  assumes "holds m s xs" and "sl_arr s \<noteq> a" and "se_arrays m' = (se_arrays m)[a := arr]"
  shows "holds m' s xs"
  using assms by (auto simp: holds_def)

lemma holds_alloc:
  assumes "holds m s xs" and "se_arrays m' = se_arrays m @ [arr]"
  shows "holds m' s xs"
  using assms by (auto simp: holds_def nth_append)

lemma slice_append_holds:
  assumes "case s of None \<Rightarrow> xs = [] | Some sl \<Rightarrow> holds m sl xs"
    and "slice_append s c m = (s', m')"
  shows "holds m' s' (xs @ [c])"
proof (cases s)
  case None
  then show ?thesis using assms by (auto simp: slice_append_def holds_def)
next
  case (Some sl)
  then obtain rest where rest: "se_arrays m ! sl_arr sl = map Some xs @ rest"
      and lt: "sl_arr sl < length (se_arrays m)" and len: "sl_len sl = length xs"
    using assms(1) by (auto simp: holds_def)
  show ?thesis
  proof (cases rest)
    case Nil
    then show ?thesis using assms(2) Some rest lt len
      by (auto simp: slice_append_def holds_def Let_def nth_append)
  next
    case (Cons x rest')
    then show ?thesis using assms(2) Some rest lt len
      by (auto simp: slice_append_def holds_def Let_def list_update_append)
  qed
qed

lemma slice_remove_holds:
  assumes "holds m s xs" and "i < length xs" and "slice_remove s i m = (s', m')"
  shows "holds m' s' (take i xs @ drop (i + 1) xs)"
    and "holds m' s (take i xs @ drop (i + 1) xs @ [last xs])"
proof -
  obtain rest where rest: "se_arrays m ! sl_arr s = map Some xs @ rest"
      and lt: "sl_arr s < length (se_arrays m)" and len: "sl_len s = length xs"
    using assms(1) by (auto simp: holds_def)
  have ne: "xs \<noteq> []" using assms(2) by auto
  then have last: "drop (length xs - 1) xs = [last xs]"
    by (metis append_butlast_last_id append_eq_conv_conj length_butlast)
  have arr: "take i (map Some xs @ rest) @ take (length xs - i - 1) (drop (i + 1) (map Some xs @ rest))
      @ drop (length xs - 1) (map Some xs @ rest)
      = map Some (take i xs @ drop (i + 1) xs @ [last xs]) @ rest"
    using assms(2) last by (simp add: take_map drop_map)
  have m': "se_arrays m' = (se_arrays m)[sl_arr s :=
        map Some (take i xs @ drop (i + 1) xs @ [last xs]) @ rest]" and s': "s' = s\<lparr>sl_len := length xs - 1\<rparr>"
    using assms(3) unfolding slice_remove_def Let_def rest len arr by auto
  show "holds m' s' (take i xs @ drop (i + 1) xs)"
    using lt len assms(2) by (auto simp: holds_def m' s')
  show "holds m' s (take i xs @ drop (i + 1) xs @ [last xs])"
    using lt len assms(2) by (auto simp: holds_def m')
qed

subsection \<open>Subscribing and unsubscribing\<close>

lemma read_slice_emit [simp]: "read_slice (emitCountChanged a b n m) s = read_slice m s"
  by (simp add: read_slice_def)

lemma conns_of_emit [simp]: "conns_of t c (emitCountChanged a b n m) = conns_of t c m"
  by (simp add: conns_of_def split: option.splits)

lemma totalForChannel_emit [simp]:
  "totalForChannel c ch (emitCountChanged a b n m) = totalForChannel c ch m"
  by (simp add: totalForChannel_def len_of_def split: option.splits)

lemma sse_ok_emit [simp]: "sse_ok (emitCountChanged a b n m) = sse_ok m"
  by (simp add: sse_ok_def holds_def)

text \<open>A change at one table entry that keeps every other slice's contents.\<close>

lemma sse_ok_entry:
  assumes ok: "sse_ok m"
    and tab: "\<And>t'. tab t' m' = (if t' = t then aput cid s' (tab t m) else tab t' m)"
    and new: "holds m' s' xs" "xs \<noteq> []"
    and own: "\<And>t' cid' s. \<lbrakk>aget (tab t' m) cid' = Some s; \<not> (t' = t \<and> cid' = cid)\<rbrakk> \<Longrightarrow>
       sl_arr s \<noteq> sl_arr s' \<and> holds m' s (conns_of t' cid' m)"
  shows "sse_ok m' \<and> conns_of t cid m' = xs \<and>
    (\<forall>t' cid'. \<not> (t' = t \<and> cid' = cid) \<longrightarrow> conns_of t' cid' m' = conns_of t' cid' m)"
proof -
  have get: "aget (tab t' m') c = (if t' = t \<and> c = cid then Some s' else aget (tab t' m) c)" for t' c
    by (simp add: tab)
  have 1: "conns_of t cid m' = xs"
    using read_holds [OF new(1)] by (simp add: conns_of_def get)
  have 2: "conns_of t' c m' = conns_of t' c m" if "\<not> (t' = t \<and> c = cid)" for t' c
  proof (cases "aget (tab t' m) c")
    case None
    then show ?thesis using that by (auto simp: conns_of_def get)
  next
    case (Some sl)
    have g: "aget (tab t' m') c = Some sl" using that Some by (auto simp: get)
    show ?thesis
      using read_holds [OF own [OF Some that, THEN conjunct2]] by (simp add: conns_of_def [of t' c m'] g)
  qed
  have "sse_ok m'"
    unfolding sse_ok_def get
  proof (intro conjI allI impI)
    fix t' c sl assume *: "(if t' = t \<and> c = cid then Some s' else aget (tab t' m) c) = Some sl"
    show "\<exists>xs. xs \<noteq> [] \<and> holds m' sl xs"
    proof (cases "t' = t \<and> c = cid")
      case True
      then show ?thesis using * new by auto
    next
      case False
      then show ?thesis using * own [of t' c sl] sse_okD(2) [OF ok, of t' c sl] by auto
    qed
  next
    fix t1 c1 s1 t2 c2 s2
    assume a: "(if t1 = t \<and> c1 = cid then Some s' else aget (tab t1 m) c1) = Some s1"
      and b: "(if t2 = t \<and> c2 = cid then Some s' else aget (tab t2 m) c2) = Some s2"
      and eq: "sl_arr s1 = sl_arr s2"
    have "t1 = t2 \<and> c1 = c2"
      using a b eq own [of t1 c1 s1] own [of t2 c2 s2] ok unfolding sse_ok_def
      by (auto split: if_splits)
    then show "t1 = t2" "c1 = c2" by auto
  qed
  with 1 2 show ?thesis by blast
qed

text \<open>An accepted subscription is appended to the subscriptions of its kind and module, nobody else's
  change although the backing arrays are shared with the readers, and the callback is told the new
  total for the channel.\<close>

theorem subscribe_appends:
  assumes ok: "sse_ok m" and add: "sse_add t ch conn m = (True, m')"
  shows "sse_ok m' \<and> conns_of t (sc_ClientID conn) m' = conns_of t (sc_ClientID conn) m @ [conn] \<and>
    (\<forall>t' cid. \<not> (t' = t \<and> cid = sc_ClientID conn) \<longrightarrow> conns_of t' cid m' = conns_of t' cid m) \<and>
    (se_hasCallback m' \<longrightarrow> last (se_events m') = (sc_ClientID conn, ch, totalForChannel (sc_ClientID conn) ch m'))"
proof -
  let ?cid = "sc_ClientID conn"
  obtain s m1 where ap: "slice_append (aget (tab t m) ?cid) conn m = (s, m1)" by force
  let ?m2 = "set_tab t (aput ?cid s (tab t m1)) m1"
  have m': "m' = emitCountChanged ?cid ch (totalForChannel ?cid ch ?m2) ?m2"
    using add ap by (auto simp: sse_add_def Let_def split: if_splits)
  have tabs: "tab t' ?m2 = (if t' = t then aput ?cid s (tab t m) else tab t' m)" for t'
    using slice_append_len [OF ap] by simp
  have old: "case aget (tab t m) ?cid of None \<Rightarrow> conns_of t ?cid m = [] | Some sl \<Rightarrow> holds m sl (conns_of t ?cid m)"
    using sse_okD(1) [OF ok] by (auto simp: conns_of_def split: option.splits)
  have new: "holds ?m2 s (conns_of t ?cid m @ [conn])"
    using slice_append_holds [OF old ap] by (simp add: holds_def)
  have own: "sl_arr sl \<noteq> sl_arr s \<and> holds ?m2 sl (conns_of t' c m)"
    if sl: "aget (tab t' m) c = Some sl" and ne: "\<not> (t' = t \<and> c = ?cid)" for t' c sl
  proof -
    have h: "holds m sl (conns_of t' c m)" using sse_okD(1) [OF ok sl] .
    then have lt: "sl_arr sl < length (se_arrays m)" by (simp add: holds_def)
    have diff: "sl_arr sl \<noteq> sl_arr sx" if "aget (tab t m) ?cid = Some sx" for sx
      using ok sl that ne unfolding sse_ok_def by blast
    consider (alloc) arr where "se_arrays m1 = se_arrays m @ [arr]" "sl_arr s = length (se_arrays m)"
      | (inplace) sx arr where "aget (tab t m) ?cid = Some sx" "sl_arr s = sl_arr sx"
          "se_arrays m1 = (se_arrays m)[sl_arr sx := arr]"
      using ap by (auto simp: slice_append_def Let_def split: option.splits if_splits)
    then show ?thesis
    proof cases
      case alloc
      then show ?thesis using holds_alloc [OF h, of ?m2] lt by simp
    next
      case inplace
      then show ?thesis using holds_other [OF h diff [OF inplace(1)], of ?m2] diff [OF inplace(1)] by simp
    qed
  qed
  have main: "sse_ok ?m2 \<and> conns_of t ?cid ?m2 = conns_of t ?cid m @ [conn] \<and>
    (\<forall>t' cid'. \<not> (t' = t \<and> cid' = ?cid) \<longrightarrow> conns_of t' cid' ?m2 = conns_of t' cid' m)"
    by (rule sse_ok_entry [OF ok tabs new _ own]) simp_all
  have total: "totalForChannel ?cid ch m' = totalForChannel ?cid ch ?m2"
    unfolding m' by simp
  show ?thesis
    using main total by (auto simp: m') (simp add: emitCountChanged_def split: if_splits)
qed

text \<open>A reader that took the slice before a removal reads, after it, every later subscriber one place
  earlier and the last one twice: the getter hands out the array that the removal shifts, so a
  delivery in progress reaches the last subscriber twice.\<close>

theorem reader_sees_last_twice:
  assumes "holds m s (c # cs)" and "sse_get t cid m = Some s" and "cs \<noteq> []"
    and "sc_ClientID c = cid"
  shows "read_slice m s = c # cs \<and> read_slice (sse_remove t ch c m) s = cs @ [last cs]"
proof -
  have r: "read_slice m s = c # cs" using assms(1) by (rule read_holds)
  obtain s' m1 where rm: "slice_remove s 0 m = (s', m1)" by force
  have h: "holds m1 s (cs @ [last cs])"
    using slice_remove_holds(2) [OF assms(1) _ rm] assms(3) by simp
  have "se_arrays (sse_remove t ch c m) = se_arrays m1"
    using assms(2,4) r rm by (auto simp: sse_remove_def sse_get_def Let_def)
  then have "read_slice (sse_remove t ch c m) s = read_slice m1 s" by (simp add: read_slice_def)
  then show ?thesis using r read_holds [OF h] by simp
qed

definition ex_conn :: "nat \<Rightarrow> sse_conn" where
  "ex_conn r = \<lparr>sc_ref = r, sc_ClientID = ''fvtt_1'', sc_Channel = ''chat-events''\<rparr>"

definition ex_sse :: sse_manager where
  "ex_sse = NewSSEManager\<lparr>se_chatSSE := [(''fvtt_1'', \<lparr>sl_arr = 0, sl_len = 2\<rparr>)],
     se_arrays := [[Some (ex_conn 1), Some (ex_conn 2)]], se_hasCallback := True\<rparr>"

lemma tab_ex_sse: "tab t ex_sse = (if t = TChat then [(''fvtt_1'', \<lparr>sl_arr = 0, sl_len = 2\<rparr>)] else [])"
  by (cases t) (simp_all add: ex_sse_def NewSSEManager_def)

lemma ex_sse_holds: "holds ex_sse \<lparr>sl_arr = 0, sl_len = 2\<rparr> [ex_conn 1, ex_conn 2]"
  by (simp add: holds_def ex_sse_def)

lemma ex_sse_ok: "sse_ok ex_sse"
  using ex_sse_holds by (auto simp: sse_ok_def tab_ex_sse split: if_splits)

lemma subscribe_appends_witness:
  "conns_of TChat ''fvtt_1'' (snd (sse_add TChat ''chat-events'' (ex_conn 3) ex_sse)) = [ex_conn 1, ex_conn 2, ex_conn 3]"
proof -
  have "fst (sse_add TChat ''chat-events'' (ex_conn 3) ex_sse)"
    by (simp add: sse_add_False len_of_def tab_ex_sse ex_conn_def MaxSSEConnectionsPerClient_def)
  then have "sse_add TChat ''chat-events'' (ex_conn 3) ex_sse = (True, snd (sse_add TChat ''chat-events'' (ex_conn 3) ex_sse))"
    by (metis prod.collapse)
  moreover have "conns_of TChat ''fvtt_1'' ex_sse = [ex_conn 1, ex_conn 2]"
    using read_holds [OF ex_sse_holds] by (simp add: conns_of_def tab_ex_sse)
  ultimately show ?thesis
    using subscribe_appends [OF ex_sse_ok, of TChat "''chat-events''" "ex_conn 3"] by (simp add: ex_conn_def)
qed

lemma reader_sees_last_twice_witness:
  "read_slice (sse_remove TChat ''chat-events'' (ex_conn 1) ex_sse) \<lparr>sl_arr = 0, sl_len = 2\<rparr> = [ex_conn 2, ex_conn 2]"
  using reader_sees_last_twice [OF ex_sse_holds, of TChat "''fvtt_1''" "''chat-events''"]
  by (simp add: sse_get_def tab_ex_sse) (simp add: ex_conn_def)

end
