(* ===== verification/Fanout.thy ===== *)
theory Fanout
  imports Route SSE
begin

text \<open>
  Events from a module to its subscribers: the stream handler of \<open>internal/handler/sse.go\<close> and the six
  fan-out functions of \<open>internal/server/server.go\<close>, over the subscription tables of \<open>SSE\<close>.  The handler
  that keeps a stream open is its opening, the ticks in between and its end.  Every write to a stream is a
  goroutine of its own: the written list has the writes of one event in table order, the code promises no
  order, neither among them nor between two events.  A JSON body stands for its text.
\<close>

record filters =
  sf_Speaker :: string
  sf_Type :: "int option"
  sf_WhisperOnly :: bool
  sf_UserID :: string
  sf_HookFilters :: "string list"
  sf_EncounterID :: string
  sf_ActorUUID :: string
  sf_SceneID :: string

definition no_filters :: filters where
  "no_filters =
     \<lparr>sf_Speaker = [], sf_Type = None, sf_WhisperOnly = False, sf_UserID = [], sf_HookFilters = [], sf_EncounterID = [],
      sf_ActorUUID = [], sf_SceneID = []\<rparr>"

datatype event_write = SSEEvent nat string json | SSEComment nat string | WSEvent nat obj

record fan_state =
  fs_sse :: sse_manager
  fs_filters :: "(nat, filters) gomap"  \<comment> \<open>of a connection\<close>
  fs_done :: "nat list"  \<comment> \<open>connections whose request context has ended\<close>
  fs_next :: nat
  fs_written :: "event_write list"
  fs_log :: "(nat \<times> string \<times> string \<times> string) list"
    \<comment> \<open>opened streams: connection, module, account of the request, account of the module\<close>

definition fan_init :: fan_state where
  "fan_init = \<lparr>fs_sse = NewSSEManager, fs_filters = [], fs_done = [], fs_next = 0, fs_written = [], fs_log = []\<rparr>"

definition filters_of :: "fan_state \<Rightarrow> sse_conn \<Rightarrow> filters" where
  "filters_of s c = (case aget (fs_filters s) (sc_ref c) of Some f \<Rightarrow> f | None \<Rightarrow> no_filters)"

subsection \<open>Opening and closing a stream\<close>

definition stream_query :: "(string, string) gomap \<Rightarrow> string \<Rightarrow> string" where
  "stream_query q k = (case aget q k of Some v \<Rightarrow> v | None \<Rightarrow> [])"

definition stream_table :: "string \<Rightarrow> (table \<times> string) option" where
  "stream_table eventType =
     (if eventType = ''hooks'' then Some (TGeneric, ''hooks'')
      else if eventType = ''combat'' then Some (TCombat, ''combat-events'')
      else if eventType = ''actor'' then Some (TActor, ''actor-events'')
      else if eventType = ''scene'' then Some (TScene, ''scene-events'')
      else if eventType = ''roll'' then Some (TRoll, ''roll-events'')
      else if eventType = ''chat'' then Some (TChat, ''chat-events'')
      else None)"

definition stream_filters :: "string \<Rightarrow> (string, string) gomap \<Rightarrow> filters" where
  "stream_filters eventType q =
     (if eventType = ''hooks''
      then no_filters\<lparr>sf_HookFilters := (let hf = stream_query q ''hooks'' in if hf = [] then [] else csv_fields (Some hf))\<rparr>
      else if eventType = ''combat'' then no_filters\<lparr>sf_EncounterID := stream_query q ''encounterId''\<rparr>
      else if eventType = ''actor'' then no_filters\<lparr>sf_ActorUUID := stream_query q ''actorUuid''\<rparr>
      else if eventType = ''scene'' then no_filters\<lparr>sf_SceneID := stream_query q ''sceneId''\<rparr>
      else if eventType = ''roll'' then no_filters\<lparr>sf_UserID := stream_query q ''userId''\<rparr>
      else no_filters
        \<lparr>sf_Speaker := stream_query q ''speaker'',
         sf_Type := (let t = stream_query q ''type'' in if t = [] then None else ParseInt64 t),
         sf_WhisperOnly := (stream_query q ''whisperOnly'' = ''true''), sf_UserID := stream_query q ''userId''\<rparr>)"

record stream =
  st_conn :: sse_conn
  st_table :: table
  st_channel :: string
  st_cancel :: nat

datatype opened = Refused answer | TooMany nat | Streaming stream

definition connected_body :: "string \<Rightarrow> string \<Rightarrow> (string, string) gomap \<Rightarrow> json" where
  "connected_body eventType clientID q =
     JObj ([(''clientId'', JStr clientID)] @
           (if eventType = ''actor'' then [(''actorUuid'', JStr (stream_query q ''actorUuid''))] else []))"

text \<open>The module, after an attempt to start it when the request came with a scoped key.\<close>

definition stream_client ::
    "(req_context \<Rightarrow> string \<Rightarrow> 'h manager \<Rightarrow> string \<times> 'h manager) option \<Rightarrow> req_context option \<Rightarrow> string \<Rightarrow> 'h manager \<Rightarrow>
     (nat option \<times> string) \<times> 'h manager" where
  "stream_client auto ctx clientID m =
     (case GetClient clientID m of
        Some ref \<Rightarrow> ((Some ref, clientID), m)
      | None \<Rightarrow>
          (case (auto, ctx, scoped_key ctx) of
             (Some f, Some c, Some k) \<Rightarrow>
               (let (autoID, m1) = f c clientID m
                in if autoID \<noteq> [] then ((GetClient autoID m1, autoID), m1) else ((None, clientID), m1))
           | _ \<Rightarrow> ((None, clientID), m)))"

definition sseSubscribeHandler ::
    "(req_context \<Rightarrow> string \<Rightarrow> 'h manager \<Rightarrow> string \<times> 'h manager) option \<Rightarrow> bool \<Rightarrow> req_context option \<Rightarrow> string \<Rightarrow>
     (string, string) gomap \<Rightarrow> 'h manager \<Rightarrow> fan_state \<Rightarrow> opened \<times> 'h manager \<times> fan_state" where
  "sseSubscribeHandler auto canFlush ctx eventType q m s =
     (let clientID0 = stream_query q ''clientId''
      in if clientID0 = [] then (Refused (WriteError 400 (CHR 0x27 # ''clientId'' @ [CHR 0x27] @ '' is required'')), m, s)
         else (case stream_client auto ctx clientID0 m of
                 ((None, _), m1) \<Rightarrow> (Refused (WriteError 404 ''Invalid client ID''), m1, s)
               | ((Some ref, clientID), m1) \<Rightarrow>
                   (let r = fs_next s; (i, sse1) = RegisterSSECancel clientID r (fs_sse s);
                        masterKey = (case ctx of None \<Rightarrow> [] | Some c \<Rightarrow> rc_MasterAPIKey c);
                        account = cl_apiKey (mg_heap m1 ! ref);
                        left = s\<lparr>fs_sse := unregister_cancel clientID i sse1, fs_done := fs_done s @ [r], fs_next := r + 1\<rparr>
                    in if masterKey \<noteq> [] \<and> account \<noteq> masterKey then (Refused (WriteError 403 ''Access denied''), m1, left)
                       else if \<not> canFlush then (Refused (WriteError 500 ''Streaming not supported''), m1, left)
                       else (case stream_table eventType of
                               None \<Rightarrow> (Refused (200, []), m1, left)
                             | Some (t, ch) \<Rightarrow>
                                 (let conn = \<lparr>sc_ref = r, sc_ClientID = clientID, sc_Channel = ch\<rparr>
                                  in case sse_add t ch conn sse1 of
                                       (False, sse2) \<Rightarrow>
                                         (TooMany r, m1, left\<lparr>fs_sse := unregister_cancel clientID i sse2,
                                            fs_written := fs_written s @
                                              [SSEEvent r ''error'' (JObj [(''error'', JStr ''Too many SSE connections'')])]\<rparr>)
                                     | (True, sse2) \<Rightarrow>
                                         (Streaming \<lparr>st_conn = conn, st_table = t, st_channel = ch, st_cancel = i\<rparr>, m1,
                                          s\<lparr>fs_sse := sse2, fs_next := r + 1,
                                            fs_filters := aput r (stream_filters eventType q) (fs_filters s),
                                            fs_log := fs_log s @ [(r, clientID, masterKey, account)],
                                            fs_written := fs_written s @
                                              [SSEEvent r ''connected'' (connected_body eventType clientID q)]\<rparr>))))))"

text \<open>A tick of the loop, and its end: the removal of the subscription and the deferred calls.\<close>

definition stream_tick :: "stream \<Rightarrow> fan_state \<Rightarrow> fan_state" where
  "stream_tick st s = s\<lparr>fs_written := fs_written s @ [SSEComment (sc_ref (st_conn st)) '': keepalive'']\<rparr>"

definition stream_end :: "stream \<Rightarrow> fan_state \<Rightarrow> fan_state" where
  "stream_end st s =
     s\<lparr>fs_sse := unregister_cancel (sc_ClientID (st_conn st)) (st_cancel st)
                  (sse_remove (st_table st) (st_channel st) (st_conn st) (fs_sse s)),
       fs_done := fs_done s @ [sc_ref (st_conn st)]\<rparr>"

text \<open>A subscription of the WebSocket API: no filters reach the connection.\<close>

definition ws_subscribe :: "string \<Rightarrow> string \<Rightarrow> fan_state \<Rightarrow> sse_conn option \<times> fan_state" where
  "ws_subscribe clientID channel s =
     (case AddWSEventFunc (fs_next s) clientID channel (fs_sse s) of
        (c, sse) \<Rightarrow> (c, s\<lparr>fs_sse := sse, fs_next := fs_next s + 1\<rparr>))"

subsection \<open>The fan-out\<close>

text \<open>The writes of one event: \<open>ev\<close> and \<open>body\<close> to the streams that pass and are not done, then a message to the sockets.\<close>

definition to_streams :: "fan_state \<Rightarrow> table \<Rightarrow> string \<Rightarrow> (filters \<Rightarrow> bool) \<Rightarrow> string \<Rightarrow> json \<Rightarrow> event_write list" where
  "to_streams s t cid pass ev body =
     map (\<lambda>c. SSEEvent (sc_ref c) ev body)
       (filter (\<lambda>c. pass (filters_of s c) \<and> sc_ref c \<notin> set (fs_done s)) (conns_of t cid (fs_sse s)))"

definition to_sockets :: "fan_state \<Rightarrow> string \<Rightarrow> string \<Rightarrow> (filters \<Rightarrow> bool) \<Rightarrow> obj \<Rightarrow> event_write list" where
  "to_sockets s channel cid pass msg =
     map (\<lambda>c. WSEvent (sc_ref c) msg)
       (filter (\<lambda>c. sc_Channel c = channel \<and> pass (filters_of s c)) (conns_of TWS cid (fs_sse s)))"

definition str_of :: "obj \<Rightarrow> string \<Rightarrow> string option" where
  "str_of data k = (case aget data k of Some (JStr x) \<Rightarrow> Some x | _ \<Rightarrow> None)"

definition chat_passes :: "obj \<Rightarrow> filters \<Rightarrow> bool" where
  "chat_passes data f \<longleftrightarrow>
     \<not> (sf_Speaker f \<noteq> [] \<and> (case str_of data ''speaker'' of Some speaker \<Rightarrow> speaker \<noteq> sf_Speaker f | None \<Rightarrow> False)) \<and>
     \<not> (case sf_Type f of None \<Rightarrow> False
        | Some t \<Rightarrow> (case aget data ''type'' of Some (JNum msgType) \<Rightarrow> msgType \<noteq> t | _ \<Rightarrow> False))"

definition chat_event_type :: "obj \<Rightarrow> string" where
  "chat_event_type data = (case str_of data ''eventType'' of Some et \<Rightarrow> ''chat-'' @ et | None \<Rightarrow> ''chat-create'')"

definition fanoutChatEvent :: "string \<Rightarrow> obj \<Rightarrow> fan_state \<Rightarrow> event_write list" where
  "fanoutChatEvent clientID data s =
     to_streams s TChat clientID (chat_passes data) (chat_event_type data) (JObj data) @
     to_sockets s ''chat-events'' clientID (chat_passes data)
       [(''type'', JStr ''chat-event''), (''event'', JStr (chat_event_type data)), (''data'', JObj data)]"

definition roll_passes :: "obj \<Rightarrow> filters \<Rightarrow> bool" where
  "roll_passes data f \<longleftrightarrow>
     \<not> (sf_UserID f \<noteq> [] \<and> (case str_of data ''userId'' of Some uid \<Rightarrow> uid \<noteq> sf_UserID f | None \<Rightarrow> False))"

definition fanoutRollData :: "string \<Rightarrow> obj \<Rightarrow> fan_state \<Rightarrow> event_write list" where
  "fanoutRollData clientID data s =
     to_streams s TRoll clientID (roll_passes data) ''roll'' (JObj data) @
     to_sockets s ''roll-events'' clientID (roll_passes data) [(''type'', JStr ''roll-event''), (''data'', JObj data)]"

definition hook_name :: "obj \<Rightarrow> string" where
  "hook_name data =
     (let h = get_str data ''hook''
      in if h \<noteq> [] then h else (case aget data ''data'' of Some (JObj inner) \<Rightarrow> get_str inner ''hook'' | _ \<Rightarrow> []))"

definition hook_passes :: "obj \<Rightarrow> filters \<Rightarrow> bool" where
  "hook_passes data f \<longleftrightarrow> length (sf_HookFilters f) > 0 \<longrightarrow> hook_name data \<in> set (sf_HookFilters f)"

definition fanoutHookEvent :: "string \<Rightarrow> obj \<Rightarrow> fan_state \<Rightarrow> event_write list" where
  "fanoutHookEvent clientID data s =
     to_streams s TGeneric clientID (hook_passes data) (hook_name data) (JObj data) @
     to_sockets s ''hooks'' clientID (hook_passes data)
       [(''type'', JStr ''hook-event''), (''hook'', JStr (hook_name data)), (''data'', JObj data)]"

definition combat_payload :: "obj \<Rightarrow> obj" where
  "combat_payload data = (case aget data ''data'' of Some (JObj nested) \<Rightarrow> nested | _ \<Rightarrow> data)"

definition combat_passes :: "obj \<Rightarrow> filters \<Rightarrow> bool" where
  "combat_passes payload f \<longleftrightarrow> \<not> (sf_EncounterID f \<noteq> [] \<and> sf_EncounterID f \<noteq> get_str payload ''encounterId'')"

definition fanoutCombatEvent :: "string \<Rightarrow> obj \<Rightarrow> fan_state \<Rightarrow> event_write list" where
  "fanoutCombatEvent clientID data s =
     (let payload = combat_payload data; ev = ''combat-'' @ get_str payload ''eventType''
      in to_streams s TCombat clientID (combat_passes payload) ev (JObj payload) @
         to_sockets s ''combat-events'' clientID (\<lambda>_. True)
           [(''type'', JStr ''combat-event''), (''event'', JStr ev), (''data'', JObj payload)])"

definition actor_passes :: "obj \<Rightarrow> filters \<Rightarrow> bool" where
  "actor_passes data f \<longleftrightarrow> \<not> (sf_ActorUUID f \<noteq> [] \<and> sf_ActorUUID f \<noteq> get_str data ''actorUuid'')"

definition fanoutActorEvent :: "string \<Rightarrow> obj \<Rightarrow> fan_state \<Rightarrow> event_write list" where
  "fanoutActorEvent clientID data s =
     (let ev = ''actor-'' @ get_str data ''eventType''
      in to_streams s TActor clientID (actor_passes data) ev (JObj data) @
         to_sockets s ''actor-events'' clientID (actor_passes data)
           [(''type'', JStr ''actor-event''), (''event'', JStr ev), (''data'', JObj data)])"

definition scene_passes :: "obj \<Rightarrow> filters \<Rightarrow> bool" where
  "scene_passes data f \<longleftrightarrow> \<not> (sf_SceneID f \<noteq> [] \<and> sf_SceneID f \<noteq> get_str data ''sceneId'')"

definition fanoutSceneEvent :: "string \<Rightarrow> obj \<Rightarrow> fan_state \<Rightarrow> event_write list" where
  "fanoutSceneEvent clientID data s =
     (let ev = ''scene-'' @ get_str data ''eventType''
      in to_streams s TScene clientID (scene_passes data) ev (JObj data) @
         to_sockets s ''scene-events'' clientID (scene_passes data)
           [(''type'', JStr ''scene-event''), (''event'', JStr ev), (''data'', JObj data)])"

text \<open>The callbacks of \<open>EventFanout\<close>, by the type of the module's message.\<close>

definition fan_writes :: "string \<Rightarrow> string \<Rightarrow> obj \<Rightarrow> fan_state \<Rightarrow> event_write list" where
  "fan_writes kind clientID data s =
     (if kind = ''chat-event'' then fanoutChatEvent clientID data s
      else if kind = ''roll-data'' then fanoutRollData clientID data s
      else if kind = ''hook-event'' then fanoutHookEvent clientID data s
      else if kind = ''combat-event'' then fanoutCombatEvent clientID data s
      else if kind = ''actor-event'' then fanoutActorEvent clientID data s
      else if kind = ''scene-event'' then fanoutSceneEvent clientID data s
      else [])"

subsection \<open>Runs\<close>

datatype 'h fan_op =
    FOpen "(req_context \<Rightarrow> string \<Rightarrow> 'h manager \<Rightarrow> string \<times> 'h manager) option" bool "req_context option" string
      "(string, string) gomap" "'h manager"
  | FTick stream
  | FClose stream
  | FDone nat
  | FSocket string string
  | FSocketGone sse_conn
  | FModuleGone string
  | FEvent string string obj

fun fan_step :: "'h fan_op \<Rightarrow> fan_state \<Rightarrow> fan_state" where
  "fan_step (FOpen auto canFlush ctx eventType q m) s = snd (snd (sseSubscribeHandler auto canFlush ctx eventType q m s))"
| "fan_step (FTick st) s = stream_tick st s"
| "fan_step (FClose st) s = stream_end st s"
| "fan_step (FDone r) s = s\<lparr>fs_done := fs_done s @ [r]\<rparr>"
| "fan_step (FSocket cid ch) s = snd (ws_subscribe cid ch s)"
| "fan_step (FSocketGone c) s = s\<lparr>fs_sse := RemoveWSEvent c (fs_sse s)\<rparr>"
| "fan_step (FModuleGone cid) s = s\<lparr>fs_sse := CloseForClientID cid (fs_sse s)\<rparr>"
| "fan_step (FEvent kind cid data) s = s\<lparr>fs_written := fs_written s @ fan_writes kind cid data s\<rparr>"

subsection \<open>Removing a subscription\<close>

definition without_ref :: "nat \<Rightarrow> sse_conn list \<Rightarrow> sse_conn list" where
  "without_ref r xs = (case find_conn xs r 0 of None \<Rightarrow> xs | Some i \<Rightarrow> take i xs @ drop (i + 1) xs)"

lemma find_conn_bound: "find_conn xs r k = Some i \<Longrightarrow> k \<le> i \<and> i < k + length xs"
  by (induction xs arbitrary: k) (fastforce split: if_splits)+

lemma set_without_ref: "set (without_ref r xs) \<subseteq> set xs"
  by (auto simp: without_ref_def split: option.splits dest: in_set_takeD in_set_dropD)

lemma conns_of_cong:
  assumes "tab t m' = tab t m" and "se_arrays m' = se_arrays m"
  shows "conns_of t cid m' = conns_of t cid m"
  using assms by (simp add: conns_of_def read_slice_def cong: option.case_cong)

lemma sse_ok_cong:
  assumes "\<And>t. tab t m' = tab t m" and "se_arrays m' = se_arrays m"
  shows "sse_ok m' = sse_ok m"
  by (simp add: sse_ok_def holds_def assms)

lemma len_of_zero: "sse_ok m \<Longrightarrow> len_of t cid m = 0 \<longleftrightarrow> aget (tab t m) cid = None"
  using sse_okD by (fastforce simp: len_conns conns_of_def split: option.splits)

text \<open>A change at one table entry that removes it.\<close>

lemma sse_ok_dropped:
  assumes ok: "sse_ok m"
    and tab: "\<And>t'. tab t' m' = (if t' = t then adel cid (tab t m) else tab t' m)"
    and keep: "\<And>t' cid' s. \<lbrakk>aget (tab t' m) cid' = Some s; \<not> (t' = t \<and> cid' = cid)\<rbrakk> \<Longrightarrow> holds m' s (conns_of t' cid' m)"
  shows "sse_ok m' \<and> conns_of t cid m' = [] \<and>
    (\<forall>t' cid'. \<not> (t' = t \<and> cid' = cid) \<longrightarrow> conns_of t' cid' m' = conns_of t' cid' m)"
proof -
  have get: "aget (tab t' m') c = (if t' = t \<and> c = cid then None else aget (tab t' m) c)" for t' c
    by (simp add: tab)
  have "conns_of t' c m' = conns_of t' c m" if ne: "\<not> (t' = t \<and> c = cid)" for t' c
  proof (cases "aget (tab t' m) c")
    case (Some sl)
    then show ?thesis
      using read_holds [OF keep [OF Some ne]] ne by (auto simp: conns_of_def [of t' c m'] get)
  qed (use ne in \<open>auto simp: conns_of_def get\<close>)
  moreover have "sse_ok m'"
    unfolding sse_ok_def get
  proof (intro conjI allI impI)
    fix t' c sl
    assume "(if t' = t \<and> c = cid then None else aget (tab t' m) c) = Some sl"
    then have "aget (tab t' m) c = Some sl" "\<not> (t' = t \<and> c = cid)"
      by (auto split: if_splits)
    then show "\<exists>xs. xs \<noteq> [] \<and> holds m' sl xs"
      using keep sse_okD(2) [OF ok] by blast
  next
    fix t1 c1 s1 t2 c2 s2
    assume "(if t1 = t \<and> c1 = cid then None else aget (tab t1 m) c1) = Some s1"
      and "(if t2 = t \<and> c2 = cid then None else aget (tab t2 m) c2) = Some s2" and "sl_arr s1 = sl_arr s2"
    then have "t1 = t2 \<and> c1 = c2"
      using ok unfolding sse_ok_def by (auto split: if_splits)
    then show "t1 = t2" "c1 = c2" by simp_all
  qed
  ultimately show ?thesis
    by (simp add: conns_of_def get)
qed

lemma sse_remove_conns:
  assumes ok: "sse_ok m" and cid: "sc_ClientID conn = cid"
  shows "sse_ok (sse_remove t ch conn m) \<and>
    conns_of t cid (sse_remove t ch conn m) = without_ref (sc_ref conn) (conns_of t cid m) \<and>
    (\<forall>t' c. \<not> (t' = t \<and> c = cid) \<longrightarrow> conns_of t' c (sse_remove t ch conn m) = conns_of t' c m)"
proof (cases "aget (tab t m) cid")
  case None
  have "conns_of t' c (set_tab t (adel cid (tab t m)) m) = conns_of t' c m" for t' c
    using None by (intro conns_of_cong) simp_all
  moreover have "sse_ok (set_tab t (adel cid (tab t m)) m) = sse_ok m"
    using None by (intro sse_ok_cong) simp_all
  ultimately show ?thesis
    using None cid ok by (simp add: sse_remove_def Let_def len_of_def without_ref_def) (simp add: conns_of_def)
next
  case (Some s)
  let ?xs = "conns_of t cid m"
  have h: "holds m s ?xs" and ne: "?xs \<noteq> []"
    using sse_okD [OF ok Some] by simp_all
  have read: "read_slice m s = ?xs"
    using Some by (simp add: conns_of_def)
  show ?thesis
  proof (cases "find_conn ?xs (sc_ref conn) 0")
    case None
    then show ?thesis
      using Some cid ok ne len_of_zero [OF ok, of t cid] by (simp add: sse_remove_def Let_def read without_ref_def)
  next
    case (Some i)
    obtain s' m1 where rm: "slice_remove s i m = (s', m1)" by force
    have i: "i < length ?xs"
      using find_conn_bound [OF Some] by simp
    have new: "holds m1 s' (take i ?xs @ drop (i + 1) ?xs)"
      using slice_remove_holds(1) [OF h i rm] .
    have tabs: "tab t' m1 = tab t' m" for t'
      using slice_remove_len [OF rm] by simp
    have arr: "se_arrays m1 = (se_arrays m)[sl_arr s := se_arrays m1 ! sl_arr s]" "sl_arr s' = sl_arr s"
      using rm h by (auto simp: slice_remove_def Let_def holds_def)
    have others: "sl_arr sx \<noteq> sl_arr s' \<and> holds m1 sx (conns_of t' c m)"
      if sx: "aget (tab t' m) c = Some sx" and ne': "\<not> (t' = t \<and> c = cid)" for t' c sx
    proof -
      have "sl_arr sx \<noteq> sl_arr s"
        using ok sx \<open>aget (tab t m) cid = Some s\<close> ne' unfolding sse_ok_def by blast
      then show ?thesis
        using holds_other [OF sse_okD(1) [OF ok sx] _ arr(1)] arr(2) by simp
    qed
    let ?m2 = "set_tab t (aput cid s' (tab t m1)) m1"
    let ?m3 = "if len_of t cid ?m2 = 0 then set_tab t (adel cid (tab t ?m2)) ?m2 else ?m2"
    have len: "len_of t cid ?m2 = length (take i ?xs @ drop (i + 1) ?xs)"
      using new by (simp add: len_of_def holds_def)
    have "sse_ok ?m3 \<and> conns_of t cid ?m3 = take i ?xs @ drop (i + 1) ?xs \<and>
      (\<forall>t' c. \<not> (t' = t \<and> c = cid) \<longrightarrow> conns_of t' c ?m3 = conns_of t' c m)"
    proof (cases "take i ?xs @ drop (i + 1) ?xs = []")
      case True
      then have "len_of t cid ?m2 = 0"
        by (simp only: len list.size)
      then have m3: "?m3 = set_tab t (adel cid (tab t ?m2)) ?m2"
        by (simp only: if_True simp_thms)
      show ?thesis
        unfolding m3 True
      proof (rule sse_ok_dropped [OF ok])
        fix t' show "tab t' (set_tab t (adel cid (tab t ?m2)) ?m2) = (if t' = t then adel cid (tab t m) else tab t' m)"
          by (simp add: tabs delete_update_same)
      next
        fix t' c sx assume "aget (tab t' m) c = Some sx" "\<not> (t' = t \<and> c = cid)"
        from others [OF this] show "holds (set_tab t (adel cid (tab t ?m2)) ?m2) sx (conns_of t' c m)"
          by (simp add: holds_def)
      qed
    next
      case False
      then have "len_of t cid ?m2 \<noteq> 0"
        by (simp only: len length_0_conv not_False_eq_True)
      then have m3: "?m3 = ?m2"
        by (simp only: if_False)
      show ?thesis
        unfolding m3
      proof (rule sse_ok_entry [OF ok])
        fix t' show "tab t' ?m2 = (if t' = t then aput cid s' (tab t m) else tab t' m)"
          by (simp add: tabs)
      next
        show "holds ?m2 s' (take i ?xs @ drop (i + 1) ?xs)"
          using new by (simp add: holds_def)
      next
        fix t' c sx assume "aget (tab t' m) c = Some sx" "\<not> (t' = t \<and> c = cid)"
        from others [OF this] show "sl_arr sx \<noteq> sl_arr s' \<and> holds ?m2 sx (conns_of t' c m)"
          by (simp add: holds_def)
      qed (rule False)
    qed
    moreover have "sse_remove t ch conn m = emitCountChanged cid ch (totalForChannel cid ch ?m3) ?m3"
      using \<open>aget (tab t m) cid = Some s\<close> Some rm cid by (simp add: sse_remove_def Let_def read)
    ultimately show ?thesis
      using Some by (simp add: without_ref_def)
  qed
qed

subsection \<open>Who hears an event\<close>

text \<open>Every connection is filed under its module, and a stream was opened for that module by a request of its account.\<close>

definition filed :: "fan_state \<Rightarrow> table \<Rightarrow> string \<Rightarrow> sse_conn \<Rightarrow> bool" where
  "filed s t cid c \<longleftrightarrow> sc_ref c < fs_next s \<and> (t \<noteq> TWS \<longrightarrow> (\<exists>key account. (sc_ref c, cid, key, account) \<in> set (fs_log s)))"

definition fan_inv :: "fan_state \<Rightarrow> bool" where
  "fan_inv s \<longleftrightarrow> sse_ok (fs_sse s) \<and>
     (\<forall>t cid. \<forall>c \<in> set (conns_of t cid (fs_sse s)). filed s t cid c) \<and>
     (\<forall>(r, cid, key, account) \<in> set (fs_log s). key = [] \<or> key = account)"

lemma fan_invD:
  assumes "fan_inv s"
  shows "sse_ok (fs_sse s)"
    and "c \<in> set (conns_of t cid (fs_sse s)) \<Longrightarrow> filed s t cid c"
    and "(r, cid, key, account) \<in> set (fs_log s) \<Longrightarrow> key = [] \<or> key = account"
  using assms by (auto simp: fan_inv_def)

lemma fan_invI:
  assumes "sse_ok (fs_sse s)"
    and "\<And>t cid c. c \<in> set (conns_of t cid (fs_sse s)) \<Longrightarrow> filed s t cid c"
    and "\<And>r cid key account. (r, cid, key, account) \<in> set (fs_log s) \<Longrightarrow> key = [] \<or> key = account"
  shows "fan_inv s"
  using assms by (fastforce simp: fan_inv_def)

lemma filed_mono: "\<lbrakk>filed s t cid c; fs_next s \<le> fs_next s'; set (fs_log s) \<subseteq> set (fs_log s')\<rbrakk> \<Longrightarrow> filed s' t cid c"
  by (auto simp: filed_def)

lemma cancel_arrays [simp]:
  "se_arrays (CloseForClientID cid m) = se_arrays m"
  "se_arrays (snd (RegisterSSECancel cid f m)) = se_arrays m"
  "se_arrays (unregister_cancel cid i m) = se_arrays m"
  by (simp_all add: CloseForClientID_def RegisterSSECancel_def unregister_cancel_def Let_def split: option.splits)

lemma cancel_conns [simp]:
  "conns_of t c (CloseForClientID cid m) = conns_of t c m"
  "conns_of t c (snd (RegisterSSECancel cid f m)) = conns_of t c m"
  "conns_of t c (unregister_cancel cid i m) = conns_of t c m"
  by (auto intro!: conns_of_cong)

lemma cancel_ok [simp]:
  "sse_ok (CloseForClientID cid m) = sse_ok m"
  "sse_ok (snd (RegisterSSECancel cid f m)) = sse_ok m"
  "sse_ok (unregister_cancel cid i m) = sse_ok m"
  by (intro sse_ok_cong; simp)+

lemma register_eq: "RegisterSSECancel cid f m = (i, m1) \<Longrightarrow> m1 = snd (RegisterSSECancel cid f m)"
  by simp

lemma sse_add_full: "sse_add t ch conn m = (False, m') \<Longrightarrow> m' = m"
  by (auto simp: sse_add_def Let_def split: if_splits prod.splits)

text \<open>The opening of a stream either leaves the tables and the log alone or adds one connection and one entry.\<close>

lemma sseSubscribeHandler_cases:
  assumes "sseSubscribeHandler auto canFlush ctx eventType q m s = (a, m', s')"
  obtains (out) "fs_log s' = fs_log s" "sse_ok (fs_sse s') = sse_ok (fs_sse s)"
      "\<And>t cid. conns_of t cid (fs_sse s') = conns_of t cid (fs_sse s)"
      "\<And>st. a \<noteq> Streaming st" "fs_next s \<le> fs_next s'"
  | (opened) st sse1 ref key where "a = Streaming st" "sse_add (st_table st) (st_channel st) (st_conn st) sse1 = (True, fs_sse s')"
      "sse_ok sse1 = sse_ok (fs_sse s)" "\<And>t cid. conns_of t cid sse1 = conns_of t cid (fs_sse s)"
      "fs_log s' = fs_log s @ [(sc_ref (st_conn st), sc_ClientID (st_conn st), key, cl_apiKey (mg_heap m' ! ref))]"
      "GetClient (sc_ClientID (st_conn st)) m' = Some ref"
      "key = (case ctx of None \<Rightarrow> [] | Some c \<Rightarrow> rc_MasterAPIKey c)" "key = [] \<or> key = cl_apiKey (mg_heap m' ! ref)"
      "st_table st \<noteq> TWS" "sc_ref (st_conn st) = fs_next s"
      "fs_next s' = fs_next s + 1"
proof (cases "stream_query q ''clientId'' = []")
  case True
  then show ?thesis
    using assms by (intro out) (auto simp: sseSubscribeHandler_def)
next
  case False
  obtain o1 clientID m1 where sc: "stream_client auto ctx (stream_query q ''clientId'') m = ((o1, clientID), m1)"
    by (metis prod.exhaust)
  show ?thesis
  proof (cases o1)
    case None
    then show ?thesis
      using assms False sc by (intro out) (auto simp: sseSubscribeHandler_def)
  next
    case (Some ref)
    have got: "GetClient clientID m1 = Some ref"
      using sc Some by (auto simp: stream_client_def Let_def split: option.splits prod.splits if_splits)
    obtain i sse1 where reg: "RegisterSSECancel clientID (fs_next s) (fs_sse s) = (i, sse1)" by force
    note sse1 = register_eq [OF reg]
    note A = assms False sc Some reg
    let ?key = "case ctx of None \<Rightarrow> [] | Some c \<Rightarrow> rc_MasterAPIKey c"
    show ?thesis
    proof (cases "(?key \<noteq> [] \<and> cl_apiKey (mg_heap m1 ! ref) \<noteq> ?key) \<or> \<not> canFlush \<or> stream_table eventType = None")
      case True
      then have "fs_log s' = fs_log s \<and> fs_sse s' = unregister_cancel clientID i sse1 \<and> (\<forall>st. a \<noteq> Streaming st) \<and> fs_next s \<le> fs_next s'"
        using A by (simp add: sseSubscribeHandler_def Let_def split: if_splits)
          (auto split: if_splits option.splits)
      then show ?thesis
        by (intro out) (simp_all add: sse1)
    next
      case ok: False
      then obtain t ch where t: "stream_table eventType = Some (t, ch)" by force
      let ?conn = "\<lparr>sc_ref = fs_next s, sc_ClientID = clientID, sc_Channel = ch\<rparr>"
      obtain b sse2 where add: "sse_add t ch ?conn sse1 = (b, sse2)" by force
      show ?thesis
      proof (cases b)
        case False
        have "fs_log s' = fs_log s \<and> fs_sse s' = unregister_cancel clientID i sse2 \<and> (\<forall>st. a \<noteq> Streaming st) \<and> fs_next s \<le> fs_next s'"
          using A ok t add False by (auto simp: sseSubscribeHandler_def Let_def)
        then show ?thesis
          using sse_add_full [of t ch ?conn sse1 sse2] add False by (intro out) (simp_all add: sse1)
      next
        case True
        have "t \<noteq> TWS"
          using t by (auto simp: stream_table_def split: if_splits)
        moreover have "a = Streaming \<lparr>st_conn = ?conn, st_table = t, st_channel = ch, st_cancel = i\<rparr> \<and> m' = m1 \<and>
            fs_sse s' = sse2 \<and> fs_next s' = fs_next s + 1 \<and> fs_log s' = fs_log s @ [(fs_next s, clientID, ?key, cl_apiKey (mg_heap m1 ! ref))]"
          using A ok t add True by (auto simp: sseSubscribeHandler_def Let_def)
        ultimately show ?thesis
          using ok got add True by (intro opened [of "\<lparr>st_conn = ?conn, st_table = t, st_channel = ch, st_cancel = i\<rparr>" sse1 ?key ref])
            (auto simp: sse1)
      qed
    qed
  qed
qed

lemma fan_inv_add:
  assumes inv: "fan_inv s" and add: "sse_add t ch conn sse1 = (True, sse2)" and ok: "sse_ok sse1"
    and conns: "\<And>t cid. conns_of t cid sse1 = conns_of t cid (fs_sse s)"
    and sse: "fs_sse s' = sse2" and log: "set (fs_log s) \<subseteq> set (fs_log s')" and "next": "fs_next s \<le> fs_next s'"
    and new: "filed s' t (sc_ClientID conn) conn"
    and owner: "\<And>r cid key account. (r, cid, key, account) \<in> set (fs_log s') \<Longrightarrow> key = [] \<or> key = account"
  shows "fan_inv s'"
proof (rule fan_invI)
  note a = subscribe_appends [OF ok add]
  show "sse_ok (fs_sse s')"
    using a sse by simp
  fix t' cid c
  assume c: "c \<in> set (conns_of t' cid (fs_sse s'))"
  show "filed s' t' cid c"
  proof (cases "c \<in> set (conns_of t' cid (fs_sse s))")
    case True
    then show ?thesis
      using filed_mono [OF fan_invD(2) [OF inv] "next" log] by blast
  next
    case False
    have other: "conns_of t' cid sse2 = conns_of t' cid (fs_sse s)" if "\<not> (t' = t \<and> cid = sc_ClientID conn)"
      using a [THEN conjunct2, THEN conjunct2, THEN conjunct1, rule_format, OF that] conns by simp
    have same: "t' = t \<and> cid = sc_ClientID conn"
    proof (rule ccontr)
      assume n: "\<not> (t' = t \<and> cid = sc_ClientID conn)"
      show False
        using other [OF n] c sse False by simp
    qed
    then have "c \<in> set (conns_of t cid (fs_sse s) @ [conn])"
      using a c sse conns by simp
    then have "c = conn"
      using False same by simp
    with same have "t' = t" "cid = sc_ClientID conn" "c = conn"
      by simp_all
    then show ?thesis
      using new by simp
  qed
qed (use owner in blast)

lemma fan_inv_remove:
  assumes inv: "fan_inv s" and sse: "fs_sse s' = f (sse_remove t ch conn (fs_sse s))" and log: "fs_log s' = fs_log s" "fs_next s' = fs_next s"
    and f: "\<And>m. sse_ok (f m) = sse_ok m" "\<And>t cid m. conns_of t cid (f m) = conns_of t cid m"
  shows "fan_inv s'"
proof (rule fan_invI)
  note r = sse_remove_conns [OF fan_invD(1) [OF inv] refl, where conn = conn and t = t and ch = ch]
  show "sse_ok (fs_sse s')"
    using r sse f by simp
  fix t' cid c
  assume "c \<in> set (conns_of t' cid (fs_sse s'))"
  then have "c \<in> set (conns_of t' cid (fs_sse s))"
    using r sse f set_without_ref [THEN subsetD] by (cases "t' = t \<and> cid = sc_ClientID conn") auto
  then show "filed s' t' cid c"
    using filed_mono [OF fan_invD(2) [OF inv]] log by simp
qed (use fan_invD(3) [OF inv] log in auto)

lemma fan_inv_same:
  assumes inv: "fan_inv s" and log: "fs_log s' = fs_log s" and ok: "sse_ok (fs_sse s') = sse_ok (fs_sse s)"
    and conns: "\<And>t cid. conns_of t cid (fs_sse s') = conns_of t cid (fs_sse s)" and "next": "fs_next s \<le> fs_next s'"
  shows "fan_inv s'"
proof (rule fan_invI)
  show "filed s' t cid c" if "c \<in> set (conns_of t cid (fs_sse s'))" for t cid c
    using filed_mono [OF fan_invD(2) [OF inv] "next"] that log conns by simp
qed (use fan_invD [OF inv] log ok in auto)

lemma fan_inv_step:
  assumes inv: "fan_inv s"
  shows "fan_inv (fan_step op s)"
proof (cases op)
  case (FOpen auto canFlush ctx eventType q m)
  obtain a m' s' where h: "sseSubscribeHandler auto canFlush ctx eventType q m s = (a, m', s')"
    by (metis prod.exhaust)
  then show ?thesis
  proof (cases rule: sseSubscribeHandler_cases)
    case out
    then show ?thesis
      using FOpen h by (intro fan_inv_same [OF inv]) simp_all
  next
    case (opened st sse1 ref key)
    have "fan_inv s'"
    proof (rule fan_inv_add [OF inv opened(2) _ opened(4) refl])
      show "sse_ok sse1"
        using fan_invD(1) [OF inv] opened(3) by simp
      show "filed s' (st_table st) (sc_ClientID (st_conn st)) (st_conn st)"
        using opened(5,10,11) by (auto simp: filed_def)
      show "key = [] \<or> key = account" if "(r, cid, key, account) \<in> set (fs_log s')" for r cid key account
        using that opened(5,8) fan_invD(3) [OF inv] by auto
    qed (auto simp: opened(5,11))
    then show ?thesis
      using FOpen h by simp
  qed
next
  case (FClose st)
  then show ?thesis
    using inv by (intro fan_inv_remove [OF inv, where f = "unregister_cancel (sc_ClientID (st_conn st)) (st_cancel st)"])
      (simp_all add: stream_end_def)
next
  case (FSocket cid ch)
  let ?conn = "\<lparr>sc_ref = fs_next s, sc_ClientID = cid, sc_Channel = ch\<rparr>"
  obtain b sse where add: "sse_add TWS ch ?conn (fs_sse s) = (b, sse)" by force
  have "fs_sse (fan_step op s) = sse" "fs_log (fan_step op s) = fs_log s" "fs_next (fan_step op s) = fs_next s + 1"
    using FSocket add by (simp_all add: ws_subscribe_def AddWSEventFunc_def AddWSEvent_def Let_def split: bool.splits)
  note now = this
  show ?thesis
  proof (cases b)
    case True
    show ?thesis
    proof (rule fan_inv_add [OF inv _ fan_invD(1) [OF inv] refl now(1)])
      show "sse_add TWS ch ?conn (fs_sse s) = (True, sse)"
        using add True by simp
      show "key = [] \<or> key = account" if "(r, c, key, account) \<in> set (fs_log (fan_step op s))" for r c key account
        using that fan_invD(3) [OF inv] now(2) by simp
    qed (simp_all add: now filed_def)
  next
    case False
    then have "sse = fs_sse s"
      using sse_add_full [of TWS ch ?conn] add by simp
    then show ?thesis
      using now by (intro fan_inv_same [OF inv]) simp_all
  qed
next
  case (FSocketGone c)
  then show ?thesis
    using inv by (intro fan_inv_remove [OF inv, where f = "\<lambda>m. m"]) (simp_all add: RemoveWSEvent_def)
qed (use inv in \<open>auto intro: fan_inv_same simp: stream_tick_def\<close>)

lemma fan_inv_run: "fan_inv s \<Longrightarrow> fan_inv (fold fan_step ops s)"
  by (induction ops arbitrary: s) (simp_all add: fan_inv_step)

lemma fan_inv_init: "fan_inv fan_init"
proof (rule fan_inv_def [THEN iffD2], intro conjI)
  have tab: "tab t (fs_sse fan_init) = []" for t
    by (cases t) (simp_all add: fan_init_def NewSSEManager_def)
  then show "sse_ok (fs_sse fan_init)"
    by (simp add: sse_ok_def)
  show "\<forall>t cid. \<forall>c \<in> set (conns_of t cid (fs_sse fan_init)). filed fan_init t cid c"
    by (simp add: conns_of_def tab)
qed (simp add: fan_init_def)

lemma to_streams_conns:
  "SSEEvent r ev body \<in> set (to_streams s t cid pass ev' body') \<Longrightarrow>
    r \<notin> set (fs_done s) \<and> (\<exists>c \<in> set (conns_of t cid (fs_sse s)). sc_ref c = r)"
  by (auto simp: to_streams_def)

lemma to_sockets_no_stream: "SSEEvent r ev body \<notin> set (to_sockets s ch cid pass msg)"
  by (auto simp: to_sockets_def)

lemma fan_writes_conns:
  assumes "SSEEvent r ev body \<in> set (fan_writes kind cid data s)"
  shows "r \<notin> set (fs_done s) \<and> (\<exists>t c. t \<noteq> TWS \<and> c \<in> set (conns_of t cid (fs_sse s)) \<and> sc_ref c = r)"
  using assms
  by (auto simp: fan_writes_def fanoutChatEvent_def fanoutRollData_def fanoutHookEvent_def fanoutCombatEvent_def
      fanoutActorEvent_def fanoutSceneEvent_def Let_def to_sockets_no_stream dest!: to_streams_conns split: if_splits)


subsection \<open>A stream that ends leaves nothing\<close>

lemma without_ref_append: "\<lbrakk>\<forall>x \<in> set xs. sc_ref x \<noteq> sc_ref c\<rbrakk> \<Longrightarrow> without_ref (sc_ref c) (xs @ [c]) = xs"
proof -
  have "\<forall>x \<in> set xs. sc_ref x \<noteq> sc_ref c \<Longrightarrow> find_conn (xs @ [c]) (sc_ref c) k = Some (k + length xs)" for k
    by (induction xs arbitrary: k) simp_all
  then show "\<forall>x \<in> set xs. sc_ref x \<noteq> sc_ref c \<Longrightarrow> ?thesis"
    by (simp add: without_ref_def)
qed

text \<open>In every state the subscriptions can reach, a stream that is opened and ends later, with nothing in between, leaves the subscriptions of every
  table and module as they were before the request, and its request is marked as ended, so that a write that is still
  under way is dropped.
\<close>

theorem stream_leaves_nothing:
  assumes run: "s = fold fan_step ops fan_init"
    and op: "sseSubscribeHandler auto canFlush ctx eventType q m s = (Streaming st, m', s')"
  shows "(\<forall>t cid. conns_of t cid (fs_sse (stream_end st s')) = conns_of t cid (fs_sse s)) \<and>
    sse_ok (fs_sse (stream_end st s')) \<and> sc_ref (st_conn st) \<in> set (fs_done (stream_end st s'))"
  using op
proof (cases rule: sseSubscribeHandler_cases)
  case (opened st' sse1 ref key)
  have inv: "fan_inv s"
    using fan_inv_run [OF fan_inv_init] run by simp
  let ?c = "st_conn st" and ?t = "st_table st" and ?ch = "st_channel st"
  have add: "sse_add ?t ?ch ?c sse1 = (True, fs_sse s')" and ok: "sse_ok sse1" and r: "sc_ref ?c = fs_next s"
    using opened fan_invD(1) [OF inv] by simp_all
  have a: "sse_ok (fs_sse s')" "conns_of ?t (sc_ClientID ?c) (fs_sse s') = conns_of ?t (sc_ClientID ?c) (fs_sse s) @ [?c]"
      "\<And>t cid. \<not> (t = ?t \<and> cid = sc_ClientID ?c) \<Longrightarrow> conns_of t cid (fs_sse s') = conns_of t cid (fs_sse s)"
    using subscribe_appends [OF ok add] opened(4) by simp_all
  note rm = sse_remove_conns [OF a(1) refl, where conn = ?c and t = ?t and ch = ?ch]
  have "without_ref (sc_ref ?c) (conns_of ?t (sc_ClientID ?c) (fs_sse s) @ [?c]) = conns_of ?t (sc_ClientID ?c) (fs_sse s)"
  proof (rule without_ref_append, rule ballI)
    fix x
    assume "x \<in> set (conns_of ?t (sc_ClientID ?c) (fs_sse s))"
    then have "sc_ref x < fs_next s"
      using fan_invD(2) [OF inv] by (simp add: filed_def)
    then show "sc_ref x \<noteq> sc_ref ?c"
      using r by simp
  qed
  then have "conns_of t cid (sse_remove ?t ?ch ?c (fs_sse s')) = conns_of t cid (fs_sse s)" for t cid
    using rm a(2,3) by (cases "t = ?t \<and> cid = sc_ClientID ?c") auto
  then show ?thesis
    using rm by (simp add: stream_end_def)
qed blast

subsection \<open>Filters that do nothing\<close>

text \<open>\<open>whisperOnly\<close> and the \<open>userId\<close> of a chat stream are stored and never read.\<close>

lemma chat_filters_unread:
  "chat_passes data (f\<lparr>sf_WhisperOnly := b, sf_UserID := u\<rparr>) = chat_passes data f"
  by (simp add: chat_passes_def split: option.split)

text \<open>The data of a chat event is the module's message, whose \<open>type\<close> is the text that brought it here, so the
  filter on the type of the chat message, a number, lets every event pass.\<close>

lemma chat_type_filter_dead:
  "get_str data ''type'' = ''chat-event'' \<Longrightarrow> chat_passes data f = chat_passes data (f\<lparr>sf_Type := None\<rparr>)"
  by (auto simp: chat_passes_def get_str_def split: option.splits json.splits)

text \<open>A socket has no filters, whatever its subscription asked for: it is told every event of its channel.\<close>

lemma socket_unfiltered:
  assumes "sc_ref c \<notin> set (akeys (fs_filters s))" and "c \<in> set (conns_of TWS cid (fs_sse s))"
    and "(kind, sc_Channel c) \<in> {(''chat-event'', ''chat-events''), (''roll-data'', ''roll-events''), (''hook-event'', ''hooks''),
      (''combat-event'', ''combat-events''), (''actor-event'', ''actor-events''), (''scene-event'', ''scene-events'')}"
  shows "\<exists>msg. WSEvent (sc_ref c) msg \<in> set (fan_writes kind cid data s)"
proof -
  have f: "filters_of s c = no_filters"
    using assms(1) by (metis filters_of_def aget_keys option.simps(4))
  have passes: "chat_passes d no_filters" "roll_passes d no_filters" "hook_passes d no_filters" "actor_passes d no_filters"
      "scene_passes d no_filters" for d
    by (simp_all add: chat_passes_def roll_passes_def hook_passes_def actor_passes_def scene_passes_def no_filters_def)
  have sock: "WSEvent (sc_ref c) msg \<in> set (to_sockets s ch cid pass msg)" if "pass no_filters" "ch = sc_Channel c" for pass msg ch
    using that assms(2) f by (auto simp: to_sockets_def)
  consider (chat) "kind = ''chat-event''" "''chat-events'' = sc_Channel c" | (roll) "kind = ''roll-data''" "''roll-events'' = sc_Channel c"
    | (hook) "kind = ''hook-event''" "''hooks'' = sc_Channel c" | (combat) "kind = ''combat-event''" "''combat-events'' = sc_Channel c"
    | (actor) "kind = ''actor-event''" "''actor-events'' = sc_Channel c" | (scene) "kind = ''scene-event''" "''scene-events'' = sc_Channel c"
    using assms(3) by auto
  then show ?thesis
  proof cases
    case chat
    then show ?thesis using sock [of "chat_passes data", OF passes(1) chat(2)]
      by (auto simp: fan_writes_def fanoutChatEvent_def)
  next
    case roll
    then show ?thesis using sock [of "roll_passes data", OF passes(2) roll(2)]
      by (auto simp: fan_writes_def fanoutRollData_def)
  next
    case hook
    then show ?thesis using sock [of "hook_passes data", OF passes(3) hook(2)]
      by (auto simp: fan_writes_def fanoutHookEvent_def)
  next
    case combat
    then show ?thesis using sock [of "\<lambda>_. True", OF TrueI combat(2)]
      by (auto simp: fan_writes_def fanoutCombatEvent_def Let_def)
  next
    case actor
    then show ?thesis using sock [of "actor_passes data", OF passes(4) actor(2)]
      by (auto simp: fan_writes_def fanoutActorEvent_def Let_def)
  next
    case scene
    then show ?thesis using sock [of "scene_passes data", OF passes(5) scene(2)]
      by (auto simp: fan_writes_def fanoutSceneEvent_def Let_def)
  qed
qed

text \<open>A key bound to other worlds is refused by the request pipeline and admitted here: the handler compares the account only.\<close>

lemma stream_ignores_worlds:
  assumes "GetClient cid m = Some ref" and "cl_apiKey (mg_heap m ! ref) = rc_MasterAPIKey c" and "cid \<noteq> []"
    and "rc_ScopedKey c = Some k" and "sk_ScopedClientIDs k \<noteq> []" and "cid \<notin> set (sk_ScopedClientIDs k)"
    and "len_of TChat cid (fs_sse s) < MaxSSEConnectionsPerClient"
  shows "(\<exists>st s'. sseSubscribeHandler auto True (Some c) ''chat'' [(''clientId'', cid)] m s = (Streaming st, m, s')) \<and>
    (\<exists>a. bind_client (Some c) [(''clientId'', JStr cid)] = Inl a)"
proof
  obtain i sse1 where reg: "RegisterSSECancel cid (fs_next s) (fs_sse s) = (i, sse1)" by force
  let ?conn = "\<lparr>sc_ref = fs_next s, sc_ClientID = cid, sc_Channel = ''chat-events''\<rparr>"
  have "fst (sse_add TChat ''chat-events'' ?conn sse1)"
    using assms(7) by (simp add: sse_add_False register_eq [OF reg])
  then obtain sse2 where add: "sse_add TChat ''chat-events'' ?conn sse1 = (True, sse2)"
    by (cases "sse_add TChat ''chat-events'' ?conn sse1") auto
  have client: "stream_client auto (Some c) cid m = ((Some ref, cid), m)"
    using assms(1) by (simp add: stream_client_def)
  have table: "stream_table ''chat'' = Some (TChat, ''chat-events'')"
    by (simp add: stream_table_def)
  show "\<exists>st s'. sseSubscribeHandler auto True (Some c) ''chat'' [(''clientId'', cid)] m s = (Streaming st, m, s')"
    using assms(2,3) by (simp add: sseSubscribeHandler_def stream_query_def client reg add table Let_def)
  show "\<exists>a. bind_client (Some c) [(''clientId'', JStr cid)] = Inl a"
    using assms(3-6) by (simp add: bind_client_def scoped_key_def params_GetString_def sk_CanAccessClient_iff Let_def)
qed

subsection \<open>A concrete stream\<close>

definition ex_stream_ctx :: req_context where
  "ex_stream_ctx = ex_ctx\<lparr>rc_MasterAPIKey := ''key''\<rparr>"

definition ex_open :: "unit fan_op" where
  "ex_open = FOpen None True (Some ex_stream_ctx) ''chat'' [(''clientId'', ''fvtt_1'')] (ex_manager False ''i1'')"

definition ex_chat :: sse_conn where
  "ex_chat = \<lparr>sc_ref = 0, sc_ClientID = ''fvtt_1'', sc_Channel = ''chat-events''\<rparr>"

definition ex_stream :: stream where
  "ex_stream = \<lparr>st_conn = ex_chat, st_table = TChat, st_channel = ''chat-events'', st_cancel = 1\<rparr>"

lemma ex_opens:
  "\<exists>s. sseSubscribeHandler None True (Some ex_stream_ctx) ''chat'' [(''clientId'', ''fvtt_1'')] (ex_manager False ''i1'') fan_init =
      (Streaming ex_stream, ex_manager False ''i1'', s) \<and> fs_done s = [] \<and> conns_of TChat ''fvtt_1'' (fs_sse s) = [ex_chat] \<and>
    filters_of s ex_chat = no_filters"
proof -
  obtain i sse1 where reg: "RegisterSSECancel ''fvtt_1'' 0 (fs_sse fan_init) = (i, sse1)" by force
  have i: "i = 1"
    using reg by (auto simp: RegisterSSECancel_def Let_def fan_init_def NewSSEManager_def)
  have none: "conns_of TChat ''fvtt_1'' sse1 = []" "len_of TChat ''fvtt_1'' sse1 = 0"
    by (simp_all add: register_eq [OF reg] conns_of_def len_of_def fan_init_def NewSSEManager_def)
  have ok: "sse_ok sse1"
    using fan_invD(1) [OF fan_inv_init] by (simp add: register_eq [OF reg])
  have "fst (sse_add TChat ''chat-events'' ex_chat sse1)"
    using none by (simp add: sse_add_False ex_chat_def MaxSSEConnectionsPerClient_def)
  then obtain sse2 where add: "sse_add TChat ''chat-events'' ex_chat sse1 = (True, sse2)"
    by (cases "sse_add TChat ''chat-events'' ex_chat sse1") auto
  have "conns_of TChat ''fvtt_1'' sse2 = [ex_chat]"
    using subscribe_appends [OF ok add] none by (simp add: ex_chat_def)
  moreover have "stream_filters ''chat'' [(''clientId'', ''fvtt_1'')] = no_filters"
    by (simp add: stream_filters_def stream_query_def no_filters_def)
  ultimately show ?thesis
    using add ex_target(1,5) reg i
    by (simp add: sseSubscribeHandler_def stream_query_def stream_client_def Let_def stream_table_def ex_stream_ctx_def ex_chat_def
        ex_stream_def fan_init_def filters_of_def)
qed


lemma stream_leaves_nothing_witness:
  "\<exists>s. conns_of TChat ''fvtt_1'' (fs_sse (stream_end ex_stream s)) = conns_of TChat ''fvtt_1'' (fs_sse fan_init)"
proof -
  obtain s where "sseSubscribeHandler None True (Some ex_stream_ctx) ''chat'' [(''clientId'', ''fvtt_1'')] (ex_manager False ''i1'')
      fan_init = (Streaming ex_stream, ex_manager False ''i1'', s)"
    using ex_opens by blast
  from stream_leaves_nothing [OF _ this, of "[] :: unit fan_op list"] show ?thesis
    by auto
qed

end
