(* ===== verification/Forward.thy ===== *)
theory Forward
  imports Route
begin

text \<open>
  Several relay instances behind one address: the forwarding middleware of
  \<open>internal/middleware/forwarder.go\<close>, which sends a request on to the instance that Redis names, the
  function of \<open>internal/server/server.go\<close> that asks another instance to run an action, and the endpoint
  that does so, \<open>internal/handler/internal_forward.go\<close>.  What Redis holds is a function \<open>rget\<close>, \<open>None\<close> standing for
  a missing entry and for an error alike, as the code treats them; the network is a function from the name
  of an instance to the forwarder that runs there.
\<close>

subsection \<open>Where a request goes\<close>

record forwarder =
  fo_hasRedis :: bool  \<comment> \<open>there is a client and it is connected\<close>
  fo_instanceID :: string
  fo_appName :: string
  fo_internalPort :: string

record fwd_request =
  fq_path :: string
  fq_uri :: string
  fq_apiKey :: string
  fq_clientId :: string
  fq_accept :: string

datatype forwarding = ServeHere | ForwardTo string | StreamFrom string

definition starts_with :: "string \<Rightarrow> string \<Rightarrow> bool" where
  "starts_with p s \<longleftrightarrow> take (length p) s = p"

text \<open>The instance an entry names, unless it is this one.\<close>

definition elsewhere :: "(string \<Rightarrow> string option) \<Rightarrow> forwarder \<Rightarrow> string \<Rightarrow> string" where
  "elsewhere rget f key =
     (case rget key of
        Some instanceID \<Rightarrow> if instanceID \<noteq> [] \<and> instanceID \<noteq> fo_instanceID f then instanceID else []
      | None \<Rightarrow> [])"

definition forward_target :: "(string \<Rightarrow> string option) \<Rightarrow> forwarder \<Rightarrow> fwd_request \<Rightarrow> string" where
  "forward_target rget f r =
     (let t = (if fq_clientId r \<noteq> [] then elsewhere rget f (client_key (fq_clientId r) ''instance'') else [])
      in if t = [] then elsewhere rget f (apikey_key (fq_apiKey r) ''instance'') else t)"

definition forwarder_middleware :: "(string \<Rightarrow> string option) \<Rightarrow> forwarder \<Rightarrow> fwd_request \<Rightarrow> forwarding" where
  "forwarder_middleware rget f r =
     (if \<not> fo_hasRedis f \<or> fo_appName f = [] then ServeHere
      else if fq_path r = ''/health'' \<or> starts_with ''/static'' (fq_path r) \<or> fq_path r = ''/'' then ServeHere
      else if fq_apiKey r = [] then ServeHere
      else (let t = forward_target rget f r
            in if t = [] then ServeHere
               else if fq_accept r = ''text/event-stream'' then StreamFrom t
               else ForwardTo t))"

definition forward_url :: "forwarder \<Rightarrow> string \<Rightarrow> string \<Rightarrow> string" where
  "forward_url f target uri =
     ''http://'' @ target @ ''.vm.'' @ fo_appName f @ ''.internal:'' @
     (if fo_internalPort f = [] then ''3010'' else fo_internalPort f) @ uri"

subsection \<open>The answer on its way back\<close>

record http_response =
  hr_status :: int
  hr_headers :: "(string \<times> string) list"
  hr_body :: string

definition hop_headers :: "string list" where
  "hop_headers = [''connection'', ''content-length'', ''transfer-encoding'']"

definition passed_headers :: "(string \<times> string) list \<Rightarrow> (string \<times> string) list" where
  "passed_headers hs = filter (\<lambda>(k, v). to_lower k \<notin> set hop_headers) hs"

definition sent_headers :: "(string \<times> string) list \<Rightarrow> (string \<times> string) list" where
  "sent_headers hs = filter (\<lambda>(k, v). to_lower k \<noteq> ''host'') hs"

definition body_cap :: nat where
  "body_cap = 256 * 2 ^ 20"

text \<open>\<open>None\<close> when the other instance cannot be reached in time.\<close>

definition forwardRequest :: "http_response option \<Rightarrow> http_response" where
  "forwardRequest resp =
     (case resp of
        None \<Rightarrow> \<lparr>hr_status = 502, hr_headers = [], hr_body = ''Bad Gateway: upstream instance unavailable''\<rparr>
      | Some r \<Rightarrow> \<lparr>hr_status = hr_status r, hr_headers = passed_headers (hr_headers r), hr_body = take body_cap (hr_body r)\<rparr>)"

definition forwardSSE :: "http_response option \<Rightarrow> http_response" where
  "forwardSSE resp =
     (case resp of
        None \<Rightarrow> \<lparr>hr_status = 502, hr_headers = [], hr_body = ''Bad Gateway: upstream SSE unavailable''\<rparr>
      | Some r \<Rightarrow> \<lparr>hr_status = hr_status r, hr_headers = passed_headers (hr_headers r), hr_body = hr_body r\<rparr>)"

definition forward_timeout :: "string \<Rightarrow> int" where
  "forward_timeout path = (if path = ''/upload'' \<or> path = ''/download'' then seconds 45 else seconds 20)"

subsection \<open>A request on its way\<close>

text \<open>
  Every instance runs the same middleware, so a forwarded request is looked up again where it
  arrives.  The result is the instances it visits; an unreachable one ends it with the answer 502.
  A request that never comes to rest has no result.
\<close>

definition next_instance :: "(string \<Rightarrow> string option) \<Rightarrow> forwarder \<Rightarrow> fwd_request \<Rightarrow> string option" where
  "next_instance rget f r =
     (case forwarder_middleware rget f r of ServeHere \<Rightarrow> None | ForwardTo j \<Rightarrow> Some j | StreamFrom j \<Rightarrow> Some j)"

partial_function (option) visits :: "(string \<Rightarrow> string option) \<Rightarrow> (string \<Rightarrow> forwarder option) \<Rightarrow> fwd_request \<Rightarrow> string \<Rightarrow> string list option" where
  "visits rget net r i =
     (case net i of
        None \<Rightarrow> Some []
      | Some f \<Rightarrow>
          (case next_instance rget f r of
             None \<Rightarrow> Some [i]
           | Some j \<Rightarrow> Option.bind (visits rget net r j) (\<lambda>is. Some (i # is))))"

subsection \<open>An action for another instance\<close>

record forward_body =
  fb_TargetClientID :: string
  fb_Action :: string
  fb_Payload :: obj

definition write_result :: "bool \<Rightarrow> string \<Rightarrow> obj option \<Rightarrow> obj" where
  "write_result success errMsg data =
     [(''success'', JBool success)] @ (if errMsg \<noteq> [] then [(''error'', JStr errMsg)] else []) @
     (case data of Some d \<Rightarrow> [(''data'', JObj d)] | None \<Rightarrow> [])"

datatype action_step = Replied obj | AwaitTarget string nat

definition InternalForwardActionHandler ::
    "gotime \<Rightarrow> forward_body option \<Rightarrow> 'h route_state \<Rightarrow> action_step \<times> 'h route_state" where
  "InternalForwardActionHandler now body s =
     (case body of
        None \<Rightarrow> (Replied (write_result False ''bad request body'' None), s)
      | Some b \<Rightarrow>
          if fb_TargetClientID b = [] \<or> fb_Action b = []
          then (Replied (write_result False ''targetClientId and action are required'' None), s)
          else (case GetClient (fb_TargetClientID b) (rt_manager s) of
                  None \<Rightarrow> (Replied (write_result False ''target not connected on this instance'' None), s)
                | Some target \<Rightarrow>
                    (let relayRequestID = ''irr_'' @ int_text now @ ''_'' @ fb_Action b;
                         ch = fresh_chan (rt_pending s);
                         req = \<lparr>pr_ResponseCh = ch, pr_Type = fb_Action b, pr_ClientID = cl_id (mg_heap (rt_manager s) ! target),
                                pr_UUID = [], pr_Path = [], pr_Query = [], pr_Filter = [], pr_Format = [],
                                pr_ActiveTab = None, pr_DarkMode = False, pr_InitScale = None, pr_Timestamp = now,
                                pr_MaxAge = seconds 90, pr_WSCallback = False\<rparr>;
                         p = Store relayRequestID req (new_chan ch (rt_pending s));
                         msg = aput ''requestId'' (JStr relayRequestID) (aput ''type'' (JStr (fb_Action b)) (fb_Payload b));
                         (sent, m) = send_to target (JObj msg) (rt_manager s)
                     in if \<not> sent
                        then (Replied (write_result False ''failed to send to target client'' None),
                              s\<lparr>rt_manager := m, rt_pending := Pending.Delete relayRequestID p\<rparr>)
                        else (AwaitTarget relayRequestID ch, s\<lparr>rt_manager := m, rt_pending := p\<rparr>))))"

text \<open>The answer on the channel, or the timeout.  A parse error leaves \<open>result\<close> empty.\<close>

definition internal_answer :: "(string \<Rightarrow> obj option) \<Rightarrow> WSResponse option \<Rightarrow> obj" where
  "internal_answer unmarshal resp =
     (case resp of
        None \<Rightarrow> write_result False ''nil response from target'' None
      | Some r \<Rightarrow>
          (let result = (case RawData r of
                           Some raw \<Rightarrow> (case unmarshal raw of Some d \<Rightarrow> d | None \<Rightarrow> [])
                         | None \<Rightarrow> (case Data r of Some d \<Rightarrow> d | None \<Rightarrow> []))
           in write_result True [] (Some (adel ''requestId'' result))))"

definition internal_timeout :: "string \<Rightarrow> 'h route_state \<Rightarrow> obj \<times> 'h route_state" where
  "internal_timeout relayRequestID s =
     (write_result False ''request timed out'' None, s\<lparr>rt_pending := Pending.Delete relayRequestID (rt_pending s)\<rparr>)"

text \<open>
  \<open>forwardToInstance\<close>: the body sent, and what becomes of the reply.  \<open>reply\<close> is the decoded body of the
  answer, an error of the transport or of the decoding otherwise.
\<close>

definition forward_body_of :: "string \<Rightarrow> string \<Rightarrow> obj \<Rightarrow> forward_body" where
  "forward_body_of targetClientID action payload =
     \<lparr>fb_TargetClientID = targetClientID, fb_Action = action, fb_Payload = payload\<rparr>"

definition forward_result :: "string + obj \<Rightarrow> string + obj" where
  "forward_result reply =
     (case reply of
        Inl err \<Rightarrow> Inl err
      | Inr result \<Rightarrow>
          if \<not> get_bool result ''success'' then Inl (get_str result ''error'')
          else (case aget result ''data'' of Some (JObj d) \<Rightarrow> Inr d | _ \<Rightarrow> Inr []))"

subsection \<open>Where requests come to rest\<close>

text \<open>The part of an entry that counts: an instance other than the empty text.\<close>

definition entry :: "(string \<Rightarrow> string option) \<Rightarrow> string \<Rightarrow> string option" where
  "entry rget key = (case rget key of Some i \<Rightarrow> if i \<noteq> [] then Some i else None | None \<Rightarrow> None)"

definition client_at :: "(string \<Rightarrow> string option) \<Rightarrow> fwd_request \<Rightarrow> string option" where
  "client_at rget r = (if fq_clientId r = [] then None else entry rget (client_key (fq_clientId r) ''instance''))"

definition key_at :: "(string \<Rightarrow> string option) \<Rightarrow> fwd_request \<Rightarrow> string option" where
  "key_at rget r = entry rget (apikey_key (fq_apiKey r) ''instance'')"

definition routable :: "forwarder \<Rightarrow> fwd_request \<Rightarrow> bool" where
  "routable f r \<longleftrightarrow> fo_hasRedis f \<and> fo_appName f \<noteq> [] \<and> fq_apiKey r \<noteq> [] \<and>
     fq_path r \<noteq> ''/health'' \<and> \<not> starts_with ''/static'' (fq_path r) \<and> fq_path r \<noteq> ''/''"

lemma elsewhere_entry:
  "elsewhere rget f key = (case entry rget key of Some i \<Rightarrow> if i \<noteq> fo_instanceID f then i else [] | None \<Rightarrow> [])"
  by (simp add: elsewhere_def entry_def split: option.split)

lemma entry_nonempty: "entry rget key = Some i \<Longrightarrow> i \<noteq> []"
  by (auto simp: entry_def split: option.splits if_splits)

lemma client_at_nonempty: "client_at rget r = Some i \<Longrightarrow> i \<noteq> []"
  by (auto simp: client_at_def dest: entry_nonempty split: if_splits)

lemma forward_target_at:
  "forward_target rget f r =
    (case client_at rget r of
       Some i \<Rightarrow> if i \<noteq> fo_instanceID f then i
                 else (case key_at rget r of Some j \<Rightarrow> if j \<noteq> fo_instanceID f then j else [] | None \<Rightarrow> [])
     | None \<Rightarrow> (case key_at rget r of Some j \<Rightarrow> if j \<noteq> fo_instanceID f then j else [] | None \<Rightarrow> []))"
proof (cases "client_at rget r")
  case None
  then show ?thesis
    by (simp add: forward_target_def elsewhere_entry client_at_def key_at_def Let_def split: if_splits)
next
  case (Some i)
  then have "fq_clientId r \<noteq> []" "entry rget (client_key (fq_clientId r) ''instance'') = Some i" "i \<noteq> []"
    by (auto simp: client_at_def dest: entry_nonempty split: if_splits)
  then show ?thesis
    by (simp add: forward_target_def elsewhere_entry client_at_def key_at_def Let_def)
qed

lemma next_instance_at:
  "next_instance rget f r =
    (if \<not> routable f r then None
     else (case client_at rget r of
             Some i \<Rightarrow> if i \<noteq> fo_instanceID f then Some i
                       else (case key_at rget r of Some j \<Rightarrow> if j \<noteq> fo_instanceID f then Some j else None | None \<Rightarrow> None)
           | None \<Rightarrow> (case key_at rget r of Some j \<Rightarrow> if j \<noteq> fo_instanceID f then Some j else None | None \<Rightarrow> None)))"
proof -
  have "forwarder_middleware rget f r =
      (if \<not> routable f r \<or> forward_target rget f r = [] then ServeHere
       else if fq_accept r = ''text/event-stream'' then StreamFrom (forward_target rget f r) else ForwardTo (forward_target rget f r))"
    by (simp add: forwarder_middleware_def routable_def Let_def)
  then have "next_instance rget f r =
      (if \<not> routable f r \<or> forward_target rget f r = [] then None else Some (forward_target rget f r))"
    by (simp add: next_instance_def)
  moreover have "key_at rget r = Some j \<Longrightarrow> j \<noteq> []" for j
    by (simp add: key_at_def entry_nonempty)
  ultimately show ?thesis
    using client_at_nonempty [of rget r] unfolding forward_target_at
    by (cases "client_at rget r"; cases "key_at rget r") simp_all
qed

text \<open>The instances of one deployment: each is known under its own name and sees the same request as routable.\<close>

definition fleet :: "(string \<Rightarrow> forwarder option) \<Rightarrow> fwd_request \<Rightarrow> bool" where
  "fleet net r \<longleftrightarrow> (\<forall>i f. net i = Some f \<longrightarrow> fo_instanceID f = i)"

text \<open>An instance at which a request stays.\<close>

definition rests_at :: "(string \<Rightarrow> string option) \<Rightarrow> (string \<Rightarrow> forwarder option) \<Rightarrow> fwd_request \<Rightarrow> string \<Rightarrow> bool" where
  "rests_at rget net r i \<longleftrightarrow> (case net i of None \<Rightarrow> True | Some f \<Rightarrow> next_instance rget f r = None)"

lemma visits_rest: "rests_at rget net r i \<Longrightarrow> visits rget net r i = Some (if net i = None then [] else [i])"
  by (subst visits.simps) (auto simp: rests_at_def split: option.splits)

lemma visits_hop: "\<lbrakk>net i = Some f; next_instance rget f r = Some j\<rbrakk> \<Longrightarrow> visits rget net r i = map_option ((#) i) (visits rget net r j)"
  by (subst visits.simps) (simp add: map_conv_bind_option comp_def)

definition home :: "(string \<Rightarrow> string option) \<Rightarrow> fwd_request \<Rightarrow> string option" where
  "home rget r = (case client_at rget r of Some b \<Rightarrow> Some b | None \<Rightarrow> key_at rget r)"

text \<open>Without a conflict between the two entries, the only instance named is the home of the request.\<close>

lemma next_instance_home:
  assumes "client_at rget r = None \<or> key_at rget r = None \<or> client_at rget r = key_at rget r"
  shows "next_instance rget f r =
    (case home rget r of Some j \<Rightarrow> if routable f r \<and> j \<noteq> fo_instanceID f then Some j else None | None \<Rightarrow> None)"
  using assms by (auto simp: next_instance_at home_def split: option.split)

lemma home_rests:
  assumes "fleet net r" and "client_at rget r = None \<or> key_at rget r = None \<or> client_at rget r = key_at rget r"
    and "home rget r = Some j"
  shows "rests_at rget net r j"
  using assms(1,3) by (auto simp: rests_at_def next_instance_home [OF assms(2)] fleet_def split: option.split)

text \<open>C28: A forwarded request comes to rest: unless Redis names one instance for the module and another one for the
  key, a request visits at most two instances wherever it arrives, and the last one is the module's, or
  the key's when the request names no connected module, provided that the instances are up and forward at all.
\<close>

theorem forwarding_ends:
  assumes "fleet net r"
    and "client_at rget r = None \<or> key_at rget r = None \<or> client_at rget r = key_at rget r"
  shows "\<exists>is. visits rget net r i = Some is \<and> length is \<le> 2 \<and>
    ((\<forall>i f. net i = Some f \<longrightarrow> routable f r) \<and> net i \<noteq> None \<longrightarrow>
      (\<forall>j. home rget r = Some j \<and> net j \<noteq> None \<longrightarrow> is \<noteq> [] \<and> last is = j))"
proof (cases "net i")
  case None
  then show ?thesis
    using visits_rest [of rget net r i] by (simp add: rests_at_def)
next
  case (Some f)
  have me: "fo_instanceID f = i"
    using assms(1) Some by (simp add: fleet_def)
  show ?thesis
  proof (cases "next_instance rget f r")
    case None
    then have "visits rget net r i = Some [i]"
      using visits_rest [of rget net r i] Some by (simp add: rests_at_def)
    then show ?thesis
      using None Some me by (auto simp: next_instance_home [OF assms(2)] split: option.splits if_splits)
  next
    case hop: (Some j)
    then have j: "home rget r = Some j"
      by (auto simp: next_instance_home [OF assms(2)] split: option.splits if_splits)
    have "visits rget net r j = Some (if net j = None then [] else [j])"
      by (rule visits_rest [OF home_rests [OF assms j]])
    then have "visits rget net r i = Some (i # (if net j = None then [] else [j]))"
      using visits_hop [of net i f rget r j] Some hop by simp
    then show ?thesis
      using j by auto
  qed
qed

text \<open>Two instances named: the one of the module sends the request to the one of the key, which sends it back.\<close>

definition conflict :: "(string \<Rightarrow> string option) \<Rightarrow> (string \<Rightarrow> forwarder option) \<Rightarrow> fwd_request \<Rightarrow> bool" where
  "conflict rget net r \<longleftrightarrow> fleet net r \<and> (\<forall>i f. net i = Some f \<longrightarrow> routable f r) \<and>
     (\<exists>a b. client_at rget r = Some b \<and> key_at rget r = Some a \<and> a \<noteq> b \<and> net a \<noteq> None \<and> net b \<noteq> None)"

lemma conflict_next:
  assumes "conflict rget net r" and "net i = Some f"
  shows "\<exists>j. next_instance rget f r = Some j \<and> net j \<noteq> None"
  using assms by (auto simp: conflict_def next_instance_at fleet_def)

lemma no_visits:
  assumes "visits rget net r i = Some is"
  shows "conflict rget net r \<longrightarrow> net i = None"
proof (rule visits.raw_induct [where P = "\<lambda>rget net r i is. conflict rget net r \<longrightarrow> net i = None", OF _ assms])
  fix vis :: "(string \<Rightarrow> string option) \<Rightarrow> (string \<Rightarrow> forwarder option) \<Rightarrow> fwd_request \<Rightarrow> string \<Rightarrow> string list option"
    and rget net r i "is"
  assume ih: "\<And>rget net r i is. vis rget net r i = Some is \<Longrightarrow> conflict rget net r \<longrightarrow> net i = None"
    and body: "(case net i of None \<Rightarrow> Some []
      | Some f \<Rightarrow> (case next_instance rget f r of None \<Rightarrow> Some [i] | Some j \<Rightarrow> Option.bind (vis rget net r j) (\<lambda>is. Some (i # is)))) = Some is"
  show "conflict rget net r \<longrightarrow> net i = None"
  proof (intro impI, rule ccontr)
    assume c: "conflict rget net r" and "net i \<noteq> None"
    then obtain f j where f: "net i = Some f" and j: "next_instance rget f r = Some j" "net j \<noteq> None"
      using conflict_next [OF c] by blast
    then obtain js where "vis rget net r j = Some js"
      using body by (auto simp: bind_eq_Some_conv)
    then show False
      using ih [of rget net r j js] c j(2) by simp
  qed
qed

text \<open>A conflict is a loop: the request is forwarded for ever, wherever it arrives.\<close>

theorem forwarding_loops:
  assumes "conflict rget net r" and "net i \<noteq> None"
  shows "visits rget net r i = None"
  using no_visits [of rget net r i] assms by (cases "visits rget net r i") auto

subsection \<open>The endpoint for other instances\<close>

text \<open>
  Whoever reaches the endpoint has any action run by any connected module: there is no check of an account, a scope
  or a rate, all of which the tunnel makes before it calls the endpoint of another instance.
\<close>

lemma internal_forward_unchecked:
  assumes "GetClient cid (rt_manager s) = Some target" and "cid \<noteq> []" and "action \<noteq> []"
    and "IsAlive (mg_heap (rt_manager s) ! target)" and "length (cl_sendCh (mg_heap (rt_manager s) ! target)) < sendCap"
    and "target < length (mg_heap (rt_manager s))"
  shows "\<exists>rid ch s'. InternalForwardActionHandler now (Some (forward_body_of cid action payload)) s = (AwaitTarget rid ch, s') \<and>
    cl_sendCh (mg_heap (rt_manager s') ! target) = cl_sendCh (mg_heap (rt_manager s) ! target) @
      [Encoded (JObj (aput ''requestId'' (JStr rid) (aput ''type'' (JStr action) payload)))]"
  using assms
  by (simp add: InternalForwardActionHandler_def forward_body_of_def send_to_def Send_def enqueue_def heap_update_def Let_def)

text \<open>What the module answers to an action sent through another instance is what the tunnel gets, without the request identifier:
  answering, writing the reply, reading it and unwrapping it loses nothing of a JSON answer, and a request that failed on the
  other instance is an error here.
\<close>

theorem forward_transparent:
  "forward_result (Inr (internal_answer unmarshal (Some \<lparr>StatusCode = n, Data = Some d, RawData = None\<rparr>))) = Inr (adel ''requestId'' d) \<and>
   (unmarshal raw = Some d \<longrightarrow>
     forward_result (Inr (internal_answer unmarshal (Some \<lparr>StatusCode = n, Data = x, RawData = Some raw\<rparr>))) = Inr (adel ''requestId'' d)) \<and>
   forward_result (Inr (internal_answer unmarshal None)) = Inl ''nil response from target'' \<and>
   forward_result (Inr (fst (internal_timeout rid s))) = Inl ''request timed out'' \<and>
   (InternalForwardActionHandler now body s = (Replied reply, s') \<longrightarrow> (\<exists>err. forward_result (Inr reply) = Inl err \<and> err \<noteq> []) \<and>
     (\<forall>k. k \<noteq> ''irr_'' @ int_text now @ ''_'' @ (case body of Some b \<Rightarrow> fb_Action b | None \<Rightarrow> []) \<longrightarrow>
       Load k (rt_pending s') = Load k (rt_pending s)))"
proof -
  have a: "forward_result (Inr (write_result True [] (Some x))) = Inr x" for x
    by (simp add: forward_result_def write_result_def get_bool_def)
  have b: "forward_result (Inr (write_result False e None)) = Inl e" if "e \<noteq> []" for e
    using that by (simp add: forward_result_def write_result_def get_bool_def get_str_def)
  have c: "(\<exists>err. forward_result (Inr reply) = Inl err \<and> err \<noteq> []) \<and>
     (\<forall>k. k \<noteq> ''irr_'' @ int_text now @ ''_'' @ (case body of Some b \<Rightarrow> fb_Action b | None \<Rightarrow> []) \<longrightarrow>
       Load k (rt_pending s') = Load k (rt_pending s))"
    if "InternalForwardActionHandler now body s = (Replied reply, s')"
    using that by (auto simp: InternalForwardActionHandler_def b Let_def Load_def Pending.Delete_def Store_def new_chan_def
        split: option.splits if_splits prod.splits)
  show ?thesis
    using c by (auto simp: internal_answer_def internal_timeout_def a b Let_def)
qed

subsection \<open>Two instances\<close>

definition ex_forwarder :: "string \<Rightarrow> forwarder" where
  "ex_forwarder i = \<lparr>fo_hasRedis = True, fo_instanceID = i, fo_appName = ''relay'', fo_internalPort = []\<rparr>"

definition ex_net :: "string \<Rightarrow> forwarder option" where
  "ex_net i = (if i = ''i1'' \<or> i = ''i2'' then Some (ex_forwarder i) else None)"

definition ex_fwd_request :: fwd_request where
  "ex_fwd_request = \<lparr>fq_path = ''/get'', fq_uri = ''/get?clientId=fvtt_1'', fq_apiKey = ''k1'', fq_clientId = ''fvtt_1'', fq_accept = []\<rparr>"

definition ex_redis :: "(string \<times> string) list \<Rightarrow> string \<Rightarrow> string option" where
  "ex_redis kvs k = aget kvs k"

lemma ex_fleet: "fleet ex_net ex_fwd_request" "\<forall>i f. ex_net i = Some f \<longrightarrow> routable f ex_fwd_request"
  by (auto simp: fleet_def ex_net_def ex_forwarder_def routable_def ex_fwd_request_def starts_with_def)

lemma forwarding_ends_witness:
  "visits (ex_redis [(''client:fvtt_1:instance'', ''i2'')]) ex_net ex_fwd_request ''i1'' \<noteq> None"
proof -
  have "key_at (ex_redis [(''client:fvtt_1:instance'', ''i2'')]) ex_fwd_request = None"
    by (simp add: key_at_def entry_def ex_redis_def apikey_key_def ex_fwd_request_def)
  then show ?thesis
    using forwarding_ends [OF ex_fleet(1), of "ex_redis [(''client:fvtt_1:instance'', ''i2'')]" "''i1''"] by auto
qed

lemma forwarding_loops_witness:
  "visits (ex_redis [(''client:fvtt_1:instance'', ''i2''), (''apikey:k1:instance'', ''i1'')]) ex_net ex_fwd_request ''i1'' = None"
proof -
  let ?r = "ex_redis [(''client:fvtt_1:instance'', ''i2''), (''apikey:k1:instance'', ''i1'')]"
  have "key_at ?r ex_fwd_request = Some ''i1''" "client_at ?r ex_fwd_request = Some ''i2''"
    by (simp_all add: key_at_def client_at_def entry_def ex_redis_def apikey_key_def client_key_def ex_fwd_request_def)
  then have "conflict ?r ex_net ex_fwd_request"
    using ex_fleet by (simp add: conflict_def ex_net_def)
  then show ?thesis
    by (rule forwarding_loops) (simp add: ex_net_def)
qed

lemma forward_transparent_witness:
  "forward_result (Inr (internal_answer (\<lambda>raw. Some [(''requestId'', JStr ''irr_1''), (''ok'', JBool True)])
     (Some \<lparr>StatusCode = 200, Data = None, RawData = Some ''{}''\<rparr>))) = Inr [(''ok'', JBool True)]"
  using forward_transparent [of "\<lambda>raw. Some [(''requestId'', JStr ''irr_1''), (''ok'', JBool True)]" 200 "[]" "''{}''" None "''irr_1''"
      "\<lparr>rt_manager = ex_manager False ''i1'', rt_pending = NewPendingRequests\<rparr>"]
  by (simp add: forward_result_def internal_answer_def write_result_def get_bool_def Let_def)

end
