(* ===== verification/ClientAPI.thy ===== *)
theory ClientAPI
  imports Route SSE RelayProto
begin

text \<open>
  The WebSocket API of the applications, \<open>internal/ws/client_api.go\<close>.

  The callbacks of the configuration are functions on the database or the registry; \<open>wc_float\<close> gives
  the JSON number of a fraction written in the code.  What a connection writes is collected in
  \<open>wx_out\<close>.  A goroutine that waits for an answer is an entry of \<open>wx_waiting\<close>; the semaphore is the
  number of its occupied slots.  \<open>decode\<close> is \<open>json.Unmarshal\<close> into a map, and the argument of the random
  source is what \<open>rand.Intn\<close> returned.  The ping loop and the deadlines of the socket are left out.
\<close>

record 'h api_cfg =
  wc_ValidateAPIKey :: "(gotime \<Rightarrow> string \<Rightarrow> db \<Rightarrow> api_key_validation option \<times> db) option"
  wc_ValidateConnectionToken :: "(gotime \<Rightarrow> db \<Rightarrow> string \<Rightarrow> (string \<times> string \<times> string \<times> int) option \<times> db) option"
  wc_TrackUsage :: "(gotime \<Rightarrow> string \<Rightarrow> db \<Rightarrow> (bool \<times> string) \<times> db) option"
  wc_AutoStart :: "(string \<Rightarrow> string \<Rightarrow> string \<Rightarrow> 'h manager \<Rightarrow> string \<times> 'h manager) option"
  wc_hasSSE :: bool
  wc_hasInteractive :: bool
  wc_float :: "string \<Rightarrow> json"
  wc_decode :: "string \<Rightarrow> obj option"

record 'h api_world =
  wa_manager :: "'h manager"
  wa_pending :: pending_state
  wa_sse :: sse_manager
  wa_sessions :: session_manager
  wa_db :: db

record clientWSState =
  wx_apiKey :: string
  wx_masterAPIKey :: string
  wx_userID :: int
  wx_clientID :: string
  wx_scopedUserID :: string
  wx_conn :: nat
  wx_consumerID :: string
  wx_pendingRequestIDs :: "(string, string) gomap"
  wx_subscriptions :: "sse_conn list"
  wx_done :: bool
  wx_semaphore :: nat
  wx_waiting :: "(string \<times> nat \<times> string) list"  \<comment> \<open>internal identifier, channel, message type\<close>
  wx_out :: "json list"

subsection \<open>The handshake\<close>

text \<open>The error of a validation is always answered by the same text, so it is not kept.\<close>

definition api_key_token :: "'h api_cfg \<Rightarrow> gotime \<Rightarrow> string \<Rightarrow> db \<Rightarrow> (string \<times> string \<times> string \<times> api_key_validation) option \<times> db" where
  "api_key_token cfg now token d =
     (case wc_ValidateAPIKey cfg of
        None \<Rightarrow> (None, d)
      | Some f \<Rightarrow>
          (case f now token d of
             (None, d1) \<Rightarrow> (None, d1)
           | (Some v, d1) \<Rightarrow>
               if \<not> av_Valid v then (None, d1)
               else (Some (if av_MasterAPIKey v = [] then token else av_MasterAPIKey v, [], av_ScopedUserID v, v), d1)))"

definition clientAPIValidateToken ::
    "'h api_cfg \<Rightarrow> gotime \<Rightarrow> string \<Rightarrow> db \<Rightarrow> (string \<times> string \<times> string \<times> api_key_validation) option \<times> db" where
  "clientAPIValidateToken cfg now token d =
     (case (case wc_ValidateConnectionToken cfg of None \<Rightarrow> (None, d) | Some f \<Rightarrow> f now d token) of
        (Some (master, ips, tokenName, tokenID), d1) \<Rightarrow>
          if master \<noteq> []
          then (Some (master, ips, [], invalid_key\<lparr>av_Valid := True, av_MasterAPIKey := master\<rparr>), d1)
          else api_key_token cfg now token d1
      | (None, d1) \<Rightarrow> api_key_token cfg now token d1)"

record resolved =
  rs_matchKey :: string
  rs_allowedIPs :: string
  rs_clientID :: string
  rs_scopedUserID :: string
  rs_userID :: int

text \<open>\<open>cfg.AutoStart\<close>, when it is set: the empty identifier is a failure.\<close>

definition auto_start :: "'h api_cfg \<Rightarrow> string \<Rightarrow> string \<Rightarrow> string \<Rightarrow> 'h manager \<Rightarrow> string \<times> 'h manager" where
  "auto_start cfg key cid uid m = (case wc_AutoStart cfg of None \<Rightarrow> ([], m) | Some f \<Rightarrow> f key cid uid m)"

text \<open>Without a named module the account's only one; the log line cuts the key to eight bytes first.\<close>

definition auto_resolve ::
    "'h api_cfg \<Rightarrow> string \<Rightarrow> api_key_validation \<Rightarrow> 'h manager \<Rightarrow> ((string \<times> int) + string) go \<times> 'h manager" where
  "auto_resolve cfg matchKey v m =
     (if length matchKey < 8 then (Panic ''slice bounds out of range'', m)
      else case GetConnectedClients matchKey m of
        [c] \<Rightarrow> (Ret (Inr c), m)
      | [] \<Rightarrow>
          (case auto_start cfg matchKey (av_ScopedClientID v) (av_ScopedUserID v) m of
             (autoID, m1) \<Rightarrow>
               if autoID \<noteq> [] then (Ret (Inr autoID), m1)
               else (Ret (Inl (''No connected Foundry client found'', 404)), m1))
      | _ \<Rightarrow> (Ret (Inl (''Multiple clients connected. Please specify clientId.'', 400)), m))"

definition bind_foundry ::
    "'h api_cfg \<Rightarrow> string \<Rightarrow> string \<Rightarrow> string \<Rightarrow> 'h manager \<Rightarrow> ((string \<times> int) + string) \<times> 'h manager" where
  "bind_foundry cfg matchKey scopedUserID clientID m =
     (let (found, cid, m1) =
        (case GetClient clientID m of
           Some ref \<Rightarrow> (Some ref, clientID, m)
         | None \<Rightarrow>
             (case auto_start cfg matchKey clientID scopedUserID m of
                (autoID, m1) \<Rightarrow> if autoID \<noteq> [] then (GetClient autoID m1, autoID, m1) else (None, clientID, m1)))
      in case found of
           None \<Rightarrow> (Inl (''Invalid clientId'', 404), m1)
         | Some ref \<Rightarrow>
             if cl_apiKey (mg_heap m1 ! ref) \<noteq> matchKey
             then (Inl (''API key does not match the specified clientId'', 403), m1)
             else (Inr cid, m1))"

definition clientAPIResolveAndValidate ::
    "'h api_cfg \<Rightarrow> gotime \<Rightarrow> string \<Rightarrow> string \<Rightarrow> 'h api_world \<Rightarrow> ((string \<times> int) + resolved) go \<times> 'h api_world" where
  "clientAPIResolveAndValidate cfg now token clientID w =
     (case clientAPIValidateToken cfg now token (wa_db w) of
        (None, d) \<Rightarrow> (Ret (Inl (''Invalid API key'', 401)), w\<lparr>wa_db := d\<rparr>)
      | (Some (matchKey, allowedIPs, scopedUserID, v), d) \<Rightarrow>
          (let cid0 = (if av_ScopedClientID v \<noteq> [] then av_ScopedClientID v else clientID);
               (r, m1) = (if cid0 = [] then auto_resolve cfg matchKey v (wa_manager w) else (Ret (Inr cid0), wa_manager w))
           in case r of
                Panic e \<Rightarrow> (Panic e, w\<lparr>wa_db := d, wa_manager := m1\<rparr>)
              | Ret (Inl err) \<Rightarrow> (Ret (Inl err), w\<lparr>wa_db := d, wa_manager := m1\<rparr>)
              | Ret (Inr cid) \<Rightarrow>
                  (case bind_foundry cfg matchKey scopedUserID cid m1 of
                     (Inl err, m2) \<Rightarrow> (Ret (Inl err), w\<lparr>wa_db := d, wa_manager := m2\<rparr>)
                   | (Inr cid1, m2) \<Rightarrow>
                       (Ret (Inr \<lparr>rs_matchKey = matchKey, rs_allowedIPs = allowedIPs, rs_clientID = cid1,
                                  rs_scopedUserID = scopedUserID, rs_userID = av_UserID v\<rparr>),
                        w\<lparr>wa_db := d, wa_manager := m2\<rparr>))))"

definition ws_send :: "obj \<Rightarrow> clientWSState \<Rightarrow> clientWSState" where
  "ws_send msg c = c\<lparr>wx_out := wx_out c @ [JObj msg]\<rparr>"

definition randomStr :: "nat list \<Rightarrow> string" where
  "randomStr ns = map (\<lambda>n. ''abcdefghijklmnopqrstuvwxyz0123456789'' ! (n mod 36)) ns"

definition pendingRequestTypesList :: "string list" where
  "pendingRequestTypesList = PendingRequestTypes"

definition event_channels :: "string list" where
  "event_channels = [''chat-events'', ''roll-events'', ''hooks'', ''combat-events'', ''actor-events'', ''scene-events'']"

definition startClientWSPumps :: "nat \<Rightarrow> nat list \<Rightarrow> string \<Rightarrow> resolved \<Rightarrow> clientWSState" where
  "startClientWSPumps conn rnd token r =
     ws_send [(''type'', JStr ''connected''), (''clientId'', JStr (rs_clientID r)),
              (''supportedTypes'', jstrs pendingRequestTypesList), (''eventChannels'', jstrs event_channels)]
       \<lparr>wx_apiKey = token, wx_masterAPIKey = rs_matchKey r, wx_userID = rs_userID r, wx_clientID = rs_clientID r,
        wx_scopedUserID = rs_scopedUserID r, wx_conn = conn, wx_consumerID = randomStr rnd, wx_pendingRequestIDs = [],
        wx_subscriptions = [], wx_done = False, wx_semaphore = 0, wx_waiting = [], wx_out = []\<rparr>"

datatype api_connection =
    ANoUpgrade
  | ARefused string  \<comment> \<open>a close frame with code 4002, then \<open>conn.Close\<close>\<close>
  | AAccepted clientWSState

text \<open>The first message: type, token and client identifier.\<close>

definition api_auth_msg :: "(string \<Rightarrow> obj option) \<Rightarrow> string \<Rightarrow> (string \<times> string) option" where
  "api_auth_msg decode bytes =
     (case decode bytes of
        None \<Rightarrow> None
      | Some m \<Rightarrow>
          (case (str_field m ''type'', str_field m ''token'', str_field m ''clientId'') of
             (Some t, Some tok, Some cid) \<Rightarrow> if t \<noteq> ''auth'' \<or> tok = [] then None else Some (tok, cid)
           | _ \<Rightarrow> None))"

definition HandleClientAPIConnection ::
    "'h api_cfg \<Rightarrow> gotime \<Rightarrow> nat \<Rightarrow> nat list \<Rightarrow> relay_request \<Rightarrow> 'h api_world \<Rightarrow> api_connection go \<times> 'h api_world" where
  "HandleClientAPIConnection cfg now conn rnd r w =
     (if \<not> rq_upgrades r then (Ret ANoUpgrade, w)
      else case rq_first r of
        None \<Rightarrow> (Ret (ARefused ''Authentication timeout''), w)
      | Some bytes \<Rightarrow>
          (case api_auth_msg (wc_decode cfg) bytes of
             None \<Rightarrow> (Ret (ARefused ''Invalid auth message''), w)
           | Some (token, cid) \<Rightarrow>
               (let clientID = (if cid \<noteq> [] then cid else query_get r ''clientId'')
                in case clientAPIResolveAndValidate cfg now token clientID w of
                     (Panic e, w1) \<Rightarrow> (Panic e, w1)
                   | (Ret (Inl (err, status)), w1) \<Rightarrow> (Ret (ARefused err), w1)
                   | (Ret (Inr x), w1) \<Rightarrow>
                       if rs_allowedIPs x \<noteq> [] \<and> \<not> isIPAllowed (rq_RemoteAddr r) (rs_allowedIPs x)
                       then (Ret (ARefused ''IP address not allowed''), w1)
                       else (Ret (AAccepted (startClientWSPumps conn rnd token x)), w1))))"

subsection \<open>Subscriptions\<close>

definition ws_error :: "string \<Rightarrow> string \<Rightarrow> obj" where
  "ws_error err requestID = [(''type'', JStr ''error''), (''error'', JStr err), (''requestId'', JStr requestID)]"

definition handleWSSubscribe :: "'h api_cfg \<Rightarrow> nat \<Rightarrow> obj \<Rightarrow> clientWSState \<times> 'h api_world \<Rightarrow> clientWSState \<times> 'h api_world" where
  "handleWSSubscribe cfg ref msg cw =
     (let (c, w) = cw; requestID = get_str msg ''requestId''; channel = get_str msg ''channel'';
          ok = [(''type'', JStr ''subscribed''), (''channel'', JStr channel), (''requestId'', JStr requestID)]
      in if channel \<notin> set event_channels
         then (ws_send (ws_error (''Invalid channel: '' @ go_quote channel @
                 ''. Supported: chat-events, roll-events, hooks, combat-events, actor-events, scene-events'') requestID) c, w)
         else if \<not> wc_hasSSE cfg then (ws_send ok c, w)
         else case AddWSEventFunc ref (wx_clientID c) channel (wa_sse w) of
           (None, sse) \<Rightarrow> (ws_send (ws_error ''Maximum event subscriptions reached for this client'' requestID) c, w\<lparr>wa_sse := sse\<rparr>)
         | (Some sub, sse) \<Rightarrow>
             (ws_send ok (c\<lparr>wx_subscriptions := wx_subscriptions c @ [sub]\<rparr>), w\<lparr>wa_sse := sse\<rparr>))"

fun remove_subs :: "(sse_conn \<Rightarrow> bool) \<Rightarrow> sse_conn list \<Rightarrow> sse_manager \<Rightarrow> sse_conn list \<times> nat \<times> sse_manager" where
  "remove_subs P [] sse = ([], 0, sse)"
| "remove_subs P (sub # rest) sse =
     (if P sub
      then (case remove_subs P rest (RemoveWSEvent sub sse) of (remaining, removed, sse1) \<Rightarrow> (remaining, removed + 1, sse1))
      else (case remove_subs P rest sse of (remaining, removed, sse1) \<Rightarrow> (sub # remaining, removed, sse1)))"

definition handleWSUnsubscribe :: "obj \<Rightarrow> clientWSState \<times> 'h api_world \<Rightarrow> clientWSState \<times> 'h api_world" where
  "handleWSUnsubscribe msg cw =
     (let (c, w) = cw; requestID = get_str msg ''requestId''; channel = get_str msg ''channel'';
          (remaining, removed, sse) =
            remove_subs (\<lambda>sub. channel = [] \<or> sc_Channel sub = channel) (wx_subscriptions c) (wa_sse w)
      in (ws_send [(''type'', JStr ''unsubscribed''), (''channel'', JStr (if channel = [] then ''all'' else channel)),
                   (''removed'', JNum (int removed)), (''requestId'', JStr requestID)]
            (c\<lparr>wx_subscriptions := remaining\<rparr>), w\<lparr>wa_sse := sse\<rparr>))"

subsection \<open>Interactive sessions\<close>

definition ws_to_client :: "nat \<Rightarrow> obj \<Rightarrow> 'h api_world \<Rightarrow> bool \<times> 'h api_world" where
  "ws_to_client ref msg w = (case send_to ref (JObj msg) (wa_manager w) of (ok, m) \<Rightarrow> (ok, w\<lparr>wa_manager := m\<rparr>))"

definition session_error :: "string \<Rightarrow> obj" where
  "session_error err = [(''type'', JStr ''interactive-session-error''), (''error'', JStr err)]"

definition num_or :: "obj \<Rightarrow> string \<Rightarrow> json \<Rightarrow> json" where
  "num_or msg k dflt = (case aget msg k of Some (JNum n) \<Rightarrow> JNum n | _ \<Rightarrow> dflt)"

definition bool_field :: "obj \<Rightarrow> string \<Rightarrow> obj" where
  "bool_field msg k = (case aget msg k of Some (JBool b) \<Rightarrow> [(k, JBool b)] | _ \<Rightarrow> [])"

definition handleInteractiveSessionStart ::
    "'h api_cfg \<Rightarrow> gotime \<Rightarrow> nat list \<Rightarrow> obj \<Rightarrow> clientWSState \<times> 'h api_world \<Rightarrow> clientWSState \<times> 'h api_world" where
  "handleInteractiveSessionStart cfg now rnd msg cw =
     (let (c, w) = cw
      in if \<not> wc_hasInteractive cfg then (ws_send (session_error ''Interactive sessions not available'') c, w)
         else case GetClient (wx_clientID c) (wa_manager w) of
           None \<Rightarrow> (ws_send (session_error ''Foundry client is no longer connected'') c, w)
         | Some ref \<Rightarrow>
             (let uuid = get_str msg ''uuid''; quality = num_or msg ''quality'' (wc_float cfg ''0.9''); scale = num_or msg ''scale'' (JNum 1)
              in case CreateSession now (randomStr rnd) (wx_clientID c) (wx_apiKey c) (wx_consumerID c) (wx_conn c)
                        \<lparr>im_UUID = uuid, im_Quality = quality, im_Scale = scale\<rparr> (wa_sessions w) of
                   Inl err \<Rightarrow> (ws_send (session_error err) c, w)
                 | Inr (sessionID, ss) \<Rightarrow>
                     (let userId = (if wx_scopedUserID c = [] then get_str msg ''userId'' else wx_scopedUserID c);
                          payload = [(''type'', JStr ''interactive-session-start''), (''sessionId'', JStr sessionID),
                                     (''uuid'', JStr uuid), (''quality'', quality), (''scale'', scale)]
                            @ bool_field msg ''selected'' @ bool_field msg ''actor''
                            @ (if userId \<noteq> [] then [(''userId'', JStr userId)] else []);
                          (sent, w1) = ws_to_client ref payload (w\<lparr>wa_sessions := ss\<rparr>)
                      in if sent then (c, w1)
                         else (ws_send (session_error ''Failed to send session start to Foundry'') c,
                               w1\<lparr>wa_sessions := snd (EndSession sessionID (wa_sessions w1))\<rparr>))))"

definition input_fields :: "string list" where
  "input_fields = [''action'', ''x'', ''y'', ''button'', ''deltaX'', ''deltaY'', ''key'', ''code'', ''modifiers'']"

definition handleInteractiveInput :: "'h api_cfg \<Rightarrow> gotime \<Rightarrow> obj \<Rightarrow> clientWSState \<times> 'h api_world \<Rightarrow> clientWSState \<times> 'h api_world" where
  "handleInteractiveInput cfg now msg cw =
     (let (c, w) = cw; sessionID = get_str msg ''sessionId'';
          err = (\<lambda>t. [(''type'', JStr ''interactive-session-error''), (''sessionId'', JStr sessionID), (''error'', JStr t)])
      in if \<not> wc_hasInteractive cfg then (c, w)
         else if (case GetSession sessionID (wa_sessions w) of None \<Rightarrow> True | Some s \<Rightarrow> is_ConsumerConn s \<noteq> wx_conn c)
         then (ws_send (err ''Invalid session'') c, w)
         else (let ss = UpdateActivity now sessionID (wa_sessions w)
               in case GetClient (wx_clientID c) (wa_manager w) of
                    None \<Rightarrow> (ws_send (err ''Foundry client disconnected'') c, w\<lparr>wa_sessions := snd (EndSession sessionID ss)\<rparr>)
                  | Some ref \<Rightarrow>
                      (c, snd (ws_to_client ref ([(''type'', JStr ''interactive-input''), (''sessionId'', JStr sessionID)]
                             @ map (\<lambda>k. (k, get_any msg k)) input_fields) (w\<lparr>wa_sessions := ss\<rparr>)))))"

definition session_end_msg :: "string \<Rightarrow> obj" where
  "session_end_msg sid = [(''type'', JStr ''interactive-session-end''), (''sessionId'', JStr sid)]"

definition handleInteractiveSessionEnd :: "'h api_cfg \<Rightarrow> obj \<Rightarrow> clientWSState \<times> 'h api_world \<Rightarrow> clientWSState \<times> 'h api_world" where
  "handleInteractiveSessionEnd cfg msg cw =
     (let (c, w) = cw; sessionID = get_str msg ''sessionId''
      in if \<not> wc_hasInteractive cfg then (c, w)
         else (let w1 = w\<lparr>wa_sessions := snd (EndSession sessionID (wa_sessions w))\<rparr>
               in case GetClient (wx_clientID c) (wa_manager w) of
                    None \<Rightarrow> (c, w1)
                  | Some ref \<Rightarrow> (c, snd (ws_to_client ref (session_end_msg sessionID) w1))))"

subsection \<open>Requests\<close>

definition ws_internal_id :: "string \<Rightarrow> gotime \<Rightarrow> nat list \<Rightarrow> string" where
  "ws_internal_id typ now rnd = ''ws_'' @ typ @ ''_'' @ int_text (unix_milli now) @ ''_'' @ randomStr rnd"

definition ws_pending_request :: "gotime \<Rightarrow> string \<Rightarrow> nat \<Rightarrow> string \<Rightarrow> PendingRequest" where
  "ws_pending_request now typ ch cid =
     \<lparr>pr_ResponseCh = ch, pr_Type = typ, pr_ClientID = cid, pr_UUID = [], pr_Path = [], pr_Query = [], pr_Filter = [],
      pr_Format = [], pr_ActiveTab = None, pr_DarkMode = False, pr_InitScale = None, pr_Timestamp = now, pr_MaxAge = 0,
      pr_WSCallback = False\<rparr>"

definition ws_payload :: "clientWSState \<Rightarrow> string \<Rightarrow> string \<Rightarrow> obj \<Rightarrow> obj" where
  "ws_payload c typ internalID msg =
     (let p0 = filter (\<lambda>kv. fst kv \<noteq> ''type'' \<and> fst kv \<noteq> ''requestId'' \<and> fst kv \<noteq> ''format'') msg;
          p1 = (if wx_scopedUserID c \<noteq> [] then aput ''userId'' (JStr (wx_scopedUserID c)) p0 else p0);
          p2 = aput ''requestId'' (JStr internalID) (aput ''type'' (JStr typ) p1)
      in if aget p2 ''data'' = None then aput ''data'' (JObj []) p2 else p2)"

definition result_error :: "string \<Rightarrow> string \<Rightarrow> string \<Rightarrow> obj" where
  "result_error typ requestID err =
     [(''type'', JStr (typ @ ''-result'')), (''requestId'', JStr requestID), (''error'', JStr err)]"

definition semaphore_slots :: nat where
  "semaphore_slots = 100"

definition forget_request :: "string \<Rightarrow> clientWSState \<times> 'h api_world \<Rightarrow> clientWSState \<times> 'h api_world" where
  "forget_request rid cw =
     (let (c, w) = cw
      in (c\<lparr>wx_pendingRequestIDs := adel rid (wx_pendingRequestIDs c)\<rparr>, w\<lparr>wa_pending := Pending.Delete rid (wa_pending w)\<rparr>))"

definition ws_request :: "gotime \<Rightarrow> nat list \<Rightarrow> string \<Rightarrow> string \<Rightarrow> obj \<Rightarrow> clientWSState \<times> 'h api_world \<Rightarrow> clientWSState \<times> 'h api_world" where
  "ws_request now rnd typ requestID msg cw =
     (let (c, w) = cw
      in case GetClient (wx_clientID c) (wa_manager w) of
           None \<Rightarrow> (ws_send (result_error typ requestID ''Foundry client is no longer connected'') c, w)
         | Some ref \<Rightarrow>
             (let internalID = ws_internal_id typ now rnd; ch = fresh_chan (wa_pending w);
                  w1 = w\<lparr>wa_pending := Store internalID (ws_pending_request now typ ch (wx_clientID c)) (new_chan ch (wa_pending w))\<rparr>;
                  c1 = c\<lparr>wx_pendingRequestIDs := aput internalID requestID (wx_pendingRequestIDs c)\<rparr>;
                  (sent, w2) = ws_to_client ref (ws_payload c typ internalID msg) w1
              in if \<not> sent
                 then (case forget_request internalID (c1, w2) of
                         (c2, w3) \<Rightarrow> (ws_send (result_error typ requestID ''Failed to send request to Foundry client'') c2, w3))
                 else if wx_semaphore c1 \<ge> semaphore_slots
                 then (case forget_request internalID (c1, w2) of
                         (c2, w3) \<Rightarrow> (ws_send (result_error typ requestID ''Too many concurrent requests; try again shortly'') c2, w3))
                 else (c1\<lparr>wx_semaphore := wx_semaphore c1 + 1, wx_waiting := wx_waiting c1 @ [(internalID, ch, typ)]\<rparr>, w2)))"

definition handleClientWSMessage ::
    "'h api_cfg \<Rightarrow> gotime \<Rightarrow> nat list \<Rightarrow> nat \<Rightarrow> obj \<Rightarrow> clientWSState \<times> 'h api_world \<Rightarrow> clientWSState \<times> 'h api_world" where
  "handleClientWSMessage cfg now rnd ref msg cw =
     (let msgType = get_str msg ''type''; requestID = get_str msg ''requestId''; (c, w) = cw
      in if msgType = [] then (ws_send (ws_error ''Missing \"type\" field'' requestID) c, w)
         else if msgType = ''ping'' then (ws_send [(''type'', JStr ''pong''), (''requestId'', JStr requestID)] c, w)
         else if msgType = ''subscribe'' then handleWSSubscribe cfg ref msg cw
         else if msgType = ''unsubscribe'' then handleWSUnsubscribe msg cw
         else if msgType = ''interactive-session-start'' then handleInteractiveSessionStart cfg now rnd msg cw
         else if msgType = ''interactive-input'' then handleInteractiveInput cfg now msg cw
         else if msgType = ''interactive-session-end'' then handleInteractiveSessionEnd cfg msg cw
         else if msgType \<notin> set PendingRequestTypes
         then (ws_send (ws_error (''Unknown message type: '' @ go_quote msgType) requestID) c, w)
         else if requestID = []
         then (ws_send [(''type'', JStr ''error''), (''error'', JStr ''Missing \"requestId\" field for request messages'')] c, w)
         else ws_request now rnd msgType requestID msg cw)"

text \<open>One turn of the read loop.\<close>

definition ws_read :: "'h api_cfg \<Rightarrow> gotime \<Rightarrow> nat list \<Rightarrow> nat \<Rightarrow> string \<Rightarrow> clientWSState \<times> 'h api_world \<Rightarrow> clientWSState \<times> 'h api_world" where
  "ws_read cfg now rnd ref bytes cw =
     (let (c, w) = cw
      in case wc_decode cfg bytes of
           None \<Rightarrow> (ws_send [(''type'', JStr ''error''), (''error'', JStr ''Invalid JSON'')] c, w)
         | Some msg \<Rightarrow>
             (case wc_TrackUsage cfg of
                None \<Rightarrow> handleClientWSMessage cfg now rnd ref msg (c, w)
              | Some f \<Rightarrow>
                  (case f now (wx_masterAPIKey c) (wa_db w) of
                     ((allowed, errMsg), d) \<Rightarrow>
                       if \<not> allowed then (ws_send (ws_error errMsg (get_str msg ''requestId'')) c, w\<lparr>wa_db := d\<rparr>)
                       else handleClientWSMessage cfg now rnd ref msg (c, w\<lparr>wa_db := d\<rparr>))))"

subsection \<open>The waiting goroutines\<close>

definition client_req_id :: "string \<Rightarrow> clientWSState \<Rightarrow> string" where
  "client_req_id rid c = null_str (aget (wx_pendingRequestIDs c) rid)"

definition leave_slot :: "(string \<times> nat \<times> string) \<Rightarrow> clientWSState \<Rightarrow> clientWSState" where
  "leave_slot g c = c\<lparr>wx_semaphore := wx_semaphore c - 1, wx_waiting := remove1 g (wx_waiting c)\<rparr>"

definition response_data :: "(string \<Rightarrow> obj option) \<Rightarrow> WSResponse \<Rightarrow> obj option" where
  "response_data decode resp =
     (case Data resp of
        Some d \<Rightarrow> Some d
      | None \<Rightarrow>
          (case RawData resp of
             None \<Rightarrow> None
           | Some raw \<Rightarrow>
               (case decode raw of None \<Rightarrow> Some [(''error'', JStr ''failed to parse response'')] | Some m \<Rightarrow> Some m)))"

definition ws_reply :: "'h api_cfg \<Rightarrow> (string \<times> nat \<times> string) \<Rightarrow> WSResponse \<Rightarrow> clientWSState \<Rightarrow> clientWSState" where
  "ws_reply cfg g resp c =
     (let (internalID, ch, msgType) = g; clientReqID = client_req_id internalID c;
          c1 = leave_slot g (c\<lparr>wx_pendingRequestIDs := adel internalID (wx_pendingRequestIDs c)\<rparr>)
      in case response_data (wc_decode cfg) resp of
           None \<Rightarrow> c1
         | Some d \<Rightarrow>
             ws_send (aput ''clientId'' (JStr (wx_clientID c)) (aput ''requestId'' (JStr clientReqID)
                        (aput ''type'' (JStr (msgType @ ''-result'')) d))) c1)"

definition ws_timeout :: "(string \<times> nat \<times> string) \<Rightarrow> clientWSState \<times> 'h api_world \<Rightarrow> clientWSState \<times> 'h api_world" where
  "ws_timeout g cw =
     (let (internalID, ch, msgType) = g; clientReqID = client_req_id internalID (fst cw); (c, w) = forget_request internalID cw
      in (ws_send (result_error msgType clientReqID ''Request timed out'') (leave_slot g c), w))"

definition ws_abandon :: "(string \<times> nat \<times> string) \<Rightarrow> clientWSState \<times> 'h api_world \<Rightarrow> clientWSState \<times> 'h api_world" where
  "ws_abandon g cw =
     (let (c, w) = cw in (leave_slot g c, w\<lparr>wa_pending := Pending.Delete (fst g) (wa_pending w)\<rparr>))"

subsection \<open>The end of a connection\<close>

fun end_sessions :: "nat \<Rightarrow> string list \<Rightarrow> 'h api_world \<Rightarrow> 'h api_world" where
  "end_sessions ref [] w = w"
| "end_sessions ref (sid # sids) w = end_sessions ref sids (snd (ws_to_client ref (session_end_msg sid) w))"

definition cleanupClientWSState :: "'h api_cfg \<Rightarrow> clientWSState \<times> 'h api_world \<Rightarrow> clientWSState \<times> 'h api_world" where
  "cleanupClientWSState cfg cw =
     (let (c, w) = cw;
          w1 = w\<lparr>wa_pending := fold Pending.Delete (akeys (wx_pendingRequestIDs c)) (wa_pending w),
                 wa_sse := snd (snd (remove_subs (\<lambda>_. True) (wx_subscriptions c) (wa_sse w)))\<rparr>;
          c1 = c\<lparr>wx_pendingRequestIDs := [], wx_subscriptions := []\<rparr>
      in if \<not> wc_hasInteractive cfg then (c1, w1)
         else (case TerminateSessionsForConsumer (wx_consumerID c) (wa_sessions w1) of
                 (sids, ss) \<Rightarrow>
                   (c1, case GetClient (wx_clientID c) (wa_manager w1) of
                          None \<Rightarrow> w1\<lparr>wa_sessions := ss\<rparr>
                        | Some ref \<Rightarrow> end_sessions ref sids (w1\<lparr>wa_sessions := ss\<rparr>))))"

text \<open>The deferred function of the read loop.\<close>

definition ws_close :: "'h api_cfg \<Rightarrow> clientWSState \<times> 'h api_world \<Rightarrow> clientWSState \<times> 'h api_world" where
  "ws_close cfg cw = cleanupClientWSState cfg ((fst cw)\<lparr>wx_done := True\<rparr>, snd cw)"

end
