(* ===== verification/ClientAPIInv.thy ===== *)
theory ClientAPIInv
  imports ClientAPI
begin

text \<open>
  What a connection of the WebSocket API leaves behind: its read loop, its waiting goroutines and the
  answers of the module as a step relation, and the invariants of every run.
\<close>

subsection \<open>Removing a subscription\<close>

lemma find_conn_Some:
  assumes "find_conn xs r k = Some i"
  shows "k \<le> i \<and> i - k < length xs \<and> sc_ref (xs ! (i - k)) = r"
  using assms
proof (induction xs r k rule: find_conn.induct)
  case (2 c cs r k)
  show ?case
  proof (cases "sc_ref c = r")
    case False
    then have "k + 1 \<le> i \<and> i - (k + 1) < length cs \<and> sc_ref (cs ! (i - (k + 1))) = r" using 2 by simp
    moreover have "i - k = Suc (i - (k + 1))" if "k + 1 \<le> i" using that by simp
    ultimately show ?thesis by simp
  qed (use 2(2) in simp)
qed simp

lemma find_conn_None: "find_conn xs r k = None \<longleftrightarrow> r \<notin> sc_ref ` set xs"
  by (induction xs r k rule: find_conn.induct) auto

lemma filter_ref:
  assumes "distinct (map sc_ref xs)" and "i < length xs" and "sc_ref (xs ! i) = r"
  shows "filter (\<lambda>c. sc_ref c \<noteq> r) xs = take i xs @ drop (i + 1) xs"
proof -
  have xs: "xs = take i xs @ xs ! i # drop (Suc i) xs" using assms(2) by (rule id_take_nth_drop)
  then have "distinct (map sc_ref (take i xs @ xs ! i # drop (Suc i) xs))" using assms(1) by simp
  then have "\<forall>c \<in> set (take i xs) \<union> set (drop (Suc i) xs). sc_ref c \<noteq> r"
    using assms(3) by (fastforce simp: image_iff)
  then have "filter (\<lambda>c. sc_ref c \<noteq> r) (take i xs) = take i xs" "filter (\<lambda>c. sc_ref c \<noteq> r) (drop (Suc i) xs) = drop (Suc i) xs"
    by (auto simp: filter_id_conv)
  then have "filter (\<lambda>c. sc_ref c \<noteq> r) (take i xs @ xs ! i # drop (Suc i) xs) = take i xs @ drop (Suc i) xs"
    using assms(3) by simp
  then show ?thesis using xs by simp
qed

lemma sse_ok_sub:
  assumes ok: "sse_ok m"
    and sub: "\<And>t c s. aget (tab t m') c = Some s \<Longrightarrow> aget (tab t m) c = Some s \<and> holds m' s (conns_of t c m)"
  shows "sse_ok m'" and "aget (tab t m') c = Some s \<Longrightarrow> conns_of t c m' = conns_of t c m"
proof -
  show "sse_ok m'"
    unfolding sse_ok_def
  proof (intro conjI allI impI)
    fix t c s assume a: "aget (tab t m') c = Some s"
    show "\<exists>xs. xs \<noteq> [] \<and> holds m' s xs" using sub [OF a] sse_okD(2) [OF ok] by blast
  next
    fix t c s t' c' s' assume "aget (tab t m') c = Some s" "aget (tab t' m') c' = Some s'" "sl_arr s = sl_arr s'"
    then have "t = t' \<and> c = c'" using sub ok unfolding sse_ok_def by blast
    then show "t = t'" "c = c'" by simp_all
  qed
  show "aget (tab t m') c = Some s \<Longrightarrow> conns_of t c m' = conns_of t c m"
    using sub [of t c s] read_holds [of m' s] by (simp add: conns_of_def [of t c m'])
qed

lemma conns_of_None: "aget (tab t m) c = None \<Longrightarrow> conns_of t c m = []"
  by (simp add: conns_of_def)

lemma unsubscribe_removes:
  assumes ok: "sse_ok m" and dist: "distinct (map sc_ref (conns_of t (sc_ClientID conn) m))"
  shows "sse_ok (sse_remove t ch conn m) \<and>
    conns_of t (sc_ClientID conn) (sse_remove t ch conn m) =
      filter (\<lambda>c. sc_ref c \<noteq> sc_ref conn) (conns_of t (sc_ClientID conn) m)"
proof -
  let ?cid = "sc_ClientID conn" and ?xs = "conns_of t (sc_ClientID conn) m"
  have out: "sse_ok (sse_remove t ch conn m) \<and> conns_of t ?cid (sse_remove t ch conn m) = ys"
    if "sse_remove t ch conn m = emitCountChanged ?cid ch n m'" "sse_ok m'" "conns_of t ?cid m' = ys" for m' n ys
    using that by simp
  show ?thesis
  proof (cases "aget (tab t m) ?cid")
    case None
    let ?m' = "set_tab t (adel ?cid (tab t m)) m"
    have same: "tab t' ?m' = tab t' m" for t' using None by simp
    have "sse_ok ?m'" by (rule sse_ok_sub [OF ok]) (use sse_okD(1) [OF ok] same in \<open>simp add: holds_def\<close>)
    moreover have "conns_of t ?cid ?m' = []" by (rule conns_of_None) (use same None in simp)
    moreover have "?xs = []" using None by (rule conns_of_None)
    ultimately show ?thesis
      using out [of _ ?m' "[]"] None by (simp add: sse_remove_def len_of_def Let_def)
  next
    case (Some s)
    have h: "holds m s ?xs" using sse_okD(1) [OF ok Some] .
    then have rd: "read_slice m s = ?xs" and len: "sl_len s = length ?xs" using read_holds by (auto simp: holds_def)
    have ne: "?xs \<noteq> []" using sse_okD(2) [OF ok Some] .
    show ?thesis
    proof (cases "find_conn ?xs (sc_ref conn) 0")
      case None
      then have "filter (\<lambda>c. sc_ref c \<noteq> sc_ref conn) ?xs = ?xs"
        by (simp add: find_conn_None filter_id_conv image_iff) metis
      then show ?thesis
        using out [of _ m ?xs] None Some rd ok ne len by (simp add: sse_remove_def len_of_def Let_def)
    next
      case (Some i)
      then have i: "i < length ?xs" "sc_ref (?xs ! i) = sc_ref conn" using find_conn_Some by force+
      obtain s' m1 where rm: "slice_remove s i m = (s', m1)" by force
      let ?ys = "take i ?xs @ drop (i + 1) ?xs" and ?m1 = "set_tab t (aput ?cid s' (tab t m1)) m1"
      have ys: "filter (\<lambda>c. sc_ref c \<noteq> sc_ref conn) ?xs = ?ys" by (rule filter_ref [OF dist i])
      have h1: "holds m1 s' ?ys" using slice_remove_holds(1) [OF h i(1) rm] .
      have arr: "se_arrays m1 = (se_arrays m)[sl_arr s := se_arrays m1 ! sl_arr s]" "sl_arr s' = sl_arr s" "tab t' m1 = tab t' m" for t'
        using rm h by (auto simp: slice_remove_def Let_def holds_def)
      have own: "sl_arr sl \<noteq> sl_arr s' \<and> holds m1 sl (conns_of t' c m)"
        if sl: "aget (tab t' m) c = Some sl" and other: "\<not> (t' = t \<and> c = ?cid)" for t' c sl
      proof -
        have "sl_arr sl \<noteq> sl_arr s" using ok sl \<open>aget (tab t m) ?cid = Some s\<close> other unfolding sse_ok_def by blast
        then show ?thesis using holds_other [OF sse_okD(1) [OF ok sl], of _ m1] arr by metis
      qed
      have m1: "sse_remove t ch conn m =
          (let m2 = (if sl_len s' = 0 then set_tab t (adel ?cid (tab t ?m1)) ?m1 else ?m1)
           in emitCountChanged ?cid ch (totalForChannel ?cid ch m2) m2)"
        using \<open>aget (tab t m) ?cid = Some s\<close> Some rd rm
        by (simp add: sse_remove_def len_of_def Let_def)
      show ?thesis
      proof (cases "?ys = []")
        case True
        let ?m2 = "set_tab t (adel ?cid (tab t ?m1)) ?m1"
        have gone: "aget (tab t' ?m2) c = Some sl \<Longrightarrow> \<not> (t' = t \<and> c = ?cid) \<and> aget (tab t' m) c = Some sl" for t' c sl
          by (auto simp: arr aget_adel aget_aput split: if_splits)
        have "sse_ok ?m2"
        proof (rule sse_ok_sub [OF ok])
          fix t' c sl assume "aget (tab t' ?m2) c = Some sl"
          then show "aget (tab t' m) c = Some sl \<and> holds ?m2 sl (conns_of t' c m)"
            using gone own [of t' c sl] by (simp add: holds_def)
        qed
        moreover have "conns_of t ?cid ?m2 = []" by (rule conns_of_None) (simp add: aget_adel)
        moreover have "sl_len s' = 0" using h1 [unfolded True] by (simp add: holds_def)
        ultimately show ?thesis using out [of _ ?m2 "[]"] m1 ys True by (simp add: Let_def)
      next
        case False
        have "sse_ok ?m1 \<and> conns_of t ?cid ?m1 = ?ys \<and>
            (\<forall>t' cid'. \<not> (t' = t \<and> cid' = ?cid) \<longrightarrow> conns_of t' cid' ?m1 = conns_of t' cid' m)"
        proof (rule sse_ok_entry [OF ok, where s' = s'])
          show "tab t' ?m1 = (if t' = t then aput ?cid s' (tab t m) else tab t' m)" for t' by (simp add: arr)
          show "holds ?m1 s' ?ys" using h1 by (simp add: holds_def)
          show "?ys \<noteq> []" by (rule False)
          show "sl_arr sl \<noteq> sl_arr s' \<and> holds ?m1 sl (conns_of t' c m)"
            if "aget (tab t' m) c = Some sl" "\<not> (t' = t \<and> c = ?cid)" for t' c sl
            using own [OF that] by (simp add: holds_def)
        qed
        moreover have "sl_len s' \<noteq> 0" using h1 False by (auto simp: holds_def)
        ultimately show ?thesis using out [of _ ?m1 ?ys] m1 ys by (simp add: Let_def)
      qed
    qed
  qed
qed

subsection \<open>Runs of a connection\<close>

text \<open>The read loop reads until the close; a goroutine gets its answer, times out or, after the close,
gives up; the module answers at any time.  The reference of a new subscription is a fresh pointer.\<close>

definition api_fresh :: "nat \<Rightarrow> clientWSState \<Rightarrow> 'h api_world \<Rightarrow> bool" where
  "api_fresh ref c w \<longleftrightarrow> ref \<notin> sc_ref ` set (conns_of TWS (wx_clientID c) (wa_sse w))"

definition take_response :: "nat \<Rightarrow> chan \<Rightarrow> WSResponse list \<Rightarrow> 'h api_world \<Rightarrow> 'h api_world" where
  "take_response ch q rest w =
     w\<lparr>wa_pending := (wa_pending w)\<lparr>ps_chans := aput ch (q\<lparr>ch_buf := rest\<rparr>) (ps_chans (wa_pending w))\<rparr>\<rparr>"

inductive api_step :: "'h api_cfg \<Rightarrow> clientWSState \<times> 'h api_world \<Rightarrow> clientWSState \<times> 'h api_world \<Rightarrow> bool" for cfg where
  read: "\<lbrakk>\<not> wx_done c; api_fresh ref c w\<rbrakk> \<Longrightarrow> api_step cfg (c, w) (ws_read cfg now rnd ref bytes (c, w))"
| answered: "api_step cfg (c, w) (c, w\<lparr>wa_pending := Resolve rid st d (wa_pending w)\<rparr>)"
| answered_raw: "api_step cfg (c, w) (c, w\<lparr>wa_pending := ResolveRaw rid st raw (wa_pending w)\<rparr>)"
| reply: "\<lbrakk>(rid, ch, typ) \<in> set (wx_waiting c); aget (ps_chans (wa_pending w)) ch = Some q; ch_buf q = resp # rest\<rbrakk> \<Longrightarrow>
    api_step cfg (c, w) (ws_reply cfg (rid, ch, typ) resp c, take_response ch q rest w)"
| timeout: "g \<in> set (wx_waiting c) \<Longrightarrow> api_step cfg (c, w) (ws_timeout g (c, w))"
| abandon: "\<lbrakk>g \<in> set (wx_waiting c); wx_done c\<rbrakk> \<Longrightarrow> api_step cfg (c, w) (ws_abandon g (c, w))"
| closed: "\<not> wx_done c \<Longrightarrow> api_step cfg (c, w) (ws_close cfg (c, w))"

inductive api_run :: "'h api_cfg \<Rightarrow> clientWSState \<times> 'h api_world \<Rightarrow> clientWSState \<times> 'h api_world \<Rightarrow> bool" for cfg where
  run_start: "api_run cfg s s"
| run_step: "\<lbrakk>api_run cfg s t; api_step cfg t u\<rbrakk> \<Longrightarrow> api_run cfg s u"

lemma api_run_trans:
  assumes "api_run cfg t u" and "api_run cfg s t"
  shows "api_run cfg s u"
  using assms by (induction rule: api_run.induct) (auto intro: run_step)

lemma api_run_inv:
  assumes "api_run cfg s t" and "P s" and "\<And>t u. \<lbrakk>P t; api_step cfg t u\<rbrakk> \<Longrightarrow> P u"
  shows "P t"
  using assms by (induction rule: api_run.induct) auto

subsection \<open>What the handlers leave alone\<close>

text \<open>The parts of the state each handler works on: requests, subscriptions, sessions.\<close>

definition req_view :: "clientWSState \<times> 'h api_world \<Rightarrow> pending_state \<times> (string \<times> nat \<times> string) list \<times> nat \<times> bool" where
  "req_view cw = (wa_pending (snd cw), wx_waiting (fst cw), wx_semaphore (fst cw), wx_done (fst cw))"

definition sub_view :: "clientWSState \<times> 'h api_world \<Rightarrow> sse_manager \<times> sse_conn list \<times> string \<times> bool" where
  "sub_view cw = (wa_sse (snd cw), wx_subscriptions (fst cw), wx_clientID (fst cw), wx_done (fst cw))"

definition ses_view :: "clientWSState \<times> 'h api_world \<Rightarrow> session_manager \<times> string \<times> bool" where
  "ses_view cw = (wa_sessions (snd cw), wx_consumerID (fst cw), wx_done (fst cw))"

lemmas views = req_view_def sub_view_def ses_view_def

lemma ws_send_views [simp]:
  "req_view (ws_send msg c, w) = req_view (c, w)" "sub_view (ws_send msg c, w) = sub_view (c, w)"
  "ses_view (ws_send msg c, w) = ses_view (c, w)"
  by (simp_all add: views ws_send_def)

lemma ws_to_client_keeps [simp]:
  "wa_pending (snd (ws_to_client ref msg w)) = wa_pending w" "wa_sse (snd (ws_to_client ref msg w)) = wa_sse w"
  "wa_sessions (snd (ws_to_client ref msg w)) = wa_sessions w"
  by (simp_all add: ws_to_client_def split: prod.split)

lemma db_views [simp]:
  "req_view (c, w\<lparr>wa_db := d\<rparr>) = req_view (c, w)" "sub_view (c, w\<lparr>wa_db := d\<rparr>) = sub_view (c, w)"
  "ses_view (c, w\<lparr>wa_db := d\<rparr>) = ses_view (c, w)"
  by (simp_all add: views)

lemma answered_views [simp]:
  "sub_view (c, w\<lparr>wa_pending := p\<rparr>) = sub_view (c, w)" "ses_view (c, w\<lparr>wa_pending := p\<rparr>) = ses_view (c, w)"
  by (simp_all add: views)

lemma subscribe_views [simp]:
  "req_view (handleWSSubscribe cfg ref msg (c, w)) = req_view (c, w)"
  "ses_view (handleWSSubscribe cfg ref msg (c, w)) = ses_view (c, w)"
  by (auto simp: handleWSSubscribe_def Let_def views ws_send_def split: prod.split option.split)

lemma unsubscribe_views [simp]:
  "req_view (handleWSUnsubscribe msg (c, w)) = req_view (c, w)"
  "ses_view (handleWSUnsubscribe msg (c, w)) = ses_view (c, w)"
  by (auto simp: handleWSUnsubscribe_def Let_def views ws_send_def split: prod.split)

lemma ws_to_client_eq: "ws_to_client ref msg w = (b, w') \<Longrightarrow>
    wa_pending w' = wa_pending w \<and> wa_sse w' = wa_sse w \<and> wa_sessions w' = wa_sessions w"
  using ws_to_client_keeps [of ref msg w] by simp

lemma session_start_views [simp]:
  "req_view (handleInteractiveSessionStart cfg now rnd msg (c, w)) = req_view (c, w)"
  "sub_view (handleInteractiveSessionStart cfg now rnd msg (c, w)) = sub_view (c, w)"
  by (auto simp: handleInteractiveSessionStart_def Let_def views ws_send_def dest!: ws_to_client_eq
      split: prod.split option.split sum.split)

lemma input_views [simp]:
  "req_view (handleInteractiveInput cfg now msg (c, w)) = req_view (c, w)"
  "sub_view (handleInteractiveInput cfg now msg (c, w)) = sub_view (c, w)"
  by (simp_all add: handleInteractiveInput_def Let_def views ws_send_def split: prod.split option.split)

lemma session_end_views [simp]:
  "req_view (handleInteractiveSessionEnd cfg msg (c, w)) = req_view (c, w)"
  "sub_view (handleInteractiveSessionEnd cfg msg (c, w)) = sub_view (c, w)"
  by (simp_all add: handleInteractiveSessionEnd_def Let_def views split: prod.split option.split)

lemma forget_views [simp]:
  "sub_view (forget_request rid cw) = sub_view cw" "ses_view (forget_request rid cw) = ses_view cw"
  by (cases cw; simp add: forget_request_def views)+

lemma request_views [simp]:
  "sub_view (ws_request now rnd typ requestID msg (c, w)) = sub_view (c, w)"
  "ses_view (ws_request now rnd typ requestID msg (c, w)) = ses_view (c, w)"
  by (auto simp: ws_request_def Let_def views ws_send_def forget_request_def dest!: ws_to_client_eq
      split: prod.split option.split)

lemma goroutine_views [simp]:
  "sub_view (ws_reply cfg g resp c, take_response ch q rest w) = sub_view (c, w)"
  "ses_view (ws_reply cfg g resp c, take_response ch q rest w) = ses_view (c, w)"
  "sub_view (ws_timeout g (c, w)) = sub_view (c, w)" "ses_view (ws_timeout g (c, w)) = ses_view (c, w)"
  "sub_view (ws_abandon g (c, w)) = sub_view (c, w)" "ses_view (ws_abandon g (c, w)) = ses_view (c, w)"
  by (auto simp: ws_reply_def ws_timeout_def ws_abandon_def take_response_def Let_def views ws_send_def leave_slot_def
      forget_request_def split: prod.split option.split)

text \<open>A turn of the read loop is an answer or one of the handlers.\<close>

lemma ws_message_rule:
  assumes "\<And>m. P (ws_send m c, w)" and "\<And>msg. P (handleWSSubscribe cfg ref msg (c, w))" and "\<And>msg. P (handleWSUnsubscribe msg (c, w))"
    and "\<And>msg. P (handleInteractiveSessionStart cfg now rnd msg (c, w))" and "\<And>msg. P (handleInteractiveInput cfg now msg (c, w))"
    and "\<And>msg. P (handleInteractiveSessionEnd cfg msg (c, w))"
    and "\<And>typ requestID msg. P (ws_request now rnd typ requestID msg (c, w))"
  shows "P (handleClientWSMessage cfg now rnd ref msg (c, w))"
  using assms by (simp add: handleClientWSMessage_def Let_def)

lemma ws_read_rule:
  assumes "\<And>m d. P (ws_send m c, w\<lparr>wa_db := d\<rparr>)"
    and "\<And>msg d. P (handleWSSubscribe cfg ref msg (c, w\<lparr>wa_db := d\<rparr>))" and "\<And>msg d. P (handleWSUnsubscribe msg (c, w\<lparr>wa_db := d\<rparr>))"
    and "\<And>msg d. P (handleInteractiveSessionStart cfg now rnd msg (c, w\<lparr>wa_db := d\<rparr>))"
    and "\<And>msg d. P (handleInteractiveInput cfg now msg (c, w\<lparr>wa_db := d\<rparr>))"
    and "\<And>msg d. P (handleInteractiveSessionEnd cfg msg (c, w\<lparr>wa_db := d\<rparr>))"
    and "\<And>typ requestID msg d. P (ws_request now rnd typ requestID msg (c, w\<lparr>wa_db := d\<rparr>))"
  shows "P (ws_read cfg now rnd ref bytes (c, w))"
proof -
  have h: "P (handleClientWSMessage cfg now rnd ref msg (c, w\<lparr>wa_db := d\<rparr>))" for msg d
    by (rule ws_message_rule) (rule assms)+
  have "P (ws_send m c, w)" "P (handleClientWSMessage cfg now rnd ref msg (c, w))" for m msg
    using assms(1) [of m "wa_db w"] h [of msg "wa_db w"] by simp_all
  then show ?thesis using assms(1) h by (simp add: ws_read_def split: option.split prod.split)
qed

subsection \<open>Requests\<close>

text \<open>Each request has a channel of its own; one that is not in \<open>T\<close> is waited for, on an empty channel.\<close>

definition table_ok :: "pending_state \<Rightarrow> bool" where
  "table_ok p \<longleftrightarrow>
     (\<forall>rid req. aget (ps_requests p) rid = Some req \<longrightarrow>
        aget (ps_chans p) (pr_ResponseCh req) \<noteq> None \<and>
        (\<forall>rid' req'. aget (ps_requests p) rid' = Some req' \<longrightarrow> pr_ResponseCh req' = pr_ResponseCh req \<longrightarrow> rid' = rid))"

definition covered :: "string set \<Rightarrow> (string \<times> nat \<times> string) list \<Rightarrow> pending_state \<Rightarrow> bool" where
  "covered T ws p \<longleftrightarrow>
     (\<forall>rid req. aget (ps_requests p) rid = Some req \<longrightarrow> rid \<notin> T \<longrightarrow>
        (\<exists>typ. (rid, pr_ResponseCh req, typ) \<in> set ws) \<and>
        (\<exists>q. aget (ps_chans p) (pr_ResponseCh req) = Some q \<and> ch_buf q = []))"

definition req_inv :: "string set \<Rightarrow> pending_state \<times> (string \<times> nat \<times> string) list \<times> nat \<times> bool \<Rightarrow> bool" where
  "req_inv T v \<longleftrightarrow> (case v of (p, ws, n, dn) \<Rightarrow> table_ok p \<and> covered T ws p \<and> n = length ws \<and> n \<le> semaphore_slots)"

lemma table_ok_sub:
  assumes "table_ok p" and "\<And>rid req. aget (ps_requests p') rid = Some req \<Longrightarrow> aget (ps_requests p) rid = Some req"
    and "\<And>ch. aget (ps_chans p) ch \<noteq> None \<Longrightarrow> aget (ps_chans p') ch \<noteq> None"
  shows "table_ok p'"
  unfolding table_ok_def
proof (intro allI impI conjI)
  fix rid req assume r: "aget (ps_requests p') rid = Some req"
  show "aget (ps_chans p') (pr_ResponseCh req) \<noteq> None" using assms(1,3) assms(2) [OF r] by (simp add: table_ok_def)
  fix rid' req' assume "aget (ps_requests p') rid' = Some req'" "pr_ResponseCh req' = pr_ResponseCh req"
  then show "rid' = rid" using assms(1) assms(2) [OF r] assms(2) [of rid' req'] unfolding table_ok_def by blast
qed

lemma table_ok_known: "table_ok p \<Longrightarrow> aget (ps_requests p) rid = Some req \<Longrightarrow> aget (ps_chans p) (pr_ResponseCh req) \<noteq> None"
  by (simp add: table_ok_def)

lemma Delete_maps [simp]:
  "ps_requests (Pending.Delete rid p) = adel rid (ps_requests p)" "ps_chans (Pending.Delete rid p) = ps_chans p"
  by (simp_all add: Pending.Delete_def Let_def)

lemma table_ok_Delete [inv_intros]: "table_ok p \<Longrightarrow> table_ok (Pending.Delete rid p)"
  by (erule table_ok_sub) (auto simp: aget_adel split: if_splits)

lemma covered_Delete [inv_intros]: "covered T ws p \<Longrightarrow> covered T ws (Pending.Delete rid p)"
  by (auto simp: covered_def aget_adel)

lemma covered_gone: "covered T ws p \<Longrightarrow> covered T (remove1 (rid, ch, typ) ws) (Pending.Delete rid p)"
  by (fastforce simp: covered_def aget_adel in_set_remove1)

lemma folded_Delete: "table_ok p \<and> covered T ws p \<Longrightarrow> table_ok (fold Pending.Delete rids p) \<and> covered T ws (fold Pending.Delete rids p)"
  by (induction rids arbitrary: p) (simp_all add: table_ok_Delete covered_Delete)

lemma aget_fresh_chan: "aget (ps_chans p) (fresh_chan p) = None"
proof -
  have "ch \<le> foldr max ks 0" if "ch \<in> set ks" for ch :: nat and ks
    using that by (induction ks) (auto simp: le_max_iff_disj)
  then have "ch \<le> foldr max (akeys (ps_chans p)) 0" if "ch \<in> set (akeys (ps_chans p))" for ch
    using that by blast
  then show ?thesis using aget_keys [of "ps_chans p" "fresh_chan p"] by (fastforce simp: fresh_chan_def)
qed

lemma Store_maps [simp]:
  "ps_requests (Store rid req (new_chan ch p)) = aput rid req (ps_requests p)"
  "ps_chans (Store rid req (new_chan ch p)) = aput ch \<lparr>ch_cap = 1, ch_buf = []\<rparr> (ps_chans p)"
  by (simp_all add: Store_def new_chan_def Let_def)

lemma table_ok_Store:
  assumes "table_ok p" and "aget (ps_chans p) ch = None" and "pr_ResponseCh req = ch"
  shows "table_ok (Store rid req (new_chan ch p))"
proof -
  have new: "pr_ResponseCh r \<noteq> ch" if "aget (ps_requests p) i = Some r" for i r
    using table_ok_known [OF assms(1) that] assms(2) by metis
  have own: "i = j" if "aget (ps_requests p) i = Some r" "aget (ps_requests p) j = Some q" "pr_ResponseCh r = pr_ResponseCh q" for i j r q
    using assms(1) that unfolding table_ok_def by blast
  have known: "aget (ps_chans p) (pr_ResponseCh r) \<noteq> None" if "aget (ps_requests p) i = Some r" for i r
    using assms(1) that by (simp add: table_ok_def)
  show ?thesis
    unfolding table_ok_def Store_maps aget_aput
    using own known assms(3) by (auto split: if_splits; metis new)
qed

lemma covered_Store:
  assumes "table_ok p" and "covered T ws p" and "aget (ps_chans p) ch = None" and "pr_ResponseCh req = ch"
  shows "covered T (ws @ [(rid, ch, typ)]) (Store rid req (new_chan ch p))"
    and "covered T ws (Pending.Delete rid (Store rid req (new_chan ch p)))"
proof -
  have new: "pr_ResponseCh r \<noteq> ch" if "aget (ps_requests p) i = Some r" for i r
    using table_ok_known [OF assms(1) that] assms(3) by metis
  show "covered T (ws @ [(rid, ch, typ)]) (Store rid req (new_chan ch p))"
    using assms(2,4) new by (auto simp: covered_def aget_aput)
  show "covered T ws (Pending.Delete rid (Store rid req (new_chan ch p)))"
    using assms(2) new by (auto simp: covered_def aget_aput aget_adel)
qed

lemma offer_chans:
  "ps_chans (offer req resp p) = (case aget (ps_chans p) (pr_ResponseCh req) of None \<Rightarrow> ps_chans p
     | Some c \<Rightarrow> if length (ch_buf c) < ch_cap c then aput (pr_ResponseCh req) (c\<lparr>ch_buf := ch_buf c @ [resp]\<rparr>) (ps_chans p)
                else ps_chans p)"
  by (simp add: offer_def chan_try_send_def split: option.split)

lemma take_and_offer:
  assumes "table_ok p" and "covered T ws p" and "aget (ps_requests p) rid = Some req"
  shows "table_ok (offer req resp (p\<lparr>ps_requests := adel rid (ps_requests p)\<rparr>)) \<and>
    covered T ws (offer req resp (p\<lparr>ps_requests := adel rid (ps_requests p)\<rparr>))"
proof
  let ?p = "offer req resp (p\<lparr>ps_requests := adel rid (ps_requests p)\<rparr>)"
  show "table_ok ?p"
    by (rule table_ok_sub [OF assms(1)]) (auto simp: aget_adel offer_chans aget_aput split: if_splits option.splits)
  have other: "pr_ResponseCh r \<noteq> pr_ResponseCh req" if "aget (ps_requests p) i = Some r" "i \<noteq> rid" for i r
    using assms(1,3) that unfolding table_ok_def by metis
  have chans: "aget (ps_chans ?p) ch = aget (ps_chans p) ch" if "ch \<noteq> pr_ResponseCh req" for ch
    using that by (simp add: offer_chans aget_aput split: option.split)
  show "covered T ws ?p"
    unfolding covered_def
  proof (intro allI impI)
    fix i r assume "aget (ps_requests ?p) i = Some r" and T: "i \<notin> T"
    then have i: "aget (ps_requests p) i = Some r" "i \<noteq> rid" by (auto simp: aget_adel split: if_splits)
    then show "(\<exists>typ. (i, pr_ResponseCh r, typ) \<in> set ws) \<and>
        (\<exists>q. aget (ps_chans ?p) (pr_ResponseCh r) = Some q \<and> ch_buf q = [])"
      using assms(2) T chans [OF other [OF i]] by (auto simp: covered_def)
  qed
qed

lemma answered_inv:
  assumes "table_ok p" and "covered T ws p"
  shows "table_ok (Resolve rid st d p) \<and> covered T ws (Resolve rid st d p)"
    and "table_ok (ResolveRaw rid st raw p) \<and> covered T ws (ResolveRaw rid st raw p)"
  using assms take_and_offer [OF assms]
  by (auto simp: Resolve_def ResolveRaw_def Let_def split: option.split)

lemma reply_inv:
  assumes "table_ok p" and "covered T ws p" and "aget (ps_chans p) ch = Some q" and "ch_buf q = resp # rest"
  shows "table_ok (p\<lparr>ps_chans := aput ch (q\<lparr>ch_buf := rest\<rparr>) (ps_chans p)\<rparr>) \<and>
    covered T (remove1 (rid, ch, typ) ws) (p\<lparr>ps_chans := aput ch (q\<lparr>ch_buf := rest\<rparr>) (ps_chans p)\<rparr>)"
proof
  show "table_ok (p\<lparr>ps_chans := aput ch (q\<lparr>ch_buf := rest\<rparr>) (ps_chans p)\<rparr>)"
    by (rule table_ok_sub [OF assms(1)]) (auto simp: aget_aput)
  have "pr_ResponseCh r \<noteq> ch" if "aget (ps_requests p) i = Some r" "i \<notin> T" for i r
    using assms(2-4) that by (force simp: covered_def)
  then show "covered T (remove1 (rid, ch, typ) ws) (p\<lparr>ps_chans := aput ch (q\<lparr>ch_buf := rest\<rparr>) (ps_chans p)\<rparr>)"
    using assms(2) by (fastforce simp: covered_def aget_aput in_set_remove1)
qed

lemma ws_request_inv:
  assumes "req_inv T (req_view (c, w))"
  shows "req_inv T (req_view (ws_request now rnd typ requestID msg (c, w)))"
proof (cases "GetClient (wx_clientID c) (wa_manager w)")
  case None
  then show ?thesis using assms by (simp add: ws_request_def)
next
  case (Some ref)
  let ?id = "ws_internal_id typ now rnd" and ?ch = "fresh_chan (wa_pending w)"
  let ?req = "ws_pending_request now typ ?ch (wx_clientID c)"
  let ?p = "Store ?id ?req (new_chan ?ch (wa_pending w))"
  obtain b w2 where tc: "ws_to_client ref (ws_payload c typ ?id msg) (w\<lparr>wa_pending := ?p\<rparr>) = (b, w2)" by force
  have p2: "wa_pending w2 = ?p" using ws_to_client_eq [OF tc] by simp
  have inv: "table_ok (wa_pending w)" "covered T (wx_waiting c) (wa_pending w)" "wx_semaphore c = length (wx_waiting c)"
      "wx_semaphore c \<le> semaphore_slots"
    using assms by (simp_all add: req_inv_def req_view_def)
  have ch: "pr_ResponseCh ?req = ?ch" by (simp add: ws_pending_request_def)
  note st = table_ok_Store [OF inv(1) aget_fresh_chan ch] covered_Store [OF inv(1,2) aget_fresh_chan ch]
  show ?thesis
    unfolding ws_request_def Let_def prod.case Some option.case tc
    using inv(3,4) p2 st [of ?id] table_ok_Delete [OF st(1)]
    by (simp add: forget_request_def ws_send_def req_view_def req_inv_def)
qed

lemma leave_slot_fields [simp]:
  "wx_waiting (leave_slot g c) = remove1 g (wx_waiting c)" "wx_semaphore (leave_slot g c) = wx_semaphore c - 1"
  "wx_done (leave_slot g c) = wx_done c"
  by (simp_all add: leave_slot_def)

lemma ws_send_fields [simp]:
  "wx_waiting (ws_send m c) = wx_waiting c" "wx_semaphore (ws_send m c) = wx_semaphore c" "wx_done (ws_send m c) = wx_done c"
  by (simp_all add: ws_send_def)

lemma leave_inv:
  assumes "req_inv T (p, ws, n, dn)" and "g \<in> set ws" and "table_ok p'" and "covered T (remove1 g ws) p'"
  shows "req_inv T (p', remove1 g ws, n - 1, dn')"
  using assms by (auto simp: req_inv_def length_remove1)

lemma gone_inv:
  assumes "req_inv T (p, ws, n, dn)" and "(rid, ch, ty) \<in> set ws"
  shows "req_inv T (Pending.Delete rid p, remove1 (rid, ch, ty) ws, n - 1, dn)"
proof -
  have "table_ok p" "covered T ws p" using assms(1) by (simp_all add: req_inv_def)
  then show ?thesis by (intro leave_inv [OF assms] table_ok_Delete covered_gone)
qed

lemma end_sessions_keeps [simp]:
  "wa_pending (end_sessions ref sids w) = wa_pending w" "wa_sse (end_sessions ref sids w) = wa_sse w"
  "wa_sessions (end_sessions ref sids w) = wa_sessions w"
  by (induction sids arbitrary: w) simp_all

lemma ws_close_view:
  "req_view (ws_close cfg (c, w)) =
     (fold Pending.Delete (akeys (wx_pendingRequestIDs c)) (wa_pending w), wx_waiting c, wx_semaphore c, True)"
  "sub_view (ws_close cfg (c, w)) = (snd (snd (remove_subs (\<lambda>_. True) (wx_subscriptions c) (wa_sse w))), [], wx_clientID c, True)"
  "ses_view (ws_close cfg (c, w)) =
     (if wc_hasInteractive cfg then snd (TerminateSessionsForConsumer (wx_consumerID c) (wa_sessions w)) else wa_sessions w, wx_consumerID c, True)"
  by (simp_all add: ws_close_def cleanupClientWSState_def Let_def views split: prod.split option.split)

lemma api_step_req_inv:
  assumes "req_inv T (req_view s)" and "api_step cfg s t"
  shows "req_inv T (req_view t)"
  using assms(2,1)
proof (cases rule: api_step.cases)
  case (read c ref w now rnd bytes)
  have "req_inv T (req_view (c, w))" using assms(1) read(1) by simp
  then show ?thesis unfolding read(2)
    by (intro ws_read_rule [where P = "\<lambda>x. req_inv T (req_view x)"]) (simp_all add: ws_request_inv)
next
  case (answered c w rid st d)
  then show ?thesis using assms(1) answered_inv(1) [of "wa_pending w" T "wx_waiting c"] by (simp add: req_inv_def req_view_def)
next
  case (answered_raw c w rid st raw)
  then show ?thesis using assms(1) answered_inv(2) [of "wa_pending w" T "wx_waiting c"] by (simp add: req_inv_def req_view_def)
next
  case (reply rid ch ty c w q resp rest)
  have inv: "req_inv T (wa_pending w, wx_waiting c, wx_semaphore c, wx_done c)" using assms(1) reply(1) by (simp add: req_view_def)
  then have p: "table_ok (wa_pending w)" "covered T (wx_waiting c) (wa_pending w)" by (simp_all add: req_inv_def)
  have "req_view t = ((wa_pending w)\<lparr>ps_chans := aput ch (q\<lparr>ch_buf := rest\<rparr>) (ps_chans (wa_pending w))\<rparr>,
      remove1 (rid, ch, ty) (wx_waiting c), wx_semaphore c - 1, wx_done c)"
    using reply(2) by (auto simp: req_view_def ws_reply_def take_response_def Let_def split: option.split)
  then show ?thesis
    using leave_inv [OF inv reply(3) reply_inv [OF p reply(4,5), THEN conjunct1] reply_inv [OF p reply(4,5), THEN conjunct2]] by simp
next
  case (timeout g c w)
  obtain rid ch ty where g: "g = (rid, ch, ty)" by (cases g)
  have inv: "req_inv T (wa_pending w, wx_waiting c, wx_semaphore c, wx_done c)" using assms(1) timeout(1) by (simp add: req_view_def)
  have "req_view t = (Pending.Delete rid (wa_pending w), remove1 g (wx_waiting c), wx_semaphore c - 1, wx_done c)"
    using timeout(2) g by (simp add: req_view_def ws_timeout_def forget_request_def Let_def leave_slot_def)
  then show ?thesis
    using gone_inv [OF inv, of rid ch ty] timeout(3) g by simp
next
  case (abandon g c w)
  obtain rid ch ty where g: "g = (rid, ch, ty)" by (cases g)
  have inv: "req_inv T (wa_pending w, wx_waiting c, wx_semaphore c, wx_done c)" using assms(1) abandon(1) by (simp add: req_view_def)
  have "req_view t = (Pending.Delete rid (wa_pending w), remove1 g (wx_waiting c), wx_semaphore c - 1, wx_done c)"
    using abandon(2) g by (simp add: req_view_def ws_abandon_def Let_def leave_slot_def)
  then show ?thesis
    using gone_inv [OF inv, of rid ch ty] abandon(3) g by simp
next
  case (closed c w)
  then show ?thesis using assms(1) folded_Delete [of "wa_pending w" T "wx_waiting c" "akeys (wx_pendingRequestIDs c)"] by (simp add: ws_close_view req_inv_def req_view_def [of "(c, w)"])
qed

subsection \<open>Subscriptions\<close>

text \<open>Apart from the subscriptions in \<open>R\<close>, those of the module on this channel are the connection's own.\<close>

definition sub_inv :: "nat set \<Rightarrow> sse_manager \<times> sse_conn list \<times> string \<times> bool \<Rightarrow> bool" where
  "sub_inv R v \<longleftrightarrow>
     (case v of (sse, subs, cid, dn) \<Rightarrow>
        sse_ok sse \<and> distinct (map sc_ref (conns_of TWS cid sse)) \<and> set subs \<subseteq> set (conns_of TWS cid sse) \<and>
        (\<forall>sub \<in> set subs. sc_ClientID sub = cid) \<and>
        (\<forall>x \<in> set (conns_of TWS cid sse). sc_ref x \<in> R \<or> x \<in> set subs) \<and> (dn \<longrightarrow> subs = []))"

lemma remove_subs_spec:
  assumes "sse_ok sse" and "distinct (map sc_ref (conns_of TWS cid sse))" and "\<forall>sub \<in> set subs. sc_ClientID sub = cid"
    and "remove_subs P subs sse = (remaining, n, sse')"
  shows "remaining = filter (\<lambda>x. \<not> P x) subs \<and> n = length (filter P subs) \<and> sse_ok sse' \<and>
    conns_of TWS cid sse' = filter (\<lambda>x. sc_ref x \<notin> sc_ref ` set (filter P subs)) (conns_of TWS cid sse)"
  using assms
proof (induction P subs sse arbitrary: remaining n sse' rule: remove_subs.induct)
  case (1 P sse)
  then show ?case by simp
next
  case (2 P sub rest sse)
  have cid: "sc_ClientID sub = cid" using "2.prems"(3) by simp
  show ?case
  proof (cases "P sub")
    case True
    obtain rem k sse1 where r: "remove_subs P rest (RemoveWSEvent sub sse) = (rem, k, sse1)" by (metis prod_cases3)
    have "distinct (map sc_ref (conns_of TWS (sc_ClientID sub) sse))" using "2.prems"(2) cid by simp
    note rm = unsubscribe_removes [OF "2.prems"(1) this, of "sc_Channel sub"]
    have ok: "sse_ok (RemoveWSEvent sub sse)"
      and cs: "conns_of TWS cid (RemoveWSEvent sub sse) = filter (\<lambda>c. sc_ref c \<noteq> sc_ref sub) (conns_of TWS cid sse)"
      using rm cid by (simp_all add: RemoveWSEvent_def)
    have d: "distinct (map sc_ref (conns_of TWS cid (RemoveWSEvent sub sse)))"
      using "2.prems"(2) by (simp add: cs distinct_map_filter)
    have "\<forall>s \<in> set rest. sc_ClientID s = cid" using "2.prems"(3) by simp
    note ih = "2.IH"(1) [OF True ok d this r]
    have out: "remaining = rem" "n = k + 1" "sse' = sse1" using "2.prems"(4) True r by simp_all
    show ?thesis using ih True by (simp add: out cs conj_commute)
  next
    case False
    obtain rem k sse1 where r: "remove_subs P rest sse = (rem, k, sse1)" by (metis prod_cases3)
    have "\<forall>s \<in> set rest. sc_ClientID s = cid" using "2.prems"(3) by simp
    note ih = "2.IH"(2) [OF False "2.prems"(1,2) this r]
    then show ?thesis using "2.prems"(4) False r by auto
  qed
qed

lemma remove_subs_inv:
  assumes "sub_inv R (sse, subs, cid, dn)" and "remove_subs P subs sse = (remaining, n, sse')"
  shows "sub_inv R (sse', remaining, cid, dn)" and "(\<And>x. P x) \<Longrightarrow> sub_inv R (sse', [], cid, True)"
proof -
  have inv: "sse_ok sse" "distinct (map sc_ref (conns_of TWS cid sse))" "set subs \<subseteq> set (conns_of TWS cid sse)"
      "\<forall>sub \<in> set subs. sc_ClientID sub = cid" "\<forall>x \<in> set (conns_of TWS cid sse). sc_ref x \<in> R \<or> x \<in> set subs" "dn \<longrightarrow> subs = []"
    using assms(1) by (simp_all add: sub_inv_def)
  note rs = remove_subs_spec [OF inv(1,2,4) assms(2)]
  have inj: "x = y" if "x \<in> set (conns_of TWS cid sse)" "y \<in> set (conns_of TWS cid sse)" "sc_ref x = sc_ref y" for x y
    using inv(2) that by (auto simp: distinct_map inj_on_def)
  have gone: "x \<in> set (conns_of TWS cid sse') \<longleftrightarrow> x \<in> set (conns_of TWS cid sse) \<and> \<not> (x \<in> set subs \<and> P x)" for x
  proof (cases "x \<in> set (conns_of TWS cid sse)")
    case True
    have "sc_ref x \<in> sc_ref ` set (filter P subs) \<longleftrightarrow> x \<in> set subs \<and> P x"
      using inj [OF True] inv(3) by (auto simp: image_iff subset_iff)
    then show ?thesis using rs True by simp
  qed (use rs in simp)
  have d: "distinct (map sc_ref (conns_of TWS cid sse'))" using rs inv(2) by (simp add: distinct_map_filter)
  show "sub_inv R (sse', remaining, cid, dn)"
    using rs inv(3-6) d gone by (auto simp: sub_inv_def)
  show "sub_inv R (sse', [], cid, True)" if "\<And>x. P x"
    using rs inv(3-6) d gone that by (auto simp: sub_inv_def)
qed

lemma subscribe_inv:
  assumes "sub_inv R (sub_view (c, w))" and "\<not> wx_done c" and "api_fresh ref c w"
  shows "sub_inv R (sub_view (handleWSSubscribe cfg ref msg (c, w)))"
proof -
  let ?cid = "wx_clientID c"
  have inv: "sse_ok (wa_sse w)" "distinct (map sc_ref (conns_of TWS ?cid (wa_sse w)))"
      "set (wx_subscriptions c) \<subseteq> set (conns_of TWS ?cid (wa_sse w))" "\<forall>sub \<in> set (wx_subscriptions c). sc_ClientID sub = ?cid"
      "\<forall>x \<in> set (conns_of TWS ?cid (wa_sse w)). sc_ref x \<in> R \<or> x \<in> set (wx_subscriptions c)"
    using assms(1) by (simp_all add: sub_inv_def sub_view_def)
  define channel where "channel = get_str msg ''channel''"
  define conn where "conn = \<lparr>sc_ref = ref, sc_ClientID = ?cid, sc_Channel = channel\<rparr>"
  have fields: "sc_ref conn = ref" "sc_ClientID conn = ?cid" "sc_Channel conn = channel" by (simp_all add: conn_def)
  obtain b sse where add: "sse_add TWS channel conn (wa_sse w) = (b, sse)" by force
  have res: "AddWSEventFunc ref ?cid channel (wa_sse w) = (if b then Some conn else None, sse)"
    using add by (simp add: AddWSEventFunc_def AddWSEvent_def fields conn_def [symmetric])
  have refused: "sse = wa_sse w" if "\<not> b" using add that by (auto simp: sse_add_def Let_def split: if_splits prod.splits)
  have "sub_inv R (sse, wx_subscriptions c @ [conn], ?cid, False)" if b
  proof -
    have "sse_add TWS channel conn (wa_sse w) = (True, sse)" using add that by simp
    note ap = subscribe_appends [OF inv(1) this, unfolded fields]
    then show ?thesis using inv assms(3) by (auto simp: sub_inv_def api_fresh_def fields)
  qed
  then show ?thesis
    using assms(1,2) refused res
    by (auto simp: handleWSSubscribe_def channel_def [symmetric] Let_def sub_view_def ws_send_def)
qed

lemma unsubscribe_inv:
  assumes "sub_inv R (sub_view (c, w))"
  shows "sub_inv R (sub_view (handleWSUnsubscribe msg (c, w)))"
proof -
  let ?P = "\<lambda>sub. get_str msg ''channel'' = [] \<or> sc_Channel sub = get_str msg ''channel''"
  obtain rem n sse where rs: "remove_subs ?P (wx_subscriptions c) (wa_sse w) = (rem, n, sse)" by (metis prod_cases3)
  have "sub_inv R (wa_sse w, wx_subscriptions c, wx_clientID c, wx_done c)" using assms by (simp add: sub_view_def)
  then have "sub_inv R (sse, rem, wx_clientID c, wx_done c)" by (rule remove_subs_inv(1) [OF _ rs])
  then show ?thesis using rs by (simp add: handleWSUnsubscribe_def Let_def sub_view_def ws_send_def)
qed

lemma fresh_db [simp]: "api_fresh ref c (w\<lparr>wa_db := d\<rparr>) = api_fresh ref c w"
  by (simp add: api_fresh_def)

lemma api_step_sub_inv:
  assumes "sub_inv R (sub_view s)" and "api_step cfg s t"
  shows "sub_inv R (sub_view t)"
  using assms(2,1)
proof (cases rule: api_step.cases)
  case (read c ref w now rnd bytes)
  have inv: "sub_inv R (sub_view (c, w))" using assms(1) read(1) by simp
  show ?thesis unfolding read(2)
    by (rule ws_read_rule [where P = "\<lambda>x. sub_inv R (sub_view x)"])
      (simp_all add: inv read(3,4) subscribe_inv unsubscribe_inv)
next
  case (closed c w)
  obtain rem n sse where rs: "remove_subs (\<lambda>_. True) (wx_subscriptions c) (wa_sse w) = (rem, n, sse)" by (metis prod_cases3)
  have "sub_inv R (wa_sse w, wx_subscriptions c, wx_clientID c, wx_done c)" using assms(1) closed(1) by (simp add: sub_view_def)
  then show ?thesis using remove_subs_inv(2) [OF _ rs] closed(2) rs by (simp add: ws_close_view)
qed simp_all

subsection \<open>Sessions\<close>

definition ses_inv :: "session_manager \<times> string \<times> bool \<Rightarrow> bool" where
  "ses_inv v \<longleftrightarrow>
     (case v of (ss, consumer, dn) \<Rightarrow>
        wf_map (sm_sessions ss) \<and>
        (dn \<longrightarrow> (\<forall>sid s. aget (sm_sessions ss) sid = Some s \<longrightarrow> is_ConsumerID s = consumer \<longrightarrow> is_State s = SClosed)))"

lemma session_ops_wf [simp]:
  "wf_map (sm_sessions ss) \<Longrightarrow> wf_map (sm_sessions (snd (EndSession sid ss)))"
  "wf_map (sm_sessions ss) \<Longrightarrow> wf_map (sm_sessions (UpdateActivity now sid ss))"
  "wf_map (sm_sessions ss) \<Longrightarrow> CreateSession now r cid k co cn md ss = Inr (sid, ss') \<Longrightarrow> wf_map (sm_sessions ss')"
  by (auto simp: EndSession_def UpdateActivity_def CreateSession_def Let_def split: option.split if_splits)

lemma session_start_inv:
  assumes "wf_map (sm_sessions (wa_sessions w))" and "\<not> wx_done c"
  shows "ses_inv (ses_view (handleInteractiveSessionStart cfg now rnd msg (c, w)))"
proof -
  let ?md = "\<lparr>im_UUID = get_str msg ''uuid'', im_Quality = num_or msg ''quality'' (wc_float cfg ''0.9''), im_Scale = num_or msg ''scale'' (JNum 1)\<rparr>"
  have same: "ses_inv (ses_view (c, w))" using assms by (simp add: ses_view_def ses_inv_def)
  show ?thesis
  proof (cases "wc_hasInteractive cfg \<and> GetClient (wx_clientID c) (wa_manager w) \<noteq> None")
    case False
    then show ?thesis using same by (auto simp: handleInteractiveSessionStart_def)
  next
    case True
    then obtain ref where ref: "GetClient (wx_clientID c) (wa_manager w) = Some ref" by blast
    show ?thesis
    proof (cases "CreateSession now (randomStr rnd) (wx_clientID c) (wx_apiKey c) (wx_consumerID c) (wx_conn c) ?md (wa_sessions w)")
      case (Inl e)
      then show ?thesis using same True ref by (simp add: handleInteractiveSessionStart_def Let_def)
    next
      case (Inr x)
      obtain sid ss where x: "x = (sid, ss)" by (cases x)
      have wf: "wf_map (sm_sessions ss)" using session_ops_wf(3) [OF assms(1)] Inr x by blast
      show ?thesis
        using True ref Inr x wf assms(2)
        by (simp add: handleInteractiveSessionStart_def Let_def ses_view_def ses_inv_def ws_send_def case_prod_unfold)
    qed
  qed
qed

lemma input_inv:
  assumes "wf_map (sm_sessions (wa_sessions w))" and "\<not> wx_done c"
  shows "ses_inv (ses_view (handleInteractiveInput cfg now msg (c, w)))"
  using assms by (simp add: handleInteractiveInput_def Let_def ses_view_def ses_inv_def split: option.split)

lemma session_end_inv:
  assumes "wf_map (sm_sessions (wa_sessions w))" and "\<not> wx_done c"
  shows "ses_inv (ses_view (handleInteractiveSessionEnd cfg msg (c, w)))"
  using assms by (simp add: handleInteractiveSessionEnd_def Let_def ses_view_def ses_inv_def split: option.split)

lemma terminated_inv:
  assumes "wf_map (sm_sessions ss)"
  shows "ses_inv (snd (TerminateSessionsForConsumer consumer ss), consumer, True)"
proof -
  have "sm_sessions (snd (TerminateSessionsForConsumer consumer ss)) =
      filter (\<lambda>kv. \<not> (is_ConsumerID (snd kv) = consumer \<and> is_State (snd kv) \<noteq> SClosed)) (sm_sessions ss)"
    by (simp add: TerminateSessionsForConsumer_def close_loop_wf [OF assms])
  then show ?thesis using assms by (auto simp: ses_inv_def dest!: aget_in_set)
qed

lemma api_step_ses_inv:
  assumes "ses_inv (ses_view s)" and "wc_hasInteractive cfg" and "api_step cfg s t"
  shows "ses_inv (ses_view t)"
  using assms(3,1)
proof (cases rule: api_step.cases)
  case (read c ref w now rnd bytes)
  have inv: "ses_inv (ses_view (c, w))" using assms(1) read(1) by simp
  then have wf: "wf_map (sm_sessions (wa_sessions w))" by (simp add: ses_inv_def ses_view_def)
  show ?thesis unfolding read(2)
    by (rule ws_read_rule [where P = "\<lambda>x. ses_inv (ses_view x)"])
      (simp_all add: inv wf read(3) session_start_inv input_inv session_end_inv)
next
  case (closed c w)
  then have "wf_map (sm_sessions (wa_sessions w))" using assms(1) by (simp add: ses_inv_def ses_view_def)
  then show ?thesis using closed(2) assms(2) terminated_inv by (simp add: ws_close_view)
qed simp_all

subsection \<open>What a connection leaves, and how much it holds\<close>

lemma start_views:
  "req_view (startClientWSPumps conn rnd token r, w) = (wa_pending w, [], 0, False)"
  "sub_view (startClientWSPumps conn rnd token r, w) = (wa_sse w, [], rs_clientID r, False)"
  "ses_view (startClientWSPumps conn rnd token r, w) = (wa_sessions w, randomStr rnd, False)"
  by (simp_all add: views startClientWSPumps_def ws_send_def)

definition table_keys :: "'h api_world \<Rightarrow> string set" where
  "table_keys w = set (akeys (ps_requests (wa_pending w)))"

definition ws_refs :: "string \<Rightarrow> 'h api_world \<Rightarrow> nat set" where
  "ws_refs cid w = sc_ref ` set (conns_of TWS cid (wa_sse w))"

definition world_ok :: "string \<Rightarrow> 'h api_world \<Rightarrow> bool" where
  "world_ok cid w \<longleftrightarrow> table_ok (wa_pending w) \<and> sse_ok (wa_sse w) \<and> distinct (map sc_ref (conns_of TWS cid (wa_sse w))) \<and>
     wf_map (sm_sessions (wa_sessions w))"

lemma run_req_inv:
  assumes "api_run cfg (startClientWSPumps conn rnd token r, w0) s" and "world_ok (rs_clientID r) w0"
  shows "req_inv (table_keys w0) (req_view s)"
  using assms(1)
proof (rule api_run_inv)
  show "req_inv (table_keys w0) (req_view (startClientWSPumps conn rnd token r, w0))"
    using assms(2) by (auto simp: start_views req_inv_def world_ok_def covered_def table_keys_def dest!: aget_in_set intro: rev_image_eqI)
qed (rule api_step_req_inv)

lemma run_sub_inv:
  assumes "api_run cfg (startClientWSPumps conn rnd token r, w0) s" and "world_ok (rs_clientID r) w0"
  shows "sub_inv (ws_refs (rs_clientID r) w0) (sub_view s)"
  using assms(1)
proof (rule api_run_inv)
  show "sub_inv (ws_refs (rs_clientID r) w0) (sub_view (startClientWSPumps conn rnd token r, w0))"
    using assms(2) by (simp add: start_views sub_inv_def world_ok_def ws_refs_def)
qed (rule api_step_sub_inv)

lemma run_ses_inv:
  assumes "api_run cfg (startClientWSPumps conn rnd token r, w0) s" and "world_ok (rs_clientID r) w0" and "wc_hasInteractive cfg"
  shows "ses_inv (ses_view s)"
  using assms(1)
proof (rule api_run_inv)
  show "ses_inv (ses_view (startClientWSPumps conn rnd token r, w0))"
    using assms(2) by (simp add: start_views ses_inv_def world_ok_def)
qed (rule api_step_ses_inv [OF _ assms(3)])

text \<open>Neither the module nor the consumer identity changes during a run.\<close>

definition names :: "clientWSState \<times> 'h api_world \<Rightarrow> string \<times> string" where
  "names cw = (wx_clientID (fst cw), wx_consumerID (fst cw))"

lemma names_of_views: "sub_view s = sub_view t \<Longrightarrow> ses_view s = ses_view t \<Longrightarrow> names s = names t"
  by (simp add: names_def views)

lemma names_handlers [simp]:
  "names (ws_send m c, w) = names (c, w)" "names (c, w\<lparr>wa_db := d\<rparr>) = names (c, w)"
  "names (handleWSSubscribe cfg ref msg (c, w)) = names (c, w)" "names (handleWSUnsubscribe msg (c, w)) = names (c, w)"
  "names (handleInteractiveSessionStart cfg now rnd msg (c, w)) = names (c, w)"
  "names (handleInteractiveInput cfg now msg (c, w)) = names (c, w)"
  "names (handleInteractiveSessionEnd cfg msg (c, w)) = names (c, w)"
  by (auto simp: names_def ws_send_def handleWSSubscribe_def handleWSUnsubscribe_def handleInteractiveSessionStart_def
      handleInteractiveInput_def handleInteractiveSessionEnd_def Let_def split: prod.split option.split sum.split)

lemma names_step:
  assumes "api_step cfg s t"
  shows "names t = names s"
  using assms
proof (cases rule: api_step.cases)
  case (read c ref w now rnd bytes)
  have "names (ws_request now rnd ty requestID msg (c, w\<lparr>wa_db := d\<rparr>)) = names (c, w)" for ty requestID msg d
    using names_of_views [of "ws_request now rnd ty requestID msg (c, w\<lparr>wa_db := d\<rparr>)" "(c, w)"] by simp
  then show ?thesis unfolding read(1,2) by (intro ws_read_rule [where P = "\<lambda>x. names x = names (c, w)"]) simp_all
next
  case (closed c w)
  then show ?thesis using ws_close_view [of cfg c w] by (simp add: names_def views split: if_splits)
qed (rule names_of_views; simp)+

lemma run_names:
  assumes "api_run cfg (startClientWSPumps conn rnd token r, w0) (c, w)"
  shows "wx_clientID c = rs_clientID r \<and> wx_consumerID c = randomStr rnd"
proof -
  let ?P = "\<lambda>s. wx_clientID (fst s) = rs_clientID r \<and> wx_consumerID (fst s) = randomStr rnd"
  have "?P (c, w)"
  proof (rule api_run_inv [OF assms])
    show "?P (startClientWSPumps conn rnd token r, w0)" by (simp add: startClientWSPumps_def ws_send_def)
    fix t u :: "clientWSState \<times> 'a api_world" assume "?P t" "api_step cfg t u"
    then show "?P u" using names_step [of cfg t u] by (simp add: names_def)
  qed
  then show ?thesis by simp
qed

text \<open>C23: However a connection of the WebSocket API was used, and in whatever order its goroutines ended: once it is
  closed and they are gone, the table of pending requests holds no request that was not there before it, the module
  has no event subscription that was not there before it, and no interactive session of the connection is open.\<close>

theorem ws_leaves_nothing:
  assumes "api_run cfg (startClientWSPumps conn rnd token r, w0) (c, w)" and "world_ok (rs_clientID r) w0"
    and "wc_hasInteractive cfg" and "wx_done c" and "wx_waiting c = []"
  shows "table_keys w \<subseteq> table_keys w0 \<and> ws_refs (rs_clientID r) w \<subseteq> ws_refs (rs_clientID r) w0 \<and>
    (\<forall>sid s. aget (sm_sessions (wa_sessions w)) sid = Some s \<longrightarrow> is_ConsumerID s = wx_consumerID c \<longrightarrow> is_State s = SClosed)"
proof (intro conjI)
  have "covered (table_keys w0) [] (wa_pending w)"
    using run_req_inv [OF assms(1,2)] assms(5) by (simp add: req_view_def req_inv_def)
  then show "table_keys w \<subseteq> table_keys w0"
    using aget_keys [of "ps_requests (wa_pending w)"] by (auto simp: covered_def table_keys_def subset_iff)
  show "ws_refs (rs_clientID r) w \<subseteq> ws_refs (rs_clientID r) w0"
    using run_sub_inv [OF assms(1,2)] run_names [OF assms(1)] assms(4) by (auto simp: sub_view_def sub_inv_def ws_refs_def)
  show "\<forall>sid s. aget (sm_sessions (wa_sessions w)) sid = Some s \<longrightarrow> is_ConsumerID s = wx_consumerID c \<longrightarrow> is_State s = SClosed"
    using run_ses_inv [OF assms(1,2,3)] assms(4) by (simp add: ses_view_def ses_inv_def)
qed

text \<open>At any moment of any run, a connection of the WebSocket API has at most a hundred goroutines waiting, the
  semaphore counts them exactly, and at most a hundred requests of the table are its own.\<close>

theorem ws_inflight_bounded:
  assumes "api_run cfg (startClientWSPumps conn rnd token r, w0) (c, w)" and "world_ok (rs_clientID r) w0"
  shows "wx_semaphore c = length (wx_waiting c) \<and> length (wx_waiting c) \<le> 100 \<and> card (table_keys w - table_keys w0) \<le> 100"
proof -
  have inv: "covered (table_keys w0) (wx_waiting c) (wa_pending w)" "wx_semaphore c = length (wx_waiting c)"
      "wx_semaphore c \<le> 100"
    using run_req_inv [OF assms] by (simp_all add: req_view_def req_inv_def semaphore_slots_def)
  have "table_keys w - table_keys w0 \<subseteq> fst ` set (wx_waiting c)"
  proof
    fix rid assume rid: "rid \<in> table_keys w - table_keys w0"
    then obtain req where "aget (ps_requests (wa_pending w)) rid = Some req"
      using aget_keys [of "ps_requests (wa_pending w)" rid] by (auto simp: table_keys_def)
    then obtain ty where "(rid, pr_ResponseCh req, ty) \<in> set (wx_waiting c)" using inv(1) rid unfolding covered_def by blast
    then show "rid \<in> fst ` set (wx_waiting c)" by (rule rev_image_eqI) simp
  qed
  then have "card (table_keys w - table_keys w0) \<le> card (fst ` set (wx_waiting c))" by (intro card_mono) simp_all
  also have "\<dots> \<le> length (wx_waiting c)" by (metis card_image_le card_length finite_set order_trans)
  finally show ?thesis using inv by simp
qed

text \<open>A closed connection can always finish: each goroutine sees the closed channel.\<close>

lemma ws_drains:
  assumes "wx_done c"
  shows "\<exists>c' w'. api_run cfg (c, w) (c', w') \<and> wx_done c' \<and> wx_waiting c' = []"
  using assms
proof (induction "length (wx_waiting c)" arbitrary: c w)
  case 0
  then show ?case by (intro exI [of _ c] exI [of _ w]) (simp add: run_start)
next
  case (Suc n)
  then obtain g where g: "g \<in> set (wx_waiting c)" by (cases "wx_waiting c") auto
  obtain c1 w1 where st: "ws_abandon g (c, w) = (c1, w1)" by force
  have c1: "wx_waiting c1 = remove1 g (wx_waiting c)" "wx_done c1" using st Suc.prems by (auto simp: ws_abandon_def)
  have "n = length (wx_waiting c1)" using Suc.hyps(2) g c1 by (simp add: length_remove1)
  from Suc.hyps(1) [OF this c1(2)] obtain c' w' where r: "api_run cfg (c1, w1) (c', w')" "wx_done c'" "wx_waiting c' = []" by blast
  have "api_run cfg (c, w) (c1, w1)" by (rule run_step [OF run_start]) (use abandon [OF g Suc.prems, of cfg w] st in simp)
  then have "api_run cfg (c, w) (c', w')" by (rule api_run_trans [OF r(1)])
  then show ?case using r by blast
qed

subsection \<open>Whom a connection speaks for\<close>

lemma bind_foundry_sound:
  assumes "bind_foundry cfg key uid cid m = (Inr cid', m')"
  shows "(\<exists>ref. GetClient cid' m' = Some ref \<and> cl_apiKey (mg_heap m' ! ref) = key) \<and> (cid' = cid \<or> wc_AutoStart cfg \<noteq> None)"
  using assms
  by (auto simp: bind_foundry_def auto_start_def Let_def split: option.splits prod.splits if_splits)

text \<open>C24: A connection that is accepted on the WebSocket API was opened with a token or key that was validated, from an
  address its allow-list admits, and talks to a connected module that is registered under that credential's account;
  a key bound to one world reaches that world, unless the automatic start answers with another module.\<close>

theorem ws_api_bound:
  assumes "HandleClientAPIConnection cfg now conn rnd r w = (Ret (AAccepted c), w')"
  shows "\<exists>ips v d ref. clientAPIValidateToken cfg now (wx_apiKey c) (wa_db w) =
        (Some (wx_masterAPIKey c, ips, wx_scopedUserID c, v), d) \<and>
      (ips = [] \<or> isIPAllowed (rq_RemoteAddr r) ips) \<and>
      GetClient (wx_clientID c) (wa_manager w') = Some ref \<and> cl_apiKey (mg_heap (wa_manager w') ! ref) = wx_masterAPIKey c \<and>
      (av_ScopedClientID v \<noteq> [] \<longrightarrow> wx_clientID c = av_ScopedClientID v \<or> wc_AutoStart cfg \<noteq> None)"
proof -
  obtain token cid x where res: "clientAPIResolveAndValidate cfg now token cid w = (Ret (Inr x), w')"
    and ip: "rs_allowedIPs x = [] \<or> isIPAllowed (rq_RemoteAddr r) (rs_allowedIPs x)" and c: "c = startClientWSPumps conn rnd token x"
    using assms
    by (auto simp: HandleClientAPIConnection_def Let_def split: if_splits option.splits prod.splits go.splits sum.splits)
  obtain key ips uid v d where val: "clientAPIValidateToken cfg now token (wa_db w) = (Some (key, ips, uid, v), d)"
    using res by (auto simp: clientAPIResolveAndValidate_def split: option.splits prod.splits)
  let ?cid0 = "if av_ScopedClientID v \<noteq> [] then av_ScopedClientID v else cid"
  obtain y m1 where y: "(if ?cid0 = [] then auto_resolve cfg key v (wa_manager w) else (Ret (Inr ?cid0), wa_manager w)) = (y, m1)" by force
  obtain cid1 cid2 m2 where b: "y = Ret (Inr cid1)" "bind_foundry cfg key uid cid1 m1 = (Inr cid2, m2)" "w' = w\<lparr>wa_db := d, wa_manager := m2\<rparr>"
      "x = \<lparr>rs_matchKey = key, rs_allowedIPs = ips, rs_clientID = cid2, rs_scopedUserID = uid, rs_userID = av_UserID v\<rparr>"
    using res val y by (auto simp: clientAPIResolveAndValidate_def Let_def split: go.splits sum.splits prod.splits)
  have "cid1 = av_ScopedClientID v" if "av_ScopedClientID v \<noteq> []" using that y b(1) by simp
  then show ?thesis
    using bind_foundry_sound [OF b(2)] val ip b(3,4) c by (auto simp: startClientWSPumps_def ws_send_def)
qed

subsection \<open>What is not checked\<close>

text \<open>The validation of a key for this API does not read its scopes nor its list of worlds: with any others the
answer is the same, and no later step consults them.\<close>

definition same_but_scopes :: "(ApiKey \<Rightarrow> ApiKey) \<Rightarrow> bool" where
  "same_but_scopes f \<longleftrightarrow> (\<exists>g h. \<forall>k. f k = k\<lparr>ak_Scopes := g k, ak_ScopedClientIDs := h k\<rparr>)"

lemma find_mapped: "(\<And>k. P (f k) = P k) \<Longrightarrow> find P (map f ks) = map_option f (find P ks)"
  by (induction ks) auto

lemma same_but_scopes_fields:
  assumes "same_but_scopes f"
  shows "ak_KeyHash (f k) = ak_KeyHash k" "ak_Key (f k) = ak_Key k" "ak_Enabled (f k) = ak_Enabled k"
    "IsExpired now (f k) = IsExpired now k" "ak_UserID (f k) = ak_UserID k" "ak_ScopedClientID (f k) = ak_ScopedClientID k"
    "ak_ScopedUserID (f k) = ak_ScopedUserID k"
  using assms by (auto simp: same_but_scopes_def IsExpired_def)

lemma ws_api_ignores_scopes:
  assumes "same_but_scopes f"
  shows "fst (MakeWSValidateAPIKey sha now token (d\<lparr>db_keys := map f (db_keys d)\<rparr>)) = fst (MakeWSValidateAPIKey sha now token d)"
proof -
  note fl = same_but_scopes_fields [OF assms]
  let ?d = "d\<lparr>db_keys := map f (db_keys d)\<rparr>"
  let ?by = "\<lambda>stmt P d. get_row stmt P (db_keys d) d"
  have rows: "?by stmt (\<lambda>k. ak_KeyHash k = h) ?d = (case ?by stmt (\<lambda>k. ak_KeyHash k = h) d of DBErr \<Rightarrow> DBErr | DBOk r \<Rightarrow> DBOk (map_option f r))"
      "?by stmt (\<lambda>k. ak_Key k = h) ?d = (case ?by stmt (\<lambda>k. ak_Key k = h) d of DBErr \<Rightarrow> DBErr | DBOk r \<Rightarrow> DBOk (map_option f r))" for stmt h
    by (simp_all add: get_row_def db_ok_def find_mapped fl)
  have users: "us_FindByAPIKey sha token ?d = us_FindByAPIKey sha token d" "us_FindByID i ?d = us_FindByID i d"
      "us_FindByID i (snd (exec stmt (\<lambda>d. d\<lparr>db_keys := ks d\<rparr>) e)) = us_FindByID i e" for i stmt ks and e :: db
    by (simp_all add: us_FindByAPIKey_def us_FindByAPIKeyHash_def us_FindByID_def get_row_def db_ok_def exec_def)
  let ?first = "?by ''ak_FindByKey'' (\<lambda>k. ak_KeyHash k = HashAPIKey sha token)"
  let ?second = "?by ''ak_FindByKey.plaintext'' (\<lambda>k. ak_Key k = token)"
  have key: "ak_FindByKey sha token d = (case ?first d of DBErr \<Rightarrow> (DBErr, d) | DBOk (Some k) \<Rightarrow> (DBOk (Some k), d)
       | DBOk None \<Rightarrow> (case ?second d of DBErr \<Rightarrow> (DBErr, d) | DBOk None \<Rightarrow> (DBOk None, d)
           | DBOk (Some k) \<Rightarrow> (DBOk (Some (k\<lparr>ak_KeyHash := HashAPIKey sha token\<rparr>)),
               snd (exec ''ak_FindByKey.backfill'' (\<lambda>d. d\<lparr>db_keys := update_rows (\<lambda>r. ak_ID r = ak_ID k)
                 (\<lambda>r. r\<lparr>ak_KeyHash := HashAPIKey sha token\<rparr>) (db_keys d)\<rparr>) d))))" for d
    by (simp add: ak_FindByKey_def Let_def)
  consider (bad) "?first d = DBErr" | (hash) k where "?first d = DBOk (Some k)"
    | (none) "?first d = DBOk None" "?second d \<in> {DBErr, DBOk None}" | (plain) k where "?first d = DBOk None" "?second d = DBOk (Some k)"
    by (cases "?first d"; cases "?second d") auto
  then show ?thesis
  proof cases
    case bad
    then show ?thesis using rows users by (simp add: MakeWSValidateAPIKey_def ValidateAPIKeyDetailed_def key split: option.split db_result.split)
  next
    case (hash k)
    then show ?thesis using rows users fl by (simp add: MakeWSValidateAPIKey_def ValidateAPIKeyDetailed_def key split: option.split db_result.split)
  next
    case none
    then show ?thesis using rows users by (auto simp: MakeWSValidateAPIKey_def ValidateAPIKeyDetailed_def key split: option.split db_result.split)
  next
    case (plain k)
    then show ?thesis using rows users fl
      by (simp add: MakeWSValidateAPIKey_def ValidateAPIKeyDetailed_def key IsExpired_def split: option.split db_result.split)
  qed
qed

text \<open>A request of this API keeps no format and sets no callback, so the handlers of files and screenshots decode
the file and answer with headers and bytes, of which only the headers are passed on.\<close>

lemma ws_download_loses_bytes:
  assumes "Data resp = Some d" and "RawData resp = Some bytes"
  shows "wx_out (ws_reply cfg (rid, ch, ty) resp c) = wx_out c @
    [JObj (aput ''clientId'' (JStr (wx_clientID c)) (aput ''requestId'' (JStr (client_req_id rid c))
       (aput ''type'' (JStr (ty @ ''-result'')) d)))]"
  using assms by (simp add: ws_reply_def response_data_def ws_send_def leave_slot_def)

text \<open>Ending a session asks neither whose connection it is nor which account's.\<close>

lemma ws_ends_foreign_session:
  assumes "wc_hasInteractive cfg" and "get_str msg ''sessionId'' = sid"
  shows "GetSession sid (wa_sessions (snd (handleInteractiveSessionEnd cfg msg (c, w)))) = None"
  using assms
  by (auto simp: handleInteractiveSessionEnd_def GetSession_def EndSession_def Let_def aget_adel split: option.split)

subsection \<open>Examples\<close>

definition ex_api_cfg :: "unit api_cfg" where
  "ex_api_cfg = \<lparr>wc_ValidateAPIKey = None,
     wc_ValidateConnectionToken = Some (\<lambda>now d tok. if tok = ''tok'' then (Some (''key'', [], ''laptop'', 1), d) else (None, d)),
     wc_TrackUsage = None, wc_AutoStart = None, wc_hasSSE = True, wc_hasInteractive = True, wc_float = JStr,
     wc_decode = (\<lambda>b. if b = ''auth'' then Some [(''type'', JStr ''auth''), (''token'', JStr ''tok''), (''clientId'', JStr ''fvtt_1'')]
        else Some [(''type'', JStr ''structure''), (''requestId'', JStr ''r1'')])\<rparr>"

definition ex_api_world :: "unit api_world" where
  "ex_api_world = \<lparr>wa_manager = ex_manager False ''i1'', wa_pending = NewPendingRequests, wa_sse = NewSSEManager,
     wa_sessions = NewInteractiveSessionManager 3, wa_db = empty_db\<rparr>"

definition ex_resolved :: resolved where
  "ex_resolved = \<lparr>rs_matchKey = ''key'', rs_allowedIPs = [], rs_clientID = ''fvtt_1'', rs_scopedUserID = [], rs_userID = 0\<rparr>"

definition ex_api_start :: clientWSState where
  "ex_api_start = startClientWSPumps 1 [1, 2] ''tok'' ex_resolved"

lemma ex_api_world_ok: "world_ok (rs_clientID ex_resolved) ex_api_world"
proof -
  have "tab t NewSSEManager = []" for t by (cases t) (simp_all add: NewSSEManager_def)
  then show ?thesis
    by (simp add: world_ok_def ex_api_world_def table_ok_def NewPendingRequests_def sse_ok_def conns_of_def
        NewInteractiveSessionManager_def Let_def)
qed

lemma ex_api_request:
  "\<exists>rid ch. wx_waiting (fst (ws_read ex_api_cfg 5 [3] 1 ''x'' (ex_api_start, ex_api_world))) = [(rid, ch, ''structure'')] \<and>
    \<not> wx_done (fst (ws_read ex_api_cfg 5 [3] 1 ''x'' (ex_api_start, ex_api_world)))"
proof -
  have "''structure'' \<in> set PendingRequestTypes" by (simp add: PendingRequestTypes_def)
  then show ?thesis
    using ex_target
    by (simp add: ws_read_def ex_api_cfg_def handleClientWSMessage_def get_str_def ws_request_def ex_api_start_def startClientWSPumps_def
        ex_resolved_def ws_send_def ex_api_world_def ws_to_client_def send_to_def Send_def enqueue_def semaphore_slots_def Let_def)
qed

lemma ex_api_finished:
  "\<exists>c w. api_run ex_api_cfg (startClientWSPumps 1 [1, 2] ''tok'' ex_resolved, ex_api_world) (c, w) \<and> wx_done c \<and> wx_waiting c = []"
proof -
  obtain c1 w1 where r1: "ws_read ex_api_cfg 5 [3] 1 ''x'' (ex_api_start, ex_api_world) = (c1, w1)" by force
  then have open1: "\<not> wx_done c1" using ex_api_request by simp
  have start: "\<not> wx_done ex_api_start" "api_fresh 1 ex_api_start ex_api_world"
    by (simp_all add: ex_api_start_def startClientWSPumps_def ws_send_def api_fresh_def ex_api_world_def conns_of_def NewSSEManager_def)
  have "api_step ex_api_cfg (ex_api_start, ex_api_world) (c1, w1)" using read [OF start, of ex_api_cfg 5 "[3]" "''x''"] r1 by simp
  then have run1: "api_run ex_api_cfg (ex_api_start, ex_api_world) (c1, w1)" by (rule run_step [OF run_start])
  obtain c2 w2 where r2: "ws_close ex_api_cfg (c1, w1) = (c2, w2)" by force
  then have done2: "wx_done c2" using ws_close_view(1) [of ex_api_cfg c1 w1] by (simp add: req_view_def)
  have run2: "api_run ex_api_cfg (ex_api_start, ex_api_world) (c2, w2)"
    using run_step [OF run1 closed [OF open1, of ex_api_cfg w1]] r2 by simp
  obtain c w where f: "api_run ex_api_cfg (c2, w2) (c, w)" "wx_done c" "wx_waiting c = []" using ws_drains [OF done2] by blast
  show ?thesis using api_run_trans [OF f(1) run2] f(2,3) unfolding ex_api_start_def by blast
qed

lemma ws_leaves_nothing_witness:
  "\<exists>c w. api_run ex_api_cfg (startClientWSPumps 1 [1, 2] ''tok'' ex_resolved, ex_api_world) (c, w) \<and> wx_done c \<and>
    table_keys w \<subseteq> table_keys ex_api_world"
proof -
  obtain c w where r: "api_run ex_api_cfg (startClientWSPumps 1 [1, 2] ''tok'' ex_resolved, ex_api_world) (c, w)" "wx_done c" "wx_waiting c = []"
    using ex_api_finished by blast
  have "wc_hasInteractive ex_api_cfg" by (simp add: ex_api_cfg_def)
  from ws_leaves_nothing [OF r(1) ex_api_world_ok this r(2,3)] r show ?thesis by blast
qed

lemma ws_inflight_bounded_witness:
  "\<exists>c w. api_run ex_api_cfg (startClientWSPumps 1 [1, 2] ''tok'' ex_resolved, ex_api_world) (c, w) \<and> wx_semaphore c = 1 \<and>
    card (table_keys w - table_keys ex_api_world) \<le> 100"
proof -
  obtain c w where rd: "ws_read ex_api_cfg 5 [3] 1 ''x'' (ex_api_start, ex_api_world) = (c, w)" by force
  have start: "\<not> wx_done ex_api_start" "api_fresh 1 ex_api_start ex_api_world"
    by (simp_all add: ex_api_start_def startClientWSPumps_def ws_send_def api_fresh_def ex_api_world_def conns_of_def NewSSEManager_def)
  have "api_step ex_api_cfg (ex_api_start, ex_api_world) (c, w)" using read [OF start, of ex_api_cfg 5 "[3]" "''x''"] rd by simp
  then have run: "api_run ex_api_cfg (startClientWSPumps 1 [1, 2] ''tok'' ex_resolved, ex_api_world) (c, w)"
    using run_step [OF run_start] unfolding ex_api_start_def by blast
  have "length (wx_waiting c) = 1" using ex_api_request rd by auto
  then show ?thesis using ws_inflight_bounded [OF run ex_api_world_ok] run by (intro exI [of _ c] exI [of _ w]) simp
qed

lemma ws_api_bound_witness:
  "\<exists>c w ref. HandleClientAPIConnection ex_api_cfg 5 1 [1, 2] (RelayProto.ex_request\<lparr>rq_first := Some ''auth''\<rparr>) ex_api_world = (Ret (AAccepted c), w) \<and>
    GetClient (wx_clientID c) (wa_manager w) = Some ref \<and> cl_apiKey (mg_heap (wa_manager w) ! ref) = wx_masterAPIKey c"
proof -
  have "bind_foundry ex_api_cfg ''key'' [] ''fvtt_1'' (ex_manager False ''i1'') = (Inr ''fvtt_1'', ex_manager False ''i1'')"
    using ex_target by (simp add: bind_foundry_def)
  then obtain c w where r: "HandleClientAPIConnection ex_api_cfg 5 1 [1, 2] (RelayProto.ex_request\<lparr>rq_first := Some ''auth''\<rparr>) ex_api_world = (Ret (AAccepted c), w)"
    by (simp add: HandleClientAPIConnection_def RelayProto.ex_request_def api_auth_msg_def str_field_def clientAPIResolveAndValidate_def
        clientAPIValidateToken_def ex_api_cfg_def ex_api_world_def invalid_key_def Let_def)
  show ?thesis using ws_api_bound [OF r] r by blast
qed

end
