(* ===== verification/Spec2Isabelle.thy ===== *)
theory Spec2Isabelle
  imports EndpointRules DirectRoutes Stripe Encryption AdminRoutes NotifyRoutes SessionRoutes Scheduler Reconcile ServerEvents Fanout Forward Scopes Delivery RelayProto Rolling KnownWorlds ApiKeyRoutes ClientAPIInv
begin

text \<open>
  A verification library for the relay server of \<open>src/go-relay\<close>, which stands between HTTP clients and
  the Foundry VTT modules that keep a WebSocket open to it.

  \<^bold>\<open>The program.\<close>  A module pairs with an account (\<open>internal/handler/pair_request.go\<close>,
  \<open>connection_tokens.go\<close>), receives a connection token and opens the relay socket
  (\<open>internal/ws/relay.go\<close>); the registry of \<open>internal/ws/manager.go\<close> then holds it under its identifier and
  groups it by its account's key hash.  An HTTP request passes the rate limiters and the
  authentication (\<open>internal/middleware\<close>), is turned into a message for one module by the route
  pipeline (\<open>internal/handler/helpers/route.go\<close>) and waits in the table of pending requests
  (\<open>internal/ws/pending.go\<close>) for the message handlers (\<open>internal/ws/message_handlers.go\<close>) to bring the
  module's answer.  Modules call each other through the cross-world tunnel
  (\<open>internal/ws/remote_request.go\<close>), subscribers receive events (\<open>internal/handler/helpers/sse.go\<close>) and viewing
  sessions are kept in \<open>internal/ws/interactive_sessions.go\<close>.  Accounts, keys, tokens, worlds and
  requests for keys are rows of a database (\<open>internal/model\<close>).

  \<^bold>\<open>Theories and the code they model.\<close>
  \<^item> \<open>Prelude\<close>: maps as association lists without repeated keys, the used part of \<open>strings\<close> and \<open>strconv\<close>,
    JSON, channels and panics (\<open>Panic\<close> and \<open>Ret\<close>).
  \<^item> \<open>Scopes\<close>, \<open>Permissions\<close>: \<open>model/scopes.go\<close> and who may do what (\<open>known_client.go\<close>,
    \<open>connection_token.go\<close>, \<open>api_key.go\<close>, \<open>ScopedKeyInfo\<close>, \<open>RequireScope\<close>).
  \<^item> \<open>NetAddr\<close>: Go's address parsing as far as the two IP allowlists use it, and the allowlists.
  \<^item> \<open>Pending\<close>, \<open>Delivery\<close>: the table of pending requests, sequentially and as a step relation over the
    critical sections of concurrent goroutines and the separate load, delete and send of the handlers of bytes.
  \<^item> \<open>Client\<close>, \<open>Manager\<close>, \<open>ManagerInv\<close>: one connection with its write goroutine and the close frames that
    \<open>closeClients\<close> writes past it, the registry with a heap of
    client cells, and the invariant of every registry that can be reached.
  \<^item> \<open>Quota\<close>, \<open>Interactive\<close>, \<open>SSE\<close>: the contract of a table with a limit per key as a locale, and its two
    implementations; the slices of \<open>SSE\<close> are views of shared arrays, so removals are seen by readers.
  \<^item> \<open>Base64\<close>, \<open>MessageHandlers\<close>, \<open>RelayProto\<close>: decoding of file contents, the handlers of a module's
    messages, the byte scanner, the handshake and the read loop of a connection.
  \<^item> \<open>RemoteRequest\<close>: the tunnel between the worlds of an account.
  \<^item> \<open>Rolling\<close>, \<open>Limits\<close>: request statistics; rate limiters, admin lockout, alerts, request counter.
  \<^item> \<open>Accounts\<close>, \<open>Tables\<close>: the stores.  A table is a list of rows in insertion order, a statement is a list
    operation, and \<open>db_fails\<close> names the statements that fail, so that every error branch is a case.
  \<^item> \<open>Auth\<close>: session and key authentication with its cache, usage tracking, and the validation of
    connection tokens behind the relay socket.
  \<^item> \<open>Pairing\<close>, \<open>KnownWorlds\<close>, \<open>KeyRequests\<close>: the routes that pair a world, edit and remove worlds and
    credentials, and give an application an API key.
  \<^item> \<open>Route\<close>, \<open>Endpoints\<close>, \<open>EndpointRules\<close>, \<open>DirectRoutes\<close>: the extraction of parameters and \<open>CreateAPIRoute\<close>, what
    each REST endpoint declares for it with the table of methods, paths and scopes (\<open>entity.go\<close>, \<open>dnd5e.go\<close>,
    \<open>playlist.go\<close>, \<open>user.go\<close>, \<open>routes.go\<close>), what every message they send keeps to, and the uploads, screenshots and
    the list of clients, which go to a module without it.
  \<^item> \<open>AccountRoutes\<close>, \<open>ApiKeyRoutes\<close>, \<open>Encryption\<close>, \<open>Stripe\<close>: registration, login, passwords, rotation and deletion of
    accounts, the routes of scoped keys (\<open>handler/auth.go\<close>), the encryption of stored passwords, and the payment
    provider's events (\<open>handler/stripe.go\<close>).
  \<^item> \<open>ClientAPI\<close>, \<open>ClientAPIInv\<close>: the WebSocket API for clients (\<open>ws/client_api.go\<close>) and the invariant of its
    connections.
  \<^item> \<open>Rows\<close>, \<open>Logs\<close>, \<open>Settings\<close>, \<open>Scheduler\<close>: the tables of logs and settings, the activity feed, and the work of
    the cron scheduler.
  \<^item> \<open>Notify\<close>, \<open>NotifyRoutes\<close>: the dispatcher of notifications with its debounce window, the batcher of cross-world
    requests, and the routes of the settings.
  \<^item> \<open>Reconcile\<close>, \<open>ServerEvents\<close>, \<open>Fanout\<close>, \<open>Forward\<close>: the server's pass over the online column, its callbacks for
    connections and module events, the delivery of events to subscribers, and the forwarding of requests between
    instances through Redis.
  \<^item> \<open>Headless\<close>, \<open>SessionRoutes\<close>: the tables of headless sessions with their launches, cooldowns and automatic
    starts (\<open>worker/headless.go\<close>), and the routes that start and end sessions (\<open>handler/session.go\<close>).
  \<^item> \<open>Admin\<close>, \<open>AdminRoutes\<close>: the administrators' login with its signed cookie and revocation list, and the admin
    routes with the audit log.

  Every operation of the code is a function of the same name on an explicit state; the branches keep
  the order of the code's early returns, and its messages, with the typographic dash written as a
  hyphen.  Log lines, and headers that no branch reads, are left out.

  \<^bold>\<open>What the lemmas show.\<close>  Invariants: under every interleaving a channel that no handler of bytes has loaded carries at
  most one response and loses none, and the others lose one only to another response; the registry is consistent, a closed WebSocket client leaves nothing behind, every cross-world request is in one summary,
  one launch per world, every change by an administrator is in the audit log.  Safety: a module is registered
  only with a valid token; the tunnel, the key authentication and every endpoint let through only what the
  tables and scopes grant; a bound key stays within its worlds, also in uploads, screenshots and events; after
  a pairing code has been exchanged, only exchanges that had read it before can still succeed; a grant stays within its request; rotation, logout and disabling an account lock out;
  a session starts for its handshake only.  Exactness: lockout, statistics, allowlists, reconciliation.
  Equivalence and refinement: the byte scanner and the parser, \<open>Resolve\<close> and the step relation, the order of payment
  events.  Round trips: file downloads and stored passwords.  Types: the parameters that reach a module.
  Termination and liveness: forwarding between instances ends after one hop, unless routing entries conflict; a
  read loop ends with its client unregistered, or with a panic that takes a message filling its buffer.
  Some lemmas instead record where the code departs from its comments.

  \<^bold>\<open>Bounds.\<close>  Loops are structural or have a measure.  \<open>nat_text_digits\<close> prints with fuel 20, which is enough for 64
  bits.  Identifiers, counts and times (nanoseconds) are unbounded integers: none of the modelled code
  depends on their overflow.  Addresses are \<open>8 word\<close> lists.

  \<^bold>\<open>Parameters.\<close>  Hash functions and ciphers, random values, the clock, URL, number and time parsers, JSON text
  of values that only pass through, the token bucket of \<open>x/time/rate\<close>, Redis' answers, the payment provider and
  the browser with its page scripts are arguments of the definitions that use them.

  \<^bold>\<open>Simplifications.\<close>  An HTTP handler is one step, and a theorem about it speaks of handlers that run one after
  another: \<open>acct_reset\<close> reads its token in the same step that uses it, where the code reads it before the transaction,
  and \<open>ws_request\<close> stores, takes a slot and sends at once, where \<open>client_api.go\<close> does so one after the other; the
  exchange of pairing codes is also given as interleaved steps.  A read loop is given the finite list of the messages
  that arrive before a read fails.  Keys of objects are compared exactly, where the decoding of Go into a struct
  also takes another case.  Numbers in messages are integers.

  \<^bold>\<open>Not modelled.\<close>  SQL text and the schema (\<open>database/db.go\<close>), the sending of mail and
  webhooks, reading the configuration, static files, the wiring of routers and tickers, Prometheus, the documentation
  generator and the test runner do input and output only.
\<close>

end
